(* ===== verification/Prelude.thy ===== *)
theory Prelude
  imports Complex_Main "HOL-Library.Char_ord" "HOL-Library.List_Lexorder"
begin

text \<open>
  Shared vocabulary of the development: the Python values that the code keeps in its
  dictionaries (\<open>pyval\<close>), insertion-ordered dictionaries (\<open>doc\<close>) with their get/set
  laws, the string operations the sources call, the exceptions they raise, and a small
  state-and-exception monad.  An operation that raises keeps the effects it had before the
  raise, as a Python method does.

  Conventions: a Python \<open>float\<close> is the rational it denotes; IEEE rounding of
  arithmetic on it is not modelled.  A Python \<open>str\<close> is a list of characters (Latin-1 range).
  Exceptions are modelled by class, without their message text.
\<close>

section \<open>Collections of facts\<close>

named_theorems op_simps \<open>unfolding rules of the monadic operations\<close>
named_theorems doc_simps \<open>get/set laws of dictionaries\<close>
named_theorems enum_simps \<open>value strings of the enumerations\<close>

section \<open>Values\<close>

datatype pyval =
    VNone
  | VBool bool
  | VInt int
  | VFloat rat
  | VStr string
  | VList "pyval list"
  | VDict "(string \<times> pyval) list"

type_synonym doc = "(string \<times> pyval) list"
type_synonym time = rat

datatype error =
    ValueError | KeyError | TypeError | RuntimeError | FileNotFoundError
  | IllegalTransition | CrossTenantAccess | ApprovalError | ToolError
  | InsufficientEvidence | TriggerError | FileExistsError | AttributeError | OSError
  | SalesError | IntegrityError | OperationalError | ConnectorError | SecretError | EncryptionUnavailable
  | SandboxError | MigrationError | TemplateError | PermissionError | AssertionError | UnicodeError | IndexError | ZeroDivisionError | OverflowError
  | RegexError | RecursionError

text \<open>\<open>d.get(k)\<close>, \<open>d[k] = v\<close> and \<open>d.pop(k, None)\<close> on an insertion-ordered dictionary.\<close>

fun dget :: "(string \<times> 'v) list \<Rightarrow> string \<Rightarrow> 'v option" where
  "dget [] k = None"
| "dget ((k', v) # d) k = (if k' = k then Some v else dget d k)"

fun dset :: "(string \<times> 'v) list \<Rightarrow> string \<Rightarrow> 'v \<Rightarrow> (string \<times> 'v) list" where
  "dset [] k v = [(k, v)]"
| "dset ((k', v') # d) k v = (if k' = k then (k, v) # d else (k', v') # dset d k v)"

fun dpop :: "(string \<times> 'v) list \<Rightarrow> string \<Rightarrow> (string \<times> 'v) list" where
  "dpop [] k = []"
| "dpop ((k', v') # d) k = (if k' = k then d else (k', v') # dpop d k)"

definition dkeys :: "(string \<times> 'v) list \<Rightarrow> string list" where
  "dkeys d = map fst d"

definition dvalues :: "(string \<times> 'v) list \<Rightarrow> 'v list" where
  "dvalues d = map snd d"

lemma dget_dset [simp, doc_simps]:
  "dget (dset d k v) k' = (if k = k' then Some v else dget d k')"
  by (induction d) auto

lemma dget_dset_fun: "dget (dset d k v) = (dget d)(k := Some v)"
  by (rule ext) simp

lemma dkeys_Nil [simp]: "dkeys [] = []"
  by (simp add: dkeys_def)

lemma dkeys_Cons [simp]: "dkeys ((k, v) # d) = k # dkeys d"
  by (simp add: dkeys_def)

lemma dkeys_dset: "set (dkeys (dset d k v)) = insert k (set (dkeys d))"
  by (induction d k v rule: dset.induct) auto

lemma distinct_dkeys_dset: "distinct (dkeys d) \<Longrightarrow> distinct (dkeys (dset d k v))"
  by (induction d k v rule: dset.induct) (auto simp: dkeys_dset)

lemma dset_snoc: "k \<notin> set (dkeys d) \<Longrightarrow> dset d k v = d @ [(k, v)]"
  by (induction d) auto

lemma dget_None_iff: "dget d k = None \<longleftrightarrow> k \<notin> set (dkeys d)"
  by (induction d k rule: dget.induct) auto

lemma dget_SomeD: "dget d k = Some v \<Longrightarrow> (k, v) \<in> set d"
  by (induction d) (auto split: if_splits)

lemma dget_Some_iff: "distinct (dkeys d) \<Longrightarrow> dget d k = Some v \<longleftrightarrow> (k, v) \<in> set d"
  by (induction d k rule: dget.induct) (auto simp: dkeys_def image_iff dest: dget_SomeD)

lemma dget_append: "dget (d @ e) k = (case dget d k of None \<Rightarrow> dget e k | Some v \<Rightarrow> Some v)"
  by (induction d) auto

lemma dget_dpop: "distinct (dkeys d) \<Longrightarrow> dget (dpop d k) k' = (if k = k' then None else dget d k')"
  by (induction d k rule: dpop.induct) (auto simp: dget_None_iff)

text \<open>Typed reads with the default a \<open>.get(k, default)\<close> call gives.\<close>

definition get_str :: "doc \<Rightarrow> string \<Rightarrow> string" where
  "get_str d k = (case dget d k of Some (VStr s) \<Rightarrow> s | _ \<Rightarrow> [])"

definition get_int :: "doc \<Rightarrow> string \<Rightarrow> int \<Rightarrow> int" where
  "get_int d k dflt = (case dget d k of Some (VInt i) \<Rightarrow> i | _ \<Rightarrow> dflt)"

definition get_bool :: "doc \<Rightarrow> string \<Rightarrow> bool" where
  "get_bool d k = (case dget d k of Some (VBool b) \<Rightarrow> b | _ \<Rightarrow> False)"

definition get_list :: "doc \<Rightarrow> string \<Rightarrow> pyval list" where
  "get_list d k = (case dget d k of Some (VList xs) \<Rightarrow> xs | _ \<Rightarrow> [])"

definition get_dict :: "doc \<Rightarrow> string \<Rightarrow> doc" where
  "get_dict d k = (case dget d k of Some (VDict e) \<Rightarrow> e | _ \<Rightarrow> [])"

definition get_num :: "doc \<Rightarrow> string \<Rightarrow> rat" where
  "get_num d k = (case dget d k of Some (VFloat r) \<Rightarrow> r | Some (VInt i) \<Rightarrow> of_int i | _ \<Rightarrow> 0)"

fun val_str :: "pyval \<Rightarrow> string" where
  "val_str (VStr s) = s"
| "val_str _ = []"

fun val_doc :: "pyval \<Rightarrow> doc" where
  "val_doc (VDict d) = d"
| "val_doc _ = []"

lemma get_str_dset [simp, doc_simps]:
  "get_str (dset d k v) k' = (if k = k' then val_str v else get_str d k')"
  by (cases v) (auto simp: get_str_def)

lemma get_int_dset [simp, doc_simps]:
  "get_int (dset d k (VInt i)) k' z = (if k = k' then i else get_int d k' z)"
  by (simp add: get_int_def)

lemma get_list_dset [simp, doc_simps]:
  "get_list (dset d k (VList xs)) k' = (if k = k' then xs else get_list d k')"
  by (simp add: get_list_def)

lemma get_int_dset_other [simp, doc_simps]:
  "k \<noteq> k' \<Longrightarrow> get_int (dset d k v) k' z = get_int d k' z"
  by (simp add: get_int_def)

lemma get_list_dset_other [simp, doc_simps]:
  "k \<noteq> k' \<Longrightarrow> get_list (dset d k v) k' = get_list d k'"
  by (simp add: get_list_def)

text \<open>Python truth of a value.\<close>

fun truthy :: "pyval \<Rightarrow> bool" where
  "truthy VNone = False"
| "truthy (VBool b) = b"
| "truthy (VInt i) = (i \<noteq> 0)"
| "truthy (VFloat r) = (r \<noteq> 0)"
| "truthy (VStr s) = (s \<noteq> [])"
| "truthy (VList xs) = (xs \<noteq> [])"
| "truthy (VDict d) = (d \<noteq> [])"

definition get_truthy :: "doc \<Rightarrow> string \<Rightarrow> bool" where
  "get_truthy d k = (case dget d k of None \<Rightarrow> False | Some v \<Rightarrow> truthy v)"

section \<open>Strings\<close>

text \<open>\<open>lower\<close> on Latin-1: the capital letters are \<open>A-Z\<close> and \<open>0xC0-0xDE\<close> but for the multiplication sign.
  \<open>ascii_lower\<close> is the folding of SQL's \<open>LIKE\<close>.\<close>

definition ascii_lower :: "char \<Rightarrow> char" where
  "ascii_lower c = (let n = (of_char c :: nat) in
     if 65 \<le> n \<and> n \<le> 90 then char_of (n + 32) else c)"

definition lower_char :: "char \<Rightarrow> char" where
  "lower_char c = (let n = (of_char c :: nat) in
     if 65 \<le> n \<and> n \<le> 90 \<or> 192 \<le> n \<and> n \<le> 222 \<and> n \<noteq> 215 then char_of (n + 32) else c)"

definition upper_char :: "char \<Rightarrow> char" where
  "upper_char c = (let n = (of_char c :: nat) in
     if 97 \<le> n \<and> n \<le> 122 then char_of (n - 32) else c)"

definition str_lower :: "string \<Rightarrow> string" where
  "str_lower s = map lower_char s"

definition str_upper :: "string \<Rightarrow> string" where
  "str_upper s = map upper_char s"

fun starts_with :: "'a list \<Rightarrow> 'a list \<Rightarrow> bool" where
  "starts_with s [] = True"
| "starts_with [] (p # ps) = False"
| "starts_with (c # s) (p # ps) = (c = p \<and> starts_with s ps)"

definition ends_with :: "'a list \<Rightarrow> 'a list \<Rightarrow> bool" where
  "ends_with s p = starts_with (rev s) (rev p)"

fun contains :: "'a list \<Rightarrow> 'a list \<Rightarrow> bool" where
  "contains [] p = (p = [])"
| "contains (c # s) p = (starts_with (c # s) p \<or> contains s p)"

definition is_space :: "char \<Rightarrow> bool" where
  "is_space c = (c \<in> {CHR '' '', CHR 0x09, CHR 0x0A, CHR 0x0B, CHR 0x0C, CHR 0x0D})"

definition str_lstrip :: "string \<Rightarrow> string" where
  "str_lstrip s = dropWhile is_space s"

definition str_strip :: "string \<Rightarrow> string" where
  "str_strip s = rev (dropWhile is_space (rev (dropWhile is_space s)))"

text \<open>\<open>s.split(c)\<close> for a one-character separator.\<close>

fun split_on :: "'a \<Rightarrow> 'a list \<Rightarrow> 'a list list" where
  "split_on c [] = [[]]"
| "split_on c (x # xs) =
     (if x = c then [] # split_on c xs
      else case split_on c xs of [] \<Rightarrow> [[x]] | w # ws \<Rightarrow> (x # w) # ws)"

text \<open>\<open>s.split()\<close>: maximal runs of non-space characters.\<close>

fun words_acc :: "string \<Rightarrow> string \<Rightarrow> string list" where
  "words_acc w [] = (if w = [] then [] else [rev w])"
| "words_acc w (c # cs) =
     (if is_space c then (if w = [] then words_acc [] cs else rev w # words_acc [] cs)
      else words_acc (c # w) cs)"

definition str_words :: "string \<Rightarrow> string list" where
  "str_words s = words_acc [] s"

lemma starts_with_append: "starts_with s p \<longleftrightarrow> (\<exists>t. s = p @ t)"
  by (induction s p rule: starts_with.induct) auto

lemma split_on_nonempty [simp]: "split_on c xs \<noteq> []"
  by (induction xs) (auto split: list.splits)

lemma split_on_append: "split_on c (a @ c # b) = split_on c a @ split_on c b"
proof (induction a)
  case (Cons x a)
  then show ?case using split_on_nonempty [of c a] by (auto split: list.split)
qed simp

lemma split_on_no_sep: "c \<notin> set xs \<Longrightarrow> split_on c xs = [xs]"
  by (induction xs) auto

section \<open>Numbers in decimal\<close>

fun nat_str :: "nat \<Rightarrow> string" where
  "nat_str n = (if n < 10 then [char_of (48 + n)] else nat_str (n div 10) @ [char_of (48 + n mod 10)])"

declare nat_str.simps [simp del]

definition int_str :: "int \<Rightarrow> string" where
  "int_str i = (if i < 0 then CHR ''-'' # nat_str (nat (- i)) else nat_str (nat i))"

section \<open>Operations with state and exceptions\<close>

type_synonym ('s, 'a) op = "'s \<Rightarrow> (error + 'a) \<times> 's"

definition op_return :: "'a \<Rightarrow> ('s, 'a) op" where
  "op_return x = (\<lambda>s. (Inr x, s))"

definition op_raise :: "error \<Rightarrow> ('s, 'a) op" where
  "op_raise e = (\<lambda>s. (Inl e, s))"

definition op_bind :: "('s, 'a) op \<Rightarrow> ('a \<Rightarrow> ('s, 'b) op) \<Rightarrow> ('s, 'b) op" where
  "op_bind m f = (\<lambda>s. case m s of (Inl e, s') \<Rightarrow> (Inl e, s') | (Inr x, s') \<Rightarrow> f x s')"

definition op_then :: "('s, 'a) op \<Rightarrow> ('s, 'b) op \<Rightarrow> ('s, 'b) op" where
  "op_then m n = op_bind m (\<lambda>_. n)"

definition op_gets :: "('s \<Rightarrow> 'a) \<Rightarrow> ('s, 'a) op" where
  "op_gets f = (\<lambda>s. (Inr (f s), s))"

definition op_modify :: "('s \<Rightarrow> 's) \<Rightarrow> ('s, unit) op" where
  "op_modify f = (\<lambda>s. (Inr (), f s))"

definition op_lift :: "error + 'a \<Rightarrow> ('s, 'a) op" where
  "op_lift r = (\<lambda>s. (r, s))"

fun op_mapM :: "('a \<Rightarrow> ('s, 'b) op) \<Rightarrow> 'a list \<Rightarrow> ('s, 'b list) op" where
  "op_mapM f [] = op_return []"
| "op_mapM f (x # xs) = op_bind (f x) (\<lambda>y. op_bind (op_mapM f xs) (\<lambda>ys. op_return (y # ys)))"

lemma op_return_apply [simp, op_simps]: "op_return x s = (Inr x, s)"
  by (simp add: op_return_def)

lemma op_raise_apply [simp, op_simps]: "op_raise e s = (Inl e, s)"
  by (simp add: op_raise_def)

lemma op_gets_apply [simp, op_simps]: "op_gets f s = (Inr (f s), s)"
  by (simp add: op_gets_def)

lemma op_modify_apply [simp, op_simps]: "op_modify f s = (Inr (), f s)"
  by (simp add: op_modify_def)

lemma op_lift_apply [simp, op_simps]: "op_lift r s = (r, s)"
  by (simp add: op_lift_def)

lemma op_bind_apply [op_simps]:
  "op_bind m f s = (case m s of (Inl e, s') \<Rightarrow> (Inl e, s') | (Inr x, s') \<Rightarrow> f x s')"
  by (simp add: op_bind_def)

lemma op_then_apply [op_simps]:
  "op_then m n s = (case m s of (Inl e, s') \<Rightarrow> (Inl e, s') | (Inr x, s') \<Rightarrow> n s')"
  by (simp add: op_then_def op_bind_def)

lemma op_bind_return [simp]: "op_bind (op_return x) f = f x"
  by (simp add: op_bind_def)

lemma op_bind_raise [simp]: "op_bind (op_raise e) f = op_raise e"
  by (simp add: op_bind_def op_raise_def fun_eq_iff)

lemma op_return_right [simp]: "op_bind m op_return = m"
  by (auto simp: op_bind_def fun_eq_iff split: prod.splits sum.splits)

lemma op_bind_assoc: "op_bind (op_bind m f) g = op_bind m (\<lambda>x. op_bind (f x) g)"
  by (auto simp: op_bind_def fun_eq_iff split: prod.splits sum.splits)

text \<open>
  \<open>op_inv P m\<close>: the operation keeps the state predicate \<open>P\<close>, whether it returns or raises.
  The rules below let a whole handler's invariant proof follow its syntax.
\<close>

definition op_inv :: "('s \<Rightarrow> bool) \<Rightarrow> ('s, 'a) op \<Rightarrow> bool" where
  "op_inv P m \<longleftrightarrow> (\<forall>s. P s \<longrightarrow> P (snd (m s)))"

named_theorems op_inv_intros \<open>invariant rules of the monadic operations\<close>

lemma op_invI: "(\<And>s. P s \<Longrightarrow> P (snd (m s))) \<Longrightarrow> op_inv P m"
  by (simp add: op_inv_def)

lemma op_invD: "op_inv P m \<Longrightarrow> P s \<Longrightarrow> m s = (r, t) \<Longrightarrow> P t"
  by (force simp: op_inv_def)

lemma op_inv_return [op_inv_intros]: "op_inv P (op_return x)"
  by (simp add: op_inv_def)

lemma op_inv_raise [op_inv_intros]: "op_inv P (op_raise e)"
  by (simp add: op_inv_def)

lemma op_inv_gets [op_inv_intros]: "op_inv P (op_gets f)"
  by (simp add: op_inv_def)

lemma op_inv_lift [op_inv_intros]: "op_inv P (op_lift r)"
  by (simp add: op_inv_def)

lemma op_inv_bind [op_inv_intros]:
  assumes "op_inv P m" and "\<And>x. op_inv P (f x)"
  shows "op_inv P (op_bind m f)"
proof (rule op_invI)
  fix s
  assume "P s"
  obtain r t where mt: "m s = (r, t)" by (cases "m s")
  have t: "P t" by (rule op_invD [OF assms(1) \<open>P s\<close> mt])
  show "P (snd (op_bind m f s))"
    using t assms(2) mt by (cases r) (simp_all add: op_bind_def op_inv_def)
qed

lemma op_inv_then [op_inv_intros]: "op_inv P m \<Longrightarrow> op_inv P n \<Longrightarrow> op_inv P (op_then m n)"
  unfolding op_then_def by (rule op_inv_bind)

lemma op_inv_if [op_inv_intros]:
  "(b \<Longrightarrow> op_inv P m) \<Longrightarrow> (\<not> b \<Longrightarrow> op_inv P n) \<Longrightarrow> op_inv P (if b then m else n)"
  by simp

lemma op_inv_option [op_inv_intros]:
  "(x = None \<Longrightarrow> op_inv P m) \<Longrightarrow> (\<And>y. x = Some y \<Longrightarrow> op_inv P (f y)) \<Longrightarrow>
   op_inv P (case x of None \<Rightarrow> m | Some y \<Rightarrow> f y)"
  by (cases x) auto

lemma op_inv_mapM [op_inv_intros]: "(\<And>x. op_inv P (f x)) \<Longrightarrow> op_inv P (op_mapM f xs)"
  by (induction xs) (auto intro!: op_inv_intros)

text \<open>
  \<open>op_post Q m\<close>: every value the operation returns satisfies \<open>Q\<close>, from any state.
\<close>

definition op_post :: "('a \<Rightarrow> bool) \<Rightarrow> ('s, 'a) op \<Rightarrow> bool" where
  "op_post Q m \<longleftrightarrow> (\<forall>s x s'. m s = (Inr x, s') \<longrightarrow> Q x)"

named_theorems op_post_intros \<open>result rules of the monadic operations\<close>

lemma op_postD: "op_post Q m \<Longrightarrow> m s = (Inr x, s') \<Longrightarrow> Q x"
  by (auto simp: op_post_def)

lemma op_post_return [op_post_intros]: "Q x \<Longrightarrow> op_post Q (op_return x)"
  by (simp add: op_post_def)

lemma op_post_raise [op_post_intros]: "op_post Q (op_raise e)"
  by (simp add: op_post_def)

lemma op_post_bind [op_post_intros]: "(\<And>x. op_post Q (f x)) \<Longrightarrow> op_post Q (op_bind m f)"
  by (auto simp: op_post_def op_bind_def split: prod.splits sum.splits)

lemma op_post_then [op_post_intros]: "op_post Q n \<Longrightarrow> op_post Q (op_then m n)"
  unfolding op_then_def by (rule op_post_bind)

lemma op_post_if [op_post_intros]:
  "(b \<Longrightarrow> op_post Q m) \<Longrightarrow> (\<not> b \<Longrightarrow> op_post Q n) \<Longrightarrow> op_post Q (if b then m else n)"
  by simp

lemma op_post_option [op_post_intros]:
  "(x = None \<Longrightarrow> op_post Q m) \<Longrightarrow> (\<And>y. x = Some y \<Longrightarrow> op_post Q (f y)) \<Longrightarrow>
   op_post Q (case x of None \<Rightarrow> m | Some y \<Rightarrow> f y)"
  by (cases x) auto

end
