(* ===== verification/Models.thy ===== *)
theory Models
  imports Prelude
begin

text \<open>
  \<open>sworker/models.py\<close>: the enumerations with their stored value strings, the risk order,
  and the execution records with their flattening to dictionaries (\<open>Record.to_dict\<close>) and,
  for the records the engine reads back, the reconstruction from a dictionary.
  Field names carry a prefix per record, because HOL record fields share one name space.
\<close>

section \<open>Enumerations\<close>

datatype risk_level =
    Read
  | Reversible
  | External
  | Financial
  | Destructive

fun risk_level_value :: "risk_level \<Rightarrow> string" where
  "risk_level_value Read = ''read''"
| "risk_level_value Reversible = ''reversible''"
| "risk_level_value External = ''external''"
| "risk_level_value Financial = ''financial''"
| "risk_level_value Destructive = ''destructive''"

definition risk_level_members :: "risk_level list" where
  "risk_level_members = [Read, Reversible, External, Financial, Destructive]"

datatype run_status =
    Pending
  | Planning
  | Running
  | Executing
  | Awaiting_Approval
  | Verifying
  | Success
  | Partial_Success
  | Failed
  | Blocked
  | Insufficient_Evidence
  | Cancelled
  | Denied

fun run_status_value :: "run_status \<Rightarrow> string" where
  "run_status_value Pending = ''PENDING''"
| "run_status_value Planning = ''PLANNING''"
| "run_status_value Running = ''RUNNING''"
| "run_status_value Executing = ''EXECUTING''"
| "run_status_value Awaiting_Approval = ''AWAITING_APPROVAL''"
| "run_status_value Verifying = ''VERIFYING''"
| "run_status_value Success = ''SUCCESS''"
| "run_status_value Partial_Success = ''PARTIAL_SUCCESS''"
| "run_status_value Failed = ''FAILED''"
| "run_status_value Blocked = ''BLOCKED''"
| "run_status_value Insufficient_Evidence = ''INSUFFICIENT_EVIDENCE''"
| "run_status_value Cancelled = ''CANCELLED''"
| "run_status_value Denied = ''DENIED''"

definition run_status_members :: "run_status list" where
  "run_status_members = [Pending, Planning, Running, Executing, Awaiting_Approval, Verifying, Success, Partial_Success, Failed, Blocked, Insufficient_Evidence, Cancelled, Denied]"

datatype action_status =
    Act_Proposed
  | Act_Awaiting_Approval
  | Act_Approved
  | Act_Rejected
  | Act_Denied
  | Act_Executing
  | Act_Executed
  | Act_Failed
  | Act_Skipped

fun action_status_value :: "action_status \<Rightarrow> string" where
  "action_status_value Act_Proposed = ''PROPOSED''"
| "action_status_value Act_Awaiting_Approval = ''AWAITING_APPROVAL''"
| "action_status_value Act_Approved = ''APPROVED''"
| "action_status_value Act_Rejected = ''REJECTED''"
| "action_status_value Act_Denied = ''DENIED''"
| "action_status_value Act_Executing = ''EXECUTING''"
| "action_status_value Act_Executed = ''EXECUTED''"
| "action_status_value Act_Failed = ''FAILED''"
| "action_status_value Act_Skipped = ''SKIPPED''"

definition action_status_members :: "action_status list" where
  "action_status_members = [Act_Proposed, Act_Awaiting_Approval, Act_Approved, Act_Rejected, Act_Denied, Act_Executing, Act_Executed, Act_Failed, Act_Skipped]"

datatype step_status =
    Step_Pending
  | Step_Running
  | Step_Done
  | Step_Failed
  | Step_Blocked
  | Step_Awaiting_Approval
  | Step_Skipped

fun step_status_value :: "step_status \<Rightarrow> string" where
  "step_status_value Step_Pending = ''PENDING''"
| "step_status_value Step_Running = ''RUNNING''"
| "step_status_value Step_Done = ''DONE''"
| "step_status_value Step_Failed = ''FAILED''"
| "step_status_value Step_Blocked = ''BLOCKED''"
| "step_status_value Step_Awaiting_Approval = ''AWAITING_APPROVAL''"
| "step_status_value Step_Skipped = ''SKIPPED''"

definition step_status_members :: "step_status list" where
  "step_status_members = [Step_Pending, Step_Running, Step_Done, Step_Failed, Step_Blocked, Step_Awaiting_Approval, Step_Skipped]"

datatype provenance =
    Known
  | Retrieved
  | Observed
  | Inferred
  | Hypothesized
  | Verified

fun provenance_value :: "provenance \<Rightarrow> string" where
  "provenance_value Known = ''known''"
| "provenance_value Retrieved = ''retrieved''"
| "provenance_value Observed = ''observed''"
| "provenance_value Inferred = ''inferred''"
| "provenance_value Hypothesized = ''hypothesized''"
| "provenance_value Verified = ''verified''"

definition provenance_members :: "provenance list" where
  "provenance_members = [Known, Retrieved, Observed, Inferred, Hypothesized, Verified]"

datatype confidence =
    High
  | Medium
  | Low
  | Unknown

fun confidence_value :: "confidence \<Rightarrow> string" where
  "confidence_value High = ''HIGH''"
| "confidence_value Medium = ''MEDIUM''"
| "confidence_value Low = ''LOW''"
| "confidence_value Unknown = ''UNKNOWN''"

definition confidence_members :: "confidence list" where
  "confidence_members = [High, Medium, Low, Unknown]"

datatype verification_outcome =
    Pass
  | Fail
  | Unverifiable

fun verification_outcome_value :: "verification_outcome \<Rightarrow> string" where
  "verification_outcome_value Pass = ''PASS''"
| "verification_outcome_value Fail = ''FAIL''"
| "verification_outcome_value Unverifiable = ''UNVERIFIABLE''"

definition verification_outcome_members :: "verification_outcome list" where
  "verification_outcome_members = [Pass, Fail, Unverifiable]"

datatype approval_state =
    Appr_Pending
  | Appr_Approved
  | Appr_Rejected
  | Appr_Expired

fun approval_state_value :: "approval_state \<Rightarrow> string" where
  "approval_state_value Appr_Pending = ''PENDING''"
| "approval_state_value Appr_Approved = ''APPROVED''"
| "approval_state_value Appr_Rejected = ''REJECTED''"
| "approval_state_value Appr_Expired = ''EXPIRED''"

definition approval_state_members :: "approval_state list" where
  "approval_state_members = [Appr_Pending, Appr_Approved, Appr_Rejected, Appr_Expired]"

text \<open>\<open>RunStatus(v)\<close>, \<open>RiskLevel(v)\<close>, ...: the member with that value, \<open>None\<close> where Python
  raises \<open>ValueError\<close>.\<close>

definition enum_of :: "('e \<Rightarrow> string) \<Rightarrow> 'e list \<Rightarrow> string \<Rightarrow> 'e option" where
  "enum_of value members v = find (\<lambda>e. value e = v) members"

lemma enum_of_value:
  assumes "inj value" and "e \<in> set members"
  shows "enum_of value members (value e) = Some e"
  using assms(2)
proof (induction members)
  case (Cons m ms)
  then show ?case using assms(1) by (auto simp: enum_of_def inj_def)
qed simp

lemma enum_of_SomeD: "enum_of value members v = Some e \<Longrightarrow> value e = v"
  by (auto simp: enum_of_def find_Some_iff)

abbreviation risk_level_of :: "string \<Rightarrow> risk_level option" where
  "risk_level_of \<equiv> enum_of risk_level_value risk_level_members"

lemma risk_level_value_inj [simp, enum_simps]: "risk_level_value x = risk_level_value y \<longleftrightarrow> x = y"
  by (cases x; cases y; simp)

lemma risk_level_members_all [simp]: "x \<in> set risk_level_members"
  by (cases x) (simp_all add: risk_level_members_def)

lemma risk_level_of_value [simp, enum_simps]: "risk_level_of (risk_level_value x) = Some x"
  by (rule enum_of_value) (simp_all add: inj_def)

abbreviation run_status_of :: "string \<Rightarrow> run_status option" where
  "run_status_of \<equiv> enum_of run_status_value run_status_members"

lemma run_status_value_inj [simp, enum_simps]: "run_status_value x = run_status_value y \<longleftrightarrow> x = y"
  by (cases x; cases y; simp)

lemma run_status_members_all [simp]: "x \<in> set run_status_members"
  by (cases x) (simp_all add: run_status_members_def)

lemma run_status_of_value [simp, enum_simps]: "run_status_of (run_status_value x) = Some x"
  by (rule enum_of_value) (simp_all add: inj_def)

abbreviation action_status_of :: "string \<Rightarrow> action_status option" where
  "action_status_of \<equiv> enum_of action_status_value action_status_members"

lemma action_status_value_inj [simp, enum_simps]: "action_status_value x = action_status_value y \<longleftrightarrow> x = y"
  by (cases x; cases y; simp)

lemma action_status_members_all [simp]: "x \<in> set action_status_members"
  by (cases x) (simp_all add: action_status_members_def)

lemma action_status_of_value [simp, enum_simps]: "action_status_of (action_status_value x) = Some x"
  by (rule enum_of_value) (simp_all add: inj_def)

abbreviation step_status_of :: "string \<Rightarrow> step_status option" where
  "step_status_of \<equiv> enum_of step_status_value step_status_members"

lemma step_status_value_inj [simp, enum_simps]: "step_status_value x = step_status_value y \<longleftrightarrow> x = y"
  by (cases x; cases y; simp)

lemma step_status_members_all [simp]: "x \<in> set step_status_members"
  by (cases x) (simp_all add: step_status_members_def)

lemma step_status_of_value [simp, enum_simps]: "step_status_of (step_status_value x) = Some x"
  by (rule enum_of_value) (simp_all add: inj_def)

abbreviation provenance_of :: "string \<Rightarrow> provenance option" where
  "provenance_of \<equiv> enum_of provenance_value provenance_members"

lemma provenance_value_inj [simp, enum_simps]: "provenance_value x = provenance_value y \<longleftrightarrow> x = y"
  by (cases x; cases y; simp)

lemma provenance_members_all [simp]: "x \<in> set provenance_members"
  by (cases x) (simp_all add: provenance_members_def)

lemma provenance_of_value [simp, enum_simps]: "provenance_of (provenance_value x) = Some x"
  by (rule enum_of_value) (simp_all add: inj_def)

abbreviation confidence_of :: "string \<Rightarrow> confidence option" where
  "confidence_of \<equiv> enum_of confidence_value confidence_members"

lemma confidence_value_inj [simp, enum_simps]: "confidence_value x = confidence_value y \<longleftrightarrow> x = y"
  by (cases x; cases y; simp)

lemma confidence_members_all [simp]: "x \<in> set confidence_members"
  by (cases x) (simp_all add: confidence_members_def)

lemma confidence_of_value [simp, enum_simps]: "confidence_of (confidence_value x) = Some x"
  by (rule enum_of_value) (simp_all add: inj_def)

abbreviation verification_outcome_of :: "string \<Rightarrow> verification_outcome option" where
  "verification_outcome_of \<equiv> enum_of verification_outcome_value verification_outcome_members"

lemma verification_outcome_value_inj [simp, enum_simps]: "verification_outcome_value x = verification_outcome_value y \<longleftrightarrow> x = y"
  by (cases x; cases y; simp)

lemma verification_outcome_members_all [simp]: "x \<in> set verification_outcome_members"
  by (cases x) (simp_all add: verification_outcome_members_def)

lemma verification_outcome_of_value [simp, enum_simps]: "verification_outcome_of (verification_outcome_value x) = Some x"
  by (rule enum_of_value) (simp_all add: inj_def)

abbreviation approval_state_of :: "string \<Rightarrow> approval_state option" where
  "approval_state_of \<equiv> enum_of approval_state_value approval_state_members"

lemma approval_state_value_inj [simp, enum_simps]: "approval_state_value x = approval_state_value y \<longleftrightarrow> x = y"
  by (cases x; cases y; simp)

lemma approval_state_members_all [simp]: "x \<in> set approval_state_members"
  by (cases x) (simp_all add: approval_state_members_def)

lemma approval_state_of_value [simp, enum_simps]: "approval_state_of (approval_state_value x) = Some x"
  by (rule enum_of_value) (simp_all add: inj_def)

section \<open>The risk order\<close>

definition RISK_ORDER :: "risk_level list" where
  "RISK_ORDER = [Read, Reversible, External, Financial, Destructive]"

definition risk_rank :: "risk_level \<Rightarrow> nat" where
  "risk_rank r = length (takeWhile (\<lambda>x. x \<noteq> r) RISK_ORDER)"

lemma risk_rank_simps [simp]:
  "risk_rank Read = 0" "risk_rank Reversible = 1" "risk_rank External = 2"
  "risk_rank Financial = 3" "risk_rank Destructive = 4"
  by (simp_all add: risk_rank_def RISK_ORDER_def)

lemma risk_rank_inj [simp]: "risk_rank x = risk_rank y \<longleftrightarrow> x = y"
  by (cases x; cases y; simp)

lemma risk_rank_le_4: "risk_rank x \<le> 4"
  by (cases x) simp_all

instantiation risk_level :: linorder
begin

definition less_eq_risk_level :: "risk_level \<Rightarrow> risk_level \<Rightarrow> bool" where
  "less_eq_risk_level x y = (risk_rank x \<le> risk_rank y)"

definition less_risk_level :: "risk_level \<Rightarrow> risk_level \<Rightarrow> bool" where
  "less_risk_level x y = (risk_rank x < risk_rank y)"

instance
  by standard (auto simp: less_eq_risk_level_def less_risk_level_def)

end

lemma risk_le_Destructive [simp]: "x \<le> Destructive"
  by (simp add: less_eq_risk_level_def risk_rank_le_4)

lemma Read_le_risk [simp]: "Read \<le> x"
  by (simp add: less_eq_risk_level_def)

lemma risk_less_rank: "risk_rank x < risk_rank y \<longleftrightarrow> x < y"
  by (simp add: less_risk_level_def)

lemma risk_le_rank: "risk_rank x \<le> risk_rank y \<longleftrightarrow> x \<le> y"
  by (simp add: less_eq_risk_level_def)

section \<open>Execution records\<close>

definition strs :: "string list \<Rightarrow> pyval" where
  "strs xs = VList (map VStr xs)"

text \<open>\<open>d[key] = value\<close> for each field in declaration order, enumerations flattened.\<close>

record task =
  task_request :: string
  task_worker :: string
  task_id :: string
  task_intent :: string
  task_created :: time
  task_origin :: string
  task_trigger :: string
  task_procedure :: string
  task_inputs :: doc

definition task_to_dict :: "task \<Rightarrow> doc" where
  "task_to_dict r = [
     (''request'', VStr (task_request r)),
     (''worker'', VStr (task_worker r)),
     (''id'', VStr (task_id r)),
     (''intent'', VStr (task_intent r)),
     (''created'', VFloat (task_created r)),
     (''origin'', VStr (task_origin r)),
     (''trigger'', VStr (task_trigger r)),
     (''procedure'', VStr (task_procedure r)),
     (''inputs'', VDict (task_inputs r))]"

record plan =
  plan_run_id :: string
  plan_id :: string
  plan_task_id :: string
  plan_intent :: string
  plan_rationale :: string
  plan_step_ids :: "string list"
  plan_created :: time
  plan_source :: string

definition plan_to_dict :: "plan \<Rightarrow> doc" where
  "plan_to_dict r = [
     (''run_id'', VStr (plan_run_id r)),
     (''id'', VStr (plan_id r)),
     (''task_id'', VStr (plan_task_id r)),
     (''intent'', VStr (plan_intent r)),
     (''rationale'', VStr (plan_rationale r)),
     (''step_ids'', strs (plan_step_ids r)),
     (''created'', VFloat (plan_created r)),
     (''source'', VStr (plan_source r))]"

record step =
  step_run_id :: string
  step_plan_id :: string
  step_index :: int
  step_description :: string
  step_id :: string
  step_tool :: string
  step_args :: doc
  step_status :: step_status
  step_note :: string
  step_observation_id :: string
  step_detail :: string

definition step_to_dict :: "step \<Rightarrow> doc" where
  "step_to_dict r = [
     (''run_id'', VStr (step_run_id r)),
     (''plan_id'', VStr (step_plan_id r)),
     (''index'', VInt (step_index r)),
     (''description'', VStr (step_description r)),
     (''id'', VStr (step_id r)),
     (''tool'', VStr (step_tool r)),
     (''args'', VDict (step_args r)),
     (''status'', VStr (step_status_value (step_status r))),
     (''note'', VStr (step_note r)),
     (''observation_id'', VStr (step_observation_id r)),
     (''detail'', VStr (step_detail r))]"

record action =
  act_run_id :: string
  act_step_id :: string
  act_tool :: string
  act_args :: doc
  act_risk :: risk_level
  act_id :: string
  act_status :: action_status
  act_summary :: string
  act_rationale :: string
  act_reason :: string
  act_reversible :: bool
  act_approval_id :: string
  act_observation_id :: string
  act_created :: time
  act_executed :: time
  act_attempt :: int

definition action_to_dict :: "action \<Rightarrow> doc" where
  "action_to_dict r = [
     (''run_id'', VStr (act_run_id r)),
     (''step_id'', VStr (act_step_id r)),
     (''tool'', VStr (act_tool r)),
     (''args'', VDict (act_args r)),
     (''risk'', VStr (risk_level_value (act_risk r))),
     (''id'', VStr (act_id r)),
     (''status'', VStr (action_status_value (act_status r))),
     (''summary'', VStr (act_summary r)),
     (''rationale'', VStr (act_rationale r)),
     (''reason'', VStr (act_reason r)),
     (''reversible'', VBool (act_reversible r)),
     (''approval_id'', VStr (act_approval_id r)),
     (''observation_id'', VStr (act_observation_id r)),
     (''created'', VFloat (act_created r)),
     (''executed'', VFloat (act_executed r)),
     (''attempt'', VInt (act_attempt r))]"

record observation =
  obs_run_id :: string
  obs_action_id :: string
  obs_ok :: bool
  obs_id :: string
  obs_output :: string
  obs_error :: string
  obs_data :: doc
  obs_truncated :: bool
  obs_duration_ms :: int
  obs_injection :: string
  obs_created :: time

definition observation_to_dict :: "observation \<Rightarrow> doc" where
  "observation_to_dict r = [
     (''run_id'', VStr (obs_run_id r)),
     (''action_id'', VStr (obs_action_id r)),
     (''ok'', VBool (obs_ok r)),
     (''id'', VStr (obs_id r)),
     (''output'', VStr (obs_output r)),
     (''error'', VStr (obs_error r)),
     (''data'', VDict (obs_data r)),
     (''truncated'', VBool (obs_truncated r)),
     (''duration_ms'', VInt (obs_duration_ms r)),
     (''injection'', VStr (obs_injection r)),
     (''created'', VFloat (obs_created r))]"

record evidence =
  ev_run_id :: string
  ev_provenance :: provenance
  ev_summary :: string
  ev_id :: string
  ev_source_ref :: string
  ev_observation_id :: string
  ev_excerpt :: string
  ev_created :: time

definition evidence_to_dict :: "evidence \<Rightarrow> doc" where
  "evidence_to_dict r = [
     (''run_id'', VStr (ev_run_id r)),
     (''provenance'', VStr (provenance_value (ev_provenance r))),
     (''summary'', VStr (ev_summary r)),
     (''id'', VStr (ev_id r)),
     (''source_ref'', VStr (ev_source_ref r)),
     (''observation_id'', VStr (ev_observation_id r)),
     (''excerpt'', VStr (ev_excerpt r)),
     (''created'', VFloat (ev_created r))]"

record claim =
  claim_run_id :: string
  claim_text :: string
  claim_id :: string
  claim_provenance :: provenance
  claim_confidence :: confidence
  claim_evidence_ids :: "string list"
  claim_verification_ids :: "string list"
  claim_refuted :: bool
  claim_created :: time

definition claim_to_dict :: "claim \<Rightarrow> doc" where
  "claim_to_dict r = [
     (''run_id'', VStr (claim_run_id r)),
     (''text'', VStr (claim_text r)),
     (''id'', VStr (claim_id r)),
     (''provenance'', VStr (provenance_value (claim_provenance r))),
     (''confidence'', VStr (confidence_value (claim_confidence r))),
     (''evidence_ids'', strs (claim_evidence_ids r)),
     (''verification_ids'', strs (claim_verification_ids r)),
     (''refuted'', VBool (claim_refuted r)),
     (''created'', VFloat (claim_created r))]"

record verification =
  ver_run_id :: string
  ver_claim_id :: string
  ver_check :: string
  ver_outcome :: verification_outcome
  ver_id :: string
  ver_detail :: string
  ver_expected :: string
  ver_actual :: string
  ver_created :: time

definition verification_to_dict :: "verification \<Rightarrow> doc" where
  "verification_to_dict r = [
     (''run_id'', VStr (ver_run_id r)),
     (''claim_id'', VStr (ver_claim_id r)),
     (''check'', VStr (ver_check r)),
     (''outcome'', VStr (verification_outcome_value (ver_outcome r))),
     (''id'', VStr (ver_id r)),
     (''detail'', VStr (ver_detail r)),
     (''expected'', VStr (ver_expected r)),
     (''actual'', VStr (ver_actual r)),
     (''created'', VFloat (ver_created r))]"

record approval =
  appr_run_id :: string
  appr_action_id :: string
  appr_risk :: risk_level
  appr_summary :: string
  appr_id :: string
  appr_state :: approval_state
  appr_reason :: string
  appr_evidence_ids :: "string list"
  appr_decided_by :: string
  appr_decided_at :: time
  appr_note :: string
  appr_created :: time
  appr_quorum :: int
  appr_min_role :: string
  appr_votes :: "doc list"
  appr_escalations :: int

definition approval_to_dict :: "approval \<Rightarrow> doc" where
  "approval_to_dict r = [
     (''run_id'', VStr (appr_run_id r)),
     (''action_id'', VStr (appr_action_id r)),
     (''risk'', VStr (risk_level_value (appr_risk r))),
     (''summary'', VStr (appr_summary r)),
     (''id'', VStr (appr_id r)),
     (''state'', VStr (approval_state_value (appr_state r))),
     (''reason'', VStr (appr_reason r)),
     (''evidence_ids'', strs (appr_evidence_ids r)),
     (''decided_by'', VStr (appr_decided_by r)),
     (''decided_at'', VFloat (appr_decided_at r)),
     (''note'', VStr (appr_note r)),
     (''created'', VFloat (appr_created r)),
     (''quorum'', VInt (appr_quorum r)),
     (''min_role'', VStr (appr_min_role r)),
     (''votes'', VList (map VDict (appr_votes r))),
     (''escalations'', VInt (appr_escalations r))]"

record artifact =
  art_run_id :: string
  art_path :: string
  art_kind :: string
  art_id :: string
  art_title :: string
  art_description :: string
  art_bytes :: int
  art_sha256 :: string
  art_claim_ids :: "string list"
  art_created :: time

definition artifact_to_dict :: "artifact \<Rightarrow> doc" where
  "artifact_to_dict r = [
     (''run_id'', VStr (art_run_id r)),
     (''path'', VStr (art_path r)),
     (''kind'', VStr (art_kind r)),
     (''id'', VStr (art_id r)),
     (''title'', VStr (art_title r)),
     (''description'', VStr (art_description r)),
     (''bytes'', VInt (art_bytes r)),
     (''sha256'', VStr (art_sha256 r)),
     (''claim_ids'', strs (art_claim_ids r)),
     (''created'', VFloat (art_created r))]"

record run =
  run_task_id :: string
  run_worker :: string
  run_id :: string
  run_status :: run_status
  run_plan_id :: string
  run_intent :: string
  run_trigger :: string
  run_procedure :: string
  run_started :: time
  run_finished :: time
  run_summary :: string
  run_error :: string
  run_evidence_count :: int
  run_claim_count :: int
  run_approval_count :: int
  run_artifact_ids :: "string list"
  run_verifications :: "doc list"
  run_seq :: int
  run_degradations :: "string list"

definition run_to_dict :: "run \<Rightarrow> doc" where
  "run_to_dict r = [
     (''task_id'', VStr (run_task_id r)),
     (''worker'', VStr (run_worker r)),
     (''id'', VStr (run_id r)),
     (''status'', VStr (run_status_value (run_status r))),
     (''plan_id'', VStr (run_plan_id r)),
     (''intent'', VStr (run_intent r)),
     (''trigger'', VStr (run_trigger r)),
     (''procedure'', VStr (run_procedure r)),
     (''started'', VFloat (run_started r)),
     (''finished'', VFloat (run_finished r)),
     (''summary'', VStr (run_summary r)),
     (''error'', VStr (run_error r)),
     (''evidence_count'', VInt (run_evidence_count r)),
     (''claim_count'', VInt (run_claim_count r)),
     (''approval_count'', VInt (run_approval_count r)),
     (''artifact_ids'', strs (run_artifact_ids r)),
     (''verifications'', VList (map VDict (run_verifications r))),
     (''seq'', VInt (run_seq r)),
     (''degradations'', strs (run_degradations r))]"

end
