(* ===== verification/Pyrisk.thy ===== *)
theory Pyrisk
  imports Models
begin

text \<open>
  \<open>sworker/permissions.py\<close>, first half: the static classification of submitted Python code.
  The abstract syntax tree is a datatype with the node kinds the visitor distinguishes (every
  other kind is \<open>Other\<close> with its children); the parser itself is a parameter that returns
  \<open>None\<close> where \<open>ast.parse\<close> raises.  \<open>literal_ok\<close> is \<open>ast.literal_eval\<close> up to success.
  Lemmas: the visitor only ever raises the risk, and what it reports is at least the verdict
  on every call of the tree, however deeply nested.
\<close>

section \<open>Syntax trees\<close>

datatype const_kind = CInt | CFloat | CComplex | CStr | CBytes | CBool | CNone | CEllipsis

datatype unary_op = UAdd | USub | UNot | UInvert

datatype bin_op = BAdd | BSub | BOther

datatype node =
    Import "string list"                       \<comment> \<open>the dotted names, in order\<close>
  | ImportFrom "string option"                 \<comment> \<open>\<open>None\<close> for a purely relative import\<close>
  | Call node "node list" "node list"          \<comment> \<open>function, arguments, keyword values\<close>
  | Name string
  | Attribute node string
  | Constant const_kind
  | Tuple "node list"
  | ListLit "node list"
  | SetLit "node list"
  | DictLit "node option list" "node list"     \<comment> \<open>a key is \<open>None\<close> for \<open>**mapping\<close>\<close>
  | UnaryOp unary_op node
  | BinOp node bin_op node
  | Other "node list"

section \<open>Literals\<close>

fun num_const :: "node \<Rightarrow> const_kind option" where
  "num_const (Constant k) = (if k \<in> {CInt, CFloat, CComplex} then Some k else None)"
| "num_const _ = None"

fun signed_num :: "node \<Rightarrow> const_kind option" where
  "signed_num (UnaryOp op n) = (if op \<in> {UAdd, USub} then num_const n else None)"
| "signed_num n = num_const n"

text \<open>A container inside a set display or as a dictionary key must be hashable.\<close>

fun lit_hashable :: "node \<Rightarrow> bool" where
  "lit_hashable (Tuple xs) = list_all lit_hashable xs"
| "lit_hashable (ListLit _) = False"
| "lit_hashable (SetLit _) = False"
| "lit_hashable (DictLit _ _) = False"
| "lit_hashable (Call _ _ _) = False"
| "lit_hashable _ = True"

fun literal_ok :: "node \<Rightarrow> bool" where
  "literal_ok (Constant k) = True"
| "literal_ok (Tuple xs) = list_all literal_ok xs"
| "literal_ok (ListLit xs) = list_all literal_ok xs"
| "literal_ok (SetLit xs) = (list_all literal_ok xs \<and> list_all lit_hashable xs)"
| "literal_ok (Call f args kws) = (f = Name ''set'' \<and> args = [] \<and> kws = [])"
| "literal_ok (DictLit ks vs) =
     (length ks = length vs \<and>
      list_all (\<lambda>k. case k of None \<Rightarrow> False | Some n \<Rightarrow> literal_ok n \<and> lit_hashable n) ks \<and>
      list_all literal_ok vs)"
| "literal_ok (BinOp l op r) =
     (op \<in> {BAdd, BSub} \<and> signed_num l \<in> {Some CInt, Some CFloat} \<and> num_const r = Some CComplex)"
| "literal_ok n = (signed_num n \<noteq> None)"

section \<open>The curated name sets\<close>

definition PY_EXTERNAL :: "string list" where
  "PY_EXTERNAL = [
    ''subprocess'', ''socket'', ''socketserver'', ''urllib'', ''urllib.request'',
    ''urllib.parse'', ''urllib.error'', ''requests'', ''httpx'', ''ftplib'', ''smtplib'',
    ''telnetlib'', ''poplib'', ''imaplib'', ''nntplib'', ''smtpd'', ''asyncio'', ''websocket'',
    ''websockets'', ''paramiko'', ''pexpect'', ''select'', ''multiprocessing'', ''ctypes'',
    ''ctypes.util'', ''mmap'', ''signal'', ''resource'', ''os.system'', ''os.popen'',
    ''os.execv'', ''os.execve'', ''os.execvp'', ''os.execvpe'', ''os.spawn'', ''os.spawnl'',
    ''os.spawnle'', ''os.spawnlp'', ''os.spawnlpe'', ''os.spawnv'', ''os.spawnve'',
    ''os.spawnvp'', ''os.spawnvpe'', ''os.posix_spawn'', ''os.startfile'', ''os.kill'',
    ''os.abort'', ''os.register'', ''pathlib.Path.chmod'', ''pathlib.Path.rename'',
    ''pathlib.Path.replace'', ''pathlib.Path.write_text'', ''pathlib.Path.write_bytes'',
    ''pathlib.Path.symlink_to'', ''pathlib.Path.mkdir'', ''pathlib.Path.touch'',
    ''tempfile.mkdtemp'']"

definition PY_DESTRUCTIVE :: "string list" where
  "PY_DESTRUCTIVE = [
    ''shutil.rmtree'', ''shutil.move'', ''os.remove'', ''os.unlink'', ''os.rmdir'',
    ''os.truncate'', ''os.replace'', ''pathlib.Path.unlink'', ''pathlib.Path.rmdir'',
    ''pathlib.Path.rmtree'', ''os.rename'']"

definition PY_SAFE_MODULES :: "string list" where
  "PY_SAFE_MODULES = [
    ''math'', ''statistics'', ''json'', ''csv'', ''decimal'', ''fractions'', ''random'',
    ''string'', ''re'', ''datetime'', ''time'', ''collections'', ''itertools'', ''functools'',
    ''operator'', ''typing'', ''dataclasses'', ''enum'', ''io'', ''os.path'', ''os'',
    ''pathlib'', ''pprint'', ''textwrap'', ''unicodedata'', ''hashlib'', ''base64'', ''struct'',
    ''bisect'', ''heapq'', ''array'', ''copy'', ''numbers'', ''logging'', ''warnings'',
    ''typing_extensions'', ''__future__'']"

definition DYNAMIC_BUILTINS :: "string list" where
  "DYNAMIC_BUILTINS = [
    ''eval'', ''exec'', ''compile'', ''__import__'', ''vars'', ''locals'', ''globals'']"

definition DYNAMIC_ATTRS :: "string list" where
  "DYNAMIC_ATTRS = [
    ''__getattribute__'', ''__getitem__'', ''getattr'', ''setattr'', ''delattr'']"

definition PY_SAFE_BUILTINS :: "string list" where
  "PY_SAFE_BUILTINS = [
    ''open'', ''print'', ''len'', ''range'', ''sorted'', ''sum'', ''min'', ''max'', ''map'',
    ''filter'', ''enumerate'', ''zip'', ''list'', ''dict'', ''set'', ''tuple'', ''str'', ''int'',
    ''float'', ''bool'', ''abs'', ''round'', ''format'', ''repr'', ''isinstance'',
    ''issubclass'', ''type'', ''hasattr'', ''any'', ''all'', ''iter'', ''next'', ''reversed'',
    ''ord'', ''chr'', ''complex'', ''bin'', ''hex'', ''oct'', ''divmod'', ''pow'', ''slice'',
    ''bytes'', ''bytearray'', ''frozenset'', ''super'', ''object'', ''property'']"

section \<open>The visitor\<close>

definition escalate :: "risk_level \<Rightarrow> risk_level \<Rightarrow> risk_level" where
  "escalate level r = (if risk_rank level > risk_rank r then level else r)"

definition top_name :: "string \<Rightarrow> string" where
  "top_name path = hd (split_on CHR ''.'' path)"

definition recognised_module :: "string \<Rightarrow> bool" where
  "recognised_module tp \<longleftrightarrow> tp \<in> {''os'', ''pathlib'', ''tempfile''} \<or> tp \<in> set PY_SAFE_MODULES
     \<or> tp \<in> set PY_EXTERNAL \<or> tp \<in> set PY_DESTRUCTIVE"

text \<open>\<open>visit_Import\<close> returns inside its loop: only the first name is ever examined.\<close>

fun visit_import :: "risk_level \<Rightarrow> string list \<Rightarrow> risk_level \<Rightarrow> risk_level" where
  "visit_import mx [] r = r"
| "visit_import mx (n # ns) r = (if recognised_module (top_name n) then r else escalate mx r)"

fun visit_import_from :: "risk_level \<Rightarrow> string option \<Rightarrow> risk_level \<Rightarrow> risk_level" where
  "visit_import_from mx None r = escalate mx r"
| "visit_import_from mx (Some m) r = (if recognised_module (top_name m) then r else escalate mx r)"

fun attr_path :: "node \<Rightarrow> string" where
  "attr_path (Name i) = i"
| "attr_path (Attribute v a) = (let base = attr_path v in if base = [] then [] else base @ ''.'' @ a)"
| "attr_path _ = []"

definition under :: "string \<Rightarrow> string list \<Rightarrow> bool" where
  "under path ms = list_ex (\<lambda>m. path = m \<or> starts_with path (m @ ''.'')) ms"

text \<open>The first block of \<open>_check_call_func\<close>: dynamic builtins and attributes.\<close>

definition check_dynamic :: "risk_level \<Rightarrow> node \<Rightarrow> node list \<Rightarrow> risk_level \<Rightarrow> risk_level" where
  "check_dynamic mx fn args r = (case fn of
       Name i \<Rightarrow>
         (if i \<in> set DYNAMIC_BUILTINS
          then (if \<not> (args \<noteq> [] \<and> literal_ok (hd args)) \<or> i \<in> {''vars'', ''locals'', ''globals'', ''__import__''}
                then escalate mx r else r)
          else if i \<in> {''getattr'', ''setattr'', ''delattr''} then escalate mx r else r)
     | Attribute v a \<Rightarrow> (if a \<in> set DYNAMIC_ATTRS then escalate mx r else r)
     | _ \<Rightarrow> r)"

text \<open>The second block: the resolved path of the call target.\<close>

definition check_path :: "risk_level \<Rightarrow> string \<Rightarrow> risk_level \<Rightarrow> risk_level" where
  "check_path mx path r =
     (if path = [] then escalate mx r
      else if path \<in> set PY_SAFE_BUILTINS then r
      else if path \<in> set PY_EXTERNAL then escalate External r
      else if path \<in> set PY_DESTRUCTIVE then escalate Destructive r
      else if path \<in> set DYNAMIC_BUILTINS \<or> last (split_on CHR ''.'' path) \<in> set DYNAMIC_BUILTINS
        then escalate mx r
      else let tp = top_name path in
        if (tp \<in> set PY_EXTERNAL \<or> tp \<in> set PY_DESTRUCTIVE) \<and> under path PY_EXTERNAL
          then escalate External r
        else if (tp \<in> set PY_EXTERNAL \<or> tp \<in> set PY_DESTRUCTIVE) \<and> under path PY_DESTRUCTIVE
          then escalate Destructive r
        else if tp \<in> set PY_SAFE_MODULES then r
        else escalate mx r)"

definition check_call_func :: "risk_level \<Rightarrow> node \<Rightarrow> node list \<Rightarrow> risk_level \<Rightarrow> risk_level" where
  "check_call_func mx fn args r = check_path mx (attr_path fn) (check_dynamic mx fn args r)"

text \<open>\<open>visit\<close> threads the risk found so far.  A call is checked, then its arguments and keyword
  values are visited (its function is not); any other node visits all its children.\<close>

fun visit :: "risk_level \<Rightarrow> node \<Rightarrow> risk_level \<Rightarrow> risk_level" where
  "visit mx (Import names) r = visit_import mx names r"
| "visit mx (ImportFrom m) r = visit_import_from mx m r"
| "visit mx (Call fn args kws) r =
     fold (visit mx) kws (fold (visit mx) args (check_call_func mx fn args r))"
| "visit mx (Name i) r = r"
| "visit mx (Attribute v a) r = visit mx v r"
| "visit mx (Constant k) r = r"
| "visit mx (Tuple xs) r = fold (visit mx) xs r"
| "visit mx (ListLit xs) r = fold (visit mx) xs r"
| "visit mx (SetLit xs) r = fold (visit mx) xs r"
| "visit mx (DictLit ks vs) r =
     fold (visit mx) vs (fold (\<lambda>k r. case k of None \<Rightarrow> r | Some n \<Rightarrow> visit mx n r) ks r)"
| "visit mx (UnaryOp op x) r = visit mx x r"
| "visit mx (BinOp l op x) r = visit mx x (visit mx l r)"
| "visit mx (Other xs) r = fold (visit mx) xs r"

definition classify_python :: "(string \<Rightarrow> node option) \<Rightarrow> string \<Rightarrow> risk_level \<Rightarrow> risk_level" where
  "classify_python parse code max_reach = (case parse code of
       None \<Rightarrow> max_reach
     | Some tree \<Rightarrow> visit max_reach tree Read)"

section \<open>The visitor only raises the risk\<close>

named_theorems risk_mono \<open>monotonicity of the visitor's parts\<close>

lemma escalate_max: "escalate level r = max r level"
  by (auto simp: escalate_def max_def risk_less_rank not_le)

lemma escalate_ge [risk_mono]: "r \<le> escalate level r" "level \<le> escalate level r"
  by (simp_all add: escalate_max)

lemma check_path_ge [risk_mono]: "r \<le> check_path mx path r"
  by (simp add: check_path_def Let_def risk_mono)

lemma check_dynamic_ge [risk_mono]: "r \<le> check_dynamic mx fn args r"
  by (simp add: check_dynamic_def risk_mono split: node.split)

lemma check_call_func_ge [risk_mono]: "r \<le> check_call_func mx fn args r"
  unfolding check_call_func_def by (rule order_trans [OF check_dynamic_ge check_path_ge])

lemma visit_import_ge [risk_mono]: "r \<le> visit_import mx ns r" "r \<le> visit_import_from mx m r"
  by (cases ns; simp add: risk_mono) (cases m; simp add: risk_mono)

lemma fold_ge:
  assumes "\<And>x r. x \<in> set xs \<Longrightarrow> r \<le> f x r"
  shows "(r :: risk_level) \<le> fold f xs r"
  using assms
proof (induction xs arbitrary: r)
  case (Cons x xs)
  have "r \<le> f x r" using Cons.prems by simp
  also have "f x r \<le> fold f xs (f x r)" using Cons by simp
  finally show ?case by simp
qed simp

lemma visit_ge [risk_mono]: "r \<le> visit mx t r"
proof (induction mx t r rule: visit.induct)
  case (3 mx fn args kws r)
  have "r \<le> check_call_func mx fn args r" by (rule check_call_func_ge)
  also have "\<dots> \<le> fold (visit mx) args (check_call_func mx fn args r)"
    using 3 by (intro fold_ge) blast
  also have "\<dots> \<le> fold (visit mx) kws (fold (visit mx) args (check_call_func mx fn args r))"
    using 3 by (intro fold_ge) blast
  finally show ?case by simp
next
  case (10 mx ks vs r)
  have "r \<le> fold (\<lambda>k r. case k of None \<Rightarrow> r | Some n \<Rightarrow> visit mx n r) ks r"
    using 10 by (intro fold_ge) (auto split: option.split)
  also have "\<dots> \<le> fold (visit mx) vs (fold (\<lambda>k r. case k of None \<Rightarrow> r | Some n \<Rightarrow> visit mx n r) ks r)"
    using 10 by (intro fold_ge) blast
  finally show ?case by simp
next
  case (12 mx l op x r)
  then show ?case by (auto intro: order_trans)
qed (auto simp: risk_mono intro!: fold_ge)

section \<open>Every call of the tree counts\<close>

text \<open>All calls of a tree, those inside call targets included.\<close>

fun calls :: "node \<Rightarrow> (node \<times> node list) list" where
  "calls (Call f args kws) = (f, args) # calls f @ concat (map calls args) @ concat (map calls kws)"
| "calls (Attribute v a) = calls v"
| "calls (Tuple xs) = concat (map calls xs)"
| "calls (ListLit xs) = concat (map calls xs)"
| "calls (SetLit xs) = concat (map calls xs)"
| "calls (DictLit ks vs) = concat (map (\<lambda>k. case k of None \<Rightarrow> [] | Some n \<Rightarrow> calls n) ks) @ concat (map calls vs)"
| "calls (UnaryOp op x) = calls x"
| "calls (BinOp l op x) = calls l @ calls x"
| "calls (Other xs) = concat (map calls xs)"
| "calls _ = []"

lemma attr_path_no_calls: "attr_path f \<noteq> [] \<Longrightarrow> calls f = []"
  by (induction f rule: attr_path.induct) (auto simp: Let_def split: if_splits)

lemma check_path_max: "check_path mx p r = max r (check_path mx p Read)"
  by (simp add: check_path_def Let_def escalate_max max_absorb2)

lemma check_path_le: "check_path mx (attr_path f) Read \<le> check_call_func mx f args r"
  unfolding check_call_func_def
  by (subst check_path_max [of mx "attr_path f" "check_dynamic mx f args r"]) simp

lemma fold_reaches:
  assumes "x \<in> set xs" and "\<And>r. v \<le> f x r" and "\<And>y r. y \<in> set xs \<Longrightarrow> r \<le> f y r"
  shows "(v :: risk_level) \<le> fold f xs r"
  using assms
proof (induction xs arbitrary: r)
  case (Cons y ys)
  show ?case
  proof (cases "x = y")
    case True
    have "v \<le> f x r" by (rule Cons.prems(2))
    also have "\<dots> \<le> fold f ys (f x r)" using Cons.prems(3) by (intro fold_ge) simp
    finally show ?thesis using True by simp
  next
    case False
    with Cons show ?thesis by simp
  qed
qed simp

lemmas fold_visit_reaches = fold_reaches [where f = "visit mx" for mx, OF _ _ visit_ge]

lemma fold_visit_ge: "r \<le> fold (visit mx) xs r"
  by (rule fold_ge) (rule visit_ge)

lemma unresolved_call_max: "attr_path f = [] \<Longrightarrow> check_call_func Destructive f args r = Destructive"
  by (simp add: check_call_func_def check_path_def escalate_max max_def)

lemma fold_keys_ge: "r \<le> fold (\<lambda>k r. case k of None \<Rightarrow> r | Some n \<Rightarrow> visit mx n r) ks r"
  by (rule fold_ge) (auto simp: visit_ge split: option.split)

lemma visit_covers_calls:
  "(f, args) \<in> set (calls t) \<Longrightarrow> check_path Destructive (attr_path f) Read \<le> visit Destructive t r"
proof (induction t arbitrary: r rule: calls.induct)
  case (1 g as kws)
  let ?c = "check_call_func Destructive g as r"
  let ?v = "check_path Destructive (attr_path f) Read"
  have up: "x \<le> visit Destructive (Call g as kws) r" if "x \<le> ?c" for x
  proof -
    note that
    also have "?c \<le> fold (visit Destructive) as ?c" by (rule fold_visit_ge)
    also have "\<dots> \<le> fold (visit Destructive) kws (fold (visit Destructive) as ?c)" by (rule fold_visit_ge)
    finally show ?thesis by simp
  qed
  consider "f = g" | "(f, args) \<in> set (calls g)"
    | a where "a \<in> set as" "(f, args) \<in> set (calls a)" | k where "k \<in> set kws" "(f, args) \<in> set (calls k)"
    using "1.prems" by auto
  then show ?case
  proof cases
    case 1
    then show ?thesis by (intro up) (simp add: check_path_le)
  next
    case 2
    then have "attr_path g = []" using attr_path_no_calls [of g] by force
    then show ?thesis by (intro up) (simp add: unresolved_call_max)
  next
    case 3
    then have "?v \<le> fold (visit Destructive) as ?c"
      using "1.IH" by (intro fold_visit_reaches) auto
    then show ?thesis by (auto intro: order_trans fold_visit_ge)
  next
    case 4
    then show ?thesis using "1.IH" by (auto intro!: fold_visit_reaches)
  qed
next
  case (6 ks vs)
  let ?f = "\<lambda>k r. case k of None \<Rightarrow> r | Some n \<Rightarrow> visit Destructive n r"
  let ?v = "check_path Destructive (attr_path f) Read"
  consider n where "Some n \<in> set ks" "(f, args) \<in> set (calls n)" | v where "v \<in> set vs" "(f, args) \<in> set (calls v)"
    using "6.prems" by (auto split: option.splits)
  then show ?case
  proof cases
    case 1
    then have "?v \<le> fold ?f ks r"
      using "6.IH"(1) by (intro fold_reaches [of "Some n"]) (auto simp: visit_ge split: option.split)
    then show ?thesis by (auto intro: order_trans fold_visit_ge)
  next
    case 2
    then show ?thesis using "6.IH"(2) by (auto intro!: fold_visit_reaches)
  qed
next
  case (8 l op x)
  then show ?case by (auto intro: order_trans [OF _ visit_ge])
qed (auto intro!: fold_visit_reaches)

text \<open>The three curated call sets do not overlap where the order of tests would matter.\<close>

lemma destructive_paths:
  "p \<in> set PY_DESTRUCTIVE \<Longrightarrow> p \<noteq> [] \<and> p \<notin> set PY_SAFE_BUILTINS \<and> p \<notin> set PY_EXTERNAL"
  by (auto simp: PY_DESTRUCTIVE_def PY_SAFE_BUILTINS_def PY_EXTERNAL_def)

lemma external_paths: "p \<in> set PY_EXTERNAL \<Longrightarrow> p \<noteq> [] \<and> p \<notin> set PY_SAFE_BUILTINS"
  by (auto simp: PY_SAFE_BUILTINS_def PY_EXTERNAL_def)

section \<open>Properties\<close>

text \<open>static classification of submitted Python is sound for calls.  Whatever the
  program, any call anywhere in it bounds the reported risk from below: a target that cannot
  be resolved, or a destructive one, makes the program \<open>DESTRUCTIVE\<close>; an external one makes
  it at least \<open>EXTERNAL\<close>; a target whose module is in no curated set makes it
  \<open>DESTRUCTIVE\<close> (fail closed).\<close>

theorem python_calls_bound_risk:
  assumes "parse code = Some t" and "(f, args) \<in> set (calls t)"
  shows "let p = attr_path f; r = classify_python parse code Destructive in
    (p = [] \<longrightarrow> r = Destructive) \<and>
    (p \<in> set PY_DESTRUCTIVE \<longrightarrow> r = Destructive) \<and>
    (p \<in> set PY_EXTERNAL \<longrightarrow> External \<le> r) \<and>
    (p \<notin> set PY_SAFE_BUILTINS \<and> p \<notin> set PY_EXTERNAL \<and> \<not> recognised_module (top_name p) \<longrightarrow> r = Destructive)"
proof -
  let ?p = "attr_path f" and ?r = "classify_python parse code Destructive"
  have r: "check_path Destructive ?p Read \<le> ?r"
    using visit_covers_calls [OF assms(2), of Read] assms(1) by (simp add: classify_python_def)
  have top: "x = Destructive" if "Destructive \<le> x" for x :: risk_level
    using that by (rule antisym [rotated]) simp
  have "?p = [] \<Longrightarrow> ?r = Destructive"
    using r by (intro top) (simp add: check_path_def escalate_max max_def)
  moreover have "?p \<in> set PY_DESTRUCTIVE \<Longrightarrow> ?r = Destructive"
    using r destructive_paths [of ?p] by (intro top) (simp add: check_path_def escalate_max max_def)
  moreover have "?p \<in> set PY_EXTERNAL \<Longrightarrow> External \<le> ?r"
    using r external_paths [of ?p] by (simp add: check_path_def escalate_max max_def)
  moreover have "?r = Destructive"
    if "?p \<notin> set PY_SAFE_BUILTINS" "?p \<notin> set PY_EXTERNAL" "\<not> recognised_module (top_name ?p)"
    using r that
    by (intro top) (simp add: check_path_def Let_def escalate_max max_def recognised_module_def split: if_splits)
  ultimately show ?thesis by (simp add: Let_def)
qed

text \<open>\<open>print(os.system(cmd))\<close>: the dangerous call is an argument of a harmless one.\<close>

theorem python_calls_bound_risk_witness:
  "External \<le> classify_python (\<lambda>_. Some (Other [Call (Name ''print'')
      [Call (Attribute (Name ''os'') ''system'') [Name ''cmd''] []] []])) ''print(os.system(cmd))'' Destructive"
proof -
  let ?t = "Other [Call (Name ''print'') [Call (Attribute (Name ''os'') ''system'') [Name ''cmd''] []] []]"
  have "(Attribute (Name ''os'') ''system'', [Name ''cmd'']) \<in> set (calls ?t)"
    by simp
  from python_calls_bound_risk [of "\<lambda>_. Some ?t", OF refl this] show ?thesis
    by (simp add: Let_def PY_EXTERNAL_def)
qed

text \<open>where the classification is not fail closed.  \<open>import m, evil\<close> is judged by its
  first name only, so an unknown module after a safe one goes unnoticed although alone it is
  \<open>DESTRUCTIVE\<close>; and a name of the safe-builtin list is harmless whatever an import bound it
  to, so \<open>from subprocess import run as open\<close> followed by \<open>open(x)\<close> is \<open>READ\<close>.\<close>

theorem python_import_gaps:
  assumes "recognised_module (top_name m)" and "\<not> recognised_module (top_name evil)"
    and "b \<in> set PY_SAFE_BUILTINS" and "recognised_module (top_name src)" and "b \<notin> set DYNAMIC_BUILTINS"
    and "b \<noteq> []"
  shows "visit Destructive (Other [Import (m # evil # rest)]) Read = Read \<and>
    visit Destructive (Other [Import [evil]]) Read = Destructive \<and>
    visit Destructive (Other [ImportFrom (Some src), Call (Name b) [Constant CStr] []]) Read = Read"
proof -
  have "b \<notin> {''getattr'', ''setattr'', ''delattr''}"
    using assms(3) by (auto simp: PY_SAFE_BUILTINS_def)
  with assms show ?thesis
    by (simp add: check_call_func_def check_dynamic_def check_path_def escalate_def)
qed

theorem python_import_gaps_witness:
  "visit Destructive (Other [Import [''json'', ''evil'']]) Read = Read \<and>
   visit Destructive (Other [Import [''evil'']]) Read = Destructive \<and>
   visit Destructive (Other [ImportFrom (Some ''subprocess''), Call (Name ''open'') [Constant CStr] []]) Read = Read"
proof -
  have a: "recognised_module (top_name ''json'')" "\<not> recognised_module (top_name ''evil'')"
      "''open'' \<in> set PY_SAFE_BUILTINS" "recognised_module (top_name ''subprocess'')"
      "''open'' \<notin> set DYNAMIC_BUILTINS" "''open'' \<noteq> []"
    by (simp_all add: recognised_module_def top_name_def PY_SAFE_MODULES_def PY_EXTERNAL_def
        PY_DESTRUCTIVE_def PY_SAFE_BUILTINS_def DYNAMIC_BUILTINS_def)
  show ?thesis
    using python_import_gaps [OF a] by blast
qed

end
