(* ===== verification/Shellrisk.thy ===== *)
theory Shellrisk
  imports Models
begin

text \<open>
  \<open>sworker/permissions.py\<close>: classification of shell commands, with \<open>shlex.split\<close> (POSIX mode,
  whitespace splitting, no comments) as the character machine the standard library runs.
  Lemmas: a command that does not tokenise is refused at the ceiling, an interpreter is
  \<open>EXTERNAL\<close> whatever follows it, and the ceiling holds for every other command.
\<close>

section \<open>shlex.split\<close>

datatype lex_state =
    InSpace
  | InWord
  | InQuote char
  | InEscape lex_state    \<comment> \<open>the state to return to\<close>

definition lex_space :: "char \<Rightarrow> bool" where
  "lex_space c \<longleftrightarrow> c \<in> {CHR '' '', CHR 0x09, CHR 0x0D, CHR 0x0A}"

definition lex_quote :: "char \<Rightarrow> bool" where
  "lex_quote c \<longleftrightarrow> c \<in> {CHR 0x27, CHR 0x22}"

abbreviation backslash :: char where
  "backslash \<equiv> CHR 0x5C"

text \<open>
  \<open>shlex_run st tok quoted cs\<close>: \<open>tok\<close> is the token so far (reversed), \<open>quoted\<close> whether a quote
  was opened in it.  The result lists the remaining tokens; \<open>None\<close> is the \<open>ValueError\<close> of an
  unclosed quote or a trailing backslash.
\<close>

definition emit :: "string \<Rightarrow> bool \<Rightarrow> string list \<Rightarrow> string list" where
  "emit tok quoted rest = (if tok \<noteq> [] \<or> quoted then rev tok # rest else rest)"

fun shlex_run :: "lex_state \<Rightarrow> string \<Rightarrow> bool \<Rightarrow> string \<Rightarrow> string list option" where
  "shlex_run InSpace tok q [] = Some (emit tok q [])"
| "shlex_run InWord tok q [] = Some (emit tok q [])"
| "shlex_run (InQuote d) tok q [] = None"
| "shlex_run (InEscape st) tok q [] = None"
| "shlex_run InSpace tok q (c # cs) =
     (if lex_space c then map_option (emit tok q) (shlex_run InSpace [] False cs)
      else if c = backslash then shlex_run (InEscape InWord) tok q cs
      else if lex_quote c then shlex_run (InQuote c) tok True cs
      else shlex_run InWord (c # tok) q cs)"
| "shlex_run (InQuote d) tok q (c # cs) =
     (if c = d then shlex_run InWord tok True cs
      else if c = backslash \<and> d = CHR 0x22 then shlex_run (InEscape (InQuote d)) tok True cs
      else shlex_run (InQuote d) (c # tok) True cs)"
| "shlex_run (InEscape st) tok q (c # cs) =
     (case st of
        InQuote d \<Rightarrow> (if c \<noteq> backslash \<and> c \<noteq> d then shlex_run st (c # backslash # tok) q cs
                      else shlex_run st (c # tok) q cs)
      | _ \<Rightarrow> shlex_run st (c # tok) q cs)"
| "shlex_run InWord tok q (c # cs) =
     (if lex_space c then map_option (emit tok q) (shlex_run InSpace [] False cs)
      else if lex_quote c then shlex_run (InQuote c) tok True cs
      else if c = backslash then shlex_run (InEscape InWord) tok q cs
      else shlex_run InWord (c # tok) q cs)"

definition shlex_split :: "string \<Rightarrow> string list option" where
  "shlex_split s = shlex_run InSpace [] False s"

section \<open>Classification\<close>

definition basename :: "string \<Rightarrow> string" where
  "basename p = last (split_on CHR ''/'' p)"

definition INTERPRETER_BINARIES :: "string list" where
  "INTERPRETER_BINARIES = [
     ''python'', ''python3'', ''python3.10'', ''python3.11'', ''python3.12'', ''python3.14'',
     ''python2'', ''python2.7'', ''perl'', ''ruby'', ''node'', ''nodejs'', ''lua'', ''php'',
     ''bash'', ''sh'', ''zsh'', ''ksh'', ''fish'', ''dash'', ''tcsh'', ''csh'', ''osascript'',
     ''pwsh'', ''powershell'', ''tclsh'', ''expect'', ''awk'', ''gawk'', ''mawk'', ''julia'',
     ''r'', ''Rscript'', ''guile'', ''sbcl'', ''racket'', ''ghci'', ''deno'', ''bun'',
     ''java'', ''javaw'', ''dotnet'', ''sqlite3'', ''psql'', ''mysql'', ''bc'']"

definition DESTRUCTIVE_TOKENS :: "string list" where
  "DESTRUCTIVE_TOKENS = [''rm '', ''rmdir'', ''shred '', ''dd '', ''mkfs'', ''format'']"

definition NETWORK_TOKENS :: "string list" where
  "NETWORK_TOKENS = [''curl'', ''wget'', ''ssh'', ''scp'', ''nc '', ''ncat'', ''sftp'', ''rsync'', ''telnet'']"

definition is_interpreter :: "string \<Rightarrow> bool" where
  "is_interpreter arg0 \<longleftrightarrow> basename arg0 \<in> set INTERPRETER_BINARIES \<or> arg0 \<in> set INTERPRETER_BINARIES"

definition classify_shell :: "string \<Rightarrow> risk_level \<Rightarrow> risk_level" where
  "classify_shell command max_reach = (case shlex_split command of
       None \<Rightarrow> max_reach
     | Some [] \<Rightarrow> Reversible
     | Some (arg0 # _) \<Rightarrow>
         (if is_interpreter arg0 then External
          else let lower = str_lower command;
                   risk = (if list_ex (\<lambda>t. contains lower t) DESTRUCTIVE_TOKENS then Destructive
                           else if list_ex (\<lambda>t. contains lower t) NETWORK_TOKENS then External
                           else Reversible)
               in if risk_rank risk > risk_rank max_reach then max_reach else risk))"

section \<open>Lemmas\<close>

lemma contains_append: "contains s p \<longleftrightarrow> (\<exists>a b. s = a @ p @ b)"
proof (induction s)
  case (Cons c s)
  have "(\<exists>a b. c # s = a @ p @ b) \<longleftrightarrow> (\<exists>b. c # s = p @ b) \<or> (\<exists>a b. s = a @ p @ b)"
    by (metis append_Cons append_Nil list.sel(3) neq_Nil_conv)
  with Cons show ?case by (simp add: starts_with_append)
qed simp

text \<open>A word without blanks, quotes or backslashes is one token.\<close>

definition plain_char :: "char \<Rightarrow> bool" where
  "plain_char c \<longleftrightarrow> \<not> lex_space c \<and> \<not> lex_quote c \<and> c \<noteq> backslash"

lemma shlex_plain_word:
  "\<forall>c\<in>set w. plain_char c \<Longrightarrow>
   shlex_run InWord tok q (w @ CHR '' '' # cs) = map_option (emit (rev w @ tok) q) (shlex_run InSpace [] False cs)"
proof (induction w arbitrary: tok)
  case Nil
  then show ?case by (simp add: lex_space_def)
next
  case (Cons c w)
  then have "plain_char c" by simp
  with Cons show ?case by (simp add: plain_char_def)
qed

lemma shlex_split_word:
  assumes "w \<noteq> []" and "\<forall>c\<in>set w. plain_char c"
  shows "shlex_split (w @ CHR '' '' # cs) = map_option (\<lambda>r. w # r) (shlex_run InSpace [] False cs)"
proof -
  obtain c w' where w: "w = c # w'" using assms(1) by (cases w) auto
  with assms have "plain_char c" by simp
  with w assms show ?thesis
    by (simp add: shlex_split_def plain_char_def shlex_plain_word emit_def map_option_case split: option.split)
qed

lemma shell_ceiling:
  assumes "shlex_split command = Some argv" and "argv \<noteq> []" and "\<not> is_interpreter (hd argv)"
  shows "classify_shell command mx \<le> mx"
  using assms by (cases argv) (auto simp: classify_shell_def Let_def risk_le_rank [symmetric])

section \<open>Properties\<close>

text \<open>shell classification, branch by branch.  A command that does not tokenise sits at
  the ceiling; an interpreter is exactly \<open>EXTERNAL\<close>; any other command stays within the
  ceiling, is \<open>DESTRUCTIVE\<close> (capped) when its lower-cased text holds a destructive token, and
  is never below the lesser of \<open>REVERSIBLE\<close> and the ceiling.\<close>

theorem shell_risk_branches:
  "case shlex_split command of
     None \<Rightarrow> classify_shell command mx = mx
   | Some [] \<Rightarrow> classify_shell command mx = Reversible
   | Some (a # _) \<Rightarrow>
       if is_interpreter a then classify_shell command mx = External
       else classify_shell command mx \<le> mx \<and> min Reversible mx \<le> classify_shell command mx \<and>
            ((\<exists>t\<in>set DESTRUCTIVE_TOKENS. contains (str_lower command) t) \<longrightarrow>
               classify_shell command mx = mx)"
proof (cases "shlex_split command")
  case (Some argv)
  show ?thesis
  proof (cases argv)
    case (Cons a rest)
    have "classify_shell command mx = mx"
      if "\<not> is_interpreter a" "\<exists>t\<in>set DESTRUCTIVE_TOKENS. contains (str_lower command) t"
    proof -
      have "list_ex (\<lambda>t. contains (str_lower command) t) DESTRUCTIVE_TOKENS"
        using that(2) by (auto simp: list_ex_iff)
      with that(1) Some Cons show ?thesis
        using risk_rank_le_4 [of mx] by (cases mx) (simp_all add: classify_shell_def)
    qed
    moreover have "min Reversible mx \<le> classify_shell command mx" if "\<not> is_interpreter a"
      using that Some Cons
      by (cases mx) (simp_all add: classify_shell_def Let_def min_def less_eq_risk_level_def)
    ultimately show ?thesis
      using Some Cons shell_ceiling [of command argv mx] by (auto simp: classify_shell_def)
  qed (simp add: Some classify_shell_def)
qed (simp add: classify_shell_def)

theorem shell_risk_branches_witness:
  "classify_shell ''ls -l'' Destructive \<le> Destructive \<and> min Reversible Destructive \<le> classify_shell ''ls -l'' Destructive"
proof -
  have "shlex_split ''ls -l'' = Some [''ls'', ''-l'']"
    by (simp add: shlex_split_def lex_space_def lex_quote_def emit_def)
  with shell_risk_branches [of "''ls -l''" Destructive] show ?thesis
    by (simp add: is_interpreter_def basename_def INTERPRETER_BINARIES_def)
qed

text \<open>an interpreter call escapes both bounds that the documentation states.  It is
  documented as a floor and as never above \<open>max_reach\<close>; in fact the answer is \<open>EXTERNAL\<close>
  even when the ceiling is lower, and even when the command line deletes files.\<close>

theorem interpreter_not_a_floor:
  assumes "bin \<in> set INTERPRETER_BINARIES" and "shlex_run InSpace [] False args = Some rest"
    and "\<forall>c\<in>set bin. plain_char c"
  shows "classify_shell (bin @ CHR '' '' # args) mx = External"
proof -
  have "bin \<noteq> []" using assms(1) by (auto simp: INTERPRETER_BINARIES_def)
  with assms show ?thesis
    by (simp add: classify_shell_def shlex_split_word is_interpreter_def)
qed

theorem interpreter_not_a_floor_witness:
  "classify_shell ''bash -c rm /data'' Destructive = External \<and> classify_shell ''bash -c rm /data'' Read = External"
proof -
  have l: "shlex_run InSpace [] False ''-c rm /data'' = Some [''-c'', ''rm'', ''/data'']"
    by (simp add: lex_space_def lex_quote_def emit_def)
  have b: "''bash'' \<in> set INTERPRETER_BINARIES" by (simp add: INTERPRETER_BINARIES_def)
  have c: "\<forall>c\<in>set ''bash''. plain_char c" by (simp add: plain_char_def lex_space_def lex_quote_def)
  show ?thesis
    using interpreter_not_a_floor [OF b l c] by simp
qed

end
