(* ===== verification/Tables.thy ===== *)
theory Tables
  imports Prelude
begin

text \<open>
  Keyed containers.  Several components keep records under a string key: the rows of a
  sqlite table (\<open>INSERT OR REPLACE\<close> deletes the old row and appends the new one), Python
  dictionaries (update in place), the role and tenant registries.  The interface is the
  locale \<open>keyed\<close>: a lookup and an update with the read-over-write law; its lemmas are
  proved once and hold for every container that interprets it.
\<close>

section \<open>Rows of a table\<close>

type_synonym row = "string \<times> doc"

fun rows_get :: "(string \<times> 'v) list \<Rightarrow> string \<Rightarrow> 'v option" where
  "rows_get [] k = None"
| "rows_get ((k', v) # rs) k = (if k' = k then Some v else rows_get rs k)"

definition rows_del :: "(string \<times> 'v) list \<Rightarrow> string \<Rightarrow> (string \<times> 'v) list" where
  "rows_del rs k = filter (\<lambda>(k', _). k' \<noteq> k) rs"

definition rows_put :: "(string \<times> 'v) list \<Rightarrow> string \<Rightarrow> 'v \<Rightarrow> (string \<times> 'v) list" where
  "rows_put rs k v = rows_del rs k @ [(k, v)]"

lemma rows_get_append:
  "rows_get (xs @ ys) k = (case rows_get xs k of None \<Rightarrow> rows_get ys k | Some v \<Rightarrow> Some v)"
  by (induction xs) auto

lemma rows_get_del [simp]: "rows_get (rows_del rs k) k' = (if k = k' then None else rows_get rs k')"
  by (induction rs) (auto simp: rows_del_def)

lemma rows_get_put [simp]: "rows_get (rows_put rs k v) k' = (if k = k' then Some v else rows_get rs k')"
  by (simp add: rows_put_def rows_get_append split: option.splits)

lemma rows_get_SomeD: "rows_get rs k = Some v \<Longrightarrow> (k, v) \<in> set rs"
  by (induction rs) (auto split: if_splits)

lemma set_rows_put: "set (rows_put rs k v) = insert (k, v) {(k', w) \<in> set rs. k' \<noteq> k}"
  by (auto simp: rows_put_def rows_del_def)

lemma keys_rows_put: "fst ` set (rows_put rs k v) = insert k (fst ` set rs)"
  by (force simp: set_rows_put)

lemma distinct_rows_del: "distinct (map fst rs) \<Longrightarrow> distinct (map fst (rows_del rs k))"
  unfolding rows_del_def by (rule distinct_map_filter)

lemma distinct_rows_put: "distinct (map fst rs) \<Longrightarrow> distinct (map fst (rows_put rs k v))"
  by (auto simp: rows_put_def distinct_rows_del) (auto simp: rows_del_def)

lemma rows_get_Some_iff:
  "distinct (map fst rs) \<Longrightarrow> rows_get rs k = Some v \<longleftrightarrow> (k, v) \<in> set rs"
  by (induction rs) (force split: if_splits)+

section \<open>The interface\<close>

locale keyed =
  fixes look :: "'s \<Rightarrow> 'k \<Rightarrow> 'v option"
    and upd :: "'s \<Rightarrow> 'k \<Rightarrow> 'v \<Rightarrow> 's"
  assumes look_upd: "look (upd s k v) k' = (if k = k' then Some v else look s k')"
begin

lemma look_same [simp]: "look (upd s k v) k = Some v"
  by (simp add: look_upd)

lemma look_other [simp]: "k \<noteq> k' \<Longrightarrow> look (upd s k v) k' = look s k'"
  by (simp add: look_upd)

text \<open>Writes to other keys, however many, do not change what a key holds.\<close>

lemma look_many_other: "k \<notin> fst ` set ws \<Longrightarrow> look (foldl (\<lambda>s (a, v). upd s a v) s ws) k = look s k"
proof (induction ws arbitrary: s)
  case (Cons w ws)
  then show ?case by (cases w) (auto simp: look_upd)
qed simp

text \<open>The last write to a key wins.\<close>

lemma look_last_write:
  "k \<notin> fst ` set ws \<Longrightarrow> look (foldl (\<lambda>s (a, v). upd s a v) (upd s k v) ws) k = Some v"
  by (simp add: look_many_other)

lemma look_defined_upd: "look s k' \<noteq> None \<Longrightarrow> look (upd s k v) k' \<noteq> None"
  by (simp add: look_upd)

lemma look_upd_abs: "look (upd s k v) = (look s)(k := Some v)"
  by (rule ext) (simp add: look_upd)

end

locale keyed_del = keyed look upd
  for look :: "'s \<Rightarrow> 'k \<Rightarrow> 'v option" and upd :: "'s \<Rightarrow> 'k \<Rightarrow> 'v \<Rightarrow> 's" +
  fixes del :: "'s \<Rightarrow> 'k \<Rightarrow> 's"
  assumes look_del: "look (del s k) k' = (if k = k' then None else look s k')"
begin

lemma del_upd_same: "look (del (upd s k v) k) k' = (if k = k' then None else look s k')"
  by (simp add: look_del look_upd)

lemma upd_del_same: "look (upd (del s k) k v) = look (upd s k v)"
  by (rule ext) (simp add: look_del look_upd)

end

interpretation rows: keyed_del rows_get rows_put rows_del
  by unfold_locales simp_all

interpretation dict: keyed dget dset
  by unfold_locales simp

end
