(* ===== verification/Json.thy ===== *)
theory Json
  imports Tables "HOL-Library.Option_ord"
begin

text \<open>
  Text forms of values that the code relies on: \<open>json.dumps(v, sort_keys=True)\<close> with the
  default separators and ASCII escapes, and \<open>str(v)\<close> as the table index stores it.
  The shortest float representation (\<open>float.__repr__\<close>) and the digest
  (\<open>hashlib.sha256\<close>) come in as functions of the environment record, as do the clock and
  the id generator, so every theorem holds whatever they return.
\<close>

record env =
  clock :: "nat \<Rightarrow> time"          \<comment> \<open>the n-th reading of \<open>time.time()\<close>\<close>
  uuid :: "nat \<Rightarrow> string"         \<comment> \<open>the n-th \<open>uuid4().hex[:12]\<close>\<close>
  float_repr :: "rat \<Rightarrow> string"
  sha256 :: "string \<Rightarrow> string"    \<comment> \<open>hex digest of the bytes\<close>

fun hex_digit :: "nat \<Rightarrow> char" where
  "hex_digit n = (if n < 10 then char_of (48 + n) else char_of (87 + n))"

definition json_char :: "char \<Rightarrow> string" where
  "json_char c = (let n = (of_char c :: nat) in
     if c = CHR 0x22 then [CHR 0x5C, CHR 0x22]
     else if c = CHR 0x5C then [CHR 0x5C, CHR 0x5C]
     else if n = 10 then [CHR 0x5C, CHR ''n'']
     else if n = 13 then [CHR 0x5C, CHR ''r'']
     else if n = 9 then [CHR 0x5C, CHR ''t'']
     else if n = 12 then [CHR 0x5C, CHR ''f'']
     else if n = 8 then [CHR 0x5C, CHR ''b'']
     else if 32 \<le> n \<and> n \<le> 126 then [c]
     else [CHR 0x5C, CHR ''u'', CHR ''0'', CHR ''0'', hex_digit (n div 16), hex_digit (n mod 16)])"

definition json_str :: "string \<Rightarrow> string" where
  "json_str s = [CHR 0x22] @ concat (map json_char s) @ [CHR 0x22]"

fun join :: "string \<Rightarrow> string list \<Rightarrow> string" where
  "join sep [] = []"
| "join sep [x] = x"
| "join sep (x # y # ys) = x @ sep @ join sep (y # ys)"

fun json_dumps :: "env \<Rightarrow> pyval \<Rightarrow> string" where
  "json_dumps e VNone = ''null''"
| "json_dumps e (VBool b) = (if b then ''true'' else ''false'')"
| "json_dumps e (VInt i) = int_str i"
| "json_dumps e (VFloat r) = float_repr e r"
| "json_dumps e (VStr s) = json_str s"
| "json_dumps e (VList xs) = ''['' @ join '', '' (map (json_dumps e) xs) @ '']''"
| "json_dumps e (VDict d) =
     ''{'' @ join '', '' (map (\<lambda>(k, j). json_str k @ '': '' @ j)
        (sort_key fst (map (\<lambda>(k, v). (k, json_dumps e v)) d))) @ ''}''"

text \<open>\<open>json.dumps(v)\<close> without key sorting.\<close>

fun json_plain :: "env \<Rightarrow> pyval \<Rightarrow> string" where
  "json_plain e (VList xs) = ''['' @ join '', '' (map (json_plain e) xs) @ '']''"
| "json_plain e (VDict d) =
     ''{'' @ join '', '' (map (\<lambda>(k, v). json_str k @ '': '' @ json_plain e v) d) @ ''}''"
| "json_plain e v = json_dumps e v"

text \<open>\<open>repr(v)\<close> and \<open>str(v)\<close>: a container shows the \<open>repr\<close> of its members; a string is
  quoted with apostrophes unless it holds an apostrophe and no double quote.\<close>

definition repr_char :: "char \<Rightarrow> char \<Rightarrow> string" where
  "repr_char q c = (let n = (of_char c :: nat) in
     if c = q \<or> c = CHR 0x5C then [CHR 0x5C, c]
     else if n = 10 then [CHR 0x5C, CHR ''n'']
     else if n = 13 then [CHR 0x5C, CHR ''r'']
     else if n = 9 then [CHR 0x5C, CHR ''t'']
     else if n < 32 \<or> (127 \<le> n \<and> n \<le> 160) \<or> n = 173
     then [CHR 0x5C, CHR ''x'', hex_digit (n div 16), hex_digit (n mod 16)]
     else [c])"

definition repr_str :: "string \<Rightarrow> string" where
  "repr_str s = (let q = (if CHR 0x27 \<in> set s \<and> CHR 0x22 \<notin> set s then CHR 0x22 else CHR 0x27)
     in [q] @ concat (map (repr_char q) s) @ [q])"

fun py_repr :: "env \<Rightarrow> pyval \<Rightarrow> string" where
  "py_repr e VNone = ''None''"
| "py_repr e (VBool b) = (if b then ''True'' else ''False'')"
| "py_repr e (VInt i) = int_str i"
| "py_repr e (VFloat r) = float_repr e r"
| "py_repr e (VStr s) = repr_str s"
| "py_repr e (VList xs) = ''['' @ join '', '' (map (py_repr e) xs) @ '']''"
| "py_repr e (VDict d) = ''{'' @ join '', '' (map (\<lambda>(k, v). repr_str k @ '': '' @ py_repr e v) d) @ ''}''"

fun py_str :: "env \<Rightarrow> pyval \<Rightarrow> string" where
  "py_str e (VStr s) = s"
| "py_str e v = py_repr e v"

lemma json_str_nonempty [simp]: "json_str s \<noteq> []"
  by (simp add: json_str_def)

text \<open>A concrete environment for evaluation: the clock counts, ids are numbered, and the digest
  is a 64-character stand-in.\<close>

definition demo_env :: env where
  "demo_env = \<lparr>clock = rat_of_nat, uuid = nat_str, float_repr = (\<lambda>_. ''0.0''),
     sha256 = (\<lambda>x. take 64 (x @ replicate 64 CHR ''0''))\<rparr>"

lemma demo_env_simps [simp]:
  "clock demo_env n = of_nat n" "uuid demo_env n = nat_str n"
  "length (sha256 demo_env x) = 64"
  by (simp_all add: demo_env_def)

chapter \<open>The indented form\<close>

text \<open>
  The indented form of \<open>json.dumps\<close>, which \<open>sworker/tools/knowledge.py\<close> shows and \<open>sworker/org.py\<close> stores.
\<close>

text \<open>\<open>json.dumps(\<dots>, indent=2, sort_keys=True)\<close>.\<close>

definition json_margin :: "nat \<Rightarrow> string" where
  "json_margin n = CHR 0x0A # replicate (2 * n) CHR '' ''"

fun json_indent :: "env \<Rightarrow> nat \<Rightarrow> pyval \<Rightarrow> string" where
  "json_indent e n (VList []) = ''[]''"
| "json_indent e n (VList (x # xs)) =
     ''['' @ json_margin (Suc n) @ join ('','' @ json_margin (Suc n)) (map (json_indent e (Suc n)) (x # xs)) @ json_margin n @ '']''"
| "json_indent e n (VDict []) = ''{}''"
| "json_indent e n (VDict (kv # d)) =
     ''{'' @ json_margin (Suc n) @ join ('','' @ json_margin (Suc n)) (map (\<lambda>(k, j). json_str k @ '': '' @ j)
        (sort_key fst (map (\<lambda>(k, v). (k, json_indent e (Suc n) v)) (kv # d)))) @ json_margin n @ ''}''"
| "json_indent e n v = json_dumps e v"

end
