(* ===== verification/Config.thy ===== *)
theory Config
  imports Json Models
begin

text \<open>
  \<open>sworker/config.py\<close>: the worker configuration, the policy a worker states per risk level,
  the approval requirements per risk level, and \<open>load_worker\<close> from the parsed YAML document
  on.  The YAML reader itself (PyYAML when installed) yields the document that
  \<open>load_worker_doc\<close> takes.  POSIX path functions are written out on strings; the file
  system (\<open>realpath\<close>) is a parameter.
\<close>

section \<open>POSIX paths\<close>

definition path_isabs :: "string \<Rightarrow> bool" where
  "path_isabs p = starts_with p ''/''"

definition path_join :: "string \<Rightarrow> string \<Rightarrow> string" where
  "path_join a b = (if path_isabs b then b
     else if a = [] \<or> ends_with a ''/'' then a @ b else a @ ''/'' @ b)"

fun norm_comps :: "bool \<Rightarrow> string list \<Rightarrow> string list \<Rightarrow> string list" where
  "norm_comps absolute acc [] = rev acc"
| "norm_comps absolute acc (c # cs) =
     (if c = [] \<or> c = ''.'' then norm_comps absolute acc cs
      else if c \<noteq> ''..'' \<or> (\<not> absolute \<and> acc = []) \<or> (acc \<noteq> [] \<and> hd acc = ''..'')
      then norm_comps absolute (c # acc) cs
      else if acc \<noteq> [] then norm_comps absolute (tl acc) cs
      else norm_comps absolute acc cs)"

definition path_norm :: "string \<Rightarrow> string" where
  "path_norm p = (if p = [] then ''.''
     else let lead = (if \<not> path_isabs p then []
                      else if starts_with p ''//'' \<and> \<not> starts_with p ''///'' then ''//'' else ''/'');
              q = lead @ join ''/'' (norm_comps (lead \<noteq> []) [] (split_on CHR ''/'' p))
          in if q = [] then ''.'' else q)"

definition path_abs :: "string \<Rightarrow> string \<Rightarrow> string" where
  "path_abs cwd p = path_norm (if path_isabs p then p else path_join cwd p)"

definition path_base :: "string \<Rightarrow> string" where
  "path_base p = rev (takeWhile (\<lambda>c. c \<noteq> CHR ''/'') (rev p))"

text \<open>\<open>os.path.splitext(p)[0]\<close>: leading dots of the file name do not start an extension.\<close>

definition path_stem :: "string \<Rightarrow> string" where
  "path_stem p = (let base = path_base p;
       ext = takeWhile (\<lambda>c. c \<noteq> CHR ''.'') (rev base)
     in if CHR ''.'' \<in> set base \<and> list_ex (\<lambda>c. c \<noteq> CHR ''.'') (take (length base - length ext - 1) base)
        then take (length p - length ext - 1) p else p)"

section \<open>Conversions\<close>

text \<open>\<open>int(v)\<close>.  A string may carry blanks around, a sign and single underscores between digits.\<close>

definition digit_val :: "char \<Rightarrow> nat option" where
  "digit_val c = (let n = (of_char c :: nat) in if 48 \<le> n \<and> n \<le> 57 then Some (n - 48) else None)"

fun digits_val :: "bool \<Rightarrow> nat \<Rightarrow> string \<Rightarrow> nat option" where
  "digits_val after_digit acc [] = (if after_digit then Some acc else None)"
| "digits_val after_digit acc (c # cs) =
     (if c = CHR ''_'' then (if after_digit then digits_val False acc cs else None)
      else case digit_val c of None \<Rightarrow> None | Some d \<Rightarrow> digits_val True (10 * acc + d) cs)"

definition parse_int :: "string \<Rightarrow> int option" where
  "parse_int s = (case str_strip s of
       [] \<Rightarrow> None
     | c # cs \<Rightarrow>
        if c = CHR ''-'' then map_option (\<lambda>n. - int n) (digits_val False 0 cs)
        else if c = CHR ''+'' then map_option int (digits_val False 0 cs)
        else map_option int (digits_val False 0 (c # cs)))"

fun py_int :: "pyval \<Rightarrow> error + int" where
  "py_int (VInt i) = Inr i"
| "py_int (VBool b) = Inr (if b then 1 else 0)"
| "py_int (VFloat r) = Inr (if 0 \<le> r then floor r else ceiling r)"
| "py_int (VStr s) = (case parse_int s of Some i \<Rightarrow> Inr i | None \<Rightarrow> Inl ValueError)"
| "py_int _ = Inl TypeError"

text \<open>\<open>d.get(k) or dflt\<close>.\<close>

definition get_or :: "doc \<Rightarrow> string \<Rightarrow> pyval \<Rightarrow> pyval" where
  "get_or d k dflt = (case dget d k of Some v \<Rightarrow> (if truthy v then v else dflt) | None \<Rightarrow> dflt)"

text \<open>Iteration: a list yields its members, a string its characters, a dictionary its keys.\<close>

fun py_iter :: "pyval \<Rightarrow> error + pyval list" where
  "py_iter (VList xs) = Inr xs"
| "py_iter (VStr s) = Inr (map (\<lambda>c. VStr [c]) s)"
| "py_iter (VDict d) = Inr (map (VStr \<circ> fst) d)"
| "py_iter _ = Inl TypeError"

definition bind_sum :: "error + 'a \<Rightarrow> ('a \<Rightarrow> error + 'b) \<Rightarrow> error + 'b" where
  "bind_sum r f = (case r of Inl e \<Rightarrow> Inl e | Inr x \<Rightarrow> f x)"

fun map_sum_list :: "('a \<Rightarrow> error + 'b) \<Rightarrow> 'a list \<Rightarrow> error + 'b list" where
  "map_sum_list f [] = Inr []"
| "map_sum_list f (x # xs) = bind_sum (f x) (\<lambda>y. bind_sum (map_sum_list f xs) (\<lambda>ys. Inr (y # ys)))"

lemma bind_sum_simps [simp]: "bind_sum (Inr x) f = f x" "bind_sum (Inl e) f = Inl e"
  by (simp_all add: bind_sum_def)

lemma bind_sumE: "bind_sum r f = Inr y \<Longrightarrow> (\<And>x. r = Inr x \<Longrightarrow> f x = Inr y \<Longrightarrow> P) \<Longrightarrow> P"
  by (cases r) auto

lemma bind_sum_Inr: "bind_sum r f = Inr y \<Longrightarrow> \<exists>x. r = Inr x \<and> f x = Inr y"
  by (cases r) auto

section \<open>Worker configuration\<close>

definition DEFAULT_POLICY :: "(string \<times> string) list" where
  "DEFAULT_POLICY = [(''read'', ''auto''), (''reversible'', ''auto''), (''external'', ''approve''),
     (''financial'', ''approve''), (''destructive'', ''approve'')]"

definition POLICY_VALUES :: "string list" where
  "POLICY_VALUES = [''auto'', ''approve'', ''deny'']"

record worker_config =
  wc_name :: string
  wc_role :: string
  wc_instructions :: string
  wc_knowledge :: "string list"
  wc_tools :: "string list"
  wc_procedures :: "string list"
  wc_connectors :: "doc list"
  wc_policy :: "(string \<times> string) list"
  wc_workspace :: string
  wc_fs_roots :: "string list"
  wc_shell_allow :: "string list"
  wc_env_allow :: "string list"
  wc_max_steps :: int
  wc_timeout :: int
  wc_max_output :: int
  wc_max_runtime :: int
  wc_max_actions :: int
  wc_max_tool_calls :: int
  wc_max_artifact_bytes :: int
  wc_max_python_runtime :: int
  wc_max_shell_runtime :: int
  wc_max_network_requests :: int
  wc_browser_allow :: "string list"
  wc_browser_timeout :: int
  wc_browser_downloads :: bool
  wc_browser_uploads :: bool
  wc_browser_credential_refs :: "string list"
  wc_browser_private_session :: bool
  wc_message_allow :: "string list"
  wc_message_rate_limit :: int
  wc_sandbox :: string
  wc_egress_allow :: "string list"
  wc_dlp_rules :: "string list"
  wc_disabled :: bool
  wc_triggers :: "doc list"
  wc_approval_policy :: "(string \<times> pyval) list"
  wc_path :: string

text \<open>\<open>WorkerConfig(name)\<close> with every default.\<close>

definition default_worker :: "string \<Rightarrow> worker_config" where
  "default_worker name = \<lparr>wc_name = name, wc_role = [], wc_instructions = [], wc_knowledge = [],
     wc_tools = [], wc_procedures = [], wc_connectors = [], wc_policy = DEFAULT_POLICY,
     wc_workspace = [], wc_fs_roots = [], wc_shell_allow = [], wc_env_allow = [],
     wc_max_steps = 12, wc_timeout = 60, wc_max_output = 20000, wc_max_runtime = 300,
     wc_max_actions = 24, wc_max_tool_calls = 100, wc_max_artifact_bytes = 5000000,
     wc_max_python_runtime = 60, wc_max_shell_runtime = 30, wc_max_network_requests = 20,
     wc_browser_allow = [], wc_browser_timeout = 30, wc_browser_downloads = False,
     wc_browser_uploads = False, wc_browser_credential_refs = [], wc_browser_private_session = True,
     wc_message_allow = [], wc_message_rate_limit = 0, wc_sandbox = ''none'', wc_egress_allow = [],
     wc_dlp_rules = [], wc_disabled = False, wc_triggers = [], wc_approval_policy = [], wc_path = []\<rparr>"

definition policy_for :: "worker_config \<Rightarrow> risk_level \<Rightarrow> string" where
  "policy_for w risk = (case dget (wc_policy w) (risk_level_value risk) of Some p \<Rightarrow> p | None \<Rightarrow> ''approve'')"

record appr_req =
  rq_quorum :: int
  rq_min_role :: string

text \<open>The requirement is \<open>{} or\<close>-defaulted when absent or falsy; anything but a mapping there
  has no \<open>get\<close> and raises.\<close>

definition approval_policy_for :: "env \<Rightarrow> worker_config \<Rightarrow> risk_level \<Rightarrow> error + appr_req" where
  "approval_policy_for e w risk =
     (case get_or (wc_approval_policy w) (risk_level_value risk) (VDict []) of
        VDict raw \<Rightarrow>
          bind_sum (case dget raw ''quorum'' of None \<Rightarrow> Inr 1 | Some VNone \<Rightarrow> Inr 1 | Some q \<Rightarrow> py_int q)
            (\<lambda>quorum. Inr \<lparr>rq_quorum = (if quorum < 1 then 1 else quorum),
               rq_min_role = (case dget raw ''min_role'' of None \<Rightarrow> []
                   | Some r \<Rightarrow> (if truthy r then py_str e r else []))\<rparr>)
      | _ \<Rightarrow> Inl TypeError)"

definition resolved_fs_roots :: "(string \<Rightarrow> string) \<Rightarrow> worker_config \<Rightarrow> string list" where
  "resolved_fs_roots realpath w =
     (let roots = map realpath (if wc_fs_roots w = [] then [wc_workspace w] else wc_fs_roots w);
          ws = realpath (wc_workspace w)
      in if ws \<in> set roots then roots else roots @ [ws])"

section \<open>Loading\<close>

definition norm_key :: "env \<Rightarrow> pyval \<Rightarrow> string" where
  "norm_key e v = str_lower (str_strip (py_str e v))"

fun load_policy :: "env \<Rightarrow> doc \<Rightarrow> (string \<times> string) list \<Rightarrow> error + (string \<times> string) list" where
  "load_policy e [] policy = Inr policy"
| "load_policy e ((k, v) # rest) policy =
     (let key = str_lower (str_strip k); val = norm_key e v in
      if key \<notin> set (dkeys DEFAULT_POLICY) then Inl ValueError
      else if val \<notin> set POLICY_VALUES then Inl ValueError
      else load_policy e rest (dset policy key val))"

definition str_list :: "env \<Rightarrow> doc \<Rightarrow> string \<Rightarrow> error + string list" where
  "str_list e d k = bind_sum (py_iter (get_or d k (VList []))) (\<lambda>xs. Inr (map (py_str e) xs))"

text \<open>\<open>dict(v)\<close>: a mapping is copied, an iterable of pairs becomes one.\<close>

fun as_pair :: "pyval \<Rightarrow> error + string \<times> pyval" where
  "as_pair (VList [VStr k, v]) = Inr (k, v)"
| "as_pair (VList [k, v]) = Inl TypeError"
| "as_pair (VStr [c1, c2]) = Inr ([c1], VStr [c2])"
| "as_pair (VDict [(k, _), (k', _)]) = Inr (k, VStr k')"
| "as_pair (VList _) = Inl ValueError"
| "as_pair (VStr _) = Inl ValueError"
| "as_pair (VDict _) = Inl ValueError"
| "as_pair _ = Inl TypeError"

definition as_dict :: "pyval \<Rightarrow> error + doc" where
  "as_dict v = (case v of VDict d \<Rightarrow> Inr d
     | _ \<Rightarrow> bind_sum (py_iter v) (\<lambda>xs. bind_sum (map_sum_list as_pair xs) (\<lambda>ps.
              Inr (foldl (\<lambda>d (k, x). dset d k x) [] ps))))"

definition dict_list :: "doc \<Rightarrow> string \<Rightarrow> error + doc list" where
  "dict_list d k = bind_sum (py_iter (get_or d k (VList []))) (map_sum_list as_dict)"

definition items_of :: "doc \<Rightarrow> string \<Rightarrow> error + doc" where
  "items_of d k = (case get_or d k (VDict []) of VDict x \<Rightarrow> Inr x | _ \<Rightarrow> Inl TypeError)"

definition str_or :: "env \<Rightarrow> doc \<Rightarrow> string \<Rightarrow> string \<Rightarrow> string" where
  "str_or e d k dflt = py_str e (get_or d k (VStr dflt))"

definition bool_or :: "doc \<Rightarrow> string \<Rightarrow> bool" where
  "bool_or d k = truthy (get_or d k (VBool False))"

text \<open>\<open>load_worker\<close> after the YAML was read.  The keyword arguments are evaluated in order; the
  numeric limits other than \<open>max_steps\<close>, \<open>browser_timeout\<close> and \<open>message_rate_limit\<close>
  are not read from the file and keep their defaults.\<close>

definition load_worker_doc :: "env \<Rightarrow> string \<Rightarrow> string \<Rightarrow> string \<Rightarrow> pyval \<Rightarrow> error + worker_config" where
  "load_worker_doc e cwd ws_root path parsed =
    (case parsed of VDict d \<Rightarrow>
      (let abs = (\<lambda>p. if path_isabs p then p else path_abs cwd (path_join ws_root p)) in
       bind_sum (items_of d ''policy'') (\<lambda>pol.
       bind_sum (load_policy e pol DEFAULT_POLICY) (\<lambda>policy.
       bind_sum (str_list e d ''knowledge'') (\<lambda>knowledge.
       bind_sum (str_list e d ''tools'') (\<lambda>tools.
       bind_sum (str_list e d ''procedures'') (\<lambda>procedures.
       bind_sum (dict_list d ''connectors'') (\<lambda>connectors.
       bind_sum (str_list e d ''fs_roots'') (\<lambda>roots.
       bind_sum (str_list e d ''shell_allow'') (\<lambda>shell_allow.
       bind_sum (str_list e d ''env_allow'') (\<lambda>env_allow.
       bind_sum (py_int (get_or d ''max_steps'' (VInt 12))) (\<lambda>max_steps.
       bind_sum (str_list e d ''browser_allow'') (\<lambda>browser_allow.
       bind_sum (py_int (get_or d ''browser_timeout'' (VInt 30))) (\<lambda>browser_timeout.
       bind_sum (str_list e d ''browser_credential_refs'') (\<lambda>creds.
       bind_sum (str_list e d ''message_allow'') (\<lambda>message_allow.
       bind_sum (py_int (get_or d ''message_rate_limit'' (VInt 0))) (\<lambda>rate.
       bind_sum (str_list e d ''egress_allow'') (\<lambda>egress_allow.
       bind_sum (str_list e d ''dlp_rules'') (\<lambda>dlp_rules.
       bind_sum (dict_list d ''triggers'') (\<lambda>triggers.
       bind_sum (items_of d ''approval_policy'') (\<lambda>appr.
       bind_sum (map_sum_list (\<lambda>(k, v). bind_sum (as_dict v) (\<lambda>x. Inr (k, VDict x))) appr) (\<lambda>appr_policy.
         Inr ((default_worker (str_or e d ''name'' (path_stem (path_base path))))\<lparr>
           wc_role := str_or e d ''role'' [], wc_instructions := str_or e d ''instructions'' [],
           wc_knowledge := map abs knowledge, wc_tools := tools, wc_procedures := procedures,
           wc_connectors := connectors, wc_policy := policy, wc_workspace := ws_root,
           wc_fs_roots := (if roots = [] then [ws_root] else map abs roots),
           wc_shell_allow := shell_allow, wc_env_allow := env_allow, wc_max_steps := max_steps,
           wc_browser_allow := browser_allow, wc_browser_timeout := browser_timeout,
           wc_browser_downloads := bool_or d ''browser_downloads'',
           wc_browser_uploads := bool_or d ''browser_uploads'', wc_browser_credential_refs := creds,
           wc_browser_private_session := (case dget d ''browser_private_session'' of
               None \<Rightarrow> True | Some VNone \<Rightarrow> True | Some v \<Rightarrow> truthy v),
           wc_message_allow := message_allow, wc_message_rate_limit := rate,
           wc_sandbox := str_or e d ''sandbox'' ''none'', wc_egress_allow := egress_allow,
           wc_dlp_rules := dlp_rules, wc_disabled := bool_or d ''disabled'', wc_triggers := triggers,
           wc_approval_policy := appr_policy, wc_path := path_abs cwd path\<rparr>))))))))))))))))))))))
     | _ \<Rightarrow> Inl ValueError)"

end
