(* ===== verification/Tools_Base.thy ===== *)
theory Tools_Base
  imports Config "HOL-Library.Sublist"
begin

text \<open>
  \<open>sworker/tools/base.py\<close>: tool metadata, argument validation against the input schema, the
  registry with its glob subsets, the tool context and its path boundary, the subprocess
  environment, and output truncation.  What a tool does when it runs is modelled per tool.
  Lemmas: validated arguments hold exactly schema keys, the path boundary is component-wise
  (no sibling directory with a common name prefix passes), and a registry subset never
  widens the registry.
\<close>

section \<open>Tools\<close>

record tool =
  tool_name :: string
  tool_description :: string
  tool_schema :: doc
  tool_risk :: risk_level
  tool_reversible :: bool
  tool_requires_approval :: bool
  tool_permissions :: "string list"
  tool_categories :: "string list"

record tool_result =
  tr_ok :: bool
  tr_output :: string
  tr_error :: string
  tr_data :: doc
  tr_truncated :: bool
  tr_artifacts :: "string list"
  tr_evidence :: "doc list"

text \<open>\<open>ToolResult(ok)\<close> with its defaults, and the two short forms the tools use.\<close>

definition tr_plain :: "bool \<Rightarrow> tool_result" where
  "tr_plain ok = \<lparr>tr_ok = ok, tr_output = [], tr_error = [], tr_data = [], tr_truncated = False,
     tr_artifacts = [], tr_evidence = []\<rparr>"

definition tr_fail :: "string \<Rightarrow> doc \<Rightarrow> tool_result" where
  "tr_fail err data = (tr_plain False)\<lparr>tr_error := err, tr_data := data\<rparr>"

definition tool_spec :: "tool \<Rightarrow> doc" where
  "tool_spec t = [(''name'', VStr (tool_name t)), (''description'', VStr (tool_description t)),
     (''input_schema'', VDict (tool_schema t)),
     (''output_schema'', VDict [(''type'', VStr ''object'')]),
     (''risk_level'', VStr (risk_level_value (tool_risk t))), (''permissions'', strs (tool_permissions t)),
     (''reversible'', VBool (tool_reversible t)), (''requires_approval'', VBool (tool_requires_approval t)),
     (''categories'', strs (tool_categories t))]"

section \<open>Validation\<close>

text \<open>Numbers compare across \<open>bool\<close>, \<open>int\<close> and \<open>float\<close>.\<close>

fun num_of :: "pyval \<Rightarrow> rat option" where
  "num_of (VBool b) = Some (if b then 1 else 0)"
| "num_of (VInt i) = Some (of_int i)"
| "num_of (VFloat r) = Some r"
| "num_of _ = None"

definition py_eq :: "pyval \<Rightarrow> pyval \<Rightarrow> bool" where
  "py_eq a b = (case (num_of a, num_of b) of (Some x, Some y) \<Rightarrow> x = y | _ \<Rightarrow> a = b)"

text \<open>\<open>float(s)\<close> on decimal notation with an optional exponent.\<close>

definition split_exp :: "string \<Rightarrow> string \<times> string option" where
  "split_exp s = (let m = takeWhile (\<lambda>c. c \<noteq> CHR ''e'' \<and> c \<noteq> CHR ''E'') s
     in if length m = length s then (s, None) else (m, Some (drop (Suc (length m)) s)))"

definition parse_mantissa :: "string \<Rightarrow> rat option" where
  "parse_mantissa s = (let w = takeWhile (\<lambda>c. c \<noteq> CHR ''.'') s; f = drop (Suc (length w)) s;
       part = (\<lambda>ds. if ds = [] then Some 0 else digits_val False 0 ds)
     in if w = [] \<and> f = [] then None
        else case (part w, part f) of
               (Some a, Some b) \<Rightarrow> Some (of_nat a + of_nat b / 10 ^ length (filter (\<lambda>c. c \<noteq> CHR ''_'') f))
             | _ \<Rightarrow> None)"

definition parse_ufloat :: "string \<Rightarrow> rat option" where
  "parse_ufloat s = (case split_exp s of
       (m, None) \<Rightarrow> parse_mantissa m
     | (m, Some x) \<Rightarrow> (case (parse_mantissa m, if str_strip x = x then parse_int x else None) of
           (Some r, Some k) \<Rightarrow> Some (if 0 \<le> k then r * 10 ^ nat k else r / 10 ^ nat (- k))
         | _ \<Rightarrow> None))"

definition parse_float :: "string \<Rightarrow> rat option" where
  "parse_float s = (case str_strip s of
       [] \<Rightarrow> None
     | c # cs \<Rightarrow> if c = CHR ''-'' then map_option uminus (parse_ufloat cs)
                 else if c = CHR ''+'' then parse_ufloat cs else parse_ufloat (c # cs))"

fun py_float :: "pyval \<Rightarrow> error + rat" where
  "py_float (VStr s) = (case parse_float s of Some r \<Rightarrow> Inr r | None \<Rightarrow> Inl ValueError)"
| "py_float v = (case num_of v of Some r \<Rightarrow> Inr r | None \<Rightarrow> Inl TypeError)"

definition coerce_arg :: "env \<Rightarrow> string \<Rightarrow> pyval \<Rightarrow> error + pyval" where
  "coerce_arg e want v =
     (if want = ''string'' then Inr (case v of VStr s \<Rightarrow> v | _ \<Rightarrow> VStr (py_str e v))
      else if want = ''integer'' then (case py_int v of Inr i \<Rightarrow> Inr (VInt i) | Inl _ \<Rightarrow> Inl ToolError)
      else if want = ''number'' then (case py_float v of Inr r \<Rightarrow> Inr (VFloat r) | Inl _ \<Rightarrow> Inl ToolError)
      else if want = ''boolean'' then Inr (VBool (truthy v))
      else if want = ''array'' then (case v of VList _ \<Rightarrow> Inr v | _ \<Rightarrow> Inl ToolError)
      else if want = ''object'' then (case v of VDict _ \<Rightarrow> Inr v | _ \<Rightarrow> Inl ToolError)
      else Inr v)"

definition enum_ok :: "doc \<Rightarrow> pyval \<Rightarrow> bool" where
  "enum_ok spec v = (case dget spec ''enum'' of Some (VList xs) \<Rightarrow> list_ex (py_eq v) xs | _ \<Rightarrow> True)"

fun validate_props :: "env \<Rightarrow> doc \<Rightarrow> doc \<Rightarrow> doc \<Rightarrow> error + doc" where
  "validate_props e args [] out = Inr out"
| "validate_props e args ((k, sp) # props) out =
     (let spec = val_doc sp in
      case dget args k of
        None \<Rightarrow> validate_props e args props
                  (case dget spec ''default'' of Some v \<Rightarrow> dset out k v | None \<Rightarrow> out)
      | Some v \<Rightarrow> bind_sum (coerce_arg e (get_str spec ''type'') v) (\<lambda>v'.
          if enum_ok spec v' then validate_props e args props (dset out k v') else Inl ToolError))"

definition required_keys :: "tool \<Rightarrow> string list" where
  "required_keys t = map val_str (get_list (tool_schema t) ''required'')"

definition validate :: "env \<Rightarrow> tool \<Rightarrow> doc \<Rightarrow> error + doc" where
  "validate e t args =
     (let props = get_dict (tool_schema t) ''properties'' in
      if \<not> list_all (\<lambda>k. k \<in> set (dkeys props)) (dkeys args) then Inl ToolError
      else if list_ex (\<lambda>k. dget args k \<in> {None, Some VNone, Some (VStr [])}) (required_keys t) then Inl ToolError
      else validate_props e args props [])"

section \<open>Registry\<close>

type_synonym registry = "(string \<times> tool) list"

definition reg_register :: "registry \<Rightarrow> tool \<Rightarrow> error + registry" where
  "reg_register r t = (if tool_name t = [] then Inl ValueError else Inr (dset r (tool_name t) t))"

definition reg_get :: "registry \<Rightarrow> string \<Rightarrow> error + tool" where
  "reg_get r n = (case dget r n of None \<Rightarrow> Inl ToolError | Some t \<Rightarrow> Inr t)"

definition reg_has :: "registry \<Rightarrow> string \<Rightarrow> bool" where
  "reg_has r n = (dget r n \<noteq> None)"

definition reg_names :: "registry \<Rightarrow> string list" where
  "reg_names r = sort (dkeys r)"

definition reg_specs :: "registry \<Rightarrow> doc list" where
  "reg_specs r = map tool_spec (sort_key tool_name (map snd r))"

fun reg_add_all :: "tool list \<Rightarrow> registry \<Rightarrow> error + registry" where
  "reg_add_all [] acc = Inr acc"
| "reg_add_all (t # ts) acc = bind_sum (reg_register acc t) (reg_add_all ts)"

fun reg_subset_acc :: "registry \<Rightarrow> string list \<Rightarrow> registry \<Rightarrow> error + registry" where
  "reg_subset_acc r [] acc = Inr acc"
| "reg_subset_acc r (n # ns) acc =
     bind_sum
       (if ends_with n ''.*''
        then reg_add_all (map snd (filter (\<lambda>(k, t). starts_with k (butlast n)) r)) acc
        else if n = ''*'' then reg_add_all (map snd r) acc
        else bind_sum (reg_get r n) (reg_register acc))
       (reg_subset_acc r ns)"

definition reg_subset :: "registry \<Rightarrow> string list \<Rightarrow> error + registry" where
  "reg_subset r ns = reg_subset_acc r ns []"

section \<open>Tool context\<close>

record tool_context =
  tc_worker :: string
  tc_run_id :: string
  tc_workspace :: string
  tc_fs_roots :: "string list"
  tc_artifacts_dir :: string
  tc_shell_allow :: "string list"
  tc_env_allow :: "string list"
  tc_timeout :: int
  tc_max_output :: int
  tc_live_pids :: "int list"
  tc_max_python_runtime :: int
  tc_max_shell_runtime :: int
  tc_browser_allow :: "string list"
  tc_browser_timeout :: int
  tc_browser_downloads :: bool
  tc_browser_uploads :: bool
  tc_browser_credential_refs :: "string list"
  tc_browser_private_session :: bool
  tc_message_allow :: "string list"
  tc_message_rate_limit :: int
  tc_messages_sent :: int
  tc_sandbox :: string
  tc_egress_allow :: "string list"
  tc_dlp_rules :: "string list"

definition register_subprocess :: "tool_context \<Rightarrow> int \<Rightarrow> tool_context" where
  "register_subprocess c p = c\<lparr>tc_live_pids := List.insert p (tc_live_pids c)\<rparr>"

definition unregister_subprocess :: "tool_context \<Rightarrow> int \<Rightarrow> tool_context" where
  "unregister_subprocess c p = c\<lparr>tc_live_pids := removeAll p (tc_live_pids c)\<rparr>"

text \<open>The parts of the operating system that path resolution reads.\<close>

record fsys =
  realpath :: "string \<Rightarrow> string"
  expanduser :: "string \<Rightarrow> string"
  path_exists :: "string \<Rightarrow> bool"

definition inside_root :: "fsys \<Rightarrow> string \<Rightarrow> string \<Rightarrow> bool" where
  "inside_root fs p rt = (let r = realpath fs rt in p = r \<or> starts_with p (r @ ''/''))"

definition resolve :: "fsys \<Rightarrow> tool_context \<Rightarrow> bool \<Rightarrow> string \<Rightarrow> error + string" where
  "resolve fs c must_exist path =
     (let p = realpath fs (path_join (tc_workspace c) (expanduser fs path)) in
      case find (inside_root fs p) (tc_fs_roots c) of
        Some _ \<Rightarrow> (if must_exist \<and> \<not> path_exists fs p then Inl ToolError else Inr p)
      | None \<Rightarrow> Inl ToolError)"

definition clean_env :: "(string \<Rightarrow> string option) \<Rightarrow> tool_context \<Rightarrow> (string \<times> string) list" where
  "clean_env getenv c =
     foldl (\<lambda>d k. case getenv k of Some v \<Rightarrow> dset d k v | None \<Rightarrow> d)
       [(''PATH'', case getenv ''PATH'' of Some v \<Rightarrow> v | None \<Rightarrow> ''/usr/bin:/bin''),
        (''HOME'', tc_workspace c), (''LANG'', ''C.UTF-8''), (''SWORKER_RUN_ID'', tc_run_id c)]
       (tc_env_allow c)"

definition truncate_text :: "string \<Rightarrow> int \<Rightarrow> string \<times> bool" where
  "truncate_text text limit =
     (if int (length text) \<le> limit then (text, False)
      else ((if 0 \<le> limit then take (nat limit) text else take (length text - nat (- limit)) text)
              @ [CHR 0x0A] @ ''... [truncated at '' @ int_str limit @ '' chars]'', True))"

section \<open>Lemmas\<close>

text \<open>Component-wise inclusion of paths.\<close>

definition comps :: "string \<Rightarrow> string list" where
  "comps p = split_on CHR ''/'' p"

lemma inside_root_comps: "inside_root fs p rt \<Longrightarrow> prefix (comps (realpath fs rt)) (comps p)"
  by (auto simp: inside_root_def Let_def starts_with_append comps_def split_on_append)

lemma find_ex: "x \<in> set xs \<Longrightarrow> P x \<Longrightarrow> \<exists>y. find P xs = Some y"
  by (induction xs) auto

lemma find_SomeD: "find P xs = Some x \<Longrightarrow> x \<in> set xs \<and> P x"
  by (induction xs) (auto split: if_splits)

lemma validate_props_keys:
  "validate_props e args props out = Inr out' \<Longrightarrow> set (dkeys out') \<subseteq> set (dkeys out) \<union> set (dkeys props)"
proof (induction e args props out rule: validate_props.induct)
  case (2 e args k sp props out)
  then show ?case
    by (fastforce simp: dkeys_dset Let_def split: option.splits if_splits dest: bind_sum_Inr)
qed simp

lemma reg_register_names: "reg_register acc t = Inr r \<Longrightarrow> r = dset acc (tool_name t) t"
  by (auto simp: reg_register_def split: if_splits)

text \<open>Every tool of a subset is a tool of the full registry, under its own name.\<close>

definition named :: "registry \<Rightarrow> bool" where
  "named r \<longleftrightarrow> (\<forall>(k, t)\<in>set r. k = tool_name t)"

lemma set_dset_sub: "set (dset d k v) \<subseteq> insert (k, v) (set d)"
  by (induction d k v rule: dset.induct) auto

lemma reg_add_all_sub:
  "reg_add_all ts acc = Inr r \<Longrightarrow> set r \<subseteq> set acc \<union> (\<lambda>t. (tool_name t, t)) ` set ts"
proof (induction ts arbitrary: acc)
  case (Cons t ts)
  from Cons.prems obtain acc' where r: "reg_register acc t = Inr acc'" "reg_add_all ts acc' = Inr r"
    by (auto elim: bind_sumE)
  have "set acc' \<subseteq> insert (tool_name t, t) (set acc)"
    unfolding reg_register_names [OF r(1)] by (rule set_dset_sub)
  moreover have "set r \<subseteq> set acc' \<union> (\<lambda>t. (tool_name t, t)) ` set ts"
    by (rule Cons.IH [OF r(2)])
  ultimately show ?case by auto
qed simp

lemma named_image:
  assumes "named r" and "set xs \<subseteq> set r"
  shows "(\<lambda>t. (tool_name t, t)) ` set (map snd xs) \<subseteq> set r"
proof
  fix q
  assume "q \<in> (\<lambda>t. (tool_name t, t)) ` set (map snd xs)"
  then obtain k t where "(k, t) \<in> set xs" "q = (tool_name t, t)" by auto
  moreover from this assms have "(k, t) \<in> set r" "k = tool_name t" by (auto simp: named_def)
  ultimately show "q \<in> set r" by simp
qed

lemma reg_add_some_sub:
  assumes "named r" and "set acc \<subseteq> set r" and "set xs \<subseteq> set r" and "reg_add_all (map snd xs) acc = Inr acc'"
  shows "set acc' \<subseteq> set r"
  using reg_add_all_sub [OF assms(4)] named_image [OF assms(1,3)] assms(2) by blast

lemma reg_subset_acc_sub:
  assumes "named r"
  shows "reg_subset_acc r ns acc = Inr r' \<Longrightarrow> set acc \<subseteq> set r \<Longrightarrow> set r' \<subseteq> set r"
proof (induction ns arbitrary: acc)
  case (Cons n ns)
  then obtain acc' where a: "reg_subset_acc r ns acc' = Inr r'"
    and b: "(if ends_with n ''.*'' then reg_add_all (map snd (filter (\<lambda>(k, t). starts_with k (butlast n)) r)) acc
        else if n = ''*'' then reg_add_all (map snd r) acc
        else bind_sum (reg_get r n) (reg_register acc)) = Inr acc'"
    by (auto dest!: bind_sum_Inr)
  consider "ends_with n ''.*''" "reg_add_all (map snd (filter (\<lambda>(k, t). starts_with k (butlast n)) r)) acc = Inr acc'"
    | "reg_add_all (map snd r) acc = Inr acc'"
    | t where "dget r n = Some t" "acc' = dset acc (tool_name t) t"
    using b by (auto simp: reg_get_def dest!: bind_sum_Inr reg_register_names split: option.splits if_splits)
  then have "set acc' \<subseteq> set r"
  proof cases
    case 1
    show ?thesis by (rule reg_add_some_sub [OF assms Cons.prems(2) filter_is_subset 1(2)])
  next
    case 2
    show ?thesis by (rule reg_add_some_sub [OF assms Cons.prems(2) subset_refl 2])
  next
    case 3
    then have "(tool_name t, t) \<in> set r" using assms by (auto simp: named_def dest!: dget_SomeD)
    then show ?thesis using 3(2) set_dset_sub [of acc "tool_name t" t] Cons.prems(2) by blast
  qed
  with Cons.IH a show ?case by blast
qed simp

section \<open>Properties\<close>

text \<open>C16: the filesystem boundary.  A path that \<open>resolve\<close> accepts is the real path of the
  joined argument, and some declared root, itself resolved, is a prefix of it component by
  component, so neither \<open>..\<close>, nor a symbolic link, nor a sibling whose name merely starts
  with the root's name leaves the boundary; with \<open>must_exist\<close> it also exists.\<close>

theorem resolve_confined:
  assumes "resolve fs c must_exist path = Inr p"
  shows "p = realpath fs (path_join (tc_workspace c) (expanduser fs path)) \<and>
    (\<exists>rt\<in>set (tc_fs_roots c). prefix (comps (realpath fs rt)) (comps p)) \<and>
    (must_exist \<longrightarrow> path_exists fs p)"
  using assms
  by (auto simp: resolve_def Let_def split: option.splits if_splits dest!: find_SomeD intro: inside_root_comps)

definition demo_fs :: fsys where
  "demo_fs = \<lparr>realpath = path_norm, expanduser = (\<lambda>p. p), path_exists = (\<lambda>_. True)\<rparr>"

definition demo_ctx :: tool_context where
  "demo_ctx = \<lparr>tc_worker = ''w'', tc_run_id = ''r1'', tc_workspace = ''/ws'', tc_fs_roots = [''/ws''],
     tc_artifacts_dir = ''/ws/artifacts/w'', tc_shell_allow = [], tc_env_allow = [], tc_timeout = 30,
     tc_max_output = 20000, tc_live_pids = [], tc_max_python_runtime = 60, tc_max_shell_runtime = 30,
     tc_browser_allow = [], tc_browser_timeout = 30, tc_browser_downloads = False,
     tc_browser_uploads = False, tc_browser_credential_refs = [], tc_browser_private_session = True,
     tc_message_allow = [], tc_message_rate_limit = 0, tc_messages_sent = 0, tc_sandbox = ''none'',
     tc_egress_allow = [], tc_dlp_rules = []\<rparr>"

theorem resolve_confined_witness:
  "prefix (comps (realpath demo_fs ''/ws'')) (comps ''/ws/b.txt'')
   \<and> resolve demo_fs demo_ctx True ''../wsx/b.txt'' = Inl ToolError"
proof -
  have r: "resolve demo_fs demo_ctx True ''a/../b.txt'' = Inr ''/ws/b.txt''" by code_simp
  have "resolve demo_fs demo_ctx True ''../wsx/b.txt'' = Inl ToolError" by code_simp
  moreover have "tc_fs_roots demo_ctx = [''/ws'']" by (simp add: demo_ctx_def)
  ultimately show ?thesis using resolve_confined [OF r] by auto
qed

text \<open>a worker's tool subset never widens the registry: whatever names and globs the
  configuration lists, \<open>subset\<close> either fails on an unknown tool or returns tools of the
  registry only, unchanged.\<close>

theorem subset_never_widens:
  assumes "\<forall>(k, t)\<in>set r. k = tool_name t" and "reg_subset r ns = Inr r'"
  shows "set r' \<subseteq> set r"
  using reg_subset_acc_sub [of r ns "[]" r'] assms by (simp add: reg_subset_def named_def)

definition demo_tool :: "string \<Rightarrow> risk_level \<Rightarrow> tool" where
  "demo_tool n rk = \<lparr>tool_name = n, tool_description = [], tool_schema = [], tool_risk = rk,
     tool_reversible = True, tool_requires_approval = False, tool_permissions = [], tool_categories = []\<rparr>"

definition demo_registry :: registry where
  "demo_registry = map (\<lambda>(n, rk). (n, demo_tool n rk))
     [(''fs.read'', Read), (''fs.write'', Reversible), (''http.get'', External)]"

theorem subset_never_widens_witness:
  "\<exists>r'. reg_subset demo_registry [''fs.*''] = Inr r' \<and> set r' \<subseteq> set demo_registry \<and> length r' = 2"
proof -
  have n: "\<forall>(k, t)\<in>set demo_registry. k = tool_name t"
    by (simp add: demo_registry_def demo_tool_def)
  have r: "reg_subset demo_registry [''fs.*''] = Inr (take 2 demo_registry)"
    by (simp add: reg_subset_def demo_registry_def ends_with_def reg_register_def demo_tool_def)
  from subset_never_widens [OF n r] r show ?thesis by (simp add: demo_registry_def)
qed

end
