(* ===== verification/Urls.thy ===== *)
theory Urls
  imports Prelude
begin

text \<open>
  The part of \<open>urllib.parse.urlparse\<close> that the HTTP tool and the risk rules read: the scheme
  and the host name of a URL, following \<open>urlsplit\<close> and \<open>_hostinfo\<close> of the standard library.
  A malformed bracket in the authority raises \<open>ValueError\<close>.
\<close>

definition is_alpha :: "char \<Rightarrow> bool" where
  "is_alpha c = (let n = (of_char c :: nat) in (65 \<le> n \<and> n \<le> 90) \<or> (97 \<le> n \<and> n \<le> 122))"

definition is_digit :: "char \<Rightarrow> bool" where
  "is_digit c = (let n = (of_char c :: nat) in 48 \<le> n \<and> n \<le> 57)"

definition scheme_char :: "char \<Rightarrow> bool" where
  "scheme_char c = (is_alpha c \<or> is_digit c \<or> c \<in> {CHR ''+'', CHR ''-'', CHR ''.''})"

text \<open>\<open>s.partition(c)\<close> as (before, found, after).\<close>

definition partition_at :: "char \<Rightarrow> string \<Rightarrow> string \<times> bool \<times> string" where
  "partition_at c s = (let a = takeWhile (\<lambda>x. x \<noteq> c) s; b = dropWhile (\<lambda>x. x \<noteq> c) s
     in if b = [] then (s, False, []) else (a, True, tl b))"

definition rpartition_after :: "char \<Rightarrow> string \<Rightarrow> string" where
  "rpartition_after c s = rev (takeWhile (\<lambda>x. x \<noteq> c) (rev s))"

definition clean_url :: "string \<Rightarrow> string" where
  "clean_url u = filter (\<lambda>c. c \<notin> {CHR 0x09, CHR 0x0A, CHR 0x0D})
     (dropWhile (\<lambda>c. (of_char c :: nat) \<le> 32) u)"

definition split_scheme :: "string \<Rightarrow> string \<times> string" where
  "split_scheme u = (case partition_at CHR '':'' u of (pre, found, post) \<Rightarrow>
     if found \<and> pre \<noteq> [] \<and> is_alpha (hd pre) \<and> list_all scheme_char pre
     then (str_lower pre, post) else ([], u))"

definition url_parts :: "string \<Rightarrow> error + string \<times> string" where
  "url_parts url = (let (scheme, rest) = split_scheme (clean_url url) in
     if starts_with rest ''//''
     then let netloc = takeWhile (\<lambda>c. c \<notin> {CHR ''/'', CHR ''?'', CHR ''#''}) (drop 2 rest)
          in if (CHR ''['' \<in> set netloc) \<noteq> (CHR '']'' \<in> set netloc) then Inl ValueError
             else Inr (scheme, netloc)
     else Inr (scheme, []))"

definition host_of_netloc :: "string \<Rightarrow> string" where
  "host_of_netloc netloc = (let hostinfo = rpartition_after CHR ''@'' netloc in
     case partition_at CHR ''['' hostinfo of (_, br, bracketed) \<Rightarrow>
       let h = (if br then fst (partition_at CHR '']'' bracketed) else fst (partition_at CHR '':'' hostinfo))
       in case partition_at CHR ''%'' h of (a, z, b) \<Rightarrow> (if z then str_lower a @ ''%'' @ b else str_lower h))"

text \<open>\<open>urlparse(url).scheme\<close> and \<open>urlparse(url).hostname or ""\<close>.\<close>

definition url_scheme :: "string \<Rightarrow> error + string" where
  "url_scheme url = (case url_parts url of Inl e \<Rightarrow> Inl e | Inr (s, _) \<Rightarrow> Inr s)"

definition url_host :: "string \<Rightarrow> error + string" where
  "url_host url = (case url_parts url of Inl e \<Rightarrow> Inl e | Inr (_, n) \<Rightarrow> Inr (host_of_netloc n))"

lemmas url_defs = url_scheme_def url_host_def url_parts_def host_of_netloc_def split_scheme_def
  clean_url_def partition_at_def rpartition_after_def scheme_char_def is_alpha_def is_digit_def
  str_lower_def lower_char_def

lemma url_example: "url_host ''http://user@LocalHost:8000/x?q'' = Inr ''localhost''"
  by code_simp

end
