(* ===== verification/Regex.thy ===== *)
theory Regex
  imports Prelude
begin

text \<open>
  The fragment of \<open>re\<close> that the built-in pattern catalogs use: character classes, sequence,
  alternation, repetition, word boundaries and one-character look-around.  A position in a
  text is the reversed prefix and the rest; \<open>rx_ends r p\<close> lists the positions where a match of
  \<open>r\<close> started at \<open>p\<close> may end.  \<open>re.search\<close> asks only whether some match exists, so greediness
  does not matter.  Classes are those of \<open>str\<close> patterns on Latin-1 text.
\<close>

type_synonym pos = "string \<times> string"

datatype rx =
    Cls "char \<Rightarrow> bool"
  | Empty
  | Cat rx rx
  | Alt rx rx
  | Many rx             \<comment> \<open>\<open>r*\<close>\<close>
  | Times nat rx        \<comment> \<open>\<open>r{n}\<close>\<close>
  | UpTo nat rx         \<comment> \<open>\<open>r{0,n}\<close>\<close>
  | Bound               \<comment> \<open>\<open>\b\<close>\<close>
  | NotBehind "char \<Rightarrow> bool"
  | NotAhead "char \<Rightarrow> bool"

definition is_word :: "char \<Rightarrow> bool" where
  "is_word c = (let n = (of_char c :: nat) in
     (48 \<le> n \<and> n \<le> 57) \<or> (65 \<le> n \<and> n \<le> 90) \<or> (97 \<le> n \<and> n \<le> 122) \<or> n = 95 \<or>
     n \<in> {170, 178, 179, 181, 185, 186, 188, 189, 190} \<or> (192 \<le> n \<and> n \<noteq> 215 \<and> n \<noteq> 247))"

definition is_rx_space :: "char \<Rightarrow> bool" where
  "is_rx_space c = (let n = (of_char c :: nat) in (9 \<le> n \<and> n \<le> 13) \<or> (28 \<le> n \<and> n \<le> 32) \<or> n = 133 \<or> n = 160)"

definition is_rx_digit :: "char \<Rightarrow> bool" where
  "is_rx_digit c = (let n = (of_char c :: nat) in 48 \<le> n \<and> n \<le> 57)"

definition any_char :: "char \<Rightarrow> bool" where
  "any_char c = (c \<noteq> CHR 0x0A)"

definition between :: "char \<Rightarrow> char \<Rightarrow> char \<Rightarrow> bool" where
  "between a b c = (of_char a \<le> (of_char c :: nat) \<and> (of_char c :: nat) \<le> of_char b)"

definition at_bound :: "pos \<Rightarrow> bool" where
  "at_bound p = ((fst p \<noteq> [] \<and> is_word (hd (fst p))) \<noteq> (snd p \<noteq> [] \<and> is_word (hd (snd p))))"

definition step_cls :: "(char \<Rightarrow> bool) \<Rightarrow> pos \<Rightarrow> pos list" where
  "step_cls P p = (case snd p of [] \<Rightarrow> [] | c # cs \<Rightarrow> if P c then [(c # fst p, cs)] else [])"

text \<open>Repetition of a step function: exactly \<open>n\<close> rounds, and at most \<open>n\<close> rounds.\<close>

fun rounds :: "nat \<Rightarrow> (pos \<Rightarrow> pos list) \<Rightarrow> pos \<Rightarrow> pos list" where
  "rounds 0 f p = [p]"
| "rounds (Suc n) f p = concat (map (rounds n f) (f p))"

fun rounds_upto :: "nat \<Rightarrow> (pos \<Rightarrow> pos list) \<Rightarrow> pos \<Rightarrow> pos list" where
  "rounds_upto 0 f p = [p]"
| "rounds_upto (Suc n) f p = p # concat (map (rounds_upto n f) (f p))"

text \<open>A star needs at most one round per remaining character, as rounds that consume nothing
  reach no new position.\<close>

fun rx_ends :: "rx \<Rightarrow> pos \<Rightarrow> pos list" where
  "rx_ends (Cls P) p = step_cls P p"
| "rx_ends Empty p = [p]"
| "rx_ends (Cat a b) p = concat (map (rx_ends b) (rx_ends a p))"
| "rx_ends (Alt a b) p = rx_ends a p @ rx_ends b p"
| "rx_ends (Many r) p = rounds_upto (length (snd p)) (rx_ends r) p"
| "rx_ends (Times n r) p = rounds n (rx_ends r) p"
| "rx_ends (UpTo n r) p = rounds_upto n (rx_ends r) p"
| "rx_ends Bound p = (if at_bound p then [p] else [])"
| "rx_ends (NotBehind P) p = (if fst p \<noteq> [] \<and> P (hd (fst p)) then [] else [p])"
| "rx_ends (NotAhead P) p = (if snd p \<noteq> [] \<and> P (hd (snd p)) then [] else [p])"

fun search_from :: "rx \<Rightarrow> string \<Rightarrow> string \<Rightarrow> bool" where
  "search_from r pre [] = (rx_ends r (pre, []) \<noteq> [])"
| "search_from r pre (c # cs) = (rx_ends r (pre, c # cs) \<noteq> [] \<or> search_from r (c # pre) cs)"

definition rx_search :: "rx \<Rightarrow> string \<Rightarrow> bool" where
  "rx_search r text = search_from r [] text"

section \<open>Building patterns\<close>

definition lit :: "char \<Rightarrow> rx" where
  "lit c = Cls (\<lambda>x. x = c)"

definition lit_i :: "char \<Rightarrow> rx" where
  "lit_i c = Cls (\<lambda>x. lower_char x = c)"

definition cats :: "rx list \<Rightarrow> rx" where
  "cats rs = foldr Cat rs Empty"

fun alts :: "rx list \<Rightarrow> rx" where
  "alts [] = Cls (\<lambda>_. False)"
| "alts [r] = r"
| "alts (r # rs) = Alt r (alts rs)"

definition str_rx :: "string \<Rightarrow> rx" where
  "str_rx s = cats (map lit s)"

text \<open>A word under \<open>(?i)\<close>, given in lower case.\<close>

definition word_i :: "string \<Rightarrow> rx" where
  "word_i s = cats (map lit_i s)"

definition words_i :: "string list \<Rightarrow> rx" where
  "words_i ws = alts (map word_i ws)"

definition opt :: "rx \<Rightarrow> rx" where
  "opt r = UpTo 1 r"

definition at_least :: "nat \<Rightarrow> rx \<Rightarrow> rx" where
  "at_least n r = Cat (Times n r) (Many r)"

definition spaces :: rx where
  "spaces = Many (Cls is_rx_space)"

definition gap :: "nat \<Rightarrow> rx" where
  "gap n = UpTo n (Cls any_char)"

section \<open>Lemmas\<close>

named_theorems rx_intros \<open>reachable match ends\<close>

text \<open>A match only ever moves characters from the rest to the prefix.\<close>

definition advances :: "pos \<Rightarrow> pos \<Rightarrow> bool" where
  "advances p q \<longleftrightarrow> (\<exists>m. snd p = m @ snd q \<and> fst q = rev m @ fst p)"

lemma advances_refl [simp]: "advances p p"
  by (auto simp: advances_def)

lemma advances_trans [trans]: "advances p q \<Longrightarrow> advances q r \<Longrightarrow> advances p r"
  by (auto simp: advances_def)

lemma step_cls_advances: "q \<in> set (step_cls P p) \<Longrightarrow> advances p q"
  by (auto simp: step_cls_def advances_def split: list.splits if_splits)

lemma step_cls_simps [simp]:
  "step_cls P (pre, []) = []" "step_cls P (pre, c # cs) = (if P c then [(c # pre, cs)] else [])"
  by (simp_all add: step_cls_def)

lemma rounds_advances:
  assumes "\<And>p q. q \<in> set (f p) \<Longrightarrow> advances p q"
  shows "q \<in> set (rounds n f p) \<Longrightarrow> advances p q"
proof (induction n arbitrary: p)
  case (Suc n)
  then obtain r where "r \<in> set (f p)" "advances r q" by auto
  with assms advances_trans show ?case by blast
qed simp

lemma rounds_upto_advances:
  assumes "\<And>p q. q \<in> set (f p) \<Longrightarrow> advances p q"
  shows "q \<in> set (rounds_upto n f p) \<Longrightarrow> advances p q"
proof (induction n arbitrary: p)
  case (Suc n)
  then consider "q = p" | r where "r \<in> set (f p)" "advances r q" by auto
  then show ?case
  proof cases
    case 2
    then show ?thesis using assms advances_trans by blast
  qed simp
qed simp

lemma rx_ends_advances: "q \<in> set (rx_ends r p) \<Longrightarrow> advances p q"
proof (induction r arbitrary: p q)
  case (Many r)
  then show ?case using rounds_upto_advances [of "rx_ends r"] by simp
next
  case (Times n r)
  then show ?case using rounds_advances [of "rx_ends r"] by simp
next
  case (UpTo n r)
  then show ?case using rounds_upto_advances [of "rx_ends r"] by simp
next
  case (Cat a b)
  then obtain r where "r \<in> set (rx_ends a p)" "q \<in> set (rx_ends b r)" by auto
  then show ?case using Cat.IH advances_trans by blast
qed (auto simp: step_cls_advances split: if_splits)

text \<open>Search finds exactly the texts with a match somewhere.\<close>

lemma search_from_iff:
  "search_from r pre s \<longleftrightarrow> (\<exists>a b. s = a @ b \<and> rx_ends r (rev a @ pre, b) \<noteq> [])"
proof (induction s arbitrary: pre)
  case (Cons c cs)
  show ?case (is "?l = ?r")
  proof
    assume ?l
    then consider "rx_ends r (pre, c # cs) \<noteq> []"
      | a b where "cs = a @ b" "rx_ends r (rev a @ c # pre, b) \<noteq> []"
      using Cons.IH [of "c # pre"] by auto
    then show ?r
    proof cases
      case 1
      then show ?thesis by (intro exI [of _ "[]"] exI [of _ "c # cs"]) simp
    next
      case 2
      then show ?thesis by (intro exI [of _ "c # a"] exI [of _ b]) simp
    qed
  next
    assume ?r
    then obtain a b where ab: "c # cs = a @ b" "rx_ends r (rev a @ pre, b) \<noteq> []" by blast
    show ?l
    proof (cases a)
      case (Cons d a')
      with ab have "cs = a' @ b" "rx_ends r (rev a' @ c # pre, b) \<noteq> []" by auto
      with Cons.IH [of "c # pre"] show ?thesis by auto
    next
      case Nil
      with ab(1) have "b = c # cs" by simp
      with Nil ab(2) show ?thesis by simp
    qed
  qed
qed simp

lemma rx_search_iff: "rx_search r s \<longleftrightarrow> (\<exists>a b. s = a @ b \<and> rx_ends r (rev a, b) \<noteq> [])"
  by (simp add: rx_search_def search_from_iff)

lemma rx_searchI: "q \<in> set (rx_ends r (rev a, b)) \<Longrightarrow> rx_search r (a @ b)"
  by (force simp: rx_search_iff)

text \<open>Building a match piece by piece.\<close>

lemma ends_Cat [rx_intros]: "q \<in> set (rx_ends a p) \<Longrightarrow> t \<in> set (rx_ends b q) \<Longrightarrow> t \<in> set (rx_ends (Cat a b) p)"
  by auto

lemma ends_Empty [rx_intros]: "p \<in> set (rx_ends Empty p)"
  by simp

lemma cats_Nil [simp]: "cats [] = Empty"
  by (simp add: cats_def)

lemma cats_Cons [simp]: "cats (r # rs) = Cat r (cats rs)"
  by (simp add: cats_def)

lemma ends_str: "(rev s @ pre, post) \<in> set (rx_ends (str_rx s) (pre, s @ post))"
  by (induction s arbitrary: pre) (auto simp: str_rx_def lit_def step_cls_def)

lemma ends_cats_append:
  "t \<in> set (rx_ends (cats (xs @ ys)) p) \<longleftrightarrow> (\<exists>q\<in>set (rx_ends (cats xs) p). t \<in> set (rx_ends (cats ys) q))"
  by (induction xs arbitrary: p) auto

lemma ends_Times_cls:
  "length m = n \<Longrightarrow> list_all P m \<Longrightarrow> (rev m @ pre, post) \<in> set (rx_ends (Times n (Cls P)) (pre, m @ post))"
proof (induction n arbitrary: m pre)
  case (Suc n)
  then obtain c cs where m: "m = c # cs" by (cases m) auto
  with Suc have "(rev cs @ c # pre, post) \<in> set (rx_ends (Times n (Cls P)) (c # pre, cs @ post))" by simp
  with m Suc.prems show ?case by simp
qed simp

lemma ends_word_i_map: "(rev m @ pre, post) \<in> set (rx_ends (word_i (map lower_char m)) (pre, m @ post))"
  by (induction m arbitrary: pre) (simp_all add: word_i_def lit_i_def)

lemma ends_word_i:
  "map lower_char m = w \<Longrightarrow> (rev m @ pre, post) \<in> set (rx_ends (word_i w) (pre, m @ post))"
  using ends_word_i_map [of m pre post] by simp

lemma ends_alts: "r \<in> set rs \<Longrightarrow> q \<in> set (rx_ends r p) \<Longrightarrow> q \<in> set (rx_ends (alts rs) p)"
  by (induction rs rule: alts.induct) auto

lemma ends_words_i:
  "map lower_char m \<in> set ws \<Longrightarrow> (rev m @ pre, post) \<in> set (rx_ends (words_i ws) (pre, m @ post))"
  unfolding words_i_def by (rule ends_alts [OF _ ends_word_i]) auto

lemma rounds_upto_cls:
  "length m \<le> n \<Longrightarrow> list_all P m \<Longrightarrow>
   (rev m @ pre, post) \<in> set (rounds_upto n (step_cls P) (pre, m @ post))"
proof (induction n arbitrary: m pre)
  case (Suc n)
  show ?case
  proof (cases m)
    case (Cons c cs)
    with Suc have "(rev cs @ c # pre, post) \<in> set (rounds_upto n (step_cls P) (c # pre, cs @ post))" by simp
    with Cons Suc.prems show ?thesis by simp
  qed simp
qed simp

lemma step_cls_ends [simp]: "rx_ends (Cls P) = step_cls P"
  by (rule ext) simp

lemma ends_UpTo_cls:
  "length m \<le> n \<Longrightarrow> list_all P m \<Longrightarrow> (rev m @ pre, post) \<in> set (rx_ends (UpTo n (Cls P)) (pre, m @ post))"
  by (simp add: rounds_upto_cls)

lemma ends_Many_cls:
  "list_all P m \<Longrightarrow> (rev m @ pre, post) \<in> set (rx_ends (Many (Cls P)) (pre, m @ post))"
  by (simp add: rounds_upto_cls)

lemma ends_opt_skip: "p \<in> set (rx_ends (opt r) p)"
  by (simp add: opt_def numeral_eq_Suc)

end
