(* ===== verification/Store.thy ===== *)
theory Store
  imports Json Models
begin

text \<open>
  \<open>sworker/store.py\<close>: the sqlite tables as lists of rows in rowid order (a row is its id and
  the document its JSON column encodes; index columns are computed from the document, as
  \<open>put\<close> computes them), the append-only audit file as a list of lines with its hash chain,
  tenant enforcement, and the chain verifier.  \<open>find\<close> without an \<open>ORDER BY\<close> returns rows
  in rowid order, and sorting is stable.
\<close>

section \<open>State\<close>

datatype audit_line = Blank | Garbled | Entry doc

record store =
  workspace_id :: string
  org_id :: string
  tables :: "string \<Rightarrow> row list"
  audit_log :: "audit_line list"
  ticks :: nat        \<comment> \<open>clock readings so far\<close>
  drawn :: nat        \<comment> \<open>ids drawn so far\<close>
  env :: env

type_synonym 'a sop = "(store, 'a) op"

definition enforce :: "store \<Rightarrow> bool" where
  "enforce s \<longleftrightarrow> workspace_id s \<noteq> []"

definition open_store :: "env \<Rightarrow> string \<Rightarrow> string \<Rightarrow> store" where
  "open_store e ws org = \<lparr>workspace_id = ws, org_id = org, tables = (\<lambda>_. []), audit_log = [],
     ticks = 0, drawn = 0, env = e\<rparr>"

definition GENESIS_HASH :: string where
  "GENESIS_HASH = ''genesis''"

definition TABLE_EXTRA :: "(string \<times> string list) list" where
  "TABLE_EXTRA = [
     (''tasks'', [''worker'', ''created'', ''origin'', ''procedure'']),
     (''plans'', [''run_id'', ''task_id'', ''created'']),
     (''steps'', [''run_id'', ''plan_id'', ''idx'', ''status'']),
     (''runs'', [''task_id'', ''worker'', ''status'', ''started'', ''seq'']),
     (''actions'', [''run_id'', ''step_id'', ''tool'', ''risk'', ''status'', ''created'']),
     (''observations'', [''run_id'', ''action_id'', ''ok'', ''created'']),
     (''evidence'', [''run_id'', ''provenance'', ''created'']),
     (''claims'', [''run_id'', ''confidence'', ''provenance'', ''created'']),
     (''verifications'', [''run_id'', ''claim_id'', ''outcome'', ''created'']),
     (''approvals'', [''run_id'', ''action_id'', ''state'', ''risk'', ''created'']),
     (''artifacts'', [''run_id'', ''kind'', ''created'', ''path'']),
     (''procedures'', [''name'', ''worker'', ''created'']),
     (''schedules'', [''worker'', ''procedure'', ''cron'', ''enabled'', ''next_run'']),
     (''users'', [''username'', ''disabled'', ''created'']),
     (''sessions'', [''token'', ''username'', ''created'', ''expires'', ''revoked'']),
     (''policies'', [''scope'', ''version'', ''actor'']),
     (''meta_kv'', [''k'', ''scope'']),
     (''secrets'', [''name'', ''fingerprint'']),
     (''degradations'', [''run_id'', ''category'', ''severity'', ''created''])]"

definition TENANT_COLS :: "string list" where
  "TENANT_COLS = [''org'', ''workspace'']"

definition TABLES :: "(string \<times> string list) list" where
  "TABLES = map (\<lambda>(t, cols). (t, cols @ TENANT_COLS)) TABLE_EXTRA"

definition table_cols :: "string \<Rightarrow> string list option" where
  "table_cols t = dget TABLES t"

definition known_table :: "string \<Rightarrow> bool" where
  "known_table t \<longleftrightarrow> table_cols t \<noteq> None"

text \<open>\<open>COLUMN_ALIASES\<close>: the field \<open>index\<close> of a step is the column \<open>idx\<close>.\<close>

definition col_of_field :: "string \<Rightarrow> string \<Rightarrow> string" where
  "col_of_field t k = (if t = ''steps'' \<and> k = ''index'' then ''idx'' else k)"

definition field_of_col :: "string \<Rightarrow> string \<Rightarrow> string" where
  "field_of_col t c = (if t = ''steps'' \<and> c = ''idx'' then ''index'' else c)"

text \<open>The value of an index column of a row: SQL \<open>NULL\<close> when the document has no such field
  (or \<open>None\<close>), its \<open>str\<close> otherwise.\<close>

definition col_value :: "env \<Rightarrow> string \<Rightarrow> doc \<Rightarrow> string \<Rightarrow> string option" where
  "col_value e t d c = (case dget d (field_of_col t c) of
       None \<Rightarrow> None | Some VNone \<Rightarrow> None | Some v \<Rightarrow> Some (py_str e v))"

section \<open>Clock and ids\<close>

definition op_now :: "time sop" where
  "op_now s = (Inr (clock (env s) (ticks s)), s\<lparr>ticks := Suc (ticks s)\<rparr>)"

definition new_id :: "string \<Rightarrow> string sop" where
  "new_id prefix s = (Inr (prefix @ ''_'' @ uuid (env s) (drawn s)), s\<lparr>drawn := Suc (drawn s)\<rparr>)"

section \<open>Audit log\<close>

text \<open>\<open>_hash_record\<close> feeds the digest with each key and the JSON of its value, keys sorted,
  \<open>event_hash\<close> left out, and nothing in between.\<close>

definition hash_preimage :: "env \<Rightarrow> doc \<Rightarrow> string" where
  "hash_preimage e rec = concat (map (\<lambda>(k, v). k @ json_dumps e v)
     (filter (\<lambda>(k, v). k \<noteq> ''event_hash'') (sort_key fst rec)))"

definition hash_record :: "env \<Rightarrow> doc \<Rightarrow> string" where
  "hash_record e rec = sha256 e (hash_preimage e rec)"

fun last_line :: "audit_line list \<Rightarrow> audit_line option" where
  "last_line [] = None"
| "last_line (l # ls) = (case last_line ls of Some l' \<Rightarrow> Some l' | None \<Rightarrow> (if l = Blank then None else Some l))"

definition previous_hash :: "audit_line list \<Rightarrow> pyval" where
  "previous_hash ls = (case last_line ls of
       Some (Entry rec) \<Rightarrow> (case dget rec ''event_hash'' of Some h \<Rightarrow> h | None \<Rightarrow> VStr GENESIS_HASH)
     | _ \<Rightarrow> VStr GENESIS_HASH)"

definition audit_body :: "store \<Rightarrow> string \<Rightarrow> string \<Rightarrow> string \<Rightarrow> doc \<Rightarrow> doc" where
  "audit_body s event table rid payload = [
     (''ts'', VFloat (clock (env s) (ticks s))),
     (''event'', VStr event), (''table'', VStr table), (''id'', VStr rid),
     (''org'', VStr (org_id s)), (''workspace'', VStr (workspace_id s)),
     (''payload'', VDict payload),
     (''previous_event_hash'', previous_hash (audit_log s))]"

definition audit_entry :: "store \<Rightarrow> string \<Rightarrow> string \<Rightarrow> string \<Rightarrow> doc \<Rightarrow> doc" where
  "audit_entry s event table rid payload =
     (let rec = audit_body s event table rid payload
      in dset rec ''event_hash'' (VStr (hash_record (env s) rec)))"

definition audit_st :: "string \<Rightarrow> string \<Rightarrow> string \<Rightarrow> doc \<Rightarrow> store \<Rightarrow> store" where
  "audit_st event table rid payload s = s\<lparr>
     audit_log := audit_log s @ [Entry (audit_entry s event table rid payload)],
     ticks := Suc (ticks s)\<rparr>"

definition audit :: "string \<Rightarrow> string \<Rightarrow> string \<Rightarrow> doc \<Rightarrow> unit sop" where
  "audit event table rid payload s = (Inr (), audit_st event table rid payload s)"

text \<open>\<open>iter_audit\<close>, consumed to the end; a line that does not parse raises.\<close>

definition audit_selected :: "string \<Rightarrow> string \<Rightarrow> doc \<Rightarrow> bool" where
  "audit_selected rn ws rec =
     ((ws = [] \<or> dget rec ''workspace'' = Some (VStr ws)) \<and>
      (rn = [] \<or> dget (get_dict rec ''payload'') ''run_id'' = Some (VStr rn)
                  \<or> dget rec ''id'' = Some (VStr rn)))"

fun iter_lines :: "string \<Rightarrow> string \<Rightarrow> audit_line list \<Rightarrow> error + doc list" where
  "iter_lines rn ws [] = Inr []"
| "iter_lines rn ws (Blank # ls) = iter_lines rn ws ls"
| "iter_lines rn ws (Garbled # ls) = Inl ValueError"
| "iter_lines rn ws (Entry rec # ls) =
     (case iter_lines rn ws ls of
        Inl e \<Rightarrow> Inl e
      | Inr recs \<Rightarrow> Inr (if audit_selected rn ws rec then rec # recs else recs))"

definition effective_ws :: "store \<Rightarrow> string \<Rightarrow> string" where
  "effective_ws s ws = (if ws \<noteq> [] then ws else if enforce s then workspace_id s else [])"

definition iter_audit :: "string \<Rightarrow> string \<Rightarrow> doc list sop" where
  "iter_audit rn ws s = (iter_lines rn (effective_ws s ws) (audit_log s), s)"

section \<open>Chain verification\<close>

datatype chain_error = Unparseable nat | Link_broken nat | Hash_mismatch nat

record chain_report =
  rep_lines :: nat
  rep_checked :: nat
  rep_errors :: "chain_error list"

definition rep_ok :: "chain_report \<Rightarrow> bool" where
  "rep_ok r \<longleftrightarrow> rep_errors r = []"

text \<open>The loop over the lines: \<open>i\<close> the line number, \<open>prev\<close> the running link.\<close>

fun chain_scan :: "env \<Rightarrow> string \<Rightarrow> nat \<Rightarrow> pyval \<Rightarrow> chain_report \<Rightarrow> audit_line list \<Rightarrow> chain_report" where
  "chain_scan e ws i prev r [] = r"
| "chain_scan e ws i prev r (Blank # ls) = chain_scan e ws (Suc i) prev r ls"
| "chain_scan e ws i prev r (Garbled # ls) =
     chain_scan e ws (Suc i) prev
       (r\<lparr>rep_lines := Suc (rep_lines r), rep_errors := rep_errors r @ [Unparseable i]\<rparr>) ls"
| "chain_scan e ws i prev r (Entry rec # ls) =
     (let r1 = r\<lparr>rep_lines := Suc (rep_lines r)\<rparr> in
      if ws \<noteq> [] \<and> get_truthy rec ''workspace'' \<and> dget rec ''workspace'' \<noteq> Some (VStr ws)
      then chain_scan e ws (Suc i) prev r1 ls
      else case dget rec ''event_hash'' of
        None \<Rightarrow> chain_scan e ws (Suc i)
                 (case dget rec ''previous_event_hash'' of Some h \<Rightarrow> h | None \<Rightarrow> VStr GENESIS_HASH) r1 ls
      | Some h \<Rightarrow>
          (let expected_prev = (case dget rec ''previous_event_hash'' of Some p \<Rightarrow> p | None \<Rightarrow> VNone);
               e1 = (if expected_prev \<noteq> prev then [Link_broken i] else []);
               e2 = (if VStr (hash_record e rec) \<noteq> h then [Hash_mismatch i] else [])
           in chain_scan e ws (Suc i) h
                (r1\<lparr>rep_checked := Suc (rep_checked r1), rep_errors := rep_errors r1 @ e1 @ e2\<rparr>) ls))"

definition verify_lines :: "env \<Rightarrow> string \<Rightarrow> audit_line list \<Rightarrow> chain_report" where
  "verify_lines e ws ls =
     chain_scan e ws 0 (VStr GENESIS_HASH) \<lparr>rep_lines = 0, rep_checked = 0, rep_errors = []\<rparr> ls"

definition verify_audit_chain :: "string \<Rightarrow> store \<Rightarrow> chain_report" where
  "verify_audit_chain ws s = verify_lines (env s) (effective_ws s ws) (audit_log s)"

section \<open>Tenant check\<close>

definition assert_tenant :: "string \<Rightarrow> string \<Rightarrow> unit sop" where
  "assert_tenant stored_ws requested s =
     (if \<not> enforce s \<and> requested = [] then (Inr (), s)
      else let effective = (if requested \<noteq> [] then requested else if enforce s then workspace_id s else [])
           in if effective \<noteq> [] \<and> stored_ws \<noteq> [] \<and> stored_ws \<noteq> effective then (Inl CrossTenantAccess, s)
              else if enforce s \<and> stored_ws = [] then (Inl CrossTenantAccess, s)
              else (Inr (), s))"

section \<open>Records\<close>

definition stamp :: "store \<Rightarrow> doc \<Rightarrow> doc" where
  "stamp s d = (if enforce s
     then dset (dset d ''org_id'' (VStr (org_id s))) ''workspace_id'' (VStr (workspace_id s)) else d)"

definition put_row :: "string \<Rightarrow> string \<Rightarrow> doc \<Rightarrow> store \<Rightarrow> store" where
  "put_row t rid d s = s\<lparr>tables := (tables s)(t := rows_put (tables s t) rid d)\<rparr>"

definition put :: "string \<Rightarrow> doc \<Rightarrow> string \<Rightarrow> doc sop" where
  "put t obj event s =
     (if \<not> known_table t then (Inl ValueError, s)
      else let d = stamp s obj in
        case dget d ''id'' of
          Some (VStr rid) \<Rightarrow>
            op_then (op_modify (put_row t rid d)) (op_then (audit event t rid d) (op_return d)) s
        | _ \<Rightarrow> (Inl KeyError, s))"

definition get :: "string \<Rightarrow> string \<Rightarrow> string \<Rightarrow> doc option sop" where
  "get t rid ws s =
     (if \<not> known_table t then (Inl ValueError, s)
      else case rows_get (tables s t) rid of
          None \<Rightarrow> (Inr None, s)
        | Some rec \<Rightarrow>
            (if enforce s \<or> ws \<noteq> []
             then op_then (assert_tenant (get_str rec ''workspace_id'') ws) (op_return (Some rec)) s
             else (Inr (Some rec), s)))"

text \<open>\<open>ORDER BY\<close>: numeric columns are cast, others compare as text; \<open>NULL\<close> sorts first.
  The order \<open>created\<close> adds no clause at all.\<close>

definition numeric_cols :: "string list" where
  "numeric_cols = [''created'', ''started'', ''seq'', ''idx'', ''next_run'']"

definition num_key :: "string \<Rightarrow> string \<Rightarrow> doc \<Rightarrow> rat option" where
  "num_key t c d = (case dget d (field_of_col t c) of
       None \<Rightarrow> None | Some VNone \<Rightarrow> None | Some (VInt i) \<Rightarrow> Some (of_int i) | Some (VFloat r) \<Rightarrow> Some r
     | _ \<Rightarrow> Some 0)"

definition order_rows :: "env \<Rightarrow> string \<Rightarrow> string \<Rightarrow> bool \<Rightarrow> doc list \<Rightarrow> doc list" where
  "order_rows e t ord desc ds =
     (if ord = ''created'' then ds
      else let dir = (if desc then rev else id) in
        if ord \<in> set numeric_cols then dir (sort_key (num_key t ord) (dir ds))
        else dir (sort_key (\<lambda>d. col_value e t d ord) (dir ds)))"

definition row_matches :: "env \<Rightarrow> string \<Rightarrow> (string \<times> pyval) list \<Rightarrow> doc \<Rightarrow> bool" where
  "row_matches e t conds d =
     list_all (\<lambda>(k, v). col_value e t d (col_of_field t k) = Some (py_str e v)) conds"

record query =
  q_order :: string
  q_desc :: bool
  q_limit :: nat
  q_workspace :: "string option"    \<comment> \<open>the \<open>workspace=\<close> keyword, when given\<close>
  q_where :: "(string \<times> pyval) list"

definition by_cols :: "(string \<times> pyval) list \<Rightarrow> query" where
  "by_cols conds = \<lparr>q_order = ''created'', q_desc = False, q_limit = 0, q_workspace = None, q_where = conds\<rparr>"

definition query_ws :: "store \<Rightarrow> query \<Rightarrow> error + string option" where
  "query_ws s q =
     (if enforce s
      then (case q_workspace q of
              Some w \<Rightarrow> (if w \<noteq> workspace_id s then Inl CrossTenantAccess else Inr (Some (workspace_id s)))
            | None \<Rightarrow> Inr (Some (workspace_id s)))
      else Inr (q_workspace q))"

definition find_rows :: "string \<Rightarrow> query \<Rightarrow> doc list sop" where
  "find_rows t q s =
     (case table_cols t of
        None \<Rightarrow> (Inl ValueError, s)
      | Some cols \<Rightarrow>
          (case query_ws s q of
             Inl err \<Rightarrow> (Inl err, s)
           | Inr ews \<Rightarrow>
               (let tenant = (case ews of None \<Rightarrow> [] | Some w \<Rightarrow> [(''workspace'', VStr w)]) in
                if \<not> list_all (\<lambda>(k, v). col_of_field t k \<in> set cols) (q_where q) then (Inl ValueError, s)
                else if q_order q \<noteq> ''created'' \<and> q_order q \<notin> set cols then (Inl ValueError, s)
                else let hits = filter (row_matches (env s) t (tenant @ q_where q)) (map snd (tables s t));
                         sorted_hits = order_rows (env s) t (q_order q) (q_desc q) hits
                     in (Inr (if q_limit q = 0 then sorted_hits else take (q_limit q) sorted_hits), s))))"

definition del_row :: "string \<Rightarrow> string \<Rightarrow> store \<Rightarrow> store" where
  "del_row t rid s = s\<lparr>tables := (tables s)(t := rows_del (tables s t) rid)\<rparr>"

definition delete :: "string \<Rightarrow> string \<Rightarrow> string \<Rightarrow> string \<Rightarrow> bool sop" where
  "delete t rid event ws s =
     (if \<not> known_table t then (Inl ValueError, s)
      else op_bind
        (if enforce s
         then op_bind (get t rid []) (\<lambda>r. case r of
                None \<Rightarrow> op_return False
              | Some rec \<Rightarrow> op_then (assert_tenant (get_str rec ''workspace_id'') ws) (op_return True))
         else op_return True)
        (\<lambda>proceed. if \<not> proceed then op_return False
           else op_bind (op_gets (\<lambda>s. rows_get (tables s t) rid \<noteq> None)) (\<lambda>deleted.
                  op_then (op_modify (del_row t rid))
                    (if deleted then op_then (audit event t rid [(''id'', VStr rid)]) (op_return True)
                     else op_return False))) s)"

definition count_rows :: "string \<Rightarrow> query \<Rightarrow> nat sop" where
  "count_rows t q = op_bind (find_rows t q) (\<lambda>rs. op_return (length rs))"

definition next_seq :: "int sop" where
  "next_seq s =
     (let seqs = List.map_filter (\<lambda>(_, d). case dget d ''seq'' of Some (VInt i) \<Rightarrow> Some i | _ \<Rightarrow> None)
                   (tables s ''runs'')
      in (Inr ((if seqs = [] then 0 else Max (set seqs)) + 1), s))"

section \<open>Basic laws\<close>

definition tget :: "store \<Rightarrow> string \<Rightarrow> string \<Rightarrow> doc option" where
  "tget s t rid = rows_get (tables s t) rid"

text \<open>The state after a successful \<open>put\<close>: the row replaced, one audit line more.\<close>

definition put_state :: "string \<Rightarrow> string \<Rightarrow> doc \<Rightarrow> string \<Rightarrow> store \<Rightarrow> store" where
  "put_state t rid d event s = audit_st event t rid (stamp s d) (put_row t rid (stamp s d) s)"

lemma enforce_simps [simp]:
  "enforce (s\<lparr>tables := tb\<rparr>) = enforce s" "enforce (s\<lparr>audit_log := al\<rparr>) = enforce s"
  "enforce (s\<lparr>ticks := n\<rparr>) = enforce s" "enforce (s\<lparr>drawn := n\<rparr>) = enforce s"
  by (simp_all add: enforce_def)

lemma stamp_get [simp]:
  "k \<noteq> ''org_id'' \<Longrightarrow> k \<noteq> ''workspace_id'' \<Longrightarrow> dget (stamp s d) k = dget d k"
  by (simp add: stamp_def)

lemma stamp_id [simp]: "\<not> enforce s \<Longrightarrow> stamp s d = d"
  by (simp add: stamp_def)

lemma put_eq:
  "put t d event s =
     (if \<not> known_table t then (Inl ValueError, s)
      else case dget d ''id'' of
          Some (VStr rid) \<Rightarrow> (Inr (stamp s d), put_state t rid d event s)
        | _ \<Rightarrow> (Inl KeyError, s))"
  by (simp add: put_def put_state_def audit_def op_simps Let_def split: option.splits pyval.splits)

lemma put_ok:
  "known_table t \<Longrightarrow> dget d ''id'' = Some (VStr rid) \<Longrightarrow>
   put t d event s = (Inr (stamp s d), put_state t rid d event s)"
  by (simp add: put_eq)

lemma put_state_simps [simp]:
  "workspace_id (put_state t rid d event s) = workspace_id s"
  "org_id (put_state t rid d event s) = org_id s"
  "env (put_state t rid d event s) = env s"
  "enforce (put_state t rid d event s) = enforce s"
  "drawn (put_state t rid d event s) = drawn s"
  "ticks (put_state t rid d event s) = Suc (ticks s)"
  "tables (put_state t rid d event s) = (tables s)(t := rows_put (tables s t) rid (stamp s d))"
  "tget (put_state t rid d event s) t' r' = (if t = t' \<and> rid = r' then Some (stamp s d) else tget s t' r')"
  by (simp_all add: put_state_def audit_st_def put_row_def tget_def enforce_def)

lemma audit_st_simps [simp]:
  "workspace_id (audit_st ev t r p s) = workspace_id s"
  "org_id (audit_st ev t r p s) = org_id s"
  "env (audit_st ev t r p s) = env s"
  "enforce (audit_st ev t r p s) = enforce s"
  "tables (audit_st ev t r p s) = tables s"
  "tget (audit_st ev t r p s) t' r' = tget s t' r'"
  "drawn (audit_st ev t r p s) = drawn s"
  by (simp_all add: audit_st_def tget_def enforce_def)

lemma audit_apply [simp, op_simps]: "audit ev t r p s = (Inr (), audit_st ev t r p s)"
  by (simp add: audit_def)

lemma op_now_apply: "op_now s = (Inr (clock (env s) (ticks s)), s\<lparr>ticks := Suc (ticks s)\<rparr>)"
  by (simp add: op_now_def)

lemma tget_updates [simp]:
  "tget (s\<lparr>ticks := n\<rparr>) t r = tget s t r" "tget (s\<lparr>drawn := n\<rparr>) t r = tget s t r"
  "tget (s\<lparr>audit_log := l\<rparr>) t r = tget s t r"
  by (simp_all add: tget_def)

text \<open>The records table as a keyed container.\<close>

definition tput :: "store \<Rightarrow> string \<times> string \<Rightarrow> doc \<Rightarrow> store" where
  "tput s k d = put_state (fst k) (snd k) d [] s"

text \<open>Reading: in legacy mode \<open>get\<close> is the table; an enforcing store raises on a foreign row.\<close>

definition own_row :: "store \<Rightarrow> doc \<Rightarrow> bool" where
  "own_row s d \<longleftrightarrow> (enforce s \<longrightarrow> get_str d ''workspace_id'' = workspace_id s)"

lemma own_row_legacy [simp]: "\<not> enforce s \<Longrightarrow> own_row s d"
  by (simp add: own_row_def)

lemma get_state [simp]: "snd (get t rid ws s) = s"
  by (simp add: get_def assert_tenant_def op_simps Let_def split: option.splits)

lemma get_eq:
  "get t rid [] s =
     (if \<not> known_table t then Inl ValueError
      else case tget s t rid of None \<Rightarrow> Inr None
        | Some d \<Rightarrow> (if own_row s d then Inr (Some d) else Inl CrossTenantAccess), s)"
  by (auto simp: get_def tget_def assert_tenant_def own_row_def enforce_def op_simps Let_def split: option.splits)

lemma get_legacy: "\<not> enforce s \<Longrightarrow> known_table t \<Longrightarrow> get t rid [] s = (Inr (tget s t rid), s)"
  by (simp add: get_eq split: option.splits)

lemma own_row_stamp [simp]: "own_row s (stamp s d)"
  by (simp add: own_row_def stamp_def)

lemma get_after_put:
  "known_table t \<Longrightarrow> get t rid [] (put_state t rid d event s) = (Inr (Some (stamp s d)), put_state t rid d event s)"
  by (simp add: get_eq own_row_def stamp_def)

text \<open>What the code's tables are.\<close>

lemma known_tables [simp]:
  "known_table ''tasks''" "known_table ''plans''" "known_table ''steps''" "known_table ''runs''"
  "known_table ''actions''" "known_table ''observations''" "known_table ''evidence''"
  "known_table ''claims''" "known_table ''verifications''" "known_table ''approvals''"
  "known_table ''artifacts''" "known_table ''schedules''" "known_table ''users''"
  "known_table ''sessions''" "known_table ''policies''" "known_table ''meta_kv''"
  "known_table ''secrets''" "known_table ''degradations''" "known_table ''procedures''"
  by (simp_all add: known_table_def table_cols_def TABLES_def TABLE_EXTRA_def)

lemma find_legacy:
  "\<not> enforce s \<Longrightarrow> table_cols t = Some cols \<Longrightarrow> list_all (\<lambda>(k, v). col_of_field t k \<in> set cols) conds \<Longrightarrow>
   find_rows t (by_cols conds) s = (Inr (filter (row_matches (env s) t conds) (map snd (tables s t))), s)"
  by (simp add: find_rows_def by_cols_def query_ws_def order_rows_def Let_def)

lemma find_state [simp]: "snd (find_rows t q s) = s"
  by (simp add: find_rows_def Let_def split: option.splits sum.splits)

lemma row_matches_Nil [simp]: "row_matches e t [] d"
  by (simp add: row_matches_def)

lemma row_matches_Cons [simp]:
  "row_matches e t ((k, v) # cs) d =
     (col_value e t d (col_of_field t k) = Some (py_str e v) \<and> row_matches e t cs d)"
  by (simp add: row_matches_def)

lemma col_value_str [simp]: "dget d (field_of_col t c) = Some (VStr v) \<Longrightarrow> col_value e t d c = Some v"
  by (simp add: col_value_def)

end
