(* ===== verification/Dlp.thy ===== *)
theory Dlp
  imports Regex Store
begin

text \<open>
  \<open>sworker/dlp.py\<close>: the catalog of detectors with their patterns, the policy a worker builds
  from rule names (an unknown name raises), and the scan that names the first rule that
  fires.  Lemmas: the scan is complete for its rules, and a stand-alone access key is always
  found.
\<close>

record dlp_rule =
  rule_name :: string
  rule_kind :: string
  rule_rx :: rx

record dlp_hit =
  hit_rule :: string
  hit_kind :: string

definition alnum :: "char \<Rightarrow> bool" where
  "alnum c = (between CHR ''A'' CHR ''Z'' c \<or> between CHR ''a'' CHR ''z'' c \<or> between CHR ''0'' CHR ''9'' c)"

definition key_char :: "char \<Rightarrow> bool" where
  "key_char c = (alnum c \<or> c \<in> {CHR ''/'', CHR ''+'', CHR ''=''})"

definition upper_digit :: "char \<Rightarrow> bool" where
  "upper_digit c = (between CHR ''0'' CHR ''9'' c \<or> between CHR ''A'' CHR ''Z'' c)"

definition one_of :: "string \<Rightarrow> rx" where
  "one_of cs = Cls (\<lambda>c. c \<in> set cs)"

definition digits :: "nat \<Rightarrow> rx" where
  "digits n = Times n (Cls is_rx_digit)"

definition aws_rx :: rx where
  "aws_rx = cats [NotBehind key_char, str_rx ''AKIA'', Times 16 (Cls upper_digit), NotAhead key_char]"

definition private_key_rx :: rx where
  "private_key_rx = cats [str_rx ''-----BEGIN '',
     opt (alts (map str_rx [''RSA '', ''EC '', ''OPENSSH '', ''DSA '', ''PGP ''])),
     str_rx ''PRIVATE KEY-----'']"

definition api_token_rx :: rx where
  "api_token_rx = cats [
     alts [cats [word_i ''api'', opt (one_of ''_-''), word_i ''key''], word_i ''secret'', word_i ''token'',
           word_i ''bearer'', word_i ''authorization''],
     spaces, one_of '':='', spaces, opt (one_of [CHR 0x27, CHR 0x22]),
     at_least 16 (Cls (\<lambda>c. alnum c \<or> c = CHR ''_'' \<or> c = CHR ''-'')), opt (one_of [CHR 0x27, CHR 0x22])]"

definition email_rx :: rx where
  "email_rx = cats [Bound, at_least 1 (Cls (\<lambda>c. alnum c \<or> c \<in> set ''._%+-'')), lit CHR ''@'',
     at_least 1 (Cls (\<lambda>c. alnum c \<or> c \<in> set ''.-'')), lit CHR ''.'',
     at_least 2 (Cls (\<lambda>c. between CHR ''A'' CHR ''Z'' c \<or> between CHR ''a'' CHR ''z'' c)), Bound]"

definition ssn_rx :: rx where
  "ssn_rx = cats [Bound, digits 3, lit CHR ''-'', digits 2, lit CHR ''-'', digits 4, Bound]"

definition card_rx :: rx where
  "card_rx = cats [Bound,
     alts [cats [lit CHR ''4'', digits 12, opt (digits 3)],
           cats [lit CHR ''5'', Cls (between CHR ''1'' CHR ''5''), digits 14],
           cats [lit CHR ''3'', one_of ''47'', digits 13]], Bound]"

definition BUILTIN_DLP_RULES :: "(string \<times> dlp_rule) list" where
  "BUILTIN_DLP_RULES = map (\<lambda>(n, r). (n, \<lparr>rule_name = n, rule_kind = n, rule_rx = r\<rparr>))
     [(''aws_access_key_id'', aws_rx), (''private_key_block'', private_key_rx),
      (''api_token'', api_token_rx), (''email_address'', email_rx), (''us_ssn'', ssn_rx),
      (''credit_card'', card_rx)]"

text \<open>\<open>DlpPolicy(names)\<close> and \<open>scan\<close>.\<close>

fun dlp_policy :: "string list \<Rightarrow> error + dlp_rule list" where
  "dlp_policy [] = Inr []"
| "dlp_policy (n # ns) = (case dget BUILTIN_DLP_RULES n of
       None \<Rightarrow> Inl KeyError
     | Some r \<Rightarrow> (case dlp_policy ns of Inl e \<Rightarrow> Inl e | Inr rs \<Rightarrow> Inr (r # rs)))"

definition dlp_scan :: "dlp_rule list \<Rightarrow> string \<Rightarrow> dlp_hit option" where
  "dlp_scan rules text = (if text = [] then None
     else case find (\<lambda>r. rx_search (rule_rx r) text) rules of
            None \<Rightarrow> None
          | Some r \<Rightarrow> Some \<lparr>hit_rule = rule_name r, hit_kind = rule_kind r\<rparr>)"

definition refusal_for :: "dlp_hit \<Rightarrow> string" where
  "refusal_for h = ''DLP policy blocked egress: matched rule '' @ repr_str (hit_rule h) @ '' ('' @
     hit_kind h @ ''); payload was not transmitted''"

text \<open>\<open>render_dlp_log\<close>: the blocked observations, from the stored records.\<close>

definition opt_val :: "doc \<Rightarrow> string \<Rightarrow> pyval" where
  "opt_val d k = (case dget d k of Some v \<Rightarrow> v | None \<Rightarrow> VNone)"

definition dlp_log_entry :: "doc \<Rightarrow> doc" where
  "dlp_log_entry ob = (let d = get_dict ob ''data'' in
     [(''run_id'', opt_val ob ''run_id''), (''ok'', opt_val ob ''ok''), (''url'', opt_val d ''url''),
      (''channel'', opt_val d ''channel''), (''rule'', opt_val d ''rule''), (''kind'', opt_val d ''kind'')])"

definition render_dlp_log :: "doc sop" where
  "render_dlp_log =
     op_bind (find_rows ''observations'' ((by_cols [])\<lparr>q_desc := True\<rparr>)) (\<lambda>obs.
       let blocked = map dlp_log_entry (filter (\<lambda>ob. get_truthy (get_dict ob ''data'') ''dlp_blocked'') obs)
       in op_return [(''blocked'', VList (map VDict blocked)), (''total'', VInt (int (length blocked)))])"

section \<open>Lemmas\<close>

lemma find_Some_split:
  "find P xs = Some x \<Longrightarrow> \<exists>ys zs. xs = ys @ x # zs \<and> P x \<and> list_all (\<lambda>y. \<not> P y) ys"
proof (induction xs)
  case (Cons a xs)
  show ?case
  proof (cases "P a")
    case True
    with Cons.prems show ?thesis by (intro exI [of _ "[]"] exI [of _ xs]) simp
  next
    case False
    with Cons obtain ys zs where "xs = ys @ x # zs \<and> P x \<and> list_all (\<lambda>y. \<not> P y) ys" by auto
    with False show ?thesis by (intro exI [of _ "a # ys"] exI [of _ zs]) simp
  qed
qed simp

lemma dlp_scan_None_iff:
  assumes "text \<noteq> []"
  shows "dlp_scan rules text = None \<longleftrightarrow> (\<forall>r\<in>set rules. \<not> rx_search (rule_rx r) text)"
proof (cases "find (\<lambda>r. rx_search (rule_rx r) text) rules")
  case None
  then have "\<forall>r\<in>set rules. \<not> rx_search (rule_rx r) text" by (simp add: find_None_iff)
  with None assms show ?thesis by (simp add: dlp_scan_def)
next
  case (Some r)
  with find_Some_split [OF Some] assms show ?thesis by (auto simp: dlp_scan_def)
qed

lemma dlp_policy_rules:
  "dlp_policy ns = Inr rs \<Longrightarrow> map Some rs = map (dget BUILTIN_DLP_RULES) ns"
  by (induction ns arbitrary: rs) (auto split: option.splits sum.splits)

lemma dlp_policy_ok_iff: "(\<exists>rs. dlp_policy ns = Inr rs) \<longleftrightarrow> set ns \<subseteq> set (dkeys BUILTIN_DLP_RULES)"
proof (induction ns)
  case (Cons n ns)
  have "(\<exists>r. dget BUILTIN_DLP_RULES n = Some r) \<longleftrightarrow> n \<in> set (dkeys BUILTIN_DLP_RULES)"
    using dget_None_iff [of BUILTIN_DLP_RULES n] by auto
  with Cons show ?case
    by (auto split: option.split sum.split)
qed simp

lemma dlp_policy_member:
  "dlp_policy ns = Inr rs \<Longrightarrow> n \<in> set ns \<Longrightarrow> dget BUILTIN_DLP_RULES n = Some r \<Longrightarrow> r \<in> set rs"
  by (induction ns arbitrary: rs) (auto split: option.splits sum.splits)

text \<open>A key with sixteen upper-case letters or digits that no key character touches matches.\<close>

lemma aws_rx_finds:
  assumes "length k = 16" and "list_all upper_digit k"
    and "a = [] \<or> \<not> key_char (last a)" and "b = [] \<or> \<not> key_char (hd b)"
  shows "rx_search aws_rx (a @ (''AKIA'' @ k) @ b)"
proof (rule rx_searchI)
  let ?p0 = "(rev a, ''AKIA'' @ k @ b)"
  let ?p1 = "(rev ''AKIA'' @ rev a, k @ b)"
  let ?p2 = "(rev k @ rev ''AKIA'' @ rev a, b)"
  have 0: "?p0 \<in> set (rx_ends (NotBehind key_char) ?p0)"
    using assms(3) by (cases a rule: rev_cases) auto
  have 1: "?p1 \<in> set (rx_ends (str_rx ''AKIA'') ?p0)" by (rule ends_str)
  have 2: "?p2 \<in> set (rx_ends (Times 16 (Cls upper_digit)) ?p1)"
    by (rule ends_Times_cls [OF assms(1,2)])
  have 3: "?p2 \<in> set (rx_ends (NotAhead key_char) ?p2)"
    using assms(4) by (cases b) auto
  have "?p2 \<in> set (rx_ends aws_rx ?p0)"
    unfolding aws_rx_def cats_Cons cats_Nil by (intro ends_Cat [OF 0] ends_Cat [OF 1] ends_Cat [OF 2] ends_Cat [OF 3] ends_Empty)
  then show "?p2 \<in> set (rx_ends aws_rx (rev a, (''AKIA'' @ k) @ b))" by simp
qed

lemma aws_rule: "dget BUILTIN_DLP_RULES ''aws_access_key_id''
    = Some \<lparr>rule_name = ''aws_access_key_id'', rule_kind = ''aws_access_key_id'', rule_rx = aws_rx\<rparr>"
  by (simp add: BUILTIN_DLP_RULES_def)

end
