(* ===== verification/Http.thy ===== *)
theory Http
  imports Tools_Base Urls Dlp
begin

text \<open>
  \<open>sworker/tools/http.py\<close>: the egress check (scheme, private and metadata hosts, default-deny
  allow-list), the request with its DLP scan and credential rule, the risk of a URL, and the
  egress log.  The network, the process environment, \<open>re.search\<close> for operator-written
  patterns and \<open>json.loads\<close> are parameters; every request that reaches the network is recorded, the
  redirects that \<open>urlopen\<close> follows included,
  so that \<open>nothing was sent\<close> is a statement about the result.
\<close>

record http_req =
  rq_method :: string
  rq_url :: string
  rq_body :: "string option"
  rq_headers :: doc
  rq_timeout :: int

text \<open>What the network answers to one request: a status and a text; the same with a \<open>Location\<close>, which is given as \<open>urllib\<close> joins it with
  the URL of the request, its scheme being one of http, https and ftp; or an exception.\<close>

datatype http_reply = Reply int string | Moved int string string | No_Reply string

record http_world =
  hw_rx :: "string \<Rightarrow> string \<Rightarrow> bool"     \<comment> \<open>\<open>re.search(pattern, text) is not None\<close>\<close>
  hw_getenv :: "string \<Rightarrow> string option"
  hw_net :: "http_req \<Rightarrow> http_reply"
  hw_json :: "string \<Rightarrow> pyval option"
  hw_exc :: "error \<Rightarrow> string"             \<comment> \<open>the rendered text of a raised exception\<close>

definition LOCAL_HOSTS :: "string list" where
  "LOCAL_HOSTS = [''localhost'', ''127.0.0.1'', ''::1'', ''0.0.0.0'']"

definition SSRF_BLOCKED :: "string list" where
  "SSRF_BLOCKED = [''169.254.169.254'', ''metadata.google.internal'', ''169.254.169.254.nip.io'']"

definition SSRF_SUBNETS :: "string list" where
  "SSRF_SUBNETS = [''169.254.'', ''127.'', ''10.'', ''192.168.'', ''172.16.'', ''172.17.'', ''172.18.'',
     ''172.19.'', ''172.2'', ''172.30.'', ''172.31.'']"

definition host_allowed :: "http_world \<Rightarrow> string \<Rightarrow> string list \<Rightarrow> bool" where
  "host_allowed w host allow = (allow \<noteq> [] \<and> list_ex (\<lambda>pat. hw_rx w pat host) allow)"

definition rstrip_dots :: "string \<Rightarrow> string" where
  "rstrip_dots s = rev (dropWhile (\<lambda>c. c = CHR ''.'') (rev s))"

definition ssrf_blocked :: "string \<Rightarrow> string option" where
  "ssrf_blocked host = (let h = rstrip_dots (str_lower host) in
     if h \<in> set SSRF_BLOCKED then Some (''blocked SSRF target '' @ repr_str h @ '' (metadata/link-local)'')
     else if list_ex (starts_with h) SSRF_SUBNETS
     then Some (''blocked private/link-local host '' @ repr_str h) else None)"

definition check_egress :: "http_world \<Rightarrow> tool_context \<Rightarrow> string \<Rightarrow> error + string option" where
  "check_egress w ctx url =
     bind_sum (url_scheme url) (\<lambda>scheme.
       if scheme \<notin> {''http'', ''https''} then Inr (Some (''unsupported URL scheme: '' @ repr_str scheme))
       else bind_sum (url_host url) (\<lambda>host.
         case ssrf_blocked host of
           Some b \<Rightarrow> Inr (Some b)
         | None \<Rightarrow>
            if \<not> host_allowed w host (tc_egress_allow ctx)
            then Inr (Some (''host '' @ repr_str host @ '' is not on this worker''
                     @ [CHR 0x27] @ ''s egress_allow list (''
                     @ (if tc_egress_allow ctx = [] then ''empty: all egress denied''
                        else ''['' @ join '', '' (map repr_str (tc_egress_allow ctx)) @ '']'') @ '')''))
            else Inr None))"

text \<open>The text that DLP inspects: the URL, and the body when there is one.\<close>

definition body_text :: "env \<Rightarrow> doc \<Rightarrow> string option" where
  "body_text e args = (case dget args ''body'' of
       None \<Rightarrow> None | Some VNone \<Rightarrow> None | Some (VStr s) \<Rightarrow> Some s | Some v \<Rightarrow> Some (json_plain e v))"

definition haystack :: "env \<Rightarrow> string \<Rightarrow> doc \<Rightarrow> string" where
  "haystack e url args = (case body_text e args of None \<Rightarrow> url | Some b \<Rightarrow> url @ [CHR 0x0A] @ b)"

definition refused_result :: "string \<Rightarrow> string \<Rightarrow> tool_result" where
  "refused_result url reason = tr_fail reason
     [(''url'', VStr url), (''egress'', VBool False), (''refused'', VBool True), (''reason'', VStr reason)]"

definition dlp_result :: "string \<Rightarrow> dlp_hit \<Rightarrow> tool_result" where
  "dlp_result url h = tr_fail (refusal_for h)
     [(''url'', VStr url), (''egress'', VBool False), (''dlp_blocked'', VBool True),
      (''rule'', VStr (hit_rule h)), (''kind'', VStr (hit_kind h))]"

text \<open>The credential: the headers with the \<open>Authorization\<close> line, or a refusal.\<close>

definition auth_headers :: "http_world \<Rightarrow> tool_context \<Rightarrow> string \<Rightarrow> doc \<Rightarrow> tool_result + doc" where
  "auth_headers w ctx url args =
     (let headers = get_dict args ''headers'' in
      if \<not> get_truthy args ''auth_env'' then Inr headers
      else let auth = get_str args ''auth_env'' in
        if auth \<notin> set (tc_env_allow ctx)
        then Inl (tr_fail (''auth_env '' @ repr_str auth @ '' is not in this worker'' @ [CHR 0x27]
                    @ ''s env_allow list; refusing to read an undeclared credential'')
               [(''url'', VStr url), (''egress'', VBool True), (''auth_refused'', VBool True)])
        else case hw_getenv w auth of
            Some tok \<Rightarrow> (if tok = []
               then Inl (tr_fail (''env var '' @ auth @ '' is not set'') [(''url'', VStr url), (''egress'', VBool True)])
               else Inr (dset headers ''Authorization'' (VStr (''Bearer '' @ tok))))
          | None \<Rightarrow> Inl (tr_fail (''env var '' @ auth @ '' is not set'') [(''url'', VStr url), (''egress'', VBool True)]))"

section \<open>\<open>urlopen\<close>\<close>

text \<open>\<open>HTTPRedirectHandler\<close>: which answers are followed, the request that follows (a \<open>GET\<close> without the body, with the other headers),
  and the count of the URLs visited, which ends a loop.  A redirect that is not followed is an \<open>HTTPError\<close> with its status and text.\<close>

definition follows_redirect :: "http_req \<Rightarrow> int \<Rightarrow> bool" where
  "follows_redirect rq status \<longleftrightarrow> (status \<in> {301, 302, 303, 307, 308} \<and> rq_method rq \<in> {''GET'', ''HEAD''}) \<or>
     (status \<in> {301, 302, 303} \<and> rq_method rq = ''POST'')"

definition redirect_req :: "http_req \<Rightarrow> string \<Rightarrow> http_req" where
  "redirect_req rq target = rq\<lparr>rq_method := ''GET'', rq_url := target, rq_body := None,
     rq_headers := filter (\<lambda>(k, v). str_lower k \<notin> {''content-length'', ''content-type''}) (rq_headers rq)\<rparr>"

definition times_visited :: "(string \<times> nat) list \<Rightarrow> string \<Rightarrow> nat" where
  "times_visited vis u = (case dget vis u of Some n \<Rightarrow> n | None \<Rightarrow> 0)"

text \<open>At most ten URLs, each at most four times; the bound of forty redirects is never what ends the chain.\<close>

fun url_open :: "http_world \<Rightarrow> nat \<Rightarrow> (string \<times> nat) list \<Rightarrow> http_req \<Rightarrow> http_reply \<times> http_req list" where
  "url_open w fuel vis rq = (case hw_net w rq of
       Moved status text target \<Rightarrow>
         (if fuel = 0 \<or> \<not> follows_redirect rq status \<or> 4 \<le> times_visited vis target \<or> 10 \<le> length vis
          then (Reply status text, [rq])
          else let (r, rs) = url_open w (fuel - 1) (dset vis target (times_visited vis target + 1)) (redirect_req rq target)
               in (r, rq # rs))
     | r \<Rightarrow> (r, [rq]))"

declare url_open.simps [simp del]

definition MAX_REDIRECTS :: nat where "MAX_REDIRECTS = 40"

section \<open>The request\<close>

definition reply_result :: "http_world \<Rightarrow> tool_context \<Rightarrow> string \<Rightarrow> http_reply \<Rightarrow> tool_result" where
  "reply_result w ctx url r = (case r of
       No_Reply msg \<Rightarrow> tr_fail msg [(''url'', VStr url), (''egress'', VBool True)]
     | Moved status text target \<Rightarrow> tr_fail [] []    \<comment> \<open>\<open>urlopen\<close> never returns one\<close>
     | Reply status text \<Rightarrow>
        (let (out, trunc) = truncate_text text (tc_max_output ctx); ok = (200 \<le> status \<and> status < 400) in
         \<lparr>tr_ok = ok, tr_output = ''HTTP '' @ int_str status @ [CHR 0x0A] @ out,
           tr_error = (if ok then [] else ''HTTP '' @ int_str status),
           tr_data = [(''url'', VStr url), (''status'', VInt status),
              (''json'', case hw_json w text of Some v \<Rightarrow> v | None \<Rightarrow> VNone), (''egress'', VBool True)],
           tr_truncated = trunc, tr_artifacts = [],
           tr_evidence = [[(''source_ref'', VStr url), (''excerpt'', VStr (take 400 out))]]\<rparr>))"

text \<open>\<open>_request\<close>: the result, and the requests that left the machine: none, or the one it makes and the redirects.\<close>

definition http_request ::
    "env \<Rightarrow> http_world \<Rightarrow> tool_context \<Rightarrow> string \<Rightarrow> string \<Rightarrow> doc \<Rightarrow> (error + tool_result) \<times> http_req list" where
  "http_request e w ctx mth url args =
     (case check_egress w ctx url of
        Inl err \<Rightarrow> (Inl err, [])
      | Inr (Some refusal) \<Rightarrow> (Inr (refused_result url refusal), [])
      | Inr None \<Rightarrow>
         (case dlp_policy (tc_dlp_rules ctx) of
            Inl err \<Rightarrow> (Inl err, [])
          | Inr rules \<Rightarrow>
             (case dlp_scan rules (haystack e url args) of
                Some h \<Rightarrow> (Inr (dlp_result url h), [])
              | None \<Rightarrow>
                 (case auth_headers w ctx url args of
                    Inl refused \<Rightarrow> (Inr refused, [])
                  | Inr headers \<Rightarrow>
                     (let body = body_text e args;
                          hdrs = (if body = None \<or> dget headers ''Content-Type'' \<noteq> None then headers
                                  else dset headers ''Content-Type'' (VStr ''application/json''))
                      in case py_int (case dget args ''timeout'' of Some v \<Rightarrow> v | None \<Rightarrow> VInt 30) of
                           Inl err \<Rightarrow> (Inr (tr_fail (hw_exc w err) [(''url'', VStr url), (''egress'', VBool True)]), [])
                         | Inr t \<Rightarrow>
                            (let req = \<lparr>rq_method = mth, rq_url = url, rq_body = body,
                                        rq_headers = hdrs, rq_timeout = min t 120\<rparr>;
                             out = url_open w MAX_REDIRECTS [] req
                             in (Inr (reply_result w ctx url (fst out)), snd out)))))))"

definition http_get :: "env \<Rightarrow> http_world \<Rightarrow> tool_context \<Rightarrow> doc \<Rightarrow> (error + tool_result) \<times> http_req list" where
  "http_get e w ctx args = (case dget args ''url'' of
       Some v \<Rightarrow> http_request e w ctx ''GET'' (val_str v) args | None \<Rightarrow> (Inl KeyError, []))"

definition http_post :: "env \<Rightarrow> http_world \<Rightarrow> tool_context \<Rightarrow> doc \<Rightarrow> (error + tool_result) \<times> http_req list" where
  "http_post e w ctx args = (case dget args ''url'' of
       Some v \<Rightarrow> http_request e w ctx ''POST'' (val_str v) args | None \<Rightarrow> (Inl KeyError, []))"

definition risk_for_url :: "string \<Rightarrow> error + risk_level" where
  "risk_for_url url = bind_sum (url_host url) (\<lambda>host. Inr (if host \<in> set LOCAL_HOSTS then Read else External))"

text \<open>\<open>render_egress_log\<close>.\<close>

definition egress_entry :: "doc \<Rightarrow> doc" where
  "egress_entry ob = (let d = get_dict ob ''data'' in
     [(''run_id'', opt_val ob ''run_id''), (''ok'', opt_val ob ''ok''), (''url'', opt_val d ''url''),
      (''status'', opt_val d ''status''),
      (''egress'', case dget d ''egress'' of Some v \<Rightarrow> v | None \<Rightarrow> VBool False), (''reason'', opt_val d ''reason'')])"

definition render_egress_log :: "doc sop" where
  "render_egress_log =
     op_bind (find_rows ''observations'' ((by_cols [])\<lparr>q_desc := True\<rparr>)) (\<lambda>obs.
       let net = filter (\<lambda>ob. dget (get_dict ob ''data'') ''url'' \<noteq> None) obs;
           refused = filter (\<lambda>ob. get_truthy (get_dict ob ''data'') ''refused'') net;
           allowed = filter (\<lambda>ob. \<not> get_truthy (get_dict ob ''data'') ''refused'') net
       in op_return [(''allowed'', VList (map (VDict \<circ> egress_entry) allowed)),
            (''refused'', VList (map (VDict \<circ> egress_entry) refused)),
            (''total'', VInt (int (length allowed + length refused)))])"

section \<open>Lemmas\<close>

lemma check_egress_None:
  "check_egress w ctx url = Inr None \<longleftrightarrow>
     (\<exists>scheme host. url_scheme url = Inr scheme \<and> url_host url = Inr host \<and> scheme \<in> {''http'', ''https''} \<and>
        ssrf_blocked host = None \<and> host_allowed w host (tc_egress_allow ctx))"
  by (cases "url_scheme url"; cases "url_host url") (auto simp: check_egress_def split: option.splits)

lemma url_open_never_moved: "fst (url_open w n vis rq) \<noteq> Moved st txt u"
proof (induction n arbitrary: vis rq)
  case 0
  show ?case by (simp add: url_open.simps [of w 0] split: http_reply.split)
next
  case (Suc n)
  show ?case using Suc by (simp add: url_open.simps [of w "Suc n"] Let_def split: http_reply.split prod.split) (metis fst_conv)
qed

lemma url_open_sent:
  "\<exists>rs. snd (url_open w n vis rq) = rq # rs \<and> length rs \<le> n \<and>
     list_all (\<lambda>q. rq_method q = ''GET'' \<and> rq_body q = None \<and> rq_timeout q = rq_timeout rq) rs"
proof (induction n arbitrary: vis rq)
  case 0
  show ?case by (simp add: url_open.simps [of w 0] split: http_reply.split)
next
  case (Suc n)
  show ?case
  proof (cases "\<exists>status text target. hw_net w rq = Moved status text target \<and> follows_redirect rq status \<and>
      \<not> 4 \<le> times_visited vis target \<and> \<not> 10 \<le> length vis")
    case True
    then obtain stat msg target where m: "hw_net w rq = Moved stat msg target" "follows_redirect rq stat"
      "\<not> 4 \<le> times_visited vis target" "\<not> 10 \<le> length vis" by blast
    obtain r rs where 1: "url_open w n (dset vis target (times_visited vis target + 1)) (redirect_req rq target) = (r, rs)" by fastforce
    have "url_open w (Suc n) vis rq = (r, rq # rs)" using m 1 by (simp add: url_open.simps [of w "Suc n"])
    then show ?thesis
      using Suc.IH [of "dset vis target (times_visited vis target + 1)" "redirect_req rq target"] 1 by (auto simp: redirect_req_def)
  next
    case False
    then have "snd (url_open w (Suc n) vis rq) = [rq]" by (auto simp: url_open.simps [of w "Suc n"] split: http_reply.split)
    then show ?thesis by simp
  qed
qed

text \<open>The bound on redirects is out of reach: the counts end every chain before.\<close>

definition visits_ok :: "(string \<times> nat) list \<Rightarrow> bool" where
  "visits_ok vis \<longleftrightarrow> distinct (dkeys vis) \<and> length vis \<le> 10 \<and> list_all (\<lambda>(u, n). n \<le> 4) vis"

definition visits :: "(string \<times> nat) list \<Rightarrow> nat" where
  "visits vis = sum_list (map snd vis)"

lemma visits_bound: "list_all (\<lambda>(u, n). n \<le> 4) vis \<Longrightarrow> visits vis \<le> 4 * length vis"
  by (induction vis) (auto simp: visits_def)

lemma visits_dset: "distinct (dkeys vis) \<Longrightarrow> visits (dset vis u (times_visited vis u + 1)) = Suc (visits vis)"
  by (induction vis) (auto simp: visits_def times_visited_def dkeys_def)

lemma visits_ok_dset:
  assumes "visits_ok vis" and "times_visited vis u < 4" and "length vis < 10"
  shows "visits_ok (dset vis u (times_visited vis u + 1))"
proof -
  have "list_all (\<lambda>(u, n). n \<le> 4) vis \<Longrightarrow> m \<le> 4 \<Longrightarrow> list_all (\<lambda>(u, n). n \<le> 4) (dset vis u m)" for m
    by (induction vis) auto
  moreover have "length (dset vis u m) \<le> Suc (length vis)" for m by (induction vis) auto
  ultimately show ?thesis using assms by (simp add: visits_ok_def distinct_dkeys_dset) (meson Suc_leI le_trans)
qed

lemma redirects_suffice: "visits_ok vis \<Longrightarrow> 40 \<le> n + visits vis \<Longrightarrow> url_open w (Suc n) vis rq = url_open w n vis rq"
proof (induction n arbitrary: vis rq)
  case 0
  then have "length vis = 10" using visits_bound [of vis] by (simp add: visits_ok_def)
  then show ?case by (simp add: url_open.simps [of w 0] url_open.simps [of w "Suc 0"] split: http_reply.split)
next
  case (Suc n)
  have "url_open w (Suc n) (dset vis u (times_visited vis u + 1)) q = url_open w n (dset vis u (times_visited vis u + 1)) q"
    if "times_visited vis u < 4" "length vis < 10" for u q
    using Suc.IH [OF visits_ok_dset [OF Suc.prems(1) that]] Suc.prems visits_dset [of vis u] by (simp add: visits_ok_def)
  then show ?case by (simp add: url_open.simps [of w "Suc n"] url_open.simps [of w "Suc (Suc n)"] not_le split: http_reply.split)
qed

lemma http_request_sent:
  assumes "snd (http_request e w ctx mth url args) = r # rs"
  shows "check_egress w ctx url = Inr None \<and> rq_url r = url \<and> rq_method r = mth \<and>
     rq_body r = body_text e args \<and> rq_timeout r \<le> 120 \<and>
     (\<exists>rules. dlp_policy (tc_dlp_rules ctx) = Inr rules \<and> dlp_scan rules (haystack e url args) = None) \<and>
     (\<exists>headers. auth_headers w ctx url args = Inr headers) \<and> length rs \<le> MAX_REDIRECTS \<and>
     list_all (\<lambda>q. rq_method q = ''GET'' \<and> rq_body q = None \<and> rq_timeout q = rq_timeout r) rs"
proof -
  have c: "check_egress w ctx url = Inr None"
      "\<exists>rules. dlp_policy (tc_dlp_rules ctx) = Inr rules \<and> dlp_scan rules (haystack e url args) = None"
      "\<exists>headers. auth_headers w ctx url args = Inr headers"
    using assms by (auto simp: http_request_def Let_def split: sum.splits option.splits)
  obtain rq where rq: "rq_url rq = url" "rq_method rq = mth" "rq_body rq = body_text e args" "rq_timeout rq \<le> 120"
      "snd (url_open w MAX_REDIRECTS [] rq) = r # rs"
    using assms
    by (auto simp: http_request_def Let_def simp del: min_def split: sum.splits option.splits if_splits
        intro: that [rotated -1])
  with url_open_sent [of w MAX_REDIRECTS "[]" rq] c show ?thesis by auto
qed

lemma url_open_unmoved:
  assumes "\<forall>status msg target. hw_net w rq \<noteq> Moved status msg target"
  shows "snd (url_open w n vis rq) = [rq]"
  using assms by (simp add: url_open.simps [of w n] split: http_reply.split)

lemma http_request_unmoved:
  assumes "snd (http_request e w ctx mth url args) = r # rs"
    and "\<forall>status msg target. hw_net w r \<noteq> Moved status msg target"
  shows "rs = []"
proof -
  obtain rq where rq: "snd (url_open w MAX_REDIRECTS [] rq) = r # rs"
    using assms(1) by (auto simp: http_request_def Let_def split: sum.splits option.splits)
  with url_open_sent [of w MAX_REDIRECTS "[]" rq] have "rq = r" by auto
  with url_open_unmoved [OF assms(2)] rq show ?thesis by simp
qed

lemma ssrf_blocked_host: "ssrf_blocked host = None \<Longrightarrow> rstrip_dots (str_lower host) \<notin> set SSRF_BLOCKED
     \<and> list_all (\<lambda>s. \<not> starts_with (rstrip_dots (str_lower host)) s) SSRF_SUBNETS"
  by (auto simp: ssrf_blocked_def Let_def list_ex_iff list_all_iff split: if_splits)

section \<open>Properties\<close>

text \<open>C13: what the tool sends has been checked.  If anything reaches the network and the server
  does not answer the first request with a redirect, then exactly one request was sent, the one
  asked for: its scheme is
  http or https, its host is neither a metadata host nor in a blocked range and matches the
  worker's allow-list, no enabled DLP rule matches the URL and body, a credential is attached
  only from a variable of \<open>env_allow\<close>, the method and body are the ones that were asked for and scanned, and the
  timeout is at most 120 seconds.  (What a redirect does is \<open>http_request_sent\<close> and \<open>redirects_are_not_checked\<close>.)\<close>

theorem http_sends_only_allowed:
  assumes "snd (http_request e w ctx mth url args) = r # rs"
    and "\<forall>status msg target. hw_net w r \<noteq> Moved status msg target"
  shows "rs = [] \<and> (\<exists>scheme host rules. url_scheme url = Inr scheme \<and> url_host url = Inr host \<and>
     scheme \<in> {''http'', ''https''} \<and> ssrf_blocked host = None \<and>
     list_ex (\<lambda>pat. hw_rx w pat host) (tc_egress_allow ctx) \<and>
     dlp_policy (tc_dlp_rules ctx) = Inr rules \<and>
     (\<forall>rule\<in>set rules. haystack e url args \<noteq> [] \<longrightarrow> \<not> rx_search (rule_rx rule) (haystack e url args)) \<and>
     (get_truthy args ''auth_env'' \<longrightarrow> get_str args ''auth_env'' \<in> set (tc_env_allow ctx)) \<and>
     rq_url r = url \<and> rq_method r = mth \<and> rq_body r = body_text e args \<and> rq_timeout r \<le> 120)"
proof -
  note sent = http_request_sent [OF assms(1)]
  have auth: "get_truthy args ''auth_env'' \<longrightarrow> get_str args ''auth_env'' \<in> set (tc_env_allow ctx)"
    using sent by (auto simp: auth_headers_def Let_def split: if_splits)
  obtain rules where rules: "dlp_policy (tc_dlp_rules ctx) = Inr rules"
      "dlp_scan rules (haystack e url args) = None"
    using sent by blast
  then have "\<forall>rule\<in>set rules. haystack e url args \<noteq> [] \<longrightarrow> \<not> rx_search (rule_rx rule) (haystack e url args)"
    using dlp_scan_None_iff [of "haystack e url args" rules] by auto
  moreover have "rs = []" using http_request_unmoved [OF assms(1)] assms(2) by blast
  ultimately show ?thesis using rules(1) auth sent
    by (auto simp: check_egress_None host_allowed_def)
qed

definition demo_world :: http_world where
  "demo_world = \<lparr>hw_rx = (\<lambda>pat text. contains text pat), hw_getenv = (\<lambda>_. None),
     hw_net = (\<lambda>_. Reply 200 ''ok''), hw_json = (\<lambda>_. None), hw_exc = (\<lambda>_. ''error'')\<rparr>"

definition open_ctx :: tool_context where
  "open_ctx = demo_ctx\<lparr>tc_egress_allow := [''api.example.com''], tc_dlp_rules := [''aws_access_key_id'']\<rparr>"

theorem http_sends_only_allowed_witness:
  "\<exists>host. url_host ''https://api.example.com/v1'' = Inr host \<and> ssrf_blocked host = None"
proof -
  let ?r = "\<lparr>rq_method = ''GET'', rq_url = ''https://api.example.com/v1'', rq_body = None,
    rq_headers = [], rq_timeout = 30\<rparr>"
  have h: "check_egress demo_world open_ctx ''https://api.example.com/v1'' = Inr None" by code_simp
  have d: "dlp_policy (tc_dlp_rules open_ctx) = Inr [\<lparr>rule_name = ''aws_access_key_id'',
      rule_kind = ''aws_access_key_id'', rule_rx = aws_rx\<rparr>]"
    by (simp add: open_ctx_def aws_rule)
  have nk: "\<not> rx_search aws_rx ''https://api.example.com/v1''" by code_simp
  have n: "hw_net demo_world q = Reply 200 ''ok''" for q by (simp add: demo_world_def)
  have "snd (http_request demo_env demo_world open_ctx ''GET'' ''https://api.example.com/v1'' []) = [?r]"
    using h d nk
    by (simp add: http_request_def dlp_scan_def haystack_def body_text_def auth_headers_def get_truthy_def get_dict_def Let_def
        url_open.simps n)
  from http_sends_only_allowed [OF this] n show ?thesis by auto
qed



text \<open>the limits of the SSRF filter.  A host in a blocked private range is refused for
  every allow-list; but the loopback names \<open>localhost\<close>, \<open>::1\<close> and \<open>0.0.0.0\<close> pass the filter
  and reach the network as soon as the allow-list matches them, although the documentation
  says loopback is refused regardless of the allow-list.\<close>

theorem ssrf_filter_limits:
  "(\<forall>url host. url_host url = Inr host \<longrightarrow> list_ex (starts_with (rstrip_dots (str_lower host))) SSRF_SUBNETS \<longrightarrow>
      snd (http_request e w ctx mth url args) = []) \<and>
   (\<forall>host\<in>{''localhost'', ''::1'', ''0.0.0.0''}. ssrf_blocked host = None \<and> host \<in> set LOCAL_HOSTS) \<and>
   length (snd (http_request demo_env demo_world (demo_ctx\<lparr>tc_egress_allow := [''localhost'']\<rparr>) ''GET''
      ''http://localhost:8000/admin'' [])) = 1"
proof (intro conjI)
  show "\<forall>url host. url_host url = Inr host \<longrightarrow> list_ex (starts_with (rstrip_dots (str_lower host))) SSRF_SUBNETS \<longrightarrow>
      snd (http_request e w ctx mth url args) = []"
  proof (intro allI impI)
    fix url host
    assume "url_host url = Inr host" and "list_ex (starts_with (rstrip_dots (str_lower host))) SSRF_SUBNETS"
    then have "check_egress w ctx url \<noteq> Inr None"
      by (auto simp: check_egress_None dest!: ssrf_blocked_host simp: list_all_iff list_ex_iff)
    then show "snd (http_request e w ctx mth url args) = []"
      by (auto simp: http_request_def split: sum.splits option.splits)
  qed
  show "\<forall>host\<in>{''localhost'', ''::1'', ''0.0.0.0''}. ssrf_blocked host = None \<and> host \<in> set LOCAL_HOSTS"
    by code_simp
  show "length (snd (http_request demo_env demo_world (demo_ctx\<lparr>tc_egress_allow := [''localhost'']\<rparr>) ''GET''
      ''http://localhost:8000/admin'' [])) = 1"
    by code_simp
qed

theorem ssrf_filter_limits_witness:
  "snd (http_request demo_env demo_world (demo_ctx\<lparr>tc_egress_allow := [''10'']\<rparr>) ''GET'' ''http://10.0.0.8/'' []) = []"
proof -
  have h: "url_host ''http://10.0.0.8/'' = Inr ''10.0.0.8''" by code_simp
  have s: "list_ex (starts_with (rstrip_dots (str_lower ''10.0.0.8''))) SSRF_SUBNETS" by code_simp
  from ssrf_filter_limits [THEN conjunct1, rule_format, OF h s] show ?thesis .
qed

text \<open>a redirect is followed wherever it leads.  An allow-listed server that answers with a redirect to the metadata service makes the
  tool ask it, with the credential of the first request.\<close>

definition redirecting_world :: http_world where
  "redirecting_world = demo_world\<lparr>hw_getenv := (\<lambda>_. Some ''token''),
     hw_net := (\<lambda>rq. if rq_url rq = ''https://api.example.com/v1'' then Moved 302 [] ''http://169.254.169.254/latest'' else Reply 200 ''keys'')\<rparr>"

theorem redirects_are_not_checked:
  "map (\<lambda>r. (rq_url r, dget (rq_headers r) ''Authorization''))
     (snd (http_request demo_env redirecting_world (open_ctx\<lparr>tc_env_allow := [''KEY'']\<rparr>) ''GET'' ''https://api.example.com/v1''
        [(''auth_env'', VStr ''KEY'')]))
   = [(''https://api.example.com/v1'', Some (VStr ''Bearer token'')), (''http://169.254.169.254/latest'', Some (VStr ''Bearer token''))] \<and>
   ssrf_blocked ''169.254.169.254'' \<noteq> None"
  by code_simp

end
