(* ===== verification/Permissions.thy ===== *)
theory Permissions
  imports Pyrisk Shellrisk Http
begin

text \<open>
  \<open>sworker/permissions.py\<close>, the decision: the effective risk of an invocation, the memory of
  refused risk ceilings, and \<open>PermissionEngine.evaluate\<close>.  \<open>ast.parse\<close> is a parameter, as in
  the Python classifier.  A Python set of refused values is a list without duplicates; only
  the wording of a reason depends on its order.  Lemmas: the declared risk is a floor, the
  guard never forgets, and what an automatic decision implies.
\<close>

record decision =
  dec_allowed :: bool
  dec_needs_approval :: bool
  dec_risk :: risk_level
  dec_reason :: string
  dec_denied :: bool

definition arg_str :: "env \<Rightarrow> doc \<Rightarrow> string \<Rightarrow> string" where
  "arg_str e args k = (case dget args k of Some v \<Rightarrow> py_str e v | None \<Rightarrow> [])"

definition classify :: "env \<Rightarrow> (string \<Rightarrow> node option) \<Rightarrow> tool \<Rightarrow> doc \<Rightarrow> error + risk_level" where
  "classify e parse tool args =
     bind_sum
       (if tool_name tool = ''http.get'' then risk_for_url (arg_str e args ''url'')
        else if tool_name tool = ''shell.exec'' then Inr (classify_shell (arg_str e args ''command'') Destructive)
        else if tool_name tool = ''python.run'' then Inr (classify_python parse (arg_str e args ''code'') Destructive)
        else Inr (tool_risk tool))
       (\<lambda>risk. Inr (if risk_rank risk < risk_rank (tool_risk tool) then tool_risk tool else risk))"

section \<open>The decomposition guard\<close>

record guard =
  gd_refused :: "risk_level list"
  gd_pending :: "risk_level list"

definition new_guard :: guard where
  "new_guard = \<lparr>gd_refused = [], gd_pending = []\<rparr>"

definition record_rejection :: "risk_level \<Rightarrow> guard \<Rightarrow> guard" where
  "record_rejection r g = g\<lparr>gd_refused := List.insert r (gd_refused g)\<rparr>"

definition record_pending :: "risk_level \<Rightarrow> guard \<Rightarrow> guard" where
  "record_pending r g = g\<lparr>gd_pending := List.insert r (gd_pending g)\<rparr>"

definition clear_pending :: "risk_level \<Rightarrow> guard \<Rightarrow> guard" where
  "clear_pending r g = g\<lparr>gd_pending := removeAll r (gd_pending g)\<rparr>"

definition blocked_reason :: "guard \<Rightarrow> risk_level \<Rightarrow> string option" where
  "blocked_reason g risk =
     map_option (\<lambda>refused. ''a '' @ str_upper (risk_level_value refused)
         @ '' action was already rejected in this run; refusing an equal-or-higher-risk ''
         @ str_upper (risk_level_value risk)
         @ '' action rather than letting the task be decomposed around the rejection'')
       (find (\<lambda>refused. risk_rank refused \<le> risk_rank risk \<and> risk_rank risk > risk_rank Reversible)
          (gd_refused g))"

section \<open>The decision\<close>

definition evaluate ::
    "env \<Rightarrow> (string \<Rightarrow> node option) \<Rightarrow> worker_config \<Rightarrow> guard \<Rightarrow> tool \<Rightarrow> doc \<Rightarrow> error + decision" where
  "evaluate e parse worker g tool args =
     bind_sum (classify e parse tool args) (\<lambda>risk.
       let policy = policy_for worker risk; label = str_upper (risk_level_value risk) in
       case blocked_reason g risk of
         Some blocked \<Rightarrow> Inr \<lparr>dec_allowed = False, dec_needs_approval = False, dec_risk = risk,
           dec_reason = blocked, dec_denied = True\<rparr>
       | None \<Rightarrow>
          if policy = ''deny'' then
            Inr \<lparr>dec_allowed = False, dec_needs_approval = False, dec_risk = risk,
              dec_reason = ''worker policy denies all '' @ label @ '' actions'', dec_denied = True\<rparr>
          else if tool_requires_approval tool then
            Inr \<lparr>dec_allowed = False, dec_needs_approval = True, dec_risk = risk,
              dec_reason = ''tool '' @ repr_str (tool_name tool) @ '' always requires approval ('' @ label @ '')'',
              dec_denied = False\<rparr>
          else if policy = ''approve'' then
            Inr \<lparr>dec_allowed = False, dec_needs_approval = True, dec_risk = risk,
              dec_reason = ''worker policy requires approval for '' @ label @ '' actions'', dec_denied = False\<rparr>
          else
            Inr \<lparr>dec_allowed = True, dec_needs_approval = False, dec_risk = risk,
              dec_reason = label @ '' is automatic under worker policy'', dec_denied = False\<rparr>)"

section \<open>Lemmas\<close>

lemma classify_floor: "classify e parse tool args = Inr r \<Longrightarrow> tool_risk tool \<le> r"
  unfolding classify_def
  by (erule bind_sumE) (auto simp: risk_less_rank [symmetric] risk_le_rank [symmetric] split: if_splits)

lemma blocked_iff:
  "blocked_reason g r \<noteq> None \<longleftrightarrow> Reversible < r \<and> (\<exists>q\<in>set (gd_refused g). q \<le> r)"
  by (auto simp: blocked_reason_def find_None_iff less_risk_level_def less_eq_risk_level_def)

lemma evaluate_risk: "evaluate e parse w g t args = Inr d \<Longrightarrow> classify e parse t args = Inr (dec_risk d)"
  unfolding evaluate_def
  by (erule bind_sumE) (auto simp: Let_def split: option.splits if_splits)

lemma evaluate_cases:
  assumes "evaluate e parse w g t args = Inr d"
  shows "(blocked_reason g (dec_risk d) \<noteq> None \<or> policy_for w (dec_risk d) = ''deny'' \<longleftrightarrow> dec_denied d) \<and>
    (dec_needs_approval d \<longleftrightarrow> \<not> dec_denied d \<and> (tool_requires_approval t \<or> policy_for w (dec_risk d) = ''approve'')) \<and>
    (dec_allowed d \<longleftrightarrow> \<not> dec_denied d \<and> \<not> dec_needs_approval d)"
  using assms unfolding evaluate_def
  by (elim bind_sumE) (auto simp: Let_def split: option.splits if_splits)

lemma evaluate_total:
  "classify e parse t args = Inr r \<Longrightarrow> \<exists>d. evaluate e parse w g t args = Inr d \<and> dec_risk d = r"
  by (simp add: evaluate_def Let_def split: option.split)

lemma classify_other:
  "tool_name t \<notin> {''http.get'', ''shell.exec'', ''python.run''} \<Longrightarrow> classify e parse t args = Inr (tool_risk t)"
  by (simp add: classify_def)

text \<open>Histories of the guard: every sequence of its operations.\<close>

inductive guard_step :: "guard \<Rightarrow> guard \<Rightarrow> bool" where
  gs_reject: "guard_step g (record_rejection r g)"
| gs_pending: "guard_step g (record_pending r g)"
| gs_clear: "guard_step g (clear_pending r g)"

inductive_cases guard_stepE: "guard_step g g'"

abbreviation guard_later :: "guard \<Rightarrow> guard \<Rightarrow> bool" where
  "guard_later \<equiv> guard_step\<^sup>*\<^sup>*"

lemma guard_later_refused: "guard_later g g' \<Longrightarrow> set (gd_refused g) \<subseteq> set (gd_refused g')"
proof (induction rule: rtranclp_induct)
  case (step b c)
  then show ?case
    by (auto elim!: guard_stepE simp: record_rejection_def record_pending_def clear_pending_def)
qed simp

lemma blocked_pending [simp]:
  "blocked_reason (record_pending r g) q = blocked_reason g q"
  "blocked_reason (clear_pending r g) q = blocked_reason g q"
  by (simp_all add: blocked_reason_def record_pending_def clear_pending_def)

section \<open>Properties\<close>

text \<open>decomposition does not launder risk.  Once a human has rejected an action of risk
  \<open>r\<close> in a run, then after any further guard operations every invocation, of whatever tool
  with whatever arguments and policy, whose effective risk is at least \<open>r\<close> and above
  \<open>REVERSIBLE\<close>, is denied without asking anyone.\<close>

theorem rejection_is_sticky:
  assumes "guard_later (record_rejection r g) g'" and "evaluate e parse w g' t args = Inr d"
    and "r \<le> dec_risk d" and "Reversible < dec_risk d"
  shows "dec_denied d \<and> \<not> dec_allowed d \<and> \<not> dec_needs_approval d"
proof -
  have "r \<in> set (gd_refused g')"
    using guard_later_refused [OF assms(1)] by (auto simp: record_rejection_def)
  with assms(3,4) have "blocked_reason g' (dec_risk d) \<noteq> None" using blocked_iff by blast
  with evaluate_cases [OF assms(2)] show ?thesis by auto
qed

theorem rejection_is_sticky_witness:
  "\<exists>d. evaluate demo_env (\<lambda>_. None) ((default_worker ''w'')\<lparr>wc_policy := [(''destructive'', ''auto'')]\<rparr>)
       (record_pending Read (record_rejection External new_guard)) (demo_tool ''fs.delete'' Destructive) [] = Inr d
     \<and> dec_denied d"
proof -
  let ?g = "record_pending Read (record_rejection External new_guard)"
  let ?w = "(default_worker ''w'')\<lparr>wc_policy := [(''destructive'', ''auto'')]\<rparr>"
  have "classify demo_env (\<lambda>_. None) (demo_tool ''fs.delete'' Destructive) [] = Inr Destructive"
    by (simp add: classify_other demo_tool_def)
  from evaluate_total [OF this] obtain d
    where d: "evaluate demo_env (\<lambda>_. None) ?w ?g (demo_tool ''fs.delete'' Destructive) [] = Inr d"
      "dec_risk d = Destructive" by blast
  have "guard_later (record_rejection External new_guard) ?g"
    by (rule r_into_rtranclp) (rule gs_pending)
  from rejection_is_sticky [OF this d(1)] d show ?thesis by (auto simp: less_risk_level_def less_eq_risk_level_def)
qed



text \<open>two documented behaviours that the code does not have.  The one documented
  downgrade, an HTTP GET of a local host to \<open>READ\<close>, never takes effect, because the floor
  lifts it back to the declared \<open>EXTERNAL\<close>; and a risk that awaits a decision blocks nothing:
  the decision is the same whatever is pending.\<close>

theorem downgrade_and_pending_inert:
  assumes "tool_name t = ''http.get''" and "tool_risk t = External"
  shows "(\<forall>r. classify e parse t args = Inr r \<longrightarrow> r = External) \<and>
    evaluate e parse w (record_pending q g) u args' = evaluate e parse w g u args'"
proof
  show "\<forall>r. classify e parse t args = Inr r \<longrightarrow> r = External"
    using assms by (auto simp: classify_def risk_for_url_def elim!: bind_sumE split: if_splits)
  show "evaluate e parse w (record_pending q g) u args' = evaluate e parse w g u args'"
    by (simp add: evaluate_def)
qed

theorem downgrade_and_pending_inert_witness:
  "classify demo_env (\<lambda>_. None) (demo_tool ''http.get'' External) [(''url'', VStr ''http://localhost:8000/'')] = Inr External"
proof -
  obtain r where r: "classify demo_env (\<lambda>_. None) (demo_tool ''http.get'' External)
      [(''url'', VStr ''http://localhost:8000/'')] = Inr r"
  proof
    have "url_host ''http://localhost:8000/'' = Inr ''localhost''" by code_simp
    then show "classify demo_env (\<lambda>_. None) (demo_tool ''http.get'' External)
      [(''url'', VStr ''http://localhost:8000/'')] = Inr External"
      by (simp add: classify_def risk_for_url_def arg_str_def demo_tool_def)
  qed
  have "tool_name (demo_tool ''http.get'' External) = ''http.get''" "tool_risk (demo_tool ''http.get'' External) = External"
    by (simp_all add: demo_tool_def)
  from downgrade_and_pending_inert [THEN conjunct1, rule_format, OF this r] r show ?thesis by simp
qed

end
