(* ===== verification/Audit_Chain.thy ===== *)
theory Audit_Chain
  imports Store
begin

text \<open>
  The hash chain of the audit log.  An abstract chain (locale \<open>hash_chain\<close>) is a list of
  records, each naming its predecessor's hash and carrying its own; the locale proves that
  two intact chains that end in the same hash are equal unless two of their records collide.
  The interpretation is the audit log of \<open>store.py\<close>.  Lemmas: every operation of the store
  appends intact entries, so \<open>verify_audit_chain\<close> accepts the log of any run; what it does
  not notice (truncation, a hashless line, an interleaved tenant) is shown in the root theory.
\<close>

section \<open>Abstract chains\<close>

fun linked :: "('r \<Rightarrow> 'h) \<Rightarrow> ('r \<Rightarrow> 'h) \<Rightarrow> ('r \<Rightarrow> 'h) \<Rightarrow> 'h \<Rightarrow> 'r list \<Rightarrow> bool" where
  "linked prev own dig h [] = True"
| "linked prev own dig h (r # rs) = (prev r = h \<and> own r = dig r \<and> linked prev own dig (own r) rs)"

fun chain_end :: "('r \<Rightarrow> 'h) \<Rightarrow> 'h \<Rightarrow> 'r list \<Rightarrow> 'h" where
  "chain_end own h [] = h"
| "chain_end own h (r # rs) = chain_end own (own r) rs"

lemma chain_end_append [simp]: "chain_end own h (rs @ [r]) = own r"
  by (induction rs arbitrary: h) auto

lemma chain_end_append2: "chain_end own h (rs @ qs) = chain_end own (chain_end own h rs) qs"
  by (induction rs arbitrary: h) auto

lemma linked_append:
  "linked prev own dig h (rs @ qs) \<longleftrightarrow>
     linked prev own dig h rs \<and> linked prev own dig (chain_end own h rs) qs"
  by (induction rs arbitrary: h) auto

locale hash_chain =
  fixes prev own dig :: "'r \<Rightarrow> 'h" and genesis :: 'h and wf :: "'r \<Rightarrow> bool"
  assumes dig_genesis: "wf r \<Longrightarrow> dig r \<noteq> genesis"
begin

lemma linked_end_genesis:
  "linked prev own dig genesis rs \<Longrightarrow> \<forall>r\<in>set rs. wf r \<Longrightarrow> chain_end own genesis rs = genesis \<Longrightarrow> rs = []"
proof (induction rs rule: rev_induct)
  case (snoc r rs)
  then have "own r = dig r" by (simp add: linked_append)
  with snoc.prems show ?case using dig_genesis by auto
qed simp

text \<open>Same end, no collision between the two chains: the chains are the same.\<close>

lemma chains_agree:
  assumes "linked prev own dig genesis rs" and "linked prev own dig genesis qs"
    and "\<forall>r\<in>set rs. wf r" and "\<forall>q\<in>set qs. wf q"
    and "chain_end own genesis rs = chain_end own genesis qs"
    and "\<forall>r\<in>set rs. \<forall>q\<in>set qs. dig r = dig q \<longrightarrow> r = q"
  shows "rs = qs"
  using assms
proof (induction rs arbitrary: qs rule: rev_induct)
  case Nil
  then show ?case using linked_end_genesis [of qs] by auto
next
  case (snoc r rs)
  show ?case
  proof (cases qs rule: rev_cases)
    case Nil
    then show ?thesis using snoc.prems linked_end_genesis [of "rs @ [r]"] by auto
  next
    case (snoc qs' q)
    have lr: "linked prev own dig genesis rs" "prev r = chain_end own genesis rs" "own r = dig r"
      using snoc.prems(1) by (auto simp: linked_append)
    have lq: "linked prev own dig genesis qs'" "prev q = chain_end own genesis qs'" "own q = dig q"
      using snoc.prems(2) snoc by (auto simp: linked_append)
    have "dig r = dig q" using snoc.prems(5) snoc lr lq by simp
    then have rq: "r = q" using snoc.prems(6) snoc by auto
    have "rs = qs'"
      by (rule snoc.IH) (use lr lq rq snoc.prems snoc in auto)
    with rq snoc show ?thesis by simp
  qed
qed

end

section \<open>The audit log as a chain\<close>

definition rec_prev :: "doc \<Rightarrow> pyval" where
  "rec_prev r = (case dget r ''previous_event_hash'' of Some p \<Rightarrow> p | None \<Rightarrow> VNone)"

definition rec_own :: "doc \<Rightarrow> pyval" where
  "rec_own r = (case dget r ''event_hash'' of Some h \<Rightarrow> h | None \<Rightarrow> VNone)"

definition rec_digest :: "env \<Rightarrow> doc \<Rightarrow> pyval" where
  "rec_digest e r = VStr (hash_record e r)"

definition hashed :: "doc \<Rightarrow> bool" where
  "hashed r \<longleftrightarrow> dget r ''event_hash'' \<noteq> None"

abbreviation audit_linked :: "env \<Rightarrow> pyval \<Rightarrow> doc list \<Rightarrow> bool" where
  "audit_linked e h rs \<equiv> linked rec_prev rec_own (rec_digest e) h rs"

abbreviation genesis :: pyval where
  "genesis \<equiv> VStr GENESIS_HASH"

text \<open>A digest that is longer than the word \<open>genesis\<close>, as SHA-256's 64 hex digits are.\<close>

definition hex_digests :: "env \<Rightarrow> bool" where
  "hex_digests e \<longleftrightarrow> (\<forall>x. length (sha256 e x) = 64)"

text \<open>The environment with the digests cut or padded to 64 digits, to interpret the chain
  laws without an assumption on it.\<close>

interpretation audit_chain: hash_chain rec_prev rec_own "rec_digest e" genesis
    "\<lambda>r. length (hash_record e r) = 64" for e
proof unfold_locales
  fix r assume "length (hash_record e r) = 64"
  then show "rec_digest e r \<noteq> genesis" by (auto simp: rec_digest_def GENESIS_HASH_def)
qed

text \<open>What the verifier computes on a log of hashed entries of its own workspace.\<close>

definition same_ws :: "string \<Rightarrow> doc \<Rightarrow> bool" where
  "same_ws ws r \<longleftrightarrow> ws = [] \<or> \<not> get_truthy r ''workspace'' \<or> dget r ''workspace'' = Some (VStr ws)"

fun scan_errors :: "env \<Rightarrow> nat \<Rightarrow> pyval \<Rightarrow> doc list \<Rightarrow> chain_error list" where
  "scan_errors e i h [] = []"
| "scan_errors e i h (r # rs) =
     (if rec_prev r \<noteq> h then [Link_broken i] else []) @
     (if rec_digest e r \<noteq> rec_own r then [Hash_mismatch i] else []) @
     scan_errors e (Suc i) (rec_own r) rs"

lemma scan_entries:
  assumes "\<forall>r\<in>set rs. hashed r \<and> same_ws ws r"
  shows "chain_scan e ws i h rep (map Entry rs) =
    rep\<lparr>rep_lines := rep_lines rep + length rs, rep_checked := rep_checked rep + length rs,
        rep_errors := rep_errors rep @ scan_errors e i h rs\<rparr>"
  using assms
proof (induction rs arbitrary: i h rep)
  case (Cons r rs)
  then obtain hv where "dget r ''event_hash'' = Some hv" by (auto simp: hashed_def)
  with Cons show ?case
    by (auto simp: Let_def same_ws_def rec_prev_def rec_own_def rec_digest_def)
qed simp

lemma scan_errors_Nil_iff: "scan_errors e i h rs = [] \<longleftrightarrow> audit_linked e h rs"
  by (induction rs arbitrary: i h) auto

lemma verify_entries:
  assumes "\<forall>r\<in>set rs. hashed r \<and> same_ws ws r"
  shows "rep_ok (verify_lines e ws (map Entry rs)) \<longleftrightarrow> audit_linked e genesis rs"
    and "rep_checked (verify_lines e ws (map Entry rs)) = length rs"
    and "rep_lines (verify_lines e ws (map Entry rs)) = length rs"
  by (simp_all add: verify_lines_def scan_entries [OF assms] rep_ok_def scan_errors_Nil_iff)

section \<open>Every store operation extends the chain\<close>

lemma last_line_append_Entry [simp]: "last_line (ls @ [Entry r]) = Some (Entry r)"
  by (induction ls) auto

lemma last_line_map_Entry: "last_line (map Entry rs) = (if rs = [] then None else Some (Entry (last rs)))"
  by (induction rs) auto

lemma chain_end_last: "rs \<noteq> [] \<Longrightarrow> chain_end own h rs = own (last rs)"
  by (induction rs arbitrary: h) auto

lemma previous_hash_entries:
  assumes "\<forall>r\<in>set rs. hashed r"
  shows "previous_hash (map Entry rs) = chain_end rec_own genesis rs"
proof (cases "rs = []")
  case False
  then have "hashed (last rs)" using assms by simp
  with False show ?thesis
    by (auto simp: previous_hash_def last_line_map_Entry chain_end_last rec_own_def hashed_def)
qed (simp add: previous_hash_def)

lemma dset_new: "dget d k = None \<Longrightarrow> dset d k v = d @ [(k, v)]"
  by (induction d k v rule: dset.induct) (auto split: if_splits)

lemma filter_sort_snoc_neg: "\<not> P x \<Longrightarrow> filter P (sort_key f (xs @ [x])) = filter P (sort_key f xs)"
  by (simp add: filter_sort)

text \<open>Writing the hash into a record does not change its hash.\<close>

lemma hash_record_event_hash:
  assumes "dget r ''event_hash'' = None"
  shows "hash_record e (dset r ''event_hash'' v) = hash_record e r"
  using assms by (simp add: hash_record_def hash_preimage_def dset_new filter_sort_snoc_neg)

lemma audit_body_get [simp]:
  "dget (audit_body s ev t r p) ''event_hash'' = None"
  "dget (audit_body s ev t r p) ''previous_event_hash'' = Some (previous_hash (audit_log s))"
  "dget (audit_body s ev t r p) ''workspace'' = Some (VStr (workspace_id s))"
  "dget (audit_body s ev t r p) ''event'' = Some (VStr ev)"
  "dget (audit_body s ev t r p) ''id'' = Some (VStr r)"
  "dget (audit_body s ev t r p) ''table'' = Some (VStr t)"
  "dget (audit_body s ev t r p) ''payload'' = Some (VDict p)"
  by (simp_all add: audit_body_def)

lemma audit_entry_facts:
  "hashed (audit_entry s ev t r p)"
  "rec_prev (audit_entry s ev t r p) = previous_hash (audit_log s)"
  "rec_digest (env s) (audit_entry s ev t r p) = rec_own (audit_entry s ev t r p)"
  "dget (audit_entry s ev t r p) ''workspace'' = Some (VStr (workspace_id s))"
  "dget (audit_entry s ev t r p) ''event'' = Some (VStr ev)"
  "dget (audit_entry s ev t r p) ''payload'' = Some (VDict p)"
  by (simp_all add: audit_entry_def Let_def hashed_def rec_prev_def rec_own_def rec_digest_def
      hash_record_event_hash)

text \<open>
  The log invariant of a store used by one tenant: all lines are hashed entries stamped with
  the store's workspace and they form a chain from the genesis hash.
\<close>

definition log_intact :: "store \<Rightarrow> bool" where
  "log_intact s \<longleftrightarrow> (\<exists>rs. audit_log s = map Entry rs \<and>
     (\<forall>r\<in>set rs. hashed r \<and> dget r ''workspace'' = Some (VStr (workspace_id s))) \<and>
     audit_linked (env s) genesis rs)"

lemma log_intact_open: "log_intact (open_store e ws org)"
  by (simp add: log_intact_def open_store_def)

lemma log_intact_audit:
  assumes "log_intact s"
  shows "log_intact (audit_st ev t r p s)"
proof -
  obtain rs where rs: "audit_log s = map Entry rs"
      "\<forall>r\<in>set rs. hashed r \<and> dget r ''workspace'' = Some (VStr (workspace_id s))"
      "audit_linked (env s) genesis rs"
    using assms by (auto simp: log_intact_def)
  let ?x = "audit_entry s ev t r p"
  have "previous_hash (audit_log s) = chain_end rec_own genesis rs"
    using rs by (simp add: previous_hash_entries)
  with rs have "audit_linked (env s) genesis (rs @ [?x])"
    by (simp add: linked_append audit_entry_facts)
  moreover have "audit_log (audit_st ev t r p s) = map Entry (rs @ [?x])"
    using rs by (simp add: audit_st_def)
  ultimately show ?thesis
    unfolding log_intact_def audit_st_simps using rs(2) audit_entry_facts(1,4)
    by (intro exI [of _ "rs @ [?x]"]) auto
qed

lemma log_intact_same:
  "audit_log t = audit_log s \<Longrightarrow> env t = env s \<Longrightarrow> workspace_id t = workspace_id s \<Longrightarrow>
   log_intact t = log_intact s"
  by (simp add: log_intact_def)

named_theorems store_inv_intros \<open>operations of the store keep the log invariant\<close>

lemma intact_audit [store_inv_intros]: "op_inv log_intact (audit ev t r p)"
  by (rule op_invI) (simp add: log_intact_audit)

lemma intact_now [store_inv_intros]: "op_inv log_intact op_now"
  by (rule op_invI) (simp add: op_now_def log_intact_def)

lemma intact_new_id [store_inv_intros]: "op_inv log_intact (new_id p)"
  by (rule op_invI) (simp add: new_id_def log_intact_def)

lemma intact_put [store_inv_intros]: "op_inv log_intact (put t d ev)"
proof (rule op_invI)
  fix s :: store
  assume "log_intact s"
  then have "log_intact (put_row t rid x s)" for rid x
    by (simp add: put_row_def log_intact_def)
  then have "log_intact (put_state t rid d ev s)" for rid
    by (simp add: put_state_def log_intact_audit)
  with \<open>log_intact s\<close> show "log_intact (snd (put t d ev s))"
    by (simp add: put_eq split: option.splits pyval.splits)
qed

lemma intact_get [store_inv_intros]: "op_inv log_intact (get t r w)"
  by (rule op_invI) simp

lemma intact_find [store_inv_intros]: "op_inv log_intact (find_rows t q)"
  by (rule op_invI) simp

lemma intact_iter [store_inv_intros]: "op_inv log_intact (iter_audit r w)"
  by (rule op_invI) (simp add: iter_audit_def)

lemma intact_assert [store_inv_intros]: "op_inv log_intact (assert_tenant a b)"
  by (rule op_invI) (simp add: assert_tenant_def Let_def)

lemma intact_del_row [store_inv_intros]: "op_inv log_intact (op_modify (del_row t r))"
  by (rule op_invI) (simp add: del_row_def log_intact_def)

lemma intact_delete [store_inv_intros]: "op_inv log_intact (delete t r ev w)"
proof -
  have "op_inv log_intact (op_bind
        (if en then op_bind (get t r []) (\<lambda>x. case x of
                None \<Rightarrow> op_return False
              | Some rec \<Rightarrow> op_then (assert_tenant (get_str rec ''workspace_id'') w) (op_return True))
         else op_return True)
        (\<lambda>proceed. if \<not> proceed then op_return False
           else op_bind (op_gets (\<lambda>s. rows_get (tables s t) r \<noteq> None)) (\<lambda>deleted.
                  op_then (op_modify (del_row t r))
                    (if deleted then op_then (audit ev t r [(''id'', VStr r)]) (op_return True)
                     else op_return False))))" for en
    by (intro op_inv_intros store_inv_intros)
  then show ?thesis
    by (auto simp: op_inv_def delete_def split: if_splits)
qed

lemma intact_verifies:
  assumes "log_intact s"
  shows "rep_ok (verify_audit_chain [] s) \<and>
         rep_checked (verify_audit_chain [] s) = length (audit_log s)"
proof -
  obtain rs where rs: "audit_log s = map Entry rs"
      "\<forall>r\<in>set rs. hashed r \<and> dget r ''workspace'' = Some (VStr (workspace_id s))"
      "audit_linked (env s) genesis rs"
    using assms by (auto simp: log_intact_def)
  have "\<forall>r\<in>set rs. hashed r \<and> same_ws (effective_ws s []) r"
    using rs(2) by (auto simp: same_ws_def effective_ws_def)
  from verify_entries [OF this] rs show ?thesis
    by (simp add: verify_audit_chain_def)
qed

section \<open>Runs of the store\<close>

text \<open>One call of a state-changing operation of the store.\<close>

inductive store_step :: "store \<Rightarrow> store \<Rightarrow> bool" where
  step_put: "store_step s (snd (put t d ev s))"
| step_delete: "store_step s (snd (delete t r ev w s))"
| step_audit: "store_step s (snd (audit ev t r p s))"
| step_now: "store_step s (snd (op_now s))"
| step_new_id: "store_step s (snd (new_id p s))"

inductive_cases store_stepE: "store_step s s'"

inductive store_reachable :: "env \<Rightarrow> string \<Rightarrow> string \<Rightarrow> store \<Rightarrow> bool" for e ws org where
  reach_open: "store_reachable e ws org (open_store e ws org)"
| reach_step: "store_reachable e ws org s \<Longrightarrow> store_step s s' \<Longrightarrow> store_reachable e ws org s'"

lemma store_step_intact: "store_step s s' \<Longrightarrow> log_intact s \<Longrightarrow> log_intact s'"
  by (erule store_stepE)
     (auto intro: op_invI [THEN op_inv_def [THEN iffD1], rule_format]
           dest: store_inv_intros [unfolded op_inv_def, rule_format])

lemma reachable_intact: "store_reachable e ws org s \<Longrightarrow> log_intact s"
  by (induction rule: store_reachable.induct) (auto intro: log_intact_open store_step_intact)

text \<open>The log only grows: no operation edits or removes a line.\<close>

definition log_extends :: "audit_line list \<Rightarrow> store \<Rightarrow> bool" where
  "log_extends ls s \<longleftrightarrow> (\<exists>more. audit_log s = ls @ more)"

lemma log_extends_refl: "log_extends (audit_log s) s"
  by (simp add: log_extends_def)

lemma store_step_extends: "store_step s s' \<Longrightarrow> log_extends ls s \<Longrightarrow> log_extends ls s'"
  by (erule store_stepE)
     (auto simp: log_extends_def put_eq put_state_def put_row_def audit_st_def op_now_def new_id_def
        delete_def del_row_def op_simps get_eq assert_tenant_def Let_def
        split: option.splits pyval.splits if_splits)

section \<open>Properties of the store and its log\<close>

text \<open>C6: the log written by any sequence of store operations verifies end to end, and
  every line of it is checked.\<close>

theorem audit_log_verifies:
  assumes "store_reachable e ws org s"
  shows "rep_ok (verify_audit_chain [] s) \<and>
         rep_checked (verify_audit_chain [] s) = length (audit_log s)"
  using assms by (intro intact_verifies reachable_intact)

theorem audit_log_verifies_witness:
  "rep_checked (verify_audit_chain [] (snd (put ''runs'' [(''id'', VStr ''r1'')] ''run.started''
      (open_store demo_env ''ws'' ''org'')))) = 1"
proof -
  let ?s = "open_store demo_env ''ws'' ''org''"
  have "store_reachable demo_env ''ws'' ''org'' (snd (put ''runs'' [(''id'', VStr ''r1'')] ''run.started'' ?s))"
    by (rule reach_step [OF reach_open step_put])
  from audit_log_verifies [OF this] show ?thesis
    by (simp add: put_eq put_state_def audit_st_def put_row_def open_store_def)
qed

text \<open>C7: tamper evidence.  Two logs of hashed entries that both verify and end in the
  same event hash are the same log, unless an entry of one collides with a different entry of
  the other under \<open>_hash_record\<close>.\<close>

theorem audit_tamper_evident:
  assumes "rep_ok (verify_lines e [] (map Entry rs))" and "rep_ok (verify_lines e [] (map Entry qs))"
    and "\<forall>r\<in>set (rs @ qs). hashed r" and "hex_digests e"
    and "rs \<noteq> []" and "qs \<noteq> []"
    and "dget (last rs) ''event_hash'' = dget (last qs) ''event_hash''"
  shows "rs = qs \<or> (\<exists>r\<in>set rs. \<exists>q\<in>set qs. r \<noteq> q \<and> hash_record e r = hash_record e q)"
proof (rule disjCI)
  assume nocol: "\<not> (\<exists>r\<in>set rs. \<exists>q\<in>set qs. r \<noteq> q \<and> hash_record e r = hash_record e q)"
  have ok: "\<forall>r\<in>set rs. hashed r \<and> same_ws [] r" "\<forall>q\<in>set qs. hashed q \<and> same_ws [] q"
    using assms(3) by (auto simp: same_ws_def)
  have "length (hash_record e r) = 64" for r
    using assms(4) by (simp add: hex_digests_def hash_record_def)
  moreover have "audit_linked e genesis rs" "audit_linked e genesis qs"
    using assms(1,2) verify_entries(1) [OF ok(1), of e] verify_entries(1) [OF ok(2), of e] by auto
  moreover have "chain_end rec_own genesis rs = chain_end rec_own genesis qs"
    using assms(5-7) by (simp add: chain_end_last rec_own_def)
  ultimately show "rs = qs"
    using nocol by (intro audit_chain.chains_agree) (auto simp: rec_digest_def)
qed

theorem audit_tamper_evident_witness:
  "\<exists>rs. rs \<noteq> [] \<and> rep_ok (verify_lines demo_env [] (map Entry rs)) \<and>
     (rs = rs \<or> (\<exists>r\<in>set rs. \<exists>q\<in>set rs. r \<noteq> q \<and> hash_record demo_env r = hash_record demo_env q))"
proof -
  let ?s = "open_store demo_env [] []"
  let ?r = "audit_entry ?s ''put'' ''runs'' ''r1'' []"
  have "log_intact (audit_st ''put'' ''runs'' ''r1'' [] ?s)"
    by (intro log_intact_audit log_intact_open)
  then have "rep_ok (verify_audit_chain [] (audit_st ''put'' ''runs'' ''r1'' [] ?s))"
    using intact_verifies by blast
  then have ok: "rep_ok (verify_lines demo_env [] (map Entry [?r]))"
    by (simp add: verify_audit_chain_def audit_st_def effective_ws_def enforce_def open_store_def)
  have "hex_digests demo_env" by (simp add: hex_digests_def)
  from audit_tamper_evident [OF ok ok _ this] ok show ?thesis
    by (intro exI [of _ "[?r]"]) (simp add: audit_entry_facts)
qed

text \<open>a limit of the chain.  In a log that verifies, any prefix may be replaced by one
  line without an \<open>event_hash\<close> that names the last hash of the deleted part: the verifier
  takes it as a legacy line, resets its link and accepts the rest.\<close>

theorem hashless_line_hides_deletion:
  assumes "rep_ok (verify_lines e [] (map Entry (rs @ qs)))" and "\<forall>r\<in>set (rs @ qs). hashed r"
  shows "rep_ok (verify_lines e []
           (Entry [(''previous_event_hash'', chain_end rec_own genesis rs)] # map Entry qs))"
proof -
  have ok: "\<forall>r\<in>set (rs @ qs). hashed r \<and> same_ws [] r" "\<forall>r\<in>set qs. hashed r \<and> same_ws [] r"
    using assms(2) by (auto simp: same_ws_def)
  have "audit_linked e (chain_end rec_own genesis rs) qs"
    using assms(1) verify_entries(1) [OF ok(1), of e] by (simp add: linked_append)
  then show ?thesis
    by (simp add: verify_lines_def scan_entries [OF ok(2)] rep_ok_def scan_errors_Nil_iff)
qed

theorem hashless_line_hides_deletion_witness:
  "rep_ok (verify_lines demo_env [] [Entry [(''previous_event_hash'', genesis)]])"
  using hashless_line_hides_deletion [of demo_env "[]" "[]"]
  by (simp add: verify_lines_def rep_ok_def)

text \<open>two workspaces that share one store directory share its log.  Entries written
  alternately by workspaces A, B, A are honest and their full chain is intact, yet A's own
  verification skips B's line, keeps the old link and reports the log broken, unless the
  digests of the first two entries collide.\<close>

theorem interleaved_tenants_reported_broken:
  assumes "wa \<noteq> []" and "wb \<noteq> []" and "wa \<noteq> wb" and "workspace_id s = wa" and "audit_log s = []"
    and "s1 = audit_st ev1 t1 r1 p1 s" and "s2 = audit_st ev2 t2 r2 p2 (s1\<lparr>workspace_id := wb\<rparr>)"
    and "s3 = audit_st ev3 t3 r3 p3 (s2\<lparr>workspace_id := wa\<rparr>)"
    and "hash_record (env s) (audit_entry s ev1 t1 r1 p1) \<noteq>
         hash_record (env s) (audit_entry (s1\<lparr>workspace_id := wb\<rparr>) ev2 t2 r2 p2)"
  shows "rep_errors (verify_audit_chain [] s3) = [Link_broken 2]"
proof -
  let ?a = "audit_entry s ev1 t1 r1 p1"
  let ?b = "audit_entry (s1\<lparr>workspace_id := wb\<rparr>) ev2 t2 r2 p2"
  let ?c = "audit_entry (s2\<lparr>workspace_id := wa\<rparr>) ev3 t3 r3 p3"
  have log: "audit_log s3 = map Entry [?a, ?b, ?c]" and env: "env s1 = env s" "env s2 = env s" "env s3 = env s"
    and ws: "workspace_id s3 = wa"
    using assms by (simp_all add: audit_st_def)
  have fa: "hashed ?a" "rec_prev ?a = genesis" "rec_digest (env s) ?a = rec_own ?a"
    and fc: "hashed ?c" "rec_prev ?c = rec_own ?b" "rec_digest (env s) ?c = rec_own ?c"
    and fb: "rec_digest (env s) ?b = rec_own ?b"
    using audit_entry_facts [of s ev1 t1 r1 p1] assms env
      audit_entry_facts [of "s1\<lparr>workspace_id := wb\<rparr>" ev2 t2 r2 p2]
      audit_entry_facts [of "s2\<lparr>workspace_id := wa\<rparr>" ev3 t3 r3 p3]
    by (auto simp: audit_st_def previous_hash_def rec_own_def hashed_def split: option.splits)
  have wsa: "dget ?a ''workspace'' = Some (VStr wa)" "dget ?b ''workspace'' = Some (VStr wb)"
      "dget ?c ''workspace'' = Some (VStr wa)"
    using assms(4) by (simp_all add: audit_entry_facts)
  have ne: "rec_own ?b \<noteq> rec_own ?a"
    unfolding fa(3) [symmetric] fb [symmetric] using assms(9) by (simp add: rec_digest_def)
  have eff: "effective_ws s3 [] = wa" using ws assms(1) by (simp add: effective_ws_def enforce_def)
  obtain ha hc where h: "dget ?a ''event_hash'' = Some ha" "dget ?c ''event_hash'' = Some hc"
    using fa(1) fc(1) by (auto simp: hashed_def)
  show ?thesis
    unfolding verify_audit_chain_def verify_lines_def log eff env
    using assms(1-3) wsa h fa fc ne
    by (simp add: get_truthy_def rec_prev_def rec_own_def rec_digest_def Let_def)
qed

definition short_hash_env :: env where
  "short_hash_env = demo_env\<lparr>sha256 := (\<lambda>x. drop 17 (take 18 x))\<rparr>"

theorem interleaved_tenants_reported_broken_witness:
  "\<exists>s3. rep_errors (verify_audit_chain [] s3) = [Link_broken 2]"
proof -
  let ?s = "open_store short_hash_env ''a'' ''org''"
  let ?t = "audit_st ''x'' ''runs'' ''r'' [] ?s"
  have p: "sort_key fst (audit_entry s ev t r p) = sort_key fst (audit_body s ev t r p @
       [(''event_hash'', VStr (hash_record (env s) (audit_body s ev t r p)))])" for s ev t r p
    by (simp add: audit_entry_def Let_def dset_new)
  have ne: "hash_record (env ?s) (audit_entry ?s ''x'' ''runs'' ''r'' []) \<noteq>
      hash_record (env ?s) (audit_entry (?t\<lparr>workspace_id := ''b''\<rparr>) ''yyyyyyyyyyyyyyy'' ''runs'' ''r'' [])"
    by (simp add: audit_entry_def Let_def hash_record_event_hash)
       (simp add: hash_record_def hash_preimage_def audit_body_def short_hash_env_def open_store_def
         json_str_def json_char_def)
  show ?thesis
    by (rule exI, rule interleaved_tenants_reported_broken
        [where wa = "''a''" and wb = "''b''" and s = ?s, OF _ _ _ _ _ refl refl refl ne])
      (simp_all add: open_store_def)
qed

text \<open>tenant isolation of \<open>get\<close>.  Called without a workspace, an enforcing store
  returns only records stamped with its own workspace; any other row raises.\<close>

theorem get_isolates_tenants:
  assumes "enforce s" and "get t rid [] s = (Inr (Some d), s')"
  shows "get_str d ''workspace_id'' = workspace_id s \<and> tget s t rid = Some d \<and> s' = s"
  using assms by (auto simp: get_eq own_row_def split: if_splits option.splits)

theorem get_isolates_tenants_witness:
  "get_str (stamp (open_store demo_env ''a'' ''o'') [(''id'', VStr ''r1'')]) ''workspace_id'' = ''a''"
proof -
  let ?s = "open_store demo_env ''a'' ''o''"
  let ?t = "put_state ''runs'' ''r1'' [(''id'', VStr ''r1'')] ''run'' ?s"
  have "enforce ?t" by (simp add: enforce_def open_store_def)
  from get_isolates_tenants [OF this get_after_put] show ?thesis
    by (simp add: open_store_def)
qed

text \<open>with an explicit \<open>workspace=\<close> argument \<open>get\<close> crosses the boundary: an
  enforcing store of one workspace hands out the record of another when asked with the
  other's name, where \<open>find\<close> with the same argument raises.\<close>

theorem get_explicit_workspace_crosses:
  assumes "enforce s" and "known_table t" and "w \<noteq> workspace_id s" and "w \<noteq> []"
    and "tget s t rid = Some d" and "get_str d ''workspace_id'' = w"
  shows "get t rid w s = (Inr (Some d), s) \<and>
         find_rows t ((by_cols [])\<lparr>q_workspace := Some w\<rparr>) s = (Inl CrossTenantAccess, s)"
  using assms
  by (auto simp: get_def tget_def assert_tenant_def op_simps Let_def find_rows_def by_cols_def
      query_ws_def known_table_def)

theorem get_explicit_workspace_crosses_witness:
  "\<exists>s d. workspace_id s = ''b'' \<and> enforce s \<and> get_str d ''workspace_id'' = ''a'' \<and>
     get ''runs'' ''r1'' ''a'' s = (Inr (Some d), s)"
proof -
  let ?s = "put_state ''runs'' ''r1'' [(''id'', VStr ''r1'')] ''run'' (open_store demo_env ''a'' ''o'')"
  let ?d = "stamp (open_store demo_env ''a'' ''o'') [(''id'', VStr ''r1'')]"
  let ?t = "?s\<lparr>workspace_id := ''b''\<rparr>"
  have e: "enforce ?t" by (simp add: enforce_def)
  have w: "workspace_id ?t = ''b''" by simp
  have g: "tget ?t ''runs'' ''r1'' = Some ?d"
    by (simp add: tget_def)
  have i: "get_str ?d ''workspace_id'' = ''a''"
    by (simp add: stamp_def enforce_def open_store_def get_str_def)
  from get_explicit_workspace_crosses [OF e _ _ _ g i] have "get ''runs'' ''r1'' ''a'' ?t = (Inr (Some ?d), ?t)"
    by simp
  with e w i show ?thesis by blast
qed

text \<open>an enforcing store never finds its own records again.  \<open>put\<close> stamps the field
  \<open>workspace_id\<close> while the index column \<open>workspace\<close> is filled from a field of that name, so
  after a successful \<open>put\<close> of a record without one, \<open>find\<close> does not return it.\<close>

theorem enforcing_find_misses_own_record:
  assumes "enforce s" and "dget obj ''workspace'' = None" and "put t obj event s = (Inr d, s')"
    and "find_rows t q s' = (Inr ds, s'')"
  shows "d \<notin> set ds"
proof
  assume "d \<in> set ds"
  have d: "d = stamp s obj" and s': "enforce s'"
    using assms(1,3) by (auto simp: put_eq split: if_splits option.splits pyval.splits)
  have "\<not> row_matches (env s') t ((''workspace'', VStr (workspace_id s')) # q_where q) d"
    using assms(2) by (auto simp: d col_value_def col_of_field_def field_of_col_def)
  moreover have "\<exists>hits. set hits \<subseteq> {x. row_matches (env s') t ((''workspace'', VStr (workspace_id s')) # q_where q) x} \<and> set ds \<subseteq> set hits"
    using assms(4) s'
    by (auto simp: find_rows_def query_ws_def order_rows_def Let_def split: option.splits if_splits
        intro!: exI [of _ "filter (row_matches (env s') t ((''workspace'', VStr (workspace_id s')) # q_where q)) (map snd (tables s' t))"]
        dest: in_set_takeD)
  ultimately show False using \<open>d \<in> set ds\<close> by auto
qed

theorem enforcing_find_misses_own_record_witness:
  "find_rows ''runs'' (by_cols []) (put_state ''runs'' ''r1'' [(''id'', VStr ''r1'')] ''run''
      (open_store demo_env ''a'' ''o'')) =
   (Inr [], put_state ''runs'' ''r1'' [(''id'', VStr ''r1'')] ''run'' (open_store demo_env ''a'' ''o''))"
proof -
  let ?s = "open_store demo_env ''a'' ''o''"
  let ?t = "put_state ''runs'' ''r1'' [(''id'', VStr ''r1'')] ''run'' ?s"
  have e: "enforce ?s" by (simp add: enforce_def open_store_def)
  have p: "put ''runs'' [(''id'', VStr ''r1'')] ''run'' ?s = (Inr (stamp ?s [(''id'', VStr ''r1'')]), ?t)"
    by (simp add: put_ok)
  obtain ds where f: "find_rows ''runs'' (by_cols []) ?t = (Inr ds, ?t)"
    and sub: "set ds \<subseteq> {stamp ?s [(''id'', VStr ''r1'')]}"
    using e by (auto simp: find_rows_def query_ws_def order_rows_def by_cols_def Let_def table_cols_def
        TABLES_def TABLE_EXTRA_def open_store_def rows_put_def rows_del_def)
  have "stamp ?s [(''id'', VStr ''r1'')] \<notin> set ds"
    by (rule enforcing_find_misses_own_record [OF e _ p f]) simp
  with sub have "ds = []" by (cases ds) auto
  with f show ?thesis by simp
qed

end
