(* ===== verification/Rbac.thy ===== *)
theory Rbac
  imports Tables
begin

text \<open>
  \<open>sworker/rbac.py\<close>: the permission vocabulary, the role registry with fail-closed
  authorization, and the escalation ladder that approvals use for their minimum role.
  Lemmas: no registry ever grants an unknown capability to a role it defines, unknown roles
  and permissions are denied, and \<open>role_satisfies\<close> is a preorder on the ladder.
\<close>

definition PERMISSIONS :: "string list" where
  "PERMISSIONS = [''run:create'', ''run:read'', ''approval:decide'', ''approval:read'',
     ''worker:manage'', ''worker:read'', ''knowledge:manage'', ''audit:read'', ''schedule:manage'',
     ''user:manage'', ''policy:manage'', ''secret:read'', ''secret:manage'', ''procedure:publish'']"

definition DEFAULT_ROLES :: "(string \<times> string list) list" where
  "DEFAULT_ROLES = [
     (''admin'', sort PERMISSIONS),
     (''operator'', [''run:create'', ''run:read'', ''approval:decide'', ''approval:read'',
        ''worker:read'', ''schedule:manage'', ''procedure:publish'', ''audit:read'']),
     (''analyst'', [''run:create'', ''run:read'', ''approval:read'', ''worker:read'', ''audit:read'']),
     (''viewer'', [''run:read'', ''approval:read'', ''worker:read'', ''audit:read''])]"

text \<open>The registry: role name to granted capabilities.\<close>

type_synonym rbac = "(string \<times> string set) list"

definition known_only :: "string list \<Rightarrow> string list" where
  "known_only grants = filter (\<lambda>g. g \<in> set PERMISSIONS) grants"

definition rbac_init :: "(string \<times> string list) list \<Rightarrow> rbac" where
  "rbac_init roles =
     map (\<lambda>(n, g). (n, set g))
       (foldl (\<lambda>base (name, grants). dset base name (known_only grants)) DEFAULT_ROLES roles)"

definition add_role :: "rbac \<Rightarrow> string \<Rightarrow> string list \<Rightarrow> rbac" where
  "add_role r name grants = dset r name (set (known_only grants))"

definition authorize :: "rbac \<Rightarrow> string \<Rightarrow> string \<Rightarrow> bool" where
  "authorize r role permission = (case dget r role of
       None \<Rightarrow> False
     | Some grants \<Rightarrow> permission \<in> grants \<or> ''*'' \<in> grants)"

definition grants_for :: "rbac \<Rightarrow> string \<Rightarrow> string set" where
  "grants_for r role = (case dget r role of None \<Rightarrow> {} | Some g \<Rightarrow> g)"

definition ROLE_LADDER :: "string list" where
  "ROLE_LADDER = [''viewer'', ''analyst'', ''worker'', ''operator'', ''admin'']"

fun list_index :: "'a list \<Rightarrow> 'a \<Rightarrow> nat option" where
  "list_index [] x = None"
| "list_index (y # ys) x = (if y = x then Some 0 else map_option Suc (list_index ys x))"

definition role_rank :: "string \<Rightarrow> int" where
  "role_rank role = (case list_index ROLE_LADDER role of Some n \<Rightarrow> int n | None \<Rightarrow> -1)"

definition role_satisfies :: "string \<Rightarrow> string \<Rightarrow> bool" where
  "role_satisfies role minimum =
     (if minimum = [] then True
      else if minimum \<notin> set ROLE_LADDER then role = ''admin''
      else role_rank role \<ge> role_rank minimum)"

section \<open>Registry lemmas\<close>

definition grants_known :: "rbac \<Rightarrow> bool" where
  "grants_known r \<longleftrightarrow> (\<forall>(n, g) \<in> set r. g \<subseteq> set PERMISSIONS)"

lemma set_dset: "set (dset d k v) \<subseteq> insert (k, v) (set d)"
  by (induction d k v rule: dset.induct) auto

lemma grants_known_add: "grants_known r \<Longrightarrow> grants_known (add_role r n g)"
  using set_dset [of r n "set (known_only g)"]
  by (fastforce simp: grants_known_def add_role_def known_only_def)

lemma default_roles_known: "\<forall>(n, g) \<in> set DEFAULT_ROLES. set g \<subseteq> set PERMISSIONS"
  by (simp add: DEFAULT_ROLES_def PERMISSIONS_def)

lemma foldl_dset_known:
  assumes "\<forall>(n, g) \<in> set base. set g \<subseteq> P" and "\<And>g. set (f g) \<subseteq> P"
  shows "\<forall>(n, g) \<in> set (foldl (\<lambda>b (n, g). dset b n (f g)) base roles). set g \<subseteq> P"
  using assms(1)
proof (induction roles arbitrary: base)
  case (Cons r roles)
  obtain n g where r: "r = (n, g)" by (cases r)
  have "\<forall>(n, g) \<in> set (dset base n (f g)). set g \<subseteq> P"
    using set_dset [of base n "f g"] Cons.prems assms(2) by fastforce
  with Cons.IH [of "dset base n (f g)"] r show ?case by simp
qed simp

lemma grants_known_init: "grants_known (rbac_init roles)"
proof -
  have "\<forall>(n, g) \<in> set (foldl (\<lambda>base (n, g). dset base n (known_only g)) DEFAULT_ROLES roles). set g \<subseteq> set PERMISSIONS"
    by (rule foldl_dset_known) (use default_roles_known in \<open>auto simp: known_only_def\<close>)
  then show ?thesis by (fastforce simp: grants_known_def rbac_init_def)
qed

lemma star_not_permission: "''*'' \<notin> set PERMISSIONS"
  by (simp add: PERMISSIONS_def)

lemma authorize_known:
  assumes "grants_known r" and "authorize r role p"
  shows "p \<in> set PERMISSIONS"
proof -
  obtain g where g: "dget r role = Some g" "p \<in> g \<or> ''*'' \<in> g"
    using assms(2) by (auto simp: authorize_def split: option.splits)
  have "g \<subseteq> set PERMISSIONS" using assms(1) dget_SomeD [OF g(1)] by (auto simp: grants_known_def)
  with g(2) star_not_permission show ?thesis by auto
qed

section \<open>The ladder\<close>

lemma role_rank_simps [simp]:
  "role_rank ''viewer'' = 0" "role_rank ''analyst'' = 1" "role_rank ''worker'' = 2"
  "role_rank ''operator'' = 3" "role_rank ''admin'' = 4" "role_rank [] = -1"
  by (simp_all add: role_rank_def ROLE_LADDER_def)

lemma role_satisfies_none [simp]: "role_satisfies r []"
  by (simp add: role_satisfies_def)

lemma role_rank_known: "m \<in> set ROLE_LADDER \<Longrightarrow> 0 \<le> role_rank m \<and> role_rank m \<le> 4"
  by (auto simp: ROLE_LADDER_def)

lemma role_rank_unknown: "r \<notin> set ROLE_LADDER \<Longrightarrow> role_rank r = -1"
  by (auto simp: role_rank_def ROLE_LADDER_def)

lemma role_rank_le: "role_rank r \<le> 4"
  by (cases "r \<in> set ROLE_LADDER") (auto simp: role_rank_known role_rank_unknown)

lemma role_satisfies_admin [simp]: "role_satisfies ''admin'' m"
  by (auto simp: role_satisfies_def role_rank_le)

text \<open>A role that meets a minimum still meets it after moving up the ladder.\<close>

lemma role_satisfies_mono:
  assumes "role_satisfies r m" and "r' \<in> set ROLE_LADDER" and "role_rank r \<le> role_rank r'"
  shows "role_satisfies r' m"
proof -
  have "r = ''admin'' \<Longrightarrow> r' = ''admin''"
    using assms(2,3) by (auto simp: ROLE_LADDER_def)
  with assms show ?thesis by (auto simp: role_satisfies_def split: if_splits)
qed

text \<open>A role outside the ladder never meets a non-empty minimum.\<close>

lemma unknown_role_refused:
  "r \<notin> set ROLE_LADDER \<Longrightarrow> m \<noteq> [] \<Longrightarrow> \<not> role_satisfies r m"
  using role_rank_known [of m]
  by (auto simp: role_satisfies_def role_rank_unknown) (auto simp: ROLE_LADDER_def)

end
