(* ===== verification/Approvals.thy ===== *)
theory Approvals
  imports Audit_Chain Config Rbac
begin

text \<open>
  \<open>sworker/approvals.py\<close>: the approval record's life.  \<open>request\<close> creates it with the quorum and
  minimum role of the worker's policy, \<open>vote\<close> casts one vote and settles it, \<open>escalate\<close>
  raises the quorum, and the lookups and the rendered prompt read it.  What a vote does to the
  record is the pure function \<open>cast_vote\<close>; the operations add the store.  Lemmas: the record
  invariant \<open>appr_inv\<close>, its preservation by every operation on any store, and what a vote
  writes.
\<close>

section \<open>Reads with defaults\<close>

definition votes_of :: "doc \<Rightarrow> doc list" where
  "votes_of rec = map val_doc (get_list rec ''votes'')"

definition int_of :: "doc \<Rightarrow> string \<Rightarrow> int \<Rightarrow> error + int" where
  "int_of rec k dflt = py_int (case dget rec k of Some v \<Rightarrow> v | None \<Rightarrow> VInt dflt)"

definition is_pending :: "doc \<Rightarrow> bool" where
  "is_pending rec = (dget rec ''state'' = Some (VStr (approval_state_value Appr_Pending)))"

section \<open>Creation\<close>

definition appr_requirements :: "env \<Rightarrow> worker_config option \<Rightarrow> risk_level \<Rightarrow> error + appr_req" where
  "appr_requirements e worker risk = (case worker of
       None \<Rightarrow> Inr \<lparr>rq_quorum = 1, rq_min_role = []\<rparr>
     | Some w \<Rightarrow> approval_policy_for e w risk)"

text \<open>\<open>request\<close> returns the approval and the action as the call leaves it.\<close>

definition request :: "worker_config option \<Rightarrow> action \<Rightarrow> string \<Rightarrow> string \<Rightarrow> string list \<Rightarrow> (approval \<times> action) sop" where
  "request worker act summary reason evidence_ids =
     op_bind (op_gets env) (\<lambda>e.
     op_bind (op_lift (appr_requirements e worker (act_risk act))) (\<lambda>req.
     op_bind (new_id ''appr'') (\<lambda>rid.
     op_bind op_now (\<lambda>t.
       let appr = \<lparr>appr_run_id = act_run_id act, appr_action_id = act_id act, appr_risk = act_risk act,
             appr_summary = summary, appr_id = rid, appr_state = Appr_Pending, appr_reason = reason,
             appr_evidence_ids = evidence_ids, appr_decided_by = [], appr_decided_at = 0, appr_note = [],
             appr_created = t, appr_quorum = rq_quorum req, appr_min_role = rq_min_role req,
             appr_votes = [], appr_escalations = 0\<rparr>;
           act' = act\<lparr>act_approval_id := rid, act_status := Act_Awaiting_Approval\<rparr>
       in op_then (put ''approvals'' (approval_to_dict appr) ''approval.requested'')
         (op_then (put ''actions'' (action_to_dict act') ''action.awaiting_approval'')
           (op_return (appr, act')))))))"

section \<open>Voting\<close>

definition vote_doc :: "bool \<Rightarrow> string \<Rightarrow> string \<Rightarrow> string \<Rightarrow> time \<Rightarrow> doc" where
  "vote_doc approved by role note t = [
     (''state'', VStr (approval_state_value (if approved then Appr_Approved else Appr_Rejected))),
     (''by'', VStr by), (''role'', VStr role), (''note'', VStr note), (''at'', VFloat t)]"

definition vote_is :: "approval_state \<Rightarrow> doc \<Rightarrow> bool" where
  "vote_is st v = (dget v ''state'' = Some (VStr (approval_state_value st)))"

definition cast_vote :: "doc \<Rightarrow> doc \<Rightarrow> doc" where
  "cast_vote rec v = dset rec ''votes''
     (VList (map VDict (filter (\<lambda>w. dget w ''by'' \<noteq> dget v ''by'') (votes_of rec) @ [v])))"

text \<open>The record as \<open>_settle\<close> writes it.\<close>

definition settled_rec :: "doc \<Rightarrow> approval_state \<Rightarrow> string \<Rightarrow> time \<Rightarrow> doc" where
  "settled_rec rec st reason t =
     (let voters = join '','' (map (\<lambda>v. get_str v ''by'') (votes_of rec)) in
      dset (dset (dset (dset rec ''state'' (VStr (approval_state_value st)))
        ''decided_by'' (VStr (if voters = [] then ''none'' else voters)))
        ''decided_at'' (VFloat t)) ''note'' (VStr reason))"

definition settled_action_status :: "approval_state \<Rightarrow> action_status" where
  "settled_action_status st = (if st = Appr_Approved then Act_Approved else Act_Rejected)"

definition settle_action :: "approval_state \<Rightarrow> string \<Rightarrow> unit sop" where
  "settle_action st aid =
     op_bind (get ''actions'' aid []) (\<lambda>found. case found of
         None \<Rightarrow> op_return ()
       | Some act \<Rightarrow> (if act = [] then op_return ()
           else op_then (put ''actions'' (dset act ''status''
                  (VStr (action_status_value (settled_action_status st)))) ''action.decided'') (op_return ())))"

definition settle :: "doc \<Rightarrow> approval_state \<Rightarrow> string \<Rightarrow> doc sop" where
  "settle rec st reason =
     op_bind op_now (\<lambda>t.
       let rec' = settled_rec rec st reason t in
       op_then (put ''approvals'' rec' (''approval.'' @ str_lower (approval_state_value st)))
         (case dget rec' ''action_id'' of
            None \<Rightarrow> op_raise KeyError
          | Some aid \<Rightarrow> op_then (settle_action st (val_str aid)) (op_return rec')))"

text \<open>The second half of \<open>vote\<close>: the record holds the new vote; settle it or store it.\<close>

definition finish_vote :: "doc \<Rightarrow> doc sop" where
  "finish_vote rec =
     (if list_ex (vote_is Appr_Rejected) (votes_of rec) then settle rec Appr_Rejected ''quorum-reject''
      else op_bind (op_lift (int_of rec ''quorum'' 1)) (\<lambda>quorum.
        if max 1 quorum \<le> int (length (filter (vote_is Appr_Approved) (votes_of rec)))
        then settle rec Appr_Approved ''quorum-met''
        else op_then (put ''approvals'' rec ''approval.voted'') (op_return rec)))"

definition vote :: "string \<Rightarrow> bool \<Rightarrow> string \<Rightarrow> string \<Rightarrow> string \<Rightarrow> doc sop" where
  "vote aid approved by role note =
     op_bind (get ''approvals'' aid []) (\<lambda>found. case found of
         None \<Rightarrow> op_raise KeyError
       | Some rec \<Rightarrow>
          if \<not> is_pending rec then op_raise ApprovalError
          else if by = [] then op_raise ApprovalError
          else if \<not> role_satisfies role (get_str rec ''min_role'') then op_raise ApprovalError
          else op_bind op_now (\<lambda>t. finish_vote (cast_vote rec (vote_doc approved by role note t))))"

definition approve :: "string \<Rightarrow> string \<Rightarrow> string \<Rightarrow> string \<Rightarrow> doc sop" where
  "approve aid by role note = vote aid True by role note"

definition reject :: "string \<Rightarrow> string \<Rightarrow> string \<Rightarrow> string \<Rightarrow> doc sop" where
  "reject aid by role note = vote aid False by role note"

definition decide :: "string \<Rightarrow> bool \<Rightarrow> string \<Rightarrow> string \<Rightarrow> string \<Rightarrow> doc sop" where
  "decide aid approved by role note = vote aid approved by role note"

definition escalate_appr :: "string \<Rightarrow> doc sop" where
  "escalate_appr aid =
     op_bind (get ''approvals'' aid []) (\<lambda>found. case found of
         None \<Rightarrow> op_raise KeyError
       | Some rec \<Rightarrow>
          if \<not> is_pending rec then op_raise ApprovalError
          else op_bind (op_lift (int_of rec ''quorum'' 1)) (\<lambda>q.
               op_bind (op_lift (int_of rec ''escalations'' 0)) (\<lambda>n.
                 let rec' = dset (dset rec ''quorum'' (VInt (q + 1))) ''escalations'' (VInt (n + 1)) in
                 op_then (put ''approvals'' rec' ''approval.escalated'') (op_return rec'))))"

section \<open>Lookups\<close>

definition pending :: "string \<Rightarrow> doc list sop" where
  "pending rn = find_rows ''approvals'' (by_cols ((''state'', VStr (approval_state_value Appr_Pending))
     # (if rn = [] then [] else [(''run_id'', VStr rn)])))"

definition for_run :: "string \<Rightarrow> doc list sop" where
  "for_run rn = find_rows ''approvals'' (by_cols [(''run_id'', VStr rn)])"

definition resolve_ref :: "string \<Rightarrow> doc option sop" where
  "resolve_ref ref =
     op_bind (get ''approvals'' ref []) (\<lambda>found. case found of
         Some rec \<Rightarrow> (if rec \<noteq> [] then op_return (Some rec) else op_return None)
       | None \<Rightarrow>
          op_bind (find_rows ''approvals'' (by_cols [(''action_id'', VStr ref)])) (\<lambda>by_action.
            if by_action \<noteq> [] then op_return (Some (hd by_action))
            else op_bind (find_rows ''approvals'' (by_cols [])) (\<lambda>all.
              let matches = filter (\<lambda>a. starts_with (get_str a ''id'') ref) all in
              op_return (if length matches = 1 then Some (hd matches) else None))))"

section \<open>The record invariant\<close>

text \<open>Votes come from distinct approvers who all meet the minimum role; a pending record has
  only approvals and fewer than its quorum; an approved one has at least its quorum of
  approvals and nothing else; a rejected one holds a rejection.\<close>

definition appr_need :: "doc \<Rightarrow> int" where
  "appr_need rec = max 1 (get_int rec ''quorum'' 1)"

definition appr_inv :: "doc \<Rightarrow> bool" where
  "appr_inv rec \<longleftrightarrow>
     (\<exists>q. dget rec ''quorum'' = Some (VInt q)) \<and>
     distinct (map (\<lambda>v. dget v ''by'') (votes_of rec)) \<and>
     (\<forall>v\<in>set (votes_of rec). role_satisfies (get_str v ''role'') (get_str rec ''min_role'') \<and>
        (vote_is Appr_Approved v \<or> vote_is Appr_Rejected v)) \<and>
     (if is_pending rec
      then (\<forall>v\<in>set (votes_of rec). vote_is Appr_Approved v) \<and> int (length (votes_of rec)) < appr_need rec
      else if dget rec ''state'' = Some (VStr (approval_state_value Appr_Approved))
      then (\<forall>v\<in>set (votes_of rec). vote_is Appr_Approved v) \<and> appr_need rec \<le> int (length (votes_of rec))
      else dget rec ''state'' = Some (VStr (approval_state_value Appr_Rejected)) \<and>
           (\<exists>v\<in>set (votes_of rec). vote_is Appr_Rejected v))"

lemma vote_is_excl: "vote_is Appr_Approved v \<Longrightarrow> \<not> vote_is Appr_Rejected v"
  by (simp add: vote_is_def)

lemma val_doc_VDict_map [simp]: "map val_doc (map VDict ds) = ds"
  by (simp add: o_def)

lemma votes_cast [simp]:
  "votes_of (cast_vote rec v) = filter (\<lambda>w. dget w ''by'' \<noteq> dget v ''by'') (votes_of rec) @ [v]"
  by (simp add: votes_of_def cast_vote_def o_def)

lemma cast_vote_get [simp]: "k \<noteq> ''votes'' \<Longrightarrow> dget (cast_vote rec v) k = dget rec k"
  by (simp add: cast_vote_def)

lemma get_str_cast [simp]: "k \<noteq> ''votes'' \<Longrightarrow> get_str (cast_vote rec v) k = get_str rec k"
  by (simp add: get_str_def)

lemma settled_get:
  "dget (settled_rec rec st reason t) ''state'' = Some (VStr (approval_state_value st))"
  "dget (settled_rec rec st reason t) ''votes'' = dget rec ''votes''"
  "dget (settled_rec rec st reason t) ''quorum'' = dget rec ''quorum''"
  "dget (settled_rec rec st reason t) ''min_role'' = dget rec ''min_role''"
  "dget (settled_rec rec st reason t) ''action_id'' = dget rec ''action_id''"
  "dget (settled_rec rec st reason t) ''id'' = dget rec ''id''"
  by (simp_all add: settled_rec_def Let_def)

lemma settled_same:
  "votes_of (settled_rec rec st reason t) = votes_of rec"
  "get_str (settled_rec rec st reason t) ''min_role'' = get_str rec ''min_role''"
  "appr_need (settled_rec rec st reason t) = appr_need rec"
  by (simp_all add: votes_of_def get_list_def get_str_def appr_need_def get_int_def settled_get)

lemma vote_doc_simps [simp]:
  "dget (vote_doc a by role note t) ''by'' = Some (VStr by)"
  "get_str (vote_doc a by role note t) ''role'' = role"
  "vote_is Appr_Approved (vote_doc a by role note t) = a"
  "vote_is Appr_Rejected (vote_doc a by role note t) = (\<not> a)"
  by (simp_all add: vote_doc_def get_str_def vote_is_def)

text \<open>The invariant reads only six fields.\<close>

lemma appr_inv_cong:
  assumes "\<And>k. k \<in> {''quorum'', ''votes'', ''min_role'', ''state''} \<Longrightarrow> dget r k = dget r' k"
  shows "appr_inv r = appr_inv r'"
proof -
  have "votes_of r = votes_of r'" "get_str r ''min_role'' = get_str r' ''min_role''" "is_pending r = is_pending r'"
      "appr_need r = appr_need r'" "dget r ''state'' = dget r' ''state''" "dget r ''quorum'' = dget r' ''quorum''"
    using assms by (simp_all add: votes_of_def get_list_def get_str_def is_pending_def appr_need_def get_int_def)
  then show ?thesis by (simp add: appr_inv_def)
qed

lemma appr_inv_stamp [simp]: "appr_inv (stamp s r) = appr_inv r"
  by (rule appr_inv_cong) auto

lemma appr_inv_new: "appr_inv (approval_to_dict (a\<lparr>appr_state := Appr_Pending, appr_votes := []\<rparr>))"
  by (simp add: appr_inv_def approval_to_dict_def votes_of_def get_list_def is_pending_def appr_need_def)

text \<open>What a cast vote leaves of the invariant, before the state is settled.\<close>

definition cast_ok :: "doc \<Rightarrow> bool" where
  "cast_ok rec \<longleftrightarrow> (\<exists>q. dget rec ''quorum'' = Some (VInt q)) \<and> is_pending rec \<and>
     distinct (map (\<lambda>v. dget v ''by'') (votes_of rec)) \<and>
     (\<forall>v\<in>set (votes_of rec). role_satisfies (get_str v ''role'') (get_str rec ''min_role'') \<and>
        (vote_is Appr_Approved v \<or> vote_is Appr_Rejected v))"

lemma cast_vote_ok:
  assumes "appr_inv rec" and "is_pending rec" and "role_satisfies role (get_str rec ''min_role'')"
  shows "cast_ok (cast_vote rec (vote_doc approved by role note t))"
  using assms
  by (auto simp: cast_ok_def appr_inv_def is_pending_def distinct_map_filter)

lemma settled_inv:
  assumes "cast_ok rec"
    and "st = Appr_Rejected \<and> list_ex (vote_is Appr_Rejected) (votes_of rec) \<or>
      st = Appr_Approved \<and> \<not> list_ex (vote_is Appr_Rejected) (votes_of rec) \<and>
      appr_need rec \<le> int (length (filter (vote_is Appr_Approved) (votes_of rec)))"
  shows "appr_inv (settled_rec rec st reason t)"
  using assms(2)
proof
  assume "st = Appr_Rejected \<and> list_ex (vote_is Appr_Rejected) (votes_of rec)"
  with assms(1) show ?thesis
    by (auto simp: appr_inv_def cast_ok_def settled_same is_pending_def settled_get list_ex_iff)
next
  assume a: "st = Appr_Approved \<and> \<not> list_ex (vote_is Appr_Rejected) (votes_of rec) \<and>
      appr_need rec \<le> int (length (filter (vote_is Appr_Approved) (votes_of rec)))"
  have "int (length (filter (vote_is Appr_Approved) (votes_of rec))) \<le> int (length (votes_of rec))" by simp
  with a have "appr_need rec \<le> int (length (votes_of rec))" by linarith
  with a assms(1) show ?thesis
    by (auto simp: appr_inv_def cast_ok_def settled_same is_pending_def settled_get list_ex_iff)
qed

lemma pending_inv:
  assumes "cast_ok rec" and "\<not> list_ex (vote_is Appr_Rejected) (votes_of rec)"
    and "int (length (filter (vote_is Appr_Approved) (votes_of rec))) < appr_need rec"
  shows "appr_inv rec"
proof -
  have all: "\<forall>v\<in>set (votes_of rec). vote_is Appr_Approved v"
    using assms(1,2) by (auto simp: cast_ok_def list_ex_iff)
  then have "filter (vote_is Appr_Approved) (votes_of rec) = votes_of rec" by simp
  with all assms show ?thesis by (auto simp: appr_inv_def cast_ok_def)
qed

section \<open>The invariant on the store\<close>

definition approvals_ok :: "store \<Rightarrow> bool" where
  "approvals_ok s \<longleftrightarrow> (\<forall>(rid, d)\<in>set (tables s ''approvals''). appr_inv d)"

lemma approvals_ok_same: "tables s' ''approvals'' = tables s ''approvals'' \<Longrightarrow> approvals_ok s' = approvals_ok s"
  by (simp add: approvals_ok_def)

lemma approvals_ok_open: "approvals_ok (open_store e ws org)"
  by (simp add: approvals_ok_def open_store_def)

named_theorems appr_ok_intros \<open>operations that keep the approval records well-formed\<close>

lemma ok_put [appr_ok_intros]: "(t = ''approvals'' \<Longrightarrow> appr_inv d) \<Longrightarrow> op_inv approvals_ok (put t d ev)"
proof (rule op_invI)
  fix s
  assume d: "t = ''approvals'' \<Longrightarrow> appr_inv d" and s: "approvals_ok s"
  show "approvals_ok (snd (put t d ev s))"
    using s d by (auto simp: put_eq approvals_ok_def set_rows_put split: option.split pyval.split)
qed

lemma ok_now [appr_ok_intros]: "op_inv approvals_ok op_now"
  by (simp add: op_inv_def op_now_def approvals_ok_def)

lemma ok_new_id [appr_ok_intros]: "op_inv approvals_ok (new_id p)"
  by (simp add: op_inv_def new_id_def approvals_ok_def)

lemma ok_audit [appr_ok_intros]: "op_inv approvals_ok (audit ev t r p)"
  by (simp add: op_inv_def approvals_ok_def)

lemma ok_get [appr_ok_intros]: "op_inv approvals_ok (get t r w)"
  by (simp add: op_inv_def)

text \<open>A record read back from the approvals table satisfies the invariant.\<close>

lemma ok_get_approval [appr_ok_intros]:
  assumes "op_inv approvals_ok (f None)" and "\<And>rec. appr_inv rec \<Longrightarrow> op_inv approvals_ok (f (Some rec))"
  shows "op_inv approvals_ok (op_bind (get ''approvals'' aid []) f)"
proof (rule op_invI)
  fix s
  assume s: "approvals_ok s"
  show "approvals_ok (snd (op_bind (get ''approvals'' aid []) f s))"
  proof (cases "tget s ''approvals'' aid")
    case None
    then show ?thesis using assms(1) s by (simp add: op_bind_apply get_eq op_inv_def)
  next
    case (Some rec)
    then have "appr_inv rec"
      using s rows_get_SomeD [of "tables s ''approvals''" aid rec] by (auto simp: approvals_ok_def tget_def)
    with Some assms(2) s show ?thesis by (simp add: op_bind_apply get_eq op_inv_def)
  qed
qed

lemma ok_settle [appr_ok_intros]:
  assumes "cast_ok rec"
    and "st = Appr_Rejected \<and> list_ex (vote_is Appr_Rejected) (votes_of rec) \<or>
      st = Appr_Approved \<and> \<not> list_ex (vote_is Appr_Rejected) (votes_of rec) \<and>
      appr_need rec \<le> int (length (filter (vote_is Appr_Approved) (votes_of rec)))"
  shows "op_inv approvals_ok (settle rec st reason)"
  unfolding settle_def settle_action_def Let_def
  by (intro op_inv_intros appr_ok_intros settled_inv [OF assms]) simp_all

lemma int_of_quorum: "dget rec ''quorum'' = Some (VInt q) \<Longrightarrow> int_of rec ''quorum'' 1 = Inr q"
  by (simp add: int_of_def)

lemma appr_need_quorum: "dget rec ''quorum'' = Some (VInt q) \<Longrightarrow> appr_need rec = max 1 q"
  by (simp add: appr_need_def get_int_def)

lemma op_lift_Inr: "op_bind (op_lift (Inr x)) f = f x"
  by (simp add: op_bind_def fun_eq_iff)

lemma ok_finish_vote [appr_ok_intros]:
  assumes "cast_ok rec"
  shows "op_inv approvals_ok (finish_vote rec)"
proof -
  obtain q where q: "dget rec ''quorum'' = Some (VInt q)" using assms by (auto simp: cast_ok_def)
  show ?thesis
    unfolding finish_vote_def int_of_quorum [OF q] op_lift_Inr appr_need_quorum [OF q, symmetric]
    by (intro op_inv_intros ok_settle [OF assms] ok_put pending_inv [OF assms]) auto
qed

lemma ok_vote [appr_ok_intros]: "op_inv approvals_ok (vote aid approved by role note)"
  unfolding vote_def
proof (rule ok_get_approval)
  show "op_inv approvals_ok (case None of None \<Rightarrow> op_raise KeyError | Some rec \<Rightarrow> f rec)" for f :: "doc \<Rightarrow> doc sop"
    by (simp add: op_inv_raise)
next
  fix rec
  assume inv: "appr_inv rec"
  show "op_inv approvals_ok (case Some rec of None \<Rightarrow> op_raise KeyError
       | Some rec \<Rightarrow>
          if \<not> is_pending rec then op_raise ApprovalError
          else if by = [] then op_raise ApprovalError
          else if \<not> role_satisfies role (get_str rec ''min_role'') then op_raise ApprovalError
          else op_bind op_now (\<lambda>t. finish_vote (cast_vote rec (vote_doc approved by role note t))))"
    unfolding option.case not_not
    by (intro op_inv_intros ok_now ok_finish_vote cast_vote_ok [OF inv]) simp_all
qed

lemma ok_request [appr_ok_intros]: "op_inv approvals_ok (request w a sm rs ev)"
proof -
  have new: "appr_inv (approval_to_dict a)" if "appr_state a = Appr_Pending" "appr_votes a = []" for a
  proof -
    have "a\<lparr>appr_state := Appr_Pending, appr_votes := []\<rparr> = a" using that by (cases a) simp
    with appr_inv_new [of a] show ?thesis by simp
  qed
  show ?thesis
    unfolding request_def Let_def
    by (intro op_inv_intros ok_now ok_new_id ok_put) (simp_all add: new)
qed

lemma escalated_inv:
  assumes "appr_inv rec" and "is_pending rec" and "dget rec ''quorum'' = Some (VInt q)"
  shows "appr_inv (dset (dset rec ''quorum'' (VInt (q + 1))) ''escalations'' (VInt n))"
proof -
  let ?r = "dset (dset rec ''quorum'' (VInt (q + 1))) ''escalations'' (VInt n)"
  have "votes_of ?r = votes_of rec" "get_str ?r ''min_role'' = get_str rec ''min_role''" "is_pending ?r"
      "appr_need rec \<le> appr_need ?r" "dget ?r ''quorum'' = Some (VInt (q + 1))"
    using assms(2,3) by (simp_all add: votes_of_def get_list_def get_str_def appr_need_def get_int_def is_pending_def)
  with assms show ?thesis by (auto simp: appr_inv_def)
qed

lemma ok_escalate [appr_ok_intros]: "op_inv approvals_ok (escalate_appr aid)"
  unfolding escalate_appr_def
proof (rule ok_get_approval)
  show "op_inv approvals_ok (case None of None \<Rightarrow> op_raise KeyError | Some rec \<Rightarrow> f rec)" for f :: "doc \<Rightarrow> doc sop"
    by (simp add: op_inv_raise)
next
  fix rec
  assume inv: "appr_inv rec"
  obtain q where q: "dget rec ''quorum'' = Some (VInt q)" using inv by (auto simp: appr_inv_def)
  show "op_inv approvals_ok (case Some rec of None \<Rightarrow> op_raise KeyError
       | Some rec \<Rightarrow>
          if \<not> is_pending rec then op_raise ApprovalError
          else op_bind (op_lift (int_of rec ''quorum'' 1)) (\<lambda>q.
               op_bind (op_lift (int_of rec ''escalations'' 0)) (\<lambda>n.
                 let rec' = dset (dset rec ''quorum'' (VInt (q + 1))) ''escalations'' (VInt (n + 1)) in
                 op_then (put ''approvals'' rec' ''approval.escalated'') (op_return rec'))))"
    unfolding option.case Let_def int_of_quorum [OF q] op_lift_Inr
    by (intro op_inv_intros ok_put) (auto intro: escalated_inv [OF inv _ q])
qed

section \<open>What a vote writes\<close>

lemma settle_legacy:
  assumes "\<not> enforce s" and "dget rec ''id'' = Some (VStr a)" and "dget rec ''action_id'' = Some (VStr b)"
    and "\<And>act. tget s ''actions'' b = Some act \<Longrightarrow> dget act ''id'' = Some (VStr b)"
  shows "\<exists>s'. settle rec st reason s = (Inr (settled_rec rec st reason (clock (env s) (ticks s))), s') \<and>
     tget s' ''approvals'' a = Some (settled_rec rec st reason (clock (env s) (ticks s))) \<and>
     tget s' ''actions'' b = map_option (\<lambda>act. dset act ''status'' (VStr (action_status_value (settled_action_status st))))
       (tget s ''actions'' b)"
proof (cases "tget s ''actions'' b")
  case None
  then show ?thesis
    using assms by (simp add: settle_def settle_action_def Let_def op_simps op_now_apply put_ok settled_get get_legacy)
next
  case (Some act)
  with assms(4) have "dget act ''id'' = Some (VStr b)" "act \<noteq> []" by auto
  with Some show ?thesis
    using assms(1-3) by (simp add: settle_def settle_action_def Let_def op_simps op_now_apply put_ok settled_get get_legacy)
qed

lemma vote_legacy:
  assumes "\<not> enforce s" and "tget s ''approvals'' a = Some rec" and "is_pending rec" and "by \<noteq> []"
    and "role_satisfies role (get_str rec ''min_role'')"
  shows "vote a approved by role note s =
     finish_vote (cast_vote rec (vote_doc approved by role note (clock (env s) (ticks s)))) (s\<lparr>ticks := Suc (ticks s)\<rparr>)"
  using assms by (simp add: vote_def op_simps get_legacy op_now_apply)

text \<open>A vote that is counted.\<close>

lemma vote_counted:
  assumes "\<not> enforce s" and "tget s ''approvals'' a = Some rec" and "appr_inv rec" and "is_pending rec"
    and "dget rec ''id'' = Some (VStr a)" and "dget rec ''action_id'' = Some (VStr b)"
    and "\<And>act. tget s ''actions'' b = Some act \<Longrightarrow> dget act ''id'' = Some (VStr b)"
    and "by \<noteq> []" and "role_satisfies role (get_str rec ''min_role'')"
    and "others = filter (\<lambda>w. dget w ''by'' \<noteq> Some (VStr by)) (votes_of rec)"
  shows "\<exists>r s'. vote a approved by role note s = (Inr r, s') \<and> tget s' ''approvals'' a = Some r \<and>
     votes_of r = others @ [vote_doc approved by role note (clock (env s) (ticks s))] \<and>
     (if \<not> approved then
        dget r ''state'' = Some (VStr (approval_state_value Appr_Rejected)) \<and>
        tget s' ''actions'' b = map_option (\<lambda>d. dset d ''status'' (VStr (action_status_value Act_Rejected)))
          (tget s ''actions'' b)
      else if appr_need rec \<le> int (length others) + 1 then
        dget r ''state'' = Some (VStr (approval_state_value Appr_Approved)) \<and>
        tget s' ''actions'' b = map_option (\<lambda>d. dset d ''status'' (VStr (action_status_value Act_Approved)))
          (tget s ''actions'' b)
      else is_pending r \<and> tget s' ''actions'' b = tget s ''actions'' b)"
proof -
  let ?v = "vote_doc approved by role note (clock (env s) (ticks s))"
  let ?c = "cast_vote rec ?v"
  let ?s = "s\<lparr>ticks := Suc (ticks s)\<rparr>"
  obtain q where q: "dget rec ''quorum'' = Some (VInt q)" using assms(3) by (auto simp: appr_inv_def)
  have votes: "votes_of ?c = others @ [?v]" by (simp add: assms(10))
  have appr: "\<forall>v\<in>set others. vote_is Appr_Approved v" using assms(3,4,10) by (auto simp: appr_inv_def)
  then have rej: "list_ex (vote_is Appr_Rejected) (votes_of ?c) = (\<not> approved)"
    unfolding votes by (auto simp: list_ex_iff dest: vote_is_excl)
  have num: "approved \<Longrightarrow> length (filter (vote_is Appr_Approved) (votes_of ?c)) = Suc (length others)"
    unfolding votes using appr by simp
  have quorum: "int_of ?c ''quorum'' 1 = Inr q" "appr_need rec = max 1 q"
    using q by (simp_all add: int_of_quorum appr_need_quorum)
  have v: "vote a approved by role note s = finish_vote ?c ?s"
    by (rule vote_legacy [OF assms(1,2,4,8,9)])
  have settle: "\<exists>s'. settle ?c st rs ?s = (Inr (settled_rec ?c st rs (clock (env s) (Suc (ticks s)))), s') \<and>
     tget s' ''approvals'' a = Some (settled_rec ?c st rs (clock (env s) (Suc (ticks s)))) \<and>
     tget s' ''actions'' b = map_option (\<lambda>d. dset d ''status'' (VStr (action_status_value (settled_action_status st))))
       (tget s ''actions'' b)" for st rs
    using settle_legacy [of ?s ?c a b st rs] assms(1,5-7) by simp
  show ?thesis
  proof (cases "approved \<and> \<not> appr_need rec \<le> int (length others) + 1")
    case True
    then have "finish_vote ?c ?s = (Inr ?c, put_state ''approvals'' a ?c ''approval.voted'' ?s)"
      using rej num quorum assms(1,5) by (simp add: finish_vote_def op_lift_Inr op_simps put_ok)
    with True v votes assms(1,4) show ?thesis by (auto simp: is_pending_def)
  next
    case False
    then have "finish_vote ?c = (if approved then settle ?c Appr_Approved ''quorum-met'' else settle ?c Appr_Rejected ''quorum-reject'')"
      using rej num quorum by (auto simp: finish_vote_def op_lift_Inr)
    with False v votes settle [of Appr_Approved "''quorum-met''"] settle [of Appr_Rejected "''quorum-reject''"]
    show ?thesis by (auto simp: settled_get settled_same settled_action_status_def)
  qed
qed

lemma vote_closed:
  assumes "tget s ''approvals'' a = Some rec" and "\<not> is_pending rec" and "own_row s rec"
  shows "vote a approved by role note s = (Inl ApprovalError, s)" "escalate_appr a s = (Inl ApprovalError, s)"
  using assms by (simp_all add: vote_def escalate_appr_def op_simps get_eq)

section \<open>Histories\<close>

inductive appr_step :: "store \<Rightarrow> store \<Rightarrow> bool" where
  st_request: "appr_step s (snd (request w a sm rs ev s))"
| st_vote: "appr_step s (snd (vote aid approved by role note s))"
| st_escalate: "appr_step s (snd (escalate_appr aid s))"
| st_put: "t \<noteq> ''approvals'' \<Longrightarrow> appr_step s (snd (put t d ev s))"
| st_audit: "appr_step s (snd (audit ev t r p s))"

inductive_cases appr_stepE: "appr_step s s'"

lemma appr_step_ok: "appr_step s s' \<Longrightarrow> approvals_ok s \<Longrightarrow> approvals_ok s'"
  by (erule appr_stepE)
     (use ok_request ok_vote ok_escalate ok_put ok_audit in \<open>simp_all add: op_inv_def\<close>)

inductive appr_reachable :: "env \<Rightarrow> string \<Rightarrow> string \<Rightarrow> store \<Rightarrow> bool" for e ws org where
  ar_open: "appr_reachable e ws org (open_store e ws org)"
| ar_step: "appr_reachable e ws org s \<Longrightarrow> appr_step s s' \<Longrightarrow> appr_reachable e ws org s'"

lemma appr_reachable_ok: "appr_reachable e ws org s \<Longrightarrow> approvals_ok s"
  by (induction rule: appr_reachable.induct) (auto simp: approvals_ok_open appr_step_ok)

section \<open>Properties\<close>

text \<open>C9: quorum.  After any sequence of requests, votes and escalations on any store
  (tenant-enforcing or not, interleaved with writes to other tables), every approval whose
  state is \<open>APPROVED\<close> carries votes of at least \<open>max 1 quorum\<close> distinct approvers, each an
  approval, each cast with a role that satisfies the record's minimum role.\<close>

theorem approved_needs_quorum:
  assumes "appr_reachable e ws org s" and "tget s ''approvals'' a = Some rec"
    and "dget rec ''state'' = Some (VStr (approval_state_value Appr_Approved))"
  shows "max 1 (get_int rec ''quorum'' 1) \<le> int (card ((\<lambda>v. dget v ''by'') ` set (votes_of rec))) \<and>
    (\<forall>v\<in>set (votes_of rec). vote_is Appr_Approved v \<and> role_satisfies (get_str v ''role'') (get_str rec ''min_role''))"
proof -
  have inv: "appr_inv rec"
    using appr_reachable_ok [OF assms(1)] assms(2) rows_get_SomeD [of "tables s ''approvals''" a rec]
    by (auto simp: approvals_ok_def tget_def)
  then have "card ((\<lambda>v. dget v ''by'') ` set (votes_of rec)) = length (votes_of rec)"
    using distinct_card [of "map (\<lambda>v. dget v ''by'') (votes_of rec)"] by (simp add: appr_inv_def)
  with inv assms(3) show ?thesis
    by (auto simp: appr_inv_def is_pending_def appr_need_def)
qed

definition demo_action :: action where
  "demo_action = \<lparr>act_run_id = ''r1'', act_step_id = ''s1'', act_tool = ''fs.delete'', act_args = [],
     act_risk = Destructive, act_id = ''act1'', act_status = Act_Proposed, act_summary = [], act_rationale = [],
     act_reason = [], act_reversible = False, act_approval_id = [], act_observation_id = [], act_created = 0,
     act_executed = 0, act_attempt = 0\<rparr>"

definition demo_pending :: store where
  "demo_pending = snd (request None demo_action ''delete'' ''policy'' [] (open_store demo_env [] []))"

definition demo_approvals :: store where
  "demo_approvals = snd (vote ''appr_0'' True ''ann'' ''admin'' [] demo_pending)"

lemma demo_pending_row:
  obtains rec act where "\<not> enforce demo_pending" "tget demo_pending ''approvals'' ''appr_0'' = Some rec" "is_pending rec"
      "get_str rec ''min_role'' = []" "dget rec ''id'' = Some (VStr ''appr_0'')" "votes_of rec = []"
      "dget rec ''quorum'' = Some (VInt 1)" "dget rec ''action_id'' = Some (VStr ''act1'')"
      "tget demo_pending ''actions'' ''act1'' = Some act" "dget act ''id'' = Some (VStr ''act1'')" "appr_inv rec"
proof -
  have u: "nat_str 0 = ''0''" by code_simp
  have e: "\<not> enforce (open_store demo_env [] [])" by (simp add: enforce_def open_store_def)
  have "\<not> enforce demo_pending \<and> (\<exists>rec act. tget demo_pending ''approvals'' ''appr_0'' = Some rec \<and> is_pending rec \<and>
      get_str rec ''min_role'' = [] \<and> dget rec ''id'' = Some (VStr ''appr_0'') \<and> votes_of rec = [] \<and>
      dget rec ''quorum'' = Some (VInt 1) \<and> dget rec ''action_id'' = Some (VStr ''act1'') \<and>
      tget demo_pending ''actions'' ''act1'' = Some act \<and> dget act ''id'' = Some (VStr ''act1'') \<and> appr_inv rec)"
    using e u
    by (simp add: demo_pending_def request_def Let_def op_simps appr_requirements_def new_id_def op_now_apply put_ok
        approval_to_dict_def action_to_dict_def demo_action_def open_store_def is_pending_def get_str_def
        votes_of_def get_list_def appr_inv_def appr_need_def get_int_def enforce_def)
  then show thesis using that by blast
qed

lemma demo_approval_row:
  "\<exists>rec. tget demo_approvals ''approvals'' ''appr_0'' = Some rec \<and>
     dget rec ''state'' = Some (VStr (approval_state_value Appr_Approved))"
proof -
  obtain rec act where r: "\<not> enforce demo_pending" "tget demo_pending ''approvals'' ''appr_0'' = Some rec" "is_pending rec"
      "get_str rec ''min_role'' = []" "dget rec ''id'' = Some (VStr ''appr_0'')" "votes_of rec = []"
      "dget rec ''quorum'' = Some (VInt 1)" "dget rec ''action_id'' = Some (VStr ''act1'')"
      "tget demo_pending ''actions'' ''act1'' = Some act" "dget act ''id'' = Some (VStr ''act1'')" "appr_inv rec"
    by (rule demo_pending_row)
  let ?t = "demo_pending\<lparr>ticks := Suc (ticks demo_pending)\<rparr>"
  let ?c = "cast_vote rec (vote_doc True ''ann'' ''admin'' [] (clock (env demo_pending) (ticks demo_pending)))"
  have "vote ''appr_0'' True ''ann'' ''admin'' [] demo_pending = settle ?c Appr_Approved ''quorum-met'' ?t"
  proof -
    have role: "role_satisfies ''admin'' (get_str rec ''min_role'')" by (simp add: r(4))
    have "int_of ?c ''quorum'' 1 = Inr 1" by (rule int_of_quorum) (simp add: r(7))
    then show ?thesis
      using vote_legacy [OF r(1-3) _ role, of "''ann''" True "[]"] r(6)
      by (simp add: finish_vote_def op_lift_Inr)
  qed
  with settle_legacy [of ?t ?c "''appr_0''" "''act1''" Appr_Approved "''quorum-met''"] r
  show ?thesis by (auto simp: demo_approvals_def settled_get)
qed

theorem approved_needs_quorum_witness:
  "\<exists>rec. tget demo_approvals ''approvals'' ''appr_0'' = Some rec \<and>
     1 \<le> card ((\<lambda>v. dget v ''by'') ` set (votes_of rec))"
proof -
  obtain rec where r: "tget demo_approvals ''approvals'' ''appr_0'' = Some rec"
     "dget rec ''state'' = Some (VStr (approval_state_value Appr_Approved))"
    using demo_approval_row by blast
  have "appr_reachable demo_env [] [] demo_approvals"
    unfolding demo_approvals_def demo_pending_def by (intro ar_step [OF _ st_vote] ar_step [OF _ st_request] ar_open)
  from approved_needs_quorum [OF this r] r(1) show ?thesis by auto
qed

text \<open>C11: approvals are immutable once settled.  On a record whose state is not \<open>PENDING\<close> any
  vote and any escalation raises and leaves the store as it was.\<close>

theorem settled_is_final:
  assumes "tget s ''approvals'' a = Some rec" and "own_row s rec"
    and "dget rec ''state'' \<noteq> Some (VStr (approval_state_value Appr_Pending))"
  shows "vote a approved by role note s = (Inl ApprovalError, s) \<and> escalate_appr a s = (Inl ApprovalError, s)"
  using vote_closed [of s a rec] assms by (simp add: is_pending_def)

theorem settled_is_final_witness:
  "vote ''appr_0'' False ''bob'' ''admin'' [] demo_approvals = (Inl ApprovalError, demo_approvals)"
proof -
  obtain rec where r: "tget demo_approvals ''approvals'' ''appr_0'' = Some rec"
     "dget rec ''state'' = Some (VStr (approval_state_value Appr_Approved))"
    using demo_approval_row by blast
  have "op_inv (\<lambda>s. \<not> enforce s) (request None demo_action ''delete'' ''policy'' [])"
    unfolding request_def Let_def
    by (intro op_inv_intros) (auto simp: op_inv_def new_id_def op_now_def put_eq split: option.split pyval.split)
  moreover have "op_inv (\<lambda>s. \<not> enforce s) (vote ''appr_0'' True ''ann'' ''admin'' [])"
    unfolding vote_def finish_vote_def settle_def settle_action_def Let_def
    by (intro op_inv_intros) (auto simp: op_inv_def op_now_def put_eq split: option.split pyval.split)
  ultimately have "\<not> enforce demo_approvals"
    by (simp add: demo_approvals_def demo_pending_def op_inv_def) (simp add: open_store_def enforce_def)
  then have "own_row demo_approvals rec" by simp
  from settled_is_final [OF r(1) this, of False "''bob''" "''admin''" "[]"] r(2) show ?thesis by simp
qed

text \<open>C10: one vote decides as documented.  On a store that does not enforce tenants, a vote
  on an unknown approval raises \<open>KeyError\<close>; a vote on a settled approval, by nobody, or with a
  role below the minimum raises \<open>ApprovalError\<close>; both leave the store as it was.  Any other vote
  replaces that person's earlier vote; a rejection settles the approval and its stored action to
  \<open>REJECTED\<close> whatever the quorum; an approval settles both to \<open>APPROVED\<close> exactly when the distinct
  approvers now reach the quorum, and otherwise leaves the approval pending and the action
  untouched.\<close>

theorem vote_decides:
  assumes "\<not> enforce s"
    and "\<And>rec. tget s ''approvals'' a = Some rec \<Longrightarrow>
       appr_inv rec \<and> dget rec ''id'' = Some (VStr a) \<and> dget rec ''action_id'' = Some (VStr b)"
    and "\<And>act. tget s ''actions'' b = Some act \<Longrightarrow> dget act ''id'' = Some (VStr b)"
  shows "case tget s ''approvals'' a of
      None \<Rightarrow> vote a approved by role note s = (Inl KeyError, s)
    | Some rec \<Rightarrow>
        if \<not> is_pending rec \<or> by = [] \<or> \<not> role_satisfies role (get_str rec ''min_role'')
        then vote a approved by role note s = (Inl ApprovalError, s)
        else let others = filter (\<lambda>w. dget w ''by'' \<noteq> Some (VStr by)) (votes_of rec);
                 act = tget s ''actions'' b in
          \<exists>r s'. vote a approved by role note s = (Inr r, s') \<and> tget s' ''approvals'' a = Some r \<and>
            votes_of r = others @ [vote_doc approved by role note (clock (env s) (ticks s))] \<and>
            (if \<not> approved then
               dget r ''state'' = Some (VStr (approval_state_value Appr_Rejected)) \<and>
               tget s' ''actions'' b = map_option (\<lambda>d. dset d ''status'' (VStr (action_status_value Act_Rejected))) act
             else if appr_need rec \<le> int (length others) + 1 then
               dget r ''state'' = Some (VStr (approval_state_value Appr_Approved)) \<and>
               tget s' ''actions'' b = map_option (\<lambda>d. dset d ''status'' (VStr (action_status_value Act_Approved))) act
             else is_pending r \<and> tget s' ''actions'' b = act)"
proof (cases "tget s ''approvals'' a")
  case None
  then show ?thesis using assms(1) by (simp add: vote_def op_simps get_legacy)
next
  case (Some rec)
  show ?thesis
  proof (cases "\<not> is_pending rec \<or> by = [] \<or> \<not> role_satisfies role (get_str rec ''min_role'')")
    case True
    then have "vote a approved by role note s = (Inl ApprovalError, s)"
      using Some assms(1) by (auto simp: vote_def op_simps get_legacy)
    with True Some show ?thesis by auto
  next
    case False
    with Some vote_counted [OF assms(1) Some _ _ _ _ assms(3) _ _ refl, of "by" role approved "note"] assms(2)
    show ?thesis by (simp add: Let_def)
  qed
qed

theorem vote_decides_witness:
  "\<exists>r s'. vote ''appr_0'' False ''bob'' ''viewer'' [] demo_pending = (Inr r, s') \<and>
     dget r ''state'' = Some (VStr ''REJECTED'')"
proof -
  obtain rec act where r: "\<not> enforce demo_pending" "tget demo_pending ''approvals'' ''appr_0'' = Some rec" "is_pending rec"
      "get_str rec ''min_role'' = []" "dget rec ''id'' = Some (VStr ''appr_0'')" "votes_of rec = []"
      "dget rec ''quorum'' = Some (VInt 1)" "dget rec ''action_id'' = Some (VStr ''act1'')"
      "tget demo_pending ''actions'' ''act1'' = Some act" "dget act ''id'' = Some (VStr ''act1'')" "appr_inv rec"
    by (rule demo_pending_row)
  have role: "role_satisfies ''viewer'' (get_str rec ''min_role'')" by (simp add: r(4))
  from vote_decides [of demo_pending "''appr_0''" "''act1''" False "''bob''" "''viewer''" "[]"] r role
  show ?thesis by (auto simp: Let_def)
qed

end
