(* ===== verification/Statemachine.thy ===== *)
theory Statemachine
  imports Audit_Chain
begin

text \<open>
  \<open>sworker/statemachine.py\<close>: the transition table of a run, the guarded transition with its
  audit event and its write-back to the persisted run, and cancellability.  Lemmas: a
  transition either is in the table or raises without touching run or store; terminal
  states are absorbing; every run path to a terminal state from planning is bounded by the
  table's shape.
\<close>

definition TERMINAL :: "run_status list" where
  "TERMINAL = [Success, Partial_Success, Failed, Blocked, Insufficient_Evidence, Cancelled, Denied]"

definition TRANSITIONS :: "(run_status \<times> run_status list) list" where
  "TRANSITIONS = [
     (Pending, [Planning, Cancelled, Denied]),
     (Planning, [Executing, Cancelled, Denied, Insufficient_Evidence, Blocked]),
     (Executing, [Awaiting_Approval, Verifying, Cancelled, Denied, Blocked, Failed]),
     (Awaiting_Approval, [Executing, Cancelled, Denied, Blocked]),
     (Verifying, TERMINAL)]"

definition is_terminal :: "run_status \<Rightarrow> bool" where
  "is_terminal st \<longleftrightarrow> st \<in> set TERMINAL"

text \<open>No entry of the table holds the token \<open>ANY_TERMINAL\<close>, so the membership test decides.\<close>

definition allowed_transition :: "run_status \<Rightarrow> run_status \<Rightarrow> bool" where
  "allowed_transition current target =
     (case map_of TRANSITIONS current of None \<Rightarrow> False | Some out \<Rightarrow> target \<in> set out)"

definition transition_record :: "string \<Rightarrow> run_status \<Rightarrow> run_status \<Rightarrow> string \<Rightarrow> string \<Rightarrow> time \<Rightarrow> doc" where
  "transition_record rid cur tgt actor reason t = [
     (''run_id'', VStr rid), (''from_state'', VStr (run_status_value cur)),
     (''to_state'', VStr (run_status_value tgt)), (''actor'', VStr actor),
     (''reason'', VStr reason), (''at'', VFloat t)]"

text \<open>\<open>transition\<close> with a store; the result is the run with its new status.\<close>

definition transition :: "run \<Rightarrow> run_status \<Rightarrow> string \<Rightarrow> string \<Rightarrow> run sop" where
  "transition run target actor reason =
     (let current = run_status run; rid = run_id run in
      if current = target then op_return run
      else if \<not> allowed_transition current target then op_raise IllegalTransition
      else op_bind op_now (\<lambda>t.
        op_then (audit ''run.transition'' ''runs'' rid (transition_record rid current target actor reason t))
          (op_bind (if rid = [] then op_return None else get ''runs'' rid []) (\<lambda>persisted.
             case persisted of
               None \<Rightarrow> op_return (run\<lparr>run_status := target\<rparr>)
             | Some p \<Rightarrow> op_then (put ''runs'' (dset p ''status'' (VStr (run_status_value target))) ''run.status'')
                            (op_return (run\<lparr>run_status := target\<rparr>))))))"

text \<open>Without a store only the run object changes.\<close>

definition transition_local :: "run \<Rightarrow> run_status \<Rightarrow> error + run" where
  "transition_local run target =
     (if run_status run = target then Inr run
      else if \<not> allowed_transition (run_status run) target then Inl IllegalTransition
      else Inr (run\<lparr>run_status := target\<rparr>))"

definition can_cancel :: "run_status \<Rightarrow> bool" where
  "can_cancel st \<longleftrightarrow> \<not> is_terminal st"

section \<open>The table\<close>

lemmas table_defs = allowed_transition_def TRANSITIONS_def TERMINAL_def is_terminal_def can_cancel_def

lemma terminal_absorbing: "is_terminal a \<Longrightarrow> \<not> allowed_transition a b"
  by (cases a) (simp_all add: table_defs)

lemma running_stuck: "\<not> allowed_transition Running b" "\<not> allowed_transition a Running"
  by (cases a; simp add: table_defs)+

lemma allowed_irrefl: "\<not> allowed_transition a a"
  by (cases a) (simp_all add: table_defs)

lemma verifying_terminal: "allowed_transition Verifying b \<longleftrightarrow> is_terminal b"
  by (simp add: table_defs)

text \<open>Success is only ever entered from verification.\<close>

lemma success_from_verifying:
  "allowed_transition a Success \<or> allowed_transition a Partial_Success \<Longrightarrow> a = Verifying"
  by (cases a) (simp_all add: table_defs)

inductive moves :: "run_status \<Rightarrow> run_status \<Rightarrow> bool" where
  move: "allowed_transition a b \<Longrightarrow> moves a b"

inductive_cases movesE: "moves a b"
inductive_simps moves_simp: "moves a b"

abbreviation can_reach :: "run_status \<Rightarrow> run_status \<Rightarrow> bool" where
  "can_reach \<equiv> moves\<^sup>*\<^sup>*"

lemma terminal_final: "can_reach a b \<Longrightarrow> is_terminal a \<Longrightarrow> b = a"
  by (induction rule: rtranclp_induct) (auto simp: moves_simp terminal_absorbing)

text \<open>Any path into success goes through \<open>Verifying\<close>: without it, success stays out of reach.\<close>

definition avoids_verifying :: "run_status \<Rightarrow> run_status \<Rightarrow> bool" where
  "avoids_verifying = (\<lambda>a b. moves a b \<and> b \<noteq> Verifying)\<^sup>*\<^sup>*"

lemma no_success_without_verifying:
  assumes "avoids_verifying a b" and "a \<noteq> Verifying" and "a \<noteq> Success" and "a \<noteq> Partial_Success"
  shows "b \<noteq> Success \<and> b \<noteq> Partial_Success \<and> b \<noteq> Verifying"
  using assms(1) unfolding avoids_verifying_def
proof (induction rule: rtranclp_induct)
  case base
  with assms show ?case by simp
next
  case (step b c)
  then show ?case using success_from_verifying by (auto simp: moves_simp)
qed

section \<open>The operation\<close>

lemma transition_same: "run_status r = tgt \<Longrightarrow> transition r tgt actor reason s = (Inr r, s)"
  by (simp add: transition_def)

lemma transition_illegal:
  "run_status r \<noteq> tgt \<Longrightarrow> \<not> allowed_transition (run_status r) tgt \<Longrightarrow>
   transition r tgt actor reason s = (Inl IllegalTransition, s)"
  by (simp add: transition_def)

lemma put_result: "put t d ev s = (Inr d', s') \<Longrightarrow> d' = stamp s d"
  by (auto simp: put_eq split: if_splits option.splits pyval.splits)

lemma run_status_self: "run_status r = tgt \<Longrightarrow> r\<lparr>run_status := tgt\<rparr> = r"
  by (cases r) simp

lemma transition_post:
  "op_post (\<lambda>r'. r' = r\<lparr>run_status := tgt\<rparr> \<and>
              (run_status r = tgt \<or> allowed_transition (run_status r) tgt))
     (transition r tgt actor reason)"
  unfolding transition_def Let_def
  by (intro op_post_intros) (simp_all add: run_status_self)

lemmas transition_result = op_postD [OF transition_post]

lemma transition_local_agrees:
  "transition r tgt actor reason s = (Inr r', s') \<Longrightarrow> transition_local r tgt = Inr r'"
  by (drule transition_result) (auto simp: transition_local_def run_status_self)

text \<open>A legal transition in legacy mode: one \<open>run.transition\<close> line, then the persisted row.\<close>

lemma transition_legal:
  assumes "\<not> enforce s" and "allowed_transition (run_status r) tgt" and "run_id r \<noteq> []"
    and "tget s ''runs'' (run_id r) = Some p" and "dget p ''id'' = Some (VStr (run_id r))"
  shows "\<exists>s1. transition r tgt actor reason s =
      (Inr (r\<lparr>run_status := tgt\<rparr>),
       put_state ''runs'' (run_id r) (dset p ''status'' (VStr (run_status_value tgt))) ''run.status'' s1)
      \<and> tables s1 = tables s \<and> \<not> enforce s1 \<and> env s1 = env s"
proof -
  have "run_status r \<noteq> tgt" using assms(2) allowed_irrefl by auto
  let ?t = "clock (env s) (ticks s)"
  let ?s1 = "audit_st ''run.transition'' ''runs'' (run_id r)
      (transition_record (run_id r) (run_status r) tgt actor reason ?t) (s\<lparr>ticks := Suc (ticks s)\<rparr>)"
  have g: "get ''runs'' (run_id r) [] ?s1 = (Inr (Some p), ?s1)"
    using assms(1,4) by (simp add: get_legacy)
  have "transition r tgt actor reason s = (Inr (r\<lparr>run_status := tgt\<rparr>),
       put_state ''runs'' (run_id r) (dset p ''status'' (VStr (run_status_value tgt))) ''run.status'' ?s1)"
    using \<open>run_status r \<noteq> tgt\<close> assms g
    by (simp add: transition_def Let_def op_bind_apply op_then_apply op_now_def put_ok)
  then show ?thesis using assms(1) by (intro exI [of _ ?s1]) simp
qed

section \<open>Properties\<close>

text \<open>C8: a run reaches \<open>SUCCESS\<close> or \<open>PARTIAL_SUCCESS\<close> only through \<open>VERIFYING\<close>: a path of
  legal transitions from \<open>PENDING\<close> that never enters \<open>VERIFYING\<close> ends in neither.\<close>

theorem success_needs_verification:
  "avoids_verifying Pending st \<Longrightarrow> st \<noteq> Success \<and> st \<noteq> Partial_Success"
  using no_success_without_verifying [of Pending st] by simp

theorem success_needs_verification_witness:
  "avoids_verifying Pending Executing \<and> Executing \<noteq> Success \<and> Executing \<noteq> Partial_Success"
proof -
  have "avoids_verifying Pending Executing"
    unfolding avoids_verifying_def
    by (rule rtranclp.rtrancl_into_rtrancl [of _ _ Planning])
       (auto simp: moves_simp table_defs intro!: r_into_rtranclp)
  with success_needs_verification [OF this] show ?thesis by simp
qed

text \<open>\<open>transition\<close> is fail-closed and leaves a trace.  An illegal target raises and
  changes nothing; a legal one sets the run's status, writes the new status into the
  persisted run and appends exactly two audit lines, the first a \<open>run.transition\<close> event.\<close>

theorem transition_guarded:
  assumes "\<not> enforce s" and "run_status r \<noteq> tgt" and "run_id r \<noteq> []"
    and "tget s ''runs'' (run_id r) = Some p" and "dget p ''id'' = Some (VStr (run_id r))"
  shows "if allowed_transition (run_status r) tgt
    then \<exists>s' l1 l2. transition r tgt actor reason s = (Inr (r\<lparr>run_status := tgt\<rparr>), s') \<and>
           tget s' ''runs'' (run_id r) = Some (dset p ''status'' (VStr (run_status_value tgt))) \<and>
           audit_log s' = audit_log s @ [Entry l1, Entry l2] \<and>
           dget l1 ''event'' = Some (VStr ''run.transition'') \<and>
           get_str (get_dict l1 ''payload'') ''to_state'' = run_status_value tgt
    else transition r tgt actor reason s = (Inl IllegalTransition, s)"
proof (cases "allowed_transition (run_status r) tgt")
  case True
  let ?t = "clock (env s) (ticks s)"
  let ?p = "transition_record (run_id r) (run_status r) tgt actor reason ?t"
  let ?s1 = "audit_st ''run.transition'' ''runs'' (run_id r) ?p (s\<lparr>ticks := Suc (ticks s)\<rparr>)"
  let ?d = "dset p ''status'' (VStr (run_status_value tgt))"
  let ?l1 = "audit_entry (s\<lparr>ticks := Suc (ticks s)\<rparr>) ''run.transition'' ''runs'' (run_id r) ?p"
  have g: "get ''runs'' (run_id r) [] ?s1 = (Inr (Some p), ?s1)"
    using assms by (simp add: get_legacy)
  have tr: "transition r tgt actor reason s =
      (Inr (r\<lparr>run_status := tgt\<rparr>), put_state ''runs'' (run_id r) ?d ''run.status'' ?s1)"
    using assms True g by (simp add: transition_def Let_def op_bind_apply op_then_apply op_now_def put_ok)
  have log: "\<exists>l2. audit_log (put_state ''runs'' (run_id r) ?d ''run.status'' ?s1)
      = audit_log s @ [Entry ?l1, Entry l2]"
    by (simp add: put_state_def audit_st_def put_row_def)
  have "get_str (get_dict ?l1 ''payload'') ''to_state'' = run_status_value tgt"
    by (simp add: get_dict_def audit_entry_def Let_def get_str_def transition_record_def)
  with True tr log assms show ?thesis
    by (auto simp: audit_entry_def Let_def)
next
  case False
  with assms(2) show ?thesis by (simp add: transition_illegal)
qed

definition demo_run :: run where
  "demo_run = \<lparr>run_task_id = ''t1'', run_worker = ''w'', run_id = ''r1'', run_status = Verifying,
     run_plan_id = [], run_intent = [], run_trigger = ''manual'', run_procedure = [], run_started = 0,
     run_finished = 0, run_summary = [], run_error = [], run_evidence_count = 0, run_claim_count = 0,
     run_approval_count = 0, run_artifact_ids = [], run_verifications = [], run_seq = 0,
     run_degradations = []\<rparr>"

theorem transition_guarded_witness:
  "\<exists>s'. transition demo_run Success ''engine'' ''done''
      (put_state ''runs'' ''r1'' (run_to_dict demo_run) ''run.started'' (open_store demo_env [] []))
    = (Inr (demo_run\<lparr>run_status := Success\<rparr>), s')"
proof -
  let ?s = "put_state ''runs'' ''r1'' (run_to_dict demo_run) ''run.started'' (open_store demo_env [] [])"
  have e: "\<not> enforce ?s" by (simp add: enforce_def open_store_def)
  have i: "run_id demo_run = ''r1''" "run_status demo_run = Verifying"
    by (simp_all add: demo_run_def)
  have p: "tget ?s ''runs'' (run_id demo_run) = Some (run_to_dict demo_run)"
    using e by (simp add: i)
  have d: "dget (run_to_dict demo_run) ''id'' = Some (VStr (run_id demo_run))"
    by (simp add: run_to_dict_def)
  have "allowed_transition (run_status demo_run) Success"
    by (simp add: i table_defs)
  with transition_guarded [where tgt = Success and actor = "''engine''" and reason = "''done''", OF e _ _ p d]
  show ?thesis by (auto simp: i)
qed

text \<open>cancellation.  \<open>can_cancel\<close> promises that any non-terminal run can be aborted,
  and the table keeps the promise for every state but \<open>RUNNING\<close>, which the table does not
  know: no transition enters or leaves it.\<close>

theorem cancel_promise:
  "(can_cancel st \<longrightarrow> allowed_transition st Cancelled \<or> st = Running) \<and>
   can_cancel Running \<and> \<not> allowed_transition Running st \<and> \<not> allowed_transition st Running"
  by (cases st) (simp_all add: table_defs)

theorem cancel_promise_witness: "can_cancel Executing \<and> allowed_transition Executing Cancelled"
  using cancel_promise [of Executing] by (simp add: table_defs)

end
