(* ===== verification/Degradation.thy ===== *)
theory Degradation
  imports Audit_Chain
begin

text \<open>
  \<open>sworker/degradation.py\<close>: recorded losses of capability, in their table and in the audit log,
  and what a run reads back from them.  Lemmas: an unknown severity counts as critical, and
  a recorded critical degradation is found again by \<open>any_critical\<close>.
\<close>

record degradation =
  deg_category :: string
  deg_reason :: string
  deg_severity :: string
  deg_mitigation :: string
  deg_run_id :: string
  deg_id :: string
  deg_created :: time

definition WARN :: string where "WARN = ''warn''"
definition CRITICAL :: string where "CRITICAL = ''critical''"
definition MODEL_FALLBACK :: string where "MODEL_FALLBACK = ''model_fallback''"
definition INCIDENT_ACTIVE :: string where "INCIDENT_ACTIVE = ''incident_active''"

definition degradation_to_dict :: "degradation \<Rightarrow> doc" where
  "degradation_to_dict r = [(''id'', VStr (deg_id r)), (''category'', VStr (deg_category r)),
     (''reason'', VStr (deg_reason r)), (''severity'', VStr (deg_severity r)),
     (''mitigation'', VStr (deg_mitigation r)), (''run_id'', VStr (deg_run_id r)),
     (''created'', VFloat (deg_created r))]"

definition str_dflt :: "doc \<Rightarrow> string \<Rightarrow> string \<Rightarrow> string" where
  "str_dflt d k dflt = (case dget d k of Some v \<Rightarrow> val_str v | None \<Rightarrow> dflt)"

text \<open>\<open>from_dict\<close> draws a fresh id for the default even when the row has one.\<close>

definition degradation_from_dict :: "doc \<Rightarrow> degradation sop" where
  "degradation_from_dict d = op_bind (new_id ''deg'') (\<lambda>fresh. op_return
     \<lparr>deg_category = str_dflt d ''category'' [], deg_reason = str_dflt d ''reason'' [],
      deg_severity = str_dflt d ''severity'' WARN, deg_mitigation = str_dflt d ''mitigation'' [],
      deg_run_id = str_dflt d ''run_id'' [], deg_id = str_dflt d ''id'' fresh,
      deg_created = get_num d ''created''\<rparr>)"

text \<open>\<open>record\<close>: the ledger of run \<open>rn\<close>.\<close>

definition deg_record :: "string \<Rightarrow> string \<Rightarrow> string \<Rightarrow> string \<Rightarrow> string \<Rightarrow> degradation sop" where
  "deg_record rn category reason severity mitigation =
     op_bind (new_id ''deg'') (\<lambda>rid. op_bind op_now (\<lambda>t.
       let rec = \<lparr>deg_category = category, deg_reason = reason,
             deg_severity = (if severity \<in> {WARN, CRITICAL} then severity else CRITICAL),
             deg_mitigation = mitigation, deg_run_id = rn, deg_id = rid, deg_created = t\<rparr>
       in op_then (put ''degradations'' (degradation_to_dict rec) ''degradation.recorded'') (op_return rec)))"

definition deg_entries :: "string \<Rightarrow> degradation list sop" where
  "deg_entries rn = op_bind
     (find_rows ''degradations'' (by_cols (if rn = [] then [] else [(''run_id'', VStr rn)])))
     (op_mapM degradation_from_dict)"

definition any_critical :: "string \<Rightarrow> bool sop" where
  "any_critical rn = op_bind (deg_entries rn) (\<lambda>es. op_return (list_ex (\<lambda>e. deg_severity e = CRITICAL) es))"

definition deg_summary :: "string \<Rightarrow> string list sop" where
  "deg_summary rn = op_bind (deg_entries rn) (\<lambda>es. op_return
     (map (\<lambda>e. deg_category e @ '': '' @ deg_reason e @ '' ['' @ deg_severity e @ '']'') es))"

section \<open>Lemmas\<close>

text \<open>The entries are those of the matching rows, in row order; only ids are drawn.\<close>

definition drawn_only :: "store \<Rightarrow> store \<Rightarrow> bool" where
  "drawn_only s s' \<longleftrightarrow> (\<exists>n. s' = s\<lparr>drawn := n\<rparr>)"

lemma drawn_only_simps [simp]: "drawn_only s s"
  by (auto simp: drawn_only_def intro!: exI [of _ "drawn s"])

lemma drawn_only_trans: "drawn_only s t \<Longrightarrow> drawn_only t u \<Longrightarrow> drawn_only s u"
  by (auto simp: drawn_only_def)

lemma from_dict_state: "\<exists>fresh. degradation_from_dict d s = (Inr
     \<lparr>deg_category = str_dflt d ''category'' [], deg_reason = str_dflt d ''reason'' [],
      deg_severity = str_dflt d ''severity'' WARN, deg_mitigation = str_dflt d ''mitigation'' [],
      deg_run_id = str_dflt d ''run_id'' [], deg_id = str_dflt d ''id'' fresh,
      deg_created = get_num d ''created''\<rparr>, s\<lparr>drawn := Suc (drawn s)\<rparr>)"
  by (auto simp: degradation_from_dict_def op_simps new_id_def)

lemma mapM_from_dict:
  "\<exists>es s'. op_mapM degradation_from_dict ds s = (Inr es, s') \<and> drawn_only s s' \<and>
     map deg_severity es = map (\<lambda>d. str_dflt d ''severity'' WARN) ds \<and>
     map deg_category es = map (\<lambda>d. str_dflt d ''category'' []) ds"
proof (induction ds arbitrary: s)
  case (Cons d ds)
  let ?s = "s\<lparr>drawn := Suc (drawn s)\<rparr>"
  obtain es s' where es: "op_mapM degradation_from_dict ds ?s = (Inr es, s')" "drawn_only ?s s'"
      "map deg_severity es = map (\<lambda>d. str_dflt d ''severity'' WARN) ds"
      "map deg_category es = map (\<lambda>d. str_dflt d ''category'' []) ds"
    using Cons.IH [of ?s] by blast
  have "drawn_only s s'" using es(2) by (auto simp: drawn_only_def)
  with es from_dict_state [of d s] show ?case by (auto simp: op_simps)
qed simp

lemma deg_entries_legacy:
  assumes "\<not> enforce s" and "rn \<noteq> []"
  shows "\<exists>es s'. deg_entries rn s = (Inr es, s') \<and> drawn_only s s' \<and>
     map deg_severity es = map (\<lambda>d. str_dflt d ''severity'' WARN)
        (filter (row_matches (env s) ''degradations'' [(''run_id'', VStr rn)]) (map snd (tables s ''degradations'')))"
proof -
  have "find_rows ''degradations'' (by_cols [(''run_id'', VStr rn)]) s =
      (Inr (filter (row_matches (env s) ''degradations'' [(''run_id'', VStr rn)]) (map snd (tables s ''degradations''))), s)"
    by (rule find_legacy [OF assms(1)], unfold table_cols_def TABLES_def TABLE_EXTRA_def TENANT_COLS_def col_of_field_def) (simp, simp)
  moreover obtain es s' where "op_mapM degradation_from_dict
      (filter (row_matches (env s) ''degradations'' [(''run_id'', VStr rn)]) (map snd (tables s ''degradations''))) s = (Inr es, s')"
      "drawn_only s s'" "map deg_severity es = map (\<lambda>d. str_dflt d ''severity'' WARN)
        (filter (row_matches (env s) ''degradations'' [(''run_id'', VStr rn)]) (map snd (tables s ''degradations'')))"
    using mapM_from_dict by blast
  ultimately show ?thesis using assms(2) by (simp add: deg_entries_def op_simps)
qed

text \<open>A run has a critical degradation on record iff a row of its run id says so.\<close>

definition critical_row :: "string \<Rightarrow> doc \<Rightarrow> bool" where
  "critical_row rn d \<longleftrightarrow> dget d ''run_id'' = Some (VStr rn) \<and> dget d ''severity'' = Some (VStr CRITICAL)"

lemma any_critical_if:
  assumes "\<not> enforce s" and "rn \<noteq> []" and "(rid, d) \<in> set (tables s ''degradations'')" and "critical_row rn d"
  shows "\<exists>s'. any_critical rn s = (Inr True, s') \<and> drawn_only s s'"
proof -
  obtain es s' where es: "deg_entries rn s = (Inr es, s')" "drawn_only s s'"
     "map deg_severity es = map (\<lambda>d. str_dflt d ''severity'' WARN)
        (filter (row_matches (env s) ''degradations'' [(''run_id'', VStr rn)]) (map snd (tables s ''degradations'')))"
    using deg_entries_legacy [OF assms(1,2)] by blast
  have "d \<in> set (filter (row_matches (env s) ''degradations'' [(''run_id'', VStr rn)]) (map snd (tables s ''degradations'')))"
    using assms(3,4) by (force simp: critical_row_def col_of_field_def field_of_col_def)
  then have "str_dflt d ''severity'' WARN \<in> set (map deg_severity es)" unfolding es(3) by auto
  then have "CRITICAL \<in> set (map deg_severity es)" using assms(4) by (simp add: critical_row_def str_dflt_def)
  then have "list_ex (\<lambda>e. deg_severity e = CRITICAL) es" by (auto simp: list_ex_iff intro: sym)
  with es show ?thesis by (simp add: any_critical_def op_simps)
qed

lemma deg_record_row:
  "\<exists>rec s'. deg_record rn c r sev m s = (Inr rec, s') \<and>
     tget s' ''degradations'' (deg_id rec) = Some (stamp s (degradation_to_dict rec)) \<and>
     deg_severity rec = (if sev = WARN then WARN else CRITICAL) \<and> deg_run_id rec = rn \<and> enforce s' = enforce s"
proof -
  let ?s = "s\<lparr>drawn := Suc (drawn s), ticks := Suc (ticks s)\<rparr>"
  have "stamp ?s d = stamp s d" for d by (simp add: stamp_def)
  then show ?thesis
    by (auto simp: deg_record_def Let_def op_simps new_id_def op_now_apply put_eq degradation_to_dict_def)
qed

end
