(* ===== verification/Safemode.thy ===== *)
theory Safemode
  imports Degradation
begin

text \<open>
  \<open>sworker/safemode.py\<close> and \<open>sworker/incident.py\<close>: the safe-mode level and the incident state,
  both kept in \<open>meta_kv\<close> rows and read fail-closed, the block decision, and the incident
  operations, which engage the lock and write the timeline to the audit log.  Lemmas: what
  each reads after each write, and that the two rows do not interfere.
\<close>

section \<open>Safe mode\<close>

definition SM_OFF :: string where "SM_OFF = ''off''"
definition SM_READONLY :: string where "SM_READONLY = ''readonly''"
definition SM_LOCKED :: string where "SM_LOCKED = ''locked''"
definition SAFE_MODE_BLOCK :: string where "SAFE_MODE_BLOCK = ''safe_mode_block''"

definition SM_LEVELS :: "string list" where
  "SM_LEVELS = [SM_OFF, SM_READONLY, SM_LOCKED]"

definition safe_key :: "string \<Rightarrow> string" where
  "safe_key scope = ''safemode:level:'' @ scope"

definition SM_SCOPE :: string where "SM_SCOPE = ''safemode''"

text \<open>The level a persisted row stands for.\<close>

definition level_of_row :: "doc option \<Rightarrow> string" where
  "level_of_row row = (case row of
       None \<Rightarrow> SM_OFF
     | Some d \<Rightarrow> (if d = [] then SM_OFF
         else case dget d ''level'' of
                None \<Rightarrow> SM_OFF
              | Some (VStr lv) \<Rightarrow> (if lv \<in> set SM_LEVELS then lv else SM_LOCKED)
              | Some _ \<Rightarrow> SM_LOCKED))"

definition safe_level :: "string \<Rightarrow> string sop" where
  "safe_level scope = op_bind (get ''meta_kv'' (safe_key scope) []) (\<lambda>row. op_return (level_of_row row))"

definition safe_enabled :: "string \<Rightarrow> bool sop" where
  "safe_enabled scope = op_bind (safe_level scope) (\<lambda>lv. op_return (lv \<noteq> SM_OFF))"

definition safe_set_level :: "string \<Rightarrow> string \<Rightarrow> string sop" where
  "safe_set_level scope level =
     (if level \<notin> set SM_LEVELS then op_raise ValueError
      else op_then (put ''meta_kv'' [(''id'', VStr (safe_key scope)), (''scope'', VStr scope), (''level'', VStr level)]
             ''safemode.changed'') (op_return level))"

definition safe_enable :: "string \<Rightarrow> string sop" where
  "safe_enable scope = safe_set_level scope SM_READONLY"

definition safe_disable :: "string \<Rightarrow> string sop" where
  "safe_disable scope = safe_set_level scope SM_OFF"

definition safe_lock :: "string \<Rightarrow> string sop" where
  "safe_lock scope = safe_set_level scope SM_LOCKED"

text \<open>The decision at a level; \<open>None\<close> is an unspecified risk.\<close>

definition blocked_at :: "string \<Rightarrow> risk_level option \<Rightarrow> bool" where
  "blocked_at lv risk = (if lv = SM_OFF then False else if lv = SM_LOCKED then True else risk \<noteq> Some Read)"

definition is_blocked :: "string \<Rightarrow> risk_level option \<Rightarrow> bool sop" where
  "is_blocked scope risk = op_bind (safe_level scope) (\<lambda>lv. op_return (blocked_at lv risk))"

definition reason_at :: "string \<Rightarrow> risk_level option \<Rightarrow> string" where
  "reason_at lv risk = (if lv = SM_OFF then []
     else if lv = SM_LOCKED then ''safe mode LOCKED: execution frozen; no tool actions permitted during incident''
     else ''safe mode READONLY: actions above read risk are blocked (this action is ''
          @ (case risk of Some r \<Rightarrow> risk_level_value r | None \<Rightarrow> ''unknown'') @ '' risk)'')"

definition safe_reason :: "string \<Rightarrow> risk_level option \<Rightarrow> string sop" where
  "safe_reason scope risk = op_bind (safe_level scope) (\<lambda>lv. op_return (reason_at lv risk))"

definition safe_status :: "string \<Rightarrow> doc sop" where
  "safe_status scope = op_bind (safe_level scope) (\<lambda>lv. op_return
     [(''enabled'', VBool (lv \<noteq> SM_OFF)), (''level'', VStr lv), (''scope'', VStr scope),
      (''policy'', VStr (if lv = SM_OFF then ''no restriction''
         else if lv = SM_READONLY then ''read-only actions only'' else ''execution frozen''))])"

section \<open>Incidents\<close>

definition INC_OPEN :: string where "INC_OPEN = ''open''"
definition INC_CLOSED :: string where "INC_CLOSED = ''closed''"
definition INC_SCOPE :: string where "INC_SCOPE = ''incident''"

definition inc_key :: "string \<Rightarrow> string" where
  "inc_key scope = ''incident:state:'' @ scope"

definition state_of_row :: "doc option \<Rightarrow> string" where
  "state_of_row row = (case row of
       None \<Rightarrow> INC_CLOSED
     | Some d \<Rightarrow> (if d = [] then INC_CLOSED
         else case dget d ''state'' of
                None \<Rightarrow> INC_CLOSED
              | Some (VStr st) \<Rightarrow> (if st \<in> {INC_OPEN, INC_CLOSED} then st else INC_OPEN)
              | Some _ \<Rightarrow> INC_OPEN))"

definition inc_active :: "string \<Rightarrow> bool sop" where
  "inc_active scope = op_bind (get ''meta_kv'' (inc_key scope) []) (\<lambda>row. op_return (state_of_row row = INC_OPEN))"

definition inc_persist :: "string \<Rightarrow> string \<Rightarrow> string \<Rightarrow> string \<Rightarrow> unit sop" where
  "inc_persist scope st by note = op_bind op_now (\<lambda>t. op_then
     (put ''meta_kv'' [(''id'', VStr (inc_key scope)), (''scope'', VStr scope), (''state'', VStr st),
        (''by'', VStr by), (''note'', VStr note), (''ts'', VFloat t)] ''incident.state'') (op_return ()))"

definition inc_status :: "string \<Rightarrow> doc sop" where
  "inc_status scope = op_bind (inc_active scope) (\<lambda>a. op_bind (safe_level SM_SCOPE) (\<lambda>lv.
     op_bind (if a then safe_level SM_SCOPE else op_return lv) (\<lambda>lv2. op_return
     [(''active'', VBool a), (''state'', VStr (if a then INC_OPEN else INC_CLOSED)), (''scope'', VStr scope),
      (''safe_mode'', VStr lv),
      (''policy'', VStr (if a then ''platform frozen; no new runs; safe mode '' @ lv2 else ''no active incident''))])))"

definition inc_events :: "string list" where
  "inc_events = [''incident.opened'', ''incident.closed'', ''incident.rejected'', ''incident.lockdown'']"

definition list_incidents :: "doc list sop" where
  "list_incidents = op_bind (iter_audit [] []) (\<lambda>recs. op_return
     (map (\<lambda>rec. let p = get_dict rec ''payload''; f = (\<lambda>d k. case dget d k of Some v \<Rightarrow> v | None \<Rightarrow> VNone) in
        [(''event'', f rec ''event''), (''ts'', f rec ''ts''), (''by'', f p ''by''), (''summary'', f p ''summary''),
         (''note'', f p ''note''), (''incident_id'', f p ''incident_id'')])
       (filter (\<lambda>rec. get_str rec ''event'' \<in> set inc_events) recs)))"

text \<open>\<open>open\<close>: the result is the incident id and the level; \<open>iid_opt\<close> is the keyword argument.\<close>

definition inc_open :: "string \<Rightarrow> string \<Rightarrow> string \<Rightarrow> bool \<Rightarrow> string \<Rightarrow> (string \<times> string) sop" where
  "inc_open scope summary by lock iid_opt =
     op_bind (inc_active scope) (\<lambda>a.
       if a then op_then (audit ''incident.rejected'' ''meta_kv'' (inc_key scope)
            [(''by'', VStr by), (''summary'', VStr summary),
             (''reason'', VStr ''an incident is already open; close it before opening another'')])
            (op_raise ValueError)
       else op_bind (if iid_opt \<noteq> [] then op_return iid_opt
                     else op_bind op_now (\<lambda>t. op_return (''inc_'' @ int_str (if 0 \<le> t then \<lfloor>t * 1000\<rfloor> else \<lceil>t * 1000\<rceil>)))) (\<lambda>iid.
         op_then (if lock then op_then (safe_lock SM_SCOPE) (op_return ()) else op_return ())
         (op_then (inc_persist scope INC_OPEN by summary)
         (op_bind (safe_level SM_SCOPE) (\<lambda>lv.
          op_then (audit ''incident.opened'' ''meta_kv'' (inc_key scope)
            [(''by'', VStr by), (''summary'', VStr summary), (''incident_id'', VStr iid), (''safe_mode'', VStr lv)])
          (op_bind (safe_level SM_SCOPE) (\<lambda>lv2. op_return (iid, lv2))))))))"

definition inc_lockdown :: "string \<Rightarrow> string \<Rightarrow> string \<Rightarrow> (string \<times> string) sop" where
  "inc_lockdown scope summary by =
     op_bind (inc_active scope) (\<lambda>a.
     op_bind (if \<not> a then op_bind (inc_open scope summary by True []) (\<lambda>r. op_return (fst r))
              else op_then (safe_lock SM_SCOPE) (op_return [])) (\<lambda>iid.
     op_bind (safe_level SM_SCOPE) (\<lambda>lv.
       op_then (audit ''incident.lockdown'' ''meta_kv'' (inc_key scope)
         [(''by'', VStr by), (''summary'', VStr summary), (''incident_id'', VStr iid), (''safe_mode'', VStr lv)])
       (op_bind (safe_level SM_SCOPE) (\<lambda>lv2. op_return (iid, lv2))))))"

text \<open>\<open>close\<close>: whether anything changed, and the level.\<close>

definition inc_close :: "string \<Rightarrow> string \<Rightarrow> string \<Rightarrow> (bool \<times> string) sop" where
  "inc_close scope by note =
     op_bind (inc_active scope) (\<lambda>a.
       if \<not> a then op_bind (safe_level SM_SCOPE) (\<lambda>lv. op_return (False, lv))
       else op_then (inc_persist scope INC_CLOSED by note)
         (op_bind (safe_level SM_SCOPE) (\<lambda>lv.
          op_then (audit ''incident.closed'' ''meta_kv'' (inc_key scope)
            [(''by'', VStr by), (''note'', VStr note), (''safe_mode'', VStr lv)])
          (op_bind (safe_level SM_SCOPE) (\<lambda>lv2. op_return (True, lv2))))))"

section \<open>Lemmas\<close>

lemmas sm_consts = SM_OFF_def SM_READONLY_def SM_LOCKED_def SM_LEVELS_def INC_OPEN_def INC_CLOSED_def

lemma keys_differ [simp]: "safe_key a \<noteq> inc_key b" "inc_key b \<noteq> safe_key a"
  by (simp_all add: safe_key_def inc_key_def)

definition level_in :: "store \<Rightarrow> string" where
  "level_in s = level_of_row (tget s ''meta_kv'' (safe_key SM_SCOPE))"

definition active_in :: "string \<Rightarrow> store \<Rightarrow> bool" where
  "active_in scope s \<longleftrightarrow> state_of_row (tget s ''meta_kv'' (inc_key scope)) = INC_OPEN"

lemma safe_level_legacy: "\<not> enforce s \<Longrightarrow> safe_level SM_SCOPE s = (Inr (level_in s), s)"
  by (simp add: safe_level_def level_in_def op_simps get_legacy)

lemma inc_active_legacy: "\<not> enforce s \<Longrightarrow> inc_active scope s = (Inr (active_in scope s), s)"
  by (simp add: inc_active_def active_in_def op_simps get_legacy)

lemma level_in_cong: "tget s' ''meta_kv'' = tget s ''meta_kv'' \<Longrightarrow> level_in s' = level_in s"
  by (simp add: level_in_def)

lemma level_active_updates [simp]:
  "level_in (audit_st ev t r p s) = level_in s" "active_in scope (audit_st ev t r p s) = active_in scope s"
  "level_in (s\<lparr>ticks := n\<rparr>) = level_in s" "active_in scope (s\<lparr>ticks := n\<rparr>) = active_in scope s"
  by (simp_all add: level_in_def active_in_def)

lemma safe_set_level_legacy:
  assumes "\<not> enforce s" and "level \<in> set SM_LEVELS"
  shows "\<exists>s'. safe_set_level SM_SCOPE level s = (Inr level, s') \<and> level_in s' = level \<and>
     active_in scope s' = active_in scope s \<and> \<not> enforce s'"
  using assms by (simp add: safe_set_level_def op_simps put_ok level_in_def active_in_def level_of_row_def)

lemma inc_persist_legacy:
  assumes "\<not> enforce s" and "st \<in> {INC_OPEN, INC_CLOSED}"
  shows "\<exists>s'. inc_persist scope st by note s = (Inr (), s') \<and> level_in s' = level_in s \<and>
     (active_in scope s' \<longleftrightarrow> st = INC_OPEN) \<and> \<not> enforce s'"
  using assms
  by (simp add: inc_persist_def op_simps op_now_apply put_ok level_in_def active_in_def state_of_row_def)

lemma level_of_row_range: "level_of_row row \<in> set SM_LEVELS"
  by (auto simp: level_of_row_def sm_consts split: option.split pyval.split)

text \<open>The operations in legacy mode.\<close>

lemma inc_open_legacy:
  assumes "\<not> enforce s" and "\<not> active_in scope s"
  shows "\<exists>iid s'. inc_open scope summary by lock iid0 s = (Inr (iid, level_in s'), s') \<and> active_in scope s' \<and>
     level_in s' = (if lock then SM_LOCKED else level_in s) \<and> \<not> enforce s'"
proof -
  define m :: "string sop" where "m = (if iid0 \<noteq> [] then op_return iid0
      else op_bind op_now (\<lambda>t. op_return (''inc_'' @ int_str (if 0 \<le> t then \<lfloor>t * 1000\<rfloor> else \<lceil>t * 1000\<rceil>))))"
  obtain iid s1 where 1: "m s = (Inr iid, s1)" "level_in s1 = level_in s" "active_in scope s1 = active_in scope s" "\<not> enforce s1"
  proof (cases "iid0 = []")
    case True
    with that assms(1) show ?thesis by (simp add: m_def op_simps op_now_apply)
  next
    case False
    with that assms(1) show ?thesis by (simp add: m_def op_simps)
  qed
  obtain s2 where 2: "(if lock then op_then (safe_lock SM_SCOPE) (op_return ()) else op_return ()) s1 = (Inr (), s2)"
      "level_in s2 = (if lock then SM_LOCKED else level_in s)" "\<not> enforce s2"
  proof (cases lock)
    case True
    obtain s2 where "safe_set_level SM_SCOPE SM_LOCKED s1 = (Inr SM_LOCKED, s2)" "level_in s2 = SM_LOCKED" "\<not> enforce s2"
      using safe_set_level_legacy [OF 1(4), of SM_LOCKED scope] by (auto simp: SM_LEVELS_def)
    with True that show ?thesis by (simp add: safe_lock_def op_simps)
  next
    case False
    with 1 that show ?thesis by simp
  qed
  obtain s3 where 3: "inc_persist scope INC_OPEN by summary s2 = (Inr (), s3)" "level_in s3 = level_in s2"
      "active_in scope s3" "\<not> enforce s3"
    using inc_persist_legacy [OF 2(3), of INC_OPEN scope "by" summary] by auto
  show ?thesis
    unfolding inc_open_def m_def [symmetric]
    using assms 1 2 3 by (simp add: op_bind_apply op_then_apply inc_active_legacy safe_level_legacy)
qed

lemma inc_close_legacy:
  assumes "\<not> enforce s" and "active_in scope s"
  shows "\<exists>s'. inc_close scope by note s = (Inr (True, level_in s), s') \<and> \<not> active_in scope s' \<and>
     level_in s' = level_in s \<and> \<not> enforce s'"
proof -
  obtain s1 where 1: "inc_persist scope INC_CLOSED by note s = (Inr (), s1)" "level_in s1 = level_in s"
      "\<not> active_in scope s1" "\<not> enforce s1"
    using inc_persist_legacy [OF assms(1), of INC_CLOSED scope "by" "note"] by (auto simp: sm_consts)
  show ?thesis
    unfolding inc_close_def
    using assms 1 by (simp add: op_bind_apply op_then_apply inc_active_legacy safe_level_legacy)
qed

lemma inc_lockdown_legacy:
  assumes "\<not> enforce s"
  shows "\<exists>iid s'. inc_lockdown scope summary by s = (Inr (iid, SM_LOCKED), s') \<and> active_in scope s' \<and>
     level_in s' = SM_LOCKED \<and> \<not> enforce s'"
proof (cases "active_in scope s")
  case True
  obtain s1 where 1: "safe_set_level SM_SCOPE SM_LOCKED s = (Inr SM_LOCKED, s1)" "level_in s1 = SM_LOCKED"
      "active_in scope s1" "\<not> enforce s1"
    using safe_set_level_legacy [OF assms, of SM_LOCKED scope] True by (auto simp: sm_consts)
  show ?thesis
    unfolding inc_lockdown_def
    using assms True 1 by (simp add: op_bind_apply op_then_apply inc_active_legacy safe_level_legacy safe_lock_def)
next
  case False
  obtain iid s1 where 1: "inc_open scope summary by True [] s = (Inr (iid, level_in s1), s1)" "active_in scope s1"
      "level_in s1 = SM_LOCKED" "\<not> enforce s1"
    using inc_open_legacy [OF assms False, of summary "by" True "[]"] by auto
  show ?thesis
    unfolding inc_lockdown_def
    using assms False 1 by (simp add: op_bind_apply op_then_apply inc_active_legacy safe_level_legacy)
qed

section \<open>Properties\<close>

text \<open>C34: the lockdown button.  Whatever the state before, after \<open>lockdown\<close> an incident is
  open, safe mode is locked and every action of every (or no) risk is blocked; a further
  \<open>open\<close> is rejected; and closing the incident ends it without lifting the lock.\<close>

theorem lockdown_freezes:
  assumes "\<not> enforce s"
  shows "\<exists>iid s1 s2. inc_lockdown scope summary by s = (Inr (iid, SM_LOCKED), s1) \<and> active_in scope s1 \<and>
     (\<forall>risk. fst (is_blocked SM_SCOPE risk s1) = Inr True) \<and>
     fst (inc_open scope summary' by' lock iid' s1) = Inl ValueError \<and>
     inc_close scope by'' note s1 = (Inr (True, SM_LOCKED), s2) \<and> \<not> active_in scope s2 \<and>
     (\<forall>risk. fst (is_blocked SM_SCOPE risk s2) = Inr True)"
proof -
  obtain iid s1 where 1: "inc_lockdown scope summary by s = (Inr (iid, SM_LOCKED), s1)" "active_in scope s1"
      "level_in s1 = SM_LOCKED" "\<not> enforce s1"
    using inc_lockdown_legacy [OF assms] by blast
  obtain s2 where 2: "inc_close scope by'' note s1 = (Inr (True, SM_LOCKED), s2)" "\<not> active_in scope s2"
      "level_in s2 = SM_LOCKED" "\<not> enforce s2"
    using inc_close_legacy [OF 1(4,2)] 1(3) by metis
  have b: "\<not> enforce t \<Longrightarrow> level_in t = SM_LOCKED \<Longrightarrow> fst (is_blocked SM_SCOPE risk t) = Inr True" for t risk
    by (simp add: is_blocked_def op_simps safe_level_legacy blocked_at_def sm_consts)
  have "fst (inc_open scope summary' by' lock iid' s1) = Inl ValueError"
    using 1 by (simp add: inc_open_def op_simps inc_active_legacy)
  with 1 2 b show ?thesis by blast
qed

theorem lockdown_freezes_witness:
  "\<exists>iid s1. inc_lockdown INC_SCOPE ''suspected breach'' ''ann'' (open_store demo_env [] []) = (Inr (iid, SM_LOCKED), s1) \<and>
     fst (is_blocked SM_SCOPE (Some Read) s1) = Inr True"
proof -
  have "\<not> enforce (open_store demo_env [] [])" by (simp add: enforce_def open_store_def)
  from lockdown_freezes [OF this, of INC_SCOPE "''suspected breach''" "''ann''"] show ?thesis by blast
qed

text \<open>C35: both switches fail closed.  Whatever a persisted row holds, the level read from it is
  one of the three levels, a level that is none of them reads as \<open>locked\<close> and an unknown
  incident state as open; raising the level never unblocks anything; and read-only mode lets
  exactly the \<open>READ\<close> risk through.\<close>

theorem switches_fail_closed:
  "level_of_row row \<in> set SM_LEVELS \<and>
   (\<forall>d v. dget d ''level'' = Some v \<longrightarrow> v \<notin> VStr ` set SM_LEVELS \<longrightarrow> level_of_row (Some d) = SM_LOCKED) \<and>
   (\<forall>d v. dget d ''state'' = Some v \<longrightarrow> v \<noteq> VStr INC_CLOSED \<longrightarrow> state_of_row (Some d) = INC_OPEN) \<and>
   (blocked_at SM_OFF risk \<longrightarrow> blocked_at SM_READONLY risk) \<and> (blocked_at SM_READONLY risk \<longrightarrow> blocked_at SM_LOCKED risk) \<and>
   (\<not> blocked_at SM_READONLY risk \<longleftrightarrow> risk = Some Read)"
proof (intro conjI)
  show "level_of_row row \<in> set SM_LEVELS" by (rule level_of_row_range)
  show "\<forall>d v. dget d ''level'' = Some v \<longrightarrow> v \<notin> VStr ` set SM_LEVELS \<longrightarrow> level_of_row (Some d) = SM_LOCKED"
    by (auto simp: level_of_row_def split: pyval.split)
  show "\<forall>d v. dget d ''state'' = Some v \<longrightarrow> v \<noteq> VStr INC_CLOSED \<longrightarrow> state_of_row (Some d) = INC_OPEN"
    by (auto simp: state_of_row_def split: pyval.split)
qed (simp_all add: blocked_at_def sm_consts)

theorem switches_fail_closed_witness:
  "level_of_row (Some [(''id'', VStr ''x''), (''level'', VStr ''unlocked?'')]) = SM_LOCKED"
proof -
  have "dget [(''id'', VStr ''x''), (''level'', VStr ''unlocked?'')] ''level'' = Some (VStr ''unlocked?'')" by simp
  moreover have "VStr ''unlocked?'' \<notin> VStr ` set SM_LEVELS" by (auto simp: sm_consts)
  ultimately show ?thesis
    using switches_fail_closed [THEN conjunct2, THEN conjunct1] by blast
qed

end
