(* ===== verification/Evidence_Ledger.thy ===== *)
theory Evidence_Ledger
  imports Audit_Chain
begin

text \<open>
  \<open>sworker/evidence.py\<close>: minting evidence from an observation, claims, and the confidence of a
  claim from its provenance and the number of independent sources.  The optional Atlas scorer
  is a parameter: \<open>None\<close> when it is not installed.  Lemmas: a failed observation mints
  nothing, what an observation mints points back to it, and the table of scores.
\<close>

definition PROVENANCE_STRENGTH :: "provenance \<Rightarrow> rat" where
  "PROVENANCE_STRENGTH p = (case p of Verified \<Rightarrow> 1 | Observed \<Rightarrow> 85/100 | Retrieved \<Rightarrow> 7/10
     | Known \<Rightarrow> 6/10 | Inferred \<Rightarrow> 5/10 | Hypothesized \<Rightarrow> 15/100)"

type_synonym atlas = "provenance \<Rightarrow> evidence list \<Rightarrow> rat option"

section \<open>Confidence\<close>

definition source_domain :: "string \<Rightarrow> string" where
  "source_domain ref = hd (split_on CHR ''#'' ref)"

definition independent_sources :: "evidence list \<Rightarrow> nat" where
  "independent_sources evs = card (set (map (source_domain \<circ> ev_source_ref) (filter (\<lambda>e. ev_source_ref e \<noteq> []) evs)))"

definition score :: "atlas \<Rightarrow> provenance \<Rightarrow> evidence list \<Rightarrow> confidence" where
  "score atlas prov evs =
     (if evs = [] then (if prov \<noteq> Known then Unknown else Medium)
      else let n = independent_sources evs;
               value = (case atlas prov evs of Some v \<Rightarrow> v
                        | None \<Rightarrow> PROVENANCE_STRENGTH prov * min 1 (6/10 + 2/10 * of_nat n))
           in if prov = Verified \<and> 1 \<le> n then High
              else if 75/100 \<le> value \<and> 2 \<le> n then High
              else if 5/10 \<le> value then Medium else Low)"

section \<open>The ledger of a run\<close>

definition truthy_str :: "env \<Rightarrow> doc \<Rightarrow> string \<Rightarrow> string \<Rightarrow> string" where
  "truthy_str e d k dflt = (case dget d k of Some v \<Rightarrow> (if truthy v then py_str e v else dflt) | None \<Rightarrow> dflt)"

text \<open>\<open>(ref.get("excerpt") or "")[:200]\<close> in an f-string: a slice of a string or of a list; numbers and dictionaries have none.\<close>

definition excerpt_head :: "env \<Rightarrow> doc \<Rightarrow> error + string" where
  "excerpt_head e ref = (case dget ref ''excerpt'' of None \<Rightarrow> Inr []
     | Some v \<Rightarrow> (if \<not> truthy v then Inr []
         else case v of VStr s \<Rightarrow> Inr (take 200 s) | VList xs \<Rightarrow> Inr (py_str e (VList (take 200 xs))) | _ \<Rightarrow> Inl TypeError))"

definition mint :: "string \<Rightarrow> observation \<Rightarrow> string \<Rightarrow> doc \<Rightarrow> evidence sop" where
  "mint rn ob tool ref =
     op_bind (op_gets env) (\<lambda>e. op_bind (op_lift (excerpt_head e ref)) (\<lambda>head.
     op_bind (new_id ''ev'') (\<lambda>eid. op_bind op_now (\<lambda>t.
       let ev = \<lparr>ev_run_id = rn,
             ev_provenance = (if get_truthy ref ''atlas_claim'' then Retrieved else Observed),
             ev_summary = str_strip (tool @ '': '' @ head),
             ev_id = eid, ev_source_ref = truthy_str e ref ''source_ref'' tool,
             ev_observation_id = obs_id ob, ev_excerpt = take 2000 (truthy_str e ref ''excerpt'' []),
             ev_created = t\<rparr>
       in op_then (put ''evidence'' (evidence_to_dict ev) ''evidence.recorded'') (op_return ev)))))"

definition from_observation :: "string \<Rightarrow> observation \<Rightarrow> string \<Rightarrow> doc list \<Rightarrow> evidence list sop" where
  "from_observation rn ob tool refs =
     (if \<not> obs_ok ob then op_return []
      else op_mapM (mint rn ob tool)
        (if refs \<noteq> [] then refs
         else [[(''source_ref'', VStr tool), (''excerpt'', VStr (take 400 (obs_output ob)))]]))"

definition ev_note :: "string \<Rightarrow> provenance \<Rightarrow> string \<Rightarrow> string \<Rightarrow> evidence sop" where
  "ev_note rn prov summary source_ref =
     op_bind (new_id ''ev'') (\<lambda>eid. op_bind op_now (\<lambda>t.
       let ev = \<lparr>ev_run_id = rn, ev_provenance = prov, ev_summary = summary, ev_id = eid,
             ev_source_ref = source_ref, ev_observation_id = [], ev_excerpt = [], ev_created = t\<rparr>
       in op_then (put ''evidence'' (evidence_to_dict ev) ''evidence.recorded'') (op_return ev)))"

text \<open>\<open>Claim(...)\<close> draws its id and time before the confidence is known to the record; the score
  reads neither.\<close>

definition ev_claim :: "atlas \<Rightarrow> string \<Rightarrow> string \<Rightarrow> provenance \<Rightarrow> evidence list \<Rightarrow> claim sop" where
  "ev_claim atlas rn txt prov evs =
     op_bind (new_id ''claim'') (\<lambda>cid. op_bind op_now (\<lambda>t.
       let c = \<lparr>claim_run_id = rn, claim_text = txt, claim_id = cid, claim_provenance = prov,
             claim_confidence = score atlas prov evs, claim_evidence_ids = map ev_id evs,
             claim_verification_ids = [], claim_refuted = False, claim_created = t\<rparr>
       in op_then (put ''claims'' (claim_to_dict c) ''claim.recorded'') (op_return c)))"

definition all_evidence :: "string \<Rightarrow> doc list sop" where
  "all_evidence rn = find_rows ''evidence'' (by_cols [(''run_id'', VStr rn)])"

definition all_claims :: "string \<Rightarrow> doc list sop" where
  "all_claims rn = find_rows ''claims'' (by_cols [(''run_id'', VStr rn)])"

section \<open>Lemmas\<close>

text \<open>References that a slice can be taken of, as the tools give them.\<close>

definition excerpt_text :: "doc \<Rightarrow> bool" where
  "excerpt_text ref \<longleftrightarrow> (case dget ref ''excerpt'' of None \<Rightarrow> True
     | Some v \<Rightarrow> \<not> truthy v \<or> (case v of VStr _ \<Rightarrow> True | VList _ \<Rightarrow> True | _ \<Rightarrow> False))"

lemma excerpt_head_text: "excerpt_text ref \<longleftrightarrow> (\<exists>hd. excerpt_head e ref = Inr hd)"
  by (auto simp: excerpt_text_def excerpt_head_def split: option.splits pyval.splits)

lemma mint_eq:
  "mint rn ob tool ref s = (case excerpt_head (env s) ref of Inl err \<Rightarrow> (Inl err, s) | Inr head \<Rightarrow>
     let ev = \<lparr>ev_run_id = rn,
        ev_provenance = (if get_truthy ref ''atlas_claim'' then Retrieved else Observed),
        ev_summary = str_strip (tool @ '': '' @ head),
        ev_id = ''ev_'' @ uuid (env s) (drawn s), ev_source_ref = truthy_str (env s) ref ''source_ref'' tool,
        ev_observation_id = obs_id ob, ev_excerpt = take 2000 (truthy_str (env s) ref ''excerpt'' []),
        ev_created = clock (env s) (ticks s)\<rparr>
     in (Inr ev, put_state ''evidence'' (ev_id ev) (evidence_to_dict ev) ''evidence.recorded''
           (s\<lparr>drawn := Suc (drawn s), ticks := Suc (ticks s)\<rparr>)))"
  by (cases "excerpt_head (env s) ref")
    (simp_all add: mint_def Let_def op_simps op_lift_def new_id_def op_now_apply put_ok evidence_to_dict_def)

lemma mapM_mint_post:
  "op_mapM (mint rn ob tool) refs s = (Inr evs, s') \<Longrightarrow>
   length evs = length refs \<and> (\<forall>ev\<in>set evs. ev_run_id ev = rn \<and> ev_observation_id ev = obs_id ob \<and>
     ev_provenance ev \<in> {Retrieved, Observed})"
proof (induction refs arbitrary: s evs)
  case (Cons r refs)
  from Cons.prems obtain ev s1 where m0: "mint rn ob tool r s = (Inr ev, s1)"
    by (auto simp: op_simps split: prod.splits sum.splits)
  then have m: "mint rn ob tool r s = (Inr ev, s1)" "ev_run_id ev = rn" "ev_observation_id ev = obs_id ob"
      "ev_provenance ev \<in> {Retrieved, Observed}"
    by (auto simp: mint_eq Let_def split: sum.splits if_splits)
  with Cons.prems obtain evs' where "op_mapM (mint rn ob tool) refs s1 = (Inr evs', s')" "evs = ev # evs'"
    by (auto simp: op_simps split: prod.splits sum.splits)
  with Cons.IH m show ?case by auto
qed simp

lemma mapM_mint_total: "list_all excerpt_text refs \<Longrightarrow> \<exists>evs s'. op_mapM (mint rn ob tool) refs s = (Inr evs, s')"
proof (induction refs arbitrary: s)
  case (Cons r refs)
  obtain hd where "excerpt_head (env s) r = Inr hd" using Cons.prems excerpt_head_text [of r "env s"] by auto
  then obtain ev s1 where "mint rn ob tool r s = (Inr ev, s1)" by (simp add: mint_eq Let_def)
  moreover obtain evs s' where "op_mapM (mint rn ob tool) refs s1 = (Inr evs, s')" using Cons by fastforce
  ultimately show ?case by (simp add: op_simps)
qed simp

lemma strength_range: "15/100 \<le> PROVENANCE_STRENGTH p \<and> PROVENANCE_STRENGTH p \<le> 1"
  by (cases p) (simp_all add: PROVENANCE_STRENGTH_def)

lemma min_sources: "2 \<le> n \<Longrightarrow> min 1 (6/10 + 2/10 * (of_nat n :: rat)) = 1"
proof -
  assume "2 \<le> n"
  then have "(2 :: rat) \<le> of_nat n" using of_nat_le_iff [of 2 n, where 'a = rat] by simp
  then show ?thesis by simp
qed

section \<open>Properties\<close>

text \<open>what an observation mints.  \<open>from_observation\<close> mints nothing from a failed observation and leaves the store alone.  From a
  successful one whose references have text excerpts it mints at least one item, exactly one per reference given, each pointing to this run
  and this observation with provenance \<open>RETRIEVED\<close> or \<open>OBSERVED\<close>.  (\<open>note\<close> mints without an observation.)\<close>

theorem evidence_only_from_success:
  assumes "list_all excerpt_text refs"
  shows "if \<not> obs_ok ob then from_observation rn ob tool refs s = (Inr [], s)
    else \<exists>evs s'. from_observation rn ob tool refs s = (Inr evs, s') \<and> evs \<noteq> [] \<and> length evs = max 1 (length refs) \<and>
      list_all (\<lambda>ev. ev_run_id ev = rn \<and> ev_observation_id ev = obs_id ob \<and> ev_provenance ev \<in> {Retrieved, Observed}) evs"
proof (cases "obs_ok ob")
  case False
  then show ?thesis by (simp add: from_observation_def)
next
  case True
  let ?refs = "if refs \<noteq> [] then refs
         else [[(''source_ref'', VStr tool), (''excerpt'', VStr (take 400 (obs_output ob)))]]"
  have "list_all excerpt_text ?refs" using assms by (simp add: excerpt_text_def)
  then obtain evs s' where m: "op_mapM (mint rn ob tool) ?refs s = (Inr evs, s')" using mapM_mint_total by blast
  moreover have "length ?refs = max 1 (length refs)" by (cases refs) auto
  ultimately show ?thesis
    using True mapM_mint_post [OF m] by (fastforce simp: from_observation_def list_all_iff)
qed

definition demo_obs :: "bool \<Rightarrow> observation" where
  "demo_obs ok = \<lparr>obs_run_id = ''r1'', obs_action_id = ''a1'', obs_ok = ok, obs_id = ''obs1'', obs_output = ''text'',
     obs_error = [], obs_data = [], obs_truncated = False, obs_duration_ms = 1, obs_injection = [], obs_created = 0\<rparr>"

theorem evidence_only_from_success_witness:
  "\<exists>evs s'. from_observation ''r1'' (demo_obs True) ''fs.read'' [] (open_store demo_env [] []) = (Inr evs, s') \<and> length evs = 1"
  using evidence_only_from_success [of "[]" "demo_obs True" "''r1''" "''fs.read''" "open_store demo_env [] []"]
  by (auto simp: demo_obs_def)

text \<open>the built-in confidence table (without Atlas).  No evidence gives \<open>UNKNOWN\<close>, except
  for \<open>KNOWN\<close>, which gives \<open>MEDIUM\<close>; with evidence, \<open>HIGH\<close> takes a verification or two
  independent sources of observed material, and a hypothesis stays \<open>LOW\<close> however many
  sources it cites.\<close>

theorem confidence_table:
  assumes "\<And>p es. atlas p es = None"
  shows "(evs = [] \<longrightarrow> score atlas prov evs = (if prov = Known then Medium else Unknown)) \<and>
    (evs \<noteq> [] \<longrightarrow>
       (score atlas prov evs = High \<longleftrightarrow>
          (prov = Verified \<and> 1 \<le> independent_sources evs) \<or> (prov = Observed \<and> 2 \<le> independent_sources evs)) \<and>
       (prov = Hypothesized \<longrightarrow> score atlas prov evs = Low))"
proof (intro conjI impI)
  show "evs = [] \<Longrightarrow> score atlas prov evs = (if prov = Known then Medium else Unknown)"
    by (simp add: score_def)
next
  assume ne: "evs \<noteq> []"
  define n where "n = independent_sources evs"
  define m where "m = min 1 (6/10 + 2/10 * (of_nat n :: rat))"
  have m: "0 \<le> m" "m \<le> 1" by (simp_all add: m_def)
  have m2: "2 \<le> n \<Longrightarrow> m = 1" unfolding m_def by (rule min_sources)
  have sc: "score atlas prov evs = (if prov = Verified \<and> 1 \<le> n then High
      else if 75/100 \<le> PROVENANCE_STRENGTH prov * m \<and> 2 \<le> n then High
      else if 5/10 \<le> PROVENANCE_STRENGTH prov * m then Medium else Low)"
    by (simp only: score_def Let_def assms option.case ne if_False n_def m_def)
  show "score atlas prov evs = High \<longleftrightarrow>
          (prov = Verified \<and> 1 \<le> independent_sources evs) \<or> (prov = Observed \<and> 2 \<le> independent_sources evs)"
    unfolding sc n_def [symmetric] using m2 by (cases prov) (auto simp: PROVENANCE_STRENGTH_def)
  show "prov = Hypothesized \<Longrightarrow> score atlas prov evs = Low"
    unfolding sc using m by (simp add: PROVENANCE_STRENGTH_def)
qed

theorem confidence_table_witness:
  "score (\<lambda>_ _. None) Hypothesized [\<lparr>ev_run_id = ''r'', ev_provenance = Observed, ev_summary = [], ev_id = ''e'',
      ev_source_ref = ''a#1'', ev_observation_id = [], ev_excerpt = [], ev_created = 0\<rparr>] = Low"
  using confidence_table [of "\<lambda>_ _. None"] by simp

end
