(* ===== verification/Data.thy ===== *)
theory Data
  imports Tools_Base
begin

text \<open>
  \<open>sworker/tools/data.py\<close>: reading a number out of a cell, row filters, and the two CSV tools.
  Files come in through a record: the parsed rows of a CSV file, its digest, and the predicates
  of the file system.  A row is a dictionary of strings, as \<open>csv.DictReader\<close> yields it (a short
  row has \<open>None\<close> for the missing columns).  Numbers are rationals: a cell that spells \<open>nan\<close> or an
  infinity, which \<open>float\<close> would read, is outside the model.  Lemmas: filters are conjunctive, groups partition
  the matched rows, and ungrouped sums split over groups.
\<close>

record files =
  f_sys :: fsys
  f_isfile :: "string \<Rightarrow> bool"
  f_size :: "string \<Rightarrow> int"
  f_text :: "string \<Rightarrow> error + string"
  f_csv :: "string \<Rightarrow> error + doc list"
  f_sha :: "string \<Rightarrow> error + string"

section \<open>Numbers\<close>

text \<open>\<open>round(x, n)\<close>: to the nearest multiple, ties to even.\<close>

definition round_even :: "rat \<Rightarrow> int" where
  "round_even r = (let f = \<lfloor>r\<rfloor>; d = r - of_int f in
     if d < 1/2 then f else if 1/2 < d then f + 1 else if even f then f else f + 1)"

definition py_round :: "nat \<Rightarrow> rat \<Rightarrow> rat" where
  "py_round n r = of_int (round_even (r * 10 ^ n)) / 10 ^ n"

text \<open>\<open>_num\<close> on cells that do not spell \<open>nan\<close> or an infinity.\<close>

definition num_cell :: "env \<Rightarrow> pyval option \<Rightarrow> rat option" where
  "num_cell e v = (case v of None \<Rightarrow> None | Some VNone \<Rightarrow> None
     | Some x \<Rightarrow> (let s = filter (\<lambda>c. c \<noteq> CHR '','' \<and> c \<noteq> CHR ''$'') (str_strip (py_str e x)) in
         if s = [] then None else parse_float s))"

definition cell_str :: "env \<Rightarrow> pyval option \<Rightarrow> string" where
  "cell_str e v = (case v of None \<Rightarrow> ''None'' | Some x \<Rightarrow> py_str e x)"

section \<open>Row filters\<close>

definition op_holds :: "env \<Rightarrow> pyval option \<Rightarrow> string \<Rightarrow> pyval \<Rightarrow> bool" where
  "op_holds e v opr target =
     (let n = num_cell e v; t = num_cell e (Some target) in
      if opr = ''>'' then (case (n, t) of (Some a, Some b) \<Rightarrow> a > b | _ \<Rightarrow> False)
      else if opr = ''>='' then (case (n, t) of (Some a, Some b) \<Rightarrow> a \<ge> b | _ \<Rightarrow> False)
      else if opr = ''<'' then (case (n, t) of (Some a, Some b) \<Rightarrow> a < b | _ \<Rightarrow> False)
      else if opr = ''<='' then (case (n, t) of (Some a, Some b) \<Rightarrow> a \<le> b | _ \<Rightarrow> False)
      else if opr = ''!='' then cell_str e v \<noteq> py_str e target
      else if opr = ''=='' then cell_str e v = py_str e target
      else if opr = ''contains'' then
        contains (str_lower (case v of Some x \<Rightarrow> (if truthy x then py_str e x else []) | None \<Rightarrow> []))
          (str_lower (py_str e target))
      else if opr = ''gte_str'' then py_str e target \<le> cell_str e v
      else if opr = ''lte_str'' then cell_str e v \<le> py_str e target
      else True)"

definition cond_holds :: "env \<Rightarrow> pyval option \<Rightarrow> pyval \<Rightarrow> bool" where
  "cond_holds e v cond = (case cond of
       VDict ops \<Rightarrow> list_all (\<lambda>(opr, target). op_holds e v opr target) ops
     | _ \<Rightarrow> cell_str e v = py_str e cond)"

definition row_where :: "env \<Rightarrow> doc \<Rightarrow> doc \<Rightarrow> bool" where
  "row_where e wh row = list_all (\<lambda>(key, cond). cond_holds e (dget row key) cond) wh"

text \<open>The numeric cells of a column in the rows that match.\<close>

definition col_nums :: "env \<Rightarrow> string \<Rightarrow> doc list \<Rightarrow> rat list" where
  "col_nums e col rows = List.map_filter (\<lambda>r. num_cell e (dget r col)) rows"

section \<open>Tools\<close>

definition get_args_dict :: "doc \<Rightarrow> string \<Rightarrow> doc" where
  "get_args_dict args k = (case dget args k of Some (VDict d) \<Rightarrow> d | _ \<Rightarrow> [])"

definition py_take :: "int \<Rightarrow> 'a list \<Rightarrow> 'a list" where
  "py_take n xs = (if 0 \<le> n then take (nat n) xs else take (length xs - nat (- n)) xs)"

definition csv_ref :: "string \<Rightarrow> string \<Rightarrow> pyval" where
  "csv_ref p digest = VStr (p @ ''#sha256:'' @ take 12 digest)"

definition csv_inspect :: "env \<Rightarrow> files \<Rightarrow> tool_context \<Rightarrow> doc \<Rightarrow> error + tool_result" where
  "csv_inspect e fl ctx args =
     bind_sum (resolve (f_sys fl) ctx True (get_str args ''path'')) (\<lambda>p.
     bind_sum (f_csv fl p) (\<lambda>rows.
     bind_sum (f_sha fl p) (\<lambda>digest.
       let cols = (case rows of [] \<Rightarrow> [] | r # _ \<Rightarrow> dkeys r);
           top_rows = py_take (get_int args ''rows'' 5) rows;
           body = path_base p @ '': '' @ int_str (int (length rows)) @ '' rows, columns: '' @ join '', '' cols
                    @ [CHR 0x0A] @ join [CHR 0x0A] (map (\<lambda>r. json_dumps e (VDict r)) top_rows)
       in Inr ((tr_plain True)\<lparr>tr_output := body,
            tr_data := [(''path'', VStr p), (''rows'', VInt (int (length rows))), (''columns'', strs cols),
              (''sha256'', VStr digest), (''head'', VList (map VDict top_rows))],
            tr_evidence := [[(''source_ref'', csv_ref p digest), (''excerpt'', VStr (take 400 body))]]\<rparr>))))"

definition aggregate :: "string \<Rightarrow> rat list \<Rightarrow> rat" where
  "aggregate agg vals =
     (if agg = ''count'' then of_nat (length vals)
      else if vals = [] then 0
      else if agg = ''sum'' then sum_list vals
      else if agg = ''mean'' then sum_list vals / of_nat (length vals)
      else if agg = ''min'' then Min (set vals)
      else Max (set vals))"

definition group_keys :: "env \<Rightarrow> string \<Rightarrow> doc list \<Rightarrow> string list" where
  "group_keys e gcol rows = rev (remdups (rev (map (\<lambda>r. (case dget r gcol of None \<Rightarrow> [] | Some v \<Rightarrow> py_str e v)) rows)))"

definition in_group :: "env \<Rightarrow> string \<Rightarrow> string \<Rightarrow> doc \<Rightarrow> bool" where
  "in_group e gcol k r = ((case dget r gcol of None \<Rightarrow> [] | Some v \<Rightarrow> py_str e v) = k)"

record csv_group =
  gr_key :: string
  gr_value :: rat
  gr_rows :: nat

definition csv_groups :: "env \<Rightarrow> string \<Rightarrow> string \<Rightarrow> string \<Rightarrow> doc list \<Rightarrow> csv_group list" where
  "csv_groups e gcol vcol agg rows =
     map (\<lambda>k. let members = filter (in_group e gcol k) rows in
        \<lparr>gr_key = k, gr_value = py_round 6 (aggregate agg (if vcol = [] then [] else col_nums e vcol members)),
          gr_rows = length members\<rparr>) (group_keys e gcol rows)"

definition sort_groups :: "bool \<Rightarrow> csv_group list \<Rightarrow> csv_group list" where
  "sort_groups desc gs = (if desc then rev (sort_key gr_value (rev gs)) else sort_key gr_value gs)"

definition query_summary :: "env \<Rightarrow> doc \<Rightarrow> string" where
  "query_summary e args =
     (case dget args ''agg'' of Some v \<Rightarrow> py_str e v | None \<Rightarrow> ''sum'') @ ''('' @
     (case dget args ''value_column'' of Some v \<Rightarrow> (if truthy v then py_str e v else ''rows'') | None \<Rightarrow> ''rows'') @
     '') over '' @ path_base (cell_str e (dget args ''path'')) @ '' where='' @
     (case dget args ''where'' of Some v \<Rightarrow> (if truthy v then py_str e v else ''{}'') | None \<Rightarrow> ''{}'')"

definition csv_query :: "env \<Rightarrow> files \<Rightarrow> tool_context \<Rightarrow> doc \<Rightarrow> error + tool_result" where
  "csv_query e fl ctx args =
     bind_sum (resolve (f_sys fl) ctx True (get_str args ''path'')) (\<lambda>p.
     bind_sum (f_csv fl p) (\<lambda>rows.
       let wh = get_args_dict args ''where'';
           agg = (case dget args ''agg'' of Some v \<Rightarrow> val_str v | None \<Rightarrow> ''sum'');
           vcol = get_str args ''value_column''; gcol = get_str args ''group_by'' in
       if rows \<noteq> [] \<and> wh \<noteq> [] \<and> \<not> list_all (\<lambda>k. k \<in> set (dkeys (hd rows))) (dkeys wh) then Inl ToolError
       else if agg \<noteq> ''count'' \<and> vcol = [] then Inl ToolError
       else if vcol \<noteq> [] \<and> rows \<noteq> [] \<and> vcol \<notin> set (dkeys (hd rows)) then Inl ToolError
       else bind_sum (f_sha fl p) (\<lambda>digest.
         let selected = filter (row_where e wh) rows;
             base = [(''path'', VStr p), (''sha256'', VStr digest), (''matched_rows'', VInt (int (length selected))),
               (''total_rows'', VInt (int (length rows))), (''agg'', VStr agg), (''value_column'', VStr vcol)];
             desc = (case dget args ''sort_desc'' of Some v \<Rightarrow> truthy v | None \<Rightarrow> True);
             groups = py_take (get_int args ''limit'' 20) (sort_groups desc (csv_groups e gcol vcol agg selected));
             value = py_round 6 (aggregate agg (if vcol = [] then [] else col_nums e vcol selected));
             body = (if gcol \<noteq> []
               then join [CHR 0x0A] (map (\<lambda>g. gr_key g @ '': '' @ float_repr e (gr_value g) @ '' (''
                      @ int_str (int (gr_rows g)) @ '' rows)'') groups)
               else agg @ ''('' @ (if vcol = [] then ''rows'' else vcol) @ '') = '' @ float_repr e value @ '' over ''
                      @ int_str (int (length selected)) @ ''/'' @ int_str (int (length rows)) @ '' rows'');
             data = (if gcol \<noteq> []
               then base @ [(''group_by'', VStr gcol), (''groups'', VList (map (\<lambda>g. VDict [(''key'', VStr (gr_key g)),
                      (''value'', VFloat (gr_value g)), (''rows'', VInt (int (gr_rows g)))]) groups))]
               else base @ [(''value'', VFloat value)])
         in Inr ((tr_plain True)\<lparr>tr_output := body, tr_data := data,
              tr_evidence := [[(''source_ref'', csv_ref p digest),
                (''excerpt'', VStr (query_summary e args @ '' -> '' @ take 300 body))]]\<rparr>))))"

section \<open>Lemmas\<close>

lemma row_where_append: "row_where e (w1 @ w2) r \<longleftrightarrow> row_where e w1 r \<and> row_where e w2 r"
  by (simp add: row_where_def)

lemma row_where_Nil [simp]: "row_where e [] r"
  by (simp add: row_where_def)

lemma group_keys_distinct: "distinct (group_keys e gcol rows)"
  by (simp add: group_keys_def)

lemma set_group_keys: "set (group_keys e gcol rows) = (\<lambda>r. case dget r gcol of None \<Rightarrow> [] | Some v \<Rightarrow> py_str e v) ` set rows"
  by (simp add: group_keys_def)

lemma col_nums_append [simp]: "col_nums e c (xs @ ys) = col_nums e c xs @ col_nums e c ys"
  by (simp add: col_nums_def List.map_filter_def)

lemma col_nums_Cons: "col_nums e c (r # rs) =
   (case num_cell e (dget r c) of None \<Rightarrow> col_nums e c rs | Some x \<Rightarrow> x # col_nums e c rs)"
  by (simp add: col_nums_def List.map_filter_def split: option.split)

text \<open>Splitting rows by the value of a key function splits a column sum.\<close>

lemma sum_by_key:
  assumes "distinct ks" and "f ` set rows \<subseteq> set ks"
  shows "(\<Sum>k\<leftarrow>ks. sum_list (col_nums e c (filter (\<lambda>r. f r = k) rows))) = sum_list (col_nums e c rows)"
  using assms(2)
proof (induction rows)
  case Nil
  then show ?case by (simp add: col_nums_def List.map_filter_def)
next
  case (Cons r rows)
  define x where "x = (case num_cell e (dget r c) of None \<Rightarrow> 0 | Some x \<Rightarrow> x)"
  have one: "sum_list (col_nums e c (filter (\<lambda>r. f r = k) (r # rows))) =
      (if f r = k then x else 0) + sum_list (col_nums e c (filter (\<lambda>r. f r = k) rows))" for k
    by (simp add: col_nums_Cons x_def split: option.split)
  have "(\<Sum>k\<leftarrow>ks. if f r = k then x else 0) = x"
    using assms(1) Cons.prems by (simp add: sum_list_distinct_conv_sum_set)
  then have "(\<Sum>k\<leftarrow>ks. sum_list (col_nums e c (filter (\<lambda>r. f r = k) (r # rows)))) = x + sum_list (col_nums e c rows)"
    unfolding one sum_list_addf using Cons by simp
  then show ?case by (simp add: col_nums_Cons x_def split: option.split)
qed

lemma count_by_key:
  assumes "distinct ks" and "f ` set rows \<subseteq> set ks"
  shows "(\<Sum>k\<leftarrow>ks. length (filter (\<lambda>r. f r = k) rows)) = length rows"
  using assms(2)
proof (induction rows)
  case (Cons r rows)
  have one: "length (filter (\<lambda>r. f r = k) (r # rows)) = (if f r = k then 1 else 0) + length (filter (\<lambda>r. f r = k) rows)" for k
    by simp
  have "(\<Sum>k\<leftarrow>ks. if f r = k then 1 else 0) = (1 :: nat)"
    using assms(1) Cons.prems by (simp add: sum_list_distinct_conv_sum_set)
  then show ?case unfolding one sum_list_addf using Cons by simp
qed simp

section \<open>Properties\<close>

text \<open>grouping loses nothing.  The groups of a query have distinct keys, their row counts
  add up to the number of matched rows, and, before rounding, the sums of the value column
  over the groups add up to its sum over all matched rows.\<close>

theorem groups_partition:
  "distinct (map gr_key (csv_groups e gcol vcol agg rows)) \<and>
   (\<Sum>g\<leftarrow>csv_groups e gcol vcol agg rows. gr_rows g) = length rows \<and>
   (\<Sum>k\<leftarrow>map gr_key (csv_groups e gcol vcol agg rows). sum_list (col_nums e vcol (filter (in_group e gcol k) rows)))
     = sum_list (col_nums e vcol rows)"
proof -
  let ?f = "\<lambda>r. case dget r gcol of None \<Rightarrow> [] | Some v \<Rightarrow> py_str e v"
  have keys: "map gr_key (csv_groups e gcol vcol agg rows) = group_keys e gcol rows"
    by (simp add: csv_groups_def Let_def o_def)
  have cnt: "map gr_rows (csv_groups e gcol vcol agg rows) = map (\<lambda>k. length (filter (in_group e gcol k) rows)) (group_keys e gcol rows)"
    by (simp add: csv_groups_def Let_def o_def)
  have grp: "in_group e gcol k = (\<lambda>r. ?f r = k)" for k
    by (simp add: in_group_def fun_eq_iff)
  have sub: "?f ` set rows \<subseteq> set (group_keys e gcol rows)" by (simp add: set_group_keys)
  show ?thesis
    unfolding keys cnt grp
    using sum_by_key [OF group_keys_distinct sub] count_by_key [OF group_keys_distinct sub]
    by (simp add: group_keys_distinct)
qed

text \<open>counting rows without naming a column counts nothing.  A query with
  \<open>agg = "count"\<close>, which may leave \<open>value_column\<close> out, always answers 0, however many rows
  match, because the count is taken over the (absent) column values.\<close>

theorem count_without_column_is_zero:
  assumes "csv_query e fl ctx args = Inr r" and "dget args ''agg'' = Some (VStr ''count'')"
    and "get_str args ''value_column'' = []"
  shows "(get_str args ''group_by'' = [] \<longrightarrow> dget (tr_data r) ''value'' = Some (VFloat 0)) \<and>
     (\<forall>rows. list_all (\<lambda>g. gr_value g = 0) (csv_groups e gcol [] ''count'' rows))"
proof
  show "\<forall>rows. list_all (\<lambda>g. gr_value g = 0) (csv_groups e gcol [] ''count'' rows)"
    by (simp add: csv_groups_def Let_def list_all_iff aggregate_def py_round_def round_even_def)
  show "get_str args ''group_by'' = [] \<longrightarrow> dget (tr_data r) ''value'' = Some (VFloat 0)"
    using assms
    by (auto simp: csv_query_def Let_def aggregate_def py_round_def round_even_def split: if_splits elim!: bind_sumE)
qed

definition demo_files :: files where
  "demo_files = \<lparr>f_sys = demo_fs, f_isfile = (\<lambda>_. True), f_size = (\<lambda>_. 10), f_text = (\<lambda>_. Inr ''Total: 30.00''),
     f_csv = (\<lambda>_. Inr [[(''region'', VStr ''N''), (''revenue'', VStr ''10'')], [(''region'', VStr ''S''), (''revenue'', VStr ''$20'')]]),
     f_sha = (\<lambda>_. Inr ''abc'')\<rparr>"

theorem count_without_column_is_zero_witness:
  "\<exists>r. csv_query demo_env demo_files demo_ctx [(''path'', VStr ''s.csv''), (''agg'', VStr ''count'')] = Inr r \<and>
     dget (tr_data r) ''matched_rows'' = Some (VInt 2) \<and> dget (tr_data r) ''value'' = Some (VFloat 0)"
proof -
  let ?args = "[(''path'', VStr ''s.csv''), (''agg'', VStr ''count'')]"
  have p: "resolve demo_fs demo_ctx True ''s.csv'' = Inr ''/ws/s.csv''" by code_simp
  obtain r where r: "csv_query demo_env demo_files demo_ctx ?args = Inr r" "dget (tr_data r) ''matched_rows'' = Some (VInt 2)"
    using p by (simp add: csv_query_def get_str_def get_args_dict_def demo_files_def Let_def)
  from count_without_column_is_zero [OF r(1)] r show ?thesis by (simp add: get_str_def)
qed

end
