(* ===== verification/Verify.thy ===== *)
theory Verify
  imports Data
begin

text \<open>
  \<open>sworker/verify.py\<close>: the deterministic checks that re-derive a claim from its source, and
  \<open>run_check\<close>, which turns an unknown check and every exception into \<open>UNVERIFIABLE\<close>.
  Files are those of \<open>Data\<close>; \<open>re\<close> for declared patterns and the text of exceptions are
  parameters.  A long dash in a message is written as a hyphen.  Lemmas: which outcome each
  check gives, in terms of the source rows.
\<close>

record check_world =
  cw_files :: files
  cw_find :: "string \<Rightarrow> string \<Rightarrow> error + nat"   \<comment> \<open>number of matches of a multi-line pattern, or a compile error\<close>
  cw_exc :: "error \<Rightarrow> string"

record check_result =
  cr_check :: string
  cr_status :: verification_outcome
  cr_detail :: string
  cr_expected :: pyval
  cr_actual :: pyval
  cr_source_ref :: string

definition check_out :: "string \<Rightarrow> verification_outcome \<Rightarrow> string \<Rightarrow> pyval \<Rightarrow> pyval \<Rightarrow> string \<Rightarrow> check_result" where
  "check_out c st det ex ac ref = \<lparr>cr_check = c, cr_status = st, cr_detail = det, cr_expected = ex,
     cr_actual = ac, cr_source_ref = ref\<rparr>"

definition passed :: "check_result \<Rightarrow> bool" where
  "passed r = (cr_status r = Pass)"

section \<open>Reading the specification\<close>

definition need :: "doc \<Rightarrow> string \<Rightarrow> error + pyval" where
  "need spec k = (case dget spec k of None \<Rightarrow> Inl KeyError | Some v \<Rightarrow> Inr v)"

definition need_str :: "doc \<Rightarrow> string \<Rightarrow> error + string" where
  "need_str spec k = bind_sum (need spec k) (\<lambda>v. case v of VStr s \<Rightarrow> Inr s | _ \<Rightarrow> Inl TypeError)"

definition sub_dict :: "doc \<Rightarrow> string \<Rightarrow> doc" where
  "sub_dict spec k = (case dget spec k of Some (VDict d) \<Rightarrow> d | _ \<Rightarrow> [])"

definition sub_list :: "doc \<Rightarrow> string \<Rightarrow> pyval list" where
  "sub_list spec k = (case dget spec k of Some (VList xs) \<Rightarrow> xs | _ \<Rightarrow> [])"

definition check_path :: "check_world \<Rightarrow> string \<Rightarrow> string \<Rightarrow> error + string" where
  "check_path w workspace path =
     (let fs = f_sys (cw_files w);
          p = realpath fs (path_join workspace (expanduser fs path)); rt = realpath fs workspace
      in if p = rt \<or> starts_with p (rt @ ''/'') then Inr p else Inl ValueError)"

definition spec_path :: "check_world \<Rightarrow> string \<Rightarrow> doc \<Rightarrow> string \<Rightarrow> error + string" where
  "spec_path w workspace spec k = bind_sum (need_str spec k) (check_path w workspace)"

definition flt :: "env \<Rightarrow> rat \<Rightarrow> string" where
  "flt e r = float_repr e r"

definition sha_ref :: "check_world \<Rightarrow> string \<Rightarrow> error + string" where
  "sha_ref w p = bind_sum (f_sha (cw_files w) p) (\<lambda>h. Inr (p @ ''#sha256:'' @ take 12 h))"

text \<open>The re-derivation the numeric checks share: the numeric cells of the matching rows.  A filter
  that is not a mapping raises as soon as a row is tested.  The structural checks' optional
  lists and tables are taken at their documented types.\<close>

definition where_rows :: "env \<Rightarrow> doc \<Rightarrow> string \<Rightarrow> doc list \<Rightarrow> error + doc list" where
  "where_rows e spec k rows = (if rows = [] then Inr []
     else case get_or spec k (VDict []) of VDict wh \<Rightarrow> Inr (filter (row_where e wh) rows) | _ \<Rightarrow> Inl AttributeError)"

definition source_nums :: "env \<Rightarrow> doc \<Rightarrow> string \<Rightarrow> string \<Rightarrow> doc list \<Rightarrow> error + rat list" where
  "source_nums e spec k col rows = bind_sum (where_rows e spec k rows) (\<lambda>ms. Inr (col_nums e col ms))"

definition close_to :: "rat \<Rightarrow> rat \<Rightarrow> rat \<Rightarrow> bool" where
  "close_to a b tol = (\<bar>a - b\<bar> \<le> tol)"

definition float_dflt :: "doc \<Rightarrow> string \<Rightarrow> rat \<Rightarrow> error + rat" where
  "float_dflt spec k dflt = (case dget spec k of None \<Rightarrow> Inr dflt | Some v \<Rightarrow> py_float v)"

section \<open>Numeric checks\<close>

definition recompute_sum :: "env \<Rightarrow> check_world \<Rightarrow> doc \<Rightarrow> string \<Rightarrow> error + check_result" where
  "recompute_sum e w spec workspace =
     bind_sum (spec_path w workspace spec ''path'') (\<lambda>path.
     bind_sum (f_csv (cw_files w) path) (\<lambda>rows.
     bind_sum (need_str spec ''value_column'') (\<lambda>col.
     bind_sum (source_nums e spec ''where'' col rows) (\<lambda>vals.
       let actual = py_round 6 (sum_list vals) in
     bind_sum (float_dflt spec ''tolerance'' (1/100)) (\<lambda>tol.
     bind_sum (sha_ref w path) (\<lambda>ref.
       case num_cell e (dget spec ''expect'') of
         None \<Rightarrow> Inr (check_out ''recompute_sum'' Unverifiable
           (''recomputed '' @ col @ '' = '' @ flt e actual @ '' over '' @ int_str (int (length vals))
              @ '' rows, but no expected value given'') VNone (VFloat actual) ref)
       | Some expect \<Rightarrow>
          (let ok = close_to actual expect (max tol (\<bar>expect\<bar> / 1000)) in
           Inr (check_out ''recompute_sum'' (if ok then Pass else Fail)
             (''independently summed '' @ col @ '' over '' @ int_str (int (length vals)) @ '' rows of ''
                @ path_base path @ '': '' @ flt e actual @ '' vs claimed '' @ flt e expect
                @ (if ok then [] else '' - MISMATCH (tolerance '' @ flt e tol @ '')''))
             (VFloat expect) (VFloat actual) ref))))))))"

definition recompute_delta :: "env \<Rightarrow> check_world \<Rightarrow> doc \<Rightarrow> string \<Rightarrow> error + check_result" where
  "recompute_delta e w spec workspace =
     bind_sum (spec_path w workspace spec ''path'') (\<lambda>path.
     bind_sum (f_csv (cw_files w) path) (\<lambda>rows.
     bind_sum (need_str spec ''value_column'') (\<lambda>col.
     bind_sum (source_nums e spec ''current'' col rows) (\<lambda>cur_vals.
     bind_sum (source_nums e spec ''previous'' col rows) (\<lambda>prev_vals.
       let cur = py_round 6 (sum_list cur_vals); prev = py_round 6 (sum_list prev_vals) in
       if prev = 0 then Inr (check_out ''recompute_delta_pct'' Unverifiable
           (''previous period total is 0; percentage change undefined (current='' @ flt e cur @ '')'')
           VNone (VFloat cur) path)
       else let actual = py_round 4 ((cur - prev) / prev * 100) in
         case num_cell e (dget spec ''expect'') of
           None \<Rightarrow> Inr (check_out ''recompute_delta_pct'' Unverifiable
             (''recomputed change = '' @ flt e actual @ ''% (current '' @ flt e cur @ '' vs previous '' @ flt e prev @ '')'')
             VNone (VFloat actual) path)
         | Some expect \<Rightarrow>
             bind_sum (float_dflt spec ''tolerance'' (1/2)) (\<lambda>tol.
             bind_sum (sha_ref w path) (\<lambda>ref.
               let ok = close_to actual expect tol in
               Inr (check_out ''recompute_delta_pct'' (if ok then Pass else Fail)
                 (''recomputed '' @ col @ '' change: '' @ flt e actual @ ''% (current '' @ flt e cur @ '' vs previous ''
                    @ flt e prev @ ''); claimed '' @ flt e expect @ ''%''
                    @ (if ok then [] else '' - MISMATCH (tolerance '' @ flt e tol @ ''pp)''))
                 (VFloat expect) (VFloat actual) ref))))))))"

definition trunc_rat :: "rat \<Rightarrow> int" where
  "trunc_rat r = (if 0 \<le> r then \<lfloor>r\<rfloor> else \<lceil>r\<rceil>)"

definition row_count :: "env \<Rightarrow> check_world \<Rightarrow> doc \<Rightarrow> string \<Rightarrow> error + check_result" where
  "row_count e w spec workspace =
     bind_sum (spec_path w workspace spec ''path'') (\<lambda>path.
     bind_sum (f_csv (cw_files w) path) (\<lambda>rows.
     bind_sum (where_rows e spec ''where'' rows) (\<lambda>ms.
       let n = length ms in
       case num_cell e (dget spec ''expect'') of
         None \<Rightarrow> Inr (check_out ''row_count'' Unverifiable (int_str (int n) @ '' rows matched'') VNone (VFloat (of_nat n)) path)
       | Some expect \<Rightarrow> Inr (check_out ''row_count'' (if of_nat n = expect then Pass else Fail)
           (int_str (int n) @ '' rows matched, expected '' @ int_str (trunc_rat expect))
           (VFloat expect) (VFloat (of_nat n)) path))))"

section \<open>File and citation checks\<close>

definition file_exists_check :: "check_world \<Rightarrow> doc \<Rightarrow> string \<Rightarrow> error + check_result" where
  "file_exists_check w spec workspace =
     bind_sum (spec_path w workspace spec ''path'') (\<lambda>path.
       let ok = f_isfile (cw_files w) path; size = (if ok then f_size (cw_files w) path else 0) in
     bind_sum (case dget spec ''min_bytes'' of None \<Rightarrow> Inr 1 | Some v \<Rightarrow> py_int v) (\<lambda>min_bytes.
       let good = (ok \<and> min_bytes \<le> size) in
       Inr (check_out ''file_exists'' (if good then Pass else Fail)
         ((if ok then path_base path @ '' exists ('' @ int_str size @ '' bytes)''
           else get_str spec ''path'' @ '' does not exist'')
          @ (if good then [] else '' - required at least '' @ int_str min_bytes @ '' bytes''))
         (VFloat (of_int min_bytes)) (VFloat (of_int size)) path)))"

definition default_markers :: "pyval list" where
  "default_markers = [VStr ''Evidence:'', VStr ''evidence'']"

definition contains_evidence :: "check_world \<Rightarrow> doc \<Rightarrow> string \<Rightarrow> error + check_result" where
  "contains_evidence w spec workspace =
     bind_sum (spec_path w workspace spec ''path'') (\<lambda>path.
       if \<not> f_isfile (cw_files w) path
       then Inr (check_out ''artifact_contains_evidence'' Fail
              (''artifact '' @ get_str spec ''path'' @ '' does not exist'') VNone VNone path)
       else bind_sum (f_text (cw_files w) path) (\<lambda>text.
         let ms = sub_list spec ''markers''; markers = map val_str (if ms = [] then default_markers else ms);
             found = length (filter (\<lambda>m. contains (str_lower text) (str_lower m)) markers) in
         bind_sum (case dget spec ''min_mentions'' of None \<Rightarrow> Inr 1 | Some v \<Rightarrow> py_int v) (\<lambda>minimum.
           Inr (check_out ''artifact_contains_evidence'' (if minimum \<le> int found then Pass else Fail)
             (path_base path @ '' references evidence ('' @ int_str (int found) @ ''/''
                @ int_str (int (length markers)) @ '' markers found, need '' @ int_str minimum @ '')'')
             (VFloat (of_int minimum)) (VFloat (of_nat found)) path))))"

text \<open>\<open>f"{x:.2f}"\<close>, \<open>f"{x:,.2f}"\<close> and \<open>f"{int(x):,}"\<close>.\<close>

fun group3 :: "string \<Rightarrow> string" where
  "group3 (a # b # c # d # rest) = a # b # c # CHR '','' # group3 (d # rest)"
| "group3 ds = ds"

definition thousands :: "string \<Rightarrow> string" where
  "thousands ds = rev (group3 (rev ds))"

definition fixed2 :: "bool \<Rightarrow> rat \<Rightarrow> string" where
  "fixed2 commas r =
     (let m = round_even (\<bar>r\<bar> * 100); whole = nat_str (nat (m div 100)); cents = nat (m mod 100)
      in (if r < 0 then ''-'' else []) @ (if commas then thousands whole else whole) @ ''.''
           @ (if cents < 10 then CHR ''0'' # nat_str cents else nat_str cents))"

definition int_commas :: "rat \<Rightarrow> string" where
  "int_commas r = (let i = trunc_rat r in (if i < 0 then ''-'' else []) @ thousands (nat_str (nat \<bar>i\<bar>)))"

definition cites_figure :: "rat \<Rightarrow> string \<Rightarrow> bool" where
  "cites_figure r text = (contains text (fixed2 True r) \<or> contains text (fixed2 False r) \<or> contains text (int_commas r))"

definition provenance_chain :: "env \<Rightarrow> check_world \<Rightarrow> doc \<Rightarrow> string \<Rightarrow> error + check_result" where
  "provenance_chain e w spec workspace =
     bind_sum (spec_path w workspace spec ''path'') (\<lambda>path.
     bind_sum (f_csv (cw_files w) path) (\<lambda>rows.
     bind_sum (need_str spec ''value_column'') (\<lambda>col.
     bind_sum (source_nums e spec ''where'' col rows) (\<lambda>vals.
       let actual = py_round 6 (sum_list vals) in
       case num_cell e (dget spec ''expect'') of
         None \<Rightarrow> bind_sum (sha_ref w path) (\<lambda>ref. Inr (check_out ''provenance_chain'' Unverifiable
            (''recomputed '' @ col @ '' = '' @ flt e actual @ ''; no expected value to chain'') VNone (VFloat actual) ref))
       | Some expect \<Rightarrow>
          (let derive_ok = close_to actual expect (max (1/100) (\<bar>expect\<bar> / 1000));
               derive_detail = ''source re-sum of '' @ col @ '' = '' @ flt e actual
                 @ (if derive_ok then '' matches claimed '' else '' MISMATCHES claimed '') @ flt e expect in
           bind_sum
             (if \<not> get_truthy spec ''artifact'' then Inr (True, ''no artifact claimed (source-only check)'')
              else bind_sum (spec_path w workspace spec ''artifact'') (\<lambda>rp.
                if \<not> f_isfile (cw_files w) rp
                then Inr (False, ''artifact '' @ get_str spec ''artifact'' @ '' not found - cannot confirm citation'')
                else bind_sum (f_text (cw_files w) rp) (\<lambda>text.
                  Inr (if cites_figure actual text then (True, ''artifact cites the derived figure'')
                       else (False, ''artifact DOES NOT cite the derived figure '' @ flt e actual)))))
             (\<lambda>(cite_ok, cite_detail). bind_sum (sha_ref w path) (\<lambda>ref.
               Inr (check_out ''provenance_chain'' (if derive_ok \<and> cite_ok then Pass else Fail)
                 (derive_detail @ ''; '' @ cite_detail) (VFloat expect) (VFloat actual) ref))))))))"

definition totals_match_source :: "env \<Rightarrow> check_world \<Rightarrow> doc \<Rightarrow> string \<Rightarrow> error + check_result" where
  "totals_match_source e w spec workspace =
     bind_sum (spec_path w workspace spec ''path'') (\<lambda>src.
     bind_sum (f_csv (cw_files w) src) (\<lambda>rows.
     bind_sum (need_str spec ''value_column'') (\<lambda>col.
     bind_sum (source_nums e spec ''where'' col rows) (\<lambda>vals.
       let actual = py_round 2 (sum_list vals) in
     bind_sum (spec_path w workspace spec ''artifact'') (\<lambda>report.
       if \<not> f_isfile (cw_files w) report
       then Inr (check_out ''totals_match_source'' Fail
              (''artifact '' @ get_str spec ''artifact'' @ '' not found; cannot compare totals'') VNone (VFloat actual) src)
       else bind_sum (f_text (cw_files w) report) (\<lambda>text.
            bind_sum (sha_ref w src) (\<lambda>ref.
              let ok = cites_figure actual text in
              Inr (check_out ''totals_match_source'' (if ok then Pass else Fail)
                (''source total for '' @ col @ '' is '' @ flt e actual @ ''; artifact ''
                   @ (if ok then ''cites'' else ''DOES NOT cite'') @ '' that figure'')
                (VFloat actual) (if ok then VFloat actual else VNone) ref))))))))"

section \<open>Structural checks\<close>

definition blank_cell :: "env \<Rightarrow> pyval option \<Rightarrow> bool" where
  "blank_cell e v = (case v of None \<Rightarrow> True | Some VNone \<Rightarrow> True | Some x \<Rightarrow> str_strip (py_str e x) = [])"

fun index_of :: "doc list \<Rightarrow> doc \<Rightarrow> nat" where
  "index_of [] r = 0"
| "index_of (x # xs) r = (if x = r then 0 else Suc (index_of xs r))"

definition null_violation :: "env \<Rightarrow> string list \<Rightarrow> string list \<Rightarrow> doc list \<Rightarrow> doc \<Rightarrow> string list" where
  "null_violation e cols null_reqs rows r =
     (case find (\<lambda>c. c \<in> set cols \<and> blank_cell e (dget r c)) null_reqs of
        None \<Rightarrow> []
      | Some c \<Rightarrow> [c @ '' empty in row '' @ int_str (int (index_of rows r) + 2)])"

definition type_violation :: "env \<Rightarrow> string list \<Rightarrow> doc \<Rightarrow> string \<times> pyval \<Rightarrow> string list" where
  "type_violation e cols r ct =
     (let c = fst ct; t = val_str (snd ct); v = dget r c;
          shown = c @ ''='' @ (case v of Some x \<Rightarrow> py_repr e x | None \<Rightarrow> ''None'') in
      if c \<notin> set cols \<or> blank_cell e v then []
      else if t = ''number'' \<and> num_cell e v = None then [shown @ '' not a number'']
      else if t = ''int'' then
        (case num_cell e v of None \<Rightarrow> [shown @ '' not an int'']
         | Some n \<Rightarrow> (if n \<noteq> of_int (trunc_rat n) then [shown @ '' not an integer''] else []))
      else if t = ''bool'' \<and> str_lower (str_strip (cell_str e v)) \<notin>
              {''true'', ''false'', ''0'', ''1'', ''yes'', ''no''} then [shown @ '' not a bool'']
      else [])"

definition row_violations :: "env \<Rightarrow> string list \<Rightarrow> string list \<Rightarrow> doc \<Rightarrow> doc list \<Rightarrow> doc \<Rightarrow> string list" where
  "row_violations e cols null_reqs type_reqs rows r =
     null_violation e cols null_reqs rows r @ concat (map (type_violation e cols r) type_reqs)"

definition str_vals :: "pyval list \<Rightarrow> string list" where
  "str_vals xs = map val_str xs"

definition schema_check :: "env \<Rightarrow> check_world \<Rightarrow> doc \<Rightarrow> string \<Rightarrow> error + check_result" where
  "schema_check e w spec workspace =
     bind_sum (spec_path w workspace spec ''path'') (\<lambda>src.
       if \<not> f_isfile (cw_files w) src
       then Inr (check_out ''schema'' Unverifiable (''source '' @ get_str spec ''path'' @ '' not found - cannot verify schema'')
              VNone VNone src)
       else bind_sum (f_csv (cw_files w) src) (\<lambda>rows.
         case rows of [] \<Rightarrow> Inr (check_out ''schema'' Fail (path_base src @ '' has no header row'') VNone VNone src)
         | r0 # _ \<Rightarrow>
           (let cols = dkeys r0; required = str_vals (sub_list spec ''required_columns'');
                missing = filter (\<lambda>c. c \<notin> set cols) required;
                type_reqs = sub_dict spec ''column_types''; null_reqs = str_vals (sub_list spec ''non_null'') in
            if missing \<noteq> []
            then Inr (check_out ''schema'' Fail (path_base src @ '' missing required columns '' @ py_repr e (strs missing)
                   @ ''; have '' @ py_repr e (strs cols)) (strs (sort required)) (strs cols) src)
            else let bad = concat (map (row_violations e cols null_reqs type_reqs rows) rows) in
              if bad \<noteq> []
              then Inr (check_out ''schema'' Fail (path_base src @ '': '' @ int_str (int (length bad)) @ '' row violation(s): ''
                     @ py_repr e (strs (take 3 bad))) (strs (sort required)) (strs cols) src)
              else Inr (check_out ''schema'' Pass (path_base src @ '' has required columns '' @ py_repr e (strs (sort required))
                     @ '' over '' @ int_str (int (length rows)) @ '' rows''
                     @ (if type_reqs = [] then [] else ''; types '' @ py_repr e (VDict type_reqs))
                     @ (if null_reqs = [] then [] else ''; non-null '' @ py_repr e (strs null_reqs)))
                     (strs (sort required)) (strs cols) src))))"

definition distinct_cells :: "env \<Rightarrow> string \<Rightarrow> doc list \<Rightarrow> string list" where
  "distinct_cells e col rows =
     (let cell = (\<lambda>r. case dget r col of None \<Rightarrow> [] | Some v \<Rightarrow> py_str e v)
      in sort (remdups (filter (\<lambda>x. str_strip x \<noteq> []) (map cell rows))))"

definition set_equality :: "env \<Rightarrow> check_world \<Rightarrow> doc \<Rightarrow> string \<Rightarrow> error + check_result" where
  "set_equality e w spec workspace =
     bind_sum (spec_path w workspace spec ''path'') (\<lambda>src.
       if \<not> f_isfile (cw_files w) src
       then Inr (check_out ''set_equality'' Unverifiable (''source '' @ get_str spec ''path'' @ '' not found'') VNone VNone src)
       else bind_sum (f_csv (cw_files w) src) (\<lambda>rows.
            bind_sum (need_str spec ''value_column'') (\<lambda>col.
              if rows \<noteq> [] \<and> col \<notin> set (dkeys (hd rows))
              then Inr (check_out ''set_equality'' Fail (''column '' @ repr_str col @ '' not present in '' @ path_base src) VNone VNone src)
              else let actual = distinct_cells e col rows; expected = sort (map (py_str e) (sub_list spec ''expected''));
                       shown = ''distinct '' @ col @ '' = '' @ py_repr e (strs actual) in
                if expected = []
                then Inr (check_out ''set_equality'' Unverifiable (shown @ ''; no expected set given'') VNone (strs actual) src)
                else let ok = (actual = expected) in
                  Inr (check_out ''set_equality'' (if ok then Pass else Fail)
                    (shown @ (if ok then '' matches expected '' else '' MISMATCHES expected '') @ py_repr e (strs expected))
                    (strs expected) (strs actual) src))))"

definition regex_check :: "env \<Rightarrow> check_world \<Rightarrow> doc \<Rightarrow> string \<Rightarrow> error + check_result" where
  "regex_check e w spec workspace =
     bind_sum (spec_path w workspace spec ''path'') (\<lambda>path.
       if \<not> f_isfile (cw_files w) path
       then Inr (check_out ''regex'' Unverifiable (get_str spec ''path'' @ '' not found'') VNone VNone path)
       else bind_sum (f_text (cw_files w) path) (\<lambda>text.
            bind_sum (need_str spec ''pattern'') (\<lambda>pattern.
              case cw_find w pattern text of
                Inl err \<Rightarrow> Inr (check_out ''regex'' Unverifiable
                   (''invalid regex '' @ repr_str pattern @ '': '' @ cw_exc w err) VNone VNone path)
              | Inr n \<Rightarrow>
                 (let present = (n \<noteq> 0);
                      want = (case dget spec ''present'' of Some v \<Rightarrow> truthy v | None \<Rightarrow> True);
                      ok = (present = want); word = (if want then ''presence'' else ''absence'') in
                  Inr (check_out ''regex'' (if ok then Pass else Fail)
                    (''regex '' @ repr_str pattern @ '' '' @ (if present then ''found'' else ''NOT found'') @ '' in ''
                       @ path_base path
                       @ (if present then '' ('' @ int_str (int n) @ '' match(es))'' else [])
                       @ (if ok then ''; expected '' @ word else '' - MISMATCH (wanted '' @ word @ '')''))
                    (VStr pattern) (VBool present) path)))))"

text \<open>The body of a headed section: the lines after the heading up to the next heading of the
  same or a higher level with another text.\<close>

definition hash_level :: "string \<Rightarrow> nat" where
  "hash_level s = length (takeWhile (\<lambda>c. c = CHR ''#'') s)"

fun section_body :: "string \<Rightarrow> bool \<Rightarrow> string list \<Rightarrow> string list option" where
  "section_body heading inside [] = (if inside then Some [] else None)"
| "section_body heading inside (l # ls) =
     (if inside then
        (if starts_with l ''#'' \<and> hash_level l \<le> hash_level heading \<and> str_strip l \<noteq> str_strip heading
         then Some [] else map_option (\<lambda>b. l # b) (section_body heading True ls))
      else section_body heading (str_strip l = str_strip heading) ls)"

text \<open>\<open>str.splitlines()\<close> on Latin-1 text.\<close>

definition line_break :: "char \<Rightarrow> bool" where
  "line_break c = (let n = (of_char c :: nat) in (10 \<le> n \<and> n \<le> 13) \<or> (28 \<le> n \<and> n \<le> 30) \<or> n = 133)"

fun split_lines_acc :: "string \<Rightarrow> string \<Rightarrow> string list" where
  "split_lines_acc acc [] = (if acc = [] then [] else [rev acc])"
| "split_lines_acc acc (c # cs) =
     (if c = CHR 0x0D \<and> cs \<noteq> [] \<and> hd cs = CHR 0x0A then rev acc # split_lines_acc [] (tl cs)
      else if line_break c then rev acc # split_lines_acc [] cs
      else split_lines_acc (c # acc) cs)"

definition split_lines :: "string \<Rightarrow> string list" where
  "split_lines s = split_lines_acc [] s"

definition doc_section :: "env \<Rightarrow> check_world \<Rightarrow> doc \<Rightarrow> string \<Rightarrow> error + check_result" where
  "doc_section e w spec workspace =
     bind_sum (spec_path w workspace spec ''path'') (\<lambda>path.
       if \<not> f_isfile (cw_files w) path
       then Inr (check_out ''doc_section'' Unverifiable (get_str spec ''path'' @ '' not found'') VNone VNone path)
       else bind_sum (f_text (cw_files w) path) (\<lambda>text.
         let heading = get_str spec ''heading'';
             needle = (case dget spec ''contains'' of Some (VStr s) \<Rightarrow> Some s | _ \<Rightarrow> None) in
         if heading \<noteq> [] then
           (case section_body heading False (split_lines text) of
              None \<Rightarrow> Inr (check_out ''doc_section'' Fail
                (''heading '' @ repr_str heading @ '' not found in '' @ path_base path) VNone VNone path)
            | Some body \<Rightarrow>
               (let sect = str_strip (join [CHR 0x0A] body) in
                case needle of
                  None \<Rightarrow> Inr (check_out ''doc_section'' Pass
                    (''section '' @ repr_str heading @ '' present ('' @ int_str (int (length sect)) @ '' chars)'') VNone VNone path)
                | Some nd \<Rightarrow> (let ok = contains sect nd in
                    Inr (check_out ''doc_section'' (if ok then Pass else Fail)
                      (''section '' @ repr_str heading @ '' '' @ (if ok then ''contains'' else ''DOES NOT contain'')
                         @ '' '' @ repr_str nd) (VStr nd) (VBool ok) path))))
         else case needle of
             None \<Rightarrow> Inr (check_out ''doc_section'' Unverifiable (''doc_section needs '' @ repr_str ''heading''
                @ '' or '' @ repr_str ''contains'') VNone VNone path)
           | Some nd \<Rightarrow> (let ok = contains text nd in
               Inr (check_out ''doc_section'' (if ok then Pass else Fail)
                 (path_base path @ '' '' @ (if ok then ''contains'' else ''DOES NOT contain'') @ '' '' @ repr_str nd)
                 (VStr nd) (VBool ok) path))))"

section \<open>Dispatch\<close>

definition CHECKS :: "(string \<times> (env \<Rightarrow> check_world \<Rightarrow> doc \<Rightarrow> string \<Rightarrow> error + check_result)) list" where
  "CHECKS = [(''recompute_sum'', recompute_sum), (''recompute_delta_pct'', recompute_delta), (''row_count'', row_count),
     (''file_exists'', \<lambda>e. file_exists_check), (''artifact_contains_evidence'', \<lambda>e. contains_evidence),
     (''provenance_chain'', provenance_chain), (''totals_match_source'', totals_match_source),
     (''schema'', schema_check), (''set_equality'', set_equality), (''regex'', regex_check),
     (''doc_section'', doc_section)]"

definition available_checks :: "string list" where
  "available_checks = sort (dkeys CHECKS)"

definition run_check :: "env \<Rightarrow> check_world \<Rightarrow> doc \<Rightarrow> string \<Rightarrow> check_result" where
  "run_check e w spec workspace =
     (let name = get_str spec ''check'' in
      case dget CHECKS name of
        None \<Rightarrow> check_out (if name = [] then ''(unnamed)'' else name) Unverifiable
          (''unknown check '' @ repr_str name @ ''; available: '' @ py_repr e (strs available_checks)) VNone VNone []
      | Some fn \<Rightarrow> (case fn e w spec workspace of
            Inr r \<Rightarrow> r
          | Inl err \<Rightarrow> check_out name Unverifiable (cw_exc w err) VNone VNone []))"

section \<open>Lemmas\<close>

lemma check_out_simps [simp]:
  "cr_status (check_out c st d ex ac r) = st" "cr_check (check_out c st d ex ac r) = c"
  by (simp_all add: check_out_def)

lemma check_path_inside:
  "check_path w workspace path = Inr p \<Longrightarrow> prefix (comps (realpath (f_sys (cw_files w)) workspace)) (comps p)"
  by (auto simp: check_path_def Let_def starts_with_append comps_def split_on_append split: if_splits)

lemma CHECKS_get:
  "dget CHECKS ''recompute_sum'' = Some recompute_sum" "dget CHECKS ''totals_match_source'' = Some totals_match_source"
  by (simp_all add: CHECKS_def)

lemma recompute_sum_Pass:
  "(\<exists>r. recompute_sum e w spec workspace = Inr r \<and> cr_status r = Pass) \<longleftrightarrow>
   (\<exists>path rows col vals tol ref expect.
      spec_path w workspace spec ''path'' = Inr path \<and> f_csv (cw_files w) path = Inr rows \<and>
      need_str spec ''value_column'' = Inr col \<and> source_nums e spec ''where'' col rows = Inr vals \<and>
      float_dflt spec ''tolerance'' (1/100) = Inr tol \<and>
      sha_ref w path = Inr ref \<and> num_cell e (dget spec ''expect'') = Some expect \<and>
      \<bar>py_round 6 (sum_list vals) - expect\<bar> \<le> max tol (\<bar>expect\<bar> / 1000))" (is "?l = ?r")
proof
  assume ?l
  then show ?r
    unfolding recompute_sum_def Let_def close_to_def
    by (elim exE conjE bind_sumE) (auto split: option.splits if_splits)
next
  assume ?r
  then show ?l by (auto simp: recompute_sum_def Let_def close_to_def)
qed

lemma spec_path_inside:
  "spec_path w workspace spec k = Inr p \<Longrightarrow> prefix (comps (realpath (f_sys (cw_files w)) workspace)) (comps p)"
  by (auto simp: spec_path_def elim!: bind_sumE intro: check_path_inside)

lemma contains_infix: "contains (a @ p @ b) p"
proof (induction a)
  case Nil
  show ?case by (cases p; cases b) (auto simp: starts_with_append)
qed simp

section \<open>Properties\<close>

text \<open>what a passed sum means.  \<open>run_check\<close> passes a \<open>recompute_sum\<close> exactly when the
  source file lies in the workspace and is readable, the specification is well-formed and
  states a number, and the sum of the numeric cells of the matching source rows, rounded to
  six places, is within the larger of the declared tolerance and a thousandth of the claim:
  a declared tolerance below 0.1% of the claim is not honoured.\<close>

theorem sum_check_exact:
  assumes "dget spec ''check'' = Some (VStr ''recompute_sum'')"
  shows "passed (run_check e w spec workspace) \<longleftrightarrow>
   (\<exists>path rows col vals tol ref expect.
      spec_path w workspace spec ''path'' = Inr path \<and>
      prefix (comps (realpath (f_sys (cw_files w)) workspace)) (comps path) \<and> f_csv (cw_files w) path = Inr rows \<and>
      need_str spec ''value_column'' = Inr col \<and> source_nums e spec ''where'' col rows = Inr vals \<and>
      float_dflt spec ''tolerance'' (1/100) = Inr tol \<and>
      sha_ref w path = Inr ref \<and> num_cell e (dget spec ''expect'') = Some expect \<and>
      \<bar>py_round 6 (sum_list vals) - expect\<bar> \<le> max tol (\<bar>expect\<bar> / 1000))"
proof -
  have n: "get_str spec ''check'' = ''recompute_sum''" using assms by (simp add: get_str_def)
  have "passed (run_check e w spec workspace) \<longleftrightarrow> (\<exists>r. recompute_sum e w spec workspace = Inr r \<and> cr_status r = Pass)"
    by (cases "recompute_sum e w spec workspace") (simp_all add: run_check_def n CHECKS_get passed_def)
  then show ?thesis unfolding recompute_sum_Pass using spec_path_inside by blast
qed

definition demo_checks :: check_world where
  "demo_checks = \<lparr>cw_files = demo_files, cw_find = (\<lambda>p t. Inr (if contains t p then 1 else 0)), cw_exc = (\<lambda>_. ''error'')\<rparr>"

theorem sum_check_exact_witness:
  "passed (run_check demo_env demo_checks [(''check'', VStr ''recompute_sum''), (''path'', VStr ''s.csv''),
      (''value_column'', VStr ''revenue''), (''expect'', VInt 30), (''tolerance'', VInt 0)] ''/ws'')"
proof -
  let ?spec = "[(''check'', VStr ''recompute_sum''), (''path'', VStr ''s.csv''),
      (''value_column'', VStr ''revenue''), (''expect'', VInt 30), (''tolerance'', VInt 0)]"
  have p: "spec_path demo_checks ''/ws'' ?spec ''path'' = Inr ''/ws/s.csv''" by code_simp
  have e: "num_cell demo_env (Some (VInt 30)) = Some 30" by code_simp
  have v: "source_nums demo_env ?spec ''where'' ''revenue''
      [[(''region'', VStr ''N''), (''revenue'', VStr ''10'')], [(''region'', VStr ''S''), (''revenue'', VStr ''$20'')]] = Inr [10, 20]"
    by code_simp
  have r: "py_round 6 (sum_list [10, 20]) = 30" by code_simp
  have c: "dget ?spec ''check'' = Some (VStr ''recompute_sum'')" by simp
  show ?thesis
    unfolding sum_check_exact [OF c]
    using p e v r spec_path_inside [OF p]
    by (auto simp: demo_checks_def demo_files_def need_str_def need_def float_dflt_def sha_ref_def)
qed

text \<open>the citation check accepts digits inside a longer number.  When the source total's
  whole part, written with thousands separators, occurs anywhere in the report, the report
  counts as citing it, so \<open>totals_match_source\<close> passes for a report that states only a
  different number around those digits.\<close>

theorem citation_accepts_embedded_digits:
  assumes "dget spec ''check'' = Some (VStr ''totals_match_source'')"
    and "spec_path w workspace spec ''path'' = Inr src" and "f_csv (cw_files w) src = Inr rows"
    and "need_str spec ''value_column'' = Inr col" and "sha_ref w src = Inr ref"
    and "spec_path w workspace spec ''artifact'' = Inr report" and "f_isfile (cw_files w) report"
    and "source_nums e spec ''where'' col rows = Inr vals"
    and "f_text (cw_files w) report = Inr (a @ int_commas (py_round 2 (sum_list vals)) @ b)"
  shows "passed (run_check e w spec workspace)"
proof -
  have n: "get_str spec ''check'' = ''totals_match_source''" using assms(1) by (simp add: get_str_def)
  show ?thesis
    using assms(2-9) by (simp add: run_check_def n CHECKS_get totals_match_source_def Let_def cites_figure_def contains_infix passed_def)
qed

theorem citation_accepts_embedded_digits_witness:
  "passed (run_check demo_env (demo_checks\<lparr>cw_files := demo_files\<lparr>f_text := (\<lambda>_. Inr ''revenue was 9302 USD'')\<rparr>\<rparr>)
     [(''check'', VStr ''totals_match_source''), (''path'', VStr ''s.csv''), (''value_column'', VStr ''revenue''),
      (''artifact'', VStr ''r.md'')] ''/ws'')"
proof -
  let ?w = "demo_checks\<lparr>cw_files := demo_files\<lparr>f_text := (\<lambda>_. Inr ''revenue was 9302 USD'')\<rparr>\<rparr>"
  let ?spec = "[(''check'', VStr ''totals_match_source''), (''path'', VStr ''s.csv''), (''value_column'', VStr ''revenue''),
      (''artifact'', VStr ''r.md'')]"
  have c: "dget ?spec ''check'' = Some (VStr ''totals_match_source'')" by simp
  have p: "spec_path ?w ''/ws'' ?spec ''path'' = Inr ''/ws/s.csv''" by code_simp
  have q: "spec_path ?w ''/ws'' ?spec ''artifact'' = Inr ''/ws/r.md''" by code_simp
  have r: "f_csv (cw_files ?w) ''/ws/s.csv'' = Inr [[(''region'', VStr ''N''), (''revenue'', VStr ''10'')],
      [(''region'', VStr ''S''), (''revenue'', VStr ''$20'')]]" by (simp add: demo_files_def)
  have col: "need_str ?spec ''value_column'' = Inr ''revenue''" by (simp add: need_str_def need_def)
  have sh: "sha_ref ?w ''/ws/s.csv'' = Inr ''/ws/s.csv#sha256:abc''" by (simp add: sha_ref_def demo_files_def)
  have f: "f_isfile (cw_files ?w) ''/ws/r.md''" by (simp add: demo_files_def)
  have n: "source_nums demo_env ?spec ''where'' ''revenue'' [[(''region'', VStr ''N''), (''revenue'', VStr ''10'')],
      [(''region'', VStr ''S''), (''revenue'', VStr ''$20'')]] = Inr [10, 20]" by code_simp
  have v: "int_commas (py_round 2 (sum_list [10, 20])) = ''30''" by code_simp
  have t: "f_text (cw_files ?w) ''/ws/r.md'' = Inr (''revenue was 9'' @ int_commas (py_round 2 (sum_list [10, 20])) @ ''2 USD'')"
    using v by simp
  show ?thesis by (rule citation_accepts_embedded_digits [OF c p r col sh q f n t])
qed

end
