(* ===== verification/Procedures.thy ===== *)
theory Procedures
  imports Store Config
begin

text \<open>
  \<open>sworker/procedures.py\<close>: placeholders and the expansion of a procedure into steps, the
  published versions of a procedure (one directory per name, a file per version and
  \<open>current.txt\<close>), and \<open>learn_from_run\<close>.  A directory is the list of its files with their
  texts; \<open>parse_yaml\<close> (PyYAML when installed) and the reading of a file are parameters.
  Lemmas: decimal numbers parse back, version numbers are fresh, published versions are never
  overwritten, and what a rollback picks.
\<close>

section \<open>Placeholders\<close>

definition name_char :: "char \<Rightarrow> bool" where
  "name_char c = (let n = (of_char c :: nat) in
     (48 \<le> n \<and> n \<le> 57) \<or> (65 \<le> n \<and> n \<le> 90) \<or> (97 \<le> n \<and> n \<le> 122) \<or> c = CHR ''_'' \<or> c = CHR ''.'')"

text \<open>The pattern at the head of a text: the name, and the text after the closing braces.\<close>

definition placeholder_at :: "string \<Rightarrow> (string \<times> string) option" where
  "placeholder_at s =
     (if starts_with s ''{{'' then
        let body = dropWhile is_space (drop 2 s);
            name = takeWhile name_char body;
            after = dropWhile is_space (dropWhile name_char body)
        in if name \<noteq> [] \<and> starts_with after ''}}'' then Some (name, drop 2 after) else None
      else None)"

lemma placeholder_shorter: "placeholder_at s = Some (n, r) \<Longrightarrow> length r < length s"
proof -
  assume a: "placeholder_at s = Some (n, r)"
  let ?b = "dropWhile is_space (drop 2 s)"
  let ?a = "dropWhile is_space (dropWhile name_char ?b)"
  have "r = drop 2 ?a" "starts_with s ''{{''"
    using a by (auto simp: placeholder_at_def Let_def split: if_splits)
  moreover have "length ?a \<le> length s - 2"
    using length_dropWhile_le [of is_space "dropWhile name_char ?b"] length_dropWhile_le [of name_char ?b]
      length_dropWhile_le [of is_space "drop 2 s"] by simp
  moreover have "2 \<le> length s" using \<open>starts_with s ''{{''\<close> by (auto simp: starts_with_append)
  ultimately show ?thesis by simp
qed

function subst_text :: "(string \<Rightarrow> string \<Rightarrow> string) \<Rightarrow> string \<Rightarrow> string" where
  "subst_text val s = (case s of [] \<Rightarrow> []
     | c # cs \<Rightarrow> (case placeholder_at s of
           None \<Rightarrow> c # subst_text val cs
         | Some (name, rest) \<Rightarrow> val name (take (length s - length rest) s) @ subst_text val rest))"
  by pat_completeness auto
termination
  by (relation "measure (\<lambda>(_, s). length s)") (auto dest: placeholder_shorter)

declare subst_text.simps [simp del]

definition subst_str :: "env \<Rightarrow> doc \<Rightarrow> string \<Rightarrow> pyval" where
  "subst_str e inputs s =
     (case placeholder_at (str_strip s) of
        Some (name, []) \<Rightarrow> (case dget inputs name of Some v \<Rightarrow> v | None \<Rightarrow> VStr s)
      | _ \<Rightarrow> VStr (subst_text (\<lambda>name whole. case dget inputs name of Some v \<Rightarrow> py_str e v | None \<Rightarrow> whole) s))"

fun substitute :: "env \<Rightarrow> doc \<Rightarrow> pyval \<Rightarrow> pyval" where
  "substitute e inputs (VStr s) = subst_str e inputs s"
| "substitute e inputs (VDict d) = VDict (map (\<lambda>(k, v). (k, substitute e inputs v)) d)"
| "substitute e inputs (VList xs) = VList (map (substitute e inputs) xs)"
| "substitute e inputs v = v"

definition subst_doc :: "env \<Rightarrow> doc \<Rightarrow> doc \<Rightarrow> doc" where
  "subst_doc e inputs d = map (\<lambda>(k, v). (k, substitute e inputs v)) d"

section \<open>Expansion\<close>

definition merge_default :: "doc \<Rightarrow> string \<times> pyval \<Rightarrow> doc" where
  "merge_default acc kv = (case kv of (key, meta) \<Rightarrow>
     (case meta of
        VDict m \<Rightarrow> (case dget m ''default'' of Some v \<Rightarrow> dset acc key v | None \<Rightarrow> acc)
      | _ \<Rightarrow> dset acc key meta))"

definition merge_input :: "doc \<Rightarrow> pyval \<Rightarrow> doc" where
  "merge_input acc spec = (case spec of
       VDict d \<Rightarrow> foldl merge_default acc d
     | VStr s \<Rightarrow> (if dget acc s = None then dset acc s (VStr []) else acc)
     | _ \<Rightarrow> acc)"

definition update_all :: "doc \<Rightarrow> doc \<Rightarrow> doc" where
  "update_all d upd = foldl (\<lambda>acc (k, v). dset acc k v) d upd"

definition first_of :: "doc \<Rightarrow> string list \<Rightarrow> pyval" where
  "first_of d ks = (case List.find (get_truthy d) ks of Some k \<Rightarrow> the (dget d k) | None \<Rightarrow> VStr [])"

definition expand_step :: "env \<Rightarrow> doc \<Rightarrow> pyval \<Rightarrow> doc list" where
  "expand_step e inputs raw = (case raw of
       VStr s \<Rightarrow> [[(''description'', VStr s), (''tool'', VStr []), (''args'', VDict [])]]
     | VDict d \<Rightarrow> (let st = subst_doc e inputs d in
         [[(''description'', VStr (py_str e (first_of st [''description'', ''name'', ''tool'']))),
           (''tool'', VStr (py_str e (first_of st [''tool'']))),
           (''args'', get_or st ''args'' (VDict []))]])
     | _ \<Rightarrow> [])"

definition procedure_steps :: "env \<Rightarrow> doc \<Rightarrow> doc \<Rightarrow> error + doc list" where
  "procedure_steps e prc inputs =
     bind_sum (py_iter (get_or prc ''inputs'' (VList []))) (\<lambda>specs.
     bind_sum (py_iter (get_or prc ''steps'' (VList []))) (\<lambda>raws.
       Inr (concat (map (expand_step e (update_all (foldl merge_input [] specs) inputs)) raws))))"

definition procedure_verifications :: "env \<Rightarrow> doc \<Rightarrow> doc \<Rightarrow> error + doc list" where
  "procedure_verifications e prc inputs =
     bind_sum (py_iter (get_or prc ''verification'' (get_or prc ''verifications'' (VList [])))) (\<lambda>vs.
       Inr (List.map_filter (\<lambda>v. case v of VDict d \<Rightarrow> Some (subst_doc e inputs d) | _ \<Rightarrow> None) vs))"

text \<open>\<open>load_procedure\<close>: \<open>base\<close> is the directory, \<open>text\<close> reads a regular file.\<close>

definition load_procedure ::
    "(string \<Rightarrow> error + pyval) \<Rightarrow> (string \<Rightarrow> string option) \<Rightarrow> string \<Rightarrow> string \<Rightarrow> error + doc option" where
  "load_procedure yaml txt base name =
     foldr (\<lambda>cand rest. let p = (if path_isabs cand then cand else path_join base cand) in
         case txt p of
           None \<Rightarrow> rest
         | Some t \<Rightarrow> bind_sum (yaml t) (\<lambda>v. case v of
               VDict d \<Rightarrow> Inr (Some (dset (if dget d ''name'' = None then dset d ''name'' (VStr (path_stem (path_base p))) else d)
                            ''path'' (VStr p)))
             | _ \<Rightarrow> rest))
       [name, name @ ''.yaml'', name @ ''.yml''] (Inr None)"

section \<open>Published versions\<close>

type_synonym dir = "(string \<times> string) list"

definition yaml_ext :: string where "yaml_ext = ''.yaml''"

definition stem_of :: "string \<Rightarrow> string" where
  "stem_of fn = take (length fn - length yaml_ext) fn"

definition version_names :: "dir \<Rightarrow> string list" where
  "version_names d = map stem_of (filter (\<lambda>fn. ends_with fn yaml_ext) (map fst d))"

definition parse_version :: "string \<Rightarrow> int list option" where
  "parse_version s = those (map parse_int (split_on CHR ''.'' s))"

definition next_version :: "dir \<Rightarrow> error + string" where
  "next_version d =
     (let vers = sort (List.map_filter parse_version (version_names d)) in
      if vers = [] then Inr ''1.0''
      else case last vers of
          [major, minor] \<Rightarrow> Inr (int_str major @ ''.'' @ int_str (minor + 1))
        | _ \<Rightarrow> Inl ValueError)"

definition version_file :: "string \<Rightarrow> string" where
  "version_file v = v @ yaml_ext"

definition current_version :: "dir \<Rightarrow> string option" where
  "current_version d = (case dget d ''current.txt'' of
       None \<Rightarrow> None
     | Some t \<Rightarrow> (let v = str_strip t in if v = [] then None else Some v))"

definition nl :: string where "nl = [CHR 0x0A]"

definition publish_meta :: "env \<Rightarrow> string \<Rightarrow> time \<Rightarrow> string \<Rightarrow> string \<Rightarrow> string" where
  "publish_meta e author t version body =
     ''# published_by: '' @ author @ nl @ ''# published_at: '' @ float_repr e t @ nl @
     ''# version: '' @ version @ nl @ ''# source_hash: '' @ sha256 e body @ nl"

definition publish_procedure ::
    "env \<Rightarrow> time \<Rightarrow> string \<Rightarrow> string \<Rightarrow> string \<Rightarrow> bool \<Rightarrow> dir \<Rightarrow> error + string \<times> dir" where
  "publish_procedure e t name body author force d =
     (if name = [] then Inl ValueError
      else bind_sum (next_version d) (\<lambda>v.
        if dget d (version_file v) \<noteq> None \<and> \<not> force then Inl FileExistsError
        else let meta = publish_meta e author t v body;
                 txt = (if starts_with body ''name:'' \<or> starts_with body ''---'' then meta @ body
                        else meta @ ''name: '' @ name @ nl @ body)
             in Inr (v, dset (dset d (version_file v) txt) ''current.txt'' v)))"

fun index_in :: "'a \<Rightarrow> 'a list \<Rightarrow> nat" where
  "index_in x [] = 0"
| "index_in x (y # ys) = (if x = y then 0 else Suc (index_in x ys))"

text \<open>The wanted version is empty when none is named.  A version that is not in the list counts
  as one past the end.\<close>

definition rollback_target :: "dir \<Rightarrow> string \<Rightarrow> error + string" where
  "rollback_target d version =
     (let avail = sort (version_names d) in
      if avail = [] then Inl ValueError
      else if version \<noteq> [] then (if version \<in> set avail then Inr version else Inl ValueError)
      else case current_version d of
          None \<Rightarrow> Inl ValueError
        | Some c \<Rightarrow> (let i = index_in c avail in if i = 0 then Inl ValueError else Inr (avail ! (i - 1))))"

definition rollback_procedure :: "string \<Rightarrow> dir \<Rightarrow> error + string \<times> dir" where
  "rollback_procedure version d = bind_sum (rollback_target d version) (\<lambda>v. Inr (v, dset d ''current.txt'' v))"

definition procedure_published ::
    "(string \<Rightarrow> error + pyval) \<Rightarrow> string \<Rightarrow> string \<Rightarrow> dir \<Rightarrow> error + doc option" where
  "procedure_published yaml base name d =
     (case current_version d of
        None \<Rightarrow> Inr None
      | Some v \<Rightarrow> (case dget d (version_file v) of
            None \<Rightarrow> Inr None
          | Some t \<Rightarrow> bind_sum (yaml t) (\<lambda>p. case p of
                VDict doc \<Rightarrow> Inr (Some (dset (dset (if dget doc ''name'' = None then dset doc ''name'' (VStr name) else doc)
                   ''path'' (VStr (path_join base (version_file v)))) ''version'' (VStr v)))
              | _ \<Rightarrow> Inr None)))"

section \<open>Learning from a run\<close>

text \<open>\<open>s.replace(old, new)\<close> for a nonempty \<open>old\<close>.\<close>

function replace_all :: "string \<Rightarrow> string \<Rightarrow> string \<Rightarrow> string" where
  "replace_all old new s = (case s of [] \<Rightarrow> []
     | c # cs \<Rightarrow> (if old \<noteq> [] \<and> starts_with s old then new @ replace_all old new (drop (length old) s)
                 else c # replace_all old new cs))"
  by pat_completeness auto
termination
  by (relation "measure (\<lambda>(_, _, s). length s)") auto

declare replace_all.simps [simp del]

definition reverse_map :: "env \<Rightarrow> doc \<Rightarrow> (string \<times> string) list" where
  "reverse_map e inputs = foldl (\<lambda>acc (k, v). dset acc (py_str e v) k) [] (filter (\<lambda>(k, v). py_str e v \<noteq> []) inputs)"

definition braces :: "string \<Rightarrow> string" where
  "braces k = ''{{'' @ k @ ''}}''"

definition generalise_str :: "(string \<times> string) list \<Rightarrow> string \<Rightarrow> string" where
  "generalise_str rv s = (case dget rv s of
       Some k \<Rightarrow> braces k
     | None \<Rightarrow> foldl (\<lambda>acc (lit, k). if contains acc lit then replace_all lit (braces k) acc else acc) s rv)"

fun generalise :: "(string \<times> string) list \<Rightarrow> pyval \<Rightarrow> pyval" where
  "generalise rv (VStr s) = VStr (generalise_str rv s)"
| "generalise rv (VDict d) = VDict (map (\<lambda>(k, v). (k, generalise rv v)) d)"
| "generalise rv (VList xs) = VList (map (generalise rv) xs)"
| "generalise rv v = v"

definition yaml_scalar :: "env \<Rightarrow> pyval \<Rightarrow> string" where
  "yaml_scalar e v = (case v of
       VBool b \<Rightarrow> (if b then ''true'' else ''false'')
     | VInt i \<Rightarrow> py_str e v
     | VFloat r \<Rightarrow> py_str e v
     | VDict d \<Rightarrow> json_plain e v
     | VList xs \<Rightarrow> json_plain e v
     | _ \<Rightarrow> json_str (py_str e v))"

definition action_lines :: "env \<Rightarrow> (string \<times> string) list \<Rightarrow> doc \<Rightarrow> doc \<Rightarrow> string list" where
  "action_lines e rv a st =
     (let desc = generalise rv (if get_truthy st ''description'' then the (dget st ''description'') else VStr (get_str a ''tool''));
          args = val_doc (generalise rv (get_or a ''args'' (VDict [])))
      in [''  - description: '' @ py_repr e desc, ''    tool: '' @ get_str a ''tool'']
         @ (if args = [] then [] else ''    args:'' # map (\<lambda>(k, v). ''      '' @ k @ '': '' @ yaml_scalar e v) args))"

definition learned_text ::
    "env \<Rightarrow> string \<Rightarrow> string \<Rightarrow> doc \<Rightarrow> doc \<Rightarrow> (doc \<times> doc) list \<Rightarrow> doc list \<Rightarrow> string" where
  "learned_text e name rid task inputs acts vers =
     (let rv = reverse_map e inputs;
          asked = str_strip (get_str task ''request'');
          ls = [''name: '' @ name, ''intent: '' @ (if asked = [] then name else asked), ''learned_from_run: '' @ rid,
                ''trigger:'', ''  type: manual'']
            @ (if inputs = [] then [] else ''inputs:'' # concat (map (\<lambda>(k, v). [''  - '' @ k @ '':'', ''      default: '' @ py_repr e v]) inputs))
            @ [''steps:''] @ concat (map (\<lambda>(a, st). action_lines e rv a st) acts)
            @ (if vers = [] then [] else ''verification:'' # map (\<lambda>v. ''  - check: '' @ get_str v ''check'') vers)
      in join nl ls @ nl)"

definition found_or_empty :: "doc option \<Rightarrow> doc" where
  "found_or_empty d = (case d of Some x \<Rightarrow> x | None \<Rightarrow> [])"

definition learn_from_run :: "string \<Rightarrow> string \<Rightarrow> doc \<Rightarrow> string sop" where
  "learn_from_run rid name extra =
     op_bind (get ''runs'' rid []) (\<lambda>run. case run of
         None \<Rightarrow> op_raise KeyError
       | Some r \<Rightarrow> (if r = [] \<or> dget r ''task_id'' = None then op_raise KeyError
          else op_bind (get ''tasks'' (get_str r ''task_id'') []) (\<lambda>task.
               let known = update_all (get_dict (found_or_empty task) ''inputs'') extra in
               op_bind (find_rows ''actions'' (by_cols [(''run_id'', VStr rid)])) (\<lambda>as.
                 let done_acts = filter (\<lambda>a. get_str a ''status'' = ''EXECUTED'') as in
                 if done_acts = [] then op_raise ValueError
                 else op_bind (op_mapM (\<lambda>a. op_bind (get ''steps'' (get_str a ''step_id'') []) (\<lambda>st.
                        op_return (a, found_or_empty st))) done_acts) (\<lambda>acts.
                      op_bind (find_rows ''verifications'' (by_cols [(''run_id'', VStr rid)])) (\<lambda>vers.
                      op_bind (op_gets env) (\<lambda>e.
                        op_return (learned_text e name rid (found_or_empty task) known acts vers))))))))"

section \<open>Lemmas\<close>

subsection \<open>Decimal numbers parse back\<close>

lemma digit_val_digit: "d < 10 \<Longrightarrow> digit_val (char_of (48 + d :: nat)) = Some d"
  by (simp add: digit_val_def)

lemma digits_val_snoc:
  "digits_val b acc xs = Some m \<Longrightarrow> xs \<noteq> [] \<Longrightarrow> digit_val c = Some d \<Longrightarrow> c \<noteq> CHR ''_'' \<Longrightarrow>
   digits_val b acc (xs @ [c]) = Some (10 * m + d)"
proof (induction b acc xs rule: digits_val.induct)
  case (2 b acc x cs)
  show ?case
  proof (cases "cs = []")
    case True
    with "2.prems" show ?thesis by (auto split: if_splits option.splits)
  next
    case False
    with 2 show ?thesis by (auto split: if_splits option.splits)
  qed
qed simp

lemma digit_not_underscore: "d < 10 \<Longrightarrow> char_of (48 + d :: nat) \<noteq> CHR ''_''"
proof
  assume "d < 10" and "char_of (48 + d :: nat) = CHR ''_''"
  then have "(of_char (char_of (48 + d :: nat) :: char) :: nat) = of_char (CHR ''_'')" by simp
  with \<open>d < 10\<close> show False by simp
qed

lemma nat_str_nonempty [simp]: "nat_str n \<noteq> []"
  by (subst nat_str.simps) simp

lemma digits_val_nat_str: "digits_val False 0 (nat_str n) = Some n"
proof (induction n rule: nat_str.induct)
  case (1 n)
  show ?case
  proof (cases "n < 10")
    case True
    then show ?thesis
      by (subst nat_str.simps) (simp add: digit_val_digit digit_not_underscore)
  next
    case False
    have "digits_val False 0 (nat_str (n div 10) @ [char_of (48 + n mod 10)]) = Some (10 * (n div 10) + n mod 10)"
      by (rule digits_val_snoc [OF 1 [OF False]]) (simp_all add: digit_val_digit digit_not_underscore)
    with False show ?thesis by (subst nat_str.simps) simp
  qed
qed

definition digit_char :: "char \<Rightarrow> bool" where
  "digit_char c \<longleftrightarrow> (\<exists>d<10. c = char_of (48 + d :: nat))"

lemma nat_str_digits: "\<forall>c\<in>set (nat_str n). digit_char c"
proof (induction n rule: nat_str.induct)
  case (1 n)
  show ?case
  proof (cases "n < 10")
    case True
    then show ?thesis by (subst nat_str.simps) (auto simp: digit_char_def)
  next
    case False
    have "digit_char (char_of (48 + n mod 10))" unfolding digit_char_def by (rule exI [of _ "n mod 10"]) simp
    with False 1 [OF False] show ?thesis by (subst nat_str.simps) simp
  qed
qed

lemma digit_char_code: "digit_char c \<Longrightarrow> 48 \<le> (of_char c :: nat) \<and> (of_char c :: nat) \<le> 57"
  by (auto simp: digit_char_def)

lemma digit_char_other:
  assumes "digit_char c"
  shows "\<not> is_space c" and "c \<noteq> CHR ''-''" and "c \<noteq> CHR ''+''" and "c \<noteq> CHR ''.''"
proof -
  note b = digit_char_code [OF assms]
  then show "c \<noteq> CHR ''-''" "c \<noteq> CHR ''+''" "c \<noteq> CHR ''.''" by auto
  show "\<not> is_space c" unfolding is_space_def using b by auto
qed

lemma strip_id: "s \<noteq> [] \<Longrightarrow> \<not> is_space (hd s) \<Longrightarrow> \<not> is_space (last s) \<Longrightarrow> str_strip s = s"
  by (simp add: str_strip_def dropWhile_eq_self_iff [THEN iffD2] hd_rev)

lemma int_str_last: "digit_char (last (int_str i)) \<and> int_str i \<noteq> []"
  using nat_str_digits [of "nat i"] nat_str_digits [of "nat (- i)"] by (auto simp: int_str_def)

lemma parse_int_str: "parse_int (int_str i) = Some i"
proof (cases "i < 0")
  case True
  have "str_strip (int_str i) = int_str i"
    by (rule strip_id) (use int_str_last [of i] digit_char_other True in \<open>auto simp: int_str_def is_space_def\<close>)
  with True show ?thesis by (simp add: parse_int_def int_str_def digits_val_nat_str)
next
  case False
  obtain c cs where n: "nat_str (nat i) = c # cs" using nat_str_nonempty by (cases "nat_str (nat i)") auto
  then have d: "digit_char c" using nat_str_digits [of "nat i"] by auto
  have "str_strip (int_str i) = int_str i"
    by (rule strip_id) (use int_str_last [of i] digit_char_other d n False in \<open>auto simp: int_str_def\<close>)
  with False n digit_char_other [OF d] digits_val_nat_str [of "nat i"] show ?thesis
    by (simp add: parse_int_def int_str_def)
qed

lemma int_str_no_dot: "CHR ''.'' \<notin> set (int_str i)"
  using nat_str_digits [of "nat i"] nat_str_digits [of "nat (- i)"] digit_char_other(4)
  by (auto simp: int_str_def)

subsection \<open>Versions\<close>

lemma parse_version_str: "parse_version (int_str a @ ''.'' @ int_str b) = Some [a, b]"
  by (simp add: parse_version_def split_on_append split_on_no_sep int_str_no_dot parse_int_str)

lemma next_version_cases:
  assumes "next_version d = Inr v"
  shows "\<exists>a b. v = int_str a @ ''.'' @ int_str b \<and>
     (\<forall>w\<in>set (List.map_filter parse_version (version_names d)). w < [a, b])"
proof -
  define vs where "vs = sort (List.map_filter parse_version (version_names d))"
  show ?thesis
  proof (cases "vs = []")
    case True
    then have "List.map_filter parse_version (version_names d) = []"
      unfolding vs_def by (metis set_empty set_sort)
    moreover have "v = int_str 1 @ ''.'' @ int_str 0"
    proof -
      have "v = ''1.0''" using assms True by (simp add: next_version_def Let_def vs_def)
      moreover have "int_str 1 @ ''.'' @ int_str 0 = ''1.0''" by code_simp
      ultimately show ?thesis by simp
    qed
    ultimately show ?thesis by auto
  next
    case False
    then obtain a b where ab: "last vs = [a, b]" "v = int_str a @ ''.'' @ int_str (b + 1)"
      using assms by (auto simp: next_version_def Let_def vs_def split: list.splits)
    have "vs = butlast vs @ [[a, b]]" using False ab(1) append_butlast_last_id [of vs] by simp
    moreover have "sorted vs" by (simp add: vs_def)
    ultimately have "sorted (butlast vs @ [[a, b]])" "set vs = insert [a, b] (set (butlast vs))"
      by (metis, metis list.set(1) list.set(2) set_append sup_commute insert_is_Un)
    then have "w \<le> [a, b]" if "w \<in> set vs" for w
      using that by (auto simp: sorted_append)
    moreover have "[a, b] < [a, b + 1]" by simp
    ultimately have "\<forall>w\<in>set vs. w < [a, b + 1]" by (blast intro: le_less_trans)
    with ab(2) show ?thesis unfolding vs_def by auto
  qed
qed

lemma stem_version_file [simp]: "stem_of (version_file v) = v"
  by (simp add: stem_of_def version_file_def)

lemma ends_with_append [simp]: "ends_with (a @ b) b"
  by (auto simp: ends_with_def starts_with_append)

lemma version_fresh:
  assumes "next_version d = Inr v"
  shows "dget d (version_file v) = None"
proof (rule ccontr)
  assume "dget d (version_file v) \<noteq> None"
  then have "version_file v \<in> set (map fst d)" using dget_None_iff [of d] by (auto simp: dkeys_def)
  then have "version_file v \<in> set (filter (\<lambda>fn. ends_with fn yaml_ext) (map fst d))"
    by (simp add: version_file_def)
  then have "stem_of (version_file v) \<in> set (version_names d)" unfolding version_names_def by (metis image_eqI set_map)
  then have "v \<in> set (version_names d)" by simp
  moreover obtain a b where ab: "v = int_str a @ ''.'' @ int_str b"
      "\<forall>w\<in>set (List.map_filter parse_version (version_names d)). w < [a, b]"
    using next_version_cases [OF assms] by blast
  moreover have "parse_version v = Some [a, b]" unfolding ab(1) by (rule parse_version_str)
  ultimately have "[a, b] \<in> set (List.map_filter parse_version (version_names d))"
    by (auto simp: map_filter_def image_iff intro!: exI [of _ v])
  with ab(2) show False by blast
qed

lemma version_strip:
  assumes "next_version d = Inr v"
  shows "str_strip v = v \<and> v \<noteq> []"
proof -
  obtain a b where v: "v = int_str a @ ''.'' @ int_str b" using next_version_cases [OF assms] by blast
  have "\<not> is_space (hd (int_str a))"
    using nat_str_digits [of "nat a"] nat_str_nonempty [of "nat a"] digit_char_other(1)
    by (cases "nat_str (nat a)") (auto simp: int_str_def is_space_def)
  moreover have "\<not> is_space (last (int_str b))" using int_str_last [of b] digit_char_other(1) by blast
  ultimately have "str_strip v = v"
    unfolding v using int_str_last [of a] int_str_last [of b] by (intro strip_id) auto
  then show ?thesis using v by auto
qed

lemma version_not_current: "version_file v \<noteq> ''current.txt''"
proof
  assume "version_file v = ''current.txt''"
  then have "last (version_file v) = last ''current.txt''" by simp
  then show False by (simp add: version_file_def yaml_ext_def)
qed

lemma index_in_nth: "x \<in> set xs \<Longrightarrow> index_in x xs < length xs \<and> xs ! index_in x xs = x"
  by (induction xs) auto

lemma index_in_first: "j < index_in x xs \<Longrightarrow> xs ! j \<noteq> x"
  by (induction xs arbitrary: j) (auto simp: nth_Cons split: if_splits nat.splits)

section \<open>Properties\<close>

text \<open>publishing only adds.  A published version gets a file of its own, newer in the order of
  version numbers than every version that is there; the files that were there stay as they
  were; the new file ends with the body as given; and the version becomes the current one.
  So the overwrite check, with or without \<open>force\<close>, never fires.\<close>

theorem publish_only_adds:
  assumes "publish_procedure e t name body author force d = Inr (v, d')"
  shows "dget d (version_file v) = None \<and>
    (\<forall>w\<in>set (List.map_filter parse_version (version_names d)). w < the (parse_version v)) \<and>
    (\<forall>fn txt. fn \<noteq> ''current.txt'' \<and> dget d fn = Some txt \<longrightarrow> dget d' fn = Some txt) \<and>
    (\<exists>txt. dget d' (version_file v) = Some txt \<and> ends_with txt body) \<and> current_version d' = Some v"
proof -
  have nv: "next_version d = Inr v"
    using assms by (auto simp: publish_procedure_def Let_def split: if_splits elim!: bind_sumE)
  obtain tx where d': "d' = dset (dset d (version_file v) tx) ''current.txt'' v" "ends_with tx body"
    using assms by (auto simp: publish_procedure_def Let_def ends_with_def starts_with_append split: if_splits elim!: bind_sumE)
  obtain a b where ab: "v = int_str a @ ''.'' @ int_str b" "\<forall>w\<in>set (List.map_filter parse_version (version_names d)). w < [a, b]"
    using next_version_cases [OF nv] by blast
  have "parse_version v = Some [a, b]" unfolding ab(1) by (rule parse_version_str)
  with ab(2) d' version_fresh [OF nv] version_strip [OF nv] version_not_current [of v] show ?thesis
    by (auto simp: current_version_def)
qed

definition demo_dir :: dir where
  "demo_dir = map (\<lambda>v. (version_file v, ''name: p'')) [''1.0'', ''1.1'', ''1.2'', ''1.9'', ''1.10''] @ [(''current.txt'', ''1.2'')]"

theorem publish_only_adds_witness:
  "\<exists>d'. publish_procedure demo_env 0 ''p'' ''name: p'' ''ann'' False demo_dir = Inr (''1.11'', d') \<and>
     dget d' (version_file ''1.10'') = Some ''name: p'' \<and> current_version d' = Some ''1.11''"
proof -
  have nv: "next_version demo_dir = Inr ''1.11''" by code_simp
  then obtain d' where "publish_procedure demo_env 0 ''p'' ''name: p'' ''ann'' False demo_dir = Inr (''1.11'', d')"
    using version_fresh [OF nv] by (auto simp: publish_procedure_def Let_def)
  moreover have "dget demo_dir (version_file ''1.10'') = Some ''name: p''" by code_simp
  moreover have "version_file ''1.10'' \<noteq> ''current.txt''" by (rule version_not_current)
  ultimately show ?thesis using publish_only_adds by blast
qed

text \<open>a rollback goes by spelling.  Without a named version, \<open>rollback_procedure\<close> activates the
  available version that comes just before the current one in the order of strings, which
  is not the order of version numbers: with versions \<open>1.0 1.1 1.2 1.9 1.10\<close>, rolling back
  from \<open>1.2\<close> activates \<open>1.10\<close>, the newest.\<close>

theorem rollback_by_spelling:
  assumes "rollback_procedure [] d = Inr (v, d')" and "current_version d = Some c" and "c \<in> set (version_names d)"
  shows "v \<in> set (version_names d) \<and> v < c \<and> (\<forall>w\<in>set (version_names d). w < c \<longrightarrow> w \<le> v) \<and>
    dget d' ''current.txt'' = Some v"
proof -
  define av where "av = sort (version_names d)"
  define i where "i = index_in c av"
  have av: "sorted av" "set av = set (version_names d)" by (simp_all add: av_def)
  have c: "i < length av" "av ! i = c" using index_in_nth [of c av] assms(3) av(2) by (auto simp: i_def)
  have v: "0 < i" "v = av ! (i - 1)" "d' = dset d ''current.txt'' v"
    using assms(1,2) by (auto simp: rollback_procedure_def rollback_target_def Let_def av_def [symmetric] i_def [symmetric]
        split: if_splits elim!: bind_sumE)
  have "v \<le> c" using sorted_nth_mono [OF av(1), of "i - 1" i] c v by simp
  moreover have "v \<noteq> c" using index_in_first [of "i - 1" c av] v by (simp add: i_def)
  moreover have "w \<le> v" if w: "w \<in> set av" "w < c" for w
  proof -
    obtain j where j: "j < length av" "av ! j = w" using w(1) by (auto simp: in_set_conv_nth)
    have "j < i"
    proof (rule ccontr)
      assume "\<not> j < i"
      then have "c \<le> w" using sorted_nth_mono [OF av(1), of i j] j c by simp
      with w(2) show False by simp
    qed
    then show ?thesis using sorted_nth_mono [OF av(1), of j "i - 1"] j c v by simp
  qed
  moreover have "v \<in> set av" using c v by simp
  ultimately show ?thesis using v(3) av(2) by auto
qed

theorem rollback_by_spelling_witness:
  "\<exists>d'. rollback_procedure [] demo_dir = Inr (''1.10'', d') \<and> dget d' ''current.txt'' = Some ''1.10'' \<and>
     the (parse_version ''1.2'') < the (parse_version ''1.10'')"
proof -
  have r: "rollback_target demo_dir [] = Inr ''1.10''" by code_simp
  have c: "current_version demo_dir = Some ''1.2''" "''1.2'' \<in> set (version_names demo_dir)"
    "the (parse_version ''1.2'') < the (parse_version ''1.10'')" by code_simp+
  from r obtain d' where "rollback_procedure [] demo_dir = Inr (''1.10'', d')" by (simp add: rollback_procedure_def)
  with rollback_by_spelling [OF this c(1,2)] c(3) show ?thesis by blast
qed

end
