(* ===== verification/Planner.thy ===== *)
theory Planner
  imports Procedures Data
begin

text \<open>
  The planning half of \<open>sworker/engine.py\<close>: the tool catalog and prompt, the plan taken from a
  procedure, from the model's JSON reply, or from the deterministic fallback with its choice of
  a CSV column.  The model's reply, the YAML reader and the files of the workspace are the
  fields of the record \<open>planner_env\<close>.  Lemmas: a plan that is not a procedure names only tools
  the registry has.
\<close>

record planner_env =
  pl_env :: env
  pl_yaml :: "string \<Rightarrow> error + pyval"
  pl_text :: "string \<Rightarrow> string option"
  pl_reply :: "string \<Rightarrow> pyval"                       \<comment> \<open>\<open>complete_json\<close> of the prompt\<close>
  pl_listdir :: "string \<Rightarrow> error + string list"
  pl_csv :: "string \<Rightarrow> error + doc list"

section \<open>The prompt\<close>

definition catalog_line :: "env \<Rightarrow> doc \<Rightarrow> string" where
  "catalog_line e spec =
     (let props = get_dict (get_dict spec ''input_schema'') ''properties'';
          args = join '', '' (map (\<lambda>(k, v). k @ '':'' @ (case dget (val_doc v) ''type'' of Some ty \<Rightarrow> py_str e ty | None \<Rightarrow> ''any'')) props)
      in ''- '' @ get_str spec ''name'' @ ''('' @ args @ '') ['' @ get_str spec ''risk_level''
         @ (if get_truthy spec ''requires_approval'' then '', approval required'' else []) @ ''] '' @ get_str spec ''description'')"

definition tool_catalog :: "env \<Rightarrow> registry \<Rightarrow> string" where
  "tool_catalog e reg = join nl (map (catalog_line e) (reg_specs reg))"

definition plan_prompt :: "env \<Rightarrow> worker_config \<Rightarrow> registry \<Rightarrow> string \<Rightarrow> string" where
  "plan_prompt e w reg request =
     ''Worker: '' @ wc_name w @ '' ('' @ wc_role w @ '')'' @ nl @ ''Instructions: '' @ wc_instructions w @ nl @ nl @
     ''Available tools:'' @ nl @ tool_catalog e reg @ nl @ nl @
     ''Company data lives under company/ in the workspace.'' @ nl @ ''Request: '' @ request @ nl @ nl @
     ''Emit the JSON plan now.''"

section \<open>The model's plan\<close>

definition unavailable :: "env \<Rightarrow> string \<Rightarrow> doc \<Rightarrow> doc" where
  "unavailable e tool s =
     (let text = (case dget s ''description'' of Some v \<Rightarrow> py_str e v | None \<Rightarrow> []) in
      dset (dset (dset s ''tool'' (VStr [])) ''args'' (VDict []))
        ''description'' (VStr (''[unavailable tool '' @ tool @ ''] '' @ text)))"

text \<open>A step that names a tool the worker does not have becomes a reasoning step.\<close>

definition close_step :: "env \<Rightarrow> registry \<Rightarrow> doc \<Rightarrow> doc" where
  "close_step e reg s = (case dget s ''tool'' of
       None \<Rightarrow> s
     | Some v \<Rightarrow> (if truthy v \<and> \<not> reg_has reg (py_str e v) then unavailable e (py_str e v) s else s))"

definition reply_steps :: "env \<Rightarrow> registry \<Rightarrow> pyval \<Rightarrow> doc list" where
  "reply_steps e reg reply = (case reply of
       VDict d \<Rightarrow> (case dget d ''steps'' of
           Some (VList ss) \<Rightarrow> List.map_filter (\<lambda>s. case s of VDict sd \<Rightarrow> Some (close_step e reg sd) | _ \<Rightarrow> None) ss
         | _ \<Rightarrow> [])
     | _ \<Rightarrow> [])"

section \<open>The fallback\<close>

text \<open>Runs of \<open>[a-z0-9]\<close>.\<close>

definition token_char :: "char \<Rightarrow> bool" where
  "token_char c = (let n = (of_char c :: nat) in (48 \<le> n \<and> n \<le> 57) \<or> (97 \<le> n \<and> n \<le> 122))"

definition tokens_of :: "string \<Rightarrow> string list" where
  "tokens_of low = str_words (map (\<lambda>c. if token_char c then c else CHR '' '') low)"

record candidate =
  cd_file :: string
  cd_column :: string
  cd_where :: doc
  cd_group :: string
  cd_score :: int

definition quarter_of :: "string \<Rightarrow> string option" where
  "quarter_of low = List.find (\<lambda>q. q \<in> set (tokens_of low)) [''q1'', ''q2'', ''q3'', ''q4'']"

definition wants_group :: "string \<Rightarrow> bool" where
  "wants_group low = list_ex (contains low) [''channel'', ''region'', ''by '', ''per '', ''breakdown'', ''store'']"

definition numeric_columns :: "env \<Rightarrow> doc list \<Rightarrow> string list" where
  "numeric_columns e rows =
     filter (\<lambda>c. list_all (\<lambda>r. num_cell e (dget r c) \<noteq> None) (take 50 rows)) (dkeys (hd rows))"

definition long_words :: "string \<Rightarrow> string list" where
  "long_words low = filter (\<lambda>t. 3 < length t) (str_words low)"

definition score_file :: "string \<Rightarrow> string \<Rightarrow> string list \<Rightarrow> doc list \<Rightarrow> int" where
  "score_file low fn numeric rows =
     10 * int (length (filter (contains (str_lower fn)) (long_words low)))
     + 5 * int (length (filter (\<lambda>c. contains low (str_lower c)) numeric)) + int (length rows)"

definition choose_column :: "string \<Rightarrow> string \<Rightarrow> string list \<Rightarrow> string option" where
  "choose_column low fn numeric =
     (case List.find (\<lambda>c. contains low (str_lower c)) numeric of
        Some c \<Rightarrow> Some c
      | None \<Rightarrow> (if list_ex (contains (str_lower fn)) (long_words low) then Some (last numeric) else None))"

definition consider_file :: "env \<Rightarrow> string \<Rightarrow> string \<Rightarrow> doc list \<Rightarrow> candidate list \<Rightarrow> candidate list" where
  "consider_file e low fn rows acc =
     (if rows = [] then acc
      else let numeric = numeric_columns e rows; heads = map str_lower (dkeys (hd rows)) in
        if numeric = [] then acc
        else case choose_column low fn numeric of
            None \<Rightarrow> (if acc = [] then [\<lparr>cd_file = fn, cd_column = last numeric, cd_where = [], cd_group = [],
                         cd_score = int (length numeric)\<rparr>] else acc)
          | Some col \<Rightarrow> acc @ [\<lparr>cd_file = fn, cd_column = col,
              cd_where = (case quarter_of low of Some q \<Rightarrow> (if ''quarter'' \<in> set heads then [(''quarter'', VStr (str_upper q))] else []) | None \<Rightarrow> []),
              cd_group = (if wants_group low
                 then (case List.find (\<lambda>c. c \<in> set heads) [''region'', ''channel'', ''store'', ''product'', ''category''] of Some g \<Rightarrow> g | None \<Rightarrow> [])
                 else []),
              cd_score = score_file low fn numeric rows\<rparr>])"

definition best_total_target :: "planner_env \<Rightarrow> string \<Rightarrow> string \<Rightarrow> error + candidate option" where
  "best_total_target pl workspace request =
     (let low = str_lower request; company = path_join workspace ''company'' in
      bind_sum (pl_listdir pl company) (\<lambda>names.
        let found = foldl (\<lambda>acc fn. case pl_csv pl (path_join company fn) of
                Inl _ \<Rightarrow> acc | Inr rows \<Rightarrow> consider_file (pl_env pl) low fn rows acc)
              [] (filter (\<lambda>fn. ends_with fn ''.csv'') (sort names))
        in Inr (case sort_key (\<lambda>c. - cd_score c) found of [] \<Rightarrow> None | c # _ \<Rightarrow> Some c)))"

text \<open>\<open>str.title\<close>.\<close>

definition alpha :: "char \<Rightarrow> bool" where
  "alpha c = (let n = (of_char c :: nat) in (65 \<le> n \<and> n \<le> 90) \<or> (97 \<le> n \<and> n \<le> 122))"

fun title_from :: "bool \<Rightarrow> string \<Rightarrow> string" where
  "title_from inside [] = []"
| "title_from inside (c # cs) = (if inside then lower_char c else upper_char c) # title_from (alpha c) cs"

definition quantitative :: "string \<Rightarrow> bool" where
  "quantitative request = list_ex (contains (str_lower request)) [''total'', ''sum'', ''how much'', ''revenue'', ''sales'']"

definition mk_step :: "string \<Rightarrow> string \<Rightarrow> doc \<Rightarrow> doc" where
  "mk_step text tool args = [(''description'', VStr text), (''tool'', VStr tool), (''args'', VDict args)]"

definition report_body :: "env \<Rightarrow> string \<Rightarrow> candidate \<Rightarrow> string" where
  "report_body e request c =
     ''# '' @ title_from False (cd_column c) @ '' report (auto, no language model)'' @ nl @ nl @
     ''Request: '' @ request @ nl @ nl @
     ''This report was produced by the deterministic fallback (no language model was reachable) by directly querying `''
     @ cd_file c @ ''`.'' @ nl @ nl @
     ''- Source: company/'' @ cd_file c @ nl @
     ''- Filter: '' @ (if cd_where c = [] then ''none'' else py_repr e (VDict (cd_where c))) @ nl @
     ''- Group: '' @ (if cd_group c = [] then ''total'' else cd_group c) @ nl @ nl @
     ''See the run's evidence log for the exact computed figure and the file checksum that proves it.'' @ nl"

definition target_steps :: "env \<Rightarrow> string \<Rightarrow> candidate \<Rightarrow> doc list" where
  "target_steps e request c =
     [mk_step (''Compute total '' @ cd_column c @ '' from '' @ cd_file c
         @ (if cd_where c = [] then [] else '' where '' @ py_repr e (VDict (cd_where c)))
         @ (if cd_group c = [] then [] else '' by '' @ cd_group c)) ''data.query''
       ([(''path'', VStr (''company/'' @ cd_file c)), (''agg'', VStr ''sum''), (''value_column'', VStr (cd_column c))]
         @ (if cd_where c = [] then [] else [(''where'', VDict (cd_where c))])
         @ (if cd_group c = [] then [] else [(''group_by'', VStr (cd_group c))])),
      mk_step (''Write a report of the '' @ cd_column c @ '' result to artifacts'') ''fs.write''
        [(''path'', VStr (''artifacts/q2_'' @ cd_column c @ ''_report.md'')), (''content'', VStr (report_body e request c))]]"

definition fallback_plan :: "planner_env \<Rightarrow> worker_config \<Rightarrow> registry \<Rightarrow> string \<Rightarrow> error + string \<times> doc list" where
  "fallback_plan pl w reg request =
     (let e = pl_env pl;
          first = [mk_step ''Search compiled company knowledge for the request'' ''knowledge.search''
                     [(''query'', VStr request), (''limit'', VInt 8)],
                   mk_step ''List available company data files'' ''fs.list''
                     [(''path'', VStr ''company''), (''pattern'', VStr ''*.csv'')]]
      in bind_sum (if quantitative request then best_total_target pl (wc_workspace w) request else Inr None) (\<lambda>best.
         Inr (''(no language model available) retrieve company context for: '' @ request,
              map (close_step e reg) (first @ (case best of None \<Rightarrow> [] | Some c \<Rightarrow> target_steps e request c)))))"

section \<open>The plan\<close>

definition model_plan :: "planner_env \<Rightarrow> worker_config \<Rightarrow> registry \<Rightarrow> string \<Rightarrow> error + string \<times> doc list" where
  "model_plan pl w reg request =
     (let e = pl_env pl; reply = pl_reply pl (plan_prompt e w reg request); steps = reply_steps e reg reply in
      if steps \<noteq> [] then Inr (py_str e (get_or (val_doc reply) ''intent'' (VStr request)), steps)
      else fallback_plan pl w reg request)"

definition make_plan ::
    "planner_env \<Rightarrow> worker_config \<Rightarrow> registry \<Rightarrow> string \<Rightarrow> string \<Rightarrow> doc \<Rightarrow> error + string \<times> doc list" where
  "make_plan pl w reg request procedure inputs =
     bind_sum (if procedure = [] then Inr None
        else load_procedure (pl_yaml pl) (pl_text pl) (path_join (wc_workspace w) ''procedures'') procedure) (\<lambda>prc.
       case prc of
         Some p \<Rightarrow> bind_sum (procedure_steps (pl_env pl) p inputs) (\<lambda>steps.
           Inr (py_str (pl_env pl) (get_or p ''intent'' (VStr (''execute procedure '' @ procedure))), steps))
       | None \<Rightarrow> model_plan pl w reg request)"

section \<open>Lemmas\<close>

definition closed_step :: "env \<Rightarrow> registry \<Rightarrow> doc \<Rightarrow> bool" where
  "closed_step e reg s \<longleftrightarrow> (case dget s ''tool'' of Some v \<Rightarrow> truthy v \<longrightarrow> reg_has reg (py_str e v) | None \<Rightarrow> True)"

lemma closed_close_step [simp]: "closed_step e reg (close_step e reg s)"
  by (auto simp: closed_step_def close_step_def unavailable_def Let_def split: option.splits)

lemma reply_steps_closed: "s \<in> set (reply_steps e reg reply) \<Longrightarrow> closed_step e reg s"
  by (auto simp: reply_steps_def map_filter_def split: pyval.splits option.splits)

lemma fallback_closed:
  "fallback_plan pl w reg request = Inr (intent, steps) \<Longrightarrow> s \<in> set steps \<Longrightarrow> closed_step (pl_env pl) reg s"
  by (auto simp: fallback_plan_def Let_def elim!: bind_sumE)

section \<open>Properties\<close>

text \<open>a plan is closed-world.  Whatever the model replies, and whatever the fallback finds in
  the files, a plan that does not come from a procedure has at least one step, and every step
  that names a tool names one the worker's registry has.\<close>

theorem plan_is_closed_world:
  assumes "make_plan pl w reg request procedure inputs = Inr (intent, steps)"
    and "procedure = [] \<or> load_procedure (pl_yaml pl) (pl_text pl) (path_join (wc_workspace w) ''procedures'') procedure = Inr None"
  shows "steps \<noteq> [] \<and> (\<forall>s\<in>set steps. \<forall>v. dget s ''tool'' = Some v \<and> truthy v \<longrightarrow> reg_has reg (py_str (pl_env pl) v))"
proof -
  have m: "model_plan pl w reg request = Inr (intent, steps)"
    using assms by (auto simp: make_plan_def split: if_splits)
  then have "\<forall>s\<in>set steps. closed_step (pl_env pl) reg s"
    unfolding model_plan_def using reply_steps_closed fallback_closed by (auto simp: Let_def split: if_splits)
  moreover have "steps \<noteq> []"
    using m by (auto simp: model_plan_def fallback_plan_def Let_def split: if_splits elim!: bind_sumE)
  ultimately show ?thesis by (fastforce simp: closed_step_def)
qed

definition demo_planner :: "pyval \<Rightarrow> planner_env" where
  "demo_planner reply = \<lparr>pl_env = demo_env, pl_yaml = (\<lambda>_. Inl ValueError), pl_text = (\<lambda>_. None),
     pl_reply = (\<lambda>_. reply), pl_listdir = (\<lambda>_. Inl FileNotFoundError), pl_csv = (\<lambda>_. Inl FileNotFoundError)\<rparr>"

definition demo_reply :: pyval where
  "demo_reply = VDict [(''steps'', VList [VDict [(''tool'', VStr ''fs.read'')], VStr ''x'', VDict [(''tool'', VStr ''rocket.launch'')]])]"

theorem plan_is_closed_world_witness:
  "\<exists>s1 s2. make_plan (demo_planner demo_reply) (default_worker ''w'') [(''fs.read'', demo_tool ''fs.read'' Read)] ''go'' [] []
       = Inr (''go'', [s1, s2]) \<and> get_str s2 ''tool'' = [] \<and> [s1, s2] \<noteq> []"
proof -
  let ?pl = "demo_planner demo_reply"
  let ?reg = "[(''fs.read'', demo_tool ''fs.read'' Read)]"
  let ?steps = "reply_steps demo_env ?reg demo_reply"
  have m: "make_plan ?pl (default_worker ''w'') ?reg ''go'' [] [] = Inr (''go'', ?steps)"
    by (simp add: make_plan_def model_plan_def Let_def demo_planner_def demo_reply_def reply_steps_def get_or_def)
  have two: "?steps = [close_step demo_env ?reg [(''tool'', VStr ''fs.read'')], close_step demo_env ?reg [(''tool'', VStr ''rocket.launch'')]]"
    by (simp add: reply_steps_def demo_reply_def)
  from plan_is_closed_world [OF m] have "?steps \<noteq> []" by simp
  with m two show ?thesis by (simp add: close_step_def reg_has_def unavailable_def Let_def get_str_def)
qed

text \<open>a question about an amount needs a company directory.  Without a usable model reply and
  without a procedure, a request that mentions a total makes the fallback list the directory
  \<open>company\<close>; when that fails, planning raises the same error, although the same request
  without such a word plans.\<close>

theorem fallback_needs_company_dir:
  assumes "reply_steps (pl_env pl) reg (pl_reply pl (plan_prompt (pl_env pl) w reg request)) = []"
    and "pl_listdir pl (path_join (wc_workspace w) ''company'') = Inl err"
  shows "make_plan pl w reg request [] inputs =
    (if quantitative request then Inl err
     else Inr (''(no language model available) retrieve company context for: '' @ request,
       map (close_step (pl_env pl) reg)
         [mk_step ''Search compiled company knowledge for the request'' ''knowledge.search''
            [(''query'', VStr request), (''limit'', VInt 8)],
          mk_step ''List available company data files'' ''fs.list''
            [(''path'', VStr ''company''), (''pattern'', VStr ''*.csv'')]]))"
  using assms by (simp add: make_plan_def model_plan_def fallback_plan_def best_total_target_def Let_def)

theorem fallback_needs_company_dir_witness:
  "make_plan (demo_planner VNone) (default_worker ''w'') [] ''total sales'' [] [] = Inl FileNotFoundError"
proof -
  have r: "reply_steps (pl_env (demo_planner VNone)) [] (pl_reply (demo_planner VNone)
      (plan_prompt (pl_env (demo_planner VNone)) (default_worker ''w'') [] ''total sales'')) = []"
    by (simp add: reply_steps_def demo_planner_def)
  have l: "pl_listdir (demo_planner VNone) (path_join (wc_workspace (default_worker ''w'')) ''company'') = Inl FileNotFoundError"
    by (simp add: demo_planner_def)
  have "quantitative ''total sales''" by code_simp
  then show ?thesis using fallback_needs_company_dir [OF r l, of "[]"] by simp
qed

end
