(* ===== verification/Engine_Action.thy ===== *)
theory Engine_Action
  imports Permissions Approvals Statemachine Safemode Evidence_Ledger Injection Verify Planner
begin

text \<open>
  \<open>sworker/engine.py\<close>, one tool execution: the state the engine threads (its store, the outside
  world, the decomposition guard and the tool context), \<open>_execute_action\<close> with its retry,
  injection scan, observation, evidence and artifacts, the figures a run computed and the
  checks derived from them, and \<open>record_verification\<close>.  What a tool does to the world, the
  files it leaves and \<open>ast.parse\<close> come in through the record \<open>host\<close>.  Event callbacks
  (\<open>on_event\<close>) are not modelled: the engine ignores what they do.
\<close>

section \<open>State\<close>

text \<open>\<open>_active_ctx\<close>: none, the context in use, or that of an earlier run of the same engine.\<close>

datatype active_ctx = No_Ctx | In_Use | Earlier tool_context

record 'w eng =
  e_store :: store
  e_world :: 'w
  e_guard :: guard
  e_ctx :: tool_context
  e_active :: active_ctx

datatype run_outcome =
    Ran tool_result
  | Bad_Invocation string      \<comment> \<open>the tool raised \<open>ToolError\<close>\<close>
  | Crashed string             \<comment> \<open>it raised anything else, rendered as type and text\<close>

record 'w host =
  h_run :: "tool \<Rightarrow> tool_context \<Rightarrow> doc \<Rightarrow> 'w \<Rightarrow> run_outcome \<times> tool_context \<times> 'w"
  h_summarize :: "tool \<Rightarrow> doc \<Rightarrow> error + string"    \<comment> \<open>\<open>tool.summarize\<close>, which may raise\<close>
  h_parse :: "string \<Rightarrow> node option"
  h_size :: "'w \<Rightarrow> string \<Rightarrow> int option"        \<comment> \<open>size of an existing file\<close>
  h_read :: "'w \<Rightarrow> string \<Rightarrow> string option"      \<comment> \<open>its text\<close>
  h_write :: "string \<Rightarrow> string \<Rightarrow> 'w \<Rightarrow> 'w"
  h_fs :: "'w \<Rightarrow> fsys"
  h_checks :: "'w \<Rightarrow> check_world"
  h_atlas :: "'w \<Rightarrow> bool option"                 \<comment> \<open>Atlas availability; \<open>None\<close> when probing raised\<close>
  h_invalid :: "tool \<Rightarrow> doc \<Rightarrow> string"             \<comment> \<open>text of the \<open>ToolError\<close> of \<open>validate\<close>\<close>
  h_isfile :: "'w \<Rightarrow> string \<Rightarrow> bool"
  h_text :: "'w \<Rightarrow> string \<Rightarrow> error + string"        \<comment> \<open>strict UTF-8 text of a file\<close>
  h_kill :: "int list \<Rightarrow> 'w \<Rightarrow> 'w"               \<comment> \<open>\<open>SIGTERM\<close> to the process groups\<close>
  h_planner :: "'w \<Rightarrow> planner_env"
  h_llm_up :: "'w \<Rightarrow> bool"

type_synonym ('w, 'a) eop = "('w eng, 'a) op"

definition in_store :: "'a sop \<Rightarrow> ('w, 'a) eop" where
  "in_store m g = (case m (e_store g) of (r, s) \<Rightarrow> (r, g\<lparr>e_store := s\<rparr>))"

definition now_ms :: "rat \<Rightarrow> int" where
  "now_ms r = trunc_rat (r * 1000)"

section \<open>Running a tool\<close>

definition invalid_result :: "string \<Rightarrow> tool_result" where
  "invalid_result msg = (tr_plain False)\<lparr>tr_error := ''invalid invocation: '' @ msg\<rparr>"

definition crash_result :: "string \<Rightarrow> tool_result" where
  "crash_result msg = (tr_plain False)\<lparr>tr_error := msg\<rparr>"

definition call_tool :: "'w host \<Rightarrow> tool \<Rightarrow> doc \<Rightarrow> ('w, run_outcome) eop" where
  "call_tool h t args g = (case h_run h t (e_ctx g) args (e_world g) of
     (out, ctx, w) \<Rightarrow> (Inr out, g\<lparr>e_ctx := ctx, e_world := w\<rparr>))"

text \<open>The attempts loop: at most \<open>n\<close> tries; a \<open>ToolError\<close> ends it at once.\<close>

fun attempts :: "'w host \<Rightarrow> tool \<Rightarrow> doc \<Rightarrow> nat \<Rightarrow> ('w, tool_result) eop" where
  "attempts h t args 0 = op_return (tr_plain False)"
| "attempts h t args (Suc n) =
     op_bind (call_tool h t args) (\<lambda>out. case out of
         Bad_Invocation msg \<Rightarrow> op_return (invalid_result msg)
       | Crashed msg \<Rightarrow> (if n = 0 then op_return (crash_result msg) else attempts h t args n)
       | Ran r \<Rightarrow> (if tr_ok r \<or> n = 0 then op_return r else attempts h t args n))"

definition MAX_ATTEMPTS :: nat where "MAX_ATTEMPTS = 2"

section \<open>Figures\<close>

record figure =
  fg_tool :: string
  fg_data :: doc
  fg_args :: doc
  fg_summary :: string

definition query_label :: "env \<Rightarrow> doc \<Rightarrow> string" where
  "query_label e d = (case dget d ''agg'' of Some v \<Rightarrow> py_str e v | None \<Rightarrow> ''sum'') @ ''('' @
     (case dget d ''value_column'' of Some v \<Rightarrow> py_str e v | None \<Rightarrow> []) @ '')''"

definition num_dflt :: "env \<Rightarrow> doc \<Rightarrow> string \<Rightarrow> string" where
  "num_dflt e d k = (case dget d k of Some v \<Rightarrow> py_str e v | None \<Rightarrow> ''0'')"

definition figures_of :: "env \<Rightarrow> string \<Rightarrow> doc \<Rightarrow> tool_result \<Rightarrow> figure list" where
  "figures_of e tname args r =
     (let d = tr_data r in
      if \<not> tr_ok r \<or> d = [] \<or> tname \<noteq> ''data.query'' then []
      else case dget d ''groups'' of
          Some (VList gs) \<Rightarrow> map (\<lambda>gv. let g = val_doc gv in
            \<lparr>fg_tool = tname, fg_data = d, fg_args = args,
              fg_summary = query_label e d @ '' '' @ py_str e (opt_val g ''key'') @ ''='' @ py_str e (opt_val g ''value'')
                @ '' ('' @ py_str e (opt_val g ''rows'') @ '' rows)''\<rparr>) gs
        | _ \<Rightarrow> (case dget d ''value'' of None \<Rightarrow> []
            | Some v \<Rightarrow> [\<lparr>fg_tool = tname, fg_data = d, fg_args = args,
                fg_summary = query_label e d @ ''='' @ py_str e v @ '' over '' @ num_dflt e d ''matched_rows''
                  @ ''/'' @ num_dflt e d ''total_rows'' @ '' rows''\<rparr>]))"

section \<open>Artifacts\<close>

definition path_ext :: "string \<Rightarrow> string" where
  "path_ext p = drop (length (path_stem p)) p"

definition exposed_claims :: "string \<Rightarrow> doc list \<Rightarrow> string list" where
  "exposed_claims body claims =
     map (\<lambda>c. get_str c ''id'')
       (filter (\<lambda>c. str_strip (get_str c ''text'') \<noteq> [] \<and> contains body (str_strip (get_str c ''text''))) claims)"

definition record_artifact :: "'w host \<Rightarrow> run \<Rightarrow> step \<Rightarrow> doc list \<Rightarrow> string \<Rightarrow> ('w, unit) eop" where
  "record_artifact h rn st claims path =
     op_bind (op_gets e_world) (\<lambda>w.
     op_bind (in_store (new_id ''art'')) (\<lambda>aid.
     op_bind (in_store op_now) (\<lambda>t.
       let kind = dropWhile (\<lambda>c. c = CHR ''.'') (path_ext path);
           body = (case h_read h w path of Some b \<Rightarrow> b | None \<Rightarrow> []);
           art = \<lparr>art_run_id = run_id rn, art_path = path, art_kind = (if kind = [] then ''file'' else kind), art_id = aid,
             art_title = [], art_description = step_description st,
             art_bytes = (case h_size h w path of Some n \<Rightarrow> n | None \<Rightarrow> 0), art_sha256 = [],
             art_claim_ids = exposed_claims body claims, art_created = t\<rparr>
       in in_store (op_then (put ''artifacts'' (artifact_to_dict art) ''artifact.created'') (op_return ())))))"

section \<open>One action\<close>

definition scan_payload :: "tool_result \<Rightarrow> doc" where
  "scan_payload r = foldl (\<lambda>d (k, v). dset d k v) [(''output'', VStr (tr_output r)), (''error'', VStr (tr_error r))] (tr_data r)"

definition put_action :: "action \<Rightarrow> string \<Rightarrow> ('w, unit) eop" where
  "put_action a ev = in_store (op_then (put ''actions'' (action_to_dict a) ev) (op_return ()))"

definition put_step :: "step \<Rightarrow> string \<Rightarrow> ('w, unit) eop" where
  "put_step st ev = in_store (op_then (put ''steps'' (step_to_dict st) ev) (op_return ()))"

text \<open>The second half of \<open>_execute_action\<close>: the observation, evidence and artifacts of the result;
  success, and the figures it adds to \<open>computed\<close>.\<close>

definition finish_action ::
    "'w host \<Rightarrow> worker_config \<Rightarrow> run \<Rightarrow> step \<Rightarrow> action \<Rightarrow> tool \<Rightarrow> doc \<Rightarrow> time \<Rightarrow> tool_result \<Rightarrow> ('w, bool \<times> figure list) eop" where
  "finish_action h cfg rn st act t args t0 result =
     op_bind (op_gets (\<lambda>g. env (e_store g))) (\<lambda>e.
     op_bind (in_store op_now) (\<lambda>t1.
     op_bind (in_store (new_id ''obs'')) (\<lambda>oid.
     op_bind (in_store op_now) (\<lambda>created.
       let inj = scan_dict (scan_payload result);
           ob = \<lparr>obs_run_id = run_id rn, obs_action_id = act_id act, obs_ok = tr_ok result, obs_id = oid,
             obs_output = py_take (wc_max_output cfg) (tr_output result), obs_error = tr_error result,
             obs_data = tr_data result, obs_truncated = tr_truncated result, obs_duration_ms = now_ms (t1 - t0),
             obs_injection = (case vd_rule inj of Some r \<Rightarrow> r | None \<Rightarrow> []), obs_created = created\<rparr>;
           act2 = act\<lparr>act_observation_id := oid, act_status := (if tr_ok result then Act_Executed else Act_Failed)\<rparr>;
           st2 = st\<lparr>step_status := (if tr_ok result then Step_Done else Step_Failed),
             step_note := (if tr_ok result then [] else tr_error result), step_observation_id := oid\<rparr>
       in op_then (in_store (op_then (put ''observations'' (observation_to_dict ob) ''observation.recorded'') (op_return ())))
         (op_then (put_action act2 ''action.completed'')
         (op_bind (in_store (from_observation (run_id rn) ob (tool_name t) (tr_evidence result))) (\<lambda>evs.
          op_bind (in_store (find_rows ''claims'' (by_cols [(''run_id'', VStr (run_id rn))]))) (\<lambda>claims.
          op_then (op_then (op_mapM (record_artifact h rn st claims) (tr_artifacts result)) (op_return ()))
          (op_then (put_step st2 (if tr_ok result then ''step.done'' else ''step.failed''))
           (op_return (tr_ok result, figures_of e (tool_name t) args result)))))))))))"

definition execute_action ::
    "'w host \<Rightarrow> worker_config \<Rightarrow> run \<Rightarrow> step \<Rightarrow> action \<Rightarrow> tool \<Rightarrow> doc \<Rightarrow> ('w, bool \<times> figure list) eop" where
  "execute_action h cfg rn st act t args =
     (let act1 = act\<lparr>act_status := Act_Executing\<rparr>; st1 = st\<lparr>step_status := Step_Running\<rparr> in
      op_then (put_action act1 ''action.executing'')
      (op_then (put_step st1 ''step.running'')
      (op_bind (in_store op_now) (\<lambda>t0.
       op_bind (attempts h t args MAX_ATTEMPTS) (\<lambda>result.
         finish_action h cfg rn st1 act1 t args t0 result)))))"

section \<open>Verification of computed figures\<close>

text \<open>\<open>os.path.relpath\<close> of two resolved paths.\<close>

fun drop_common :: "string list \<Rightarrow> string list \<Rightarrow> string list \<times> string list" where
  "drop_common (x # xs) (y # ys) = (if x = y then drop_common xs ys else (x # xs, y # ys))"
| "drop_common xs ys = (xs, ys)"

definition rel_path :: "string \<Rightarrow> string \<Rightarrow> string" where
  "rel_path p start = (let parts = (\<lambda>s. filter (\<lambda>c. c \<noteq> []) (split_on CHR ''/'' s));
       (ps, ss) = drop_common (parts p) (parts start);
       rel = map (\<lambda>_. ''..'') ss @ ps
     in if rel = [] then ''.'' else join ''/'' rel)"

definition sum_spec :: "string \<Rightarrow> pyval \<Rightarrow> doc \<Rightarrow> pyval \<Rightarrow> doc" where
  "sum_spec rel vcol wh expect = [(''check'', VStr ''recompute_sum''), (''path'', VStr rel), (''value_column'', vcol),
     (''where'', VDict wh), (''expect'', expect), (''tolerance'', VFloat (1/100))]"

definition first_truthy :: "doc \<Rightarrow> doc \<Rightarrow> string \<Rightarrow> pyval option" where
  "first_truthy a d k = (if get_truthy a k then dget a k else dget d k)"

definition specs_of :: "(string \<Rightarrow> string) \<Rightarrow> string \<Rightarrow> figure \<Rightarrow> doc list" where
  "specs_of rp workspace c =
     (let d = fg_data c; a = fg_args c in
      if d = [] \<or> dget d ''agg'' = Some (VStr ''count'') then []
      else if \<not> get_truthy d ''path'' \<or> \<not> get_truthy d ''value_column'' then []
      else let rel = rel_path (rp (get_str d ''path'')) (rp workspace);
               vcol = opt_val d ''value_column'';
               base = (case first_truthy a d ''where'' of Some (VDict wh) \<Rightarrow> wh | _ \<Rightarrow> []);
               gcol = (case first_truthy a d ''group_by'' of Some (VStr gc) \<Rightarrow> gc | _ \<Rightarrow> [])
           in case dget d ''groups'' of
                Some (VList gs) \<Rightarrow> map (\<lambda>gv. let g = val_doc gv in
                    sum_spec rel vcol (if gcol \<noteq> [] then dset base gcol (opt_val g ''key'') else base) (opt_val g ''value'')) gs
              | _ \<Rightarrow> [sum_spec rel vcol base (opt_val d ''value'')])"

definition derive_verifications :: "(string \<Rightarrow> string) \<Rightarrow> string \<Rightarrow> figure list \<Rightarrow> doc list" where
  "derive_verifications rp workspace computed = concat (map (specs_of rp workspace) computed)"

definition text_or_empty :: "env \<Rightarrow> pyval \<Rightarrow> string" where
  "text_or_empty e v = (case v of VNone \<Rightarrow> [] | _ \<Rightarrow> py_str e v)"

definition verified_claim :: "doc \<Rightarrow> string \<Rightarrow> verification_outcome \<Rightarrow> doc" where
  "verified_claim c vid outcome =
     (let c1 = dset c ''verification_ids'' (VList (get_list c ''verification_ids'' @ [VStr vid])) in
      case outcome of
        Pass \<Rightarrow> dset (dset c1 ''provenance'' (VStr (provenance_value Verified))) ''confidence'' (VStr ''HIGH'')
      | Fail \<Rightarrow> dset (dset c1 ''refuted'' (VBool True)) ''confidence'' (VStr ''LOW'')
      | Unverifiable \<Rightarrow> c1)"

definition record_verification :: "'w host \<Rightarrow> string \<Rightarrow> string \<Rightarrow> doc \<Rightarrow> ('w, verification) eop" where
  "record_verification h rid cid spec =
     op_bind (op_gets (\<lambda>g. run_check (env (e_store g)) (h_checks h (e_world g)) spec (tc_workspace (e_ctx g)))) (\<lambda>res.
     in_store (op_bind (op_gets env) (\<lambda>e. op_bind (new_id ''ver'') (\<lambda>vid. op_bind op_now (\<lambda>t.
       let v = \<lparr>ver_run_id = rid, ver_claim_id = cid, ver_check = cr_check res, ver_outcome = cr_status res,
             ver_id = vid, ver_detail = cr_detail res, ver_expected = text_or_empty e (cr_expected res),
             ver_actual = text_or_empty e (cr_actual res), ver_created = t\<rparr>
       in op_then (put ''verifications'' (verification_to_dict v) ''verification.recorded'')
         (op_then
           (if cid = [] then op_return ()
            else op_bind (get ''claims'' cid []) (\<lambda>found. case found of
                None \<Rightarrow> op_return ()
              | Some c \<Rightarrow> (if c = [] then op_return ()
                  else op_then (put ''claims'' (verified_claim c vid (cr_status res)) ''claim.verified'') (op_return ()))))
           (op_return v)))))))"

definition verify_run :: "'w host \<Rightarrow> run \<Rightarrow> ('w, unit) eop" where
  "verify_run h rn = op_then (op_mapM (record_verification h (run_id rn) []) (run_verifications rn)) (op_return ())"

section \<open>Invariant rules\<close>

text \<open>Predicates that read the store and the rest of the engine state separately.\<close>

definition eng_pred :: "(store \<Rightarrow> bool) \<Rightarrow> ('w \<Rightarrow> tool_context \<Rightarrow> guard \<Rightarrow> bool) \<Rightarrow> 'w eng \<Rightarrow> bool" where
  "eng_pred P R g \<longleftrightarrow> P (e_store g) \<and> R (e_world g) (e_ctx g) (e_guard g)"

lemma eng_pred_store [op_inv_intros]: "op_inv P m \<Longrightarrow> op_inv (eng_pred P R) (in_store m)"
  by (auto simp: op_inv_def in_store_def eng_pred_def split: prod.splits)

lemma eng_pred_put_action: "op_inv P (put ''actions'' (action_to_dict a) ev) \<Longrightarrow> op_inv (eng_pred P R) (put_action a ev)"
  unfolding put_action_def by (intro op_inv_intros)

lemma eng_pred_put_step: "op_inv P (put ''steps'' (step_to_dict a) ev) \<Longrightarrow> op_inv (eng_pred P R) (put_step a ev)"
  unfolding put_step_def by (intro op_inv_intros)

end
