(* ===== verification/Engine.thy ===== *)
theory Engine
  imports Engine_Action
begin

text \<open>
  \<open>sworker/engine.py\<close>, the run: the step loop \<open>_execute\<close> with its budgets, safe mode and
  permission gate, \<open>_finalize\<close>, \<open>run\<close>, \<open>_resume\<close> and \<open>cancel\<close>.  The watchdog thread is part of the
  world (what it does shows in what a tool returns); the time checks between steps are in the
  loop.  Lemmas: the locale \<open>metered\<close> bounds what a guarded loop spends, tools run only past the
  gate, and what each final status implies.
\<close>

section \<open>Loop state\<close>

record xstate =
  x_run :: run
  x_failures :: nat
  x_executed :: nat
  x_blocked :: bool
  x_awaiting :: bool
  x_computed :: "figure list"
  x_actions :: int
  x_calls :: int
  x_network :: int
  x_stop :: string

definition start_state :: "worker_config \<Rightarrow> run \<Rightarrow> xstate" where
  "start_state cfg rn = \<lparr>x_run = rn, x_failures = 0, x_executed = 0, x_blocked = False, x_awaiting = False,
     x_computed = [], x_actions = wc_max_actions cfg, x_calls = wc_max_tool_calls cfg,
     x_network = wc_max_network_requests cfg, x_stop = []\<rparr>"

definition tool_ctx :: "fsys \<Rightarrow> worker_config \<Rightarrow> string \<Rightarrow> tool_context" where
  "tool_ctx fs w rid = \<lparr>tc_worker = wc_name w, tc_run_id = rid, tc_workspace = wc_workspace w,
     tc_fs_roots = resolved_fs_roots (realpath fs) w,
     tc_artifacts_dir = path_join (path_join (wc_workspace w) ''artifacts'') (wc_name w),
     tc_shell_allow = wc_shell_allow w, tc_env_allow = wc_env_allow w, tc_timeout = wc_timeout w,
     tc_max_output = wc_max_output w, tc_live_pids = [], tc_max_python_runtime = wc_max_python_runtime w,
     tc_max_shell_runtime = wc_max_shell_runtime w, tc_browser_allow = wc_browser_allow w,
     tc_browser_timeout = wc_browser_timeout w, tc_browser_downloads = wc_browser_downloads w,
     tc_browser_uploads = wc_browser_uploads w, tc_browser_credential_refs = wc_browser_credential_refs w,
     tc_browser_private_session = wc_browser_private_session w, tc_message_allow = wc_message_allow w,
     tc_message_rate_limit = wc_message_rate_limit w, tc_messages_sent = 0, tc_sandbox = wc_sandbox w,
     tc_egress_allow = wc_egress_allow w, tc_dlp_rules = wc_dlp_rules w\<rparr>"

section \<open>One step\<close>

text \<open>\<open>_exhausted\<close>; the clock is read only when no counter has run out.\<close>

definition exhausted :: "worker_config \<Rightarrow> time \<Rightarrow> xstate \<Rightarrow> ('w, string) eop" where
  "exhausted cfg started x =
     (if x_actions x \<le> 0 then op_return ''max_actions exceeded''
      else if x_calls x \<le> 0 then op_return ''max_tool_calls exceeded''
      else if x_network x \<le> 0 then op_return ''max_network_requests exceeded''
      else op_bind (in_store op_now) (\<lambda>t. op_return
        (if of_int (wc_max_runtime cfg) < t - started then ''max_runtime exceeded'' else [])))"

definition close_step_as :: "step \<Rightarrow> step_status \<Rightarrow> string \<Rightarrow> string \<Rightarrow> ('w, unit) eop" where
  "close_step_as st status note ev = put_step (st\<lparr>step_status := status, step_note := note\<rparr>) ev"

definition fail_step :: "step \<Rightarrow> string \<Rightarrow> xstate \<Rightarrow> ('w, xstate) eop" where
  "fail_step st note x = op_then (close_step_as st Step_Failed note ''step.failed'')
     (op_return (x\<lparr>x_failures := Suc (x_failures x)\<rparr>))"

definition propose :: "'w host \<Rightarrow> run \<Rightarrow> step \<Rightarrow> tool \<Rightarrow> doc \<Rightarrow> decision \<Rightarrow> ('w, action) eop" where
  "propose h rn st t args d =
     op_bind (op_lift (h_summarize h t args)) (\<lambda>summary.
     op_bind (in_store (new_id ''act'')) (\<lambda>aid. op_bind (in_store op_now) (\<lambda>now.
       let a = \<lparr>act_run_id = run_id rn, act_step_id = step_id st, act_tool = tool_name t, act_args = args,
             act_risk = dec_risk d, act_id = aid, act_status = Act_Proposed, act_summary = summary,
             act_rationale = dec_reason d, act_reason = [], act_reversible = True, act_approval_id = [],
             act_observation_id = [], act_created = now, act_executed = 0, act_attempt = 1\<rparr>
       in op_then (put_action a ''action.proposed'') (op_return a))))"

definition SAFE_MITIGATION :: string where
  "SAFE_MITIGATION = ''disable safe mode or raise its level (sworker safemode off / locked)''"

definition freeze_step :: "step \<Rightarrow> action \<Rightarrow> xstate \<Rightarrow> ('w, xstate) eop" where
  "freeze_step st a x =
     (let rid = run_id (x_run x); risk = Some (act_risk a) in
      op_bind (in_store (deg_entries rid)) (\<lambda>es.
      op_then (if list_ex (\<lambda>e. deg_category e = SAFE_MODE_BLOCK) es then op_return ()
               else op_bind (in_store (safe_reason SM_SCOPE risk)) (\<lambda>why.
                 op_then (in_store (deg_record rid SAFE_MODE_BLOCK why CRITICAL SAFE_MITIGATION)) (op_return ())))
      (op_then (put_action (a\<lparr>act_status := Act_Denied\<rparr>) ''action.denied'')
      (op_bind (in_store (safe_reason SM_SCOPE risk)) (\<lambda>why.
       op_then (close_step_as st Step_Blocked why ''step.blocked'')
         (op_return (x\<lparr>x_blocked := True\<rparr>)))))))"

definition charge :: "tool \<Rightarrow> xstate \<Rightarrow> xstate" where
  "charge t x = x\<lparr>x_actions := x_actions x - 1, x_calls := x_calls x - 1,
     x_network := (if ''network'' \<in> set (tool_categories t) then x_network x - 1 else x_network x)\<rparr>"

definition last5 :: "'a list \<Rightarrow> 'a list" where
  "last5 xs = drop (length xs - 5) xs"

definition deny_step :: "step \<Rightarrow> action \<Rightarrow> string \<Rightarrow> xstate \<Rightarrow> ('w, xstate) eop" where
  "deny_step st a why x =
     op_then (put_action (a\<lparr>act_status := Act_Denied\<rparr>) ''action.denied'')
       (op_then (close_step_as st Step_Blocked why ''step.blocked'') (op_return (x\<lparr>x_blocked := True\<rparr>)))"

definition note_pending :: "risk_level \<Rightarrow> ('w, unit) eop" where
  "note_pending r = op_modify (\<lambda>g. g\<lparr>e_guard := record_pending r (e_guard g)\<rparr>)"

definition ask_step :: "worker_config \<Rightarrow> step \<Rightarrow> action \<Rightarrow> string \<Rightarrow> xstate \<Rightarrow> ('w, xstate) eop" where
  "ask_step cfg st a why x =
     op_bind (in_store (all_evidence (run_id (x_run x)))) (\<lambda>evs.
     op_bind (in_store (request (Some cfg) a (act_summary a) why (map (\<lambda>e. get_str e ''id'') (last5 evs)))) (\<lambda>(appr, a').
     op_then (note_pending (act_risk a))
     (op_then (close_step_as st Step_Awaiting_Approval (''approval '' @ appr_id appr @ '' requested'') ''step.awaiting_approval'')
     (op_bind (in_store (transition (x_run x) Awaiting_Approval ''engine'' (''awaiting approval '' @ appr_id appr))) (\<lambda>rn.
       op_return (x\<lparr>x_run := rn, x_awaiting := True\<rparr>))))))"

definition run_step :: "'w host \<Rightarrow> worker_config \<Rightarrow> step \<Rightarrow> action \<Rightarrow> tool \<Rightarrow> doc \<Rightarrow> xstate \<Rightarrow> ('w, xstate) eop" where
  "run_step h cfg st a t args x =
     op_bind (execute_action h cfg (x_run x) st a t args) (\<lambda>(ok, figs).
       op_return (x\<lparr>x_executed := Suc (x_executed x), x_computed := x_computed x @ figs,
         x_failures := (if ok then x_failures x else Suc (x_failures x))\<rparr>))"

text \<open>Past validation: the decision, the proposal, the safe-mode gate, the budgets, the decision's
  three outcomes.\<close>

definition gate_step :: "'w host \<Rightarrow> worker_config \<Rightarrow> step \<Rightarrow> tool \<Rightarrow> doc \<Rightarrow> decision \<Rightarrow> xstate \<Rightarrow> ('w, xstate) eop" where
  "gate_step h cfg st t args d x =
     op_bind (propose h (x_run x) st t args d) (\<lambda>a.
     op_bind (in_store (is_blocked SM_SCOPE (Some (dec_risk d)))) (\<lambda>frozen.
       if frozen then freeze_step st a x
       else if dec_denied d then deny_step st a (dec_reason d) (charge t x)
       else if dec_needs_approval d then ask_step cfg st a (dec_reason d) (charge t x)
       else run_step h cfg st a t args (charge t x)))"

definition decide_step :: "'w host \<Rightarrow> worker_config \<Rightarrow> tool \<Rightarrow> doc \<Rightarrow> ('w, decision) eop" where
  "decide_step h cfg t args =
     op_bind (op_gets (\<lambda>g. evaluate (env (e_store g)) (h_parse h) cfg (e_guard g) t args)) op_lift"

definition unknown_tool :: "registry \<Rightarrow> string \<Rightarrow> string" where
  "unknown_tool reg name = ''unknown tool: '' @ repr_str name @ '' (have: ['' @ join '', '' (map repr_str (reg_names reg)) @ ''])''"

definition exec_step :: "'w host \<Rightarrow> worker_config \<Rightarrow> registry \<Rightarrow> step \<Rightarrow> xstate \<Rightarrow> ('w, xstate) eop" where
  "exec_step h cfg reg st x =
     (if step_tool st = [] then
        op_then (close_step_as st Step_Skipped ''reasoning step; no tool invocation'' ''step.skipped'') (op_return x)
      else case reg_get reg (step_tool st) of
          Inl _ \<Rightarrow> fail_step st (unknown_tool reg (step_tool st)) x
        | Inr t \<Rightarrow> op_bind (op_gets (\<lambda>g. validate (env (e_store g)) t (step_args st))) (\<lambda>v. case v of
              Inl err \<Rightarrow> (if err = ToolError then fail_step st (''invalid arguments: '' @ h_invalid h t (step_args st)) x
                         else op_raise err)
            | Inr args \<Rightarrow> op_bind (decide_step h cfg t args) (\<lambda>d. gate_step h cfg st t args d x)))"

fun exec_steps :: "'w host \<Rightarrow> worker_config \<Rightarrow> registry \<Rightarrow> time \<Rightarrow> step list \<Rightarrow> xstate \<Rightarrow> ('w, xstate) eop" where
  "exec_steps h cfg reg started [] x = op_return x"
| "exec_steps h cfg reg started (st # sts) x =
     op_bind (exhausted cfg started x) (\<lambda>msg.
       if msg \<noteq> [] then op_return (x\<lparr>x_stop := msg, x_run := (x_run x)\<lparr>run_error := msg\<rparr>\<rparr>)
       else op_bind (exec_step h cfg reg st x) (exec_steps h cfg reg started sts))"

section \<open>Finalization\<close>

record run_result =
  rr_run :: run
  rr_status :: run_status
  rr_summary :: string
  rr_artifacts :: "doc list"
  rr_pending :: "doc list"

text \<open>What the finalizer has read from the store.\<close>

record ledgers =
  lg_evidence :: "doc list"
  lg_claims :: "doc list"
  lg_artifacts :: "doc list"
  lg_pending :: "doc list"
  lg_checks :: "doc list"

definition read_ledgers :: "string \<Rightarrow> ledgers sop" where
  "read_ledgers rid =
     op_bind (all_evidence rid) (\<lambda>evs. op_bind (all_claims rid) (\<lambda>cls.
     op_bind (find_rows ''artifacts'' (by_cols [(''run_id'', VStr rid)])) (\<lambda>arts.
     op_bind (pending rid) (\<lambda>pend.
     op_bind (find_rows ''verifications'' (by_cols [(''run_id'', VStr rid)])) (\<lambda>vers.
       op_return \<lparr>lg_evidence = evs, lg_claims = cls, lg_artifacts = arts, lg_pending = pend, lg_checks = vers\<rparr>)))))"

definition checks_with :: "verification_outcome \<Rightarrow> ledgers \<Rightarrow> doc list" where
  "checks_with oc lg = filter (\<lambda>v. get_str v ''outcome'' = verification_outcome_value oc) (lg_checks lg)"

definition base_status :: "string \<Rightarrow> bool \<Rightarrow> bool \<Rightarrow> nat \<Rightarrow> nat \<Rightarrow> ledgers \<Rightarrow> run_status" where
  "base_status stop awaiting blocked executed failures lg =
     (if stop \<noteq> [] then Blocked
      else if awaiting \<or> lg_pending lg \<noteq> [] then Awaiting_Approval
      else if blocked then Blocked
      else if checks_with Fail lg \<noteq> [] then Partial_Success
      else if executed = 0 then (if failures \<noteq> 0 then Failed else Insufficient_Evidence)
      else if failures \<noteq> 0 \<and> executed \<le> failures then Failed
      else if failures \<noteq> 0 then Partial_Success
      else if lg_evidence lg = [] then Insufficient_Evidence
      else Success)"

definition exposed_ids :: "ledgers \<Rightarrow> string list" where
  "exposed_ids lg = remdups (concat (map (\<lambda>a. map val_str (get_list a ''claim_ids'')) (lg_artifacts lg)))"

text \<open>\<open>claims_by_id\<close>: a later claim with the same id wins.\<close>

definition claim_by_id :: "ledgers \<Rightarrow> string \<Rightarrow> doc option" where
  "claim_by_id lg cid = List.find (\<lambda>c. get_str c ''id'' = cid) (rev (lg_claims lg))"

definition unbacked :: "ledgers \<Rightarrow> string list" where
  "unbacked lg = filter (\<lambda>cid. case claim_by_id lg cid of None \<Rightarrow> False
     | Some c \<Rightarrow> \<not> get_truthy c ''evidence_ids'' \<and> \<not> get_truthy c ''verification_ids'') (exposed_ids lg)"

definition or_error :: "string \<Rightarrow> string \<Rightarrow> string" where
  "or_error err msg = (if err \<noteq> [] then err else msg)"

definition count_str :: "'a list \<Rightarrow> string" where
  "count_str xs = int_str (int (length xs))"

text \<open>The status and \<open>run.error\<close> before degradations.\<close>

definition graded :: "string \<Rightarrow> run_status \<Rightarrow> ledgers \<Rightarrow> run_status \<times> string" where
  "graded err st lg =
     (let (st1, err1) = (if st = Success \<and> checks_with Unverifiable lg \<noteq> []
            then (Partial_Success, or_error err (count_str (checks_with Unverifiable lg) @ '' verification check(s) could not be proven''))
            else (st, err))
      in if st1 = Success \<and> unbacked lg \<noteq> []
         then (Partial_Success, or_error err1 (count_str (unbacked lg) @ '' surfaced claim(s) have no provenance (evidence/verification)''))
         else (st1, err1))"

definition summary_line :: "run_status \<Rightarrow> nat \<Rightarrow> nat \<Rightarrow> ledgers \<Rightarrow> figure list \<Rightarrow> string" where
  "summary_line st executed failures lg computed =
     join ''; '' ([run_status_value st, int_str (int executed) @ '' action(s) executed'',
       int_str (int failures) @ '' failed'', count_str (lg_evidence lg) @ '' evidence item(s)'',
       count_str (lg_artifacts lg) @ '' artifact(s)'']
       @ (if lg_pending lg = [] then [] else [count_str (lg_pending lg) @ '' awaiting approval''])
       @ (if computed = [] then [] else [''computed: '' @ join ''; '' (filter (\<lambda>f. f \<noteq> []) (map fg_summary computed))]))"

text \<open>The legal path to the final status.\<close>

definition settle_status :: "run \<Rightarrow> run_status \<Rightarrow> run sop" where
  "settle_status rn st =
     (if st = run_status rn \<or> is_terminal (run_status rn) then op_return rn
      else op_bind (if run_status rn = Awaiting_Approval
                    then transition rn Executing ''engine'' ''resumed after approval'' else op_return rn) (\<lambda>rn1.
           op_bind (if run_status rn1 \<noteq> Verifying then transition rn1 Verifying ''engine'' ''verifying'' else op_return rn1) (\<lambda>rn2.
           transition rn2 st ''engine'' ''final status'')))"

definition degrade :: "string \<Rightarrow> run_status \<times> string \<Rightarrow> (run_status \<times> string) sop" where
  "degrade rid se = (case se of (st, err) \<Rightarrow>
     if st = Success
     then op_bind (any_critical rid) (\<lambda>crit. op_return
       (if crit then (Partial_Success, or_error err ''run completed with a critical capability degradation'') else (st, err)))
     else op_return (st, err))"

definition finalize :: "run \<Rightarrow> nat \<Rightarrow> nat \<Rightarrow> bool \<Rightarrow> bool \<Rightarrow> figure list \<Rightarrow> string \<Rightarrow> run_result sop" where
  "finalize rn failures executed blocked awaiting computed stop =
     op_bind (read_ledgers (run_id rn)) (\<lambda>lg.
       let g = graded (if stop \<noteq> [] then stop else run_error rn) (base_status stop awaiting blocked executed failures lg) lg in
       op_bind (deg_summary (run_id rn)) (\<lambda>degs.
       op_bind (degrade (run_id rn) g) (\<lambda>(st, err).
       op_bind (settle_status (rn\<lparr>run_error := err, run_degradations := degs\<rparr>) st) (\<lambda>rn1.
       op_bind op_now (\<lambda>t.
       op_bind (for_run (run_id rn)) (\<lambda>apps.
         let rn2 = rn1\<lparr>run_finished := t, run_evidence_count := int (length (lg_evidence lg)),
               run_claim_count := int (length (lg_claims lg)), run_artifact_ids := map (\<lambda>a. get_str a ''id'') (lg_artifacts lg),
               run_approval_count := int (length apps), run_summary := summary_line st executed failures lg computed\<rparr>
         in op_then (put ''runs'' (run_to_dict rn2) ''run.finished'')
              (op_return \<lparr>rr_run = rn2, rr_status = st, rr_summary = run_summary rn2, rr_artifacts = lg_artifacts lg,
                 rr_pending = lg_pending lg\<rparr>)))))))"

section \<open>The execution of a plan\<close>

definition figure_lines :: "figure list \<Rightarrow> string" where
  "figure_lines computed = ''Derived figures (computed from source CSV):'' @ nl @
     join nl (map (\<lambda>f. ''- '' @ f) (filter (\<lambda>f. f \<noteq> []) (map fg_summary computed)))"

definition str_rstrip :: "string \<Rightarrow> string" where
  "str_rstrip s = rev (dropWhile is_space (rev s))"

text \<open>One artifact of \<open>_backfill_artifact_figures\<close>.  Only an \<open>OSError\<close> of the read is caught.\<close>

definition backfill_one :: "'w host \<Rightarrow> figure list \<Rightarrow> doc \<Rightarrow> ('w, unit) eop" where
  "backfill_one h computed art =
     op_bind (op_gets (\<lambda>g. resolve (h_fs h (e_world g)) (e_ctx g) False (get_str art ''path''))) (\<lambda>res. case res of
         Inl _ \<Rightarrow> op_return ()
       | Inr p \<Rightarrow> op_bind (op_gets (\<lambda>g. (h_isfile h (e_world g) p, h_text h (e_world g) p))) (\<lambda>(isf, txt).
           if \<not> isf then op_return ()
           else case txt of
               Inl err \<Rightarrow> (if err = OSError then op_return () else op_raise err)
             | Inr body \<Rightarrow> (if contains body ''Derived figures'' then op_return ()
                 else op_then (op_modify (\<lambda>g. g\<lparr>e_world := h_write h p (str_rstrip body @ nl @ nl @ figure_lines computed @ nl) (e_world g)\<rparr>))
                   (op_bind (op_gets (\<lambda>g. case h_size h (e_world g) p of Some n \<Rightarrow> n | None \<Rightarrow> 0)) (\<lambda>n.
                     op_then (in_store (put ''artifacts'' (dset art ''bytes'' (VInt n)) ''artifact.updated'')) (op_return ()))))))"

definition backfill :: "'w host \<Rightarrow> string \<Rightarrow> figure list \<Rightarrow> ('w, unit) eop" where
  "backfill h rid computed =
     (if computed = [] then op_return ()
      else op_bind (in_store (find_rows ''artifacts'' (by_cols [(''run_id'', VStr rid)]))) (\<lambda>arts.
        op_then (op_mapM (backfill_one h computed) arts) (op_return ())))"

text \<open>The probe compares tool names that contain a dot with names that do not.\<close>

definition KNOWLEDGE_UNCOMPILED :: string where "KNOWLEDGE_UNCOMPILED = ''knowledge_uncompiled''"

definition probe_knowledge :: "'w host \<Rightarrow> registry \<Rightarrow> string \<Rightarrow> ('w, unit) eop" where
  "probe_knowledge h reg rid =
     (if list_ex (\<lambda>t. t \<in> set (reg_names reg)) [''knowledge_search'', ''knowledge_compile'']
      then op_bind (op_gets (\<lambda>g. h_atlas h (e_world g))) (\<lambda>up.
        if up = Some False
        then op_then (in_store (deg_record rid KNOWLEDGE_UNCOMPILED
               ''Hermes Atlas unavailable; knowledge served via uncompiled plaintext grep'' WARN
               ''install hermes-atlas / set SWORKER_ATLAS_HOME'')) (op_return ())
        else op_return ())
      else op_return ())"

definition enter_verifying :: "xstate \<Rightarrow> run sop" where
  "enter_verifying x =
     (if x_awaiting x then op_return (x_run x)
      else op_bind (if run_status (x_run x) = Awaiting_Approval
                    then transition (x_run x) Executing ''engine'' ''resumed after approval'' else op_return (x_run x))
           (\<lambda>rn. transition rn Verifying ''engine'' ''verifying''))"

definition execute :: "'w host \<Rightarrow> worker_config \<Rightarrow> registry \<Rightarrow> run \<Rightarrow> step list \<Rightarrow> ('w, run_result) eop" where
  "execute h cfg reg rn0 steps =
     op_bind (in_store op_now) (\<lambda>started.
     op_bind (in_store (transition rn0 Executing ''engine'' ''executing'')) (\<lambda>rn.
     op_then (probe_knowledge h reg (run_id rn))
     (op_bind (exec_steps h cfg reg started steps (start_state cfg rn)) (\<lambda>x.
      op_bind (op_gets (\<lambda>g. derive_verifications (realpath (h_fs h (e_world g))) (wc_workspace cfg) (x_computed x))) (\<lambda>specs.
        let x1 = x\<lparr>x_run := (x_run x)\<lparr>run_verifications := specs\<rparr>\<rparr> in
        op_then (verify_run h (x_run x1))
        (op_bind (in_store (enter_verifying x1)) (\<lambda>rn1.
         op_then (backfill h (run_id rn1) (x_computed x1))
           (in_store (finalize rn1 (x_failures x) (x_executed x) (x_blocked x) (x_awaiting x) (x_computed x) (x_stop x))))))))))"

section \<open>Runs\<close>

definition MAX_STEPS :: nat where "MAX_STEPS = 24"

definition step_text :: "env \<Rightarrow> nat \<Rightarrow> doc \<Rightarrow> string" where
  "step_text e i s = (let d = py_str e (first_of s [''description'', ''tool'']) in
     if \<not> get_truthy s ''description'' \<and> \<not> get_truthy s ''tool'' then ''step '' @ int_str (int i) else d)"

definition plan_step :: "string \<Rightarrow> string \<Rightarrow> nat \<times> doc \<Rightarrow> step sop" where
  "plan_step rid pid is = (case is of (i, s) \<Rightarrow>
     op_bind (op_gets env) (\<lambda>e. op_bind (op_lift (as_dict (get_or s ''args'' (VDict [])))) (\<lambda>args.
     op_bind (new_id ''step'') (\<lambda>sid.
       let st = \<lparr>step_run_id = rid, step_plan_id = pid, step_index = int i, step_description = step_text e i s,
             step_id = sid, step_tool = py_str e (first_of s [''tool'']), step_args = args, step_status = Step_Pending,
             step_note = [], step_observation_id = [], step_detail = []\<rparr>
       in op_then (put ''steps'' (step_to_dict st) ''step.planned'') (op_return st)))))"

definition new_task :: "worker_config \<Rightarrow> string \<Rightarrow> string \<Rightarrow> string \<Rightarrow> doc \<Rightarrow> task sop" where
  "new_task w req trigger procedure inputs =
     op_bind (new_id ''task'') (\<lambda>tid. op_bind op_now (\<lambda>t.
       let tk = \<lparr>task_request = req, task_worker = wc_name w, task_id = tid, task_intent = [], task_created = t,
             task_origin = ''cli'', task_trigger = trigger, task_procedure = procedure, task_inputs = inputs\<rparr>
       in op_then (put ''tasks'' (task_to_dict tk) ''task.created'') (op_return tk)))"

definition new_run :: "worker_config \<Rightarrow> string \<Rightarrow> string \<Rightarrow> string \<Rightarrow> run sop" where
  "new_run w tid trigger procedure =
     op_bind (new_id ''run'') (\<lambda>rid. op_bind op_now (\<lambda>t.
       let rn = \<lparr>run_task_id = tid, run_worker = wc_name w, run_id = rid, run_status = Pending, run_plan_id = [],
             run_intent = [], run_trigger = trigger, run_procedure = procedure, run_started = t, run_finished = 0,
             run_summary = [], run_error = [], run_evidence_count = 0, run_claim_count = 0, run_approval_count = 0,
             run_artifact_ids = [], run_verifications = [], run_seq = 0, run_degradations = []\<rparr>
       in op_then (put ''runs'' (run_to_dict rn) ''run.started'') (op_return rn)))"

text \<open>An open incident blocks the run; only the status reaches the persisted row.\<close>

definition block_run :: "run \<Rightarrow> run_result sop" where
  "block_run rn =
     op_then (deg_record (run_id rn) INCIDENT_ACTIVE ''an incident is open; new runs are refused until it is closed'' CRITICAL
       ''sworker incident close  (then sworker safemode off to stand the platform back down)'')
     (op_bind op_now (\<lambda>t. op_bind (deg_summary (run_id rn)) (\<lambda>degs.
      op_bind (transition (rn\<lparr>run_summary := ''blocked: an incident is open'', run_error := ''incident_active'',
          run_finished := t, run_degradations := degs\<rparr>) Blocked ''engine'' ''incident active'') (\<lambda>rn1.
        op_return \<lparr>rr_run = rn1, rr_status = Blocked, rr_summary = run_summary rn1, rr_artifacts = [], rr_pending = []\<rparr>))))"

definition enum_list :: "'a list \<Rightarrow> (nat \<times> 'a) list" where
  "enum_list xs = List.enumerate 0 xs"

definition planned_run :: "'w host \<Rightarrow> worker_config \<Rightarrow> registry \<Rightarrow> string \<Rightarrow> string \<Rightarrow> doc \<Rightarrow> run \<Rightarrow> ('w, run_result) eop" where
  "planned_run h w reg req procedure inputs rn =
     op_bind (op_gets (\<lambda>g. make_plan ((h_planner h (e_world g))\<lparr>pl_env := env (e_store g)\<rparr>) w reg req procedure inputs)) (\<lambda>pl.
     op_bind (op_lift pl) (\<lambda>(intent, steps).
     op_bind (op_gets (\<lambda>g. h_llm_up h (e_world g))) (\<lambda>up.
     op_bind (in_store (new_id ''plan'')) (\<lambda>pid. op_bind (in_store op_now) (\<lambda>t.
       let p = \<lparr>plan_run_id = run_id rn, plan_id = pid, plan_task_id = [], plan_intent = intent,
             plan_rationale = (if up then ''planner'' else ''deterministic fallback''), plan_step_ids = [],
             plan_created = t, plan_source = ''model''\<rparr>
       in op_then (in_store (put ''plans'' (plan_to_dict p) ''plan.created''))
         (op_bind (in_store (op_mapM (plan_step (run_id rn) pid) (enum_list (take MAX_STEPS steps)))) (\<lambda>sts.
          op_then (in_store (put ''plans'' (plan_to_dict (p\<lparr>plan_step_ids := map step_id sts\<rparr>)) ''plan.finalized''))
            (execute h w reg (rn\<lparr>run_intent := intent\<rparr>) sts))))))))"

definition open_run :: "'w host \<Rightarrow> worker_config \<Rightarrow> string \<Rightarrow> ('w, unit) eop" where
  "open_run h w rid = op_modify (\<lambda>g. g\<lparr>e_guard := new_guard, e_ctx := tool_ctx (h_fs h (e_world g)) w rid, e_active := In_Use\<rparr>)"

definition note_model :: "'w host \<Rightarrow> string \<Rightarrow> ('w, unit) eop" where
  "note_model h rid = op_bind (op_gets (\<lambda>g. h_llm_up h (e_world g))) (\<lambda>up.
     if up then op_return ()
     else op_then (in_store (deg_record rid MODEL_FALLBACK
            ''no reachable language model; using deterministic fallback planner'' WARN
            ''start a local model at SWORKER_LLM_URL / --llm-url'')) (op_return ()))"

text \<open>\<open>run\<close> without \<open>resume_run_id\<close>.\<close>

definition run_worker :: "'w host \<Rightarrow> worker_config \<Rightarrow> registry \<Rightarrow> string \<Rightarrow> string \<Rightarrow> string \<Rightarrow> doc \<Rightarrow> ('w, run_result) eop" where
  "run_worker h w reg req procedure trigger inputs =
     (if wc_disabled w then op_raise RuntimeError
      else op_bind (in_store (new_task w req trigger procedure inputs)) (\<lambda>tk.
       op_bind (in_store (new_run w (task_id tk) trigger procedure)) (\<lambda>rn0.
       op_bind (in_store (transition rn0 Planning ''engine'' ''planning'')) (\<lambda>rn.
       op_then (open_run h w (run_id rn))
       (op_then (note_model h (run_id rn))
       (op_bind (in_store (inc_active INC_SCOPE)) (\<lambda>frozen.
         if frozen then in_store (block_run rn) else planned_run h w reg req procedure inputs rn)))))))"

section \<open>Resuming\<close>

text \<open>Records rebuilt from their rows, with the defaults of the dataclasses.  A stored value outside
  an enumeration, which no code here writes, raises.\<close>

definition run_of_doc :: "doc \<Rightarrow> error + run" where
  "run_of_doc d =
     (if dget d ''task_id'' = None \<or> dget d ''worker'' = None then Inl TypeError
      else case run_status_of (case dget d ''status'' of Some v \<Rightarrow> val_str v | None \<Rightarrow> ''PENDING'') of
          None \<Rightarrow> Inl ValueError
        | Some st \<Rightarrow> Inr \<lparr>run_task_id = get_str d ''task_id'', run_worker = get_str d ''worker'', run_id = get_str d ''id'',
            run_status = st, run_plan_id = get_str d ''plan_id'', run_intent = get_str d ''intent'',
            run_trigger = str_dflt d ''trigger'' ''manual'', run_procedure = get_str d ''procedure'', run_started = get_num d ''started'',
            run_finished = get_num d ''finished'', run_summary = get_str d ''summary'', run_error = get_str d ''error'',
            run_evidence_count = get_int d ''evidence_count'' 0, run_claim_count = get_int d ''claim_count'' 0,
            run_approval_count = get_int d ''approval_count'' 0, run_artifact_ids = map val_str (get_list d ''artifact_ids''),
            run_verifications = map val_doc (get_list d ''verifications''), run_seq = get_int d ''seq'' 0,
            run_degradations = map val_str (get_list d ''degradations'')\<rparr>)"

definition action_of_doc :: "doc \<Rightarrow> error + action" where
  "action_of_doc d =
     (case (risk_level_of (get_str d ''risk''), action_status_of (str_dflt d ''status'' ''PROPOSED'')) of
        (Some r, Some st) \<Rightarrow> Inr \<lparr>act_run_id = get_str d ''run_id'', act_step_id = get_str d ''step_id'',
          act_tool = get_str d ''tool'', act_args = get_dict d ''args'', act_risk = r, act_id = get_str d ''id'', act_status = st,
          act_summary = get_str d ''summary'', act_rationale = get_str d ''rationale'', act_reason = get_str d ''reason'',
          act_reversible = (case dget d ''reversible'' of Some v \<Rightarrow> truthy v | None \<Rightarrow> True),
          act_approval_id = get_str d ''approval_id'', act_observation_id = get_str d ''observation_id'',
          act_created = get_num d ''created'', act_executed = get_num d ''executed'', act_attempt = get_int d ''attempt'' 1\<rparr>
      | _ \<Rightarrow> Inl ValueError)"

definition step_of_doc :: "doc \<Rightarrow> error + step" where
  "step_of_doc d =
     (case step_status_of (str_dflt d ''status'' ''PENDING'') of
        None \<Rightarrow> Inl ValueError
      | Some st \<Rightarrow> Inr \<lparr>step_run_id = get_str d ''run_id'', step_plan_id = get_str d ''plan_id'', step_index = get_int d ''index'' 0,
          step_description = get_str d ''description'', step_id = get_str d ''id'', step_tool = get_str d ''tool'',
          step_args = get_dict d ''args'', step_status = st, step_note = get_str d ''note'',
          step_observation_id = get_str d ''observation_id'', step_detail = get_str d ''detail''\<rparr>)"

definition remember_rejections :: "doc list \<Rightarrow> ('w, unit) eop" where
  "remember_rejections apps =
     op_then (op_mapM (\<lambda>a. if get_str a ''state'' = ''REJECTED''
        then (case risk_level_of (get_str a ''risk'') of
                None \<Rightarrow> op_raise ValueError
              | Some r \<Rightarrow> op_modify (\<lambda>g. g\<lparr>e_guard := record_rejection r (e_guard g)\<rparr>))
        else op_return ()) apps) (op_return ())"

record rstate =
  r_executed :: nat
  r_failures :: nat
  r_blocked :: bool

definition resume_action :: "'w host \<Rightarrow> worker_config \<Rightarrow> registry \<Rightarrow> run \<Rightarrow> doc \<Rightarrow> doc option \<Rightarrow> rstate \<Rightarrow> ('w, rstate) eop" where
  "resume_action h w reg rn act srow r =
     op_bind (op_lift (action_of_doc act)) (\<lambda>a.
     op_bind (op_lift (case srow of None \<Rightarrow> Inl AttributeError | Some d \<Rightarrow> step_of_doc d)) (\<lambda>st.
     op_bind (op_lift (reg_get reg (act_tool a))) (\<lambda>t.
     op_bind (execute_action h w rn st a t (act_args a)) (\<lambda>(ok, figs).
       op_return (r\<lparr>r_executed := Suc (r_executed r), r_failures := (if ok then r_failures r else Suc (r_failures r))\<rparr>)))))"

definition resume_rejected :: "string \<Rightarrow> doc option \<Rightarrow> rstate \<Rightarrow> ('w, rstate) eop" where
  "resume_rejected aid srow r =
     op_then (case srow of None \<Rightarrow> op_return ()
        | Some d \<Rightarrow> (if d = [] then op_return ()
            else op_then (in_store (put ''steps'' (dset (dset d ''status'' (VStr (step_status_value Step_Blocked)))
                   ''note'' (VStr (''human rejected approval '' @ aid))) ''step.blocked'')) (op_return ())))
       (op_return (r\<lparr>r_blocked := True\<rparr>))"

definition resume_one :: "'w host \<Rightarrow> worker_config \<Rightarrow> registry \<Rightarrow> run \<Rightarrow> doc \<Rightarrow> rstate \<Rightarrow> ('w, rstate) eop" where
  "resume_one h w reg rn app r =
     op_bind (in_store (get ''actions'' (get_str app ''action_id'') [])) (\<lambda>found. case found of
         None \<Rightarrow> op_return r
       | Some act \<Rightarrow> (if act = [] then op_return r
          else op_bind (in_store (get ''steps'' (get_str act ''step_id'') [])) (\<lambda>srow.
            if get_str app ''state'' = ''APPROVED'' \<and> get_str act ''status'' = action_status_value Act_Approved
            then resume_action h w reg rn act srow r
            else if get_str app ''state'' = ''REJECTED'' then resume_rejected (get_str app ''id'') srow r
            else op_return r)))"

fun resume_all :: "'w host \<Rightarrow> worker_config \<Rightarrow> registry \<Rightarrow> run \<Rightarrow> doc list \<Rightarrow> rstate \<Rightarrow> ('w, rstate) eop" where
  "resume_all h w reg rn [] r = op_return r"
| "resume_all h w reg rn (a # as) r = op_bind (resume_one h w reg rn a r) (resume_all h w reg rn as)"

definition reopen_run :: "'w host \<Rightarrow> worker_config \<Rightarrow> string \<Rightarrow> ('w, unit) eop" where
  "reopen_run h w rid = op_modify (\<lambda>g. g\<lparr>e_ctx := tool_ctx (h_fs h (e_world g)) w rid,
     e_active := (case e_active g of In_Use \<Rightarrow> Earlier (e_ctx g) | a \<Rightarrow> a)\<rparr>)"

definition resume_run :: "'w host \<Rightarrow> worker_config \<Rightarrow> registry \<Rightarrow> string \<Rightarrow> ('w, run_result) eop" where
  "resume_run h w reg rid =
     op_bind (in_store (get ''runs'' rid [])) (\<lambda>found. case found of
         None \<Rightarrow> op_raise KeyError
       | Some d \<Rightarrow> (if d = [] then op_raise KeyError
          else op_bind (op_lift (run_of_doc d)) (\<lambda>rn.
            if is_terminal (run_status rn)
            then op_return \<lparr>rr_run = rn, rr_status = run_status rn,
                   rr_summary = (if run_summary rn \<noteq> [] then run_summary rn else ''run already '' @ run_status_value (run_status rn)),
                   rr_artifacts = [], rr_pending = []\<rparr>
            else op_then (op_modify (\<lambda>g. g\<lparr>e_guard := new_guard\<rparr>))
             (op_bind (in_store (for_run (run_id rn))) (\<lambda>apps.
              op_then (remember_rejections apps)
              (op_then (reopen_run h w (run_id rn))
              (op_bind (in_store (for_run (run_id rn))) (\<lambda>apps2.
               op_bind (resume_all h w reg rn apps2 \<lparr>r_executed = 0, r_failures = 0, r_blocked = False\<rparr>) (\<lambda>r.
                 in_store (finalize rn (r_failures r) (r_executed r) (r_blocked r) False [] [])))))))))) "

section \<open>Cancelling\<close>

definition kill_active :: "'w host \<Rightarrow> string \<Rightarrow> ('w, unit) eop" where
  "kill_active h rid = op_modify (\<lambda>g.
     let ctx = (case e_active g of No_Ctx \<Rightarrow> None | In_Use \<Rightarrow> Some (e_ctx g) | Earlier c \<Rightarrow> Some c) in
     case ctx of None \<Rightarrow> g
     | Some c \<Rightarrow> (if rid \<noteq> [] \<and> tc_run_id c \<noteq> rid then g
         else if tc_live_pids c = [] then g
         else g\<lparr>e_world := h_kill h (tc_live_pids c) (e_world g), e_active := No_Ctx\<rparr>))"

definition cancel_rows :: "string \<Rightarrow> string \<Rightarrow> string \<Rightarrow> unit sop" where
  "cancel_rows rid actor reason =
     op_bind (find_rows ''steps'' (by_cols [(''run_id'', VStr rid), (''status'', VStr (step_status_value Step_Running))])) (\<lambda>sts.
     op_then (op_mapM (\<lambda>d. put ''steps'' (dset (dset d ''status'' (VStr (step_status_value Step_Blocked)))
        ''note'' (VStr (str_strip (''cancelled by '' @ actor @ '': '' @ reason)))) ''step.cancelled'') sts)
     (op_bind (find_rows ''actions'' (by_cols [(''run_id'', VStr rid), (''status'', VStr (action_status_value Act_Executing))])) (\<lambda>acts.
      op_then (op_mapM (\<lambda>d. put ''actions'' (dset d ''status'' (VStr (action_status_value Act_Skipped))) ''action.cancelled'') acts)
        (op_return ()))))"

definition cancel_run :: "'w host \<Rightarrow> string \<Rightarrow> string \<Rightarrow> string \<Rightarrow> ('w, run) eop" where
  "cancel_run h rid actor reason =
     op_bind (in_store (get ''runs'' rid [])) (\<lambda>found. case found of
         None \<Rightarrow> op_raise KeyError
       | Some d \<Rightarrow> (if d = [] then op_raise KeyError
          else op_bind (op_lift (run_of_doc d)) (\<lambda>rn.
            if is_terminal (run_status rn) then op_return rn
            else op_then (kill_active h rid)
             (in_store (op_then (cancel_rows (run_id rn) actor reason)
               (op_bind op_now (\<lambda>t.
                let why = (if reason = [] then ''cancelled'' else reason) in
                op_bind (transition (rn\<lparr>run_error := why, run_finished := t\<rparr>) Cancelled actor why) (\<lambda>rn1.
                op_bind (get ''runs'' (run_id rn) []) (\<lambda>row. op_then
                  (case row of None \<Rightarrow> op_return ()
                   | Some p \<Rightarrow> op_then (put ''runs'' (dset (dset p ''error'' (VStr why)) ''finished'' (VFloat t)) ''run.cancelled'') (op_return ()))
                  (op_return rn1))))))))))"

end
