(* ===== verification/Op_Rules.thy ===== *)
theory Op_Rules
  imports Prelude
begin

text \<open>
  More rules for operations with state and exceptions: results by cases, invariants by cases, and
  total correctness (\<open>op_ok I m\<close>: from a state with \<open>I\<close> the operation returns, raising nothing, and
  \<open>I\<close> still holds).  The rule collections follow the syntax of a handler.
\<close>

section \<open>Results\<close>

lemma op_post_bind2: "op_post Q m \<Longrightarrow> (\<And>x. Q x \<Longrightarrow> op_post R (f x)) \<Longrightarrow> op_post R (op_bind m f)"
  unfolding op_post_def op_bind_def by (auto split: prod.splits sum.splits) blast

lemma op_post_sum [op_post_intros]:
  "(\<And>e. v = Inl e \<Longrightarrow> op_post Q (f e)) \<Longrightarrow> (\<And>x. v = Inr x \<Longrightarrow> op_post Q (g x)) \<Longrightarrow>
   op_post Q (case v of Inl e \<Rightarrow> f e | Inr x \<Rightarrow> g x)"
  by (cases v) auto

lemma op_post_prod [op_post_intros]:
  "(\<And>a b. p = (a, b) \<Longrightarrow> op_post Q (f a b)) \<Longrightarrow> op_post Q (case p of (a, b) \<Rightarrow> f a b)"
  by (cases p) auto

lemma op_post_True [simp]: "op_post (\<lambda>_. True) m"
  by (simp add: op_post_def)

lemma bindD: "op_bind m f s = (Inr y, s') \<Longrightarrow> \<exists>x t. m s = (Inr x, t) \<and> f x t = (Inr y, s')"
  by (auto simp: op_bind_apply split: prod.splits sum.splits)

lemma op_bind_Inr: "m s = (Inr x, s') \<Longrightarrow> op_bind m f s = f x s'"
  by (simp add: op_bind_apply)

lemma op_then_Inr: "m s = (Inr x, s') \<Longrightarrow> op_then m n s = n s'"
  by (simp add: op_then_apply)

section \<open>Invariants\<close>

lemma op_inv_sum [op_inv_intros]:
  "(\<And>e. v = Inl e \<Longrightarrow> op_inv P (f e)) \<Longrightarrow> (\<And>x. v = Inr x \<Longrightarrow> op_inv P (g x)) \<Longrightarrow>
   op_inv P (case v of Inl e \<Rightarrow> f e | Inr x \<Rightarrow> g x)"
  by (cases v) auto

lemma op_inv_prod [op_inv_intros]:
  "(\<And>a b. p = (a, b) \<Longrightarrow> op_inv P (f a b)) \<Longrightarrow> op_inv P (case p of (a, b) \<Rightarrow> f a b)"
  by (cases p) auto

text \<open>A state known to satisfy the predicate, with the value.\<close>

lemma bind_known:
  assumes "op_inv P m" and "P g"
  shows "(\<exists>err g'. op_bind m f g = (Inl err, g') \<and> P g') \<or> (\<exists>v g'. m g = (Inr v, g') \<and> P g' \<and> op_bind m f g = f v g')"
proof -
  obtain r g' where m: "m g = (r, g')" by (cases "m g")
  with op_invD [OF assms(1,2) m] show ?thesis by (cases r) (auto simp: op_bind_apply)
qed

section \<open>Total correctness\<close>

definition op_ok :: "('s \<Rightarrow> bool) \<Rightarrow> ('s, 'a) op \<Rightarrow> bool" where
  "op_ok P m \<longleftrightarrow> (\<forall>s. P s \<longrightarrow> (\<exists>x s'. m s = (Inr x, s') \<and> P s'))"

named_theorems op_ok_intros \<open>total-correctness rules of the monadic operations\<close>

lemma op_okI: "(\<And>s. P s \<Longrightarrow> \<exists>x s'. m s = (Inr x, s') \<and> P s') \<Longrightarrow> op_ok P m"
  by (simp add: op_ok_def)

lemma op_okD: "op_ok P m \<Longrightarrow> P s \<Longrightarrow> \<exists>x s'. m s = (Inr x, s') \<and> P s'"
  by (simp add: op_ok_def)

lemma op_ok_inv: "op_ok P m \<Longrightarrow> op_inv P m"
  by (fastforce simp: op_ok_def op_inv_def)

lemma op_ok_return [op_ok_intros]: "op_ok P (op_return x)"
  by (simp add: op_ok_def)

lemma op_ok_gets [op_ok_intros]: "op_ok P (op_gets f)"
  by (simp add: op_ok_def)

lemma op_ok_bind [op_ok_intros]: "op_ok P m \<Longrightarrow> (\<And>x. op_ok P (f x)) \<Longrightarrow> op_ok P (op_bind m f)"
  unfolding op_ok_def by (metis op_bind_Inr)

lemma op_ok_then [op_ok_intros]: "op_ok P m \<Longrightarrow> op_ok P n \<Longrightarrow> op_ok P (op_then m n)"
  unfolding op_then_def by (rule op_ok_bind)

lemma op_ok_if [op_ok_intros]: "(b \<Longrightarrow> op_ok P m) \<Longrightarrow> (\<not> b \<Longrightarrow> op_ok P n) \<Longrightarrow> op_ok P (if b then m else n)"
  by simp

lemma op_ok_option [op_ok_intros]:
  "(x = None \<Longrightarrow> op_ok P m) \<Longrightarrow> (\<And>y. x = Some y \<Longrightarrow> op_ok P (f y)) \<Longrightarrow> op_ok P (case x of None \<Rightarrow> m | Some y \<Rightarrow> f y)"
  by (cases x) auto

lemma op_ok_prod [op_ok_intros]:
  "(\<And>a b. p = (a, b) \<Longrightarrow> op_ok P (f a b)) \<Longrightarrow> op_ok P (case p of (a, b) \<Rightarrow> f a b)"
  by (cases p) auto

lemma op_ok_mapM [op_ok_intros]: "(\<And>x. op_ok P (f x)) \<Longrightarrow> op_ok P (op_mapM f xs)"
  by (induction xs) (auto intro!: op_ok_intros)

section \<open>Triples\<close>

text \<open>Partial correctness between two predicates, the second on the value too.\<close>

definition op_triple :: "('s \<Rightarrow> bool) \<Rightarrow> ('s, 'a) op \<Rightarrow> ('a \<Rightarrow> 's \<Rightarrow> bool) \<Rightarrow> bool" where
  "op_triple P m Q \<longleftrightarrow> (\<forall>s x s'. P s \<longrightarrow> m s = (Inr x, s') \<longrightarrow> Q x s')"

lemma op_tripleD: "op_triple P m Q \<Longrightarrow> P s \<Longrightarrow> m s = (Inr x, s') \<Longrightarrow> Q x s'"
  by (simp add: op_triple_def)

lemma triple_bind: "op_triple P m R \<Longrightarrow> (\<And>x. op_triple (R x) (f x) Q) \<Longrightarrow> op_triple P (op_bind m f) Q"
  unfolding op_triple_def by (metis bindD)

lemma triple_then: "op_triple P m (\<lambda>_. R) \<Longrightarrow> op_triple R n Q \<Longrightarrow> op_triple P (op_then m n) Q"
  unfolding op_then_def by (rule triple_bind)

lemma triple_return: "(\<And>s. P s \<Longrightarrow> Q x s) \<Longrightarrow> op_triple P (op_return x) Q"
  by (simp add: op_triple_def)

lemma triple_inv: "op_inv P m \<Longrightarrow> op_triple P m (\<lambda>_. P)"
  unfolding op_triple_def by (metis op_invD)

lemma triple_any: "op_triple P m (\<lambda>_ _. True)"
  by (simp add: op_triple_def)

lemma triple_conj: "op_triple P m Q \<Longrightarrow> op_triple P m R \<Longrightarrow> op_triple P m (\<lambda>x s. Q x s \<and> R x s)"
  by (simp add: op_triple_def)

lemma triple_pre: "op_triple P' m Q \<Longrightarrow> (\<And>s. P s \<Longrightarrow> P' s) \<Longrightarrow> op_triple P m Q"
  unfolding op_triple_def by blast

lemma triple_post: "op_triple P m Q \<Longrightarrow> (\<And>x s. Q x s \<Longrightarrow> R x s) \<Longrightarrow> op_triple P m R"
  unfolding op_triple_def by blast

end
