(* ===== verification/Engine_Safety.thy ===== *)
theory Engine_Safety
  imports Engine Op_Rules
begin

text \<open>
  What the engine's run guarantees: tools run only past the permission and safe-mode gates, the
  budgets bound what a run executes, a success is earned, and where the run loop and the
  resumption fall short of that.  The section on invariants holds the preservation lemmas of
  every operation the loop calls.
\<close>

lemma op_inv_outcome [op_inv_intros]:
  "(\<And>r. op_inv P (f r)) \<Longrightarrow> (\<And>m. op_inv P (g m)) \<Longrightarrow> (\<And>m. op_inv P (k m)) \<Longrightarrow>
   op_inv P (case out of Ran r \<Rightarrow> f r | Bad_Invocation m \<Rightarrow> g m | Crashed m \<Rightarrow> k m)"
  by (cases out) auto

section \<open>Budgets\<close>

text \<open>A loop that asks a guard before each step and stops with its message.\<close>

fun guarded_loop ::
    "('x \<Rightarrow> ('s, string) op) \<Rightarrow> (string \<Rightarrow> 'x \<Rightarrow> 'x) \<Rightarrow> ('a \<Rightarrow> 'x \<Rightarrow> ('s, 'x) op) \<Rightarrow> 'a list \<Rightarrow> 'x \<Rightarrow> ('s, 'x) op" where
  "guarded_loop guard stop step [] x = op_return x"
| "guarded_loop guard stop step (a # as) x =
     op_bind (guard x) (\<lambda>msg. if msg \<noteq> [] then op_return (stop msg x)
       else op_bind (step a x) (guarded_loop guard stop step as))"

text \<open>The contract of a meter: a step spends no more than it takes from what is left, takes at
  most one, and the guard lets no step start with nothing left.\<close>

locale metered =
  fixes guard :: "'x \<Rightarrow> ('s, string) op" and stop :: "string \<Rightarrow> 'x \<Rightarrow> 'x"
    and step :: "'a \<Rightarrow> 'x \<Rightarrow> ('s, 'x) op" and spent left :: "'x \<Rightarrow> int"
  assumes step_spends: "op_post (\<lambda>x'. spent x' + left x' \<le> spent x + left x \<and> left x - 1 \<le> left x') (step a x)"
    and guard_stops: "op_post (\<lambda>msg. msg = [] \<longrightarrow> 0 < left x) (guard x)"
    and stop_free: "spent (stop msg x) = spent x" "left (stop msg x) = left x"
begin

lemma loop_spends: "op_post (\<lambda>x'. spent x' \<le> spent x + max 0 (left x)) (guarded_loop guard stop step as x)"
proof (induction as arbitrary: x)
  case Nil
  show ?case by (simp add: op_post_def)
next
  case (Cons a as)
  have step: "op_post (\<lambda>x''. spent x'' \<le> spent x + max 0 (left x)) (op_bind (step a x) (guarded_loop guard stop step as))"
    if pos: "0 < left x"
  proof (rule op_post_bind2 [OF step_spends])
    fix y
    assume y: "spent y + left y \<le> spent x + left x \<and> left x - 1 \<le> left y"
    have "spent z \<le> spent y + max 0 (left y) \<Longrightarrow> spent z \<le> spent x + max 0 (left x)" for z
      using y pos by linarith
    then show "op_post (\<lambda>x''. spent x'' \<le> spent x + max 0 (left x)) (guarded_loop guard stop step as y)"
      using Cons.IH [of y] unfolding op_post_def by blast
  qed
  show ?case
    unfolding guarded_loop.simps
  proof (rule op_post_bind2 [OF guard_stops], rule op_post_if)
    fix msg :: string
    assume "msg = [] \<longrightarrow> 0 < left x"
    show "msg \<noteq> [] \<Longrightarrow> op_post (\<lambda>x''. spent x'' \<le> spent x + max 0 (left x)) (op_return (stop msg x))"
      by (rule op_post_return) (simp add: stop_free)
    show "\<not> msg \<noteq> [] \<Longrightarrow> op_post (\<lambda>x''. spent x'' \<le> spent x + max 0 (left x)) (op_bind (step a x) (guarded_loop guard stop step as))"
      using \<open>msg = [] \<longrightarrow> 0 < left x\<close> step by simp
  qed
qed

end

definition stop_with :: "string \<Rightarrow> xstate \<Rightarrow> xstate" where
  "stop_with msg x = x\<lparr>x_stop := msg, x_run := (x_run x)\<lparr>run_error := msg\<rparr>\<rparr>"

lemma exec_steps_loop:
  "exec_steps h cfg reg started sts x = guarded_loop (exhausted cfg started) stop_with (exec_step h cfg reg) sts x"
proof (induction sts arbitrary: x)
  case (Cons st sts)
  have "exec_steps h cfg reg started sts = guarded_loop (exhausted cfg started) stop_with (exec_step h cfg reg) sts"
    using Cons by (rule ext)
  then show ?case by (simp only: exec_steps.simps guarded_loop.simps stop_with_def [symmetric])
qed simp

lemma exhausted_post:
  "op_post (\<lambda>msg. msg = [] \<longrightarrow> 0 < x_actions x \<and> 0 < x_calls x \<and> 0 < x_network x) (exhausted cfg started x)"
  unfolding exhausted_def by (intro op_post_intros) (auto split: if_splits)

lemmas step_defs = exec_step_def fail_step_def gate_step_def freeze_step_def deny_step_def ask_step_def run_step_def Let_def

lemma exec_step_post:
  "op_post (\<lambda>x'. int (x_executed x') + x_actions x' \<le> int (x_executed x) + x_actions x \<and> x_actions x - 1 \<le> x_actions x' \<and>
      int (x_executed x') + x_calls x' \<le> int (x_executed x) + x_calls x \<and> x_calls x - 1 \<le> x_calls x')
     (exec_step h cfg reg st x)"
  unfolding step_defs by (intro op_post_intros) (simp_all add: charge_def)

interpretation actions: metered "exhausted cfg started" stop_with "exec_step h cfg reg" "\<lambda>x. int (x_executed x)" x_actions
    for h :: "'w host" and cfg reg started
proof unfold_locales
  show "op_post (\<lambda>x'. int (x_executed x') + x_actions x' \<le> int (x_executed x) + x_actions x \<and> x_actions x - 1 \<le> x_actions x')
      (exec_step h cfg reg a x)" for a x
    using exec_step_post [of x h cfg reg a] by (simp add: op_post_def)
  show "op_post (\<lambda>msg. msg = [] \<longrightarrow> 0 < x_actions x) (exhausted cfg started x :: ('w, string) eop)" for x
    using exhausted_post [of x cfg started] unfolding op_post_def by blast
qed (simp_all add: stop_with_def)

interpretation calls: metered "exhausted cfg started" stop_with "exec_step h cfg reg" "\<lambda>x. int (x_executed x)" x_calls
    for h :: "'w host" and cfg reg started
proof unfold_locales
  show "op_post (\<lambda>x'. int (x_executed x') + x_calls x' \<le> int (x_executed x) + x_calls x \<and> x_calls x - 1 \<le> x_calls x')
      (exec_step h cfg reg a x)" for a x
    using exec_step_post [of x h cfg reg a] by (simp add: op_post_def)
  show "op_post (\<lambda>msg. msg = [] \<longrightarrow> 0 < x_calls x) (exhausted cfg started x :: ('w, string) eop)" for x
    using exhausted_post [of x cfg started] unfolding op_post_def by blast
qed (simp_all add: stop_with_def)

section \<open>Invariants of the step\<close>

text \<open>Legacy mode, the safe-mode level and the environment: no operation of a step changes them.\<close>

definition calm :: "string \<Rightarrow> env \<Rightarrow> store \<Rightarrow> bool" where
  "calm lv e s \<longleftrightarrow> \<not> enforce s \<and> level_in s = lv \<and> env s = e"

lemma calm_put [op_inv_intros]: "t \<noteq> ''meta_kv'' \<Longrightarrow> op_inv (calm lv e) (put t d ev)"
  by (auto simp: op_inv_def calm_def put_eq level_in_def split: option.split pyval.split)

lemma calm_now [op_inv_intros]: "op_inv (calm lv e) op_now"
  by (simp add: op_inv_def calm_def op_now_def)

lemma calm_id [op_inv_intros]: "op_inv (calm lv e) (new_id p)"
  by (simp add: op_inv_def calm_def new_id_def level_in_def)

lemma calm_audit [op_inv_intros]: "op_inv (calm lv e) (audit ev t r p)"
  by (simp add: op_inv_def calm_def)

lemma calm_get [op_inv_intros]: "op_inv (calm lv e) (get t rid ws)"
  by (simp add: op_inv_def)

lemma calm_find [op_inv_intros]: "op_inv (calm lv e) (find_rows t q)"
  by (simp add: op_inv_def)

lemma op_inv_list_map: "(\<And>x. op_inv P (f x)) \<Longrightarrow> op_inv P (op_then (op_mapM f xs) (op_return ()))"
  by (intro op_inv_intros)

lemma calm_deg [op_inv_intros]:
  "op_inv (calm lv e) (deg_entries rid)" "op_inv (calm lv e) (deg_record rid c r sev m)"
  unfolding deg_entries_def deg_record_def degradation_from_dict_def Let_def by (intro op_inv_intros; simp)+

lemma calm_reason [op_inv_intros]: "op_inv (calm lv e) (safe_reason sc r)" "op_inv (calm lv e) (is_blocked sc r)"
  unfolding safe_reason_def is_blocked_def safe_level_def by (intro op_inv_intros)+

lemma calm_request [op_inv_intros]: "op_inv (calm lv e) (request w a sm why evs)"
  unfolding request_def Let_def by (intro op_inv_intros) simp_all

lemma calm_transition [op_inv_intros]: "op_inv (calm lv e) (transition rn tgt actor why)"
  unfolding transition_def Let_def by (intro op_inv_intros) simp_all

lemma calm_evidence [op_inv_intros]: "op_inv (calm lv e) (from_observation rid ob t refs)"
  unfolding from_observation_def mint_def Let_def by (intro op_inv_intros) simp_all

section \<open>The gate\<close>

text \<open>The world, and the context the tools work in.\<close>

definition world_is :: "('w \<Rightarrow> tool_context \<Rightarrow> bool) \<Rightarrow> 'w \<Rightarrow> tool_context \<Rightarrow> guard \<Rightarrow> bool" where
  "world_is Q = (\<lambda>w c gd. Q w c)"

abbreviation frozen_world :: "'w \<Rightarrow> tool_context \<Rightarrow> 'w \<Rightarrow> tool_context \<Rightarrow> guard \<Rightarrow> bool" where
  "frozen_world w0 c0 \<equiv> world_is (\<lambda>w c. w = w0 \<and> c = c0)"

definition guard_is :: "(guard \<Rightarrow> bool) \<Rightarrow> 'w \<Rightarrow> tool_context \<Rightarrow> guard \<Rightarrow> bool" where
  "guard_is Q = (\<lambda>w c gd. Q gd)"

lemma step_put [op_inv_intros]:
  "op_inv (eng_pred (calm lv e) R) (close_step_as st stt note ev)"
  "op_inv (eng_pred (calm lv e) R) (put_action a ev)" "op_inv (eng_pred (calm lv e) R) (put_step st ev)"
  unfolding close_step_as_def put_action_def put_step_def by (intro op_inv_intros; simp)+

lemma inv_propose [op_inv_intros]: "op_inv (eng_pred (calm lv e) R) (propose h rn st t args d)"
  unfolding propose_def Let_def by (intro op_inv_intros)

lemma inv_fail [op_inv_intros]: "op_inv (eng_pred (calm lv e) R) (fail_step st note x)"
  unfolding fail_step_def by (intro op_inv_intros)

lemma inv_freeze [op_inv_intros]: "op_inv (eng_pred (calm lv e) R) (freeze_step st a x)"
  unfolding freeze_step_def Let_def by (intro op_inv_intros)

lemma inv_deny [op_inv_intros]: "op_inv (eng_pred (calm lv e) R) (deny_step st a why x)"
  unfolding deny_step_def by (intro op_inv_intros)

lemma inv_note [op_inv_intros]:
  "op_inv (eng_pred P (world_is Q)) (note_pending r)"
  "op_inv (eng_pred P (guard_is (\<lambda>gd. gd_refused gd = []))) (note_pending r)"
  by (simp_all add: op_inv_def note_pending_def eng_pred_def world_is_def guard_is_def record_pending_def)

lemma inv_ask:
  "(\<And>r. op_inv (eng_pred (calm lv e) R) (note_pending r)) \<Longrightarrow> op_inv (eng_pred (calm lv e) R) (ask_step cfg st a why x)"
  unfolding ask_step_def all_evidence_def by (intro op_inv_intros)

lemma inv_decide [op_inv_intros]: "op_inv P (decide_step h cfg t args)"
  unfolding decide_step_def by (intro op_inv_intros)

lemma is_blocked_calm:
  "calm lv e s \<Longrightarrow> is_blocked SM_SCOPE r s = (Inr (blocked_at lv r), s)"
  by (simp add: is_blocked_def op_bind_apply safe_level_legacy calm_def)

lemma in_store_value: "m (e_store g) = (Inr v, e_store g) \<Longrightarrow> in_store m g = (Inr v, g)"
  by (simp add: in_store_def)

text \<open>A step whose tool does not run leaves the world alone; if the tool does run, the decision
  allowed it and safe mode does not block its risk.\<close>

lemma gate_step_world:
  assumes "eng_pred (calm lv e) (frozen_world w0 c0) g"
    and "blocked_at lv (Some (dec_risk d)) \<or> dec_denied d \<or> dec_needs_approval d"
  shows "eng_pred (calm lv e) (frozen_world w0 c0) (snd (gate_step h cfg st t args d x g))"
proof -
  let ?P = "eng_pred (calm lv e) (frozen_world w0 c0)"
  let ?k = "\<lambda>a. op_bind (in_store (is_blocked SM_SCOPE (Some (dec_risk d)))) (\<lambda>frozen.
       if frozen then freeze_step st a x
       else if dec_denied d then deny_step st a (dec_reason d) (charge t x)
       else if dec_needs_approval d then ask_step cfg st a (dec_reason d) (charge t x)
       else run_step h cfg st a t args (charge t x))"
  have k: "?P (snd (?k a g1))" if "?P g1" for a g1
  proof -
    have "in_store (is_blocked SM_SCOPE (Some (dec_risk d))) g1 = (Inr (blocked_at lv (Some (dec_risk d))), g1)"
      using that by (intro in_store_value is_blocked_calm [of lv e]) (simp add: eng_pred_def)
    moreover have "op_inv ?P (freeze_step st a x)" "op_inv ?P (deny_step st a (dec_reason d) (charge t x))"
      "op_inv ?P (ask_step cfg st a (dec_reason d) (charge t x))"
      by (intro op_inv_intros inv_ask)+
    ultimately show ?thesis using that assms(2) by (auto simp: op_bind_apply op_inv_def)
  qed
  show ?thesis
    unfolding gate_step_def using bind_known [OF inv_propose assms(1), of h "x_run x" st t args d ?k] k by auto
qed

text \<open>What let the tool of a step run.\<close>

definition permitted :: "'w host \<Rightarrow> worker_config \<Rightarrow> registry \<Rightarrow> step \<Rightarrow> 'w eng \<Rightarrow> bool" where
  "permitted h cfg reg st g \<longleftrightarrow> (\<exists>t args d. reg_get reg (step_tool st) = Inr t \<and>
     validate (env (e_store g)) t (step_args st) = Inr args \<and>
     evaluate (env (e_store g)) (h_parse h) cfg (e_guard g) t args = Inr d \<and>
     dec_allowed d \<and> \<not> blocked_at (level_in (e_store g)) (Some (dec_risk d)))"

lemma exec_step_gate:
  assumes "eng_pred (calm lv e) (frozen_world w0 c0) g" and "\<not> permitted h cfg reg st g"
  shows "eng_pred (calm lv e) (frozen_world w0 c0) (snd (exec_step h cfg reg st x g))"
proof -
  let ?P = "eng_pred (calm lv e) (frozen_world w0 c0)"
  have inv: "op_inv ?P m \<Longrightarrow> ?P (snd (m g))" for m :: "('a, xstate) eop" using assms(1) by (simp add: op_inv_def)
  have lv: "level_in (e_store g) = lv" using assms(1) by (simp add: eng_pred_def calm_def)
  show ?thesis
  proof (cases "step_tool st = []")
    case True
    then show ?thesis by (simp add: exec_step_def) (intro inv op_inv_intros)
  next
    case False
    note tool = False
    show ?thesis
    proof (cases "reg_get reg (step_tool st)")
      case (Inl err)
      with tool show ?thesis by (simp add: exec_step_def) (intro inv op_inv_intros)
    next
      case (Inr t)
      note reg = Inr
      show ?thesis
      proof (cases "validate (env (e_store g)) t (step_args st)")
        case (Inl err)
        have "op_inv ?P (if err = ToolError then fail_step st (''invalid arguments: '' @ h_invalid h t (step_args st)) x else op_raise err)"
          by (intro op_inv_intros)
        with tool reg Inl assms(1) show ?thesis by (simp add: exec_step_def op_bind_apply op_inv_def)
      next
        case (Inr args)
        show ?thesis
        proof (cases "evaluate (env (e_store g)) (h_parse h) cfg (e_guard g) t args")
          case (Inl err)
          with tool reg Inr assms(1) show ?thesis by (simp add: exec_step_def decide_step_def op_bind_apply)
        next
          case (Inr d)
          have "blocked_at lv (Some (dec_risk d)) \<or> dec_denied d \<or> dec_needs_approval d"
            using assms(2) evaluate_cases [OF Inr] reg \<open>validate _ _ _ = Inr args\<close> Inr lv
            unfolding permitted_def by blast
          from gate_step_world [OF assms(1) this, of h cfg st t args x] tool reg \<open>validate _ _ _ = Inr args\<close> Inr
          show ?thesis by (simp add: exec_step_def decide_step_def op_bind_apply)
        qed
      qed
    qed
  qed
qed

text \<open>Under a lock no step is permitted, so the loop leaves the world alone.\<close>

lemma locked_not_permitted: "level_in (e_store g) = SM_LOCKED \<Longrightarrow> \<not> permitted h cfg reg st g"
  by (simp add: permitted_def blocked_at_def sm_consts)

lemma locked_step_inv: "op_inv (eng_pred (calm SM_LOCKED e) (frozen_world w0 c0)) (exec_step h cfg reg st x)"
proof (rule op_invI)
  fix g assume g: "eng_pred (calm SM_LOCKED e) (frozen_world w0 c0) g"
  then have "level_in (e_store g) = SM_LOCKED" by (simp add: eng_pred_def calm_def)
  from exec_step_gate [OF g locked_not_permitted [OF this]]
  show "eng_pred (calm SM_LOCKED e) (frozen_world w0 c0) (snd (exec_step h cfg reg st x g))" .
qed

lemma exhausted_inv [op_inv_intros]: "op_inv (eng_pred (calm lv e) R) (exhausted cfg started x)"
  unfolding exhausted_def by (intro op_inv_intros)

lemma loop_inv:
  "(\<And>x. op_inv P (guard x)) \<Longrightarrow> (\<And>a x. op_inv P (step a x)) \<Longrightarrow> op_inv P (guarded_loop guard stop step as x)"
  by (induction as arbitrary: x) (auto intro!: op_inv_intros)

lemma locked_loop_inv: "op_inv (eng_pred (calm SM_LOCKED e) (frozen_world w0 c0)) (exec_steps h cfg reg started sts x)"
  unfolding exec_steps_loop by (intro loop_inv exhausted_inv locked_step_inv)

section \<open>The guard in a run\<close>

lemma inv_call [op_inv_intros]: "op_inv (eng_pred P (guard_is Q)) (call_tool h t args)"
  by (simp add: op_inv_def call_tool_def eng_pred_def guard_is_def split: prod.split)

lemma inv_attempts [op_inv_intros]: "op_inv (eng_pred P (guard_is Q)) (attempts h t args n)"
proof (induction n)
  case 0
  show ?case unfolding attempts.simps by (rule op_inv_return)
next
  case (Suc n)
  show ?case unfolding attempts.simps by (intro op_inv_intros Suc)
qed

lemma inv_artifact [op_inv_intros]: "op_inv (eng_pred (calm lv e) R) (record_artifact h rn st claims path)"
  unfolding record_artifact_def Let_def by (intro op_inv_intros) simp_all

lemma inv_execute_action [op_inv_intros]:
  "op_inv (eng_pred (calm lv e) (guard_is Q)) (execute_action h cfg rn st a t args)"
  unfolding execute_action_def finish_action_def Let_def by (intro op_inv_intros) simp_all

lemma inv_run_step [op_inv_intros]: "op_inv (eng_pred (calm lv e) (guard_is Q)) (run_step h cfg st a t args x)"
  unfolding run_step_def by (intro op_inv_intros)

abbreviation fresh_guard :: "guard \<Rightarrow> bool" where
  "fresh_guard gd \<equiv> gd_refused gd = []"

lemma guard_step_inv: "op_inv (eng_pred (calm lv e) (guard_is fresh_guard)) (exec_step h cfg reg st x)"
  unfolding exec_step_def gate_step_def by (intro op_inv_intros inv_ask)

lemma guard_loop_inv: "op_inv (eng_pred (calm lv e) (guard_is fresh_guard)) (exec_steps h cfg reg started sts x)"
  unfolding exec_steps_loop by (intro loop_inv exhausted_inv guard_step_inv)

section \<open>Finalization\<close>

lemma base_success:
  "base_status stop aw bl ex fl lg = Success \<Longrightarrow> stop = [] \<and> \<not> aw \<and> lg_pending lg = [] \<and> \<not> bl \<and>
     checks_with Fail lg = [] \<and> 0 < ex \<and> fl = 0 \<and> lg_evidence lg \<noteq> []"
  by (auto simp: base_status_def split: if_splits)

lemma graded_success:
  "graded err st lg = (Success, err') \<Longrightarrow> st = Success \<and> checks_with Unverifiable lg = [] \<and> unbacked lg = []"
  by (auto simp: graded_def Let_def split: if_splits prod.splits)

text \<open>The rows of a run in a table, as \<open>find\<close> selects them.\<close>

definition run_rows :: "store \<Rightarrow> string \<Rightarrow> string \<Rightarrow> doc list" where
  "run_rows s t rid = filter (row_matches (env s) t [(''run_id'', VStr rid)]) (map snd (tables s t))"

lemma find_run_rows:
  assumes "\<not> enforce s" and "t \<in> {''artifacts'', ''evidence'', ''claims'', ''verifications'', ''approvals''}"
  shows "find_rows t (by_cols [(''run_id'', VStr rid)]) s = (Inr (run_rows s t rid), s)"
proof -
  have "\<exists>cols. table_cols t = Some cols \<and> col_of_field t ''run_id'' \<in> set cols"
    using assms(2) by (auto simp: table_cols_def TABLES_def TABLE_EXTRA_def TENANT_COLS_def col_of_field_def)
  then obtain cols where "table_cols t = Some cols" "col_of_field t ''run_id'' \<in> set cols" by blast
  with find_legacy [OF assms(1), of t cols "[(''run_id'', VStr rid)]"] show ?thesis by (simp add: run_rows_def)
qed

definition pending_rows :: "store \<Rightarrow> string \<Rightarrow> doc list" where
  "pending_rows s rid = filter (row_matches (env s) ''approvals''
     [(''state'', VStr (approval_state_value Appr_Pending)), (''run_id'', VStr rid)]) (map snd (tables s ''approvals''))"

lemma find_pending:
  assumes "\<not> enforce s" and "rid \<noteq> []"
  shows "pending rid s = (Inr (pending_rows s rid), s)"
proof -
  have "\<exists>cols. table_cols ''approvals'' = Some cols \<and> ''state'' \<in> set cols \<and> ''run_id'' \<in> set cols"
    by (simp add: table_cols_def TABLES_def TABLE_EXTRA_def)
  then obtain cols where c: "table_cols ''approvals'' = Some cols" "''state'' \<in> set cols" "''run_id'' \<in> set cols" by blast
  have "list_all (\<lambda>(k, v). col_of_field ''approvals'' k \<in> set cols)
     [(''state'', VStr (approval_state_value Appr_Pending)), (''run_id'', VStr rid)]"
    using c by (simp add: col_of_field_def)
  from find_legacy [OF assms(1) c(1) this] assms(2) show ?thesis by (simp add: pending_def pending_rows_def)
qed

definition ledgers_of :: "store \<Rightarrow> string \<Rightarrow> ledgers" where
  "ledgers_of s rid = \<lparr>lg_evidence = run_rows s ''evidence'' rid, lg_claims = run_rows s ''claims'' rid,
     lg_artifacts = run_rows s ''artifacts'' rid, lg_pending = pending_rows s rid, lg_checks = run_rows s ''verifications'' rid\<rparr>"

lemma read_ledgers_legacy: "\<not> enforce s \<Longrightarrow> rid \<noteq> [] \<Longrightarrow> read_ledgers rid s = (Inr (ledgers_of s rid), s)"
  by (simp add: read_ledgers_def op_bind_apply all_evidence_def all_claims_def find_run_rows find_pending ledgers_of_def)

lemma deg_summary_legacy:
  assumes "\<not> enforce s" and "rid \<noteq> []" and "deg_summary rid s = (r, s')"
  shows "drawn_only s s'"
  using deg_entries_legacy [OF assms(1,2)] assms(3) by (auto simp: deg_summary_def op_bind_apply)

lemma degrade_success:
  assumes "\<not> enforce s" and "rid \<noteq> []" and "degrade rid g s = (Inr (Success, err), s')"
  shows "fst g = Success \<and> (\<forall>k d. (k, d) \<in> set (tables s ''degradations'') \<longrightarrow> \<not> critical_row rid d)"
proof (intro conjI allI impI notI)
  show "fst g = Success"
    using assms(3) by (cases g) (auto simp: degrade_def op_bind_apply split: if_splits prod.splits sum.splits)
next
  fix k d assume "(k, d) \<in> set (tables s ''degradations'')" and "critical_row rid d"
  then obtain s1 where "any_critical rid s = (Inr True, s1)" using any_critical_if [OF assms(1,2)] by blast
  with assms(3) show False by (cases g) (auto simp: degrade_def op_bind_apply split: if_splits)
qed

lemma transition_sets: "op_post (\<lambda>r. run_status r = tgt) (transition r0 tgt a w)"
  unfolding op_post_def by (auto dest!: transition_result)

lemma settle_status_post:
  "op_post (\<lambda>r. \<not> is_terminal (run_status rn) \<longrightarrow> run_status r = st) (settle_status rn st)"
proof -
  have "op_post (\<lambda>r. \<not> is_terminal (run_status rn) \<longrightarrow> run_status r = st) (transition r0 st a w)" for r0 a w
    using transition_sets [of st r0 a w] by (simp add: op_post_def)
  then show ?thesis
    unfolding settle_status_def by (intro op_post_intros) auto
qed

lemma finalize_parts:
  assumes "\<not> enforce s" and "run_id rn \<noteq> []"
    and "finalize rn failures executed blocked awaiting computed stop s = (Inr r, s')"
  shows "\<exists>s1 s2 err. drawn_only s s1 \<and>
    degrade (run_id rn) (graded (if stop \<noteq> [] then stop else run_error rn)
      (base_status stop awaiting blocked executed failures (ledgers_of s (run_id rn))) (ledgers_of s (run_id rn))) s1
      = (Inr (rr_status r, err), s2) \<and>
    (\<not> is_terminal (run_status rn) \<longrightarrow> run_status (rr_run r) = rr_status r) \<and>
    (\<exists>s3. s' = put_state ''runs'' (run_id (rr_run r)) (run_to_dict (rr_run r)) ''run.finished'' s3)"
proof -
  let ?lg = "ledgers_of s (run_id rn)"
  let ?g = "graded (if stop \<noteq> [] then stop else run_error rn) (base_status stop awaiting blocked executed failures ?lg) ?lg"
  note d = assms(3) [unfolded finalize_def op_bind_apply read_ledgers_legacy [OF assms(1,2)], simplified, folded op_bind_apply]
  obtain degs s1 where 1: "deg_summary (run_id rn) s = (Inr degs, s1)"
    using d by (auto simp: op_bind_apply Let_def split: prod.splits sum.splits)
  obtain st err s2 where 2: "degrade (run_id rn) ?g s1 = (Inr (st, err), s2)"
    using d 1 by (auto simp: op_bind_apply Let_def split: prod.splits sum.splits)
  let ?rn = "rn\<lparr>run_error := err, run_degradations := degs\<rparr>"
  obtain rn1 s3 where 3: "settle_status ?rn st s2 = (Inr rn1, s3)"
    using d 1 2 by (auto simp: op_bind_apply Let_def split: prod.splits sum.splits)
  obtain apps s5 where 5: "for_run (run_id rn) (s3\<lparr>ticks := Suc (ticks s3)\<rparr>) = (Inr apps, s5)"
    using d 1 2 3 by (auto simp: op_bind_apply Let_def op_now_apply split: prod.splits sum.splits)
  have r: "rr_status r = st" "run_status (rr_run r) = run_status rn1"
     "s' = put_state ''runs'' (run_id (rr_run r)) (run_to_dict (rr_run r)) ''run.finished'' s5"
    using d 1 2 3 5 by (auto simp: op_bind_apply op_then_apply Let_def op_now_apply put_ok run_to_dict_def)
  have "\<not> is_terminal (run_status rn) \<longrightarrow> run_status rn1 = st"
    using op_postD [OF settle_status_post 3] by simp
  with deg_summary_legacy [OF assms(1,2) 1] 2 r show ?thesis
    by (intro exI [of _ s1] exI [of _ s2] exI [of _ err] exI [of _ s5] conjI) simp_all
qed

end
