(* ===== verification/Engine_Total.thy ===== *)
theory Engine_Total
  imports Engine_Safety
begin

text \<open>
  Total correctness of an execution: in a store without tenant enforcement none of the engine's
  own writes around a tool call can raise, so whatever the tool does, \<open>_execute_action\<close> returns
  and the action's and the step's rows say how it went.  The concrete engine at the end serves
  as the witness of the engine's properties.
\<close>

section \<open>Writes that do not raise\<close>

lemma has_id [simp]:
  "dget (step_to_dict st) ''id'' = Some (VStr (step_id st))"
  "dget (action_to_dict a) ''id'' = Some (VStr (act_id a))"
  "dget (observation_to_dict ob) ''id'' = Some (VStr (obs_id ob))"
  "dget (evidence_to_dict ev) ''id'' = Some (VStr (ev_id ev))"
  "dget (artifact_to_dict ar) ''id'' = Some (VStr (art_id ar))"
  "dget (verification_to_dict v) ''id'' = Some (VStr (ver_id v))"
  by (simp_all add: step_to_dict_def action_to_dict_def observation_to_dict_def evidence_to_dict_def
      artifact_to_dict_def verification_to_dict_def)

lemma total_put [op_ok_intros]:
  "known_table t \<Longrightarrow> t \<noteq> ''meta_kv'' \<Longrightarrow> dget d ''id'' = Some (VStr i) \<Longrightarrow> op_ok (calm lv e) (put t d ev)"
  by (rule op_okI) (auto simp: put_ok calm_def level_in_def)

lemma total_now [op_ok_intros]: "op_ok (calm lv e) op_now"
  by (simp add: op_ok_def calm_def op_now_def)

lemma ok_id [op_ok_intros]: "op_ok (calm lv e) (new_id p)"
  by (simp add: op_ok_def calm_def new_id_def level_in_def)

lemma ok_find [op_ok_intros]:
  "t \<in> {''artifacts'', ''evidence'', ''claims'', ''verifications'', ''approvals''} \<Longrightarrow>
   op_ok (calm lv e) (find_rows t (by_cols [(''run_id'', VStr rid)]))"
  by (rule op_okI) (simp add: find_run_rows calm_def)

lemma ok_lift: "(\<exists>x. r = Inr x) \<Longrightarrow> op_ok P (op_lift r)"
  by (auto simp: op_ok_def op_lift_def)

lemma ok_mapM_in: "(\<And>x. x \<in> set xs \<Longrightarrow> op_ok P (f x)) \<Longrightarrow> op_ok P (op_mapM f xs)"
  by (induction xs) (auto intro!: op_ok_intros)

lemma ok_mint: "excerpt_text ref \<Longrightarrow> op_ok (calm lv e) (mint rid ob t ref)"
  unfolding mint_def Let_def by (intro op_ok_intros ok_lift) (simp_all add: excerpt_head_text [symmetric])

lemma ok_evidence [op_ok_intros]:
  "(obs_ok ob \<Longrightarrow> list_all excerpt_text refs) \<Longrightarrow> op_ok (calm lv e) (from_observation rid ob t refs)"
  unfolding from_observation_def by (intro op_ok_intros ok_mapM_in ok_mint) (auto simp: list_all_iff excerpt_text_def split: if_splits)

lemma ok_in_store [op_ok_intros]: "op_ok P m \<Longrightarrow> op_ok (eng_pred P R) (in_store m)"
  unfolding op_ok_def in_store_def eng_pred_def by (fastforce split: prod.split)

lemma ok_put_rows [op_ok_intros]:
  "op_ok (eng_pred (calm lv e) R) (put_action a ev)" "op_ok (eng_pred (calm lv e) R) (put_step st ev)"
  unfolding put_action_def put_step_def by (intro op_ok_intros; simp)+

lemma ok_artifact [op_ok_intros]: "op_ok (eng_pred (calm lv e) R) (record_artifact h rn st claims path)"
  unfolding record_artifact_def Let_def by (intro op_ok_intros) simp_all

section \<open>Tool calls do not raise\<close>

lemma call_tool_ok: "op_ok (eng_pred P (\<lambda>_ _ _. True)) (call_tool h t args)"
  by (auto simp: op_ok_def call_tool_def eng_pred_def split: prod.split)

lemma op_ok_outcome [op_ok_intros]:
  "(\<And>r. op_ok P (f r)) \<Longrightarrow> (\<And>m. op_ok P (g m)) \<Longrightarrow> (\<And>m. op_ok P (k m)) \<Longrightarrow>
   op_ok P (case out of Ran r \<Rightarrow> f r | Bad_Invocation m \<Rightarrow> g m | Crashed m \<Rightarrow> k m)"
  by (cases out) auto

lemma attempts_ok [op_ok_intros]: "op_ok (eng_pred P (\<lambda>_ _ _. True)) (attempts h t args n)"
proof (induction n)
  case 0
  show ?case unfolding attempts.simps by (rule op_ok_return)
next
  case (Suc n)
  show ?case unfolding attempts.simps by (intro op_ok_intros call_tool_ok Suc)
qed

text \<open>The excerpts a successful tool gives are text (or a list), which is what the tools under \<open>tools/\<close> give.\<close>

definition text_evidence :: "tool_result \<Rightarrow> bool" where
  "text_evidence r \<longleftrightarrow> (tr_ok r \<longrightarrow> list_all excerpt_text (tr_evidence r))"

definition tells_text :: "'w host \<Rightarrow> bool" where
  "tells_text h \<longleftrightarrow> (\<forall>t ctx args w r ctx' w'. h_run h t ctx args w = (Ran r, ctx', w') \<longrightarrow> text_evidence r)"

lemma call_tool_text: "tells_text h \<Longrightarrow> op_post (\<lambda>out. \<forall>r. out = Ran r \<longrightarrow> text_evidence r) (call_tool h t args)"
  by (force simp: op_post_def call_tool_def tells_text_def split: prod.splits)

lemma attempts_text: "tells_text h \<Longrightarrow> op_post text_evidence (attempts h t args n)"
proof (induction n)
  case 0
  show ?case by (simp add: op_post_def text_evidence_def tr_plain_def)
next
  case (Suc n)
  show ?case unfolding attempts.simps
    by (rule op_post_bind2 [OF call_tool_text [OF Suc.prems]])
      (auto simp: op_post_def text_evidence_def invalid_result_def crash_result_def tr_plain_def
        split: run_outcome.splits if_splits dest: op_postD [OF Suc.IH [OF Suc.prems]])
qed

lemma ok_bind_post: "op_ok P m \<Longrightarrow> op_post Q m \<Longrightarrow> (\<And>x. Q x \<Longrightarrow> op_ok P (f x)) \<Longrightarrow> op_ok P (op_bind m f)"
  unfolding op_ok_def op_post_def by (metis op_bind_Inr)

lemma finish_ok: "text_evidence r \<Longrightarrow> op_ok (eng_pred (calm lv e) R) (finish_action h cfg rn st a t args t0 r)"
  unfolding finish_action_def Let_def by (intro op_ok_intros) (simp_all add: text_evidence_def)

lemma execute_action_ok:
  "tells_text h \<Longrightarrow> op_ok (eng_pred (calm lv e) (\<lambda>_ _ _. True)) (execute_action h cfg rn st a t args)"
  unfolding execute_action_def Let_def
  by (intro op_ok_then op_ok_bind ok_bind_post [OF attempts_ok attempts_text] finish_ok) (intro op_ok_intros | assumption)+

section \<open>The rows an execution leaves\<close>

definition row_is :: "string \<Rightarrow> string \<Rightarrow> (doc \<Rightarrow> bool) \<Rightarrow> store \<Rightarrow> bool" where
  "row_is t k Q s \<longleftrightarrow> (\<exists>d. tget s t k = Some d \<and> Q d)"

lemma row_put_other [op_inv_intros]: "t \<noteq> t' \<Longrightarrow> op_inv (row_is t k Q) (put t' d ev)"
  by (auto simp: op_inv_def row_is_def put_eq split: option.split pyval.split)

lemma row_now [op_inv_intros]: "op_inv (row_is t k Q) op_now" "op_inv (row_is t k Q) (new_id p)"
  by (simp_all add: op_inv_def row_is_def op_now_def new_id_def)

lemma row_find [op_inv_intros]: "op_inv (row_is t k Q) (find_rows tb q)"
  by (simp add: op_inv_def)

lemma row_evidence [op_inv_intros]: "t \<noteq> ''evidence'' \<Longrightarrow> op_inv (row_is t k Q) (from_observation rid ob tn refs)"
  unfolding from_observation_def mint_def Let_def by (intro op_inv_intros) simp_all

lemma row_artifact [op_inv_intros]:
  "t \<noteq> ''artifacts'' \<Longrightarrow> op_inv (eng_pred (row_is t k Q) R) (record_artifact h rn st claims path)"
  unfolding record_artifact_def Let_def by (intro op_inv_intros) simp_all

lemma put_step_row:
  "op_triple P (put_step st ev)
     (\<lambda>_ g. row_is ''steps'' (step_id st) (\<lambda>d. get_str d ''status'' = step_status_value (step_status st)) (e_store g))"
  by (auto simp: op_triple_def put_step_def in_store_def op_then_apply put_ok row_is_def get_str_def)
     (auto simp: step_to_dict_def)

lemma put_action_row:
  "op_triple P (put_action a ev)
     (\<lambda>_ g. row_is ''actions'' (act_id a) (\<lambda>d. get_str d ''status'' = action_status_value (act_status a)) (e_store g))"
  by (auto simp: op_triple_def put_action_def in_store_def op_then_apply put_ok row_is_def get_str_def)
     (auto simp: action_to_dict_def)

lemma finish_rows:
  "op_triple P (finish_action h cfg rn st a t args t0 r) (\<lambda>(ok, figs) g. ok = tr_ok r \<and>
     row_is ''actions'' (act_id a) (\<lambda>d. get_str d ''status'' = (if tr_ok r then ''EXECUTED'' else ''FAILED'')) (e_store g) \<and>
     row_is ''steps'' (step_id st) (\<lambda>d. get_str d ''status'' = (if tr_ok r then ''DONE'' else ''FAILED'')) (e_store g))"
  (is "op_triple P ?m ?Q")
proof -
  let ?A = "\<lambda>g. row_is ''actions'' (act_id a) (\<lambda>d. get_str d ''status'' = (if tr_ok r then ''EXECUTED'' else ''FAILED'')) (e_store g)"
  let ?S = "\<lambda>g. row_is ''steps'' (step_id st) (\<lambda>d. get_str d ''status'' = (if tr_ok r then ''DONE'' else ''FAILED'')) (e_store g)"
  have A: "?A = eng_pred (row_is ''actions'' (act_id a) (\<lambda>d. get_str d ''status'' = (if tr_ok r then ''EXECUTED'' else ''FAILED''))) (\<lambda>_ _ _. True)"
    by (simp add: fun_eq_iff eng_pred_def)
  have keep: "op_triple ?A m (\<lambda>_. ?A)" if "op_inv ?A m" for m :: "('w, 'b) eop"
    using that by (rule triple_inv)
  have a: "op_triple (\<lambda>_. True) (put_action (a\<lparr>act_observation_id := oid, act_status := (if tr_ok r then Act_Executed else Act_Failed)\<rparr>) ev) (\<lambda>_. ?A)"
    for oid ev
    using put_action_row [of "\<lambda>_. True" "a\<lparr>act_observation_id := oid, act_status := (if tr_ok r then Act_Executed else Act_Failed)\<rparr>" ev]
    by (simp add: op_triple_def cong: if_cong split: if_splits)
  have st: "op_triple ?A (put_step (st\<lparr>step_status := (if tr_ok r then Step_Done else Step_Failed), step_note := note,
       step_observation_id := oid\<rparr>) ev) (\<lambda>_ g. ?A g \<and> ?S g)" for oid ev "note"
  proof (rule triple_conj)
    show "op_triple ?A (put_step (st\<lparr>step_status := (if tr_ok r then Step_Done else Step_Failed), step_note := note,
       step_observation_id := oid\<rparr>) ev) (\<lambda>_. ?A)"
      unfolding A put_step_def by (intro triple_inv op_inv_intros) simp
    show "op_triple ?A (put_step (st\<lparr>step_status := (if tr_ok r then Step_Done else Step_Failed), step_note := note,
       step_observation_id := oid\<rparr>) ev) (\<lambda>_. ?S)"
      using put_step_row [of ?A "st\<lparr>step_status := (if tr_ok r then Step_Done else Step_Failed), step_note := note,
        step_observation_id := oid\<rparr>" ev] by (simp split: if_splits)
  qed
  have art: "op_inv ?A (op_then (op_mapM (record_artifact h rn st claims) (tr_artifacts r)) (op_return ()))" for claims
    unfolding A by (intro op_inv_intros) simp
  have ev: "op_inv ?A (in_store (from_observation x ob y z))" "op_inv ?A (in_store (find_rows tb q))" for x ob y z tb q
    unfolding A by (intro op_inv_intros; simp)+
  show ?thesis
    unfolding finish_action_def Let_def
    by (rule triple_bind [OF triple_any] triple_then [OF triple_any] triple_then [OF a] triple_bind [OF triple_inv [OF ev(1)]]
        triple_bind [OF triple_inv [OF ev(2)]] triple_then [OF triple_inv [OF art]] triple_then [OF st] triple_return)+ simp
qed

lemma execute_action_rows:
  "op_triple P (execute_action h cfg rn st a t args) (\<lambda>(ok, figs) g.
     row_is ''actions'' (act_id a) (\<lambda>d. get_str d ''status'' = (if ok then ''EXECUTED'' else ''FAILED'')) (e_store g) \<and>
     row_is ''steps'' (step_id st) (\<lambda>d. get_str d ''status'' = (if ok then ''DONE'' else ''FAILED'')) (e_store g))"
proof -
  have f: "op_triple (\<lambda>_. True) (finish_action h cfg rn (st\<lparr>step_status := Step_Running\<rparr>) (a\<lparr>act_status := Act_Executing\<rparr>) t args t0 r)
     (\<lambda>(ok, figs) g.
     row_is ''actions'' (act_id a) (\<lambda>d. get_str d ''status'' = (if ok then ''EXECUTED'' else ''FAILED'')) (e_store g) \<and>
     row_is ''steps'' (step_id st) (\<lambda>d. get_str d ''status'' = (if ok then ''DONE'' else ''FAILED'')) (e_store g))" for t0 r
    by (rule triple_post [OF finish_rows]) auto
  show ?thesis
    unfolding execute_action_def Let_def
    by (rule triple_then [OF triple_any] triple_bind [OF triple_any] f)+
qed

section \<open>A permitted step runs its tool\<close>

text \<open>Nothing but the tool itself changes the world during a step.\<close>

definition tool_effect :: "'w host \<Rightarrow> tool \<Rightarrow> doc \<Rightarrow> tool_result \<Rightarrow> ('w \<Rightarrow> 'w) \<Rightarrow> bool" where
  "tool_effect h t args r u \<longleftrightarrow> tr_ok r \<and> text_evidence r \<and> (\<forall>ctx w. h_run h t ctx args w = (Ran r, ctx, u w))"

lemma attempts_effect:
  "tool_effect h t args r u \<Longrightarrow> attempts h t args (Suc n) g = (Inr r, g\<lparr>e_ctx := e_ctx g, e_world := u (e_world g)\<rparr>)"
  by (simp add: tool_effect_def op_bind_apply call_tool_def)

lemma execute_action_world:
  assumes "eng_pred (calm lv e) (frozen_world w0 c0) g" and "tool_effect h t args r u"
  shows "\<exists>figs g'. execute_action h cfg rn st a t args g = (Inr (True, figs), g') \<and> eng_pred (calm lv e) (frozen_world (u w0) c0) g'"
proof -
  let ?a = "a\<lparr>act_status := Act_Executing\<rparr>" and ?st = "st\<lparr>step_status := Step_Running\<rparr>"
  obtain u1 g1 where 1: "put_action ?a ''action.executing'' g = (Inr u1, g1)" "eng_pred (calm lv e) (frozen_world w0 c0) g1"
    using op_okD [OF ok_put_rows(1) assms(1)] by blast
  obtain u2 g2 where 2: "put_step ?st ''step.running'' g1 = (Inr u2, g2)" "eng_pred (calm lv e) (frozen_world w0 c0) g2"
    using op_okD [OF ok_put_rows(2) 1(2)] by blast
  obtain t0 g3 where 3: "in_store op_now g2 = (Inr t0, g3)" "eng_pred (calm lv e) (frozen_world w0 c0) g3"
    using op_okD [OF ok_in_store [OF total_now] 2(2)] by blast
  let ?g4 = "g3\<lparr>e_ctx := e_ctx g3, e_world := u (e_world g3)\<rparr>"
  have 4: "attempts h t args MAX_ATTEMPTS g3 = (Inr r, ?g4)"
    using attempts_effect [OF assms(2), of 1 g3] by (simp add: MAX_ATTEMPTS_def numeral_2_eq_2)
  have "eng_pred (calm lv e) (frozen_world (u w0) c0) ?g4" using 3(2) by (simp add: eng_pred_def world_is_def)
  from op_okD [OF finish_ok this, of r h cfg rn ?st ?a t args t0] assms(2) [unfolded tool_effect_def]
  obtain ok figs g' where 5: "finish_action h cfg rn ?st ?a t args t0 r ?g4 = (Inr (ok, figs), g')" "eng_pred (calm lv e) (frozen_world (u w0) c0) g'"
    by auto
  have "ok = True" using op_tripleD [OF finish_rows [of "\<lambda>_. True"] _ 5(1)] assms(2) by (simp add: tool_effect_def)
  with 1 2 3 4 5 show ?thesis
    by (auto simp: execute_action_def Let_def op_then_apply op_bind_apply)
qed

lemma permitted_runs:
  assumes "\<not> enforce (e_store g)" and "step_tool st \<noteq> []" and "reg_get reg (step_tool st) = Inr t"
    and "validate (env (e_store g)) t (step_args st) = Inr args"
    and "evaluate (env (e_store g)) (h_parse h) cfg (e_guard g) t args = Inr d" and "dec_allowed d"
    and "\<not> blocked_at (level_in (e_store g)) (Some (dec_risk d))" and "h_summarize h t args = Inr summary"
  shows "\<exists>a g1. exec_step h cfg reg st x g = run_step h cfg st a t args (charge t x) g1 \<and>
     eng_pred (calm (level_in (e_store g)) (env (e_store g))) (frozen_world (e_world g) (e_ctx g)) g1"
proof -
  let ?lv = "level_in (e_store g)" and ?e = "env (e_store g)"
  let ?P = "eng_pred (calm ?lv ?e) (frozen_world (e_world g) (e_ctx g))"
  have g: "?P g" using assms(1) by (simp add: eng_pred_def calm_def world_is_def)
  have pr: "op_ok ?P (propose h (x_run x) st t args d)"
    unfolding propose_def Let_def by (intro op_ok_intros ok_lift) (simp add: assms(8))
  obtain a g1 where 1: "propose h (x_run x) st t args d g = (Inr a, g1)" "?P g1"
    using op_okD [OF pr g] by blast
  have 2: "in_store (is_blocked SM_SCOPE (Some (dec_risk d))) g1 = (Inr False, g1)"
    using 1(2) is_blocked_calm [of ?lv ?e "e_store g1" "Some (dec_risk d)"] assms(7)
    by (intro in_store_value) (simp add: eng_pred_def)
  have allowed: "\<not> dec_denied d" "\<not> dec_needs_approval d"
    using evaluate_cases [OF assms(5)] assms(6) by blast+
  have "exec_step h cfg reg st x g = run_step h cfg st a t args (charge t x) g1"
    using assms(2-5) 1(1) 2 allowed by (simp add: exec_step_def decide_step_def gate_step_def op_bind_apply)
  with 1(2) show ?thesis by blast
qed

lemma unsummarized_raises:
  assumes "step_tool st \<noteq> []" and "reg_get reg (step_tool st) = Inr t"
    and "validate (env (e_store g)) t (step_args st) = Inr args"
    and "evaluate (env (e_store g)) (h_parse h) cfg (e_guard g) t args = Inr d" and "h_summarize h t args = Inl err"
  shows "exec_step h cfg reg st x g = (Inl err, g)"
  using assms by (simp add: exec_step_def decide_step_def gate_step_def propose_def op_bind_apply)

lemma exec_step_runs:
  assumes "\<not> enforce (e_store g)" and "step_tool st \<noteq> []" and "reg_get reg (step_tool st) = Inr t"
    and "validate (env (e_store g)) t (step_args st) = Inr args"
    and "evaluate (env (e_store g)) (h_parse h) cfg (e_guard g) t args = Inr d" and "dec_allowed d"
    and "\<not> blocked_at (level_in (e_store g)) (Some (dec_risk d))" and "h_summarize h t args = Inr summary" and "tool_effect h t args r u"
  shows "\<exists>x' g'. exec_step h cfg reg st x g = (Inr x', g') \<and> x_executed x' = Suc (x_executed x) \<and> x_failures x' = x_failures x \<and>
     e_world g' = u (e_world g) \<and> \<not> enforce (e_store g') \<and> level_in (e_store g') = level_in (e_store g)"
proof -
  obtain a g1 where 1: "exec_step h cfg reg st x g = run_step h cfg st a t args (charge t x) g1"
     "eng_pred (calm (level_in (e_store g)) (env (e_store g))) (frozen_world (e_world g) (e_ctx g)) g1"
    using permitted_runs [OF assms(1-8)] by blast
  obtain figs g' where 3: "execute_action h cfg (x_run x) st a t args g1 = (Inr (True, figs), g')"
     "eng_pred (calm (level_in (e_store g)) (env (e_store g))) (frozen_world (u (e_world g)) (e_ctx g)) g'"
    using execute_action_world [OF 1(2) assms(9)] by blast
  with 1(1) show ?thesis
    by (simp add: run_step_def op_bind_apply charge_def eng_pred_def calm_def world_is_def)
qed

section \<open>How often tools are invoked\<close>

text \<open>From one predicate to another, whether the operation returns or raises.\<close>

definition moves :: "('s \<Rightarrow> bool) \<Rightarrow> ('s, 'a) op \<Rightarrow> ('s \<Rightarrow> bool) \<Rightarrow> bool" where
  "moves P m Q \<longleftrightarrow> (\<forall>s. P s \<longrightarrow> Q (snd (m s)))"

lemma moves_inv: "op_inv P m \<Longrightarrow> (\<And>s. P s \<Longrightarrow> Q s) \<Longrightarrow> moves P m Q"
  by (simp add: moves_def op_inv_def)

lemma moves_bind: "moves P m Q \<Longrightarrow> (\<And>x. moves Q (f x) R) \<Longrightarrow> (\<And>s. Q s \<Longrightarrow> R s) \<Longrightarrow> moves P (op_bind m f) R"
  by (auto simp: moves_def op_bind_apply split: prod.splits sum.splits)

lemma moves_then: "moves P m Q \<Longrightarrow> moves Q n R \<Longrightarrow> (\<And>s. Q s \<Longrightarrow> R s) \<Longrightarrow> moves P (op_then m n) R"
  unfolding op_then_def by (rule moves_bind)

text \<open>A counter of the world that one invocation of a tool moves by at most one.\<close>

definition counts_calls :: "'w host \<Rightarrow> ('w \<Rightarrow> nat) \<Rightarrow> bool" where
  "counts_calls h c \<longleftrightarrow> (\<forall>t ctx args w. c (snd (snd (h_run h t ctx args w))) \<le> Suc (c w))"

abbreviation called :: "('w \<Rightarrow> nat) \<Rightarrow> nat \<Rightarrow> 'w \<Rightarrow> tool_context \<Rightarrow> guard \<Rightarrow> bool" where
  "called c k \<equiv> world_is (\<lambda>w ctx. c w \<le> k)"

lemma call_counted: "counts_calls h c \<Longrightarrow> moves (eng_pred P (called c k)) (call_tool h t args) (eng_pred P (called c (Suc k)))"
  by (auto simp: moves_def call_tool_def eng_pred_def world_is_def counts_calls_def split: prod.splits) (metis le_trans not_less_eq_eq snd_conv)

lemma called_mono: "eng_pred P (called c k) g \<Longrightarrow> k \<le> k' \<Longrightarrow> eng_pred P (called c k') g"
  by (auto simp: eng_pred_def world_is_def)

lemma attempts_counted: "counts_calls h c \<Longrightarrow> moves (eng_pred P (called c k)) (attempts h t args n) (eng_pred P (called c (k + n)))"
proof (induction n arbitrary: k)
  case 0
  show ?case by (simp add: moves_def)
next
  case (Suc n)
  have "moves (eng_pred P (called c (Suc k))) (op_return r) (eng_pred P (called c (k + Suc n)))" for r :: tool_result
    by (auto simp: moves_def intro: called_mono)
  then show ?case unfolding attempts.simps
    using Suc.IH [OF Suc.prems, of "Suc k"]
    by (intro moves_bind [OF call_counted [OF Suc.prems]]) (auto split: run_outcome.split intro: called_mono)
qed

lemma run_counted:
  assumes "counts_calls h c"
  shows "moves (eng_pred (calm lv e) (called c k)) (run_step h cfg st a t args x) (eng_pred (calm lv e) (called c (k + MAX_ATTEMPTS)))"
proof -
  let ?P = "\<lambda>k. eng_pred (calm lv e) (called c k)"
  have stay: "op_inv (?P k) m \<Longrightarrow> moves (?P k) m (?P k)" for m :: "('a, 'b) eop" and k by (rule moves_inv)
  have fin: "moves (?P (k + MAX_ATTEMPTS)) (finish_action h cfg rn st a t args t0 r) (?P (k + MAX_ATTEMPTS))" for rn st a t0 r
    unfolding finish_action_def Let_def by (rule stay) (intro op_inv_intros; simp)
  have ex: "moves (?P k) (execute_action h cfg rn st a t args) (?P (k + MAX_ATTEMPTS))" for rn st a
    unfolding execute_action_def Let_def
    by (rule moves_then [OF stay] moves_bind [OF stay] moves_bind [OF attempts_counted [OF assms]] fin op_inv_intros | erule called_mono; simp)+
  show ?thesis unfolding run_step_def
    by (rule moves_bind [OF ex]) (auto simp: moves_def split: prod.split)
qed

lemma exec_step_charge: "op_post (\<lambda>x'. x_actions x' \<le> x_actions x) (exec_step h cfg reg st x)"
  unfolding step_defs by (intro op_post_intros) (simp_all add: charge_def)

lemma run_step_charge: "op_post (\<lambda>x'. x_actions x' = x_actions x) (run_step h cfg st a t args x)"
  unfolding run_step_def by (intro op_post_intros) simp_all

lemma exec_step_counted:
  assumes "counts_calls h c" and "eng_pred (calm lv e) (called c k) g" and "exec_step h cfg reg st x g = (r, g')"
  shows "eng_pred (calm lv e) (called c k) g' \<or>
    eng_pred (calm lv e) (called c (k + MAX_ATTEMPTS)) g' \<and> (\<forall>x'. r = Inr x' \<longrightarrow> x_actions x' = x_actions x - 1)"
proof (cases "step_tool st \<noteq> [] \<and> permitted h cfg reg st g")
  case False
  have fr: "eng_pred (calm lv e) (frozen_world (e_world g) (e_ctx g)) g" using assms(2) by (simp add: eng_pred_def world_is_def)
  have "eng_pred (calm lv e) (frozen_world (e_world g) (e_ctx g)) g'"
  proof (cases "step_tool st = []")
    case True
    have "op_inv (eng_pred (calm lv e) (frozen_world (e_world g) (e_ctx g)))
        (op_then (close_step_as st Step_Skipped ''reasoning step; no tool invocation'' ''step.skipped'') (op_return x))"
      by (intro op_inv_intros)
    then show ?thesis using True fr assms(3) by (auto simp: exec_step_def dest: op_invD)
  next
    case False
    then show ?thesis using exec_step_gate [OF fr, of h cfg reg st x] \<open>\<not> (step_tool st \<noteq> [] \<and> permitted h cfg reg st g)\<close> assms(3) by simp
  qed
  then show ?thesis using assms(2) by (auto simp: eng_pred_def world_is_def)
next
  case True
  have le: "\<not> enforce (e_store g)" "level_in (e_store g) = lv" "env (e_store g) = e" using assms(2) by (simp_all add: eng_pred_def calm_def)
  from True obtain t args d where p: "step_tool st \<noteq> []" "reg_get reg (step_tool st) = Inr t" "validate (env (e_store g)) t (step_args st) = Inr args"
      "evaluate (env (e_store g)) (h_parse h) cfg (e_guard g) t args = Inr d" "dec_allowed d" "\<not> blocked_at (level_in (e_store g)) (Some (dec_risk d))"
    unfolding permitted_def by blast
  show ?thesis
  proof (cases "h_summarize h t args")
    case (Inl err)
    then show ?thesis using unsummarized_raises [OF p(1-4) Inl, of x] assms(2,3) by simp
  next
    case (Inr summary)
    from permitted_runs [OF le(1) p Inr, of x] le obtain a g1 where 1: "exec_step h cfg reg st x g = run_step h cfg st a t args (charge t x) g1"
      "eng_pred (calm lv e) (frozen_world (e_world g) (e_ctx g)) g1" by blast
  then have "eng_pred (calm lv e) (called c k) g1" using assms(2) by (auto simp: eng_pred_def world_is_def)
  then have "eng_pred (calm lv e) (called c (k + MAX_ATTEMPTS)) g'"
    using run_counted [OF assms(1), of lv e k cfg st a t args "charge t x"] 1(1) assms(3) by (simp add: moves_def) (metis snd_conv)
  moreover have "x_actions x' = x_actions x - 1" if "r = Inr x'" for x'
  proof -
    have "run_step h cfg st a t args (charge t x) g1 = (Inr x', g')" using 1(1) assms(3) that by simp
    from op_postD [OF run_step_charge this] show ?thesis by (simp add: charge_def)
  qed
    ultimately show ?thesis by blast
  qed
qed

lemma loop_counted:
  assumes "counts_calls h c" and "eng_pred (calm lv e) (called c k) g"
  shows "eng_pred (calm lv e) (called c (k + MAX_ATTEMPTS * nat (x_actions x))) (snd (exec_steps h cfg reg started sts x g))"
  using assms(2)
proof (induction sts arbitrary: x g k)
  case (Cons st sts)
  let ?P = "\<lambda>k. eng_pred (calm lv e) (called c k)"
  obtain m g1 where 1: "exhausted cfg started x g = (m, g1)" by fastforce
  have p1: "?P k g1" using op_invD [OF exhausted_inv Cons.prems 1] .
  then have stop: "?P (k + MAX_ATTEMPTS * nat (x_actions x)) g1" by (rule called_mono) simp
  show ?case
  proof (cases "m = Inr []")
    case False
    then show ?thesis using stop 1 by (auto simp: op_bind_apply split: sum.split)
  next
    case True
    then have pos: "0 < x_actions x" using op_postD [OF exhausted_post] 1 by blast
    obtain r g2 where 2: "exec_step h cfg reg st x g1 = (r, g2)" by fastforce
    have go: "exec_steps h cfg reg started (st # sts) x g = (case r of Inl err \<Rightarrow> (Inl err, g2) | Inr x' \<Rightarrow> exec_steps h cfg reg started sts x' g2)"
      using 1 True 2 by (simp add: op_bind_apply split: sum.split)
    from exec_step_counted [OF assms(1) p1 2] show ?thesis
    proof
      assume p2: "?P k g2"
      show ?thesis
      proof (cases r)
        case (Inr x')
        then have "x_actions x' \<le> x_actions x" using op_postD [OF exec_step_charge] 2 by blast
        then have le: "k + MAX_ATTEMPTS * nat (x_actions x') \<le> k + MAX_ATTEMPTS * nat (x_actions x)" by (simp add: nat_mono)
        from Inr go have "snd (exec_steps h cfg reg started (st # sts) x g) = snd (exec_steps h cfg reg started sts x' g2)" by simp
        then show ?thesis using called_mono [OF Cons.IH [OF p2, of x'] le] by simp
      next
        case (Inl err)
        with go have "snd (exec_steps h cfg reg started (st # sts) x g) = g2" by simp
        then show ?thesis using called_mono [OF p2, of "k + MAX_ATTEMPTS * nat (x_actions x)"] by simp
      qed
    next
      assume p2: "?P (k + MAX_ATTEMPTS) g2 \<and> (\<forall>x'. r = Inr x' \<longrightarrow> x_actions x' = x_actions x - 1)"
      have less: "k + MAX_ATTEMPTS + MAX_ATTEMPTS * nat (x_actions x - 1) \<le> k + MAX_ATTEMPTS * nat (x_actions x)"
      proof -
        have "nat (x_actions x) = Suc (nat (x_actions x - 1))" using pos by simp
        then show ?thesis by simp
      qed
      show ?thesis
      proof (cases r)
        case (Inr x')
        then have act: "x_actions x' = x_actions x - 1" using p2 by blast
        from Inr go have "snd (exec_steps h cfg reg started (st # sts) x g) = snd (exec_steps h cfg reg started sts x' g2)" by simp
        then show ?thesis using called_mono [OF Cons.IH [of "k + MAX_ATTEMPTS" g2 x'] less [folded act]] p2 by simp
      next
        case (Inl err)
        with go have g2: "snd (exec_steps h cfg reg started (st # sts) x g) = g2" by simp
        have "k + MAX_ATTEMPTS \<le> k + MAX_ATTEMPTS * nat (x_actions x)" using less by linarith
        then show ?thesis unfolding g2 using p2 called_mono by blast
      qed
    qed
  qed
qed (auto elim!: called_mono)

section \<open>A concrete engine\<close>

definition demo_result :: tool_result where
  "demo_result = (tr_plain True)\<lparr>tr_output := ''ok''\<rparr>"

text \<open>A world that counts tool calls.\<close>

definition demo_host :: "nat host" where
  "demo_host = \<lparr>h_run = (\<lambda>t ctx args w. (Ran demo_result, ctx, Suc w)), h_summarize = (\<lambda>t args. Inr (tool_name t)),
     h_parse = (\<lambda>_. None), h_size = (\<lambda>_ _. None), h_read = (\<lambda>_ _. None), h_write = (\<lambda>_ _ w. w),
     h_fs = (\<lambda>_. demo_fs), h_checks = (\<lambda>_. demo_checks), h_atlas = (\<lambda>_. None), h_invalid = (\<lambda>_ _. []),
     h_isfile = (\<lambda>_ _. False), h_text = (\<lambda>_ _. Inl OSError), h_kill = (\<lambda>_ w. w),
     h_planner = (\<lambda>_. demo_planner VNone), h_llm_up = (\<lambda>_. False)\<rparr>"

definition demo_eng :: "store \<Rightarrow> nat eng" where
  "demo_eng s = \<lparr>e_store = s, e_world = 0, e_guard = new_guard, e_ctx = demo_ctx, e_active = No_Ctx\<rparr>"

definition demo_step :: step where
  "demo_step = \<lparr>step_run_id = ''r1'', step_plan_id = ''p1'', step_index = 0, step_description = ''look'', step_id = ''s1'',
     step_tool = ''fs.list'', step_args = [], step_status = Step_Pending, step_note = [], step_observation_id = [], step_detail = []\<rparr>"

definition demo_reg :: registry where
  "demo_reg = [(''fs.list'', demo_tool ''fs.list'' Read)]"

definition demo_worker :: worker_config where
  "demo_worker = (default_worker ''w'')\<lparr>wc_max_actions := 1\<rparr>"

definition demo_fresh :: store where "demo_fresh = open_store demo_env [] []"

definition demo_locked :: store where
  "demo_locked = put_state ''meta_kv'' (safe_key SM_SCOPE) [(''id'', VStr (safe_key SM_SCOPE)), (''level'', VStr SM_LOCKED)]
     ''safemode.changed'' demo_fresh"

definition demo_x :: xstate where
  "demo_x = start_state demo_worker (demo_run\<lparr>run_status := Executing\<rparr>)"

lemma demo_legacy [simp]: "\<not> enforce demo_fresh" "\<not> enforce demo_locked"
  by (simp_all add: demo_fresh_def demo_locked_def open_store_def enforce_def)

lemma demo_levels: "level_in demo_fresh = SM_OFF" "level_in demo_locked = SM_LOCKED"
  by (simp_all add: level_in_def demo_locked_def stamp_id [OF demo_legacy(1)])
     (simp_all add: tget_def demo_fresh_def open_store_def level_of_row_def sm_consts)

lemma demo_effect: "tool_effect demo_host t args demo_result Suc"
  by (simp add: tool_effect_def text_evidence_def demo_host_def demo_result_def tr_plain_def)

lemma demo_summary: "h_summarize demo_host t args = Inr (tool_name t)"
  by (simp add: demo_host_def)

lemma demo_step_runs:
  assumes "\<not> enforce s" and "env s = demo_env" and "level_in s = SM_OFF"
  shows "\<exists>x' g'. exec_step demo_host demo_worker demo_reg demo_step demo_x (demo_eng s) = (Inr x', g') \<and>
     x_executed x' = 1 \<and> e_world g' = 1 \<and> \<not> enforce (e_store g')"
proof -
  let ?t = "demo_tool ''fs.list'' Read"
  obtain d where d: "evaluate demo_env (h_parse demo_host) demo_worker new_guard ?t [] = Inr d" "dec_risk d = Read"
    using evaluate_total [OF classify_other [of ?t demo_env "h_parse demo_host" "[]"], of demo_worker new_guard]
    by (auto simp: demo_tool_def)
  have p: "policy_for demo_worker Read = ''auto''" by code_simp
  have al: "dec_allowed d" using evaluate_cases [OF d(1)] d(2) p by (auto simp: blocked_reason_def new_guard_def demo_tool_def)
  have v: "validate demo_env ?t [] = Inr []" by code_simp
  have g: "e_store (demo_eng s) = s" "e_guard (demo_eng s) = new_guard" "e_world (demo_eng s) = 0" by (simp_all add: demo_eng_def)
  have st: "step_tool demo_step = ''fs.list''" "step_args demo_step = []" by (simp_all add: demo_step_def)
  have "x_executed demo_x = 0" by (simp add: demo_x_def start_state_def)
  moreover have "reg_get demo_reg (step_tool demo_step) = Inr ?t" by (simp add: st demo_reg_def reg_get_def)
  moreover have "\<not> blocked_at (level_in s) (Some (dec_risk d))" by (simp add: assms(3) blocked_at_def)
  ultimately show ?thesis
    using demo_summary [of ?t] exec_step_runs [of "demo_eng s" demo_step demo_reg ?t "[]" demo_host demo_worker d "tool_name ?t" demo_result Suc demo_x]
      assms d al v demo_effect unfolding g st by auto
qed

lemma demo_fresh_env: "env demo_fresh = demo_env"
  by (simp add: demo_fresh_def open_store_def)

text \<open>With a budget of one action, the loop over two steps executes one.\<close>

lemma demo_two_steps:
  "\<exists>x g. exec_steps demo_host demo_worker demo_reg 0 [demo_step, demo_step] demo_x (demo_eng demo_fresh) = (Inr x, g) \<and>
     x_executed x = 1 \<and> \<not> enforce (e_store g)"
proof -
  let ?s = "demo_fresh\<lparr>ticks := Suc (ticks demo_fresh)\<rparr>"
  have "level_in ?s = SM_OFF" using demo_levels(1) by simp
  then obtain x1 g1 where 1: "exec_step demo_host demo_worker demo_reg demo_step demo_x (demo_eng ?s) = (Inr x1, g1)"
      "x_executed x1 = 1" "\<not> enforce (e_store g1)"
    using demo_step_runs [of ?s] demo_fresh_env by auto
  have "int (x_executed x1) + x_actions x1 \<le> int (x_executed demo_x) + x_actions demo_x"
    using op_postD [OF exec_step_post 1(1)] by blast
  then have stop: "x_actions x1 \<le> 0" using 1(2) by (simp add: demo_x_def start_state_def demo_worker_def)
  have first: "exhausted demo_worker 0 demo_x (demo_eng demo_fresh) = (Inr [], demo_eng ?s)"
    by (simp add: exhausted_def demo_x_def start_state_def demo_worker_def default_worker_def op_bind_apply in_store_def
        op_now_apply demo_eng_def demo_fresh_def open_store_def)
  have "exec_steps demo_host demo_worker demo_reg 0 [demo_step, demo_step] demo_x (demo_eng demo_fresh)
      = exec_steps demo_host demo_worker demo_reg 0 [demo_step] x1 g1"
    by (simp add: op_bind_apply first 1(1))
  also have "\<dots> = (Inr (stop_with ''max_actions exceeded'' x1), g1)"
    using stop by (simp add: op_bind_apply exhausted_def stop_with_def)
  finally show ?thesis using 1 by (simp add: stop_with_def)
qed

section \<open>Properties\<close>

text \<open>C1: success is earned.  When \<open>_finalize\<close> reports \<open>SUCCESS\<close>, no budget stopped the run, nothing
  awaits approval, nothing was blocked, nothing failed and at least one action was executed; the
  run has evidence, none of its verification rows is \<open>FAIL\<close> or \<open>UNVERIFIABLE\<close>, every claim an
  artifact exposes has evidence or a verification, and no critical degradation is on record;
  and the row of the run says \<open>SUCCESS\<close>.\<close>

theorem success_is_earned:
  assumes "\<not> enforce s" and "run_id rn \<noteq> []" and "\<not> is_terminal (run_status rn)"
    and "finalize rn failures executed blocked awaiting computed stop s = (Inr r, s')" and "rr_status r = Success"
  shows "stop = [] \<and> \<not> awaiting \<and> pending_rows s (run_id rn) = [] \<and> \<not> blocked \<and> failures = 0 \<and> 0 < executed \<and>
    run_rows s ''evidence'' (run_id rn) \<noteq> [] \<and> unbacked (ledgers_of s (run_id rn)) = [] \<and>
    (\<forall>v\<in>set (run_rows s ''verifications'' (run_id rn)). get_str v ''outcome'' \<notin> {''FAIL'', ''UNVERIFIABLE''}) \<and>
    (\<forall>k d. (k, d) \<in> set (tables s ''degradations'') \<longrightarrow> \<not> critical_row (run_id rn) d) \<and>
    (\<exists>row. tget s' ''runs'' (run_id (rr_run r)) = Some row \<and> get_str row ''status'' = ''SUCCESS'')"
proof -
  let ?lg = "ledgers_of s (run_id rn)"
  let ?g = "graded (if stop \<noteq> [] then stop else run_error rn) (base_status stop awaiting blocked executed failures ?lg) ?lg"
  obtain s1 s2 s3 err where p: "drawn_only s s1" "degrade (run_id rn) ?g s1 = (Inr (Success, err), s2)"
      "run_status (rr_run r) = Success"
      "s' = put_state ''runs'' (run_id (rr_run r)) (run_to_dict (rr_run r)) ''run.finished'' s3"
    using finalize_parts [OF assms(1,2,4)] assms(3,5) by auto
  have s1: "\<not> enforce s1" "tables s1 = tables s" using p(1) assms(1) by (auto simp: drawn_only_def)
  note dg = degrade_success [OF s1(1) assms(2) p(2)]
  then obtain e1 where "?g = (Success, e1)" by (cases ?g) auto
  note gr = graded_success [OF this]
  then have "base_status stop awaiting blocked executed failures ?lg = Success" by simp
  note ba = base_success [OF this]
  have "tget s' ''runs'' (run_id (rr_run r)) = Some (stamp s3 (run_to_dict (rr_run r)))" by (simp add: p(4))
  moreover have "get_str (stamp s3 (run_to_dict (rr_run r))) ''status'' = ''SUCCESS''"
    by (simp add: get_str_def p(3)) (simp add: run_to_dict_def p(3))
  ultimately have row: "\<exists>row. tget s' ''runs'' (run_id (rr_run r)) = Some row \<and> get_str row ''status'' = ''SUCCESS''" by blast
  have v: "get_str v ''outcome'' \<notin> {''FAIL'', ''UNVERIFIABLE''}" if "v \<in> set (run_rows s ''verifications'' (run_id rn))" for v
    using ba gr that by (auto simp: checks_with_def ledgers_of_def filter_empty_conv)
  have "pending_rows s (run_id rn) = []" "run_rows s ''evidence'' (run_id rn) \<noteq> []"
    using ba by (simp_all add: ledgers_of_def)
  with ba gr dg row v s1(2) show ?thesis by simp
qed

definition demo_evidence :: store where
  "demo_evidence = demo_fresh\<lparr>tables := (tables demo_fresh)(''evidence'' := [(''ev1'', [(''id'', VStr ''ev1''), (''run_id'', VStr ''r1'')])])\<rparr>"

theorem success_is_earned_witness:
  "\<exists>r s'. finalize demo_run 0 1 False False [] [] demo_evidence = (Inr r, s') \<and> rr_status r = Success \<and>
     run_rows demo_evidence ''evidence'' ''r1'' \<noteq> []"
proof -
  have "case finalize demo_run 0 1 False False [] [] demo_evidence of (Inr r, s') \<Rightarrow> rr_status r = Success | _ \<Rightarrow> False"
    by code_simp
  then obtain r s' where f: "finalize demo_run 0 1 False False [] [] demo_evidence = (Inr r, s')" "rr_status r = Success"
    by (auto split: prod.splits sum.splits)
  have e: "\<not> enforce demo_evidence" using demo_legacy(1) by (simp add: demo_evidence_def)
  have i: "run_id demo_run \<noteq> []" "\<not> is_terminal (run_status demo_run)" "run_id demo_run = ''r1''"
    by (simp_all add: demo_run_def table_defs)
  from success_is_earned [OF e i(1,2) f] f i(3) show ?thesis by auto
qed

text \<open>C2: tools run only past the gate.  If a step of the loop changes the world, or the context the tools work in, then the tool it
  names is registered, its arguments validated, the permission engine allowed the action without a
  human, and safe mode at its current level does not block the action's risk.\<close>

theorem no_tool_without_permission:
  assumes "\<not> enforce (e_store g)"
    and "e_world (snd (exec_step h cfg reg st x g)) \<noteq> e_world g \<or> e_ctx (snd (exec_step h cfg reg st x g)) \<noteq> e_ctx g"
  shows "\<exists>t args d. reg_get reg (step_tool st) = Inr t \<and> validate (env (e_store g)) t (step_args st) = Inr args \<and>
     evaluate (env (e_store g)) (h_parse h) cfg (e_guard g) t args = Inr d \<and> dec_allowed d \<and>
     \<not> blocked_at (level_in (e_store g)) (Some (dec_risk d))"
proof -
  have "eng_pred (calm (level_in (e_store g)) (env (e_store g))) (frozen_world (e_world g) (e_ctx g)) g"
    using assms(1) by (simp add: eng_pred_def calm_def world_is_def)
  from exec_step_gate [OF this, of h cfg reg st x] assms(2) show ?thesis
    by (auto simp: permitted_def eng_pred_def world_is_def)
qed

theorem no_tool_without_permission_witness:
  "\<exists>t args d. reg_get demo_reg (step_tool demo_step) = Inr t \<and>
     validate (env (e_store (demo_eng demo_fresh))) t (step_args demo_step) = Inr args \<and>
     evaluate (env (e_store (demo_eng demo_fresh))) (h_parse demo_host) demo_worker (e_guard (demo_eng demo_fresh)) t args = Inr d \<and>
     dec_allowed d"
proof -
  have "\<not> enforce (e_store (demo_eng demo_fresh))" by (simp add: demo_eng_def)
  moreover have "e_world (snd (exec_step demo_host demo_worker demo_reg demo_step demo_x (demo_eng demo_fresh)))
      \<noteq> e_world (demo_eng demo_fresh)"
    using demo_step_runs [of demo_fresh] demo_fresh_env demo_levels(1) by (auto simp: demo_eng_def)
  ultimately show ?thesis using no_tool_without_permission by blast
qed

text \<open>C3: a locked platform executes nothing.  While safe mode is \<open>LOCKED\<close>, the loop over any plan
  leaves the world exactly as it was, whatever the worker's policy, and the lock in place.\<close>

theorem locked_run_touches_nothing:
  assumes "\<not> enforce (e_store g)" and "level_in (e_store g) = SM_LOCKED"
  shows "e_world (snd (exec_steps h cfg reg started sts x g)) = e_world g \<and>
    level_in (e_store (snd (exec_steps h cfg reg started sts x g))) = SM_LOCKED"
proof -
  have "eng_pred (calm SM_LOCKED (env (e_store g))) (frozen_world (e_world g) (e_ctx g)) g"
    using assms by (simp add: eng_pred_def calm_def world_is_def)
  with locked_loop_inv [of "env (e_store g)" "e_world g" "e_ctx g" h cfg reg started sts x]
  show ?thesis by (simp add: op_inv_def eng_pred_def world_is_def calm_def)
qed

theorem locked_run_touches_nothing_witness:
  "e_world (snd (exec_steps demo_host demo_worker demo_reg 0 [demo_step, demo_step] demo_x (demo_eng demo_locked))) = 0"
proof -
  have "\<not> enforce (e_store (demo_eng demo_locked))" "level_in (e_store (demo_eng demo_locked)) = SM_LOCKED"
    by (simp_all add: demo_eng_def demo_levels)
  from locked_run_touches_nothing [OF this, of demo_host demo_worker demo_reg 0 "[demo_step, demo_step]" demo_x]
  show ?thesis by (simp add: demo_eng_def)
qed

text \<open>C4: the action budget bounds what a run invokes.  However long the plan and however the loop ends, an exception included, tools are
  invoked at most \<open>MAX_ATTEMPTS\<close> (two) times for each of the \<open>max_actions\<close> actions, counted by any counter in the world that an
  invocation moves by at most one; nothing is invoked when the budget is not positive; and a loop that returns has executed
  at most \<open>max_actions\<close> actions.\<close>

theorem execution_is_budgeted:
  assumes "\<not> enforce (e_store g)" and "counts_calls h c"
    and "exec_steps h cfg reg started sts (start_state cfg rn) g = (r, g')"
  shows "c (e_world g') \<le> c (e_world g) + MAX_ATTEMPTS * nat (wc_max_actions cfg) \<and>
    (\<forall>x. r = Inr x \<longrightarrow> int (x_executed x) \<le> max 0 (wc_max_actions cfg))"
proof -
  have "eng_pred (calm (level_in (e_store g)) (env (e_store g))) (called c (c (e_world g))) g"
    using assms(1) by (simp add: eng_pred_def calm_def world_is_def)
  from loop_counted [OF assms(2) this, of "start_state cfg rn" cfg reg started sts]
  have "c (e_world g') \<le> c (e_world g) + MAX_ATTEMPTS * nat (wc_max_actions cfg)"
    using assms(3) by (simp add: eng_pred_def world_is_def) (simp add: start_state_def)
  moreover have "int (x_executed x) \<le> max 0 (wc_max_actions cfg)" if "r = Inr x" for x
    using op_postD [OF actions.loop_spends assms(3) [unfolded exec_steps_loop that]] by (simp add: start_state_def)
  ultimately show ?thesis by blast
qed

theorem execution_is_budgeted_witness:
  "\<exists>x g. exec_steps demo_host demo_worker demo_reg 0 [demo_step, demo_step] demo_x (demo_eng demo_fresh) = (Inr x, g) \<and>
     x_executed x = 1 \<and> e_world g \<le> 2"
proof -
  obtain x g where r: "exec_steps demo_host demo_worker demo_reg 0 [demo_step, demo_step]
      (start_state demo_worker (demo_run\<lparr>run_status := Executing\<rparr>)) (demo_eng demo_fresh) = (Inr x, g)" "x_executed x = 1"
    using demo_two_steps unfolding demo_x_def by blast
  have "\<not> enforce (e_store (demo_eng demo_fresh))" "counts_calls demo_host (\<lambda>w. w)"
    by (simp_all add: demo_eng_def counts_calls_def demo_host_def)
  from execution_is_budgeted [OF this r(1)] r show ?thesis
    unfolding demo_x_def by (auto simp: demo_eng_def MAX_ATTEMPTS_def demo_worker_def)
qed

text \<open>within a run the decomposition guard has nothing to remember.  \<open>_execute\<close> never records a
  rejection, so a run that starts with a fresh guard decides every later action by the worker's
  policy alone: denied exactly when the policy for its risk is \<open>deny\<close>, even after a human
  rejected, or the policy denied, an action of the same risk.\<close>

theorem guard_is_inert_in_a_run:
  assumes "\<not> enforce (e_store g)" and "gd_refused (e_guard g) = []"
    and "exec_steps h cfg reg started sts x g = (v, g')"
    and "evaluate e (h_parse h) cfg (e_guard g') t args = Inr d"
  shows "gd_refused (e_guard g') = [] \<and> (dec_denied d \<longleftrightarrow> policy_for cfg (dec_risk d) = ''deny'')"
proof -
  have "eng_pred (calm (level_in (e_store g)) (env (e_store g))) (guard_is fresh_guard) g"
    using assms by (simp add: eng_pred_def calm_def guard_is_def)
  from op_invD [OF guard_loop_inv this assms(3)] have r: "gd_refused (e_guard g') = []"
    by (simp add: eng_pred_def guard_is_def)
  then have "blocked_reason (e_guard g') (dec_risk d) = None" by (simp add: blocked_reason_def)
  with r evaluate_cases [OF assms(4)] show ?thesis by auto
qed

theorem guard_is_inert_in_a_run_witness:
  "\<exists>x g d. exec_steps demo_host demo_worker demo_reg 0 [demo_step, demo_step] demo_x (demo_eng demo_fresh) = (Inr x, g) \<and>
     evaluate demo_env (h_parse demo_host) demo_worker (e_guard g) (demo_tool ''fs.delete'' Destructive) [] = Inr d \<and> \<not> dec_denied d"
proof -
  let ?t = "demo_tool ''fs.delete'' Destructive"
  obtain x g where r: "exec_steps demo_host demo_worker demo_reg 0 [demo_step, demo_step] demo_x (demo_eng demo_fresh) = (Inr x, g)"
    using demo_two_steps by blast
  obtain d where d: "evaluate demo_env (h_parse demo_host) demo_worker (e_guard g) ?t [] = Inr d" "dec_risk d = Destructive"
    using evaluate_total [OF classify_other [of ?t demo_env "h_parse demo_host" "[]"], of demo_worker "e_guard g"]
    by (auto simp: demo_tool_def)
  have "\<not> enforce (e_store (demo_eng demo_fresh))" "gd_refused (e_guard (demo_eng demo_fresh)) = []"
    by (simp_all add: demo_eng_def new_guard_def)
  from guard_is_inert_in_a_run [OF this r d(1)] d(2) have "dec_denied d \<longleftrightarrow> policy_for demo_worker Destructive = ''deny''" by simp
  moreover have "policy_for demo_worker Destructive \<noteq> ''deny''" by code_simp
  ultimately show ?thesis using r d(1) by blast
qed


definition crashing_host :: "nat host" where
  "crashing_host = demo_host\<lparr>h_run := (\<lambda>t ctx args w. (Crashed ''OSError: gone'', ctx, w))\<rparr>"


end
