(* ===== verification/Sales_Models.thy ===== *)
theory Sales_Models
  imports Models
begin

text \<open>
  \<open>sworker/sales/models.py\<close>: the vocabularies of the sales domain with their stored values, and
  its records with their flattening (\<open>SalesRecord.to_dict\<close>).  A record read back from the
  ledger is used through its columns, so there is no reconstruction here.
\<close>

section \<open>Vocabularies\<close>

datatype pipeline_stage =
    Prospect
  | Contacted
  | Responded
  | Discovery_Scheduled
  | Discovery_Completed
  | Qualified
  | Audit_In_Progress
  | Proposal_Sent
  | Negotiation
  | Won
  | Lost
  | Onboarding
  | Implementation
  | Completed
  | Expansion

fun pipeline_stage_value :: "pipeline_stage \<Rightarrow> string" where
  "pipeline_stage_value Prospect = ''prospect''"
| "pipeline_stage_value Contacted = ''contacted''"
| "pipeline_stage_value Responded = ''responded''"
| "pipeline_stage_value Discovery_Scheduled = ''discovery_scheduled''"
| "pipeline_stage_value Discovery_Completed = ''discovery_completed''"
| "pipeline_stage_value Qualified = ''qualified''"
| "pipeline_stage_value Audit_In_Progress = ''audit_in_progress''"
| "pipeline_stage_value Proposal_Sent = ''proposal_sent''"
| "pipeline_stage_value Negotiation = ''negotiation''"
| "pipeline_stage_value Won = ''won''"
| "pipeline_stage_value Lost = ''lost''"
| "pipeline_stage_value Onboarding = ''onboarding''"
| "pipeline_stage_value Implementation = ''implementation''"
| "pipeline_stage_value Completed = ''completed''"
| "pipeline_stage_value Expansion = ''expansion''"

definition pipeline_stage_members :: "pipeline_stage list" where
  "pipeline_stage_members = [Prospect, Contacted, Responded, Discovery_Scheduled, Discovery_Completed, Qualified, Audit_In_Progress, Proposal_Sent, Negotiation, Won, Lost, Onboarding, Implementation, Completed, Expansion]"

datatype claim_tier =
    Tier_Claim
  | Tier_Hypothesis
  | Tier_Observed
  | Tier_Client_Verified
  | Tier_Case_Study

fun claim_tier_value :: "claim_tier \<Rightarrow> string" where
  "claim_tier_value Tier_Claim = ''CLAIM''"
| "claim_tier_value Tier_Hypothesis = ''HYPOTHESIS''"
| "claim_tier_value Tier_Observed = ''OBSERVED''"
| "claim_tier_value Tier_Client_Verified = ''CLIENT_VERIFIED''"
| "claim_tier_value Tier_Case_Study = ''CASE_STUDY''"

definition claim_tier_members :: "claim_tier list" where
  "claim_tier_members = [Tier_Claim, Tier_Hypothesis, Tier_Observed, Tier_Client_Verified, Tier_Case_Study]"

definition CLAIM_TIER_ORDER :: "claim_tier list" where
  "CLAIM_TIER_ORDER = [Tier_Claim, Tier_Hypothesis, Tier_Observed, Tier_Client_Verified, Tier_Case_Study]"

definition SALES_CLAIM_TYPES :: "string list" where
  "SALES_CLAIM_TYPES = [''pain_point'', ''icp_fit'', ''contact_info'', ''size_signal'', ''tech_signal'',
     ''hiring_signal'', ''urgency_signal'', ''budget_signal'', ''operational_signal'', ''provenance'']"

datatype outreach_state =
    Out_Draft
  | Out_Approved
  | Out_Sent
  | Out_Rejected

fun outreach_state_value :: "outreach_state \<Rightarrow> string" where
  "outreach_state_value Out_Draft = ''draft''"
| "outreach_state_value Out_Approved = ''approved''"
| "outreach_state_value Out_Sent = ''sent''"
| "outreach_state_value Out_Rejected = ''rejected''"

definition outreach_state_members :: "outreach_state list" where
  "outreach_state_members = [Out_Draft, Out_Approved, Out_Sent, Out_Rejected]"

datatype task_state =
    Todo_Open
  | Todo_Done
  | Todo_Cancelled

fun task_state_value :: "task_state \<Rightarrow> string" where
  "task_state_value Todo_Open = ''open''"
| "task_state_value Todo_Done = ''done''"
| "task_state_value Todo_Cancelled = ''cancelled''"

definition task_state_members :: "task_state list" where
  "task_state_members = [Todo_Open, Todo_Done, Todo_Cancelled]"

section \<open>Records\<close>

record company =
  co_name :: string
  co_id :: string
  co_domain :: string
  co_industry :: string
  co_geography :: string
  co_team_size :: int
  co_description :: string
  co_website :: string
  co_source :: string
  co_created :: rat
  co_updated :: rat

definition company_dict :: "company \<Rightarrow> doc" where
  "company_dict r = [
     (''name'', VStr (co_name r)), (''id'', VStr (co_id r)), (''domain'', VStr (co_domain r)),
     (''industry'', VStr (co_industry r)), (''geography'', VStr (co_geography r)),
     (''team_size'', VInt (co_team_size r)), (''description'', VStr (co_description r)),
     (''website'', VStr (co_website r)), (''source'', VStr (co_source r)),
     (''created'', VFloat (co_created r)), (''updated'', VFloat (co_updated r))]"

record contact =
  ct_company_id :: string
  ct_name :: string
  ct_id :: string
  ct_role :: string
  ct_email :: string
  ct_phone :: string
  ct_is_decision_maker :: bool
  ct_source :: string
  ct_created :: rat

definition contact_dict :: "contact \<Rightarrow> doc" where
  "contact_dict r = [
     (''company_id'', VStr (ct_company_id r)), (''name'', VStr (ct_name r)),
     (''id'', VStr (ct_id r)), (''role'', VStr (ct_role r)), (''email'', VStr (ct_email r)),
     (''phone'', VStr (ct_phone r)), (''is_decision_maker'', VBool (ct_is_decision_maker r)),
     (''source'', VStr (ct_source r)), (''created'', VFloat (ct_created r))]"

record lead =
  ld_company_id :: string
  ld_id :: string
  ld_prospect_id :: string
  ld_stage :: pipeline_stage
  ld_source :: string
  ld_dedupe_key :: string
  ld_score :: rat
  ld_score_version :: int
  ld_owner :: string
  ld_experiment_id :: string
  ld_lost_reason :: string
  ld_next_action :: string
  ld_next_action_due :: string
  ld_created :: rat
  ld_updated :: rat

definition lead_dict :: "lead \<Rightarrow> doc" where
  "lead_dict r = [
     (''company_id'', VStr (ld_company_id r)), (''id'', VStr (ld_id r)),
     (''prospect_id'', VStr (ld_prospect_id r)),
     (''stage'', VStr (pipeline_stage_value (ld_stage r))), (''source'', VStr (ld_source r)),
     (''dedupe_key'', VStr (ld_dedupe_key r)), (''score'', VFloat (ld_score r)),
     (''score_version'', VInt (ld_score_version r)), (''owner'', VStr (ld_owner r)),
     (''experiment_id'', VStr (ld_experiment_id r)), (''lost_reason'', VStr (ld_lost_reason r)),
     (''next_action'', VStr (ld_next_action r)),
     (''next_action_due'', VStr (ld_next_action_due r)), (''created'', VFloat (ld_created r)),
     (''updated'', VFloat (ld_updated r))]"

record activity =
  ac_lead_id :: string
  ac_kind :: string
  ac_summary :: string
  ac_id :: string
  ac_run_id :: string
  ac_worker :: string
  ac_detail :: string
  ac_evidence_ids :: "string list"
  ac_created :: rat

definition activity_dict :: "activity \<Rightarrow> doc" where
  "activity_dict r = [
     (''lead_id'', VStr (ac_lead_id r)), (''kind'', VStr (ac_kind r)),
     (''summary'', VStr (ac_summary r)), (''id'', VStr (ac_id r)),
     (''run_id'', VStr (ac_run_id r)), (''worker'', VStr (ac_worker r)),
     (''detail'', VStr (ac_detail r)), (''evidence_ids'', VList (map VStr (ac_evidence_ids r))),
     (''created'', VFloat (ac_created r))]"

record opportunity =
  opp_lead_id :: string
  opp_id :: string
  opp_name :: string
  opp_value :: rat
  opp_currency :: string
  opp_stage :: pipeline_stage
  opp_probability :: rat
  opp_close_date :: string
  opp_created :: rat
  opp_updated :: rat

definition opportunity_dict :: "opportunity \<Rightarrow> doc" where
  "opportunity_dict r = [
     (''lead_id'', VStr (opp_lead_id r)), (''id'', VStr (opp_id r)),
     (''name'', VStr (opp_name r)), (''value'', VFloat (opp_value r)),
     (''currency'', VStr (opp_currency r)),
     (''stage'', VStr (pipeline_stage_value (opp_stage r))),
     (''probability'', VFloat (opp_probability r)), (''close_date'', VStr (opp_close_date r)),
     (''created'', VFloat (opp_created r)), (''updated'', VFloat (opp_updated r))]"

record sales_evidence =
  sev_lead_id :: string
  sev_claim_type :: string
  sev_claim_text :: string
  sev_source_ref :: string
  sev_id :: string
  sev_tier :: claim_tier
  sev_excerpt :: string
  sev_run_id :: string
  sev_observation_id :: string
  sev_worker_evidence_id :: string
  sev_confidence :: rat
  sev_created :: rat

definition sales_evidence_dict :: "sales_evidence \<Rightarrow> doc" where
  "sales_evidence_dict r = [
     (''lead_id'', VStr (sev_lead_id r)), (''claim_type'', VStr (sev_claim_type r)),
     (''claim_text'', VStr (sev_claim_text r)), (''source_ref'', VStr (sev_source_ref r)),
     (''id'', VStr (sev_id r)), (''tier'', VStr (claim_tier_value (sev_tier r))),
     (''excerpt'', VStr (sev_excerpt r)), (''run_id'', VStr (sev_run_id r)),
     (''observation_id'', VStr (sev_observation_id r)),
     (''worker_evidence_id'', VStr (sev_worker_evidence_id r)),
     (''confidence'', VFloat (sev_confidence r)), (''created'', VFloat (sev_created r))]"

record pain_point =
  pp_lead_id :: string
  pp_text :: string
  pp_id :: string
  pp_category :: string
  pp_severity :: int
  pp_frequency :: int
  pp_revenue_impact :: int
  pp_automation_potential :: int
  pp_implementation_difficulty :: int
  pp_opportunity_score :: rat
  pp_tier :: claim_tier
  pp_evidence_ids :: "string list"
  pp_created :: rat

definition pain_point_dict :: "pain_point \<Rightarrow> doc" where
  "pain_point_dict r = [
     (''lead_id'', VStr (pp_lead_id r)), (''text'', VStr (pp_text r)), (''id'', VStr (pp_id r)),
     (''category'', VStr (pp_category r)), (''severity'', VInt (pp_severity r)),
     (''frequency'', VInt (pp_frequency r)), (''revenue_impact'', VInt (pp_revenue_impact r)),
     (''automation_potential'', VInt (pp_automation_potential r)),
     (''implementation_difficulty'', VInt (pp_implementation_difficulty r)),
     (''opportunity_score'', VFloat (pp_opportunity_score r)),
     (''tier'', VStr (claim_tier_value (pp_tier r))),
     (''evidence_ids'', VList (map VStr (pp_evidence_ids r))),
     (''created'', VFloat (pp_created r))]"

record qualification =
  ql_lead_id :: string
  ql_id :: string
  ql_version :: int
  ql_icp_fit :: rat
  ql_pain_signal :: rat
  ql_urgency :: rat
  ql_economic_potential :: rat
  ql_accessibility :: rat
  ql_confidence :: rat
  ql_score :: rat
  ql_tier :: claim_tier
  ql_signals :: doc
  ql_evidence_ids :: "string list"
  ql_reasoning :: string
  ql_model :: string
  ql_model_version :: string
  ql_run_id :: string
  ql_created :: rat

definition qualification_dict :: "qualification \<Rightarrow> doc" where
  "qualification_dict r = [
     (''lead_id'', VStr (ql_lead_id r)), (''id'', VStr (ql_id r)),
     (''version'', VInt (ql_version r)), (''icp_fit'', VFloat (ql_icp_fit r)),
     (''pain_signal'', VFloat (ql_pain_signal r)), (''urgency'', VFloat (ql_urgency r)),
     (''economic_potential'', VFloat (ql_economic_potential r)),
     (''accessibility'', VFloat (ql_accessibility r)), (''confidence'', VFloat (ql_confidence r)),
     (''score'', VFloat (ql_score r)), (''tier'', VStr (claim_tier_value (ql_tier r))),
     (''signals'', VDict (ql_signals r)),
     (''evidence_ids'', VList (map VStr (ql_evidence_ids r))),
     (''reasoning'', VStr (ql_reasoning r)), (''model'', VStr (ql_model r)),
     (''model_version'', VStr (ql_model_version r)), (''run_id'', VStr (ql_run_id r)),
     (''created'', VFloat (ql_created r))]"

record outreach_draft =
  dr_lead_id :: string
  dr_channel :: string
  dr_subject :: string
  dr_body :: string
  dr_id :: string
  dr_contact_id :: string
  dr_state :: outreach_state
  dr_sequence_step :: string
  dr_variant :: string
  dr_experiment_id :: string
  dr_evidence_ids :: "string list"
  dr_approved_by :: string
  dr_approved_at :: rat
  dr_sent_at :: rat
  dr_receipt :: string
  dr_run_id :: string
  dr_created :: rat

definition outreach_draft_dict :: "outreach_draft \<Rightarrow> doc" where
  "outreach_draft_dict r = [
     (''lead_id'', VStr (dr_lead_id r)), (''channel'', VStr (dr_channel r)),
     (''subject'', VStr (dr_subject r)), (''body'', VStr (dr_body r)), (''id'', VStr (dr_id r)),
     (''contact_id'', VStr (dr_contact_id r)),
     (''state'', VStr (outreach_state_value (dr_state r))),
     (''sequence_step'', VStr (dr_sequence_step r)), (''variant'', VStr (dr_variant r)),
     (''experiment_id'', VStr (dr_experiment_id r)),
     (''evidence_ids'', VList (map VStr (dr_evidence_ids r))),
     (''approved_by'', VStr (dr_approved_by r)), (''approved_at'', VFloat (dr_approved_at r)),
     (''sent_at'', VFloat (dr_sent_at r)), (''receipt'', VStr (dr_receipt r)),
     (''run_id'', VStr (dr_run_id r)), (''created'', VFloat (dr_created r))]"

record sales_task =
  tk_lead_id :: string
  tk_title :: string
  tk_id :: string
  tk_kind :: string
  tk_due :: string
  tk_state :: task_state
  tk_detail :: string
  tk_run_id :: string
  tk_completed_at :: rat
  tk_created :: rat

definition sales_task_dict :: "sales_task \<Rightarrow> doc" where
  "sales_task_dict r = [
     (''lead_id'', VStr (tk_lead_id r)), (''title'', VStr (tk_title r)), (''id'', VStr (tk_id r)),
     (''kind'', VStr (tk_kind r)), (''due'', VStr (tk_due r)),
     (''state'', VStr (task_state_value (tk_state r))), (''detail'', VStr (tk_detail r)),
     (''run_id'', VStr (tk_run_id r)), (''completed_at'', VFloat (tk_completed_at r)),
     (''created'', VFloat (tk_created r))]"

record followup =
  fu_lead_id :: string
  fu_due :: string
  fu_id :: string
  fu_reason :: string
  fu_sequence :: string
  fu_step :: string
  fu_state :: task_state
  fu_run_id :: string
  fu_completed_at :: rat
  fu_created :: rat

definition followup_dict :: "followup \<Rightarrow> doc" where
  "followup_dict r = [
     (''lead_id'', VStr (fu_lead_id r)), (''due'', VStr (fu_due r)), (''id'', VStr (fu_id r)),
     (''reason'', VStr (fu_reason r)), (''sequence'', VStr (fu_sequence r)),
     (''step'', VStr (fu_step r)), (''state'', VStr (task_state_value (fu_state r))),
     (''run_id'', VStr (fu_run_id r)), (''completed_at'', VFloat (fu_completed_at r)),
     (''created'', VFloat (fu_created r))]"

record icp_profile =
  icp_name :: string
  icp_id :: string
  icp_industry :: string
  icp_min_team_size :: int
  icp_geography :: string
  icp_rank :: int
  icp_rank_score :: rat
  icp_offer :: string
  icp_offer_price :: rat
  icp_source_doc :: string
  icp_active :: bool
  icp_created :: rat

definition icp_profile_dict :: "icp_profile \<Rightarrow> doc" where
  "icp_profile_dict r = [
     (''name'', VStr (icp_name r)), (''id'', VStr (icp_id r)),
     (''industry'', VStr (icp_industry r)), (''min_team_size'', VInt (icp_min_team_size r)),
     (''geography'', VStr (icp_geography r)), (''rank'', VInt (icp_rank r)),
     (''rank_score'', VFloat (icp_rank_score r)), (''offer'', VStr (icp_offer r)),
     (''offer_price'', VFloat (icp_offer_price r)), (''source_doc'', VStr (icp_source_doc r)),
     (''active'', VBool (icp_active r)), (''created'', VFloat (icp_created r))]"

record proposal =
  prp_lead_id :: string
  prp_id :: string
  prp_value :: rat
  prp_sent_date :: string
  prp_state :: string
  prp_detail :: string
  prp_created :: rat

definition proposal_dict :: "proposal \<Rightarrow> doc" where
  "proposal_dict r = [
     (''lead_id'', VStr (prp_lead_id r)), (''id'', VStr (prp_id r)),
     (''value'', VFloat (prp_value r)), (''sent_date'', VStr (prp_sent_date r)),
     (''state'', VStr (prp_state r)), (''detail'', VStr (prp_detail r)),
     (''created'', VFloat (prp_created r))]"

record outcome =
  oc_lead_id :: string
  oc_result :: string
  oc_id :: string
  oc_reason :: string
  oc_value :: rat
  oc_revisit_date :: string
  oc_created :: rat

definition outcome_dict :: "outcome \<Rightarrow> doc" where
  "outcome_dict r = [
     (''lead_id'', VStr (oc_lead_id r)), (''result'', VStr (oc_result r)),
     (''id'', VStr (oc_id r)), (''reason'', VStr (oc_reason r)), (''value'', VFloat (oc_value r)),
     (''revisit_date'', VStr (oc_revisit_date r)), (''created'', VFloat (oc_created r))]"

record pipeline_transition =
  pt_lead_id :: string
  pt_from_stage :: string
  pt_to_stage :: string
  pt_id :: string
  pt_reason :: string
  pt_run_id :: string
  pt_worker :: string
  pt_created :: rat

definition pipeline_transition_dict :: "pipeline_transition \<Rightarrow> doc" where
  "pipeline_transition_dict r = [
     (''lead_id'', VStr (pt_lead_id r)), (''from_stage'', VStr (pt_from_stage r)),
     (''to_stage'', VStr (pt_to_stage r)), (''id'', VStr (pt_id r)),
     (''reason'', VStr (pt_reason r)), (''run_id'', VStr (pt_run_id r)),
     (''worker'', VStr (pt_worker r)), (''created'', VFloat (pt_created r))]"

section \<open>Values of the vocabularies\<close>

lemma pipeline_stage_value_inj: "inj pipeline_stage_value"
proof (rule injI)
  fix a b
  show "pipeline_stage_value a = pipeline_stage_value b \<Longrightarrow> a = b" by (cases a; cases b) simp_all
qed

lemma pipeline_stage_members_all: "a \<in> set pipeline_stage_members"
  by (cases a) (simp_all add: pipeline_stage_members_def)

lemma claim_tier_value_inj: "inj claim_tier_value"
proof (rule injI)
  fix a b
  show "claim_tier_value a = claim_tier_value b \<Longrightarrow> a = b" by (cases a; cases b) simp_all
qed

lemma claim_tier_members_all: "a \<in> set claim_tier_members"
  by (cases a) (simp_all add: claim_tier_members_def)

lemma outreach_state_value_inj: "inj outreach_state_value"
proof (rule injI)
  fix a b
  show "outreach_state_value a = outreach_state_value b \<Longrightarrow> a = b" by (cases a; cases b) simp_all
qed

lemma outreach_state_members_all: "a \<in> set outreach_state_members"
  by (cases a) (simp_all add: outreach_state_members_def)

lemma task_state_value_inj: "inj task_state_value"
proof (rule injI)
  fix a b
  show "task_state_value a = task_state_value b \<Longrightarrow> a = b" by (cases a; cases b) simp_all
qed

lemma task_state_members_all: "a \<in> set task_state_members"
  by (cases a) (simp_all add: task_state_members_def)

lemmas sales_enum_of_value [simp] =
  enum_of_value [OF pipeline_stage_value_inj pipeline_stage_members_all]
  enum_of_value [OF claim_tier_value_inj claim_tier_members_all]
  enum_of_value [OF outreach_state_value_inj outreach_state_members_all]
  enum_of_value [OF task_state_value_inj task_state_members_all]

end
