(* ===== verification/Sales_Pipeline.thy ===== *)
theory Sales_Pipeline
  imports Sales_Models Data
begin

text \<open>
  \<open>sworker/sales/pipeline.py\<close>: the documented stages, their numbering, time limits and entry
  criteria, the legal moves, and the coercion of a text to a stage.  Lemmas: the shape of the
  move graph (which stages reach which, where a deal may be lost, what leaves a terminal stage).
\<close>

section \<open>Tables\<close>

definition STAGES :: "pipeline_stage list" where
  "STAGES = pipeline_stage_members"

fun DOC_STAGE_NUMBERS :: "pipeline_stage \<Rightarrow> int" where
  "DOC_STAGE_NUMBERS Prospect = 1"
| "DOC_STAGE_NUMBERS Contacted = 2"
| "DOC_STAGE_NUMBERS Responded = 3"
| "DOC_STAGE_NUMBERS Discovery_Scheduled = 4"
| "DOC_STAGE_NUMBERS Discovery_Completed = 5"
| "DOC_STAGE_NUMBERS Qualified = 6"
| "DOC_STAGE_NUMBERS Audit_In_Progress = 7"
| "DOC_STAGE_NUMBERS Proposal_Sent = 8"
| "DOC_STAGE_NUMBERS Negotiation = 9"
| "DOC_STAGE_NUMBERS Won = 10"
| "DOC_STAGE_NUMBERS Lost = 10"
| "DOC_STAGE_NUMBERS Onboarding = 11"
| "DOC_STAGE_NUMBERS Implementation = 12"
| "DOC_STAGE_NUMBERS Completed = 13"
| "DOC_STAGE_NUMBERS Expansion = 14"

fun MAX_DAYS_IN_STAGE :: "pipeline_stage \<Rightarrow> int" where
  "MAX_DAYS_IN_STAGE Contacted = 7"
| "MAX_DAYS_IN_STAGE Responded = 3"
| "MAX_DAYS_IN_STAGE Discovery_Completed = 1"
| "MAX_DAYS_IN_STAGE Qualified = 5"
| "MAX_DAYS_IN_STAGE Audit_In_Progress = 14"
| "MAX_DAYS_IN_STAGE Proposal_Sent = 21"
| "MAX_DAYS_IN_STAGE _ = 0"

fun ENTRY_CRITERIA :: "pipeline_stage \<Rightarrow> string" where
  "ENTRY_CRITERIA Prospect = ''Name, company, source recorded''"
| "ENTRY_CRITERIA Contacted = ''First outreach sent''"
| "ENTRY_CRITERIA Responded = ''Any reply received (even no)''"
| "ENTRY_CRITERIA Discovery_Scheduled = ''Agreed to discovery call; call date/time known''"
| "ENTRY_CRITERIA Discovery_Completed = ''Call done; notes, pain points, score, next step recorded''"
| "ENTRY_CRITERIA Qualified = ''Meets audit criteria (50+ leads/month, decision maker, budget)''"
| "ENTRY_CRITERIA Audit_In_Progress = ''Signed agreement + payment received''"
| "ENTRY_CRITERIA Proposal_Sent = ''Audit delivered, implementation proposed''"
| "ENTRY_CRITERIA Negotiation = ''Client asking questions / negotiating''"
| "ENTRY_CRITERIA Won = ''Agreement signed''"
| "ENTRY_CRITERIA Lost = ''Explicit loss; reason code + re-engage date required''"
| "ENTRY_CRITERIA Onboarding = ''Contract signed + payment received''"
| "ENTRY_CRITERIA Implementation = ''Kickoff complete; active project phase''"
| "ENTRY_CRITERIA Completed = ''Project delivered + accepted''"
| "ENTRY_CRITERIA Expansion = ''Upsell / retainer opportunity''"

fun FORWARD :: "pipeline_stage \<Rightarrow> pipeline_stage list" where
  "FORWARD Prospect = [Contacted]"
| "FORWARD Contacted = [Responded]"
| "FORWARD Responded = [Discovery_Scheduled, Qualified]"
| "FORWARD Discovery_Scheduled = [Discovery_Completed]"
| "FORWARD Discovery_Completed = [Qualified]"
| "FORWARD Qualified = [Audit_In_Progress, Proposal_Sent]"
| "FORWARD Audit_In_Progress = [Proposal_Sent]"
| "FORWARD Proposal_Sent = [Negotiation, Won]"
| "FORWARD Negotiation = [Won]"
| "FORWARD Won = [Onboarding]"
| "FORWARD Lost = [Prospect]"
| "FORWARD Onboarding = [Implementation]"
| "FORWARD Implementation = [Completed]"
| "FORWARD Completed = [Expansion]"
| "FORWARD Expansion = []"

definition STAGE_TERMINAL :: "pipeline_stage list" where
  "STAGE_TERMINAL = [Won, Lost, Completed, Expansion]"

definition LOSABLE :: "pipeline_stage list" where
  "LOSABLE = filter (\<lambda>s. s \<notin> {Won, Lost, Completed}) STAGES"

section \<open>Operations\<close>

definition stage_key :: "string \<Rightarrow> string" where
  "stage_key v = map (\<lambda>c. if c = CHR '' '' \<or> c = CHR ''/'' then CHR ''_'' else c) (str_lower (str_strip v))"

definition stage_of :: "string \<Rightarrow> error + pipeline_stage" where
  "stage_of v = (case enum_of pipeline_stage_value STAGES (stage_key v) of Some s \<Rightarrow> Inr s | None \<Rightarrow> Inl ValueError)"

fun pos_in :: "'a list \<Rightarrow> 'a \<Rightarrow> nat" where
  "pos_in [] x = 0"
| "pos_in (y # ys) x = (if y = x then 0 else Suc (pos_in ys x))"

definition stage_index :: "pipeline_stage \<Rightarrow> nat" where
  "stage_index s = pos_in STAGES s"

definition allowed_next :: "pipeline_stage \<Rightarrow> pipeline_stage list" where
  "allowed_next cur = FORWARD cur @ (if cur \<in> set LOSABLE \<and> Lost \<notin> set (FORWARD cur) then [Lost] else [])"

definition can_move :: "pipeline_stage \<Rightarrow> pipeline_stage \<Rightarrow> bool \<times> string" where
  "can_move a b =
     (if a = b then (False, ''lead is already in stage '' @ repr_str (pipeline_stage_value a))
      else if b \<in> set (allowed_next a)
      then (True, pipeline_stage_value a @ '' -> '' @ pipeline_stage_value b @ '' permitted'')
      else (False, pipeline_stage_value a @ '' -> '' @ pipeline_stage_value b @ '' is not a documented transition (allowed from ''
              @ pipeline_stage_value a @ '': ['' @ join '', '' (map (\<lambda>s. repr_str (pipeline_stage_value s)) (allowed_next a))
              @ '']); entry criteria for '' @ pipeline_stage_value b @ '': '' @ ENTRY_CRITERIA b))"

definition stage_terminal :: "pipeline_stage \<Rightarrow> bool" where
  "stage_terminal s \<longleftrightarrow> s \<in> set STAGE_TERMINAL"

definition days_overdue :: "pipeline_stage \<Rightarrow> rat \<Rightarrow> rat" where
  "days_overdue s days = (let cap = MAX_DAYS_IN_STAGE s in
     if cap = 0 then 0 else let over = days - of_int cap in if 0 < over then py_round 3 over else 0)"

definition describe_stages :: "doc list" where
  "describe_stages = map (\<lambda>s. [(''stage'', VStr (pipeline_stage_value s)), (''doc_stage'', VInt (DOC_STAGE_NUMBERS s)),
     (''entry_criteria'', VStr (ENTRY_CRITERIA s)), (''max_days'', VInt (MAX_DAYS_IN_STAGE s)),
     (''allowed_next'', VList (map (\<lambda>n. VStr (pipeline_stage_value n)) (allowed_next s))),
     (''terminal'', VBool (stage_terminal s))]) STAGES"

section \<open>Lemmas\<close>

lemma STAGES_all [simp]: "s \<in> set STAGES"
  by (simp add: STAGES_def pipeline_stage_members_all)

lemma stage_key_value [simp]: "stage_key (pipeline_stage_value s) = pipeline_stage_value s"
  by (cases s) (simp_all add: stage_key_def str_lower_def str_strip_def lower_char_def is_space_def Let_def)

lemma stage_of_value [simp]: "stage_of (pipeline_stage_value s) = Inr s"
  by (simp add: stage_of_def STAGES_def)

lemma stage_of_SomeD: "stage_of v = Inr s \<Longrightarrow> stage_key v = pipeline_stage_value s"
  by (auto simp: stage_of_def dest!: enum_of_SomeD split: option.splits)

lemma can_move_iff: "fst (can_move a b) \<longleftrightarrow> a \<noteq> b \<and> b \<in> set (allowed_next a)"
  by (simp add: can_move_def)

lemma next_irrefl: "s \<notin> set (allowed_next s)"
  by (cases s) (simp_all add: allowed_next_def LOSABLE_def)

text \<open>A move raises the number the document gives the stage, or loses the deal, or picks a lost
  deal up again.\<close>

lemma move_forward:
  "b \<in> set (allowed_next a) \<Longrightarrow> b = Lost \<or> (a = Lost \<and> b = Prospect) \<or> DOC_STAGE_NUMBERS a < DOC_STAGE_NUMBERS b"
  by (cases a) (auto simp: allowed_next_def split: if_splits)

lemma won_entered_from: "Won \<in> set (allowed_next a) \<Longrightarrow> a = Proposal_Sent \<or> a = Negotiation"
  by (cases a) (auto simp: allowed_next_def split: if_splits)

lemma left_terminal:
  "stage_terminal a \<Longrightarrow> b \<in> set (allowed_next a) \<Longrightarrow>
   (a, b) \<in> {(Won, Onboarding), (Lost, Prospect), (Completed, Expansion), (Expansion, Lost)}"
  by (cases a) (auto simp: allowed_next_def LOSABLE_def stage_terminal_def STAGE_TERMINAL_def split: if_splits)

lemma round_even_ge: "of_int n \<le> r \<Longrightarrow> n \<le> round_even r"
proof -
  assume "of_int n \<le> r"
  then have "n \<le> \<lfloor>r\<rfloor>" by (simp add: le_floor_iff)
  then show ?thesis by (simp add: round_even_def Let_def)
qed

lemma round_even_le: "r \<le> of_int n \<Longrightarrow> round_even r \<le> n"
proof -
  assume r: "r \<le> of_int n"
  have f: "\<lfloor>r\<rfloor> \<le> n" using r by linarith
  show ?thesis
  proof (cases "\<lfloor>r\<rfloor> = n")
    case True
    then have "r = of_int n" using r by linarith
    then show ?thesis by (simp add: round_even_def)
  next
    case False
    then show ?thesis using f by (simp add: round_even_def Let_def)
  qed
qed

lemma py_round_ge: "of_int n \<le> r \<Longrightarrow> of_int n \<le> py_round k r"
proof -
  assume "of_int n \<le> r"
  then have "of_int (n * 10 ^ k) \<le> r * 10 ^ k" by simp
  then have "n * 10 ^ k \<le> round_even (r * 10 ^ k)" by (rule round_even_ge)
  then have "of_int (n * 10 ^ k) \<le> (of_int (round_even (r * 10 ^ k)) :: rat)" by (simp only: of_int_le_iff)
  then show ?thesis by (simp add: py_round_def field_simps)
qed

lemma py_round_le: "r \<le> of_int n \<Longrightarrow> py_round k r \<le> of_int n"
proof -
  assume "r \<le> of_int n"
  then have "r * 10 ^ k \<le> of_int (n * 10 ^ k)" by simp
  then have "round_even (r * 10 ^ k) \<le> n * 10 ^ k" by (rule round_even_le)
  then have "(of_int (round_even (r * 10 ^ k)) :: rat) \<le> of_int (n * 10 ^ k)" by (simp only: of_int_le_iff)
  then show ?thesis by (simp add: py_round_def field_simps)
qed

lemma days_overdue_nonneg: "0 \<le> days_overdue s d"
  using py_round_ge [of 0 "d - of_int (MAX_DAYS_IN_STAGE s)" 3] by (simp add: days_overdue_def Let_def)

lemma days_overdue_none: "d \<le> of_int (MAX_DAYS_IN_STAGE s) \<Longrightarrow> days_overdue s d = 0"
  by (simp add: days_overdue_def Let_def)

end
