(* ===== verification/Dates.thy ===== *)
theory Dates
  imports Config
begin

text \<open>
  The calendar functions of \<open>datetime.date\<close> that the sources use: the Gregorian calendar by
  succession of days, \<open>isoformat\<close>, \<open>fromisoformat\<close> (the form \<open>YYYY-MM-DD\<close>), the day of a UTC
  epoch time and the epoch time of a day.  Lemmas: dates stay valid, printing and reading are
  inverse, and the next day is a later date.
\<close>

type_synonym date = "int \<times> int \<times> int"

definition is_leap :: "int \<Rightarrow> bool" where
  "is_leap y \<longleftrightarrow> y mod 4 = 0 \<and> (y mod 100 \<noteq> 0 \<or> y mod 400 = 0)"

definition days_in_month :: "int \<Rightarrow> int \<Rightarrow> int" where
  "days_in_month y m = (if m = 2 then (if is_leap y then 29 else 28)
     else if m \<in> {4, 6, 9, 11} then 30 else 31)"

definition valid_date :: "date \<Rightarrow> bool" where
  "valid_date dt = (case dt of (y, m, d) \<Rightarrow> 1 \<le> y \<and> y \<le> 9999 \<and> 1 \<le> m \<and> m \<le> 12 \<and> 1 \<le> d \<and> d \<le> days_in_month y m)"

definition next_day :: "date \<Rightarrow> date" where
  "next_day dt = (case dt of (y, m, d) \<Rightarrow>
     if d < days_in_month y m then (y, m, d + 1)
     else if m < 12 then (y, m + 1, 1) else (y + 1, 1, 1))"

definition prev_day :: "date \<Rightarrow> date" where
  "prev_day dt = (case dt of (y, m, d) \<Rightarrow>
     if 1 < d then (y, m, d - 1)
     else if 1 < m then (y, m - 1, days_in_month y (m - 1)) else (y - 1, 12, 31))"

text \<open>\<open>d + timedelta(days=n)\<close>; leaving the years 1 to 9999 raises.\<close>

definition add_days :: "date \<Rightarrow> int \<Rightarrow> date" where
  "add_days dt n = (if 0 \<le> n then (next_day ^^ nat n) dt else (prev_day ^^ nat (- n)) dt)"

definition date_plus :: "date \<Rightarrow> int \<Rightarrow> error + date" where
  "date_plus dt n = (let r = add_days dt n in if valid_date r then Inr r else Inl ValueError)"

definition epoch_day :: date where
  "epoch_day = (1970, 1, 1)"

definition date_of_epoch :: "rat \<Rightarrow> date" where
  "date_of_epoch t = add_days epoch_day \<lfloor>t / 86400\<rfloor>"

text \<open>\<open>date.toordinal\<close>: the days since the last day of the year 0.\<close>

definition days_before_year :: "int \<Rightarrow> int" where
  "days_before_year y = (let p = y - 1 in p * 365 + p div 4 - p div 100 + p div 400)"

definition days_before_month :: "int \<Rightarrow> int \<Rightarrow> int" where
  "days_before_month y m = sum_list (map (days_in_month y) [1..m - 1])"

definition ordinal :: "date \<Rightarrow> int" where
  "ordinal dt = (case dt of (y, m, d) \<Rightarrow> days_before_year y + days_before_month y m + d)"

definition epoch_of_date :: "date \<Rightarrow> rat" where
  "epoch_of_date dt = of_int ((ordinal dt - ordinal epoch_day) * 86400)"

section \<open>ISO text\<close>

definition two_digits :: "int \<Rightarrow> string" where
  "two_digits n = [char_of (48 + nat n div 10), char_of (48 + nat n mod 10)]"

definition date_iso :: "date \<Rightarrow> string" where
  "date_iso dt = (case dt of (y, m, d) \<Rightarrow>
     two_digits (y div 100) @ two_digits (y mod 100) @ ''-'' @ two_digits m @ ''-'' @ two_digits d)"

definition two_val :: "char \<Rightarrow> char \<Rightarrow> int option" where
  "two_val a b = (case (digit_val a, digit_val b) of (Some x, Some y) \<Rightarrow> Some (10 * int x + int y) | _ \<Rightarrow> None)"

definition date_of_iso :: "string \<Rightarrow> error + date" where
  "date_of_iso s = (case s of
       [a, b, c, d, h1, e, f, h2, g, h] \<Rightarrow>
         (if h1 \<noteq> CHR ''-'' \<or> h2 \<noteq> CHR ''-'' then Inl ValueError
          else case (two_val a b, two_val c d, two_val e f, two_val g h) of
              (Some y1, Some y2, Some m, Some dd) \<Rightarrow>
                (if valid_date (100 * y1 + y2, m, dd) then Inr (100 * y1 + y2, m, dd) else Inl ValueError)
            | _ \<Rightarrow> Inl ValueError)
     | _ \<Rightarrow> Inl ValueError)"

text \<open>\<open>isoformat\<close> of a UTC \<open>datetime\<close>: the microseconds show only when there are some.\<close>

definition six_digits :: "int \<Rightarrow> string" where
  "six_digits n = two_digits (n div 10000) @ two_digits (n div 100 mod 100) @ two_digits (n mod 100)"

definition stamp_iso :: "rat \<Rightarrow> string" where
  "stamp_iso t = (let us = \<lfloor>t * 1000000\<rfloor>; sec = us div 1000000 mod 86400; frac = us mod 1000000 in
     date_iso (date_of_epoch t) @ ''T'' @ two_digits (sec div 3600) @ '':'' @ two_digits (sec div 60 mod 60) @ '':''
       @ two_digits (sec mod 60) @ (if frac = 0 then [] else ''.'' @ six_digits frac) @ ''+00:00'')"

section \<open>Lemmas\<close>

lemma days_in_month_ge: "28 \<le> days_in_month y m"
  by (simp add: days_in_month_def)

lemma days_in_month_le: "days_in_month y m \<le> 31"
  by (simp add: days_in_month_def)

lemma two_digits_val:
  assumes "0 \<le> n" and "n < 100"
  shows "\<exists>a b. two_digits n = [a, b] \<and> two_val a b = Some n"
proof -
  have a: "nat n div 10 < 10" using assms by linarith
  have b: "nat n mod 10 < 10" by simp
  have "(of_char (char_of (48 + nat n div 10) :: char) :: nat) = 48 + nat n div 10"
    using a by (simp add: of_char_of)
  moreover have "(of_char (char_of (48 + nat n mod 10) :: char) :: nat) = 48 + nat n mod 10"
    using b by (simp add: of_char_of)
  moreover have "10 * int (nat n div 10) + int (nat n mod 10) = n"
    using assms(1) by (simp add: zdiv_int zmod_int)
  ultimately show ?thesis
    using a b by (simp add: two_digits_def two_val_def digit_val_def Let_def)
qed

lemma date_roundtrip:
  assumes "valid_date dt"
  shows "date_of_iso (date_iso dt) = Inr dt"
proof -
  obtain y m d where dt: "dt = (y, m, d)" by (cases dt) auto
  have r: "1 \<le> y" "y \<le> 9999" "1 \<le> m" "m \<le> 12" "1 \<le> d" "d \<le> 31"
    using assms days_in_month_le [of y m] by (auto simp: dt valid_date_def)
  obtain a b where ab: "two_digits (y div 100) = [a, b]" "two_val a b = Some (y div 100)"
    using two_digits_val [of "y div 100"] r by force
  obtain c e where ce: "two_digits (y mod 100) = [c, e]" "two_val c e = Some (y mod 100)"
    using two_digits_val [of "y mod 100"] by force
  obtain f g where fg: "two_digits m = [f, g]" "two_val f g = Some m"
    using two_digits_val [of m] r by force
  obtain h i where hi: "two_digits d = [h, i]" "two_val h i = Some d"
    using two_digits_val [of d] r by force
  have "100 * (y div 100) + y mod 100 = y" by simp
  then show ?thesis
    using assms by (simp add: dt date_iso_def date_of_iso_def ab ce fg hi)
qed

lemma date_of_iso_valid: "date_of_iso s = Inr dt \<Longrightarrow> valid_date dt"
  by (auto simp: date_of_iso_def split: list.splits if_splits option.splits)

lemma next_day_valid: "valid_date (y, m, d) \<Longrightarrow> y < 9999 \<Longrightarrow> valid_date (next_day (y, m, d))"
  using days_in_month_ge [of y "m + 1"] days_in_month_ge [of "y + 1" 1]
  by (auto simp: valid_date_def next_day_def)

text \<open>The decimal number that the eight digits of the ISO text spell.\<close>

definition date_num :: "date \<Rightarrow> int" where
  "date_num dt = (case dt of (y, m, d) \<Rightarrow> 10000 * y + 100 * m + d)"

lemma next_day_later: "valid_date dt \<Longrightarrow> date_num dt < date_num (next_day dt)"
proof -
  assume v: "valid_date dt"
  obtain y m d where dt: "dt = (y, m, d)" by (cases dt) auto
  have "m \<le> 12" "d \<le> 31" using v days_in_month_le [of y m] by (auto simp: dt valid_date_def)
  then show ?thesis by (simp add: dt next_day_def date_num_def)
qed

lemma prev_next_day:
  assumes "valid_date dt"
  shows "prev_day (next_day dt) = dt"
proof -
  obtain y m d where dt: "dt = (y, m, d)" by (cases dt) auto
  have v: "1 \<le> m" "m \<le> 12" "1 \<le> d" "d \<le> days_in_month y m" using assms by (auto simp: dt valid_date_def)
  show ?thesis
  proof (cases "d < days_in_month y m")
    case True
    then show ?thesis using v by (simp add: dt next_day_def prev_day_def)
  next
    case False
    then have d: "d = days_in_month y m" using v by simp
    show ?thesis
    proof (cases "m < 12")
      case True
      then show ?thesis using v by (simp add: dt d next_day_def prev_day_def)
    next
      case False
      then have "m = 12" using v by simp
      then show ?thesis using d by (simp add: dt next_day_def prev_day_def days_in_month_def)
    qed
  qed
qed

text \<open>The ordinal counts days: the next day has the next one, so a day starts where the previous ends.\<close>

definition in_calendar :: "date \<Rightarrow> bool" where
  "in_calendar dt = (case dt of (y, m, d) \<Rightarrow> 1 \<le> m \<and> m \<le> 12 \<and> 1 \<le> d \<and> d \<le> days_in_month y m)"

lemma valid_in_calendar: "valid_date dt \<Longrightarrow> in_calendar dt"
  by (auto simp: valid_date_def in_calendar_def)

lemma in_calendar_next: "in_calendar dt \<Longrightarrow> in_calendar (next_day dt)"
proof -
  assume c: "in_calendar dt"
  obtain y m d where dt: "dt = (y, m, d)" by (cases dt) auto
  show ?thesis
    using c days_in_month_ge [of y "m + 1"] days_in_month_ge [of "y + 1" 1]
    by (auto simp: dt in_calendar_def next_day_def)
qed

lemma days_before_month_Suc: "1 \<le> m \<Longrightarrow> days_before_month y (m + 1) = days_before_month y m + days_in_month y m"
proof -
  assume "1 \<le> m"
  then have "[1..m] = [1..m - 1] @ [m]" by (rule upto_rec2)
  then show ?thesis by (simp add: days_before_month_def)
qed

lemma year_length: "days_before_month y 12 + 31 = (if is_leap y then 366 else 365)"
proof -
  have "[1..11::int] = [1,2,3,4,5,6,7,8,9,10,11]" by (simp add: upto.simps)
  then show ?thesis by (simp add: days_before_month_def days_in_month_def)
qed

lemma div_step:
  fixes y n :: int
  assumes "0 < n"
  shows "y div n = (y - 1) div n + (if y mod n = 0 then 1 else 0)"
proof -
  let ?q = "y div n" let ?r = "y mod n"
  have y: "y = n * ?q + ?r" and r: "0 \<le> ?r" "?r < n" using assms by simp_all
  show ?thesis
  proof (cases "?r = 0")
    case True
    have "y - 1 = n * (?q - 1) + (n - 1)" using y True by (simp add: right_diff_distrib)
    then have "(y - 1) div n = ?q - 1" by (rule int_div_pos_eq) (use assms in simp_all)
    then show ?thesis using True by simp
  next
    case False
    have "y - 1 = n * ?q + (?r - 1)" using y by simp
    then have "(y - 1) div n = ?q" by (rule int_div_pos_eq) (use r False in simp_all)
    then show ?thesis using False by simp
  qed
qed

lemma leap_mods: "is_leap y \<longleftrightarrow> y mod 4 = 0 \<and> y mod 100 \<noteq> 0 \<or> y mod 400 = 0"
proof -
  have "y mod 400 = 0 \<Longrightarrow> y mod 4 = 0" for y :: int
    using mod_mod_cancel [of 4 400 y] by simp
  then show ?thesis by (auto simp: is_leap_def)
qed

lemma days_before_year_Suc: "days_before_year (y + 1) = days_before_year y + (if is_leap y then 366 else 365)"
proof -
  have d: "y mod 400 = 0 \<Longrightarrow> y mod 100 = 0" "y mod 100 = 0 \<Longrightarrow> y mod 4 = 0"
    using mod_mod_cancel [of 100 400 y] mod_mod_cancel [of 4 100 y] by simp_all
  define c4 c100 c400 where "c4 = (y - 1) div 4" and "c100 = (y - 1) div 100" and "c400 = (y - 1) div 400"
  have q: "y div 4 = c4 + (if y mod 4 = 0 then 1 else 0)" "y div 100 = c100 + (if y mod 100 = 0 then 1 else 0)"
      "y div 400 = c400 + (if y mod 400 = 0 then 1 else 0)"
    unfolding c4_def c100_def c400_def by (rule div_step, simp)+
  have "days_before_year (y + 1) = y * 365 + y div 4 - y div 100 + y div 400"
    by (simp only: days_before_year_def Let_def add_diff_cancel_right')
  moreover have "days_before_year y = (y - 1) * 365 + c4 - c100 + c400"
    by (simp only: days_before_year_def Let_def c4_def c100_def c400_def)
  ultimately show ?thesis using d unfolding q leap_mods by simp
qed

lemma ordinal_next_day: "in_calendar dt \<Longrightarrow> ordinal (next_day dt) = ordinal dt + 1"
proof -
  assume c: "in_calendar dt"
  obtain y m d where dt: "dt = (y, m, d)" by (cases dt) auto
  have b: "1 \<le> m" "m \<le> 12" "1 \<le> d" "d \<le> days_in_month y m" using c by (auto simp: dt in_calendar_def)
  consider "d < days_in_month y m" | "d = days_in_month y m" "m < 12" | "d = days_in_month y m" "m = 12"
    using b by linarith
  then show ?thesis
  proof cases
    case 1
    then show ?thesis by (simp add: dt next_day_def ordinal_def)
  next
    case 2
    then show ?thesis using days_before_month_Suc [OF b(1)] by (simp add: dt next_day_def ordinal_def)
  next
    case 3
    have "days_before_month (y + 1) 1 = 0" by (simp add: days_before_month_def)
    moreover have "days_in_month y 12 = 31" by (simp add: days_in_month_def)
    ultimately show ?thesis
      using 3 days_before_year_Suc [of y] year_length [of y] by (simp add: dt next_day_def ordinal_def)
  qed
qed

lemma ordinal_iterate: "in_calendar dt \<Longrightarrow> in_calendar ((next_day ^^ n) dt) \<and> ordinal ((next_day ^^ n) dt) = ordinal dt + int n"
  by (induction n) (simp_all add: in_calendar_next ordinal_next_day)

lemma epoch_day_in_calendar: "in_calendar epoch_day"
  by (simp add: in_calendar_def epoch_day_def days_in_month_def)

text \<open>A time falls on the day whose bounds enclose it.\<close>

lemma date_of_epoch_bounds:
  assumes "0 \<le> t"
  shows "epoch_of_date (date_of_epoch t) \<le> t \<and> t < epoch_of_date (date_of_epoch t) + 86400"
proof -
  let ?n = "\<lfloor>t / 86400\<rfloor>"
  have n: "0 \<le> ?n" using assms by simp
  have "ordinal (date_of_epoch t) = ordinal epoch_day + ?n"
    using ordinal_iterate [OF epoch_day_in_calendar, of "nat ?n"] n by (simp add: date_of_epoch_def add_days_def)
  then have e: "epoch_of_date (date_of_epoch t) = of_int ?n * 86400" by (simp add: epoch_of_date_def)
  have "of_int ?n \<le> t / 86400" "t / 86400 < of_int ?n + 1" by linarith+
  then show ?thesis by (simp add: e field_simps)
qed

end
