(* ===== verification/Sales_Ledger.thy ===== *)
theory Sales_Ledger
  imports Sales_Pipeline Dates Op_Rules
begin

text \<open>
  \<open>sworker/sales/schema.py\<close> and the plumbing of \<open>sworker/sales/repository.py\<close>: the tables of
  the ledger with their constraints as data, and \<open>INSERT\<close>, \<open>UPDATE\<close> and \<open>SELECT\<close> on them as
  sqlite performs them with \<open>foreign_keys = ON\<close>.  A table is the list of its rows in rowid
  order; a row is a dictionary with exactly the columns of its table.  A JSON text column is
  represented by the value it encodes.  The invariant \<open>ledger_ok\<close> is the integrity that the
  constraints promise; both statements preserve it.
\<close>

section \<open>Schema\<close>

record column =
  cl_name :: string
  cl_notnull :: bool
  cl_unique :: bool
  cl_ref :: "string option"
  cl_default :: pyval

definition col :: "string \<Rightarrow> column" where
  "col n = \<lparr>cl_name = n, cl_notnull = False, cl_unique = False, cl_ref = None, cl_default = VNone\<rparr>"

definition key_col :: "string \<Rightarrow> column" where
  "key_col n = (col n)\<lparr>cl_unique := True\<rparr>"

definition uniq_col :: "string \<Rightarrow> column" where
  "uniq_col n = (col n)\<lparr>cl_unique := True\<rparr>"

definition must :: "string \<Rightarrow> column" where
  "must n = (col n)\<lparr>cl_notnull := True\<rparr>"

definition ref_col :: "string \<Rightarrow> string \<Rightarrow> column" where
  "ref_col n t = (col n)\<lparr>cl_ref := Some t\<rparr>"

definition dflt_col :: "string \<Rightarrow> pyval \<Rightarrow> column" where
  "dflt_col n v = (col n)\<lparr>cl_default := v\<rparr>"

definition DDL :: "(string \<times> column list) list" where
  "DDL = [
     (''companies'', [
        key_col ''id'', must ''name'', col ''domain'', col ''industry'', col ''geography'',
        dflt_col ''team_size'' (VInt 0), col ''description'', col ''website'', col ''source'',
        col ''created'', col ''updated'']),
     (''contacts'', [
        key_col ''id'', ref_col ''company_id'' ''companies'', must ''name'', col ''role'', col ''email'',
        col ''phone'', dflt_col ''is_decision_maker'' (VInt 0), col ''source'', col ''created'']),
     (''leads'', [
        key_col ''id'', ref_col ''company_id'' ''companies'', ref_col ''prospect_id'' ''prospects'',
        must ''stage'', col ''source'', uniq_col ''dedupe_key'', dflt_col ''score'' (VFloat 0),
        dflt_col ''score_version'' (VInt 0), col ''owner'', ref_col ''experiment_id'' ''experiments'',
        col ''lost_reason'', col ''next_action'', col ''next_action_due'', col ''created'', col ''updated'']),
     (''activities'', [
        key_col ''id'', ref_col ''lead_id'' ''leads'', must ''kind'', must ''summary'', col ''run_id'',
        col ''worker'', col ''detail'', col ''evidence_ids'', col ''created'']),
     (''opportunities'', [
        key_col ''id'', ref_col ''lead_id'' ''leads'', col ''name'', dflt_col ''value'' (VFloat 0),
        dflt_col ''currency'' (VStr ''USD''), col ''stage'', dflt_col ''probability'' (VFloat 0),
        col ''close_date'', col ''created'', col ''updated'']),
     (''pipeline_history'', [
        key_col ''id'', ref_col ''lead_id'' ''leads'', col ''from_stage'', must ''to_stage'', col ''reason'',
        col ''run_id'', col ''worker'', col ''created'']),
     (''qualifications'', [
        key_col ''id'', ref_col ''lead_id'' ''leads'', must ''version'', dflt_col ''icp_fit'' (VFloat 0),
        dflt_col ''pain_signal'' (VFloat 0), dflt_col ''urgency'' (VFloat 0),
        dflt_col ''economic_potential'' (VFloat 0), dflt_col ''accessibility'' (VFloat 0),
        dflt_col ''confidence'' (VFloat 0), dflt_col ''score'' (VFloat 0), col ''tier'', col ''signals'',
        col ''evidence_ids'', col ''reasoning'', col ''model'', col ''model_version'', col ''run_id'',
        col ''created'']),
     (''sales_evidence'', [
        key_col ''id'', ref_col ''lead_id'' ''leads'', must ''claim_type'', must ''claim_text'',
        must ''source_ref'', col ''tier'', col ''excerpt'', col ''run_id'', col ''observation_id'',
        col ''worker_evidence_id'', dflt_col ''confidence'' (VFloat 0), col ''created'']),
     (''pain_points'', [
        key_col ''id'', ref_col ''lead_id'' ''leads'', must ''text'', col ''category'',
        dflt_col ''severity'' (VInt 0), dflt_col ''frequency'' (VInt 0),
        dflt_col ''revenue_impact'' (VInt 0), dflt_col ''automation_potential'' (VInt 0),
        dflt_col ''implementation_difficulty'' (VInt 1), dflt_col ''opportunity_score'' (VFloat 0),
        col ''tier'', col ''evidence_ids'', col ''created'']),
     (''outreach_drafts'', [
        key_col ''id'', ref_col ''lead_id'' ''leads'', ref_col ''contact_id'' ''contacts'', must ''channel'',
        col ''subject'', must ''body'', must ''state'', col ''sequence_step'', col ''variant'',
        ref_col ''experiment_id'' ''experiments'', col ''evidence_ids'', col ''approved_by'',
        dflt_col ''approved_at'' (VFloat 0), dflt_col ''sent_at'' (VFloat 0), col ''receipt'',
        col ''run_id'', col ''created'']),
     (''tasks'', [
        key_col ''id'', ref_col ''lead_id'' ''leads'', must ''title'', col ''kind'', col ''due'',
        must ''state'', col ''detail'', col ''run_id'', dflt_col ''completed_at'' (VFloat 0),
        col ''created'']),
     (''followups'', [
        key_col ''id'', ref_col ''lead_id'' ''leads'', must ''due'', col ''reason'', col ''sequence'',
        col ''step'', must ''state'', col ''run_id'', dflt_col ''completed_at'' (VFloat 0), col ''created'']),
     (''icp'', [
        key_col ''id'', must ''name'', col ''industry'', dflt_col ''min_team_size'' (VInt 0),
        col ''geography'', dflt_col ''rank'' (VInt 0), dflt_col ''rank_score'' (VFloat 0), col ''offer'',
        dflt_col ''offer_price'' (VFloat 0), col ''source_doc'', dflt_col ''active'' (VInt 1),
        col ''created'']),
     (''proposals'', [
        key_col ''id'', ref_col ''lead_id'' ''leads'', dflt_col ''value'' (VFloat 0), col ''sent_date'',
        col ''state'', col ''detail'', col ''created'']),
     (''outcomes'', [
        key_col ''id'', ref_col ''lead_id'' ''leads'', must ''result'', col ''reason'',
        dflt_col ''value'' (VFloat 0), col ''revisit_date'', col ''created''])]"

definition PREEXISTING_DDL :: "(string \<times> column list) list" where
  "PREEXISTING_DDL = [
     (''experiments'', [
        key_col ''id'', col ''status'', must ''hypothesis'', col ''segment_industry'', col ''segment_role'',
        col ''segment_team_size'', col ''segment_geography'', col ''message_variant'', col ''offer_variant'',
        col ''channel'', col ''sample_size_target'', col ''created_at'', col ''updated_at'']),
     (''prospects'', [
        key_col ''id'', col ''company_name'', col ''contact_name'', col ''email'', col ''industry'',
        col ''role'', col ''team_size'', col ''geography'', col ''source'', col ''created_at'']),
     (''outreach_touches'', [
        key_col ''id'', ref_col ''prospect_id'' ''prospects'', ref_col ''experiment_id'' ''experiments'',
        must ''sent_at'', col ''channel'', col ''message_variant'', col ''status'']),
     (''experiment_metrics'', [
        key_col ''id'', ref_col ''experiment_id'' ''experiments'', must ''date'', dflt_col ''sent'' (VInt 0),
        dflt_col ''delivered'' (VInt 0), dflt_col ''opened'' (VInt 0), dflt_col ''replies'' (VInt 0),
        dflt_col ''positive_replies'' (VInt 0), dflt_col ''discoveries_booked'' (VInt 0),
        dflt_col ''qualified'' (VInt 0), dflt_col ''audits_closed'' (VInt 0),
        dflt_col ''implementations_closed'' (VInt 0), dflt_col ''revenue_closed'' (VFloat 0)])]"

definition TABLE_UNIQUES :: "(string \<times> string list) list" where
  "TABLE_UNIQUES = [(''qualifications'', [''lead_id'', ''version'']), (''experiment_metrics'', [''experiment_id'', ''date''])]"


definition schema_of :: "string \<Rightarrow> column list option" where
  "schema_of t = dget (DDL @ PREEXISTING_DDL) t"

definition SALES_TABLES :: "string list" where
  "SALES_TABLES = dkeys DDL"

definition SALES_VIEWS :: "string list" where
  "SALES_VIEWS = [''sales_pipeline_summary'', ''sales_lead_overview'']"

text \<open>\<open>ensure_schema\<close> on the names of the tables and views already there: what is there after, what
  was created and which of the older tables were found.\<close>

definition ensure_schema :: "string list \<Rightarrow> string list \<times> string list \<times> string list" where
  "ensure_schema before =
     (let wanted = SALES_TABLES @ dkeys PREEXISTING_DDL @ SALES_VIEWS @ [''sales_meta''];
          fresh = filter (\<lambda>t. t \<notin> set before) (remdups wanted)
      in (before @ fresh, sort fresh, sort (filter (\<lambda>t. t \<in> set before) (dkeys PREEXISTING_DDL))))"

section \<open>State\<close>

record ledger =
  sl_tables :: "string \<Rightarrow> doc list"
  sl_ticks :: nat
  sl_drawn :: nat
  sl_env :: env

type_synonym 'a lop = "(ledger, 'a) op"

definition empty_ledger :: "env \<Rightarrow> ledger" where
  "empty_ledger e = \<lparr>sl_tables = (\<lambda>_. []), sl_ticks = 0, sl_drawn = 0, sl_env = e\<rparr>"

definition sl_now :: "time lop" where
  "sl_now s = (Inr (clock (sl_env s) (sl_ticks s)), s\<lparr>sl_ticks := Suc (sl_ticks s)\<rparr>)"

definition sl_id :: "string \<Rightarrow> string lop" where
  "sl_id pre s = (Inr (pre @ ''_'' @ uuid (sl_env s) (sl_drawn s)), s\<lparr>sl_drawn := Suc (sl_drawn s)\<rparr>)"

definition sl_today :: "date lop" where
  "sl_today = op_bind sl_now (\<lambda>t. op_return (date_of_epoch t))"

section \<open>Statements\<close>

definition rows_of :: "string \<Rightarrow> doc list lop" where
  "rows_of t = op_gets (\<lambda>s. sl_tables s t)"

definition cell :: "doc \<Rightarrow> string \<Rightarrow> pyval" where
  "cell r c = (case dget r c of Some v \<Rightarrow> v | None \<Rightarrow> VNone)"

definition row_of :: "column list \<Rightarrow> doc \<Rightarrow> doc" where
  "row_of cols d = map (\<lambda>c. (cl_name c, case dget d (cl_name c) of Some v \<Rightarrow> v | None \<Rightarrow> cl_default c)) cols"

definition known_cols :: "column list \<Rightarrow> doc \<Rightarrow> bool" where
  "known_cols cols d \<longleftrightarrow> list_all (\<lambda>k. k \<in> set (map cl_name cols)) (dkeys d)"

text \<open>The keys that are unique in a table: single columns, and declared groups of columns.\<close>

definition uniques :: "string \<Rightarrow> column list \<Rightarrow> string list list" where
  "uniques t cols = map (\<lambda>c. [cl_name c]) (filter cl_unique cols)
     @ (case dget TABLE_UNIQUES t of Some ks \<Rightarrow> [ks] | None \<Rightarrow> [])"

definition clash :: "string list list \<Rightarrow> doc \<Rightarrow> doc \<Rightarrow> bool" where
  "clash kss r1 r2 \<longleftrightarrow> list_ex (\<lambda>ks. list_all (\<lambda>k. cell r1 k = cell r2 k \<and> cell r1 k \<noteq> VNone) ks) kss"

definition refers :: "(string \<Rightarrow> doc list) \<Rightarrow> string \<Rightarrow> pyval \<Rightarrow> bool" where
  "refers tabs t v \<longleftrightarrow> v = VNone \<or> list_ex (\<lambda>r. cell r ''id'' = v) (tabs t)"

definition row_sound :: "(string \<Rightarrow> doc list) \<Rightarrow> column list \<Rightarrow> doc \<Rightarrow> bool" where
  "row_sound tabs cols r \<longleftrightarrow> list_all (\<lambda>c. (cl_notnull c \<longrightarrow> cell r (cl_name c) \<noteq> VNone) \<and>
     (case cl_ref c of None \<Rightarrow> True | Some t \<Rightarrow> refers tabs t (cell r (cl_name c)))) cols"

definition set_table :: "string \<Rightarrow> doc list \<Rightarrow> ledger \<Rightarrow> ledger" where
  "set_table t rs s = s\<lparr>sl_tables := (sl_tables s)(t := rs)\<rparr>"

definition sql_insert :: "string \<Rightarrow> doc \<Rightarrow> unit lop" where
  "sql_insert t d s = (case schema_of t of
       None \<Rightarrow> (Inl OperationalError, s)
     | Some cols \<Rightarrow>
        (if \<not> known_cols cols d then (Inl OperationalError, s)
         else let r = row_of cols d in
           if row_sound (sl_tables s) cols r \<and> \<not> list_ex (clash (uniques t cols) r) (sl_tables s t)
           then (Inr (), set_table t (sl_tables s t @ [r]) s)
           else (Inl IntegrityError, s)))"

text \<open>\<open>UPDATE ... WHERE id = ?\<close>: at most one row has the id.\<close>

definition set_cells :: "doc \<Rightarrow> doc \<Rightarrow> doc" where
  "set_cells r changes = foldl (\<lambda>d (k, v). dset d k v) r changes"

fun split_at_id :: "string \<Rightarrow> doc list \<Rightarrow> (doc list \<times> doc \<times> doc list) option" where
  "split_at_id rid [] = None"
| "split_at_id rid (r # rs) = (if cell r ''id'' = VStr rid then Some ([], r, rs)
     else map_option (\<lambda>(a, x, b). (r # a, x, b)) (split_at_id rid rs))"

definition sql_update :: "string \<Rightarrow> string \<Rightarrow> doc \<Rightarrow> unit lop" where
  "sql_update t rid changes s = (case schema_of t of
       None \<Rightarrow> (Inl OperationalError, s)
     | Some cols \<Rightarrow>
        (if \<not> known_cols cols changes then (Inl OperationalError, s)
         else case split_at_id rid (sl_tables s t) of
             None \<Rightarrow> (Inr (), s)
           | Some (a, r, b) \<Rightarrow>
              (let r' = set_cells r changes in
               if row_sound (sl_tables s) cols r' \<and> \<not> list_ex (clash (uniques t cols) r') (a @ b)
               then (Inr (), set_table t (a @ [r'] @ b) s)
               else (Inl IntegrityError, s))))"

section \<open>Plumbing of the repository\<close>

definition REF_KEYS :: "string list" where
  "REF_KEYS = [''company_id'', ''prospect_id'', ''experiment_id'', ''contact_id'', ''lead_id'']"

definition null_refs :: "doc \<Rightarrow> doc" where
  "null_refs d = map (\<lambda>(k, v). (k, if k \<in> set REF_KEYS \<and> v = VStr [] then VNone else v)) d"

fun encode_val :: "pyval \<Rightarrow> pyval" where
  "encode_val (VBool b) = VInt (if b then 1 else 0)"
| "encode_val v = v"

definition encode_doc :: "doc \<Rightarrow> doc" where
  "encode_doc d = map (\<lambda>(k, v). (k, encode_val v)) d"

definition insert_rec :: "string \<Rightarrow> doc \<Rightarrow> doc lop" where
  "insert_rec t rec = (let d = null_refs rec in op_then (sql_insert t (encode_doc d)) (op_return d))"

definition update_rec :: "string \<Rightarrow> string \<Rightarrow> doc \<Rightarrow> unit lop" where
  "update_rec t rid changes = (if changes = [] then op_return () else sql_update t rid (encode_doc changes))"

text \<open>\<open>_decode_row\<close>: booleans and empty JSON columns are restored; an enumeration column that holds
  something else raises.\<close>

definition ENUM_FIELDS :: "(string \<times> string \<times> string list) list" where
  "ENUM_FIELDS = [
     (''leads'', ''stage'', map pipeline_stage_value pipeline_stage_members),
     (''opportunities'', ''stage'', map pipeline_stage_value pipeline_stage_members),
     (''sales_evidence'', ''tier'', map claim_tier_value claim_tier_members),
     (''qualifications'', ''tier'', map claim_tier_value claim_tier_members),
     (''pain_points'', ''tier'', map claim_tier_value claim_tier_members),
     (''outreach_drafts'', ''state'', map outreach_state_value outreach_state_members),
     (''tasks'', ''state'', map task_state_value task_state_members),
     (''followups'', ''state'', map task_state_value task_state_members)]"

definition decode_cell :: "string \<Rightarrow> pyval \<Rightarrow> pyval" where
  "decode_cell k v =
     (if k = ''evidence_ids'' then (if truthy v then v else VList [])
      else if k = ''signals'' then (if truthy v then v else VDict [])
      else if k = ''is_decision_maker'' \<or> k = ''active'' then VBool (truthy v)
      else v)"

definition enum_sound :: "string \<Rightarrow> doc \<Rightarrow> bool" where
  "enum_sound t r = (case dget ENUM_FIELDS t of None \<Rightarrow> True
     | Some (k, vals) \<Rightarrow> \<not> truthy (cell r k) \<or> cell r k \<in> set (map VStr vals))"

definition decode_row :: "string \<Rightarrow> doc \<Rightarrow> error + doc" where
  "decode_row t r = (if enum_sound t r then Inr (map (\<lambda>(k, v). (k, decode_cell k v)) r) else Inl ValueError)"

definition decode_rows :: "string \<Rightarrow> doc list \<Rightarrow> doc list lop" where
  "decode_rows t rs = op_lift (map_sum_list (decode_row t) rs)"

definition one_row :: "string \<Rightarrow> string \<Rightarrow> doc option lop" where
  "one_row t rid = op_bind (rows_of t) (\<lambda>rs. case List.find (\<lambda>r. cell r ''id'' = VStr rid) rs of
       None \<Rightarrow> op_return None
     | Some r \<Rightarrow> op_bind (op_lift (decode_row t r)) (\<lambda>d. op_return (Some d)))"

text \<open>\<open>raw\<close>: the first word decides whether a statement counts as a read.\<close>

definition raw_guard :: "string \<Rightarrow> error + unit" where
  "raw_guard sql = (case str_words sql of [] \<Rightarrow> Inl IndexError
     | w # ws \<Rightarrow> (if str_lower w \<in> {''select'', ''with'', ''pragma''} then Inr () else Inl SalesError))"

section \<open>Integrity\<close>

definition has_shape :: "column list \<Rightarrow> doc \<Rightarrow> bool" where
  "has_shape cols r \<longleftrightarrow> dkeys r = map cl_name cols"

definition table_ok :: "(string \<Rightarrow> doc list) \<Rightarrow> string \<Rightarrow> column list \<Rightarrow> bool" where
  "table_ok tabs t cols \<longleftrightarrow> sorted_wrt (\<lambda>a b. \<not> clash (uniques t cols) a b) (tabs t) \<and>
     (\<forall>r\<in>set (tabs t). has_shape cols r \<and> row_sound tabs cols r)"

definition ledger_ok :: "ledger \<Rightarrow> bool" where
  "ledger_ok s \<longleftrightarrow> (\<forall>t cols. schema_of t = Some cols \<longrightarrow> table_ok (sl_tables s) t cols)"

section \<open>The statements keep the integrity\<close>

lemma clash_sym: "clash kss a b \<longleftrightarrow> clash kss b a"
  unfolding clash_def by (rule arg_cong [of _ _ "\<lambda>P. list_ex P kss"]) (auto simp: fun_eq_iff list_all_iff)

lemma dkeys_map_snd: "dkeys (map (\<lambda>(k, v). (k, f k v)) d) = dkeys d"
  by (induction d) auto

lemma dkeys_dset_known: "k \<in> set (dkeys r) \<Longrightarrow> dkeys (dset r k v) = dkeys r"
  by (induction r k v rule: dset.induct) auto

lemma shape_row_of: "has_shape cols (row_of cols d)"
  by (simp add: has_shape_def row_of_def dkeys_def comp_def)

lemma shape_set_cells: "has_shape cols r \<Longrightarrow> known_cols cols changes \<Longrightarrow> has_shape cols (set_cells r changes)"
proof (induction changes arbitrary: r)
  case (Cons kv changes)
  obtain k v where kv: "kv = (k, v)" by (cases kv)
  have "has_shape cols (dset r k v)"
    using Cons.prems by (simp add: kv has_shape_def known_cols_def dkeys_dset_known)
  then show ?case using Cons by (simp add: kv set_cells_def known_cols_def)
qed (simp add: set_cells_def)

lemma cell_set_cells:
  "cell (set_cells r changes) k = (case dget (rev changes) k of Some v \<Rightarrow> v | None \<Rightarrow> cell r k)"
proof (induction changes arbitrary: r)
  case (Cons kv changes)
  show ?case
    using Cons [of "dset r (fst kv) (snd kv)"]
    by (cases kv) (auto simp: set_cells_def cell_def dget_append split: option.splits)
qed (simp add: set_cells_def)

lemma cell_set_other: "k \<notin> set (dkeys changes) \<Longrightarrow> cell (set_cells r changes) k = cell r k"
proof -
  assume "k \<notin> set (dkeys changes)"
  then have "dget (rev changes) k = None" by (simp add: dget_None_iff dkeys_def)
  then show ?thesis by (simp add: cell_set_cells)
qed

lemma refers_mono:
  "refers tabs t v \<Longrightarrow> (\<And>r. r \<in> set (tabs t) \<Longrightarrow> \<exists>r'\<in>set (tabs' t). cell r' ''id'' = cell r ''id'') \<Longrightarrow> refers tabs' t v"
  unfolding refers_def list_ex_iff by metis

lemma row_sound_mono:
  assumes "row_sound tabs cols r"
    and "\<And>t r. r \<in> set (tabs t) \<Longrightarrow> \<exists>r'\<in>set (tabs' t). cell r' ''id'' = cell r ''id''"
  shows "row_sound tabs' cols r"
proof -
  have "refers tabs' t v" if "refers tabs t v" for t v
    using that assms(2) by (rule refers_mono)
  with assms(1) show ?thesis by (auto simp: row_sound_def list_all_iff split: option.splits)
qed

lemma split_at_id_SomeD: "split_at_id rid rs = Some (a, r, b) \<Longrightarrow> rs = a @ r # b \<and> cell r ''id'' = VStr rid"
  by (induction rs arbitrary: a) (auto split: if_splits)

lemma ledger_ok_empty: "ledger_ok (empty_ledger e)"
  by (simp add: ledger_ok_def table_ok_def empty_ledger_def)

lemma set_table_sel [simp]:
  "sl_tables (set_table t rs s) = (sl_tables s)(t := rs)" "sl_env (set_table t rs s) = sl_env s"
  "sl_ticks (set_table t rs s) = sl_ticks s" "sl_drawn (set_table t rs s) = sl_drawn s"
  by (simp_all add: set_table_def)

text \<open>A table replaced by one with the same ids and perhaps more keeps every other table sound.\<close>

lemma ledger_ok_set_table:
  assumes ok: "ledger_ok s" and sch: "schema_of t = Some cols"
    and ids: "\<And>r. r \<in> set (sl_tables s t) \<Longrightarrow> \<exists>r'\<in>set rs. cell r' ''id'' = cell r ''id''"
    and uq: "sorted_wrt (\<lambda>a b. \<not> clash (uniques t cols) a b) rs"
    and rows: "\<And>r. r \<in> set rs \<Longrightarrow> has_shape cols r \<and> row_sound (sl_tables s) cols r"
  shows "ledger_ok (set_table t rs s)"
proof -
  have mono: "row_sound ((sl_tables s)(t := rs)) cs r" if "row_sound (sl_tables s) cs r" for cs r
    by (rule row_sound_mono [OF that]) (use ids in auto)
  show ?thesis
    unfolding ledger_ok_def table_ok_def
  proof (intro allI impI conjI ballI)
    fix t' cs
    assume t': "schema_of t' = Some cs"
    have old: "t' \<noteq> t \<Longrightarrow> table_ok (sl_tables s) t' cs" using ok t' by (simp add: ledger_ok_def)
    have same: "t' = t \<Longrightarrow> cs = cols" using t' sch by simp
    show "sorted_wrt (\<lambda>a b. \<not> clash (uniques t' cs) a b) (sl_tables (set_table t rs s) t')"
      using old same uq by (cases "t' = t") (auto simp: table_ok_def)
    fix r
    assume r: "r \<in> set (sl_tables (set_table t rs s) t')"
    show "has_shape cs r"
      using old same rows r by (cases "t' = t") (auto simp: table_ok_def)
    show "row_sound (sl_tables (set_table t rs s)) cs r"
      using old same rows r mono by (cases "t' = t") (auto simp: table_ok_def)
  qed
qed

lemma ledger_ok_tableD: "ledger_ok s \<Longrightarrow> schema_of t = Some cols \<Longrightarrow> table_ok (sl_tables s) t cols"
  by (simp add: ledger_ok_def)

lemma sql_insert_ok [op_inv_intros]: "op_inv ledger_ok (sql_insert t d)"
proof (rule op_invI)
  fix s
  assume ok: "ledger_ok s"
  show "ledger_ok (snd (sql_insert t d s))"
  proof (cases "schema_of t")
    case (Some cols)
    let ?r = "row_of cols d"
    have tab: "table_ok (sl_tables s) t cols" using ok Some by (rule ledger_ok_tableD)
    have "ledger_ok (set_table t (sl_tables s t @ [?r]) s)"
      if "row_sound (sl_tables s) cols ?r" "\<not> list_ex (clash (uniques t cols) ?r) (sl_tables s t)"
      using that tab by (intro ledger_ok_set_table [OF ok Some])
        (auto simp: table_ok_def sorted_wrt_append shape_row_of list_ex_iff clash_sym)
    then show ?thesis using ok Some by (simp add: sql_insert_def Let_def)
  qed (simp add: sql_insert_def ok)
qed

lemma sql_update_ok:
  assumes "''id'' \<notin> set (dkeys changes)"
  shows "op_inv ledger_ok (sql_update t rid changes)"
proof (rule op_invI)
  fix s
  assume ok: "ledger_ok s"
  show "ledger_ok (snd (sql_update t rid changes s))"
  proof (cases "schema_of t")
    case (Some cols)
    have tab: "table_ok (sl_tables s) t cols" using ok Some by (rule ledger_ok_tableD)
    have "ledger_ok (set_table t (a @ [set_cells r changes] @ b) s)"
      if sp: "split_at_id rid (sl_tables s t) = Some (a, r, b)" and kn: "known_cols cols changes"
        and ro: "row_sound (sl_tables s) cols (set_cells r changes)"
        and un: "\<not> list_ex (clash (uniques t cols) (set_cells r changes)) (a @ b)" for a r b
    proof -
      have rs: "sl_tables s t = a @ r # b" using split_at_id_SomeD [OF sp] by simp
      have cells: "cell (set_cells r changes) ''id'' = cell r ''id''" using assms by (rule cell_set_other)
      have sh: "has_shape cols (set_cells r changes)"
        using tab kn rs by (auto simp: table_ok_def intro: shape_set_cells)
      show ?thesis
        using tab ro un cells sh by (intro ledger_ok_set_table [OF ok Some])
          (auto simp: rs table_ok_def sorted_wrt_append list_ex_iff clash_sym)
    qed
    then show ?thesis
      using ok Some by (auto simp: sql_update_def Let_def split: option.splits)
  qed (simp add: sql_update_def ok)
qed

text \<open>Only the tables count.\<close>

lemma ledger_ok_tables: "sl_tables s' = sl_tables s \<Longrightarrow> ledger_ok s' \<longleftrightarrow> ledger_ok s"
  by (simp add: ledger_ok_def)

lemma sl_now_ok [op_inv_intros]: "op_inv ledger_ok sl_now"
  by (rule op_invI) (simp add: sl_now_def ledger_ok_def)

lemma sl_id_ok [op_inv_intros]: "op_inv ledger_ok (sl_id p)"
  by (rule op_invI) (simp add: sl_id_def ledger_ok_def)

lemma insert_rec_ok [op_inv_intros]: "op_inv ledger_ok (insert_rec t rec)"
  unfolding insert_rec_def Let_def by (intro op_inv_intros)

lemma update_rec_ok [op_inv_intros]: "''id'' \<notin> set (dkeys changes) \<Longrightarrow> op_inv ledger_ok (update_rec t rid changes)"
  unfolding update_rec_def by (intro op_inv_intros sql_update_ok) (simp add: encode_doc_def dkeys_map_snd)

end
