(* ===== verification/Sales_Repository.thy ===== *)
theory Sales_Repository
  imports Sales_Ledger Regex
begin

text \<open>
  \<open>sworker/sales/repository.py\<close>: the only writer of the sales tables, one definition per method
  (\<open>record_sent\<close>, which schedules follow-ups, is in \<open>Sales_Followup\<close>).  A record that a method
  returns is the dictionary of its decoded row.  A method that raises keeps the statements it has
  already committed.
\<close>

section \<open>Company identity\<close>

definition scheme_cut :: "string \<Rightarrow> string" where
  "scheme_cut d = (if starts_with d ''https://'' then drop 8 d else if starts_with d ''http://'' then drop 7 d else d)"

definition www_cut :: "string \<Rightarrow> string" where
  "www_cut d = (if starts_with d ''www.'' then drop 4 d else d)"

definition strip_slashes :: "string \<Rightarrow> string" where
  "strip_slashes s = rev (dropWhile (\<lambda>c. c = CHR ''/'') (rev (dropWhile (\<lambda>c. c = CHR ''/'') s)))"

definition NAME_NOISE :: "string list" where
  "NAME_NOISE = [''inc'', ''llc'', ''l.l.c'', ''ltd'', ''co'', ''corp'', ''company'', ''group'', ''team'', ''realty'', ''real estate'']"

text \<open>\<open>re.sub\<close> of the noise words between word boundaries, leftmost first, alternatives in order.\<close>

definition word_at :: "string \<Rightarrow> string \<Rightarrow> string \<Rightarrow> bool" where
  "word_at pre w rest \<longleftrightarrow> starts_with rest w \<and> at_bound (pre, rest) \<and> at_bound (rev w @ pre, drop (length w) rest)"

fun cut_words :: "nat \<Rightarrow> string \<Rightarrow> string \<Rightarrow> string" where
  "cut_words 0 pre rest = rest"
| "cut_words (Suc n) pre rest = (case rest of [] \<Rightarrow> []
     | c # cs \<Rightarrow> (case List.find (\<lambda>w. word_at pre w rest) NAME_NOISE of
           Some w \<Rightarrow> cut_words n (rev w @ pre) (drop (length w) rest)
         | None \<Rightarrow> c # cut_words n (c # pre) cs))"

definition slug_char :: "char \<Rightarrow> bool" where
  "slug_char c = (let n = (of_char c :: nat) in (97 \<le> n \<and> n \<le> 122) \<or> (48 \<le> n \<and> n \<le> 57))"

definition normalise_company :: "string \<Rightarrow> string \<Rightarrow> error + string" where
  "normalise_company nm domain =
     (let d = strip_slashes (www_cut (scheme_cut (str_lower (str_strip domain)))) in
      if d \<noteq> [] then Inr (''domain:'' @ d)
      else let n0 = str_lower (str_strip nm); n = filter slug_char (cut_words (Suc (length n0)) [] n0) in
        if n = [] then Inl SalesError else Inr (''name:'' @ n))"

section \<open>Reading\<close>

definition is_cell :: "string \<Rightarrow> string \<Rightarrow> doc \<Rightarrow> bool" where
  "is_cell k v r \<longleftrightarrow> cell r k = VStr v"

definition sel :: "string \<Rightarrow> (doc \<Rightarrow> bool) \<Rightarrow> doc list lop" where
  "sel t P = op_bind (rows_of t) (\<lambda>rs. decode_rows t (filter P rs))"

definition sel_by :: "string \<Rightarrow> (doc \<Rightarrow> bool) \<Rightarrow> (doc \<Rightarrow> 'k::linorder) \<Rightarrow> doc list lop" where
  "sel_by t P key = op_bind (rows_of t) (\<lambda>rs. decode_rows t (sort_key key (filter P rs)))"

definition one_ref :: "string \<Rightarrow> pyval \<Rightarrow> doc option lop" where
  "one_ref t v = (case v of VStr rid \<Rightarrow> one_row t rid | _ \<Rightarrow> op_return None)"

definition the_row :: "string \<Rightarrow> string \<Rightarrow> doc lop" where
  "the_row t rid = op_bind (one_row t rid) (\<lambda>found. case found of None \<Rightarrow> op_raise AssertionError | Some d \<Rightarrow> op_return d)"

section \<open>Profiles, companies, contacts\<close>

definition upsert_icp :: "icp_profile \<Rightarrow> doc lop" where
  "upsert_icp p = op_bind (rows_of ''icp'') (\<lambda>rs. case List.find (is_cell ''name'' (icp_name p)) rs of
       Some r \<Rightarrow> op_then (update_rec ''icp'' (get_str r ''id'')
           [(''industry'', VStr (icp_industry p)), (''min_team_size'', VInt (icp_min_team_size p)),
            (''geography'', VStr (icp_geography p)), (''rank'', VInt (icp_rank p)),
            (''rank_score'', VFloat (icp_rank_score p)), (''offer'', VStr (icp_offer p)),
            (''offer_price'', VFloat (icp_offer_price p)), (''source_doc'', VStr (icp_source_doc p)),
            (''active'', VInt (if icp_active p then 1 else 0))])
         (the_row ''icp'' (get_str r ''id''))
     | None \<Rightarrow> op_then (insert_rec ''icp'' (icp_profile_dict p)) (op_return (icp_profile_dict p)))"

definition active_icp :: "doc list lop" where
  "active_icp = op_bind (rows_of ''icp'') (\<lambda>rs. decode_rows ''icp''
     (sort_key (\<lambda>r. get_num r ''rank'') (sort_key (\<lambda>r. - get_num r ''rank_score'')
        (filter (\<lambda>r. get_num r ''active'' = 1) rs))))"

definition create_company :: "company \<Rightarrow> unit lop" where
  "create_company c = op_then (insert_rec ''companies'' (company_dict c)) (op_return ())"

definition get_company :: "string \<Rightarrow> doc option lop" where
  "get_company cid = one_row ''companies'' cid"

definition find_company_by_key :: "string \<Rightarrow> doc option lop" where
  "find_company_by_key key = op_bind (rows_of ''leads'') (\<lambda>ls. op_bind (rows_of ''companies'') (\<lambda>cs.
     case List.find (\<lambda>c. list_ex (\<lambda>l. is_cell ''dedupe_key'' key l \<and> cell l ''company_id'' = cell c ''id'') ls) cs of
         None \<Rightarrow> op_return None
       | Some c \<Rightarrow> op_bind (op_lift (decode_row ''companies'' c)) (\<lambda>d. op_return (Some d))))"

definition create_contact :: "contact \<Rightarrow> unit lop" where
  "create_contact c = op_bind (get_company (ct_company_id c)) (\<lambda>found. case found of
       None \<Rightarrow> op_raise SalesError
     | Some _ \<Rightarrow> op_then (insert_rec ''contacts'' (contact_dict c)) (op_return ()))"

definition get_contact :: "string \<Rightarrow> doc option lop" where
  "get_contact cid = one_row ''contacts'' cid"

definition contacts_for :: "pyval \<Rightarrow> doc list lop" where
  "contacts_for cid = sel_by ''contacts'' (\<lambda>r. cid \<noteq> VNone \<and> cell r ''company_id'' = cid) (\<lambda>r. get_num r ''created'')"

section \<open>Leads\<close>

definition new_lead :: "string \<Rightarrow> string \<Rightarrow> string \<Rightarrow> string \<Rightarrow> string \<Rightarrow> string \<Rightarrow> lead lop" where
  "new_lead cid prospect src key experiment owner =
     op_bind (sl_id ''lead'') (\<lambda>lid. op_bind sl_now (\<lambda>t1. op_bind sl_now (\<lambda>t2.
       op_return \<lparr>ld_company_id = cid, ld_id = lid, ld_prospect_id = prospect, ld_stage = Prospect, ld_source = src,
         ld_dedupe_key = key, ld_score = 0, ld_score_version = 0, ld_owner = owner, ld_experiment_id = experiment,
         ld_lost_reason = [], ld_next_action = [], ld_next_action_due = [], ld_created = t1, ld_updated = t2\<rparr>)))"

definition log_transition :: "string \<Rightarrow> string \<Rightarrow> string \<Rightarrow> string \<Rightarrow> string \<Rightarrow> string \<Rightarrow> unit lop" where
  "log_transition lid src dst reason rid worker =
     op_bind (sl_id ''pt'') (\<lambda>pid. op_bind sl_now (\<lambda>t.
       op_then (insert_rec ''pipeline_history'' (pipeline_transition_dict
         \<lparr>pt_lead_id = lid, pt_from_stage = src, pt_to_stage = dst, pt_id = pid, pt_reason = reason, pt_run_id = rid,
           pt_worker = worker, pt_created = t\<rparr>)) (op_return ())))"

text \<open>The result of \<open>create_lead\<close>: the lead, whether it is new, and its key.\<close>

definition create_lead :: "company \<Rightarrow> string \<Rightarrow> string \<Rightarrow> string \<Rightarrow> string \<Rightarrow> (doc \<times> bool \<times> string) lop" where
  "create_lead co src prospect experiment owner =
     op_bind (op_lift (normalise_company (co_name co) (co_domain co))) (\<lambda>key.
     op_bind (rows_of ''leads'') (\<lambda>ls. case List.find (is_cell ''dedupe_key'' key) ls of
         Some r \<Rightarrow> op_bind (op_lift (decode_row ''leads'' r)) (\<lambda>d. op_return (d, False, key))
       | None \<Rightarrow>
          op_bind (get_company (co_id co)) (\<lambda>found.
          op_then (case found of Some _ \<Rightarrow> op_return () | None \<Rightarrow> create_company co)
          (op_bind (new_lead (co_id co) prospect (if src \<noteq> [] then src else co_source co) key experiment owner) (\<lambda>ld.
           op_then (insert_rec ''leads'' (lead_dict ld))
           (op_then (log_transition (ld_id ld) [] (pipeline_stage_value (ld_stage ld)) ''lead created'' [] [])
             (op_return (lead_dict ld, True, key))))))))"

definition get_lead :: "string \<Rightarrow> doc option lop" where
  "get_lead lid = one_row ''leads'' lid"

definition require_lead :: "string \<Rightarrow> doc lop" where
  "require_lead lid = op_bind (get_lead lid) (\<lambda>found. case found of None \<Rightarrow> op_raise SalesError | Some d \<Rightarrow> op_return d)"

definition LEAD_FIELDS :: "string list" where
  "LEAD_FIELDS = [''source'', ''owner'', ''experiment_id'', ''next_action'', ''next_action_due'', ''lost_reason'', ''prospect_id'']"

definition update_lead :: "string \<Rightarrow> doc \<Rightarrow> doc lop" where
  "update_lead lid changes =
     op_then (require_lead lid)
       (if \<not> list_all (\<lambda>k. k \<in> set LEAD_FIELDS) (dkeys changes) then op_raise SalesError
        else op_bind sl_now (\<lambda>t. op_then (update_rec ''leads'' lid (dset changes ''updated'' (VFloat t))) (require_lead lid)))"

text \<open>\<open>LIKE\<close>, which ignores the case of ASCII letters.\<close>

fun sql_like :: "string \<Rightarrow> string \<Rightarrow> bool" where
  "sql_like [] t = (t = [])"
| "sql_like (p # ps) [] = (p = CHR ''%'' \<and> sql_like ps [])"
| "sql_like (p # ps) (c # cs) =
     (if p = CHR ''%'' then sql_like ps (c # cs) \<or> sql_like (p # ps) cs
      else (p = CHR ''_'' \<or> ascii_lower p = ascii_lower c) \<and> sql_like ps cs)"

definition like_cell :: "doc \<Rightarrow> string \<Rightarrow> string \<Rightarrow> bool" where
  "like_cell r k q = (case cell r k of VStr v \<Rightarrow> sql_like (''%'' @ str_lower q @ ''%'') (str_lower v) | _ \<Rightarrow> False)"

record lead_query =
  lq_stage :: string
  lq_industry :: string
  lq_min_score :: rat
  lq_text :: string
  lq_limit :: int

definition all_leads :: lead_query where
  "all_leads = \<lparr>lq_stage = [], lq_industry = [], lq_min_score = -1, lq_text = [], lq_limit = 50\<rparr>"

definition lead_hits :: "lead_query \<Rightarrow> string \<Rightarrow> doc \<Rightarrow> doc \<Rightarrow> bool" where
  "lead_hits q stage l c \<longleftrightarrow>
     cell l ''company_id'' \<noteq> VNone \<and> cell c ''id'' = cell l ''company_id'' \<and>
     (lq_stage q \<noteq> [] \<longrightarrow> is_cell ''stage'' stage l) \<and>
     (lq_industry q \<noteq> [] \<longrightarrow> like_cell c ''industry'' (lq_industry q)) \<and>
     (0 \<le> lq_min_score q \<longrightarrow> lq_min_score q \<le> get_num l ''score'') \<and>
     (lq_text q \<noteq> [] \<longrightarrow> like_cell c ''name'' (lq_text q) \<or> like_cell c ''domain'' (lq_text q))"

definition lead_view :: "doc \<Rightarrow> doc \<Rightarrow> doc" where
  "lead_view l c = l @ [(''company_name'', cell c ''name''), (''industry'', cell c ''industry''),
     (''team_size'', cell c ''team_size''), (''geography'', cell c ''geography'')]"

definition sql_limit :: "int \<Rightarrow> 'a list \<Rightarrow> 'a list" where
  "sql_limit n xs = (if n < 0 then xs else take (nat n) xs)"

definition search_leads :: "lead_query \<Rightarrow> doc list lop" where
  "search_leads q =
     op_bind (if lq_stage q = [] then op_return [] else op_bind (op_lift (stage_of (lq_stage q))) (\<lambda>s. op_return (pipeline_stage_value s))) (\<lambda>stage.
     op_bind (rows_of ''leads'') (\<lambda>ls. op_bind (rows_of ''companies'') (\<lambda>cs.
       let hits = concat (map (\<lambda>l. map (\<lambda>c. lead_view l c) (filter (lead_hits q stage l) cs)) ls)
       in op_return (sql_limit (lq_limit q)
            (sort_key (\<lambda>r. - get_num r ''score'') (sort_key (\<lambda>r. get_num r ''created'') hits))))))"

section \<open>Pipeline\<close>

definition log_activity :: "activity \<Rightarrow> unit lop" where
  "log_activity a = op_then (require_lead (ac_lead_id a)) (op_then (insert_rec ''activities'' (activity_dict a)) (op_return ()))"

definition new_activity :: "string \<Rightarrow> string \<Rightarrow> string \<Rightarrow> string \<Rightarrow> string \<Rightarrow> string \<Rightarrow> string list \<Rightarrow> activity lop" where
  "new_activity lid kind summary detail rid worker evs =
     op_bind (sl_id ''act'') (\<lambda>aid. op_bind sl_now (\<lambda>t. op_return
       \<lparr>ac_lead_id = lid, ac_kind = kind, ac_summary = summary, ac_id = aid, ac_run_id = rid, ac_worker = worker,
         ac_detail = detail, ac_evidence_ids = evs, ac_created = t\<rparr>))"

record stage_move =
  mv_from :: pipeline_stage
  mv_to :: pipeline_stage
  mv_reason :: string

definition stage_changes :: "pipeline_stage \<Rightarrow> string \<Rightarrow> time \<Rightarrow> doc" where
  "stage_changes dst reason t =
     [(''stage'', VStr (pipeline_stage_value dst)), (''updated'', VFloat t)]
       @ (if dst = Lost then [(''lost_reason'', VStr reason)] else [])"

definition move_stage :: "string \<Rightarrow> string \<Rightarrow> string \<Rightarrow> string \<Rightarrow> string \<Rightarrow> stage_move lop" where
  "move_stage lid to_stage reason rid worker =
     op_bind (require_lead lid) (\<lambda>ld.
     op_bind (op_lift (stage_of (get_str ld ''stage''))) (\<lambda>src.
     op_bind (op_lift (stage_of to_stage)) (\<lambda>dst.
       let (ok, why) = can_move src dst; shown = (if reason \<noteq> [] then reason else why) in
       if \<not> ok then op_raise SalesError
       else if dst = Lost \<and> reason = [] then op_raise SalesError
       else op_bind sl_now (\<lambda>t.
         op_then (update_rec ''leads'' lid (stage_changes dst reason t))
         (op_then (log_transition lid (pipeline_stage_value src) (pipeline_stage_value dst) shown rid worker)
         (op_bind (new_activity lid ''stage_change'' (pipeline_stage_value src @ '' -> '' @ pipeline_stage_value dst) shown rid worker []) (\<lambda>a.
          op_then (log_activity a)
            (op_return \<lparr>mv_from = src, mv_to = dst, mv_reason = shown\<rparr>))))))))"

definition stage_history :: "string \<Rightarrow> doc list lop" where
  "stage_history lid = sel_by ''pipeline_history'' (is_cell ''lead_id'' lid) (\<lambda>r. get_num r ''created'')"

text \<open>The view \<open>sales_pipeline_summary\<close>: leads joined with their opportunities, grouped by stage.\<close>

definition sql_round2 :: "rat \<Rightarrow> rat" where
  "sql_round2 r = (if 0 \<le> r then of_int \<lfloor>r * 100 + 1/2\<rfloor> / 100 else - (of_int \<lfloor>- r * 100 + 1/2\<rfloor> / 100))"

definition joined_opps :: "doc list \<Rightarrow> doc \<Rightarrow> (doc \<times> doc option) list" where
  "joined_opps os l = (let hits = filter (\<lambda>o'. cell o' ''lead_id'' = cell l ''id'') os in
     if hits = [] then [(l, None)] else map (\<lambda>o'. (l, Some o')) hits)"

record stage_row =
  sr_stage :: string
  sr_leads :: nat
  sr_avg_score :: rat
  sr_value :: pyval

definition summary_row :: "doc list \<Rightarrow> doc list \<Rightarrow> string \<Rightarrow> stage_row" where
  "summary_row ls os stage =
     (let js = concat (map (joined_opps os) (filter (is_cell ''stage'' stage) ls)) in
      \<lparr>sr_stage = stage, sr_leads = length js,
       sr_avg_score = sql_round2 (sum_list (map (\<lambda>(l, _). get_num l ''score'') js) / of_nat (length js)),
       sr_value = (let vs = List.map_filter (\<lambda>(_, m). case m of None \<Rightarrow> None
             | Some o' \<Rightarrow> (if cell o' ''value'' = VNone then None else Some (get_num o' ''value''))) js
         in if vs = [] then VInt 0 else VFloat (sum_list vs))\<rparr>)"

definition pipeline_summary :: "stage_row list lop" where
  "pipeline_summary = op_bind (rows_of ''leads'') (\<lambda>ls. op_bind (rows_of ''opportunities'') (\<lambda>os.
     op_return (map (summary_row ls os) (sort (remdups (map (\<lambda>l. get_str l ''stage'') ls))))))"

record stale_lead =
  st_lead_id :: string
  st_company :: pyval
  st_stage :: string
  st_days :: rat
  st_overdue :: rat

definition entered_at :: "doc list \<Rightarrow> doc \<Rightarrow> rat" where
  "entered_at hist l = (let ts = map (\<lambda>h. get_num h ''created'') (filter (\<lambda>h. cell h ''lead_id'' = cell l ''id'') hist)
     in if ts = [] then 0 else Max (set ts))"

definition stale_of :: "rat \<Rightarrow> doc list \<Rightarrow> doc \<times> doc \<Rightarrow> error + stale_lead list" where
  "stale_of ref hist = (\<lambda>(l, c). let entered = entered_at hist l in
     if entered = 0 then Inr []
     else let days = (ref - entered) / 86400 in
       bind_sum (stage_of (get_str l ''stage'')) (\<lambda>s. let over = days_overdue s days in
         Inr (if 0 < over then [\<lparr>st_lead_id = get_str l ''id'', st_company = cell c ''name'', st_stage = get_str l ''stage'',
                st_days = py_round 2 days, st_overdue = over\<rparr>] else [])))"

definition stale_leads :: "rat option \<Rightarrow> stale_lead list lop" where
  "stale_leads as_of =
     op_bind (case as_of of Some r \<Rightarrow> op_return r | None \<Rightarrow> sl_now) (\<lambda>ref.
     op_bind (rows_of ''leads'') (\<lambda>ls. op_bind (rows_of ''companies'') (\<lambda>cs. op_bind (rows_of ''pipeline_history'') (\<lambda>hist.
     op_bind (op_lift (map_sum_list (stale_of ref hist)
        (concat (map (\<lambda>l. map (Pair l) (filter (\<lambda>c. cell l ''company_id'' \<noteq> VNone \<and> cell c ''id'' = cell l ''company_id'') cs)) ls)))) (\<lambda>hits.
       op_return (sort_key (\<lambda>r. - st_overdue r) (concat hits)))))))"

definition activities_for :: "string \<Rightarrow> int \<Rightarrow> doc list lop" where
  "activities_for lid limit = op_bind (rows_of ''activities'') (\<lambda>rs.
     decode_rows ''activities'' (sql_limit limit (sort_key (\<lambda>r. - get_num r ''created'') (filter (is_cell ''lead_id'' lid) rs))))"

section \<open>Evidence, pain points, qualifications\<close>

definition attach_evidence :: "sales_evidence \<Rightarrow> unit lop" where
  "attach_evidence ev =
     op_then (require_lead (sev_lead_id ev))
       (if str_strip (sev_source_ref ev) = [] then op_raise SalesError
        else if sev_claim_type ev \<notin> set SALES_CLAIM_TYPES then op_raise SalesError
        else op_then (insert_rec ''sales_evidence'' (sales_evidence_dict ev)) (op_return ()))"

definition evidence_for :: "string \<Rightarrow> string \<Rightarrow> doc list lop" where
  "evidence_for lid ctype = sel_by ''sales_evidence''
     (\<lambda>r. is_cell ''lead_id'' lid r \<and> (ctype \<noteq> [] \<longrightarrow> is_cell ''claim_type'' ctype r)) (\<lambda>r. get_num r ''created'')"

definition add_pain_point :: "pain_point \<Rightarrow> unit lop" where
  "add_pain_point p =
     op_then (require_lead (pp_lead_id p))
       (if pp_evidence_ids p = [] then op_raise SalesError
        else op_then (insert_rec ''pain_points'' (pain_point_dict p)) (op_return ()))"

definition pain_points_for :: "string \<Rightarrow> doc list lop" where
  "pain_points_for lid = sel_by ''pain_points'' (is_cell ''lead_id'' lid) (\<lambda>r. - get_num r ''opportunity_score'')"

definition next_qualification_version :: "string \<Rightarrow> int lop" where
  "next_qualification_version lid = op_bind (rows_of ''qualifications'') (\<lambda>rs.
     let vs = map (\<lambda>r. get_int r ''version'' 0) (filter (is_cell ''lead_id'' lid) rs)
     in op_return ((if vs = [] then 0 else Max (set vs)) + 1))"

definition record_qualification :: "qualification \<Rightarrow> qualification lop" where
  "record_qualification q =
     op_then (require_lead (ql_lead_id q))
     (op_bind (if ql_version q \<noteq> 0 then op_return (ql_version q) else next_qualification_version (ql_lead_id q)) (\<lambda>v.
       let q' = q\<lparr>ql_version := v\<rparr> in
       op_then (insert_rec ''qualifications'' (qualification_dict q'))
       (op_bind sl_now (\<lambda>t.
        op_then (update_rec ''leads'' (ql_lead_id q)
            [(''score'', VFloat (ql_score q)), (''score_version'', VInt v), (''updated'', VFloat t)])
          (op_return q')))))"

definition qualifications_for :: "string \<Rightarrow> doc list lop" where
  "qualifications_for lid = sel_by ''qualifications'' (is_cell ''lead_id'' lid) (\<lambda>r. get_int r ''version'' 0)"

definition latest_qualification :: "string \<Rightarrow> doc option lop" where
  "latest_qualification lid = op_bind (qualifications_for lid) (\<lambda>qs. op_return (if qs = [] then None else Some (last qs)))"

section \<open>Outreach\<close>

definition create_draft :: "outreach_draft \<Rightarrow> unit lop" where
  "create_draft d =
     op_then (require_lead (dr_lead_id d))
     (op_then (insert_rec ''outreach_drafts'' (outreach_draft_dict d))
     (op_bind (new_activity (dr_lead_id d) ''outreach_draft'' (''drafted '' @ dr_channel d @ '': '' @ take 60 (dr_subject d)) []
         (dr_run_id d) [] (dr_evidence_ids d)) log_activity))"

definition get_draft :: "string \<Rightarrow> doc option lop" where
  "get_draft did = one_row ''outreach_drafts'' did"

definition drafts :: "string \<Rightarrow> string \<Rightarrow> doc list lop" where
  "drafts state lid = sel_by ''outreach_drafts''
     (\<lambda>r. (state \<noteq> [] \<longrightarrow> is_cell ''state'' state r) \<and> (lid \<noteq> [] \<longrightarrow> is_cell ''lead_id'' lid r)) (\<lambda>r. get_num r ''created'')"

definition approve_draft :: "string \<Rightarrow> string \<Rightarrow> doc lop" where
  "approve_draft did by =
     op_bind (get_draft did) (\<lambda>found. case found of
         None \<Rightarrow> op_raise SalesError
       | Some d \<Rightarrow>
          if get_str d ''state'' \<noteq> outreach_state_value Out_Draft then op_raise SalesError
          else if by = [] then op_raise SalesError
          else op_bind sl_now (\<lambda>t.
            op_then (update_rec ''outreach_drafts'' did
              [(''state'', VStr (outreach_state_value Out_Approved)), (''approved_by'', VStr by), (''approved_at'', VFloat t)])
              (the_row ''outreach_drafts'' did)))"

section \<open>Tasks and follow-ups\<close>

definition create_task :: "sales_task \<Rightarrow> unit lop" where
  "create_task tk = op_then (require_lead (tk_lead_id tk)) (op_then (insert_rec ''tasks'' (sales_task_dict tk)) (op_return ()))"

definition complete_row :: "string \<Rightarrow> string \<Rightarrow> doc lop" where
  "complete_row t rid = op_bind (one_row t rid) (\<lambda>found. case found of
       None \<Rightarrow> op_raise SalesError
     | Some _ \<Rightarrow> op_bind sl_now (\<lambda>now.
         op_then (update_rec t rid [(''state'', VStr (task_state_value Todo_Done)), (''completed_at'', VFloat now)])
           (the_row t rid)))"

definition complete_task :: "string \<Rightarrow> doc lop" where
  "complete_task tid = complete_row ''tasks'' tid"

definition open_tasks :: "string \<Rightarrow> doc list lop" where
  "open_tasks lid = sel_by ''tasks'' (\<lambda>r. is_cell ''state'' ''open'' r \<and> (lid \<noteq> [] \<longrightarrow> is_cell ''lead_id'' lid r)) (\<lambda>r. get_str r ''due'')"

definition schedule_followup :: "followup \<Rightarrow> unit lop" where
  "schedule_followup fu =
     op_then (require_lead (fu_lead_id fu))
     (case date_of_iso (fu_due fu) of
        Inl _ \<Rightarrow> op_raise SalesError
      | Inr _ \<Rightarrow> op_then (insert_rec ''followups'' (followup_dict fu))
          (op_bind sl_now (\<lambda>t.
           op_then (update_rec ''leads'' (fu_lead_id fu)
             [(''next_action'', VStr (if fu_reason fu \<noteq> [] then fu_reason fu else fu_step fu)),
              (''next_action_due'', VStr (fu_due fu)), (''updated'', VFloat t)]) (op_return ()))))"

definition due_followups :: "string \<Rightarrow> doc list lop" where
  "due_followups on =
     op_bind (if on \<noteq> [] then op_return on else op_bind sl_today (\<lambda>d. op_return (date_iso d))) (\<lambda>day.
       sel_by ''followups'' (\<lambda>r. is_cell ''state'' ''open'' r \<and> (case cell r ''due'' of VStr due \<Rightarrow> due \<le> day | _ \<Rightarrow> False))
         (\<lambda>r. get_str r ''due''))"

definition complete_followup :: "string \<Rightarrow> doc lop" where
  "complete_followup fid = complete_row ''followups'' fid"

section \<open>Opportunities, proposals, outcomes\<close>

definition create_opportunity :: "opportunity \<Rightarrow> unit lop" where
  "create_opportunity p = op_then (require_lead (opp_lead_id p)) (op_then (insert_rec ''opportunities'' (opportunity_dict p)) (op_return ()))"

definition OPP_FIELDS :: "string list" where
  "OPP_FIELDS = [''name'', ''value'', ''probability'', ''close_date'', ''stage'']"

definition staged_changes :: "env \<Rightarrow> doc \<Rightarrow> error + doc" where
  "staged_changes e changes = (case dget changes ''stage'' of
       None \<Rightarrow> Inr changes
     | Some v \<Rightarrow> bind_sum (stage_of (py_str e v)) (\<lambda>s. Inr (dset changes ''stage'' (VStr (pipeline_stage_value s)))))"

definition update_opportunity :: "string \<Rightarrow> doc \<Rightarrow> doc lop" where
  "update_opportunity pid changes =
     op_bind (one_row ''opportunities'' pid) (\<lambda>found. case found of
         None \<Rightarrow> op_raise SalesError
       | Some _ \<Rightarrow>
          if \<not> list_all (\<lambda>k. k \<in> set OPP_FIELDS) (dkeys changes) then op_raise SalesError
          else op_bind (op_gets sl_env) (\<lambda>e. op_bind (op_lift (staged_changes e changes)) (\<lambda>cs. op_bind sl_now (\<lambda>t.
            op_then (update_rec ''opportunities'' pid (dset cs ''updated'' (VFloat t))) (the_row ''opportunities'' pid)))))"

definition opportunities_for :: "string \<Rightarrow> doc list lop" where
  "opportunities_for lid = sel_by ''opportunities'' (is_cell ''lead_id'' lid) (\<lambda>r. get_num r ''created'')"

definition create_proposal :: "proposal \<Rightarrow> unit lop" where
  "create_proposal p = op_then (require_lead (prp_lead_id p)) (op_then (insert_rec ''proposals'' (proposal_dict p)) (op_return ()))"

definition record_outcome :: "outcome \<Rightarrow> unit lop" where
  "record_outcome oc =
     op_then (require_lead (oc_lead_id oc))
       (if oc_result oc \<notin> {''won'', ''lost''} then op_raise SalesError
        else op_then (insert_rec ''outcomes'' (outcome_dict oc)) (op_return ()))"

section \<open>Lead detail\<close>

definition opt_doc :: "doc option \<Rightarrow> pyval" where
  "opt_doc m = VDict (case m of None \<Rightarrow> [] | Some d \<Rightarrow> d)"

definition docs :: "doc list \<Rightarrow> pyval" where
  "docs ds = VList (map VDict ds)"

definition lead_detail :: "string \<Rightarrow> doc lop" where
  "lead_detail lid =
     op_bind (require_lead lid) (\<lambda>ld.
     op_bind (one_ref ''companies'' (cell ld ''company_id'')) (\<lambda>co.
     op_bind (latest_qualification lid) (\<lambda>ql.
     op_bind (contacts_for (cell ld ''company_id'')) (\<lambda>cts.
     op_bind (qualifications_for lid) (\<lambda>qls.
     op_bind (pain_points_for lid) (\<lambda>pps.
     op_bind (evidence_for lid []) (\<lambda>evs.
     op_bind (activities_for lid 100) (\<lambda>acs.
     op_bind (drafts [] lid) (\<lambda>drs.
     op_bind (open_tasks lid) (\<lambda>tks.
     op_bind (sel_by ''followups'' (is_cell ''lead_id'' lid) (\<lambda>r. get_str r ''due'')) (\<lambda>fus.
     op_bind (stage_history lid) (\<lambda>hist.
     op_bind (opportunities_for lid) (\<lambda>ops.
       op_return [(''lead'', VDict ld), (''company'', opt_doc co), (''contacts'', docs cts), (''qualification'', opt_doc ql),
         (''qualification_history'', docs qls), (''pain_points'', docs pps), (''evidence'', docs evs), (''activities'', docs acs),
         (''outreach'', docs drs), (''tasks'', docs tks), (''followups'', docs fus), (''pipeline_history'', docs hist),
         (''opportunities'', docs ops)])))))))))))))"

end
