(* ===== verification/Sales_Evidence.thy ===== *)
theory Sales_Evidence
  imports Sales_Repository Evidence_Ledger
begin

text \<open>
  \<open>sworker/sales/evidence.py\<close>: claim tiers against provenance, the tier a body of evidence
  supports, attaching a sales claim (with and without a run ledger that mirrors it), and the
  explanation of a score.
\<close>

section \<open>Tiers\<close>

fun TIER_TO_PROVENANCE :: "claim_tier \<Rightarrow> provenance" where
  "TIER_TO_PROVENANCE Tier_Claim = Hypothesized"
| "TIER_TO_PROVENANCE Tier_Hypothesis = Inferred"
| "TIER_TO_PROVENANCE Tier_Observed = Observed"
| "TIER_TO_PROVENANCE Tier_Client_Verified = Verified"
| "TIER_TO_PROVENANCE Tier_Case_Study = Verified"

fun PROVENANCE_TO_TIER :: "provenance \<Rightarrow> claim_tier" where
  "PROVENANCE_TO_TIER Hypothesized = Tier_Claim"
| "PROVENANCE_TO_TIER Inferred = Tier_Hypothesis"
| "PROVENANCE_TO_TIER Observed = Tier_Observed"
| "PROVENANCE_TO_TIER Retrieved = Tier_Observed"
| "PROVENANCE_TO_TIER Known = Tier_Hypothesis"
| "PROVENANCE_TO_TIER Verified = Tier_Client_Verified"

fun TIER_CONFIDENCE :: "claim_tier \<Rightarrow> rat" where
  "TIER_CONFIDENCE Tier_Claim = 15/100"
| "TIER_CONFIDENCE Tier_Hypothesis = 4/10"
| "TIER_CONFIDENCE Tier_Observed = 7/10"
| "TIER_CONFIDENCE Tier_Client_Verified = 9/10"
| "TIER_CONFIDENCE Tier_Case_Study = 1"

definition tier_key :: "string \<Rightarrow> string" where
  "tier_key v = map (\<lambda>c. if c = CHR '' '' then CHR ''_'' else c) (str_upper (str_strip v))"

definition tier_of :: "string \<Rightarrow> error + claim_tier" where
  "tier_of v = (case enum_of claim_tier_value CLAIM_TIER_ORDER (tier_key v) of Some t \<Rightarrow> Inr t | None \<Rightarrow> Inl ValueError)"

definition tier_rank :: "claim_tier \<Rightarrow> nat" where
  "tier_rank t = pos_in CLAIM_TIER_ORDER t"

definition row_tier :: "doc \<Rightarrow> error + claim_tier" where
  "row_tier r = tier_of (get_str r ''tier'')"

text \<open>The file part of a locator: what precedes the first \<open>#\<close>.\<close>

definition source_base :: "doc \<Rightarrow> string" where
  "source_base r = takeWhile (\<lambda>c. c \<noteq> CHR ''#'') (get_str r ''source_ref'')"

definition corroborated_tier :: "doc list \<Rightarrow> error + claim_tier" where
  "corroborated_tier rs =
     (if rs = [] then Inr Tier_Claim
      else bind_sum (map_sum_list row_tier rs) (\<lambda>ts.
        let best = CLAIM_TIER_ORDER ! Max (set (map tier_rank ts)) in
        if best = Tier_Client_Verified
           \<and> 2 \<le> card (set (map (source_base \<circ> fst) (filter (\<lambda>(r, t). t = Tier_Client_Verified) (zip rs ts))))
        then Inr Tier_Case_Study else Inr best))"

section \<open>Attaching a claim\<close>

record sales_claim =
  sc_lead_id :: string
  sc_type :: string
  sc_text :: string
  sc_source_ref :: string
  sc_tier :: string
  sc_excerpt :: string
  sc_run_id :: string
  sc_observation_id :: string

definition evidence_rec :: "sales_claim \<Rightarrow> claim_tier \<Rightarrow> string \<Rightarrow> string \<Rightarrow> time \<Rightarrow> string \<Rightarrow> sales_evidence" where
  "evidence_rec c t rid sid now mirrored =
     \<lparr>sev_lead_id = sc_lead_id c, sev_claim_type = sc_type c, sev_claim_text = sc_text c, sev_source_ref = sc_source_ref c,
       sev_id = sid, sev_tier = t, sev_excerpt = take 2000 (sc_excerpt c), sev_run_id = rid,
       sev_observation_id = sc_observation_id c, sev_worker_evidence_id = mirrored, sev_confidence = TIER_CONFIDENCE t,
       sev_created = now\<rparr>"

definition attach :: "sales_claim \<Rightarrow> sales_evidence lop" where
  "attach c =
     op_bind (op_lift (tier_of (sc_tier c))) (\<lambda>t.
     op_bind (sl_id ''sev'') (\<lambda>sid. op_bind sl_now (\<lambda>now.
       let ev = evidence_rec c t (sc_run_id c) sid now [] in
       op_then (attach_evidence ev) (op_return ev))))"

text \<open>With a run ledger: the worker's evidence row is written before the repository checks the claim.\<close>

definition in_worker :: "'a sop \<Rightarrow> (store \<times> ledger, 'a) op" where
  "in_worker m p = (case m (fst p) of (r, s) \<Rightarrow> (r, (s, snd p)))"

definition in_ledger :: "'a lop \<Rightarrow> (store \<times> ledger, 'a) op" where
  "in_ledger m p = (case m (snd p) of (r, l) \<Rightarrow> (r, (fst p, l)))"

definition attach_mirrored :: "string \<Rightarrow> sales_claim \<Rightarrow> (store \<times> ledger, sales_evidence) op" where
  "attach_mirrored rid c =
     op_bind (op_lift (tier_of (sc_tier c))) (\<lambda>t.
     op_bind (in_ledger (sl_id ''sev'')) (\<lambda>sid. op_bind (in_ledger sl_now) (\<lambda>now.
     op_bind (in_worker (ev_note rid (TIER_TO_PROVENANCE t) (''[sales:'' @ sc_type c @ ''] '' @ sc_text c) (sc_source_ref c))) (\<lambda>m.
       let ev = evidence_rec c t (if sc_run_id c \<noteq> [] then sc_run_id c else rid) sid now (ev_id m) in
       op_then (in_ledger (attach_evidence ev)) (op_return ev)))))"

section \<open>Explanation\<close>

definition claim_view :: "doc \<Rightarrow> doc" where
  "claim_view r = [(''id'', cell r ''id''), (''claim'', cell r ''claim_text''), (''tier'', cell r ''tier''),
     (''source_ref'', cell r ''source_ref''), (''confidence'', cell r ''confidence''), (''excerpt'', cell r ''excerpt'')]"

definition by_claim_type :: "doc list \<Rightarrow> doc" where
  "by_claim_type rs = map (\<lambda>t. (t, VList (map (VDict \<circ> claim_view) (filter (\<lambda>r. get_str r ''claim_type'' = t) rs))))
     (rev (remdups (rev (map (\<lambda>r. get_str r ''claim_type'') rs))))"

definition explain_lead :: "string \<Rightarrow> doc lop" where
  "explain_lead lid =
     op_bind (evidence_for lid []) (\<lambda>rs.
     op_bind (latest_qualification lid) (\<lambda>q.
     op_bind (op_lift (corroborated_tier rs)) (\<lambda>t.
       op_return [(''lead_id'', VStr lid), (''evidence_count'', VInt (int (length rs))),
         (''collective_tier'', VStr (claim_tier_value t)), (''by_claim_type'', VDict (by_claim_type rs)),
         (''score'', case q of Some d \<Rightarrow> cell d ''score'' | None \<Rightarrow> VFloat 0),
         (''score_version'', case q of Some d \<Rightarrow> cell d ''version'' | None \<Rightarrow> VInt 0),
         (''reasoning'', case q of Some d \<Rightarrow> cell d ''reasoning'' | None \<Rightarrow> VStr []),
         (''score_evidence_ids'', VList (case q of Some d \<Rightarrow> get_list d ''evidence_ids'' | None \<Rightarrow> [])),
         (''model'', case q of Some d \<Rightarrow> cell d ''model'' | None \<Rightarrow> VStr [])])))"

section \<open>Lemmas\<close>

lemma tier_of_value [simp]: "tier_of (claim_tier_value t) = Inr t"
  by (cases t) (simp_all add: tier_of_def tier_key_def CLAIM_TIER_ORDER_def enum_of_def str_upper_def str_strip_def
      upper_char_def is_space_def Let_def)

lemma tier_rank_less: "tier_rank t < 5"
  by (cases t) (simp_all add: tier_rank_def CLAIM_TIER_ORDER_def)

lemma tier_rank_nth [simp]: "CLAIM_TIER_ORDER ! tier_rank t = t"
  by (cases t) (simp_all add: tier_rank_def CLAIM_TIER_ORDER_def)

lemma tier_confidence_range: "0 < TIER_CONFIDENCE t \<and> TIER_CONFIDENCE t \<le> 1"
  by (cases t) simp_all

text \<open>Provenance and tier translate back and forth, up to the strongest tier.\<close>

lemma tier_provenance_inverse: "t \<noteq> Tier_Case_Study \<Longrightarrow> PROVENANCE_TO_TIER (TIER_TO_PROVENANCE t) = t"
  by (cases t) simp_all

end
