(* ===== verification/Sales_Qualification.thy ===== *)
theory Sales_Qualification
  imports Sales_Evidence
begin

text \<open>
  \<open>sworker/sales/qualification.py\<close>: the rubric score of a pain point, the sub-scores of a lead, their
  weighted total, the append-only scoring record and its recomputation.  The language model is a
  parameter that may only add prose.  Lemmas: every sub-score and the total stay between 0 and 100,
  and the numbers do not depend on the model.
\<close>

section \<open>Weights\<close>

definition WEIGHTS :: "(string \<times> rat) list" where
  "WEIGHTS = [(''icp_fit'', 25/100), (''pain_signal'', 25/100), (''urgency'', 15/100),
     (''economic_potential'', 15/100), (''accessibility'', 10/100), (''confidence'', 10/100)]"

definition RUBRIC_MAX :: rat where "RUBRIC_MAX = 625"

definition URGENCY_TYPES :: "string list" where "URGENCY_TYPES = [''urgency_signal'', ''hiring_signal'']"
definition ECONOMIC_TYPES :: "string list" where "ECONOMIC_TYPES = [''budget_signal'', ''size_signal'']"
definition ACCESS_TYPES :: "string list" where "ACCESS_TYPES = [''contact_info'']"

section \<open>Sub-scores\<close>

text \<open>The rubric formula on the dimensions of a pain point.\<close>

definition opportunity_score :: "int \<Rightarrow> int \<Rightarrow> int \<Rightarrow> int \<Rightarrow> int \<Rightarrow> rat" where
  "opportunity_score sev freq impact potential diff =
     (let raw = of_int (max 0 sev * max 0 freq * max 0 impact * max 0 potential) / of_int (max 1 (if diff = 0 then 1 else diff)) in
      if raw = 0 then 0 else py_round 4 (min 100 (raw / RUBRIC_MAX * 100)))"

definition pain_score :: "doc \<Rightarrow> rat" where
  "pain_score r = opportunity_score (get_int r ''severity'' 0) (get_int r ''frequency'' 0) (get_int r ''revenue_impact'' 0)
     (get_int r ''automation_potential'' 0) (get_int r ''implementation_difficulty'' 0)"

definition industry_match :: "doc \<Rightarrow> doc \<Rightarrow> bool" where
  "industry_match icp co = (let a = get_str icp ''industry''; b = get_str co ''industry'' in
     a \<noteq> [] \<and> b \<noteq> [] \<and> (contains (str_lower b) (str_lower a) \<or> contains (str_lower a) (str_lower b)))"

definition team_part :: "int \<Rightarrow> int \<Rightarrow> rat" where
  "team_part least staff =
     (if least \<noteq> 0
      then (if least \<le> staff then 25 else if staff \<noteq> 0 then py_round 2 (25 * of_int staff / of_int least) else 0)
      else if staff \<noteq> 0 then 125/10 else 0)"

definition geo_part :: "string \<Rightarrow> string \<Rightarrow> rat" where
  "geo_part want have = (if want \<noteq> [] \<and> have \<noteq> []
     then (if contains (str_lower have) (str_lower want) then 20 else 0) else 10)"

definition rank_factor :: "int \<Rightarrow> rat" where
  "rank_factor rank = 1 - min (3/10) (5/100 * of_int (max 0 ((if rank = 0 then 1 else rank) - 1)))"

record icp_match =
  im_total :: rat
  im_detail :: doc

definition match_icp :: "doc \<Rightarrow> doc \<Rightarrow> icp_match" where
  "match_icp co icp =
     (let ind = (if industry_match icp co then 55 else 0);
          team = team_part (get_int icp ''min_team_size'' 0) (get_int co ''team_size'' 0);
          geo = geo_part (get_str icp ''geography'') (get_str co ''geography'');
          rf = rank_factor (get_int icp ''rank'' 0)
      in \<lparr>im_total = py_round 2 (py_round 2 (ind + team + geo) * rf),
           im_detail = [(''icp'', cell icp ''name''), (''icp_rank'', cell icp ''rank''), (''rank_factor'', VFloat rf),
             (''components'', VDict [(''industry'', VFloat ind), (''team_size'', VFloat team), (''geography'', VFloat geo)]),
             (''source_doc'', cell icp ''source_doc'')]\<rparr>)"

definition score_icp_fit :: "doc \<Rightarrow> doc list \<Rightarrow> rat \<times> doc" where
  "score_icp_fit co icps =
     (if icps = [] then (0, [(''reason'', VStr ''no active ICP configured; run `sworker sales init`'')])
      else let (best, detail) = foldl (\<lambda>(b, d) icp. let m = match_icp co icp in
                 if b < im_total m then (im_total m, im_detail m) else (b, d)) (0, []) icps
           in (min 100 best, detail))"

definition score_pain :: "doc list \<Rightarrow> rat \<times> doc" where
  "score_pain pps =
     (if pps = [] then (0, [(''reason'', VStr ''no pain points recorded with evidence'')])
      else let top = Max (set (map pain_score pps)); breadth = min 20 (5 * (of_nat (length pps) - 1)) in
        (py_round 2 (min 100 (top + breadth)),
         [(''top_opportunity_score'', VFloat top), (''pain_point_count'', VInt (int (length pps))), (''breadth_bonus'', VFloat breadth),
          (''formula'', VStr ''(Pain x Frequency x RevenueImpact x AutomationPotential) / Difficulty''),
          (''source_doc'', VStr ''Discovery_Rubric.md'')]))"

definition signal_score :: "doc list \<Rightarrow> string list \<Rightarrow> error + rat \<times> doc" where
  "signal_score evs types =
     (let hits = filter (\<lambda>r. get_str r ''claim_type'' \<in> set types) evs; named = (''claim_types'', VList (map VStr types)) in
      if hits = [] then Inr (0, [named, (''evidence_count'', VInt 0)])
      else bind_sum (map_sum_list row_tier hits) (\<lambda>ts.
        let ws = map TIER_CONFIDENCE ts; indep = card (set (map source_base hits));
            strength = Max (set ws); corro = min (3/10) (1/10 * (of_nat indep - 1));
            strongest = (case List.find (\<lambda>(r, w). w = strength) (zip hits ws) of Some (r, _) \<Rightarrow> cell r ''tier'' | None \<Rightarrow> VNone)
        in Inr (py_round 2 (min 100 ((strength + corro) * 100)),
             [named, (''evidence_count'', VInt (int (length hits))), (''independent_sources'', VInt (int indep)),
              (''strongest_tier'', strongest), (''evidence_ids'', VList (map (\<lambda>r. cell r ''id'') hits))])))"

definition total_score :: "(string \<times> rat) list \<Rightarrow> rat" where
  "total_score subs = py_round 2 (sum_list (map (\<lambda>(k, w). (case dget subs k of Some v \<Rightarrow> v | None \<Rightarrow> 0) * w) WEIGHTS))"

section \<open>Prose\<close>

record prose_model =
  pm_available :: bool
  pm_name :: string
  pm_url :: string
  pm_complete :: "string \<Rightarrow> string option"      \<comment> \<open>\<open>None\<close> when the call raised or gave nothing\<close>

definition subs_dict :: "(string \<times> rat) list \<Rightarrow> doc" where
  "subs_dict subs = map (\<lambda>(k, v). (k, VFloat v)) subs"

definition deterministic_reasoning :: "env \<Rightarrow> doc \<Rightarrow> (string \<times> rat) list \<Rightarrow> rat \<Rightarrow> claim_tier \<Rightarrow> nat \<Rightarrow> string" where
  "deterministic_reasoning e co subs pts t n =
     get_str co ''name'' @ '': score '' @ float_repr e pts @ ''/100 from ''
       @ join '', '' (map (\<lambda>(k, v). k @ ''='' @ float_repr e v) subs) @ '' (weights '' @ py_repr e (VDict (subs_dict WEIGHTS)) @ ''); ''
       @ int_str (int n) @ '' evidence row(s), collective claim tier '' @ claim_tier_value t
       @ ''. Every sub-score is re-derivable from evidence.list() for this lead.''"

definition str_or :: "string \<Rightarrow> string \<Rightarrow> string" where
  "str_or s d = (if s \<noteq> [] then s else d)"

definition line_sep :: string where "line_sep = [CHR 0x0A]"

definition summary_prompt :: "env \<Rightarrow> doc \<Rightarrow> (string \<times> rat) list \<Rightarrow> rat \<Rightarrow> doc list \<Rightarrow> doc list \<Rightarrow> string" where
  "summary_prompt e co subs pts evs pps =
     ''Summarise, in at most four sentences, why this company is or is not a good prospect. Use ONLY the evidence listed. Do not introduce new facts, numbers, or names.''
       @ line_sep @ line_sep @ ''Company: '' @ get_str co ''name'' @ '' ('' @ str_or (get_str co ''industry'') ''industry unknown'' @ '', team size ''
       @ (if get_truthy co ''team_size'' then py_str e (cell co ''team_size'') else ''unknown'') @ '')'' @ line_sep
       @ ''Computed score: '' @ float_repr e pts @ ''/100 with sub-scores '' @ py_repr e (VDict (subs_dict subs)) @ line_sep
       @ ''Evidence:'' @ line_sep
       @ join line_sep (map (\<lambda>r. ''- ['' @ get_str r ''claim_type'' @ ''/'' @ get_str r ''tier'' @ ''] '' @ get_str r ''claim_text'') (take 20 evs))
       @ line_sep @ ''Pain points:'' @ line_sep
       @ join line_sep (map (\<lambda>r. ''- '' @ get_str r ''text'' @ '' (opportunity '' @ py_str e (cell r ''opportunity_score'') @ '')'') (take 10 pps))"

definition reasoned :: "prose_model option \<Rightarrow> string \<Rightarrow> string \<Rightarrow> string \<times> string \<times> string" where
  "reasoned pm prompt plain = (case pm of
       None \<Rightarrow> (plain, ''deterministic'', [])
     | Some m \<Rightarrow> (if \<not> pm_available m then (plain, ''deterministic'', [])
         else case pm_complete m prompt of
             None \<Rightarrow> (plain, ''deterministic'', [])
           | Some p \<Rightarrow> (if p = [] then (plain, ''deterministic'', [])
               else (plain @ line_sep @ line_sep @ ''[model summary, HYPOTHESIZED, not evidence]'' @ line_sep @ p,
                     ''assisted:'' @ pm_name m, pm_url m))))"

section \<open>Evaluation\<close>

record lead_scores =
  ls_subs :: "(string \<times> rat) list"
  ls_total :: rat
  ls_tier :: claim_tier
  ls_signals :: doc

definition score_lead :: "doc \<Rightarrow> doc list \<Rightarrow> doc list \<Rightarrow> doc list \<Rightarrow> doc list \<Rightarrow> error + lead_scores" where
  "score_lead co icps evs pps contacts =
     bind_sum (signal_score evs URGENCY_TYPES) (\<lambda>(urg, urg_d).
     bind_sum (signal_score evs ECONOMIC_TYPES) (\<lambda>(eco, eco_d).
     bind_sum (signal_score evs ACCESS_TYPES) (\<lambda>(acc0, acc_d0).
     bind_sum (corroborated_tier evs) (\<lambda>t.
       let (icp, icp_d) = score_icp_fit co icps; (pain, pain_d) = score_pain pps;
           known = list_ex (\<lambda>c. get_bool c ''is_decision_maker'') contacts;
           acc = (if known then min 100 (acc0 + 25) else acc0);
           acc_d = (if known then dset acc_d0 ''decision_maker_known'' (VBool True) else acc_d0);
           subs = [(''icp_fit'', icp), (''pain_signal'', pain), (''urgency'', urg), (''economic_potential'', eco),
                   (''accessibility'', acc), (''confidence'', py_round 2 (TIER_CONFIDENCE t * 100))]
       in Inr \<lparr>ls_subs = subs, ls_total = total_score subs, ls_tier = t,
            ls_signals = [(''icp_fit'', VDict icp_d), (''pain_signal'', VDict pain_d), (''urgency'', VDict urg_d),
              (''economic_potential'', VDict eco_d), (''accessibility'', VDict acc_d),
              (''confidence'', VDict [(''collective_tier'', VStr (claim_tier_value t)), (''evidence_count'', VInt (int (length evs)))]),
              (''weights'', VDict (subs_dict WEIGHTS))]\<rparr>))))"

definition sub :: "lead_scores \<Rightarrow> string \<Rightarrow> rat" where
  "sub l k = (case dget (ls_subs l) k of Some v \<Rightarrow> v | None \<Rightarrow> 0)"

definition evaluate_lead :: "string \<Rightarrow> string \<Rightarrow> prose_model option \<Rightarrow> qualification lop" where
  "evaluate_lead lid rid pm =
     op_bind (require_lead lid) (\<lambda>ld.
     op_bind (one_ref ''companies'' (cell ld ''company_id'')) (\<lambda>found. case found of
         None \<Rightarrow> op_raise InsufficientEvidence
       | Some co \<Rightarrow>
          op_bind (evidence_for lid []) (\<lambda>evs.
          op_bind (pain_points_for lid) (\<lambda>pps.
          if evs = [] then op_raise InsufficientEvidence
          else op_bind active_icp (\<lambda>icps.
               op_bind (contacts_for (cell co ''id'')) (\<lambda>contacts.
               op_bind (op_lift (score_lead co icps evs pps contacts)) (\<lambda>l.
               op_bind (op_gets sl_env) (\<lambda>e.
                 let plain = deterministic_reasoning e co (ls_subs l) (ls_total l) (ls_tier l) (length evs);
                     (why, model, version) = reasoned pm (summary_prompt e co (ls_subs l) (ls_total l) evs pps) plain
                 in op_bind (next_qualification_version lid) (\<lambda>v.
                    op_bind (sl_id ''qual'') (\<lambda>qid. op_bind sl_now (\<lambda>t.
                      record_qualification
                        \<lparr>ql_lead_id = lid, ql_id = qid, ql_version = v, ql_icp_fit = sub l ''icp_fit'',
                          ql_pain_signal = sub l ''pain_signal'', ql_urgency = sub l ''urgency'',
                          ql_economic_potential = sub l ''economic_potential'', ql_accessibility = sub l ''accessibility'',
                          ql_confidence = sub l ''confidence'', ql_score = ls_total l, ql_tier = ls_tier l,
                          ql_signals = ls_signals l, ql_evidence_ids = map (\<lambda>r. get_str r ''id'') evs, ql_reasoning = why,
                          ql_model = model, ql_model_version = version, ql_run_id = rid, ql_created = t\<rparr>)))))))))))"

section \<open>Recomputation\<close>

record score_check =
  sk_version :: int
  sk_subs :: "(string \<times> rat) list"
  sk_stored :: rat
  sk_recomputed :: rat
  sk_evidence_ids :: "pyval list"

definition stored_subs :: "doc \<Rightarrow> (string \<times> rat) list" where
  "stored_subs q = map (\<lambda>(k, w). (k, get_num q k)) WEIGHTS"

definition score_breakdown :: "string \<Rightarrow> score_check option lop" where
  "score_breakdown lid = op_bind (latest_qualification lid) (\<lambda>found. case found of
       None \<Rightarrow> op_return None
     | Some q \<Rightarrow> op_return (Some \<lparr>sk_version = get_int q ''version'' 0, sk_subs = stored_subs q, sk_stored = get_num q ''score'',
         sk_recomputed = total_score (stored_subs q), sk_evidence_ids = get_list q ''evidence_ids''\<rparr>))"

definition score_matches :: "score_check \<Rightarrow> bool" where
  "score_matches k \<longleftrightarrow> \<bar>sk_recomputed k - sk_stored k\<bar> < 11/1000"

section \<open>Bounds\<close>

definition percent :: "rat \<Rightarrow> bool" where
  "percent r \<longleftrightarrow> 0 \<le> r \<and> r \<le> 100"

lemma py_round_percent: "percent r \<Longrightarrow> percent (py_round k r)"
  using py_round_ge [of 0 r k] py_round_le [of r 100 k] by (simp add: percent_def)

lemma opportunity_percent: "percent (opportunity_score a b c d e)"
proof -
  let ?raw = "of_int (max 0 a * max 0 b * max 0 c * max 0 d) / of_int (max 1 (if e = 0 then 1 else e)) :: rat"
  have "0 \<le> ?raw" by (intro divide_nonneg_nonneg) (auto intro!: mult_nonneg_nonneg)
  then have "percent (min 100 (?raw / RUBRIC_MAX * 100))" by (simp add: percent_def RUBRIC_MAX_def)
  then have "percent (py_round 4 (min 100 (?raw / RUBRIC_MAX * 100)))" by (rule py_round_percent)
  then show ?thesis unfolding opportunity_score_def Let_def by (simp add: percent_def)
qed

lemma icp_fold_nonneg:
  "0 \<le> b \<Longrightarrow> 0 \<le> fst (foldl (\<lambda>(b, d) icp. let m = match_icp co icp in
     if b < im_total m then (im_total m, im_detail m) else (b, d)) (b, d) icps)"
  by (induction icps arbitrary: b d) (simp_all add: Let_def)

lemma icp_fit_percent: "percent (fst (score_icp_fit co icps))"
  using icp_fold_nonneg [of 0 co "[]" icps]
  by (auto simp: score_icp_fit_def percent_def split: prod.split)

lemma pain_percent: "percent (fst (score_pain pps))"
proof (cases "pps = []")
  case False
  have "Max (set (map pain_score pps)) \<in> set (map pain_score pps)" using False by (intro Max_in) auto
  then have "percent (Max (set (map pain_score pps)))" by (auto simp: pain_score_def opportunity_percent)
  moreover have "0 \<le> min 20 (5 * (of_nat (length pps) - 1) :: rat)" using False by (cases pps) simp_all
  ultimately have "percent (min 100 (Max (set (map pain_score pps)) + min 20 (5 * (of_nat (length pps) - 1))))"
    by (simp add: percent_def)
  then show ?thesis using False by (simp add: score_pain_def Let_def py_round_percent)
qed (simp add: score_pain_def percent_def)

lemma map_sum_list_length: "map_sum_list f xs = Inr ys \<Longrightarrow> length ys = length xs"
  by (induction xs arbitrary: ys) (auto elim!: bind_sumE)

lemma corroboration_nonneg: "1 \<le> n \<Longrightarrow> 0 \<le> min (3/10) (1/10 * (of_nat n - 1) :: rat)"
  by simp

lemma signal_percent: "signal_score evs types = Inr (x, d) \<Longrightarrow> percent x"
proof -
  assume s: "signal_score evs types = Inr (x, d)"
  let ?hits = "filter (\<lambda>r. get_str r ''claim_type'' \<in> set types) evs"
  show ?thesis
  proof (cases "?hits = []")
    case True
    then show ?thesis using s by (simp add: signal_score_def Let_def percent_def)
  next
    case False
    obtain ts where ts: "map_sum_list row_tier ?hits = Inr ts"
        "x = py_round 2 (min 100 ((Max (set (map TIER_CONFIDENCE ts)) + min (3/10) (1/10 * (of_nat (card (set (map source_base ?hits))) - 1))) * 100))"
      using s False by (auto simp: signal_score_def Let_def elim!: bind_sumE)
    have "ts \<noteq> []" using False map_sum_list_length [OF ts(1)] by auto
    then have "Max (set (map TIER_CONFIDENCE ts)) \<in> set (map TIER_CONFIDENCE ts)" by (intro Max_in) auto
    then have w: "0 \<le> Max (set (map TIER_CONFIDENCE ts))"
      using tier_confidence_range less_imp_le by fastforce
    have "set (map source_base ?hits) \<noteq> {}" using False by (simp only: set_map image_is_empty set_empty not_False_eq_True)
    then have n: "1 \<le> card (set (map source_base ?hits))" by (metis List.finite_set One_nat_def Suc_leI card_gt_0_iff)
    have c: "0 \<le> min (3/10) (1/10 * (of_nat (card (set (map source_base ?hits))) - 1) :: rat)"
      using corroboration_nonneg [OF n] .
    have "percent (min 100 ((Max (set (map TIER_CONFIDENCE ts)) + min (3/10) (1/10 * (of_nat (card (set (map source_base ?hits))) - 1))) * 100))"
      using w c by (simp add: percent_def)
    then show ?thesis unfolding ts(2) by (rule py_round_percent)
  qed
qed

lemma total_percent:
  assumes "\<And>k v. dget subs k = Some v \<Longrightarrow> percent v"
  shows "percent (total_score subs)"
proof -
  let ?s = "\<lambda>k. case dget subs k of Some v \<Rightarrow> v | None \<Rightarrow> 0"
  have p: "percent (?s k)" for k using assms [of k] by (cases "dget subs k") (simp_all add: percent_def)
  have "percent (\<Sum>(k, w)\<leftarrow>WEIGHTS. ?s k * w)"
    using p [of "''icp_fit''"] p [of "''pain_signal''"] p [of "''urgency''"] p [of "''economic_potential''"]
      p [of "''accessibility''"] p [of "''confidence''"]
    unfolding WEIGHTS_def percent_def by simp
  then show ?thesis unfolding total_score_def by (rule py_round_percent)
qed

lemma confidence_percent: "percent (py_round 2 (TIER_CONFIDENCE t * 100))"
  using tier_confidence_range [of t] by (intro py_round_percent) (simp add: percent_def)

lemma score_lead_subs:
  assumes "score_lead co icps evs pps contacts = Inr l"
  obtains urg d1 eco d2 acc d3 t where
    "signal_score evs URGENCY_TYPES = Inr (urg, d1)" "signal_score evs ECONOMIC_TYPES = Inr (eco, d2)"
    "signal_score evs ACCESS_TYPES = Inr (acc, d3)" "ls_total l = total_score (ls_subs l)"
    "ls_subs l = [(''icp_fit'', fst (score_icp_fit co icps)), (''pain_signal'', fst (score_pain pps)), (''urgency'', urg),
        (''economic_potential'', eco),
        (''accessibility'', if list_ex (\<lambda>c. get_bool c ''is_decision_maker'') contacts then min 100 (acc + 25) else acc),
        (''confidence'', py_round 2 (TIER_CONFIDENCE t * 100))]"
proof -
  obtain x1 x2 x3 t where h: "signal_score evs URGENCY_TYPES = Inr x1" "signal_score evs ECONOMIC_TYPES = Inr x2"
      "signal_score evs ACCESS_TYPES = Inr x3" "corroborated_tier evs = Inr t"
    using assms unfolding score_lead_def case_prod_unfold by (elim bind_sumE)
  from assms show ?thesis
    using that [of "fst x1" "snd x1" "fst x2" "snd x2" "fst x3" "snd x3" t]
    unfolding score_lead_def case_prod_unfold h Let_def by (auto simp: h)
qed

lemma score_lead_percent:
  assumes "score_lead co icps evs pps contacts = Inr l"
  shows "percent (ls_total l) \<and> (\<forall>k. percent (sub l k)) \<and> ls_total l = total_score (ls_subs l) \<and> dkeys (ls_subs l) = dkeys WEIGHTS"
proof -
  obtain urg d1 eco d2 acc d3 t where h:
      "signal_score evs URGENCY_TYPES = Inr (urg, d1)" "signal_score evs ECONOMIC_TYPES = Inr (eco, d2)"
      "signal_score evs ACCESS_TYPES = Inr (acc, d3)" "ls_total l = total_score (ls_subs l)"
    and l: "ls_subs l = [(''icp_fit'', fst (score_icp_fit co icps)), (''pain_signal'', fst (score_pain pps)), (''urgency'', urg),
        (''economic_potential'', eco),
        (''accessibility'', if list_ex (\<lambda>c. get_bool c ''is_decision_maker'') contacts then min 100 (acc + 25) else acc),
        (''confidence'', py_round 2 (TIER_CONFIDENCE t * 100))]"
    using assms by (rule score_lead_subs)
  have acc: "percent (if list_ex (\<lambda>c. get_bool c ''is_decision_maker'') contacts then min 100 (acc + 25) else acc)"
    using signal_percent [OF h(3)] by (simp add: percent_def)
  have all: "percent v" if g: "dget (ls_subs l) k = Some v" for k v
  proof -
    have "v \<in> snd ` set (ls_subs l)" using dget_SomeD [OF g] by force
    then show ?thesis
      using acc signal_percent [OF h(1)] signal_percent [OF h(2)] icp_fit_percent [of co icps] pain_percent [of pps]
        confidence_percent [of t]
      unfolding l by (simp only: list.set image_insert snd_conv image_empty) blast
  qed
  have subs: "percent (sub l k)" for k
    using all [of k] by (cases "dget (ls_subs l) k") (simp_all add: sub_def percent_def)
  have keys: "dkeys (ls_subs l) = dkeys WEIGHTS" unfolding l WEIGHTS_def by simp
  have "percent (ls_total l)" unfolding h(4) by (rule total_percent) (rule all)
  then show ?thesis using subs keys h(4) by simp
qed

end
