(* ===== verification/Regex_Find.thy ===== *)
theory Regex_Find
  imports Regex
begin

text \<open>
  Which match \<open>re\<close> finds: ends in the order in which the backtracking matcher tries them (greedy
  repetition, alternatives left to right), the leftmost match of \<open>re.search\<close> with its text, and the
  list of the non-overlapping matches.  The order only permutes the ends of \<open>Regex\<close>.
\<close>

fun rounds_greedy :: "nat \<Rightarrow> (pos \<Rightarrow> pos list) \<Rightarrow> pos \<Rightarrow> pos list" where
  "rounds_greedy 0 f p = [p]"
| "rounds_greedy (Suc n) f p = concat (map (rounds_greedy n f) (f p)) @ [p]"

fun rx_prio :: "rx \<Rightarrow> pos \<Rightarrow> pos list" where
  "rx_prio (Cls P) p = step_cls P p"
| "rx_prio Empty p = [p]"
| "rx_prio (Cat a b) p = concat (map (rx_prio b) (rx_prio a p))"
| "rx_prio (Alt a b) p = rx_prio a p @ rx_prio b p"
| "rx_prio (Many r) p = rounds_greedy (length (snd p)) (rx_prio r) p"
| "rx_prio (Times n r) p = rounds n (rx_prio r) p"
| "rx_prio (UpTo n r) p = rounds_greedy n (rx_prio r) p"
| "rx_prio Bound p = (if at_bound p then [p] else [])"
| "rx_prio (NotBehind P) p = (if fst p \<noteq> [] \<and> P (hd (fst p)) then [] else [p])"
| "rx_prio (NotAhead P) p = (if snd p \<noteq> [] \<and> P (hd (snd p)) then [] else [p])"

record rx_match =
  rm_text :: string
  rm_before :: string      \<comment> \<open>reversed text before the match\<close>
  rm_after :: string

definition match_at :: "rx \<Rightarrow> pos \<Rightarrow> rx_match option" where
  "match_at r p = (case rx_prio r p of [] \<Rightarrow> None
     | q # _ \<Rightarrow> Some \<lparr>rm_text = take (length (snd p) - length (snd q)) (snd p), rm_before = fst p, rm_after = snd q\<rparr>)"

fun find_from :: "rx \<Rightarrow> string \<Rightarrow> string \<Rightarrow> rx_match option" where
  "find_from r pre [] = match_at r (pre, [])"
| "find_from r pre (c # cs) = (case match_at r (pre, c # cs) of Some m \<Rightarrow> Some m | None \<Rightarrow> find_from r (c # pre) cs)"

definition rx_find :: "rx \<Rightarrow> string \<Rightarrow> rx_match option" where
  "rx_find r s = find_from r [] s"

section \<open>Lemmas\<close>

lemma set_rounds: "(\<And>p. set (f p) = set (g p)) \<Longrightarrow> set (rounds n f p) = set (rounds n g p)"
  by (induction n arbitrary: p) auto

lemma set_rounds_greedy: "(\<And>p. set (f p) = set (g p)) \<Longrightarrow> set (rounds_greedy n f p) = set (rounds_upto n g p)"
  by (induction n arbitrary: p) auto

lemma rx_prio_set: "set (rx_prio r p) = set (rx_ends r p)"
proof (induction r arbitrary: p)
  case (Many r)
  then show ?case using set_rounds_greedy [of "rx_prio r" "rx_ends r"] by simp
next
  case (Times n r)
  then show ?case using set_rounds [of "rx_prio r" "rx_ends r"] by simp
next
  case (UpTo n r)
  then show ?case using set_rounds_greedy [of "rx_prio r" "rx_ends r"] by simp
qed auto

lemma rx_prio_Nil_iff: "rx_prio r p = [] \<longleftrightarrow> rx_ends r p = []"
  using rx_prio_set [of r p] by (metis set_empty)

lemma match_at_None_iff: "match_at r p = None \<longleftrightarrow> rx_ends r p = []"
  by (simp add: match_at_def rx_prio_Nil_iff [symmetric] split: list.split)

lemma find_from_None_iff: "find_from r pre s = None \<longleftrightarrow> \<not> search_from r pre s"
proof (induction s arbitrary: pre)
  case Nil
  show ?case using match_at_None_iff [of r "(pre, [])"] by (auto split: option.split)
next
  case (Cons a s)
  show ?case using Cons match_at_None_iff [of r "(pre, a # s)"] by (auto split: option.split)
qed

lemma rx_find_None_iff: "rx_find r s = None \<longleftrightarrow> \<not> rx_search r s"
  by (simp add: rx_find_def rx_search_def find_from_None_iff)

text \<open>The pieces of a match make up the text.\<close>

lemma match_at_pieces: "match_at r p = Some m \<Longrightarrow> rm_text m @ rm_after m = snd p \<and> rm_before m = fst p"
proof -
  assume m: "match_at r p = Some m"
  then obtain q qs where q: "rx_prio r p = q # qs" by (auto simp: match_at_def split: list.splits)
  then have "q \<in> set (rx_ends r p)" using rx_prio_set [of r p] by (metis list.set_intros(1))
  then have "advances p q" by (rule rx_ends_advances)
  then show ?thesis using m q by (auto simp: match_at_def advances_def)
qed

lemma find_from_pieces: "find_from r pre s = Some m \<Longrightarrow> rev (rm_before m) @ rm_text m @ rm_after m = rev pre @ s"
  by (induction s arbitrary: pre) (auto dest!: match_at_pieces split: option.splits)

lemma rx_find_pieces: "rx_find r s = Some m \<Longrightarrow> rev (rm_before m) @ rm_text m @ rm_after m = s"
  using find_from_pieces [of r "[]" s m] by (simp add: rx_find_def)

end
