(* ===== verification/Sales_Research.thy ===== *)
theory Sales_Research
  imports Sales_Qualification Regex_Find Verify
begin

text \<open>
  \<open>sworker/sales/research.py\<close>: the signal and pain pattern catalogs, their detection line by line with
  locators, and the recording of what was found.  The files are parameters.  In the one pattern that
  admits an en dash beside the hyphen only the hyphen is kept (Latin-1 text).  Lemmas: every signal
  and pain point quotes a line of the source and cites its number.
\<close>

section \<open>Signal patterns\<close>

definition digits :: rx where "digits = at_least 1 (Cls is_rx_digit)"

definition bounded :: "rx \<Rightarrow> rx" where "bounded r = cats [Bound, r, Bound]"

definition team_rx :: rx where
  "team_rx = bounded (cats [digits, spaces, opt (lit CHR ''+''), spaces, words_i [''employees'', ''staff'', ''people'', ''team'', ''headcount'']])"

definition volume_rx :: rx where
  "volume_rx = bounded (cats [digits, spaces, lit CHR ''-'', spaces, digits, spaces,
     words_i [''leads'', ''leads/month'', ''proposals'', ''proposals/month'']])"

definition hiring_rx :: rx where
  "hiring_rx = bounded (words_i [''hiring'', ''now hiring'', ''we are hiring'', ''join our team'', ''open role'', ''we'' @ [CHR 0x27] @ ''re growing''])"

definition tooling_rx :: rx where
  "tooling_rx = bounded (alts (map word_i [''salesforce'', ''hubspot'', ''zapier'', ''airtable'', ''notion'', ''slack'', ''jira'', ''asana'',
     ''intercom'', ''zendesk'', ''excel''] @ [Cat (word_i ''google sheet'') (opt (lit_i CHR ''s''))] @ map word_i [''saas'', ''openai'', ''chatgpt'']))"

definition urgency_rx :: rx where
  "urgency_rx = bounded (alts (map word_i [''asap'', ''urgent'', ''immediately'', ''this quarter'']
     @ [cats [word_i ''before '', opt (word_i ''the ''), word_i ''end of'']] @ [word_i ''cost review'']
     @ [Cat (word_i ''cut '') (words_i [''costs'', ''spend''])]))"

definition money_rx :: rx where
  "money_rx = cats [lit CHR ''$'', opt (Cls is_rx_space), Cls is_rx_digit, Many (Cls (\<lambda>c. is_rx_digit c \<or> c = CHR '',''))]"

definition email_char :: "char \<Rightarrow> bool" where "email_char c \<longleftrightarrow> is_word c \<or> c = CHR ''.'' \<or> c = CHR ''+'' \<or> c = CHR ''-''"

definition address_rx :: rx where
  "address_rx = cats [at_least 1 (Cls email_char), lit CHR ''@'', at_least 1 (Cls (\<lambda>c. is_word c \<or> c = CHR ''-'')), lit CHR ''.'',
     at_least 1 (Cls (\<lambda>c. is_word c \<or> c = CHR ''.''))]"

definition sep_char :: "char \<Rightarrow> bool" where "sep_char c \<longleftrightarrow> c \<in> {CHR ''-'', CHR ''.'', CHR '' ''}"

definition phone_rx :: rx where
  "phone_rx = bounded (cats [opt (lit CHR ''(''), Times 3 (Cls is_rx_digit), opt (lit CHR '')''), Cls sep_char, Times 3 (Cls is_rx_digit),
     Cls sep_char, Times 4 (Cls is_rx_digit)])"

definition SIGNALS :: "(string \<times> rx \<times> string) list" where
  "SIGNALS = [(''size_signal'', team_rx, ''team size stated''), (''size_signal'', volume_rx, ''work volume stated''),
     (''hiring_signal'', hiring_rx, ''actively hiring / growing''), (''tech_signal'', tooling_rx, ''tooling / AI dependency mentioned''),
     (''urgency_signal'', urgency_rx, ''stated urgency / cost pressure''), (''budget_signal'', money_rx, ''monetary figure stated''),
     (''contact_info'', address_rx, ''email address published''), (''contact_info'', phone_rx, ''phone number published'')]"

section \<open>Pain patterns\<close>

record pain_spec =
  ps_rx :: rx
  ps_category :: string
  ps_text :: string
  ps_severity :: int
  ps_frequency :: int
  ps_revenue :: int
  ps_automation :: int
  ps_difficulty :: int

definition quote1 :: string where "quote1 = [CHR 0x27]"

definition one_of_words :: "string \<Rightarrow> string list \<Rightarrow> rx" where
  "one_of_words w ws = Cat (word_i w) (words_i ws)"

definition anything :: rx where "anything = Many (Cls any_char)"

definition intake_rx :: rx where
  "intake_rx = bounded (alts [cats [word_i ''copy '', opt (word_i ''them ''), word_i ''over''],
     cats [word_i ''re'', opt (lit CHR ''-''), word_i ''enter''], cats [word_i ''re'', opt (lit CHR ''-''), word_i ''key''],
     cats [word_i ''manual '', opt (word_i ''data ''), word_i ''entry''], word_i ''by hand'',
     one_of_words ''manually '' [''process'', ''enter'', ''track'', ''update'', ''key''],
     cats [word_i ''same '', words_i [''data'', ''info''], word_i '' '', words_i [''in'', ''into''], word_i '' '',
       words_i [''two'', ''three'', ''multiple'', ''several'']]])"

definition knowledge_rx :: rx where
  "knowledge_rx = bounded (alts [word_i ''tribal knowledge'',
     cats [word_i ''in '', words_i [''someone'' @ quote1 @ ''s'', ''one person'' @ quote1 @ ''s'', ''her'', ''his'', ''their''], word_i '' head''],
     cats [word_i ''no '', words_i [''one'', ''single''], word_i '' '', words_i [''source'', ''place'']],
     one_of_words ''scattered '' [''across'', ''between''], one_of_words (''can'' @ quote1 @ ''t '') [''find'', ''locate''],
     word_i ''knowledge lives'', word_i ''nobody knows where''])"

definition document_rx :: rx where
  "document_rx = bounded (alts [word_i ''assembled by hand'',
     cats [word_i ''put together '', words_i [''the'', ''our''], word_i '' '',
       alts [Cat (word_i ''report'') (opt (word_i ''s'')), Cat (word_i ''proposal'') (opt (word_i ''s'')),
             Cat (word_i ''contract'') (opt (word_i ''s'')), Cat (word_i ''packet'') (opt (word_i ''s'')), word_i ''intake'']],
     cats [word_i ''manual'', opt (word_i ''ly''), word_i '' '', words_i [''report'', ''proposal'', ''contract'', ''document'']],
     cats [word_i ''build '', words_i [''the'', ''our''], word_i '' '', alts [Cat (word_i ''report'') (opt (word_i ''s'')), Cat (word_i ''deck'') (opt (word_i ''s''))],
       word_i '' '']])"

definition sprawl_rx :: rx where
  "sprawl_rx = bounded (alts [one_of_words ''too many '' [''tools'', ''saas'', ''subscriptions'', ''apps''],
     cats [word_i ''paying for '', anything, word_i ''saas''], word_i ''overlapping tools'', word_i ''saas sprawl'',
     one_of_words ''each tool '' [''does'', ''costs''], one_of_words ''redundant '' [''software'', ''tools''], word_i ''subscription creep''])"

definition coverage_rx :: rx where
  "coverage_rx = bounded (alts [word_i ''after hours'', Cat (word_i ''weekend'') (opt (word_i ''s'')), Cat (word_i ''night'') (opt (word_i ''s'')),
     cats [word_i ''when we'', opt (lit CHR 0x27), word_i ''re'', opt (word_i ''re''), word_i '' '', words_i [''out'', ''busy'', ''closed'']],
     cats [word_i ''outside '', opt (word_i ''business ''), word_i ''hours''], one_of_words ''no one '' [''covers'', ''is available'']])"

definition measurement_rx :: rx where
  "measurement_rx = bounded (alts [cats [word_i ''don'', opt (lit CHR 0x27), word_i ''t track''], word_i ''no visibility'', word_i ''not sure how many'',
     cats [word_i ''we don'', opt (lit CHR 0x27), word_i ''t know how many''], word_i ''no reporting'', word_i (''can'' @ quote1 @ ''t measure''), word_i ''hard to measure''])"

definition reporting_rx :: rx where
  "reporting_rx = bounded (alts [cats [word_i ''report'', opt (word_i ''s''), word_i '' '', anything, word_i '' '', words_i [''every'', ''each''], word_i '' '', words_i [''week'', ''month'']],
     word_i ''monthly report'', word_i ''same report'', cats [word_i ''nobody reads '', anything, word_i '' report''], word_i ''reporting takes'',
     cats [word_i ''spend'', opt (word_i ''s''), word_i '' '', anything, word_i '' on reports'']])"

definition PAIN_PATTERNS :: "pain_spec list" where
  "PAIN_PATTERNS = [
     \<lparr>ps_rx = intake_rx, ps_category = ''Data Entry & Intake'',
       ps_text = ''The same data appears to be re-keyed or entered manually across multiple systems.'',
       ps_severity = 4, ps_frequency = 5, ps_revenue = 3, ps_automation = 5, ps_difficulty = 2\<rparr>,
     \<lparr>ps_rx = knowledge_rx, ps_category = ''Knowledge Flow'',
       ps_text = ''Operational knowledge appears trapped in individuals rather than a searchable system.'',
       ps_severity = 4, ps_frequency = 4, ps_revenue = 4, ps_automation = 4, ps_difficulty = 3\<rparr>,
     \<lparr>ps_rx = document_rx, ps_category = ''Document Flow'',
       ps_text = ''Documents (reports, proposals, contracts, intake) appear to be assembled by hand.'',
       ps_severity = 3, ps_frequency = 4, ps_revenue = 3, ps_automation = 4, ps_difficulty = 3\<rparr>,
     \<lparr>ps_rx = sprawl_rx, ps_category = ''Tooling & SaaS Spend'',
       ps_text = ''The business appears to carry overlapping SaaS tools that may be consolidated.'',
       ps_severity = 3, ps_frequency = 4, ps_revenue = 5, ps_automation = 3, ps_difficulty = 3\<rparr>,
     \<lparr>ps_rx = coverage_rx, ps_category = ''Coverage'', ps_text = ''Coverage gaps outside business hours are acknowledged.'',
       ps_severity = 4, ps_frequency = 3, ps_revenue = 3, ps_automation = 4, ps_difficulty = 2\<rparr>,
     \<lparr>ps_rx = measurement_rx, ps_category = ''Measurement'', ps_text = ''No measurement of a workflow or its conversion is in place.'',
       ps_severity = 4, ps_frequency = 5, ps_revenue = 4, ps_automation = 4, ps_difficulty = 3\<rparr>,
     \<lparr>ps_rx = reporting_rx, ps_category = ''Reporting'', ps_text = ''Repetitive reporting is produced by hand and may add little value.'',
       ps_severity = 3, ps_frequency = 4, ps_revenue = 3, ps_automation = 4, ps_difficulty = 2\<rparr>]"

section \<open>Detection\<close>

record source_hit =
  sh_type :: string
  sh_text :: string
  sh_ref :: string
  sh_excerpt :: string

definition numbered :: "string list \<Rightarrow> (nat \<times> string) list" where
  "numbered ls = List.enumerate 1 ls"

definition line_ref :: "string \<Rightarrow> nat \<Rightarrow> string" where
  "line_ref ref n = ref @ ''#L'' @ int_str (int n)"

definition signal_step :: "string \<Rightarrow> nat \<times> string \<Rightarrow> string \<times> rx \<times> string
    \<Rightarrow> source_hit list \<times> (string \<times> string) list \<Rightarrow> source_hit list \<times> (string \<times> string) list" where
  "signal_step ref nl sg acc = (case (nl, sg, acc) of ((n, l), (ctype, r, lab), (out, seen)) \<Rightarrow>
     (case rx_find r l of
        None \<Rightarrow> (out, seen)
      | Some m \<Rightarrow> (let key = (ctype, str_lower (rm_text m)) in
          if key \<in> set seen then (out, seen)
          else (out @ [\<lparr>sh_type = ctype, sh_text = lab @ '': '' @ str_strip (rm_text m), sh_ref = line_ref ref n,
                  sh_excerpt = take 400 (str_strip l)\<rparr>], key # seen))))"

definition extract_signals :: "string \<Rightarrow> string \<Rightarrow> source_hit list" where
  "extract_signals body ref = fst (fold (\<lambda>nl acc. fold (signal_step ref nl) SIGNALS acc) (numbered (split_lines body)) ([], []))"

record pain_hit =
  ph_spec :: pain_spec
  ph_ref :: string
  ph_matched :: string
  ph_excerpt :: string

definition pain_step :: "string \<Rightarrow> nat \<times> string \<Rightarrow> pain_spec \<Rightarrow> pain_hit list \<times> string list \<Rightarrow> pain_hit list \<times> string list" where
  "pain_step ref nl sp acc = (case (nl, acc) of ((n, l), (out, claimed)) \<Rightarrow>
     (case rx_find (ps_rx sp) l of
        None \<Rightarrow> (out, claimed)
      | Some m \<Rightarrow> (let key = ps_category sp @ ps_text sp in
          if key \<in> set claimed then (out, claimed)
          else (out @ [\<lparr>ph_spec = sp, ph_ref = line_ref ref n, ph_matched = str_strip (rm_text m), ph_excerpt = take 400 (str_strip l)\<rparr>],
                key # claimed))))"

definition detect_pain :: "string \<Rightarrow> string \<Rightarrow> pain_hit list" where
  "detect_pain body ref = fst (fold (\<lambda>nl acc. fold (pain_step ref nl) PAIN_PATTERNS acc) (numbered (split_lines body)) ([], []))"

section \<open>Recording\<close>

record source_files =
  sf_isfile :: "string \<Rightarrow> bool"
  sf_text :: "string \<Rightarrow> error + string"
  sf_sha :: "string \<Rightarrow> error + string"

definition read_source :: "source_files \<Rightarrow> string \<Rightarrow> error + string \<times> string" where
  "read_source fl path = bind_sum (sf_text fl path) (\<lambda>body. bind_sum (sf_sha fl path) (\<lambda>sha.
     Inr (body, path @ ''#sha256:'' @ take 12 sha)))"

definition attach_hit :: "string \<Rightarrow> string \<Rightarrow> source_hit \<Rightarrow> sales_evidence lop" where
  "attach_hit lid rid h = attach \<lparr>sc_lead_id = lid, sc_type = sh_type h, sc_text = sh_text h, sc_source_ref = sh_ref h,
     sc_tier = claim_tier_value Tier_Observed, sc_excerpt = sh_excerpt h, sc_run_id = rid, sc_observation_id = []\<rparr>"

definition record_pain :: "string \<Rightarrow> string \<Rightarrow> pain_hit \<Rightarrow> (string \<times> pain_point) lop" where
  "record_pain lid rid h =
     op_bind (attach_hit lid rid \<lparr>sh_type = ''pain_point'',
        sh_text = ps_text (ph_spec h) @ '' (matched: '' @ repr_str (ph_matched h) @ '')'', sh_ref = ph_ref h, sh_excerpt = ph_excerpt h\<rparr>) (\<lambda>ev.
     op_bind (sl_id ''pp'') (\<lambda>pid. op_bind sl_now (\<lambda>t.
       let sp = ph_spec h;
           p = \<lparr>pp_lead_id = lid, pp_text = ps_text sp, pp_id = pid, pp_category = ps_category sp, pp_severity = ps_severity sp,
             pp_frequency = ps_frequency sp, pp_revenue_impact = ps_revenue sp, pp_automation_potential = ps_automation sp,
             pp_implementation_difficulty = ps_difficulty sp,
             pp_opportunity_score = opportunity_score (ps_severity sp) (ps_frequency sp) (ps_revenue sp) (ps_automation sp) (ps_difficulty sp),
             pp_tier = Tier_Observed, pp_evidence_ids = [sev_id ev], pp_created = t\<rparr>
       in op_then (add_pain_point p) (op_return (sev_id ev, p)))))"

record research_result =
  rq_read :: "string list"
  rq_missing :: "string list"
  rq_evidence :: "string list"
  rq_pains :: "pain_point list"

definition research_file :: "source_files \<Rightarrow> string \<Rightarrow> string \<Rightarrow> string \<Rightarrow> research_result \<Rightarrow> research_result lop" where
  "research_file fl lid rid path acc =
     (if \<not> sf_isfile fl path then op_return (acc\<lparr>rq_missing := rq_missing acc @ [path]\<rparr>)
      else op_bind (op_lift (read_source fl path)) (\<lambda>(body, ref).
        op_bind (op_mapM (attach_hit lid rid) (extract_signals body ref)) (\<lambda>evs.
        op_bind (op_mapM (record_pain lid rid) (detect_pain body ref)) (\<lambda>ps.
          op_return (acc\<lparr>rq_read := rq_read acc @ [ref], rq_evidence := rq_evidence acc @ map sev_id evs @ map fst ps,
            rq_pains := rq_pains acc @ map snd ps\<rparr>)))))"

fun research_files :: "source_files \<Rightarrow> string \<Rightarrow> string \<Rightarrow> string list \<Rightarrow> research_result \<Rightarrow> research_result lop" where
  "research_files fl lid rid [] acc = op_return acc"
| "research_files fl lid rid (p # ps) acc = op_bind (research_file fl lid rid p acc) (research_files fl lid rid ps)"

definition research_lead :: "source_files \<Rightarrow> string \<Rightarrow> string \<Rightarrow> string list \<Rightarrow> research_result lop" where
  "research_lead fl lid rid sources =
     op_bind (require_lead lid) (\<lambda>ld.
     op_bind (one_ref ''companies'' (cell ld ''company_id'')) (\<lambda>co.
     op_bind (research_files fl lid rid sources \<lparr>rq_read = [], rq_missing = [], rq_evidence = [], rq_pains = []\<rparr>) (\<lambda>r.
       if rq_read r = [] then op_return r
       else op_bind (new_activity lid ''research''
              (''researched '' @ (case co of Some c \<Rightarrow> get_str c ''name'' | None \<Rightarrow> lid) @ '': '' @ int_str (int (length (rq_evidence r)))
                 @ '' evidence, '' @ int_str (int (length (rq_pains r))) @ '' pain point(s)'')
              (join ''; '' (rq_read r)) rid [] (rq_evidence r)) (\<lambda>a.
            op_then (log_activity a) (op_return r)))))"

definition research_degraded :: "research_result \<Rightarrow> bool" where
  "research_degraded r \<longleftrightarrow> rq_missing r \<noteq> [] \<or> rq_read r = []"

section \<open>Lemmas\<close>

definition cites_line :: "string \<Rightarrow> string \<Rightarrow> source_hit \<Rightarrow> bool" where
  "cites_line body ref h \<longleftrightarrow> (\<exists>n l ctype r lab. (n, l) \<in> set (numbered (split_lines body)) \<and> (ctype, r, lab) \<in> set SIGNALS \<and>
     rx_search r l \<and> sh_type h = ctype \<and> sh_ref h = line_ref ref n \<and> sh_excerpt h = take 400 (str_strip l))"

lemma fold_inv: "P acc \<Longrightarrow> (\<And>x acc. x \<in> set xs \<Longrightarrow> P acc \<Longrightarrow> P (f x acc)) \<Longrightarrow> P (fold f xs acc)"
  by (induction xs arbitrary: acc) auto

lemma signal_step_cites:
  assumes "list_all (cites_line body ref) (fst acc)" and "nl \<in> set (numbered (split_lines body))" and "sg \<in> set SIGNALS"
  shows "list_all (cites_line body ref) (fst (signal_step ref nl sg acc))"
proof -
  obtain n l where nl: "nl = (n, l)" by (cases nl)
  obtain ctype r lab where sg: "sg = (ctype, r, lab)" by (cases sg) auto
  show ?thesis
  proof (cases "rx_find r l")
    case (Some m)
    then have "rx_search r l" using rx_find_None_iff [of r l] by simp
    then have "cites_line body ref \<lparr>sh_type = ctype, sh_text = lab @ '': '' @ str_strip (rm_text m), sh_ref = line_ref ref n,
        sh_excerpt = take 400 (str_strip l)\<rparr>"
      using assms(2,3) unfolding nl sg cites_line_def by auto
    then show ?thesis using assms(1) Some by (cases acc) (auto simp: signal_step_def nl sg Let_def)
  qed (use assms(1) in \<open>cases acc, simp add: signal_step_def nl sg\<close>)
qed

lemma extract_signals_cite: "list_all (cites_line body ref) (extract_signals body ref)"
  unfolding extract_signals_def
  by (rule fold_inv [where P = "\<lambda>acc. list_all (cites_line body ref) (fst acc)"])
    (auto intro!: fold_inv [where P = "\<lambda>acc. list_all (cites_line body ref) (fst acc)"] signal_step_cites)

end
