(* ===== verification/Sales_Followup.thy ===== *)
theory Sales_Followup
  imports Sales_Repository
begin

text \<open>
  \<open>sworker/sales/followup.py\<close>: the follow-up rule of each stage, the next action, its scheduling,
  what is due today; and \<open>record_sent\<close> of \<open>sworker/sales/repository.py\<close>, which schedules the next
  touch.  The sequences of the follow-up document are a list of named step lists.  The character 0x97
  stands for the em dash in the reason of \<open>RESPONDED\<close>.
\<close>

section \<open>Rules\<close>

record followup_rule =
  fr_reason :: string
  fr_kind :: string
  fr_days :: int
  fr_sequence :: string

fun RULES :: "pipeline_stage \<Rightarrow> followup_rule option" where
  "RULES Contacted = Some \<lparr>fr_reason = ''no response to initial outreach'', fr_kind = ''followup'', fr_days = 3, fr_sequence = ''New Prospect''\<rparr>"
| "RULES Responded = Some \<lparr>fr_reason = ''positive response '' @ [CHR 0x97] @ '' book discovery'', fr_kind = ''discovery'', fr_days = 1, fr_sequence = ''New Prospect''\<rparr>"
| "RULES Discovery_Scheduled = Some \<lparr>fr_reason = ''prep research before the call'', fr_kind = ''prep'', fr_days = 1, fr_sequence = ''New Prospect''\<rparr>"
| "RULES Discovery_Completed = Some \<lparr>fr_reason = ''send call summary + audit proposal within 24h'', fr_kind = ''next_step'', fr_days = 1, fr_sequence = ''Discovery Completed''\<rparr>"
| "RULES Qualified = Some \<lparr>fr_reason = ''send audit proposal'', fr_kind = ''proposal'', fr_days = 2, fr_sequence = ''Discovery Completed''\<rparr>"
| "RULES Proposal_Sent = Some \<lparr>fr_reason = ''proposal follow-up'', fr_kind = ''followup'', fr_days = 3, fr_sequence = ''Proposal Sent''\<rparr>"
| "RULES Negotiation = Some \<lparr>fr_reason = ''address open objections'', fr_kind = ''next_step'', fr_days = 2, fr_sequence = ''Proposal Sent''\<rparr>"
| "RULES Audit_In_Progress = Some \<lparr>fr_reason = ''audit delivery checkpoint'', fr_kind = ''delivery'', fr_days = 7, fr_sequence = ''Discovery Completed''\<rparr>"
| "RULES Lost = Some \<lparr>fr_reason = ''nurture / revisit'', fr_kind = ''nurture'', fr_days = 90, fr_sequence = ''New Prospect''\<rparr>"
| "RULES _ = None"

type_synonym sequences = "(string \<times> (int \<times> string) list) list"

record next_action =
  na_stage :: pipeline_stage
  na_reason :: string
  na_kind :: string
  na_sequence :: string
  na_step :: string
  na_action :: string
  na_due :: string
  na_max_days :: int

definition day_name :: "int \<Rightarrow> string" where
  "day_name d = ''day_'' @ int_str d"

text \<open>The step for the touches so far: its day (0 falls back to the rule), its name, its action.\<close>

definition chosen_step :: "followup_rule \<Rightarrow> sequences \<Rightarrow> nat \<Rightarrow> int \<times> string \<times> string" where
  "chosen_step r seqs touches = (case dget seqs (fr_sequence r) of
       Some (st # sts) \<Rightarrow> (case (st # sts) ! min touches (length sts) of (d, act) \<Rightarrow>
         ((if d \<noteq> 0 then d else fr_days r), day_name d, act))
     | _ \<Rightarrow> (fr_days r, day_name (fr_days r), fr_reason r))"

definition next_action_for :: "pipeline_stage \<Rightarrow> sequences \<Rightarrow> nat \<Rightarrow> date \<Rightarrow> error + next_action option" where
  "next_action_for s seqs touches base = (case RULES s of
       None \<Rightarrow> Inr None
     | Some r \<Rightarrow> (case chosen_step r seqs touches of (days, step, act) \<Rightarrow>
         bind_sum (date_plus base days) (\<lambda>due. Inr (Some
           \<lparr>na_stage = s, na_reason = fr_reason r, na_kind = fr_kind r, na_sequence = fr_sequence r, na_step = step,
             na_action = act, na_due = date_iso due, na_max_days = MAX_DAYS_IN_STAGE s\<rparr>))))"

section \<open>Scheduling\<close>

datatype schedule_result =
    Already string
  | No_Rule string
  | Scheduled string string next_action

definition touches_of :: "string \<Rightarrow> nat lop" where
  "touches_of lid = op_bind (drafts [] lid) (\<lambda>ds.
     op_return (length (filter (\<lambda>d. get_str d ''state'' \<in> {''sent'', ''approved''}) ds)))"

definition open_followups :: "string \<Rightarrow> doc list lop" where
  "open_followups lid = op_bind (due_followups ''9999-12-31'') (\<lambda>fs. op_return (filter (is_cell ''lead_id'' lid) fs))"

definition book_followup :: "string \<Rightarrow> string \<Rightarrow> next_action \<Rightarrow> schedule_result lop" where
  "book_followup lid rid p =
     op_bind (sl_id ''fu'') (\<lambda>fid. op_bind sl_now (\<lambda>t.
     op_then (schedule_followup \<lparr>fu_lead_id = lid, fu_due = na_due p, fu_id = fid, fu_reason = na_reason p,
         fu_sequence = na_sequence p, fu_step = na_step p, fu_state = Todo_Open, fu_run_id = rid, fu_completed_at = 0, fu_created = t\<rparr>)
     (op_bind (sl_id ''task'') (\<lambda>tid. op_bind sl_now (\<lambda>t2.
      op_then (create_task \<lparr>tk_lead_id = lid, tk_title = na_action p, tk_id = tid, tk_kind = na_kind p, tk_due = na_due p,
         tk_state = Todo_Open, tk_detail = na_sequence p @ '' / '' @ na_step p, tk_run_id = rid, tk_completed_at = 0, tk_created = t2\<rparr>)
        (op_return (Scheduled fid tid p)))))))"

definition schedule_for_lead :: "string \<Rightarrow> sequences \<Rightarrow> string \<Rightarrow> schedule_result lop" where
  "schedule_for_lead lid seqs rid =
     op_bind (require_lead lid) (\<lambda>ld.
     op_bind (open_followups lid) (\<lambda>fs. case fs of
         f # _ \<Rightarrow> op_return (Already (get_str f ''id''))
       | [] \<Rightarrow>
          op_bind (touches_of lid) (\<lambda>n.
          op_bind (op_lift (stage_of (get_str ld ''stage''))) (\<lambda>s.
          op_bind (case RULES s of None \<Rightarrow> op_return epoch_day | Some _ \<Rightarrow> sl_today) (\<lambda>base.
          op_bind (op_lift (next_action_for s seqs n base)) (\<lambda>plan. case plan of
              None \<Rightarrow> op_return (No_Rule (pipeline_stage_value s))
            | Some p \<Rightarrow> book_followup lid rid p))))))"

record due_items =
  di_date :: string
  di_followups :: "doc list"
  di_tasks :: "doc list"
  di_stale :: "stale_lead list"

definition due_today :: "string \<Rightarrow> due_items lop" where
  "due_today on =
     op_bind (if on \<noteq> [] then op_return on else op_bind sl_today (\<lambda>d. op_return (date_iso d))) (\<lambda>day.
     op_bind (due_followups day) (\<lambda>fs.
     op_bind (open_tasks []) (\<lambda>ts.
     op_bind (stale_leads None) (\<lambda>stale.
       op_return \<lparr>di_date = day, di_followups = fs,
         di_tasks = filter (\<lambda>t. (if get_str t ''due'' \<noteq> [] then get_str t ''due'' else ''9999'') \<le> day) ts, di_stale = stale\<rparr>))))"

section \<open>Recording a send\<close>

definition insert_auto :: "string \<Rightarrow> doc \<Rightarrow> unit lop" where
  "insert_auto t d = op_bind (rows_of t) (\<lambda>rs. sql_insert t ((''id'', VInt (int (length rs) + 1)) # d))"

text \<open>\<open>INSERT ... ON CONFLICT(experiment_id, date) DO UPDATE SET sent = sent + 1\<close>.\<close>

definition bump_sent :: "string \<Rightarrow> string \<Rightarrow> unit lop" where
  "bump_sent ex day = op_bind (rows_of ''experiment_metrics'') (\<lambda>rs.
     if list_ex (\<lambda>r. is_cell ''experiment_id'' ex r \<and> is_cell ''date'' day r) rs
     then op_modify (set_table ''experiment_metrics'' (map (\<lambda>r.
            if is_cell ''experiment_id'' ex r \<and> is_cell ''date'' day r then dset r ''sent'' (VInt (get_int r ''sent'' 0 + 1)) else r) rs))
     else insert_auto ''experiment_metrics'' [(''experiment_id'', VStr ex), (''date'', VStr day), (''sent'', VInt 1)])"

definition feed_experiment :: "doc \<Rightarrow> string \<Rightarrow> unit lop" where
  "feed_experiment d ex =
     op_bind (get_lead (get_str d ''lead_id'')) (\<lambda>ld.
     op_bind (rows_of ''experiments'') (\<lambda>exps.
       let known = list_ex (is_cell ''id'' ex) exps;
           pid = (case ld of None \<Rightarrow> VNone | Some l \<Rightarrow> cell l ''prospect_id'')
       in op_then (if known \<and> truthy pid
                   then op_bind sl_now (\<lambda>t. insert_auto ''outreach_touches''
                     [(''prospect_id'', pid), (''experiment_id'', VStr ex), (''sent_at'', VStr (stamp_iso t)),
                      (''channel'', cell d ''channel''), (''message_variant'', cell d ''variant''), (''status'', VStr ''sent'')])
                   else op_return ())
          (if known then op_bind sl_today (\<lambda>day. bump_sent ex (date_iso day)) else op_return ())))"

text \<open>\<open>try: ... except Exception\<close>: the effects stay, the exception does not.\<close>

definition attempt :: "('s, 'a) op \<Rightarrow> ('s, 'a option) op" where
  "attempt m s = (case m s of (Inl _, s') \<Rightarrow> (Inr None, s') | (Inr x, s') \<Rightarrow> (Inr (Some x), s'))"

record sent_result =
  se_draft_id :: string
  se_receipt :: string
  se_experiment :: string
  se_followup :: "string option"

definition record_sent :: "string \<Rightarrow> string \<Rightarrow> string \<Rightarrow> sent_result lop" where
  "record_sent did receipt experiment =
     op_bind (get_draft did) (\<lambda>found. case found of
         None \<Rightarrow> op_raise SalesError
       | Some d \<Rightarrow>
          if get_str d ''state'' \<noteq> outreach_state_value Out_Approved then op_raise SalesError
          else op_bind sl_now (\<lambda>t.
            op_then (update_rec ''outreach_drafts'' did
              [(''state'', VStr (outreach_state_value Out_Sent)), (''sent_at'', VFloat t), (''receipt'', VStr receipt)])
            (let ex = (if experiment \<noteq> [] then experiment else get_str d ''experiment_id''); lid = get_str d ''lead_id'' in
             op_then (if lid \<noteq> [] \<and> ex \<noteq> [] then feed_experiment d ex else op_return ())
             (op_bind (new_activity lid ''outreach'' (''sent '' @ get_str d ''channel'' @ '': '' @ take 60 (get_str d ''subject''))
                 receipt (get_str d ''run_id'') [] []) (\<lambda>a.
              op_then (log_activity a)
              (op_bind (if lid = [] then op_return None else attempt (schedule_for_lead lid [] (get_str d ''run_id''))) (\<lambda>res.
                op_return \<lparr>se_draft_id = did, se_receipt = receipt, se_experiment = ex,
                  se_followup = (case res of Some (Scheduled fid _ _) \<Rightarrow> Some fid | _ \<Rightarrow> None)\<rparr>)))))))"

end
