(* ===== verification/Sales_Outreach.thy ===== *)
theory Sales_Outreach
  imports Sales_Qualification Sales_Followup Verify
begin

text \<open>
  \<open>sworker/sales/outreach.py\<close>: the sequence step of a lead, the deterministic draft, the check of a
  model's rewrite, and the preparation of a draft.  Typographic dashes are written \<open>-\<close>.  Lemmas: an
  accepted rewrite states no number that the draft does not state.
\<close>

section \<open>Numbers in a text\<close>

definition num_char :: "char \<Rightarrow> bool" where
  "num_char c \<longleftrightarrow> is_rx_digit c \<or> c = CHR '',''"

text \<open>The decimal tail \<open>(?:\.\d+)?\<close> of a number, and what follows it.\<close>

definition dec_tail :: "string \<Rightarrow> string \<times> string" where
  "dec_tail s = (case s of
       p # d # ds \<Rightarrow> (if p = CHR ''.'' \<and> is_rx_digit d
         then (p # d # takeWhile is_rx_digit ds, dropWhile is_rx_digit ds) else ([], s))
     | _ \<Rightarrow> ([], s))"

lemma dec_tail_shorter: "length (snd (dec_tail s)) \<le> length s"
  by (auto simp: dec_tail_def le_Suc_eq length_dropWhile_le split: list.split intro: le_trans [OF length_dropWhile_le])

function number_tokens :: "string \<Rightarrow> string list" where
  "number_tokens [] = []"
| "number_tokens (c # cs) =
     (if is_rx_digit c
      then let (tl, rest) = dec_tail (dropWhile num_char cs) in (c # takeWhile num_char cs @ tl) # number_tokens rest
      else number_tokens cs)"
  by pat_completeness auto

termination
proof (relation "measure length")
  fix c cs x y z
  assume "x = dec_tail (dropWhile num_char cs)" "(y, z) = x"
  then have "z = snd (dec_tail (dropWhile num_char cs))" by (metis snd_conv)
  then show "(z, c # cs) \<in> measure length"
    using dec_tail_shorter [of "dropWhile num_char cs"] length_dropWhile_le [of num_char cs] by simp
qed auto

definition numbers_in :: "string \<Rightarrow> string set" where
  "numbers_in s = set (map (filter (\<lambda>c. c \<noteq> CHR '','')) (number_tokens s))"

section \<open>Choosing the step\<close>

fun STAGE_SEQUENCE :: "pipeline_stage \<Rightarrow> string option" where
  "STAGE_SEQUENCE Prospect = Some ''New Prospect''"
| "STAGE_SEQUENCE Contacted = Some ''New Prospect''"
| "STAGE_SEQUENCE Responded = Some ''New Prospect''"
| "STAGE_SEQUENCE Discovery_Scheduled = Some ''New Prospect''"
| "STAGE_SEQUENCE Discovery_Completed = Some ''Discovery Completed''"
| "STAGE_SEQUENCE Qualified = Some ''Discovery Completed''"
| "STAGE_SEQUENCE Audit_In_Progress = Some ''Discovery Completed''"
| "STAGE_SEQUENCE Proposal_Sent = Some ''Proposal Sent''"
| "STAGE_SEQUENCE Negotiation = Some ''Proposal Sent''"
| "STAGE_SEQUENCE Lost = Some ''New Prospect''"
| "STAGE_SEQUENCE _ = None"

record seq_step =
  ss_sequence :: string
  ss_step :: string
  ss_day :: int
  ss_action :: string

definition choose_step :: "sequences \<Rightarrow> pipeline_stage \<Rightarrow> nat \<Rightarrow> seq_step" where
  "choose_step seqs stage touches =
     (let name = (case STAGE_SEQUENCE stage of Some n \<Rightarrow> n | None \<Rightarrow> ''New Prospect'') in
      case dget seqs name of
        Some (st # sts) \<Rightarrow> (case (st # sts) ! min touches (length sts) of (d, act) \<Rightarrow>
          \<lparr>ss_sequence = name, ss_step = day_name d, ss_day = d, ss_action = act\<rparr>)
      | _ \<Rightarrow> \<lparr>ss_sequence = name, ss_step = ''day_0'', ss_day = 0, ss_action = ''Initial outreach''\<rparr>)"

section \<open>The deterministic draft\<close>

fun first_sentence :: "string \<Rightarrow> string \<Rightarrow> string option" where
  "first_sentence pre [] = None"
| "first_sentence pre (c # cs) =
     (if c \<in> {CHR ''.'', CHR ''!'', CHR ''?''} \<and> cs \<noteq> [] \<and> is_rx_space (hd cs) then Some (rev (c # pre))
      else if c = CHR 0x0A then None else first_sentence (c # pre) cs)"

definition first_excerpt :: "doc \<Rightarrow> doc list \<Rightarrow> string" where
  "first_excerpt pain evs =
     (let texts = List.map_filter (\<lambda>eid. case List.find (\<lambda>r. cell r ''id'' = eid) (rev evs) of
             None \<Rightarrow> None
           | Some r \<Rightarrow> (let ex = str_strip (get_str r ''excerpt'') in if ex = [] then None else Some ex)) (get_list pain ''evidence_ids'')
      in case texts of [] \<Rightarrow> []
         | ex # _ \<Rightarrow> (case first_sentence [] ex of Some s \<Rightarrow> s | None \<Rightarrow> ex))"

record offer =
  of_name :: string
  of_price :: rat

definition observation :: "doc \<Rightarrow> doc list \<Rightarrow> doc list \<Rightarrow> string" where
  "observation co pps evs = (case pps of
       p # _ \<Rightarrow> str_or (first_excerpt p evs) (get_str p ''text'')
     | [] \<Rightarrow> (case List.find (\<lambda>r. get_str r ''claim_type'' \<noteq> ''provenance'') evs of
           Some r \<Rightarrow> get_str r ''claim_text''
         | None \<Rightarrow> ''how '' @ get_str co ''name'' @ '' handles repetitive operations and internal knowledge''))"

definition lower_first :: "string \<Rightarrow> string" where
  "lower_first s = (case s of [] \<Rightarrow> [] | c # cs \<Rightarrow> lower_char c # cs)"

definition price_text :: "rat \<Rightarrow> string" where
  "price_text p = (if p \<noteq> 0 then ''$'' @ (if round_even p < 0 then ''-'' else []) @ thousands (nat_str (nat \<bar>round_even p\<bar>)) else ''a fixed fee'')"

definition first_name :: "doc option \<Rightarrow> error + string" where
  "first_name contact = (case contact of
       None \<Rightarrow> Inr ''there''
     | Some c \<Rightarrow> (if get_str c ''name'' = [] then Inr ''there''
         else case str_words (get_str c ''name'') of [] \<Rightarrow> Inl IndexError | w # _ \<Rightarrow> Inr w))"

definition subject_line :: "doc \<Rightarrow> string \<Rightarrow> string" where
  "subject_line co name =
     (if name = ''New Prospect'' then get_str co ''name'' @ '': owning your AI workflows''
      else if name = ''Discovery Completed'' then ''Summary from our call + next steps''
      else if name = ''Proposal Sent'' then ''Following up on the proposal''
      else get_str co ''name'' @ '': operations'')"

definition deterministic_body :: "doc \<Rightarrow> doc option \<Rightarrow> doc list \<Rightarrow> doc list \<Rightarrow> offer \<Rightarrow> seq_step \<Rightarrow> error + string \<times> string" where
  "deterministic_body co contact pps evs ofr st =
     bind_sum (first_name contact) (\<lambda>who. Inr (subject_line co (ss_sequence st), join line_sep
       [who @ '','', [], ''Looking at '' @ get_str co ''name'' @ '', I noticed '' @ lower_first (observation co pps evs), [],
        ''I run a '' @ str_or (of_name ofr) ''Sovereign AI Workflow & Knowledge Systems Audit'' @ '' - '' @ price_text (of_price ofr)
          @ '', two weeks - that maps your full operations workflow and quantifies what friction is costing in time and duplicate software spend, then recommends what you can own and run locally.'',
        [], ''Worth a short conversation?'', [], ''Daniel'']))"

section \<open>Rewrites\<close>

definition validate_rewrite :: "string \<Rightarrow> string \<Rightarrow> bool \<times> string" where
  "validate_rewrite original rewritten =
     (if str_strip rewritten = [] then (False, ''model returned nothing'')
      else let invented = filter (\<lambda>n. n \<notin> numbers_in original) (map (filter (\<lambda>c. c \<noteq> CHR '','')) (number_tokens rewritten)) in
        if invented \<noteq> [] then (False, ''rewrite introduced unsourced number(s): ['' @ join '', '' (map repr_str (sort (remdups invented))) @ '']'')
        else if 4 * max (length original) 1 < length rewritten then (False, ''rewrite is implausibly longer than the source draft'')
        else (True, ''rewrite preserves every sourced number''))"

definition rewrite_prompt :: "string \<Rightarrow> string" where
  "rewrite_prompt body = ''Rewrite this sales email so it reads naturally. Keep every fact and every number exactly as given. Do not add statistics, claims, or names. Return only the email body.''
     @ line_sep @ line_sep @ body"

record rewrite_report =
  rw_used :: bool
  rw_reason :: string

definition rewrite :: "prose_model option \<Rightarrow> string \<Rightarrow> string \<times> rewrite_report" where
  "rewrite pm body = (case pm of
       None \<Rightarrow> (body, \<lparr>rw_used = False, rw_reason = ''no local model configured''\<rparr>)
     | Some m \<Rightarrow> (if \<not> pm_available m then (body, \<lparr>rw_used = False, rw_reason = ''no local model configured''\<rparr>)
         else case pm_complete m (rewrite_prompt body) of
             None \<Rightarrow> (body, \<lparr>rw_used = False, rw_reason = ''model returned nothing (degraded)''\<rparr>)
           | Some cand \<Rightarrow> (if cand = [] then (body, \<lparr>rw_used = False, rw_reason = ''model returned nothing (degraded)''\<rparr>)
               else let (ok, why) = validate_rewrite body cand in
                 ((if ok then str_strip cand else body), \<lparr>rw_used = ok, rw_reason = why\<rparr>))))"

section \<open>Preparation\<close>

record draft_request =
  dq_channel :: string
  dq_contact_id :: string
  dq_run_id :: string
  dq_experiment_id :: string
  dq_variant :: string

definition pick_contact :: "string \<Rightarrow> doc list \<Rightarrow> doc option lop" where
  "pick_contact cid contacts =
     (if cid \<noteq> [] then op_bind (get_contact cid) (\<lambda>found. case found of None \<Rightarrow> op_raise ValueError | Some c \<Rightarrow> op_return (Some c))
      else op_return (if contacts = [] then None
        else Some (case List.find (\<lambda>c. get_bool c ''is_decision_maker'') contacts of Some c \<Rightarrow> c | None \<Rightarrow> hd contacts)))"

record prepared =
  pd_draft :: outreach_draft
  pd_step :: seq_step
  pd_model :: rewrite_report
  pd_evidence :: nat

definition prepare_draft :: "string \<Rightarrow> sequences \<Rightarrow> offer \<Rightarrow> prose_model option \<Rightarrow> draft_request \<Rightarrow> prepared lop" where
  "prepare_draft lid seqs ofr pm q =
     op_bind (require_lead lid) (\<lambda>ld.
     op_bind (one_ref ''companies'' (cell ld ''company_id'')) (\<lambda>found. case found of
         None \<Rightarrow> op_raise ValueError
       | Some co \<Rightarrow>
          op_bind (contacts_for (cell co ''id'')) (\<lambda>contacts.
          op_bind (pick_contact (dq_contact_id q) contacts) (\<lambda>contact.
          op_bind (evidence_for lid []) (\<lambda>evs.
          op_bind (pain_points_for lid) (\<lambda>pps.
          op_bind (touches_of lid) (\<lambda>n.
          op_bind (op_lift (stage_of (get_str ld ''stage''))) (\<lambda>s.
            let st = choose_step seqs s n in
          op_bind (op_lift (deterministic_body co contact pps evs ofr st)) (\<lambda>(subject, plain).
            let (body, report) = rewrite pm plain in
          op_bind (sl_id ''out'') (\<lambda>did. op_bind sl_now (\<lambda>t.
            let d = \<lparr>dr_lead_id = lid, dr_channel = dq_channel q, dr_subject = subject, dr_body = body, dr_id = did,
                  dr_contact_id = (case contact of Some c \<Rightarrow> get_str c ''id'' | None \<Rightarrow> []), dr_state = Out_Draft,
                  dr_sequence_step = ss_step st, dr_variant = str_or (dq_variant q) (ss_sequence st),
                  dr_experiment_id = str_or (dq_experiment_id q) (get_str ld ''experiment_id''),
                  dr_evidence_ids = map (\<lambda>r. get_str r ''id'') evs, dr_approved_by = [], dr_approved_at = 0, dr_sent_at = 0,
                  dr_receipt = [], dr_run_id = dq_run_id q, dr_created = t\<rparr>
            in op_then (create_draft d)
              (op_return \<lparr>pd_draft = d, pd_step = st, pd_model = report, pd_evidence = length evs\<rparr>))))))))))))"

section \<open>Lemmas\<close>

lemma validate_rewrite_numbers: "fst (validate_rewrite a b) \<Longrightarrow> numbers_in b \<subseteq> numbers_in a"
  by (auto simp: validate_rewrite_def Let_def numbers_in_def filter_empty_conv split: if_splits)

text \<open>A rewrite is used only when the model answered and the check accepted the answer.\<close>

lemma rewrite_cases:
  "(rewrite pm body = (body, snd (rewrite pm body)) \<and> \<not> rw_used (snd (rewrite pm body))) \<or>
   (\<exists>cand. fst (rewrite pm body) = str_strip cand \<and> fst (validate_rewrite body cand))"
proof (cases pm)
  case (Some m)
  show ?thesis
  proof (cases "pm_complete m (rewrite_prompt body)")
    case (Some cand)
    with \<open>pm = Some m\<close> show ?thesis
      by (cases "fst (validate_rewrite body cand)") (auto simp: rewrite_def case_prod_unfold Let_def)
  qed (simp add: rewrite_def Some)
qed (simp add: rewrite_def)

end
