(* ===== verification/Sales_Metrics.thy ===== *)
theory Sales_Metrics
  imports Sales_Followup
begin

text \<open>
  \<open>sworker/sales/metrics.py\<close>: the counts of a day, the conversion rates, the bottlenecks, the daily
  report and its text.  A count is over the rows whose time lies in the day's UTC bounds; a day
  is written \<open>YYYY-MM-DD\<close>, the other spellings of \<open>fromisoformat\<close> are outside the model.  Lemmas: reading
  a day's counts changes nothing, and a sales day counts as met exactly when every parsed target is.
\<close>

section \<open>Counts of a day\<close>

definition day_bounds :: "string \<Rightarrow> (rat \<times> rat) lop" where
  "day_bounds day = op_bind (if day \<noteq> [] then op_lift (date_of_iso day) else sl_today) (\<lambda>d.
     op_return (epoch_of_date d, epoch_of_date d + 86400))"

text \<open>\<open>col >= ? AND col < ?\<close>: false on NULL, and text compares above every number.\<close>

definition in_window :: "rat \<times> rat \<Rightarrow> string \<Rightarrow> doc \<Rightarrow> bool" where
  "in_window w k r = (case cell r k of
       VFloat t \<Rightarrow> fst w \<le> t \<and> t < snd w
     | VInt i \<Rightarrow> fst w \<le> of_int i \<and> of_int i < snd w
     | _ \<Rightarrow> False)"

definition count_rows :: "(string \<Rightarrow> doc list) \<Rightarrow> rat \<times> rat \<Rightarrow> string \<Rightarrow> string \<Rightarrow> (doc \<Rightarrow> bool) \<Rightarrow> int" where
  "count_rows tabs w t k P = int (length (filter (\<lambda>r. P r \<and> in_window w k r) (tabs t)))"

definition count_leads :: "(string \<Rightarrow> doc list) \<Rightarrow> rat \<times> rat \<Rightarrow> string \<Rightarrow> int" where
  "count_leads tabs w t = int (length (remdups (filter (\<lambda>v. v \<noteq> VNone)
     (map (\<lambda>r. cell r ''lead_id'') (filter (in_window w ''created'') (tabs t))))))"

type_synonym counts = "(string \<times> int) list"

definition counts_of :: "(string \<Rightarrow> doc list) \<Rightarrow> rat \<times> rat \<Rightarrow> counts" where
  "counts_of tabs w =
     (let all = (\<lambda>_. True); to = is_cell ''to_stage'' in
      [(''leads_discovered'', count_rows tabs w ''leads'' ''created'' all),
       (''leads_researched'', count_leads tabs w ''sales_evidence''),
       (''leads_qualified'', count_leads tabs w ''qualifications''),
       (''outreach_drafted'', count_rows tabs w ''outreach_drafts'' ''created'' all),
       (''outreach_sent'', count_rows tabs w ''outreach_drafts'' ''sent_at'' all),
       (''followups_sent'', count_rows tabs w ''followups'' ''completed_at'' all),
       (''followups_scheduled'', count_rows tabs w ''followups'' ''created'' all),
       (''replies'', count_rows tabs w ''activities'' ''created'' (is_cell ''kind'' ''reply'')),
       (''discoveries_scheduled'', count_rows tabs w ''pipeline_history'' ''created'' (to ''discovery_scheduled'')),
       (''discoveries_completed'', count_rows tabs w ''pipeline_history'' ''created'' (to ''discovery_completed'')),
       (''proposals_sent'', count_rows tabs w ''pipeline_history'' ''created'' (to ''proposal_sent'')),
       (''won'', count_rows tabs w ''pipeline_history'' ''created'' (to ''won'')),
       (''lost'', count_rows tabs w ''pipeline_history'' ''created'' (to ''lost''))])"

definition daily_counts :: "string \<Rightarrow> counts lop" where
  "daily_counts day = op_bind (day_bounds day) (\<lambda>w. op_gets (\<lambda>s. counts_of (sl_tables s) w))"

definition count_of :: "counts \<Rightarrow> string \<Rightarrow> int" where
  "count_of cs k = (case dget cs k of Some n \<Rightarrow> n | None \<Rightarrow> 0)"

section \<open>Targets and rates\<close>

definition TARGET_MAP :: "(string \<times> string) list" where
  "TARGET_MAP = [(''prospects_researched'', ''leads_researched''), (''outreach_sent'', ''outreach_sent''),
     (''followups_sent'', ''followups_sent''), (''discoveries_completed'', ''discoveries_completed''),
     (''discoveries_scheduled'', ''discoveries_scheduled'')]"

definition pct :: "counts \<Rightarrow> string \<Rightarrow> string \<Rightarrow> rat option" where
  "pct cs num den = (if count_of cs den = 0 then None
     else Some (py_round 2 (of_int (count_of cs num) / of_int (count_of cs den) * 100)))"

definition conversion_rates :: "counts \<Rightarrow> (string \<times> rat option) list" where
  "conversion_rates cs = [
     (''reply_rate'', pct cs ''replies'' ''outreach_sent''),
     (''discovery_booking_rate'', pct cs ''discoveries_scheduled'' ''replies''),
     (''qualified_rate'', pct cs ''leads_qualified'' ''leads_researched''),
     (''proposal_rate'', pct cs ''proposals_sent'' ''leads_qualified''),
     (''win_rate'', pct cs ''won'' ''proposals_sent'')]"

definition short_targets :: "counts \<Rightarrow> counts \<Rightarrow> string list" where
  "short_targets cs targets = List.map_filter (\<lambda>(tk, ck). case dget targets tk of
       None \<Rightarrow> None
     | Some t \<Rightarrow> (if count_of cs ck < t
         then Some (ck @ '': '' @ int_str (count_of cs ck) @ '' of '' @ int_str t @ '' target ('' @ tk @ '')'') else None)) TARGET_MAP"

definition stale_note :: "env \<Rightarrow> stale_lead list \<Rightarrow> string list" where
  "stale_note e st = (case st of [] \<Rightarrow> []
     | w # _ \<Rightarrow> [int_str (int (length st)) @ '' lead(s) past their stage SLA; worst: '' @ py_str e (st_company w) @ '' in ''
          @ st_stage w @ '' for '' @ float_repr e (st_days w) @ ''d ('' @ float_repr e (st_overdue w) @ ''d over)''])"

definition bottlenecks :: "counts \<Rightarrow> counts \<Rightarrow> string list lop" where
  "bottlenecks cs targets =
     op_bind (stale_leads None) (\<lambda>st. op_bind (drafts ''draft'' []) (\<lambda>ds. op_bind (op_gets sl_env) (\<lambda>e.
       op_return (short_targets cs targets @ stale_note e st
         @ (if ds = [] then [] else [int_str (int (length ds)) @ '' outreach draft(s) awaiting approval''])))))"

section \<open>The report\<close>

record target_row =
  tg_key :: string
  tg_metric :: string
  tg_actual :: int
  tg_target :: int
  tg_met :: bool

definition vs_target :: "counts \<Rightarrow> counts \<Rightarrow> target_row list" where
  "vs_target cs targets = List.map_filter (\<lambda>(tk, ck). case dget targets tk of
       None \<Rightarrow> None
     | Some t \<Rightarrow> Some \<lparr>tg_key = tk, tg_metric = ck, tg_actual = count_of cs ck, tg_target = t, tg_met = (t \<le> count_of cs ck)\<rparr>) TARGET_MAP"

definition failed_day :: "counts \<Rightarrow> counts \<Rightarrow> bool option" where
  "failed_day cs targets = (if targets = [] then None else Some (\<not> list_all tg_met (vs_target cs targets)))"

record sales_report =
  rp_date :: string
  rp_counts :: counts
  rp_targets :: counts
  rp_source :: string
  rp_vs_target :: "target_row list"
  rp_failed :: "bool option"
  rp_rates :: "(string \<times> rat option) list"
  rp_pipeline :: "stage_row list"
  rp_bottlenecks :: "string list"
  rp_pending :: nat

definition daily_report :: "counts \<Rightarrow> string \<Rightarrow> string \<Rightarrow> sales_report lop" where
  "daily_report targets source day =
     op_bind (daily_counts day) (\<lambda>cs.
     op_bind (if day \<noteq> [] then op_return day else op_bind sl_today (\<lambda>d. op_return (date_iso d))) (\<lambda>date.
     op_bind pipeline_summary (\<lambda>pipe.
     op_bind (bottlenecks cs targets) (\<lambda>bs.
     op_bind (drafts ''draft'' []) (\<lambda>ds.
       op_return \<lparr>rp_date = date, rp_counts = cs, rp_targets = targets, rp_source = source, rp_vs_target = vs_target cs targets,
         rp_failed = failed_day cs targets, rp_rates = conversion_rates cs, rp_pipeline = pipe, rp_bottlenecks = bs,
         rp_pending = length ds\<rparr>)))))"

definition target_line :: "target_row \<Rightarrow> string" where
  "target_line r = ''| '' @ tg_key r @ '' | '' @ tg_metric r @ '' | '' @ int_str (tg_actual r) @ '' | '' @ int_str (tg_target r)
     @ '' | '' @ (if tg_met r then ''yes'' else ''NO'') @ '' |''"

definition stage_line :: "env \<Rightarrow> stage_row \<Rightarrow> string" where
  "stage_line e r = ''| '' @ sr_stage r @ '' | '' @ int_str (int (sr_leads r)) @ '' | '' @ float_repr e (sr_avg_score r) @ '' | ''
     @ py_str e (sr_value r) @ '' |''"

definition rate_line :: "env \<Rightarrow> string \<times> rat option \<Rightarrow> string" where
  "rate_line e kv = ''- '' @ fst kv @ '': '' @ (case snd kv of None \<Rightarrow> ''n/a'' | Some v \<Rightarrow> float_repr e v @ ''%'')"

definition render_markdown :: "env \<Rightarrow> sales_report \<Rightarrow> string" where
  "render_markdown e r = join [CHR 0x0A]
     ([''# Daily Sales Report - '' @ rp_date r, [], ''## Activity vs targets'', [],
       ''| Target (Metrics_Single_Source_of_Truth.md) | Metric | Actual | Target | Met |'', ''|---|---|---|---|---|'']
      @ (if rp_vs_target r \<noteq> [] then map target_line (rp_vs_target r)
         else [''| (no targets parsed from the metrics document) | - | - | - | - |''])
      @ (case rp_failed r of None \<Rightarrow> []
         | Some True \<Rightarrow> [[], ''**Failed sales day** - not all daily minimums were met.'']
         | Some False \<Rightarrow> [[], ''All daily minimums met.''])
      @ [[], ''## Counts'', []] @ map (\<lambda>(k, v). ''- '' @ k @ '': '' @ int_str v) (rp_counts r)
      @ [[], ''## Conversion rates'', []] @ map (rate_line e) (rp_rates r)
      @ [[], ''## Pipeline'', [], ''| Stage | Leads | Avg score | Value |'', ''|---|---|---|---|''] @ map (stage_line e) (rp_pipeline r)
      @ [[], ''## Bottlenecks'', []]
      @ (if rp_bottlenecks r \<noteq> [] then map (\<lambda>b. ''- '' @ b) (rp_bottlenecks r) else [''- none detected''])
      @ [[], ''Outreach drafts awaiting approval: '' @ int_str (int (rp_pending r)), [],
         ''Every number above is a count over the Experiment_Ledger sales tables and is re-derivable with `sworker verify` (check: sales_metrics_match_ledger).'',
         []])"

section \<open>Lemmas\<close>

lemma daily_counts_eq:
  "date_of_iso day = Inr d \<Longrightarrow> daily_counts day s = (Inr (counts_of (sl_tables s) (epoch_of_date d, epoch_of_date d + 86400)), s)"
  by (cases "day = []") (auto simp: daily_counts_def day_bounds_def op_bind_apply date_of_iso_def)

lemma list_all_map_filter: "list_all P (List.map_filter f xs) \<longleftrightarrow> (\<forall>x\<in>set xs. \<forall>y. f x = Some y \<longrightarrow> P y)"
  by (induction xs) (auto simp: map_filter_simps split: option.split)

lemma failed_day_iff:
  "failed_day cs targets = Some False \<longleftrightarrow> targets \<noteq> [] \<and>
     (\<forall>x\<in>set TARGET_MAP. \<forall>t. dget targets (fst x) = Some t \<longrightarrow> t \<le> count_of cs (snd x))"
  unfolding failed_day_def vs_target_def list_all_map_filter
  by (simp add: case_prod_unfold split: option.split)

text \<open>Days do not overlap: a time is counted in the window of one day only.\<close>

lemma windows_disjoint:
  assumes "ordinal d \<noteq> ordinal d'" and "in_window (epoch_of_date d, epoch_of_date d + 86400) k r"
  shows "\<not> in_window (epoch_of_date d', epoch_of_date d' + 86400) k r"
proof -
  have "ordinal d + 1 \<le> ordinal d' \<or> ordinal d' + 1 \<le> ordinal d" using assms(1) by linarith
  moreover have "epoch_of_date a + 86400 \<le> epoch_of_date b" if "ordinal a + 1 \<le> ordinal b" for a b
  proof -
    have "(x - z) * 86400 + 86400 \<le> (y - z) * 86400" if "x + 1 \<le> y" for x y z :: int using that by simp
    then have "(ordinal a - ordinal epoch_day) * 86400 + 86400 \<le> (ordinal b - ordinal epoch_day) * 86400" using that by blast
    then have "(of_int ((ordinal a - ordinal epoch_day) * 86400 + 86400) :: rat) \<le> epoch_of_date b"
      unfolding epoch_of_date_def by (simp only: of_int_le_iff)
    then show ?thesis by (simp add: epoch_of_date_def)
  qed
  ultimately have "epoch_of_date d + 86400 \<le> epoch_of_date d' \<or> epoch_of_date d' + 86400 \<le> epoch_of_date d" by blast
  then show ?thesis using assms(2) by (auto simp: in_window_def split: pyval.splits)
qed

end
