(* ===== verification/Sales_Knowledge.thy ===== *)
theory Sales_Knowledge
  imports Sales_Research Sales_Metrics
begin

text \<open>
  \<open>sworker/sales/knowledge.py\<close>: the documents that define industries, offer, daily targets and
  follow-up sequences, parsed line by line.  The file system and the environment variables are
  parameters.  Latin-1 has no em dash; the character 0x97 stands for it in a heading.  Lemmas: a
  target is a number that a line of the document states, and every parsed sequence has a step.
\<close>

section \<open>The corpus\<close>

record corpus =
  kd_environ :: "string \<Rightarrow> string"         \<comment> \<open>\<open>os.environ.get(name, '')\<close>\<close>
  kd_isdir :: "string \<Rightarrow> bool"
  kd_bundled :: string
  kd_isfile :: "string \<Rightarrow> bool"
  kd_text :: "string \<Rightarrow> error + string"

definition docs_root :: "corpus \<Rightarrow> string \<Rightarrow> string" where
  "docs_root k workspace =
     (let v = (if kd_environ k ''SOVEREIGNSALES_ROOT'' \<noteq> [] then kd_environ k ''SOVEREIGNSALES_ROOT''
               else kd_environ k ''DAILYSALESOS_ROOT'');
          cand = path_join workspace ''sales_knowledge'' in
      if v \<noteq> [] \<and> kd_isdir k v then v
      else if workspace \<noteq> [] \<and> kd_isdir k cand then cand
      else if kd_isdir k (kd_bundled k) then kd_bundled k else [])"

definition read_doc :: "corpus \<Rightarrow> string \<Rightarrow> string \<Rightarrow> error + string option" where
  "read_doc k rt nm = (let p = path_join rt nm in
     if \<not> kd_isfile k p then Inr None else bind_sum (kd_text k p) (\<lambda>t. Inr (Some t)))"

definition doc_line :: "string \<Rightarrow> nat \<Rightarrow> string" where
  "doc_line nm n = nm @ '':'' @ int_str (int n)"

section \<open>Groups of a match\<close>

text \<open>\<open>head(.+?)tail$\<close> on one line: the ends of the head in matching order, then the shortest
  middle after which the tail matches to the end.\<close>

definition full_match :: "rx \<Rightarrow> string \<Rightarrow> bool" where
  "full_match r s \<longleftrightarrow> list_ex (\<lambda>p. snd p = []) (rx_ends r ([], s))"

definition lazy_match :: "rx \<Rightarrow> rx \<Rightarrow> string \<Rightarrow> (string \<times> string \<times> string) option" where
  "lazy_match hd_rx tl_rx s =
     (let cuts = concat (map (\<lambda>p. map (\<lambda>k. (rev (fst p), take (Suc k) (snd p), drop (Suc k) (snd p))) [0..<length (snd p)])
            (rx_prio hd_rx ([], s)))
      in List.find (\<lambda>(h, m, t). list_all any_char m \<and> full_match tl_rx t) cuts)"

definition blanks1 :: rx where "blanks1 = at_least 1 (Cls is_rx_space)"

definition leading_int :: "string \<Rightarrow> int" where
  "leading_int s = (case parse_int (takeWhile is_rx_digit s) of Some n \<Rightarrow> n | None \<Rightarrow> 0)"

section \<open>Industries\<close>

definition em_dash :: char where "em_dash = CHR 0x97"

definition num_dot :: "char \<Rightarrow> bool" where "num_dot c \<longleftrightarrow> is_rx_digit c \<or> c = CHR ''.''"

definition icp_head :: rx where
  "icp_head = cats [str_rx ''###'', blanks1, digits, lit CHR ''.'', blanks1]"

definition icp_tail :: rx where
  "icp_tail = cats [blanks1, lit em_dash, blanks1, str_rx ''Score:'', spaces, at_least 1 (Cls num_dot), spaces, lit CHR ''/'', spaces,
     lit CHR ''5'', spaces]"

record ranked_industry =
  ri_rank :: int
  ri_name :: string
  ri_score :: rat
  ri_source :: string

definition industry_line :: "string \<Rightarrow> nat \<times> string \<Rightarrow> error + ranked_industry list" where
  "industry_line nm nl = (case lazy_match icp_head icp_tail (str_strip (snd nl)) of
       None \<Rightarrow> Inr []
     | Some (h, m, t) \<Rightarrow>
        (case parse_float (takeWhile num_dot (dropWhile is_rx_space (tl (dropWhile (\<lambda>c. c \<noteq> CHR '':'') t)))) of
           None \<Rightarrow> Inl ValueError
         | Some r \<Rightarrow> Inr [\<lparr>ri_rank = leading_int (filter is_rx_digit h), ri_name = str_strip m, ri_score = r,
             ri_source = doc_line nm (fst nl)\<rparr>]))"

definition parse_industry_ranking :: "corpus \<Rightarrow> string \<Rightarrow> error + ranked_industry list" where
  "parse_industry_ranking k rt = bind_sum (read_doc k rt ''Industry_Ranking.md'') (\<lambda>m. case m of
       None \<Rightarrow> Inr []
     | Some t \<Rightarrow> bind_sum (map_sum_list (industry_line ''Industry_Ranking.md'') (numbered (split_lines t))) (\<lambda>xs. Inr (concat xs)))"

section \<open>The offer\<close>

record core_offer =
  kf_offer :: string
  kf_price :: rat
  kf_team :: int
  kf_source :: string

definition strip_stars :: "string \<Rightarrow> string" where
  "strip_stars s = (let st = (\<lambda>c. c = CHR ''*'') in rev (dropWhile st (rev (dropWhile st s))))"

definition money_doc_rx :: rx where
  "money_doc_rx = cats [lit CHR ''$'', Cls is_rx_digit, Many (Cls (\<lambda>c. is_rx_digit c \<or> c = CHR '',''))]"

definition money_in :: "string \<Rightarrow> rat option" where
  "money_in s = (case rx_find money_doc_rx s of None \<Rightarrow> None
     | Some m \<Rightarrow> parse_float (filter (\<lambda>c. c \<noteq> CHR '','') (tl (rm_text m))))"

text \<open>The lines from the first that satisfies a condition on.\<close>

definition offer_name :: "string list \<Rightarrow> string" where
  "offer_name ls = (case dropWhile (\<lambda>l. \<not> starts_with (str_strip l) ''## Offer Name'') ls of [] \<Rightarrow> []
     | _ # rest \<Rightarrow> (case List.find (\<lambda>c. c \<noteq> []) (map (strip_stars \<circ> str_strip) (take 3 rest)) of Some c \<Rightarrow> c | None \<Rightarrow> []))"

definition fee_line :: "string \<Rightarrow> bool" where
  "fee_line l \<longleftrightarrow> contains l ''**Fee:**'' \<and> contains (str_lower l) ''flat''"

definition offer_price :: "string \<Rightarrow> rat" where
  "offer_price t =
     (let fees = List.map_filter money_in (filter fee_line (split_lines t)); p = (case fees of x # _ \<Rightarrow> x | [] \<Rightarrow> 0) in
      if p \<noteq> 0 then p else case money_in t of Some x \<Rightarrow> x | None \<Rightarrow> 0)"

definition team_doc_rx :: rx where
  "team_doc_rx = cats [digits, spaces, opt (lit CHR ''+''), spaces, word_i ''employees'']"

definition offer_team :: "string list \<Rightarrow> int" where
  "offer_team ls = (case dropWhile (\<lambda>l. \<not> contains l ''Target Customer'') ls of [] \<Rightarrow> 0
     | l # rest \<Rightarrow> (case rx_find team_doc_rx (join '' '' (take 4 (l # rest))) of Some m \<Rightarrow> leading_int (rm_text m) | None \<Rightarrow> 0))"

definition parse_core_offer :: "corpus \<Rightarrow> string \<Rightarrow> error + core_offer option" where
  "parse_core_offer k rt = bind_sum (read_doc k rt ''Core_Offer.md'') (\<lambda>m. Inr (case m of
       None \<Rightarrow> None
     | Some t \<Rightarrow> Some \<lparr>kf_offer = offer_name (split_lines t), kf_price = offer_price t, kf_team = offer_team (split_lines t),
         kf_source = ''Core_Offer.md''\<rparr>))"

section \<open>Daily targets\<close>

definition calls_rx :: rx where
  "calls_rx = cats [digits, blanks1, word_i ''discovery'', blanks1, word_i ''call'', opt (word_i ''s''), blanks1]"

definition TARGET_PATTERNS :: "(string \<times> rx) list" where
  "TARGET_PATTERNS = [
     (''prospects_researched'', cats [digits, blanks1, word_i ''prospects'', blanks1, word_i ''researched'']),
     (''outreach_sent'', cats [digits, blanks1, word_i ''new'', blanks1, word_i ''outreach'', blanks1, word_i ''messages'', blanks1, word_i ''sent'']),
     (''followups_sent'', cats [digits, blanks1, word_i ''follow-ups'', blanks1, word_i ''sent'']),
     (''discoveries_completed'', Cat calls_rx (word_i ''completed'')),
     (''discoveries_scheduled'', Cat calls_rx (word_i ''scheduled''))]"

definition target_step :: "nat \<times> string \<Rightarrow> string \<times> rx \<Rightarrow> (string \<times> int \<times> string) list \<Rightarrow> (string \<times> int \<times> string) list" where
  "target_step nl kp acc = (if dget acc (fst kp) \<noteq> None then acc
     else case rx_find (snd kp) (snd nl) of None \<Rightarrow> acc
       | Some m \<Rightarrow> acc @ [(fst kp, leading_int (rm_text m), doc_line ''Metrics_Single_Source_of_Truth.md'' (fst nl))])"

definition targets_of :: "string \<Rightarrow> (string \<times> int \<times> string) list" where
  "targets_of t = fold (\<lambda>nl acc. fold (target_step nl) TARGET_PATTERNS acc) (numbered (split_lines t)) []"

record daily_targets =
  dt_targets :: counts
  dt_refs :: "(string \<times> string) list"
  dt_source :: string

definition parse_daily_targets :: "corpus \<Rightarrow> string \<Rightarrow> error + daily_targets" where
  "parse_daily_targets k rt = bind_sum (read_doc k rt ''Metrics_Single_Source_of_Truth.md'') (\<lambda>m. Inr (case m of
       None \<Rightarrow> \<lparr>dt_targets = [], dt_refs = [], dt_source = []\<rparr>
     | Some t \<Rightarrow> \<lparr>dt_targets = map (\<lambda>(a, n, r). (a, n)) (targets_of t), dt_refs = map (\<lambda>(a, n, r). (a, r)) (targets_of t),
         dt_source = ''Metrics_Single_Source_of_Truth.md''\<rparr>))"

definition targets_found :: "daily_targets \<Rightarrow> bool" where
  "targets_found d \<longleftrightarrow> dt_targets d \<noteq> []"

section \<open>Follow-up sequences\<close>

definition seq_head :: rx where "seq_head = Cat (str_rx ''###'') blanks1"
definition seq_tail :: rx where "seq_tail = cats [blanks1, str_rx ''Sequence'', spaces]"

definition seq_heading :: "string \<Rightarrow> string option" where
  "seq_heading s = (case lazy_match seq_head seq_tail s of Some (_, m, _) \<Rightarrow> Some (str_strip m) | None \<Rightarrow> None)"

definition day_head :: rx where
  "day_head = Cat (Alt (word_i ''same day'') (cats [word_i ''day'', blanks1, digits])) (lit CHR '':'')"

definition sequence_step :: "string \<Rightarrow> (int \<times> string) option" where
  "sequence_step s = (case rx_prio day_head ([], s) of [] \<Rightarrow> None
     | p # _ \<Rightarrow> (let act = dropWhile is_rx_space (snd p); ds = filter is_rx_digit (fst p) in
         if act = [] then None
         else Some (if ds = [] then 0 else leading_int (rev ds), str_strip (takeWhile any_char act))))"

definition seq_line :: "string \<Rightarrow> string option \<times> sequences \<Rightarrow> string option \<times> sequences" where
  "seq_line l acc = (let s = str_strip l in case seq_heading s of
       Some nm \<Rightarrow> (Some nm, dset (snd acc) nm [])
     | None \<Rightarrow> (case fst acc of None \<Rightarrow> acc
         | Some cur \<Rightarrow> (case sequence_step s of None \<Rightarrow> acc
             | Some st \<Rightarrow> (fst acc, dset (snd acc) cur ((case dget (snd acc) cur of Some xs \<Rightarrow> xs | None \<Rightarrow> []) @ [st])))))"

definition parse_followup_sequences :: "corpus \<Rightarrow> string \<Rightarrow> error + sequences" where
  "parse_followup_sequences k rt = bind_sum (read_doc k rt ''Follow_Up_System.md'') (\<lambda>m. Inr (case m of
       None \<Rightarrow> []
     | Some t \<Rightarrow> filter (\<lambda>(nm, sts). sts \<noteq> []) (snd (fold seq_line (split_lines t) (None, [])))))"

section \<open>Profiles\<close>

definition compile_profile :: "core_offer option \<Rightarrow> ranked_industry \<Rightarrow> icp_profile lop" where
  "compile_profile ofr r = op_bind (sl_id ''icp'') (\<lambda>i. op_bind sl_now (\<lambda>t. op_return
     \<lparr>icp_name = ri_name r, icp_id = i, icp_industry = ri_name r,
       icp_min_team_size = (if ri_rank r = 1 then (case ofr of Some f \<Rightarrow> kf_team f | None \<Rightarrow> 0) else 0), icp_geography = [],
       icp_rank = ri_rank r, icp_rank_score = ri_score r, icp_offer = (case ofr of Some f \<Rightarrow> kf_offer f | None \<Rightarrow> []),
       icp_offer_price = (case ofr of Some f \<Rightarrow> kf_price f | None \<Rightarrow> 0), icp_source_doc = ri_source r,
       icp_active = (ri_rank r = 1), icp_created = t\<rparr>))"

definition compile_icp :: "corpus \<Rightarrow> string \<Rightarrow> icp_profile list lop" where
  "compile_icp k rt = op_bind (op_lift (parse_core_offer k rt)) (\<lambda>ofr.
     op_bind (op_lift (parse_industry_ranking k rt)) (\<lambda>rs. op_mapM (compile_profile ofr) rs))"

section \<open>Lemmas\<close>

definition stated_target :: "string \<Rightarrow> string \<times> int \<times> string \<Rightarrow> bool" where
  "stated_target t x \<longleftrightarrow> (\<exists>n l r. (n, l) \<in> set (numbered (split_lines t)) \<and> (fst x, r) \<in> set TARGET_PATTERNS \<and>
     rx_search r l \<and> snd (snd x) = doc_line ''Metrics_Single_Source_of_Truth.md'' n)"

lemma target_step_stated:
  assumes "list_all (stated_target t) acc" and "nl \<in> set (numbered (split_lines t))" and "kp \<in> set TARGET_PATTERNS"
  shows "list_all (stated_target t) (target_step nl kp acc)"
proof (cases "rx_find (snd kp) (snd nl)")
  case (Some m)
  then have "rx_search (snd kp) (snd nl)" using rx_find_None_iff [of "snd kp" "snd nl"] by simp
  then have "stated_target t (fst kp, leading_int (rm_text m), doc_line ''Metrics_Single_Source_of_Truth.md'' (fst nl))"
    using assms(2,3) unfolding stated_target_def by (metis fst_conv prod.collapse snd_conv)
  then show ?thesis using assms(1) Some by (simp add: target_step_def)
qed (use assms(1) in \<open>simp add: target_step_def\<close>)

lemma targets_stated: "list_all (stated_target t) (targets_of t)"
  unfolding targets_of_def
  by (rule fold_inv [where P = "list_all (stated_target t)"]) (auto intro!: fold_inv [where P = "list_all (stated_target t)"] target_step_stated)

lemma target_step_distinct: "distinct (dkeys acc) \<Longrightarrow> distinct (dkeys (target_step nl kp acc))"
  by (auto simp: target_step_def dkeys_def dget_None_iff split: option.split)

lemma targets_distinct: "distinct (dkeys (targets_of t))"
  unfolding targets_of_def
  by (rule fold_inv [where P = "\<lambda>acc. distinct (dkeys acc)"])
    (auto intro!: fold_inv [where P = "\<lambda>acc. distinct (dkeys acc)"] target_step_distinct)

lemma sequences_nonempty: "parse_followup_sequences k rt = Inr ss \<Longrightarrow> list_all (\<lambda>(nm, sts). sts \<noteq> []) ss"
  by (auto simp: parse_followup_sequences_def list_all_iff elim!: bind_sumE split: option.splits)

end
