(* ===== verification/Sales_Tools.thy ===== *)
theory Sales_Tools
  imports Sales_Discovery Sales_Outreach Sales_Knowledge
begin

text \<open>
  \<open>sworker/sales/tools/base.py\<close>: the sixteen tools through which workers reach the ledger.  Each
  opens the ledger through the filesystem boundary of its context and delegates to the
  repository; the batch forms catch the domain error of a lead and go on.  The file system,
  the model and the text of exceptions are parameters; a written file is returned beside the
  result.  Lemmas: no tool reaches a ledger outside the roots, and the ledger stays sound.
\<close>

section \<open>World\<close>

record sales_world =
  sw_fs :: fsys
  sw_abspath :: "string \<Rightarrow> string"
  sw_ledger_env :: string                     \<comment> \<open>\<open>DAILYSALESOS_LEDGER\<close>\<close>
  sw_cwd :: string
  sw_corpus :: corpus
  sw_files :: candidate_files
  sw_listdir :: "string \<Rightarrow> error + string list"
  sw_header :: "string \<Rightarrow> string option"      \<comment> \<open>first line of a file, \<open>None\<close> when unreadable\<close>
  sw_model :: prose_model
  sw_write :: "string \<Rightarrow> error + unit"
  sw_exc :: "error \<Rightarrow> string"

type_synonym sales_run = "sales_world \<Rightarrow> tool_context \<Rightarrow> doc \<Rightarrow> tool_result lop"

definition default_ledger_path :: "sales_world \<Rightarrow> string \<Rightarrow> string" where
  "default_ledger_path w workspace =
     (if sw_ledger_env w \<noteq> [] then sw_abspath w (expanduser (sw_fs w) (sw_ledger_env w))
      else path_join (sw_abspath w (if workspace \<noteq> [] then workspace else sw_cwd w)) ''company/Experiment_Ledger/experiments.db'')"

definition open_ledger :: "sales_world \<Rightarrow> tool_context \<Rightarrow> string lop" where
  "open_ledger w c = op_lift (resolve (sw_fs w) c False (default_ledger_path w (tc_workspace c)))"

text \<open>\<open>try: ... except E\<close>: the effects stay, other exceptions pass.\<close>

definition rescue :: "(error \<Rightarrow> bool) \<Rightarrow> ('s, 'a) op \<Rightarrow> ('s, error + 'a) op" where
  "rescue P m s = (case m s of (Inr x, s') \<Rightarrow> (Inr (Inr x), s')
     | (Inl e, s') \<Rightarrow> if P e then (Inr (Inl e), s') else (Inl e, s'))"

definition tr_done :: "string \<Rightarrow> doc \<Rightarrow> tool_result" where
  "tr_done out data = (tr_plain True)\<lparr>tr_output := out, tr_data := data\<rparr>"

definition count_str :: "'a list \<Rightarrow> string" where
  "count_str xs = int_str (int (length xs))"

section \<open>Source files of a lead\<close>

definition roster_header :: "string \<Rightarrow> bool" where
  "roster_header h \<longleftrightarrow> starts_with (str_lower h) ''name,website'' \<or> contains (str_lower h) '',website,''"

definition is_candidate_roster :: "sales_world \<Rightarrow> string \<Rightarrow> bool" where
  "is_candidate_roster w path \<longleftrightarrow> ends_with (str_lower path) ''.csv'' \<and>
     (case sw_header w path of None \<Rightarrow> False | Some h \<Rightarrow> roster_header h)"

definition domain_stem :: "string \<Rightarrow> string" where
  "domain_stem d = takeWhile (\<lambda>c. c \<noteq> CHR ''.'') (takeWhile (\<lambda>c. c \<noteq> CHR ''/'')
     (strip_slashes (www_cut (scheme_cut (str_lower (str_strip d))))))"

definition company_names :: "sales_world \<Rightarrow> tool_context \<Rightarrow> error + string list" where
  "company_names w c = bind_sum (resolve (sw_fs w) c True ''company'') (\<lambda>rt.
     bind_sum (sw_listdir w rt) (\<lambda>ns. Inr (filter (\<lambda>n. \<not> is_candidate_roster w (path_join rt n)) (sort ns))))"

definition company_docs :: "sales_world \<Rightarrow> tool_context \<Rightarrow> error + string list" where
  "company_docs w c = bind_sum (company_names w c) (\<lambda>ns. Inr (map (\<lambda>n. ''company/'' @ n)
     (filter (\<lambda>n. list_ex (ends_with (str_lower n)) [''.md'', ''.csv'', ''.txt'', ''.json'']) ns)))"

definition scoped_sources_for_lead :: "sales_world \<Rightarrow> tool_context \<Rightarrow> string \<Rightarrow> error + string list" where
  "scoped_sources_for_lead w c domain = bind_sum (company_names w c) (\<lambda>ns.
     let own = (\<lambda>n. str_lower n = domain_stem domain @ ''.md'');
         shared = (\<lambda>n. \<not> own n \<and> list_ex (ends_with (str_lower n)) [''.txt'', ''.json'']);
         chosen = map (\<lambda>n. ''company/'' @ n) (filter own ns @ filter shared ns)
     in if chosen = [] then company_docs w c else Inr chosen)"

section \<open>Payloads\<close>

definition stale_dict :: "stale_lead \<Rightarrow> doc" where
  "stale_dict r = [(''lead_id'', VStr (st_lead_id r)), (''company'', st_company r), (''stage'', VStr (st_stage r)),
     (''days_in_stage'', VFloat (st_days r)), (''days_overdue'', VFloat (st_overdue r))]"

definition stage_dict :: "stage_row \<Rightarrow> doc" where
  "stage_dict r = [(''stage'', VStr (sr_stage r)), (''leads'', VInt (int (sr_leads r))),
     (''avg_score'', VFloat (sr_avg_score r)), (''pipeline_value'', sr_value r)]"

definition due_dict :: "due_items \<Rightarrow> doc" where
  "due_dict d = [(''date'', VStr (di_date d)), (''followups'', docs (di_followups d)), (''tasks'', docs (di_tasks d)),
     (''stale_leads'', docs (map stale_dict (di_stale d))),
     (''counts'', VDict [(''followups_due'', VInt (int (length (di_followups d)))), (''tasks_due'', VInt (int (length (di_tasks d)))),
        (''leads_past_stage_sla'', VInt (int (length (di_stale d))))])]"

definition ints_dict :: "counts \<Rightarrow> pyval" where
  "ints_dict cs = VDict (map (\<lambda>(k, n). (k, VInt n)) cs)"

definition opt_val :: "('a \<Rightarrow> pyval) \<Rightarrow> 'a option \<Rightarrow> pyval" where
  "opt_val f m = (case m of None \<Rightarrow> VNone | Some x \<Rightarrow> f x)"

definition report_dict :: "sales_report \<Rightarrow> doc" where
  "report_dict r = [(''date'', VStr (rp_date r)), (''counts'', ints_dict (rp_counts r)), (''targets'', ints_dict (rp_targets r)),
     (''targets_source'', VStr (rp_source r)),
     (''vs_target'', VDict (map (\<lambda>t. (tg_key t, VDict [(''metric'', VStr (tg_metric t)), (''actual'', VInt (tg_actual t)),
        (''target'', VInt (tg_target t)), (''met'', VBool (tg_met t))])) (rp_vs_target r))),
     (''failed_sales_day'', opt_val VBool (rp_failed r)),
     (''conversion_rates'', VDict (map (\<lambda>(k, v). (k, opt_val VFloat v)) (rp_rates r))),
     (''pipeline'', docs (map stage_dict (rp_pipeline r))), (''bottlenecks'', VList (map VStr (rp_bottlenecks r))),
     (''pending_approvals'', VInt (int (rp_pending r)))]"

definition discovery_dict :: "string \<Rightarrow> discovery_result \<Rightarrow> doc" where
  "discovery_dict ref r = [(''source_ref'', VStr ref), (''examined'', VInt (int (dx_examined r))),
     (''created'', docs (dx_created r)), (''created_count'', VInt (int (length (dx_created r)))),
     (''duplicates'', docs (dx_duplicates r)), (''duplicate_count'', VInt (int (length (dx_duplicates r)))),
     (''rejected'', docs (dx_rejected r)), (''rejected_count'', VInt (int (length (dx_rejected r))))]"

definition pain_view :: "pain_point \<Rightarrow> doc" where
  "pain_view p = [(''id'', VStr (pp_id p)), (''text'', VStr (pp_text p)), (''category'', VStr (pp_category p)),
     (''opportunity_score'', VFloat (pp_opportunity_score p)), (''evidence_id'', VStr (hd (pp_evidence_ids p)))]"

definition research_dict :: "string \<Rightarrow> research_result \<Rightarrow> doc" where
  "research_dict lid r = [(''lead_id'', VStr lid), (''sources_read'', VList (map VStr (rq_read r))),
     (''sources_missing'', VList (map VStr (rq_missing r))), (''evidence_ids'', VList (map VStr (rq_evidence r))),
     (''evidence_count'', VInt (int (length (rq_evidence r)))), (''pain_points'', docs (map pain_view (rq_pains r))),
     (''degraded'', VBool (research_degraded r))]"

definition move_dict :: "string \<Rightarrow> stage_move \<Rightarrow> doc" where
  "move_dict lid m = [(''lead_id'', VStr lid), (''from'', VStr (pipeline_stage_value (mv_from m))),
     (''to'', VStr (pipeline_stage_value (mv_to m))), (''reason'', VStr (mv_reason m))]"

definition action_dict :: "next_action \<Rightarrow> doc" where
  "action_dict a = [(''stage'', VStr (pipeline_stage_value (na_stage a))), (''reason'', VStr (na_reason a)), (''kind'', VStr (na_kind a)),
     (''sequence'', VStr (na_sequence a)), (''step'', VStr (na_step a)), (''action'', VStr (na_action a)), (''due'', VStr (na_due a)),
     (''max_days_in_stage'', VInt (na_max_days a))]"

text \<open>The dictionary of \<open>schedule_for_lead\<close>: only the two refusals carry a \<open>reason\<close>.\<close>

fun schedule_dict :: "string \<Rightarrow> schedule_result \<Rightarrow> doc" where
  "schedule_dict lid (Already fid) = [(''lead_id'', VStr lid), (''created'', VBool False),
     (''reason'', VStr ''an open follow-up already exists''), (''followup_id'', VStr fid)]"
| "schedule_dict lid (No_Rule s) = [(''lead_id'', VStr lid), (''created'', VBool False),
     (''reason'', VStr (''no documented follow-up rule for stage '' @ s))]"
| "schedule_dict lid (Scheduled fid tid p) = [(''lead_id'', VStr lid), (''created'', VBool True), (''followup_id'', VStr fid),
     (''task_id'', VStr tid), (''plan'', VDict (action_dict p))]"

definition step_dict :: "seq_step \<Rightarrow> doc" where
  "step_dict s = [(''sequence'', VStr (ss_sequence s)), (''step'', VStr (ss_step s)), (''day'', VInt (ss_day s)), (''action'', VStr (ss_action s))]"

definition prepared_dict :: "prepared \<Rightarrow> doc" where
  "prepared_dict p = [(''draft'', VDict (outreach_draft_dict (pd_draft p))), (''sequence'', VDict (step_dict (pd_step p))),
     (''model'', VDict [(''used'', VBool (rw_used (pd_model p))), (''reason'', VStr (rw_reason (pd_model p)))]),
     (''evidence_count'', VInt (int (pd_evidence p))), (''requires_approval'', VBool True)]"

definition sent_dict :: "sent_result \<Rightarrow> doc" where
  "sent_dict r = [(''draft_id'', VStr (se_draft_id r)), (''state'', VStr ''sent''), (''receipt'', VStr (se_receipt r)),
     (''experiment_id'', VStr (se_experiment r)), (''followup_id'', opt_val VStr (se_followup r))]"

section \<open>Read tools\<close>

definition query_of :: "doc \<Rightarrow> rat \<Rightarrow> lead_query" where
  "query_of args least = \<lparr>lq_stage = get_str args ''stage'', lq_industry = get_str args ''industry'', lq_min_score = least,
     lq_text = get_str args ''query'', lq_limit = get_int args ''limit'' 50\<rparr>"

definition pipeline_list_tool :: sales_run where
  "pipeline_list_tool w c args = op_bind (open_ledger w c) (\<lambda>_.
     op_bind (op_lift (py_float (case dget args ''min_score'' of Some v \<Rightarrow> v | None \<Rightarrow> VInt (-1)))) (\<lambda>least.
     op_bind (search_leads (query_of args least)) (\<lambda>rows.
       op_return (tr_done (count_str rows @ '' lead(s)'') [(''leads'', docs rows)]))))"

definition evidence_explain_tool :: sales_run where
  "evidence_explain_tool w c args = op_bind (open_ledger w c) (\<lambda>_. op_bind (explain_lead (get_str args ''lead_id'')) (\<lambda>d.
     op_return (tr_done (''evidence for '' @ get_str args ''lead_id'') d)))"

definition lead_detail_tool :: sales_run where
  "lead_detail_tool w c args = op_bind (open_ledger w c) (\<lambda>_. op_bind (lead_detail (get_str args ''lead_id'')) (\<lambda>d.
     op_return (tr_done (''lead detail '' @ get_str args ''lead_id'') d)))"

definition stale_leads_tool :: sales_run where
  "stale_leads_tool w c args = op_bind (open_ledger w c) (\<lambda>_.
     op_bind (stale_leads (if get_truthy args ''as_of'' then Some (get_num args ''as_of'') else None)) (\<lambda>rows.
       op_return (tr_done (count_str rows @ '' stale lead(s)'')
         [(''stale'', docs (map stale_dict rows)), (''overdue_count'', VInt (int (length rows)))])))"

definition pipeline_summary_tool :: sales_run where
  "pipeline_summary_tool w c args = op_bind (open_ledger w c) (\<lambda>_. op_bind pipeline_summary (\<lambda>rows.
     op_return (tr_done ''pipeline summary'' [(''summary'', docs (map stage_dict rows))])))"

definition followup_due_tool :: sales_run where
  "followup_due_tool w c args = op_bind (open_ledger w c) (\<lambda>_. op_bind (due_today (get_str args ''on'')) (\<lambda>d.
     op_return (tr_done ''due items'' (due_dict d))))"

definition metrics_tool :: "sales_world \<Rightarrow> tool_context \<Rightarrow> doc \<Rightarrow> (tool_result \<times> (string \<times> string) list) lop" where
  "metrics_tool w c args = op_bind (open_ledger w c) (\<lambda>_.
     op_bind (op_lift (parse_daily_targets (sw_corpus w) (docs_root (sw_corpus w) (tc_workspace c)))) (\<lambda>t.
     op_bind (daily_report (dt_targets t) (dt_source t) (get_str args ''day'')) (\<lambda>r.
     op_bind (op_gets sl_env) (\<lambda>e.
       if \<not> get_truthy args ''markdown'' then op_return (tr_done (''report for '' @ rp_date r) (report_dict r), [])
       else let out = render_markdown e r in
         op_bind (op_lift (resolve (sw_fs w) c False ''daily_report.md'')) (\<lambda>p.
         op_then (op_lift (sw_write w p))
           (op_return ((tr_done out (report_dict r))\<lparr>tr_artifacts := [p]\<rparr>, [(p, out)])))))))"

section \<open>Reversible tools\<close>

definition source_evidence :: "string \<Rightarrow> string \<Rightarrow> doc" where
  "source_evidence ref ex = [(''source_ref'', VStr ref), (''excerpt'', VStr ex)]"

text \<open>The candidate file: the path as given, then under \<open>company/\<close>.\<close>

definition candidate_path :: "sales_world \<Rightarrow> tool_context \<Rightarrow> string \<Rightarrow> string option" where
  "candidate_path w c source =
     (case resolve (sw_fs w) c True source of Inr p \<Rightarrow> Some p
      | Inl _ \<Rightarrow> (case resolve (sw_fs w) c True (path_join ''company'' source) of Inr p \<Rightarrow> Some p | Inl _ \<Rightarrow> None))"

definition ingest :: "tool_context \<Rightarrow> doc \<Rightarrow> string \<Rightarrow> doc list \<times> string \<Rightarrow> tool_result lop" where
  "ingest c args source cr =
     op_bind (discover \<lparr>dv_source_ref = snd cr, dv_source = source, dv_run_id = tc_run_id c, dv_evidence = True\<rparr>
         (get_int args ''limit'' 0) (fst cr)) (\<lambda>r.
       op_return ((tr_done (''discovered '' @ count_str (dx_created r) @ '' new lead(s); '' @ count_str (dx_duplicates r)
            @ '' duplicate, '' @ count_str (dx_rejected r) @ '' rejected'') (discovery_dict (snd cr) r))
          \<lparr>tr_evidence := [source_evidence (snd cr) (''batch of '' @ count_str (fst cr) @ '' candidates'')]\<rparr>))"

definition discover_tool :: sales_run where
  "discover_tool w c args = op_bind (open_ledger w c) (\<lambda>_.
     let source = get_str args ''source'' in
     if source = ''prospects'' then op_bind (candidates_from_prospects 50) (ingest c args source)
     else case candidate_path w c source of
         None \<Rightarrow> op_return (tr_fail (''candidate source '' @ repr_str source @ '' not found inside the worker's filesystem boundary'') [])
       | Some p \<Rightarrow> op_bind (op_lift (read_candidates (sw_files w) p)) (ingest c args source))"

definition lead_site :: "doc \<Rightarrow> string lop" where
  "lead_site ld = (if \<not> truthy (cell ld ''company_id'') then op_return []
     else op_bind (one_ref ''companies'' (cell ld ''company_id'')) (\<lambda>co.
       op_return (case co of Some d \<Rightarrow> get_str d ''website'' | None \<Rightarrow> [])))"

definition resolve_all :: "sales_world \<Rightarrow> tool_context \<Rightarrow> string list \<Rightarrow> error + string list" where
  "resolve_all w c ss = map_sum_list (resolve (sw_fs w) c True) ss"

definition lead_paths :: "sales_world \<Rightarrow> tool_context \<Rightarrow> string list \<Rightarrow> string \<Rightarrow> error + string list" where
  "lead_paths w c sources site = bind_sum (if sources \<noteq> [] then Inr sources else scoped_sources_for_lead w c site) (resolve_all w c)"

definition research_each :: "sales_world \<Rightarrow> tool_context \<Rightarrow> string list \<Rightarrow> doc \<Rightarrow> (string \<times> research_result) option lop" where
  "research_each w c sources ld =
     (let lid = get_str ld ''id'' in
      op_bind (pain_points_for lid) (\<lambda>pps.
      if pps \<noteq> [] then op_return None
      else op_bind (lead_site ld) (\<lambda>site. op_bind (op_lift (lead_paths w c sources site)) (\<lambda>paths.
           if paths = [] then op_return None
           else op_bind (research_lead (cf_src (sw_files w)) lid (tc_run_id c) paths) (\<lambda>r. op_return (Some (lid, r)))))))"

definition research_all :: "sales_world \<Rightarrow> tool_context \<Rightarrow> string list \<Rightarrow> tool_result lop" where
  "research_all w c sources = op_bind (search_leads all_leads) (\<lambda>leads.
     if leads = [] then op_return (tr_done ''no leads to research'' [(''researched'', VList [])])
     else op_bind (op_mapM (research_each w c sources) leads) (\<lambda>found.
       let rs = List.map_filter (\<lambda>x. x) found; n = sum_list (map (\<lambda>(_, r). length (rq_evidence r)) rs);
           m = sum_list (map (\<lambda>(_, r). length (rq_pains r)) rs)
       in op_return (tr_done (''researched '' @ count_str rs @ '' lead(s): '' @ int_str (int n) @ '' evidence, '' @ int_str (int m) @ '' pain point(s)'')
            [(''researched'', VList (map (VStr \<circ> fst) rs)), (''evidence_count'', VInt (int n)), (''pain_points'', VInt (int m))])))"

definition research_one :: "sales_world \<Rightarrow> tool_context \<Rightarrow> string \<Rightarrow> string list \<Rightarrow> tool_result lop" where
  "research_one w c lid sources =
     op_bind (if sources \<noteq> [] then op_return []
              else op_bind (get_lead lid) (\<lambda>m. case m of None \<Rightarrow> op_return [] | Some ld \<Rightarrow>
                op_bind (one_ref ''companies'' (cell ld ''company_id'')) (\<lambda>co.
                  op_return (case co of Some d \<Rightarrow> get_str d ''website'' | None \<Rightarrow> [])))) (\<lambda>site.
     op_bind (op_lift (lead_paths w c sources site)) (\<lambda>paths.
     op_bind (research_lead (cf_src (sw_files w)) lid (tc_run_id c) paths) (\<lambda>r.
       op_return ((tr_done (count_str (rq_evidence r) @ '' evidence, '' @ count_str (rq_pains r) @ '' pain point(s)'') (research_dict lid r))
         \<lparr>tr_evidence := map (\<lambda>s. source_evidence s ''research source read'') (rq_read r)\<rparr>))))"

definition research_tool :: sales_run where
  "research_tool w c args = op_bind (open_ledger w c) (\<lambda>_.
     let lid = get_str args ''lead_id''; sources = str_vals (get_list args ''sources'') in
     if lid = ''all'' \<or> lid = [] then research_all w c sources else research_one w c lid sources)"

definition model_arg :: "sales_world \<Rightarrow> doc \<Rightarrow> prose_model option" where
  "model_arg w args = (if get_truthy args ''use_model'' then Some (sw_model w) else None)"

definition is_insufficient :: "error \<Rightarrow> bool" where "is_insufficient e \<longleftrightarrow> e = InsufficientEvidence"
definition is_sales_error :: "error \<Rightarrow> bool" where "is_sales_error e \<longleftrightarrow> e = SalesError"
definition is_value_error :: "error \<Rightarrow> bool" where "is_value_error e \<longleftrightarrow> e \<in> {ValueError, TriggerError, TemplateError, UnicodeError}"

definition qualify_each :: "sales_world \<Rightarrow> tool_context \<Rightarrow> prose_model option \<Rightarrow> doc \<Rightarrow> string option lop" where
  "qualify_each w c pm ld =
     (let lid = get_str ld ''id'' in
      op_bind (latest_qualification lid) (\<lambda>q. case q of
          Some _ \<Rightarrow> op_return None
        | None \<Rightarrow> op_bind (rescue is_insufficient (evaluate_lead lid (tc_run_id c) pm)) (\<lambda>r.
            op_return (case r of Inl _ \<Rightarrow> None | Inr _ \<Rightarrow> Some lid))))"

definition qualify_all :: "sales_world \<Rightarrow> tool_context \<Rightarrow> prose_model option \<Rightarrow> tool_result lop" where
  "qualify_all w c pm = op_bind (search_leads all_leads) (\<lambda>leads.
     if leads = [] then op_return (tr_done ''no leads to qualify'' [(''qualified'', VList [])])
     else op_bind (op_mapM (qualify_each w c pm) leads) (\<lambda>found.
       let ids = List.map_filter (\<lambda>x. x) found in
       op_return (tr_done (''qualified '' @ count_str ids @ '' lead(s)'') [(''qualified'', VList (map VStr ids))])))"

definition qualify_one :: "sales_world \<Rightarrow> tool_context \<Rightarrow> prose_model option \<Rightarrow> string \<Rightarrow> tool_result lop" where
  "qualify_one w c pm lid = op_bind (rescue is_insufficient (evaluate_lead lid (tc_run_id c) pm)) (\<lambda>r. case r of
       Inl e \<Rightarrow> op_return (tr_fail (sw_exc w e) [])
     | Inr q \<Rightarrow> op_bind (op_gets sl_env) (\<lambda>e. op_return (tr_done
         (ql_lead_id q @ '': score '' @ float_repr e (ql_score q) @ '' ('' @ claim_tier_value (ql_tier q) @ '') v'' @ int_str (ql_version q))
         (qualification_dict q))))"

definition qualify_tool :: sales_run where
  "qualify_tool w c args = op_bind (open_ledger w c) (\<lambda>_.
     let lid = get_str args ''lead_id''; pm = model_arg w args in
     if lid = ''all'' \<or> lid = [] then qualify_all w c pm else qualify_one w c pm lid)"

text \<open>The leads of a batch form: a score of at least 0, which every lead has.\<close>

definition batch_leads :: lead_query where
  "batch_leads = all_leads\<lparr>lq_min_score := 0, lq_limit := 200\<rparr>"

definition batch_key :: "doc \<Rightarrow> string" where
  "batch_key args = str_strip (get_str args ''lead_id'')"

definition is_batch :: "string \<Rightarrow> bool" where
  "is_batch lid \<longleftrightarrow> lid = [] \<or> lid = ''all''"

definition lead_outcome :: "string \<Rightarrow> bool \<Rightarrow> string \<times> pyval \<Rightarrow> doc" where
  "lead_outcome lid ok extra = [(''lead_id'', VStr lid), (''ok'', VBool ok), extra]"

definition batch_run :: "string \<Rightarrow> string \<Rightarrow> (doc \<Rightarrow> doc lop) \<Rightarrow> (doc list \<Rightarrow> doc list \<Rightarrow> string) \<Rightarrow> string \<Rightarrow> tool_result lop" where
  "batch_run none_text key each out flag = op_bind (search_leads batch_leads) (\<lambda>leads.
     if leads = [] then op_return (tr_done none_text [(key, VList [])])
     else op_bind (op_mapM each leads) (\<lambda>rs.
       op_return (tr_done (out (filter (\<lambda>r. get_bool r flag) rs) rs) [(key, docs rs)])))"

definition move_each :: "sales_world \<Rightarrow> tool_context \<Rightarrow> doc \<Rightarrow> doc \<Rightarrow> doc lop" where
  "move_each w c args ld = (let lid = get_str ld ''id'' in
     op_bind (rescue is_sales_error (move_stage lid (get_str args ''to_stage'') (get_str args ''reason'') (tc_run_id c) (tc_worker c))) (\<lambda>r.
       op_return (case r of
           Inr m \<Rightarrow> lead_outcome lid True (''to'', VStr (pipeline_stage_value (mv_to m)))
         | Inl e \<Rightarrow> lead_outcome lid False (''error'', VStr (sw_exc w e)))))"

definition move_stage_tool :: sales_run where
  "move_stage_tool w c args = op_bind (open_ledger w c) (\<lambda>_.
     let dst = get_str args ''to_stage''; lid = batch_key args in
     if dst = [] then op_return (tr_fail (''sales_move_stage: missing required '' @ repr_str ''to_stage'') [])
     else if is_batch lid
     then batch_run ''no qualified leads to move'' ''moved'' (move_each w c args)
        (\<lambda>ok rs. ''moved '' @ count_str ok @ ''/'' @ count_str rs @ '' qualified lead(s) -> '' @ dst) ''ok''
     else op_bind (rescue is_sales_error (move_stage lid dst (get_str args ''reason'') (tc_run_id c) (tc_worker c))) (\<lambda>r. case r of
         Inl e \<Rightarrow> op_return (tr_fail (sw_exc w e) [])
       | Inr m \<Rightarrow> op_return (tr_done (pipeline_stage_value (mv_from m) @ '' -> '' @ pipeline_stage_value (mv_to m)) (move_dict lid m))))"

definition draft_request_of :: "tool_context \<Rightarrow> doc \<Rightarrow> draft_request" where
  "draft_request_of c args = \<lparr>dq_channel = (case dget args ''channel'' of Some v \<Rightarrow> val_str v | None \<Rightarrow> ''email''),
     dq_contact_id = get_str args ''contact_id'', dq_run_id = tc_run_id c, dq_experiment_id = [], dq_variant = []\<rparr>"

definition offer_of :: "core_offer option \<Rightarrow> offer" where
  "offer_of m = (case m of None \<Rightarrow> \<lparr>of_name = [], of_price = 0\<rparr> | Some f \<Rightarrow> \<lparr>of_name = kf_offer f, of_price = kf_price f\<rparr>)"

definition draft_each :: "sales_world \<Rightarrow> tool_context \<Rightarrow> doc \<Rightarrow> sequences \<Rightarrow> offer \<Rightarrow> doc \<Rightarrow> doc lop" where
  "draft_each w c args seqs ofr ld = (let lid = get_str ld ''id'' in
     op_bind (rescue is_value_error (prepare_draft lid seqs ofr (model_arg w args) (draft_request_of c args))) (\<lambda>r.
       op_return (case r of
           Inr p \<Rightarrow> lead_outcome lid True (''draft_id'', VStr (dr_id (pd_draft p)))
         | Inl e \<Rightarrow> lead_outcome lid False (''error'', VStr (sw_exc w e)))))"

definition draft_outreach_tool :: sales_run where
  "draft_outreach_tool w c args = op_bind (open_ledger w c) (\<lambda>_.
     let rt = docs_root (sw_corpus w) (tc_workspace c); lid = batch_key args in
     op_bind (op_lift (parse_core_offer (sw_corpus w) rt)) (\<lambda>ofr.
     op_bind (op_lift (parse_followup_sequences (sw_corpus w) rt)) (\<lambda>seqs.
     if is_batch lid
     then batch_run ''no qualified leads to draft for'' ''drafts'' (draft_each w c args seqs (offer_of ofr))
        (\<lambda>ok rs. ''drafted '' @ count_str ok @ ''/'' @ count_str rs @ '' qualified lead(s)'') ''ok''
     else op_bind (rescue is_value_error (prepare_draft lid seqs (offer_of ofr) (model_arg w args) (draft_request_of c args))) (\<lambda>r. case r of
         Inl e \<Rightarrow> op_return (tr_fail (sw_exc w e) [])
       | Inr p \<Rightarrow> op_return (tr_done (''drafted '' @ dr_channel (pd_draft p) @ '' for '' @ lid @ ''; model_rewrite=''
            @ (if rw_used (pd_model p) then ''used'' else ''not used'')) (prepared_dict p))))))"

definition schedule_each :: "tool_context \<Rightarrow> sequences \<Rightarrow> doc \<Rightarrow> doc lop" where
  "schedule_each c seqs ld = (let lid = get_str ld ''id'' in
     op_bind (schedule_for_lead lid seqs (tc_run_id c)) (\<lambda>r. let d = schedule_dict lid r in
       op_return [(''lead_id'', VStr lid), (''created'', VBool (get_bool d ''created'')), (''reason'', VStr (get_str d ''reason''))]))"

definition schedule_followup_tool :: sales_run where
  "schedule_followup_tool w c args = op_bind (open_ledger w c) (\<lambda>_.
     let lid = batch_key args in
     op_bind (op_lift (parse_followup_sequences (sw_corpus w) (docs_root (sw_corpus w) (tc_workspace c)))) (\<lambda>seqs.
     if is_batch lid
     then batch_run ''no qualified leads to schedule'' ''scheduled'' (schedule_each c seqs)
        (\<lambda>ok rs. ''scheduled '' @ count_str ok @ ''/'' @ count_str rs @ '' qualified lead(s)'') ''created''
     else op_bind (schedule_for_lead lid seqs (tc_run_id c)) (\<lambda>r. let d = schedule_dict lid r in
       op_bind (op_lift (need d ''reason'')) (\<lambda>why. op_bind (op_gets sl_env) (\<lambda>e. op_return (tr_done (py_str e why) d))))))"

section \<open>External and financial tools\<close>

definition approve_draft_tool :: sales_run where
  "approve_draft_tool w c args = op_bind (open_ledger w c) (\<lambda>_.
     op_bind (rescue is_sales_error (approve_draft (get_str args ''draft_id'') (get_str args ''approved_by''))) (\<lambda>r. case r of
         Inl e \<Rightarrow> op_return (tr_fail (sw_exc w e) [])
       | Inr d \<Rightarrow> op_return (tr_done (''approved '' @ get_str d ''id'') d)))"

definition record_sent_tool :: sales_run where
  "record_sent_tool w c args = op_bind (open_ledger w c) (\<lambda>_.
     op_bind (rescue is_sales_error (record_sent (get_str args ''draft_id'') (get_str args ''receipt'') (get_str args ''experiment_id''))) (\<lambda>r.
       case r of Inl e \<Rightarrow> op_return (tr_fail (sw_exc w e) []) | Inr x \<Rightarrow> op_return (tr_done ''recorded send'' (sent_dict x))))"

definition send_each :: "sales_world \<Rightarrow> doc \<Rightarrow> doc \<Rightarrow> (error + string) lop" where
  "send_each w args d = (let did = get_str d ''id'' in
     op_bind (rescue is_sales_error (record_sent did ''bulk'' (get_str args ''experiment_id''))) (\<lambda>r.
       op_return (case r of Inl e \<Rightarrow> Inl e | Inr _ \<Rightarrow> Inr did)))"

definition bulk_send_tool :: sales_run where
  "bulk_send_tool w c args = op_bind (open_ledger w c) (\<lambda>_.
     op_bind (drafts ''approved'' []) (\<lambda>all.
       let picked = (if get_truthy args ''max'' then py_take (get_int args ''max'' 0) all else all) in
       op_bind (op_mapM (send_each w args) picked) (\<lambda>rs.
         let sent = List.map_filter (\<lambda>r. case r of Inr d \<Rightarrow> Some (VStr d) | Inl _ \<Rightarrow> None) rs;
             failed = List.map_filter (\<lambda>(d, r). case r of Inr _ \<Rightarrow> None
               | Inl e \<Rightarrow> Some (VDict [(''draft_id'', cell d ''id''), (''error'', VStr (sw_exc w e))])) (zip picked rs)
         in op_return (tr_done (''sent '' @ count_str sent @ ''; '' @ count_str failed @ '' skipped'')
              [(''sent'', VList sent), (''failed'', VList failed)]))))"

section \<open>The registry\<close>

definition typed :: "string \<Rightarrow> pyval" where "typed ty = VDict [(''type'', VStr ty)]"
definition typed_dflt :: "string \<Rightarrow> pyval \<Rightarrow> pyval" where "typed_dflt ty v = VDict [(''type'', VStr ty), (''default'', v)]"

definition quoted :: "string \<Rightarrow> string" where "quoted x = [CHR 0x27] @ x @ [CHR 0x27]"
definition described :: "string \<Rightarrow> string \<Rightarrow> pyval" where
  "described ty d = VDict [(''type'', VStr ty), (''description'', VStr d)]"

definition object_schema :: "doc \<Rightarrow> string list option \<Rightarrow> doc" where
  "object_schema ps req = [(''type'', VStr ''object''), (''properties'', VDict ps)]
     @ (case req of None \<Rightarrow> [] | Some ks \<Rightarrow> [(''required'', VList (map VStr ks))])"

definition sales_tool :: "string \<Rightarrow> string \<Rightarrow> risk_level \<Rightarrow> doc \<Rightarrow> string list option \<Rightarrow> tool" where
  "sales_tool nm desc risk ps req = \<lparr>tool_name = nm, tool_description = desc, tool_schema = object_schema ps req, tool_risk = risk,
     tool_reversible = True, tool_requires_approval = False, tool_permissions = [], tool_categories = []\<rparr>"

definition LEAD_ID :: doc where "LEAD_ID = [(''lead_id'', typed ''string'')]"

definition SalesPipelineListTool :: "tool \<times> sales_run" where
  "SalesPipelineListTool = (sales_tool ''sales_pipeline_list''
     ''List leads, optionally filtered by stage/industry/min-score. Read-only.''
     Read [(''stage'', typed_dflt ''string'' (VStr [])), (''industry'', typed_dflt ''string'' (VStr [])),
     (''min_score'', typed_dflt ''number'' (VInt (-1))), (''query'', typed_dflt ''string'' (VStr [])),
     (''limit'', typed_dflt ''integer'' (VInt 50))] None, pipeline_list_tool)"

definition SalesEvidenceExplainTool :: "tool \<times> sales_run" where
  "SalesEvidenceExplainTool = (sales_tool ''sales_evidence_explain''
     ''Explain WHY a lead scored as it did, from stored evidence only. Read-only.''
     Read LEAD_ID (Some [''lead_id'']), evidence_explain_tool)"

definition SalesLeadDetailTool :: "tool \<times> sales_run" where
  "SalesLeadDetailTool = (sales_tool ''sales_lead_detail''
     ''Full detail of one lead (company, contacts, score history, evidence, follow-ups). Read-only.''
     Read LEAD_ID (Some [''lead_id'']), lead_detail_tool)"

definition SalesStaleLeadsTool :: "tool \<times> sales_run" where
  "SalesStaleLeadsTool = (sales_tool ''sales_stale_leads''
     ''Leads past the documented max duration for their stage (pipeline hygiene). Read-only.''
     Read [(''as_of'', typed_dflt ''number'' (VInt 0))] None, stale_leads_tool)"

definition SalesPipelineSummaryTool :: "tool \<times> sales_run" where
  "SalesPipelineSummaryTool = (sales_tool ''sales_pipeline_summary''
     ''Count of leads per stage with avg score and pipeline value. Read-only.''
     Read [] None, pipeline_summary_tool)"

definition SalesFollowupDueTool :: "tool \<times> sales_run" where
  "SalesFollowupDueTool = (sales_tool ''sales_followup_due''
     (''Today'' @ [CHR 0x27] @ ''s follow-ups, tasks and SLA-overdue leads. Read-only.'')
     Read [(''on'', typed_dflt ''string'' (VStr []))] None, followup_due_tool)"

definition SalesMetricsTool :: "tool \<times> sales_run" where
  "SalesMetricsTool = (sales_tool ''sales_metrics''
     ''Daily activity counts + vs-target report from the ledger. Read-only.''
     Read [(''day'', typed_dflt ''string'' (VStr [])), (''markdown'', typed_dflt ''boolean'' (VBool False))] None,
     \<lambda>w c a. op_bind (metrics_tool w c a) (\<lambda>(r, _). op_return r))"

definition SalesDiscoverTool :: "tool \<times> sales_run" where
  "SalesDiscoverTool = (sales_tool ''sales_discover''
     ''Ingest candidate companies from a permitted file (CSV/JSON) or the prospects table, dedupe, create leads and record provenance evidence.''
     Reversible [(''source'', described ''string'' (''candidate file path inside fs_roots, or '' @ quoted ''prospects'')), (''limit'', typed_dflt ''integer'' (VInt 0))]
     (Some [''source'']), discover_tool)"

definition SalesResearchTool :: "tool \<times> sales_run" where
  "SalesResearchTool = (sales_tool ''sales_research''
     ''Research a lead from permitted source files: record ICP/size/hiring/contact evidence and derive pain points from rubric signal phrases. Every claim cites its source.''
     Reversible [(''lead_id'', described ''string'' (''lead id, or '' @ quoted ''all'' @ '' to process every un-researched lead'')),
     (''sources'', VDict [(''type'', VStr ''array''), (''items'', typed ''string''),
        (''description'', VStr ''explicit source files; if omitted, all docs under company/ are used'')])] (Some [''lead_id'']), research_tool)"

definition SalesQualifyTool :: "tool \<times> sales_run" where
  "SalesQualifyTool = (sales_tool ''sales_qualify''
     ''Score a lead deterministically from stored evidence (append-only version). Fails if the lead has no evidence.''
     Reversible [(''lead_id'', typed ''string''), (''use_model'', typed_dflt ''boolean'' (VBool False))]
     (Some [''lead_id'']), qualify_tool)"

definition SalesMoveStageTool :: "tool \<times> sales_run" where
  "SalesMoveStageTool = (sales_tool ''sales_move_stage''
     ''Advance a lead to a documented-adjacent pipeline stage. Illegal transitions are refused.''
     Reversible [(''lead_id'', typed ''string''), (''to_stage'', typed ''string''),
     (''reason'', typed_dflt ''string'' (VStr []))] (Some [''to_stage'']), move_stage_tool)"

definition SalesDraftOutreachTool :: "tool \<times> sales_run" where
  "SalesDraftOutreachTool = (sales_tool ''sales_draft_outreach''
     ''Draft a personalised outreach message from stored facts + the offer text + follow-up sequence. Never sends; requires approval to send.''
     Reversible [(''lead_id'', typed ''string''), (''channel'', typed_dflt ''string'' (VStr ''email'')),
     (''contact_id'', typed_dflt ''string'' (VStr [])), (''use_model'', typed_dflt ''boolean'' (VBool False))] (Some []), draft_outreach_tool)"

definition SalesScheduleFollowupTool :: "tool \<times> sales_run" where
  "SalesScheduleFollowupTool = (sales_tool ''sales_schedule_followup''
     (''Schedule the documented next action for a lead per its stage'' @ [CHR 0x27] @ ''s follow-up rule. Idempotent.'')
     Reversible LEAD_ID (Some []), schedule_followup_tool)"

definition SalesApproveDraftTool :: "tool \<times> sales_run" where
  "SalesApproveDraftTool = (sales_tool ''sales_approve_draft''
     ''Mark an outreach draft as approved (external send path requires this first). Records the approver.''
     External [(''draft_id'', typed ''string''), (''approved_by'', typed ''string'')]
     (Some [''draft_id'', ''approved_by'']), approve_draft_tool)"

definition SalesRecordSentTool :: "tool \<times> sales_run" where
  "SalesRecordSentTool = (sales_tool ''sales_record_sent''
     ''Record that an APPROVED draft was actually delivered. Refuses unapproved drafts. Feeds the DailySalesOS experiment tables.''
     External [(''draft_id'', typed ''string''), (''receipt'', typed_dflt ''string'' (VStr [])),
     (''experiment_id'', typed_dflt ''string'' (VStr []))] (Some [''draft_id'']), record_sent_tool)"

definition SalesBulkSendTool :: "tool \<times> sales_run" where
  "SalesBulkSendTool = (sales_tool ''sales_bulk_send''
     ''Approve-and-send a batch of approved drafts in one action. Financial risk: external egress at volume.''
     Financial [(''experiment_id'', typed_dflt ''string'' (VStr [])), (''approved_by'', typed ''string''),
     (''max'', typed_dflt ''integer'' (VInt 0))] (Some [''approved_by'']), bulk_send_tool)"

definition SALES_TOOLS :: "(tool \<times> sales_run) list" where
  "SALES_TOOLS = [
     SalesPipelineListTool, SalesEvidenceExplainTool, SalesLeadDetailTool, SalesStaleLeadsTool,
     SalesPipelineSummaryTool, SalesFollowupDueTool, SalesMetricsTool, SalesDiscoverTool,
     SalesResearchTool, SalesQualifyTool, SalesMoveStageTool, SalesDraftOutreachTool,
     SalesScheduleFollowupTool, SalesApproveDraftTool, SalesRecordSentTool, SalesBulkSendTool]"

lemmas sales_tool_defs = SalesPipelineListTool_def SalesEvidenceExplainTool_def SalesLeadDetailTool_def SalesStaleLeadsTool_def
  SalesPipelineSummaryTool_def SalesFollowupDueTool_def SalesMetricsTool_def SalesDiscoverTool_def
  SalesResearchTool_def SalesQualifyTool_def SalesMoveStageTool_def SalesDraftOutreachTool_def
  SalesScheduleFollowupTool_def SalesApproveDraftTool_def SalesRecordSentTool_def SalesBulkSendTool_def

section \<open>Lemmas\<close>

text \<open>Every tool fails before it touches the ledger when the ledger lies outside the roots.\<close>

lemma open_ledger_outside:
  "resolve (sw_fs w) c False (default_ledger_path w (tc_workspace c)) = Inl e \<Longrightarrow> op_bind (open_ledger w c) f s = (Inl e, s)"
  by (simp add: open_ledger_def op_bind_apply)

lemma sales_tools_confined:
  assumes "resolve (sw_fs w) c False (default_ledger_path w (tc_workspace c)) = Inl e" and "(t, run) \<in> set SALES_TOOLS"
  shows "run w c args s = (Inl e, s)"
proof -
  note outside = open_ledger_outside [OF assms(1)]
  have "op_bind (op_bind (open_ledger w c) f) g s = (Inl e, s)" for f :: "string \<Rightarrow> (tool_result \<times> (string \<times> string) list) lop"
      and g :: "tool_result \<times> (string \<times> string) list \<Rightarrow> tool_result lop"
    unfolding op_bind_assoc by (rule outside)
  then show ?thesis
    using assms(2) unfolding SALES_TOOLS_def sales_tool_defs
    by (auto simp: outside pipeline_list_tool_def evidence_explain_tool_def lead_detail_tool_def stale_leads_tool_def
        pipeline_summary_tool_def followup_due_tool_def metrics_tool_def discover_tool_def research_tool_def qualify_tool_def
        move_stage_tool_def draft_outreach_tool_def schedule_followup_tool_def approve_draft_tool_def record_sent_tool_def bulk_send_tool_def)
qed

end
