(* ===== verification/Sales_Checks.thy ===== *)
theory Sales_Checks
  imports Sales_Metrics Sales_Qualification Verify
begin

text \<open>
  \<open>sworker/sales/checks.py\<close>: the five verification checks over the ledger, registered beside those of
  \<open>Verify\<close>; \<open>run_check\<close> turns an exception into \<open>UNVERIFIABLE\<close>.  Lemmas: what each check decides, as
  a condition on the tables.
\<close>

section \<open>SQL text\<close>

text \<open>\<open>TRIM\<close> removes blanks only, not other white space.\<close>

definition sql_trim :: "string \<Rightarrow> string" where
  "sql_trim s = (let blank = (\<lambda>c. c = CHR '' '') in rev (dropWhile blank (rev (dropWhile blank s))))"

definition sql_blank :: "pyval \<Rightarrow> bool" where
  "sql_blank v = (case v of VNone \<Rightarrow> True | VStr s \<Rightarrow> sql_trim s = [] | _ \<Rightarrow> False)"

definition cols_of :: "string list \<Rightarrow> doc \<Rightarrow> doc" where
  "cols_of ks r = map (\<lambda>k. (k, cell r k)) ks"

definition ids_repr :: "env \<Rightarrow> doc list \<Rightarrow> string" where
  "ids_repr e bad = py_repr e (VList (map (\<lambda>r. cell r ''id'') bad))"

definition check_pass :: "string \<Rightarrow> string \<Rightarrow> pyval \<Rightarrow> check_result" where
  "check_pass c det ac = check_out c Pass det VNone ac []"

definition check_fail :: "string \<Rightarrow> string \<Rightarrow> pyval \<Rightarrow> check_result" where
  "check_fail c det ac = check_out c Fail det VNone ac []"

definition count_text :: "'a list \<Rightarrow> string" where
  "count_text xs = int_str (int (length xs))"

section \<open>The checks\<close>

text \<open>A check over rows passes when none is bad.\<close>

definition rows_check :: "string \<Rightarrow> string \<Rightarrow> (doc \<Rightarrow> bool) \<Rightarrow> (env \<Rightarrow> doc list \<Rightarrow> check_result) \<Rightarrow> string \<Rightarrow> check_result lop" where
  "rows_check c t bad fail_with good = op_bind (rows_of t) (\<lambda>rs. op_bind (op_gets sl_env) (\<lambda>e.
     let hits = filter bad rs in op_return (if hits \<noteq> [] then fail_with e hits else check_pass c good VNone)))"

definition evidence_has_source :: "check_result lop" where
  "evidence_has_source = rows_check ''sales_evidence_has_source'' ''sales_evidence'' (\<lambda>r. sql_blank (cell r ''source_ref''))
     (\<lambda>e bad. check_fail ''sales_evidence_has_source''
        (count_text bad @ '' sales evidence row(s) without a source_ref: '' @ ids_repr e bad)
        (docs (map (cols_of [''id'', ''claim_type'']) bad)))
     ''all sales evidence rows carry a source_ref''"

definition sent_unapproved :: "doc \<Rightarrow> bool" where
  "sent_unapproved r \<longleftrightarrow> is_cell ''state'' ''sent'' r \<and> sql_blank (cell r ''approved_by'')"

definition outreach_approved_first :: "check_result lop" where
  "outreach_approved_first = rows_check ''sales_outreach_approved_first'' ''outreach_drafts'' sent_unapproved
     (\<lambda>e bad. check_fail ''sales_outreach_approved_first''
        (count_text bad @ '' sent draft(s) with no approver: '' @ ids_repr e bad) (docs (map (cols_of [''id'']) bad)))
     ''every sent draft was approved first''"

definition stage_undocumented :: "doc \<Rightarrow> bool" where
  "stage_undocumented r \<longleftrightarrow> cell r ''stage'' \<noteq> VNone \<and> cell r ''stage'' \<notin> set (map (VStr \<circ> pipeline_stage_value) STAGES)"

definition pipeline_legal :: "check_result lop" where
  "pipeline_legal = rows_check ''sales_pipeline_legal'' ''leads'' stage_undocumented
     (\<lambda>e bad. let seen = docs (map (cols_of [''id'', ''stage'']) bad) in check_fail ''sales_pipeline_legal''
        (count_text bad @ '' lead(s) in undocumented stage(s): '' @ py_repr e seen) seen)
     ''all leads are in documented CRM_Pipeline.md stages''"

definition score_mismatch :: "string \<Rightarrow> doc list lop" where
  "score_mismatch lid = op_bind (score_breakdown lid) (\<lambda>br. op_return (case br of
       None \<Rightarrow> []
     | Some k \<Rightarrow> (if score_matches k then []
         else [[(''lead_id'', VStr lid), (''stored'', VFloat (sk_stored k)), (''recomputed'', VFloat (sk_recomputed k))]])))"

definition score_recomputes :: "doc \<Rightarrow> check_result lop" where
  "score_recomputes spec =
     op_bind (if get_truthy spec ''lead_id'' then op_return [get_str spec ''lead_id'']
              else op_bind (rows_of ''leads'') (\<lambda>ls. op_return (map (\<lambda>l. get_str l ''id'') ls))) (\<lambda>lids.
     op_bind (op_mapM require_lead lids) (\<lambda>lds.
     op_bind (op_mapM (\<lambda>d. score_mismatch (get_str d ''id'')) lds) (\<lambda>found.
     op_bind (op_gets sl_env) (\<lambda>e.
       let bad = concat found in
       op_return (if bad \<noteq> [] then check_fail ''sales_score_recomputes''
            (count_text bad @ '' lead(s) where stored score != recomputed: '' @ py_repr e (docs bad)) (docs bad)
          else check_pass ''sales_score_recomputes''
            (''recomputed '' @ count_text lds @ '' lead score(s); all match stored totals'') VNone)))))"

definition counts_dict :: "counts \<Rightarrow> doc" where
  "counts_dict cs = map (\<lambda>(k, n). (k, VInt n)) cs"

definition metric_diffs :: "counts \<Rightarrow> doc \<Rightarrow> doc" where
  "metric_diffs cs expect = List.map_filter (\<lambda>(k, v).
     let a = (case dget cs k of Some n \<Rightarrow> VInt n | None \<Rightarrow> VNone) in
     if py_eq a v then None else Some (k, VDict [(''expected'', v), (''actual'', a)])) expect"

definition metrics_match_ledger :: "doc \<Rightarrow> check_result lop" where
  "metrics_match_ledger spec =
     op_bind (daily_counts (get_str spec ''day'')) (\<lambda>cs. op_bind (op_gets sl_env) (\<lambda>e.
       let expect = get_dict spec ''expect''; diffs = metric_diffs cs expect in
       op_return (if expect = [] then check_pass ''sales_metrics_match_ledger''
            ''no expected metrics supplied; recomputed only'' (VDict (counts_dict cs))
          else if diffs \<noteq> [] then check_fail ''sales_metrics_match_ledger''
            (''metric recomputation diverged from reported: '' @ py_repr e (VDict diffs)) (VDict diffs)
          else check_pass ''sales_metrics_match_ledger'' ''recomputed daily metrics match reported counts'' VNone)))"

definition SALES_CHECKS :: "(string \<times> (doc \<Rightarrow> check_result lop)) list" where
  "SALES_CHECKS = [(''sales_score_recomputes'', score_recomputes), (''sales_evidence_has_source'', \<lambda>_. evidence_has_source),
     (''sales_outreach_approved_first'', \<lambda>_. outreach_approved_first), (''sales_pipeline_legal'', \<lambda>_. pipeline_legal),
     (''sales_metrics_match_ledger'', metrics_match_ledger)]"

section \<open>Lemmas\<close>

lemma check_fail_fails: "\<not> passed (check_fail c det ac)"
  by (simp add: check_fail_def check_out_def passed_def)

lemma check_pass_passes: "passed (check_pass c det ac)"
  by (simp add: check_pass_def check_out_def passed_def)

lemma rows_check_run:
  "rows_check c t bad fail_with good s = (Inr (if filter bad (sl_tables s t) \<noteq> [] then fail_with (sl_env s) (filter bad (sl_tables s t))
     else check_pass c good VNone), s)"
  by (simp add: rows_check_def rows_of_def op_bind_apply Let_def)

lemma dropWhile_blank_nil: "dropWhile P (rev (dropWhile P s)) = [] \<longleftrightarrow> (\<forall>c\<in>set s. P c)"
  by (induction s) (auto simp: dropWhile_eq_Nil_conv dest: set_dropWhileD)

lemma str_strip_Nil_iff: "str_strip s = [] \<longleftrightarrow> (\<forall>c\<in>set s. is_space c)"
  using dropWhile_blank_nil [of is_space s] by (simp add: str_strip_def del: dropWhile_eq_Nil_conv)

lemma sql_trim_Nil_iff: "sql_trim s = [] \<longleftrightarrow> (\<forall>c\<in>set s. c = CHR '' '')"
  using dropWhile_blank_nil [of "\<lambda>c. c = CHR '' ''" s] by (simp add: sql_trim_def Let_def del: dropWhile_eq_Nil_conv)

lemma strip_nonblank: "str_strip s \<noteq> [] \<Longrightarrow> \<not> sql_blank (VStr s)"
  by (auto simp: sql_blank_def sql_trim_Nil_iff str_strip_Nil_iff is_space_def)

text \<open>The counts that the daily report gives are exactly the expectation the check accepts.\<close>

lemma dget_counts_dict: "dget (counts_dict cs) k = map_option VInt (dget cs k)"
  by (induction cs) (auto simp: counts_dict_def)

lemma metric_diffs_own: "distinct (dkeys cs) \<Longrightarrow> metric_diffs cs (counts_dict cs) = []"
proof -
  assume d: "distinct (dkeys cs)"
  have "metric_diffs cs (counts_dict es) = []" if "set es \<subseteq> set cs" for es
    using that d
    by (induction es) (auto simp: metric_diffs_def counts_dict_def map_filter_simps Let_def py_eq_def dget_Some_iff [symmetric])
  then show ?thesis by simp
qed

lemma counts_of_distinct: "distinct (dkeys (counts_of tabs w))"
  by (simp add: counts_of_def Let_def)

end
