(* ===== verification/Sales_Safety.thy ===== *)
theory Sales_Safety
  imports Sales_Tools Sales_Checks
begin

text \<open>
  What holds of a ledger that only the sales tools have written.  The invariant \<open>sales_ok\<close> joins the
  integrity of the tables with a predicate on the rows: documented stages, legal recorded moves,
  sourced and typed evidence, pain points that cite evidence, approved sends, scores that are the
  weighted total of their parts.  Every repository operation the tools use preserves it, whether
  it returns or raises, so it holds after any sequence of tool calls.
\<close>

section \<open>Good rows\<close>

definition is_stage :: "pyval \<Rightarrow> bool" where
  "is_stage v \<longleftrightarrow> (\<exists>s. v = VStr (pipeline_stage_value s))"

definition good_lead :: "doc \<Rightarrow> bool" where
  "good_lead r \<longleftrightarrow> is_stage (cell r ''stage'') \<and> percent (get_num r ''score'') \<and> (\<exists>i. cell r ''id'' = VStr i)"

definition good_evidence :: "doc \<Rightarrow> bool" where
  "good_evidence r \<longleftrightarrow> (\<exists>src. cell r ''source_ref'' = VStr src \<and> str_strip src \<noteq> []) \<and>
     (\<exists>ty\<in>set SALES_CLAIM_TYPES. cell r ''claim_type'' = VStr ty) \<and> (\<exists>t. cell r ''tier'' = VStr (claim_tier_value t))"

definition good_pain :: "doc \<Rightarrow> bool" where
  "good_pain r \<longleftrightarrow> (\<exists>v vs. cell r ''evidence_ids'' = VList (v # vs))"

definition good_qualification :: "doc \<Rightarrow> bool" where
  "good_qualification r \<longleftrightarrow> get_num r ''score'' = total_score (stored_subs r) \<and> percent (get_num r ''score'') \<and>
     (\<forall>k\<in>set (dkeys WEIGHTS). percent (get_num r k)) \<and> (\<exists>t. cell r ''tier'' = VStr (claim_tier_value t))"

definition good_draft :: "doc \<Rightarrow> bool" where
  "good_draft r \<longleftrightarrow> (\<exists>st. cell r ''state'' = VStr (outreach_state_value st) \<and>
     (st \<in> {Out_Approved, Out_Sent} \<longrightarrow> (\<exists>b. cell r ''approved_by'' = VStr b \<and> b \<noteq> [])))"

definition good_move :: "doc \<Rightarrow> bool" where
  "good_move r \<longleftrightarrow> (\<exists>b. cell r ''to_stage'' = VStr (pipeline_stage_value b) \<and>
     ((cell r ''from_stage'' = VStr [] \<and> b = Prospect) \<or>
      (\<exists>a. cell r ''from_stage'' = VStr (pipeline_stage_value a) \<and> b \<in> set (allowed_next a))))"

definition good_row :: "string \<Rightarrow> doc \<Rightarrow> bool" where
  "good_row t r \<longleftrightarrow>
     (t = ''leads'' \<longrightarrow> good_lead r) \<and> (t = ''sales_evidence'' \<longrightarrow> good_evidence r) \<and>
     (t = ''pain_points'' \<longrightarrow> good_pain r) \<and> (t = ''qualifications'' \<longrightarrow> good_qualification r) \<and>
     (t = ''outreach_drafts'' \<longrightarrow> good_draft r) \<and> (t = ''pipeline_history'' \<longrightarrow> good_move r)"

text \<open>The invariant also carries a set of sends that were recorded, as pairs of a draft and its approver: they stay as they are.\<close>

definition sent_row :: "string \<times> string \<Rightarrow> doc \<Rightarrow> bool" where
  "sent_row p r \<longleftrightarrow> cell r ''id'' = VStr (fst p) \<and> cell r ''state'' = VStr (outreach_state_value Out_Sent) \<and> cell r ''approved_by'' = VStr (snd p)"

definition sales_kept :: "(string \<times> string) set \<Rightarrow> ledger \<Rightarrow> bool" where
  "sales_kept D s \<longleftrightarrow> ledger_ok s \<and> (\<forall>t. list_all (good_row t) (sl_tables s t)) \<and>
     (\<forall>p\<in>D. list_ex (sent_row p) (sl_tables s ''outreach_drafts''))"

abbreviation sales_ok :: "ledger \<Rightarrow> bool" where
  "sales_ok \<equiv> sales_kept {}"

lemma sales_okD: "sales_kept D s \<Longrightarrow> r \<in> set (sl_tables s t) \<Longrightarrow> good_row t r"
  by (auto simp: sales_kept_def list_all_iff)

lemma sales_ok_empty: "sales_ok (empty_ledger e)"
  by (simp add: sales_kept_def ledger_ok_empty) (simp add: empty_ledger_def)

section \<open>Statements\<close>

lemma sales_ok_tables: "sl_tables s' = sl_tables s \<Longrightarrow> sales_kept D s' \<longleftrightarrow> sales_kept D s"
  using ledger_ok_tables [of s' s] by (simp add: sales_kept_def)

lemma sl_now_sales [op_inv_intros]: "op_inv (sales_kept D) sl_now"
  by (rule op_invI) (simp add: sl_now_def sales_ok_tables [of "_\<lparr>sl_ticks := _\<rparr>"])

lemma sl_id_sales [op_inv_intros]: "op_inv (sales_kept D) (sl_id p)"
  by (rule op_invI) (simp add: sl_id_def sales_ok_tables [of "_\<lparr>sl_drawn := _\<rparr>"])

lemma sl_today_sales [op_inv_intros]: "op_inv (sales_kept D) sl_today"
  unfolding sl_today_def by (intro op_inv_intros)

lemma sql_insert_sales:
  assumes "\<And>cols. schema_of t = Some cols \<Longrightarrow> good_row t (row_of cols d)"
  shows "op_inv (sales_kept D) (sql_insert t d)"
proof (rule op_invI)
  fix s
  assume s: "sales_kept D s"
  have "ledger_ok (snd (sql_insert t d s))"
    using sql_insert_ok [of t d] s by (auto simp: op_inv_def sales_kept_def)
  moreover have "list_all (good_row t') (sl_tables (snd (sql_insert t d s)) t')" for t'
    using s assms by (auto simp: sql_insert_def Let_def sales_kept_def split: option.split)
  moreover have "\<forall>p\<in>D. list_ex (sent_row p) (sl_tables (snd (sql_insert t d s)) ''outreach_drafts'')"
    using s by (auto simp: sql_insert_def Let_def sales_kept_def split: option.split)
  ultimately show "sales_kept D (snd (sql_insert t d s))" by (simp add: sales_kept_def)
qed

lemma update_rows_good:
  assumes "\<And>t. list_all (good_row t) (sl_tables s t)"
    and "\<And>a r b. split_at_id rid (sl_tables s t) = Some (a, r, b) \<Longrightarrow> good_row t (set_cells r changes)"
  shows "list_all (good_row t') (sl_tables (snd (sql_update t rid changes s)) t')"
proof (cases "split_at_id rid (sl_tables s t)")
  case None
  then show ?thesis using assms(1) by (auto simp: sql_update_def split: option.split)
next
  case (Some p)
  obtain a r b where p: "p = (a, r, b)" by (cases p) auto
  have "sl_tables s t = a @ r # b" using split_at_id_SomeD [of rid "sl_tables s t" a r b] Some p by simp
  then have "list_all (good_row t) (a @ [set_cells r changes] @ b)" using assms(1) [of t] assms(2) [of a r b] Some p by simp
  then show ?thesis using assms(1) Some p by (auto simp: sql_update_def Let_def split: option.split)
qed

lemma update_keeps_sent:
  assumes "t = ''outreach_drafts'' \<Longrightarrow> rid \<notin> fst ` D" and "\<forall>p\<in>D. list_ex (sent_row p) (sl_tables s ''outreach_drafts'')"
  shows "\<forall>p\<in>D. list_ex (sent_row p) (sl_tables (snd (sql_update t rid changes s)) ''outreach_drafts'')"
proof (cases "split_at_id rid (sl_tables s t)")
  case None
  then show ?thesis using assms(2) by (auto simp: sql_update_def split: option.split)
next
  case (Some q)
  obtain a r b where q: "q = (a, r, b)" by (cases q) auto
  have sp: "sl_tables s t = a @ r # b" "cell r ''id'' = VStr rid" using split_at_id_SomeD [of rid "sl_tables s t" a r b] Some q by auto
  have "\<not> sent_row p r" if "t = ''outreach_drafts''" "p \<in> D" for p
    using assms(1) [OF that(1)] that(2) sp(2) by (auto simp: sent_row_def)
  then have "list_ex (sent_row p) (a @ [x] @ b)" if "t = ''outreach_drafts''" "p \<in> D" for p x
    using assms(2) that sp(1) by (auto simp: list_ex_iff)
  then show ?thesis using assms(2) Some q by (auto simp: sql_update_def Let_def split: option.split)
qed

lemma sql_update_sales:
  assumes "''id'' \<notin> set (dkeys changes)" and "\<And>r. good_row t r \<Longrightarrow> good_row t (set_cells r changes)"
    and "t = ''outreach_drafts'' \<Longrightarrow> rid \<notin> fst ` D"
  shows "op_inv (sales_kept D) (sql_update t rid changes)"
proof (rule op_invI)
  fix s
  assume s: "sales_kept D s"
  have "ledger_ok (snd (sql_update t rid changes s))"
    using sql_update_ok [OF assms(1), of t rid] s by (auto simp: op_inv_def sales_kept_def)
  moreover have "good_row t (set_cells r changes)" if "split_at_id rid (sl_tables s t) = Some (a, r, b)" for a r b
    using split_at_id_SomeD [OF that] assms(2) sales_okD [OF s, of r t] by simp
  then have "list_all (good_row t') (sl_tables (snd (sql_update t rid changes s)) t')" for t'
    using s by (intro update_rows_good) (auto simp: sales_kept_def)
  moreover have "\<forall>p\<in>D. list_ex (sent_row p) (sl_tables (snd (sql_update t rid changes s)) ''outreach_drafts'')"
    by (rule update_keeps_sent [OF assms(3)]) (use s in \<open>auto simp: sales_kept_def\<close>)
  ultimately show "sales_kept D (snd (sql_update t rid changes s))" by (simp add: sales_kept_def)
qed

text \<open>What a stored cell holds, from the record that was inserted.\<close>

lemma dget_map_val: "dget (map (\<lambda>(k, v). (k, f k v)) d) k = map_option (f k) (dget d k)"
  by (induction d) auto

lemma dget_row_of: "k \<in> set (map cl_name cols) \<Longrightarrow> dget d k = Some v \<Longrightarrow> dget (row_of cols d) k = Some v"
  by (induction cols) (auto simp: row_of_def)

definition column_in :: "string \<Rightarrow> string \<Rightarrow> bool" where
  "column_in t k \<longleftrightarrow> (case schema_of t of None \<Rightarrow> False | Some cols \<Rightarrow> k \<in> set (map cl_name cols))"

lemma inserted_dget:
  assumes "schema_of t = Some cols" and "column_in t k" and "dget rec k = Some v" and "k \<notin> set REF_KEYS"
  shows "dget (row_of cols (encode_doc (null_refs rec))) k = Some (encode_val v)"
proof (rule dget_row_of)
  show "k \<in> set (map cl_name cols)" using assms(1,2) by (simp add: column_in_def)
  have "dget (null_refs rec) k = Some v"
    using assms(3,4) dget_map_val [of "\<lambda>k v. if k \<in> set REF_KEYS \<and> v = VStr [] then VNone else v" rec k] by (simp add: null_refs_def)
  then show "dget (encode_doc (null_refs rec)) k = Some (encode_val v)"
    using dget_map_val [of "\<lambda>k. encode_val" "null_refs rec" k] by (simp add: encode_doc_def)
qed

lemma inserted_same:
  assumes "schema_of t = Some cols" and "column_in t k" and "k \<notin> set REF_KEYS" and "encode_val v = v" and "dget rec k = Some v"
  shows "dget (row_of cols (encode_doc (null_refs rec))) k = Some v"
  using inserted_dget [OF assms(1,2,5,3)] assms(4) by simp

lemma cell_of_dget: "dget r k = Some v \<Longrightarrow> cell r k = v"
  by (simp add: cell_def)

lemma num_of_dget: "dget r k = Some (VFloat x) \<Longrightarrow> get_num r k = x"
  by (simp add: get_num_def)

lemma sales_columns:
  "column_in ''leads'' ''stage''" "column_in ''leads'' ''score''" "column_in ''leads'' ''id''"
  "column_in ''sales_evidence'' ''source_ref''" "column_in ''sales_evidence'' ''claim_type''" "column_in ''sales_evidence'' ''tier''"
  "column_in ''pain_points'' ''evidence_ids''" "column_in ''outreach_drafts'' ''state''" "column_in ''outreach_drafts'' ''approved_by''"
  "column_in ''pipeline_history'' ''from_stage''" "column_in ''pipeline_history'' ''to_stage''"
  "column_in ''qualifications'' ''score''" "column_in ''qualifications'' ''tier''" "column_in ''qualifications'' ''icp_fit''"
  "column_in ''qualifications'' ''pain_signal''" "column_in ''qualifications'' ''urgency''"
  "column_in ''qualifications'' ''economic_potential''" "column_in ''qualifications'' ''accessibility''"
  "column_in ''qualifications'' ''confidence''"
  by code_simp+

lemma insert_rec_sales:
  assumes "\<And>cols. schema_of t = Some cols \<Longrightarrow> good_row t (row_of cols (encode_doc (null_refs rec)))"
  shows "op_inv (sales_kept D) (insert_rec t rec)"
  unfolding insert_rec_def Let_def by (intro op_inv_intros sql_insert_sales assms)

lemma update_rec_sales:
  assumes "''id'' \<notin> set (dkeys changes)" and "\<And>r. good_row t r \<Longrightarrow> good_row t (set_cells r (encode_doc changes))"
    and "t = ''outreach_drafts'' \<Longrightarrow> rid \<notin> fst ` D"
  shows "op_inv (sales_kept D) (update_rec t rid changes)"
  unfolding update_rec_def by (intro op_inv_intros sql_update_sales) (use assms in \<open>simp_all add: encode_doc_def dkeys_map_snd\<close>)

text \<open>Tables whose rows carry no further condition.\<close>

definition plain_table :: "string \<Rightarrow> bool" where
  "plain_table t \<longleftrightarrow> t \<notin> {''leads'', ''sales_evidence'', ''pain_points'', ''qualifications'', ''outreach_drafts'', ''pipeline_history''}"

lemma good_row_plain: "plain_table t \<Longrightarrow> good_row t r"
  by (auto simp: good_row_def plain_table_def)

lemma insert_plain: "plain_table t \<Longrightarrow> op_inv (sales_kept D) (insert_rec t rec)"
  by (intro insert_rec_sales) (simp add: good_row_plain)

lemma sql_insert_plain: "plain_table t \<Longrightarrow> op_inv (sales_kept D) (sql_insert t d)"
  by (intro sql_insert_sales) (simp add: good_row_plain)

lemma update_plain: "plain_table t \<Longrightarrow> ''id'' \<notin> set (dkeys changes) \<Longrightarrow> op_inv (sales_kept D) (update_rec t rid changes)"
  by (intro update_rec_sales) (auto simp: good_row_plain plain_table_def)

section \<open>Records that are good\<close>

lemma ref_keys [simp]: "''stage'' \<notin> set REF_KEYS" "''score'' \<notin> set REF_KEYS" "''id'' \<notin> set REF_KEYS" "''source_ref'' \<notin> set REF_KEYS"
  "''claim_type'' \<notin> set REF_KEYS" "''tier'' \<notin> set REF_KEYS" "''evidence_ids'' \<notin> set REF_KEYS" "''state'' \<notin> set REF_KEYS"
  "''approved_by'' \<notin> set REF_KEYS" "''from_stage'' \<notin> set REF_KEYS" "''to_stage'' \<notin> set REF_KEYS" "''icp_fit'' \<notin> set REF_KEYS"
  "''pain_signal'' \<notin> set REF_KEYS" "''urgency'' \<notin> set REF_KEYS" "''economic_potential'' \<notin> set REF_KEYS"
  "''accessibility'' \<notin> set REF_KEYS" "''confidence'' \<notin> set REF_KEYS"
  by (simp_all add: REF_KEYS_def)

lemma insert_lead_sales: "percent (ld_score ld) \<Longrightarrow> op_inv (sales_kept D) (insert_rec ''leads'' (lead_dict ld))"
proof (rule insert_rec_sales)
  fix cols
  assume p: "percent (ld_score ld)" and sch: "schema_of ''leads'' = Some cols"
  let ?r = "row_of cols (encode_doc (null_refs (lead_dict ld)))"
  have "dget ?r ''stage'' = Some (VStr (pipeline_stage_value (ld_stage ld)))"
    "dget ?r ''score'' = Some (VFloat (ld_score ld))" "dget ?r ''id'' = Some (VStr (ld_id ld))"
    by (rule inserted_same [OF sch]; simp add: sales_columns lead_dict_def)+
  then show "good_row ''leads'' ?r"
    using p by (auto simp: good_row_def good_lead_def is_stage_def num_of_dget dest: cell_of_dget)
qed

lemma insert_evidence_sales:
  assumes "str_strip (sev_source_ref ev) \<noteq> []" and "sev_claim_type ev \<in> set SALES_CLAIM_TYPES"
  shows "op_inv (sales_kept D) (insert_rec ''sales_evidence'' (sales_evidence_dict ev))"
proof (rule insert_rec_sales)
  fix cols
  assume sch: "schema_of ''sales_evidence'' = Some cols"
  let ?r = "row_of cols (encode_doc (null_refs (sales_evidence_dict ev)))"
  have "dget ?r ''source_ref'' = Some (VStr (sev_source_ref ev))" "dget ?r ''claim_type'' = Some (VStr (sev_claim_type ev))"
    "dget ?r ''tier'' = Some (VStr (claim_tier_value (sev_tier ev)))"
    by (rule inserted_same [OF sch]; simp add: sales_columns sales_evidence_dict_def)+
  then show "good_row ''sales_evidence'' ?r"
    using assms by (auto simp: good_row_def good_evidence_def dest!: cell_of_dget)
qed

lemma insert_pain_sales:
  assumes "pp_evidence_ids p \<noteq> []"
  shows "op_inv (sales_kept D) (insert_rec ''pain_points'' (pain_point_dict p))"
proof (rule insert_rec_sales)
  fix cols
  assume sch: "schema_of ''pain_points'' = Some cols"
  let ?r = "row_of cols (encode_doc (null_refs (pain_point_dict p)))"
  have "dget ?r ''evidence_ids'' = Some (VList (map VStr (pp_evidence_ids p)))"
    by (rule inserted_same [OF sch]; simp add: sales_columns pain_point_dict_def)+
  then show "good_row ''pain_points'' ?r"
    using assms by (cases "pp_evidence_ids p") (auto simp: good_row_def good_pain_def dest!: cell_of_dget)
qed

lemma insert_draft_sales:
  assumes "dr_state d = Out_Draft"
  shows "op_inv (sales_kept D) (insert_rec ''outreach_drafts'' (outreach_draft_dict d))"
proof (rule insert_rec_sales)
  fix cols
  assume sch: "schema_of ''outreach_drafts'' = Some cols"
  let ?r = "row_of cols (encode_doc (null_refs (outreach_draft_dict d)))"
  have "dget ?r ''state'' = Some (VStr (outreach_state_value Out_Draft))"
    by (rule inserted_same [OF sch]; simp add: sales_columns outreach_draft_dict_def assms)+
  then show "good_row ''outreach_drafts'' ?r"
    unfolding good_row_def good_draft_def by (auto dest!: cell_of_dget intro!: exI [of _ Out_Draft])
qed

lemma insert_move_sales:
  assumes "pt_to_stage p = pipeline_stage_value b"
    and "(pt_from_stage p = [] \<and> b = Prospect) \<or> (\<exists>a. pt_from_stage p = pipeline_stage_value a \<and> b \<in> set (allowed_next a))"
  shows "op_inv (sales_kept D) (insert_rec ''pipeline_history'' (pipeline_transition_dict p))"
proof (rule insert_rec_sales)
  fix cols
  assume sch: "schema_of ''pipeline_history'' = Some cols"
  let ?r = "row_of cols (encode_doc (null_refs (pipeline_transition_dict p)))"
  have "dget ?r ''from_stage'' = Some (VStr (pt_from_stage p))" "dget ?r ''to_stage'' = Some (VStr (pt_to_stage p))"
    by (rule inserted_same [OF sch]; simp add: sales_columns pipeline_transition_dict_def)+
  then show "good_row ''pipeline_history'' ?r"
    using assms by (auto simp: good_row_def good_move_def dest!: cell_of_dget)
qed

definition good_scores :: "qualification \<Rightarrow> bool" where
  "good_scores q \<longleftrightarrow> ql_score q = total_score [(''icp_fit'', ql_icp_fit q), (''pain_signal'', ql_pain_signal q), (''urgency'', ql_urgency q),
       (''economic_potential'', ql_economic_potential q), (''accessibility'', ql_accessibility q), (''confidence'', ql_confidence q)] \<and>
     percent (ql_score q) \<and> percent (ql_icp_fit q) \<and> percent (ql_pain_signal q) \<and> percent (ql_urgency q) \<and>
     percent (ql_economic_potential q) \<and> percent (ql_accessibility q) \<and> percent (ql_confidence q)"

lemma insert_qualification_sales:
  assumes "good_scores q"
  shows "op_inv (sales_kept D) (insert_rec ''qualifications'' (qualification_dict q))"
proof (rule insert_rec_sales)
  fix cols
  assume sch: "schema_of ''qualifications'' = Some cols"
  let ?r = "row_of cols (encode_doc (null_refs (qualification_dict q)))"
  have t: "dget ?r ''tier'' = Some (VStr (claim_tier_value (ql_tier q)))"
    by (rule inserted_same [OF sch]; simp add: sales_columns qualification_dict_def)+
  have "dget ?r ''score'' = Some (VFloat (ql_score q))" "dget ?r ''icp_fit'' = Some (VFloat (ql_icp_fit q))"
    "dget ?r ''pain_signal'' = Some (VFloat (ql_pain_signal q))" "dget ?r ''urgency'' = Some (VFloat (ql_urgency q))"
    "dget ?r ''economic_potential'' = Some (VFloat (ql_economic_potential q))"
    "dget ?r ''accessibility'' = Some (VFloat (ql_accessibility q))" "dget ?r ''confidence'' = Some (VFloat (ql_confidence q))"
    by (rule inserted_same [OF sch]; simp add: sales_columns qualification_dict_def)+
  note n = this [THEN num_of_dget]
  have "stored_subs ?r = [(''icp_fit'', ql_icp_fit q), (''pain_signal'', ql_pain_signal q), (''urgency'', ql_urgency q),
       (''economic_potential'', ql_economic_potential q), (''accessibility'', ql_accessibility q), (''confidence'', ql_confidence q)]"
    by (simp add: stored_subs_def WEIGHTS_def n)
  then show "good_row ''qualifications'' ?r"
    using assms cell_of_dget [OF t] by (auto simp: good_row_def good_qualification_def good_scores_def n WEIGHTS_def)
qed

section \<open>Changes that keep rows good\<close>

lemma set_cells_num: "k \<notin> set (dkeys changes) \<Longrightarrow> get_num (set_cells r changes) k = get_num r k"
proof (induction changes arbitrary: r)
  case (Cons kv changes)
  have "get_num (dset r (fst kv) (snd kv)) k = get_num r k" using Cons.prems by (cases kv) (auto simp: get_num_def)
  then show ?case using Cons by (cases kv) (simp add: set_cells_def)
qed (simp add: set_cells_def)

lemma encode_keys [simp]: "dkeys (encode_doc d) = dkeys d"
  by (simp add: encode_doc_def dkeys_map_snd)

lemma update_lead_sales:
  assumes "''id'' \<notin> set (dkeys changes)" and "\<forall>v. dget (rev (encode_doc changes)) ''stage'' = Some v \<longrightarrow> is_stage v"
    and "''score'' \<notin> set (dkeys changes)"
  shows "op_inv (sales_kept D) (update_rec ''leads'' lid changes)"
proof (rule update_rec_sales [OF assms(1)])
  fix r
  assume "good_row ''leads'' r"
  moreover have "cell (set_cells r (encode_doc changes)) ''id'' = cell r ''id''" by (rule cell_set_other) (simp add: assms(1))
  moreover have "get_num (set_cells r (encode_doc changes)) ''score'' = get_num r ''score''" by (rule set_cells_num) (simp add: assms(3))
  ultimately show "good_row ''leads'' (set_cells r (encode_doc changes))"
    using assms(2) by (auto simp: good_row_def good_lead_def cell_set_cells split: option.splits)
qed simp

lemma update_score_sales:
  assumes "percent x"
  shows "op_inv (sales_kept D) (update_rec ''leads'' lid [(''score'', VFloat x), (''score_version'', VInt v), (''updated'', VFloat t)])"
proof (rule update_rec_sales)
  fix r
  assume "good_row ''leads'' r"
  then show "good_row ''leads'' (set_cells r (encode_doc [(''score'', VFloat x), (''score_version'', VInt v), (''updated'', VFloat t)]))"
    using assms by (simp add: good_row_def good_lead_def encode_doc_def set_cells_def cell_def get_num_def)
qed simp_all

lemma approve_sales:
  assumes "b \<noteq> []" and "did \<notin> fst ` D"
  shows "op_inv (sales_kept D) (update_rec ''outreach_drafts'' did
    [(''state'', VStr (outreach_state_value Out_Approved)), (''approved_by'', VStr b), (''approved_at'', VFloat t)])"
proof (rule update_rec_sales)
  fix r
  show "good_row ''outreach_drafts'' (set_cells r (encode_doc
      [(''state'', VStr (outreach_state_value Out_Approved)), (''approved_by'', VStr b), (''approved_at'', VFloat t)]))"
    using assms unfolding good_row_def good_draft_def
    by (auto simp: encode_doc_def set_cells_def cell_def intro!: exI [of _ Out_Approved])
qed (use assms(2) in simp_all)

section \<open>Reading\<close>

lemma rows_of_sales [op_inv_intros]: "op_inv (sales_kept D) (rows_of t)"
  unfolding rows_of_def by (intro op_inv_intros)

lemma decode_rows_sales [op_inv_intros]: "op_inv (sales_kept D) (decode_rows t rs)"
  unfolding decode_rows_def by (intro op_inv_intros)

lemma sel_sales [op_inv_intros]: "op_inv (sales_kept D) (sel t f)"
  unfolding sel_def by (intro op_inv_intros)

lemma sel_by_sales [op_inv_intros]: "op_inv (sales_kept D) (sel_by t f k)"
  unfolding sel_by_def by (intro op_inv_intros)

lemma one_row_sales [op_inv_intros]: "op_inv (sales_kept D) (one_row t rid)"
  unfolding one_row_def by (intro op_inv_intros)

lemma one_ref_sales [op_inv_intros]: "op_inv (sales_kept D) (one_ref t v)"
  by (cases v) (simp_all add: one_ref_def op_inv_intros)

lemma the_row_sales [op_inv_intros]: "op_inv (sales_kept D) (the_row t rid)"
  unfolding the_row_def by (intro op_inv_intros)

lemma active_icp_sales [op_inv_intros]: "op_inv (sales_kept D) (active_icp)"
  unfolding active_icp_def by (intro op_inv_intros)

lemma get_company_sales [op_inv_intros]: "op_inv (sales_kept D) (get_company c)"
  unfolding get_company_def by (intro op_inv_intros)

lemma get_contact_sales [op_inv_intros]: "op_inv (sales_kept D) (get_contact c)"
  unfolding get_contact_def by (intro op_inv_intros)

lemma contacts_for_sales [op_inv_intros]: "op_inv (sales_kept D) (contacts_for c)"
  unfolding contacts_for_def by (intro op_inv_intros)

lemma get_lead_sales [op_inv_intros]: "op_inv (sales_kept D) (get_lead l)"
  unfolding get_lead_def by (intro op_inv_intros)

lemma require_lead_sales [op_inv_intros]: "op_inv (sales_kept D) (require_lead l)"
  unfolding require_lead_def by (intro op_inv_intros)

lemma search_leads_sales [op_inv_intros]: "op_inv (sales_kept D) (search_leads q)"
  unfolding search_leads_def Let_def by (intro op_inv_intros)

lemma stage_history_sales [op_inv_intros]: "op_inv (sales_kept D) (stage_history l)"
  unfolding stage_history_def by (intro op_inv_intros)

lemma pipeline_summary_sales [op_inv_intros]: "op_inv (sales_kept D) (pipeline_summary)"
  unfolding pipeline_summary_def by (intro op_inv_intros)

lemma stale_leads_sales [op_inv_intros]: "op_inv (sales_kept D) (stale_leads m)"
  unfolding stale_leads_def by (intro op_inv_intros)

lemma activities_for_sales [op_inv_intros]: "op_inv (sales_kept D) (activities_for l n)"
  unfolding activities_for_def by (intro op_inv_intros)

lemma evidence_for_sales [op_inv_intros]: "op_inv (sales_kept D) (evidence_for l c)"
  unfolding evidence_for_def by (intro op_inv_intros)

lemma pain_points_for_sales [op_inv_intros]: "op_inv (sales_kept D) (pain_points_for l)"
  unfolding pain_points_for_def by (intro op_inv_intros)

lemma next_qualification_version_sales [op_inv_intros]: "op_inv (sales_kept D) (next_qualification_version l)"
  unfolding next_qualification_version_def Let_def by (intro op_inv_intros)

lemma qualifications_for_sales [op_inv_intros]: "op_inv (sales_kept D) (qualifications_for l)"
  unfolding qualifications_for_def by (intro op_inv_intros)

lemma latest_qualification_sales [op_inv_intros]: "op_inv (sales_kept D) (latest_qualification l)"
  unfolding latest_qualification_def by (intro op_inv_intros)

lemma get_draft_sales [op_inv_intros]: "op_inv (sales_kept D) (get_draft d)"
  unfolding get_draft_def by (intro op_inv_intros)

lemma drafts_sales [op_inv_intros]: "op_inv (sales_kept D) (drafts st l)"
  unfolding drafts_def by (intro op_inv_intros)

lemma open_tasks_sales [op_inv_intros]: "op_inv (sales_kept D) (open_tasks l)"
  unfolding open_tasks_def by (intro op_inv_intros)

lemma due_followups_sales [op_inv_intros]: "op_inv (sales_kept D) (due_followups d)"
  unfolding due_followups_def by (intro op_inv_intros)

lemma opportunities_for_sales [op_inv_intros]: "op_inv (sales_kept D) (opportunities_for l)"
  unfolding opportunities_for_def by (intro op_inv_intros)

lemma lead_detail_sales [op_inv_intros]: "op_inv (sales_kept D) (lead_detail l)"
  unfolding lead_detail_def by (intro op_inv_intros)

lemma touches_of_sales [op_inv_intros]: "op_inv (sales_kept D) (touches_of l)"
  unfolding touches_of_def by (intro op_inv_intros)

lemma open_followups_sales [op_inv_intros]: "op_inv (sales_kept D) (open_followups l)"
  unfolding open_followups_def by (intro op_inv_intros)

lemma explain_lead_sales [op_inv_intros]: "op_inv (sales_kept D) (explain_lead l)"
  unfolding explain_lead_def by (intro op_inv_intros)

lemma score_breakdown_sales [op_inv_intros]: "op_inv (sales_kept D) (score_breakdown l)"
  unfolding score_breakdown_def by (intro op_inv_intros)

lemma due_today_sales [op_inv_intros]: "op_inv (sales_kept D) (due_today d)"
  unfolding due_today_def by (intro op_inv_intros)

lemma day_bounds_sales [op_inv_intros]: "op_inv (sales_kept D) (day_bounds d)"
  unfolding day_bounds_def by (intro op_inv_intros)

lemma daily_counts_sales [op_inv_intros]: "op_inv (sales_kept D) (daily_counts d)"
  unfolding daily_counts_def by (intro op_inv_intros)

lemma bottlenecks_sales [op_inv_intros]: "op_inv (sales_kept D) (bottlenecks cs ts)"
  unfolding bottlenecks_def by (intro op_inv_intros)

lemma daily_report_sales [op_inv_intros]: "op_inv (sales_kept D) (daily_report ts src d)"
  unfolding daily_report_def by (intro op_inv_intros)

section \<open>Writing\<close>

lemma plain_tables [simp]: "plain_table ''companies''" "plain_table ''contacts''" "plain_table ''activities''" "plain_table ''tasks''"
  "plain_table ''followups''" "plain_table ''outreach_touches''" "plain_table ''experiment_metrics''"
  by (simp_all add: plain_table_def)

lemmas plain_inserts [op_inv_intros] = plain_tables [THEN insert_plain]

lemma op_inv_lift_bind: "(\<And>x. v = Inr x \<Longrightarrow> op_inv P (f x)) \<Longrightarrow> op_inv P (op_bind (op_lift v) f)"
  by (cases v) (simp_all add: op_inv_def op_bind_apply)

lemma op_inv_rescue [op_inv_intros]: "op_inv P m \<Longrightarrow> op_inv P (rescue Q m)"
  unfolding op_inv_def rescue_def by (force split: prod.splits sum.splits)

lemma op_inv_attempt [op_inv_intros]: "op_inv P m \<Longrightarrow> op_inv P (attempt m)"
  unfolding op_inv_def attempt_def by (force split: prod.splits sum.splits)

lemma op_inv_list [op_inv_intros]:
  "(xs = [] \<Longrightarrow> op_inv P m) \<Longrightarrow> (\<And>y ys. xs = y # ys \<Longrightarrow> op_inv P (f y ys)) \<Longrightarrow> op_inv P (case xs of [] \<Rightarrow> m | y # ys \<Rightarrow> f y ys)"
  by (cases xs) auto

lemma create_company_sales [op_inv_intros]: "op_inv (sales_kept D) (create_company c)"
  unfolding create_company_def by (intro op_inv_intros)

lemma create_contact_sales [op_inv_intros]: "op_inv (sales_kept D) (create_contact c)"
  unfolding create_contact_def by (intro op_inv_intros)

lemma log_activity_sales [op_inv_intros]: "op_inv (sales_kept D) (log_activity a)"
  unfolding log_activity_def by (intro op_inv_intros)

lemma new_activity_sales [op_inv_intros]: "op_inv (sales_kept D) (new_activity l k sm d r w e)"
  unfolding new_activity_def by (intro op_inv_intros)

lemma log_transition_sales:
  assumes "dst = pipeline_stage_value b"
    and "(src = [] \<and> b = Prospect) \<or> (\<exists>a. src = pipeline_stage_value a \<and> b \<in> set (allowed_next a))"
  shows "op_inv (sales_kept D) (log_transition lid src dst why rid worker)"
  unfolding log_transition_def by (intro op_inv_intros insert_move_sales [of _ b]) (use assms in simp_all)

lemma op_post_then_inv: "op_post Q m \<Longrightarrow> op_inv P m \<Longrightarrow> (\<And>x. Q x \<Longrightarrow> op_inv P (f x)) \<Longrightarrow> op_inv P (op_bind m f)"
  unfolding op_inv_def op_post_def op_bind_def by (fastforce split: prod.split sum.split)

lemma new_lead_post: "op_post (\<lambda>ld. ld_stage ld = Prospect \<and> ld_score ld = 0) (new_lead c p sr k e ow)"
  unfolding new_lead_def by (intro op_post_intros) simp

lemma new_lead_sales [op_inv_intros]: "op_inv (sales_kept D) (new_lead c p sr k e ow)"
  unfolding new_lead_def by (intro op_inv_intros)

lemma percent_zero [simp]: "percent 0"
  by (simp add: percent_def)

lemma store_lead_sales:
  assumes "ld_stage ld = Prospect \<and> ld_score ld = 0"
  shows "op_inv (sales_kept D) (op_then (insert_rec ''leads'' (lead_dict ld))
      (op_then (log_transition (ld_id ld) [] (pipeline_stage_value (ld_stage ld)) ''lead created'' [] [])
        (op_return (lead_dict ld, True, key))))"
  by (intro op_inv_intros insert_lead_sales log_transition_sales [of _ Prospect]) (use assms in simp_all)

lemma create_lead_sales [op_inv_intros]: "op_inv (sales_kept D) (create_lead co src pr ex ow)"
  unfolding create_lead_def
  by (rule op_inv_bind op_inv_then op_inv_option op_inv_intros op_post_then_inv [OF new_lead_post new_lead_sales] store_lead_sales | assumption)+

lemma stage_changes_sales: "op_inv (sales_kept D) (update_rec ''leads'' lid (stage_changes dst why t))"
  by (rule update_lead_sales) (auto simp: stage_changes_def encode_doc_def is_stage_def intro: exI [of _ Lost])

lemma move_stage_sales [op_inv_intros]: "op_inv (sales_kept D) (move_stage lid to why rid worker)"
  unfolding move_stage_def Let_def
  by (intro op_inv_intros stage_changes_sales log_transition_sales [OF refl]) (auto simp: can_move_def split: if_splits)

lemma attach_evidence_sales [op_inv_intros]: "op_inv (sales_kept D) (attach_evidence ev)"
  unfolding attach_evidence_def by (intro op_inv_intros insert_evidence_sales) simp_all

lemma attach_sales [op_inv_intros]: "op_inv (sales_kept D) (attach c)"
  unfolding attach_def Let_def by (intro op_inv_intros)

lemma add_pain_point_sales [op_inv_intros]: "op_inv (sales_kept D) (add_pain_point p)"
  unfolding add_pain_point_def by (intro op_inv_intros insert_pain_sales)

lemma good_scores_version: "good_scores q \<Longrightarrow> good_scores (q\<lparr>ql_version := v\<rparr>)"
  by (cases q) (auto simp: good_scores_def)

lemma good_scores_percent: "good_scores q \<Longrightarrow> percent (ql_score q)"
  unfolding good_scores_def by (elim conjE)

lemma record_qualification_sales: "good_scores q \<Longrightarrow> op_inv (sales_kept D) (record_qualification q)"
  unfolding record_qualification_def Let_def
  by (intro op_inv_intros insert_qualification_sales update_score_sales good_scores_version good_scores_percent)

lemma create_draft_sales: "dr_state d = Out_Draft \<Longrightarrow> op_inv (sales_kept D) (create_draft d)"
  unfolding create_draft_def by (intro op_inv_intros insert_draft_sales)

lemma create_task_sales [op_inv_intros]: "op_inv (sales_kept D) (create_task tk)"
  unfolding create_task_def by (intro op_inv_intros)

lemma schedule_followup_sales [op_inv_intros]: "op_inv (sales_kept D) (schedule_followup fu)"
  unfolding schedule_followup_def
  by (intro op_inv_intros update_lead_sales) (simp_all add: encode_doc_def)

lemma book_followup_sales [op_inv_intros]: "op_inv (sales_kept D) (book_followup lid rid p)"
  unfolding book_followup_def by (intro op_inv_intros)

lemma schedule_for_lead_sales [op_inv_intros]: "op_inv (sales_kept D) (schedule_for_lead lid seqs rid)"
  unfolding schedule_for_lead_def by (intro op_inv_intros)

lemma insert_auto_sales [op_inv_intros]: "plain_table t \<Longrightarrow> op_inv (sales_kept D) (insert_auto t d)"
  unfolding insert_auto_def by (intro op_inv_intros sql_insert_plain)

section \<open>Sending\<close>

text \<open>Raising the daily counter touches no key of the metrics table.\<close>

lemma dset_other_dkeys: "k \<in> set (dkeys r) \<Longrightarrow> dkeys (dset r k v) = dkeys r"
  by (rule dkeys_dset_known)

definition bump_row :: "string \<Rightarrow> string \<Rightarrow> doc \<Rightarrow> doc" where
  "bump_row ex day r = (if is_cell ''experiment_id'' ex r \<and> is_cell ''date'' day r
     then dset r ''sent'' (VInt (get_int r ''sent'' 0 + 1)) else r)"

lemma bump_cell: "k \<noteq> ''sent'' \<Longrightarrow> cell (bump_row ex day r) k = cell r k"
  by (simp add: bump_row_def cell_def)

definition metric_cols :: "column list" where
  "metric_cols = the (schema_of ''experiment_metrics'')"

lemma metric_schema: "schema_of ''experiment_metrics'' = Some metric_cols"
  unfolding metric_cols_def by code_simp

lemma metric_keys: "''sent'' \<in> set (map cl_name metric_cols)" "uniques ''experiment_metrics'' metric_cols = [[''id''], [''experiment_id'', ''date'']]"
  "list_all (\<lambda>c. cl_name c \<noteq> ''sent'' \<or> (\<not> cl_notnull c \<and> cl_ref c = None)) metric_cols"
  by code_simp+

lemma bump_shape: "has_shape metric_cols r \<Longrightarrow> has_shape metric_cols (bump_row ex day r)"
  using metric_keys(1) by (simp add: has_shape_def bump_row_def dkeys_dset_known)

lemma bump_sound: "row_sound tabs metric_cols r \<Longrightarrow> row_sound tabs metric_cols (bump_row ex day r)"
  unfolding row_sound_def list_all_iff
proof
  fix c
  assume r: "\<forall>c\<in>set metric_cols. (cl_notnull c \<longrightarrow> cell r (cl_name c) \<noteq> VNone) \<and>
      (case cl_ref c of None \<Rightarrow> True | Some t \<Rightarrow> refers tabs t (cell r (cl_name c)))" and c: "c \<in> set metric_cols"
  show "(cl_notnull c \<longrightarrow> cell (bump_row ex day r) (cl_name c) \<noteq> VNone) \<and>
      (case cl_ref c of None \<Rightarrow> True | Some t \<Rightarrow> refers tabs t (cell (bump_row ex day r) (cl_name c)))"
  proof (cases "cl_name c = ''sent''")
    case True
    then show ?thesis using metric_keys(3) c by (auto simp: list_all_iff)
  next
    case False
    show ?thesis unfolding bump_cell [OF False] using r c by blast
  qed
qed

lemma bump_clash: "clash [[''id''], [''experiment_id'', ''date'']] (bump_row ex day a) (bump_row ex day b)
    \<longleftrightarrow> clash [[''id''], [''experiment_id'', ''date'']] a b"
  by (simp add: clash_def bump_cell)

lemma bump_table_ok:
  assumes "ledger_ok s"
  shows "ledger_ok (set_table ''experiment_metrics'' (map (bump_row ex day) (sl_tables s ''experiment_metrics'')) s)"
proof (rule ledger_ok_set_table [OF assms metric_schema])
  note t = ledger_ok_tableD [OF assms metric_schema]
  fix r
  show "r \<in> set (sl_tables s ''experiment_metrics'') \<Longrightarrow>
      \<exists>r'\<in>set (map (bump_row ex day) (sl_tables s ''experiment_metrics'')). cell r' ''id'' = cell r ''id''"
    by (auto simp: bump_cell intro!: bexI)
  show "r \<in> set (map (bump_row ex day) (sl_tables s ''experiment_metrics'')) \<Longrightarrow>
      has_shape metric_cols r \<and> row_sound (sl_tables s) metric_cols r"
    using t by (auto simp: table_ok_def bump_shape bump_sound)
  show "sorted_wrt (\<lambda>a b. \<not> clash (uniques ''experiment_metrics'' metric_cols) a b)
      (map (bump_row ex day) (sl_tables s ''experiment_metrics''))"
    using t by (simp add: table_ok_def metric_keys(2) bump_clash sorted_wrt_map)
qed

lemma bump_sent_sales [op_inv_intros]: "op_inv (sales_kept D) (bump_sent ex day)"
proof -
  have "op_inv (sales_kept D) (op_modify (\<lambda>s. set_table ''experiment_metrics'' (map (bump_row ex day) (sl_tables s ''experiment_metrics'')) s))"
  proof (rule op_invI)
    fix s
    assume s: "sales_kept D s"
    show "sales_kept D (snd (op_modify (\<lambda>s. set_table ''experiment_metrics'' (map (bump_row ex day) (sl_tables s ''experiment_metrics'')) s) s))"
      using s bump_table_ok [of s ex day] by (auto simp: sales_kept_def list_all_iff good_row_plain)
  qed
  moreover have "bump_sent ex day s = (if list_ex (\<lambda>r. is_cell ''experiment_id'' ex r \<and> is_cell ''date'' day r) (sl_tables s ''experiment_metrics'')
      then op_modify (\<lambda>s. set_table ''experiment_metrics'' (map (bump_row ex day) (sl_tables s ''experiment_metrics'')) s) s
      else insert_auto ''experiment_metrics'' [(''experiment_id'', VStr ex), (''date'', VStr day), (''sent'', VInt 1)] s)" for s
    by (simp add: bump_sent_def rows_of_def op_bind_apply bump_row_def [abs_def])
  ultimately show ?thesis
    using insert_auto_sales [of "''experiment_metrics''" _ "[(''experiment_id'', VStr ex), (''date'', VStr day), (''sent'', VInt 1)]"]
    by (simp add: op_inv_def)
qed

lemma feed_experiment_sales [op_inv_intros]: "op_inv (sales_kept D) (feed_experiment d ex)"
  unfolding feed_experiment_def Let_def by (intro op_inv_intros) simp_all

text \<open>\<open>record_sent\<close>: the draft it marks was approved, so it has an approver.\<close>

lemma one_row_found:
  "one_row t rid s = (Inr (Some d), s') \<Longrightarrow> s' = s \<and> (\<exists>r\<in>set (sl_tables s t). cell r ''id'' = VStr rid \<and> decode_row t r = Inr d)"
  by (auto simp: one_row_def rows_of_def op_bind_apply find_Some_iff split: option.splits sum.splits intro!: bexI nth_mem)

lemma decode_cell_of:
  assumes "decode_row t r = Inr d" and "k \<notin> {''evidence_ids'', ''signals'', ''is_decision_maker'', ''active''}"
  shows "dget d k = dget r k"
proof -
  have "d = map (\<lambda>(k, v). (k, decode_cell k v)) r" using assms(1) by (simp add: decode_row_def split: if_splits)
  moreover have "decode_cell k = (\<lambda>v. v)" using assms(2) by (simp add: decode_cell_def fun_eq_iff)
  ultimately show ?thesis using dget_map_val [of decode_cell r k] by (simp add: option.map_id0 [unfolded id_def])
qed

lemma get_str_cell: "get_str r k = v \<Longrightarrow> v \<noteq> [] \<Longrightarrow> cell r k = VStr v"
  by (auto simp: get_str_def cell_def split: option.splits pyval.splits)

lemma outreach_values [simp]: "outreach_state_value Out_Approved \<noteq> []" "outreach_state_value st = outreach_state_value st' \<longleftrightarrow> st = st'"
  using outreach_state_value_inj by (auto simp: inj_def)

definition sent_changes :: "time \<Rightarrow> string \<Rightarrow> doc" where
  "sent_changes t receipt = [(''state'', VStr (outreach_state_value Out_Sent)), (''sent_at'', VFloat t), (''receipt'', VStr receipt)]"

lemma unique_by_id:
  assumes "sales_kept D s" and "split_at_id did (sl_tables s ''outreach_drafts'') = Some (a, r, b)"
    and "r' \<in> set (sl_tables s ''outreach_drafts'')" and "cell r' ''id'' = VStr did"
  shows "r' = r"
proof -
  obtain cols where sch: "schema_of ''outreach_drafts'' = Some cols" using sales_columns(8) by (auto simp: column_in_def split: option.splits)
  have rs: "sl_tables s ''outreach_drafts'' = a @ r # b" "cell r ''id'' = VStr did" using split_at_id_SomeD [OF assms(2)] by auto
  have u: "[''id''] \<in> set (uniques ''outreach_drafts'' cols)"
  proof -
    have "list_ex (\<lambda>ks. ks = [''id'']) (uniques ''outreach_drafts'' (the (schema_of ''outreach_drafts'')))" by code_simp
    then show ?thesis using sch by (auto simp: list_ex_iff)
  qed
  have "clash (uniques ''outreach_drafts'' cols) x y" if "cell x ''id'' = VStr did" "cell y ''id'' = VStr did" for x y
    using that u by (auto simp: clash_def list_ex_iff intro!: bexI [of _ "[''id'']"])
  moreover have "sorted_wrt (\<lambda>x y. \<not> clash (uniques ''outreach_drafts'' cols) x y) (a @ r # b)"
    using ledger_ok_tableD [OF _ sch, of s] assms(1) rs by (auto simp: sales_kept_def table_ok_def)
  ultimately show ?thesis using assms(3,4) rs by (auto simp: sorted_wrt_append)
qed

text \<open>A draft in another state is none of the recorded sends.\<close>

lemma split_at_id_None: "split_at_id did rs = None \<Longrightarrow> r \<in> set rs \<Longrightarrow> cell r ''id'' \<noteq> VStr did"
  by (induction rs) (auto split: if_splits)

lemma not_a_send:
  assumes "sales_kept D s" and "r \<in> set (sl_tables s ''outreach_drafts'')" "cell r ''id'' = VStr did"
    and "cell r ''state'' = VStr (outreach_state_value st)" and "st \<noteq> Out_Sent"
  shows "did \<notin> fst ` D"
proof
  assume "did \<in> fst ` D"
  then obtain p where "p \<in> D" "did = fst p" by blast
  with assms(1) obtain r' where r': "r' \<in> set (sl_tables s ''outreach_drafts'')" "sent_row p r'"
    by (auto simp: sales_kept_def list_ex_iff)
  then have id: "cell r' ''id'' = VStr did" by (simp add: sent_row_def \<open>did = fst p\<close>)
  obtain a x b where sp: "split_at_id did (sl_tables s ''outreach_drafts'') = Some (a, x, b)"
    using split_at_id_None [of did "sl_tables s ''outreach_drafts''"] assms(2,3) by (cases "split_at_id did (sl_tables s ''outreach_drafts'')") auto
  have "r' = r" using unique_by_id [OF assms(1) sp r'(1) id] unique_by_id [OF assms(1) sp assms(2,3)] by simp
  then have "outreach_state_value st = outreach_state_value Out_Sent" using r'(2) assms(4) by (simp add: sent_row_def)
  then show False using assms(5) by (simp only: outreach_values)
qed

lemma approve_draft_sales [op_inv_intros]: "op_inv (sales_kept D) (approve_draft did b)"
proof (rule op_invI)
  fix s
  assume s: "sales_kept D s"
  obtain v s' where g: "get_draft did s = (v, s')" by (cases "get_draft did s")
  have s': "sales_kept D s'" using op_invD [OF get_draft_sales s g] .
  show "sales_kept D (snd (approve_draft did b s))"
  proof (cases "\<exists>d. v = Inr (Some d) \<and> get_str d ''state'' = outreach_state_value Out_Draft \<and> b \<noteq> []")
    case True
    then obtain d where d: "v = Inr (Some d)" "get_str d ''state'' = outreach_state_value Out_Draft" "b \<noteq> []" by blast
    obtain r where r: "r \<in> set (sl_tables s ''outreach_drafts'')" "cell r ''id'' = VStr did" "decode_row ''outreach_drafts'' r = Inr d" "s' = s"
      using one_row_found [of "''outreach_drafts''" did s d s'] g d(1) by (auto simp: get_draft_def)
    have "cell r ''state'' = cell d ''state''" using decode_cell_of [OF r(3), of "''state''"] by (simp add: cell_def)
    moreover have "outreach_state_value Out_Draft \<noteq> []" by simp
    ultimately have st: "cell r ''state'' = VStr (outreach_state_value Out_Draft)" using get_str_cell [OF d(2)] by simp
    have new: "did \<notin> fst ` D" by (rule not_a_send [OF s r(1,2) st]) simp
    have "op_inv (sales_kept D) (op_bind sl_now (\<lambda>t. op_then (update_rec ''outreach_drafts'' did
        [(''state'', VStr (outreach_state_value Out_Approved)), (''approved_by'', VStr b), (''approved_at'', VFloat t)])
        (the_row ''outreach_drafts'' did)))"
      by (intro op_inv_intros approve_sales [OF d(3) new])
    then show ?thesis
      using g d r(4) s by (simp add: approve_draft_def op_bind_apply [of "get_draft did"] op_inv_def del: outreach_state_value.simps)
  next
    case False
    then show ?thesis
      unfolding approve_draft_def using g s' by (auto simp: op_bind_apply [of "get_draft did"] split: option.splits sum.splits)
  qed
qed

lemma mark_sent_sales:
  assumes s: "sales_kept D s" and r: "r \<in> set (sl_tables s ''outreach_drafts'')" "cell r ''id'' = VStr did"
    and ap: "cell r ''state'' = VStr (outreach_state_value Out_Approved)"
  shows "sales_kept D (snd (update_rec ''outreach_drafts'' did (sent_changes t receipt) s))"
proof -
  have id: "''id'' \<notin> set (dkeys (encode_doc (sent_changes t receipt)))" by (simp add: sent_changes_def)
  have up: "update_rec ''outreach_drafts'' did (sent_changes t receipt) s
      = sql_update ''outreach_drafts'' did (encode_doc (sent_changes t receipt)) s"
    by (simp add: update_rec_def sent_changes_def)
  have "ledger_ok (snd (sql_update ''outreach_drafts'' did (encode_doc (sent_changes t receipt)) s))"
    using sql_update_ok [OF id] s by (auto simp: op_inv_def sales_kept_def)
  moreover have "good_draft (set_cells r (encode_doc (sent_changes t receipt)))"
  proof -
    obtain st where st: "cell r ''state'' = VStr (outreach_state_value st)"
        "st \<in> {Out_Approved, Out_Sent} \<longrightarrow> (\<exists>b. cell r ''approved_by'' = VStr b \<and> b \<noteq> [])"
      using sales_okD [OF s r(1)] by (auto simp: good_row_def good_draft_def)
    have "outreach_state_value st = outreach_state_value Out_Approved" using st(1) ap by simp
    then have "st = Out_Approved" by (simp only: outreach_values)
    then obtain b where "cell r ''approved_by'' = VStr b" "b \<noteq> []" using st(2) by blast
    then show ?thesis
      unfolding good_draft_def by (auto simp: encode_doc_def sent_changes_def set_cells_def cell_def intro!: exI [of _ Out_Sent])
  qed
  then have "list_all (good_row t') (sl_tables (snd (sql_update ''outreach_drafts'' did (encode_doc (sent_changes t receipt)) s)) t')" for t'
    using s unique_by_id [OF s _ r] by (intro update_rows_good) (auto simp: sales_kept_def good_row_def)
  moreover have "did \<notin> fst ` D" by (rule not_a_send [OF s r ap]) simp
  then have "\<forall>p\<in>D. list_ex (sent_row p) (sl_tables (snd (sql_update ''outreach_drafts'' did (encode_doc (sent_changes t receipt)) s)) ''outreach_drafts'')"
    by (intro update_keeps_sent) (use s in \<open>auto simp: sales_kept_def\<close>)
  ultimately show ?thesis by (simp add: up sales_kept_def)
qed

definition after_mark :: "string \<Rightarrow> string \<Rightarrow> string \<Rightarrow> doc \<Rightarrow> sent_result lop" where
  "after_mark did receipt experiment d =
     (let ex = (if experiment \<noteq> [] then experiment else get_str d ''experiment_id''); lid = get_str d ''lead_id'' in
      op_then (if lid \<noteq> [] \<and> ex \<noteq> [] then feed_experiment d ex else op_return ())
      (op_bind (new_activity lid ''outreach'' (''sent '' @ get_str d ''channel'' @ '': '' @ take 60 (get_str d ''subject''))
          receipt (get_str d ''run_id'') [] []) (\<lambda>a.
       op_then (log_activity a)
       (op_bind (if lid = [] then op_return None else attempt (schedule_for_lead lid [] (get_str d ''run_id''))) (\<lambda>res.
         op_return \<lparr>se_draft_id = did, se_receipt = receipt, se_experiment = ex,
           se_followup = (case res of Some (Scheduled fid _ _) \<Rightarrow> Some fid | _ \<Rightarrow> None)\<rparr>)))))"

lemma after_mark_sales: "op_inv (sales_kept D) (after_mark did receipt ex d)"
  unfolding after_mark_def Let_def by (intro op_inv_intros)

lemma record_sent_eq:
  "record_sent did receipt ex = op_bind (get_draft did) (\<lambda>found. case found of
       None \<Rightarrow> op_raise SalesError
     | Some d \<Rightarrow> (if get_str d ''state'' \<noteq> outreach_state_value Out_Approved then op_raise SalesError
         else op_bind sl_now (\<lambda>t. op_then (update_rec ''outreach_drafts'' did (sent_changes t receipt)) (after_mark did receipt ex d))))"
  by (simp only: record_sent_def sent_changes_def after_mark_def)

lemma mark_then_sales:
  assumes "sales_kept D s" and "r \<in> set (sl_tables s ''outreach_drafts'')" "cell r ''id'' = VStr did"
    and "cell r ''state'' = VStr (outreach_state_value Out_Approved)" and m: "op_inv (sales_kept D) m"
  shows "sales_kept D (snd (op_bind sl_now (\<lambda>t. op_then (update_rec ''outreach_drafts'' did (sent_changes t receipt)) m) s))"
proof -
  obtain t s1 where n: "sl_now s = (Inr t, s1)" "sl_tables s1 = sl_tables s" by (simp add: sl_now_def)
  have s1: "sales_kept D s1" using sales_ok_tables [OF n(2)] assms(1) by simp
  have "sales_kept D (snd (update_rec ''outreach_drafts'' did (sent_changes t receipt) s1))"
    by (rule mark_sent_sales [OF s1 _ assms(3,4)]) (use assms(2) n(2) in simp)
  then show ?thesis
    using m n(1) by (auto simp: op_bind_apply op_then_apply op_inv_def split: prod.splits sum.splits)
qed

lemma record_sent_sales [op_inv_intros]: "op_inv (sales_kept D) (record_sent did receipt ex)"
proof (rule op_invI)
  fix s
  assume s: "sales_kept D s"
  obtain v s' where g: "get_draft did s = (v, s')" by (cases "get_draft did s")
  have s': "sales_kept D s'" using op_invD [OF get_draft_sales s g] .
  show "sales_kept D (snd (record_sent did receipt ex s))"
  proof (cases "\<exists>d. v = Inr (Some d) \<and> get_str d ''state'' = outreach_state_value Out_Approved")
    case True
    then obtain d where d: "v = Inr (Some d)" "get_str d ''state'' = outreach_state_value Out_Approved" by blast
    obtain r where r: "r \<in> set (sl_tables s ''outreach_drafts'')" "cell r ''id'' = VStr did" "decode_row ''outreach_drafts'' r = Inr d" "s' = s"
      using one_row_found [of "''outreach_drafts''" did s d s'] g d(1) by (auto simp: get_draft_def)
    have "cell r ''state'' = cell d ''state''" using decode_cell_of [OF r(3), of "''state''"] by (simp add: cell_def)
    then have ap: "cell r ''state'' = VStr (outreach_state_value Out_Approved)"
      using get_str_cell [OF d(2)] by (simp only: outreach_values) simp
    show ?thesis
      unfolding record_sent_eq
      using g d r(4) mark_then_sales [OF s r(1,2) ap after_mark_sales] by (simp add: op_bind_apply [of "get_draft did"])
  next
    case False
    then show ?thesis
      unfolding record_sent_eq using g s' by (auto simp: op_bind_apply [of "get_draft did"] split: option.splits sum.splits)
  qed
qed

section \<open>Scoring, drafting, research, discovery\<close>

lemma six_subs: "xs = [(''icp_fit'', a), (''pain_signal'', b), (''urgency'', c), (''economic_potential'', d), (''accessibility'', e), (''confidence'', f)]
  \<Longrightarrow> ls_subs l = xs \<Longrightarrow> ls_subs l = [(''icp_fit'', sub l ''icp_fit''), (''pain_signal'', sub l ''pain_signal''), (''urgency'', sub l ''urgency''),
      (''economic_potential'', sub l ''economic_potential''), (''accessibility'', sub l ''accessibility''), (''confidence'', sub l ''confidence'')]"
  by (simp add: sub_def)

lemma score_lead_good:
  assumes "score_lead co icps evs pps contacts = Inr l"
  shows "good_scores \<lparr>ql_lead_id = lid, ql_id = qid, ql_version = v, ql_icp_fit = sub l ''icp_fit'',
      ql_pain_signal = sub l ''pain_signal'', ql_urgency = sub l ''urgency'', ql_economic_potential = sub l ''economic_potential'',
      ql_accessibility = sub l ''accessibility'', ql_confidence = sub l ''confidence'', ql_score = ls_total l, ql_tier = ls_tier l,
      ql_signals = ls_signals l, ql_evidence_ids = es, ql_reasoning = why, ql_model = model, ql_model_version = version,
      ql_run_id = rid, ql_created = t\<rparr>"
proof -
  have subs: "ls_subs l = [(''icp_fit'', sub l ''icp_fit''), (''pain_signal'', sub l ''pain_signal''), (''urgency'', sub l ''urgency''),
      (''economic_potential'', sub l ''economic_potential''), (''accessibility'', sub l ''accessibility''), (''confidence'', sub l ''confidence'')]"
    using assms by (rule score_lead_subs) (erule six_subs [OF refl])
  have p: "percent (ls_total l)" "\<forall>k. percent (sub l k)" "ls_total l = total_score (ls_subs l)"
    using score_lead_percent [OF assms] by blast+
  show ?thesis
    unfolding good_scores_def qualification.select_convs by (intro conjI p(1) p(2) [rule_format] p(3) [unfolded subs])
qed

lemma evaluate_lead_sales [op_inv_intros]: "op_inv (sales_kept D) (evaluate_lead lid rid pm)"
  unfolding evaluate_lead_def Let_def case_prod_unfold
  by (intro op_inv_lift_bind op_inv_intros record_qualification_sales score_lead_good)

lemma op_inv_let_pair: "(\<And>a b. p = (a, b) \<Longrightarrow> op_inv P (f a b)) \<Longrightarrow> op_inv P (let (a, b) = p in f a b)"
  by (simp add: split_beta)

lemma pick_contact_sales [op_inv_intros]: "op_inv (sales_kept D) (pick_contact cid cs)"
  unfolding pick_contact_def by (intro op_inv_intros)

lemma prepare_draft_sales [op_inv_intros]: "op_inv (sales_kept D) (prepare_draft lid seqs ofr pm q)"
  unfolding prepare_draft_def Let_def case_prod_unfold
  by (intro op_inv_intros create_draft_sales) simp

lemma attach_hit_sales [op_inv_intros]: "op_inv (sales_kept D) (attach_hit lid rid h)"
  unfolding attach_hit_def by (intro op_inv_intros)

lemma record_pain_sales [op_inv_intros]: "op_inv (sales_kept D) (record_pain lid rid h)"
  unfolding record_pain_def Let_def by (intro op_inv_intros)

lemma research_file_sales [op_inv_intros]: "op_inv (sales_kept D) (research_file fl lid rid p acc)"
  unfolding research_file_def case_prod_unfold by (intro op_inv_intros)

lemma research_files_sales [op_inv_intros]: "op_inv (sales_kept D) (research_files fl lid rid ps acc)"
  by (induction ps arbitrary: acc) (simp_all add: op_inv_intros)

lemma research_lead_sales [op_inv_intros]: "op_inv (sales_kept D) (research_lead fl lid rid ps)"
  unfolding research_lead_def by (intro op_inv_intros)

lemma candidate_company_sales [op_inv_intros]: "op_inv (sales_kept D) (candidate_company e dv row nm d)"
  unfolding candidate_company_def by (intro op_inv_intros)

lemma add_contact_sales [op_inv_intros]: "op_inv (sales_kept D) (add_contact e dv row cid)"
  unfolding add_contact_def Let_def by (intro op_inv_intros)

lemma attach_origin_sales [op_inv_intros]: "op_inv (sales_kept D) (attach_origin e dv row nm lid)"
  unfolding attach_origin_def Let_def by (intro op_inv_intros)

lemma ingest_row_sales [op_inv_intros]: "op_inv (sales_kept D) (ingest_row e dv row nm domain acc)"
  unfolding ingest_row_def by (intro op_inv_intros)

lemma discover_row_sales [op_inv_intros]: "op_inv (sales_kept D) (discover_row dv acc row)"
  unfolding discover_row_def Let_def by (intro op_inv_intros)

lemma discover_rows_sales [op_inv_intros]: "op_inv (sales_kept D) (discover_rows dv acc rows)"
proof (induction rows arbitrary: acc)
  case (Cons r rs)
  show ?case unfolding discover_rows.simps by (intro op_inv_intros Cons)
qed (simp add: op_inv_intros)

lemma discover_sales [op_inv_intros]: "op_inv (sales_kept D) (discover dv n cs)"
  unfolding discover_def Let_def by (intro op_inv_intros)

lemma candidates_from_prospects_sales [op_inv_intros]: "op_inv (sales_kept D) (candidates_from_prospects n)"
  unfolding candidates_from_prospects_def by (intro op_inv_intros)

section \<open>The tools\<close>

lemma open_ledger_sales [op_inv_intros]: "op_inv (sales_kept D) (open_ledger w c)"
  unfolding open_ledger_def by (intro op_inv_intros)

lemma batch_run_sales [op_inv_intros]: "(\<And>ld. op_inv (sales_kept D) (each ld)) \<Longrightarrow> op_inv (sales_kept D) (batch_run n k each out fl)"
  unfolding batch_run_def by (intro op_inv_intros)

lemma ingest_sales [op_inv_intros]: "op_inv (sales_kept D) (ingest c args src cr)"
  unfolding ingest_def by (intro op_inv_intros)

lemma lead_site_sales [op_inv_intros]: "op_inv (sales_kept D) (lead_site ld)"
  unfolding lead_site_def by (intro op_inv_intros)

lemma research_tools_sales [op_inv_intros]:
  "op_inv (sales_kept D) (research_each w c ss ld)" "op_inv (sales_kept D) (research_all w c ss)" "op_inv (sales_kept D) (research_one w c lid ss)"
  unfolding research_all_def research_one_def research_each_def Let_def by (intro op_inv_intros)+

lemma qualify_tools_sales [op_inv_intros]:
  "op_inv (sales_kept D) (qualify_each w c pm ld)" "op_inv (sales_kept D) (qualify_all w c pm)" "op_inv (sales_kept D) (qualify_one w c pm lid)"
  unfolding qualify_all_def qualify_one_def qualify_each_def Let_def by (intro op_inv_intros)+

lemma each_sales [op_inv_intros]:
  "op_inv (sales_kept D) (move_each w c args ld)" "op_inv (sales_kept D) (draft_each w c args seqs ofr ld)"
  "op_inv (sales_kept D) (schedule_each c seqs ld)" "op_inv (sales_kept D) (send_each w args d)"
  unfolding move_each_def draft_each_def schedule_each_def send_each_def Let_def by (intro op_inv_intros)+

lemmas tool_defs = pipeline_list_tool_def evidence_explain_tool_def lead_detail_tool_def stale_leads_tool_def pipeline_summary_tool_def
  followup_due_tool_def metrics_tool_def discover_tool_def research_tool_def qualify_tool_def move_stage_tool_def draft_outreach_tool_def
  schedule_followup_tool_def approve_draft_tool_def record_sent_tool_def bulk_send_tool_def

lemma each_tool_sales:
  "op_inv (sales_kept D) (pipeline_list_tool w c a)" "op_inv (sales_kept D) (evidence_explain_tool w c a)" "op_inv (sales_kept D) (lead_detail_tool w c a)"
  "op_inv (sales_kept D) (stale_leads_tool w c a)" "op_inv (sales_kept D) (pipeline_summary_tool w c a)" "op_inv (sales_kept D) (followup_due_tool w c a)"
  "op_inv (sales_kept D) (metrics_tool w c a)" "op_inv (sales_kept D) (discover_tool w c a)" "op_inv (sales_kept D) (research_tool w c a)"
  "op_inv (sales_kept D) (qualify_tool w c a)" "op_inv (sales_kept D) (move_stage_tool w c a)" "op_inv (sales_kept D) (draft_outreach_tool w c a)"
  "op_inv (sales_kept D) (schedule_followup_tool w c a)" "op_inv (sales_kept D) (approve_draft_tool w c a)" "op_inv (sales_kept D) (record_sent_tool w c a)"
  "op_inv (sales_kept D) (bulk_send_tool w c a)"
  unfolding tool_defs Let_def by (intro op_inv_intros)+

lemma tools_keep_sales_ok: "(t, run) \<in> set SALES_TOOLS \<Longrightarrow> op_inv (sales_kept D) (run w c args)"
  unfolding SALES_TOOLS_def sales_tool_defs by (auto intro: each_tool_sales op_inv_bind op_inv_return op_inv_prod)

section \<open>The other writers\<close>

text \<open>The operations of the repository that only the command line and the web front end call.\<close>

lemma more_plain_tables [simp]: "plain_table ''icp''" "plain_table ''opportunities''" "plain_table ''proposals''" "plain_table ''outcomes''"
  "plain_table ''experiments''" "plain_table ''prospects''"
  by (simp_all add: plain_table_def)

lemmas more_plain_inserts [op_inv_intros] = more_plain_tables [THEN insert_plain]

lemma upsert_icp_sales [op_inv_intros]: "op_inv (sales_kept D) (upsert_icp p)"
  unfolding upsert_icp_def by (intro op_inv_intros update_plain) simp_all

lemma create_opportunity_sales [op_inv_intros]: "op_inv (sales_kept D) (create_opportunity p)"
  unfolding create_opportunity_def by (intro op_inv_intros)

lemma id_not_field: "''id'' \<notin> set OPP_FIELDS" "''id'' \<notin> set LEAD_FIELDS" "''stage'' \<notin> set LEAD_FIELDS" "''score'' \<notin> set LEAD_FIELDS"
  by (simp_all add: OPP_FIELDS_def LEAD_FIELDS_def)

lemma keys_not_in: "list_all (\<lambda>k. k \<in> set fs) (dkeys d) \<Longrightarrow> k \<notin> set fs \<Longrightarrow> k \<notin> set (dkeys d)"
  by (auto simp: list_all_iff)

lemma staged_changes_keys: "staged_changes e d = Inr cs \<Longrightarrow> set (dkeys cs) = set (dkeys d)"
  by (auto simp: staged_changes_def dkeys_dset dget_None_iff dest: dget_SomeD split: option.splits elim!: bind_sumE)
    (metis dget_None_iff option.distinct(1))

lemma update_opportunity_sales [op_inv_intros]: "op_inv (sales_kept D) (update_opportunity pid changes)"
proof -
  have "''id'' \<notin> set (dkeys (dset cs ''updated'' (VFloat t)))"
    if "list_all (\<lambda>k. k \<in> set OPP_FIELDS) (dkeys changes)" "staged_changes e changes = Inr cs" for e cs t
    using keys_not_in [OF that(1) id_not_field(1)] staged_changes_keys [OF that(2)] by (simp add: dkeys_dset)
  then show ?thesis
    unfolding update_opportunity_def by (intro op_inv_lift_bind op_inv_intros update_plain) simp_all
qed

lemma update_lead_op_sales [op_inv_intros]: "op_inv (sales_kept D) (update_lead lid changes)"
proof -
  have "op_inv (sales_kept D) (update_rec ''leads'' lid (dset changes ''updated'' (VFloat t)))"
    if "list_all (\<lambda>k. k \<in> set LEAD_FIELDS) (dkeys changes)" for t
  proof (rule update_lead_sales)
    note n = keys_not_in [OF that id_not_field(2)] keys_not_in [OF that id_not_field(3)] keys_not_in [OF that id_not_field(4)]
    show "''id'' \<notin> set (dkeys (dset changes ''updated'' (VFloat t)))" using n(1) by (simp add: dkeys_dset)
    show "''score'' \<notin> set (dkeys (dset changes ''updated'' (VFloat t)))" using n(3) by (simp add: dkeys_dset)
    have "''stage'' \<notin> set (dkeys (dset changes ''updated'' (VFloat t)))" using n(2) by (simp add: dkeys_dset)
    then have "dget (rev (encode_doc (dset changes ''updated'' (VFloat t)))) ''stage'' = None"
      by (simp add: dget_None_iff dkeys_def encode_doc_def image_image case_prod_unfold)
    then show "\<forall>v. dget (rev (encode_doc (dset changes ''updated'' (VFloat t)))) ''stage'' = Some v \<longrightarrow> is_stage v" by simp
  qed
  then show ?thesis unfolding update_lead_def by (intro op_inv_intros) simp_all
qed

lemma complete_sales [op_inv_intros]: "op_inv (sales_kept D) (complete_task tid)" "op_inv (sales_kept D) (complete_followup fid)"
  unfolding complete_task_def complete_followup_def complete_row_def by (intro op_inv_intros update_plain, simp_all)+

lemma create_proposal_sales [op_inv_intros]: "op_inv (sales_kept D) (create_proposal p)"
  unfolding create_proposal_def by (intro op_inv_intros)

lemma record_outcome_sales [op_inv_intros]: "op_inv (sales_kept D) (record_outcome p)"
  unfolding record_outcome_def by (intro op_inv_intros)

section \<open>Ledgers that the program has written\<close>

text \<open>A step is one tool call, in any world and context and with any arguments, whatever it answers; or one
  of the writers of the repository that a front end calls; or a row that another program adds to the older tables.  Two writers are taken with the
  arguments that their callers give them: \<open>record_qualification\<close> stores a score in percent that is the weighted total of its parts, as
  \<open>evaluate\<close> computes it, and \<open>create_draft\<close> a draft in its default state.\<close>

inductive sales_step :: "ledger \<Rightarrow> ledger \<Rightarrow> bool" where
  call: "(t, run) \<in> set SALES_TOOLS \<Longrightarrow> run w c args s = (r, s') \<Longrightarrow> sales_step s s'"
| profile: "upsert_icp p s = (r, s') \<Longrightarrow> sales_step s s'"
| company: "create_company co s = (r, s') \<Longrightarrow> sales_step s s'"
| lead: "create_lead co src pr ex ow s = (r, s') \<Longrightarrow> sales_step s s'"
| contact: "create_contact ct s = (r, s') \<Longrightarrow> sales_step s s'"
| change: "update_lead lid changes s = (r, s') \<Longrightarrow> sales_step s s'"
| move: "move_stage lid dst why rid wk s = (r, s') \<Longrightarrow> sales_step s s'"
| activity: "log_activity a s = (r, s') \<Longrightarrow> sales_step s s'"
| evidence: "attach_evidence ev s = (r, s') \<Longrightarrow> sales_step s s'"
| pain: "add_pain_point pp s = (r, s') \<Longrightarrow> sales_step s s'"
| scored: "record_qualification q s = (r, s') \<Longrightarrow> good_scores q \<Longrightarrow> sales_step s s'"
| draft: "create_draft d s = (r, s') \<Longrightarrow> dr_state d = Out_Draft \<Longrightarrow> sales_step s s'"
| approve: "approve_draft did b s = (r, s') \<Longrightarrow> sales_step s s'"
| sent: "record_sent did receipt ex s = (r, s') \<Longrightarrow> sales_step s s'"
| todo: "create_task tk s = (r, s') \<Longrightarrow> sales_step s s'"
| done_task: "complete_task tid s = (r, s') \<Longrightarrow> sales_step s s'"
| followup: "schedule_followup fu s = (r, s') \<Longrightarrow> sales_step s s'"
| done_followup: "complete_followup fid s = (r, s') \<Longrightarrow> sales_step s s'"
| opportunity: "create_opportunity op s = (r, s') \<Longrightarrow> sales_step s s'"
| deal: "update_opportunity pid changes s = (r, s') \<Longrightarrow> sales_step s s'"
| proposal: "create_proposal prp s = (r, s') \<Longrightarrow> sales_step s s'"
| outcome: "record_outcome oc s = (r, s') \<Longrightarrow> sales_step s s'"
| seed: "t \<in> {''experiments'', ''prospects''} \<Longrightarrow> sql_insert t d s = (r, s') \<Longrightarrow> sales_step s s'"

inductive sales_reachable :: "env \<Rightarrow> ledger \<Rightarrow> bool" for e where
  fresh: "sales_reachable e (empty_ledger e)"
| step: "sales_reachable e s \<Longrightarrow> sales_step s s' \<Longrightarrow> sales_reachable e s'"

lemmas writer_sales = upsert_icp_sales create_company_sales create_lead_sales create_contact_sales update_lead_op_sales move_stage_sales
  log_activity_sales attach_evidence_sales add_pain_point_sales approve_draft_sales record_sent_sales create_task_sales complete_sales
  schedule_followup_sales create_opportunity_sales update_opportunity_sales create_proposal_sales record_outcome_sales

lemma sales_step_ok: "sales_step s s' \<Longrightarrow> sales_kept D s \<Longrightarrow> sales_kept D s'"
proof (induction rule: sales_step.induct)
  case (call t run w c args s r s')
  then show ?case using op_invD [OF tools_keep_sales_ok] by blast
next
  case (seed t d s r s')
  then show ?case using op_invD [OF sql_insert_plain [of t _ d]] by auto
qed (blast dest: writer_sales [THEN op_invD] create_draft_sales [THEN op_invD] record_qualification_sales [THEN op_invD])+

lemma sales_reachable_ok: "sales_reachable e s \<Longrightarrow> sales_ok s"
  by (induction rule: sales_reachable.induct) (auto intro: sales_ok_empty sales_step_ok)

end
