(* ===== verification/Sales_Frames.thy ===== *)
theory Sales_Frames
  imports Sales_Safety
begin

text \<open>
  Frame rules for the ledger: reads leave it as it is, and a statement on one table leaves the
  other tables alone.  A small concrete ledger serves the witnesses.
\<close>

section \<open>Tables that an operation leaves alone\<close>

definition keeps :: "string \<Rightarrow> doc list \<Rightarrow> ledger \<Rightarrow> bool" where
  "keeps t X s \<longleftrightarrow> sl_tables s t = X"

lemma sl_now_keeps [op_inv_intros]: "op_inv (keeps t X) sl_now"
  by (rule op_invI) (simp add: sl_now_def keeps_def)

lemma sl_id_keeps [op_inv_intros]: "op_inv (keeps t X) (sl_id p)"
  by (rule op_invI) (simp add: sl_id_def keeps_def)

lemma sql_insert_keeps: "t' \<noteq> t \<Longrightarrow> op_inv (keeps t X) (sql_insert t' d)"
  by (rule op_invI) (simp add: sql_insert_def keeps_def Let_def split: option.split)

lemma insert_rec_keeps: "t' \<noteq> t \<Longrightarrow> op_inv (keeps t X) (insert_rec t' d)"
  unfolding insert_rec_def Let_def by (intro op_inv_intros sql_insert_keeps)

lemma sql_update_keeps: "t' \<noteq> t \<Longrightarrow> op_inv (keeps t X) (sql_update t' rid d)"
  by (rule op_invI) (auto simp: sql_update_def keeps_def Let_def split: option.split)

lemma update_rec_keeps: "t' \<noteq> t \<Longrightarrow> op_inv (keeps t X) (update_rec t' rid d)"
  unfolding update_rec_def by (intro op_inv_intros sql_update_keeps)

lemma one_row_pure: "snd (one_row t rid s) = s"
  by (auto simp: one_row_def rows_of_def op_bind_apply split: option.split sum.split)

lemma require_lead_pure: "snd (require_lead lid s) = s"
  using one_row_pure [of "''leads''" lid s]
  by (auto simp: require_lead_def get_lead_def op_bind_apply split: sum.splits option.splits prod.splits)

lemma require_lead_keeps [op_inv_intros]: "op_inv (keeps t X) (require_lead lid)"
  by (rule op_invI) (simp add: require_lead_pure)

lemma log_activity_keeps [op_inv_intros]: "t \<noteq> ''activities'' \<Longrightarrow> op_inv (keeps t X) (log_activity a)"
  unfolding log_activity_def by (intro op_inv_intros insert_rec_keeps) simp

lemma new_activity_keeps [op_inv_intros]: "op_inv (keeps t X) (new_activity l k sm d r w e)"
  unfolding new_activity_def by (intro op_inv_intros)

lemma log_transition_keeps: "t \<noteq> ''pipeline_history'' \<Longrightarrow> op_inv (keeps t X) (log_transition l a b w r k)"
  unfolding log_transition_def by (intro op_inv_intros insert_rec_keeps) simp

lemma keepsD: "op_inv (keeps t (sl_tables s t)) m \<Longrightarrow> m s = (r, s') \<Longrightarrow> sl_tables s' t = sl_tables s t"
  unfolding op_inv_def keeps_def by (metis snd_conv)

lemma decode_good_lead: "good_lead r \<Longrightarrow> \<exists>d. decode_row ''leads'' r = Inr d"
  by (auto simp: decode_row_def enum_sound_def ENUM_FIELDS_def good_lead_def is_stage_def pipeline_stage_members_all)

text \<open>The row that a lookup by id finds.\<close>

definition row_with :: "string \<Rightarrow> doc list \<Rightarrow> doc option" where
  "row_with rid rs = List.find (\<lambda>r. cell r ''id'' = VStr rid) rs"

lemma row_withD: "row_with lid rs = Some r \<Longrightarrow> r \<in> set rs \<and> cell r ''id'' = VStr lid"
  by (auto simp: row_with_def find_Some_iff)

lemma require_lead_good:
  assumes "sales_ok s" and "row_with lid (sl_tables s ''leads'') = Some r"
  shows "\<exists>d. require_lead lid s = (Inr d, s) \<and> decode_row ''leads'' r = Inr d"
proof -
  have "good_lead r" using sales_okD [OF assms(1)] row_withD [OF assms(2)] by (auto simp: good_row_def)
  then obtain d where "decode_row ''leads'' r = Inr d" using decode_good_lead by blast
  then show ?thesis
    using assms(2) by (simp add: require_lead_def get_lead_def one_row_def rows_of_def op_bind_apply row_with_def)
qed

lemma split_row_with: "split_at_id rid rs = None \<Longrightarrow> row_with rid rs = None"
  by (induction rs) (auto simp: row_with_def split: if_splits)

lemma split_row_with_Some:
  "split_at_id rid rs = Some (a, r, b) \<Longrightarrow> cell r' ''id'' = cell r ''id'' \<Longrightarrow>
   row_with rid rs = Some r \<and> row_with rid (a @ [r'] @ b) = Some r' \<and> (\<forall>q. q \<noteq> rid \<longrightarrow> row_with q (a @ [r'] @ b) = row_with q rs)"
  by (induction rs arbitrary: a) (auto simp: row_with_def split: if_splits)

lemma row_with_found: "r \<in> set rs \<Longrightarrow> cell r ''id'' = VStr lid \<Longrightarrow> \<exists>x. row_with lid rs = Some x"
  unfolding row_with_def by (cases "List.find (\<lambda>r. cell r ''id'' = VStr lid) rs") (auto simp: find_None_iff)

lemma get_str_of_cell: "cell r k = VStr i \<Longrightarrow> get_str r k = i"
  by (auto simp: cell_def get_str_def split: option.splits)

section \<open>A concrete ledger\<close>

definition demo_company :: company where
  "demo_company = \<lparr>co_name = ''Acme'', co_id = ''co1'', co_domain = ''acme.example'', co_industry = ''roofing'', co_geography = [],
     co_team_size = 12, co_description = [], co_website = ''acme.example'', co_source = [], co_created = 0, co_updated = 0\<rparr>"

definition demo_ledger :: ledger where
  "demo_ledger = snd (create_lead demo_company ''csv'' [] [] [] (empty_ledger demo_env))"

lemma demo_reachable: "sales_reachable demo_env demo_ledger"
proof -
  have "sales_step (empty_ledger demo_env) demo_ledger"
    unfolding demo_ledger_def by (rule sales_step.lead [where r = "fst (create_lead demo_company ''csv'' [] [] [] (empty_ledger demo_env))"]) simp
  then show ?thesis by (rule sales_reachable.step [OF sales_reachable.fresh])
qed

text \<open>The ledger is evaluated once; every later evaluation starts from its rows.\<close>

definition demo_rows :: "string \<Rightarrow> doc list" where
  "demo_rows t = (if t = ''pipeline_history'' then [[(''id'', VStr ''pt_1''), (''lead_id'', VStr ''lead_0''), (''from_stage'', VStr []),
        (''to_stage'', VStr ''prospect''), (''reason'', VStr ''lead created''), (''run_id'', VStr []), (''worker'', VStr []), (''created'', VFloat 2)]]
     else if t = ''leads'' then [[(''id'', VStr ''lead_0''), (''company_id'', VStr ''co1''), (''prospect_id'', VNone), (''stage'', VStr ''prospect''),
        (''source'', VStr ''csv''), (''dedupe_key'', VStr ''domain:acme.example''), (''score'', VFloat 0), (''score_version'', VInt 0),
        (''owner'', VStr []), (''experiment_id'', VNone), (''lost_reason'', VStr []), (''next_action'', VStr []), (''next_action_due'', VStr []),
        (''created'', VFloat 0), (''updated'', VFloat 1)]]
     else if t = ''companies'' then [[(''id'', VStr ''co1''), (''name'', VStr ''Acme''), (''domain'', VStr ''acme.example''),
        (''industry'', VStr ''roofing''), (''geography'', VStr []), (''team_size'', VInt 12), (''description'', VStr []),
        (''website'', VStr ''acme.example''), (''source'', VStr []), (''created'', VFloat 0), (''updated'', VFloat 0)]]
     else [])"

definition made_view ::
    "(error + 'a) \<times> ledger \<Rightarrow> string \<Rightarrow> nat \<Rightarrow> rat \<Rightarrow> bool \<times> doc list \<times> nat \<times> nat \<times> rat \<times> string \<times> string \<times> string" where
  "made_view p t n r = (case p of (x, s) \<Rightarrow> (isl x, sl_tables s t, sl_ticks s, sl_drawn s, clock (sl_env s) n, uuid (sl_env s) n,
     float_repr (sl_env s) r, sha256 (sl_env s) t))"

lemma demo_made: "made_view (create_lead demo_company ''csv'' [] [] [] (empty_ledger demo_env)) t n r =
    (False, demo_rows t, 3, 2, clock demo_env n, uuid demo_env n, float_repr demo_env r, sha256 demo_env t)"
  by (code_simp, simp)

lemma demo_ledger_eq: "demo_ledger = \<lparr>sl_tables = demo_rows, sl_ticks = 3, sl_drawn = 2, sl_env = demo_env\<rparr>"
proof -
  obtain x s where c: "create_lead demo_company ''csv'' [] [] [] (empty_ledger demo_env) = (x, s)" by fastforce
  have e: "sl_tables s t = demo_rows t" "sl_ticks s = 3" "sl_drawn s = 2" "clock (sl_env s) n = clock demo_env n"
      "uuid (sl_env s) n = uuid demo_env n" "float_repr (sl_env s) r = float_repr demo_env r" "sha256 (sl_env s) t = sha256 demo_env t" for t n r
    using demo_made [of t n r] by (simp_all add: c made_view_def)
  have "sl_env s = demo_env" by (rule env.equality) (simp_all add: fun_eq_iff e)
  moreover have "sl_tables s = demo_rows" using e(1) by blast
  ultimately show ?thesis using e(2,3) by (simp add: demo_ledger_def c)
qed

lemma demo_created: "\<exists>d new key s'. create_lead demo_company ''csv'' [] [] [] (empty_ledger demo_env) = (Inr (d, new, key), s')"
proof -
  obtain x s where c: "create_lead demo_company ''csv'' [] [] [] (empty_ledger demo_env) = (x, s)" by fastforce
  then show ?thesis using demo_made by (cases x) (auto simp: made_view_def)
qed

lemma demo_leads: "map (\<lambda>r. (cell r ''id'', cell r ''stage'', cell r ''dedupe_key'')) (sl_tables demo_ledger ''leads'')
    = [(VStr ''lead_0'', VStr ''prospect'', VStr ''domain:acme.example'')]"
  unfolding demo_ledger_eq by code_simp

end
