(* ===== verification/Sales_Moves.thy ===== *)
theory Sales_Moves
  imports Sales_Frames
begin

text \<open>
  The soundness of every ledger the program has written, and what a stage move does: lemmas on the
  abstract map from leads to stages, and the
  properties on moves and on one lead per company.
\<close>

section \<open>The stages as a map\<close>

text \<open>The abstract view of the pipeline: which lead is in which stage.\<close>

definition crm :: "ledger \<Rightarrow> string \<Rightarrow> pipeline_stage option" where
  "crm s lid = (case row_with lid (sl_tables s ''leads'') of None \<Rightarrow> None
     | Some r \<Rightarrow> (case stage_of (get_str r ''stage'') of Inr st \<Rightarrow> Some st | Inl _ \<Rightarrow> None))"

lemma require_lead_row:
  "require_lead lid s = (Inr d, s') \<Longrightarrow> s' = s \<and> (\<exists>r. row_with lid (sl_tables s ''leads'') = Some r \<and> decode_row ''leads'' r = Inr d)"
  by (auto simp: require_lead_def get_lead_def one_row_def rows_of_def op_bind_apply row_with_def split: option.splits sum.splits prod.splits)

lemma lead_decoded_stage: "decode_row ''leads'' r = Inr d \<Longrightarrow> get_str d ''stage'' = get_str r ''stage''"
  using decode_cell_of [of "''leads''" r d "''stage''"] by (simp add: get_str_def)

lemma update_lead_rows:
  assumes "update_rec ''leads'' lid changes s = (Inr (), s')" and "changes \<noteq> []" and "''id'' \<notin> set (dkeys changes)"
  shows "sl_tables s' ''leads'' = sl_tables s ''leads'' \<and> row_with lid (sl_tables s ''leads'') = None \<or>
    (\<exists>r. row_with lid (sl_tables s ''leads'') = Some r \<and> row_with lid (sl_tables s' ''leads'') = Some (set_cells r (encode_doc changes)) \<and>
      (\<forall>q. q \<noteq> lid \<longrightarrow> row_with q (sl_tables s' ''leads'') = row_with q (sl_tables s ''leads'')))"
proof -
  have u: "sql_update ''leads'' lid (encode_doc changes) s = (Inr (), s')" using assms(1,2) by (simp add: update_rec_def)
  show ?thesis
  proof (cases "split_at_id lid (sl_tables s ''leads'')")
    case None
    then show ?thesis using u split_row_with [OF None] by (auto simp: sql_update_def split: option.splits if_splits)
  next
    case (Some p)
    obtain a r b where p: "p = (a, r, b)" by (cases p) auto
    have c: "cell (set_cells r (encode_doc changes)) ''id'' = cell r ''id''" using assms(3) by (intro cell_set_other) simp
    have "sl_tables s' ''leads'' = a @ [set_cells r (encode_doc changes)] @ b"
      using u Some p by (auto simp: sql_update_def Let_def split: option.splits if_splits)
    then show ?thesis using split_row_with_Some [OF Some [unfolded p] c] by auto
  qed
qed

lemma stage_after: "get_str (set_cells r (encode_doc (stage_changes dst why t))) ''stage'' = pipeline_stage_value dst"
  by (simp add: stage_changes_def encode_doc_def set_cells_def get_str_def)

lemma move_stage_inv:
  assumes "move_stage lid to why rid wk s = (Inr m, s')"
  obtains d a b t1 s1 s2 where "require_lead lid s = (Inr d, s)" "stage_of (get_str d ''stage'') = Inr a" "stage_of to = Inr b"
    "fst (can_move a b)" "b = Lost \<longrightarrow> why \<noteq> []" "sl_now s = (Inr t1, s1)"
    "update_rec ''leads'' lid (stage_changes b why t1) s1 = (Inr (), s2)" "sl_tables s' ''leads'' = sl_tables s2 ''leads''"
    "mv_from m = a" "mv_to m = b"
proof -
  obtain d sa where d: "require_lead lid s = (Inr d, sa)"
    using assms by (auto simp: move_stage_def dest!: bindD)
  then have sa: "sa = s" using require_lead_row by blast
  obtain a b where ab: "stage_of (get_str d ''stage'') = Inr a" "stage_of to = Inr b"
    using assms d by (auto simp: move_stage_def op_bind_apply split: sum.splits)
  have ok: "fst (can_move a b)" "b = Lost \<longrightarrow> why \<noteq> []"
    using assms d ab by (auto simp: move_stage_def op_bind_apply case_prod_unfold Let_def split: if_splits)
  have nl: "(b = Lost \<and> why = []) = False" using ok(2) by simp
  obtain t1 s1 where n: "sl_now s = (Inr t1, s1)" by (simp add: sl_now_def)
  define rest where "rest = op_then (log_transition lid (pipeline_stage_value a) (pipeline_stage_value b) (if why \<noteq> [] then why else snd (can_move a b)) rid wk)
      (op_bind (new_activity lid ''stage_change'' (pipeline_stage_value a @ '' -> '' @ pipeline_stage_value b)
          (if why \<noteq> [] then why else snd (can_move a b)) rid wk []) (\<lambda>ac.
        op_then (log_activity ac) (op_return \<lparr>mv_from = a, mv_to = b, mv_reason = (if why \<noteq> [] then why else snd (can_move a b))\<rparr>)))"
  have run: "op_then (update_rec ''leads'' lid (stage_changes b why t1)) rest s1 = (Inr m, s')"
    using assms d ab ok(1) nl n unfolding rest_def sa
    by (simp only: move_stage_def op_bind_apply case_prod_unfold Let_def op_lift_apply prod.case sum.case fst_conv snd_conv
        if_False if_True not_True_eq_False simp_thms)
  then obtain s2 where u: "update_rec ''leads'' lid (stage_changes b why t1) s1 = (Inr (), s2)" and r: "rest s2 = (Inr m, s')"
    by (auto simp: op_then_apply split: sum.splits prod.splits)
  have "op_inv (keeps ''leads'' X) rest" for X
    unfolding rest_def by (intro op_inv_intros log_transition_keeps) simp_all
  then have k: "sl_tables s' ''leads'' = sl_tables s2 ''leads''" using r by (rule keepsD)
  have "mv_from m = a \<and> mv_to m = b"
    using r unfolding rest_def by (auto simp: op_then_apply op_bind_apply split: sum.splits prod.splits)
  then show ?thesis using that d ab ok n u k sa by blast
qed

section \<open>Soundness of the ledger\<close>

text \<open>What the conditions on rows say of what a reader of the row gets.\<close>

lemma good_lead_facts:
  assumes "good_lead r"
  shows "is_stage (cell r ''stage'')" "percent (get_num r ''score'')"
  using assms by (auto simp: good_lead_def)

lemma good_qualification_facts:
  assumes "good_qualification r"
  shows "get_num r ''score'' = total_score (stored_subs r)" "percent (get_num r ''score'')" "k \<in> set (dkeys WEIGHTS) \<Longrightarrow> percent (get_num r k)"
  using assms by (auto simp: good_qualification_def)

lemma good_move_facts:
  assumes "good_move h"
  shows "\<exists>b. cell h ''to_stage'' = VStr (pipeline_stage_value b) \<and>
     ((cell h ''from_stage'' = VStr [] \<and> b = Prospect) \<or>
      (\<exists>a. cell h ''from_stage'' = VStr (pipeline_stage_value a) \<and> (a \<notin> {Completed, Expansion} \<longrightarrow> b \<in> set (allowed_next a))))"
  using assms by (auto simp: good_move_def)

lemma good_evidence_facts:
  assumes "good_evidence r"
  shows "str_strip (get_str r ''source_ref'') \<noteq> []" "get_str r ''claim_type'' \<in> set SALES_CLAIM_TYPES"
  using assms by (auto simp: good_evidence_def dest!: get_str_of_cell)

lemma good_pain_facts: "good_pain r \<Longrightarrow> get_list r ''evidence_ids'' \<noteq> []"
  by (auto simp: good_pain_def cell_def get_list_def split: option.splits)

lemma good_draft_facts:
  assumes "good_draft d"
  shows "get_str d ''state'' \<in> {''approved'', ''sent''} \<longrightarrow> get_str d ''approved_by'' \<noteq> []"
proof -
  obtain st where st: "get_str d ''state'' = outreach_state_value st" "st \<in> {Out_Approved, Out_Sent} \<longrightarrow> get_str d ''approved_by'' \<noteq> []"
    using assms by (auto simp: good_draft_def dest!: get_str_of_cell)
  then show ?thesis by (cases st) simp_all
qed

text \<open>C22: the sales ledger stays sound.  After any sequence of tool calls, repository writes and rows seeded
  by other programs, whatever the calls answered (\<open>create_draft\<close> stores a draft in its default state, \<open>record_qualification\<close>
  a score that is the total of its sub-scores, all percentages): every declared key, NOT NULL and UNIQUE constraint
  holds; every lead is in a documented stage with a score that is a percentage; every stored qualification
  has a total between 0 and 100 that recomputes from its stored sub-scores; every recorded move starts a lead as a prospect or follows the transition table (outside
  the stages \<open>completed\<close> and \<open>expansion\<close>, of which nothing is claimed);
  every evidence row has a non-blank source and a known type; every pain point cites evidence; every
  approved or sent draft carries a non-empty approver text.\<close>

theorem sales_ledger_sound:
  assumes "sales_reachable e s"
  shows "ledger_ok s \<and>
    (\<forall>l\<in>set (sl_tables s ''leads''). is_stage (cell l ''stage'') \<and> percent (get_num l ''score'')) \<and>
    (\<forall>q\<in>set (sl_tables s ''qualifications''). get_num q ''score'' = total_score (stored_subs q) \<and> percent (get_num q ''score'') \<and>
       (\<forall>k\<in>set (dkeys WEIGHTS). percent (get_num q k))) \<and>
    (\<forall>h\<in>set (sl_tables s ''pipeline_history''). \<exists>b. cell h ''to_stage'' = VStr (pipeline_stage_value b) \<and>
       ((cell h ''from_stage'' = VStr [] \<and> b = Prospect) \<or>
        (\<exists>a. cell h ''from_stage'' = VStr (pipeline_stage_value a) \<and> (a \<notin> {Completed, Expansion} \<longrightarrow> b \<in> set (allowed_next a))))) \<and>
    (\<forall>v\<in>set (sl_tables s ''sales_evidence''). str_strip (get_str v ''source_ref'') \<noteq> [] \<and> get_str v ''claim_type'' \<in> set SALES_CLAIM_TYPES) \<and>
    (\<forall>p\<in>set (sl_tables s ''pain_points''). get_list p ''evidence_ids'' \<noteq> []) \<and>
    (\<forall>d\<in>set (sl_tables s ''outreach_drafts''). get_str d ''state'' \<in> {''approved'', ''sent''} \<longrightarrow> get_str d ''approved_by'' \<noteq> [])"
proof -
  have ok: "sales_ok s" using assms by (rule sales_reachable_ok)
  note good = sales_okD [OF ok]
  show ?thesis
    using good [of _ "''leads''"] good [of _ "''qualifications''"] good [of _ "''pipeline_history''"]
      good [of _ "''sales_evidence''"] good [of _ "''pain_points''"] good [of _ "''outreach_drafts''"]
    by (intro conjI ballI good_lead_facts good_qualification_facts good_move_facts good_evidence_facts good_pain_facts good_draft_facts)
      (use ok in \<open>auto simp: good_row_def sales_kept_def\<close>)
qed

theorem sales_ledger_sound_witness:
  "ledger_ok demo_ledger \<and> list_all (\<lambda>l. is_stage (cell l ''stage'')) (sl_tables demo_ledger ''leads'') \<and> length (sl_tables demo_ledger ''leads'') = 1"
proof -
  have "length (sl_tables demo_ledger ''leads'') = 1" using arg_cong [OF demo_leads, of length] unfolding length_map by simp
  then show ?thesis using sales_ledger_sound [OF demo_reachable] by (auto simp: list_all_iff)
qed

section \<open>Moves\<close>

text \<open>The statements of a move go through: the lead's row stays sound and unique, and the history and the
  activity of an existing lead are stored unless their fresh ids are taken.\<close>

lemma history_schema: "schema_of ''pipeline_history'' = Some [
        key_col ''id'', ref_col ''lead_id'' ''leads'', col ''from_stage'', must ''to_stage'', col ''reason'',
        col ''run_id'', col ''worker'', col ''created'']"
  by (simp add: schema_of_def DDL_def)

lemma activity_schema: "schema_of ''activities'' = Some [
        key_col ''id'', ref_col ''lead_id'' ''leads'', must ''kind'', must ''summary'', col ''run_id'',
        col ''worker'', col ''detail'', col ''evidence_ids'', col ''created'']"
  by (simp add: schema_of_def DDL_def)

lemmas column_defs = key_col_def ref_col_def uniq_col_def dflt_col_def must_def col_def

lemma stage_update_goes_through:
  assumes "ledger_ok s" and "row_with lid (sl_tables s ''leads'') = Some r"
  shows "\<exists>s'. update_rec ''leads'' lid (stage_changes b why t) s = (Inr (), s') \<and> (\<forall>q. q \<noteq> ''leads'' \<longrightarrow> sl_tables s' q = sl_tables s q) \<and>
    sl_env s' = sl_env s \<and> sl_drawn s' = sl_drawn s"
proof -
  define ch where "ch = encode_doc (stage_changes b why t)"
  obtain x r' y where sp: "split_at_id lid (sl_tables s ''leads'') = Some (x, r', y)"
    using assms(2) split_row_with [of lid "sl_tables s ''leads''"] by (cases "split_at_id lid (sl_tables s ''leads'')") auto
  obtain cols where cols: "schema_of ''leads'' = Some cols" using sales_columns(1) by (auto simp: column_in_def split: option.splits)
  have tab: "table_ok (sl_tables s) ''leads'' cols" using assms(1) cols by (rule ledger_ok_tableD)
  have keys: "set (dkeys ch) \<subseteq> {''stage'', ''updated'', ''lost_reason''}" by (auto simp: ch_def stage_changes_def encode_doc_def)
  have other: "cell (set_cells r' ch) k = cell r' k" if "k \<notin> {''stage'', ''updated'', ''lost_reason''}" for k
    using that keys by (intro cell_set_other) auto
  have st: "cell (set_cells r' ch) ''stage'' = VStr (pipeline_stage_value b)"
    by (simp add: cell_set_cells ch_def stage_changes_def encode_doc_def)
  have names: "{''stage'', ''updated'', ''lost_reason''} \<subseteq> set (map cl_name (the (schema_of ''leads'')))" by code_simp
  have plain: "list_all (\<lambda>c. cl_name c \<in> {''stage'', ''updated'', ''lost_reason''} \<longrightarrow> cl_ref c = None \<and> (cl_notnull c \<longrightarrow> cl_name c = ''stage''))
      (the (schema_of ''leads''))" by code_simp
  have known: "known_cols cols ch"
    using names keys cols by (auto simp: known_cols_def list_all_iff)
  have "row_sound (sl_tables s) cols r'"
    using tab split_at_id_SomeD [OF sp] by (auto simp: table_ok_def)
  then have sound: "row_sound (sl_tables s) cols (set_cells r' ch)"
    unfolding row_sound_def list_all_iff
  proof (intro ballI)
    fix c
    assume old: "\<forall>c\<in>set cols. (cl_notnull c \<longrightarrow> cell r' (cl_name c) \<noteq> VNone) \<and>
        (case cl_ref c of None \<Rightarrow> True | Some t \<Rightarrow> refers (sl_tables s) t (cell r' (cl_name c)))" and c: "c \<in> set cols"
    show "(cl_notnull c \<longrightarrow> cell (set_cells r' ch) (cl_name c) \<noteq> VNone) \<and>
        (case cl_ref c of None \<Rightarrow> True | Some t \<Rightarrow> refers (sl_tables s) t (cell (set_cells r' ch) (cl_name c)))"
    proof (cases "cl_name c \<in> {''stage'', ''updated'', ''lost_reason''}")
      case True
      then have "cl_ref c = None" "cl_notnull c \<longrightarrow> cl_name c = ''stage''" using plain cols c by (auto simp: list_all_iff)
      then show ?thesis using st by auto
    next
      case False
      then have cc: "cell (set_cells r' ch) (cl_name c) = cell r' (cl_name c)" using other by blast
      show ?thesis unfolding cc by (rule bspec [OF old c])
    qed
  qed
  have "uniques ''leads'' (the (schema_of ''leads'')) = [[''id''], [''dedupe_key'']]" by code_simp
  then have "uniques ''leads'' cols = [[''id''], [''dedupe_key'']]" using cols by simp
  then have "clash (uniques ''leads'' cols) (set_cells r' ch) q = clash (uniques ''leads'' cols) r' q" for q
    by (simp add: clash_def other)
  moreover have "\<not> list_ex (clash (uniques ''leads'' cols) r') (x @ y)"
    using tab split_at_id_SomeD [OF sp] clash_sym by (auto simp: table_ok_def sorted_wrt_append list_ex_iff)
  ultimately have "\<not> list_ex (clash (uniques ''leads'' cols) (set_cells r' ch)) (x @ y)" by (simp add: list_ex_iff)
  then have "sql_update ''leads'' lid ch s = (Inr (), set_table ''leads'' (x @ [set_cells r' ch] @ y) s)"
    using cols known sound sp by (simp add: sql_update_def Let_def)
  then show ?thesis by (simp add: update_rec_def stage_changes_def ch_def)
qed

definition lead_exists :: "string \<Rightarrow> ledger \<Rightarrow> bool" where
  "lead_exists lid s \<longleftrightarrow> list_ex (is_cell ''id'' lid) (sl_tables s ''leads'')"

definition id_free :: "string \<Rightarrow> string \<Rightarrow> ledger \<Rightarrow> bool" where
  "id_free t rid s \<longleftrightarrow> \<not> list_ex (is_cell ''id'' rid) (sl_tables s t)"

lemma transition_goes_through:
  assumes "lead_exists lid s" and "id_free ''pipeline_history'' (''pt_'' @ uuid (sl_env s) (sl_drawn s)) s"
  shows "\<exists>s'. log_transition lid a b why rid wk s = (Inr (), s') \<and> (\<forall>q. q \<noteq> ''pipeline_history'' \<longrightarrow> sl_tables s' q = sl_tables s q) \<and>
    sl_env s' = sl_env s \<and> sl_drawn s' = Suc (sl_drawn s)"
  using assms
  by (auto simp: log_transition_def op_bind_apply op_then_apply sl_id_def sl_now_def insert_rec_def sql_insert_def history_schema
      pipeline_transition_dict_def null_refs_def encode_doc_def REF_KEYS_def known_cols_def row_of_def row_sound_def column_defs
      uniques_def TABLE_UNIQUES_def clash_def cell_def refers_def lead_exists_def id_free_def is_cell_def list_ex_iff split: option.splits)

lemma activity_goes_through:
  assumes "lead_exists lid s" and "require_lead lid s = (Inr d, s)" and "id_free ''activities'' (ac_id act) s" and "ac_lead_id act = lid"
  shows "\<exists>s'. log_activity act s = (Inr (), s')"
  using assms
  by (auto simp: log_activity_def op_bind_apply op_then_apply insert_rec_def sql_insert_def activity_schema
      activity_dict_def null_refs_def encode_doc_def REF_KEYS_def known_cols_def row_of_def row_sound_def column_defs
      uniques_def TABLE_UNIQUES_def clash_def cell_def refers_def lead_exists_def id_free_def is_cell_def list_ex_iff split: option.splits)

text \<open>The moves that the program makes: a stage that the transition table allows, with a reason for a loss.\<close>

definition legal_move :: "ledger \<Rightarrow> string \<Rightarrow> string \<Rightarrow> string \<Rightarrow> bool" where
  "legal_move s lid to why \<longleftrightarrow> (case crm s lid of None \<Rightarrow> False | Some a \<Rightarrow> (case stage_of to of Inl _ \<Rightarrow> False
     | Inr b \<Rightarrow> b \<in> set (allowed_next a) \<and> (b = Lost \<longrightarrow> why \<noteq> [])))"

lemma no_self_move: "a \<notin> set (allowed_next a)"
proof -
  have "list_all (\<lambda>a. a \<notin> set (allowed_next a)) pipeline_stage_members" by code_simp
  then show ?thesis using pipeline_stage_members_all by (auto simp: list_all_iff)
qed

lemma move_effect:
  assumes "move_stage lid to why rid wk s = (Inr m, s')"
  shows "crm s lid = Some (mv_from m) \<and> stage_of to = Inr (mv_to m) \<and> crm s' = (crm s)(lid := Some (mv_to m))"
proof -
  obtain d a b t1 s1 s2 where h: "require_lead lid s = (Inr d, s)" "stage_of (get_str d ''stage'') = Inr a" "stage_of to = Inr b"
    "fst (can_move a b)" "b = Lost \<longrightarrow> why \<noteq> []" "sl_now s = (Inr t1, s1)"
    "update_rec ''leads'' lid (stage_changes b why t1) s1 = (Inr (), s2)" "sl_tables s' ''leads'' = sl_tables s2 ''leads''"
    "mv_from m = a" "mv_to m = b"
    using assms by (rule move_stage_inv)
  obtain r where r: "row_with lid (sl_tables s ''leads'') = Some r" "decode_row ''leads'' r = Inr d"
    using require_lead_row [OF h(1)] by blast
  have c: "crm s lid = Some a" using r h(2) lead_decoded_stage [OF r(2)] by (simp add: crm_def)
  have t: "sl_tables s1 = sl_tables s" using h(6) by (auto simp: sl_now_def)
  have "''id'' \<notin> set (dkeys (stage_changes b why t1))" "stage_changes b why t1 \<noteq> []" by (auto simp: stage_changes_def)
  from update_lead_rows [OF h(7) this(2,1)] r(1) t
  have u: "row_with lid (sl_tables s' ''leads'') = Some (set_cells r (encode_doc (stage_changes b why t1)))"
      "\<And>q. q \<noteq> lid \<Longrightarrow> row_with q (sl_tables s' ''leads'') = row_with q (sl_tables s ''leads'')"
    by (auto simp: h(8))
  have "crm s' q = ((crm s)(lid := Some b)) q" for q
    using u by (cases "q = lid") (simp_all add: crm_def stage_after)
  then show ?thesis using c h by (auto simp: fun_eq_iff)
qed

lemma crm_lead:
  assumes "sales_ok s"
  shows "crm s lid = None \<longleftrightarrow> row_with lid (sl_tables s ''leads'') = None"
proof (cases "row_with lid (sl_tables s ''leads'')")
  case (Some r)
  then have "good_lead r" using sales_okD [OF assms] row_withD [OF Some] by (auto simp: good_row_def)
  then obtain st where "get_str r ''stage'' = pipeline_stage_value st" by (auto simp: good_lead_def is_stage_def dest!: get_str_of_cell)
  then show ?thesis using Some by (simp add: crm_def)
qed (simp add: crm_def)

lemma crm_found:
  assumes "sales_ok s" and "crm s lid = Some a"
  obtains d r where "require_lead lid s = (Inr d, s)" "stage_of (get_str d ''stage'') = Inr a" "row_with lid (sl_tables s ''leads'') = Some r"
proof -
  obtain r where r: "row_with lid (sl_tables s ''leads'') = Some r" "stage_of (get_str r ''stage'') = Inr a"
    using assms(2) by (auto simp: crm_def split: option.splits sum.splits)
  obtain d where d: "require_lead lid s = (Inr d, s)" "decode_row ''leads'' r = Inr d" using require_lead_good [OF assms(1) r(1)] by blast
  show thesis using that [OF d(1) _ r(1)] r(2) lead_decoded_stage [OF d(2)] by simp
qed

lemma illegal_move_refused:
  assumes "sales_ok s" and "\<not> legal_move s lid to why"
  shows "\<exists>err. move_stage lid to why rid wk s = (Inl err, s)"
proof (cases "crm s lid")
  case None
  then have "row_with lid (sl_tables s ''leads'') = None" using crm_lead [OF assms(1)] by simp
  then have "require_lead lid s = (Inl SalesError, s)"
    by (simp add: require_lead_def get_lead_def one_row_def rows_of_def op_bind_apply row_with_def)
  then show ?thesis by (simp add: move_stage_def op_bind_apply)
next
  case (Some a)
  obtain d r where d: "require_lead lid s = (Inr d, s)" "stage_of (get_str d ''stage'') = Inr a" using crm_found [OF assms(1) Some] by blast
  show ?thesis
  proof (cases "stage_of to")
    case (Inr b)
    then have "\<not> fst (can_move a b) \<or> (b = Lost \<and> why = [])" using assms(2) Some by (auto simp: legal_move_def can_move_iff)
    then show ?thesis by (auto simp: move_stage_def op_bind_apply d Inr case_prod_unfold Let_def)
  qed (simp add: move_stage_def op_bind_apply d)
qed

lemma legal_move_goes_through:
  assumes "sales_ok s" and "legal_move s lid to why"
    and "id_free ''pipeline_history'' (''pt_'' @ uuid (sl_env s) (sl_drawn s)) s"
    and "id_free ''activities'' (''act_'' @ uuid (sl_env s) (Suc (sl_drawn s))) s"
  shows "\<exists>m s'. move_stage lid to why rid wk s = (Inr m, s')"
proof -
  obtain a b where ab: "crm s lid = Some a" "stage_of to = Inr b" "fst (can_move a b)" "(b = Lost \<and> why = []) = False"
    using assms(2) no_self_move by (auto simp: legal_move_def can_move_iff split: option.splits sum.splits)
  obtain d r where d: "require_lead lid s = (Inr d, s)" "stage_of (get_str d ''stage'') = Inr a" "row_with lid (sl_tables s ''leads'') = Some r"
    by (rule crm_found [OF assms(1) ab(1)])
  obtain t1 s1 where 1: "sl_now s = (Inr t1, s1)" "sl_tables s1 = sl_tables s" "sl_env s1 = sl_env s" "sl_drawn s1 = sl_drawn s"
    by (simp add: sl_now_def)
  have ok1: "sales_ok s1" using assms(1) sales_ok_tables [OF 1(2)] by simp
  obtain s2 where 2: "update_rec ''leads'' lid (stage_changes b why t1) s1 = (Inr (), s2)" "\<forall>q. q \<noteq> ''leads'' \<longrightarrow> sl_tables s2 q = sl_tables s1 q"
      "sl_env s2 = sl_env s1" "sl_drawn s2 = sl_drawn s1"
    using stage_update_goes_through [of s1 lid r b why t1] ok1 d(3) 1(2) by (auto simp: sales_kept_def)
  have ok2: "sales_ok s2" using op_invD [OF stage_changes_sales ok1 2(1)] .
  obtain r2 where r2: "row_with lid (sl_tables s2 ''leads'') = Some r2"
    using update_lead_rows [OF 2(1)] d(3) 1(2) by (auto simp: stage_changes_def)
  have e2: "lead_exists lid s2" using row_withD [OF r2] by (auto simp: lead_exists_def list_ex_iff is_cell_def)
  have free: "id_free ''pipeline_history'' (''pt_'' @ uuid (sl_env s2) (sl_drawn s2)) s2" using assms(3) 1 2 by (simp add: id_free_def)
  obtain s3 where 3: "log_transition lid (pipeline_stage_value a) (pipeline_stage_value b) (if why \<noteq> [] then why else snd (can_move a b)) rid wk s2 = (Inr (), s3)"
      "\<forall>q. q \<noteq> ''pipeline_history'' \<longrightarrow> sl_tables s3 q = sl_tables s2 q" "sl_env s3 = sl_env s2" "sl_drawn s3 = Suc (sl_drawn s2)"
    using transition_goes_through [OF e2 free] by blast
  obtain ac s4 where 4: "new_activity lid ''stage_change'' (pipeline_stage_value a @ '' -> '' @ pipeline_stage_value b)
        (if why \<noteq> [] then why else snd (can_move a b)) rid wk [] s3 = (Inr ac, s4)"
      "sl_tables s4 = sl_tables s3" "ac_id ac = ''act_'' @ uuid (sl_env s) (Suc (sl_drawn s))" "ac_lead_id ac = lid"
    using 1 2 3 by (simp add: new_activity_def op_bind_apply sl_id_def sl_now_def)
  have t4: "sl_tables s4 q = sl_tables s2 q" if "q \<noteq> ''pipeline_history''" for q using that 3(2) 4(2) by simp
  have ok4: "sales_ok s4"
    using op_invD [OF log_transition_sales ok2 3(1)] ab(3) sales_ok_tables [OF 4(2)] by (auto simp: can_move_iff)
  obtain d4 where d4: "require_lead lid s4 = (Inr d4, s4)" using require_lead_good [OF ok4] r2 t4 [of "''leads''"] by auto
  have "lead_exists lid s4" "id_free ''activities'' (ac_id ac) s4"
    using e2 t4 [of "''leads''"] t4 [of "''activities''"] 2(2) 1(2) assms(4) 4(3) by (simp_all add: lead_exists_def id_free_def)
  then obtain s5 where 5: "log_activity ac s4 = (Inr (), s5)"
    using activity_goes_through [OF _ d4 _ 4(4)] by blast
  show ?thesis
    using ab d 1(1) 2(1) 3(1) 4(1) 5
    by (simp only: move_stage_def op_bind_apply op_then_apply case_prod_unfold Let_def op_lift_apply prod.case sum.case fst_conv snd_conv
        if_False if_True not_True_eq_False simp_thms) simp
qed

text \<open>C23: \<open>move_stage\<close> implements the stage map.  On any ledger the program has written, for a lead outside the stages
  \<open>completed\<close> and \<open>expansion\<close> and with fresh ids for the history row and the activity: if the text spells a stage
  that the table allows from the lead's stage, with a reason for a loss, then the move returns, names the stage the lead
  was in and the one asked for, and on the abstract map from leads to stages its effect is exactly the update of that one
  lead; in every other case (no such lead, no such stage, a move that is not allowed, a loss without reason) it raises and
  leaves the ledger as it was.\<close>

theorem move_refines_crm:
  assumes "sales_reachable e s" and "crm s lid \<notin> {Some Completed, Some Expansion}"
    and "id_free ''pipeline_history'' (''pt_'' @ uuid (sl_env s) (sl_drawn s)) s"
    and "id_free ''activities'' (''act_'' @ uuid (sl_env s) (Suc (sl_drawn s))) s"
  shows "if legal_move s lid to why
    then \<exists>m s'. move_stage lid to why rid wk s = (Inr m, s') \<and> crm s lid = Some (mv_from m) \<and> stage_of to = Inr (mv_to m) \<and>
      crm s' = (crm s)(lid := Some (mv_to m))
    else \<exists>err. move_stage lid to why rid wk s = (Inl err, s)"
proof -
  have ok: "sales_ok s" using assms(1) by (rule sales_reachable_ok)
  show ?thesis
    using legal_move_goes_through [OF ok _ assms(3,4), of lid to why rid wk] move_effect [of lid to why rid wk s]
      illegal_move_refused [OF ok, of lid to why rid wk] by (metis (full_types))
qed

theorem move_refines_crm_witness:
  "(\<exists>m s'. move_stage ''lead_0'' ''contacted'' ''called'' ''run'' ''w'' demo_ledger = (Inr m, s') \<and> crm s' ''lead_0'' = Some Contacted) \<and>
   (\<exists>err. move_stage ''lead_0'' ''won'' ''x'' [] [] demo_ledger = (Inl err, demo_ledger))"
proof -
  have h: "crm demo_ledger ''lead_0'' = Some Prospect" "id_free ''pipeline_history'' (''pt_'' @ uuid (sl_env demo_ledger) (sl_drawn demo_ledger)) demo_ledger"
    "id_free ''activities'' (''act_'' @ uuid (sl_env demo_ledger) (Suc (sl_drawn demo_ledger))) demo_ledger"
    "legal_move demo_ledger ''lead_0'' ''contacted'' ''called''" "\<not> legal_move demo_ledger ''lead_0'' ''won'' ''x''"
    unfolding demo_ledger_eq by code_simp+
  have st: "stage_of ''contacted'' = Inr Contacted" by code_simp
  have c: "crm demo_ledger ''lead_0'' \<notin> {Some Completed, Some Expansion}" by (simp add: h(1))
  from move_refines_crm [OF demo_reachable c h(2,3), of "''contacted''" "''called''" "''run''" "''w''"] h(4) st
    move_refines_crm [OF demo_reachable c h(2,3), of "''won''" "''x''" "[]" "[]"] h(5)
  show ?thesis by auto
qed

end
