(* ===== verification/Sales_Scores.thy ===== *)
theory Sales_Scores
  imports Sales_Frames
begin

text \<open>
  The properties of scoring: bounds, the part a language model may not play, reading a score back,
  and the verification checks on a sound ledger.
\<close>

section \<open>What an evaluation returns\<close>

lemma record_qualification_post: "op_post (\<lambda>q'. \<exists>v. q' = q\<lparr>ql_version := v\<rparr>) (record_qualification q)"
  unfolding record_qualification_def Let_def by (intro op_post_intros) blast

definition scored :: "string \<Rightarrow> string \<Rightarrow> doc \<times> lead_scores \<times> doc list \<times> doc list \<times> env \<times> int \<times> string \<times> time
    \<Rightarrow> prose_model option \<Rightarrow> qualification" where
  "scored lid rid x pm = (case x of (co, l, evs, pps, e, v, qid, t) \<Rightarrow>
     let plain = deterministic_reasoning e co (ls_subs l) (ls_total l) (ls_tier l) (length evs);
         (why, model, version) = reasoned pm (summary_prompt e co (ls_subs l) (ls_total l) evs pps) plain
     in \<lparr>ql_lead_id = lid, ql_id = qid, ql_version = v, ql_icp_fit = sub l ''icp_fit'',
          ql_pain_signal = sub l ''pain_signal'', ql_urgency = sub l ''urgency'',
          ql_economic_potential = sub l ''economic_potential'', ql_accessibility = sub l ''accessibility'',
          ql_confidence = sub l ''confidence'', ql_score = ls_total l, ql_tier = ls_tier l, ql_signals = ls_signals l,
          ql_evidence_ids = map (\<lambda>r. get_str r ''id'') evs, ql_reasoning = why, ql_model = model, ql_model_version = version,
          ql_run_id = rid, ql_created = t\<rparr>)"

text \<open>Everything before the record is written, which does not depend on the model.\<close>

definition evaluation :: "string \<Rightarrow> (doc \<times> lead_scores \<times> doc list \<times> doc list \<times> env \<times> int \<times> string \<times> time) lop" where
  "evaluation lid =
     op_bind (require_lead lid) (\<lambda>ld.
     op_bind (one_ref ''companies'' (cell ld ''company_id'')) (\<lambda>found. case found of
         None \<Rightarrow> op_raise InsufficientEvidence
       | Some co \<Rightarrow>
          op_bind (evidence_for lid []) (\<lambda>evs.
          op_bind (pain_points_for lid) (\<lambda>pps.
          if evs = [] then op_raise InsufficientEvidence
          else op_bind active_icp (\<lambda>icps.
               op_bind (contacts_for (cell co ''id'')) (\<lambda>contacts.
               op_bind (op_lift (score_lead co icps evs pps contacts)) (\<lambda>l.
               op_bind (op_gets sl_env) (\<lambda>e.
               op_bind (next_qualification_version lid) (\<lambda>v.
               op_bind (sl_id ''qual'') (\<lambda>qid. op_bind sl_now (\<lambda>t.
                 op_return (co, l, evs, pps, e, v, qid, t))))))))))))"

lemma op_bind_option: "op_bind (case x of None \<Rightarrow> m | Some y \<Rightarrow> f y) g = (case x of None \<Rightarrow> op_bind m g | Some y \<Rightarrow> op_bind (f y) g)"
  by (cases x) simp_all

lemma op_bind_if: "op_bind (if b then m else n) g = (if b then op_bind m g else op_bind n g)"
  by simp

lemma evaluate_lead_eq: "evaluate_lead lid rid pm = op_bind (evaluation lid) (\<lambda>x. record_qualification (scored lid rid x pm))"
  unfolding evaluate_lead_def evaluation_def op_bind_assoc op_bind_option op_bind_if op_bind_raise op_bind_return
  by (simp add: scored_def Let_def case_prod_unfold cong: option.case_cong if_cong)

lemma evaluation_post: "op_post (\<lambda>(co, l, evs, pps, e, v, qid, t). \<exists>icps cts. score_lead co icps evs pps cts = Inr l) (evaluation lid)"
proof -
  have lift: "op_post Q (op_bind (op_lift v) f)" if "\<And>x. v = Inr x \<Longrightarrow> op_post Q (f x)" for Q and v :: "error + lead_scores"
      and f :: "lead_scores \<Rightarrow> (doc \<times> lead_scores \<times> doc list \<times> doc list \<times> env \<times> int \<times> string \<times> time) lop"
    using that by (cases v) (simp_all add: op_post_def op_bind_apply)
  show ?thesis
    unfolding evaluation_def
    by (rule op_post_bind op_post_option op_post_raise op_post_if lift op_post_return)+ auto
qed

section \<open>Versions\<close>

definition next_version_of :: "doc list \<Rightarrow> string \<Rightarrow> int" where
  "next_version_of rs lid = (let vs = map (\<lambda>r. get_int r ''version'' 0) (filter (is_cell ''lead_id'' lid) rs)
     in (if vs = [] then 0 else Max (set vs)) + 1)"

lemma next_version_run: "next_qualification_version lid s = (Inr (next_version_of (sl_tables s ''qualifications'') lid), s)"
  by (simp add: next_qualification_version_def rows_of_def op_bind_apply next_version_of_def Let_def)

lemma next_version_fresh: "r \<in> set rs \<Longrightarrow> is_cell ''lead_id'' lid r \<Longrightarrow> get_int r ''version'' 0 < next_version_of rs lid"
proof -
  assume r: "r \<in> set rs" "is_cell ''lead_id'' lid r"
  let ?vs = "map (\<lambda>r. get_int r ''version'' 0) (filter (is_cell ''lead_id'' lid) rs)"
  have i: "get_int r ''version'' 0 \<in> set ?vs" using r by auto
  then have "get_int r ''version'' 0 \<le> Max (set ?vs)" by (intro Max_ge) auto
  moreover have "filter (is_cell ''lead_id'' lid) rs \<noteq> []" using r by (auto simp: filter_empty_conv)
  ultimately show ?thesis by (simp add: next_version_of_def Let_def)
qed

definition version_for :: "qualification \<Rightarrow> ledger \<Rightarrow> int" where
  "version_for q s = (if ql_version q \<noteq> 0 then ql_version q else next_version_of (sl_tables s ''qualifications'') (ql_lead_id q))"

lemma record_qualification_inv:
  assumes "record_qualification q s = (Inr q', s')"
  obtains d d1 s1 where "require_lead (ql_lead_id q) s = (Inr d, s)" "q' = q\<lparr>ql_version := version_for q s\<rparr>"
    "insert_rec ''qualifications'' (qualification_dict q') s = (Inr d1, s1)" "sl_tables s' ''qualifications'' = sl_tables s1 ''qualifications''"
proof -
  obtain d where d: "require_lead (ql_lead_id q) s = (Inr d, s)"
    using assms require_lead_pure [of "ql_lead_id q" s]
    by (cases "require_lead (ql_lead_id q) s") (auto simp: record_qualification_def op_then_apply split: sum.splits)
  have v: "(if ql_version q \<noteq> 0 then op_return (ql_version q) else next_qualification_version (ql_lead_id q)) s = (Inr (version_for q s), s)"
    by (simp add: version_for_def next_version_run)
  then have vb: "op_bind (if ql_version q \<noteq> 0 then op_return (ql_version q) else next_qualification_version (ql_lead_id q)) f s
      = f (version_for q s) s" for f :: "int \<Rightarrow> qualification lop"
    unfolding op_bind_def v by simp
  let ?q = "q\<lparr>ql_version := version_for q s\<rparr>"
  define rest where "rest = op_bind sl_now (\<lambda>t. op_then (update_rec ''leads'' (ql_lead_id q)
      [(''score'', VFloat (ql_score q)), (''score_version'', VInt (version_for q s)), (''updated'', VFloat t)]) (op_return ?q))"
  have run: "op_then (insert_rec ''qualifications'' (qualification_dict ?q)) rest s = (Inr q', s')"
    using assms unfolding record_qualification_def Let_def rest_def by (simp only: op_then_apply [of "require_lead _"] d prod.case sum.case vb)
  then obtain d1 s1 where i: "insert_rec ''qualifications'' (qualification_dict ?q) s = (Inr d1, s1)" and r: "rest s1 = (Inr q', s')"
    by (auto simp: op_then_apply split: sum.splits prod.splits)
  have "op_post (\<lambda>x. x = ?q) rest" unfolding rest_def by (intro op_post_intros) simp
  then have q: "q' = ?q" using r by (rule op_postD)
  have "op_inv (keeps ''qualifications'' X) rest" for X
    unfolding rest_def by (intro op_inv_intros update_rec_keeps) simp
  then have "sl_tables s' ''qualifications'' = sl_tables s1 ''qualifications''" using r by (rule keepsD)
  then show ?thesis using that d q i by blast
qed

section \<open>A concrete evaluation\<close>

definition demo_claim :: sales_claim where
  "demo_claim = \<lparr>sc_lead_id = ''lead_0'', sc_type = ''urgency_signal'', sc_text = ''asap'', sc_source_ref = ''notes.md#L1'',
     sc_tier = ''OBSERVED'', sc_excerpt = ''asap'', sc_run_id = ''run'', sc_observation_id = []\<rparr>"

definition demo_evidenced :: ledger where
  "demo_evidenced = snd (attach demo_claim demo_ledger)"

definition demo_prose :: prose_model where
  "demo_prose = \<lparr>pm_available = True, pm_name = ''m'', pm_url = ''u'', pm_complete = (\<lambda>_. Some ''p'')\<rparr>"

lemma demo_evidenced_ok: "sales_ok demo_evidenced"
  unfolding demo_evidenced_def using attach_sales sales_reachable_ok [OF demo_reachable] by (auto simp: op_inv_def)

lemma demo_evaluation:
  "case fst (evaluate_lead ''lead_0'' ''run'' pm demo_evidenced) of Inr q \<Rightarrow> ql_version q = 1 \<and> 0 < ql_score q | Inl _ \<Rightarrow> False"
  if "pm = None \<or> pm = Some demo_prose"
proof -
  have "case fst (evaluate_lead ''lead_0'' ''run'' None demo_evidenced) of Inr q \<Rightarrow> ql_version q = 1 \<and> 0 < ql_score q | Inl _ \<Rightarrow> False"
    unfolding demo_evidenced_def demo_ledger_eq by code_simp
  moreover have "case fst (evaluate_lead ''lead_0'' ''run'' (Some demo_prose) demo_evidenced) of Inr q \<Rightarrow> ql_version q = 1 \<and> 0 < ql_score q | Inl _ \<Rightarrow> False"
    unfolding demo_evidenced_def demo_ledger_eq by code_simp
  ultimately show ?thesis using that by blast
qed

lemma demo_evaluated:
  "pm = None \<or> pm = Some demo_prose \<Longrightarrow> \<exists>q s'. evaluate_lead ''lead_0'' ''run'' pm demo_evidenced = (Inr q, s') \<and> ql_version q = 1 \<and> 0 < ql_score q"
  using demo_evaluation [of pm] by (cases "evaluate_lead ''lead_0'' ''run'' pm demo_evidenced") (auto split: sum.splits)

section \<open>Bounds\<close>

text \<open>C26: a score is bounded and made of its parts.  Whenever a lead is evaluated, with or without a language
  model, the total and each of the six sub-scores lie between 0 and 100, and the total is the weighted sum of
  the sub-scores, rounded to two places.\<close>

theorem score_bounds:
  assumes "evaluate_lead lid rid pm s = (Inr q, s')"
  shows "percent (ql_score q) \<and> percent (ql_icp_fit q) \<and> percent (ql_pain_signal q) \<and> percent (ql_urgency q) \<and>
    percent (ql_economic_potential q) \<and> percent (ql_accessibility q) \<and> percent (ql_confidence q) \<and>
    ql_score q = total_score [(''icp_fit'', ql_icp_fit q), (''pain_signal'', ql_pain_signal q), (''urgency'', ql_urgency q),
      (''economic_potential'', ql_economic_potential q), (''accessibility'', ql_accessibility q), (''confidence'', ql_confidence q)]"
proof -
  obtain x s1 where x: "evaluation lid s = (Inr x, s1)" "record_qualification (scored lid rid x pm) s1 = (Inr q, s')"
    using assms unfolding evaluate_lead_eq by (rule bind_InrE)
  have "good_scores (scored lid rid x pm)"
    using op_postD [OF evaluation_post x(1)] unfolding scored_def case_prod_unfold Let_def by (auto intro: score_lead_good)
  moreover obtain v where "q = (scored lid rid x pm)\<lparr>ql_version := v\<rparr>" using op_postD [OF record_qualification_post x(2)] by blast
  ultimately have "good_scores q" by (simp add: good_scores_version)
  then show ?thesis unfolding good_scores_def by blast
qed

theorem score_bounds_witness:
  "\<exists>q s'. evaluate_lead ''lead_0'' ''run'' None demo_evidenced = (Inr q, s') \<and> 0 < ql_score q \<and> percent (ql_score q)"
  using demo_evaluated [of None] score_bounds [of "''lead_0''" "''run''" None demo_evidenced] by blast

section \<open>The model only writes prose\<close>

text \<open>C27: a language model cannot move a score.  Evaluating a lead with a model and without one from the same
  ledger gives records that agree in every field but the reasoning text and the name and address of the model.\<close>

theorem model_cannot_score:
  assumes "evaluate_lead lid rid pm s = (Inr q, s1)" and "evaluate_lead lid rid None s = (Inr q0, s0)"
  shows "q = q0\<lparr>ql_reasoning := ql_reasoning q, ql_model := ql_model q, ql_model_version := ql_model_version q\<rparr>"
proof -
  obtain x t where x: "evaluation lid s = (Inr x, t)" "record_qualification (scored lid rid x pm) t = (Inr q, s1)"
    using assms(1) unfolding evaluate_lead_eq by (rule bind_InrE)
  have x0: "record_qualification (scored lid rid x None) t = (Inr q0, s0)"
    using assms(2) x(1) unfolding evaluate_lead_eq by (simp add: op_bind_apply)
  have q: "q = (scored lid rid x pm)\<lparr>ql_version := version_for (scored lid rid x pm) t\<rparr>"
    using x(2) by (rule record_qualification_inv)
  have q0: "q0 = (scored lid rid x None)\<lparr>ql_version := version_for (scored lid rid x None) t\<rparr>"
    using x0 by (rule record_qualification_inv)
  have "version_for (scored lid rid x pm) t = version_for (scored lid rid x None) t"
    by (simp add: version_for_def scored_def case_prod_unfold Let_def)
  then show ?thesis unfolding q q0 by (simp add: scored_def case_prod_unfold Let_def)
qed

theorem model_cannot_score_witness:
  "\<exists>q s1 q0 s0. evaluate_lead ''lead_0'' ''run'' (Some demo_prose) demo_evidenced = (Inr q, s1) \<and>
     evaluate_lead ''lead_0'' ''run'' None demo_evidenced = (Inr q0, s0) \<and> ql_score q = ql_score q0"
proof -
  obtain q s1 where q: "evaluate_lead ''lead_0'' ''run'' (Some demo_prose) demo_evidenced = (Inr q, s1)"
    using demo_evaluated [of "Some demo_prose"] by blast
  obtain q0 s0 where q0: "evaluate_lead ''lead_0'' ''run'' None demo_evidenced = (Inr q0, s0)"
    using demo_evaluated [of None] by blast
  have "ql_score q = ql_score q0" by (subst model_cannot_score [OF q q0]) simp
  then show ?thesis using q q0 by blast
qed

section \<open>Reading a score back\<close>

lemma qualification_columns: "column_in ''qualifications'' ''version''" "column_in ''qualifications'' ''lead_id''"
  by code_simp+

definition reads_version :: "doc list \<Rightarrow> string \<Rightarrow> doc \<times> lead_scores \<times> doc list \<times> doc list \<times> env \<times> int \<times> string \<times> time \<Rightarrow> bool" where
  "reads_version X lid x = (case x of (co, l, evs, pps, e, v, qid, t) \<Rightarrow> v = next_version_of X lid)"

lemma reads_keep [op_inv_intros]:
  "op_inv P (rows_of t)" "op_inv P (decode_rows t rs)"
  unfolding rows_of_def decode_rows_def by (intro op_inv_intros)+

lemma evaluation_keeps: "op_inv (keeps ''qualifications'' X) (evaluation lid)"
  unfolding evaluation_def evidence_for_def pain_points_for_def active_icp_def contacts_for_def sel_by_def next_qualification_version_def Let_def one_ref_def one_row_def
  by (intro op_inv_intros) (auto split: pyval.split intro!: op_inv_intros)

lemma evaluation_version:
  assumes "evaluation lid s = (Inr x, s')"
  shows "reads_version (sl_tables s' ''qualifications'') lid x"
proof -
  have fin: "op_triple P (op_bind (next_qualification_version lid) (\<lambda>v. op_bind (sl_id ''qual'') (\<lambda>qid. op_bind sl_now (\<lambda>t.
      op_return (co, l, evs, pps, e, v, qid, t))))) (\<lambda>x s. reads_version (sl_tables s ''qualifications'') lid x)" for P co l evs pps e
    by (auto simp: op_triple_def op_bind_apply next_version_run sl_id_def sl_now_def reads_version_def)
  have opt: "op_triple P m Q \<Longrightarrow> (\<And>y. op_triple P (f y) Q) \<Longrightarrow> op_triple P (case z of None \<Rightarrow> m | Some y \<Rightarrow> f y) Q"
    for P m Q f and z :: "doc option" by (cases z) auto
  have raise: "op_triple P (op_raise er) Q" for P er Q by (simp add: op_triple_def)
  have cond: "op_triple P m Q \<Longrightarrow> op_triple P n Q \<Longrightarrow> op_triple P (if b then m else n) Q" for P m n Q b by simp
  have "op_triple (\<lambda>_. True) (evaluation lid) (\<lambda>x s. reads_version (sl_tables s ''qualifications'') lid x)"
    unfolding evaluation_def by (rule fin opt raise cond triple_bind [OF triple_any])+
  then show ?thesis using assms unfolding op_triple_def by blast
qed

lemma sorted_le_last: "sorted (map f ys) \<Longrightarrow> y \<in> set ys \<Longrightarrow> f y \<le> f (last ys)"
  by (induction ys) auto

lemma last_sort_key:
  assumes "\<And>y. y \<in> set xs \<Longrightarrow> f y < f x"
  shows "last (sort_key f (xs @ [x])) = x"
proof (rule ccontr)
  let ?ys = "sort_key f (xs @ [x])"
  have ne: "?ys \<noteq> []" using set_sort [of f "xs @ [x]"] by fastforce
  assume "last ?ys \<noteq> x"
  moreover have "last ?ys \<in> set (xs @ [x])" using last_in_set [OF ne] unfolding set_sort .
  ultimately have "f (last ?ys) < f x" using assms by auto
  moreover have "f x \<le> f (last ?ys)" by (rule sorted_le_last [OF sorted_sort_key]) simp
  ultimately show False by simp
qed

lemma decode_good_qualification: "good_qualification r \<Longrightarrow> decode_row ''qualifications'' r = Inr (map (\<lambda>(k, v). (k, decode_cell k v)) r)"
  by (auto simp: decode_row_def enum_sound_def ENUM_FIELDS_def good_qualification_def claim_tier_members_all)

lemma map_sum_list_all: "(\<And>x. x \<in> set xs \<Longrightarrow> f x = Inr (g x)) \<Longrightarrow> map_sum_list f xs = Inr (map g xs)"
  by (induction xs) auto

lemma qualifications_for_run:
  assumes "sales_ok s"
  shows "qualifications_for lid s = (Inr (map (\<lambda>r. map (\<lambda>(k, v). (k, decode_cell k v)) r)
    (sort_key (\<lambda>r. get_int r ''version'' 0) (filter (is_cell ''lead_id'' lid) (sl_tables s ''qualifications'')))), s)"
proof -
  have "decode_row ''qualifications'' r = Inr (map (\<lambda>(k, v). (k, decode_cell k v)) r)" if "r \<in> set (sl_tables s ''qualifications'')" for r
    using sales_okD [OF assms that] by (intro decode_good_qualification) (auto simp: good_row_def)
  then have "map_sum_list (decode_row ''qualifications'') (sort_key (\<lambda>r. get_int r ''version'' 0) (filter (is_cell ''lead_id'' lid) (sl_tables s ''qualifications'')))
      = Inr (map (\<lambda>r. map (\<lambda>(k, v). (k, decode_cell k v)) r)
          (sort_key (\<lambda>r. get_int r ''version'' 0) (filter (is_cell ''lead_id'' lid) (sl_tables s ''qualifications''))))"
    by (intro map_sum_list_all) simp
  then show ?thesis by (simp add: qualifications_for_def sel_by_def rows_of_def decode_rows_def op_bind_apply)
qed

lemma get_num_decoded: "k \<notin> {''evidence_ids'', ''signals'', ''is_decision_maker'', ''active''} \<Longrightarrow>
    get_num (map (\<lambda>(k, v). (k, decode_cell k v)) r) k = get_num r k"
proof -
  assume "k \<notin> {''evidence_ids'', ''signals'', ''is_decision_maker'', ''active''}"
  then have "decode_cell k = (\<lambda>v. v)" by (simp add: decode_cell_def fun_eq_iff)
  then show ?thesis using dget_map_val [of decode_cell r k] by (simp add: get_num_def option.map_id0 [unfolded id_def])
qed

lemma get_int_decoded: "get_int (map (\<lambda>(k, v). (k, decode_cell k v)) r) ''version'' n = get_int r ''version'' n"
proof -
  have "decode_cell ''version'' = (\<lambda>v. v)" by (simp add: decode_cell_def fun_eq_iff)
  then show ?thesis using dget_map_val [of decode_cell r "''version''"] by (simp add: get_int_def option.map_id0 [unfolded id_def])
qed

definition stored_as :: "doc \<Rightarrow> qualification \<Rightarrow> bool" where
  "stored_as r q \<longleftrightarrow> get_int r ''version'' 0 = ql_version q \<and> get_num r ''score'' = ql_score q"

lemma insert_rec_run:
  assumes "insert_rec ''qualifications'' (qualification_dict q) s = (Inr d, s')" and "ql_lead_id q \<noteq> []"
  obtains r where "sl_tables s' ''qualifications'' = sl_tables s ''qualifications'' @ [r]" "is_cell ''lead_id'' (ql_lead_id q) r" "stored_as r q"
proof -
  obtain cols where sch: "schema_of ''qualifications'' = Some cols" using qualification_columns(1) by (auto simp: column_in_def split: option.splits)
  let ?d = "encode_doc (null_refs (qualification_dict q))"
  have v: "dget (row_of cols ?d) ''version'' = Some (VInt (ql_version q))" "dget (row_of cols ?d) ''score'' = Some (VFloat (ql_score q))"
    by (rule inserted_same [OF sch]; simp add: qualification_columns sales_columns qualification_dict_def REF_KEYS_def)+
  have l: "dget (row_of cols ?d) ''lead_id'' = Some (VStr (ql_lead_id q))"
  proof (rule dget_row_of)
    show "''lead_id'' \<in> set (map cl_name cols)" using qualification_columns(2) sch by (simp add: column_in_def)
    show "dget ?d ''lead_id'' = Some (VStr (ql_lead_id q))"
      using assms(2) by (simp add: null_refs_def encode_doc_def qualification_dict_def)
  qed
  have "sql_insert ''qualifications'' ?d s = (Inr (), s')"
    using assms(1) by (auto simp: insert_rec_def Let_def op_then_apply split: sum.splits prod.splits)
  then have "sl_tables s' ''qualifications'' = sl_tables s ''qualifications'' @ [row_of cols ?d]"
    using sch by (auto simp: sql_insert_def Let_def split: if_splits)
  then show ?thesis
    using that [of "row_of cols ?d"] v l by (simp add: is_cell_def cell_def stored_as_def get_int_def get_num_def)
qed

text \<open>C28: a recorded score reads back and recomputes.  On a sound ledger, right after a lead is evaluated, its
  latest stored scoring is the one just returned: same version, same total; recomputing the total from the
  stored sub-scores gives the same number, so the breakdown reports a match.\<close>

theorem recorded_score_reads_back:
  assumes "sales_ok s" and "evaluate_lead lid rid pm s = (Inr q, s')" and "lid \<noteq> []"
  shows "\<exists>k. score_breakdown lid s' = (Inr (Some k), s') \<and> sk_version k = ql_version q \<and> sk_stored k = ql_score q \<and>
    sk_recomputed k = ql_score q \<and> score_matches k"
proof -
  have ok': "sales_ok s'" using op_invD [OF evaluate_lead_sales assms(1,2)] .
  obtain x t where x: "evaluation lid s = (Inr x, t)" "record_qualification (scored lid rid x pm) t = (Inr q, s')"
    using assms(2) unfolding evaluate_lead_eq by (rule bind_InrE)
  obtain d d1 s1 where h: "q = (scored lid rid x pm)\<lparr>ql_version := version_for (scored lid rid x pm) t\<rparr>"
      "insert_rec ''qualifications'' (qualification_dict q) t = (Inr d1, s1)" "sl_tables s' ''qualifications'' = sl_tables s1 ''qualifications''"
    using x(2) by (rule record_qualification_inv)
  have lid: "ql_lead_id q = lid" unfolding h(1) by (simp add: scored_def case_prod_unfold Let_def)
  let ?rs = "sl_tables t ''qualifications''"
  have ver: "ql_version q = next_version_of ?rs lid"
    using evaluation_version [OF x(1)] unfolding h(1)
    by (auto simp: version_for_def scored_def reads_version_def case_prod_unfold Let_def)
  obtain r where r: "sl_tables s1 ''qualifications'' = ?rs @ [r]" "is_cell ''lead_id'' lid r" "stored_as r q"
    using insert_rec_run [OF h(2)] assms(3) unfolding lid by blast
  have "get_int y ''version'' 0 < get_int r ''version'' 0" if "y \<in> set (filter (is_cell ''lead_id'' lid) ?rs)" for y
    using that next_version_fresh [of y ?rs lid] r(3) ver by (auto simp: stored_as_def)
  then have last: "last (sort_key (\<lambda>r. get_int r ''version'' 0) (filter (is_cell ''lead_id'' lid) (?rs @ [r]))) = r"
    using r(2) last_sort_key [of "filter (is_cell ''lead_id'' lid) ?rs" "\<lambda>r. get_int r ''version'' 0" r] by (simp del: sort_key_simps)
  let ?r = "map (\<lambda>(k, v). (k, decode_cell k v)) r"
  have ne: "sort_key (\<lambda>r. get_int r ''version'' 0) (filter (is_cell ''lead_id'' lid) (?rs @ [r])) \<noteq> []"
    using r(2) set_sort [of "\<lambda>r. get_int r ''version'' 0" "filter (is_cell ''lead_id'' lid) (?rs @ [r])"] by fastforce
  have lat: "latest_qualification lid s' = (Inr (Some ?r), s')"
    unfolding latest_qualification_def op_bind_apply qualifications_for_run [OF ok'] h(3) r(1)
    using ne last by (simp add: last_map)
  have "good_qualification r" using sales_okD [OF ok', of r "''qualifications''"] h(3) r(1) by (auto simp: good_row_def)
  then have g: "get_num r ''score'' = total_score (stored_subs r)" by (simp add: good_qualification_def)
  have sub: "stored_subs ?r = stored_subs r" by (simp add: stored_subs_def WEIGHTS_def get_num_decoded)
  show ?thesis
    using r(3) g sub by (auto simp: score_breakdown_def op_bind_apply lat stored_as_def get_int_decoded get_num_decoded score_matches_def)
qed

theorem recorded_score_reads_back_witness:
  "\<exists>q s' k. evaluate_lead ''lead_0'' ''run'' None demo_evidenced = (Inr q, s') \<and> score_breakdown ''lead_0'' s' = (Inr (Some k), s') \<and>
     sk_version k = 1 \<and> score_matches k"
proof -
  obtain q s' where q: "evaluate_lead ''lead_0'' ''run'' None demo_evidenced = (Inr q, s')" "ql_version q = 1"
    using demo_evaluated [of None] by blast
  show ?thesis using q recorded_score_reads_back [OF demo_evidenced_ok q(1)] by auto
qed

section \<open>The verification checks\<close>

lemma op_mapM_pure:
  assumes "\<And>x. x \<in> set xs \<Longrightarrow> \<exists>y. f x s = (Inr y, s) \<and> Q y"
  shows "\<exists>ys. op_mapM f xs s = (Inr ys, s) \<and> list_all Q ys"
  using assms
proof (induction xs)
  case (Cons x xs)
  obtain y where y: "f x s = (Inr y, s)" "Q y" using Cons.prems [of x] by auto
  obtain ys where ys: "op_mapM f xs s = (Inr ys, s)" "list_all Q ys" using Cons by auto
  show ?case using y ys by (simp add: op_bind_apply)
qed simp

lemma score_mismatch_none:
  assumes "sales_ok s"
  shows "score_mismatch lid s = (Inr [], s)"
proof -
  let ?rs = "sort_key (\<lambda>r. get_int r ''version'' 0) (filter (is_cell ''lead_id'' lid) (sl_tables s ''qualifications''))"
  let ?dec = "\<lambda>r. map (\<lambda>(k, v). (k, decode_cell k v)) r"
  show ?thesis
  proof (cases "?rs = []")
    case True
    then show ?thesis
      by (simp add: score_mismatch_def score_breakdown_def latest_qualification_def op_bind_apply qualifications_for_run [OF assms])
  next
    case False
    have "last ?rs \<in> set ?rs" using False by (rule last_in_set)
    then have "good_qualification (last ?rs)" using sales_okD [OF assms, of "last ?rs" "''qualifications''"] by (simp add: good_row_def)
    then have "total_score (stored_subs (?dec (last ?rs))) = get_num (?dec (last ?rs)) ''score''"
      by (simp add: good_qualification_def stored_subs_def WEIGHTS_def get_num_decoded)
    then show ?thesis
      using False by (simp add: score_mismatch_def score_breakdown_def latest_qualification_def op_bind_apply qualifications_for_run [OF assms]
          last_map score_matches_def)
  qed
qed

lemma lead_found_by_id:
  assumes "sales_ok s" and "r \<in> set (sl_tables s ''leads'')"
  shows "\<exists>d. require_lead (get_str r ''id'') s = (Inr d, s)"
proof -
  have "good_lead r" using sales_okD [OF assms] by (simp add: good_row_def)
  then obtain i where i: "cell r ''id'' = VStr i" unfolding good_lead_def by blast
  obtain x where "row_with i (sl_tables s ''leads'') = Some x" using row_with_found [OF assms(2) i] by blast
  then show ?thesis using require_lead_good [OF assms(1)] get_str_of_cell [OF i] by metis
qed

text \<open>C29: the sales verification checks hold of every ledger the program has written.  On a reachable ledger the
  checks that recompute every score, that look for unsourced evidence and that look for undocumented stages
  return \<open>PASS\<close> and change nothing.\<close>

theorem sales_checks_hold:
  assumes "sales_reachable e s"
  shows "(\<exists>r. score_recomputes [] s = (Inr r, s) \<and> passed r) \<and>
    (\<exists>r. evidence_has_source s = (Inr r, s) \<and> passed r) \<and> (\<exists>r. pipeline_legal s = (Inr r, s) \<and> passed r)"
proof (intro conjI)
  have ok: "sales_ok s" using assms by (rule sales_reachable_ok)
  have "\<exists>lds. op_mapM require_lead (map (\<lambda>l. get_str l ''id'') (sl_tables s ''leads'')) s = (Inr lds, s) \<and> list_all (\<lambda>_. True) lds"
    by (rule op_mapM_pure) (use lead_found_by_id [OF ok] in auto)
  then obtain lds where lds: "op_mapM require_lead (map (\<lambda>l. get_str l ''id'') (sl_tables s ''leads'')) s = (Inr lds, s)" by blast
  have "\<exists>fs. op_mapM (\<lambda>d. score_mismatch (get_str d ''id'')) lds s = (Inr fs, s) \<and> list_all (\<lambda>x. x = []) fs"
    by (rule op_mapM_pure) (simp add: score_mismatch_none [OF ok])
  then obtain fs where fs: "op_mapM (\<lambda>d. score_mismatch (get_str d ''id'')) lds s = (Inr fs, s)" "concat fs = []"
    by (auto simp: list_all_iff)
  show "\<exists>r. score_recomputes [] s = (Inr r, s) \<and> passed r"
    using lds fs by (simp add: score_recomputes_def get_truthy_def rows_of_def op_bind_apply Let_def check_pass_passes)
  have "\<not> sql_blank (cell r ''source_ref'')" if "r \<in> set (sl_tables s ''sales_evidence'')" for r
  proof -
    have "good_evidence r" using sales_okD [OF ok that] by (simp add: good_row_def)
    then obtain src where "cell r ''source_ref'' = VStr src" "str_strip src \<noteq> []" unfolding good_evidence_def by blast
    then show ?thesis using strip_nonblank by metis
  qed
  then have "filter (\<lambda>r. sql_blank (cell r ''source_ref'')) (sl_tables s ''sales_evidence'') = []"
    by (simp add: filter_empty_conv)
  then show "\<exists>r. evidence_has_source s = (Inr r, s) \<and> passed r"
    by (simp add: evidence_has_source_def rows_check_run check_pass_passes)
  have "\<not> stage_undocumented r" if "r \<in> set (sl_tables s ''leads'')" for r
  proof -
    have "good_lead r" using sales_okD [OF ok that] by (simp add: good_row_def)
    then show ?thesis by (auto simp: good_lead_def is_stage_def stage_undocumented_def)
  qed
  then have "filter stage_undocumented (sl_tables s ''leads'') = []" by (simp add: filter_empty_conv)
  then show "\<exists>r. pipeline_legal s = (Inr r, s) \<and> passed r"
    by (simp add: pipeline_legal_def rows_check_run check_pass_passes)
qed

theorem sales_checks_hold_witness: "\<exists>r. score_recomputes [] demo_ledger = (Inr r, demo_ledger) \<and> passed r"
  using sales_checks_hold [OF demo_reachable] by blast

text \<open>the daily report and its verification agree.  For a day given by its ISO date, the counts that the daily
  report carries are exactly an expectation that the check \<open>sales_metrics_match_ledger\<close> accepts on the same ledger,
  and no other value of a count is accepted.\<close>

theorem report_counts_verify:
  assumes "date_of_iso day = Inr d"
  shows "\<exists>cs. daily_counts day s = (Inr cs, s) \<and>
    (\<exists>r. metrics_match_ledger [(''day'', VStr day), (''expect'', VDict (counts_dict cs))] s = (Inr r, s) \<and> passed r) \<and>
    (\<forall>k n m. dget cs k = Some n \<and> m \<noteq> n \<longrightarrow>
      (\<exists>r. metrics_match_ledger [(''day'', VStr day), (''expect'', VDict [(k, VInt m)])] s = (Inr r, s) \<and> \<not> passed r))"
proof -
  let ?cs = "counts_of (sl_tables s) (epoch_of_date d, epoch_of_date d + 86400)"
  have c: "daily_counts day s = (Inr ?cs, s)" using assms by (rule daily_counts_eq)
  have own: "metric_diffs ?cs (counts_dict ?cs) = []" by (rule metric_diffs_own [OF counts_of_distinct])
  have ne: "counts_dict ?cs \<noteq> []" by (simp add: counts_dict_def counts_of_def Let_def)
  have day: "get_str [(''day'', VStr day), (''expect'', x)] ''day'' = day" for x by (simp add: get_str_def)
  have ex: "get_dict [(''day'', VStr day), (''expect'', VDict x)] ''expect'' = x" for x by (simp add: get_dict_def)
  have "\<exists>r. metrics_match_ledger [(''day'', VStr day), (''expect'', VDict (counts_dict ?cs))] s = (Inr r, s) \<and> passed r"
    by (simp add: metrics_match_ledger_def day ex op_bind_apply c own ne Let_def check_pass_passes)
  moreover have "\<exists>r. metrics_match_ledger [(''day'', VStr day), (''expect'', VDict [(k, VInt m)])] s = (Inr r, s) \<and> \<not> passed r"
    if "dget ?cs k = Some n" "m \<noteq> n" for k n m
  proof -
    have "metric_diffs ?cs [(k, VInt m)] \<noteq> []"
      unfolding metric_diffs_def using that by (simp add: map_filter_simps Let_def py_eq_def)
    then show ?thesis by (simp add: metrics_match_ledger_def day ex op_bind_apply c Let_def check_fail_fails)
  qed
  ultimately show ?thesis using c by blast
qed

theorem report_counts_verify_witness:
  "\<exists>cs. daily_counts ''2024-02-29'' demo_ledger = (Inr cs, demo_ledger)"
proof -
  have "date_of_iso ''2024-02-29'' = Inr (2024, 2, 29)" by code_simp
  then show ?thesis using report_counts_verify by blast
qed

end
