(* ===== verification/Sales_Sends.thy ===== *)
theory Sales_Sends
  imports Sales_Frames
begin

text \<open>
  What leaves the company: a send is recorded only for an approved draft, and once;
  a rewritten draft states no number of its own; a company has one lead; a reminder is booked once;
  and no tool opens a ledger outside the worker's roots.
\<close>

section \<open>Numbers of a rewritten draft\<close>

lemma space_no_number: "is_space c \<Longrightarrow> \<not> num_char c \<and> \<not> is_rx_digit c \<and> c \<noteq> CHR ''.''"
  by (auto simp: is_space_def num_char_def is_rx_digit_def Let_def)

lemma spaces_no_tokens: "list_all is_space w \<Longrightarrow> number_tokens w = []"
  by (induction w) (auto dest: space_no_number)

lemma takeWhile_spaces: "list_all is_space w \<Longrightarrow> \<forall>c. is_space c \<longrightarrow> \<not> P c \<Longrightarrow> takeWhile P (s @ w) = takeWhile P s"
  by (induction s) (auto, cases w, auto)

lemma dropWhile_spaces: "list_all is_space w \<Longrightarrow> \<forall>c. is_space c \<longrightarrow> \<not> P c \<Longrightarrow> dropWhile P (s @ w) = dropWhile P s @ w"
  by (induction s) (auto, cases w, auto)

lemma dec_tail_spaces:
  assumes "list_all is_space w"
  shows "dec_tail (s @ w) = (fst (dec_tail s), snd (dec_tail s) @ w)"
proof -
  have d: "\<forall>c. is_space c \<longrightarrow> \<not> is_rx_digit c" using space_no_number by blast
  show ?thesis
  proof (cases s)
    case Nil
    have "dec_tail w = ([], w)" using assms space_no_number by (cases w) (auto simp: dec_tail_def split: list.split)
    then show ?thesis using Nil by (simp add: dec_tail_def)
  next
    case (Cons p ds)
    show ?thesis
    proof (cases ds)
      case Nil
      have "dec_tail (p # w) = ([], p # w)" using assms space_no_number by (cases w) (auto simp: dec_tail_def)
      then show ?thesis using Cons Nil by (simp add: dec_tail_def)
    next
      case (Cons d es)
      then show ?thesis
        using \<open>s = p # ds\<close> takeWhile_spaces [OF assms d] dropWhile_spaces [OF assms d] by (simp add: dec_tail_def)
    qed
  qed
qed

lemma number_tokens_trailing:
  assumes "list_all is_space w"
  shows "number_tokens (s @ w) = number_tokens s"
proof (induction s rule: number_tokens.induct)
  case 1
  then show ?case using spaces_no_tokens [OF assms] by simp
next
  case (2 c cs)
  have n: "\<forall>c. is_space c \<longrightarrow> \<not> num_char c" using space_no_number by blast
  show ?case
  proof (cases "is_rx_digit c")
    case True
    have "number_tokens (snd (dec_tail (dropWhile num_char cs)) @ w) = number_tokens (snd (dec_tail (dropWhile num_char cs)))"
      by (rule 2(1) [OF True refl, of "fst (dec_tail (dropWhile num_char cs))"]) simp
    then show ?thesis
      using True takeWhile_spaces [OF assms n] dropWhile_spaces [OF assms n] dec_tail_spaces [OF assms]
      by (simp add: case_prod_unfold Let_def)
  next
    case False
    then show ?thesis using 2(2) by simp
  qed
qed

lemma number_tokens_leading: "number_tokens (dropWhile is_space s) = number_tokens s"
  by (induction s) (auto dest: space_no_number)

lemma strip_splits: "\<exists>w. list_all is_space w \<and> dropWhile is_space s = str_strip s @ w"
proof -
  let ?x = "rev (dropWhile is_space s)"
  have "?x = takeWhile is_space ?x @ dropWhile is_space ?x" by simp
  then have "dropWhile is_space s = rev (dropWhile is_space ?x) @ rev (takeWhile is_space ?x)" by (metis rev_append rev_rev_ident)
  then show ?thesis
    by (intro exI [of _ "rev (takeWhile is_space ?x)"]) (auto simp: str_strip_def list_all_iff dest: set_takeWhileD)
qed

lemma numbers_in_strip: "numbers_in (str_strip s) = numbers_in s"
  using strip_splits [of s] number_tokens_trailing number_tokens_leading [of s] unfolding numbers_in_def by metis

lemma str_strip_length: "length (str_strip s) \<le> length s"
  unfolding str_strip_def by (metis length_dropWhile_le length_rev le_trans)

text \<open>C30: a rewritten draft invents no number.  Whatever a language model returns for a draft, every number in
  the text that \<open>prepare\<close> stores already stands in the deterministic draft, and the text is at most four times as long.\<close>

theorem rewrite_adds_no_number:
  "numbers_in (fst (rewrite pm body)) \<subseteq> numbers_in body \<and> length (fst (rewrite pm body)) \<le> 4 * max (length body) 1"
proof (cases "fst (rewrite pm body) = body")
  case False
  then obtain cand where c: "fst (rewrite pm body) = str_strip cand" "fst (validate_rewrite body cand)"
    using rewrite_cases [of pm body] by (metis fst_conv)
  have "length cand \<le> 4 * max (length body) 1" using c(2) by (simp add: validate_rewrite_def Let_def split: if_splits)
  then show ?thesis
    using c(1) validate_rewrite_numbers [OF c(2)] str_strip_length [of cand] by (simp add: numbers_in_strip)
qed simp

section \<open>Sends\<close>

text \<open>The abstract view of a draft: its state and its approver.\<close>

definition draft_view :: "ledger \<Rightarrow> string \<Rightarrow> (string \<times> string) option" where
  "draft_view s did = map_option (\<lambda>r. (get_str r ''state'', get_str r ''approved_by'')) (row_with did (sl_tables s ''outreach_drafts''))"

lemma draft_view_cong: "sl_tables s' ''outreach_drafts'' = sl_tables s ''outreach_drafts'' \<Longrightarrow> draft_view s' did = draft_view s did"
  by (simp add: draft_view_def)

lemma decode_good_draft: "good_draft r \<Longrightarrow> \<exists>d. decode_row ''outreach_drafts'' r = Inr d"
proof -
  assume "good_draft r"
  then obtain st where "cell r ''state'' = VStr (outreach_state_value st)" unfolding good_draft_def by blast
  moreover have "outreach_state_value st \<in> set (map outreach_state_value outreach_state_members)"
    by (cases st) (simp_all add: outreach_state_members_def)
  moreover have "dget ENUM_FIELDS ''outreach_drafts'' = Some (''state'', map outreach_state_value outreach_state_members)"
    by (simp add: ENUM_FIELDS_def)
  ultimately have "enum_sound ''outreach_drafts'' r" unfolding enum_sound_def by (metis (no_types, lifting) image_eqI list.set_map old.prod.case option.simps(5))
  then show ?thesis by (simp add: decode_row_def)
qed

lemma get_draft_cases:
  assumes "sales_ok s"
  shows "(get_draft did s = (Inr None, s) \<and> draft_view s did = None) \<or>
    (\<exists>d r. get_draft did s = (Inr (Some d), s) \<and> row_with did (sl_tables s ''outreach_drafts'') = Some r \<and>
       get_str d ''state'' = get_str r ''state'' \<and> draft_view s did = Some (get_str r ''state'', get_str r ''approved_by'') \<and> good_draft r)"
proof (cases "row_with did (sl_tables s ''outreach_drafts'')")
  case None
  then show ?thesis by (simp add: get_draft_def one_row_def rows_of_def op_bind_apply draft_view_def row_with_def)
next
  case (Some r)
  have "r \<in> set (sl_tables s ''outreach_drafts'')" using row_withD [OF Some] by blast
  then have "good_draft r" using sales_okD [OF assms] by (simp add: good_row_def)
  moreover obtain d where d: "decode_row ''outreach_drafts'' r = Inr d" using decode_good_draft [OF calculation] by blast
  moreover have "get_str d ''state'' = get_str r ''state''" using decode_cell_of [OF d, of "''state''"] by (simp add: get_str_def)
  ultimately show ?thesis
    using Some by (simp add: get_draft_def one_row_def rows_of_def op_bind_apply draft_view_def row_with_def)
qed

lemma not_approved_refused:
  assumes "sales_ok s" and "\<forall>b. draft_view s did \<noteq> Some (outreach_state_value Out_Approved, b)"
  shows "record_sent did receipt ex s = (Inl SalesError, s)"
  using get_draft_cases [OF assms(1), of did] assms(2)
  by (auto simp: record_sent_eq op_bind_apply [of "get_draft did"])

lemma approved_has_name:
  assumes "sales_ok s" and "draft_view s did = Some (outreach_state_value Out_Approved, b)"
  shows "b \<noteq> []"
proof -
  obtain r where r: "good_draft r" "get_str r ''state'' = outreach_state_value Out_Approved" "get_str r ''approved_by'' = b"
    using get_draft_cases [OF assms(1), of did] assms(2) by auto
  obtain st where st: "cell r ''state'' = VStr (outreach_state_value st)"
      "st \<in> {Out_Approved, Out_Sent} \<longrightarrow> (\<exists>b. cell r ''approved_by'' = VStr b \<and> b \<noteq> [])"
    using r(1) unfolding good_draft_def by blast
  have "outreach_state_value st = outreach_state_value Out_Approved" using get_str_of_cell [OF st(1)] r(2) by simp
  then have "st = Out_Approved" by (simp only: outreach_values)
  then show ?thesis using st(2) r(3) get_str_of_cell by auto
qed

text \<open>What follows the marking of the draft writes other tables only.\<close>

lemma rows_of_keep [op_inv_intros]: "op_inv (keeps t X) (rows_of t')"
  by (simp add: op_inv_def rows_of_def)

lemma sql_reads_keep [op_inv_intros]: "op_inv (keeps t X) (sel_by t' P k)" "op_inv (keeps t X) sl_today" "op_inv (keeps t X) (one_row t' rid)"
  unfolding sel_by_def decode_rows_def sl_today_def one_row_def by (intro op_inv_intros)+

lemma insert_auto_keeps: "t' \<noteq> t \<Longrightarrow> op_inv (keeps t X) (insert_auto t' d)"
  unfolding insert_auto_def by (intro op_inv_intros sql_insert_keeps rows_of_keep)

lemma bump_sent_keeps: "t \<noteq> ''experiment_metrics'' \<Longrightarrow> op_inv (keeps t X) (bump_sent ex day)"
  unfolding bump_sent_def by (intro op_inv_intros insert_auto_keeps) (auto simp: op_inv_def keeps_def op_modify_def)

lemma feed_experiment_keeps: "t \<notin> {''experiment_metrics'', ''outreach_touches''} \<Longrightarrow> op_inv (keeps t X) (feed_experiment d ex)"
  unfolding feed_experiment_def get_lead_def Let_def by (intro op_inv_intros bump_sent_keeps insert_auto_keeps) auto

lemma schedule_followup_keeps: "t \<notin> {''followups'', ''leads''} \<Longrightarrow> op_inv (keeps t X) (schedule_followup fu)"
  unfolding schedule_followup_def by (intro op_inv_intros insert_rec_keeps update_rec_keeps) (auto split: sum.split intro!: op_inv_intros insert_rec_keeps update_rec_keeps)

lemma create_task_keeps: "t \<noteq> ''tasks'' \<Longrightarrow> op_inv (keeps t X) (create_task tk)"
  unfolding create_task_def by (intro op_inv_intros insert_rec_keeps) simp

lemma schedule_for_lead_keeps: "t \<notin> {''followups'', ''leads'', ''tasks''} \<Longrightarrow> op_inv (keeps t X) (schedule_for_lead lid seqs rid)"
  unfolding schedule_for_lead_def open_followups_def due_followups_def touches_of_def drafts_def book_followup_def
  by (auto intro!: op_inv_intros schedule_followup_keeps create_task_keeps split: list.split option.split)

lemma attempt_keeps: "op_inv P m \<Longrightarrow> op_inv P (attempt m)"
  by (force simp: op_inv_def attempt_def split: prod.split sum.split)

lemma after_mark_keeps:
  assumes "t \<notin> {''experiment_metrics'', ''outreach_touches'', ''followups'', ''leads'', ''tasks'', ''activities''}"
  shows "op_inv (keeps t X) (after_mark did receipt ex d)"
  unfolding after_mark_def Let_def
  using assms by (intro op_inv_intros attempt_keeps schedule_for_lead_keeps feed_experiment_keeps log_activity_keeps) simp_all

lemma mark_sent_view:
  assumes "update_rec ''outreach_drafts'' did (sent_changes t receipt) s = (Inr (), s')" and "row_with did (sl_tables s ''outreach_drafts'') = Some r"
  shows "draft_view s' did = Some (outreach_state_value Out_Sent, get_str r ''approved_by'')"
proof -
  have u: "sql_update ''outreach_drafts'' did (encode_doc (sent_changes t receipt)) s = (Inr (), s')"
    using assms(1) by (simp add: update_rec_def sent_changes_def)
  obtain a q b where sp: "split_at_id did (sl_tables s ''outreach_drafts'') = Some (a, q, b)"
    using split_row_with assms(2) by (cases "split_at_id did (sl_tables s ''outreach_drafts'')") fastforce+
  have c: "cell (set_cells q (encode_doc (sent_changes t receipt))) ''id'' = cell q ''id''"
    by (rule cell_set_other) (simp add: sent_changes_def)
  have "sl_tables s' ''outreach_drafts'' = a @ [set_cells q (encode_doc (sent_changes t receipt))] @ b"
    using u sp by (auto simp: sql_update_def Let_def split: option.splits if_splits)
  then have "row_with did (sl_tables s' ''outreach_drafts'') = Some (set_cells q (encode_doc (sent_changes t receipt)))" "q = r"
    using split_row_with_Some [OF sp c] assms(2) by simp_all
  then show ?thesis by (simp add: draft_view_def sent_changes_def encode_doc_def set_cells_def get_str_def)
qed

text \<open>A recorded send stays recorded: whatever the program does next, the draft is the same sent draft.\<close>

lemma recorded_send_view:
  assumes "sales_kept {(did, b)} s"
  shows "draft_view s did = Some (outreach_state_value Out_Sent, b)"
proof -
  obtain r where r: "r \<in> set (sl_tables s ''outreach_drafts'')" "sent_row (did, b) r"
    using assms by (auto simp: sales_kept_def list_ex_iff)
  then have id: "cell r ''id'' = VStr did" by (simp add: sent_row_def)
  obtain x where x1: "row_with did (sl_tables s ''outreach_drafts'') = Some x" using row_with_found [OF r(1) id] by blast
  obtain a q c where x: "row_with did (sl_tables s ''outreach_drafts'') = Some x"
      "split_at_id did (sl_tables s ''outreach_drafts'') = Some (a, q, c)"
    using x1 split_at_id_None [OF _ r(1)] id by (cases "split_at_id did (sl_tables s ''outreach_drafts'')") auto
  have "x = q" "r = q"
    using unique_by_id [OF assms x(2)] row_withD [OF x(1)] r(1) id by auto
  then have "x = r" by simp
  then show ?thesis using x(1) r(2) by (simp add: draft_view_def sent_row_def get_str_of_cell)
qed

lemma not_draft_refused:
  assumes "sales_ok s" and "\<forall>b. draft_view s did \<noteq> Some (outreach_state_value Out_Draft, b)"
  shows "approve_draft did c s = (Inl SalesError, s)"
  using get_draft_cases [OF assms(1), of did] assms(2)
  by (auto simp: approve_draft_def op_bind_apply [of "get_draft did"])

lemma sales_run_kept: "sales_step\<^sup>*\<^sup>* s s' \<Longrightarrow> sales_kept D s \<Longrightarrow> sales_kept D s'"
  by (induction rule: rtranclp_induct) (auto intro: sales_step_ok)

lemma recorded_send_final:
  assumes "sales_kept {(did, b)} s" and "sales_step\<^sup>*\<^sup>* s s'"
  shows "draft_view s' did = Some (outreach_state_value Out_Sent, b) \<and> record_sent did receipt ex s' = (Inl SalesError, s') \<and>
    approve_draft did c s' = (Inl SalesError, s')"
proof -
  have k: "sales_kept {(did, b)} s'" by (rule sales_run_kept [OF assms(2,1)])
  then have ok: "sales_ok s'" by (simp add: sales_kept_def)
  note v = recorded_send_view [OF k]
  have "outreach_state_value Out_Sent \<noteq> outreach_state_value Out_Approved" "outreach_state_value Out_Sent \<noteq> outreach_state_value Out_Draft"
    by simp_all
  then show ?thesis using v not_approved_refused [OF ok, of did receipt ex] not_draft_refused [OF ok, of did c] by (auto simp only: prod.inject option.inject)
qed

lemma record_sent_records:
  assumes ok: "sales_ok s" and run: "record_sent did receipt ex s = (Inr x, s')"
  obtains b where "draft_view s did = Some (outreach_state_value Out_Approved, b)" "b \<noteq> []" "sales_kept {(did, b)} s'"
proof -
  obtain d r where d: "get_draft did s = (Inr (Some d), s)" "row_with did (sl_tables s ''outreach_drafts'') = Some r"
      "get_str d ''state'' = outreach_state_value Out_Approved" "draft_view s did = Some (outreach_state_value Out_Approved, get_str r ''approved_by'')"
    using get_draft_cases [OF ok, of did] run by (auto simp: record_sent_eq op_bind_apply [of "get_draft did"] split: if_splits)
  define b where "b = get_str r ''approved_by''"
  have b: "b \<noteq> []" unfolding b_def by (rule approved_has_name [OF ok d(4)])
  obtain t s1 where n: "sl_now s = (Inr t, s1)" "sl_tables s1 = sl_tables s" by (simp add: sl_now_def)
  obtain s2 where m: "update_rec ''outreach_drafts'' did (sent_changes t receipt) s1 = (Inr (), s2)" "after_mark did receipt ex d s2 = (Inr x, s')"
    using run d(1,3) n(1) by (auto simp: record_sent_eq op_bind_apply op_then_apply split: prod.splits sum.splits)
  have "sl_tables s' ''outreach_drafts'' = sl_tables s2 ''outreach_drafts''"
    by (rule keepsD [OF after_mark_keeps m(2)]) simp
  then have v: "draft_view s' did = Some (outreach_state_value Out_Sent, b)"
    using mark_sent_view [OF m(1)] d(2) n(2) draft_view_cong b_def by metis
  have ok': "sales_ok s'" using op_invD [OF record_sent_sales ok run] .
  obtain q where q: "row_with did (sl_tables s' ''outreach_drafts'') = Some q" "good_draft q" "get_str q ''state'' = outreach_state_value Out_Sent"
      "get_str q ''approved_by'' = b"
    using get_draft_cases [OF ok', of did] v by auto
  have "cell q ''state'' = VStr (outreach_state_value Out_Sent)" "cell q ''approved_by'' = VStr b"
    using get_str_cell [OF q(3)] get_str_cell [OF q(4) b] by simp_all
  then have "sent_row (did, b) q" using row_withD [OF q(1)] by (simp add: sent_row_def)
  then have "sales_kept {(did, b)} s'" using ok' row_withD [OF q(1)] by (auto simp: sales_kept_def list_ex_iff)
  then show thesis using that d(4) b b_def by blast
qed

text \<open>C24: only an approved draft is sent, and it is sent once.  On a ledger the program has
  written, \<open>record_sent\<close> refuses every draft that is not approved and leaves the ledger as it was.  When it returns,
  the draft was approved under a non-empty approver text (a text of blanks is one); and after whatever the program does from then on, tool calls
  and repository writes in any order, the draft is still the sent draft of that approver, and sending or approving it again
  is refused and changes nothing.\<close>

theorem sent_once_and_approved:
  assumes "sales_reachable e s"
  shows "((\<nexists>b. draft_view s did = Some (''approved'', b)) \<longrightarrow> record_sent did receipt ex s = (Inl SalesError, s)) \<and>
    (case record_sent did receipt ex s of
      (Inr _, s') \<Rightarrow> (\<exists>b. b \<noteq> [] \<and> draft_view s did = Some (''approved'', b) \<and>
        (\<forall>s2 receipt2 ex2 c. sales_step\<^sup>*\<^sup>* s' s2 \<longrightarrow> draft_view s2 did = Some (''sent'', b) \<and>
           record_sent did receipt2 ex2 s2 = (Inl SalesError, s2) \<and> approve_draft did c s2 = (Inl SalesError, s2)))
    | (Inl _, _) \<Rightarrow> True)"
proof -
  have ok: "sales_ok s" using assms by (rule sales_reachable_ok)
  have val: "outreach_state_value Out_Approved = ''approved''" "outreach_state_value Out_Sent = ''sent''" by simp_all
  have "\<exists>b. b \<noteq> [] \<and> draft_view s did = Some (''approved'', b) \<and>
        (\<forall>s2 receipt2 ex2 c. sales_step\<^sup>*\<^sup>* s' s2 \<longrightarrow> draft_view s2 did = Some (''sent'', b) \<and>
           record_sent did receipt2 ex2 s2 = (Inl SalesError, s2) \<and> approve_draft did c s2 = (Inl SalesError, s2))"
    if "record_sent did receipt ex s = (Inr x, s')" for x s'
    by (rule record_sent_records [OF ok that]) (use recorded_send_final val in metis)
  then show ?thesis using not_approved_refused [OF ok, of did receipt ex] unfolding val by (auto split: prod.split sum.split)
qed

definition demo_draft :: outreach_draft where
  "demo_draft = \<lparr>dr_lead_id = ''lead_0'', dr_channel = ''email'', dr_subject = ''Hello'', dr_body = ''Hi'', dr_id = ''d1'', dr_contact_id = [],
     dr_state = Out_Draft, dr_sequence_step = ''day_0'', dr_variant = [], dr_experiment_id = [], dr_evidence_ids = [], dr_approved_by = [],
     dr_approved_at = 0, dr_sent_at = 0, dr_receipt = [], dr_run_id = [], dr_created = 1\<rparr>"

definition demo_drafted :: ledger where
  "demo_drafted = snd (create_draft demo_draft demo_ledger)"

lemma demo_drafted_reachable: "sales_reachable demo_env demo_drafted"
proof -
  have "sales_step demo_ledger demo_drafted"
    unfolding demo_drafted_def by (rule sales_step.draft [where r = "fst (create_draft demo_draft demo_ledger)" and d = demo_draft]) (simp_all add: demo_draft_def)
  then show ?thesis by (rule sales_reachable.step [OF demo_reachable])
qed

theorem sent_once_and_approved_witness:
  "draft_view demo_drafted ''d1'' = Some (''draft'', []) \<and> record_sent ''d1'' ''r'' [] demo_drafted = (Inl SalesError, demo_drafted)"
proof -
  have "draft_view demo_drafted ''d1'' = Some (''draft'', [])" unfolding demo_drafted_def demo_ledger_eq by code_simp
  then show ?thesis using sent_once_and_approved [OF demo_drafted_reachable, of "''d1''" "''r''" "[]"] by simp
qed

section \<open>One lead per company\<close>

lemma insert_rec_appends:
  assumes "insert_rec t rec s = (Inr d, s')"
  shows "\<exists>cols. schema_of t = Some cols \<and> sl_tables s' t = sl_tables s t @ [row_of cols (encode_doc (null_refs rec))]"
  using assms by (auto simp: insert_rec_def Let_def op_then_apply sql_insert_def split: option.splits if_splits prod.splits sum.splits)

lemma unclashing_once:
  assumes "sorted_wrt (\<lambda>x y. \<not> clash kss x y) rs" and "[k] \<in> set kss"
  shows "length (filter (is_cell k v) rs) \<le> 1"
  using assms(1)
proof (induction rs)
  case (Cons r rs)
  have "clash kss r y" if "is_cell k v r" "is_cell k v y" for y
    using that assms(2) by (auto simp: clash_def is_cell_def list_ex_iff intro!: bexI [of _ "[k]"])
  then have "filter (is_cell k v) rs = []" if "is_cell k v r" using Cons.prems that by (auto simp: filter_empty_conv)
  then show ?case using Cons by auto
qed simp

definition leads_keyed :: "ledger \<Rightarrow> string \<Rightarrow> doc list" where
  "leads_keyed s key = filter (is_cell ''dedupe_key'' key) (sl_tables s ''leads'')"

lemma leads_keyed_once:
  assumes "sales_ok s"
  shows "length (leads_keyed s key) \<le> 1"
proof -
  have u: "list_ex (\<lambda>ks. ks = [''dedupe_key'']) (uniques ''leads'' (the (schema_of ''leads'')))" by code_simp
  obtain cols where sch: "schema_of ''leads'' = Some cols" using sales_columns(1) by (auto simp: column_in_def split: option.splits)
  have "[''dedupe_key''] \<in> set (uniques ''leads'' cols)" using u sch by (auto simp: list_ex_iff)
  moreover have "sorted_wrt (\<lambda>x y. \<not> clash (uniques ''leads'' cols) x y) (sl_tables s ''leads'')"
    using ledger_ok_tableD [OF _ sch, of s] assms by (auto simp: sales_kept_def table_ok_def)
  ultimately show ?thesis unfolding leads_keyed_def by (rule unclashing_once [rotated])
qed

lemma lead_known:
  assumes "sales_ok s" and "normalise_company (co_name co) (co_domain co) = Inr key" and "leads_keyed s key \<noteq> []"
  shows "\<exists>r d. leads_keyed s key = [r] \<and> decode_row ''leads'' r = Inr d \<and> create_lead co src pr ex ow s = (Inr (d, False, key), s)"
proof -
  obtain r where r: "List.find (is_cell ''dedupe_key'' key) (sl_tables s ''leads'') = Some r"
    using assms(3) by (cases "List.find (is_cell ''dedupe_key'' key) (sl_tables s ''leads'')") (auto simp: find_None_iff leads_keyed_def filter_empty_conv)
  then have m: "r \<in> set (sl_tables s ''leads'')" "is_cell ''dedupe_key'' key r" by (auto simp: find_Some_iff)
  then have "r \<in> set (leads_keyed s key)" by (simp add: leads_keyed_def)
  then have one: "leads_keyed s key = [r]" using leads_keyed_once [OF assms(1), of key] by (cases "leads_keyed s key") auto
  have "good_lead r" using m(1) sales_okD [OF assms(1)] by (simp add: good_row_def)
  then obtain d where "decode_row ''leads'' r = Inr d" using decode_good_lead by blast
  then show ?thesis using assms(2) r one by (simp add: create_lead_def op_bind_apply rows_of_def)
qed

lemma lead_added:
  assumes "normalise_company (co_name co) (co_domain co) = Inr key" and "leads_keyed s key = []"
    and "create_lead co src pr ex ow s = (Inr (d, new, key'), s')"
  shows "new \<and> key' = key \<and> leads_keyed s' key \<noteq> []"
proof -
  have none: "List.find (is_cell ''dedupe_key'' key) (sl_tables s ''leads'') = None"
    using assms(2) by (auto simp: find_None_iff leads_keyed_def filter_empty_conv)
  have "op_bind (get_company (co_id co)) (\<lambda>found.
          op_then (case found of Some _ \<Rightarrow> op_return () | None \<Rightarrow> create_company co)
          (op_bind (new_lead (co_id co) pr (if src \<noteq> [] then src else co_source co) key ex ow) (\<lambda>ld.
           op_then (insert_rec ''leads'' (lead_dict ld))
           (op_then (log_transition (ld_id ld) [] (pipeline_stage_value (ld_stage ld)) ''lead created'' [] [])
             (op_return (lead_dict ld, True, key)))))) s = (Inr (d, new, key'), s')"
    using assms(1,3) none by (simp add: create_lead_def rows_of_def op_bind_apply)
  then obtain ld s1 s2 d1 s3 u s4 where st: "new_lead (co_id co) pr (if src \<noteq> [] then src else co_source co) key ex ow s1 = (Inr ld, s2)"
    and ins: "insert_rec ''leads'' (lead_dict ld) s2 = (Inr d1, s3)"
    and tr: "log_transition (ld_id ld) [] (pipeline_stage_value (ld_stage ld)) ''lead created'' [] [] s3 = (Inr u, s4)"
    and fin: "op_return (lead_dict ld, True, key) s4 = (Inr (d, new, key'), s')"
    unfolding op_then_def by (elim bind_InrE) (rule that; assumption)
  have res: "new" "key' = key" "s' = s4" using fin by auto
  obtain cols where c: "schema_of ''leads'' = Some cols" "sl_tables s3 ''leads'' = sl_tables s2 ''leads'' @ [row_of cols (encode_doc (null_refs (lead_dict ld)))]"
    using insert_rec_appends [OF ins] by blast
  have k: "ld_dedupe_key ld = key" using st by (auto simp: new_lead_def elim!: bind_InrE)
  have "column_in ''leads'' ''dedupe_key''" by code_simp
  then have "dget (row_of cols (encode_doc (null_refs (lead_dict ld)))) ''dedupe_key'' = Some (VStr key)"
    by (rule inserted_same [OF c(1)]; simp add: lead_dict_def REF_KEYS_def k)
  then have "is_cell ''dedupe_key'' key (row_of cols (encode_doc (null_refs (lead_dict ld))))" by (simp add: is_cell_def cell_def)
  moreover have "sl_tables s' ''leads'' = sl_tables s3 ''leads''"
    unfolding res(3) by (rule keepsD [OF log_transition_keeps tr]) simp
  ultimately show ?thesis using res c(2) by (simp add: leads_keyed_def)
qed

text \<open>C25: a company has one lead.  On a ledger the program has written, when \<open>create_lead\<close> returns, it reports a new
  lead exactly when no lead had the company's key, and otherwise returns the lead stored under that key and changes nothing;
  the ledger then holds exactly one lead with that key, and creating a lead for
  any company with the same key again returns that stored lead, reports no new one and changes nothing.\<close>

theorem one_lead_per_company:
  assumes "sales_reachable e s" and "normalise_company (co_name co) (co_domain co) = Inr key"
    and "create_lead co src pr ex ow s = (Inr (d, new, key'), s')"
  shows "key' = key \<and> (new \<longleftrightarrow> leads_keyed s key = []) \<and> (\<exists>r stored. leads_keyed s' key = [r] \<and> decode_row ''leads'' r = Inr stored \<and>
    (\<not> new \<longrightarrow> s' = s \<and> d = stored) \<and>
    (\<forall>co2 src2 pr2 ex2 ow2. normalise_company (co_name co2) (co_domain co2) = Inr key \<longrightarrow>
      create_lead co2 src2 pr2 ex2 ow2 s' = (Inr (stored, False, key), s')))"
proof -
  have ok: "sales_ok s" using assms(1) by (rule sales_reachable_ok)
  have ok': "sales_ok s'" using op_invD [OF create_lead_sales ok assms(3)] .
  have case1: "key' = key \<and> (new \<longleftrightarrow> leads_keyed s key = []) \<and> leads_keyed s' key \<noteq> [] \<and> (\<not> new \<longrightarrow> s' = s)"
  proof (cases "leads_keyed s key = []")
    case True
    then show ?thesis using lead_added [OF assms(2) True assms(3)] by blast
  next
    case False
    then show ?thesis using lead_known [OF ok assms(2) False, of src pr ex ow] assms(3) by auto
  qed
  then obtain r stored where r: "leads_keyed s' key = [r]" "decode_row ''leads'' r = Inr stored"
    using lead_known [OF ok' assms(2)] by blast
  have again: "create_lead co2 src2 pr2 ex2 ow2 s' = (Inr (stored, False, key), s')"
    if "normalise_company (co_name co2) (co_domain co2) = Inr key" for co2 src2 pr2 ex2 ow2
    using lead_known [OF ok' that, of src2 pr2 ex2 ow2] r by auto
  have "\<not> new \<longrightarrow> s' = s \<and> d = stored" using case1 again [OF assms(2), of src pr ex ow] assms(3) by auto
  then show ?thesis using case1 r again by blast
qed

theorem one_lead_per_company_witness:
  "\<exists>d. create_lead demo_company ''csv'' [] [] [] demo_ledger = (Inr (d, False, ''domain:acme.example''), demo_ledger)"
proof -
  have "normalise_company (co_name demo_company) (co_domain demo_company) = Inr ''domain:acme.example''" by code_simp
  moreover obtain d new key s' where c: "create_lead demo_company ''csv'' [] [] [] (empty_ledger demo_env) = (Inr (d, new, key), s')"
    using demo_created by blast
  moreover have "s' = demo_ledger" using c by (simp add: demo_ledger_def)
  ultimately show ?thesis using one_lead_per_company [OF sales_reachable.fresh _ c] by blast
qed

section \<open>One reminder at a time\<close>

lemma book_followup_inv:
  assumes "book_followup lid rid p s = (Inr r, s')"
  shows "\<exists>fid tid fu s1 s2. r = Scheduled fid tid p \<and> fu_lead_id fu = lid \<and> fu_id fu = fid \<and> fu_state fu = Todo_Open \<and> fu_due fu = na_due p \<and>
    sl_tables s1 = sl_tables s \<and> schedule_followup fu s1 = (Inr (), s2) \<and> sl_tables s' ''followups'' = sl_tables s2 ''followups''"
proof -
  obtain fid sa t sb u sc where a: "sl_id ''fu'' s = (Inr fid, sa)" "sl_now sa = (Inr t, sb)"
    and f: "schedule_followup \<lparr>fu_lead_id = lid, fu_due = na_due p, fu_id = fid, fu_reason = na_reason p,
         fu_sequence = na_sequence p, fu_step = na_step p, fu_state = Todo_Open, fu_run_id = rid, fu_completed_at = 0, fu_created = t\<rparr> sb = (Inr u, sc)"
    and k: "op_bind (sl_id ''task'') (\<lambda>tid. op_bind sl_now (\<lambda>t2.
      op_then (create_task \<lparr>tk_lead_id = lid, tk_title = na_action p, tk_id = tid, tk_kind = na_kind p, tk_due = na_due p,
         tk_state = Todo_Open, tk_detail = na_sequence p @ '' / '' @ na_step p, tk_run_id = rid, tk_completed_at = 0, tk_created = t2\<rparr>)
        (op_return (Scheduled fid tid p)))) sc = (Inr r, s')"
    using assms unfolding book_followup_def by (auto simp: op_bind_apply op_then_apply sl_id_def sl_now_def split: prod.splits sum.splits)
  let ?m = "op_bind (sl_id ''task'') (\<lambda>tid. op_bind sl_now (\<lambda>t2.
      op_then (create_task \<lparr>tk_lead_id = lid, tk_title = na_action p, tk_id = tid, tk_kind = na_kind p, tk_due = na_due p,
         tk_state = Todo_Open, tk_detail = na_sequence p @ '' / '' @ na_step p, tk_run_id = rid, tk_completed_at = 0, tk_created = t2\<rparr>)
        (op_return (Scheduled fid tid p))))"
  have "op_inv (keeps ''followups'' X) ?m" for X by (intro op_inv_intros create_task_keeps) simp
  then have "sl_tables s' ''followups'' = sl_tables sc ''followups''" by (rule keepsD [where m = ?m, OF _ k])
  moreover obtain tid where "r = Scheduled fid tid p" using k by (auto simp: op_then_def elim!: bind_InrE)
  moreover have "sl_tables sb = sl_tables s" using a by (auto simp: sl_id_def sl_now_def)
  ultimately show ?thesis using f by (intro exI conjI) (auto simp: unit_eq)
qed

lemma require_lead_cong:
  assumes "require_lead lid s = (Inr d, s1)" and "sl_tables s' ''leads'' = sl_tables s ''leads''"
  shows "require_lead lid s' = (Inr d, s')"
  using assms by (auto simp: require_lead_def get_lead_def one_row_def rows_of_def op_bind_apply split: option.splits sum.splits prod.splits)

lemma create_task_lead:
  assumes "create_task tk s = (Inr u, s')"
  shows "\<exists>d. require_lead (tk_lead_id tk) s' = (Inr d, s')"
proof -
  obtain d s1 where d: "require_lead (tk_lead_id tk) s = (Inr d, s1)" and k: "op_then (insert_rec ''tasks'' (sales_task_dict tk)) (op_return ()) s1 = (Inr u, s')"
    using assms unfolding create_task_def op_then_def by (rule bind_InrE)
  have "s1 = s" using require_lead_pure [of "tk_lead_id tk" s] d by simp
  moreover have "op_inv (keeps ''leads'' X) (op_then (insert_rec ''tasks'' (sales_task_dict tk)) (op_return ()))" for X
    by (intro op_inv_intros insert_rec_keeps) simp
  then have "sl_tables s' ''leads'' = sl_tables s1 ''leads''"
    by (rule keepsD [where m = "op_then (insert_rec ''tasks'' (sales_task_dict tk)) (op_return ())", OF _ k])
  ultimately show ?thesis using require_lead_cong [OF d] by auto
qed

lemma book_keeps_lead:
  assumes "book_followup lid rid p s = (Inr r, s')"
  shows "\<exists>d. require_lead lid s' = (Inr d, s')"
proof -
  obtain tk s1 u where "tk_lead_id tk = lid" "create_task tk s1 = (Inr u, s')"
    using assms by (auto simp: book_followup_def op_then_def elim!: bind_InrE) (metis sales_task.select_convs(1))
  then show ?thesis using create_task_lead by blast
qed

lemma digit_codes: "digit_val c = Some n \<Longrightarrow> (of_char c :: nat) = 48 + n \<and> n \<le> 9"
  by (auto simp: digit_val_def Let_def split: if_splits)

lemma char_code: "x \<le> y \<longleftrightarrow> (of_char x :: nat) \<le> of_char y" "x < y \<longleftrightarrow> (of_char x :: nat) < of_char y" for x y :: char
  by (simp_all add: less_eq_char_def less_char_def)

lemma two_val_le:
  assumes "two_val a b = Some m" and "m \<le> 10 * int p + int q" and "p \<le> 9" and "q \<le> 9"
  shows "a < char_of (48 + p) \<or> a = char_of (48 + p) \<and> b \<le> char_of (48 + q)"
proof -
  obtain x y where d: "digit_val a = Some x" "digit_val b = Some y" "m = 10 * int x + int y"
    using assms(1) by (auto simp: two_val_def split: option.splits)
  have c: "(of_char a :: nat) = 48 + x" "(of_char b :: nat) = 48 + y" "x \<le> 9" "y \<le> 9" using digit_codes [OF d(1)] digit_codes [OF d(2)] by auto
  have e: "a = char_of (48 + x)" using c(1) by (metis char_of_char)
  show ?thesis
    using assms(2-4) d(3) c e by (cases "x = p") (auto simp: char_code)
qed

lemma iso_before_end:
  assumes "date_of_iso due = Inr dt"
  shows "due \<le> ''9999-12-31''"
proof -
  obtain a b c d e f g h where due: "due = [a, b, c, d, CHR ''-'', e, f, CHR ''-'', g, h]"
    and v: "\<exists>y1 y2 m dd. two_val a b = Some y1 \<and> two_val c d = Some y2 \<and> two_val e f = Some m \<and> two_val g h = Some dd \<and> valid_date (100 * y1 + y2, m, dd)"
    using assms by (auto simp: date_of_iso_def split: list.splits if_splits option.splits)
  then obtain y1 y2 m dd where t: "two_val a b = Some y1" "two_val c d = Some y2" "two_val e f = Some m" "two_val g h = Some dd"
    and vd: "valid_date (100 * y1 + y2, m, dd)" by blast
  have b: "y1 \<le> 10 * int 9 + int 9" "y2 \<le> 10 * int 9 + int 9"
    using t(1,2) by (auto simp: two_val_def dest!: digit_codes split: option.splits)
  have m: "m \<le> 10 * int 1 + int 2" "dd \<le> 10 * int 3 + int 1"
    using vd days_in_month_le [of "100 * y1 + y2" m] by (auto simp: valid_date_def)
  have n9: "(9::nat) \<le> 9" "(1::nat) \<le> 9" "(2::nat) \<le> 9" "(3::nat) \<le> 9" by simp_all
  note le = two_val_le [OF t(1) b(1) n9(1,1)] two_val_le [OF t(2) b(2) n9(1,1)] two_val_le [OF t(3) m(1) n9(2,3)] two_val_le [OF t(4) m(2) n9(4,2)]
  have ch: "char_of (48 + 9 :: nat) = CHR ''9''" "char_of (48 + 1 :: nat) = CHR ''1''" "char_of (48 + 2 :: nat) = CHR ''2''" "char_of (48 + 3 :: nat) = CHR ''3''"
    by code_simp+
  show ?thesis using le unfolding ch due by (auto simp: le_less)
qed

lemma open_due_decodes:
  assumes "is_cell ''state'' ''open'' r"
  shows "decode_row ''followups'' r = Inr (map (\<lambda>(k, v). (k, decode_cell k v)) r)"
proof -
  have "dget ENUM_FIELDS ''followups'' = Some (''state'', map task_state_value task_state_members)" by (simp add: ENUM_FIELDS_def)
  then have "enum_sound ''followups'' r"
    using assms by (simp add: enum_sound_def is_cell_def task_state_members_def)
  then show ?thesis by (simp add: decode_row_def)
qed

lemma map_sum_list_Inr: "list_all (\<lambda>x. f x = Inr (g x)) xs \<Longrightarrow> map_sum_list f xs = Inr (map g xs)"
  by (induction xs) auto

abbreviation open_due :: "string \<Rightarrow> doc \<Rightarrow> bool" where
  "open_due lid r \<equiv> is_cell ''state'' ''open'' r \<and> (case cell r ''due'' of VStr due \<Rightarrow> due \<le> ''9999-12-31'' | _ \<Rightarrow> False) \<and> is_cell ''lead_id'' lid r"

lemma open_followups_rows:
  "\<exists>ds. open_followups lid s = (Inr ds, s) \<and>
     set ds = (\<lambda>r. map (\<lambda>(k, v). (k, decode_cell k v)) r) ` {r \<in> set (sl_tables s ''followups''). open_due lid r}"
proof -
  let ?P = "\<lambda>r. is_cell ''state'' ''open'' r \<and> (case cell r ''due'' of VStr due \<Rightarrow> due \<le> ''9999-12-31'' | _ \<Rightarrow> False)"
  let ?dec = "\<lambda>r. map (\<lambda>(k, v). (k, decode_cell k v)) r"
  let ?rs = "sort_key (\<lambda>r. get_str r ''due'') (filter ?P (sl_tables s ''followups''))"
  have "map_sum_list (decode_row ''followups'') ?rs = Inr (map ?dec ?rs)"
    by (rule map_sum_list_Inr) (auto simp: list_all_iff open_due_decodes)
  moreover have "is_cell ''lead_id'' lid (?dec r) = is_cell ''lead_id'' lid r" for r
    using dget_map_val [of decode_cell r "''lead_id''"] by (simp add: is_cell_def cell_def decode_cell_def split: option.split)
  ultimately show ?thesis
    by (intro exI [of _ "filter (is_cell ''lead_id'' lid) (map ?dec ?rs)"])
      (auto simp: open_followups_def due_followups_def sel_by_def decode_rows_def op_bind_apply rows_of_def)
qed

lemma schedule_followup_inv:
  assumes "schedule_followup fu s = (Inr u, s')"
  shows "\<exists>cols dt ld. schema_of ''followups'' = Some cols \<and> date_of_iso (fu_due fu) = Inr dt \<and> require_lead (fu_lead_id fu) s = (Inr ld, s) \<and>
    sl_tables s' ''followups'' = sl_tables s ''followups'' @ [row_of cols (encode_doc (null_refs (followup_dict fu)))]"
proof -
  obtain ld s1 dt where ld: "require_lead (fu_lead_id fu) s = (Inr ld, s1)" and dt: "date_of_iso (fu_due fu) = Inr dt"
    and r: "op_then (insert_rec ''followups'' (followup_dict fu)) (op_bind sl_now (\<lambda>t.
        op_then (update_rec ''leads'' (fu_lead_id fu) [(''next_action'', VStr (if fu_reason fu \<noteq> [] then fu_reason fu else fu_step fu)),
          (''next_action_due'', VStr (fu_due fu)), (''updated'', VFloat t)]) (op_return ()))) s1 = (Inr u, s')"
    using assms by (auto simp: schedule_followup_def op_then_apply split: prod.splits sum.splits)
  have s1: "s1 = s" using require_lead_pure [of "fu_lead_id fu" s] ld by simp
  let ?m = "op_bind sl_now (\<lambda>t. op_then (update_rec ''leads'' (fu_lead_id fu)
      [(''next_action'', VStr (if fu_reason fu \<noteq> [] then fu_reason fu else fu_step fu)), (''next_action_due'', VStr (fu_due fu)), (''updated'', VFloat t)])
      (op_return ()))"
  obtain d s2 where ins: "insert_rec ''followups'' (followup_dict fu) s1 = (Inr d, s2)" and k: "?m s2 = (Inr u, s')"
    using r unfolding op_then_def by (rule bind_InrE)
  have "op_inv (keeps ''followups'' X) ?m" for X by (intro op_inv_intros update_rec_keeps) simp
  then have "sl_tables s' ''followups'' = sl_tables s2 ''followups''" by (rule keepsD [where m = ?m, OF _ k])
  obtain cols where "schema_of ''followups'' = Some cols"
      "sl_tables s2 ''followups'' = sl_tables s1 ''followups'' @ [row_of cols (encode_doc (null_refs (followup_dict fu)))]"
    using insert_rec_appends [OF ins] by blast
  then show ?thesis using \<open>sl_tables s' ''followups'' = sl_tables s2 ''followups''\<close> ld dt s1 by metis
qed

lemma booked_row:
  assumes "schema_of ''followups'' = Some cols" and "fu_state fu = Todo_Open" and "fu_lead_id fu \<noteq> []" and "date_of_iso (fu_due fu) = Inr dt"
  defines "r \<equiv> row_of cols (encode_doc (null_refs (followup_dict fu)))"
  shows "open_due (fu_lead_id fu) r \<and> cell r ''id'' = VStr (fu_id fu)"
proof -
  have cs: "list_all (column_in ''followups'') [''state'', ''due'', ''lead_id'', ''id'']" by code_simp
  have 1: "dget r ''state'' = Some (VStr ''open'')" "dget r ''due'' = Some (VStr (fu_due fu))" "dget r ''id'' = Some (VStr (fu_id fu))"
    unfolding r_def by (rule inserted_same [OF assms(1)]; use cs in \<open>simp add: followup_dict_def REF_KEYS_def assms(2)\<close>)+
  have "dget (null_refs (followup_dict fu)) ''lead_id'' = Some (VStr (fu_lead_id fu))"
    using assms(3) by (simp add: null_refs_def followup_dict_def)
  then have "dget (encode_doc (null_refs (followup_dict fu))) ''lead_id'' = Some (VStr (fu_lead_id fu))"
    using dget_map_val [of "\<lambda>k. encode_val" "null_refs (followup_dict fu)" "''lead_id''"] by (simp add: encode_doc_def)
  then have "dget r ''lead_id'' = Some (VStr (fu_lead_id fu))"
    unfolding r_def by (rule dget_row_of [rotated]) (use cs assms(1) in \<open>simp add: column_in_def\<close>)
  then show ?thesis using 1 iso_before_end [OF assms(4)] by (simp add: is_cell_def cell_def)
qed

lemma schedule_reads:
  assumes "schedule_for_lead lid seqs rid s = (Inr (Scheduled fid tid p), s')" and "open_followups lid s = (Inr ds, s)"
  shows "ds = [] \<and> (\<exists>s1 q. sl_tables s1 = sl_tables s \<and> book_followup lid rid q s1 = (Inr (Scheduled fid tid p), s'))"
proof -
  have o1: "op_inv (\<lambda>x. sl_tables x = sl_tables s) (touches_of lid)" "op_inv (\<lambda>x. sl_tables x = sl_tables s) sl_today"
    unfolding touches_of_def drafts_def sel_by_def decode_rows_def sl_today_def
    by (intro op_inv_intros; simp add: op_inv_def rows_of_def sl_now_def)+
  obtain ld where ld: "require_lead lid s = (Inr ld, s)" and e: "ds = []"
    using assms require_lead_pure [of lid s]
    by (auto simp: schedule_for_lead_def op_bind_apply split: prod.splits sum.splits list.splits)
  have "op_bind (touches_of lid) (\<lambda>n. op_bind (op_lift (stage_of (get_str ld ''stage''))) (\<lambda>st.
      op_bind (case RULES st of None \<Rightarrow> op_return epoch_day | Some _ \<Rightarrow> sl_today) (\<lambda>base.
      op_bind (op_lift (next_action_for st seqs n base)) (\<lambda>plan. case plan of
          None \<Rightarrow> op_return (No_Rule (pipeline_stage_value st)) | Some p \<Rightarrow> book_followup lid rid p)))) s = (Inr (Scheduled fid tid p), s')"
    using assms ld e by (simp add: schedule_for_lead_def op_bind_apply)
  then obtain n sa st x1 base sb plan x2 where a: "touches_of lid s = (Inr n, sa)" "op_lift (stage_of (get_str ld ''stage'')) sa = (Inr st, x1)"
      "(case RULES st of None \<Rightarrow> op_return epoch_day | Some _ \<Rightarrow> sl_today) x1 = (Inr base, sb)"
      "op_lift (next_action_for st seqs n base) sb = (Inr plan, x2)"
      and b: "(case plan of None \<Rightarrow> op_return (No_Rule (pipeline_stage_value st)) | Some p \<Rightarrow> book_followup lid rid p) x2 = (Inr (Scheduled fid tid p), s')"
    by (elim bind_InrE) (rule that; assumption)
  obtain q where "book_followup lid rid q x2 = (Inr (Scheduled fid tid p), s')" using b by (cases plan) auto
  moreover have "x2 = sb" "x1 = sa" using a(2,4) by (auto simp: op_lift_def)
  moreover have "sl_tables sb = sl_tables x1" using a(3) by (cases "RULES st") (auto simp: sl_today_def sl_now_def op_bind_apply)
  moreover have "sl_tables sa = sl_tables s" using op_invD [OF o1(1) refl a(1)] .
  ultimately show ?thesis using e by metis
qed

text \<open>C31: scheduling a lead is idempotent.  When \<open>schedule_for_lead\<close> books a follow-up for a lead, every later call for
  the same lead, with whatever sequences and run, answers that this follow-up is already open and changes nothing.\<close>

theorem schedule_is_idempotent:
  assumes "schedule_for_lead lid seqs rid s = (Inr (Scheduled fid tid p), s')" and "lid \<noteq> []" and "sales_reachable e s"
  shows "\<forall>seqs' rid'. schedule_for_lead lid seqs' rid' s' = (Inr (Already fid), s')"
proof -
  obtain ds where ds: "open_followups lid s = (Inr ds, s)"
      "set ds = (\<lambda>r. map (\<lambda>(k, v). (k, decode_cell k v)) r) ` {r \<in> set (sl_tables s ''followups''). open_due lid r}"
    using open_followups_rows by blast
  have "ds = [] \<and> (\<exists>s1 q. sl_tables s1 = sl_tables s \<and> book_followup lid rid q s1 = (Inr (Scheduled fid tid p), s'))"
    using assms(1) schedule_reads ds(1) by blast
  then obtain s1 q where e: "ds = []" and b: "sl_tables s1 = sl_tables s" "book_followup lid rid q s1 = (Inr (Scheduled fid tid p), s')" by blast
  obtain fu s2 s3 where fu: "fu_lead_id fu = lid" "fu_id fu = fid" "fu_state fu = Todo_Open" "sl_tables s2 = sl_tables s1"
      "schedule_followup fu s2 = (Inr (), s3)" "sl_tables s' ''followups'' = sl_tables s3 ''followups''"
    using book_followup_inv [OF b(2)] by auto
  obtain cols dt ld where c: "schema_of ''followups'' = Some cols" "date_of_iso (fu_due fu) = Inr dt"
      "sl_tables s3 ''followups'' = sl_tables s2 ''followups'' @ [row_of cols (encode_doc (null_refs (followup_dict fu)))]"
    using schedule_followup_inv [OF fu(5)] by auto
  let ?r = "row_of cols (encode_doc (null_refs (followup_dict fu)))"
  have r: "open_due lid ?r" "cell ?r ''id'' = VStr fid" using booked_row [OF c(1) fu(3) _ c(2)] assms(2) fu(1,2) by auto
  have "{r \<in> set (sl_tables s' ''followups''). open_due lid r} = {?r}" using ds(2) e r(1) c(3) fu(4,6) b(1) by auto
  then obtain ds' where ds': "open_followups lid s' = (Inr ds', s')" "set ds' = {map (\<lambda>(k, v). (k, decode_cell k v)) ?r}"
    using open_followups_rows [of lid s'] by auto
  then obtain f fs where f: "ds' = f # fs" "f = map (\<lambda>(k, v). (k, decode_cell k v)) ?r" by (cases ds') auto
  have "get_str f ''id'' = fid"
    using f(2) r(2) dget_map_val [of decode_cell ?r "''id''"] by (auto simp: get_str_def cell_def decode_cell_def split: option.splits)
  moreover have "\<exists>d. require_lead lid s' = (Inr d, s')" by (rule book_keeps_lead [OF b(2)])
  ultimately show ?thesis using ds'(1) f(1) by (auto simp: schedule_for_lead_def op_bind_apply)
qed

definition demo_contacted :: ledger where
  "demo_contacted = snd (move_stage ''lead_0'' ''contacted'' [] [] [] demo_ledger)"

lemma demo_contacted_reachable: "sales_reachable demo_env demo_contacted"
proof -
  have "sales_step demo_ledger demo_contacted"
    unfolding demo_contacted_def by (rule sales_step.move [where r = "fst (move_stage ''lead_0'' ''contacted'' [] [] [] demo_ledger)"]) simp
  then show ?thesis by (rule sales_reachable.step [OF demo_reachable])
qed

theorem schedule_is_idempotent_witness:
  "\<exists>fid s'. schedule_for_lead ''lead_0'' [] ''run2'' s' = (Inr (Already fid), s')"
proof -
  have "case fst (schedule_for_lead ''lead_0'' [] ''run'' demo_contacted) of Inr (Scheduled fid tid p) \<Rightarrow> True | _ \<Rightarrow> False"
    unfolding demo_contacted_def demo_ledger_eq by code_simp
  then obtain fid tid p s' where "schedule_for_lead ''lead_0'' [] ''run'' demo_contacted = (Inr (Scheduled fid tid p), s')"
    by (cases "schedule_for_lead ''lead_0'' [] ''run'' demo_contacted") (auto split: sum.splits schedule_result.splits)
  from schedule_is_idempotent [OF this _ demo_contacted_reachable] show ?thesis by auto
qed

section \<open>Confinement and discovery\<close>

text \<open>C32: no sales tool opens a ledger outside the worker's roots.  When the ledger's path does not resolve inside
  the roots, every one of the sixteen tools fails with the error of the resolution, whatever its arguments, and leaves
  the ledger as it was.\<close>

theorem sales_tools_stay_inside:
  assumes "resolve (sw_fs w) c False (default_ledger_path w (tc_workspace c)) = Inl e" and "(t, run) \<in> set SALES_TOOLS"
  shows "run w c args s = (Inl e, s)"
  using assms by (rule sales_tools_confined)

text \<open>Discovery only adds leads: a key that a lead has stays taken.\<close>

definition has_key :: "string \<Rightarrow> ledger \<Rightarrow> bool" where
  "has_key k s \<longleftrightarrow> leads_keyed s k \<noteq> []"

lemma has_key_cong: "sl_tables s' ''leads'' = sl_tables s ''leads'' \<Longrightarrow> has_key k s' = has_key k s"
  by (simp add: has_key_def leads_keyed_def)

lemma state_has_key [op_inv_intros]: "op_inv (has_key k) sl_now" "op_inv (has_key k) (sl_id p)" "op_inv (has_key k) (rows_of t)"
  by (simp_all add: op_inv_def sl_now_def sl_id_def rows_of_def has_key_def leads_keyed_def)

lemma insert_has_key [op_inv_intros]: "op_inv (has_key k) (insert_rec t d)"
proof -
  have "op_inv (has_key k) (sql_insert t d)" for d
    by (rule op_invI) (auto simp: sql_insert_def has_key_def leads_keyed_def Let_def split: option.split)
  then show ?thesis unfolding insert_rec_def Let_def by (intro op_inv_intros)
qed

lemma read_has_key [op_inv_intros]: "op_inv (has_key k) (one_row t rid)" "op_inv (has_key k) (require_lead lid)"
  by (simp_all add: op_inv_def one_row_pure require_lead_pure)

lemma writers_have_key [op_inv_intros]:
  "op_inv (has_key k) (create_lead co src pr ex ow)" "op_inv (has_key k) (create_contact ct)" "op_inv (has_key k) (attach c)"
  unfolding create_lead_def get_company_def create_company_def new_lead_def log_transition_def create_contact_def attach_def attach_evidence_def Let_def
  by (intro op_inv_intros)+

lemma discover_parts_key [op_inv_intros]:
  "op_inv (has_key k) (candidate_company e dv row nm d)" "op_inv (has_key k) (add_contact e dv row cid)" "op_inv (has_key k) (attach_origin e dv row nm lid)"
  unfolding candidate_company_def add_contact_def attach_origin_def Let_def by (intro op_inv_intros)+

lemma candidate_company_keeps: "op_inv (keeps t X) (candidate_company e dv row nm d)"
  unfolding candidate_company_def by (intro op_inv_intros)

definition key_of :: "doc \<Rightarrow> string" where
  "key_of d = get_str d ''dedupe_key''"

text \<open>After some rows, starting from a ledger: what the lists hold.\<close>

definition found_ok :: "ledger \<Rightarrow> nat \<Rightarrow> found \<Rightarrow> ledger \<Rightarrow> bool" where
  "found_ok s0 n acc s \<longleftrightarrow> sales_ok s \<and> (\<forall>k. has_key k s0 \<longrightarrow> has_key k s) \<and>
     length (fd_created acc) + length (fd_duplicates acc) + length (fd_rejected acc) = n \<and>
     distinct (map key_of (fd_created acc)) \<and> key_of ` set (fd_created acc @ fd_duplicates acc) \<subseteq> set (fd_seen acc) \<and>
     (\<forall>d\<in>set (fd_created acc). \<not> has_key (key_of d) s0) \<and> (\<forall>k\<in>set (fd_seen acc). has_key k s)"

lemma found_ok_grows:
  assumes "found_ok s0 n acc s" and "sales_ok s'" and "\<And>k. has_key k s \<Longrightarrow> has_key k s'"
  shows "found_ok s0 n acc s'"
  using assms by (auto simp: found_ok_def)

lemma key_of_entry [simp]: "key_of ((''name'', v) # (''dedupe_key'', VStr k) # d) = k"
    "key_of ((''lead_id'', v) # (''company'', w) # (''dedupe_key'', VStr k) # d) = k"
  by (simp_all add: key_of_def get_str_def)

lemma nameless_key: "normalise_company nm dm = Inr key \<Longrightarrow> normalise_company (if nm \<noteq> [] then nm else dm) dm = Inr key"
  by (auto simp: normalise_company_def Let_def str_strip_def str_lower_def split: if_splits)

lemma ingest_row_inv:
  assumes "ingest_row e dv row nm dm acc s = (Inr acc', s')"
  obtains co sa ld fresh k sb where "co_name co = (if nm \<noteq> [] then nm else dm)" "co_domain co = dm" "sl_tables sa ''leads'' = sl_tables s ''leads''"
    "sales_ok s \<longrightarrow> sales_ok sa" "create_lead co (co_source co) (row_str e row ''prospect_id'') [] [] sa = (Inr (ld, fresh, k), sb)"
    "acc' = (if fresh then created_row co k ld acc else known_row nm k ld acc)" "\<forall>q. has_key q sb \<longrightarrow> has_key q s'"
proof -
  obtain co sa where co: "candidate_company e dv row nm dm s = (Inr co, sa)"
    and r1: "op_bind (create_lead co (co_source co) (row_str e row ''prospect_id'') [] []) (\<lambda>(ld, fresh, k).
       if \<not> fresh then op_return (known_row nm k ld acc)
       else op_then (add_contact e dv row (get_str ld ''company_id''))
         (op_then (attach_origin e dv row nm (get_str ld ''id'')) (op_return (created_row co k ld acc)))) sa = (Inr acc', s')"
    using assms unfolding ingest_row_def by (rule bind_InrE)
  obtain ld fresh k sb where cl: "create_lead co (co_source co) (row_str e row ''prospect_id'') [] [] sa = (Inr (ld, fresh, k), sb)"
    and r2: "(if \<not> fresh then op_return (known_row nm k ld acc)
       else op_then (add_contact e dv row (get_str ld ''company_id''))
         (op_then (attach_origin e dv row nm (get_str ld ''id'')) (op_return (created_row co k ld acc)))) sb = (Inr acc', s')"
  proof (rule bind_InrE [OF r1], goal_cases)
    case (1 p sb)
    then show ?case using that by (cases p) auto
  qed
  have gi: "op_inv (has_key q) (if \<not> fresh then op_return (known_row nm k ld acc)
       else op_then (add_contact e dv row (get_str ld ''company_id''))
         (op_then (attach_origin e dv row nm (get_str ld ''id'')) (op_return (created_row co k ld acc))))" for q
    by (intro op_inv_intros)
  have g: "\<forall>q. has_key q sb \<longrightarrow> has_key q s'" using op_invD [OF gi _ r2] by blast
  have a: "acc' = (if fresh then created_row co k ld acc else known_row nm k ld acc)"
    using r2 by (auto simp: op_then_def elim!: bind_InrE split: if_splits)
  have c: "co_name co = (if nm \<noteq> [] then nm else dm)" "co_domain co = dm"
    using co by (auto simp: candidate_company_def elim!: bind_InrE)
  have "sales_ok s \<longrightarrow> sales_ok sa" using op_invD [OF candidate_company_sales _ co] by blast
  then show thesis by (rule that [OF c keepsD [OF candidate_company_keeps co] _ cl a g])
qed

lemma ingest_row_found:
  assumes ok: "found_ok s0 n acc s" and key: "normalise_company nm dm = Inr key"
    and run: "ingest_row e dv row nm dm (acc\<lparr>fd_seen := fd_seen acc @ [key]\<rparr>) s = (Inr acc', s')" and sok: "sales_ok s'"
  shows "found_ok s0 (Suc n) acc' s'"
proof -
  obtain co sa ld fresh k sb where c: "co_name co = (if nm \<noteq> [] then nm else dm)" "co_domain co = dm" "sl_tables sa ''leads'' = sl_tables s ''leads''"
    and oka: "sales_ok s \<longrightarrow> sales_ok sa" and cl: "create_lead co (co_source co) (row_str e row ''prospect_id'') [] [] sa = (Inr (ld, fresh, k), sb)"
    and acc: "acc' = (if fresh then created_row co k ld (acc\<lparr>fd_seen := fd_seen acc @ [key]\<rparr>) else known_row nm k ld (acc\<lparr>fd_seen := fd_seen acc @ [key]\<rparr>))"
    and g: "\<forall>q. has_key q sb \<longrightarrow> has_key q s'"
    by (rule ingest_row_inv [OF run])
  have oa: "sales_ok sa" using oka ok by (simp add: found_ok_def)
  have nk: "normalise_company (co_name co) (co_domain co) = Inr key" using nameless_key [OF key] c by simp
  have same: "has_key q sa = has_key q s" for q by (rule has_key_cong [OF c(3)])
  have grow: "has_key q s \<Longrightarrow> has_key q s'" for q using op_invD [OF writers_have_key(1) _ cl] same g by blast
  have "k = key \<and> has_key key sb \<and> (fresh \<longrightarrow> \<not> has_key key s)"
  proof (cases "leads_keyed sa key = []")
    case True
    then show ?thesis using lead_added [OF nk True cl] same [of key] by (simp add: has_key_def)
  next
    case False
    then show ?thesis using lead_known [OF oa nk False, of "co_source co" "row_str e row ''prospect_id''" "[]" "[]"] cl
      by (auto simp: has_key_def)
  qed
  then have k: "k = key" "has_key key s'" "fresh \<longrightarrow> \<not> has_key key s" using g by auto
  have base: "\<not> has_key q s0" if "\<not> has_key q s" for q using that ok by (auto simp: found_ok_def)
  have seen: "q \<in> set (fd_seen acc) \<Longrightarrow> has_key q s" for q using ok by (simp add: found_ok_def)
  show ?thesis
    using ok k grow base seen sok unfolding acc
    by (auto simp: found_ok_def created_row_def known_row_def)
qed

lemma discover_row_found:
  assumes ok: "found_ok s0 n acc s" and run: "discover_row dv acc row s = (Inr acc', s')"
  shows "found_ok s0 (Suc n) acc' s'"
proof -
  define nm where "nm = (let p = pick (sl_env s) row ''name'' in if p \<noteq> [] then p else str_strip (row_str (sl_env s) row ''name''))"
  define dm where "dm = pick (sl_env s) row ''domain''"
  have sok: "sales_ok s'" by (rule op_invD [OF discover_row_sales _ run]) (use ok in \<open>simp add: found_ok_def\<close>)
  have unf: "discover_row dv acc row s = (if nm = [] \<and> dm = [] then op_return (reject_row row ''no company name or domain'' acc)
       else case normalise_company nm dm of
           Inl _ \<Rightarrow> op_return (reject_row row ''cannot derive a dedupe key: company needs a name or domain'' acc)
         | Inr key \<Rightarrow>
            (if key \<in> set (fd_seen acc) then op_return (repeated_row nm key acc)
             else ingest_row (sl_env s) dv row nm dm (acc\<lparr>fd_seen := fd_seen acc @ [key]\<rparr>))) s"
    unfolding discover_row_def nm_def dm_def by (simp only: op_bind_apply op_gets_apply Let_def prod.case sum.case)
  consider why where "acc' = reject_row row why acc" "s' = s"
    | key where "key \<in> set (fd_seen acc)" "acc' = repeated_row nm key acc" "s' = s"
    | key where "normalise_company nm dm = Inr key" "ingest_row (sl_env s) dv row nm dm (acc\<lparr>fd_seen := fd_seen acc @ [key]\<rparr>) s = (Inr acc', s')"
    using run unfolding unf by (auto split: if_splits sum.splits)
  then show ?thesis
  proof cases
    case 1
    then show ?thesis using ok by (simp add: found_ok_def reject_row_def)
  next
    case 2
    then show ?thesis using ok by (auto simp: found_ok_def repeated_row_def)
  next
    case 3
    then show ?thesis using ingest_row_found [OF ok 3(1,2) sok] by simp
  qed
qed

lemma discover_rows_found:
  "found_ok s0 n acc s \<Longrightarrow> discover_rows dv acc rows s = (Inr acc', s') \<Longrightarrow> found_ok s0 (n + length rows) acc' s'"
proof (induction rows arbitrary: n acc s)
  case (Cons r rs)
  from Cons.prems(2) obtain acc1 s1 where "discover_row dv acc r s = (Inr acc1, s1)" "discover_rows dv acc1 rs s1 = (Inr acc', s')"
    by (auto elim!: bind_InrE)
  then show ?case using Cons.IH [OF discover_row_found [OF Cons.prems(1)]] by simp
qed simp

text \<open>C33: discovery accounts for every candidate and creates no lead twice.  When a discovery on a ledger the program has written
  returns, the lists of created, duplicate and rejected rows have together one entry for each row that it examined; it examined every
  candidate, or the first ones up to a positive limit; the created leads have distinct keys that no lead had before; and each created or duplicate
  key is afterwards the key of exactly one lead.\<close>

theorem discovery_accounts_for_rows:
  assumes "sales_reachable e s" and "discover dv limit cs s = (Inr r, s')"
  shows "length (dx_created r) + length (dx_duplicates r) + length (dx_rejected r) = dx_examined r \<and>
    (limit = 0 \<longrightarrow> dx_examined r = length cs) \<and> (0 < limit \<longrightarrow> dx_examined r = min (nat limit) (length cs)) \<and>
    distinct (map key_of (dx_created r)) \<and> (\<forall>d\<in>set (dx_created r). leads_keyed s (key_of d) = []) \<and>
    (\<forall>d\<in>set (dx_created r @ dx_duplicates r). length (leads_keyed s' (key_of d)) = 1)"
proof -
  let ?rows = "if limit \<noteq> 0 then py_take limit cs else cs"
  have ok: "sales_ok s" using assms(1) by (rule sales_reachable_ok)
  let ?res = "\<lambda>acc. \<lparr>dx_examined = length ?rows, dx_created = fd_created acc, dx_duplicates = fd_duplicates acc, dx_rejected = fd_rejected acc\<rparr>"
  obtain acc s1 where run1: "discover_rows dv nothing_found ?rows s = (Inr acc, s1)" and ret: "op_return (?res acc) s1 = (Inr r, s')"
    using assms(2) unfolding discover_def Let_def by (rule bind_InrE)
  from run1 ret have run: "discover_rows dv nothing_found ?rows s = (Inr acc, s')" and r: "r = ?res acc" by simp_all
  have "found_ok s 0 nothing_found s" using ok by (simp add: found_ok_def nothing_found_def)
  from discover_rows_found [OF this run] have f: "found_ok s (length ?rows) acc s'" by simp
  then have ok': "sales_ok s'" by (simp add: found_ok_def)
  have "length (leads_keyed s' (key_of d)) = 1" if "d \<in> set (fd_created acc @ fd_duplicates acc)" for d
  proof -
    have "has_key (key_of d) s'" using f that unfolding found_ok_def by blast
    then show ?thesis using leads_keyed_once [OF ok', of "key_of d"] by (cases "leads_keyed s' (key_of d)") (auto simp: has_key_def)
  qed
  then show ?thesis using f by (simp add: r found_ok_def has_key_def py_take_def min_def)
qed

definition demo_sales_world :: sales_world where
  "demo_sales_world = \<lparr>sw_fs = demo_fs, sw_abspath = (\<lambda>p. p), sw_ledger_env = ''/elsewhere/experiments.db'', sw_cwd = ''/'',
     sw_corpus = \<lparr>kd_environ = (\<lambda>_. []), kd_isdir = (\<lambda>_. False), kd_bundled = [], kd_isfile = (\<lambda>_. False), kd_text = (\<lambda>_. Inl FileNotFoundError)\<rparr>,
     sw_files = \<lparr>cf_src = \<lparr>sf_isfile = (\<lambda>_. False), sf_text = (\<lambda>_. Inl FileNotFoundError), sf_sha = (\<lambda>_. Inl FileNotFoundError)\<rparr>,
       cf_json = (\<lambda>_. Inl FileNotFoundError), cf_csv = (\<lambda>_. Inl FileNotFoundError)\<rparr>,
     sw_listdir = (\<lambda>_. Inr []), sw_header = (\<lambda>_. None),
     sw_model = \<lparr>pm_available = False, pm_name = [], pm_url = [], pm_complete = (\<lambda>_. None)\<rparr>,
     sw_write = (\<lambda>_. Inr ()), sw_exc = (\<lambda>_. [])\<rparr>"

theorem sales_tools_stay_inside_witness:
  "\<exists>e. record_sent_tool demo_sales_world demo_ctx [(''draft_id'', VStr ''d'')] demo_ledger = (Inl e, demo_ledger)"
proof -
  have "case resolve (sw_fs demo_sales_world) demo_ctx False (default_ledger_path demo_sales_world (tc_workspace demo_ctx)) of Inl e \<Rightarrow> True | Inr x \<Rightarrow> False"
    by code_simp
  then obtain e where e: "resolve (sw_fs demo_sales_world) demo_ctx False (default_ledger_path demo_sales_world (tc_workspace demo_ctx)) = Inl e"
    by (auto split: sum.splits)
  have "(fst SalesRecordSentTool, record_sent_tool) \<in> set SALES_TOOLS" by (simp add: SALES_TOOLS_def SalesRecordSentTool_def)
  from sales_tools_stay_inside [OF e this] show ?thesis by blast
qed

theorem discovery_accounts_for_rows_witness:
  "\<exists>r s'. discover \<lparr>dv_source_ref = ''c.csv'', dv_source = ''c.csv'', dv_run_id = [], dv_evidence = False\<rparr> 0 [[], [(''name'', VStr ''Acme'')]] demo_ledger = (Inr r, s') \<and>
     length (dx_created r) + length (dx_duplicates r) + length (dx_rejected r) = 2"
proof -
  let ?d = "\<lparr>dv_source_ref = ''c.csv'', dv_source = ''c.csv'', dv_run_id = [], dv_evidence = False\<rparr>"
  have "case fst (discover ?d 0 [[], [(''name'', VStr ''Acme'')]] demo_ledger) of Inl _ \<Rightarrow> False | Inr _ \<Rightarrow> True" unfolding demo_ledger_eq by code_simp
  then obtain r s' where "discover ?d 0 [[], [(''name'', VStr ''Acme'')]] demo_ledger = (Inr r, s')"
    by (cases "discover ?d 0 [[], [(''name'', VStr ''Acme'')]] demo_ledger") (auto split: sum.splits)
  with discovery_accounts_for_rows [OF demo_reachable this] show ?thesis by auto
qed

end
