(* ===== verification/Sales_Validation.thy ===== *)
theory Sales_Validation
  imports Sales_Sends "HOL-Library.Multiset"
begin

text \<open>
  What a person reads off the sales ledger.  \<open>sales/rwv.py\<close>: the report on a prospect, the judgements of a human evaluator, their
  comparison with the machine's score, the ranking, the summary and the audit trail; \<open>sales/web.py\<close>: the JSON views; from
  \<open>sales/cli.py\<close>: the morning brief, the bulk recording of sends, and the checks on the command line.  Opening the ledger, printing and
  the arrangement of columns are left out; dashes in texts are ASCII.  Lemmas: a human judgement leaves the ledger and every report as they
  were; which class a judged prospect falls into; what the views read and change.
\<close>

section \<open>Matching a service\<close>

definition FOLLOWON_OFFERS :: "string list" where
  "FOLLOWON_OFFERS = [''Local-first AI assistant (internal knowledge + research)'', ''Workflow automation build'',
     ''Document-processing / intake automation'', ''Private RAG knowledge system'', ''SaaS-replacement automation'', ''Ongoing advisory / retainer'']"

definition ENTRY_OFFER :: string where
  "ENTRY_OFFER = ''Sovereign AI Workflow & Knowledge Systems Audit''"

record service_match =
  sv_offer :: string
  sv_why :: string
  sv_confidence :: string

definition main_pain :: "string list \<Rightarrow> string \<times> string" where
  "main_pain cs = (let has = (\<lambda>c. c \<in> set cs) in
     if has ''document flow'' \<or> has ''data entry & intake''
     then (''Document-processing / intake automation'', ''documented manual re-entry / hand-assembled documents'')
     else if has ''knowledge flow'' then (''Private RAG knowledge system'', ''documented tribal knowledge trapped in individuals'')
     else if has ''tooling & saas spend'' then (''SaaS-replacement automation'', ''documented SaaS sprawl / overlapping subscriptions'')
     else if has ''measurement'' \<or> has ''reporting''
     then (''Workflow automation build'', ''documented no-measurement / repetitive reporting burden'')
     else (ENTRY_OFFER, ''no single dominant pain signal; start with the entry audit''))"

definition private_industry :: "doc \<Rightarrow> bool" where
  "private_industry co \<longleftrightarrow> list_ex (contains (str_lower (get_str co ''industry''))) [''law'', ''account'', ''health'', ''clinic'', ''insurance'']"

definition match_confidence :: "nat \<Rightarrow> nat \<Rightarrow> string" where
  "match_confidence pains signals = (if pains = 0 \<and> signals \<le> 1 then ''low'' else if pains \<le> 1 \<and> signals \<le> 2 then ''medium'' else ''high'')"

definition match_service :: "string list \<Rightarrow> string list \<Rightarrow> doc \<Rightarrow> service_match" where
  "match_service pains types co = (let (offer, why) = main_pain (map str_lower pains) in
     \<lparr>sv_offer = offer,
      sv_why = join ''; '' (why # (if private_industry co \<and> offer = ENTRY_OFFER
        then [''privacy-sensitive industry -> entry audit framed as local-first knowledge system''] else [])),
      sv_confidence = match_confidence (length pains) (length (remdups types))\<rparr>)"

section \<open>The report on a prospect\<close>

definition tier_label :: "string \<Rightarrow> string" where
  "tier_label t = (if t \<in> {''OBSERVED'', ''CLIENT_VERIFIED'', ''CASE_STUDY''} then ''Observed''
     else if t = ''HYPOTHESIS'' then ''Inferred'' else ''Hypothesized'')"

definition labelled :: "string \<Rightarrow> doc \<Rightarrow> bool" where
  "labelled l ev \<longleftrightarrow> tier_label (get_str ev ''tier'') = l"

definition has_claim :: "string \<Rightarrow> doc list \<Rightarrow> bool" where
  "has_claim ctype evs \<longleftrightarrow> list_ex (\<lambda>ev. get_str ev ''claim_type'' = ctype) evs"

definition pain_cats :: "doc list \<Rightarrow> string list" where
  "pain_cats ps = map (\<lambda>p. str_lower (get_str p ''category'')) ps"

definition inferences :: "doc list \<Rightarrow> doc list \<Rightarrow> string list" where
  "inferences evs ps = (let cs = pain_cats ps; when = (\<lambda>b x. if b then [x] else []) in
     when (''data entry & intake'' \<in> set cs \<or> ''document flow'' \<in> set cs)
       ''Inferred: significant employee time is likely spent on manual data re-entry / document assembly.'' @
     when (''knowledge flow'' \<in> set cs) ''Inferred: operational knowledge is at risk of being lost when key individuals are unavailable.'' @
     when (''tooling & saas spend'' \<in> set cs) ''Inferred: overlapping SaaS spend exists that could be consolidated into an owned system.'' @
     when (has_claim ''urgency_signal'' evs) ''Inferred: a cost-review / renewal trigger makes this a timely conversation.'')"

definition hypothesis :: "string \<Rightarrow> string \<Rightarrow> doc" where
  "hypothesis h d = [(''hypothesis'', VStr h), (''discovery'', VStr d)]"

definition hypotheses :: "doc list \<Rightarrow> doc list \<Rightarrow> doc list" where
  "hypotheses evs ps = (let when = (\<lambda>b x. if b then [x] else []) in
     when (has_claim ''budget_signal'' evs)
       (hypothesis ''Budget figure reflects real, allocated spend.'' ''Confirm the budget is approved and the procurement timeline.'') @
     when (''knowledge flow'' \<in> set (pain_cats ps))
       (hypothesis ''Knowledge loss is causing measurable rework / onboarding delay.'' ''Quantify hours lost when a key person is out.'') @
     when (\<not> has_claim ''contact_info'' evs)
       (hypothesis ''A reachable decision maker exists for operations/AI.'' ''Identify and source the decision-maker contact.''))"

fun text_before :: "string \<Rightarrow> string \<Rightarrow> string" where
  "text_before p [] = []"
| "text_before p (c # cs) = (if starts_with (c # cs) p then [] else c # text_before p cs)"

definition distilled :: "string \<Rightarrow> string" where
  "distilled r = (let head = str_strip (text_before ''(weights'' r) in
     if ends_with head ''from'' then str_strip (take (length head - 4) head) else head)"

definition draft_step :: "doc \<Rightarrow> doc option \<Rightarrow> string" where
  "draft_step ld top_draft = (case top_draft of
       None \<Rightarrow> str_or (get_str ld ''next_action'') ''Research decision-maker / find contact''
     | Some d \<Rightarrow> (let st = get_str d ''state'' in
         if st = ''draft'' then ''Approve & send drafted outreach (human-gated)''
         else if st = ''approved'' then ''Send approved outreach (human-gated)''
         else if st = ''sent'' then ''Await reply''
         else get_str ld ''next_action''))"

definition best_pain :: "doc list \<Rightarrow> rat" where
  "best_pain ps = (if ps = [] then 0 else Max (set (map (\<lambda>p. get_num p ''opportunity_score'') ps)))"

definition questions :: "doc list \<Rightarrow> doc list \<Rightarrow> doc list \<Rightarrow> string list" where
  "questions cts evs ps = (let when = (\<lambda>b x. if b then [x] else []);
     qs = when (cts = []) ''No contact identified - who is the decision maker for operations/AI?'' @
       when (\<not> has_claim ''urgency_signal'' evs) ''No documented urgency - is there a cost review / renewal trigger?'' @
       when (\<not> has_claim ''budget_signal'' evs) ''No budget signal - what is the realistic spend envelope?'' @
       when (ps \<noteq> [] \<and> best_pain ps < 15) ''Pain signal is weak - how much employee time is spent on this process?''
     in if qs = [] then [''Confirm the single highest-value workflow to audit first.''] else qs)"

definition unknowns :: "doc \<Rightarrow> doc list \<Rightarrow> doc list \<Rightarrow> string list" where
  "unknowns co cts evs = (let when = (\<lambda>b x. if b then [x] else []) in
     when (\<not> get_truthy co ''website'') ''website (missing - research scoped to roster only)'' @
     when (cts = []) ''a named decision-maker contact'' @
     when (\<not> has_claim ''budget_signal'' evs) ''budget confirmation'' @
     when (\<not> has_claim ''urgency_signal'' evs) ''a stated timeline / trigger'')"

text \<open>\<open>x.value\<close> on an enumeration cell: an empty cell is no member and has no such attribute.\<close>

definition enum_value :: "doc \<Rightarrow> string \<Rightarrow> error + string" where
  "enum_value d k = (if get_truthy d k then Inr (get_str d k) else Inl AttributeError)"

record prospect =
  ps_lead :: doc
  ps_company :: "doc option"
  ps_qual :: "doc option"
  ps_evidence :: "doc list"
  ps_pain :: "doc list"
  ps_drafts :: "doc list"
  ps_contacts :: "doc list"

abbreviation first_of :: "'a list \<Rightarrow> 'a option" where
  "first_of xs \<equiv> (case xs of [] \<Rightarrow> None | x # _ \<Rightarrow> Some x)"

definition cell_or :: "doc \<Rightarrow> string \<Rightarrow> pyval \<Rightarrow> pyval" where
  "cell_or d k dflt = (case dget d k of Some v \<Rightarrow> v | None \<Rightarrow> dflt)"

definition claim_doc :: "string list \<Rightarrow> doc \<Rightarrow> doc" where
  "claim_doc ks ev = map (\<lambda>k. if k = ''tier'' then (k, VStr (tier_label (get_str ev ''tier'')))
     else if k = ''claim'' then (k, cell ev ''claim_text'') else (k, cell ev k)) ks"

definition icp_industry :: "doc option \<Rightarrow> pyval" where
  "icp_industry ql = (case ql of None \<Rightarrow> VStr []
     | Some q \<Rightarrow> (case cell_or (get_dict q ''signals'') ''icp_fit'' (VDict []) of VDict d \<Rightarrow> cell_or d ''icp'' (VStr []) | _ \<Rightarrow> VStr []))"

definition report_text :: "prospect \<Rightarrow> string \<Rightarrow> string \<Rightarrow> string \<Rightarrow> string \<Rightarrow> string \<Rightarrow> doc" where
  "report_text p lid tier stage state next_step =
     (let co = (case ps_company p of Some c \<Rightarrow> c | None \<Rightarrow> []); evs = ps_evidence p; ps = ps_pain p; cts = ps_contacts p;
          num = (\<lambda>k. case ps_qual p of Some q \<Rightarrow> get_num q k | None \<Rightarrow> 0);
          svc = match_service (map (\<lambda>x. get_str x ''category'') ps) (map (\<lambda>e. get_str e ''claim_type'') evs) co;
          seen = filter (labelled ''Observed'') evs; topd = first_of (ps_drafts p) in
      [(''lead_id'', VStr lid), (''company'', cell_or co ''name'' (VStr [])), (''industry'', cell_or co ''industry'' (VStr [])),
       (''geography'', cell_or co ''geography'' (VStr [])), (''team_size'', cell_or co ''team_size'' (VInt 0)),
       (''score'', VFloat (num ''score'')), (''tier'', VStr tier), (''stage'', VStr stage), (''icp_fit'', VFloat (num ''icp_fit'')),
       (''icp_industry'', icp_industry (ps_qual p)), (''opportunity_score'', VFloat (py_round 2 (best_pain ps))),
       (''why_this_company'', VStr (case ps_qual p of Some q \<Rightarrow> (if get_truthy q ''reasoning'' then distilled (get_str q ''reasoning'') else []) | None \<Rightarrow> [])),
       (''observed_evidence'', docs (map (claim_doc [''claim_type'', ''claim'', ''source_ref'', ''tier'']) seen)),
       (''business_signals'', docs (map (claim_doc [''claim_type'', ''claim'', ''source_ref''])
          (filter (\<lambda>e. get_str e ''claim_type'' \<notin> {''pain_point'', ''provenance''}) seen))),
       (''potential_pain'', docs (map (cols_of [''category'', ''text'', ''opportunity_score'']) ps)),
       (''inferences'', VList (map VStr (inferences evs ps))), (''hypotheses'', docs (hypotheses evs ps)),
       (''potential_ai_opportunity'', VStr (sv_why svc)), (''recommended_service'', VStr (sv_offer svc)),
       (''recommended_service_why'', VStr (sv_why svc)), (''service_match_confidence'', VStr (sv_confidence svc)),
       (''entry_offer'', VStr ENTRY_OFFER),
       (''who'', case cts of c # _ \<Rightarrow> cell c ''name'' | [] \<Rightarrow> VStr (get_str co ''name'' @ '' (contact unknown)'')),
       (''who_role'', case cts of c # _ \<Rightarrow> cell c ''role'' | [] \<Rightarrow> VStr []),
       (''offer'', case topd of Some d \<Rightarrow> cell d ''subject'' | None \<Rightarrow> VStr ENTRY_OFFER),
       (''offer_body_excerpt'', VStr (case topd of Some d \<Rightarrow> take 240 (get_str d ''body'') | None \<Rightarrow> [])),
       (''next_action'', VStr next_step), (''confidence'', VFloat (py_round 2 (num ''confidence''))),
       (''hypothesized_claims'', docs (map (claim_doc [''claim_type'', ''claim'']) (filter (labelled ''Hypothesized'') evs))),
       (''unknown_information'', VList (map VStr (unknowns co cts evs))), (''discovery_questions'', VList (map VStr (questions cts evs ps))),
       (''evidence_count'', VInt (int (length evs))), (''pain_point_count'', VInt (int (length ps))), (''draft_state'', VStr state)])"

definition report_of :: "prospect \<Rightarrow> string \<Rightarrow> error + doc" where
  "report_of p lid = (let topd = first_of (ps_drafts p) in
     bind_sum (case ps_qual p of Some q \<Rightarrow> enum_value q ''tier'' | None \<Rightarrow> Inr ''none'') (\<lambda>tier.
     bind_sum (enum_value (ps_lead p) ''stage'') (\<lambda>stage.
     bind_sum (case topd of Some d \<Rightarrow> enum_value d ''state'' | None \<Rightarrow> Inr []) (\<lambda>state.
       Inr (report_text p lid tier stage state (draft_step (ps_lead p) topd))))))"

definition prospect_of :: "string \<Rightarrow> doc \<Rightarrow> prospect lop" where
  "prospect_of lid ld =
     op_bind (one_ref ''companies'' (cell ld ''company_id'')) (\<lambda>co. op_bind (latest_qualification lid) (\<lambda>ql.
     op_bind (evidence_for lid []) (\<lambda>evs. op_bind (pain_points_for lid) (\<lambda>ps. op_bind (drafts [] lid) (\<lambda>ds.
     op_bind (case co of Some c \<Rightarrow> contacts_for (cell c ''id'') | None \<Rightarrow> op_return []) (\<lambda>cts.
       op_return \<lparr>ps_lead = ld, ps_company = co, ps_qual = ql, ps_evidence = evs, ps_pain = ps, ps_drafts = ds, ps_contacts = cts\<rparr>))))))"

definition build_prospect_report :: "string \<Rightarrow> doc lop" where
  "build_prospect_report lid = op_bind (get_lead lid) (\<lambda>found. case found of
       None \<Rightarrow> op_return [(''lead_id'', VStr lid), (''error'', VStr ''no such lead'')]
     | Some ld \<Rightarrow> op_bind (prospect_of lid ld) (\<lambda>p. op_lift (report_of p lid)))"

section \<open>The human evaluator\<close>

text \<open>\<open>CREATE TABLE IF NOT EXISTS\<close>: every table is there from the start.  \<open>INSERT OR REPLACE\<close> removes the row with the key and appends.\<close>

definition HUMAN :: string where "HUMAN = ''human_evaluations''"

definition human_row :: "string \<Rightarrow> string \<Rightarrow> rat \<Rightarrow> string \<Rightarrow> string \<Rightarrow> time \<Rightarrow> doc" where
  "human_row lid band sc why who t = [(''lead_id'', VStr lid), (''band'', VStr band), (''human_score'', VFloat sc), (''human_reason'', VStr why),
     (''evaluated_by'', VStr who), (''created'', VFloat t)]"

definition record_human_evaluation :: "string \<Rightarrow> string \<Rightarrow> rat \<Rightarrow> string \<Rightarrow> string \<Rightarrow> unit lop" where
  "record_human_evaluation lid band sc why who = op_bind sl_now (\<lambda>t.
     op_modify (\<lambda>s. set_table HUMAN (filter (\<lambda>r. \<not> is_cell ''lead_id'' lid r) (sl_tables s HUMAN) @ [human_row lid band sc why who t]) s))"

definition get_human_evaluations :: "(string \<times> doc) list lop" where
  "get_human_evaluations = op_bind (rows_of HUMAN) (\<lambda>rs. op_return (map (\<lambda>r. (get_str r ''lead_id'',
     cols_of [''band'', ''human_score'', ''human_reason'', ''evaluated_by''] r)) rs))"

definition BAND_SCORE :: "(string \<times> rat) list" where
  "BAND_SCORE = [(''A'', 90), (''B'', 70), (''C'', 45), (''D'', 20)]"

definition band_score :: "string \<Rightarrow> rat" where
  "band_score b = (case dget BAND_SCORE b of Some x \<Rightarrow> x | None \<Rightarrow> 0)"

record gap_row =
  gr_company :: pyval
  gr_lead :: string
  gr_machine :: rat
  gr_band :: string
  gr_human :: rat
  gr_gap :: rat
  gr_reason :: string

record disagreement =
  dg_evaluated :: nat
  dg_aligned :: nat
  dg_high :: "gap_row list"
  dg_low :: "gap_row list"
  dg_sample :: "gap_row list"

definition gap_of :: "gap_row \<Rightarrow> rat" where
  "gap_of r = gr_machine r - gr_human r"

definition gap_row_of :: "doc \<Rightarrow> doc \<Rightarrow> gap_row" where
  "gap_row_of r h = (let m = get_num r ''score''; b = get_str h ''band'' in
     \<lparr>gr_company = cell r ''company'', gr_lead = get_str r ''lead_id'', gr_machine = m, gr_band = b, gr_human = band_score b,
      gr_gap = py_round 2 (m - band_score b), gr_reason = get_str h ''human_reason''\<rparr>)"

definition judged_rows :: "(string \<times> doc) list \<Rightarrow> doc list \<Rightarrow> gap_row list" where
  "judged_rows humans reports = List.map_filter (\<lambda>r. map_option (gap_row_of r) (dget humans (get_str r ''lead_id''))) reports"

definition disagreement_of :: "nat \<Rightarrow> gap_row list \<Rightarrow> disagreement" where
  "disagreement_of n rows = (let high = filter (\<lambda>r. 25 \<le> gap_of r) rows; low = filter (\<lambda>r. \<not> 25 \<le> gap_of r \<and> gap_of r \<le> -25) rows;
       aligned = filter (\<lambda>r. \<not> 25 \<le> gap_of r \<and> \<not> gap_of r \<le> -25) rows in
     \<lparr>dg_evaluated = n, dg_aligned = length aligned, dg_high = sort_key (\<lambda>r. - gr_gap r) high, dg_low = sort_key gr_gap low,
      dg_sample = take 8 aligned\<rparr>)"

definition disagreement_report :: "doc list \<Rightarrow> disagreement lop" where
  "disagreement_report reports = op_bind get_human_evaluations (\<lambda>humans.
     op_return (disagreement_of (length humans) (judged_rows humans reports)))"

section \<open>Ranking, summary, audit trail\<close>

definition ranked :: "nat \<Rightarrow> doc list \<Rightarrow> doc list" where
  "ranked top_n reports = take top_n (sort_key (\<lambda>r. - get_num r ''score'') reports)"

definition rank_reason :: "env \<Rightarrow> doc \<Rightarrow> doc option \<Rightarrow> string" where
  "rank_reason e r below = ''score '' @ py_str e (cell r ''score'') @ '' = icp_fit '' @ py_str e (cell r ''icp_fit'') @ '' + ''
     @ py_str e (cell r ''pain_point_count'') @ '' pain point(s) + '' @ py_str e (cell r ''evidence_count'') @ '' evidence row(s)''
     @ (case below of None \<Rightarrow> []
        | Some n \<Rightarrow> ''; ranks above '' @ py_str e (cell n ''company'') @ '' by '' @ float_repr e (py_round 2 (get_num r ''score'' - get_num n ''score''))
            @ '' (higher icp_fit/pain/evidence)'')"

fun explain_ranks :: "env \<Rightarrow> int \<Rightarrow> doc list \<Rightarrow> doc list" where
  "explain_ranks e i [] = []"
| "explain_ranks e i (r # rs) = ([(''rank'', VInt i), (''company'', cell r ''company''), (''score'', cell r ''score''),
     (''industry'', cell r ''industry''), (''why_above_next'', VStr (rank_reason e r (first_of rs))),
     (''recommended_service'', cell r ''recommended_service''), (''service_match_confidence'', cell r ''service_match_confidence'')])
     # explain_ranks e (i + 1) rs"

definition ranking_explanation :: "env \<Rightarrow> doc list \<Rightarrow> nat \<Rightarrow> doc list" where
  "ranking_explanation e reports top_n = explain_ranks e 1 (ranked top_n reports)"

record run_bands =
  rb_total :: nat
  rb_high :: nat
  rb_medium :: nat
  rb_low :: nat
  rb_insufficient :: nat
  rb_high_at :: rat
  rb_medium_at :: rat
  rb_top_n :: nat

definition bands_of :: "rat \<Rightarrow> rat \<Rightarrow> nat \<Rightarrow> doc option list \<Rightarrow> run_bands" where
  "bands_of hi mid n qs = (let scores = List.map_filter (map_option (\<lambda>q. get_num q ''score'')) qs in
     \<lparr>rb_total = length qs, rb_high = length (filter (\<lambda>x. hi \<le> x) scores), rb_medium = length (filter (\<lambda>x. \<not> hi \<le> x \<and> mid \<le> x) scores),
      rb_low = length (filter (\<lambda>x. \<not> hi \<le> x \<and> \<not> mid \<le> x) scores), rb_insufficient = length (filter (\<lambda>q. q = None) qs),
      rb_high_at = hi, rb_medium_at = mid, rb_top_n = n\<rparr>)"

definition run_summary :: "rat \<Rightarrow> rat \<Rightarrow> nat \<Rightarrow> run_bands lop" where
  "run_summary hi mid n = op_bind (search_leads (all_leads\<lparr>lq_limit := 500\<rparr>)) (\<lambda>ls.
     op_bind (op_mapM (\<lambda>l. latest_qualification (get_str l ''id'')) ls) (\<lambda>qs. op_return (bands_of hi mid n qs)))"

definition trail_of :: "string \<Rightarrow> string \<Rightarrow> doc option \<Rightarrow> doc option \<Rightarrow> doc list \<Rightarrow> doc list \<Rightarrow> doc list \<Rightarrow> doc" where
  "trail_of lid stage co ql evs acts hist =
     [(''lead_id'', VStr lid), (''company'', case co of Some c \<Rightarrow> cell c ''name'' | None \<Rightarrow> VStr []), (''stage'', VStr stage),
      (''score'', VFloat (case ql of Some q \<Rightarrow> get_num q ''score'' | None \<Rightarrow> 0)),
      (''evidence_sources'', VList (map VStr (sort (remdups (filter (\<lambda>x. x \<noteq> []) (map (\<lambda>e. get_str e ''source_ref'') evs)))))),
      (''activities'', docs (map (cols_of [''kind'', ''summary'', ''run_id'', ''evidence_ids'']) acts)),
      (''stage_history'', docs (map (\<lambda>h. [(''from'', cell h ''from_stage''), (''to'', cell h ''to_stage''), (''reason'', cell h ''reason''),
         (''run_id'', cell h ''run_id''), (''worker'', cell h ''worker'')]) hist))]"

definition audit_trail :: "string \<Rightarrow> doc option lop" where
  "audit_trail lid = op_bind (get_lead lid) (\<lambda>found. case found of
       None \<Rightarrow> op_return None
     | Some ld \<Rightarrow> op_bind (one_ref ''companies'' (cell ld ''company_id'')) (\<lambda>co. op_bind (evidence_for lid []) (\<lambda>evs.
         op_bind (activities_for lid 100) (\<lambda>acts. op_bind (stage_history lid) (\<lambda>hist. op_bind (op_lift (enum_value ld ''stage'')) (\<lambda>stage.
         op_bind (latest_qualification lid) (\<lambda>ql. op_return (Some (trail_of lid stage co ql evs acts hist)))))))))"

section \<open>The validation report\<close>

definition show_val :: "env \<Rightarrow> doc \<Rightarrow> string \<Rightarrow> string" where
  "show_val e d k = py_str e (cell d k)"

definition report_head :: "env \<Rightarrow> run_bands \<Rightarrow> string list" where
  "report_head e m = (let n = (\<lambda>k. int_str (int k)) in
     [''# REAL-WORLD VALIDATION REPORT (machine-readable companion below)'', [],
      ''> **FIXTURE DISCLOSURE:** This run used a clearly-labelled synthetic'', ''> prospect set (rwv_fixture.py). No real companies were researched,'',
      ''> no real contacts discovered, no real outreach sent. The purpose was'', ''> to validate the pipeline end-to-end, not to qualify real businesses.'', [],
      ''Prospects evaluated: '' @ n (rb_total m), ''High priority (>= '' @ float_repr e (rb_high_at m) @ ''): '' @ n (rb_high m),
      ''Medium priority: '' @ n (rb_medium m), ''Low priority: '' @ n (rb_low m), ''Insufficient evidence: '' @ n (rb_insufficient m),
      ''Rejected at discovery: 0'', ''Duplicates skipped: 0'', [], ''## TOP PROSPECTS'', []])"

definition prospect_lines :: "env \<Rightarrow> int \<times> doc \<Rightarrow> string list" where
  "prospect_lines e = (\<lambda>(i, r). let v = show_val e r; qs = get_list r ''discovery_questions'' in
     [int_str i @ ''. '' @ v ''company'' @ ''  (score '' @ v ''score'' @ '', '' @ v ''industry'' @ '')'', ''   Score: '' @ v ''score'',
      ''   Why:  '' @ v ''why_this_company'', ''   Offer: '' @ v ''recommended_service'' @ '' - '' @ v ''recommended_service_why''] @
     (if cell r ''recommended_service'' \<noteq> cell r ''entry_offer''
      then [''   Entry offer: '' @ v ''entry_offer'' @ '' (scope the follow-on after findings review)''] else []) @
     [''   Next:  '' @ v ''next_action'', ''   Evidence: '' @ v ''evidence_count'' @ '' row(s), '' @ v ''pain_point_count'' @ '' pain point(s)''] @
     (case qs of [] \<Rightarrow> [] | q # _ \<Rightarrow> [''   Discovery: '' @ py_str e q]))"

definition gap_lines :: "env \<Rightarrow> string \<Rightarrow> gap_row list \<Rightarrow> string list" where
  "gap_lines e title rows = (if rows = [] then [] else [[], title] @ concat (map (\<lambda>d.
     [''- '' @ py_str e (gr_company d) @ '': machine '' @ float_repr e (gr_machine d) @ '' / human '' @ gr_band d,
      ''    possible reason: '' @ str_or (gr_reason d) ''(not supplied)'']) rows))"

definition render_human_report :: "env \<Rightarrow> doc list \<Rightarrow> disagreement \<Rightarrow> run_bands \<Rightarrow> string" where
  "render_human_report e reports dg m = (let top_rows = ranked (rb_top_n m) reports in
     join line_sep (report_head e m @ concat (map (prospect_lines e) (zip (map int [1..<Suc (length top_rows)]) top_rows)) @
       [[], ''## MACHINE vs HUMAN DISAGREEMENT'', [],
        ''Evaluated by human: '' @ int_str (int (dg_evaluated dg)) @ ''; aligned: '' @ int_str (int (dg_aligned dg))] @
       gap_lines e ''### HIGH MACHINE / LOW HUMAN'' (dg_high dg) @ gap_lines e ''### LOW MACHINE / HIGH HUMAN'' (dg_low dg)))"

definition gap_dict :: "gap_row \<Rightarrow> doc" where
  "gap_dict r = [(''company'', gr_company r), (''lead_id'', VStr (gr_lead r)), (''machine_score'', VFloat (gr_machine r)), (''human_band'', VStr (gr_band r)),
     (''human_score'', VFloat (gr_human r)), (''gap'', VFloat (gr_gap r)), (''human_reason'', VStr (gr_reason r))]"

definition disagreement_dict :: "disagreement \<Rightarrow> doc" where
  "disagreement_dict d = [(''evaluated'', VInt (int (dg_evaluated d))), (''aligned'', VInt (int (dg_aligned d))),
     (''high_machine_low_human'', docs (map gap_dict (dg_high d))), (''low_machine_high_human'', docs (map gap_dict (dg_low d))),
     (''aligned_sample'', docs (map gap_dict (dg_sample d)))]"

definition bands_dict :: "run_bands \<Rightarrow> doc" where
  "bands_dict m = (let n = (\<lambda>k. VInt (int k)) in [(''prospects_evaluated'', n (rb_total m)), (''high'', n (rb_high m)), (''medium'', n (rb_medium m)),
     (''low'', n (rb_low m)), (''insufficient'', n (rb_insufficient m)), (''rejected'', VInt 0), (''duplicates'', VInt 0),
     (''high_threshold'', VFloat (rb_high_at m)), (''medium_threshold'', VFloat (rb_medium_at m)), (''top_n'', n (rb_top_n m))])"

definition render_machine_json :: "doc list \<Rightarrow> disagreement \<Rightarrow> doc list \<Rightarrow> run_bands \<Rightarrow> doc list \<Rightarrow> doc" where
  "render_machine_json reports dg ranking m audits =
     [(''disclosure'', VStr ''FIXTURE - synthetic prospects (rwv_fixture.py). Not real research.''), (''meta'', VDict (bands_dict m)),
      (''ranking_explanation'', docs ranking), (''prospects'', docs reports), (''disagreement'', VDict (disagreement_dict dg)),
      (''audit_samples'', docs audits)]"

section \<open>The JSON views\<close>

record desk =
  dk_corpus :: corpus
  dk_root :: string                  \<comment> \<open>the root of the default workspace\<close>
  dk_exc :: "error \<Rightarrow> string"

definition sales_docs_root :: "desk \<Rightarrow> string" where
  "sales_docs_root w = (let k = dk_corpus w; v = kd_environ k ''DAILYSALESOS_ROOT''; cand = path_join (dk_root w) ''sales_knowledge'' in
     if v \<noteq> [] \<and> kd_isdir k v then v else if kd_isdir k cand then cand else [])"

text \<open>\<open>/metrics\<close> gives the whole result of \<open>parse_daily_targets\<close> to \<open>daily_report\<close>, which looks in it for the names of targets.  Its
  keys stand for it here; what it holds is shown under \<open>targets\<close>.\<close>

definition parsed_dict :: "string \<Rightarrow> daily_targets \<Rightarrow> doc" where
  "parsed_dict rt d = (if dt_source d = [] then [(''targets'', VDict []), (''source_doc'', VStr []), (''found'', VBool False)]
     else [(''targets'', ints_dict (dt_targets d)), (''refs'', VDict (map (\<lambda>(k, v). (k, VStr v)) (dt_refs d))), (''source_doc'', VStr (dt_source d)),
       (''path'', VStr (path_join rt (dt_source d))), (''found'', VBool (targets_found d))])"

definition metrics_view :: "desk \<Rightarrow> string \<Rightarrow> doc lop" where
  "metrics_view w day = (let rt = sales_docs_root w in
     op_bind (op_lift (if rt = [] then Inr [] else bind_sum (parse_daily_targets (dk_corpus w) rt) (\<lambda>d. Inr (parsed_dict rt d)))) (\<lambda>parsed.
     op_bind (daily_report (map (\<lambda>(k, _). (k, 0)) parsed) rt day) (\<lambda>r. op_return (dset (report_dict r) ''targets'' (VDict parsed)))))"

definition run_sales_check :: "desk \<Rightarrow> doc \<Rightarrow> string \<times> (doc \<Rightarrow> check_result lop) \<Rightarrow> check_result lop" where
  "run_sales_check w spec = (\<lambda>(name, fn) s. case fn spec s of
       (Inl e, s') \<Rightarrow> (Inr (check_out name Unverifiable (dk_exc w e) VNone VNone []), s')
     | r \<Rightarrow> r)"

definition verify_sales :: "desk \<Rightarrow> string \<Rightarrow> check_result list lop" where
  "verify_sales w day = op_mapM (\<lambda>c. run_sales_check w [(''check'', VStr (fst c)), (''day'', VStr day)] c) SALES_CHECKS"

definition check_vars :: "check_result \<Rightarrow> doc" where
  "check_vars r = [(''check'', VStr (cr_check r)), (''status'', VStr (verification_outcome_value (cr_status r))), (''detail'', VStr (cr_detail r)),
     (''expected'', cr_expected r), (''actual'', cr_actual r), (''source_ref'', VStr (cr_source_ref r))]"

text \<open>\<open>search_leads\<close> returns dictionaries, which have no \<open>to_dict\<close>.\<close>

definition pipeline_view :: "string \<Rightarrow> string \<Rightarrow> pyval lop" where
  "pipeline_view path stage = (if ends_with path ''/summary'' then op_bind pipeline_summary (\<lambda>rows. op_return (docs (map stage_dict rows)))
     else op_bind (search_leads (all_leads\<lparr>lq_stage := stage\<rparr>)) (\<lambda>ls. if ls = [] then op_return (VList []) else op_raise AttributeError))"

definition lead_view_doc :: "string \<Rightarrow> doc \<Rightarrow> doc lop" where
  "lead_view_doc lid ld = op_bind (evidence_for lid []) (\<lambda>evs. op_bind (qualifications_for lid) (\<lambda>qls. op_bind (pain_points_for lid) (\<lambda>pps.
     op_bind (drafts [] lid) (\<lambda>drs. op_bind (stage_history lid) (\<lambda>hist.
       op_return (ld @ [(''evidence'', docs evs), (''qualifications'', docs qls), (''pain_points'', docs pps), (''drafts'', docs drs),
         (''stage_history'', docs hist)]))))))"

definition SALES_ROUTES :: "string list" where
  "SALES_ROUTES = [''/api/v1/sales/pipeline'', ''/api/v1/sales/lead/<id>'', ''/api/v1/sales/metrics'', ''/api/v1/sales/icp'', ''/api/v1/sales/verify'']"

definition ok_view :: "pyval lop \<Rightarrow> (pyval \<times> nat) lop" where
  "ok_view m = op_bind m (\<lambda>v. op_return (v, 200))"

definition sales_dispatch :: "desk \<Rightarrow> string \<Rightarrow> (string \<times> string list) list \<Rightarrow> (pyval \<times> nat) lop" where
  "sales_dispatch w path qs = (let arg = (\<lambda>k. case dget qs k of Some (v # _) \<Rightarrow> v | _ \<Rightarrow> []) in
     if path \<in> {[], ''/''} then op_return (VDict [(''service'', VStr ''sales''), (''routes'', VList (map VStr SALES_ROUTES))], 200)
     else if starts_with path ''/pipeline'' then ok_view (pipeline_view path (arg ''stage''))
     else if starts_with path ''/lead/'' then (let lid = drop (length ''/lead/'') path in op_bind (get_lead lid) (\<lambda>found. case found of
         None \<Rightarrow> op_return (VDict [(''error'', VStr ''lead not found''), (''lead_id'', VStr lid)], 404)
       | Some ld \<Rightarrow> ok_view (op_bind (lead_view_doc lid ld) (\<lambda>d. op_return (VDict d)))))
     else if path = ''/metrics'' then ok_view (op_bind (metrics_view w (arg ''day'')) (\<lambda>d. op_return (VDict d)))
     else if path = ''/icp'' then ok_view (op_bind active_icp (\<lambda>ds. op_return (docs ds)))
     else if path = ''/verify'' then ok_view (op_bind (verify_sales w (arg ''day'')) (\<lambda>rs. op_return (docs (map check_vars rs))))
     else op_return (VDict [(''error'', VStr ''not found''), (''path'', VStr path)], 404))"

section \<open>The desk of the operator\<close>

definition brief_step :: "doc \<Rightarrow> doc option \<Rightarrow> string" where
  "brief_step ld topd = (case topd of
       None \<Rightarrow> get_str ld ''next_action''
     | Some d \<Rightarrow> (let st = get_str d ''state'' in
         if st = ''draft'' then ''Approve & send drafted outreach'' else if st = ''approved'' then ''Send approved outreach''
         else if st = ''sent'' then ''Await reply''
         else str_or (get_str ld ''next_action'') (''('' @ st @ '')'')))"

definition brief_row :: "doc \<Rightarrow> doc list \<Rightarrow> doc list \<Rightarrow> doc" where
  "brief_row ld quals ds = (let topd = first_of ds in
     [(''company'', cell_or ld ''company_name'' (VStr ''?'')), (''score'', cell_or ld ''score'' (VFloat 0)), (''stage'', cell_or ld ''stage'' (VStr ''?'')),
      (''industry'', cell_or ld ''industry'' (VStr [])),
      (''why'', VStr (case quals of q # _ \<Rightarrow> (if get_truthy q ''reasoning'' then distilled (get_str q ''reasoning'') else []) | [] \<Rightarrow> [])),
      (''offer'', case topd of Some d \<Rightarrow> cell d ''subject'' | None \<Rightarrow> VStr []), (''next'', VStr (brief_step ld topd)),
      (''pending'', VBool (case topd of Some d \<Rightarrow> get_str d ''state'' = ''draft'' | None \<Rightarrow> False))])"

record brief =
  bf_report :: sales_report
  bf_due :: due_items
  bf_who :: "doc list"

definition sales_brief :: "desk \<Rightarrow> string \<Rightarrow> string \<Rightarrow> brief lop" where
  "sales_brief w day on = (let rt = sales_docs_root w in
     op_bind (op_lift (if rt = [] then Inr ([], []) else bind_sum (parse_daily_targets (dk_corpus w) rt) (\<lambda>d. Inr (dt_targets d, dt_source d)))) (\<lambda>(targets, source).
     op_bind (daily_report targets source day) (\<lambda>r. op_bind (due_today on) (\<lambda>due.
     op_bind (search_leads (all_leads\<lparr>lq_limit := 8\<rparr>)) (\<lambda>ls.
     op_bind (op_mapM (\<lambda>ld. op_bind (qualifications_for (get_str ld ''id'')) (\<lambda>qls. op_bind (drafts [] (get_str ld ''id'')) (\<lambda>ds.
       op_return (brief_row ld qls ds)))) ls) (\<lambda>who. op_return \<lparr>bf_report = r, bf_due = due, bf_who = who\<rparr>))))))"

record send_tally =
  sy_sent :: nat
  sy_skipped :: nat
  sy_staged :: nat

fun send_each :: "string \<Rightarrow> doc list \<Rightarrow> send_tally \<Rightarrow> send_tally lop" where
  "send_each receipt [] n = op_return n"
| "send_each receipt (d # ds) n = op_bind (attempt (record_sent (get_str d ''id'') receipt [])) (\<lambda>res. send_each receipt ds (case res of
       None \<Rightarrow> n\<lparr>sy_skipped := sy_skipped n + 1\<rparr>
     | Some r \<Rightarrow> n\<lparr>sy_sent := sy_sent n + 1, sy_staged := sy_staged n + (if se_followup r = None then 0 else 1)\<rparr>))"

text \<open>The exit code, and the tally that is printed.\<close>

definition send_pending :: "bool \<Rightarrow> string \<Rightarrow> (int \<times> send_tally option) lop" where
  "send_pending confirm receipt = (if \<not> confirm then op_return (1, None)
     else op_bind (drafts ''approved'' []) (\<lambda>ds. op_bind (send_each (str_or receipt ''cli-bulk'') ds \<lparr>sy_sent = 0, sy_skipped = 0, sy_staged = 0\<rparr>) (\<lambda>n.
       op_return (0, Some n))))"

definition verify_command :: "desk \<Rightarrow> string \<Rightarrow> (int \<times> check_result list) lop" where
  "verify_command w day = op_bind (verify_sales w day) (\<lambda>rs. op_return (if list_all passed rs then 0 else 1, rs))"

definition disagreement_command :: "disagreement lop" where
  "disagreement_command = op_bind (search_leads (all_leads\<lparr>lq_limit := 500\<rparr>)) (\<lambda>ls.
     op_bind (op_mapM (\<lambda>l. build_prospect_report (get_str l ''id'')) ls) (\<lambda>rs.
       disagreement_report (filter (\<lambda>r. ''error'' \<notin> set (dkeys r)) rs)))"

section \<open>Operations that read past a table\<close>

definition same_but :: "string \<Rightarrow> ledger \<Rightarrow> ledger \<Rightarrow> bool" where
  "same_but t s s' \<longleftrightarrow> sl_env s' = sl_env s \<and> (\<forall>t'. t' \<noteq> t \<longrightarrow> sl_tables s' t' = sl_tables s t')"

definition reads_past :: "string \<Rightarrow> 'a lop \<Rightarrow> bool" where
  "reads_past t m \<longleftrightarrow> (\<forall>s s'. same_but t s s' \<longrightarrow> fst (m s') = fst (m s) \<and> snd (m s) = s \<and> snd (m s') = s')"

named_theorems reads_past_intros \<open>operations that only read, and not the named table\<close>

lemma reads_past_return [reads_past_intros]: "reads_past t (op_return x)" "reads_past t (op_raise e)" "reads_past t (op_lift r)"
  by (cases r) (simp_all add: reads_past_def op_lift_def op_return_def op_raise_def split: sum.split)

lemma reads_past_bind [reads_past_intros]:
  assumes "reads_past t m" and "\<And>x. reads_past t (f x)"
  shows "reads_past t (op_bind m f)"
  unfolding reads_past_def
proof (intro allI impI)
  fix s s'
  assume "same_but t s s'"
  with assms have "fst (m s') = fst (m s)" "snd (m s) = s" "snd (m s') = s'" "\<And>x. fst (f x s') = fst (f x s) \<and> snd (f x s) = s \<and> snd (f x s') = s'"
    unfolding reads_past_def by blast+
  then show "fst (op_bind m f s') = fst (op_bind m f s) \<and> snd (op_bind m f s) = s \<and> snd (op_bind m f s') = s'"
    by (cases "m s"; cases "m s'") (auto simp: op_bind_apply split: sum.split)
qed

lemma reads_past_rows [reads_past_intros]: "t' \<noteq> t \<Longrightarrow> reads_past t (rows_of t')"
  by (simp add: reads_past_def rows_of_def same_but_def)

lemma reads_past_if [reads_past_intros]: "(b \<Longrightarrow> reads_past t m) \<Longrightarrow> (\<not> b \<Longrightarrow> reads_past t m') \<Longrightarrow> reads_past t (if b then m else m')"
  by simp

lemma reads_past_opt [reads_past_intros]: "reads_past t m \<Longrightarrow> (\<And>x. reads_past t (f x)) \<Longrightarrow> reads_past t (case v of None \<Rightarrow> m | Some x \<Rightarrow> f x)"
  by (cases v) simp_all

lemma reads_past_sel [reads_past_intros]: "t' \<noteq> t \<Longrightarrow> reads_past t (sel_by t' P k)" "t' \<noteq> t \<Longrightarrow> reads_past t (one_row t' rid)"
  "t' \<noteq> t \<Longrightarrow> reads_past t (one_ref t' v)"
proof -
  show o: "t' \<noteq> t \<Longrightarrow> reads_past t (one_row t' rid)" for rid unfolding one_row_def by (intro reads_past_intros)
  show "t' \<noteq> t \<Longrightarrow> reads_past t (sel_by t' P k)" unfolding sel_by_def decode_rows_def by (intro reads_past_intros)
  show "t' \<noteq> t \<Longrightarrow> reads_past t (one_ref t' v)" unfolding one_ref_def by (cases v) (auto intro: o reads_past_intros)
qed

lemma report_reads_past: "reads_past HUMAN (build_prospect_report lid)"
  unfolding build_prospect_report_def prospect_of_def get_lead_def latest_qualification_def qualifications_for_def evidence_for_def
    pain_points_for_def drafts_def contacts_for_def HUMAN_def
  by (intro reads_past_intros) simp_all

lemma judgement_same: "same_but HUMAN s (snd (record_human_evaluation lid band sc why who s))"
  by (simp add: record_human_evaluation_def op_bind_apply sl_now_def same_but_def)

lemma schema_spares_judgements:
  "schema_of HUMAN = None" "schema_of t = Some cols \<Longrightarrow> list_all (\<lambda>c. cl_ref c \<noteq> Some HUMAN) cols"
proof -
  have a: "list_all (\<lambda>(k, cols). k \<noteq> HUMAN \<and> list_all (\<lambda>c. cl_ref c \<noteq> Some HUMAN) cols) (DDL @ PREEXISTING_DDL)" by code_simp
  show "schema_of HUMAN = None" by code_simp
  show "schema_of t = Some cols \<Longrightarrow> list_all (\<lambda>c. cl_ref c \<noteq> Some HUMAN) cols"
    using a by (fastforce simp: schema_of_def list_all_iff dest!: dget_SomeD split: option.splits)
qed

lemma table_ok_spared:
  assumes "\<forall>t. t \<noteq> HUMAN \<longrightarrow> T' t = T t" and "t \<noteq> HUMAN" and "list_all (\<lambda>c. cl_ref c \<noteq> Some HUMAN) cols"
  shows "table_ok T' t cols \<longleftrightarrow> table_ok T t cols"
proof -
  have "row_sound T' cols r \<longleftrightarrow> row_sound T cols r" for r
    unfolding row_sound_def refers_def using assms(1,3) by (induction cols) (auto split: option.splits)
  then show ?thesis using assms(1,2) by (simp add: table_ok_def)
qed

lemma ledger_ok_spared:
  assumes "\<forall>t. t \<noteq> HUMAN \<longrightarrow> sl_tables s' t = sl_tables s t"
  shows "ledger_ok s' = ledger_ok s"
proof -
  have "table_ok (sl_tables s') t cols \<longleftrightarrow> table_ok (sl_tables s) t cols" if "schema_of t = Some cols" for t cols
    using table_ok_spared [OF assms, of t cols] that schema_spares_judgements by (cases "t = HUMAN") auto
  then show ?thesis by (simp add: ledger_ok_def)
qed

text \<open>a human judgement never touches a score.  Recording a judgement changes the table of judgements only; the integrity of the ledger
  is what it was, the report on every prospect, its score included, is word for word the same, and the judgement is read back as the last one.\<close>

theorem human_judgement_never_scores:
  "let s' = snd (record_human_evaluation lid band sc why who s) in
   sl_tables s' = (sl_tables s)(HUMAN := sl_tables s' HUMAN) \<and> ledger_ok s' = ledger_ok s \<and>
   (\<forall>l. fst (build_prospect_report l s') = fst (build_prospect_report l s)) \<and>
   (\<exists>hs. fst (get_human_evaluations s') = Inr (hs @ [(lid, [(''band'', VStr band), (''human_score'', VFloat sc), (''human_reason'', VStr why), (''evaluated_by'', VStr who)])]))"
proof -
  let ?s = "snd (record_human_evaluation lid band sc why who s)"
  have same: "same_but HUMAN s ?s" by (rule judgement_same)
  then have "sl_tables ?s = (sl_tables s)(HUMAN := sl_tables ?s HUMAN)" "ledger_ok ?s = ledger_ok s"
    using ledger_ok_spared by (auto simp: same_but_def)
  moreover have "fst (build_prospect_report l ?s) = fst (build_prospect_report l s)" for l
    using report_reads_past [of l] same by (simp add: reads_past_def)
  moreover have "fst (get_human_evaluations ?s) = Inr (map (\<lambda>r. (get_str r ''lead_id'', cols_of [''band'', ''human_score'', ''human_reason'', ''evaluated_by''] r))
      (filter (\<lambda>r. \<not> is_cell ''lead_id'' lid r) (sl_tables s HUMAN)) @
      [(lid, [(''band'', VStr band), (''human_score'', VFloat sc), (''human_reason'', VStr why), (''evaluated_by'', VStr who)])])"
    by (simp add: get_human_evaluations_def record_human_evaluation_def op_bind_apply rows_of_def sl_now_def human_row_def get_str_def cols_of_def cell_def)
  ultimately show ?thesis unfolding Let_def by blast
qed

lemma disagreement_parts:
  "mset (dg_high (disagreement_of n rows)) = filter_mset (\<lambda>r. 25 \<le> gap_of r) (mset rows)"
  "mset (dg_low (disagreement_of n rows)) = filter_mset (\<lambda>r. gap_of r \<le> -25) (mset rows)"
  "dg_aligned (disagreement_of n rows) = length (filter (\<lambda>r. \<bar>gap_of r\<bar> < 25) rows)"
  "sorted_wrt (\<lambda>a b. gr_gap b \<le> gr_gap a) (dg_high (disagreement_of n rows))"
  "sorted_wrt (\<lambda>a b. gr_gap a \<le> gr_gap b) (dg_low (disagreement_of n rows))"
proof -
  have low: "filter (\<lambda>r. \<not> 25 \<le> gap_of r \<and> gap_of r \<le> -25) rows = filter (\<lambda>r. gap_of r \<le> -25) rows" by (rule filter_cong) auto
  have mid: "filter (\<lambda>r. \<not> 25 \<le> gap_of r \<and> \<not> gap_of r \<le> -25) rows = filter (\<lambda>r. \<bar>gap_of r\<bar> < 25) rows" by (rule filter_cong) auto
  note d = disagreement_of_def Let_def low mid
  show "mset (dg_high (disagreement_of n rows)) = filter_mset (\<lambda>r. 25 \<le> gap_of r) (mset rows)"
    "mset (dg_low (disagreement_of n rows)) = filter_mset (\<lambda>r. gap_of r \<le> -25) (mset rows)"
    "dg_aligned (disagreement_of n rows) = length (filter (\<lambda>r. \<bar>gap_of r\<bar> < 25) rows)"
    by (simp_all add: d)
  show "sorted_wrt (\<lambda>a b. gr_gap b \<le> gr_gap a) (dg_high (disagreement_of n rows))"
    using sorted_sort_key [of "\<lambda>r. - gr_gap r" "filter (\<lambda>r. 25 \<le> gap_of r) rows"] by (simp add: d sorted_map)
  show "sorted_wrt (\<lambda>a b. gr_gap a \<le> gr_gap b) (dg_low (disagreement_of n rows))"
    using sorted_sort_key [of gr_gap "filter (\<lambda>r. gap_of r \<le> -25) rows"] by (simp add: d sorted_map)
qed

text \<open>the comparison with the human accounts for every judged prospect.  The rows compared are the reports whose lead was judged, in their
  order; a prospect counts as overrated when the machine is at least 25 points above the band, as underrated when it is at least 25 below, and as
  aligned otherwise, so that the three classes make up all of them; both lists of differences have the greatest one first.\<close>

theorem disagreement_accounts:
  assumes "disagreement_report reports s = (Inr d, s')"
  shows "\<exists>humans. get_human_evaluations s = (Inr humans, s) \<and> s' = s \<and> dg_evaluated d = length humans \<and>
    (let rows = judged_rows humans reports in
     map gr_lead rows = filter (\<lambda>l. dget humans l \<noteq> None) (map (\<lambda>r. get_str r ''lead_id'') reports) \<and>
     mset (dg_high d) = filter_mset (\<lambda>r. 25 \<le> gap_of r) (mset rows) \<and> mset (dg_low d) = filter_mset (\<lambda>r. gap_of r \<le> -25) (mset rows) \<and>
     length (dg_high d) + length (dg_low d) + dg_aligned d = length rows \<and>
     sorted_wrt (\<lambda>a b. gr_gap b \<le> gr_gap a) (dg_high d) \<and> sorted_wrt (\<lambda>a b. gr_gap a \<le> gr_gap b) (dg_low d))"
proof -
  obtain humans where h: "get_human_evaluations s = (Inr humans, s)" by (simp add: get_human_evaluations_def op_bind_apply rows_of_def)
  have d: "d = disagreement_of (length humans) (judged_rows humans reports)" "s' = s" "dg_evaluated d = length humans"
    using assms h by (auto simp: disagreement_report_def op_bind_apply disagreement_of_def Let_def)
  have leads: "map gr_lead (judged_rows humans reports) = filter (\<lambda>l. dget humans l \<noteq> None) (map (\<lambda>r. get_str r ''lead_id'') reports)"
    by (induction reports) (auto simp: judged_rows_def List.map_filter_def gap_row_of_def Let_def)
  have three: "length (filter (\<lambda>r. 25 \<le> gap_of r) rs) + length (filter (\<lambda>r. gap_of r \<le> -25) rs) + length (filter (\<lambda>r. \<bar>gap_of r\<bar> < 25) rs) = length rs" for rs
    by (induction rs) auto
  have "length (dg_high d) + length (dg_low d) + dg_aligned d = length (judged_rows humans reports)"
    using arg_cong [OF disagreement_parts(1) [of "length humans" "judged_rows humans reports"], of size]
      arg_cong [OF disagreement_parts(2) [of "length humans" "judged_rows humans reports"], of size] three [of "judged_rows humans reports"]
    by (simp only: d(1) disagreement_parts(3) size_mset mset_filter [symmetric])
  then show ?thesis using h d leads disagreement_parts [of "length humans" "judged_rows humans reports"] unfolding Let_def by blast
qed

definition demo_judged :: ledger where
  "demo_judged = snd (record_human_evaluation ''lead_0'' ''D'' 10 ''too small'' ''ann'' (empty_ledger demo_env))"

lemma disagreement_accounts_witness:
  "\<exists>d. disagreement_report [[(''lead_id'', VStr ''lead_0''), (''company'', VStr ''Acme''), (''score'', VFloat 80)], [(''lead_id'', VStr ''lead_1'')]] demo_judged
      = (Inr d, demo_judged) \<and> length (dg_high d) + length (dg_low d) + dg_aligned d = 1 \<and> length (dg_high d) = 1"
proof -
  let ?rs = "[[(''lead_id'', VStr ''lead_0''), (''company'', VStr ''Acme''), (''score'', VFloat 80)], [(''lead_id'', VStr ''lead_1'')]]"
  obtain d where d: "disagreement_report ?rs demo_judged = (Inr d, demo_judged)"
    by (simp add: disagreement_report_def get_human_evaluations_def op_bind_apply rows_of_def)
  have "(case fst (disagreement_report ?rs demo_judged) of Inr d \<Rightarrow> length (dg_high d) | Inl _ \<Rightarrow> 0) = 1" by code_simp
  moreover have "(case fst (get_human_evaluations demo_judged) of Inr h \<Rightarrow> length (judged_rows h ?rs) | Inl _ \<Rightarrow> 0) = 1" by code_simp
  ultimately show ?thesis using d disagreement_accounts [OF d] unfolding Let_def by auto
qed

text \<open>the bands of a run account for every lead.  In the summary of a validation run each lead is counted once, as high, medium or low by
  its latest score, or as one without a score.\<close>

theorem bands_account:
  "rb_high (bands_of hi mid n qs) + rb_medium (bands_of hi mid n qs) + rb_low (bands_of hi mid n qs) + rb_insufficient (bands_of hi mid n qs) = length qs"
  by (induction qs) (auto simp: bands_of_def List.map_filter_def Let_def)

section \<open>The views\<close>

lemma fixed_tables_reads [op_inv_intros]:
  "op_inv (\<lambda>s. sl_tables s = T) sl_now" "op_inv (\<lambda>s. sl_tables s = T) (rows_of t)" "op_inv (\<lambda>s. sl_tables s = T) sl_today"
  "op_inv (\<lambda>s. sl_tables s = T) (one_row t rid)" "op_inv (\<lambda>s. sl_tables s = T) (sel_by t P k)"
proof -
  show n: "op_inv (\<lambda>s. sl_tables s = T) sl_now" by (simp add: op_inv_def sl_now_def)
  show r: "op_inv (\<lambda>s. sl_tables s = T) (rows_of t)" for t by (simp add: op_inv_def rows_of_def)
  show "op_inv (\<lambda>s. sl_tables s = T) sl_today" unfolding sl_today_def by (intro op_inv_intros n)
  show "op_inv (\<lambda>s. sl_tables s = T) (one_row t rid)" "op_inv (\<lambda>s. sl_tables s = T) (sel_by t P k)"
    unfolding one_row_def sel_by_def decode_rows_def by (intro op_inv_intros r)+
qed

lemma fixed_tables_checked [op_inv_intros]:
  "op_inv (\<lambda>s. sl_tables s = T) (snd c spec) \<Longrightarrow> op_inv (\<lambda>s. sl_tables s = T) (run_sales_check w spec c)"
  by (force simp: op_inv_def run_sales_check_def split: prod.split sum.split)

lemma fixed_tables_views [op_inv_intros]:
  "op_inv (\<lambda>s. sl_tables s = T) (daily_report targets source day)" "op_inv (\<lambda>s. sl_tables s = T) pipeline_summary"
  "op_inv (\<lambda>s. sl_tables s = T) (search_leads q)" "op_inv (\<lambda>s. sl_tables s = T) active_icp"
  unfolding daily_report_def daily_counts_def day_bounds_def bottlenecks_def stale_leads_def pipeline_summary_def drafts_def search_leads_def
    active_icp_def decode_rows_def Let_def
  by (intro op_inv_intros)+

lemma sales_checks_read: "c \<in> set SALES_CHECKS \<Longrightarrow> op_inv (\<lambda>s. sl_tables s = T) (snd c spec)"
proof -
  have "op_inv (\<lambda>s. sl_tables s = T) (score_recomputes spec)" "op_inv (\<lambda>s. sl_tables s = T) evidence_has_source"
    "op_inv (\<lambda>s. sl_tables s = T) outreach_approved_first" "op_inv (\<lambda>s. sl_tables s = T) pipeline_legal"
    "op_inv (\<lambda>s. sl_tables s = T) (metrics_match_ledger spec)"
    unfolding evidence_has_source_def outreach_approved_first_def pipeline_legal_def rows_check_def score_recomputes_def score_mismatch_def
      score_breakdown_def metrics_match_ledger_def daily_counts_def day_bounds_def require_lead_def get_lead_def Let_def qualifications_for_def
      latest_qualification_def
    by (intro op_inv_intros)+
  then show "c \<in> set SALES_CHECKS \<Longrightarrow> op_inv (\<lambda>s. sl_tables s = T) (snd c spec)" by (auto simp: SALES_CHECKS_def)
qed

lemma mapM_in: "(\<And>x. x \<in> set xs \<Longrightarrow> op_inv P (f x)) \<Longrightarrow> op_inv P (op_mapM f xs)"
  by (induction xs) (auto intro!: op_inv_intros)

lemma verify_reads: "op_inv (\<lambda>s. sl_tables s = T) (verify_sales w day)"
  unfolding verify_sales_def by (intro mapM_in fixed_tables_checked sales_checks_read)

text \<open>the views of the web interface read.  Whatever path is asked for, with whatever parameters, the tables of the ledger are
  the same afterwards, the verification checks, which the view runs, included.\<close>

theorem sales_views_read:
  "sl_tables (snd (sales_dispatch w path qs s)) = sl_tables s"
proof -
  have "op_inv (\<lambda>t. sl_tables t = sl_tables s) (sales_dispatch w path qs)"
    unfolding sales_dispatch_def ok_view_def pipeline_view_def metrics_view_def lead_view_doc_def get_lead_def evidence_for_def qualifications_for_def
      pain_points_for_def drafts_def stage_history_def Let_def
    by (intro op_inv_intros verify_reads)
  then show ?thesis by (simp add: op_inv_def)
qed

lemma stray_targets:
  assumes "daily_report (map (\<lambda>(k, _). (k, 0)) parsed) source day s = (Inr r, s')" and "parsed \<noteq> []" and "\<forall>k\<in>set (dkeys parsed). k \<notin> set (dkeys TARGET_MAP)"
  shows "rp_failed r = Some False \<and> rp_vs_target r = []"
proof -
  let ?t = "map (\<lambda>(k, _). (k, 0)) parsed :: counts"
  have g: "dget ?t k = None" if "k \<in> set (dkeys TARGET_MAP)" for k
    using assms(3) that by (force simp: dget_None_iff dkeys_def)
  have v: "vs_target cs ?t = []" for cs
    unfolding vs_target_def List.map_filter_def using g by (auto simp: filter_empty_conv dkeys_def) force
  then have f: "failed_day cs ?t = Some False" for cs using assms(2) by (simp add: failed_day_def)
  show ?thesis using assms(1) v f by (auto simp: daily_report_def op_bind_apply split: prod.splits sum.splits)
qed

text \<open>the day never fails on the web.  Whenever a corpus is found and the view of the metrics answers, it says that the day has not failed and
  compares nothing with any target, whatever the targets are and however little was done.\<close>

theorem web_day_never_fails:
  assumes "sales_docs_root w \<noteq> []" and "sales_dispatch w ''/metrics'' qs s = (Inr (VDict d, code), s')"
  shows "dget d ''failed_sales_day'' = Some (VBool False) \<and> dget d ''vs_target'' = Some (VDict [])"
proof -
  have disp: "sales_dispatch w ''/metrics'' qs = ok_view (op_bind (metrics_view w (case dget qs ''day'' of Some (v # _) \<Rightarrow> v | _ \<Rightarrow> [])) (\<lambda>d. op_return (VDict d)))"
    by (simp add: sales_dispatch_def Let_def)
  obtain t r where t: "d = dset (report_dict r) ''targets'' (VDict (parsed_dict (sales_docs_root w) t))"
    and r: "daily_report (map (\<lambda>(k, _). (k, 0)) (parsed_dict (sales_docs_root w) t)) (sales_docs_root w)
      (case dget qs ''day'' of Some (v # _) \<Rightarrow> v | _ \<Rightarrow> []) s = (Inr r, s')"
    using assms by (auto simp: disp ok_view_def metrics_view_def Let_def op_bind_apply elim!: bind_sumE split: prod.splits sum.splits)
  have "rp_failed r = Some False \<and> rp_vs_target r = []"
    by (rule stray_targets [OF r]) (auto simp: parsed_dict_def TARGET_MAP_def dkeys_def)
  then show ?thesis by (simp add: t report_dict_def opt_val_def)
qed

text \<open>the web shows no pipeline.  As soon as the ledger holds one lead of a company, the list of leads, unfiltered, ends in an exception.\<close>

theorem pipeline_view_raises:
  assumes "l \<in> set (sl_tables s ''leads'')" and "c \<in> set (sl_tables s ''companies'')" and "cell c ''id'' = cell l ''company_id''" and "cell l ''company_id'' \<noteq> VNone"
    and "starts_with path ''/pipeline''" and "\<not> ends_with path ''/summary''"
  shows "fst (sales_dispatch w path [] s) = Inl AttributeError"
proof -
  have "path \<notin> {[], ''/''}" using assms(5) by auto
  moreover have h: "lead_hits (all_leads\<lparr>lq_stage := []\<rparr>) [] l c" using assms(3,4) by (simp add: lead_hits_def all_leads_def)
  have "\<exists>x xs. search_leads (all_leads\<lparr>lq_stage := []\<rparr>) s = (Inr (x # xs), s)"
  proof -
    let ?hits = "concat (map (\<lambda>l. map (\<lambda>c. lead_view l c) (filter (lead_hits (all_leads\<lparr>lq_stage := []\<rparr>) [] l) (sl_tables s ''companies''))) (sl_tables s ''leads''))"
    have "?hits \<noteq> []" using assms(1,2) h by (auto simp: filter_empty_conv)
    then have "length (sql_limit 50 (sort_key (\<lambda>r. - get_num r ''score'') (sort_key (\<lambda>r. get_num r ''created'') ?hits))) \<noteq> 0"
      by (simp add: sql_limit_def)
    then have "sql_limit 50 (sort_key (\<lambda>r. - get_num r ''score'') (sort_key (\<lambda>r. get_num r ''created'') ?hits)) \<noteq> []" by (metis list.size(3))
    then show ?thesis by (simp add: search_leads_def op_bind_apply rows_of_def Let_def all_leads_def neq_Nil_conv)
  qed
  ultimately show ?thesis using assms(5,6) by (auto simp: sales_dispatch_def Let_def ok_view_def pipeline_view_def op_bind_apply)
qed

definition demo_desk :: desk where
  "demo_desk = \<lparr>dk_corpus = \<lparr>kd_environ = (\<lambda>_. ''/corpus''), kd_isdir = (\<lambda>_. True), kd_bundled = [], kd_isfile = (\<lambda>_. False), kd_text = (\<lambda>_. Inr [])\<rparr>,
     dk_root = ''/ws'', dk_exc = (\<lambda>_. [])\<rparr>"

lemma web_day_never_fails_witness:
  "\<exists>d s'. sales_dispatch demo_desk ''/metrics'' [(''day'', [''2026-01-05''])] (empty_ledger demo_env) = (Inr (VDict d, 200), s') \<and>
     dget d ''failed_sales_day'' = Some (VBool False)"
proof -
  let ?r = "sales_dispatch demo_desk ''/metrics'' [(''day'', [''2026-01-05''])] (empty_ledger demo_env)"
  have "(case fst ?r of Inr (VDict d, n) \<Rightarrow> n = 200 | _ \<Rightarrow> False)" by code_simp
  then obtain d s' where r: "?r = (Inr (VDict d, 200), s')" by (cases ?r) (auto split: sum.splits prod.splits pyval.splits)
  have "sales_docs_root demo_desk \<noteq> []" by code_simp
  with web_day_never_fails r show ?thesis by blast
qed

lemma pipeline_view_raises_witness:
  "fst (sales_dispatch demo_desk ''/pipeline'' [] ((empty_ledger demo_env)\<lparr>sl_tables := (\<lambda>_. [])(''leads'' := [[(''id'', VStr ''l1''), (''company_id'', VStr ''c1'')]],
     ''companies'' := [[(''id'', VStr ''c1'')]])\<rparr>)) = Inl AttributeError"
  by (rule pipeline_view_raises [of "[(''id'', VStr ''l1''), (''company_id'', VStr ''c1'')]" _ "[(''id'', VStr ''c1'')]"])
    (simp_all add: cell_def ends_with_def)

section \<open>Sending in bulk\<close>

lemma draft_view_kept: "(\<And>X. op_inv (keeps ''outreach_drafts'' X) m) \<Longrightarrow> op_inv (\<lambda>s. draft_view s q = v) m"
proof (rule op_invI)
  fix s
  assume k: "\<And>X. op_inv (keeps ''outreach_drafts'' X) m" and "draft_view s q = v"
  then show "draft_view (snd (m s)) q = v"
    using k [of "sl_tables s ''outreach_drafts''"] draft_view_cong [of "snd (m s)" s q] by (simp add: op_inv_def keeps_def)
qed

lemma marking_spares: "q \<noteq> did \<Longrightarrow> op_inv (\<lambda>s. draft_view s q = v) (update_rec ''outreach_drafts'' did (sent_changes t receipt))"
proof (rule op_invI)
  fix s
  assume q: "q \<noteq> did" and v: "draft_view s q = v"
  let ?c = "encode_doc (sent_changes t receipt)"
  have u: "update_rec ''outreach_drafts'' did (sent_changes t receipt) = sql_update ''outreach_drafts'' did ?c" by (simp add: update_rec_def sent_changes_def)
  show "draft_view (snd (update_rec ''outreach_drafts'' did (sent_changes t receipt) s)) q = v"
  proof (cases "split_at_id did (sl_tables s ''outreach_drafts'')")
    case None
    then show ?thesis using v unfolding u by (auto simp: sql_update_def split: option.split)
  next
    case (Some abr)
    obtain a r b where sp: "split_at_id did (sl_tables s ''outreach_drafts'') = Some (a, r, b)" using Some by (cases abr) auto
    have "cell (set_cells r ?c) ''id'' = cell r ''id''" by (rule cell_set_other) (simp add: sent_changes_def)
    then have "row_with q (a @ [set_cells r ?c] @ b) = row_with q (sl_tables s ''outreach_drafts'')" using split_row_with_Some [OF sp] q by blast
    then show ?thesis using v sp unfolding u by (auto simp: sql_update_def Let_def draft_view_def split: option.split)
  qed
qed

lemma send_spares:
  assumes "st \<noteq> ''approved''"
  shows "op_inv (\<lambda>s. sales_ok s \<and> draft_view s q = Some (st, b)) (record_sent did receipt ex)"
proof (rule op_invI)
  fix s
  assume a: "sales_ok s \<and> draft_view s q = Some (st, b)"
  have ok: "sales_ok (snd (record_sent did receipt ex s))" using a record_sent_sales by (simp add: op_inv_def)
  have "draft_view (snd (record_sent did receipt ex s)) q = Some (st, b)"
  proof (cases "did = q")
    case True
    then have "record_sent did receipt ex s = (Inl SalesError, s)" using a assms by (intro not_approved_refused) auto
    then show ?thesis using a by simp
  next
    case False
    have g: "op_inv (\<lambda>s. draft_view s q = Some (st, b)) (get_draft did)" "op_inv (\<lambda>s. draft_view s q = Some (st, b)) sl_now"
      unfolding get_draft_def by (intro draft_view_kept op_inv_intros)+
    have "op_inv (\<lambda>s. draft_view s q = Some (st, b)) (record_sent did receipt ex)"
      unfolding record_sent_eq using False
      by (intro op_inv_intros g marking_spares draft_view_kept after_mark_keeps) simp_all
    then show ?thesis using a by (simp add: op_inv_def)
  qed
  with ok show "sales_ok (snd (record_sent did receipt ex s)) \<and> draft_view (snd (record_sent did receipt ex s)) q = Some (st, b)" ..
qed

lemma send_each_inv: "(\<And>did receipt. op_inv P (record_sent did receipt [])) \<Longrightarrow> op_inv P (send_each receipt ds n)"
  by (induction ds arbitrary: n) (auto intro!: op_inv_intros attempt_keeps)

text \<open>sending in bulk touches no draft that nobody approved.  On a ledger the program has written, \<open>send-pending\<close> leaves the state and the approver
  of every draft that is not approved as they were, however many sends fail and wherever they fail, the ledger stays sound, and without
  \<open>--confirm\<close> nothing changes at all.\<close>

theorem bulk_send_spares_unapproved:
  assumes "sales_reachable e s" and "draft_view s q = Some (st, b)" and "st \<noteq> ''approved''"
  shows "draft_view (snd (send_pending confirm receipt s)) q = Some (st, b) \<and> ledger_ok (snd (send_pending confirm receipt s)) \<and>
    send_pending False receipt s = (Inr (1, None), s)"
proof -
  let ?P = "\<lambda>s. sales_ok s \<and> draft_view s q = Some (st, b)"
  have d: "op_inv ?P (drafts x y)" for x y
    by (simp add: op_inv_def drafts_def sel_by_def decode_rows_def rows_of_def op_bind_apply)
  have "op_inv ?P (send_pending confirm receipt)"
    unfolding send_pending_def by (intro op_inv_intros send_each_inv send_spares assms(3) d)
  then have "?P (snd (send_pending confirm receipt s))" using sales_reachable_ok [OF assms(1)] assms(2) by (simp add: op_inv_def)
  then show ?thesis by (simp add: send_pending_def sales_kept_def)
qed

lemma bulk_send_spares_unapproved_witness:
  "draft_view (snd (send_pending True [] demo_drafted)) ''d1'' = Some (''draft'', [])"
proof -
  have "draft_view demo_drafted ''d1'' = Some (''draft'', [])" unfolding demo_drafted_def demo_ledger_eq by code_simp
  then show ?thesis using bulk_send_spares_unapproved [OF demo_drafted_reachable, of "''d1''" "''draft''" "[]" True "[]"] by simp
qed

end
