(* ===== verification/Auth.thy ===== *)
theory Auth
  imports Tools_Base Store
begin

text \<open>
  \<open>sworker/auth.py\<close>: users, password hashes and sessions, kept in the store.  The key derivation
  and the random bytes are parameters (\<open>auth_world\<close>); hexadecimal text, the stored form
  \<open>salt$rounds$hash\<close> and every operation of \<open>AuthProvider\<close> are definitions.  Lemmas: the hexadecimal round
  trip, what a login needs, and that a revoked session stays dead.
\<close>

section \<open>Hexadecimal text\<close>

definition hex_val :: "char \<Rightarrow> nat option" where
  "hex_val c = (let n = (of_char c :: nat) in
     if 48 \<le> n \<and> n \<le> 57 then Some (n - 48)
     else if 97 \<le> n \<and> n \<le> 102 then Some (n - 87)
     else if 65 \<le> n \<and> n \<le> 70 then Some (n - 55) else None)"

fun to_hex :: "nat list \<Rightarrow> string" where
  "to_hex [] = []"
| "to_hex (b # bs) = hex_digit (b div 16) # hex_digit (b mod 16) # to_hex bs"

text \<open>\<open>bytes.fromhex\<close>: white space may stand between the bytes.\<close>

fun from_hex :: "string \<Rightarrow> error + nat list" where
  "from_hex [] = Inr []"
| "from_hex [c] = (if is_space c then Inr [] else Inl ValueError)"
| "from_hex (c # d # cs) =
     (if is_space c then from_hex (d # cs)
      else case (hex_val c, hex_val d) of
          (Some a, Some b) \<Rightarrow> bind_sum (from_hex cs) (\<lambda>bs. Inr ((16 * a + b) # bs))
        | _ \<Rightarrow> Inl ValueError)"

section \<open>Passwords\<close>

definition PBKDF2_ROUNDS :: int where "PBKDF2_ROUNDS = 200000"
definition TOKEN_BYTES :: int where "TOKEN_BYTES = 32"
definition DEFAULT_SESSION_TTL :: int where "DEFAULT_SESSION_TTL = 60 * 60 * 12"

record auth_world =
  aw_kdf :: "string \<Rightarrow> nat list \<Rightarrow> int \<Rightarrow> nat list"   \<comment> \<open>\<open>hashlib.pbkdf2_hmac\<close>, at least one round\<close>
  aw_salt :: "nat \<Rightarrow> nat list"                   \<comment> \<open>the n-th \<open>secrets.token_bytes(16)\<close>\<close>
  aw_token :: "nat \<Rightarrow> string"                    \<comment> \<open>the n-th \<open>secrets.token_urlsafe(32)\<close>\<close>

definition op_draw :: "(nat \<Rightarrow> 'a) \<Rightarrow> 'a sop" where
  "op_draw f s = (Inr (f (drawn s)), s\<lparr>drawn := Suc (drawn s)\<rparr>)"

definition hash_text :: "auth_world \<Rightarrow> string \<Rightarrow> nat list \<Rightarrow> string" where
  "hash_text w password salt =
     to_hex salt @ ''$'' @ int_str PBKDF2_ROUNDS @ ''$'' @ to_hex (aw_kdf w password salt PBKDF2_ROUNDS)"

definition hash_password :: "auth_world \<Rightarrow> string \<Rightarrow> string sop" where
  "hash_password w password = op_bind (op_draw (aw_salt w)) (\<lambda>salt. op_return (hash_text w password salt))"

definition verify_password :: "auth_world \<Rightarrow> string \<Rightarrow> string \<Rightarrow> error + bool" where
  "verify_password w password stored = (case split_on (CHR ''$'') stored of
       [salt_hex, rounds, hash_hex] \<Rightarrow>
         bind_sum (from_hex salt_hex) (\<lambda>salt.
           case parse_int rounds of
             None \<Rightarrow> Inl ValueError
           | Some n \<Rightarrow> (if n < 1 then Inl ValueError else Inr (to_hex (aw_kdf w password salt n) = hash_hex)))
     | _ \<Rightarrow> Inr False)"

section \<open>Users\<close>

record user =
  us_name :: string
  us_hash :: string
  us_salt :: string
  us_disabled :: bool
  us_created :: time
  us_role :: string

definition user_dict :: "user \<Rightarrow> doc" where
  "user_dict u = [(''id'', VStr (us_name u)), (''username'', VStr (us_name u)), (''pw_hash'', VStr (us_hash u)),
     (''disabled'', VBool (us_disabled u)), (''created'', VFloat (us_created u)), (''role'', VStr (us_role u))]"

definition str_field :: "doc \<Rightarrow> string \<Rightarrow> string \<Rightarrow> string" where
  "str_field d k dflt = (case dget d k of Some (VStr v) \<Rightarrow> v | Some _ \<Rightarrow> [] | None \<Rightarrow> dflt)"

definition get_dflt :: "doc \<Rightarrow> string \<Rightarrow> pyval \<Rightarrow> pyval" where
  "get_dflt d k dflt = (case dget d k of Some v \<Rightarrow> v | None \<Rightarrow> dflt)"

definition user_of :: "doc \<Rightarrow> user sop" where
  "user_of d = (case dget d ''username'' of
       None \<Rightarrow> op_raise KeyError
     | Some nm \<Rightarrow> op_bind op_now (\<lambda>t.
         op_bind (op_lift (py_float (get_dflt d ''created'' (VFloat t)))) (\<lambda>c.
           op_return \<lparr>us_name = val_str nm, us_hash = str_field d ''pw_hash'' [], us_salt = [],
             us_disabled = get_truthy d ''disabled'', us_created = c, us_role = str_field d ''role'' ''worker''\<rparr>)))"

definition get_user :: "string \<Rightarrow> user option sop" where
  "get_user nm = op_bind (get ''users'' nm []) (\<lambda>r. case r of
       None \<Rightarrow> op_return None
     | Some d \<Rightarrow> (if d = [] then op_return None else op_bind (user_of d) (\<lambda>u. op_return (Some u))))"

definition put_user :: "user \<Rightarrow> string \<Rightarrow> unit sop" where
  "put_user u event = op_then (put ''users'' (user_dict u) event) (op_return ())"

definition create_user :: "auth_world \<Rightarrow> string \<Rightarrow> string \<Rightarrow> string \<Rightarrow> user sop" where
  "create_user w nm password role =
     (if nm = [] \<or> password = [] then op_raise ValueError
      else op_bind (get_user nm) (\<lambda>old. case old of
          Some _ \<Rightarrow> op_raise ValueError
        | None \<Rightarrow> op_bind (hash_password w password) (\<lambda>h. op_bind op_now (\<lambda>t.
            let u = \<lparr>us_name = nm, us_hash = h, us_salt = [], us_disabled = False, us_created = t, us_role = role\<rparr>
            in op_then (put_user u ''user.created'') (op_return u)))))"

definition require_user :: "string \<Rightarrow> user sop" where
  "require_user nm = op_bind (get_user nm) (\<lambda>u. case u of None \<Rightarrow> op_raise KeyError | Some x \<Rightarrow> op_return x)"

definition set_password :: "auth_world \<Rightarrow> string \<Rightarrow> string \<Rightarrow> unit sop" where
  "set_password w nm password = op_bind (require_user nm) (\<lambda>u. op_bind (hash_password w password) (\<lambda>h.
     put_user (u\<lparr>us_hash := h\<rparr>) ''user.password_changed''))"

definition disable_user :: "string \<Rightarrow> unit sop" where
  "disable_user nm = op_bind (require_user nm) (\<lambda>u. put_user (u\<lparr>us_disabled := True\<rparr>) ''user.disabled'')"

definition enable_user :: "string \<Rightarrow> unit sop" where
  "enable_user nm = op_bind (require_user nm) (\<lambda>u. put_user (u\<lparr>us_disabled := False\<rparr>) ''user.enabled'')"

definition list_users :: "user list sop" where
  "list_users = op_bind (find_rows ''users'' (by_cols [])) (op_mapM user_of)"

section \<open>Sessions\<close>

record session =
  ss_token :: string
  ss_user :: string
  ss_created :: time
  ss_expires :: time
  ss_revoked :: bool

definition session_dict :: "session \<Rightarrow> doc" where
  "session_dict x = [(''id'', VStr (ss_token x)), (''token'', VStr (ss_token x)), (''username'', VStr (ss_user x)),
     (''created'', VFloat (ss_created x)), (''expires'', VFloat (ss_expires x)), (''revoked'', VBool (ss_revoked x))]"

definition session_of :: "doc \<Rightarrow> session sop" where
  "session_of d = (case (dget d ''token'', dget d ''username'') of
       (Some tok, Some nm) \<Rightarrow>
         op_bind op_now (\<lambda>t1. op_bind (op_lift (py_float (get_dflt d ''created'' (VFloat t1)))) (\<lambda>c.
         op_bind op_now (\<lambda>t2. op_bind (op_lift (py_float (get_dflt d ''expires'' (VFloat t2)))) (\<lambda>x.
           op_return \<lparr>ss_token = val_str tok, ss_user = val_str nm, ss_created = c, ss_expires = x,
             ss_revoked = get_truthy d ''revoked''\<rparr>))))
     | _ \<Rightarrow> op_raise KeyError)"

definition session_valid_at :: "session \<Rightarrow> time \<Rightarrow> bool" where
  "session_valid_at x t \<longleftrightarrow> \<not> ss_revoked x \<and> t < ss_expires x"

definition session_valid :: "session \<Rightarrow> time option \<Rightarrow> bool sop" where
  "session_valid x asof = op_bind (case asof of Some t \<Rightarrow> op_return t | None \<Rightarrow> op_now) (\<lambda>t. op_return (session_valid_at x t))"

definition create_session :: "auth_world \<Rightarrow> int \<Rightarrow> string \<Rightarrow> session sop" where
  "create_session w ttl nm = op_bind (op_draw (aw_token w)) (\<lambda>tok. op_bind op_now (\<lambda>t. op_bind op_now (\<lambda>c.
     let x = \<lparr>ss_token = tok, ss_user = nm, ss_created = c, ss_expires = t + of_int ttl, ss_revoked = False\<rparr>
     in op_then (put ''sessions'' (session_dict x) ''session.created'') (op_return x))))"

definition get_session :: "string \<Rightarrow> session option sop" where
  "get_session tok = (if tok = [] then op_return None
     else op_bind (get ''sessions'' tok []) (\<lambda>r. case r of
         None \<Rightarrow> op_return None
       | Some d \<Rightarrow> (if d = [] then op_return None else op_bind (session_of d) (\<lambda>x. op_return (Some x)))))"

definition validate_session :: "string \<Rightarrow> time option \<Rightarrow> string option sop" where
  "validate_session tok asof = op_bind (get_session tok) (\<lambda>x. case x of
       None \<Rightarrow> op_return None
     | Some se \<Rightarrow> op_bind (session_valid se asof) (\<lambda>ok. op_return (if ok then Some (ss_user se) else None)))"

definition revoke_session :: "string \<Rightarrow> unit sop" where
  "revoke_session tok = op_bind (get_session tok) (\<lambda>x. case x of
       None \<Rightarrow> op_return ()
     | Some se \<Rightarrow> op_then (put ''sessions'' (session_dict (se\<lparr>ss_revoked := True\<rparr>)) ''session.revoked'') (op_return ()))"

definition revoke_row :: "doc \<Rightarrow> unit sop" where
  "revoke_row d = op_bind (session_of d) (\<lambda>se. op_bind (session_valid se None) (\<lambda>ok.
     if ok then op_then (put ''sessions'' (session_dict (se\<lparr>ss_revoked := True\<rparr>)) ''session.revoked'') (op_return ())
     else op_return ()))"

definition revoke_all :: "string \<Rightarrow> unit sop" where
  "revoke_all nm = op_bind (find_rows ''sessions'' (by_cols [(''username'', VStr nm)])) (\<lambda>rs.
     op_then (op_mapM revoke_row rs) (op_return ()))"

section \<open>Authentication\<close>

text \<open>A missing user, a disabled one and a wrong password give the same answer.\<close>

definition authenticate :: "auth_world \<Rightarrow> int \<Rightarrow> string \<Rightarrow> string \<Rightarrow> session option sop" where
  "authenticate w ttl nm password =
     op_bind (get_user nm) (\<lambda>found.
       let burn = op_then (hash_password w (if password \<noteq> [] then password else ''x'')) (op_return None) in
       case found of
         None \<Rightarrow> burn
       | Some u \<Rightarrow>
          (if us_disabled u \<or> us_hash u = [] then burn
           else op_bind (op_lift (verify_password w password (us_hash u))) (\<lambda>ok.
             if \<not> ok then op_return None
             else op_bind (create_session w ttl nm) (\<lambda>x. op_return (Some x)))))"

section \<open>Lemmas\<close>

abbreviation bytes :: "nat list \<Rightarrow> bool" where
  "bytes \<equiv> list_all (\<lambda>b. b < 256)"

declare hex_digit.simps [simp del]

lemma hex_digits_all: "list_all (\<lambda>n. \<not> is_space (hex_digit n) \<and> hex_digit n \<noteq> CHR ''$'' \<and> hex_val (hex_digit n) = Some n) [0..<16]"
  by code_simp

lemma hex_val_digit: "n < 16 \<Longrightarrow> hex_val (hex_digit n) = Some n"
  using hex_digits_all by (simp add: list_all_iff)

lemma hex_digit_plain: "n < 16 \<Longrightarrow> \<not> is_space (hex_digit n) \<and> hex_digit n \<noteq> CHR ''$''"
  using hex_digits_all by (simp add: list_all_iff)

lemma hex_roundtrip: "bytes bs \<Longrightarrow> from_hex (to_hex bs) = Inr bs"
  by (induction bs) (simp_all add: hex_val_digit hex_digit_plain less_mult_imp_div_less)

lemma hex_no_dollar: "bytes bs \<Longrightarrow> CHR ''$'' \<notin> set (to_hex bs)"
  by (induction bs) (auto dest!: hex_digit_plain [THEN conjunct2, OF less_mult_imp_div_less] simp: hex_digit_plain [THEN conjunct2, THEN not_sym])

lemma to_hex_inj: "bytes a \<Longrightarrow> bytes b \<Longrightarrow> to_hex a = to_hex b \<longleftrightarrow> a = b"
  using hex_roundtrip by (metis sum.inject(2))

lemma nat_str_step: "nat_str n = (if n < 10 then [char_of (48 + n)] else nat_str (n div 10) @ [char_of (48 + n mod 10)])"
  by (rule nat_str.simps)

lemma rounds_text: "int_str PBKDF2_ROUNDS = ''200000''" "parse_int ''200000'' = Some PBKDF2_ROUNDS"
proof -
  have "nat_str 200000 = nat_str 2 @ ''00000''"
    by (simp add: nat_str_step [of 200000] nat_str_step [of 20000] nat_str_step [of 2000] nat_str_step [of 200] nat_str_step [of 20] char_of_def bit_0)
  then show "int_str PBKDF2_ROUNDS = ''200000''"
    by (simp add: int_str_def PBKDF2_ROUNDS_def nat_str_step [of 2] char_of_def bit_0)
  show "parse_int ''200000'' = Some PBKDF2_ROUNDS"
  proof -
    have "digit_val (CHR ''2'') = Some 2" "digit_val (CHR ''0'') = Some 0" "str_strip ''200000'' = ''200000''" by code_simp+
    then show ?thesis by (simp add: PBKDF2_ROUNDS_def parse_int_def)
  qed
qed

lemma verify_hash_text:
  assumes "bytes salt" and "\<And>p x r. bytes (aw_kdf w p x r)"
  shows "verify_password w pw' (hash_text w pw salt) = Inr (aw_kdf w pw' salt PBKDF2_ROUNDS = aw_kdf w pw salt PBKDF2_ROUNDS)"
proof -
  have "split_on (CHR ''$'') (hash_text w pw salt) = [to_hex salt, ''200000'', to_hex (aw_kdf w pw salt PBKDF2_ROUNDS)]"
    using hex_no_dollar [OF assms(1)] hex_no_dollar [OF assms(2)]
    by (simp add: hash_text_def rounds_text(1) split_on_append split_on_no_sep)
  then show ?thesis
    using hex_roundtrip [OF assms(1)] to_hex_inj [OF assms(2,2)] rounds_text(2)
    by (simp add: verify_password_def) (simp add: PBKDF2_ROUNDS_def)
qed

lemma user_of_dict:
  "\<exists>t. user_of (stamp s (user_dict u)) t0 = (Inr (u\<lparr>us_salt := []\<rparr>), t) \<and> tables t = tables t0 \<and> enforce t = enforce t0"
  by (auto simp: user_of_def user_dict_def op_bind_apply op_now_apply get_dflt_def str_field_def get_truthy_def val_str.simps stamp_def)

text \<open>The state after an account was created.\<close>

lemma create_user_inv:
  assumes "create_user w nm pw role s = (Inr u, s')"
  shows "\<exists>n s1. us_name u = nm \<and> us_hash u = hash_text w pw (aw_salt w n) \<and> \<not> us_disabled u \<and> us_salt u = [] \<and>
    s' = put_state ''users'' nm (user_dict u) ''user.created'' s1"
  using assms
  by (auto simp: create_user_def op_bind_apply op_then_apply hash_password_def op_draw_def op_now_apply put_user_def Let_def put_eq user_dict_def
      split: if_splits sum.splits prod.splits option.splits)

lemma hash_text_nonempty: "hash_text w pw salt \<noteq> []"
  by (simp add: hash_text_def)

lemma get_user_after:
  assumes "s' = put_state ''users'' (us_name u) (user_dict u) ev s" and "us_salt u = []"
  shows "\<exists>t. get_user (us_name u) s' = (Inr (Some u), t) \<and> tables t = tables s'"
proof -
  obtain t where "user_of (stamp s (user_dict u)) s' = (Inr (u\<lparr>us_salt := []\<rparr>), t)" "tables t = tables s'"
    using user_of_dict by blast
  moreover have "dget (stamp s (user_dict u)) ''id'' \<noteq> None" by (simp add: user_dict_def)
  then have "stamp s (user_dict u) \<noteq> []" by (metis dget.simps(1))
  ultimately show ?thesis
    using get_after_put [where t = "''users''" and rid = "us_name u" and s = s and d = "user_dict u" and event = ev] assms by (simp add: get_user_def op_bind_apply)
qed

text \<open>C36: the right password logs in, another one does not.  After an account was created, a login with any password
  opens a session for that account exactly when the derived key of that password, under the salt drawn for the account,
  equals the key of the password it was created with; whatever the store, its tenant and the session's lifetime.\<close>

theorem login_roundtrip:
  assumes "create_user w nm pw role s = (Inr u, s')"
    and "\<And>n. bytes (aw_salt w n)" and "\<And>p x r. bytes (aw_kdf w p x r)"
  shows "\<exists>n. \<forall>ttl pw'. (\<exists>x t. authenticate w ttl nm pw' s' = (Inr (Some x), t) \<and> ss_user x = nm \<and> \<not> ss_revoked x) \<longleftrightarrow>
    aw_kdf w pw' (aw_salt w n) PBKDF2_ROUNDS = aw_kdf w pw (aw_salt w n) PBKDF2_ROUNDS"
proof -
  obtain n s1 where u: "us_name u = nm" "us_hash u = hash_text w pw (aw_salt w n)" "\<not> us_disabled u" "us_salt u = []"
      "s' = put_state ''users'' nm (user_dict u) ''user.created'' s1"
    using create_user_inv [OF assms(1)] by blast
  obtain t where t: "get_user nm s' = (Inr (Some u), t)" using get_user_after [of s' u "''user.created''" s1] u by auto
  have "authenticate w ttl nm pw' s' =
      (if aw_kdf w pw' (aw_salt w n) PBKDF2_ROUNDS = aw_kdf w pw (aw_salt w n) PBKDF2_ROUNDS
       then op_bind (create_session w ttl nm) (\<lambda>x. op_return (Some x)) t else (Inr None, t))" for ttl pw'
    using t u(3) verify_hash_text [OF assms(2,3), of pw' pw n] u(2) hash_text_nonempty
    by (simp add: authenticate_def op_bind_apply [of "get_user nm"] op_bind_apply [of "op_lift _"] Let_def)
  moreover have "\<exists>x t'. op_bind (create_session w ttl nm) (\<lambda>x. op_return (Some x)) t = (Inr (Some x), t') \<and> ss_user x = nm \<and> \<not> ss_revoked x" for ttl
    by (auto simp: create_session_def op_bind_apply op_then_apply op_draw_def op_now_apply Let_def put_eq session_dict_def)
  ultimately show ?thesis by (intro exI [of _ n]) auto
qed

definition demo_auth :: auth_world where
  "demo_auth = \<lparr>aw_kdf = (\<lambda>p x r. map of_char p), aw_salt = (\<lambda>n. [n mod 256]), aw_token = (\<lambda>n. ''t'' @ nat_str n)\<rparr>"

lemma demo_auth_bytes: "bytes (aw_salt demo_auth n)" "bytes (aw_kdf demo_auth p x r)"
  by (simp_all add: demo_auth_def list_all_iff)

lemma demo_auth_kdf: "aw_kdf demo_auth p x r = map of_char p"
  by (simp add: demo_auth_def)

lemma create_user_demo:
  "\<exists>u s'. create_user demo_auth ''ann'' ''pw'' ''worker'' (open_store demo_env [] []) = (Inr u, s')"
proof -
  have "get ''users'' ''ann'' [] (open_store demo_env [] []) = (Inr None, open_store demo_env [] [])"
    by (simp add: get_legacy open_store_def enforce_def tget_def)
  then show ?thesis
    by (simp add: create_user_def get_user_def op_bind_apply op_then_apply hash_password_def op_draw_def op_now_apply put_user_def put_eq
        user_dict_def Let_def)
qed

theorem login_roundtrip_witness:
  "\<exists>u s' n. create_user demo_auth ''ann'' ''pw'' ''worker'' (open_store demo_env [] []) = (Inr u, s') \<and>
    (\<exists>x t. authenticate demo_auth 60 ''ann'' ''pw'' s' = (Inr (Some x), t)) \<and>
    \<not> (\<exists>x t. authenticate demo_auth 60 ''ann'' ''px'' s' = (Inr (Some x), t) \<and> ss_user x = ''ann'' \<and> \<not> ss_revoked x)"
proof -
  obtain u s' where c: "create_user demo_auth ''ann'' ''pw'' ''worker'' (open_store demo_env [] []) = (Inr u, s')"
    using create_user_demo by blast
  have "map (of_char :: char \<Rightarrow> nat) ''px'' \<noteq> map of_char ''pw''" by (simp add: of_char_def)
  with login_roundtrip [OF c demo_auth_bytes] c show ?thesis unfolding demo_auth_kdf by metis
qed

text \<open>nobody logs in without the password.  In any store, a login that opens a session found an account of that
  name which is not disabled and has a stored hash, and the password it was given passed the check against that hash;
  the session belongs to that account and is live.\<close>

theorem login_needs_password:
  assumes "authenticate w ttl nm pw s = (Inr (Some x), s')"
  shows "ss_user x = nm \<and> \<not> ss_revoked x \<and> (\<exists>u t. get_user nm s = (Inr (Some u), t) \<and> \<not> us_disabled u \<and>
    us_hash u \<noteq> [] \<and> verify_password w pw (us_hash u) = Inr True)"
  using assms
  by (auto simp: authenticate_def op_bind_apply op_then_apply op_draw_def op_now_apply create_session_def Let_def
      split: if_splits sum.splits prod.splits option.splits)

theorem login_needs_password_witness:
  "\<exists>s x s'. authenticate demo_auth 60 ''ann'' ''pw'' s = (Inr (Some x), s') \<and> ss_user x = ''ann'' \<and> \<not> ss_revoked x"
proof -
  have "\<exists>s x s'. authenticate demo_auth 60 ''ann'' ''pw'' s = (Inr (Some x), s')"
  proof -
    let ?u = "\<lparr>us_name = ''ann'', us_hash = hash_text demo_auth ''pw'' [7], us_salt = [], us_disabled = False, us_created = 0, us_role = ''worker''\<rparr>"
    let ?s = "put_state ''users'' (us_name ?u) (user_dict ?u) ''e'' (open_store demo_env [] [])"
    obtain t where "get_user (us_name ?u) ?s = (Inr (Some ?u), t)"
      using get_user_after [OF refl, of ?u] by auto
    then show ?thesis
      using verify_hash_text [of "[7]" demo_auth "''pw''" "''pw''"] demo_auth_bytes(2) hash_text_nonempty
      by (intro exI [of _ ?s]) (simp add: authenticate_def op_bind_apply op_then_apply create_session_def op_draw_def op_now_apply Let_def put_eq session_dict_def)
  qed
  then obtain s x s' where "authenticate demo_auth 60 ''ann'' ''pw'' s = (Inr (Some x), s')" by blast
  with login_needs_password [OF this] show ?thesis by blast
qed

text \<open>a revoked session stays dead.  Once a session whose row carries its own token was revoked, asking for that
  token, at any time and with any clock, names no user.\<close>

theorem revoked_session_dead:
  assumes "tget s ''sessions'' tok = Some d" and "dget d ''token'' = Some (VStr tok)" and "revoke_session tok s = (Inr (), s')"
  shows "fst (validate_session tok asof s') = Inr None"
proof (cases "tok = []")
  case True
  then show ?thesis by (simp add: validate_session_def get_session_def op_bind_apply)
next
  case False
  then obtain nm c x t where se: "s' = put_state ''sessions'' tok
      (session_dict \<lparr>ss_token = tok, ss_user = nm, ss_created = c, ss_expires = x, ss_revoked = True\<rparr>) ''session.revoked'' t"
    using assms
    by (auto simp: revoke_session_def get_session_def get_eq session_of_def op_bind_apply op_then_apply op_now_apply put_eq session_dict_def val_str.simps
        split: if_splits sum.splits prod.splits option.splits)
  show ?thesis
    unfolding se using False
    by (simp add: validate_session_def get_session_def get_after_put session_of_def session_valid_def session_valid_at_def op_bind_apply op_now_apply
        session_dict_def get_dflt_def get_truthy_def val_str.simps stamp_def split: option.splits)
qed

end
