(* ===== verification/Scheduler.thy ===== *)
theory Scheduler
  imports Config Store
begin

text \<open>
  \<open>sworker/scheduler.py\<close>: cron expressions, the bounded search for the next matching minute, and the
  schedules kept in the store.  \<open>time.localtime\<close> and \<open>time.mktime\<close> are a parameter (\<open>calendar\<close>); the bound
  of the search is the code's own.  Lemmas: the search finds the first match; a schedule
  that has fired is not due again at once.
\<close>

section \<open>Cron fields\<close>

definition CRON_ALIASES :: "(string \<times> string) list" where
  "CRON_ALIASES = [(''@hourly'', ''0 * * * *''), (''@daily'', ''0 0 * * *''), (''@weekly'', ''0 0 * * 0''),
     (''@monthly'', ''0 0 1 * *''), (''@yearly'', ''0 0 1 1 *'')]"

text \<open>\<open>range(a, b, step)\<close>; a step of zero raises.\<close>

definition py_range :: "int \<Rightarrow> int \<Rightarrow> int \<Rightarrow> error + int list" where
  "py_range a b step =
     (if step = 0 then Inl ValueError
      else let n = (if 0 < step then (b - a + step - 1) div step else (a - b - step - 1) div (- step))
           in Inr (map (\<lambda>k. a + int k * step) [0..<nat n]))"

definition int_of :: "string \<Rightarrow> error + int" where
  "int_of s = (case parse_int s of Some i \<Rightarrow> Inr i | None \<Rightarrow> Inl ValueError)"

text \<open>\<open>s.split(c, 1)\<close>: the text before the first separator and the text after it.\<close>

definition split_once :: "char \<Rightarrow> string \<Rightarrow> string \<times> string" where
  "split_once c s = (takeWhile (\<lambda>x. x \<noteq> c) s, tl (dropWhile (\<lambda>x. x \<noteq> c) s))"

definition cron_part :: "int \<Rightarrow> int \<Rightarrow> string \<Rightarrow> error + int list" where
  "cron_part low high raw = (let part = str_strip raw in
     if CHR ''/'' \<in> set part then
       (let (base, step_s) = split_once (CHR ''/'') part in
        bind_sum (int_of step_s) (\<lambda>step.
          if base = ''*'' then py_range low (high + 1) step
          else let ab = take 2 (split_on (CHR ''-'') base @ [base]) in
            bind_sum (int_of (ab ! 0)) (\<lambda>a. bind_sum (int_of (ab ! 1)) (\<lambda>b. py_range a (b + 1) step))))
     else if CHR ''-'' \<in> set part then
       (let (a, b) = split_once (CHR ''-'') part in
        bind_sum (int_of a) (\<lambda>x. bind_sum (int_of b) (\<lambda>y. py_range x (y + 1) 1)))
     else bind_sum (int_of part) (\<lambda>x. Inr [x]))"

fun cron_parts :: "int \<Rightarrow> int \<Rightarrow> string list \<Rightarrow> error + int list" where
  "cron_parts low high [] = Inr []"
| "cron_parts low high (p # ps) =
     bind_sum (cron_part low high p) (\<lambda>xs. bind_sum (cron_parts low high ps) (\<lambda>ys. Inr (xs @ ys)))"

definition cron_field :: "string \<Rightarrow> int \<Rightarrow> int \<Rightarrow> error + int list" where
  "cron_field v low high =
     (if v = ''*'' then Inr [low..high]
      else bind_sum (cron_parts low high (split_on (CHR '','') v)) (\<lambda>xs. Inr (sort (remdups xs))))"

record cron_spec =
  cr_minute :: "int list"
  cr_hour :: "int list"
  cr_dom :: "int list"
  cr_month :: "int list"
  cr_dow :: "int list"

definition cron_expr :: "string \<Rightarrow> string" where
  "cron_expr x = (case dget CRON_ALIASES (str_strip x) of Some e \<Rightarrow> e | None \<Rightarrow> str_strip x)"

definition parse_cron :: "string \<Rightarrow> error + cron_spec" where
  "parse_cron x = (case str_words (cron_expr x) of
       [mi, ho, da, mo, dw] \<Rightarrow>
         bind_sum (cron_field mi 0 59) (\<lambda>m. bind_sum (cron_field ho 0 23) (\<lambda>h. bind_sum (cron_field da 1 31) (\<lambda>d.
         bind_sum (cron_field mo 1 12) (\<lambda>n. bind_sum (cron_field dw 0 6) (\<lambda>w.
           Inr \<lparr>cr_minute = m, cr_hour = h, cr_dom = d, cr_month = n, cr_dow = w\<rparr>)))))
     | _ \<Rightarrow> Inl ValueError)"

section \<open>The next matching minute\<close>

record tm =
  tm_year :: int
  tm_mon :: int
  tm_mday :: int
  tm_hour :: int
  tm_min :: int
  tm_sec :: int
  tm_wday :: int
  tm_isdst :: int

record calendar =
  localtime :: "time \<Rightarrow> tm"
  mktime :: "tm \<Rightarrow> time"

definition cron_matches :: "cron_spec \<Rightarrow> bool \<Rightarrow> bool \<Rightarrow> tm \<Rightarrow> bool" where
  "cron_matches f dom_star dow_star tt \<longleftrightarrow>
     tm_min tt \<in> set (cr_minute f) \<and> tm_hour tt \<in> set (cr_hour f) \<and> tm_mon tt \<in> set (cr_month f) \<and>
     (dom_star \<or> tm_mday tt \<in> set (cr_dom f)) \<and>
     (dow_star \<or> tm_wday tt \<in> set (map (\<lambda>d. (d - 1) mod 7) (cr_dow f)))"

definition FIRE_BOUND :: nat where "FIRE_BOUND = 5 * 366 * 24 * 60"

fun fire_search :: "(time \<Rightarrow> bool) \<Rightarrow> nat \<Rightarrow> time \<Rightarrow> error + time" where
  "fire_search hit 0 start = Inl ValueError"
| "fire_search hit (Suc n) start = (if hit start then Inr start else fire_search hit n (start + 60))"

definition cron_hit :: "calendar \<Rightarrow> string \<Rightarrow> cron_spec \<Rightarrow> time \<Rightarrow> bool" where
  "cron_hit w cron f t = (let parts = str_words (cron_expr cron) in
     cron_matches f (str_strip (parts ! 2) = ''*'') (str_strip (parts ! 4) = ''*'') (localtime w t))"

definition fire_start :: "calendar \<Rightarrow> time \<Rightarrow> time" where
  "fire_start w t = mktime w (localtime w (t + 60))"

text \<open>\<open>after or time.time()\<close>: no time, or the epoch, means now.\<close>

definition next_fire :: "calendar \<Rightarrow> string \<Rightarrow> time option \<Rightarrow> time sop" where
  "next_fire w cron after =
     op_bind (op_lift (parse_cron (cron_expr cron))) (\<lambda>f.
     op_bind (case after of Some t \<Rightarrow> (if t \<noteq> 0 then op_return t else op_now) | None \<Rightarrow> op_now) (\<lambda>t.
       op_lift (fire_search (cron_hit w cron f) FIRE_BOUND (fire_start w t))))"

section \<open>Schedules\<close>

record schedule =
  sc_id :: string
  sc_worker :: string
  sc_procedure :: string
  sc_cron :: string
  sc_enabled :: bool
  sc_created :: time
  sc_created_by :: string
  sc_next_run :: time
  sc_last_run :: time
  sc_last_status :: string
  sc_last_fired_by :: string

definition schedule_dict :: "schedule \<Rightarrow> doc" where
  "schedule_dict x = [(''id'', VStr (sc_id x)), (''worker'', VStr (sc_worker x)), (''procedure'', VStr (sc_procedure x)),
     (''cron'', VStr (sc_cron x)), (''enabled'', VBool (sc_enabled x)), (''created'', VFloat (sc_created x)),
     (''created_by'', VStr (sc_created_by x)), (''next_run'', VFloat (sc_next_run x)), (''last_run'', VFloat (sc_last_run x)),
     (''last_status'', VStr (sc_last_status x)), (''last_fired_by'', VStr (sc_last_fired_by x))]"

definition add_schedule :: "calendar \<Rightarrow> string \<Rightarrow> string \<Rightarrow> string \<Rightarrow> bool \<Rightarrow> string \<Rightarrow> schedule sop" where
  "add_schedule w worker procedure cron enabled created_by =
     op_bind (op_lift (parse_cron cron)) (\<lambda>_.
     op_bind (next_fire w cron None) (\<lambda>nxt.
     op_bind (new_id ''sched'') (\<lambda>i. op_bind op_now (\<lambda>t.
       let x = \<lparr>sc_id = i, sc_worker = worker, sc_procedure = procedure, sc_cron = cron, sc_enabled = enabled,
         sc_created = t, sc_created_by = created_by, sc_next_run = nxt, sc_last_run = 0, sc_last_status = [],
         sc_last_fired_by = []\<rparr>
       in op_then (put ''schedules'' (schedule_dict x) ''schedule.created'') (op_return x)))))"

definition list_schedules :: "string \<Rightarrow> doc list sop" where
  "list_schedules worker = find_rows ''schedules'' (by_cols (if worker \<noteq> [] then [(''worker'', VStr worker)] else []))"

definition get_schedule :: "string \<Rightarrow> doc option sop" where
  "get_schedule sid = get ''schedules'' sid []"

definition cron_of :: "doc \<Rightarrow> string sop" where
  "cron_of rec = (case dget rec ''cron'' of Some (VStr c) \<Rightarrow> op_return c | Some _ \<Rightarrow> op_raise AttributeError | None \<Rightarrow> op_raise KeyError)"

definition set_enabled :: "calendar \<Rightarrow> string \<Rightarrow> bool \<Rightarrow> unit sop" where
  "set_enabled w sid enabled = op_bind (get_schedule sid) (\<lambda>r. case r of
       None \<Rightarrow> op_raise KeyError
     | Some rec \<Rightarrow>
        (if rec = [] then op_raise KeyError
         else let rec1 = dset rec ''enabled'' (VBool enabled) in
           op_bind (if enabled then op_bind (cron_of rec) (\<lambda>c. op_bind (next_fire w c None) (\<lambda>t. op_return (dset rec1 ''next_run'' (VFloat t))))
                    else op_return rec1)
             (\<lambda>rec2. op_then (put ''schedules'' rec2 ''schedule.updated'') (op_return ()))))"

definition remove_schedule :: "string \<Rightarrow> unit sop" where
  "remove_schedule sid = op_bind (get_schedule sid) (\<lambda>r. case r of
       None \<Rightarrow> op_raise KeyError
     | Some rec \<Rightarrow>
        (if rec = [] then op_raise KeyError
         else op_then (put ''schedules'' (dset (dset rec ''enabled'' (VBool False)) ''next_run'' (VFloat 0)) ''schedule.removed'')
                (op_return ())))"

text \<open>A schedule is due when it is enabled, has a next run, and that run is not after the window.\<close>

definition is_due :: "time \<Rightarrow> doc \<Rightarrow> error + bool" where
  "is_due limit d = (case dget d ''enabled'' of
       None \<Rightarrow> Inl KeyError
     | Some e \<Rightarrow>
        (if \<not> truthy e then Inr False
         else case dget d ''next_run'' of
             None \<Rightarrow> Inl KeyError
           | Some v \<Rightarrow>
              (if \<not> truthy v then Inr False
               else case v of VFloat r \<Rightarrow> Inr (r \<le> limit) | VInt i \<Rightarrow> Inr (of_int i \<le> limit)
                 | VBool b \<Rightarrow> Inr ((if b then 1 else 0) \<le> limit) | _ \<Rightarrow> Inl TypeError)))"

fun filterM :: "('a \<Rightarrow> error + bool) \<Rightarrow> 'a list \<Rightarrow> error + 'a list" where
  "filterM p [] = Inr []"
| "filterM p (x # xs) = bind_sum (p x) (\<lambda>b. bind_sum (filterM p xs) (\<lambda>ys. Inr (if b then x # ys else ys)))"

definition due :: "time \<Rightarrow> doc list sop" where
  "due window = op_bind op_now (\<lambda>t.
     op_bind (find_rows ''schedules'' ((by_cols [])\<lparr>q_order := ''next_run''\<rparr>)) (\<lambda>rs.
       op_lift (filterM (is_due (t + window)) rs)))"

definition mark_fired :: "calendar \<Rightarrow> string \<Rightarrow> string \<Rightarrow> string \<Rightarrow> unit sop" where
  "mark_fired w sid status fired_by = op_bind (get_schedule sid) (\<lambda>r. case r of
       None \<Rightarrow> op_return ()
     | Some rec \<Rightarrow>
        (if rec = [] then op_return ()
         else op_bind op_now (\<lambda>t.
           let rec1 = dset (dset (dset rec ''last_run'' (VFloat t)) ''last_status'' (VStr status)) ''last_fired_by'' (VStr fired_by) in
           op_bind (cron_of rec1) (\<lambda>c. op_bind (next_fire w c (Some t)) (\<lambda>n.
             op_then (put ''schedules'' (dset rec1 ''next_run'' (VFloat n)) ''schedule.fired'') (op_return ()))))))"

section \<open>The search\<close>

lemma fire_search_first:
  "fire_search hit n start = Inr r \<longleftrightarrow>
     (\<exists>k<n. r = start + 60 * of_nat k \<and> hit r \<and> (\<forall>j<k. \<not> hit (start + 60 * of_nat j)))"
proof (induction n arbitrary: start)
  case (Suc n)
  show ?case
  proof (cases "hit start")
    case True
    then show ?thesis by (auto intro!: exI [of _ 0] dest: spec [of _ 0])
  next
    case False
    have shift: "start + 60 + 60 * of_nat k = start + 60 * of_nat (Suc k)" for k by (simp add: algebra_simps)
    have all: "(\<forall>j<Suc k. \<not> hit (start + 60 * of_nat j)) \<longleftrightarrow> (\<forall>j<k. \<not> hit (start + 60 * of_nat (Suc j)))" for k
      using False by (auto simp: less_Suc_eq_0_disj)
    have "fire_search hit (Suc n) start = Inr r \<longleftrightarrow>
        (\<exists>k<n. r = start + 60 * of_nat (Suc k) \<and> hit r \<and> (\<forall>j<Suc k. \<not> hit (start + 60 * of_nat j)))"
      using False Suc.IH [of "start + 60"] by (simp only: fire_search.simps if_False shift all)
    also have "\<dots> \<longleftrightarrow> (\<exists>k<Suc n. r = start + 60 * of_nat k \<and> hit r \<and> (\<forall>j<k. \<not> hit (start + 60 * of_nat j)))"
      using False by (auto simp: Ex_less_Suc2 simp del: of_nat_Suc)
    finally show ?thesis .
  qed
qed simp

lemma fire_search_error: "fire_search hit n start = Inl e \<longleftrightarrow> e = ValueError \<and> (\<forall>k<n. \<not> hit (start + 60 * of_nat k))"
proof (induction n arbitrary: start)
  case (Suc n)
  have shift: "start + 60 + 60 * of_nat k = start + 60 * of_nat (Suc k)" for k by (simp add: algebra_simps)
  show ?case using Suc.IH [of "start + 60"] unfolding shift by (auto simp: All_less_Suc2 simp del: of_nat_Suc)
qed auto

lemma next_fire_after:
  "t \<noteq> 0 \<Longrightarrow> next_fire w cron (Some t) s =
     (bind_sum (parse_cron (cron_expr cron)) (\<lambda>f. fire_search (cron_hit w cron f) FIRE_BOUND (fire_start w t)), s)"
  by (simp add: next_fire_def op_bind_apply bind_sum_def split: sum.splits)

text \<open>What an expression asks for, when at most one of its two day fields is restricted: the minute, the hour and the month are listed,
  and the day of the month, or the day of the week counted from Sunday, is listed where it is restricted.\<close>

definition day_free :: "string \<Rightarrow> bool" where
  "day_free cron \<longleftrightarrow> (let parts = str_words (cron_expr cron) in str_strip (parts ! 2) = ''*'' \<or> str_strip (parts ! 4) = ''*'')"

definition asked_for :: "calendar \<Rightarrow> string \<Rightarrow> cron_spec \<Rightarrow> time \<Rightarrow> bool" where
  "asked_for w cron f t \<longleftrightarrow> (let tt = localtime w t; parts = str_words (cron_expr cron) in
     tm_min tt \<in> set (cr_minute f) \<and> tm_hour tt \<in> set (cr_hour f) \<and> tm_mon tt \<in> set (cr_month f) \<and>
     (str_strip (parts ! 2) \<noteq> ''*'' \<longrightarrow> tm_mday tt \<in> set (cr_dom f)) \<and>
     (str_strip (parts ! 4) \<noteq> ''*'' \<longrightarrow> (\<exists>d\<in>set (cr_dow f). 7 dvd tm_wday tt + 1 - d)))"

lemma weekday_shift:
  assumes "0 \<le> (x :: int)" and "x < 7"
  shows "x = (d - 1) mod 7 \<longleftrightarrow> 7 dvd x + 1 - d"
  using assms by presburger

lemma cron_hit_asked: "(\<And>t. 0 \<le> tm_wday (localtime w t) \<and> tm_wday (localtime w t) < 7) \<Longrightarrow> cron_hit w cron f t = asked_for w cron f t"
  by (auto simp: cron_hit_def cron_matches_def asked_for_def Let_def image_iff weekday_shift)

text \<open>C37: the next run is the first match.  For an expression that restricts at most one of its two day fields, and a calendar whose weekdays
  are 0 to 6 from Monday, the answer is a minute of the grid that starts one minute
  after the given time, the calendar's fields at that minute are the ones the parsed expression asks for, and at no earlier minute of the grid they are; the search raises
  exactly when the expression does not parse or no minute within the bound matches; the store is left as it was.\<close>

theorem next_fire_earliest:
  assumes "after \<noteq> 0" and "day_free cron" and "\<And>t. 0 \<le> tm_wday (localtime w t) \<and> tm_wday (localtime w t) < 7"
  shows "case parse_cron (cron_expr cron) of
      Inl err \<Rightarrow> next_fire w cron (Some after) s = (Inl err, s)
    | Inr f \<Rightarrow> (let start = mktime w (localtime w (after + 60)) in
        (\<forall>t. next_fire w cron (Some after) s = (Inr t, s) \<longleftrightarrow> (\<exists>k<5 * 366 * 24 * 60. t = start + 60 * of_nat k \<and> asked_for w cron f t \<and>
           (\<forall>j<k. \<not> asked_for w cron f (start + 60 * of_nat j)))) \<and>
        ((\<forall>k<5 * 366 * 24 * 60. \<not> asked_for w cron f (start + 60 * of_nat k)) \<longrightarrow> next_fire w cron (Some after) s = (Inl ValueError, s)))"
proof (cases "parse_cron (cron_expr cron)")
  case (Inl e)
  then show ?thesis using assms(1) by (simp add: next_fire_after bind_sum_def)
next
  case (Inr f)
  have hit: "cron_hit w cron f = asked_for w cron f" using cron_hit_asked [OF assms(3)] by blast
  have run: "next_fire w cron (Some after) s = (fire_search (asked_for w cron f) FIRE_BOUND (fire_start w after), s)"
    using assms(1) Inr by (simp add: next_fire_after bind_sum_def hit)
  show ?thesis
    using fire_search_first [of "asked_for w cron f" FIRE_BOUND "fire_start w after"]
      fire_search_error [of "asked_for w cron f" FIRE_BOUND "fire_start w after" ValueError]
    unfolding Inr sum.case run Let_def fire_start_def FIRE_BOUND_def by auto
qed

text \<open>A calendar without time zones, in which every day is the first of January, for the witnesses.\<close>

definition demo_calendar :: calendar where
  "demo_calendar = \<lparr>localtime = (\<lambda>t. let s = floor t in
       \<lparr>tm_year = s div 86400, tm_mon = 1, tm_mday = 1, tm_hour = s div 3600 mod 24, tm_min = s div 60 mod 60,
        tm_sec = s mod 60, tm_wday = 3, tm_isdst = 0\<rparr>),
     mktime = (\<lambda>x. of_int (86400 * tm_year x + 3600 * tm_hour x + 60 * tm_min x + tm_sec x))\<rparr>"

lemma demo_mktime: "mktime demo_calendar (localtime demo_calendar t) = of_int (floor t)"
proof -
  let ?s = "floor t"
  have "?s = 60 * (?s div 60) + ?s mod 60" "?s div 60 = 60 * (?s div 3600) + ?s div 60 mod 60"
      "?s div 3600 = 24 * (?s div 86400) + ?s div 3600 mod 24"
    using zdiv_zmult2_eq [of 60 ?s 60] zdiv_zmult2_eq [of 24 ?s 3600] by (simp_all add: mult_div_mod_eq)
  then have "86400 * (?s div 86400) + 3600 * (?s div 3600 mod 24) + 60 * (?s div 60 mod 60) + ?s mod 60 = ?s"
    by linarith
  then show ?thesis by (simp only: demo_calendar_def Let_def calendar.simps tm.simps)
qed

lemma demo_cron: "parse_cron (cron_expr ''* * * * *'') = Inr \<lparr>cr_minute = [0..59], cr_hour = [0..23], cr_dom = [1..31], cr_month = [1..12], cr_dow = [0..6]\<rparr>"
  by (simp add: parse_cron_def cron_expr_def CRON_ALIASES_def cron_field_def bind_sum_def str_words_def str_strip_def is_space_def)

theorem next_fire_earliest_witness:
  "next_fire demo_calendar ''* * * * *'' (Some 90) (open_store demo_env [] []) = (Inr 150, open_store demo_env [] [])"
proof -
  let ?s = "open_store demo_env [] []" and ?f = "\<lparr>cr_minute = [0..59], cr_hour = [0..23], cr_dom = [1..31], cr_month = [1..12], cr_dow = [0..6]\<rparr>"
  have start: "mktime demo_calendar (localtime demo_calendar (90 + 60)) = 150" by (simp add: demo_mktime)
  have hit: "asked_for demo_calendar ''* * * * *'' ?f 150" unfolding asked_for_def by code_simp
  have free: "day_free ''* * * * *''" by code_simp
  have wd: "0 \<le> tm_wday (localtime demo_calendar t) \<and> tm_wday (localtime demo_calendar t) < 7" for t by (simp add: demo_calendar_def Let_def)
  have all: "next_fire demo_calendar ''* * * * *'' (Some 90) ?s = (Inr t, ?s) \<longleftrightarrow> (\<exists>k<5 * 366 * 24 * 60. t = 150 + 60 * of_nat k \<and>
      asked_for demo_calendar ''* * * * *'' ?f t \<and> (\<forall>j<k. \<not> asked_for demo_calendar ''* * * * *'' ?f (150 + 60 * of_nat j)))" for t
    using next_fire_earliest [OF _ free wd, of 90 ?s] unfolding demo_cron sum.case Let_def start by simp
  show ?thesis unfolding all using hit by (intro exI [of _ 0]) simp
qed

text \<open>a schedule that has just fired is not due again.  Whenever \<open>mark_fired\<close> succeeds on a stored schedule,
  the row records the time of the run and a next run more than 58 seconds after it, if the calendar's
  \<open>mktime\<close> undoes \<open>localtime\<close> up to the second.\<close>

theorem fired_schedule_waits:
  assumes cal: "\<And>t. mktime w (localtime w t) > t - 1"
    and row: "tget s ''schedules'' sid = Some rec" "rec \<noteq> []" "dget rec ''id'' = Some (VStr sid)"
    and pos: "clock (env s) (ticks s) \<noteq> 0"
    and run: "mark_fired w sid st who s = (Inr (), s')"
  shows "\<exists>d t r. tget s' ''schedules'' sid = Some d \<and> dget d ''last_run'' = Some (VFloat t) \<and>
    dget d ''next_run'' = Some (VFloat r) \<and> t = clock (env s) (ticks s) \<and> t + 59 < r"
proof -
  let ?t = "clock (env s) (ticks s)" and ?s1 = "s\<lparr>ticks := Suc (ticks s)\<rparr>"
  let ?rec = "dset (dset (dset rec ''last_run'' (VFloat ?t)) ''last_status'' (VStr st)) ''last_fired_by'' (VStr who)"
  obtain c r where nf: "next_fire w c (Some ?t) ?s1 = (Inr r, ?s1)"
    and s': "s' = put_state ''schedules'' sid (dset ?rec ''next_run'' (VFloat r)) ''schedule.fired'' ?s1"
  proof -
    have own: "own_row s rec" using run row by (simp add: mark_fired_def get_schedule_def get_eq op_bind_apply split: if_splits)
    have id: "dget ?rec ''id'' = Some (VStr sid)" using row by simp
    have "(case cron_of ?rec ?s1 of (Inl e, x) \<Rightarrow> (Inl e, x) | (Inr c, x) \<Rightarrow>
        op_bind (next_fire w c (Some ?t)) (\<lambda>n. op_then (put ''schedules'' (dset ?rec ''next_run'' (VFloat n)) ''schedule.fired'') (op_return ())) x) = (Inr (), s')"
      using run row own by (simp add: mark_fired_def get_schedule_def get_eq op_bind_apply op_now_apply Let_def)
    then obtain c where "op_bind (next_fire w c (Some ?t)) (\<lambda>n. op_then (put ''schedules'' (dset ?rec ''next_run'' (VFloat n)) ''schedule.fired'') (op_return ())) ?s1 = (Inr (), s')"
      by (auto simp: cron_of_def split: option.splits pyval.splits)
    then show thesis
      using that [of c] id pos by (auto simp: op_bind_apply op_then_apply put_eq next_fire_after split: sum.splits)
  qed
  obtain k where "r = fire_start w ?t + 60 * of_nat k"
    using nf pos by (auto simp: next_fire_after bind_sum_def fire_search_first split: sum.splits)
  then have "?t + 59 < r" using cal [of "?t + 60"] by (simp add: fire_start_def add_strict_increasing)
  moreover have "tget s' ''schedules'' sid = Some (stamp ?s1 (dset ?rec ''next_run'' (VFloat r)))"
    using s' by (simp add: tget_def put_state_def audit_st_def put_row_def)
  ultimately show ?thesis by auto
qed

definition demo_schedule :: doc where
  "demo_schedule = [(''id'', VStr ''s1''), (''cron'', VStr ''* * * * *''), (''enabled'', VBool True), (''next_run'', VFloat 1)]"

lemma demo_fire: "next_fire demo_calendar ''* * * * *'' (Some 1) s = (Inr 61, s)"
proof -
  have hit: "cron_hit demo_calendar ''* * * * *'' \<lparr>cr_minute = [0..59], cr_hour = [0..23], cr_dom = [1..31], cr_month = [1..12], cr_dow = [0..6]\<rparr> 61"
    unfolding cron_hit_def cron_matches_def by code_simp
  have "FIRE_BOUND = Suc (FIRE_BOUND - 1)" by (simp add: FIRE_BOUND_def)
  then have "fire_search p FIRE_BOUND 61 = Inr 61" if "p 61" for p using that fire_search.simps(2) [of p "FIRE_BOUND - 1" 61] by simp
  then show ?thesis using hit by (simp add: next_fire_after demo_cron bind_sum_def fire_start_def demo_mktime)
qed

theorem fired_schedule_waits_witness:
  "\<exists>s s' d r. mark_fired demo_calendar ''s1'' ''SUCCESS'' ''cron'' s = (Inr (), s') \<and> tget s' ''schedules'' ''s1'' = Some d \<and>
    dget d ''last_run'' = Some (VFloat 1) \<and> dget d ''next_run'' = Some (VFloat r) \<and> 1 + 59 < r"
proof -
  let ?s = "put_state ''schedules'' ''s1'' demo_schedule ''e'' (open_store demo_env [] [])"
  have row: "tget ?s ''schedules'' ''s1'' = Some demo_schedule" "demo_schedule \<noteq> []" "dget demo_schedule ''id'' = Some (VStr ''s1'')"
    by (simp_all add: demo_schedule_def tget_def put_state_def audit_st_def put_row_def open_store_def stamp_def enforce_def)
  have t: "ticks ?s = 1" "env ?s = demo_env" "\<not> enforce ?s"
    by (simp_all add: put_state_def audit_st_def put_row_def open_store_def enforce_def)
  have "\<exists>s'. mark_fired demo_calendar ''s1'' ''SUCCESS'' ''cron'' ?s = (Inr (), s')"
    using t row(2,3)
    by (simp add: mark_fired_def get_schedule_def get_legacy row(1) op_bind_apply op_then_apply op_now_apply Let_def cron_of_def demo_fire put_eq)
       (simp add: demo_schedule_def cron_of_def demo_fire put_eq op_then_apply op_bind_apply)
  then obtain s' where run: "mark_fired demo_calendar ''s1'' ''SUCCESS'' ''cron'' ?s = (Inr (), s')" by blast
  have "mktime demo_calendar (localtime demo_calendar x) > x - 1" for x by (simp add: demo_mktime) linarith
  from fired_schedule_waits [OF this row _ run] t
  obtain d r where "tget s' ''schedules'' ''s1'' = Some d" "dget d ''last_run'' = Some (VFloat 1)" "dget d ''next_run'' = Some (VFloat r)" "1 + 59 < r"
    by auto
  with run show ?thesis by blast
qed

end
