(* ===== verification/Policy.thy ===== *)
theory Policy
  imports Tools_Base Store
begin

text \<open>
  \<open>sworker/policy.py\<close>: content-addressed policy versions and the pointer to the current one per scope.
  Lemmas: publishing a new body promotes it, leaves every other version and every other scope alone, and what
  the code does with a body it has seen before.
\<close>

section \<open>Policies\<close>

definition RISK_CATEGORIES :: "string list" where
  "RISK_CATEGORIES = [''read'', ''reversible'', ''external'', ''financial'', ''destructive'']"

definition DISPOSITIONS :: "string list" where
  "DISPOSITIONS = [''auto'', ''approve'', ''deny'']"

definition canonical :: "env \<Rightarrow> doc \<Rightarrow> string" where
  "canonical e body = json_dumps e (VDict (map (\<lambda>k. (k, case dget body k of Some v \<Rightarrow> v | None \<Rightarrow> VNone)) RISK_CATEGORIES))"

record policy =
  po_hash :: string
  po_version :: int
  po_scope :: string
  po_body :: doc
  po_created :: time
  po_actor :: string

definition policy_dict :: "policy \<Rightarrow> doc" where
  "policy_dict p = [(''id'', VStr (po_hash p)), (''hash'', VStr (po_hash p)), (''version'', VInt (po_version p)),
     (''scope'', VStr (po_scope p)), (''body'', VDict (po_body p)), (''created'', VFloat (po_created p)),
     (''actor'', VStr (po_actor p))]"

definition policy_of :: "doc \<Rightarrow> policy sop" where
  "policy_of d = (case (dget d ''hash'', dget d ''version'', dget d ''scope'') of
       (Some h, Some v, Some sc) \<Rightarrow>
         op_bind (op_lift (py_int v)) (\<lambda>n.
         op_bind (case dget d ''body'' of None \<Rightarrow> op_return [] | Some (VDict b) \<Rightarrow> op_return b | Some _ \<Rightarrow> op_raise TypeError) (\<lambda>b.
         op_bind op_now (\<lambda>t.
         op_bind (op_lift (py_float (case dget d ''created'' of Some c \<Rightarrow> c | None \<Rightarrow> VFloat t))) (\<lambda>c.
           op_return \<lparr>po_hash = val_str h, po_version = n, po_scope = val_str sc, po_body = b, po_created = c,
             po_actor = (case dget d ''actor'' of Some a \<Rightarrow> val_str a | None \<Rightarrow> ''system'')\<rparr>))))
     | _ \<Rightarrow> op_raise KeyError)"

definition policy_hash :: "env \<Rightarrow> doc \<Rightarrow> string" where
  "policy_hash e body = take 16 (sha256 e (canonical e body))"

definition make_policy :: "doc \<Rightarrow> string \<Rightarrow> int \<Rightarrow> string \<Rightarrow> policy sop" where
  "make_policy body scope version actor = op_bind (op_gets (\<lambda>s. policy_hash (env s) body)) (\<lambda>h. op_bind op_now (\<lambda>t.
     op_return \<lparr>po_hash = h, po_version = version, po_scope = scope, po_body = body, po_created = t, po_actor = actor\<rparr>))"

section \<open>The registry\<close>

definition policy_get :: "string \<Rightarrow> policy option sop" where
  "policy_get h = op_bind (get ''policies'' h []) (\<lambda>r. case r of
       None \<Rightarrow> op_return None
     | Some d \<Rightarrow> (if d = [] then op_return None else op_bind (policy_of d) (\<lambda>p. op_return (Some p))))"

definition current_key :: "string \<Rightarrow> string" where
  "current_key scope = ''policy:current:'' @ scope"

definition current_hash :: "string \<Rightarrow> pyval sop" where
  "current_hash scope = op_bind (get ''meta_kv'' (current_key scope) []) (\<lambda>r. case r of
       None \<Rightarrow> op_return VNone
     | Some d \<Rightarrow> op_return (if d = [] then VNone else case dget d ''policy_hash'' of Some h \<Rightarrow> h | None \<Rightarrow> VNone))"

definition set_current :: "string \<Rightarrow> string \<Rightarrow> unit sop" where
  "set_current scope h = op_then (put ''meta_kv'' [(''id'', VStr (current_key scope)), (''scope'', VStr scope),
     (''policy_hash'', VStr h)] ''policy.promoted'') (op_return ())"

definition latest_policy :: "string \<Rightarrow> policy option sop" where
  "latest_policy scope = op_bind (current_hash scope) (\<lambda>h.
     if \<not> truthy h then op_return None else policy_get (val_str h))"

definition promote_new :: "policy \<Rightarrow> policy sop" where
  "promote_new pol = op_then (put ''policies'' (policy_dict pol) ''policy.published'')
     (op_then (set_current (po_scope pol) (po_hash pol)) (op_return pol))"

definition reusable :: "string \<Rightarrow> doc option \<Rightarrow> bool" where
  "reusable scope prior = (case prior of Some d \<Rightarrow> d \<noteq> [] \<and> dget d ''scope'' = Some (VStr scope) | None \<Rightarrow> False)"

definition publish :: "doc \<Rightarrow> string \<Rightarrow> string \<Rightarrow> policy sop" where
  "publish body scope actor =
     op_bind (latest_policy scope) (\<lambda>existing.
     op_bind (make_policy body scope (case existing of Some p \<Rightarrow> po_version p + 1 | None \<Rightarrow> 1) actor) (\<lambda>pol.
     op_bind (get ''policies'' (po_hash pol) []) (\<lambda>prior.
       if reusable scope prior then policy_of (the prior) else promote_new pol)))"

definition list_versions :: "string \<Rightarrow> policy list sop" where
  "list_versions scope = op_bind (find_rows ''policies'' ((by_cols [(''scope'', VStr scope)])\<lparr>q_order := ''version''\<rparr>)) (op_mapM policy_of)"

section \<open>Reading never writes\<close>

definition quiet :: "'a sop \<Rightarrow> bool" where
  "quiet m \<longleftrightarrow> (\<forall>s. tables (snd (m s)) = tables s \<and> audit_log (snd (m s)) = audit_log s \<and> env (snd (m s)) = env s \<and>
     enforce (snd (m s)) = enforce s \<and> org_id (snd (m s)) = org_id s \<and> workspace_id (snd (m s)) = workspace_id s)"

lemma quiet_return [intro, simp]: "quiet (op_return x)" "quiet (op_raise e)" "quiet (op_lift r)" "quiet (op_gets f)" "quiet op_now" "quiet (get t i w)"
  by (simp_all add: quiet_def op_now_def)

lemma quiet_bind [intro]: "quiet m \<Longrightarrow> (\<And>x. quiet (f x)) \<Longrightarrow> quiet (op_bind m f)"
proof -
  assume m: "quiet m" and f: "\<And>x. quiet (f x)"
  show ?thesis unfolding quiet_def
  proof (rule allI)
    fix s
    obtain r t where mt: "m s = (r, t)" by (cases "m s")
    show "tables (snd (op_bind m f s)) = tables s \<and> audit_log (snd (op_bind m f s)) = audit_log s \<and> env (snd (op_bind m f s)) = env s \<and>
      enforce (snd (op_bind m f s)) = enforce s \<and> org_id (snd (op_bind m f s)) = org_id s \<and> workspace_id (snd (op_bind m f s)) = workspace_id s"
      using m f mt unfolding quiet_def op_bind_apply by (cases r) (simp, metis snd_conv)+
  qed
qed

lemma quietD: "quiet m \<Longrightarrow> m s = (r, s') \<Longrightarrow> tables s' = tables s \<and> env s' = env s \<and> enforce s' = enforce s \<and> audit_log s' = audit_log s \<and>
    org_id s' = org_id s \<and> workspace_id s' = workspace_id s"
  unfolding quiet_def by (metis snd_conv)

lemma quiet_policy_of [intro, simp]: "quiet (policy_of d)"
  unfolding policy_of_def by (auto split: option.splits pyval.splits intro!: quiet_bind)

lemma quiet_policy_get [intro, simp]: "quiet (policy_get h)"
  unfolding policy_get_def by (auto split: option.splits intro!: quiet_bind)

lemma quiet_latest [intro, simp]: "quiet (latest_policy sc)"
  unfolding latest_policy_def current_hash_def by (auto split: option.splits intro!: quiet_bind)

lemma quiet_make [intro, simp]: "quiet (make_policy b sc v a)"
  unfolding make_policy_def by (auto intro!: quiet_bind)

section \<open>What publishing does\<close>

definition pointer_row :: "string \<Rightarrow> string \<Rightarrow> doc" where
  "pointer_row scope h = [(''id'', VStr (current_key scope)), (''scope'', VStr scope), (''policy_hash'', VStr h)]"

lemma promote_new_eq:
  "promote_new p s = (Inr p, put_state ''meta_kv'' (current_key (po_scope p)) (pointer_row (po_scope p) (po_hash p)) ''policy.promoted''
     (put_state ''policies'' (po_hash p) (policy_dict p) ''policy.published'' s))"
  by (simp add: promote_new_def op_then_apply set_current_def put_eq policy_dict_def pointer_row_def)

lemma publish_run:
  assumes "publish body scope actor s = (Inr p, s')"
  obtains t v prior pol where "tables t = tables s" "env t = env s" "enforce t = enforce s" "workspace_id t = workspace_id s"
    "po_hash pol = policy_hash (env s) body" "po_scope pol = scope" "po_body pol = body" "po_version pol = v" "po_actor pol = actor"
    "get ''policies'' (policy_hash (env s) body) [] t = (Inr prior, t)"
    "fst (latest_policy scope s) = Inr None \<and> v = 1 \<or> (\<exists>q. fst (latest_policy scope s) = Inr (Some q) \<and> v = po_version q + 1)"
    "(if reusable scope prior then policy_of (the prior) t else promote_new pol t) = (Inr p, s')"
proof -
  obtain ex t0 where l: "latest_policy scope s = (Inr ex, t0)"
    using assms unfolding publish_def op_bind_apply [of "latest_policy scope"] by (auto split: sum.splits prod.splits)
  let ?v = "case ex of Some p \<Rightarrow> po_version p + 1 | None \<Rightarrow> 1"
  have t0: "tables t0 = tables s \<and> env t0 = env s \<and> enforce t0 = enforce s \<and> workspace_id t0 = workspace_id s"
    using quietD [OF quiet_latest l] by simp
  let ?t = "t0\<lparr>ticks := Suc (ticks t0)\<rparr>"
  obtain pol where m: "make_policy body scope ?v actor t0 = (Inr pol, ?t)"
    and pol: "po_hash pol = policy_hash (env s) body" "po_scope pol = scope" "po_body pol = body" "po_version pol = ?v" "po_actor pol = actor"
    using t0 by (simp add: make_policy_def op_bind_apply op_now_apply)
  have run: "op_bind (get ''policies'' (policy_hash (env s) body) []) (\<lambda>prior. if reusable scope prior then policy_of (the prior) else promote_new pol) ?t = (Inr p, s')"
    using assms l m pol(1) unfolding publish_def by (simp add: op_bind_apply [of "latest_policy scope"] op_bind_apply [of "make_policy body scope ?v actor"])
  obtain prior where g: "get ''policies'' (policy_hash (env s) body) [] ?t = (Inr prior, ?t)"
    using run by (auto simp: op_bind_apply get_eq split: option.splits if_splits)
  show thesis
    using that [of ?t pol ?v prior] t0 pol g run l by (auto simp: op_bind_apply split: option.split if_splits)
qed

lemma policy_of_dict: "\<exists>t. policy_of (stamp s0 (policy_dict p)) s = (Inr p, t)"
  by (simp add: policy_of_def policy_dict_def stamp_def op_bind_apply op_now_apply val_str.simps)

text \<open>publishing a new body promotes it and disturbs nothing else.  When no stored policy has the body's hash, a
  successful publish returns a version one above the scope's latest (or 1), makes it the latest of its scope, and leaves every other
  policy version and the current version of every other scope as they were.\<close>

theorem publish_promotes:
  assumes run: "publish body scope actor s = (Inr p, s')"
    and fresh: "tget s ''policies'' (policy_hash (env s) body) = None"
    and hash: "policy_hash (env s) body \<noteq> []"
  shows "po_body p = body \<and> po_scope p = scope \<and> po_hash p = policy_hash (env s) body \<and>
    (po_version p = 1 \<or> (\<exists>q. fst (latest_policy scope s) = Inr (Some q) \<and> po_version p = po_version q + 1)) \<and>
    fst (latest_policy scope s') = Inr (Some p) \<and>
    (\<forall>h. h \<noteq> po_hash p \<longrightarrow> tget s' ''policies'' h = tget s ''policies'' h) \<and>
    (\<forall>k. k \<noteq> current_key scope \<longrightarrow> tget s' ''meta_kv'' k = tget s ''meta_kv'' k)"
proof -
  obtain t v prior pol where t: "tables t = tables s" "env t = env s" "enforce t = enforce s" "workspace_id t = workspace_id s"
    and pol: "po_hash pol = policy_hash (env s) body" "po_scope pol = scope" "po_body pol = body" "po_version pol = v"
    and g: "get ''policies'' (policy_hash (env s) body) [] t = (Inr prior, t)"
    and v: "fst (latest_policy scope s) = Inr None \<and> v = 1 \<or> (\<exists>q. fst (latest_policy scope s) = Inr (Some q) \<and> v = po_version q + 1)"
    and end_: "(if reusable scope prior then policy_of (the prior) t else promote_new pol t) = (Inr p, s')"
    by (rule publish_run [OF run])
  have same: "tget t a b = tget s a b" for a b using t by (simp add: tget_def)
  have "prior = None" using g fresh by (simp add: get_eq same)
  then have p: "p = pol" and s': "s' = put_state ''meta_kv'' (current_key scope) (pointer_row scope (po_hash pol)) ''policy.promoted''
      (put_state ''policies'' (po_hash pol) (policy_dict pol) ''policy.published'' t)"
    using end_ pol by (auto simp: reusable_def promote_new_eq)
  let ?u = "put_state ''policies'' (po_hash pol) (policy_dict pol) ''policy.published'' t"
  obtain q where "policy_of (stamp t (policy_dict pol)) s' = (Inr pol, q)" using policy_of_dict by blast
  moreover have "get ''policies'' (po_hash pol) [] s' = (Inr (Some (stamp t (policy_dict pol))), s')"
    unfolding s' by (simp add: get_eq own_row_def stamp_def put_state_def audit_st_def put_row_def tget_def)
  moreover have "get ''meta_kv'' (current_key scope) [] s' = (Inr (Some (stamp ?u (pointer_row scope (po_hash pol)))), s')"
    unfolding s' by (rule get_after_put) simp
  moreover have "stamp t (policy_dict pol) \<noteq> []" "stamp ?u (pointer_row scope (po_hash pol)) \<noteq> []"
    by (auto simp: stamp_def policy_dict_def pointer_row_def)
  moreover have "dget (stamp ?u (pointer_row scope (po_hash pol))) ''policy_hash'' = Some (VStr (po_hash pol))" by (simp add: pointer_row_def)
  ultimately have "fst (latest_policy scope s') = Inr (Some pol)"
    using hash pol(1) by (simp add: latest_policy_def current_hash_def policy_get_def op_bind_apply val_str.simps)
  with p pol v show ?thesis by (auto simp: s' same)
qed

text \<open>publishing a body its scope has seen before changes nothing at all: the stored version comes back, and the current version
  of the scope stays what it was, even when another one was published in between.\<close>

theorem republish_does_not_promote:
  assumes run: "publish body scope actor s = (Inr p, s')"
    and seen: "tget s ''policies'' (policy_hash (env s) body) = Some d" "dget d ''scope'' = Some (VStr scope)"
      "dget d ''hash'' = Some (VStr h)"
  shows "tables s' = tables s \<and> po_hash p = h"
proof -
  obtain t prior pol where t: "tables t = tables s" "enforce t = enforce s"
    and g: "get ''policies'' (policy_hash (env s) body) [] t = (Inr prior, t)"
    and end_: "(if reusable scope prior then policy_of (the prior) t else promote_new pol t) = (Inr p, s')"
    by (rule publish_run [OF run])
  have "tget t ''policies'' (policy_hash (env s) body) = Some d" using t seen by (simp add: tget_def)
  then have "prior = Some d" using g by (simp add: get_eq split: if_splits)
  moreover have "d \<noteq> []" using seen(2) by auto
  ultimately have q: "policy_of d t = (Inr p, s')" using end_ seen by (simp add: reusable_def)
  then have "po_hash p = h"
    using seen by (auto simp: policy_of_def op_bind_apply op_now_apply val_str.simps split: option.splits pyval.splits sum.splits)
  with quietD [OF quiet_policy_of q] t show ?thesis by simp
qed

definition demo_body :: doc where "demo_body = [(''read'', VStr ''auto''), (''financial'', VStr ''deny'')]"

lemma publish_demo: "\<exists>p s'. publish demo_body ''org:default'' ''ann'' (open_store demo_env [] []) = (Inr p, s')"
proof -
  let ?s = "open_store demo_env [] []"
  have n: "get t i [] x = (Inr None, x)" if "known_table t" "\<not> enforce x" "tables x = tables ?s" for t i x
    using that by (simp add: get_legacy tget_def open_store_def)
  have "\<not> enforce ?s" by (simp add: open_store_def enforce_def)
  then show ?thesis
    by (simp add: publish_def latest_policy_def current_hash_def make_policy_def op_bind_apply op_now_apply n reusable_def promote_new_eq)
qed

lemma demo_hash: "policy_hash demo_env x \<noteq> []"
  by (simp add: policy_hash_def demo_env_def)

theorem publish_promotes_witness:
  "\<exists>p s'. publish demo_body ''org:default'' ''ann'' (open_store demo_env [] []) = (Inr p, s') \<and> po_body p = demo_body \<and>
    fst (latest_policy ''org:default'' s') = Inr (Some p)"
proof -
  let ?s = "open_store demo_env [] []"
  obtain p s' where run: "publish demo_body ''org:default'' ''ann'' ?s = (Inr p, s')" using publish_demo by blast
  have "tget ?s ''policies'' x = None" "env ?s = demo_env" for x by (simp_all add: tget_def open_store_def)
  then have "po_body p = demo_body \<and> fst (latest_policy ''org:default'' s') = Inr (Some p)"
    using publish_promotes [OF run] demo_hash by simp
  with run show ?thesis by blast
qed

lemma publish_reuses:
  assumes "\<not> enforce s" "tget s ''meta_kv'' (current_key (po_scope p)) = None"
    and "tget s ''policies'' (policy_hash (env s) body) = Some (policy_dict p)"
  shows "\<exists>s'. publish body (po_scope p) actor s = (Inr p, s')"
proof -
  let ?t = "s\<lparr>ticks := Suc (ticks s)\<rparr>"
  obtain q where "policy_of (policy_dict p) ?t = (Inr p, q)" using policy_of_dict [of s p ?t] assms(1) by (auto simp: stamp_def)
  moreover have "dget (policy_dict p) ''scope'' = Some (VStr (po_scope p))" "policy_dict p \<noteq> []" by (simp_all add: policy_dict_def)
  ultimately show ?thesis
    using assms by (simp add: publish_def latest_policy_def current_hash_def make_policy_def op_bind_apply op_now_apply get_legacy reusable_def)
qed

theorem republish_does_not_promote_witness:
  "\<exists>s s' p. publish demo_body ''org:default'' ''ann'' s = (Inr p, s') \<and> tables s' = tables s \<and> po_hash p = policy_hash demo_env demo_body"
proof -
  let ?s0 = "open_store demo_env [] []"
  let ?p = "\<lparr>po_hash = policy_hash demo_env demo_body, po_version = 1, po_scope = ''org:default'', po_body = demo_body, po_created = 0, po_actor = ''ann''\<rparr>"
  let ?s = "put_state ''policies'' (policy_hash demo_env demo_body) (policy_dict ?p) ''policy.published'' ?s0"
  have e: "\<not> enforce ?s0" "env ?s = demo_env" "env ?s0 = demo_env" by (simp_all add: open_store_def enforce_def put_state_def audit_st_def put_row_def)
  then have row: "tget ?s ''policies'' (policy_hash (env ?s) demo_body) = Some (policy_dict ?p)" by (simp add: stamp_def)
  have "tget ?s ''meta_kv'' (current_key ''org:default'') = None" by (simp add: tget_def open_store_def)
  then have "\<exists>s'. publish demo_body ''org:default'' ''ann'' ?s = (Inr ?p, s')"
    using publish_reuses [OF _ _ row] e(1) by simp
  then obtain p s' where run: "publish demo_body ''org:default'' ''ann'' ?s = (Inr p, s')" by blast
  have "tables s' = tables ?s \<and> po_hash p = policy_hash demo_env demo_body"
    by (rule republish_does_not_promote [OF run row]) (simp_all add: policy_dict_def)
  with run show ?thesis by blast
qed

end
