(* ===== verification/Connectors.thy ===== *)
theory Connectors
  imports Config
begin

text \<open>
  \<open>sworker/connectors.py\<close>: connector specifications, the allow-list of a connector, the manager that authorizes
  an action and resolves its credentials, and the tool call a connector delegates to.  The regular-expression
  engine (\<open>compile\<close> gives the search predicate of a pattern, or None for a pattern that does not compile) and the
  secret resolver are parameters.  Lemmas: default deny and complete credentials.
\<close>

section \<open>Connectors\<close>

datatype connector_kind = Http_Connector | Slack_Connector

definition BUILTIN_CONNECTORS :: "(string \<times> connector_kind) list" where
  "BUILTIN_CONNECTORS = [(''http'', Http_Connector), (''slack'', Slack_Connector)]"

fun connector_name :: "connector_kind \<Rightarrow> string" where
  "connector_name Http_Connector = ''http''"
| "connector_name Slack_Connector = ''slack''"

type_synonym compile = "string \<Rightarrow> (string \<Rightarrow> bool) option"

record connector =
  cn_kind :: connector_kind
  cn_allow :: "string list"
  cn_secret_refs :: "(string \<times> string) list"
  cn_options :: doc

text \<open>\<open>ConnectorBase.__init__\<close>: every pattern of the allow-list must be a string that compiles.\<close>

fun compiled :: "compile \<Rightarrow> pyval list \<Rightarrow> error + string list" where
  "compiled cp [] = Inr []"
| "compiled cp (v # vs) = (case v of
       VStr p \<Rightarrow> (if cp p = None then Inl RegexError else bind_sum (compiled cp vs) (\<lambda>ps. Inr (p # ps)))
     | _ \<Rightarrow> Inl TypeError)"

definition str_map :: "doc \<Rightarrow> (string \<times> string) list" where
  "str_map d = map (\<lambda>(k, v). (k, val_str v)) d"

definition dict_or_empty :: "doc \<Rightarrow> string \<Rightarrow> error + doc" where
  "dict_or_empty spec k = (case get_or spec k (VDict []) of VDict d \<Rightarrow> Inr d | VList _ \<Rightarrow> Inl TypeError | _ \<Rightarrow> Inl ValueError)"

definition new_connector :: "compile \<Rightarrow> connector_kind \<Rightarrow> doc \<Rightarrow> error + connector" where
  "new_connector cp kind spec =
     bind_sum (py_iter (get_or spec ''allow'' (VList []))) (\<lambda>pats.
     bind_sum (compiled cp pats) (\<lambda>allow.
     bind_sum (dict_or_empty spec ''secret_refs'') (\<lambda>refs.
     bind_sum (dict_or_empty spec ''options'') (\<lambda>opts.
       Inr \<lparr>cn_kind = kind, cn_allow = allow, cn_secret_refs = str_map refs, cn_options = opts\<rparr>))))"

definition normalize_target :: "connector_kind \<Rightarrow> string \<Rightarrow> string" where
  "normalize_target k target = (case k of Http_Connector \<Rightarrow> str_strip target
     | Slack_Connector \<Rightarrow> dropWhile (\<lambda>c. c = CHR ''#'') (str_strip target))"

datatype allow_reason = Empty_Allow_List | Allow_Match | Not_On_Allow_List

definition allowed :: "compile \<Rightarrow> connector \<Rightarrow> string \<Rightarrow> bool \<times> allow_reason" where
  "allowed cp c target =
     (if cn_allow c = [] then (False, Empty_Allow_List)
      else let norm = normalize_target (cn_kind c) target in
        if list_ex (\<lambda>p. case cp p of Some search \<Rightarrow> search norm | None \<Rightarrow> False) (cn_allow c)
        then (True, Allow_Match) else (False, Not_On_Allow_List))"

definition describe_connector :: "connector \<Rightarrow> doc" where
  "describe_connector c = [(''name'', VStr (connector_name (cn_kind c))), (''allow'', VList (map VStr (cn_allow c))),
     (''credentials_required'', VList (map (VStr \<circ> fst) (cn_secret_refs c)))]"

definition required_credential_names :: "connector \<Rightarrow> string list" where
  "required_credential_names c = map fst (cn_secret_refs c)"

text \<open>The tool call that a connector delegates to; the credential values take no part in it.\<close>

definition first_ref :: "connector \<Rightarrow> string option" where
  "first_ref c = (case cn_secret_refs c of [] \<Rightarrow> None | (_, r) # _ \<Rightarrow> if r = [] then None else Some r)"

definition execute_http :: "connector \<Rightarrow> string \<Rightarrow> string \<Rightarrow> doc \<Rightarrow> (string \<times> string) list \<Rightarrow> error + doc" where
  "execute_http c action target args credentials =
     (case get_or args ''method'' (if action \<noteq> [] then VStr action else VStr ''get'') of
        VStr m \<Rightarrow>
          (let call = [(''url'', VStr target), (''timeout'', case dget args ''timeout'' of Some t \<Rightarrow> t | None \<Rightarrow> VInt 30)];
               call1 = (case dget args ''body'' of Some b \<Rightarrow> dset call ''body'' b | None \<Rightarrow> call);
               call2 = (if credentials \<noteq> [] then (case first_ref c of Some r \<Rightarrow> dset call1 ''auth_env'' (VStr r) | None \<Rightarrow> call1) else call1)
           in Inr [(''tool'', VStr (if str_lower m = ''post'' then ''http.post'' else ''http.get'')), (''args'', VDict call2),
                (''method'', VStr (str_lower m))])
      | _ \<Rightarrow> Inl AttributeError)"

definition execute_slack :: "connector \<Rightarrow> string \<Rightarrow> doc \<Rightarrow> doc" where
  "execute_slack c target args = (let channel = normalize_target Slack_Connector target in
     [(''tool'', VStr ''message.send''),
      (''args'', VDict [(''channel'', VStr channel), (''text'', case dget args ''text'' of Some t \<Rightarrow> t | None \<Rightarrow> VStr [])]),
      (''channel'', VStr channel)])"

section \<open>The manager\<close>

type_synonym manager = "(string \<times> connector) list"

definition add_spec :: "compile \<Rightarrow> manager \<Rightarrow> doc \<Rightarrow> error + manager" where
  "add_spec cp m spec =
     (case get_or spec ''kind'' (case dget spec ''name'' of Some v \<Rightarrow> v | None \<Rightarrow> VNone) of
        VStr k \<Rightarrow>
          (if k = [] then Inl ConnectorError
           else case dget BUILTIN_CONNECTORS k of
               None \<Rightarrow> Inl ConnectorError
             | Some kind \<Rightarrow> bind_sum (new_connector cp kind spec) (\<lambda>c. Inr (dset m k c)))
      | VList (x # xs) \<Rightarrow> Inl TypeError
      | VDict (x # xs) \<Rightarrow> Inl TypeError
      | _ \<Rightarrow> Inl ConnectorError)"

fun add_specs :: "compile \<Rightarrow> manager \<Rightarrow> doc list \<Rightarrow> error + manager" where
  "add_specs cp m [] = Inr m"
| "add_specs cp m (d # ds) = bind_sum (add_spec cp m d) (\<lambda>m'. add_specs cp m' ds)"

definition new_manager :: "compile \<Rightarrow> doc list \<Rightarrow> error + manager" where
  "new_manager cp specs = add_specs cp [] specs"

definition enabled_connectors :: "manager \<Rightarrow> string list" where
  "enabled_connectors m = sort (map fst m)"

definition describe_manager :: "manager \<Rightarrow> (string \<times> doc) list" where
  "describe_manager m = map (\<lambda>(k, c). (k, describe_connector c)) m"

definition has_connector :: "manager \<Rightarrow> string \<Rightarrow> bool" where
  "has_connector m k \<longleftrightarrow> dget m k \<noteq> None"

datatype auth_reason = Not_Enabled "string list" | Reason allow_reason

definition authorize :: "compile \<Rightarrow> manager \<Rightarrow> string \<Rightarrow> string \<Rightarrow> string \<Rightarrow> bool \<times> auth_reason \<times> connector option" where
  "authorize cp m kind action target = (case dget m kind of
       None \<Rightarrow> (False, Not_Enabled (enabled_connectors m), None)
     | Some c \<Rightarrow> (let (ok, reason) = allowed cp c target in
         if \<not> ok then (False, Reason reason, Some c) else (True, Reason reason, Some c)))"

type_synonym resolver = "string \<Rightarrow> error + string option"

fun resolve_refs :: "resolver \<Rightarrow> (string \<times> string) list \<Rightarrow> (string \<times> string) list \<Rightarrow> error + (string \<times> string) list" where
  "resolve_refs f out [] = Inr out"
| "resolve_refs f out ((logical, ref) # rest) = (case f ref of
       Inl _ \<Rightarrow> Inl ConnectorError
     | Inr None \<Rightarrow> Inl ConnectorError
     | Inr (Some v) \<Rightarrow> resolve_refs f (dset out logical v) rest)"

definition resolve_credentials :: "resolver option \<Rightarrow> manager \<Rightarrow> string \<Rightarrow> error + (string \<times> string) list" where
  "resolve_credentials r m kind = (case dget m kind of
       None \<Rightarrow> Inl ConnectorError
     | Some c \<Rightarrow> (case r of
         None \<Rightarrow> (if required_credential_names c \<noteq> [] then Inl ConnectorError else Inr [])
       | Some f \<Rightarrow> resolve_refs f [] (cn_secret_refs c)))"

section \<open>Default deny\<close>

lemma add_specs_kinds:
  "add_specs cp m specs = Inr m' \<Longrightarrow> dget m' k \<noteq> None \<Longrightarrow> dget m k = None \<Longrightarrow>
     \<exists>d\<in>set specs. dget d ''kind'' = Some (VStr k) \<or> dget d ''name'' = Some (VStr k)"
proof (induction specs arbitrary: m)
  case (Cons d specs)
  then obtain m1 where m1: "add_spec cp m d = Inr m1" "add_specs cp m1 specs = Inr m'" by (auto elim!: bind_sumE)
  show ?case
  proof (cases "dget m1 k = None")
    case True
    with Cons m1 show ?thesis by auto
  next
    case False
    with m1(1) Cons.prems(3) have "get_or d ''kind'' (case dget d ''name'' of Some v \<Rightarrow> v | None \<Rightarrow> VNone) = VStr k"
      by (auto simp: add_spec_def split: pyval.splits list.splits option.splits if_splits elim!: bind_sumE)
    then show ?thesis by (auto simp: get_or_def split: option.splits if_splits)
  qed
qed simp

text \<open>default deny.  A manager built from a worker's specifications authorizes an action exactly when a specification names that
  kind of connector, the connector built for it has a non-empty allow-list, and some pattern of that list is found in the normalized target;
  the action's name and everything a model may say play no part.\<close>

theorem connector_default_deny:
  assumes "new_manager cp specs = Inr m"
  shows "fst (authorize cp m kind action target) \<longleftrightarrow>
    (\<exists>c. dget m kind = Some c \<and> (\<exists>d\<in>set specs. dget d ''kind'' = Some (VStr kind) \<or> dget d ''name'' = Some (VStr kind)) \<and>
       (\<exists>p\<in>set (cn_allow c). \<exists>search. cp p = Some search \<and> search (normalize_target (cn_kind c) target)))"
proof -
  have "\<exists>d\<in>set specs. dget d ''kind'' = Some (VStr kind) \<or> dget d ''name'' = Some (VStr kind)" if "dget m kind = Some c" for c
    using add_specs_kinds [of cp "[]" specs m kind] assms that by (simp add: new_manager_def)
  then show ?thesis
    by (auto simp: authorize_def allowed_def Let_def list_ex_iff split: option.splits)
qed

lemma resolve_refs_result:
  "resolve_refs f out refs = Inr creds \<Longrightarrow> distinct (map fst refs) \<Longrightarrow>
     (\<forall>k. dget creds k = (case dget refs k of Some r \<Rightarrow> (case f r of Inr v \<Rightarrow> v | Inl _ \<Rightarrow> None) | None \<Rightarrow> dget out k)) \<and>
     (\<forall>(k, r)\<in>set refs. \<exists>v. f r = Inr (Some v))"
proof (induction refs arbitrary: out)
  case (Cons x refs)
  obtain l r where x: "x = (l, r)" by (cases x)
  with Cons.prems obtain v where v: "f r = Inr (Some v)" "resolve_refs f (dset out l v) refs = Inr creds"
    by (auto split: sum.splits option.splits)
  have "dget refs l = None" using Cons.prems x by (simp add: dget_None_iff dkeys_def)
  with Cons.IH [OF v(2)] Cons.prems x v show ?case by (auto split: option.splits)
qed simp

text \<open>credentials are complete or refused.  When the credentials of a connector resolve, every credential that it requires is there with
  the value the resolver gave for its reference, and there is no other; an unresolved reference never yields a partial set.\<close>

theorem credentials_complete:
  assumes "resolve_credentials r m kind = Inr creds" and "dget m kind = Some c" and "distinct (map fst (cn_secret_refs c))"
  shows "\<forall>k. (case dget (cn_secret_refs c) k of
       Some ref \<Rightarrow> \<exists>f v. r = Some f \<and> f ref = Inr (Some v) \<and> dget creds k = Some v
     | None \<Rightarrow> dget creds k = None)"
proof (cases r)
  case None
  then show ?thesis using assms by (auto simp: resolve_credentials_def required_credential_names_def split: if_splits)
next
  case (Some f)
  then have "resolve_refs f [] (cn_secret_refs c) = Inr creds" using assms by (simp add: resolve_credentials_def)
  from resolve_refs_result [OF this assms(3)] Some show ?thesis
    by (auto split: option.splits dest!: dget_SomeD)
qed

definition demo_compile :: compile where
  "demo_compile p = Some (\<lambda>t. contains t p)"

definition demo_spec :: doc where
  "demo_spec = [(''kind'', VStr ''slack''), (''allow'', VList [VStr ''sales'']), (''secret_refs'', VDict [(''token'', VStr ''slack_token'')])]"

definition demo_connector :: connector where
  "demo_connector = \<lparr>cn_kind = Slack_Connector, cn_allow = [''sales''], cn_secret_refs = [(''token'', ''slack_token'')], cn_options = []\<rparr>"

lemma demo_manager: "new_manager demo_compile [demo_spec] = Inr [(''slack'', demo_connector)]"
  by (simp add: new_manager_def add_spec_def demo_spec_def get_or_def BUILTIN_CONNECTORS_def new_connector_def demo_compile_def dict_or_empty_def
      str_map_def val_str.simps demo_connector_def)

theorem connector_default_deny_witness:
  "\<exists>m. new_manager demo_compile [demo_spec] = Inr m \<and> fst (authorize demo_compile m ''slack'' ''post'' ''#sales'') \<and>
     \<not> fst (authorize demo_compile m ''http'' ''get'' ''sales'')"
proof -
  have "contains (normalize_target Slack_Connector ''#sales'') ''sales''" by code_simp
  then show ?thesis
    using connector_default_deny [OF demo_manager, of "''slack''" "''post''" "''#sales''"] connector_default_deny [OF demo_manager, of "''http''" "''get''" "''sales''"]
    by (auto simp: demo_manager) (auto simp: demo_connector_def demo_compile_def demo_spec_def)
qed

theorem credentials_complete_witness:
  "\<exists>creds v. resolve_credentials (Some (\<lambda>r. Inr (Some (''secret of '' @ r)))) [(''slack'', demo_connector)] ''slack'' = Inr creds \<and>
     dget creds ''token'' = Some v"
proof -
  let ?r = "Some (\<lambda>r. Inr (Some (''secret of '' @ r)))"
  have "\<exists>creds. resolve_credentials ?r [(''slack'', demo_connector)] ''slack'' = Inr creds"
    by (simp add: resolve_credentials_def demo_connector_def)
  then obtain creds where c: "resolve_credentials ?r [(''slack'', demo_connector)] ''slack'' = Inr creds" by blast
  from credentials_complete [OF c, of demo_connector] have "\<exists>v. dget creds ''token'' = Some v"
    by (auto simp: demo_connector_def dest: spec [of _ "''token''"])
  with c show ?thesis by blast
qed

end
