(* ===== verification/Trigger.thy ===== *)
theory Trigger
  imports Tools_Base
begin

text \<open>
  \<open>sworker/trigger.py\<close>: trigger specifications, the polling loop of the file watcher, the event bus and the
  webhook receiver.  Directory contents, hashes and the network are inputs: the watcher runs over the sequence of
  snapshots it takes, the receiver over the requests it is given.  Lemmas: when each of the three fires.
\<close>

section \<open>Specifications\<close>

definition VALID_KINDS :: "string list" where
  "VALID_KINDS = [''file_changed'', ''webhook'', ''event'']"

definition set_default :: "doc \<Rightarrow> string \<Rightarrow> pyval \<Rightarrow> doc" where
  "set_default d k v = (if dget d k = None then dset d k v else d)"

definition normalize_file_changed :: "env \<Rightarrow> doc \<Rightarrow> error + doc" where
  "normalize_file_changed e spec = (case dget spec ''roots'' of
       Some (VList rs) \<Rightarrow>
         (if rs = [] then Inl TriggerError
          else if list_ex (\<lambda>r. \<not> path_isabs (py_str e r)) rs then Inl TriggerError
          else Inr (set_default (dset spec ''roots'' (VList (map (VStr \<circ> py_str e) rs))) ''interval'' (VFloat 5)))
     | _ \<Rightarrow> Inl TriggerError)"

definition normalize_webhook :: "env \<Rightarrow> doc \<Rightarrow> error + doc" where
  "normalize_webhook e spec = (case dget spec ''path'' of
       Some v \<Rightarrow>
         (if \<not> truthy v \<or> \<not> starts_with (py_str e v) ''/'' then Inl TriggerError
          else Inr (set_default (dset spec ''path'' (VStr (py_str e v))) ''secret'' (VStr [])))
     | None \<Rightarrow> Inl TriggerError)"

definition normalize_event :: "env \<Rightarrow> doc \<Rightarrow> error + doc" where
  "normalize_event e spec = (case dget spec ''name'' of
       Some v \<Rightarrow> (if \<not> truthy v then Inl TriggerError else Inr (dset spec ''name'' (VStr (py_str e v))))
     | None \<Rightarrow> Inl TriggerError)"

definition normalize_trigger :: "env \<Rightarrow> doc \<Rightarrow> error + doc" where
  "normalize_trigger e spec = (case dget spec ''kind'' of
       Some (VStr k) \<Rightarrow>
         (if k \<notin> set VALID_KINDS then Inl TriggerError
          else if k = ''file_changed'' then normalize_file_changed e spec
          else if k = ''webhook'' then normalize_webhook e spec
          else normalize_event e spec)
     | _ \<Rightarrow> Inl TriggerError)"

definition resolve_triggers :: "env \<Rightarrow> doc list \<Rightarrow> error + doc list" where
  "resolve_triggers e specs = map_sum_list (normalize_trigger e) specs"

section \<open>File watcher\<close>

type_synonym snapshot = "(string \<times> string) list"

text \<open>\<open>snapshot_roots\<close>: one level below each root; a root that is no directory is skipped, a file that cannot be read is left out.\<close>

record dir_world =
  dw_list :: "string \<Rightarrow> string list option"
  dw_hash :: "string \<Rightarrow> string option"
  dw_is_file :: "string \<Rightarrow> bool"

fun snapshot_dir :: "dir_world \<Rightarrow> string \<Rightarrow> string list \<Rightarrow> snapshot \<Rightarrow> snapshot" where
  "snapshot_dir w rt [] snap = snap"
| "snapshot_dir w rt (n # ns) snap = snapshot_dir w rt ns
     (let full = path_join rt n in
      if dw_is_file w full then (case dw_hash w full of Some h \<Rightarrow> dset snap full h | None \<Rightarrow> snap) else snap)"

fun snapshot_roots :: "dir_world \<Rightarrow> string list \<Rightarrow> snapshot \<Rightarrow> snapshot" where
  "snapshot_roots w [] snap = snap"
| "snapshot_roots w (rt # rts) snap = snapshot_roots w rts
     (case dw_list w rt of None \<Rightarrow> snap | Some ns \<Rightarrow> snapshot_dir w rt ns snap)"

record watcher =
  wt_last :: snapshot
  wt_primed :: bool

definition new_watcher :: watcher where
  "new_watcher = \<lparr>wt_last = [], wt_primed = False\<rparr>"

definition changed_paths :: "snapshot \<Rightarrow> snapshot \<Rightarrow> string list" where
  "changed_paths cur last_snap = filter (\<lambda>p. dget cur p \<noteq> dget last_snap p) (dkeys cur)"

text \<open>One turn of the loop, and the loop over the snapshots taken until the watcher is stopped.\<close>

definition watch_step :: "watcher \<Rightarrow> snapshot \<Rightarrow> watcher \<times> string list option" where
  "watch_step w cur = (let changed = changed_paths cur (wt_last w) in
     (\<lparr>wt_last = cur, wt_primed = True\<rparr>, if wt_primed w \<and> changed \<noteq> [] then Some changed else None))"

fun watch :: "watcher \<Rightarrow> snapshot list \<Rightarrow> string list option list" where
  "watch w [] = []"
| "watch w (cur # curs) = (let (w', fired) = watch_step w cur in fired # watch w' curs)"

section \<open>Event bus\<close>

type_synonym 'h bus = "(string \<times> 'h list) list"

definition subscribe :: "'h bus \<Rightarrow> string \<Rightarrow> 'h \<Rightarrow> 'h bus" where
  "subscribe b n h = dset b n ((case dget b n of Some hs \<Rightarrow> hs | None \<Rightarrow> []) @ [h])"

text \<open>The handlers called, in order, each with the payload (\<open>payload or {}\<close>), and their number.\<close>

definition bus_publish :: "'h bus \<Rightarrow> string \<Rightarrow> doc option \<Rightarrow> ('h \<times> doc) list \<times> nat" where
  "bus_publish b n payload =
     (let hs = (case dget b n of Some hs \<Rightarrow> hs | None \<Rightarrow> []); p = (case payload of Some d \<Rightarrow> d | None \<Rightarrow> [])
      in (map (\<lambda>h. (h, p)) hs, length hs))"

section \<open>Webhooks\<close>

text \<open>\<open>json.loads\<close> of the decoded body; the last case is any other exception of the parser, such as \<open>RecursionError\<close>
  on deeply nested text, which the handler does not catch.\<close>

datatype body_parse = Json_Body pyval | Not_Json string | Not_Utf8 | Parser_Error error

record request =
  rq_method :: string
  rq_path :: string
  rq_length :: string              \<comment> \<open>the \<open>Content-Length\<close> header, "0" when absent\<close>
  rq_secret :: string              \<comment> \<open>the \<open>X-Sworker-Secret\<close> header, empty when absent\<close>
  rq_body :: "int \<Rightarrow> string"        \<comment> \<open>what reading that many bytes gives\<close>

datatype webhook_result =
    Refused int
  | Accepted doc pyval             \<comment> \<open>answered 202, then \<open>on_fire\<close> with the trigger and the payload\<close>
  | Raised error

type_synonym routes = "(string \<times> doc) list"

definition register_hook :: "routes \<Rightarrow> doc \<Rightarrow> error + routes" where
  "register_hook rs trigger = (case dget trigger ''path'' of
       Some (VStr p) \<Rightarrow> Inr (dset rs p trigger) | Some _ \<Rightarrow> Inl TypeError | None \<Rightarrow> Inl KeyError)"

definition secret_ok :: "doc \<Rightarrow> string \<Rightarrow> bool" where
  "secret_ok trigger provided = (case dget trigger ''secret'' of
       None \<Rightarrow> True | Some v \<Rightarrow> \<not> truthy v \<or> v = VStr provided)"

definition dispatch :: "(string \<Rightarrow> body_parse) \<Rightarrow> routes \<Rightarrow> request \<Rightarrow> webhook_result" where
  "dispatch parse rs rq =
     (let path = takeWhile (\<lambda>c. c \<noteq> CHR ''?'') (rq_path rq) in
      if rq_method rq \<noteq> ''POST'' then Refused 405
      else case dget rs path of
          None \<Rightarrow> Refused 404
        | Some trigger \<Rightarrow>
           (case parse_int (if rq_length rq = [] then ''0'' else rq_length rq) of
              None \<Rightarrow> Raised ValueError
            | Some n \<Rightarrow>
               (let body = (if n \<noteq> 0 then rq_body rq n else []) in
                if \<not> secret_ok trigger (rq_secret rq) then Refused 403
                else if body = [] then Accepted trigger (VDict [])
                else case parse body of
                    Json_Body v \<Rightarrow> Accepted trigger v
                  | Not_Json raw \<Rightarrow> Accepted trigger (VDict [(''raw'', VStr raw)])
                  | Not_Utf8 \<Rightarrow> Raised UnicodeError
                  | Parser_Error err \<Rightarrow> Raised err)))"

text \<open>The methods of the handler class; any other method is refused by the library with 501.\<close>

definition handle_request :: "(string \<Rightarrow> body_parse) \<Rightarrow> routes \<Rightarrow> request \<Rightarrow> webhook_result" where
  "handle_request parse rs rq =
     (if rq_method rq = ''POST'' then dispatch parse rs rq
      else if rq_method rq \<in> {''GET'', ''PUT''} then Refused 405
      else Refused 501)"

section \<open>When a trigger fires\<close>

lemma normalized_webhook:
  "normalize_trigger e spec = Inr t \<Longrightarrow> dget spec ''kind'' = Some (VStr ''webhook'') \<Longrightarrow>
     \<exists>p. dget t ''path'' = Some (VStr p) \<and> starts_with p ''/'' \<and> dget t ''secret'' \<noteq> None"
  by (auto simp: normalize_trigger_def normalize_webhook_def VALID_KINDS_def set_default_def split: option.splits if_splits)

lemma normalized_roots:
  "normalize_trigger e spec = Inr t \<Longrightarrow> dget spec ''kind'' = Some (VStr ''file_changed'') \<Longrightarrow>
     \<exists>rs. dget t ''roots'' = Some (VList (map VStr rs)) \<and> rs \<noteq> [] \<and> (\<forall>r\<in>set rs. path_isabs r) \<and> dget t ''interval'' \<noteq> None"
  by (auto simp: normalize_trigger_def normalize_file_changed_def VALID_KINDS_def set_default_def list_ex_iff comp_def
      split: option.splits pyval.splits if_splits intro!: exI [of _ "map (py_str e) x6" for x6])

text \<open>a webhook fires exactly when it should.  A request fires a trigger if and only if it is a POST, its path without the query
  is the path of that trigger, the length header is a number, the trigger has no secret or the request carries it, and
  the parser answers for the body, with a value or a syntax error; nothing else ever reaches \<open>on_fire\<close>.\<close>

theorem webhook_fires_exactly:
  "(\<exists>payload. handle_request parse rs rq = Accepted trigger payload) \<longleftrightarrow>
     rq_method rq = ''POST'' \<and> dget rs (takeWhile (\<lambda>c. c \<noteq> CHR ''?'') (rq_path rq)) = Some trigger \<and>
     secret_ok trigger (rq_secret rq) \<and>
     (\<exists>n. parse_int (if rq_length rq = [] then ''0'' else rq_length rq) = Some n \<and>
        (n = 0 \<or> rq_body rq n = [] \<or> (parse (rq_body rq n) \<noteq> Not_Utf8 \<and> (\<forall>err. parse (rq_body rq n) \<noteq> Parser_Error err))))"
  by (auto simp: handle_request_def dispatch_def Let_def split: option.splits body_parse.splits)

theorem webhook_fires_exactly_witness:
  "\<exists>payload. handle_request (\<lambda>_. Not_Utf8) [(''/hook'', [(''secret'', VStr ''k'')])]
     \<lparr>rq_method = ''POST'', rq_path = ''/hook?x=1'', rq_length = ''0'', rq_secret = ''k'', rq_body = (\<lambda>_. [])\<rparr> = Accepted [(''secret'', VStr ''k'')] payload"
proof -
  have "parse_int ''0'' = Some 0" by code_simp
  then show ?thesis by (subst webhook_fires_exactly) (simp add: secret_ok_def)
qed

lemma watch_length: "length (watch w snaps) = length snaps"
  by (induction snaps arbitrary: w) (simp_all add: case_prod_unfold Let_def)

lemma watch_nth:
  "i < length snaps \<Longrightarrow> watch w snaps ! i =
     (let prev = (if i = 0 then wt_last w else snaps ! (i - 1)); changed = changed_paths (snaps ! i) prev
      in if (i = 0 \<longrightarrow> wt_primed w) \<and> changed \<noteq> [] then Some changed else None)"
proof (induction snaps arbitrary: w i)
  case (Cons cur snaps)
  show ?case
  proof (cases i)
    case 0
    then show ?thesis by (simp add: watch_step_def Let_def)
  next
    case (Suc j)
    then show ?thesis using Cons.IH [of j "\<lparr>wt_last = cur, wt_primed = True\<rparr>"] Cons.prems
      by (cases j) (simp_all add: watch_step_def Let_def)
  qed
qed simp

text \<open>the watcher fires exactly on change.  Over any sequence of snapshots, the first one never fires; a later one fires exactly when some
  file in it is new or has another hash than one poll before, and it reports all such files and no other; a file that
  only disappeared fires nothing.\<close>

theorem watcher_fires_on_change:
  "length (watch new_watcher snaps) = length snaps \<and>
   (\<forall>i < length snaps. watch new_watcher snaps ! i =
      (if i = 0 then None
       else let changed = filter (\<lambda>p. dget (snaps ! i) p \<noteq> dget (snaps ! (i - 1)) p) (dkeys (snaps ! i))
         in if changed = [] then None else Some changed))"
  by (simp add: watch_length watch_nth new_watcher_def changed_paths_def Let_def)

theorem watcher_fires_on_change_witness:
  "watch new_watcher [[(''/a'', ''1'')], [(''/a'', ''1''), (''/b'', ''2'')], [(''/b'', ''2'')]] ! 1 = Some [''/b'']"
  using watcher_fires_on_change [of "[[(''/a'', ''1'')], [(''/a'', ''1''), (''/b'', ''2'')], [(''/b'', ''2'')]]"]
  by (simp add: dkeys_def)

end
