(* ===== verification/Message_Tool.thy ===== *)
theory Message_Tool
  imports Tools_Base Dlp Connectors
begin

text \<open>
  \<open>sworker/tools/message.py\<close>: the channel allow-list, the outbox backend and \<open>message.send\<close> with its scan, its rate limit
  and its receipt.  The regular-expression engine and Python's \<open>hash\<close> are parameters, and so is a backend other than the
  outbox.  Lemmas: what a message that leaves has passed, and that a run never delivers more than its limit.
\<close>

section \<open>Backends\<close>

record mail =
  ml_env :: env
  ml_ticks :: nat
  ml_hash :: "string \<times> string \<times> string \<Rightarrow> int"
  ml_outbox :: "doc list"          \<comment> \<open>the records of \<open>outbox.jsonl\<close>, one per line\<close>
  ml_ctx :: tool_context

type_synonym 'a mop = "(mail, 'a) op"

definition mail_now :: "time mop" where
  "mail_now m = (Inr (clock (ml_env m) (ml_ticks m)), m\<lparr>ml_ticks := Suc (ml_ticks m)\<rparr>)"

record backend =
  bk_name :: string
  bk_available :: bool
  bk_send :: "string \<Rightarrow> string \<Rightarrow> bool \<Rightarrow> doc mop"

definition outbox_send :: "string \<Rightarrow> string \<Rightarrow> bool \<Rightarrow> doc mop" where
  "outbox_send channel msg delivered =
     op_bind mail_now (\<lambda>t1. op_bind mail_now (\<lambda>t2. op_bind (op_gets id) (\<lambda>m.
       let c = ml_ctx m;
           rec = [(''receipt_id'', VStr (''rcpt_'' @ int_str (floor (t1 * 1000000)) @ ''_''
                     @ int_str (\<bar>ml_hash m (tc_run_id c, channel, msg)\<bar> mod 10000))),
             (''ts'', VFloat t2), (''run_id'', VStr (tc_run_id c)), (''worker'', VStr (tc_worker c)),
             (''channel'', VStr channel), (''text'', VStr msg), (''delivered'', VBool delivered),
             (''note'', VStr (if delivered then ''queued locally; no external service was contacted''
                              else ''drafted locally; not delivered''))]
       in op_then (op_modify (\<lambda>m. m\<lparr>ml_outbox := ml_outbox m @ [rec]\<rparr>)) (op_return rec))))"

definition outbox_backend :: backend where
  "outbox_backend = \<lparr>bk_name = ''outbox'', bk_available = True, bk_send = outbox_send\<rparr>"

section \<open>Sending\<close>

text \<open>The patterns are tried in order; one that does not compile raises when it is reached.\<close>

fun any_pattern :: "compile \<Rightarrow> string \<Rightarrow> string list \<Rightarrow> error + bool" where
  "any_pattern cp target [] = Inr False"
| "any_pattern cp target (p # ps) = (case cp p of
       None \<Rightarrow> Inl ValueError
     | Some search \<Rightarrow> if search target then Inr True else any_pattern cp target ps)"

definition channel_allowed :: "compile \<Rightarrow> string \<Rightarrow> string list \<Rightarrow> error + bool" where
  "channel_allowed cp channel allow =
     (if allow = [] then Inr False else any_pattern cp (normalize_target Slack_Connector channel) allow)"

definition send_message_tool :: tool where
  "send_message_tool = \<lparr>tool_name = ''message.send'',
     tool_description = ''Send (or draft) a message to a channel via the configured messaging backend. Channel allow-list enforced (default-deny). Delivery requires approval; draft=true composes without delivering.'',
     tool_schema = [(''type'', VStr ''object''), (''properties'', VDict [
         (''channel'', VDict [(''type'', VStr ''string'')]), (''text'', VDict [(''type'', VStr ''string'')]),
         (''draft'', VDict [(''type'', VStr ''boolean''), (''default'', VBool False),
           (''description'', VStr ''if true, compose to outbox without delivering (no approval needed to draft)'')])]),
       (''required'', VList [VStr ''channel'', VStr ''text''])],
     tool_risk = External, tool_reversible = False, tool_requires_approval = True, tool_permissions = [], tool_categories = []\<rparr>"

definition list_repr :: "string list \<Rightarrow> string" where
  "list_repr xs = ''['' @ join '', '' (map repr_str xs) @ '']''"

definition send_summary :: "backend \<Rightarrow> doc \<Rightarrow> string" where
  "send_summary b args =
     (let preview = map (\<lambda>c. if c = CHR 0x0A then CHR '' '' else c) (take 120 (get_str args ''text''))
      in (if get_truthy args ''draft'' then ''draft'' else ''send'') @ '' message to ''
           @ (case dget args ''channel'' of Some (VStr c) \<Rightarrow> repr_str c | _ \<Rightarrow> ''None'') @ '' via '' @ bk_name b @ '': '' @ repr_str preview)"

definition denied_channel :: "string \<Rightarrow> tool_context \<Rightarrow> tool_result" where
  "denied_channel channel c = tr_fail
     (''channel '' @ repr_str channel @ '' is not on this worker's message_allow list (''
       @ (if tc_message_allow c = [] then ''empty: all channels denied'' else list_repr (tc_message_allow c)) @ '')'')
     [(''channel'', VStr channel), (''allowed'', VBool False)]"

definition dlp_denied :: "string \<Rightarrow> dlp_hit \<Rightarrow> tool_result" where
  "dlp_denied channel h = tr_fail (refusal_for h)
     [(''channel'', VStr channel), (''allowed'', VBool True), (''dlp_blocked'', VBool True),
      (''rule'', VStr (hit_rule h)), (''kind'', VStr (hit_kind h))]"

definition rate_limited :: "tool_context \<Rightarrow> tool_result" where
  "rate_limited c = tr_fail
     (''message rate limit reached ('' @ int_str (tc_message_rate_limit c) @ '' per run); refusing to deliver further messages this run'')
     [(''rate_limited'', VBool True), (''sent'', VInt (tc_messages_sent c)), (''limit'', VInt (tc_message_rate_limit c))]"

definition sent_result :: "backend \<Rightarrow> string \<Rightarrow> bool \<Rightarrow> doc \<Rightarrow> tool_context \<Rightarrow> error + tool_result" where
  "sent_result b channel draft info c = (case (dget info ''receipt_id'', dget info ''ts'') of
       (Some rid, Some ts) \<Rightarrow> Inr ((tr_plain True)\<lparr>
         tr_output := ''message '' @ (if draft then ''drafted (not delivered)'' else ''queued for delivery'') @ '' to '' @ channel @ '' via '' @ bk_name b,
         tr_data := [(''channel'', VStr channel), (''allowed'', VBool True), (''delivered'', VBool (\<not> draft)), (''receipt_id'', rid),
           (''ts'', ts), (''backend'', VStr (bk_name b)), (''messages_sent_this_run'', VInt (tc_messages_sent c))]\<rparr>)
     | _ \<Rightarrow> Inl KeyError)"

definition dlp_hit_of :: "tool_context \<Rightarrow> string \<Rightarrow> error + dlp_hit option" where
  "dlp_hit_of c msg = (if tc_dlp_rules c = [] then Inr None
     else bind_sum (dlp_policy (tc_dlp_rules c)) (\<lambda>rules. Inr (dlp_scan rules msg)))"

definition deliver :: "backend \<Rightarrow> string \<Rightarrow> string \<Rightarrow> bool \<Rightarrow> tool_result mop" where
  "deliver b channel msg draft =
     op_bind (bk_send b channel msg (\<not> draft)) (\<lambda>info.
     op_then (if draft then op_return ()
              else op_modify (\<lambda>m. m\<lparr>ml_ctx := (ml_ctx m)\<lparr>tc_messages_sent := tc_messages_sent (ml_ctx m) + 1\<rparr>\<rparr>))
       (op_bind (op_gets ml_ctx) (\<lambda>c. op_lift (sent_result b channel draft info c))))"

definition send_message :: "compile \<Rightarrow> backend \<Rightarrow> doc \<Rightarrow> tool_result mop" where
  "send_message cp b args =
     (let channel = get_str args ''channel''; msg = get_str args ''text''; draft = get_truthy args ''draft'' in
      op_bind (op_gets ml_ctx) (\<lambda>c.
      op_bind (op_lift (channel_allowed cp channel (tc_message_allow c))) (\<lambda>ok.
        if \<not> ok then op_return (denied_channel channel c)
        else op_bind (op_lift (dlp_hit_of c msg)) (\<lambda>hit. case hit of
            Some h \<Rightarrow> op_return (dlp_denied channel h)
          | None \<Rightarrow>
             if \<not> draft \<and> 0 < tc_message_rate_limit c \<and> tc_message_rate_limit c \<le> tc_messages_sent c then op_return (rate_limited c)
             else if \<not> bk_available b then op_return (tr_fail (''message backend '' @ repr_str (bk_name b) @ '' unavailable'') [])
             else deliver b channel msg draft))))"

section \<open>What leaves\<close>

lemma any_pattern_True:
  "any_pattern cp target ps = Inr True \<Longrightarrow> \<exists>p\<in>set ps. \<exists>search. cp p = Some search \<and> search target"
  by (induction ps) (auto split: option.splits if_splits)

lemma outbox_send_eq:
  "\<exists>rec. outbox_send channel msg delivered m =
     (Inr rec, m\<lparr>ml_ticks := ml_ticks m + 2, ml_outbox := ml_outbox m @ [rec]\<rparr>) \<and>
     dget rec ''text'' = Some (VStr msg) \<and> dget rec ''channel'' = Some (VStr channel) \<and> dget rec ''delivered'' = Some (VBool delivered) \<and>
     dget rec ''receipt_id'' \<noteq> None \<and> dget rec ''ts'' \<noteq> None"
  by (simp add: outbox_send_def op_bind_apply op_then_apply mail_now_def Let_def)

lemma deliver_eq:
  "\<exists>rec r. deliver outbox_backend channel msg draft m =
     (Inr r, m\<lparr>ml_ticks := ml_ticks m + 2, ml_outbox := ml_outbox m @ [rec],
        ml_ctx := (ml_ctx m)\<lparr>tc_messages_sent := tc_messages_sent (ml_ctx m) + (if draft then 0 else 1)\<rparr>\<rparr>) \<and> tr_ok r \<and>
     dget rec ''text'' = Some (VStr msg) \<and> dget rec ''channel'' = Some (VStr channel) \<and> dget rec ''delivered'' = Some (VBool (\<not> draft))"
proof -
  obtain rec where "outbox_send channel msg (\<not> draft) m =
     (Inr rec, m\<lparr>ml_ticks := ml_ticks m + 2, ml_outbox := ml_outbox m @ [rec]\<rparr>)"
     "dget rec ''text'' = Some (VStr msg)" "dget rec ''channel'' = Some (VStr channel)" "dget rec ''delivered'' = Some (VBool (\<not> draft))"
     "dget rec ''receipt_id'' \<noteq> None" "dget rec ''ts'' \<noteq> None"
    using outbox_send_eq by blast
  then show ?thesis
    by (intro exI [of _ rec]) (auto simp: deliver_def outbox_backend_def op_bind_apply op_then_apply sent_result_def tr_plain_def)
qed

text \<open>The three outcomes of a call with the outbox: an error or a refusal that changes nothing, or one more record.\<close>

lemma send_message_cases:
  assumes "send_message cp outbox_backend args m = (r, m')"
  obtains (refused) "m' = m" "\<And>x. r = Inr x \<Longrightarrow> \<not> tr_ok x"
  | (sent) x rec where "r = Inr x" "tr_ok x"
      "channel_allowed cp (get_str args ''channel'') (tc_message_allow (ml_ctx m)) = Inr True"
      "dlp_hit_of (ml_ctx m) (get_str args ''text'') = Inr None"
      "get_truthy args ''draft'' \<or> tc_message_rate_limit (ml_ctx m) \<le> 0 \<or> tc_messages_sent (ml_ctx m) < tc_message_rate_limit (ml_ctx m)"
      "m' = m\<lparr>ml_ticks := ml_ticks m + 2, ml_outbox := ml_outbox m @ [rec],
        ml_ctx := (ml_ctx m)\<lparr>tc_messages_sent := tc_messages_sent (ml_ctx m) + (if get_truthy args ''draft'' then 0 else 1)\<rparr>\<rparr>"
      "dget rec ''text'' = Some (VStr (get_str args ''text''))" "dget rec ''channel'' = Some (VStr (get_str args ''channel''))"
      "dget rec ''delivered'' = Some (VBool (\<not> get_truthy args ''draft''))"
proof -
  let ?c = "ml_ctx m" and ?ch = "get_str args ''channel''" and ?tx = "get_str args ''text''" and ?dr = "get_truthy args ''draft''"
  show thesis
  proof (cases "channel_allowed cp ?ch (tc_message_allow ?c) = Inr True \<and> dlp_hit_of ?c ?tx = Inr None")
    case False
    have fails: "\<not> tr_ok (denied_channel ?ch ?c)" "\<not> tr_ok (dlp_denied ?ch h)" for h
      by (simp_all add: denied_channel_def dlp_denied_def tr_fail_def tr_plain_def)
    show thesis
    proof (cases "channel_allowed cp ?ch (tc_message_allow ?c) = Inr True")
      case True
      then show thesis using assms False fails
        by (intro refused) (auto simp: send_message_def op_bind_apply Let_def split: sum.splits option.splits)
    next
      case no: False
      then show thesis using assms fails
        by (intro refused) (auto simp: send_message_def op_bind_apply Let_def split: sum.splits if_splits)
    qed
  next
    case pass: True
    show thesis
    proof (cases "\<not> ?dr \<and> 0 < tc_message_rate_limit ?c \<and> tc_message_rate_limit ?c \<le> tc_messages_sent ?c")
      case True
      then show thesis using assms pass by (intro refused) (auto simp: send_message_def op_bind_apply Let_def rate_limited_def tr_fail_def tr_plain_def)
    next
      case False
      obtain rec x where "deliver outbox_backend ?ch ?tx ?dr m =
         (Inr x, m\<lparr>ml_ticks := ml_ticks m + 2, ml_outbox := ml_outbox m @ [rec],
            ml_ctx := ?c\<lparr>tc_messages_sent := tc_messages_sent ?c + (if ?dr then 0 else 1)\<rparr>\<rparr>)" "tr_ok x"
         "dget rec ''text'' = Some (VStr ?tx)" "dget rec ''channel'' = Some (VStr ?ch)" "dget rec ''delivered'' = Some (VBool (\<not> ?dr))"
        using deliver_eq by blast
      moreover have "bk_available outbox_backend" by (simp add: outbox_backend_def)
      ultimately show thesis using assms pass False by (intro sent [of x rec]) (auto simp: send_message_def op_bind_apply Let_def)
    qed
  qed
qed

text \<open>what leaves has passed every gate.  When \<open>message.send\<close> reports success with the outbox, the channel matched a pattern of the worker's
  allow-list, no data-loss rule of the worker matches the text, a delivery was below the rate limit, and exactly one record of
  that text and channel was added; in every other case the outbox and the counter are untouched.\<close>

theorem message_gate:
  assumes "send_message cp outbox_backend args m = (r, m')"
  shows "if \<exists>x. r = Inr x \<and> tr_ok x
    then (\<exists>p\<in>set (tc_message_allow (ml_ctx m)). \<exists>search. cp p = Some search \<and> search (normalize_target Slack_Connector (get_str args ''channel''))) \<and>
      (tc_dlp_rules (ml_ctx m) \<noteq> [] \<longrightarrow> (\<exists>rules. dlp_policy (tc_dlp_rules (ml_ctx m)) = Inr rules \<and> dlp_scan rules (get_str args ''text'') = None)) \<and>
      (get_truthy args ''draft'' \<or> tc_message_rate_limit (ml_ctx m) \<le> 0 \<or> tc_messages_sent (ml_ctx m) < tc_message_rate_limit (ml_ctx m)) \<and>
      (\<exists>rec. ml_outbox m' = ml_outbox m @ [rec] \<and> dget rec ''text'' = Some (VStr (get_str args ''text'')) \<and>
         dget rec ''channel'' = Some (VStr (get_str args ''channel'')) \<and> dget rec ''delivered'' = Some (VBool (\<not> get_truthy args ''draft'')))
    else m' = m"
  using assms
proof (cases rule: send_message_cases)
  case (sent x rec)
  have "\<exists>p\<in>set (tc_message_allow (ml_ctx m)). \<exists>search. cp p = Some search \<and> search (normalize_target Slack_Connector (get_str args ''channel''))"
    using sent(3) any_pattern_True by (auto simp: channel_allowed_def split: if_splits)
  with sent show ?thesis by (auto simp: dlp_hit_of_def split: if_splits elim!: bind_sumE)
qed auto

section \<open>The rate limit\<close>

fun send_all :: "compile \<Rightarrow> backend \<Rightarrow> doc list \<Rightarrow> mail \<Rightarrow> mail" where
  "send_all cp b [] m = m"
| "send_all cp b (a # as) m = send_all cp b as (snd (send_message cp b a m))"

definition delivered_count :: "mail \<Rightarrow> nat" where
  "delivered_count m = length (filter (\<lambda>r. dget r ''delivered'' = Some (VBool True)) (ml_outbox m))"

definition limit_inv :: "int \<Rightarrow> mail \<Rightarrow> bool" where
  "limit_inv cap m \<longleftrightarrow> tc_message_rate_limit (ml_ctx m) = cap \<and> int (delivered_count m) = tc_messages_sent (ml_ctx m) \<and>
     tc_messages_sent (ml_ctx m) \<le> cap"

lemma limit_inv_step: "limit_inv cap m \<Longrightarrow> 0 < cap \<Longrightarrow> limit_inv cap (snd (send_message cp outbox_backend a m))"
proof -
  assume inv: "limit_inv cap m" and pos: "0 < cap"
  obtain r m' where run: "send_message cp outbox_backend a m = (r, m')" by (cases "send_message cp outbox_backend a m")
  then have "limit_inv cap m'"
  proof (cases rule: send_message_cases)
    case refused
    then show ?thesis using inv by simp
  next
    case (sent x rec)
    then show ?thesis using inv pos by (cases "get_truthy a ''draft''") (simp_all add: limit_inv_def delivered_count_def)
  qed
  with run show ?thesis by simp
qed

lemma limit_inv_all: "limit_inv cap m \<Longrightarrow> 0 < cap \<Longrightarrow> limit_inv cap (send_all cp outbox_backend calls m)"
  by (induction calls arbitrary: m) (simp_all add: limit_inv_step)

text \<open>C40: the rate limit holds for every sequence of calls.  Starting from an empty outbox with the counter at zero, any sequence of calls of \<open>message.send\<close>, drafts
  and refusals among them, leaves at most \<open>message_rate_limit\<close> delivered records, and the counter is their number.\<close>

theorem message_rate_bound:
  assumes "0 < tc_message_rate_limit (ml_ctx m)" and "ml_outbox m = []" and "tc_messages_sent (ml_ctx m) = 0"
  shows "int (delivered_count (send_all cp outbox_backend calls m)) \<le> tc_message_rate_limit (ml_ctx m) \<and>
    tc_messages_sent (ml_ctx (send_all cp outbox_backend calls m)) = int (delivered_count (send_all cp outbox_backend calls m))"
proof -
  let ?cap = "tc_message_rate_limit (ml_ctx m)"
  have "limit_inv ?cap m" using assms by (simp add: limit_inv_def delivered_count_def)
  then have "limit_inv ?cap (send_all cp outbox_backend calls m)" using assms(1) by (rule limit_inv_all)
  then show ?thesis by (simp add: limit_inv_def)
qed

definition demo_mail :: mail where
  "demo_mail = \<lparr>ml_env = demo_env, ml_ticks = 0, ml_hash = (\<lambda>_. 7), ml_outbox = [],
     ml_ctx = demo_ctx\<lparr>tc_message_allow := [''sales''], tc_message_rate_limit := 1\<rparr>\<rparr>"

definition demo_call :: doc where
  "demo_call = [(''channel'', VStr ''#sales''), (''text'', VStr ''hello'')]"

theorem message_gate_witness:
  "\<exists>r m' rec. send_message demo_compile outbox_backend demo_call demo_mail = (r, m') \<and> ml_outbox m' = [rec] \<and>
     dget rec ''text'' = Some (VStr ''hello'') \<and> dget rec ''delivered'' = Some (VBool True)"
proof -
  obtain r m' where run: "send_message demo_compile outbox_backend demo_call demo_mail = (r, m')"
    by (cases "send_message demo_compile outbox_backend demo_call demo_mail")
  have "contains (normalize_target Slack_Connector ''#sales'') ''sales''" by code_simp
  then have "channel_allowed demo_compile ''#sales'' [''sales''] = Inr True" by (simp add: channel_allowed_def demo_compile_def)
  moreover obtain x t where "deliver outbox_backend ''#sales'' ''hello'' False demo_mail = (Inr x, t)" "tr_ok x" using deliver_eq by blast
  moreover have "get_str demo_call ''channel'' = ''#sales''" "get_str demo_call ''text'' = ''hello''" "\<not> get_truthy demo_call ''draft''"
    by (simp_all add: demo_call_def get_str_def get_truthy_def)
  moreover have "tc_message_allow (ml_ctx demo_mail) = [''sales'']" "tc_dlp_rules (ml_ctx demo_mail) = []" "tc_messages_sent (ml_ctx demo_mail) = 0"
      "tc_message_rate_limit (ml_ctx demo_mail) = 1" "bk_available outbox_backend"
    by (simp_all add: demo_mail_def demo_ctx_def outbox_backend_def)
  ultimately have "r = Inr x" "tr_ok x"
    using run by (simp_all add: send_message_def op_bind_apply Let_def dlp_hit_of_def)
  moreover have "ml_outbox demo_mail = []" by (simp add: demo_mail_def)
  ultimately show ?thesis using message_gate [OF run] run by (auto simp: demo_call_def get_str_def get_truthy_def)
qed

theorem message_rate_bound_witness:
  "int (delivered_count (send_all demo_compile outbox_backend [demo_call, demo_call] demo_mail)) \<le> 1"
  using message_rate_bound [of demo_mail demo_compile "[demo_call, demo_call]"] by (simp add: demo_mail_def demo_ctx_def)

end
