(* ===== verification/Fs_Tools.thy ===== *)
theory Fs_Tools
  imports Tools_Base "HOL-Library.Char_ord"
begin

text \<open>
  \<open>sworker/tools/fs.py\<close>: the five filesystem tools over a disk of text files and directories, with
  \<open>fnmatch\<close>, newline translation and the directory walk.  Symbolic links act through \<open>realpath\<close>, a
  parameter; the regular-expression engine is one too.  Lemmas: what the tools may change, and that what was written is read back.
\<close>

section \<open>Shell patterns\<close>

text \<open>\<open>[...]\<close>: the text up to the closing bracket (not counting one that comes first) and the rest.\<close>

definition class_lead :: "string \<Rightarrow> nat" where
  "class_lead p = (let n = (if starts_with p ''!'' then 1 else 0) in if starts_with (drop n p) '']'' then n + 1 else n)"

definition class_split :: "string \<Rightarrow> (string \<times> string) option" where
  "class_split p = (let n = class_lead p; body = drop n p in
     if CHR '']'' \<in> set body
     then Some (take n p @ takeWhile (\<lambda>c. c \<noteq> CHR '']'') body, tl (dropWhile (\<lambda>c. c \<noteq> CHR '']'') body))
     else None)"

fun class_has :: "string \<Rightarrow> char \<Rightarrow> bool" where
  "class_has (x # h # y # r) c =
     (if h = CHR ''-'' then x \<le> c \<and> c \<le> y \<or> class_has r c else x = c \<or> class_has (h # y # r) c)"
| "class_has [x, y] c = (x = c \<or> y = c)"
| "class_has [x] c = (x = c)"
| "class_has [] c = False"

definition class_match :: "string \<Rightarrow> char \<Rightarrow> bool" where
  "class_match stuff c = (case stuff of [] \<Rightarrow> False
     | x # r \<Rightarrow> if x = CHR ''!'' then \<not> class_has r c else class_has stuff c)"

lemma class_split_length: "class_split p = Some (a, b) \<Longrightarrow> length b < length p"
proof -
  assume "class_split p = Some (a, b)"
  then have "CHR '']'' \<in> set (drop (class_lead p) p)" "b = tl (dropWhile (\<lambda>c. c \<noteq> CHR '']'') (drop (class_lead p) p))"
    by (auto simp: class_split_def Let_def split: if_splits)
  then have "length b < length (drop (class_lead p) p)"
    using length_dropWhile_le [of "\<lambda>c. c \<noteq> CHR '']''" "drop (class_lead p) p"]
    by (cases "drop (class_lead p) p") (auto simp: less_Suc_eq_le intro: diff_le_self le_trans)
  then show ?thesis by simp
qed

function fnmatch :: "string \<Rightarrow> string \<Rightarrow> bool" where
  "fnmatch s [] = (s = [])"
| "fnmatch s (p # ps) =
     (if p = CHR ''*'' then fnmatch s ps \<or> (if s = [] then False else fnmatch (tl s) (p # ps))
      else if p = CHR ''?'' then (if s = [] then False else fnmatch (tl s) ps)
      else case (if p = CHR ''['' then class_split ps else None) of
          Some (stuff, rest) \<Rightarrow> (if s = [] then False else class_match stuff (hd s) \<and> fnmatch (tl s) rest)
        | None \<Rightarrow> (if s = [] then False else hd s = p \<and> fnmatch (tl s) ps))"
  by pat_completeness auto
termination
  by (relation "measure (\<lambda>(s, p). length s + length p)") (auto split: if_splits dest: class_split_length simp: neq_Nil_conv)

section \<open>The disk\<close>

record disk =
  dk_files :: "(string \<times> string) list"
  dk_dirs :: "string list"
  dk_denied :: "string list"        \<comment> \<open>paths whose files cannot be opened\<close>

definition is_dir :: "disk \<Rightarrow> string \<Rightarrow> bool" where
  "is_dir d p \<longleftrightarrow> p \<in> set (dk_dirs d)"

definition disk_exists :: "disk \<Rightarrow> string \<Rightarrow> bool" where
  "disk_exists d p \<longleftrightarrow> is_dir d p \<or> dget (dk_files d) p \<noteq> None"

definition fs_at :: "fsys \<Rightarrow> disk \<Rightarrow> fsys" where
  "fs_at fs d = fs\<lparr>path_exists := disk_exists d\<rparr>"

text \<open>\<open>os.path.dirname\<close> of a resolved path, and \<open>os.makedirs(\<dots>, exist_ok=True)\<close>.\<close>

definition rstrip_slash :: "string \<Rightarrow> string" where
  "rstrip_slash p = (let q = rev (dropWhile (\<lambda>c. c = CHR ''/'') (rev p)) in if q = [] then p else q)"

definition dir_of :: "string \<Rightarrow> string" where
  "dir_of p = rstrip_slash (take (length p - length (path_base p)) p)"

definition ancestors :: "string \<Rightarrow> string list" where
  "ancestors p = map (\<lambda>n. join ''/'' (take n (split_on (CHR ''/'') p))) [2..<Suc (length (split_on (CHR ''/'') p))]"

definition make_dirs :: "disk \<Rightarrow> string \<Rightarrow> error + disk" where
  "make_dirs d p = (if list_ex (\<lambda>a. dget (dk_files d) a \<noteq> None) (ancestors p) then Inl OSError
     else Inr (d\<lparr>dk_dirs := dk_dirs d @ filter (\<lambda>a. \<not> is_dir d a) (ancestors p)\<rparr>))"

text \<open>Text mode: \<open>\r\n\<close> and a lone \<open>\r\<close> read as \<open>\n\<close>.\<close>

fun universal_newlines :: "string \<Rightarrow> string" where
  "universal_newlines [] = []"
| "universal_newlines [c] = [if c = CHR 0x0D then CHR 0x0A else c]"
| "universal_newlines (c # d # s) =
     (if c = CHR 0x0D then CHR 0x0A # (if d = CHR 0x0A then universal_newlines s else universal_newlines (d # s))
      else c # universal_newlines (d # s))"

definition utf8_size :: "string \<Rightarrow> nat" where
  "utf8_size s = sum_list (map (\<lambda>c. if (of_char c :: nat) < 128 then 1 else 2) s)"

definition open_read :: "disk \<Rightarrow> string \<Rightarrow> error + string" where
  "open_read d p = (if p \<in> set (dk_denied d) then Inl PermissionError
     else case dget (dk_files d) p of Some c \<Rightarrow> Inr (universal_newlines c) | None \<Rightarrow> Inl FileNotFoundError)"

section \<open>Reading, writing and deleting\<close>

type_synonym fs_run = "fsys \<Rightarrow> tool_context \<Rightarrow> doc \<Rightarrow> disk \<Rightarrow> (error + tool_result) \<times> disk"

definition get_with :: "doc \<Rightarrow> string \<Rightarrow> pyval \<Rightarrow> pyval" where
  "get_with d k dflt = (case dget d k of Some v \<Rightarrow> v | None \<Rightarrow> dflt)"

text \<open>\<open>fh.read(n)\<close>: a negative count reads everything.\<close>

definition read_count :: "int \<Rightarrow> string \<Rightarrow> string" where
  "read_count n s = (if n < 0 then s else take (nat n) s)"

definition evidence_of :: "string \<Rightarrow> string \<Rightarrow> doc" where
  "evidence_of p excerpt = [(''source_ref'', VStr p), (''excerpt'', VStr excerpt)]"

definition read_text :: "tool_context \<Rightarrow> string \<Rightarrow> string \<Rightarrow> tool_result" where
  "read_text c p body = (let (out, trunc) = truncate_text body (tc_max_output c) in
     (tr_plain True)\<lparr>tr_output := out, tr_truncated := trunc,
        tr_data := [(''path'', VStr p), (''bytes'', VInt (int (length body)))],
        tr_evidence := [evidence_of p (take 400 body)]\<rparr>)"

definition fs_read :: "fsys \<Rightarrow> tool_context \<Rightarrow> doc \<Rightarrow> disk \<Rightarrow> error + tool_result" where
  "fs_read fs c args d =
     bind_sum (resolve (fs_at fs d) c True (get_str args ''path'')) (\<lambda>p.
       if is_dir d p then Inr (tr_fail (get_str args ''path'' @ '' is a directory'') [])
       else bind_sum (open_read d p) (\<lambda>content.
         bind_sum (py_int (get_with args ''max_bytes'' (VInt 200000))) (\<lambda>n.
           Inr (read_text c p (read_count n content)))))"

definition write_result :: "string \<Rightarrow> string \<Rightarrow> bool \<Rightarrow> tool_result" where
  "write_result p content existed = (tr_plain True)\<lparr>
     tr_output := (if existed then ''overwrote'' else ''wrote'') @ '' '' @ p @ '' ('' @ int_str (int (length content)) @ '' bytes)'',
     tr_data := [(''path'', VStr p), (''bytes'', VInt (int (length content))), (''overwrote'', VBool existed)],
     tr_artifacts := [p]\<rparr>"

definition fs_write :: fs_run where
  "fs_write fs c args d =
     (case resolve (fs_at fs d) c False (get_str args ''path'') of
        Inl e \<Rightarrow> (Inl e, d)
      | Inr p \<Rightarrow>
         (case make_dirs d (dir_of p) of
            Inl e \<Rightarrow> (Inl e, d)
          | Inr d1 \<Rightarrow>
             (if is_dir d1 p then (Inl OSError, d1)
              else if p \<in> set (dk_denied d1) then (Inl PermissionError, d1)
              else (Inr (write_result p (get_str args ''content'') (disk_exists d1 p)),
                    d1\<lparr>dk_files := dset (dk_files d1) p (get_str args ''content'')\<rparr>))))"

definition fs_delete :: fs_run where
  "fs_delete fs c args d =
     (case resolve (fs_at fs d) c True (get_str args ''path'') of
        Inl e \<Rightarrow> (Inl e, d)
      | Inr p \<Rightarrow>
         (if is_dir d p then (Inr (tr_fail ''refusing to delete a directory'' []), d)
          else case dget (dk_files d) p of
              None \<Rightarrow> (Inl FileNotFoundError, d)
            | Some content \<Rightarrow>
                (Inr ((tr_plain True)\<lparr>tr_output := ''deleted '' @ p @ '' ('' @ int_str (int (utf8_size content)) @ '' bytes)'',
                   tr_data := [(''path'', VStr p)]\<rparr>),
                 d\<lparr>dk_files := filter (\<lambda>(q, _). q \<noteq> p) (dk_files d)\<rparr>)))"

definition write_summary :: "doc \<Rightarrow> string" where
  "write_summary args = ''write '' @ int_str (int (length (get_str args ''content''))) @ '' bytes to '' @ get_str args ''path''"

definition delete_summary :: "doc \<Rightarrow> string" where
  "delete_summary args = ''DELETE file '' @ get_str args ''path'' @ '' (irreversible)''"

section \<open>Listing and searching\<close>

definition children :: "disk \<Rightarrow> string \<Rightarrow> string list" where
  "children d p = sort (remdups (map path_base (filter (\<lambda>q. q \<noteq> p \<and> dir_of q = p) (dkeys (dk_files d) @ dk_dirs d))))"

definition hidden :: "string \<Rightarrow> bool" where
  "hidden n = starts_with n ''.''"

record dir_entry =
  de_name :: string
  de_dir :: bool
  de_bytes :: nat

definition entry_of :: "disk \<Rightarrow> string \<Rightarrow> string \<Rightarrow> dir_entry" where
  "entry_of d p n = (let full = path_join p n in
     \<lparr>de_name = n, de_dir = is_dir d full,
      de_bytes = (if is_dir d full then 0 else case dget (dk_files d) full of Some c \<Rightarrow> utf8_size c | None \<Rightarrow> 0)\<rparr>)"

definition list_entries :: "disk \<Rightarrow> string \<Rightarrow> string \<Rightarrow> dir_entry list" where
  "list_entries d p pat = map (entry_of d p) (filter (\<lambda>n. \<not> hidden n \<and> fnmatch n pat) (children d p))"

definition entry_line :: "dir_entry \<Rightarrow> string" where
  "entry_line x = (if de_dir x then de_name x @ ''/'' else de_name x @ ''  '' @ int_str (int (de_bytes x)) @ ''b'')"

definition entry_doc :: "dir_entry \<Rightarrow> doc" where
  "entry_doc x = [(''name'', VStr (de_name x)), (''dir'', VBool (de_dir x)), (''bytes'', VInt (int (de_bytes x)))]"

definition fs_list :: "fsys \<Rightarrow> tool_context \<Rightarrow> doc \<Rightarrow> disk \<Rightarrow> error + tool_result" where
  "fs_list fs c args d =
     (let path = val_str (get_with args ''path'' (VStr ''.'')) in
      bind_sum (resolve (fs_at fs d) c True path) (\<lambda>p.
        if \<not> is_dir d p then Inr (tr_fail (path @ '' is not a directory'') [])
        else let entries = list_entries d p (val_str (get_with args ''pattern'' (VStr ''*'')));
                 listing = join [CHR 0x0A] (map entry_line entries)
          in Inr ((tr_plain True)\<lparr>tr_output := (if listing \<noteq> [] then listing else ''(empty)''),
               tr_data := [(''path'', VStr p), (''entries'', VList (map (VDict \<circ> entry_doc) entries)), (''count'', VInt (int (length entries)))],
               tr_evidence := [evidence_of p (take 400 listing)]\<rparr>)))"

record search_hit =
  sh_path :: string
  sh_line :: nat
  sh_text :: string

text \<open>The lines of a file as iteration yields them, each with its line feed.\<close>

fun file_lines :: "string \<Rightarrow> string \<Rightarrow> string list" where
  "file_lines acc [] = (if acc = [] then [] else [rev acc])"
| "file_lines acc (c # cs) = (if c = CHR 0x0A then rev (c # acc) # file_lines [] cs else file_lines (c # acc) cs)"

fun search_lines :: "(string \<Rightarrow> bool) \<Rightarrow> int \<Rightarrow> string \<Rightarrow> nat \<Rightarrow> string list \<Rightarrow> search_hit list \<Rightarrow> search_hit list" where
  "search_lines rx limit full i [] hits = hits"
| "search_lines rx limit full i (l # ls) hits =
     (if rx l
      then let hits' = hits @ [\<lparr>sh_path = full, sh_line = i, sh_text = take 300 (rev (dropWhile is_space (rev l)))\<rparr>]
           in if limit \<le> int (length hits') then hits' else search_lines rx limit full (Suc i) ls hits'
      else search_lines rx limit full (Suc i) ls hits)"

text \<open>A file that is hidden, does not match or cannot be opened is skipped without looking at the limit.\<close>

fun search_files :: "disk \<Rightarrow> (string \<Rightarrow> bool) \<Rightarrow> int \<Rightarrow> string \<Rightarrow> string \<Rightarrow> string list \<Rightarrow> search_hit list \<Rightarrow> search_hit list" where
  "search_files d rx limit glob dir [] hits = hits"
| "search_files d rx limit glob dir (n # ns) hits =
     (if hidden n \<or> \<not> fnmatch n glob then search_files d rx limit glob dir ns hits
      else case open_read d (path_join dir n) of
          Inl _ \<Rightarrow> search_files d rx limit glob dir ns hits
        | Inr content \<Rightarrow>
           (let hits' = search_lines rx limit (path_join dir n) 1 (file_lines [] content) hits
            in if limit \<le> int (length hits') then hits' else search_files d rx limit glob dir ns hits'))"

text \<open>\<open>os.walk\<close> from the top, hidden directories left out; the fuel is the number of directories, which no
  chain of directories exceeds.\<close>

fun walk :: "nat \<Rightarrow> disk \<Rightarrow> string \<Rightarrow> (string \<times> string list) list" where
  "walk 0 d p = []"
| "walk (Suc n) d p =
     (if \<not> is_dir d p then []
      else (p, filter (\<lambda>m. \<not> is_dir d (path_join p m)) (children d p))
        # concat (map (\<lambda>m. walk n d (path_join p m)) (filter (\<lambda>m. is_dir d (path_join p m) \<and> \<not> hidden m) (children d p))))"

fun search_dirs :: "disk \<Rightarrow> (string \<Rightarrow> bool) \<Rightarrow> int \<Rightarrow> string \<Rightarrow> (string \<times> string list) list \<Rightarrow> search_hit list \<Rightarrow> search_hit list" where
  "search_dirs d rx limit glob [] hits = hits"
| "search_dirs d rx limit glob ((p, files) # rest) hits =
     (let hits' = search_files d rx limit glob p files hits
      in if limit \<le> int (length hits') then hits' else search_dirs d rx limit glob rest hits')"

definition hit_doc :: "search_hit \<Rightarrow> doc" where
  "hit_doc h = [(''path'', VStr (sh_path h)), (''line'', VInt (int (sh_line h))), (''text'', VStr (sh_text h))]"

definition hit_ref :: "search_hit \<Rightarrow> string" where
  "hit_ref h = sh_path h @ '':'' @ int_str (int (sh_line h))"

definition fs_search :: "(string \<Rightarrow> (string \<Rightarrow> bool) option) \<Rightarrow> fsys \<Rightarrow> tool_context \<Rightarrow> doc \<Rightarrow> disk \<Rightarrow> error + tool_result" where
  "fs_search cp fs c args d =
     bind_sum (resolve (fs_at fs d) c True (val_str (get_with args ''path'' (VStr ''.'')))) (\<lambda>p.
       case cp (get_str args ''pattern'') of
         None \<Rightarrow> Inl ToolError
       | Some rx \<Rightarrow> bind_sum (py_int (get_with args ''limit'' (VInt 50))) (\<lambda>limit.
           let hits = search_dirs d rx limit (val_str (get_with args ''glob'' (VStr ''*''))) (walk (Suc (length (dk_dirs d))) d p) [];
               rendered = join [CHR 0x0A] (map (\<lambda>h. hit_ref h @ '': '' @ sh_text h) hits)
           in Inr ((tr_plain True)\<lparr>tr_output := (if rendered \<noteq> [] then rendered else ''(no matches)''),
                tr_data := [(''matches'', VList (map (VDict \<circ> hit_doc) hits)), (''count'', VInt (int (length hits)))],
                tr_evidence := map (\<lambda>h. evidence_of (hit_ref h) (sh_text h)) (take 10 hits)\<rparr>)))"

section \<open>The tools\<close>

definition schema_of :: "(string \<times> doc) list \<Rightarrow> string list \<Rightarrow> doc" where
  "schema_of props req = [(''type'', VStr ''object''), (''properties'', VDict (map (\<lambda>(k, d). (k, VDict d)) props))]
     @ (if req = [] then [] else [(''required'', VList (map VStr req))])"

definition typed :: "string \<Rightarrow> doc" where
  "typed t = [(''type'', VStr t)]"

definition fs_tool :: "string \<Rightarrow> string \<Rightarrow> risk_level \<Rightarrow> doc \<Rightarrow> tool" where
  "fs_tool n descr risk schema = \<lparr>tool_name = n, tool_description = descr, tool_schema = schema, tool_risk = risk,
     tool_reversible = (risk \<noteq> Destructive), tool_requires_approval = (risk = Destructive), tool_permissions = [], tool_categories = []\<rparr>"

definition read_file_tool :: tool where
  "read_file_tool = fs_tool ''fs.read'' ''Read a UTF-8 text file inside the worker's filesystem boundary.'' Read
     (schema_of [(''path'', typed ''string'' @ [(''description'', VStr ''File path, relative to the workspace.'')]),
        (''max_bytes'', typed ''integer'' @ [(''default'', VInt 200000)])] [''path''])"

definition write_file_tool :: tool where
  "write_file_tool = fs_tool ''fs.write'' ''Create or overwrite a text file inside the worker's boundary.'' Reversible
     (schema_of [(''path'', typed ''string''), (''content'', typed ''string'')] [''path'', ''content''])"

definition delete_file_tool :: tool where
  "delete_file_tool = fs_tool ''fs.delete'' ''Delete a file. Irreversible.'' Destructive
     (schema_of [(''path'', typed ''string'')] [''path''])"

definition list_dir_tool :: tool where
  "list_dir_tool = fs_tool ''fs.list'' ''List directory entries (one level) inside the worker's boundary.'' Read
     (schema_of [(''path'', typed ''string'' @ [(''default'', VStr ''.'')]), (''pattern'', typed ''string'' @ [(''default'', VStr ''*'')])] [])"

definition search_files_tool :: tool where
  "search_files_tool = fs_tool ''fs.search'' ''Regex-search file contents under a directory. Returns path:line matches.'' Read
     (schema_of [(''pattern'', typed ''string''), (''path'', typed ''string'' @ [(''default'', VStr ''.'')]),
        (''glob'', typed ''string'' @ [(''default'', VStr ''*'')]), (''limit'', typed ''integer'' @ [(''default'', VInt 50)])] [''pattern''])"

definition FS_TOOLS :: "tool list" where
  "FS_TOOLS = [read_file_tool, write_file_tool, delete_file_tool, list_dir_tool, search_files_tool]"

section \<open>What the tools change\<close>

text \<open>A file of the disk, as a path shows it.\<close>

abbreviation file_at :: "disk \<Rightarrow> string \<Rightarrow> string option" where
  "file_at d p \<equiv> dget (dk_files d) p"

lemma make_dirs_files: "make_dirs d p = Inr d' \<Longrightarrow> dk_files d' = dk_files d \<and> dk_denied d' = dk_denied d"
  by (auto simp: make_dirs_def split: if_splits)

lemma resolve_inside: "resolve fs c b path = Inr p \<Longrightarrow> \<exists>rt\<in>set (tc_fs_roots c). inside_root fs p rt"
  by (auto simp: resolve_def Let_def split: option.splits if_splits dest!: find_SomeD)

lemma inside_root_fs_at [simp]: "inside_root (fs_at fs d) p rt = inside_root fs p rt"
  by (simp add: inside_root_def fs_at_def)

lemma dget_filter_key: "dget (filter (\<lambda>(q, _). q \<noteq> p) f) k = (if k = p then None else dget f k)"
  by (induction f) auto

text \<open>the filesystem tools change only what they name, inside the roots.  A file that \<open>fs.write\<close> or \<open>fs.delete\<close> changes is the resolved path
  of the call and lies inside a root of the worker; a call whose path lies outside every root raises and leaves the disk
  as it was, and so does every delete that reports no success.\<close>

theorem fs_changes_inside:
  "(file_at (snd (fs_write fs c args d)) q \<noteq> file_at d q \<longrightarrow>
      resolve (fs_at fs d) c False (get_str args ''path'') = Inr q \<and> (\<exists>rt\<in>set (tc_fs_roots c). inside_root fs q rt)) \<and>
   (file_at (snd (fs_delete fs c args d)) q \<noteq> file_at d q \<longrightarrow>
      resolve (fs_at fs d) c True (get_str args ''path'') = Inr q \<and> (\<exists>rt\<in>set (tc_fs_roots c). inside_root fs q rt)) \<and>
   (\<forall>e. resolve (fs_at fs d) c False (get_str args ''path'') = Inl e \<longrightarrow> fs_write fs c args d = (Inl e, d)) \<and>
   (\<forall>e. resolve (fs_at fs d) c True (get_str args ''path'') = Inl e \<longrightarrow> fs_delete fs c args d = (Inl e, d))"
proof (intro conjI impI)
  assume w: "file_at (snd (fs_write fs c args d)) q \<noteq> file_at d q"
  then have r: "resolve (fs_at fs d) c False (get_str args ''path'') = Inr q"
    by (auto simp: fs_write_def dest!: make_dirs_files split: sum.splits if_splits)
  from r show "resolve (fs_at fs d) c False (get_str args ''path'') = Inr q" .
  from resolve_inside [OF r] show "\<exists>rt\<in>set (tc_fs_roots c). inside_root fs q rt" by simp
next
  assume w: "file_at (snd (fs_delete fs c args d)) q \<noteq> file_at d q"
  then have r: "resolve (fs_at fs d) c True (get_str args ''path'') = Inr q"
    by (auto simp: fs_delete_def dget_filter_key split: sum.splits if_splits option.splits)
  from r show "resolve (fs_at fs d) c True (get_str args ''path'') = Inr q" .
  from resolve_inside [OF r] show "\<exists>rt\<in>set (tc_fs_roots c). inside_root fs q rt" by simp
qed (simp_all add: fs_write_def fs_delete_def)

definition demo_disk :: disk where
  "demo_disk = \<lparr>dk_files = [(''/ws/a.txt'', ''old'')], dk_dirs = [''/ws''], dk_denied = []\<rparr>"

definition demo_write :: doc where
  "demo_write = [(''path'', VStr ''b/n.txt''), (''content'', VStr ''new''), (''max_bytes'', VInt 100)]"

lemma demo_write_run: "snd (fs_write demo_fs demo_ctx demo_write demo_disk) =
    demo_disk\<lparr>dk_dirs := [''/ws'', ''/ws/b''], dk_files := [(''/ws/a.txt'', ''old''), (''/ws/b/n.txt'', ''new'')]\<rparr>"
  "\<not> isl (fst (fs_write demo_fs demo_ctx demo_write demo_disk))"
  by code_simp+

theorem fs_changes_inside_witness:
  "file_at (snd (fs_write demo_fs demo_ctx demo_write demo_disk)) ''/ws/b/n.txt'' = Some ''new'' \<and>
   (\<exists>rt\<in>set (tc_fs_roots demo_ctx). inside_root demo_fs ''/ws/b/n.txt'' rt)"
  using fs_changes_inside [of demo_fs demo_ctx demo_write demo_disk "''/ws/b/n.txt''"]
  by (simp add: demo_write_run) (simp add: demo_disk_def)

lemma newlines_id: "CHR 0x0D \<notin> set s \<Longrightarrow> universal_newlines s = s"
  by (induction s rule: universal_newlines.induct) auto

text \<open>what was written is read back.  After a successful \<open>fs.write\<close>, \<open>fs.read\<close> of the same path succeeds, and when the content holds no
  carriage return and is within the byte and output limits it returns exactly that content, unmarked.\<close>

theorem fs_write_read:
  assumes w: "fs_write fs c args d = (Inr r, d')" and path: "get_str args' ''path'' = get_str args ''path''"
    and n: "dget args' ''max_bytes'' = Some (VInt n)" "int (length (get_str args ''content'')) \<le> n"
    and cr: "CHR 0x0D \<notin> set (get_str args ''content'')" and out: "int (length (get_str args ''content'')) \<le> tc_max_output c"
  shows "\<exists>r'. fs_read fs c args' d' = Inr r' \<and> tr_ok r' \<and> tr_output r' = get_str args ''content'' \<and> \<not> tr_truncated r'"
proof -
  let ?x = "get_str args ''content''"
  obtain p d1 where p: "resolve (fs_at fs d) c False (get_str args ''path'') = Inr p" "make_dirs d (dir_of p) = Inr d1"
      "\<not> is_dir d1 p" "p \<notin> set (dk_denied d1)" "d' = d1\<lparr>dk_files := dset (dk_files d1) p ?x\<rparr>"
    using w by (auto simp: fs_write_def split: sum.splits if_splits)
  have "inside_root (fs_at fs d') = inside_root (fs_at fs d)" by (intro ext) simp
  then have "resolve (fs_at fs d') c True (get_str args' ''path'') = Inr p"
    using p(1,5) path by (auto simp: resolve_def Let_def fs_at_def disk_exists_def split: option.splits)
  moreover have "\<not> is_dir d' p" "open_read d' p = Inr ?x"
    using p cr by (simp_all add: is_dir_def open_read_def newlines_id)
  moreover have "read_count n ?x = ?x" "truncate_text ?x (tc_max_output c) = (?x, False)"
    using n out by (simp_all add: read_count_def truncate_text_def)
  ultimately show ?thesis using n by (simp add: fs_read_def get_with_def read_text_def tr_plain_def)
qed

theorem fs_write_read_witness:
  "\<exists>r'. fs_read demo_fs demo_ctx demo_write (snd (fs_write demo_fs demo_ctx demo_write demo_disk)) = Inr r' \<and> tr_output r' = ''new''"
proof -
  obtain r where w: "fs_write demo_fs demo_ctx demo_write demo_disk = (Inr r, snd (fs_write demo_fs demo_ctx demo_write demo_disk))"
    using demo_write_run(2) by (cases "fs_write demo_fs demo_ctx demo_write demo_disk"; cases "fst (fs_write demo_fs demo_ctx demo_write demo_disk)") auto
  have "get_str demo_write ''content'' = ''new''" "dget demo_write ''max_bytes'' = Some (VInt 100)" "tc_max_output demo_ctx = 20000"
    by (simp_all add: demo_write_def demo_ctx_def get_str_def)
  then show ?thesis using fs_write_read [OF w refl, of 100] by auto
qed

end
