(* ===== verification/Exec_Tools.thy ===== *)
theory Exec_Tools
  imports Shellrisk Tools_Base Verify Fs_Tools
begin

text \<open>
  \<open>sworker/tools/exec.py\<close> and \<open>sworker/tools/sandbox.py\<close>: the two backends of the sandbox, the conversion of a run into a tool result,
  and the two tools that run commands.  The operating system is a parameter (\<open>proc_world\<close>): what a spawned command
  does, where docker is, the JSON parser.  The commands that are spawned are recorded, so that a theorem can say what ran.
\<close>

section \<open>Sandbox\<close>

datatype spawn_outcome =
    Not_Found string                             \<comment> \<open>\<open>FileNotFoundError\<close> with its text\<close>
  | Exited int string string                     \<comment> \<open>return code, output, error output\<close>
  | Timed_Out int string string

record proc_world =
  pw_spawn :: "string list \<Rightarrow> int \<Rightarrow> spawn_outcome"
  pw_pid :: int
  pw_millis :: int
  pw_docker :: "string option"
  pw_env :: "string \<Rightarrow> string option"
  pw_python :: string
  pw_script :: string                            \<comment> \<open>the name \<open>mkstemp\<close> chooses\<close>
  pw_json :: "string \<Rightarrow> pyval option"

record run_outcome =
  ro_ok :: bool
  ro_exit_code :: int
  ro_stdout :: string
  ro_stderr :: string
  ro_timeout :: bool
  ro_duration_ms :: int
  ro_argv :: "string list"
  ro_sandbox :: string
  ro_backend_error :: "string option"

text \<open>\<open>Sandbox.__init__\<close>.\<close>

definition sandbox_for :: "tool_context \<Rightarrow> error + string" where
  "sandbox_for c = (if tc_sandbox c \<notin> {''none'', ''docker''} then Inl SandboxError else Inr (tc_sandbox c))"

text \<open>\<open>_spawn\<close>: the outcome and the context after it; the pid is registered for the time of the run and removed afterwards.\<close>

definition spawn :: "proc_world \<Rightarrow> string \<Rightarrow> string list \<Rightarrow> tool_context \<Rightarrow> int \<Rightarrow> run_outcome \<times> tool_context" where
  "spawn w mode argv c timeout =
     (let res = (\<lambda>ok code out err tmo ms be. \<lparr>ro_ok = ok, ro_exit_code = code, ro_stdout = out, ro_stderr = err, ro_timeout = tmo,
                   ro_duration_ms = ms, ro_argv = argv, ro_sandbox = mode, ro_backend_error = be\<rparr>);
          after = unregister_subprocess (register_subprocess c (pw_pid w)) (pw_pid w)
      in case pw_spawn w argv timeout of
           Not_Found msg \<Rightarrow> (res False (-1) [] [] False 0
             (Some (''command not found: '' @ (if argv \<noteq> [] then hd argv else []) @ '' ('' @ msg @ '')'')), c)
         | Timed_Out code out err \<Rightarrow> (res False (if code \<noteq> 0 then code else -1) out err True (pw_millis w) None, after)
         | Exited code out err \<Rightarrow> (res (code = 0) code out err False (pw_millis w) None, after))"

definition env_network_allowed :: "tool_context \<Rightarrow> bool" where
  "env_network_allowed c = False"

definition docker_argv :: "proc_world \<Rightarrow> string \<Rightarrow> string list \<Rightarrow> tool_context \<Rightarrow> string list" where
  "docker_argv w docker argv c =
     [docker, ''run'', ''--rm'', ''--network'', if \<not> env_network_allowed c then ''none'' else ''bridge'', ''-w'', ''/work'',
      ''-v'', tc_workspace c @ '':/work:rw'', ''--user'', ''65534:65534'', ''--cap-drop'', ''ALL'']
     @ concat (map (\<lambda>(k, v). [''-e'', k @ ''='' @ v]) (clean_env (pw_env w) c)) @ ''sworker-exec'' # argv"

text \<open>\<open>Sandbox.run\<close>; the third component lists the commands that were spawned on the host.\<close>

definition sandbox_run :: "proc_world \<Rightarrow> string \<Rightarrow> string list \<Rightarrow> tool_context \<Rightarrow> int \<Rightarrow>
    (error + run_outcome) \<times> tool_context \<times> string list list" where
  "sandbox_run w mode argv c timeout =
     (if mode = ''docker''
      then (case pw_docker w of
          None \<Rightarrow> (Inl SandboxError, c, [])
        | Some d \<Rightarrow> (let a = docker_argv w d argv c; (r, c') = spawn w mode a c timeout in (Inr r, c', [a])))
      else (let (r, c') = spawn w mode argv c timeout in (Inr r, c', [argv])))"

definition docker_missing :: string where
  "docker_missing = ''sandbox: docker requested but the 'docker' CLI is not available; refusing to downgrade to host execution. Set sandbox: none or install docker.''"

definition run_result :: "tool_context \<Rightarrow> run_outcome \<Rightarrow> tool_result" where
  "run_result c r =
     (let (out, t1) = truncate_text (ro_stdout r) (tc_max_output c);
          (err, t2) = truncate_text (ro_stderr r) (tc_max_output c);
          combined = (if err = [] then out else out @ [CHR 0x0A] @ ''[stderr]'' @ [CHR 0x0A] @ err)
      in (tr_plain (ro_ok r))\<lparr>
           tr_output := str_strip combined,
           tr_error := (if ro_ok r then [] else ''exit '' @ int_str (ro_exit_code r) @ '': '' @ take 500 (str_strip err)),
           tr_truncated := t1 \<or> t2,
           tr_data := [(''argv'', VList (map VStr (ro_argv r))), (''exit_code'', VInt (ro_exit_code r)), (''stdout'', VStr out), (''stderr'', VStr err),
             (''duration_ms'', VInt (ro_duration_ms r)), (''timeout'', VBool (ro_timeout r)), (''sandbox'', VStr (ro_sandbox r)),
             (''backend_error'', case ro_backend_error r of Some e \<Rightarrow> VStr e | None \<Rightarrow> VNone)]\<rparr>)"

type_synonym exec_run = "(error + tool_result) \<times> tool_context \<times> string list list"

definition run_in_sandbox :: "proc_world \<Rightarrow> string list \<Rightarrow> tool_context \<Rightarrow> int \<Rightarrow> exec_run" where
  "run_in_sandbox w argv c timeout = (case sandbox_for c of
       Inl e \<Rightarrow> (Inl e, c, [])
     | Inr mode \<Rightarrow>
        (case sandbox_run w mode argv c timeout of
           (Inl _, c', cmds) \<Rightarrow> (Inr (tr_fail (''sandbox refused to run: '' @ docker_missing)
               [(''sandbox'', VStr (tc_sandbox c)), (''sandbox_error'', VStr docker_missing)]), c', cmds)
         | (Inr r, c', cmds) \<Rightarrow> (Inr (run_result c r), c', cmds)))"

section \<open>The tools\<close>

definition shell_exec_tool :: tool where
  "shell_exec_tool = \<lparr>tool_name = ''shell.exec'',
     tool_description = ''Run an allowlisted command. Parsed with shlex and executed WITHOUT a shell, so pipes/redirection/globs are not interpreted. Runs inside the worker's configured sandbox (default: host subprocess).'',
     tool_schema = schema_of [(''command'', typed ''string''), (''timeout'', typed ''integer'' @ [(''default'', VInt 30)])] [''command''],
     tool_risk = Reversible, tool_reversible = True, tool_requires_approval = False, tool_permissions = [''subprocess''], tool_categories = []\<rparr>"

definition run_timeout :: "doc \<Rightarrow> int \<Rightarrow> int \<Rightarrow> error + int" where
  "run_timeout args dflt cap = bind_sum (py_int (get_with args ''timeout'' (VInt dflt))) (\<lambda>t. Inr (min t (min 300 cap)))"

definition shell_exec :: "proc_world \<Rightarrow> tool_context \<Rightarrow> doc \<Rightarrow> exec_run" where
  "shell_exec w c args = (case shlex_split (get_str args ''command'') of
       None \<Rightarrow> (Inl ToolError, c, [])
     | Some argv \<Rightarrow>
        (if argv = [] then (Inl ToolError, c, [])
         else if tc_shell_allow c = [] then (Inl ToolError, c, [])
         else if basename (hd argv) \<notin> set (tc_shell_allow c) \<and> hd argv \<notin> set (tc_shell_allow c) then (Inl ToolError, c, [])
         else case run_timeout args 30 (tc_max_shell_runtime c) of
             Inl e \<Rightarrow> (Inl e, c, [])
           | Inr t \<Rightarrow> run_in_sandbox w argv c t))"

definition python_run_tool :: tool where
  "python_run_tool = \<lparr>tool_name = ''python.run'',
     tool_description = ''Run a Python analysis script in the worker's sandbox. The script may print a line starting with 'RESULT_JSON:' followed by a JSON object; that object is captured as structured output and becomes machine-checkable evidence.'',
     tool_schema = schema_of [(''code'', typed ''string''), (''timeout'', typed ''integer'' @ [(''default'', VInt 60)])] [''code''],
     tool_risk = Reversible, tool_reversible = True, tool_requires_approval = False, tool_permissions = [''subprocess''], tool_categories = []\<rparr>"

text \<open>The last \<open>RESULT_JSON:\<close> line decides, and one that does not parse clears the result.\<close>

definition RESULT_MARK :: string where "RESULT_MARK = ''RESULT_JSON:''"

definition structured_of :: "proc_world \<Rightarrow> string \<Rightarrow> pyval option" where
  "structured_of w out = foldl (\<lambda>acc line. if starts_with line RESULT_MARK
       then pw_json w (str_strip (drop (length RESULT_MARK) line)) else acc) None (split_lines out)"

definition with_script :: "env \<Rightarrow> proc_world \<Rightarrow> string \<Rightarrow> tool_context \<Rightarrow> tool_result \<Rightarrow> tool_result" where
  "with_script e w path c r =
     (let d1 = dset (tr_data r) ''script'' (VStr path);
          d2 = dset d1 ''sandbox'' (case dget d1 ''sandbox'' of Some v \<Rightarrow> v | None \<Rightarrow> VStr (tc_sandbox c))
      in case structured_of w (val_str (get_or (tr_data r) ''stdout'' (VStr []))) of
           Some v \<Rightarrow> (if v = VNone then r\<lparr>tr_data := d2\<rparr>
             else r\<lparr>tr_data := dset d2 ''result'' v,
                    tr_evidence := tr_evidence r @ [evidence_of (''python.run:'' @ path_base path) (take 400 (json_dumps e v))]\<rparr>)
         | None \<Rightarrow> r\<lparr>tr_data := d2\<rparr>)"

text \<open>\<open>python.run\<close>: the script is written under \<open>.state/scripts\<close> of the workspace, then run.\<close>

definition script_path :: "proc_world \<Rightarrow> tool_context \<Rightarrow> string" where
  "script_path w c = path_join (path_join (path_join (tc_workspace c) ''.state'') ''scripts'') (tc_run_id c @ ''_'' @ pw_script w @ ''.py'')"

definition python_run :: "env \<Rightarrow> proc_world \<Rightarrow> tool_context \<Rightarrow> doc \<Rightarrow> exec_run" where
  "python_run e w c args = (case run_timeout args 60 (tc_max_python_runtime c) of
       Inl err \<Rightarrow> (Inl err, c, [])
     | Inr t \<Rightarrow>
        (case run_in_sandbox w [pw_python w, script_path w c] c t of
           (Inl err, c', cmds) \<Rightarrow> (Inl err, c', cmds)
         | (Inr r, c', cmds) \<Rightarrow> (Inr (with_script e w (script_path w c) c r), c', cmds)))"

definition EXEC_TOOLS :: "tool list" where
  "EXEC_TOOLS = [shell_exec_tool, python_run_tool]"

section \<open>What runs\<close>

text \<open>A spawned command is the given one on the host, or the same one inside docker, with no network and no capabilities.\<close>

lemma run_in_sandbox_ran:
  assumes "run_in_sandbox w argv c t = (r, c', cmds)" and "a \<in> set cmds"
  shows "tc_sandbox c = ''none'' \<and> a = argv \<or> tc_sandbox c = ''docker'' \<and> (\<exists>d. pw_docker w = Some d \<and> a = docker_argv w d argv c)"
  using assms by (auto simp: run_in_sandbox_def sandbox_for_def sandbox_run_def Let_def split: sum.splits prod.splits if_splits option.splits)

lemma run_in_sandbox_ctx:
  "run_in_sandbox w argv c t = (r, c', cmds) \<Longrightarrow> c' = c \<or> c' = c\<lparr>tc_live_pids := tc_live_pids c'\<rparr>"
  by (auto simp: run_in_sandbox_def sandbox_for_def sandbox_run_def spawn_def register_subprocess_def unregister_subprocess_def Let_def
      split: sum.splits prod.splits if_splits option.splits spawn_outcome.splits)


definition demo_procs :: proc_world where
  "demo_procs = \<lparr>pw_spawn = (\<lambda>a t. Exited 0 ''ok'' []), pw_pid = 7, pw_millis = 3, pw_docker = None, pw_env = (\<lambda>_. None), pw_python = ''python3'',
     pw_script = ''x'', pw_json = (\<lambda>_. None)\<rparr>"


end
