(* ===== verification/Block_Explainer.thy ===== *)
theory Block_Explainer
  imports Config Degradation Safemode
begin

text \<open>
  \<open>sworker/block_explainer.py\<close>: the reasons a run or the workspace is blocked, gathered from the degradations table, the run
  record, its steps and the incident ledger.  Lemmas: a blocked run always has a reason, an unknown run is never called
  unblocked, and how the explainer reads the ledger's own severities.
\<close>

section \<open>Reasons\<close>

record block_reason =
  br_source :: string
  br_kind :: string
  br_reason :: string
  br_severity :: string
  br_mitigation :: string
  br_detail :: string

definition UNKNOWN_KIND :: string where "UNKNOWN_KIND = ''unknown''"

definition block_reason_dict :: "block_reason \<Rightarrow> doc" where
  "block_reason_dict r = [(''source'', VStr (br_source r)), (''kind'', VStr (br_kind r)), (''reason'', VStr (br_reason r)),
     (''severity'', VStr (br_severity r)), (''mitigation'', VStr (br_mitigation r)), (''detail'', VStr (br_detail r))]"

definition reason :: "string \<Rightarrow> string \<Rightarrow> string \<Rightarrow> string \<Rightarrow> string \<Rightarrow> string \<Rightarrow> block_reason" where
  "reason src kind msg sev mit det = \<lparr>br_source = src, br_kind = kind, br_reason = msg, br_severity = sev, br_mitigation = mit, br_detail = det\<rparr>"

text \<open>\<open>_sev\<close>: the severity of a record in the vocabulary of the explainer, or the fallback.\<close>

definition sev_of :: "doc \<Rightarrow> string \<Rightarrow> string" where
  "sev_of rec fallback = (let s = str_lower (val_str (get_or rec ''severity'' (VStr []))) in
     if s \<in> {''info'', ''notice'', ''warning'', ''critical''} then s else fallback)"

definition str_or :: "env \<Rightarrow> doc \<Rightarrow> string \<Rightarrow> string \<Rightarrow> string" where
  "str_or e d k dflt = py_str e (get_or d k (VStr dflt))"

definition degradation_reason :: "env \<Rightarrow> doc \<Rightarrow> block_reason" where
  "degradation_reason e d = reason ''degradations'' (str_or e d ''category'' UNKNOWN_KIND)
     (str_or e d ''reason'' ''(no reason recorded)'') (sev_of d ''critical'') (str_or e d ''mitigation'' []) []"

text \<open>A query that raises gives no reason.\<close>

definition or_empty :: "'a list sop \<Rightarrow> 'a list sop" where
  "or_empty m s = (case m s of (Inl _, s') \<Rightarrow> (Inr [], s') | (Inr xs, s') \<Rightarrow> (Inr xs, s'))"

definition from_degradations :: "string \<Rightarrow> block_reason list sop" where
  "from_degradations rn = op_bind (or_empty (find_rows ''degradations'' (by_cols [(''run_id'', VStr rn)]))) (\<lambda>rows.
     op_bind (op_gets env) (\<lambda>e. op_return (map (degradation_reason e) rows)))"

definition from_run_error :: "env \<Rightarrow> doc \<Rightarrow> block_reason list" where
  "from_run_error e run = (let err = str_or e run ''error'' [] in
     if err = [] then []
     else if err = ''incident_active'' then [reason ''run.error'' ''incident_active''
       ''an incident is open; new runs are refused until it is closed'' ''critical'' ''sworker incident close'' []]
     else if err = ''resource_exhausted'' then [reason ''run.error'' ''resource_exhausted''
       ''a resource budget was exhausted (runtime/actions/tool calls/network)'' ''critical'' ''raise the limit in the worker config or split the task'' []]
     else if contains (str_lower err) ''verification'' \<or> err = ''unverifiable'' then [reason ''run.error'' ''unverifiable'' err ''warning''
       ''re-run with the missing evidence or expected values'' []]
     else [reason ''run.error'' UNKNOWN_KIND err ''critical'' [] []])"

definition step_kind :: "string \<Rightarrow> string" where
  "step_kind msg = (let l = str_lower msg in
     if contains l ''safe mode'' \<or> contains l ''safemode'' then ''safe_mode_block''
     else if contains l ''denied'' \<or> contains l ''permission'' then ''permission_denied''
     else if contains l ''reject'' \<or> contains l ''approval'' then ''approval_rejected''
     else UNKNOWN_KIND)"

definition step_reason :: "env \<Rightarrow> doc \<Rightarrow> block_reason option" where
  "step_reason e s = (let msg = str_strip (val_str (get_or s ''note'' (VStr []))) in
     if str_or e s ''status'' [] \<noteq> ''BLOCKED'' \<or> msg = [] then None
     else Some (reason ''steps'' (step_kind msg) msg
       (if step_kind msg \<in> {''safe_mode_block'', ''permission_denied''} then ''critical'' else ''warning'') []
       (py_str e (get_or s ''description'' (get_or s ''tool'' (VStr []))))))"

definition from_steps :: "string \<Rightarrow> block_reason list sop" where
  "from_steps rn = op_bind (or_empty (find_rows ''steps'' ((by_cols [(''run_id'', VStr rn)])\<lparr>q_order := ''idx''\<rparr>))) (\<lambda>rows.
     op_bind (op_gets env) (\<lambda>e. op_return (List.map_filter (step_reason e) rows)))"

definition incident_reason :: "env \<Rightarrow> doc \<Rightarrow> block_reason" where
  "incident_reason e sd = reason ''incident'' ''incident_active'' ''an incident is open; the platform is frozen (no new runs)'' ''critical''
     (''sworker incident close  (then sworker safemode off to stand the platform back down; current safe mode: ''
       @ py_str e (case dget sd ''safe_mode'' of Some v \<Rightarrow> v | None \<Rightarrow> VNone) @ '')'') (json_plain e (VDict sd))"

definition from_incident :: "block_reason list sop" where
  "from_incident = or_empty (op_bind (inc_active INC_SCOPE) (\<lambda>a.
     if \<not> a then op_return []
     else op_bind (inc_status INC_SCOPE) (\<lambda>sd. op_bind (op_gets env) (\<lambda>e. op_return [incident_reason e sd]))))"

section \<open>Explanations\<close>

record explanation =
  ex_run_id :: string
  ex_status :: pyval
  ex_was_blocked :: "bool option"
  ex_reasons :: "block_reason list"
  ex_summary :: string

definition summarize_reasons :: "bool option \<Rightarrow> block_reason list \<Rightarrow> string" where
  "summarize_reasons was rs = (case was of
       None \<Rightarrow> ''cannot determine block state (missing run record)''
     | Some False \<Rightarrow> ''run is not in a BLOCKED state''
     | Some True \<Rightarrow>
        (if rs = [] then ''BLOCKED (no recorded reason)''
         else let crit = filter (\<lambda>r. br_severity r = ''critical'') rs in
           if crit \<noteq> [] then ''BLOCKED: '' @ int_str (int (length crit)) @ '' critical + '' @ int_str (int (length rs) - int (length crit)) @ '' other reason(s)''
           else ''BLOCKED: '' @ int_str (int (length rs)) @ '' reason(s)''))"

definition known_statuses :: "string list" where
  "known_statuses = map run_status_value [Pending, Planning, Running, Executing, Awaiting_Approval, Verifying, Success, Partial_Success,
     Failed, Blocked, Insufficient_Evidence, Cancelled, Denied]"

definition was_blocked :: "pyval \<Rightarrow> bool option" where
  "was_blocked st = (if st \<in> set (map VStr known_statuses) then Some (st = VStr (run_status_value Blocked)) else None)"

definition no_record_text :: "string \<Rightarrow> string" where
  "no_record_text rn = ''no run record for '' @ repr_str rn"

definition no_run :: "string \<Rightarrow> explanation" where
  "no_run rn = \<lparr>ex_run_id = rn, ex_status = VNone, ex_was_blocked = None,
     ex_reasons = [reason ''explainer'' UNKNOWN_KIND (no_record_text rn) ''critical'' [] []],
     ex_summary = ''cannot explain: '' @ no_record_text rn\<rparr>"

definition explained :: "string \<Rightarrow> pyval \<Rightarrow> block_reason list \<Rightarrow> explanation" where
  "explained rn st rs =
     (let was = was_blocked st;
          rs' = (if was = Some True \<and> rs = []
            then [reason ''explainer'' UNKNOWN_KIND ''run is BLOCKED but no block reason was recorded'' ''critical''
                   ''inspect the audit log: sworker audit <run_id>'' []] else rs)
      in \<lparr>ex_run_id = rn, ex_status = st, ex_was_blocked = was, ex_reasons = rs', ex_summary = summarize_reasons was rs'\<rparr>)"

definition explain_run :: "string \<Rightarrow> explanation sop" where
  "explain_run rn = op_bind (get ''runs'' rn []) (\<lambda>r.
     let run = (case r of Some d \<Rightarrow> d | None \<Rightarrow> []) in
     if run = [] then op_return (no_run rn)
     else op_bind (from_degradations rn) (\<lambda>r1. op_bind (op_gets env) (\<lambda>e. op_bind (from_steps rn) (\<lambda>r3. op_bind from_incident (\<lambda>r4.
       op_return (explained rn (case dget run ''status'' of Some v \<Rightarrow> v | None \<Rightarrow> VNone) (r1 @ from_run_error e run @ r3 @ r4)))))))"

definition explain_workspace :: "(bool \<times> block_reason list \<times> string) sop" where
  "explain_workspace = op_bind from_incident (\<lambda>r1. op_bind (from_degradations []) (\<lambda>r2.
     let rs = r1 @ r2 in op_return (rs \<noteq> [], rs, summarize_reasons (Some (rs \<noteq> [])) rs)))"

section \<open>Lemmas\<close>

text \<open>a blocked run always has a reason and a missing one is never cleared.  Whatever the tables hold, when the explainer answers for a run whose status is BLOCKED it gives at least
  one reason, it says \<open>not blocked\<close> only for a stored run whose status is a known one other than BLOCKED, and a run without a record, or with
  an unknown status, is neither blocked nor unblocked.\<close>

theorem blocked_run_is_explained:
  assumes "explain_run rn s = (Inr x, s')"
  shows "(ex_was_blocked x = Some True \<longrightarrow> ex_reasons x \<noteq> []) \<and>
    (ex_was_blocked x = Some True \<longleftrightarrow> (\<exists>run. tget s ''runs'' rn = Some run \<and> dget run ''status'' = Some (VStr ''BLOCKED''))) \<and>
    (ex_was_blocked x = Some False \<longrightarrow> (\<exists>run st. tget s ''runs'' rn = Some run \<and> dget run ''status'' = Some (VStr st) \<and> st \<in> set known_statuses \<and> st \<noteq> ''BLOCKED'')) \<and>
    (tget s ''runs'' rn = None \<longrightarrow> ex_was_blocked x = None \<and> ex_reasons x \<noteq> [])"
proof -
  have blocked: "was_blocked v = Some True \<longleftrightarrow> v = VStr ''BLOCKED''" for v by (auto simp: was_blocked_def known_statuses_def)
  have unblocked: "was_blocked v = Some False \<Longrightarrow> \<exists>st. v = VStr st \<and> st \<in> set known_statuses \<and> st \<noteq> ''BLOCKED''" for v
    by (auto simp: was_blocked_def split: if_splits)
  have none: "x = no_run rn" if "tget s ''runs'' rn = None \<or> tget s ''runs'' rn = Some []"
    using assms that by (auto simp: explain_run_def op_bind_apply get_eq split: if_splits)
  have some: "\<exists>rs. x = explained rn (case dget run ''status'' of Some v \<Rightarrow> v | None \<Rightarrow> VNone) rs" if "tget s ''runs'' rn = Some run" "run \<noteq> []" for run
    using assms that by (auto simp: explain_run_def op_bind_apply get_eq split: if_splits sum.splits prod.splits)
  show ?thesis
  proof (cases "tget s ''runs'' rn = None \<or> tget s ''runs'' rn = Some []")
    case True
    with none show ?thesis by (auto simp: no_run_def)
  next
    case False
    then obtain run where run: "tget s ''runs'' rn = Some run" "run \<noteq> []" by auto
    obtain rs where x: "x = explained rn (case dget run ''status'' of Some v \<Rightarrow> v | None \<Rightarrow> VNone) rs" using some [OF run] by blast
    have "ex_was_blocked x = was_blocked (case dget run ''status'' of Some v \<Rightarrow> v | None \<Rightarrow> VNone)"
      "ex_was_blocked x = Some True \<longrightarrow> ex_reasons x \<noteq> []" by (simp_all add: x explained_def Let_def)
    then show ?thesis using run blocked unblocked by (auto split: option.splits)
  qed
qed

text \<open>every degradation becomes critical.  The ledger writes the severities \<open>warn\<close> and \<open>critical\<close>; the explainer knows \<open>warning\<close> but not \<open>warn\<close>, so the reason it
  makes from any record that the ledger wrote is critical.\<close>

theorem degradation_always_critical:
  assumes "deg_record rn category rsn severity mitigation s = (Inr d, s')"
  shows "br_severity (degradation_reason e (degradation_to_dict d)) = ''critical''"
proof -
  have "deg_severity d \<in> {WARN, CRITICAL}" using assms by (auto simp: deg_record_def op_bind_apply op_then_apply Let_def new_id_def op_now_def put_eq degradation_to_dict_def)
  moreover have "str_lower WARN = ''warn''" "str_lower CRITICAL = ''critical''" unfolding WARN_def CRITICAL_def by code_simp+
  ultimately show ?thesis
    by (auto simp: degradation_reason_def reason_def sev_of_def degradation_to_dict_def get_or_def val_str.simps Let_def)
qed

lemma or_empty_total: "\<exists>xs s'. or_empty m s = (Inr xs, s')"
  by (auto simp: or_empty_def split: sum.split prod.split)

lemma reasons_total: "\<exists>xs s'. from_degradations rn s = (Inr xs, s')" "\<exists>xs s'. from_steps rn s = (Inr xs, s')" "\<exists>xs s'. from_incident s = (Inr xs, s')"
proof -
  obtain xs s' where "or_empty (find_rows ''degradations'' (by_cols [(''run_id'', VStr rn)])) s = (Inr xs, s')" using or_empty_total by blast
  then show "\<exists>xs s'. from_degradations rn s = (Inr xs, s')" by (simp add: from_degradations_def op_bind_apply)
  obtain ys t where "or_empty (find_rows ''steps'' ((by_cols [(''run_id'', VStr rn)])\<lparr>q_order := ''idx''\<rparr>)) s = (Inr ys, t)" using or_empty_total by blast
  then show "\<exists>xs s'. from_steps rn s = (Inr xs, s')" by (simp add: from_steps_def op_bind_apply)
  show "\<exists>xs s'. from_incident s = (Inr xs, s')" unfolding from_incident_def by (rule or_empty_total)
qed

lemma explain_total:
  assumes "tget s ''runs'' rn = Some run" "own_row s run"
  shows "\<exists>x s'. explain_run rn s = (Inr x, s')"
proof (cases "run = []")
  case True
  then show ?thesis using assms by (simp add: explain_run_def op_bind_apply get_eq)
next
  case False
  obtain r1 s1 where 1: "from_degradations rn s = (Inr r1, s1)" using reasons_total by blast
  obtain r3 s3 where 3: "from_steps rn s1 = (Inr r3, s3)" using reasons_total by blast
  obtain r4 s4 where 4: "from_incident s3 = (Inr r4, s4)" using reasons_total by blast
  show ?thesis using assms False 1 3 4 by (simp add: explain_run_def op_bind_apply get_eq)
qed

theorem blocked_run_is_explained_witness:
  "\<exists>s x s'. explain_run ''r1'' s = (Inr x, s') \<and> ex_was_blocked x = Some True \<and> ex_reasons x \<noteq> []"
proof -
  let ?run = "[(''id'', VStr ''r1''), (''status'', VStr ''BLOCKED'')]"
  let ?s = "put_state ''runs'' ''r1'' ?run ''run.status'' (open_store demo_env [] [])"
  have "\<not> enforce (open_store demo_env [] [])" by (simp add: open_store_def enforce_def)
  then have row: "tget ?s ''runs'' ''r1'' = Some ?run" by (simp add: stamp_def)
  have "own_row ?s ?run" by (simp add: own_row_def put_state_def audit_st_def put_row_def) (simp add: open_store_def enforce_def)
  then obtain x s' where run: "explain_run ''r1'' ?s = (Inr x, s')" using explain_total [OF row] by blast
  have "ex_was_blocked x = Some True \<and> ex_reasons x \<noteq> []"
    using blocked_run_is_explained [OF run] row by simp
  with run show ?thesis by blast
qed

theorem degradation_always_critical_witness:
  "\<exists>d s'. deg_record ''r1'' MODEL_FALLBACK ''no model'' WARN [] (open_store demo_env [] []) = (Inr d, s') \<and>
     br_severity (degradation_reason demo_env (degradation_to_dict d)) = ''critical''"
proof -
  have "\<exists>d s'. deg_record ''r1'' MODEL_FALLBACK ''no model'' WARN [] (open_store demo_env [] []) = (Inr d, s')"
    by (simp add: deg_record_def op_bind_apply op_then_apply new_id_def op_now_def Let_def put_eq degradation_to_dict_def)
  then obtain d s' where run: "deg_record ''r1'' MODEL_FALLBACK ''no model'' WARN [] (open_store demo_env [] []) = (Inr d, s')" by blast
  from degradation_always_critical [OF run] run show ?thesis by blast
qed

end
