(* ===== verification/Security_Events.thy ===== *)
theory Security_Events
  imports Data Statemachine "HOL-Library.Multiset"
begin

text \<open>
  \<open>sworker/security_events.py\<close>: the catalog that maps audit events to a kind and a severity, and the feed computed from
  the audit log.  Lemmas: the feed reports exactly the catalogued entries of the log, newest first, and what becomes of
  the transitions that \<open>statemachine.transition\<close> records.
\<close>

section \<open>Catalog\<close>

definition EVENT_CATALOG :: "(string \<times> (string \<times> string) list) list" where
  "EVENT_CATALOG = [
     (''incident'', [(''incident.opened'', ''critical''), (''incident.lockdown'', ''critical''),
        (''incident.rejected'', ''warning''), (''incident.closed'', ''notice'')]),
     (''safemode'', [(''safemode.changed'', ''warning'')]),
     (''permission'', [(''action.denied'', ''warning''), (''action.cancelled'', ''notice'')]),
     (''auth'', [(''user.created'', ''notice''), (''user.disabled'', ''warning''), (''user.enabled'', ''notice''),
        (''user.password_changed'', ''notice''), (''session.created'', ''info''), (''session.revoked'', ''notice'')]),
     (''approval'', [(''approval.escalated'', ''warning''), (''approval.voted'', ''info'')]),
     (''policy'', [(''policy.published'', ''notice''), (''policy.promoted'', ''notice'')]),
     (''secret'', [(''secret.stored'', ''notice''), (''secret.deleted'', ''warning'')]),
     (''degradation'', [(''degradation.recorded'', ''warning'')]),
     (''run'', [(''run.transition'', ''notice'')])]"

definition EVENT_LABELS :: "(string \<times> string) list" where
  "EVENT_LABELS = [
     (''incident.opened'', ''incident opened''), (''incident.lockdown'', ''platform lockdown engaged''),
     (''incident.rejected'', ''incident open rejected (one at a time)''), (''incident.closed'', ''incident closed''),
     (''safemode.changed'', ''safe-mode level changed''), (''action.denied'', ''action denied (permission/safe-mode)''),
     (''action.cancelled'', ''action cancelled''), (''user.created'', ''user account created''),
     (''user.disabled'', ''user account disabled''), (''user.enabled'', ''user account enabled''),
     (''user.password_changed'', ''user password changed''), (''session.created'', ''session created''),
     (''session.revoked'', ''session revoked''), (''approval.escalated'', ''approval escalated''),
     (''approval.voted'', ''approval vote cast''), (''policy.published'', ''policy published''),
     (''policy.promoted'', ''policy promoted''), (''secret.stored'', ''secret stored''), (''secret.deleted'', ''secret deleted''),
     (''degradation.recorded'', ''capability degraded''), (''run.transition'', ''run state transition'')]"

definition FAIL_CLOSED_RUN_STATES :: "string list" where
  "FAIL_CLOSED_RUN_STATES = [''BLOCKED'', ''CANCELLED'', ''DENIED'']"

definition event_entry :: "string \<Rightarrow> (string \<times> string) option" where
  "event_entry ev = List.find (\<lambda>_. True) (List.map_filter (\<lambda>(k, evs). map_option (\<lambda>sv. (k, sv)) (dget evs ev)) EVENT_CATALOG)"

definition event_kind :: "string \<Rightarrow> string option" where
  "event_kind ev = map_option fst (event_entry ev)"

definition severity_for :: "string \<Rightarrow> doc \<Rightarrow> pyval" where
  "severity_for ev payload = (case event_entry ev of
       None \<Rightarrow> VStr []
     | Some (_, base) \<Rightarrow>
        (if ev = ''degradation.recorded''
         then (let sev = (case dget payload ''severity'' of Some v \<Rightarrow> v | None \<Rightarrow> VStr base) in
               if sev \<in> set (map VStr [''info'', ''notice'', ''warning'', ''critical'']) then sev else VStr base)
         else if ev = ''run.transition''
         then (let target = get_or payload ''status'' (case dget payload ''to'' of Some v \<Rightarrow> v | None \<Rightarrow> VNone) in
               if target \<notin> set (map VStr FAIL_CLOSED_RUN_STATES) then VStr [] else VStr base)
         else VStr base))"

definition field_text :: "env \<Rightarrow> doc \<Rightarrow> string \<Rightarrow> string \<Rightarrow> string" where
  "field_text e d k dflt = (case dget d k of Some v \<Rightarrow> py_str e v | None \<Rightarrow> dflt)"

definition summarize_event :: "env \<Rightarrow> string \<Rightarrow> doc \<Rightarrow> string" where
  "summarize_event e ev p =
     (if ev = ''incident.opened'' then ''incident opened: '' @ field_text e p ''summary'' []
      else if ev = ''incident.lockdown'' then ''lockdown: '' @ field_text e p ''summary'' []
      else if ev = ''incident.rejected'' then ''a second incident was rejected while one is open''
      else if ev = ''incident.closed'' then ''incident closed: '' @ field_text e p ''note'' []
      else if ev = ''safemode.changed'' then ''safe mode -> '' @ field_text e p ''level'' ''?''
      else if ev = ''action.denied'' then ''denied: '' @ field_text e p ''summary'' []
      else if ev = ''degradation.recorded'' then field_text e p ''category'' [] @ '': '' @ field_text e p ''reason'' []
      else if ev = ''run.transition'' then ''run -> '' @ field_text e p ''status'' ''?''
      else if starts_with ev ''user.'' \<or> starts_with ev ''session.'' then ev
      else if starts_with ev ''policy.'' then field_text e p ''scope'' [] @ '': '' @ ev
      else if starts_with ev ''secret.'' then field_text e p ''name'' [] @ '': '' @ ev
      else if starts_with ev ''approval.'' then field_text e p ''approval_id'' [] @ '': '' @ ev
      else ev)"

section \<open>The feed\<close>

record security_event =
  se_ts :: pyval
  se_event :: string
  se_kind :: string
  se_severity :: pyval
  se_label :: string
  se_actor :: pyval
  se_summary :: string
  se_run_id :: pyval

definition payload_of :: "doc \<Rightarrow> doc" where
  "payload_of rec = get_dict rec ''payload''"

definition reported :: "string list \<Rightarrow> time \<Rightarrow> doc \<Rightarrow> error + bool" where
  "reported kinds since rec = (case event_kind (get_str rec ''event'') of
       None \<Rightarrow> Inr False
     | Some k \<Rightarrow>
        (if kinds \<noteq> [] \<and> k \<notin> set kinds then Inr False
         else if \<not> truthy (severity_for (get_str rec ''event'') (payload_of rec)) then Inr False
         else if since = 0 then Inr True
         else bind_sum (py_float (case dget rec ''ts'' of Some t \<Rightarrow> t | None \<Rightarrow> VInt 0)) (\<lambda>t. Inr (since \<le> t))))"

definition event_of :: "env \<Rightarrow> doc \<Rightarrow> security_event" where
  "event_of e rec = (let ev = get_str rec ''event''; p = payload_of rec; opt = (\<lambda>d k. case dget d k of Some v \<Rightarrow> v | None \<Rightarrow> VNone) in
     \<lparr>se_ts = opt rec ''ts'', se_event = ev, se_kind = (case event_kind ev of Some k \<Rightarrow> k | None \<Rightarrow> []),
      se_severity = severity_for ev p, se_label = (case dget EVENT_LABELS ev of Some l \<Rightarrow> l | None \<Rightarrow> ev),
      se_actor = get_or p ''by'' (opt rec ''id''), se_summary = summarize_event e ev p, se_run_id = opt p ''run_id''\<rparr>)"

fun select_events :: "env \<Rightarrow> string list \<Rightarrow> time \<Rightarrow> doc list \<Rightarrow> error + security_event list" where
  "select_events e kinds since [] = Inr []"
| "select_events e kinds since (r # rs) =
     bind_sum (reported kinds since r) (\<lambda>b. bind_sum (select_events e kinds since rs) (\<lambda>evs.
       Inr (if b then event_of e r # evs else evs)))"

text \<open>\<open>float(e["ts"] or 0)\<close>.\<close>

definition ts_of :: "security_event \<Rightarrow> error + rat" where
  "ts_of x = (if truthy (se_ts x) then py_float (se_ts x) else Inr 0)"

definition ts_key :: "security_event \<Rightarrow> rat" where
  "ts_key x = (case ts_of x of Inr t \<Rightarrow> t | Inl _ \<Rightarrow> 0)"

definition newest_first :: "security_event list \<Rightarrow> error + security_event list" where
  "newest_first evs = bind_sum (map_sum_list ts_of evs) (\<lambda>_. Inr (rev (sort_key ts_key (rev evs))))"

definition iter_events :: "int \<Rightarrow> string list \<Rightarrow> time \<Rightarrow> security_event list sop" where
  "iter_events limit kinds since =
     op_bind (iter_audit [] []) (\<lambda>recs. op_bind (op_gets env) (\<lambda>e.
       op_lift (bind_sum (select_events e kinds since recs) (\<lambda>evs. bind_sum (newest_first evs) (\<lambda>ordered. Inr (py_take limit ordered))))))"

definition recent :: "int \<Rightarrow> string list \<Rightarrow> time \<Rightarrow> security_event list sop" where
  "recent limit kinds since = iter_events limit kinds since"

definition counts_by_kind :: "(string \<times> int) list sop" where
  "counts_by_kind = op_bind (iter_events 100000 [] 0) (\<lambda>evs. op_return
     (foldl (\<lambda>c x. dset c (se_kind x) ((case dget c (se_kind x) of Some n \<Rightarrow> n | None \<Rightarrow> 0) + 1)) [] evs))"

definition chain_ok :: "bool sop" where
  "chain_ok = op_gets (\<lambda>s. rep_ok (verify_audit_chain [] s))"

section \<open>What the feed shows\<close>

definition catalogued :: "doc \<Rightarrow> bool" where
  "catalogued rec \<longleftrightarrow> event_kind (get_str rec ''event'') \<noteq> None \<and> truthy (severity_for (get_str rec ''event'') (payload_of rec))"

lemma reported_all: "reported [] 0 rec = Inr (catalogued rec)"
  by (auto simp: reported_def catalogued_def split: option.splits)

lemma select_all: "select_events e [] 0 recs = Inr (map (event_of e) (filter catalogued recs))"
  by (induction recs) (simp_all add: reported_all)

lemma newest_first_result:
  assumes "newest_first evs = Inr out"
  shows "mset out = mset evs \<and> sorted_wrt (\<lambda>x y. ts_key y \<le> ts_key x) out"
proof -
  have out: "out = rev (sort_key ts_key (rev evs))" using assms by (auto simp: newest_first_def elim!: bind_sumE)
  have "sorted (map ts_key (sort_key ts_key (rev evs)))" by simp
  then have "sorted_wrt (\<lambda>x y. ts_key y \<le> ts_key x) (rev (sort_key ts_key (rev evs)))"
    by (simp add: sorted_wrt_rev sorted_map)
  then show ?thesis using out by simp
qed

text \<open>the feed invents nothing and loses nothing.  When the log reads and the feed answers, the feed is the first \<open>limit\<close> of a
  list that holds exactly one event for each entry of the log that the catalog reports, computed from that
  entry, in descending order of time.\<close>

theorem feed_exact:
  assumes "iter_audit [] [] s = (Inr recs, s)" and "recent limit [] 0 s = (Inr evs, s')" and "0 \<le> limit"
  shows "\<exists>ordered. mset ordered = mset (map (event_of (env s)) (filter catalogued recs)) \<and>
    sorted_wrt (\<lambda>x y. ts_key y \<le> ts_key x) ordered \<and> evs = take (nat limit) ordered"
proof -
  obtain ordered where "newest_first (map (event_of (env s)) (filter catalogued recs)) = Inr ordered" "evs = py_take limit ordered"
    using assms by (auto simp: recent_def iter_events_def op_bind_apply select_all elim!: bind_sumE)
  with newest_first_result [OF this(1)] assms(3) show ?thesis by (intro exI [of _ ordered]) (simp add: py_take_def)
qed

text \<open>a run that fails closed never reaches the feed.  The record that \<open>statemachine.transition\<close> writes names its states \<open>from_state\<close> and \<open>to_state\<close>,
  while the feed reads \<open>status\<close> and \<open>to\<close>: the audit entry of every transition, one to BLOCKED, CANCELLED or DENIED as
  well, is left out, whatever kinds and time the feed is asked for.\<close>

theorem run_transition_never_surfaces:
  "reported kinds since (audit_entry s ''run.transition'' ''runs'' rid (transition_record rid cur tgt actor reason t)) = Inr False \<and>
   event_kind ''run.transition'' = Some ''run'' \<and> run_status_value Blocked \<in> set FAIL_CLOSED_RUN_STATES"
proof -
  let ?r = "audit_entry s ''run.transition'' ''runs'' rid (transition_record rid cur tgt actor reason t)"
  have k: "event_kind ''run.transition'' = Some ''run''" "event_entry ''run.transition'' = Some (''run'', ''notice'')" by code_simp+
  have "get_str ?r ''event'' = ''run.transition''" "payload_of ?r = transition_record rid cur tgt actor reason t"
    by (simp_all add: audit_entry_def audit_body_def get_str_def payload_of_def get_dict_def Let_def)
  moreover have "severity_for ''run.transition'' (transition_record rid cur tgt actor reason t) = VStr []"
    by (simp add: severity_for_def k transition_record_def get_or_def Let_def FAIL_CLOSED_RUN_STATES_def)
  ultimately have "reported kinds since ?r = Inr False" by (simp add: reported_def k)
  with k show ?thesis by (simp add: FAIL_CLOSED_RUN_STATES_def)
qed

definition demo_feed_store :: store where
  "demo_feed_store = audit_st ''user.disabled'' ''users'' ''ann'' [(''username'', VStr ''ann'')]
     (audit_st ''run.status'' ''runs'' ''r1'' [] (open_store demo_env [] []))"

theorem feed_exact_witness:
  "\<exists>evs s'. recent 10 [] 0 demo_feed_store = (Inr evs, s') \<and> map se_event evs = [''user.disabled'']"
proof -
  let ?s = "demo_feed_store"
  let ?r1 = "audit_entry (open_store demo_env [] []) ''run.status'' ''runs'' ''r1'' []"
  let ?r2 = "audit_entry (audit_st ''run.status'' ''runs'' ''r1'' [] (open_store demo_env [] [])) ''user.disabled'' ''users'' ''ann'' [(''username'', VStr ''ann'')]"
  have f: "get_str ?r1 ''event'' = ''run.status''" "get_str ?r2 ''event'' = ''user.disabled''" "\<exists>t. dget ?r2 ''ts'' = Some (VFloat t)"
    by (simp_all add: audit_entry_def audit_body_def get_str_def Let_def)
  have "event_kind ''run.status'' = None" "event_entry ''user.disabled'' = Some (''auth'', ''warning'')" by code_simp+
  then have cat: "\<not> catalogued ?r1" "catalogued ?r2" using f by (simp_all add: catalogued_def event_kind_def severity_for_def)
  have it: "iter_audit [] [] ?s = (Inr [?r1, ?r2], ?s)"
    by (simp add: iter_audit_def demo_feed_store_def audit_st_def open_store_def effective_ws_def enforce_def audit_selected_def)
  have "\<exists>evs. recent 10 [] 0 ?s = (Inr evs, ?s)"
    using f(3) cat by (auto simp: recent_def iter_events_def op_bind_apply it select_all newest_first_def event_of_def ts_of_def Let_def)
  then obtain evs where run: "recent 10 [] 0 ?s = (Inr evs, ?s)" by blast
  from feed_exact [OF it run] cat have "evs = [event_of (env ?s) ?r2]" by auto
  with run f(2) show ?thesis by (simp add: event_of_def Let_def)
qed

end
