(* ===== verification/System_Status.thy ===== *)
theory System_Status
  imports Block_Explainer Security_Events Migrations Auth
begin

text \<open>
  \<open>sworker/system_status.py\<close>: one snapshot per control and the verdict over them.  The text of an exception is a parameter.
  Lemmas: the verdict is the worst severity, and a probe that raises never passes for healthy.
\<close>

section \<open>Control snapshots\<close>

record control =
  ct_name :: string
  ct_severity :: string
  ct_status :: string
  ct_source :: string
  ct_detail :: doc

definition sev_rank :: "string \<Rightarrow> nat" where
  "sev_rank sv = (if sv = ''ok'' then 1 else if sv = ''warning'' then 2 else if sv = ''unknown'' then 3 else if sv = ''critical'' then 4 else 3)"

definition control_dict :: "control \<Rightarrow> doc" where
  "control_dict c = [(''name'', VStr (ct_name c)), (''severity'', VStr (ct_severity c)), (''status'', VStr (ct_status c)),
     (''source'', VStr (ct_source c)), (''detail'', VDict (ct_detail c))]"

definition safemode_control :: "string \<Rightarrow> bool \<Rightarrow> control" where
  "safemode_control level on =
     (let (sv, st) = (if level = SM_LOCKED then (''critical'', ''safe mode LOCKED - every tool action is blocked'')
        else if level = SM_READONLY then (''warning'', ''safe mode READONLY - writes/fork/exec above READ risk are blocked'')
        else if level = SM_OFF then (''ok'', ''safe mode OFF'')
        else (''critical'', ''safe mode at unrecognized level ' '' @ level @ '' ' (treated as locked)''))
      in \<lparr>ct_name = ''safe_mode'', ct_severity = sv, ct_status = st, ct_source = ''sworker.safemode.SafeMode.level'',
           ct_detail = [(''level'', VStr level), (''enabled'', VBool on)]\<rparr>)"

definition snapshot_safemode :: "control sop" where
  "snapshot_safemode = op_bind (safe_level SM_SCOPE) (\<lambda>lv. op_bind (safe_enabled SM_SCOPE) (\<lambda>on. op_return (safemode_control lv on)))"

definition snapshot_incident :: "control sop" where
  "snapshot_incident = op_bind (inc_status INC_SCOPE) (\<lambda>d.
     let active = get_truthy d ''active'' in op_return
       \<lparr>ct_name = ''incident'', ct_severity = (if active then ''critical'' else ''ok''),
        ct_status = (if active then ''an incident is OPEN - the platform is frozen (no new runs)'' else ''no active incident''),
        ct_source = ''sworker.incident.IncidentLedger.status_dict'', ct_detail = d\<rparr>)"

definition snapshot_degradation :: "control sop" where
  "snapshot_degradation = op_bind (deg_entries []) (\<lambda>es. op_bind (any_critical []) (\<lambda>crit. op_bind (deg_summary []) (\<lambda>summ.
     let n = int_str (int (length es));
         (sv, st) = (if crit then (''critical'', n @ '' degradation(s) recorded; at least one is CRITICAL'')
            else if es \<noteq> [] then (''warning'', n @ '' degradation(s) recorded (no critical)'')
            else (''ok'', ''no graceful-degradation events recorded''))
     in op_return \<lparr>ct_name = ''degradation'', ct_severity = sv, ct_status = st, ct_source = ''sworker.degradation.DegradationLedger'',
          ct_detail = [(''count'', VInt (int (length es))), (''summary'', strs summ)]\<rparr>)))"

definition snapshot_security :: "control sop" where
  "snapshot_security = op_bind (op_gets (verify_audit_chain [])) (\<lambda>rep. op_bind counts_by_kind (\<lambda>counts.
     let (sv, st) = (if \<not> rep_ok rep then (''critical'', ''audit chain BROKEN - security log integrity cannot be trusted'')
            else if counts \<noteq> [] then (''warning'', ''security events recorded (audit chain intact)'')
            else (''ok'', ''no security events recorded; audit chain intact''))
     in op_return \<lparr>ct_name = ''security'', ct_severity = sv, ct_status = st, ct_source = ''sworker.security_events.SecurityEvents'',
          ct_detail = [(''audit_chain_ok'', VBool (rep_ok rep)), (''audit_checked'', VInt (int (rep_checked rep))),
            (''counts_by_kind'', VDict (map (\<lambda>(k, n). (k, VInt n)) counts))]\<rparr>))"

definition snapshot_blocked :: "control sop" where
  "snapshot_blocked = op_bind explain_workspace (\<lambda>(was, rs, _).
     let crit = length (filter (\<lambda>r. br_severity r = ''critical'') rs);
         (sv, st) = (if was then (if crit \<noteq> 0 then ''critical'' else ''warning'', ''platform/workspace is BLOCKED ('' @ int_str (int (length rs)) @ '' reason(s))'')
            else (if crit = 0 then ''ok'' else ''warning'', ''no active block on the workspace''))
     in op_return \<lparr>ct_name = ''blocked'', ct_severity = sv, ct_status = st, ct_source = ''sworker.block_explainer.BlockExplainer.explain_workspace'',
          ct_detail = [(''was_blocked'', VBool was), (''reason_count'', VInt (int (length rs)))]\<rparr>)"

definition ADAPTERS :: "(string \<times> control sop) list" where
  "ADAPTERS = [(''snapshot_safemode'', snapshot_safemode), (''snapshot_incident'', snapshot_incident),
     (''snapshot_degradation'', snapshot_degradation), (''snapshot_security'', snapshot_security), (''snapshot_blocked'', snapshot_blocked)]"

section \<open>The verdict\<close>

definition broken_probe :: "string \<Rightarrow> string \<Rightarrow> control" where
  "broken_probe n msg = \<lparr>ct_name = n, ct_severity = ''unknown'', ct_status = ''control probe raised: '' @ msg,
     ct_source = ''sworker.system_status.'' @ n, ct_detail = []\<rparr>"

definition probe :: "(error \<Rightarrow> string) \<Rightarrow> string \<times> control sop \<Rightarrow> control sop" where
  "probe exc a s = (case snd a s of (Inl e, s') \<Rightarrow> (Inr (broken_probe (fst a) (exc e)), s') | (Inr c, s') \<Rightarrow> (Inr c, s'))"

definition worse :: "string \<Rightarrow> control \<Rightarrow> string" where
  "worse v c = (if sev_rank v < sev_rank (ct_severity c) then ct_severity c else v)"

record status_report =
  sr_verdict :: string
  sr_generated_at :: time
  sr_controls :: "control list"

definition compose_with :: "(error \<Rightarrow> string) \<Rightarrow> (string \<times> control sop) list \<Rightarrow> status_report sop" where
  "compose_with exc adapters = op_bind (op_mapM (probe exc) adapters) (\<lambda>snaps. op_bind op_now (\<lambda>t.
     op_return \<lparr>sr_verdict = foldl worse ''ok'' snaps, sr_generated_at = t, sr_controls = snaps\<rparr>))"

definition compose :: "(error \<Rightarrow> string) \<Rightarrow> status_report sop" where
  "compose exc = compose_with exc ADAPTERS"

lemma probe_total: "\<exists>c s'. probe exc a s = (Inr c, s') \<and> (\<forall>e. fst (snd a s) = Inl e \<longrightarrow> ct_severity c = ''unknown'')"
  by (auto simp: probe_def broken_probe_def split: sum.split prod.split)

lemma probes_total: "\<exists>cs s'. op_mapM (probe exc) as s = (Inr cs, s') \<and> length cs = length as"
proof (induction as arbitrary: s)
  case (Cons a as)
  obtain c s1 where "probe exc a s = (Inr c, s1)" using probe_total by blast
  moreover obtain cs s2 where "op_mapM (probe exc) as s1 = (Inr cs, s2)" "length cs = length as" using Cons by blast
  ultimately show ?case by (simp add: op_bind_apply)
qed simp

lemma foldl_worse:
  "sev_rank v \<le> sev_rank (foldl worse v cs) \<and> (\<forall>c\<in>set cs. sev_rank (ct_severity c) \<le> sev_rank (foldl worse v cs)) \<and>
   (foldl worse v cs = v \<or> foldl worse v cs \<in> ct_severity ` set cs)"
proof (induction cs arbitrary: v)
  case (Cons c cs)
  have w: "sev_rank v \<le> sev_rank (worse v c)" "sev_rank (ct_severity c) \<le> sev_rank (worse v c)" "worse v c = v \<or> worse v c = ct_severity c"
    by (auto simp: worse_def)
  show ?case using Cons [of "worse v c"] w by (auto intro: le_trans)
qed simp

lemma rank_ok: "sev_rank v \<le> 1 \<longleftrightarrow> v = ''ok''"
  by (simp add: sev_rank_def)

text \<open>the verdict fails closed.  The status always composes, over the five controls in their order; its verdict is the worst severity among them, it is \<open>ok\<close> exactly
  when every control is, and when the first control's probe raises, whatever it raises, the verdict is not \<open>ok\<close> or \<open>warning\<close>.\<close>

theorem verdict_fails_closed:
  "\<exists>r s'. compose exc s = (Inr r, s') \<and> length (sr_controls r) = 5 \<and>
     (\<forall>c\<in>set (sr_controls r). sev_rank (ct_severity c) \<le> sev_rank (sr_verdict r)) \<and>
     (sr_verdict r = ''ok'' \<longleftrightarrow> (\<forall>c\<in>set (sr_controls r). ct_severity c = ''ok'')) \<and>
     (\<forall>e. fst (snapshot_safemode s) = Inl e \<longrightarrow> sr_verdict r \<notin> {''ok'', ''warning''})"
proof -
  obtain c s1 where c: "probe exc (''snapshot_safemode'', snapshot_safemode) s = (Inr c, s1)"
    and raised: "\<forall>e. fst (snapshot_safemode s) = Inl e \<longrightarrow> ct_severity c = ''unknown''"
    using probe_total [of exc "(''snapshot_safemode'', snapshot_safemode)" s] by auto
  obtain cs s2 where cs: "op_mapM (probe exc) (tl ADAPTERS) s1 = (Inr cs, s2)" "length cs = 4"
    using probes_total [of exc "tl ADAPTERS" s1] by (auto simp: ADAPTERS_def)
  have "op_mapM (probe exc) ADAPTERS s = (Inr (c # cs), s2)"
  proof -
    have A: "ADAPTERS = (''snapshot_safemode'', snapshot_safemode) # tl ADAPTERS" by (simp add: ADAPTERS_def)
    show ?thesis using c cs(1) by (subst A) (simp only: op_mapM.simps op_bind_apply prod.case sum.case op_return_apply)
  qed
  then obtain t where run: "compose exc s = (Inr \<lparr>sr_verdict = foldl worse ''ok'' (c # cs), sr_generated_at = t, sr_controls = c # cs\<rparr>, s2\<lparr>ticks := Suc (ticks s2)\<rparr>)"
    by (simp add: compose_def compose_with_def op_bind_apply op_now_apply)
  let ?v = "foldl worse ''ok'' (c # cs)"
  have f: "\<forall>x\<in>set (c # cs). sev_rank (ct_severity x) \<le> sev_rank ?v" "?v = ''ok'' \<or> ?v \<in> ct_severity ` set (c # cs)"
    using foldl_worse [of "''ok''" "c # cs"] by blast+
  have ok: "?v = ''ok'' \<longleftrightarrow> (\<forall>x\<in>set (c # cs). ct_severity x = ''ok'')"
  proof
    assume "?v = ''ok''"
    then have "\<forall>x\<in>set (c # cs). sev_rank (ct_severity x) \<le> 1" using f(1) by (simp add: sev_rank_def)
    then show "\<forall>x\<in>set (c # cs). ct_severity x = ''ok''" using rank_ok by blast
  qed (use f(2) in auto)
  have bad: "\<forall>e. fst (snapshot_safemode s) = Inl e \<longrightarrow> ?v \<notin> {''ok'', ''warning''}"
  proof (intro allI impI)
    fix e assume "fst (snapshot_safemode s) = Inl e"
    then have "sev_rank ''unknown'' \<le> sev_rank ?v" using raised f(1) by auto
    then show "?v \<notin> {''ok'', ''warning''}" by (auto simp: sev_rank_def)
  qed
  show ?thesis using run cs(2) f(1) ok bad by (intro exI conjI) (assumption | simp)+
qed

theorem verdict_fails_closed_witness:
  "\<exists>s r s'. fst (snapshot_safemode s) = Inl CrossTenantAccess \<and> compose (\<lambda>_. ''raised'') s = (Inr r, s') \<and> sr_verdict r \<notin> {''ok'', ''warning''}"
proof -
  let ?s = "put_row ''meta_kv'' (safe_key SM_SCOPE) [(''workspace_id'', VStr ''other'')] (open_store demo_env ''mine'' ''org'')"
  have "get ''meta_kv'' (safe_key SM_SCOPE) [] ?s = (Inl CrossTenantAccess, ?s)"
    by (simp add: get_eq tget_def put_row_def own_row_def open_store_def enforce_def get_str_def)
  then have "fst (snapshot_safemode ?s) = Inl CrossTenantAccess" by (simp add: snapshot_safemode_def safe_level_def op_bind_apply)
  with verdict_fails_closed [of "\<lambda>_. ''raised''" ?s] show ?thesis by blast
qed

end
