(* ===== verification/Maturity.thy ===== *)
theory Maturity
  imports System_Status
begin

text \<open>
  \<open>sworker/maturity.py\<close> and, at the end, \<open>sworker/metrics.py\<close>: the ten dimensions of the maturity model, each read from the subsystem it scores, and the floor over them.
  Parameters: the text of an exception and the number of worker files found below the store's own directory.  Lemmas: the floor is
  the weakest dimension, and which levels the model can report at all.
\<close>

section \<open>Dimensions\<close>

definition TIERS :: "string list" where
  "TIERS = [''none'', ''basic'', ''standard'', ''hardened'', ''sovereign'']"

definition T_NONE :: nat where "T_NONE = 0"
definition T_BASIC :: nat where "T_BASIC = 1"
definition T_STANDARD :: nat where "T_STANDARD = 2"
definition T_HARDENED :: nat where "T_HARDENED = 3"

record signal =
  sg_name :: string
  sg_present :: bool
  sg_detail :: string

record dimension =
  di_id :: string
  di_label :: string
  di_tier :: nat
  di_evidence :: string
  di_signals :: "signal list"
  di_recommendation :: string

definition sig :: "string \<Rightarrow> bool \<Rightarrow> string \<Rightarrow> signal" where
  "sig n p d = \<lparr>sg_name = n, sg_present = p, sg_detail = d\<rparr>"

definition dim :: "string \<Rightarrow> string \<Rightarrow> nat \<Rightarrow> string \<Rightarrow> signal list \<Rightarrow> string \<Rightarrow> dimension" where
  "dim i l t ev sgs rc = \<lparr>di_id = i, di_label = l, di_tier = t, di_evidence = ev, di_signals = sgs, di_recommendation = rc\<rparr>"

definition bool_str :: "bool \<Rightarrow> string" where "bool_str b = (if b then ''True'' else ''False'')"
definition nat_text :: "nat \<Rightarrow> string" where "nat_text n = int_str (int n)"

definition audit_dimension :: "dimension sop" where
  "audit_dimension = op_bind (op_gets (verify_audit_chain [])) (\<lambda>rep. let ok = rep_ok rep in op_return
     (dim ''audit_chain'' ''Audit-chain integrity'' (if ok then T_STANDARD else T_NONE)
        (''verify_audit_chain ok='' @ bool_str ok @ '' checked='' @ nat_text (rep_checked rep))
        [sig ''audit_chain_ok'' ok (nat_text (rep_checked rep) @ '' lines checked'')]
        (if ok then [] else ''Initialise and verify the audit hash chain (13).'')))"

definition schema_dimension :: "int \<Rightarrow> nat \<Rightarrow> dimension" where
  "schema_dimension cur pend = dim ''schema_version'' ''Schema currency'' (if pend = 0 then T_STANDARD else T_BASIC)
     (''current_version='' @ int_str cur @ '' pending='' @ nat_text pend)
     [sig ''schema_current'' (pend = 0) (''version='' @ int_str cur), sig ''no_pending_migrations'' (pend = 0) (''pending='' @ nat_text pend)]
     (if pend = 0 then [] else ''Run `sworker migrate` to bring the schema to current.'')"

definition privileged :: "string \<Rightarrow> bool" where
  "privileged r \<longleftrightarrow> r \<in> {''admin'', ''operator''}"

definition auth_dimension :: "dimension sop" where
  "auth_dimension = op_bind list_users (\<lambda>us. let n = length us; adm = list_ex (privileged \<circ> us_role) us;
       tier = (if 0 < n then if adm then T_STANDARD else T_BASIC else T_NONE) in op_return
     (dim ''auth'' ''Local authentication'' tier (''users='' @ nat_text n @ '' privileged='' @ bool_str adm)
        [sig ''users_exist'' (0 < n) (nat_text n @ '' user(s)''),
         sig ''privileged_role'' adm (if adm then ''admin/operator present'' else ''no admin/operator'')]
        (if T_STANDARD \<le> tier then [] else ''Create users and assign at least one admin/operator role (4/45).'')))"

definition rbac_dimension :: "env \<Rightarrow> dimension sop" where
  "rbac_dimension e = op_bind list_users (\<lambda>us. let roles = sort (remdups (map us_role us)); adm = list_ex privileged roles;
       shown = ''roles='' @ py_repr e (strs roles) in op_return
     (dim ''rbac'' ''Role-based access'' (if adm then T_STANDARD else if roles \<noteq> [] then T_BASIC else T_NONE) shown
        [sig ''roles_assigned'' (roles \<noteq> []) shown, sig ''privileged_role'' adm []]
        (if adm then [] else ''Assign roles so approvals/quorum can be enforced (45).'')))"

text \<open>These two read the scope \<open>""\<close>, not the scope that the platform's own safe mode and incident ledger use.\<close>

definition safe_mode_dimension :: "dimension sop" where
  "safe_mode_dimension = op_bind (safe_enabled []) (\<lambda>on. op_bind (safe_level []) (\<lambda>lv.
     let tier = (if on then T_HARDENED else T_STANDARD) in op_return
     (dim ''safe_mode'' ''Safe-mode default'' tier (''level='' @ lv @ '' enabled='' @ bool_str on)
        [sig ''safe_mode_initialised'' True (''level='' @ lv), sig ''safe_mode_engaged'' on (''enabled='' @ bool_str on)]
        (if T_HARDENED \<le> tier then [] else ''Consider `sworker safemode readonly` for a fail-closed default (62).''))))"

definition incident_dimension :: "dimension sop" where
  "incident_dimension = op_bind (inc_active []) (\<lambda>active. op_bind (inc_status []) (\<lambda>sd.
     op_bind (if active then op_return True else op_bind list_incidents (\<lambda>xs. op_return (xs \<noteq> []))) (\<lambda>exercised.
       let st = val_str (case dget sd ''state'' of Some v \<Rightarrow> v | None \<Rightarrow> VStr ''none'') in op_return
       (dim ''incident_response'' ''Incident response'' (if exercised then T_HARDENED else T_BASIC)
          (''state='' @ st @ '' active='' @ bool_str active @ '' exercised='' @ bool_str exercised)
          [sig ''incident_ledger_present'' True [], sig ''incident_exercised'' exercised (''state='' @ st @ '' active='' @ bool_str active)]
          (if exercised then [] else ''Open and close a drill incident to exercise the ledger (63).'')))))"

definition degradation_dimension :: "dimension sop" where
  "degradation_dimension = op_bind (deg_entries []) (\<lambda>es. op_bind (any_critical []) (\<lambda>crit.
     let n = length es; tier = (if n = 0 then T_BASIC else if \<not> crit then T_STANDARD else T_BASIC) in op_return
     (dim ''degradation_awareness'' ''Graceful-degradation awareness'' tier (''entries='' @ nat_text n @ '' critical='' @ bool_str crit)
        [sig ''degradation_ledger_active'' (0 < n) (nat_text n @ '' record(s)''),
         sig ''no_critical_degradation'' (\<not> crit) (if crit then ''critical present'' else ''none'')]
        (if \<not> crit then [] else ''Resolve the critical degradation before relying on this deployment (61).''))))"

definition events_dimension :: "dimension sop" where
  "events_dimension = op_bind (recent 1 [] 0) (\<lambda>evs. op_bind counts_by_kind (\<lambda>counts.
     let ok = (evs \<noteq> []) in op_return
     (dim ''security_events'' ''Security-event visibility'' (if ok then T_STANDARD else T_BASIC)
        (''recent='' @ nat_text (length evs) @ '' kinds='' @ nat_text (length counts))
        [sig ''security_events_recording'' ok (nat_text (length counts) @ '' kind(s) recorded'')]
        (if ok then [] else ''Trigger events (e.g. a blocked/denied run) so the catalog records (64).''))))"

definition observability_dimension :: "(error \<Rightarrow> string) \<Rightarrow> dimension sop" where
  "observability_dimension exc s = (case compose exc s of
       (Inr r, s') \<Rightarrow>
         (let v = sr_verdict r; tier = (if v \<noteq> ''critical'' then T_STANDARD else T_BASIC) in
          (Inr (dim ''observability'' ''Unified observability'' tier ''SystemStatus.compose()''
             [sig ''system_status_composes'' True (''verdict='' @ v @ '' controls='' @ nat_text (length (sr_controls r))),
              sig ''verdict_not_fabricated'' (v \<in> {''ok'', ''unknown''}) []]
             (if T_STANDARD \<le> tier then [] else ''Repair the failing control surfaced by `sworker status` (66).'')), s'))
     | (Inl e, s') \<Rightarrow>
         (Inr (dim ''observability'' ''Unified observability'' T_BASIC ''SystemStatus.compose() FAILED''
             [sig ''system_status_composes'' False (take 120 (exc e))]
             ''Repair the failing control surfaced by `sworker status` (66).''), s'))"

definition recovery_dimension :: "nat \<Rightarrow> dimension sop" where
  "recovery_dimension workers = op_bind (op_gets (verify_audit_chain [])) (\<lambda>rep. let ok = rep_ok rep;
       tier = (if 0 < workers \<and> ok then T_STANDARD else T_BASIC) in op_return
     (dim ''recovery'' ''Recovery readiness'' tier (''workers='' @ nat_text workers @ '' audit_ok='' @ bool_str ok)
        [sig ''workers_defined'' (0 < workers) (nat_text workers @ '' worker(s)''), sig ''audit_chain_ok'' ok []]
        (if T_STANDARD \<le> tier then [] else ''Define a worker and verify the audit chain to enable recovery (3/13).'')))"

section \<open>Assessment\<close>

record maturity_report =
  mr_level :: string
  mr_floor :: nat
  mr_mean :: rat
  mr_dimensions :: "dimension list"
  mr_summary :: string

definition dimensions :: "(error \<Rightarrow> string) \<Rightarrow> nat \<Rightarrow> data_store \<Rightarrow> dimension sop list" where
  "dimensions exc workers d = [audit_dimension, op_return (schema_dimension (current_version d) (length (pending d))), auth_dimension,
     rbac_dimension (env (dm_store d)), safe_mode_dimension, incident_dimension, degradation_dimension, events_dimension,
     observability_dimension exc, recovery_dimension workers]"

definition report_of :: "string \<Rightarrow> dimension list \<Rightarrow> maturity_report" where
  "report_of label dims =
     (let scores = map di_tier dims; low = (if scores = [] then T_NONE else Min (set scores)) in
      \<lparr>mr_level = TIERS ! low, mr_floor = low,
       mr_mean = (if scores = [] then 0 else of_nat (sum_list scores) / of_nat (length scores)), mr_dimensions = dims,
       mr_summary = label @ '': '' @ str_upper (TIERS ! low) @ '' - '' @ nat_text (length (filter (\<lambda>x. T_STANDARD \<le> di_tier x) dims))
         @ ''/'' @ nat_text (length dims) @ '' dimensions at standard+''\<rparr>)"

definition assess :: "(error \<Rightarrow> string) \<Rightarrow> nat \<Rightarrow> string \<Rightarrow> data_store \<Rightarrow> error + maturity_report" where
  "assess exc workers label d = bind_sum (fst (op_mapM id (dimensions exc workers d) (dm_store d))) (\<lambda>dims. Inr (report_of label dims))"

section \<open>The floor\<close>

lemma mapM_id_results:
  "op_mapM id ms s = (Inr xs, s') \<Longrightarrow> list_all2 (\<lambda>m x. \<exists>t t'. m t = (Inr x, t')) ms xs"
  by (induction ms arbitrary: s xs) (auto simp: op_bind_apply split: sum.splits prod.splits)

lemmas tier_defs = T_NONE_def T_BASIC_def T_STANDARD_def T_HARDENED_def dim_def Let_def op_bind_apply

lemma audit_tier: "audit_dimension t = (Inr x, t') \<Longrightarrow> di_tier x \<le> 2"
  by (auto simp: audit_dimension_def tier_defs split: if_splits)

text \<open>the maturity level is the weakest control, and never above standard.  When the model answers, it has ten dimensions, the floor is the least of their
  tiers and belongs to one of them, the level is its name, and since the audit dimension has no tier above standard the level is
  \<open>none\<close>, \<open>basic\<close> or \<open>standard\<close>: the two upper levels of the ladder are never reported.\<close>

theorem maturity_floor:
  assumes "assess exc workers label d = Inr r"
  shows "length (mr_dimensions r) = 10 \<and> (\<forall>x\<in>set (mr_dimensions r). mr_floor r \<le> di_tier x) \<and>
    (\<exists>x\<in>set (mr_dimensions r). di_tier x = mr_floor r) \<and> mr_level r = TIERS ! mr_floor r \<and>
    mr_level r \<in> {''none'', ''basic'', ''standard''}"
proof -
  obtain dims s' where run: "op_mapM id (dimensions exc workers d) (dm_store d) = (Inr dims, s')" and r: "r = report_of label dims"
    using assms by (cases "op_mapM id (dimensions exc workers d) (dm_store d)") (auto simp: assess_def elim!: bind_sumE)
  have rel: "list_all2 (\<lambda>m x. \<exists>t t'. m t = (Inr x, t')) (dimensions exc workers d) dims" by (rule mapM_id_results [OF run])
  then have len: "length dims = 10" by (auto simp: dimensions_def dest!: list_all2_lengthD)
  obtain x0 rest where d0: "dims = x0 # rest" "di_tier x0 \<le> 2"
    using rel audit_tier by (auto simp: dimensions_def list_all2_Cons1)
  let ?low = "Min (set (map di_tier dims))"
  have ne: "set (map di_tier dims) \<noteq> {}" "finite (set (map di_tier dims))" using d0 by auto
  have le: "\<forall>x\<in>set dims. ?low \<le> di_tier x" using ne by auto
  moreover have "?low \<in> set (map di_tier dims)" using ne Min_in by blast
  then have "\<exists>x\<in>set dims. di_tier x = ?low" by auto
  moreover have "?low \<le> 2" using le d0 by (meson le_trans list.set_intros(1))
  then have "TIERS ! ?low \<in> {''none'', ''basic'', ''standard''}"
    by (cases ?low; cases "?low - 1"; cases "?low - 2") (auto simp: TIERS_def)
  ultimately show ?thesis using d0 len by (simp add: r report_of_def Let_def del: Min_insert)
qed

chapter \<open>Counters\<close>

text \<open>
  \<open>sworker/metrics.py\<close>: the counter registry.  A status is given as a \<open>RunStatus\<close> member or as text; \<open>str\<close> of a member
  is its class and name, because the enumeration does not redefine \<open>__str__\<close>.  Lemmas: what the counters count, and
  that a run recorded by its member is neither a success nor a failure.
\<close>

record metrics =
  mt_counters :: "(string \<times> int) list"
  mt_by_worker :: "(string \<times> int) list"
  mt_by_status :: "(string \<times> int) list"

definition no_metrics :: metrics where
  "no_metrics = \<lparr>mt_counters = [], mt_by_worker = [], mt_by_status = []\<rparr>"

datatype status_arg = Member run_status | Text string

definition status_str :: "status_arg \<Rightarrow> string" where
  "status_str x = (case x of Member st \<Rightarrow> ''RunStatus.'' @ run_status_value st | Text t \<Rightarrow> t)"

definition bump :: "(string \<times> int) list \<Rightarrow> string \<Rightarrow> int \<Rightarrow> (string \<times> int) list" where
  "bump d k n = dset d k ((case dget d k of Some i \<Rightarrow> i | None \<Rightarrow> 0) + n)"

definition inc :: "string \<Rightarrow> int \<Rightarrow> metrics \<Rightarrow> metrics" where
  "inc nm n m = m\<lparr>mt_counters := bump (mt_counters m) nm n\<rparr>"

definition record_run :: "string \<Rightarrow> status_arg \<Rightarrow> metrics \<Rightarrow> metrics" where
  "record_run worker st m =
     (let m1 = inc ''runs_total'' 1 m;
          key = status_str st;
          m2 = m1\<lparr>mt_by_worker := bump (mt_by_worker m1) worker 1, mt_by_status := bump (mt_by_status m1) key 1\<rparr>
      in if key \<in> {run_status_value Success, run_status_value Partial_Success} then inc ''runs_success'' 1 m2
         else if key \<in> {run_status_value Failed, run_status_value Blocked} then inc ''runs_failed'' 1 m2
         else m2)"

definition record_action :: "string \<Rightarrow> metrics \<Rightarrow> metrics" where
  "record_action outcome m = inc (''actions_'' @ outcome) 1 m"

definition record_approval :: "string \<Rightarrow> metrics \<Rightarrow> metrics" where
  "record_approval outcome m = inc (''approvals_'' @ outcome) 1 m"

definition metrics_snapshot :: "metrics \<Rightarrow> (string \<times> (string \<times> int) list) list" where
  "metrics_snapshot m = [(''counters'', mt_counters m), (''runs_by_worker'', mt_by_worker m), (''runs_by_status'', mt_by_status m)]"

section \<open>What is counted\<close>

datatype metric_call = Run string status_arg | Action string | Approval string

fun metric_step :: "metric_call \<Rightarrow> metrics \<Rightarrow> metrics" where
  "metric_step (Run w st) m = record_run w st m"
| "metric_step (Action x) m = record_action x m"
| "metric_step (Approval x) m = record_approval x m"

definition count_of :: "(string \<times> int) list \<Rightarrow> string \<Rightarrow> int" where
  "count_of d k = (case dget d k of Some i \<Rightarrow> i | None \<Rightarrow> 0)"

definition total_of :: "(string \<times> int) list \<Rightarrow> int" where
  "total_of d = sum_list (map snd d)"

lemma count_bump [simp]: "count_of (bump d k n) k' = count_of d k' + (if k = k' then n else 0)"
  by (simp add: count_of_def bump_def)

lemma total_dset: "total_of (dset d k v) = total_of d + v - (case dget d k of Some i \<Rightarrow> i | None \<Rightarrow> 0)"
  by (induction d k v rule: dset.induct) (auto simp: total_of_def)

lemma total_bump [simp]: "total_of (bump d k n) = total_of d + n"
  by (simp add: bump_def total_dset)

fun runs_in :: "metric_call list \<Rightarrow> nat" where
  "runs_in [] = 0"
| "runs_in (Run w st # cs) = Suc (runs_in cs)"
| "runs_in (_ # cs) = runs_in cs"

fun runs_ended :: "string list \<Rightarrow> metric_call list \<Rightarrow> nat" where
  "runs_ended keys [] = 0"
| "runs_ended keys (Run w st # cs) = (if status_str st \<in> set keys then 1 else 0) + runs_ended keys cs"
| "runs_ended keys (_ # cs) = runs_ended keys cs"

lemma other_counters [simp]:
  "''actions_'' @ x \<noteq> ''runs_total''" "''actions_'' @ x \<noteq> ''runs_success''" "''actions_'' @ x \<noteq> ''runs_failed''"
  "''approvals_'' @ x \<noteq> ''runs_total''" "''approvals_'' @ x \<noteq> ''runs_success''" "''approvals_'' @ x \<noteq> ''runs_failed''"
  by simp_all

lemma metric_step_counts:
  "count_of (mt_counters (metric_step c m)) ''runs_total'' = count_of (mt_counters m) ''runs_total'' + int (runs_in [c])"
  "total_of (mt_by_worker (metric_step c m)) = total_of (mt_by_worker m) + int (runs_in [c])"
  "total_of (mt_by_status (metric_step c m)) = total_of (mt_by_status m) + int (runs_in [c])"
  "count_of (mt_counters (metric_step c m)) ''runs_success'' = count_of (mt_counters m) ''runs_success'' + int (runs_ended [''SUCCESS'', ''PARTIAL_SUCCESS''] [c])"
  "count_of (mt_counters (metric_step c m)) ''runs_failed'' = count_of (mt_counters m) ''runs_failed'' + int (runs_ended [''FAILED'', ''BLOCKED''] [c])"
  by (cases c; auto simp: record_run_def record_action_def record_approval_def inc_def Let_def)+

lemma fold_counts:
  "count_of (mt_counters (fold metric_step cs m)) ''runs_total'' = count_of (mt_counters m) ''runs_total'' + int (runs_in cs)"
  "total_of (mt_by_worker (fold metric_step cs m)) = total_of (mt_by_worker m) + int (runs_in cs)"
  "total_of (mt_by_status (fold metric_step cs m)) = total_of (mt_by_status m) + int (runs_in cs)"
  "count_of (mt_counters (fold metric_step cs m)) ''runs_success'' = count_of (mt_counters m) ''runs_success'' + int (runs_ended [''SUCCESS'', ''PARTIAL_SUCCESS''] cs)"
  "count_of (mt_counters (fold metric_step cs m)) ''runs_failed'' = count_of (mt_counters m) ''runs_failed'' + int (runs_ended [''FAILED'', ''BLOCKED''] cs)"
proof (induction cs arbitrary: m)
  case (Cons c cs)
  case 1 then show ?case using metric_step_counts [of c m] Cons.IH(1) [of "metric_step c m"] by (cases c) simp_all
  case 2 then show ?case using metric_step_counts [of c m] Cons.IH(2) [of "metric_step c m"] by (cases c) simp_all
  case 3 then show ?case using metric_step_counts [of c m] Cons.IH(3) [of "metric_step c m"] by (cases c) simp_all
  case 4 then show ?case using metric_step_counts [of c m] Cons.IH(4) [of "metric_step c m"] by (cases c) simp_all
  case 5 then show ?case using metric_step_counts [of c m] Cons.IH(5) [of "metric_step c m"] by (cases c) simp_all
qed simp_all

text \<open>the counters agree with each other.  After any sequence of recordings from an empty registry, \<open>runs_total\<close> is the number of runs recorded,
  and so are the sums over workers and over statuses; \<open>runs_success\<close> and \<open>runs_failed\<close> count the runs whose status text is
  one of the two of each kind, and together they never exceed the total.\<close>

theorem metrics_consistent:
  "let m = fold metric_step calls no_metrics in
     count_of (mt_counters m) ''runs_total'' = int (runs_in calls) \<and>
     total_of (mt_by_worker m) = int (runs_in calls) \<and> total_of (mt_by_status m) = int (runs_in calls) \<and>
     count_of (mt_counters m) ''runs_success'' = int (runs_ended [''SUCCESS'', ''PARTIAL_SUCCESS''] calls) \<and>
     count_of (mt_counters m) ''runs_failed'' = int (runs_ended [''FAILED'', ''BLOCKED''] calls) \<and>
     count_of (mt_counters m) ''runs_success'' + count_of (mt_counters m) ''runs_failed'' \<le> count_of (mt_counters m) ''runs_total''"
proof -
  have "runs_ended [''SUCCESS'', ''PARTIAL_SUCCESS''] calls + runs_ended [''FAILED'', ''BLOCKED''] calls \<le> runs_in calls"
  proof (induction calls)
    case (Cons c calls)
    then show ?case by (cases c) auto
  qed simp
  moreover have "count_of (mt_counters no_metrics) k = 0" "total_of (mt_by_worker no_metrics) = 0" "total_of (mt_by_status no_metrics) = 0" for k
    by (simp_all add: no_metrics_def count_of_def total_of_def)
  ultimately show ?thesis by (simp add: fold_counts Let_def)
qed

text \<open>a run recorded by its \<open>RunStatus\<close> member counts as neither a success nor a failure: \<open>str\<close> of the member is not the value
  the registry compares with, so only a caller that passes the plain text moves these two counters.\<close>

theorem member_status_counts_nothing:
  "count_of (mt_counters (record_run w (Member st) m)) ''runs_success'' = count_of (mt_counters m) ''runs_success'' \<and>
   count_of (mt_counters (record_run w (Member st) m)) ''runs_failed'' = count_of (mt_counters m) ''runs_failed'' \<and>
   count_of (mt_counters (record_run w (Member st) m)) ''runs_total'' = count_of (mt_counters m) ''runs_total'' + 1"
  by (simp add: record_run_def inc_def status_str_def Let_def)

end
