(* ===== verification/Git_Tools.thy ===== *)
theory Git_Tools
  imports Fs_Tools
begin

text \<open>
  \<open>sworker/tools/git.py\<close>: the helper that runs one git command in a confined repository, and the five tools over it.  What git
  does is a parameter (\<open>git_world\<close>): the outcome of a command may depend on every command run before it.  The commands are
  recorded, so that a theorem can say what ran, where and in which order.
\<close>

section \<open>Running git\<close>

datatype git_outcome =
    Git_Missing                                  \<comment> \<open>\<open>FileNotFoundError\<close>\<close>
  | Git_Timeout
  | Git_Done int string string                   \<comment> \<open>return code, output, error output\<close>

record git_cmd =
  gc_cwd :: string
  gc_argv :: "string list"
  gc_timeout :: int

type_synonym git_log = "git_cmd list"

text \<open>\<open>gw_run\<close> sees the commands so far, the one it answers last; \<open>gw_is_dir\<close> is \<open>os.path.isdir\<close>.\<close>

record git_world =
  gw_fs :: fsys
  gw_is_dir :: "string \<Rightarrow> bool"
  gw_run :: "git_log \<Rightarrow> git_outcome"

type_synonym git_run = "tool_context \<Rightarrow> doc \<Rightarrow> git_log \<Rightarrow> (error + tool_result) \<times> git_log"

text \<open>\<open>subprocess\<close> refuses an argument that is no string, before anything runs.\<close>

definition str_args :: "pyval list \<Rightarrow> string list option" where
  "str_args xs = (if list_all (\<lambda>v. v = VStr (val_str v)) xs then Some (map val_str xs) else None)"

definition git_result :: "tool_context \<Rightarrow> string \<Rightarrow> string list \<Rightarrow> int \<Rightarrow> git_outcome \<Rightarrow> tool_result" where
  "git_result c path argv timeout out = (case out of
       Git_Missing \<Rightarrow> tr_fail ''git is not installed'' []
     | Git_Timeout \<Rightarrow> tr_fail (''git timed out after '' @ int_str timeout @ ''s'') []
     | Git_Done code so se \<Rightarrow>
        (let (txt, trunc) = truncate_text (str_strip (so @ se)) (tc_max_output c) in
         (tr_plain (code = 0))\<lparr>tr_output := txt, tr_error := (if code = 0 then [] else ''git exit '' @ int_str code),
            tr_truncated := trunc,
            tr_data := [(''repo'', VStr path), (''argv'', strs argv), (''exit_code'', VInt code)]\<rparr>))"

definition git_call :: "git_world \<Rightarrow> tool_context \<Rightarrow> string \<Rightarrow> pyval list \<Rightarrow> int \<Rightarrow> git_log \<Rightarrow> (error + tool_result) \<times> git_log" where
  "git_call w c repo args timeout lg = (case resolve (gw_fs w) c True repo of
       Inl e \<Rightarrow> (Inl e, lg)
     | Inr path \<Rightarrow>
        (if \<not> gw_is_dir w (path_join path ''.git'') then (Inr (tr_fail (repo @ '' is not a git repository'') []), lg)
         else case str_args args of
             None \<Rightarrow> (Inl TypeError, lg)
           | Some argv \<Rightarrow>
              (let lg' = lg @ [\<lparr>gc_cwd = path, gc_argv = argv, gc_timeout = timeout\<rparr>]
               in (Inr (git_result c path argv timeout (gw_run w lg')), lg'))))"

definition repo_of :: "doc \<Rightarrow> string" where
  "repo_of args = val_str (get_with args ''repo'' (VStr ''.''))"

section \<open>The tools\<close>

definition git_tool :: "string \<Rightarrow> string \<Rightarrow> risk_level \<Rightarrow> doc \<Rightarrow> tool" where
  "git_tool n d rk sch = \<lparr>tool_name = n, tool_description = d, tool_schema = sch, tool_risk = rk, tool_reversible = True,
     tool_requires_approval = False, tool_permissions = [], tool_categories = []\<rparr>"

definition str_field :: "string \<Rightarrow> string \<Rightarrow> string \<times> doc" where
  "str_field k dflt = (k, typed ''string'' @ [(''default'', VStr dflt)])"

definition git_status_tool :: tool where
  "git_status_tool = git_tool ''git.status'' ''Show git status --short for a repository in the boundary.'' Read
     (schema_of [str_field ''repo'' ''.''] [])"

definition git_diff_tool :: tool where
  "git_diff_tool = git_tool ''git.diff'' ''Show a git diff (optionally --staged).'' Read
     (schema_of [str_field ''repo'' ''.'', (''staged'', typed ''boolean'' @ [(''default'', VBool False)]), str_field ''path'' []] [])"

definition git_branch_tool :: tool where
  "git_branch_tool = git_tool ''git.branch'' ''Create or list branches. Creating a branch is reversible.'' Reversible
     (schema_of [str_field ''repo'' ''.'', str_field ''name'' []] [])"

definition git_commit_tool :: tool where
  "git_commit_tool = git_tool ''git.commit'' ''Stage given paths and commit. Reversible (history is retained).'' Reversible
     (schema_of [str_field ''repo'' ''.'', (''message'', typed ''string''), (''paths'', typed ''array'' @ [(''default'', VList [])])] [''message''])"

definition git_push_tool :: tool where
  "git_push_tool = (git_tool ''git.push'' ''Push to a remote. Leaves the machine -- EXTERNAL, always approved.'' External
     (schema_of [str_field ''repo'' ''.'', str_field ''remote'' ''origin'', str_field ''branch'' []] []))
     \<lparr>tool_reversible := False, tool_requires_approval := True\<rparr>"

definition GIT_TOOLS :: "tool list" where
  "GIT_TOOLS = [git_status_tool, git_diff_tool, git_branch_tool, git_commit_tool, git_push_tool]"

definition git_status :: "git_world \<Rightarrow> git_run" where
  "git_status w c args = git_call w c (repo_of args) [VStr ''status'', VStr ''--short'', VStr ''--branch''] 30"

definition git_diff :: "git_world \<Rightarrow> git_run" where
  "git_diff w c args = git_call w c (repo_of args)
     ([VStr ''diff''] @ (if get_truthy args ''staged'' then [VStr ''--staged''] else [])
       @ (if get_truthy args ''path'' then [VStr ''--'', get_with args ''path'' VNone] else [])) 30"

definition git_branch :: "git_world \<Rightarrow> git_run" where
  "git_branch w c args = (let nm = get_or args ''name'' (VStr []) in
     git_call w c (repo_of args) (if truthy nm then [VStr ''checkout'', VStr ''-b'', nm] else [VStr ''branch'', VStr ''--list'']) 30)"

definition git_commit :: "git_world \<Rightarrow> git_run" where
  "git_commit w c args lg =
     (let paths = (if get_list args ''paths'' = [] then [VStr ''-A''] else get_list args ''paths'') in
      case git_call w c (repo_of args) (VStr ''add'' # paths) 30 lg of
        (Inl e, log1) \<Rightarrow> (Inl e, log1)
      | (Inr r, log1) \<Rightarrow>
         (if \<not> tr_ok r then (Inr r, log1)
          else git_call w c (repo_of args) [VStr ''commit'', VStr ''-m'', get_with args ''message'' VNone] 30 log1))"

definition git_push :: "git_world \<Rightarrow> git_run" where
  "git_push w c args = git_call w c (repo_of args)
     ([VStr ''push'', get_with args ''remote'' (VStr ''origin'')] @ (if get_truthy args ''branch'' then [get_with args ''branch'' VNone] else [])) 120"

definition git_run_tool :: "git_world \<Rightarrow> string \<Rightarrow> git_run" where
  "git_run_tool w n = (if n = ''git.status'' then git_status w else if n = ''git.diff'' then git_diff w
     else if n = ''git.branch'' then git_branch w else if n = ''git.commit'' then git_commit w
     else if n = ''git.push'' then git_push w else (\<lambda>c args lg. (Inl ToolError, lg)))"

definition commit_summary :: "env \<Rightarrow> doc \<Rightarrow> string" where
  "commit_summary e args = ''git commit in '' @ py_str e (get_with args ''repo'' (VStr ''.'')) @ '': '' @ py_repr e (get_with args ''message'' VNone)"

definition push_summary :: "env \<Rightarrow> doc \<Rightarrow> string" where
  "push_summary e args = ''git push '' @ py_str e (get_with args ''remote'' (VStr ''origin'')) @ '' '' @ py_str e (get_with args ''branch'' (VStr []))
     @ '' (publishes off-machine)''"

section \<open>What runs\<close>

text \<open>The first words of the commands a tool may run, in order.\<close>

definition git_plan :: "string \<Rightarrow> string list" where
  "git_plan n = (if n = ''git.status'' then [''status''] else if n = ''git.diff'' then [''diff'']
     else if n = ''git.branch'' then [''checkout'', ''branch''] else if n = ''git.commit'' then [''add'', ''commit''] else [''push''])"

definition git_confined :: "git_world \<Rightarrow> tool_context \<Rightarrow> string \<Rightarrow> git_cmd \<Rightarrow> bool" where
  "git_confined w c repo g \<longleftrightarrow> resolve (gw_fs w) c True repo = Inr (gc_cwd g) \<and> gw_is_dir w (path_join (gc_cwd g) ''.git'') \<and>
     (\<exists>rt\<in>set (tc_fs_roots c). inside_root (gw_fs w) (gc_cwd g) rt)"

lemma git_names: "map tool_name GIT_TOOLS = [''git.status'', ''git.diff'', ''git.branch'', ''git.commit'', ''git.push'']"
  by (simp add: GIT_TOOLS_def git_tool_def git_status_tool_def git_diff_tool_def git_branch_tool_def git_commit_tool_def git_push_tool_def)

lemma str_args_head: "str_args (VStr a # xs) = Some argv \<Longrightarrow> \<exists>ys. argv = a # ys"
  by (auto simp: str_args_def split: if_splits)

text \<open>One call runs at most one command, confined, with the given arguments; an answer that succeeded means that it ran and returned 0.\<close>

lemma git_call_ran:
  assumes "git_call w c repo (VStr a # args) t lg = (r, lg')"
  shows "\<exists>new. lg' = lg @ new \<and> length new \<le> 1 \<and> (\<forall>g\<in>set new. git_confined w c repo g \<and> hd (gc_argv g) = a \<and> gc_argv g \<noteq> []) \<and>
    (\<forall>x. r = Inr x \<and> tr_ok x \<longrightarrow> new \<noteq> [] \<and> (\<exists>so se. gw_run w lg' = Git_Done 0 so se))"
proof -
  consider (none) "lg' = lg" "\<forall>x. r = Inr x \<longrightarrow> \<not> tr_ok x"
    | (one) path argv where "resolve (gw_fs w) c True repo = Inr path" "gw_is_dir w (path_join path ''.git'')" "str_args (VStr a # args) = Some argv"
        "lg' = lg @ [\<lparr>gc_cwd = path, gc_argv = argv, gc_timeout = t\<rparr>]" "r = Inr (git_result c path argv t (gw_run w lg'))"
    using assms by (auto simp: git_call_def Let_def tr_fail_def tr_plain_def split: sum.splits if_splits option.splits)
  then show ?thesis
  proof cases
    case none
    then show ?thesis by auto
  next
    case one
    have ok: "tr_ok (git_result c path argv t out) \<Longrightarrow> \<exists>so se. out = Git_Done 0 so se" for out
      by (cases out) (auto simp: git_result_def tr_fail_def tr_plain_def Let_def case_prod_unfold)
    have "git_confined w c repo \<lparr>gc_cwd = path, gc_argv = argv, gc_timeout = t\<rparr>"
      using one(1,2) resolve_inside [OF one(1)] by (simp add: git_confined_def)
    with one(4,5) str_args_head [OF one(3)] ok show ?thesis by auto
  qed
qed


definition demo_git :: git_world where
  "demo_git = \<lparr>gw_fs = demo_fs, gw_is_dir = (\<lambda>p. p = ''/ws/.git''), gw_run = (\<lambda>lg. Git_Done 0 ''ok'' [])\<rparr>"


end
