(* ===== verification/Browser.thy ===== *)
theory Browser
  imports Fs_Tools Connectors Message_Tool
begin

text \<open>
  \<open>sworker/tools/browser.py\<close>: the backend port, the URL allow-list, the credential resolution and the five browser tools.  A backend
  is code outside the repository, so what it answers is a parameter that may depend on every call made so far; it is assumed not to
  raise \<open>ToolError\<close>, an exception of this package.  The calls are recorded.  Lemmas: what a backend is ever asked to do.
\<close>

section \<open>Backends\<close>

datatype browser_call =
    Set_Private bool
  | Set_Creds "(string \<times> string) list"
  | Open_Url string int
  | Page_Text
  | Click_On string
  | Type_Into string string
  | Download_To string string

type_synonym browser_log = "browser_call list"
type_synonym 'a bop = "(browser_log, 'a) op"

record browser_backend =
  bb_name :: string
  bb_available :: bool
  bb_answer :: "browser_log \<Rightarrow> error + pyval"

definition null_browser :: browser_backend where
  "null_browser = \<lparr>bb_name = ''null'', bb_available = False, bb_answer = (\<lambda>_. Inl RuntimeError)\<rparr>"

definition ask :: "browser_backend \<Rightarrow> browser_call \<Rightarrow> pyval bop" where
  "ask b x = (\<lambda>lg. (bb_answer b (lg @ [x]), lg @ [x]))"

text \<open>\<open>meta or {}\<close>, and \<open>{**d, **meta}\<close>.\<close>

definition merge_meta :: "doc \<Rightarrow> pyval \<Rightarrow> doc" where
  "merge_meta d m = foldl (\<lambda>acc (k, v). dset acc k v) d (val_doc m)"

section \<open>Allow-list and credentials\<close>

definition web_scheme :: "string \<Rightarrow> bool" where
  "web_scheme url \<longleftrightarrow> starts_with (str_lower url) ''http://'' \<or> starts_with (str_lower url) ''https://''"

definition url_allowed :: "compile \<Rightarrow> string \<Rightarrow> string list \<Rightarrow> error + bool" where
  "url_allowed cp url allow =
     (if allow = [] then Inr False else if \<not> web_scheme url then Inr False else any_pattern cp url allow)"

text \<open>The credentials of the page, the text of the \<open>ToolError\<close>, or what the resolver itself raised.\<close>

datatype creds_outcome = Creds "(string \<times> string) list" | Refused string | Raised error

fun resolve_each :: "env \<Rightarrow> (error \<Rightarrow> string) \<Rightarrow> resolver \<Rightarrow> (string \<times> string) list \<Rightarrow> string list \<Rightarrow> creds_outcome" where
  "resolve_each e exc f out [] = Creds out"
| "resolve_each e exc f out (r # rs) = (case f r of
       Inl err \<Rightarrow> (if err = ToolError then Refused (exc err) else Raised err)
     | Inr None \<Rightarrow> Refused (''could not resolve browser credential ref '' @ py_repr e (VStr r) @ '': no such secret'')
     | Inr (Some v) \<Rightarrow> resolve_each e exc f (dset out r v) rs)"

definition browser_creds :: "env \<Rightarrow> (error \<Rightarrow> string) \<Rightarrow> resolver option \<Rightarrow> tool_context \<Rightarrow> creds_outcome" where
  "browser_creds e exc res c =
     (if tc_browser_credential_refs c = [] then Creds []
      else case res of
          None \<Rightarrow> Refused ''this worker declares browser credentials but no secret store is wired to the engine (credentials cannot be resolved)''
        | Some f \<Rightarrow> resolve_each e exc f [] (tc_browser_credential_refs c))"

section \<open>The tools\<close>

definition browser_tool :: "string \<Rightarrow> string \<Rightarrow> doc \<Rightarrow> bool \<Rightarrow> string list \<Rightarrow> tool" where
  "browser_tool n d sch revb ctgs = \<lparr>tool_name = n, tool_description = d, tool_schema = sch, tool_risk = External, tool_reversible = revb,
     tool_requires_approval = False, tool_permissions = [], tool_categories = ctgs\<rparr>"

definition described :: "string \<Rightarrow> doc" where
  "described d = typed ''string'' @ [(''description'', VStr d)]"

definition browser_open_tool :: tool where
  "browser_open_tool = browser_tool ''browser.open'' ''Open a URL in the configured browser backend and return page text. URL allow-list enforced.''
     (schema_of [(''url'', typed ''string''), (''timeout'', typed ''integer'' @ [(''default'', VInt 30)])] [''url'']) True [''network'']"

definition browser_click_tool :: tool where
  "browser_click_tool = browser_tool ''browser.click'' ''Click an element in the open page. Consequential: EXTERNAL.''
     (schema_of [(''selector'', typed ''string'')] [''selector'']) False []"

definition browser_type_tool :: tool where
  "browser_type_tool = browser_tool ''browser.type'' ''Type into an element in the open page.''
     (schema_of [(''selector'', typed ''string''), (''text'', typed ''string'')] [''selector'', ''text'']) False []"

definition browser_download_tool :: tool where
  "browser_download_tool = browser_tool ''browser.download''
     ''Download a URL into the worker's filesystem boundary. Default-deny: only permitted when the worker enables browser_downloads; the destination is confined to the fs roots.''
     (schema_of [(''url'', typed ''string''), (''dest'', described ''path inside the fs boundary'')] [''url'', ''dest'']) True [''network'']"

definition browser_upload_tool :: tool where
  "browser_upload_tool = browser_tool ''browser.upload''
     ''Upload a file from the worker's filesystem boundary to the open page. Default-deny: only permitted when the worker enables browser_uploads; the source is confined to the fs boundary.''
     (schema_of [(''selector'', described ''file input selector''), (''src'', described ''path inside the fs boundary'')] [''selector'', ''src'']) False []"

definition BROWSER_TOOLS :: "tool list" where
  "BROWSER_TOOLS = [browser_open_tool, browser_click_tool, browser_type_tool, browser_download_tool, browser_upload_tool]"

text \<open>What a call depends on beside its arguments.\<close>

record browser_world =
  bw_env :: env
  bw_backend :: browser_backend
  bw_compile :: compile
  bw_resolver :: "resolver option"
  bw_fs :: fsys
  bw_exc :: "error \<Rightarrow> string"      \<comment> \<open>\<open>str(exc)\<close>\<close>

type_synonym browser_run = "browser_world \<Rightarrow> tool_context \<Rightarrow> doc \<Rightarrow> tool_result bop"

definition backend_missing :: "env \<Rightarrow> browser_backend \<Rightarrow> tool_result" where
  "backend_missing e b = tr_fail (''browser backend '' @ py_repr e (VStr (bb_name b)) @ '' is not available. No page was fetched and no content is being reported.'')
     [(''backend'', VStr (bb_name b))]"

definition guarded :: "browser_world \<Rightarrow> tool_result bop \<Rightarrow> tool_result bop" where
  "guarded w m = (if bb_available (bw_backend w) then m else op_return (backend_missing (bw_env w) (bw_backend w)))"

definition open_denied :: "env \<Rightarrow> tool_context \<Rightarrow> string \<Rightarrow> tool_result" where
  "open_denied e c url = tr_fail (''url '' @ py_repr e (VStr url) @ '' is not on this worker's browser_allow list (''
       @ (if tc_browser_allow c = [] then ''empty: all URLs denied'' else py_str e (strs (tc_browser_allow c))) @ '')'')
     [(''url'', VStr url), (''allowed'', VBool False)]"

definition opened :: "tool_context \<Rightarrow> string \<Rightarrow> (string \<times> string) list \<Rightarrow> pyval \<Rightarrow> string \<Rightarrow> tool_result" where
  "opened c url creds meta page = (let (txt, trunc) = truncate_text page (tc_max_output c) in
     (tr_plain True)\<lparr>tr_output := txt, tr_truncated := trunc,
       tr_data := merge_meta [(''url'', VStr url), (''allowed'', VBool True), (''private_session'', VBool (tc_browser_private_session c)),
         (''credentials_injected'', strs (sort (map fst creds)))] meta,
       tr_evidence := [evidence_of url (take 400 txt)]\<rparr>)"

definition navigate :: "browser_world \<Rightarrow> tool_context \<Rightarrow> doc \<Rightarrow> (string \<times> string) list \<Rightarrow> tool_result bop" where
  "navigate w c args creds = (let url = get_str args ''url'' in
     op_bind (op_lift (py_int (get_with args ''timeout'' (VInt (tc_browser_timeout c))))) (\<lambda>t.
       op_bind (ask (bw_backend w) (Open_Url url (min t (tc_browser_timeout c)))) (\<lambda>meta.
         op_bind (ask (bw_backend w) Page_Text) (\<lambda>page. op_return (opened c url creds meta (val_str page))))))"

definition browser_open :: browser_run where
  "browser_open w c args = guarded w (let url = get_str args ''url'' in
     op_bind (op_lift (url_allowed (bw_compile w) url (tc_browser_allow c))) (\<lambda>ok.
       if \<not> ok then op_return (open_denied (bw_env w) c url)
       else op_bind (ask (bw_backend w) (Set_Private (tc_browser_private_session c))) (\<lambda>_.
         case browser_creds (bw_env w) (bw_exc w) (bw_resolver w) c of
           Raised e \<Rightarrow> op_raise e
         | Refused msg \<Rightarrow> op_return (tr_fail msg [(''url'', VStr url)])
         | Creds cs \<Rightarrow>
            (if cs = [] then navigate w c args []
             else op_bind (ask (bw_backend w) (Set_Creds cs)) (\<lambda>_. navigate w c args cs)))))"

definition answered :: "pyval \<Rightarrow> tool_result" where
  "answered v = (tr_plain True)\<lparr>tr_data := val_doc v\<rparr>"

definition browser_click :: browser_run where
  "browser_click w c args = guarded w (op_bind (ask (bw_backend w) (Click_On (get_str args ''selector''))) (\<lambda>v. op_return (answered v)))"

definition browser_type :: browser_run where
  "browser_type w c args = guarded w
     (op_bind (ask (bw_backend w) (Type_Into (get_str args ''selector'') (get_str args ''text''))) (\<lambda>v. op_return (answered v)))"

definition download_to :: "browser_world \<Rightarrow> string \<Rightarrow> string \<Rightarrow> tool_result bop" where
  "download_to w url dest = (\<lambda>lg. case ask (bw_backend w) (Download_To url dest) lg of
       (Inl e, lg') \<Rightarrow> (if e = RuntimeError then (Inr (tr_fail (''download failed: '' @ bw_exc w e) [(''url'', VStr url)]), lg') else (Inl e, lg'))
     | (Inr m, lg') \<Rightarrow> (Inr ((tr_plain True)\<lparr>tr_output := ''downloaded '' @ url @ '' -> '' @ dest,
          tr_data := merge_meta [(''url'', VStr url), (''dest'', VStr dest), (''allowed'', VBool True)] m\<rparr>), lg'))"

definition browser_download :: browser_run where
  "browser_download w c args = guarded w
     (if \<not> tc_browser_downloads c
      then op_return (tr_fail ''browser downloads are disabled for this worker (browser_downloads: false)'' [(''allowed'', VBool False)])
      else let url = get_str args ''url'' in
        op_bind (op_lift (url_allowed (bw_compile w) url (tc_browser_allow c))) (\<lambda>ok.
          if \<not> ok then op_return (tr_fail (''download url '' @ py_repr (bw_env w) (VStr url) @ '' is not on this worker's browser_allow list'')
              [(''url'', VStr url), (''allowed'', VBool False)])
          else case resolve (bw_fs w) c False (get_str args ''dest'') of
              Inl e \<Rightarrow> op_return (tr_fail (bw_exc w e) [(''allowed'', VBool False)])
            | Inr dest \<Rightarrow> download_to w url dest))"

definition upload_note :: string where
  "upload_note = ''requires an open page whose url is on browser_allow''"

definition browser_upload :: browser_run where
  "browser_upload w c args = guarded w
     (if \<not> tc_browser_uploads c
      then op_return (tr_fail ''browser uploads are disabled for this worker (browser_uploads: false)'' [(''allowed'', VBool False)])
      else case resolve (bw_fs w) c True (get_str args ''src'') of
          Inl e \<Rightarrow> op_return (tr_fail (bw_exc w e) [(''allowed'', VBool False)])
        | Inr src \<Rightarrow> op_return ((tr_plain True)\<lparr>tr_output := ''staged upload of '' @ src,
            tr_data := [(''selector'', VStr (get_str args ''selector'')), (''src'', VStr src), (''allowed'', VBool True), (''note'', VStr upload_note)]\<rparr>))"

definition open_summary :: "env \<Rightarrow> doc \<Rightarrow> string" where
  "open_summary e args = ''open browser at '' @ py_str e (get_with args ''url'' VNone)"

definition download_summary :: "env \<Rightarrow> doc \<Rightarrow> string" where
  "download_summary e args = ''browser download '' @ py_str e (get_with args ''url'' VNone) @ '' -> '' @ py_str e (get_with args ''dest'' VNone)"

definition upload_summary :: "env \<Rightarrow> doc \<Rightarrow> string" where
  "upload_summary e args = ''browser upload '' @ py_str e (get_with args ''src'' VNone) @ '' via '' @ py_str e (get_with args ''selector'' VNone)"

definition browser_run_tool :: "string \<Rightarrow> browser_run" where
  "browser_run_tool n = (if n = ''browser.open'' then browser_open else if n = ''browser.click'' then browser_click
     else if n = ''browser.type'' then browser_type else if n = ''browser.download'' then browser_download
     else if n = ''browser.upload'' then browser_upload else (\<lambda>w c args. op_raise ToolError))"

section \<open>What a backend is asked to do\<close>

definition complete_creds :: "browser_world \<Rightarrow> tool_context \<Rightarrow> (string \<times> string) list \<Rightarrow> bool" where
  "complete_creds w c cs \<longleftrightarrow> set (dkeys cs) = set (tc_browser_credential_refs c) \<and>
     (\<exists>f. bw_resolver w = Some f \<and> (\<forall>(r, v)\<in>set cs. f r = Inr (Some v)))"

text \<open>\<open>permitted\<close>: the calls that the worker's configuration allows; \<open>before\<close> are the calls of the same run so far.\<close>

definition permitted :: "browser_world \<Rightarrow> tool_context \<Rightarrow> browser_log \<Rightarrow> browser_call \<Rightarrow> bool" where
  "permitted w c before x = (case x of
       Open_Url url t \<Rightarrow> url_allowed (bw_compile w) url (tc_browser_allow c) = Inr True \<and> t \<le> tc_browser_timeout c \<and>
         before \<noteq> [] \<and> hd before = Set_Private (tc_browser_private_session c) \<and>
         (tc_browser_credential_refs c \<noteq> [] \<longrightarrow> (\<exists>cs. Set_Creds cs \<in> set before))
     | Set_Creds cs \<Rightarrow> complete_creds w c cs
     | Download_To url dest \<Rightarrow> tc_browser_downloads c \<and> url_allowed (bw_compile w) url (tc_browser_allow c) = Inr True \<and>
         (\<exists>rt\<in>set (tc_fs_roots c). inside_root (bw_fs w) dest rt)
     | Set_Private p \<Rightarrow> p = tc_browser_private_session c
     | _ \<Rightarrow> True)"

fun all_permitted :: "browser_world \<Rightarrow> tool_context \<Rightarrow> browser_log \<Rightarrow> browser_log \<Rightarrow> bool" where
  "all_permitted w c before [] = True"
| "all_permitted w c before (x # xs) = (permitted w c before x \<and> all_permitted w c (before @ [x]) xs)"

lemma resolve_each_keys: "resolve_each e exc f out rs = Creds cs \<Longrightarrow> set (dkeys cs) = set (dkeys out) \<union> set rs"
  by (induction rs arbitrary: out) (auto simp: dkeys_dset split: sum.splits option.splits if_splits)

lemma resolve_each_values:
  "resolve_each e exc f out rs = Creds cs \<Longrightarrow> \<forall>(r, v)\<in>set out. f r = Inr (Some v) \<Longrightarrow> \<forall>(r, v)\<in>set cs. f r = Inr (Some v)"
proof (induction rs arbitrary: out)
  case (Cons r rs)
  then obtain v where v: "f r = Inr (Some v)" "resolve_each e exc f (dset out r v) rs = Creds cs"
    by (auto split: sum.splits option.splits if_splits)
  have "\<forall>(r', v')\<in>set (dset out r v). f r' = Inr (Some v')" using Cons.prems(2) v(1) set_dset_sub [of out r v] by blast
  with Cons.IH [OF v(2)] show ?case by blast
qed auto

lemma browser_creds_complete:
  assumes "browser_creds e exc res c = Creds cs"
  shows "set (dkeys cs) = set (tc_browser_credential_refs c) \<and> (cs \<noteq> [] \<longrightarrow> (\<exists>f. res = Some f \<and> (\<forall>(r, v)\<in>set cs. f r = Inr (Some v))))"
proof (cases "tc_browser_credential_refs c = []")
  case True
  with assms show ?thesis by (simp add: browser_creds_def)
next
  case False
  with assms obtain f where f: "res = Some f" "resolve_each e exc f [] (tc_browser_credential_refs c) = Creds cs"
    by (auto simp: browser_creds_def split: option.splits)
  from resolve_each_keys [OF f(2)] resolve_each_values [OF f(2)] f(1) show ?thesis by simp
qed

lemma no_creds_declared: "browser_creds e exc res c = Creds [] \<Longrightarrow> tc_browser_credential_refs c = []"
  using browser_creds_complete [of e exc res c "[]"] by simp

text \<open>The run of a piece of a tool appends calls that are all permitted after those before it.\<close>

definition behaves :: "browser_world \<Rightarrow> tool_context \<Rightarrow> browser_log \<Rightarrow> 'a bop \<Rightarrow> bool" where
  "behaves w c before m \<longleftrightarrow> (\<forall>lg r lg'. m lg = (r, lg') \<longrightarrow> (\<exists>new. lg' = lg @ new \<and> all_permitted w c before new))"

named_theorems behaves_intros \<open>rules that follow the syntax of a tool\<close>

lemma behaves_done [behaves_intros]: "behaves w c before (op_return x)" "behaves w c before (op_raise e)" "behaves w c before (op_lift q)"
  by (auto simp: behaves_def op_return_def op_raise_def op_lift_def)

lemma behaves_ask [behaves_intros]:
  assumes "permitted w c before x" and "\<And>v. behaves w c (before @ [x]) (f v)"
  shows "behaves w c before (op_bind (ask b x) f)"
proof -
  have "\<exists>new. lg' = lg @ new \<and> all_permitted w c before new" if run: "op_bind (ask b x) f lg = (r, lg')" for lg r lg'
  proof (cases "bb_answer b (lg @ [x])")
    case (Inl e)
    with run have "lg' = lg @ [x]" by (simp add: op_bind_apply ask_def)
    with assms(1) show ?thesis by simp
  next
    case (Inr v)
    with run have "f v (lg @ [x]) = (r, lg')" by (simp add: op_bind_apply ask_def)
    with assms(2) [of v] obtain new where "lg' = (lg @ [x]) @ new" "all_permitted w c (before @ [x]) new"
      unfolding behaves_def by blast
    with assms(1) show ?thesis by (intro exI [of _ "x # new"]) simp
  qed
  then show ?thesis unfolding behaves_def by blast
qed

lemma behaves_lift [behaves_intros]:
  "(\<And>v. q = Inr v \<Longrightarrow> behaves w c before (f v)) \<Longrightarrow> behaves w c before (op_bind (op_lift q) f)"
  by (cases q) (auto simp: behaves_def op_bind_apply)

lemma behaves_guarded: "behaves w c [] m \<Longrightarrow> behaves w c [] (guarded w m)"
  by (simp add: guarded_def behaves_done)

lemma navigate_behaves:
  assumes "url_allowed (bw_compile w) (get_str args ''url'') (tc_browser_allow c) = Inr True"
    and "before \<noteq> []" "hd before = Set_Private (tc_browser_private_session c)"
    and "tc_browser_credential_refs c \<noteq> [] \<longrightarrow> (\<exists>cs. Set_Creds cs \<in> set before)"
  shows "behaves w c before (navigate w c args creds)"
  unfolding navigate_def Let_def using assms by (intro behaves_intros) (simp_all add: permitted_def)

lemma open_behaves: "behaves w c [] (browser_open w c args)"
proof -
  let ?p = "Set_Private (tc_browser_private_session c)"
  let ?rest = "case browser_creds (bw_env w) (bw_exc w) (bw_resolver w) c of
           Raised e \<Rightarrow> op_raise e
         | Refused msg \<Rightarrow> op_return (tr_fail msg [(''url'', VStr (get_str args ''url''))])
         | Creds cs \<Rightarrow> (if cs = [] then navigate w c args [] else op_bind (ask (bw_backend w) (Set_Creds cs)) (\<lambda>_. navigate w c args cs))"
  have rest: "behaves w c [?p] ?rest" if ok: "url_allowed (bw_compile w) (get_str args ''url'') (tc_browser_allow c) = Inr True"
  proof (cases "browser_creds (bw_env w) (bw_exc w) (bw_resolver w) c")
    case (Creds cs)
    show ?thesis
    proof (cases "cs = []")
      case True
      with Creds no_creds_declared have "tc_browser_credential_refs c = []" by metis
      with ok Creds True show ?thesis by (simp add: navigate_behaves)
    next
      case False
      with browser_creds_complete [OF Creds] have "permitted w c [?p] (Set_Creds cs)" by (auto simp: permitted_def complete_creds_def)
      with ok Creds False show ?thesis by (auto intro!: behaves_intros navigate_behaves)
    qed
  qed (simp_all add: behaves_done)
  show ?thesis
    unfolding browser_open_def Let_def
    by (intro behaves_guarded behaves_lift) (auto intro!: behaves_intros rest simp: permitted_def)
qed

lemma download_behaves: "behaves w c [] (browser_download w c args)"
proof -
  let ?url = "get_str args ''url''"
  have "behaves w c [] (download_to w ?url dest)" if "permitted w c [] (Download_To ?url dest)" for dest
    using that by (auto simp: behaves_def download_to_def ask_def split: sum.splits if_splits)
  moreover have "permitted w c [] (Download_To ?url dest)"
    if "resolve (bw_fs w) c False (get_str args ''dest'') = Inr dest" "tc_browser_downloads c" "url_allowed (bw_compile w) ?url (tc_browser_allow c) = Inr True" for dest
    using that resolve_inside by (simp add: permitted_def)
  ultimately have "behaves w c [] (case resolve (bw_fs w) c False (get_str args ''dest'') of
      Inl e \<Rightarrow> op_return (tr_fail (bw_exc w e) [(''allowed'', VBool False)]) | Inr dest \<Rightarrow> download_to w ?url dest)"
    if "tc_browser_downloads c" "url_allowed (bw_compile w) ?url (tc_browser_allow c) = Inr True"
    using that by (cases "resolve (bw_fs w) c False (get_str args ''dest'')") (simp_all add: behaves_done)
  then show ?thesis
    unfolding browser_download_def Let_def by (intro behaves_guarded) (auto intro!: behaves_lift behaves_done)
qed

lemma upload_asks_nothing: "snd (browser_upload w c args lg) = lg"
  by (simp add: browser_upload_def guarded_def split: sum.split)

lemma click_type_behave: "behaves w c [] (browser_click w c args)" "behaves w c [] (browser_type w c args)" "behaves w c [] (browser_upload w c args)"
proof -
  show "behaves w c [] (browser_click w c args)" "behaves w c [] (browser_type w c args)"
    unfolding browser_click_def browser_type_def by (intro behaves_guarded behaves_ask behaves_done; simp add: permitted_def)+
  show "behaves w c [] (browser_upload w c args)"
    unfolding behaves_def by (metis all_permitted.simps(1) append_Nil2 snd_conv upload_asks_nothing)
qed

lemma missing_backend: "\<not> bb_available (bw_backend w) \<Longrightarrow> guarded w m lg = (Inr (backend_missing (bw_env w) (bw_backend w)), lg)"
  by (simp add: guarded_def)

text \<open>the worker's configuration holds whatever browser is plugged in.  Every call that a browser tool makes to the backend is permitted by the worker's configuration: a page is
  opened only if its URL is http or https and matches the allow-list, within the worker's time limit, after the session mode was set and, when
  credentials are declared, after all of them were; credentials are sent only complete and as the secret store gave them; a download needs the switch, the
  allow-list and a destination inside a root; an upload asks nothing; and without a backend nothing is asked and nothing is claimed.\<close>

theorem browser_calls_permitted:
  assumes "browser_run_tool n w c args lg = (r, lg')"
  shows "\<exists>new. lg' = lg @ new \<and> all_permitted w c [] new \<and> (n = ''browser.upload'' \<longrightarrow> new = []) \<and>
    (\<not> bb_available (bw_backend w) \<longrightarrow> new = [] \<and> (\<forall>x. r = Inr x \<longrightarrow> \<not> tr_ok x))"
proof -
  have "behaves w c [] (browser_run_tool n w c args)"
    by (simp add: browser_run_tool_def open_behaves download_behaves click_type_behave behaves_done)
  then obtain new where new: "lg' = lg @ new" "all_permitted w c [] new"
    using assms unfolding behaves_def by blast
  have "n = ''browser.upload'' \<Longrightarrow> lg' = lg"
    using assms upload_asks_nothing [of w c args lg] by (simp add: browser_run_tool_def)
  moreover have "lg' = lg \<and> (\<forall>x. r = Inr x \<longrightarrow> \<not> tr_ok x)" if "\<not> bb_available (bw_backend w)"
    using assms missing_backend [OF that]
    by (auto simp: browser_run_tool_def browser_open_def browser_click_def browser_type_def browser_download_def browser_upload_def Let_def
        backend_missing_def tr_fail_def tr_plain_def split: if_splits)
  ultimately show ?thesis using new by (intro exI [of _ new]) simp
qed

definition demo_browser :: browser_world where
  "demo_browser = \<lparr>bw_env = demo_env, bw_backend = \<lparr>bb_name = ''demo'', bb_available = True, bb_answer = (\<lambda>_. Inr (VStr ''page''))\<rparr>,
     bw_compile = demo_compile, bw_resolver = Some (\<lambda>r. Inr (if r = ''crm'' then Some ''pw'' else None)), bw_fs = demo_fs, bw_exc = (\<lambda>_. [])\<rparr>"

theorem browser_calls_permitted_witness:
  "\<exists>r. browser_run_tool ''browser.open'' demo_browser (demo_ctx\<lparr>tc_browser_allow := [''example''], tc_browser_credential_refs := [''crm'']\<rparr>)
      [(''url'', VStr ''https://example.com''), (''timeout'', VInt 90)] [] =
      (Inr r, [Set_Private True, Set_Creds [(''crm'', ''pw'')], Open_Url ''https://example.com'' 30, Page_Text]) \<and> tr_ok r"
proof -
  let ?c = "demo_ctx\<lparr>tc_browser_allow := [''example''], tc_browser_credential_refs := [''crm'']\<rparr>"
  let ?run = "browser_run_tool ''browser.open'' demo_browser ?c [(''url'', VStr ''https://example.com''), (''timeout'', VInt 90)] []"
  have e: "\<not> isl (fst ?run)" "tr_ok (projr (fst ?run))"
    "snd ?run = [Set_Private True, Set_Creds [(''crm'', ''pw'')], Open_Url ''https://example.com'' 30, Page_Text]" by code_simp+
  obtain r lg' where run: "?run = (r, lg')" by fastforce
  from browser_calls_permitted [OF run] have "all_permitted demo_browser ?c [] lg'" by simp
  with e run show ?thesis by (cases r) auto
qed

end
