(* ===== verification/Inference.thy ===== *)
theory Inference
  imports Fs_Tools Urls
begin

text \<open>
  \<open>sworker/inference.py\<close>: the built-in HTTP client, the extraction of a JSON value from a model's answer, and the layer that refuses a
  remote endpoint unless it is allowed.  The HTTP exchange and \<open>json.loads\<close> are parameters (\<open>llm_world\<close>).  Every request is recorded with its URL.
  The client of Hermes Atlas, a package outside the repository, is not modelled: these are the definitions used when it is absent.
\<close>

definition DEFAULT_URL :: string where
  "DEFAULT_URL = ''http://localhost:8080/v1''"

definition LOCAL_HOSTS :: "string list" where
  "LOCAL_HOSTS = [''localhost'', ''127.0.0.1'', ''::1'', ''0.0.0.0'', ''host.docker.internal'']"

section \<open>Extracting JSON\<close>

text \<open>The number of characters up to the one that closes the first bracket: \<open>depth\<close> counts the brackets, \<open>ins\<close> and \<open>esc\<close> follow strings.\<close>

fun scan_value :: "char \<Rightarrow> char \<Rightarrow> int \<Rightarrow> bool \<Rightarrow> bool \<Rightarrow> string \<Rightarrow> nat option" where
  "scan_value opener closer depth ins esc [] = None"
| "scan_value opener closer depth ins esc (ch # s) =
     (if ins
      then map_option Suc (if esc then scan_value opener closer depth True False s
                           else if ch = CHR 0x5C then scan_value opener closer depth True True s
                           else scan_value opener closer depth (ch \<noteq> CHR 0x22) False s)
      else if ch = CHR 0x22 then map_option Suc (scan_value opener closer depth True esc s)
      else if ch = opener then map_option Suc (scan_value opener closer (depth + 1) ins esc s)
      else if ch = closer then (if depth - 1 = 0 then Some 1 else map_option Suc (scan_value opener closer (depth - 1) ins esc s))
      else map_option Suc (scan_value opener closer depth ins esc s))"

definition first_value :: "char \<Rightarrow> char \<Rightarrow> string \<Rightarrow> string option" where
  "first_value opener closer raw = (let s = dropWhile (\<lambda>c. c \<noteq> opener) raw in
     if s = [] then None else map_option (\<lambda>n. take n s) (scan_value opener closer 0 False False s))"

definition coerce_json :: "(string \<Rightarrow> pyval option) \<Rightarrow> string \<Rightarrow> pyval option" where
  "coerce_json js raw = (case Option.bind (first_value CHR ''{'' CHR ''}'' raw) js of
       Some v \<Rightarrow> Some v
     | None \<Rightarrow> Option.bind (first_value CHR ''['' CHR '']'' raw) js)"

section \<open>The client\<close>

record llm_world =
  lw_models :: "string \<Rightarrow> (int \<times> string) option"          \<comment> \<open>status and body of a GET, \<open>None\<close> when it raises\<close>
  lw_chat :: "string \<Rightarrow> doc \<Rightarrow> string option"
  lw_json :: "string \<Rightarrow> pyval option"

record llm_client =
  lc_base_url :: string
  lc_model :: pyval
  lc_timeout :: int
  lc_max_tokens :: int

record inference =
  in_base_url :: string
  in_model :: string
  in_allow_external :: bool
  in_client :: "llm_client option"
  in_calls :: int
  in_sent :: "string list"            \<comment> \<open>the URLs requested so far\<close>

definition rstrip_slashes :: "string \<Rightarrow> string" where
  "rstrip_slashes s = rev (dropWhile (\<lambda>c. c = CHR ''/'') (rev s))"

definition new_client :: "string \<Rightarrow> string \<Rightarrow> int \<Rightarrow> llm_client" where
  "new_client base model timeout = \<lparr>lc_base_url = rstrip_slashes base, lc_model = VStr model, lc_timeout = timeout, lc_max_tokens = 2048\<rparr>"

definition models_url :: "llm_client \<Rightarrow> string" where
  "models_url c = lc_base_url c @ ''/models''"

definition client_available :: "llm_world \<Rightarrow> llm_client \<Rightarrow> bool" where
  "client_available w c = (case lw_models w (models_url c) of Some (st, _) \<Rightarrow> st = 200 | None \<Rightarrow> False)"

fun model_id :: "pyval \<Rightarrow> error + pyval" where
  "model_id (VDict d) = (case dget d ''id'' of Some v \<Rightarrow> Inr v | None \<Rightarrow> Inl KeyError)"
| "model_id _ = Inl TypeError"

definition model_ids :: "pyval \<Rightarrow> error + pyval list" where
  "model_ids v = (case v of
       VDict d \<Rightarrow> bind_sum (py_iter (get_with d ''data'' (VList []))) (map_sum_list model_id)
     | _ \<Rightarrow> Inl AttributeError)"

text \<open>\<open>resolve_model\<close>: the client afterwards; any failure leaves it as it was.\<close>

definition resolve_model :: "llm_world \<Rightarrow> llm_client \<Rightarrow> llm_client" where
  "resolve_model w c = (case lw_models w (models_url c) of
       None \<Rightarrow> c
     | Some (_, body) \<Rightarrow> (case Option.bind (lw_json w body) (\<lambda>v. case model_ids v of Inr ids \<Rightarrow> Some ids | Inl _ \<Rightarrow> None) of
         Some (i # _) \<Rightarrow> (if lc_model c \<in> {VStr ''local'', VStr ''auto''} then c\<lparr>lc_model := i\<rparr> else c)
       | _ \<Rightarrow> c))"

definition chat_body :: "llm_client \<Rightarrow> string \<Rightarrow> string \<Rightarrow> int option \<Rightarrow> doc" where
  "chat_body c prompt system max_tokens =
     (let msg = (\<lambda>role content. VDict [(''role'', VStr role), (''content'', VStr content)]) in
      [(''model'', lc_model c),
       (''messages'', VList ((if system \<noteq> [] then [msg ''system'' system] else []) @ [msg ''user'' prompt])),
       (''max_tokens'', VInt (case max_tokens of Some n \<Rightarrow> if n \<noteq> 0 then n else lc_max_tokens c | None \<Rightarrow> lc_max_tokens c)),
       (''temperature'', VFloat (2 / 10))])"

text \<open>\<open>(data["choices"][0]["message"].get("content") or "").strip()\<close>; \<open>None\<close> for anything that raises.\<close>

definition answer_content :: "pyval \<Rightarrow> string option" where
  "answer_content v = (case dget (val_doc v) ''choices'' of
       Some (VList (VDict ch # _)) \<Rightarrow> (case dget ch ''message'' of
           Some (VDict m) \<Rightarrow> (case get_or m ''content'' (VStr []) of VStr s \<Rightarrow> Some (str_strip s) | _ \<Rightarrow> None)
         | _ \<Rightarrow> None)
     | _ \<Rightarrow> None)"

definition chat_url :: "llm_client \<Rightarrow> string" where
  "chat_url c = lc_base_url c @ ''/chat/completions''"

definition client_complete :: "llm_world \<Rightarrow> llm_client \<Rightarrow> string \<Rightarrow> string \<Rightarrow> int option \<Rightarrow> string option" where
  "client_complete w c prompt system max_tokens =
     (case Option.bind (Option.bind (lw_chat w (chat_url c) (chat_body c prompt system max_tokens)) (lw_json w)) answer_content of
        Some s \<Rightarrow> (if s = [] then None else Some s)
      | None \<Rightarrow> None)"

section \<open>The sovereignty layer\<close>

definition str_first :: "string list \<Rightarrow> string" where
  "str_first xs = (case find (\<lambda>s. s \<noteq> []) xs of Some s \<Rightarrow> s | None \<Rightarrow> [])"

definition env_str :: "(string \<Rightarrow> string option) \<Rightarrow> string \<Rightarrow> string" where
  "env_str getenv k = (case getenv k of Some v \<Rightarrow> v | None \<Rightarrow> [])"

definition url_is_local :: "string \<Rightarrow> error + bool" where
  "url_is_local url = bind_sum (url_host url) (\<lambda>h. Inr (h \<in> set LOCAL_HOSTS))"

text \<open>\<open>Inference(base_url, model, timeout, allow_external)\<close>; an argument left out is the empty string.\<close>

definition new_inference :: "(string \<Rightarrow> string option) \<Rightarrow> string \<Rightarrow> string \<Rightarrow> int \<Rightarrow> bool \<Rightarrow> error + inference" where
  "new_inference getenv base_url model timeout allow =
     (let base = rstrip_slashes (str_first [base_url, env_str getenv ''SWORKER_LLM_URL'', DEFAULT_URL]);
          mdl = str_first [model, env_str getenv ''SWORKER_LLM_MODEL'', ''local''];
          ext = (allow \<or> env_str getenv ''SWORKER_ALLOW_EXTERNAL'' = ''1'')
      in bind_sum (url_is_local base) (\<lambda>loc.
           if \<not> loc \<and> \<not> ext then Inl PermissionError
           else Inr \<lparr>in_base_url = base, in_model = mdl, in_allow_external = ext, in_client = Some (new_client base mdl timeout),
                     in_calls = 0, in_sent = []\<rparr>))"

definition null_inference :: inference where
  "null_inference = \<lparr>in_base_url = ''null://'', in_model = ''none'', in_allow_external = False, in_client = None, in_calls = 0, in_sent = []\<rparr>"

definition from_env :: "(string \<Rightarrow> string option) \<Rightarrow> bool \<Rightarrow> error + inference" where
  "from_env getenv allow = (let url = env_str getenv ''SWORKER_LLM_URL'' in
     if url = [] then Inl RuntimeError else new_inference getenv url (env_str getenv ''SWORKER_LLM_MODEL'') 600 allow)"

definition is_local :: "inference \<Rightarrow> error + bool" where
  "is_local i = (if in_client i = None then Inr True else url_is_local (in_base_url i))"

record provider_info =
  pi_base_url :: string
  pi_model :: pyval
  pi_local :: bool
  pi_available :: bool
  pi_backend :: string

definition banner :: "env \<Rightarrow> provider_info \<Rightarrow> string" where
  "banner e p = ''inference: '' @ (if pi_local p then ''LOCAL'' else ''!! EXTERNAL !!'') @ '' '' @ pi_base_url p @ '' model='' @ py_str e (pi_model p)
     @ '' ('' @ (if pi_available p then ''up'' else ''unreachable'') @ '', '' @ pi_backend p @ '')''"

definition sent :: "string list \<Rightarrow> inference \<Rightarrow> inference" where
  "sent urls i = i\<lparr>in_sent := in_sent i @ urls\<rparr>"

definition llm_available :: "llm_world \<Rightarrow> inference \<Rightarrow> bool \<times> inference" where
  "llm_available w i = (case in_client i of
       None \<Rightarrow> (False, i)
     | Some c \<Rightarrow> (client_available w c, sent [models_url c] i))"

definition describe_llm :: "llm_world \<Rightarrow> inference \<Rightarrow> (error + provider_info) \<times> inference" where
  "describe_llm w i = (case in_client i of
       None \<Rightarrow> (Inr \<lparr>pi_base_url = ''null://'', pi_model = VStr ''none'', pi_local = True, pi_available = False, pi_backend = ''null''\<rparr>, i)
     | Some c \<Rightarrow>
        (let up = client_available w c;
             c' = (if up then resolve_model w c else c);
             i' = sent (if up then [models_url c, models_url c] else [models_url c]) (i\<lparr>in_client := Some c'\<rparr>)
         in (bind_sum (is_local i') (\<lambda>loc. Inr \<lparr>pi_base_url = in_base_url i', pi_model = lc_model c', pi_local = loc,
               pi_available = up, pi_backend = ''builtin''\<rparr>), i')))"

definition llm_complete :: "llm_world \<Rightarrow> string \<Rightarrow> string \<Rightarrow> int option \<Rightarrow> inference \<Rightarrow> string option \<times> inference" where
  "llm_complete w prompt system max_tokens i = (let i1 = i\<lparr>in_calls := in_calls i + 1\<rparr> in
     case in_client i1 of
       None \<Rightarrow> (None, i1)
     | Some c \<Rightarrow> (client_complete w c prompt system max_tokens, sent [chat_url c] i1))"

definition llm_complete_json :: "llm_world \<Rightarrow> string \<Rightarrow> string \<Rightarrow> int option \<Rightarrow> inference \<Rightarrow> pyval option \<times> inference" where
  "llm_complete_json w prompt system max_tokens i = (case llm_complete w prompt system max_tokens i of
       (r, i') \<Rightarrow> (Option.bind r (\<lambda>raw. if raw = [] then None else coerce_json (lw_json w) raw), i'))"

section \<open>What a value extracted from an answer is\<close>

lemma scan_value_bound: "scan_value x y depth ins esc s = Some n \<Longrightarrow> 1 \<le> n \<and> n \<le> length s \<and> s ! (n - 1) = y"
proof (induction x y depth ins esc s arbitrary: n rule: scan_value.induct)
  case (2 x y depth ins esc ch s)
  from 2(8) have "(n = 1 \<and> ch = y) \<or> (\<exists>m depth' ins' esc'. n = Suc m \<and> scan_value x y depth' ins' esc' s = Some m \<and> 1 \<le> m \<and> m \<le> length s \<and> s ! (m - 1) = y)"
    using 2(1-7) by (auto split: if_splits)
  then show ?case by (auto simp: nth_Cons' )
qed simp

text \<open>a structured answer is a piece of the model's text.  What \<open>coerce_json\<close> returns is what the JSON parser makes of one contiguous
  piece of the answer, which starts at the first bracket of its kind and ends with the matching kind of bracket; nothing is
  put together from several places and nothing is made up, and text without a bracket gives nothing.\<close>

theorem coerce_json_is_a_piece:
  assumes "coerce_json js raw = Some v"
  shows "\<exists>before body after. raw = before @ body @ after \<and> js body = Some v \<and> body \<noteq> [] \<and>
    (hd body = CHR ''{'' \<and> last body = CHR ''}'' \<and> CHR ''{'' \<notin> set before \<or> hd body = CHR ''['' \<and> last body = CHR '']'' \<and> CHR ''['' \<notin> set before)"
proof -
  have piece: "\<exists>before after. raw = before @ body @ after \<and> body \<noteq> [] \<and> hd body = x \<and> last body = y \<and> x \<notin> set before"
    if first: "first_value x y raw = Some body" for x y body
  proof -
    let ?s = "dropWhile (\<lambda>c. c \<noteq> x) raw" and ?b = "takeWhile (\<lambda>c. c \<noteq> x) raw"
    obtain n where n: "?s \<noteq> []" "scan_value x y 0 False False ?s = Some n" "body = take n ?s"
      using first by (auto simp: first_value_def Let_def split: if_splits)
    from scan_value_bound [OF n(2)] have b: "1 \<le> n" "n \<le> length ?s" "?s ! (n - 1) = y" by auto
    have "hd ?s = x" using n(1) hd_dropWhile [of "\<lambda>c. c \<noteq> x" raw] by blast
    then have "hd body = x" "body \<noteq> []" using n b by (simp_all add: hd_take)
    moreover have "last body = y"
      using b n(1,3) last_conv_nth [of "take n ?s"] by (simp add: min_absorb2)
    moreover have "raw = ?b @ body @ drop n ?s" using n(3) by simp
    moreover have "x \<notin> set ?b" by (auto dest: set_takeWhileD)
    ultimately show ?thesis by blast
  qed
  consider body where "first_value CHR ''{'' CHR ''}'' raw = Some body" "js body = Some v"
    | body where "first_value CHR ''['' CHR '']'' raw = Some body" "js body = Some v"
    using assms by (auto simp: coerce_json_def split: option.splits bind_splits)
  then show ?thesis
  proof cases
    case 1
    from piece [OF 1(1)] 1(2) show ?thesis by blast
  next
    case 2
    from piece [OF 2(1)] 2(2) show ?thesis by blast
  qed
qed

theorem coerce_json_is_a_piece_witness:
  "coerce_json (\<lambda>s. if s = ''{}'' then Some (VDict []) else None) ''ok: {} done'' = Some (VDict []) \<and>
   (\<exists>before after. ''ok: {} done'' = before @ ''{}'' @ after)"
proof -
  let ?js = "\<lambda>s. if s = ''{}'' then Some (VDict []) else None"
  have run: "coerce_json ?js ''ok: {} done'' = Some (VDict [])" by code_simp
  from coerce_json_is_a_piece [OF run] obtain before body after where "''ok: {} done'' = before @ body @ after" "?js body = Some (VDict [])" by blast
  with run show ?thesis by (auto split: if_splits)
qed

section \<open>Where requests go\<close>

datatype llm_op = Llm_Available | Llm_Describe | Llm_Complete string string "int option" | Llm_Json string string "int option"

fun llm_step :: "llm_world \<Rightarrow> llm_op \<Rightarrow> inference \<Rightarrow> inference" where
  "llm_step w Llm_Available i = snd (llm_available w i)"
| "llm_step w Llm_Describe i = snd (describe_llm w i)"
| "llm_step w (Llm_Complete p s n) i = snd (llm_complete w p s n i)"
| "llm_step w (Llm_Json p s n) i = snd (llm_complete_json w p s n i)"

definition sound_inference :: "inference \<Rightarrow> bool" where
  "sound_inference i \<longleftrightarrow> (case in_client i of
       None \<Rightarrow> in_sent i = []
     | Some c \<Rightarrow> lc_base_url c = in_base_url i \<and> (\<forall>u\<in>set (in_sent i). \<exists>p\<in>{''/models'', ''/chat/completions''}. u = in_base_url i @ p))"

lemma rstrip_slashes_idem [simp]: "rstrip_slashes (rstrip_slashes s) = rstrip_slashes s"
  by (simp add: rstrip_slashes_def)

lemma resolve_model_base [simp]: "lc_base_url (resolve_model w c) = lc_base_url c"
  by (auto simp: resolve_model_def split: option.splits list.splits)

lemma llm_step_sound: "sound_inference i \<Longrightarrow> sound_inference (llm_step w x i) \<and> in_base_url (llm_step w x i) = in_base_url i"
  by (cases x; cases "in_client i")
     (auto simp: llm_available_def describe_llm_def llm_complete_def llm_complete_json_def sound_inference_def sent_def models_url_def chat_url_def Let_def)

lemma llm_steps_sound: "sound_inference i \<Longrightarrow> sound_inference (fold (llm_step w) xs i) \<and> in_base_url (fold (llm_step w) xs i) = in_base_url i"
  by (induction xs arbitrary: i) (simp_all add: llm_step_sound)

text \<open>company data stays on the machine unless that was allowed.  An inference object exists only for a base URL whose host is local, or when external endpoints were
  allowed by the caller or by the environment; and whatever is asked of it afterwards, in any order and with any answers, every
  request goes to one of two paths under that base URL.\<close>

theorem inference_stays_local:
  assumes "new_inference getenv url model timeout allow = Inr i"
  shows "(\<exists>h. url_host (in_base_url i) = Inr h \<and> (h \<in> set LOCAL_HOSTS \<or> allow \<or> getenv ''SWORKER_ALLOW_EXTERNAL'' = Some ''1'')) \<and>
    (\<forall>u\<in>set (in_sent (fold (llm_step w) xs i)). u = in_base_url i @ ''/models'' \<or> u = in_base_url i @ ''/chat/completions'')"
proof -
  obtain b where b: "url_is_local (in_base_url i) = Inr b" "b \<or> allow \<or> env_str getenv ''SWORKER_ALLOW_EXTERNAL'' = ''1''"
    and sound: "sound_inference i"
    using assms by (auto simp: new_inference_def Let_def sound_inference_def new_client_def elim!: bind_sumE split: if_splits)
  have "env_str getenv ''SWORKER_ALLOW_EXTERNAL'' = ''1'' \<Longrightarrow> getenv ''SWORKER_ALLOW_EXTERNAL'' = Some ''1''"
    by (auto simp: env_str_def split: option.splits)
  then have "\<exists>h. url_host (in_base_url i) = Inr h \<and> (h \<in> set LOCAL_HOSTS \<or> allow \<or> getenv ''SWORKER_ALLOW_EXTERNAL'' = Some ''1'')"
    using b by (auto simp: url_is_local_def elim!: bind_sumE)
  moreover from llm_steps_sound [OF sound, of w xs]
  have "\<forall>u\<in>set (in_sent (fold (llm_step w) xs i)). u = in_base_url i @ ''/models'' \<or> u = in_base_url i @ ''/chat/completions''"
    by (auto simp: sound_inference_def split: option.splits)
  ultimately show ?thesis by blast
qed

definition demo_llm :: llm_world where
  "demo_llm = \<lparr>lw_models = (\<lambda>_. Some (200, [])), lw_chat = (\<lambda>_ _. None), lw_json = (\<lambda>_. None)\<rparr>"

theorem inference_stays_local_witness:
  "new_inference (\<lambda>_. None) ''https://api.example.com/v1'' [] 600 False = Inl PermissionError \<and>
   (\<exists>i. new_inference (\<lambda>_. None) [] [] 600 False = Inr i \<and>
     (\<forall>u\<in>set (in_sent (fold (llm_step demo_llm) [Llm_Available, Llm_Complete ''hi'' [] None] i)).
        u \<in> {''http://localhost:8080/v1/models'', ''http://localhost:8080/v1/chat/completions''}))"
proof -
  have refused: "new_inference (\<lambda>_. None) ''https://api.example.com/v1'' [] 600 False = Inl PermissionError" by code_simp
  have ok: "\<not> isl (new_inference (\<lambda>_. None) [] [] 600 False)"
    "in_base_url (projr (new_inference (\<lambda>_. None) [] [] 600 False)) = ''http://localhost:8080/v1''" by code_simp+
  then obtain i where i: "new_inference (\<lambda>_. None) [] [] 600 False = Inr i" "in_base_url i = ''http://localhost:8080/v1''"
    by (cases "new_inference (\<lambda>_. None) [] [] 600 False") auto
  from inference_stays_local [OF i(1), of demo_llm "[Llm_Available, Llm_Complete ''hi'' [] None]"] i(2)
  have "\<forall>u\<in>set (in_sent (fold (llm_step demo_llm) [Llm_Available, Llm_Complete ''hi'' [] None] i)).
        u \<in> {''http://localhost:8080/v1/models'', ''http://localhost:8080/v1/chat/completions''}" by auto
  with refused i(1) show ?thesis by blast
qed

end
