(* ===== verification/Mini_Yaml.thy ===== *)
theory Mini_Yaml
  imports Verify Urls
begin

text \<open>
  \<open>sworker/config.py\<close>, \<open>_mini_yaml\<close>: the built-in reader of worker files that is used when PyYAML is absent, and \<open>parse_yaml\<close>, which
  chooses between the two; PyYAML is a parameter.  The reader works on the list of the lines that are left; its recursion is bounded by their number
  (\<open>fuel\<close>), and the bound is shown to be enough.  Lemmas: it always ends, a flat file reads back, and what it drops without an error.
\<close>

section \<open>Scalars\<close>

definition quote_char :: "char \<Rightarrow> bool" where
  "quote_char c \<longleftrightarrow> c = CHR 0x22 \<or> c = CHR 0x27"

definition yaml_scalar :: "string \<Rightarrow> pyval" where
  "yaml_scalar raw = (let tok = str_strip raw; low = str_lower tok in
     if tok = [] then VStr []
     else if quote_char (hd tok) \<and> last tok = hd tok \<and> 1 < length tok then VStr (butlast (tl tok))
     else if low \<in> {''true'', ''yes''} then VBool True
     else if low \<in> {''false'', ''no''} then VBool False
     else if low \<in> {''null'', ''~''} then VNone
     else case parse_int tok of
         Some i \<Rightarrow> VInt i
       | None \<Rightarrow> (case parse_float tok of Some r \<Rightarrow> VFloat r | None \<Rightarrow> VStr tok))"

section \<open>Lines\<close>

definition indent_of :: "string \<Rightarrow> nat" where
  "indent_of raw = length (takeWhile (\<lambda>c. c = CHR '' '') raw)"

definition blank_line :: "string \<Rightarrow> bool" where
  "blank_line raw \<longleftrightarrow> str_strip raw = []"

definition skip_line :: "string \<Rightarrow> bool" where
  "skip_line raw \<longleftrightarrow> blank_line raw \<or> starts_with (str_lstrip raw) ''#''"

text \<open>The lines of a block scalar under a key at indentation \<open>ind\<close>, and its value.\<close>

definition in_scalar :: "nat \<Rightarrow> string \<Rightarrow> bool" where
  "in_scalar ind l \<longleftrightarrow> blank_line l \<or> ind < indent_of l"

definition str_rstrip :: "string \<Rightarrow> string" where
  "str_rstrip s = rev (dropWhile is_space (rev s))"

definition block_scalar :: "string \<Rightarrow> nat \<Rightarrow> string list \<Rightarrow> string" where
  "block_scalar style ind ls =
     (let joined = str_rstrip (join [CHR 0x0A] (map (\<lambda>l. if blank_line l then [] else drop (ind + 2) l) (takeWhile (in_scalar ind) ls)))
      in if style = ''|'' then joined else join '' '' (str_words joined))"

definition flow_list :: "string \<Rightarrow> pyval" where
  "flow_list rest = (let inner = str_strip (butlast (tl rest)) in
     VList (if inner = [] then [] else map yaml_scalar (split_on CHR '','' inner)))"

text \<open>\<open>body.partition(":")\<close> with both parts stripped.\<close>

definition key_value :: "string \<Rightarrow> string \<times> string" where
  "key_value body = (case partition_at CHR '':'' body of (k, _, v) \<Rightarrow> (str_strip k, str_strip v))"

text \<open>\<open>sub.update(nxt)\<close> when \<open>nxt\<close> is a mapping.\<close>

definition merged :: "doc \<Rightarrow> pyval \<Rightarrow> doc" where
  "merged sub nxt = (case nxt of VDict d \<Rightarrow> foldl (\<lambda>acc (k, v). dset acc k v) sub d | _ \<Rightarrow> sub)"

section \<open>The reader\<close>

type_synonym yaml_state = "pyval \<times> string list"

definition is_list :: "pyval \<Rightarrow> bool" where
  "is_list v \<longleftrightarrow> (case v of VList _ \<Rightarrow> True | _ \<Rightarrow> False)"

definition is_map :: "pyval \<Rightarrow> bool" where
  "is_map v \<longleftrightarrow> (case v of VDict _ \<Rightarrow> True | _ \<Rightarrow> False)"

fun items_in :: "pyval \<Rightarrow> pyval list" where
  "items_in (VList xs) = xs"
| "items_in _ = []"

text \<open>An answer is out of fuel (\<open>None\<close>), an exception, or a value with the lines that are left.\<close>

type_synonym yaml_answer = "(error + yaml_state) option"

definition yaml_then :: "yaml_answer \<Rightarrow> (pyval \<Rightarrow> string list \<Rightarrow> yaml_answer) \<Rightarrow> yaml_answer" where
  "yaml_then m f = (case m of None \<Rightarrow> None | Some (Inl e) \<Rightarrow> Some (Inl e) | Some (Inr st) \<Rightarrow> f (fst st) (snd st))"

lemma yaml_then_cong [fundef_cong]: "m = m' \<Longrightarrow> (\<And>v ls. m' = Some (Inr (v, ls)) \<Longrightarrow> f v ls = g v ls) \<Longrightarrow> yaml_then m f = yaml_then m' g"
  by (auto simp: yaml_then_def split: option.split sum.split)

definition yaml_got :: "pyval \<Rightarrow> string list \<Rightarrow> yaml_answer" where
  "yaml_got v ls = Some (Inr (v, ls))"

text \<open>\<open>block(min_indent)\<close>, the loop with its result so far, and the item after a dash.\<close>

fun yaml_loop :: "nat \<Rightarrow> nat \<Rightarrow> pyval \<Rightarrow> string list \<Rightarrow> yaml_answer"
and yaml_item :: "nat \<Rightarrow> nat \<Rightarrow> string \<Rightarrow> string list \<Rightarrow> yaml_answer" where
  "yaml_loop 0 lo res ls = None"
| "yaml_loop (Suc n) lo res [] = yaml_got res []"
| "yaml_loop (Suc n) lo res (raw # ls) =
     (let ind = indent_of raw; body = str_strip raw in
      if skip_line raw then yaml_loop n lo res ls
      else if ind < lo then yaml_got res (raw # ls)
      else if starts_with body ''- ''
      then (if res \<noteq> VNone \<and> \<not> is_list res then yaml_got res (raw # ls)
            else yaml_then (yaml_item n ind (str_strip (drop 2 body)) ls) (\<lambda>v rest. yaml_loop n lo (VList (items_in res @ [v])) rest))
      else if CHR '':'' \<notin> set body then Some (Inl ValueError)
      else let key = fst (key_value body); rest = snd (key_value body); put_key = (\<lambda>v. VDict (dset (val_doc res) key v)) in
        if res \<noteq> VNone \<and> \<not> is_map res then yaml_got res (raw # ls)
        else if rest \<in> {''|'', ''>''} then yaml_loop n lo (put_key (VStr (block_scalar rest ind ls))) (dropWhile (in_scalar ind) ls)
        else if starts_with rest ''['' \<and> ends_with rest '']'' then yaml_loop n lo (put_key (flow_list rest)) ls
        else if rest \<noteq> [] then yaml_loop n lo (put_key (yaml_scalar rest)) ls
        else yaml_then (yaml_loop n (ind + 1) VNone ls) (\<lambda>v ls'. yaml_loop n lo (put_key v) ls'))"
| "yaml_item 0 ind item ls = None"
| "yaml_item (Suc n) ind item ls =
     (if CHR '':'' \<in> set item \<and> \<not> quote_char (hd item)
      then let k = fst (key_value item); v = snd (key_value item) in
        yaml_then (if v \<noteq> [] then yaml_got (yaml_scalar v) ls else yaml_loop n (ind + 2) VNone ls) (\<lambda>x ls1.
          yaml_then (yaml_loop n (ind + 2) VNone ls1) (\<lambda>nxt ls2. yaml_got (VDict (merged [(k, x)] nxt)) ls2))
      else yaml_got (yaml_scalar item) ls)"

declare yaml_loop.simps [simp del] yaml_item.simps [simp del]

definition yaml_fuel :: "string list \<Rightarrow> nat" where
  "yaml_fuel ls = 2 * length ls + 1"

definition mini_yaml :: "string \<Rightarrow> (error + pyval) option" where
  "mini_yaml txt = (let ls = split_lines txt in
     map_option (\<lambda>r. bind_sum r (\<lambda>(v, _). Inr (if v = VNone then VDict [] else v))) (yaml_loop (yaml_fuel ls) 0 VNone ls))"

text \<open>\<open>parse_yaml\<close>, with PyYAML as an optional parameter.\<close>

definition parse_yaml :: "(string \<Rightarrow> error + pyval) option \<Rightarrow> string \<Rightarrow> error + pyval" where
  "parse_yaml pyyaml txt = (case pyyaml of
       Some safe_load \<Rightarrow> safe_load txt
     | None \<Rightarrow> (case mini_yaml txt of Some r \<Rightarrow> r | None \<Rightarrow> Inl RuntimeError))"

section \<open>The fuel is enough\<close>

definition fine :: "string list \<Rightarrow> yaml_answer \<Rightarrow> bool" where
  "fine ls r \<longleftrightarrow> r \<noteq> None \<and> (\<forall>v rest. r = Some (Inr (v, rest)) \<longrightarrow> length rest \<le> length ls)"

lemma fine_got [intro]: "length rest \<le> length ls \<Longrightarrow> fine ls (yaml_got v rest)"
  by (simp add: fine_def yaml_got_def)

lemma fine_raise [simp]: "fine ls (Some (Inl e))"
  by (simp add: fine_def)

lemma fine_more: "fine ls r \<Longrightarrow> length ls \<le> length ls' \<Longrightarrow> fine ls' r"
  by (auto simp: fine_def intro: le_trans)

lemma fine_then:
  assumes "fine ls m" and "\<And>v rest. length rest \<le> length ls \<Longrightarrow> fine ls (f v rest)"
  shows "fine ls (yaml_then m f)"
  using assms by (auto simp: yaml_then_def fine_def split: option.splits sum.splits)

lemma yaml_fuel_enough:
  "(\<forall>lo res ls. 2 * length ls < n \<longrightarrow> fine ls (yaml_loop n lo res ls)) \<and>
   (\<forall>ind item ls. 2 * length ls + 1 < n \<longrightarrow> fine ls (yaml_item n ind item ls))"
proof (induction n)
  case (Suc n)
  then have loop: "2 * length ls < n \<Longrightarrow> fine ls (yaml_loop n lo res ls)"
    and item: "2 * length ls + 1 < n \<Longrightarrow> fine ls (yaml_item n ind itm ls)" for lo res ls ind itm by blast+
  have "fine ls (yaml_loop (Suc n) lo res ls)" if len: "2 * length ls < Suc n" for lo res ls
  proof (cases ls)
    case Nil
    then show ?thesis by (auto simp: yaml_loop.simps)
  next
    case (Cons raw tl)
    have more0: "fine tl (yaml_loop n lo res' ls')" if "length ls' \<le> length tl" for res' ls'
      using len Cons that by (intro fine_more [OF loop]) simp_all
    then have more: "fine ls (yaml_loop n lo res' ls')" if "length ls' \<le> length tl" for res' ls'
      using that Cons by (intro fine_more [OF more0]) simp_all
    have nested: "fine ls (yaml_then m (\<lambda>v rest. yaml_loop n lo (g v) rest))" if "fine tl m" for m g
      using Cons by (intro fine_more [OF fine_then [OF that more0]]) simp_all
    have inner: "fine tl (yaml_loop n lo' VNone tl)" for lo' using len Cons by (intro loop) simp
    have itm: "fine tl (yaml_item n ind i tl)" for ind i using len Cons by (intro item) simp
    have drop: "length (dropWhile P tl) \<le> length tl" for P by (rule length_dropWhile_le)
    have stop: "fine ls (yaml_got res (raw # tl))" using Cons by auto
    show ?thesis
      by (simp add: Cons yaml_loop.simps Let_def more [unfolded Cons] nested [unfolded Cons] inner itm drop stop [unfolded Cons])
  qed
  moreover have "fine ls (yaml_item (Suc n) ind itm ls)" if len: "2 * length ls + 1 < Suc n" for ind itm ls
  proof -
    have inner: "fine ls (yaml_loop n lo VNone ls1)" if "length ls1 \<le> length ls" for lo ls1
      using len that by (intro fine_more [OF loop]) simp_all
    show ?thesis by (auto simp: yaml_item.simps Let_def intro!: fine_then inner)
  qed
  ultimately show ?case by blast
qed simp

text \<open>reading a worker file always ends.  On every text the built-in reader gives a value or raises its one error: the recursion never exceeds the
  bound of twice the number of lines.\<close>

theorem mini_yaml_ends:
  "mini_yaml txt \<noteq> None"
proof -
  have "fine ls (yaml_loop (yaml_fuel ls) 0 VNone ls)" for ls
    using yaml_fuel_enough [of "yaml_fuel ls"] by (simp add: yaml_fuel_def)
  then show ?thesis by (auto simp: mini_yaml_def Let_def fine_def)
qed

section \<open>Flat files\<close>

definition tidy :: "string \<Rightarrow> bool" where
  "tidy s \<longleftrightarrow> s \<noteq> [] \<and> \<not> is_space (hd s) \<and> \<not> is_space (last s) \<and> list_all (\<lambda>c. \<not> line_break c) s"

definition plain_key :: "string \<Rightarrow> bool" where
  "plain_key k \<longleftrightarrow> tidy k \<and> CHR '':'' \<notin> set k \<and> hd k \<notin> {CHR ''#'', CHR ''-''}"

definition plain_value :: "string \<Rightarrow> bool" where
  "plain_value v \<longleftrightarrow> tidy v \<and> v \<notin> {''|'', ''>''} \<and> hd v \<noteq> CHR ''[''"

definition flat_line :: "string \<times> string \<Rightarrow> string" where
  "flat_line kv = fst kv @ '': '' @ snd kv"

definition flat_file :: "(string \<times> string) list \<Rightarrow> string" where
  "flat_file kvs = concat (map (\<lambda>kv. flat_line kv @ [CHR 0x0A]) kvs)"

lemma strip_tidy: "tidy s \<Longrightarrow> str_strip s = s"
proof -
  assume t: "tidy s"
  then have "dropWhile is_space s = s" by (cases s) (auto simp: tidy_def)
  moreover have "dropWhile is_space (rev s) = rev s" using t by (cases s rule: rev_cases) (auto simp: tidy_def)
  ultimately show ?thesis by (simp add: str_strip_def)
qed

lemma strip_blank: "tidy s \<Longrightarrow> str_strip (CHR '' '' # s) = s"
  using strip_tidy [of s] by (simp add: str_strip_def is_space_def)

lemma split_lines_line:
  "list_all (\<lambda>c. \<not> line_break c) l \<Longrightarrow> split_lines_acc acc (l @ CHR 0x0A # rest) = (rev acc @ l) # split_lines_acc [] rest"
proof (induction l arbitrary: acc)
  case Nil
  have "line_break CHR 0x0A" by code_simp
  then show ?case by simp
next
  case (Cons c l)
  moreover have "c \<noteq> CHR 0x0D" using Cons.prems by (auto simp: line_break_def)
  ultimately show ?case by simp
qed

lemma split_lines_file: "list_all (list_all (\<lambda>c. \<not> line_break c)) ls \<Longrightarrow> split_lines (concat (map (\<lambda>l. l @ [CHR 0x0A]) ls)) = ls"
  unfolding split_lines_def by (induction ls) (simp_all add: split_lines_line)

lemma split_at_colon:
  "c \<notin> set k \<Longrightarrow> takeWhile (\<lambda>x. x \<noteq> c) (k @ c # r) = k" "c \<notin> set k \<Longrightarrow> dropWhile (\<lambda>x. x \<noteq> c) (k @ c # r) = c # r"
  by (induction k) auto

lemma flat_line_read:
  assumes "plain_key k" and "plain_value v" and "res = VNone \<or> is_map res"
  shows "yaml_loop (Suc n) 0 res (flat_line (k, v) # ls) = yaml_loop n 0 (VDict (dset (val_doc res) k (yaml_scalar v))) ls"
proof -
  have colon: "\<not> line_break CHR '':''" "\<not> line_break CHR '' ''" by code_simp+
  have k: "tidy k" "CHR '':'' \<notin> set k" "hd k \<noteq> CHR ''#''" "hd k \<noteq> CHR ''-''" and v: "tidy v" "v \<noteq> ''|''" "v \<noteq> ''>''" "hd v \<noteq> CHR ''[''"
    using assms by (auto simp: plain_key_def plain_value_def)
  let ?l = "flat_line (k, v)"
  have line: "tidy ?l" using k(1) v(1) colon by (auto simp: flat_line_def tidy_def)
  then have body: "str_strip ?l = ?l" by (rule strip_tidy)
  obtain c cs where c: "k = c # cs" using k(1) by (cases k) (auto simp: tidy_def)
  have ind: "indent_of ?l = 0" using k(1) c by (auto simp: indent_of_def flat_line_def tidy_def is_space_def)
  have skip: "\<not> skip_line ?l" "\<not> starts_with ?l ''- ''" using k c line body
    by (auto simp: skip_line_def blank_line_def str_lstrip_def flat_line_def tidy_def)
  have kv: "key_value ?l = (k, v)"
    using k(1,2) v(1) strip_blank [OF v(1)] strip_tidy [OF k(1)]
    by (simp add: key_value_def partition_at_def flat_line_def Let_def split_at_colon)
  have flow: "\<not> starts_with v ''[''" "v \<noteq> []" using v by (cases v; auto simp: tidy_def)+
  have has: "CHR '':'' \<in> set ?l" by (simp add: flat_line_def)
  show ?thesis using assms(3) v(2,3) flow has by (auto simp: yaml_loop.simps(3) Let_def body ind skip kv)
qed

lemma flat_loop:
  "list_all (\<lambda>(k, v). plain_key k \<and> plain_value v) kvs \<Longrightarrow> distinct (map fst acc @ map fst kvs) \<Longrightarrow> length kvs < n \<Longrightarrow> res = VDict acc \<or> acc = [] \<and> res = VNone \<Longrightarrow>
     \<exists>v. yaml_loop n 0 res (map flat_line kvs) = yaml_got v [] \<and> (v = VDict (acc @ map (\<lambda>(k, v). (k, yaml_scalar v)) kvs) \<or> kvs = [] \<and> v = res)"
proof (induction kvs arbitrary: acc n res)
  case Nil
  then obtain m where "n = Suc m" by (cases n) auto
  then show ?case by (auto simp: yaml_loop.simps(2))
next
  case (Cons kv kvs)
  obtain k v where kv: "kv = (k, v)" by fastforce
  obtain m where n: "n = Suc m" "length kvs < m" using Cons.prems(3) by (cases n) auto
  have doc: "val_doc res = acc" "res = VNone \<or> is_map res" using Cons.prems(4) by (auto simp: is_map_def)
  have fresh: "dset acc k (yaml_scalar v) = acc @ [(k, yaml_scalar v)]"
    using Cons.prems(2) kv by (intro dset_snoc) (auto simp: dkeys_def)
  have "yaml_loop n 0 res (map flat_line (kv # kvs)) = yaml_loop m 0 (VDict (acc @ [(k, yaml_scalar v)])) (map flat_line kvs)"
    using flat_line_read [of k v res m] Cons.prems(1) doc kv n fresh by simp
  moreover have "distinct (map fst (acc @ [(k, yaml_scalar v)]) @ map fst kvs)" using Cons.prems(2) kv by auto
  ultimately show ?case
    using Cons.IH [of "acc @ [(k, yaml_scalar v)]" m "VDict (acc @ [(k, yaml_scalar v)])"] Cons.prems(1) n kv by auto
qed

text \<open>a flat worker file reads back.  A file of \<open>key: value\<close> lines with distinct plain keys and plain one-line values is read as exactly the mapping of those keys, in
  order, to the scalars that the values denote; nothing is lost, merged or reordered.\<close>

theorem flat_file_reads_back:
  assumes "kvs \<noteq> []" and "distinct (map fst kvs)" and "list_all (\<lambda>(k, v). plain_key k \<and> plain_value v) kvs"
  shows "mini_yaml (flat_file kvs) = Some (Inr (VDict (map (\<lambda>(k, v). (k, yaml_scalar v)) kvs)))"
proof -
  have nobreak: "\<not> line_break CHR '':''" "\<not> line_break CHR '' ''" by code_simp+
  have "list_all (list_all (\<lambda>c. \<not> line_break c)) (map flat_line kvs)"
    using assms(3) nobreak by (auto simp: list_all_iff flat_line_def plain_key_def plain_value_def tidy_def)
  from split_lines_file [OF this] have ls: "split_lines (flat_file kvs) = map flat_line kvs"
    by (simp add: flat_file_def comp_def)
  from flat_loop [of kvs "[]" "yaml_fuel (map flat_line kvs)" VNone] assms
  have "yaml_loop (yaml_fuel (map flat_line kvs)) 0 VNone (map flat_line kvs) = yaml_got (VDict (map (\<lambda>(k, v). (k, yaml_scalar v)) kvs)) []"
    by (simp add: yaml_fuel_def)
  with assms(1) show ?thesis by (simp add: mini_yaml_def ls Let_def yaml_got_def)
qed

theorem flat_file_reads_back_witness:
  "mini_yaml (flat_file [(''name'', ''ann''), (''max_steps'', ''5'')]) = Some (Inr (VDict [(''name'', VStr ''ann''), (''max_steps'', VInt 5)]))"
proof -
  let ?kvs = "[(''name'', ''ann''), (''max_steps'', ''5'')]"
  have "list_all (\<lambda>(k, v). plain_key k \<and> plain_value v) ?kvs" "yaml_scalar ''ann'' = VStr ''ann''" "yaml_scalar ''5'' = VInt 5" by code_simp+
  with flat_file_reads_back [of ?kvs] show ?thesis by simp
qed

section \<open>What is dropped\<close>

text \<open>A list at the indentation of its key, as YAML allows, followed by the permission policy.\<close>

definition dropped_file :: string where
  "dropped_file = ''tools:'' @ [CHR 0x0A] @ ''- fs.read'' @ [CHR 0x0A] @ ''policy:'' @ [CHR 0x0A] @ ''  reversible: deny'' @ [CHR 0x0A]"

text \<open>a permission policy can be lost without an error.  The reader gives up in silence at a line whose kind does not fit the mapping or list it is in: of a
  file whose tool list stands at the indentation of its key, it keeps neither the list nor the policy after it, and the worker
  loads with the default \<open>auto\<close> where the file says \<open>deny\<close>.\<close>

theorem policy_lost_in_silence:
  "mini_yaml dropped_file = Some (Inr (VDict [(''tools'', VNone)])) \<and>
   (\<exists>w. load_worker_doc demo_env ''/cwd'' ''/ws'' ''/ws/workers/ann.yaml'' (VDict [(''tools'', VNone)]) = Inr w \<and> policy_for w Reversible = ''auto'')"
proof -
  have a: "mini_yaml dropped_file = Some (Inr (VDict [(''tools'', VNone)]))" by code_simp
  let ?r = "load_worker_doc demo_env ''/cwd'' ''/ws'' ''/ws/workers/ann.yaml'' (VDict [(''tools'', VNone)])"
  have "\<not> isl ?r" "policy_for (projr ?r) Reversible = ''auto''" by code_simp+
  with a show ?thesis by (cases ?r) auto
qed

end
