(* ===== verification/Worker_Files.thy ===== *)
theory Worker_Files
  imports Mini_Yaml Fs_Tools
begin

text \<open>
  \<open>sworker/config.py\<close>: the directories of a workspace, \<open>WorkerConfig.to_dict\<close>, and the loading, listing and lookup of worker
  files on a disk.  PyYAML, the environment and the current directory are parameters.  Lemmas: a worker written out and read again is the same worker.
\<close>

section \<open>Workspace\<close>

definition workers_dir :: "string \<Rightarrow> string" where
  "workers_dir rt = path_join rt ''workers''"

definition state_dir :: "string \<Rightarrow> string" where
  "state_dir rt = path_join rt ''.state''"

definition artifacts_root :: "string \<Rightarrow> string" where
  "artifacts_root rt = path_join rt ''artifacts''"

definition procedures_root :: "string \<Rightarrow> string" where
  "procedures_root rt = path_join rt ''procedures''"

definition atlas_dir :: "string \<Rightarrow> string" where
  "atlas_dir rt = path_join (state_dir rt) ''atlas''"

definition company_dir :: "string \<Rightarrow> string" where
  "company_dir rt = path_join rt ''company''"

definition workspace_dirs :: "string \<Rightarrow> string list" where
  "workspace_dirs rt = [workers_dir rt, state_dir rt, artifacts_root rt, procedures_root rt, atlas_dir rt, company_dir rt]"

fun make_all :: "disk \<Rightarrow> string list \<Rightarrow> error + disk" where
  "make_all d [] = Inr d"
| "make_all d (p # ps) = bind_sum (make_dirs d p) (\<lambda>d'. make_all d' ps)"

definition ensure_workspace :: "string \<Rightarrow> disk \<Rightarrow> error + disk" where
  "ensure_workspace rt d = make_all d (workspace_dirs rt)"

text \<open>The surroundings of a worker file.\<close>

record worker_world =
  ww_env :: env
  ww_cwd :: string
  ww_home :: "string option"                                  \<comment> \<open>\<open>SWORKER_HOME\<close>\<close>
  ww_pyyaml :: "(string \<Rightarrow> error + pyval) option"

definition default_workspace :: "worker_world \<Rightarrow> string" where
  "default_workspace w = path_abs (ww_cwd w)
     (case ww_home w of Some h \<Rightarrow> if h \<noteq> [] then h else path_join (ww_cwd w) ''.sworker'' | None \<Rightarrow> path_join (ww_cwd w) ''.sworker'')"

section \<open>Writing a worker out\<close>

definition strs_map :: "(string \<times> string) list \<Rightarrow> pyval" where
  "strs_map m = VDict (map (\<lambda>(k, v). (k, VStr v)) m)"

definition worker_dict :: "worker_config \<Rightarrow> doc" where
  "worker_dict w = [(''name'', VStr (wc_name w)), (''role'', VStr (wc_role w)), (''instructions'', VStr (wc_instructions w)),
     (''knowledge'', strs (wc_knowledge w)), (''tools'', strs (wc_tools w)), (''procedures'', strs (wc_procedures w)),
     (''connectors'', VList (map VDict (wc_connectors w))), (''policy'', strs_map (wc_policy w)), (''workspace'', VStr (wc_workspace w)),
     (''fs_roots'', strs (wc_fs_roots w)), (''shell_allow'', strs (wc_shell_allow w)), (''env_allow'', strs (wc_env_allow w)),
     (''max_steps'', VInt (wc_max_steps w)), (''path'', VStr (wc_path w)), (''max_runtime'', VInt (wc_max_runtime w)),
     (''max_actions'', VInt (wc_max_actions w)), (''max_tool_calls'', VInt (wc_max_tool_calls w)),
     (''max_artifact_bytes'', VInt (wc_max_artifact_bytes w)), (''max_python_runtime'', VInt (wc_max_python_runtime w)),
     (''max_shell_runtime'', VInt (wc_max_shell_runtime w)), (''max_network_requests'', VInt (wc_max_network_requests w)),
     (''browser_allow'', strs (wc_browser_allow w)), (''browser_timeout'', VInt (wc_browser_timeout w)),
     (''browser_downloads'', VBool (wc_browser_downloads w)), (''browser_uploads'', VBool (wc_browser_uploads w)),
     (''browser_credential_refs'', strs (wc_browser_credential_refs w)), (''browser_private_session'', VBool (wc_browser_private_session w)),
     (''message_allow'', strs (wc_message_allow w)), (''message_rate_limit'', VInt (wc_message_rate_limit w)), (''sandbox'', VStr (wc_sandbox w)),
     (''egress_allow'', strs (wc_egress_allow w)), (''dlp_rules'', strs (wc_dlp_rules w)), (''disabled'', VBool (wc_disabled w)),
     (''triggers'', VList (map VDict (wc_triggers w))), (''approval_policy'', VDict (wc_approval_policy w))]"

section \<open>Loading files\<close>

definition load_worker :: "worker_world \<Rightarrow> string \<Rightarrow> string \<Rightarrow> disk \<Rightarrow> error + worker_config" where
  "load_worker w rt path d =
     bind_sum (open_read d path) (\<lambda>txt. bind_sum (parse_yaml (ww_pyyaml w) txt) (load_worker_doc (ww_env w) (ww_cwd w) rt path))"

definition worker_file :: "string \<Rightarrow> bool" where
  "worker_file n \<longleftrightarrow> ends_with n ''.yaml'' \<or> ends_with n ''.yml''"

definition list_workers :: "worker_world \<Rightarrow> string \<Rightarrow> disk \<Rightarrow> error + worker_config list" where
  "list_workers w rt d = (if \<not> is_dir d (workers_dir rt) then Inr []
     else map_sum_list (\<lambda>n. load_worker w rt (path_join (workers_dir rt) n) d) (filter worker_file (children d (workers_dir rt))))"

definition worker_paths :: "string \<Rightarrow> string \<Rightarrow> string list" where
  "worker_paths rt name = [path_join (workers_dir rt) (name @ ''.yaml''), path_join (workers_dir rt) (name @ ''.yml'')]"

text \<open>A worker that is missing is reported with the names of all the others, so one unreadable file turns that error into its own.\<close>

definition get_worker :: "worker_world \<Rightarrow> string \<Rightarrow> string \<Rightarrow> disk \<Rightarrow> error + worker_config" where
  "get_worker w rt name d = (case find (disk_exists d) (worker_paths rt name) of
       Some p \<Rightarrow> load_worker w rt p d
     | None \<Rightarrow> bind_sum (list_workers w rt d) (\<lambda>_. Inl FileNotFoundError))"

section \<open>Reading back what was written\<close>

definition all_abs :: "string list \<Rightarrow> bool" where
  "all_abs ps \<longleftrightarrow> list_all path_isabs ps"

text \<open>What a worker that was loaded satisfies, but for the numbers whose zero means the default.\<close>

definition limits_default :: "worker_config \<Rightarrow> bool" where
  "limits_default w \<longleftrightarrow> wc_timeout w = 60 \<and> wc_max_output w = 20000 \<and> wc_max_runtime w = 300 \<and> wc_max_actions w = 24 \<and> wc_max_tool_calls w = 100 \<and>
     wc_max_artifact_bytes w = 5000000 \<and> wc_max_python_runtime w = 60 \<and> wc_max_shell_runtime w = 30 \<and> wc_max_network_requests w = 20"

definition policy_settled :: "(string \<times> string) list \<Rightarrow> bool" where
  "policy_settled p \<longleftrightarrow> map fst p = map fst DEFAULT_POLICY \<and> list_all (\<lambda>v. v \<in> set POLICY_VALUES) (map snd p)"

definition settled :: "worker_config \<Rightarrow> bool" where
  "settled w \<longleftrightarrow> limits_default w \<and> policy_settled (wc_policy w) \<and> wc_name w \<noteq> [] \<and> wc_sandbox w \<noteq> [] \<and> wc_fs_roots w \<noteq> [] \<and>
     all_abs (wc_knowledge w) \<and> all_abs (wc_fs_roots w) \<and> wc_max_steps w \<noteq> 0 \<and> wc_browser_timeout w \<noteq> 0 \<and>
     list_all (\<lambda>(k, v). \<exists>x. v = VDict x) (wc_approval_policy w)"

lemma load_policy_settled: "load_policy e items p = Inr q \<Longrightarrow> policy_settled p \<Longrightarrow> policy_settled q"
proof (induction e items p rule: load_policy.induct)
  case (2 e k v rest policy)
  let ?key = "str_lower (str_strip k)" and ?val = "norm_key e v"
  have ok: "?key \<in> set (dkeys DEFAULT_POLICY)" "?val \<in> set POLICY_VALUES" "load_policy e rest (dset policy ?key ?val) = Inr q"
    using 2(2) by (auto simp: Let_def split: if_splits)
  have keep: "k' \<in> set (map fst p) \<Longrightarrow> map fst (dset p k' x) = map fst p \<and> set (map snd (dset p k' x)) \<subseteq> insert x (set (map snd p))" for k' x and p :: "(string \<times> string) list"
    by (induction p k' x rule: dset.induct) auto
  have "policy_settled (dset policy ?key ?val)"
    using 2(3) ok(1,2) keep [of ?key policy ?val] by (fastforce simp: policy_settled_def dkeys_def list_all_iff)
  with 2(1) ok show ?case by (auto simp: Let_def)
qed simp

lemma default_settled: "policy_settled DEFAULT_POLICY"
  by code_simp

lemma policy_tidy:
  "k \<in> set (dkeys DEFAULT_POLICY) \<Longrightarrow> str_lower (str_strip k) = k" "v \<in> set POLICY_VALUES \<Longrightarrow> norm_key e (VStr v) = v"
proof -
  have "list_all (\<lambda>k. str_lower (str_strip k) = k) (dkeys DEFAULT_POLICY)" "list_all (\<lambda>v. str_lower (str_strip v) = v) POLICY_VALUES"
    by code_simp+
  then show "k \<in> set (dkeys DEFAULT_POLICY) \<Longrightarrow> str_lower (str_strip k) = k" "v \<in> set POLICY_VALUES \<Longrightarrow> norm_key e (VStr v) = v"
    by (auto simp: list_all_iff norm_key_def)
qed

lemma load_policy_again_acc:
  "map fst p = map fst q \<Longrightarrow> distinct (map fst (done @ p)) \<Longrightarrow> set (map fst p) \<subseteq> set (dkeys DEFAULT_POLICY) \<Longrightarrow> set (map snd p) \<subseteq> set POLICY_VALUES \<Longrightarrow>
     load_policy e (map (\<lambda>(k, v). (k, VStr v)) p) (done @ q) = Inr (done @ p)"
proof (induction p arbitrary: q "done")
  case (Cons kv p)
  obtain k v where kv: "kv = (k, v)" by fastforce
  then obtain v' q' where q: "q = (k, v') # q'" "map fst p = map fst q'" using Cons.prems(1) by (cases q) auto
  have new: "k \<notin> fst ` set d \<Longrightarrow> dset (d @ (k, x) # r) k y = d @ (k, y) # r" for d r x and y :: string by (induction d) auto
  have "dset (done @ q) k v = (done @ [(k, v)]) @ q'" using Cons.prems(2) new [of "done" v' q' v] kv q(1) by auto
  moreover have "load_policy e (map (\<lambda>(k, v). (k, VStr v)) p) ((done @ [(k, v)]) @ q') = Inr ((done @ [(k, v)]) @ p)"
    by (rule Cons.IH) (use Cons.prems(2-4) kv q(2) in simp_all)
  ultimately show ?case using Cons.prems(3,4) kv policy_tidy(1) [of k] policy_tidy(2) [of v e] by simp
qed simp

lemma load_policy_again: "policy_settled p \<Longrightarrow> load_policy e (map (\<lambda>(k, v). (k, VStr v)) p) DEFAULT_POLICY = Inr p"
proof -
  assume p: "policy_settled p"
  have "distinct (map fst DEFAULT_POLICY)" by code_simp
  with p load_policy_again_acc [of p DEFAULT_POLICY "[]" e] show ?thesis
    by (auto simp: policy_settled_def dkeys_def list_all_iff)
qed

lemma str_list_back: "dget d k = Some (strs xs) \<Longrightarrow> str_list e d k = Inr xs"
  by (simp add: str_list_def get_or_def strs_def comp_def)

lemma dict_list_back: "dget d k = Some (VList (map VDict xs)) \<Longrightarrow> dict_list d k = Inr xs"
proof -
  have "map_sum_list as_dict (map VDict xs) = Inr xs" by (induction xs) (simp_all add: as_dict_def)
  then show "dget d k = Some (VList (map VDict xs)) \<Longrightarrow> dict_list d k = Inr xs" by (simp add: dict_list_def get_or_def)
qed

lemma items_back: "dget d k = Some (VDict x) \<Longrightarrow> items_of d k = Inr x"
  by (simp add: items_of_def get_or_def)

lemma int_back: "dget d k = Some (VInt i) \<Longrightarrow> i \<noteq> 0 \<or> dflt = VInt 0 \<Longrightarrow> py_int (get_or d k dflt) = Inr i"
  by (auto simp: get_or_def)

lemma str_back: "dget d k = Some (VStr x) \<Longrightarrow> x \<noteq> [] \<or> dflt = [] \<Longrightarrow> Config.str_or e d k dflt = x"
  by (auto simp: Config.str_or_def get_or_def)

lemma bool_back: "dget d k = Some (VBool b) \<Longrightarrow> bool_or d k = b"
  by (cases b) (simp_all add: bool_or_def get_or_def)

lemma appr_back:
  "list_all (\<lambda>(k, v). \<exists>x. v = VDict x) ap \<Longrightarrow> map_sum_list (\<lambda>(k, v). bind_sum (as_dict v) (\<lambda>x. Inr (k, VDict x))) ap = Inr ap"
  by (induction ap) (auto simp: as_dict_def)

lemma all_abs_map: "all_abs ps \<Longrightarrow> map (\<lambda>p. if path_isabs p then p else f p) ps = ps"
  by (induction ps) (auto simp: all_abs_def)

lemmas reads_back = str_list_back dict_list_back items_back int_back str_back bool_back appr_back all_abs_map load_policy_again

lemma worker_reads_back_lemma:
  assumes "settled w" and "wc_workspace w = rt"
  shows "load_worker_doc e cwd rt path (VDict (worker_dict w)) = Inr (w\<lparr>wc_path := path_abs cwd path\<rparr>)"
proof -
  let ?d = "worker_dict w"
  note s = assms [unfolded settled_def limits_default_def]
  have lists: "str_list e ?d ''knowledge'' = Inr (wc_knowledge w)" "str_list e ?d ''tools'' = Inr (wc_tools w)" "str_list e ?d ''procedures'' = Inr (wc_procedures w)"
    "str_list e ?d ''fs_roots'' = Inr (wc_fs_roots w)" "str_list e ?d ''shell_allow'' = Inr (wc_shell_allow w)" "str_list e ?d ''env_allow'' = Inr (wc_env_allow w)"
    "str_list e ?d ''browser_allow'' = Inr (wc_browser_allow w)" "str_list e ?d ''browser_credential_refs'' = Inr (wc_browser_credential_refs w)"
    "str_list e ?d ''message_allow'' = Inr (wc_message_allow w)" "str_list e ?d ''egress_allow'' = Inr (wc_egress_allow w)" "str_list e ?d ''dlp_rules'' = Inr (wc_dlp_rules w)"
    by (rule str_list_back, simp add: worker_dict_def)+
  have dicts: "dict_list ?d ''connectors'' = Inr (wc_connectors w)" "dict_list ?d ''triggers'' = Inr (wc_triggers w)"
    by (rule dict_list_back, simp add: worker_dict_def)+
  have maps: "items_of ?d ''policy'' = Inr (map (\<lambda>(k, v). (k, VStr v)) (wc_policy w))" "items_of ?d ''approval_policy'' = Inr (wc_approval_policy w)"
    by (rule items_back, simp add: worker_dict_def strs_map_def)+
  have ints: "py_int (get_or ?d ''max_steps'' (VInt 12)) = Inr (wc_max_steps w)" "py_int (get_or ?d ''browser_timeout'' (VInt 30)) = Inr (wc_browser_timeout w)"
    "py_int (get_or ?d ''message_rate_limit'' (VInt 0)) = Inr (wc_message_rate_limit w)"
    by (rule int_back, simp add: worker_dict_def, use s in simp)+
  have strings: "Config.str_or e ?d ''name'' x = wc_name w" "Config.str_or e ?d ''role'' [] = wc_role w" "Config.str_or e ?d ''instructions'' [] = wc_instructions w"
    "Config.str_or e ?d ''sandbox'' ''none'' = wc_sandbox w" for x
    by (rule str_back, simp add: worker_dict_def, use s in simp)+
  have bools: "bool_or ?d ''browser_downloads'' = wc_browser_downloads w" "bool_or ?d ''browser_uploads'' = wc_browser_uploads w" "bool_or ?d ''disabled'' = wc_disabled w"
    by (rule bool_back, simp add: worker_dict_def)+
  have priv: "dget ?d ''browser_private_session'' = Some (VBool (wc_browser_private_session w))" by (simp add: worker_dict_def)
  have "load_policy e (map (\<lambda>(k, v). (k, VStr v)) (wc_policy w)) DEFAULT_POLICY = Inr (wc_policy w)" using s by (intro load_policy_again) simp
  then show ?thesis
    using s by (simp add: load_worker_doc_def Let_def lists dicts maps ints strings bools priv appr_back all_abs_map) (cases w, simp add: default_worker_def)
qed

text \<open>a worker that is written out and read again is the same worker.  Loading the mapping that \<open>to_dict\<close> gives, in the same workspace, returns every field of the worker
  unchanged, the policy, the allow-lists, the sandbox, the approval rules and the disabled flag among them; only the path is that of
  the file it was read from.\<close>

theorem worker_reads_back:
  assumes "settled w" and "wc_workspace w = rt"
  shows "load_worker_doc e cwd rt path (VDict (worker_dict w)) = Inr (w\<lparr>wc_path := path_abs cwd path\<rparr>)"
  using assms by (rule worker_reads_back_lemma)

definition demo_worker_doc :: doc where
  "demo_worker_doc = [(''name'', VStr ''ann''), (''tools'', VList [VStr ''fs.*'']), (''policy'', VDict [(''reversible'', VStr ''deny'')]), (''disabled'', VBool True)]"

theorem worker_reads_back_witness:
  "\<exists>w. load_worker_doc demo_env ''/cwd'' ''/ws'' ''/ws/workers/ann.yaml'' (VDict demo_worker_doc) = Inr w \<and> wc_disabled w \<and>
     load_worker_doc demo_env ''/cwd'' ''/ws'' ''/ws/b.yaml'' (VDict (worker_dict w)) = Inr (w\<lparr>wc_path := ''/ws/b.yaml''\<rparr>)"
proof -
  let ?r = "load_worker_doc demo_env ''/cwd'' ''/ws'' ''/ws/workers/ann.yaml'' (VDict demo_worker_doc)"
  have r: "\<not> isl ?r" "wc_workspace (projr ?r) = ''/ws''" "wc_disabled (projr ?r)" by code_simp+
  then obtain w where w: "?r = Inr w" "wc_workspace w = ''/ws''" "wc_disabled w" by (cases ?r) auto
  have p: "path_abs ''/cwd'' ''/ws/b.yaml'' = ''/ws/b.yaml''" by code_simp
  have "wc_max_steps (projr ?r) = 12" "wc_browser_timeout (projr ?r) = 30" "wc_name (projr ?r) = ''ann''" "wc_sandbox (projr ?r) = ''none''"
    "wc_fs_roots (projr ?r) = [''/ws'']" "wc_knowledge (projr ?r) = []" "wc_approval_policy (projr ?r) = []" "limits_default (projr ?r)"
    "policy_settled (wc_policy (projr ?r))" "path_isabs ''/ws''" by code_simp+
  then have "settled w" using w(1) by (simp add: settled_def all_abs_def)
  from worker_reads_back [OF this w(2), of demo_env "''/cwd''" "''/ws/b.yaml''"] w p show ?thesis by auto
qed

end
