(* ===== verification/Lifecycle.thy ===== *)
theory Lifecycle
  imports Worker_Files
begin

text \<open>
  \<open>sworker/lifecycle.py\<close> and \<open>sworker/templates.py\<close>: snapshots, enabling and disabling, cloning, archiving, export and import of worker files, the
  built-in templates and the marketplace.  \<open>yaml.safe_dump\<close> is a parameter; both modules need the \<open>yaml\<close> package, whose \<open>safe_load\<close> is the parameter
  of \<open>parse_yaml\<close>.  Lemmas: what a switch of a worker reads back as, and that no operation loses a file.
\<close>

record life =
  lf_disk :: disk
  lf_ticks :: nat

type_synonym 'a lop = "(life, 'a) op"

record life_world =
  lw_worker :: worker_world
  lw_dump :: "doc \<Rightarrow> string"

section \<open>Files\<close>

definition on_disk :: "(disk \<Rightarrow> error + 'a) \<Rightarrow> 'a lop" where
  "on_disk f = (\<lambda>s. (f (lf_disk s), s))"

definition change_disk :: "(disk \<Rightarrow> error + disk) \<Rightarrow> unit lop" where
  "change_disk f = (\<lambda>s. case f (lf_disk s) of Inl e \<Rightarrow> (Inl e, s) | Inr d \<Rightarrow> (Inr (), s\<lparr>lf_disk := d\<rparr>))"

text \<open>\<open>open(path, "w")\<close> and the write.\<close>

definition write_at :: "string \<Rightarrow> string \<Rightarrow> disk \<Rightarrow> error + disk" where
  "write_at p txt d = (if is_dir d p then Inl OSError else if p \<in> set (dk_denied d) then Inl PermissionError
     else if \<not> is_dir d (dir_of p) then Inl FileNotFoundError
     else Inr (d\<lparr>dk_files := dset (dk_files d) p txt\<rparr>))"

definition move_file :: "string \<Rightarrow> string \<Rightarrow> disk \<Rightarrow> error + disk" where
  "move_file src dest d = (case dget (dk_files d) src of
       None \<Rightarrow> Inl FileNotFoundError
     | Some c \<Rightarrow> Inr (d\<lparr>dk_files := dset (filter (\<lambda>(q, _). q \<noteq> src) (dk_files d)) dest c\<rparr>))"

definition life_now :: "life_world \<Rightarrow> time lop" where
  "life_now w = (\<lambda>s. (Inr (clock (ww_env (lw_worker w)) (lf_ticks s)), s\<lparr>lf_ticks := Suc (lf_ticks s)\<rparr>))"

section \<open>Snapshots\<close>

definition versions_dir :: "string \<Rightarrow> string lop" where
  "versions_dir rt = (let p = path_join (workers_dir rt) ''versions'' in op_then (change_disk (\<lambda>d. make_dirs d p)) (op_return p))"

definition archive_dir :: "string \<Rightarrow> string lop" where
  "archive_dir rt = (let p = path_join (workers_dir rt) ''archived'' in op_then (change_disk (\<lambda>d. make_dirs d p)) (op_return p))"

definition read_worker_file :: "string \<Rightarrow> string \<Rightarrow> disk \<Rightarrow> error + string" where
  "read_worker_file rt name d = (case find (disk_exists d) (worker_paths rt name) of
       None \<Rightarrow> Inl FileNotFoundError
     | Some p \<Rightarrow> if is_dir d p then Inl OSError else open_read d p)"

definition version_text :: "string \<Rightarrow> int \<Rightarrow> string \<Rightarrow> string" where
  "version_text note_txt ts body = ''# version note: '' @ note_txt @ [CHR 0x0A] @ ''# at: '' @ int_str ts @ [CHR 0x0A] @ body"

definition version_path :: "life_world \<Rightarrow> string \<Rightarrow> int \<Rightarrow> string \<Rightarrow> string" where
  "version_path w vd ts body = path_join vd (int_str ts @ ''-'' @ take 12 (sha256 (ww_env (lw_worker w)) body) @ ''.yaml'')"

definition snapshot :: "life_world \<Rightarrow> string \<Rightarrow> string \<Rightarrow> string \<Rightarrow> unit lop" where
  "snapshot w rt name note_txt =
     op_bind (versions_dir rt) (\<lambda>base. let vd = path_join base name in
       op_then (change_disk (\<lambda>d. make_dirs d vd)) (\<lambda>s.
         case read_worker_file rt name (lf_disk s) of
           Inl e \<Rightarrow> (if e = FileNotFoundError then (Inr (), s) else (Inl e, s))
         | Inr body \<Rightarrow> op_bind (life_now w) (\<lambda>t. change_disk (write_at (version_path w vd (floor t) body) (version_text note_txt (floor t) body))) s))"

definition list_versions :: "string \<Rightarrow> string \<Rightarrow> string list lop" where
  "list_versions rt name = op_bind (versions_dir rt) (\<lambda>base. on_disk (\<lambda>d. let vd = path_join base name in
     Inr (if \<not> is_dir d vd then [] else children d vd)))"

section \<open>Operations\<close>

definition render_worker :: "life_world \<Rightarrow> doc \<Rightarrow> string" where
  "render_worker w data = lw_dump w data"

definition the_worker :: "life_world \<Rightarrow> string \<Rightarrow> string \<Rightarrow> worker_config lop" where
  "the_worker w rt name = on_disk (get_worker (lw_worker w) rt name)"

definition reload :: "life_world \<Rightarrow> string \<Rightarrow> string \<Rightarrow> worker_config lop" where
  "reload w rt p = on_disk (load_worker (lw_worker w) rt p)"

definition set_enabled :: "life_world \<Rightarrow> string \<Rightarrow> string \<Rightarrow> bool \<Rightarrow> worker_config lop" where
  "set_enabled w rt name disabled =
     op_bind (the_worker w rt name) (\<lambda>wk.
       op_then (snapshot w rt name (if disabled then ''disable'' else ''enable''))
         (op_then (change_disk (write_at (wc_path wk) (render_worker w (dset (worker_dict wk) ''disabled'' (VBool disabled)))))
           (reload w rt (wc_path wk))))"

text \<open>An existing worker is refused unless forced.\<close>

definition guard_name :: "string \<Rightarrow> string \<Rightarrow> bool \<Rightarrow> unit lop" where
  "guard_name rt name force = on_disk (\<lambda>d. if list_ex (disk_exists d) (worker_paths rt name) \<and> \<not> force then Inl FileExistsError else Inr ())"

definition yaml_path :: "string \<Rightarrow> string \<Rightarrow> string" where
  "yaml_path rt name = path_join (workers_dir rt) (name @ ''.yaml'')"

definition clone_worker :: "life_world \<Rightarrow> string \<Rightarrow> string \<Rightarrow> string \<Rightarrow> bool \<Rightarrow> worker_config lop" where
  "clone_worker w rt src dst force =
     op_bind (the_worker w rt src) (\<lambda>wk.
       op_then (guard_name rt dst force)
         (op_then (snapshot w rt dst (''clone from '' @ src))
           (op_then (change_disk (write_at (yaml_path rt dst) (render_worker w (dpop (dset (worker_dict wk) ''name'' (VStr dst)) ''path''))))
             (reload w rt (yaml_path rt dst)))))"

definition archive_worker :: "life_world \<Rightarrow> string \<Rightarrow> string \<Rightarrow> string lop" where
  "archive_worker w rt name =
     op_bind (the_worker w rt name) (\<lambda>wk.
       op_then (snapshot w rt name ''archive'')
         (op_bind (archive_dir rt) (\<lambda>ad. let dest = path_join ad (path_base (wc_path wk)) in
           op_then (on_disk (\<lambda>d. if disk_exists d dest then Inl FileExistsError else Inr ()))
             (op_then (change_disk (move_file (wc_path wk) dest)) (op_return dest)))))"

definition export_worker :: "life_world \<Rightarrow> string \<Rightarrow> string \<Rightarrow> string \<Rightarrow> string lop" where
  "export_worker w rt name dest =
     op_bind (the_worker w rt name) (\<lambda>wk.
       op_then (change_disk (write_at dest (render_worker w (dpop (worker_dict wk) ''path'')))) (op_return dest))"

text \<open>The name of an imported worker: missing or empty is refused, and one that is no string cannot be joined to a file name.\<close>

definition imported_name :: "pyval \<Rightarrow> error + string" where
  "imported_name v = (case v of
       VDict d \<Rightarrow> (case dget d ''name'' of
           None \<Rightarrow> Inl ValueError
         | Some n \<Rightarrow> if \<not> truthy n then Inl ValueError else (case n of VStr s \<Rightarrow> Inr s | _ \<Rightarrow> Inl TypeError))
     | _ \<Rightarrow> Inl ValueError)"

definition import_worker :: "life_world \<Rightarrow> string \<Rightarrow> string \<Rightarrow> bool \<Rightarrow> worker_config lop" where
  "import_worker w rt src force =
     op_bind (on_disk (\<lambda>d. bind_sum (open_read d src) (parse_yaml (ww_pyyaml (lw_worker w))))) (\<lambda>v.
       op_bind (op_lift (imported_name v)) (\<lambda>name.
         op_then (guard_name rt name force)
           (op_then (snapshot w rt name (''import from '' @ path_base src))
             (op_then (change_disk (write_at (yaml_path rt name) (render_worker w (val_doc v))))
               (reload w rt (yaml_path rt name))))))"

section \<open>Templates and the marketplace\<close>

definition template_policy :: string where
  "template_policy = ''policy:'' @ [CHR 0x0A] @ ''  read: auto'' @ [CHR 0x0A] @ ''  reversible: auto'' @ [CHR 0x0A] @ ''  external: approve'' @ [CHR 0x0A]
     @ ''  financial: approve'' @ [CHR 0x0A] @ ''  destructive: approve'' @ [CHR 0x0A]"

text \<open>A template with its two placeholders filled: role, tools and the rest.\<close>

definition template_text :: "string \<Rightarrow> string \<Rightarrow> string \<Rightarrow> string \<Rightarrow> string \<Rightarrow> string" where
  "template_text role tls extra name goal = ''name: '' @ name @ [CHR 0x0A] @ ''role: '' @ role @ [CHR 0x0A] @ ''goal: '' @ goal @ [CHR 0x0A]
     @ template_policy @ ''tools: ['' @ tls @ '']'' @ [CHR 0x0A] @ extra"

definition ingest_hint :: string where
  "ingest_hint = ''# add a '' @ [CHR 0xA7] @ ''24 file_changed trigger with absolute roots, e.g.:'' @ [CHR 0x0A] @ ''# triggers:'' @ [CHR 0x0A]
     @ ''#   - kind: file_changed'' @ [CHR 0x0A] @ ''#     roots: [/abs/path/to/watch]'' @ [CHR 0x0A] @ ''#     interval: 5.0'' @ [CHR 0x0A]"

definition BUILTIN_TEMPLATES :: "(string \<times> (string \<Rightarrow> string \<Rightarrow> string)) list" where
  "BUILTIN_TEMPLATES = [(''analyst'', template_text ''analyst'' ''data.query'' []),
     (''operator'', template_text ''operator'' ''data.query, shell.exec'' []),
     (''ingest'', template_text ''ingester'' ''data.query, knowledge.compile'' ingest_hint)]"

definition list_templates :: "string list" where
  "list_templates = sort (dkeys BUILTIN_TEMPLATES)"

definition render_template :: "string \<Rightarrow> string \<Rightarrow> string \<Rightarrow> error + string" where
  "render_template name worker_name goal = (case dget BUILTIN_TEMPLATES name of None \<Rightarrow> Inl TemplateError | Some f \<Rightarrow> Inr (f worker_name goal))"

definition create_worker :: "life_world \<Rightarrow> string \<Rightarrow> string \<Rightarrow> string \<Rightarrow> string \<Rightarrow> bool \<Rightarrow> worker_config lop" where
  "create_worker w rt template worker_name goal force =
     op_bind (op_lift (render_template template worker_name goal)) (\<lambda>body.
       op_bind (op_lift (parse_yaml (ww_pyyaml (lw_worker w)) body)) (\<lambda>v.
         if dget (val_doc v) ''name'' \<noteq> Some (VStr worker_name) then op_raise TemplateError
         else op_then (guard_name rt worker_name force)
           (op_then (change_disk (write_at (yaml_path rt worker_name) body)) (reload w rt (yaml_path rt worker_name)))))"

definition marketplace_dir :: "string \<Rightarrow> string lop" where
  "marketplace_dir rt = (let p = path_join (workers_dir rt) ''marketplace'' in op_then (change_disk (\<lambda>d. make_dirs d p)) (op_return p))"

definition list_marketplace :: "string \<Rightarrow> string list lop" where
  "list_marketplace rt = op_bind (marketplace_dir rt) (\<lambda>p. on_disk (\<lambda>d.
     Inr (sort (map (\<lambda>f. take (length f - 5) f) (filter (\<lambda>f. ends_with f ''.yaml'') (children d p))))))"

definition publish_to_marketplace :: "life_world \<Rightarrow> string \<Rightarrow> string \<Rightarrow> string lop" where
  "publish_to_marketplace w rt name =
     op_then (on_disk (\<lambda>d. if disk_exists d (yaml_path rt name) then Inr () else Inl FileExistsError))
       (op_bind (marketplace_dir rt) (\<lambda>p. let dest = path_join p (name @ ''.yaml'') in
         op_then (on_disk (\<lambda>d. if disk_exists d dest then Inl FileExistsError else Inr ())) (op_then (export_worker w rt name dest) (op_return dest))))"

definition import_from_marketplace :: "life_world \<Rightarrow> string \<Rightarrow> string \<Rightarrow> bool \<Rightarrow> worker_config lop" where
  "import_from_marketplace w rt name force =
     op_bind (marketplace_dir rt) (\<lambda>p. let src = path_join p (name @ ''.yaml'') in
       op_then (on_disk (\<lambda>d. if disk_exists d src then Inr () else Inl FileNotFoundError)) (import_worker w rt src force))"

section \<open>What the operations change\<close>

text \<open>\<open>keeps P m\<close>: every file that a run of \<open>m\<close> finds, at a path outside \<open>P\<close>, has the same content afterwards, whether it returns or raises.\<close>

definition keeps :: "string set \<Rightarrow> 'a lop \<Rightarrow> bool" where
  "keeps P m \<longleftrightarrow> (\<forall>s p. p \<notin> P \<longrightarrow> dget (dk_files (lf_disk (snd (m s)))) p = dget (dk_files (lf_disk s)) p)"

named_theorems keeps_intros \<open>frame rules that follow the syntax of an operation\<close>

lemma keeps_bind [keeps_intros]: "keeps P m \<Longrightarrow> (\<And>x. keeps P (f x)) \<Longrightarrow> keeps P (op_bind m f)"
  unfolding keeps_def op_bind_apply by (auto split: prod.split sum.split) (metis snd_conv)+

lemma keeps_then [keeps_intros]: "keeps P m \<Longrightarrow> keeps P n \<Longrightarrow> keeps P (op_then m n)"
  unfolding op_then_def by (rule keeps_bind)

lemma keeps_pure [keeps_intros]: "keeps P (op_return x)" "keeps P (op_raise e)" "keeps P (op_lift r)" "keeps P (on_disk f)" "keeps P (life_now w)"
  by (simp_all add: keeps_def op_return_def op_raise_def op_lift_def on_disk_def life_now_def)

lemma keeps_dirs [keeps_intros]: "keeps P (change_disk (\<lambda>d. make_dirs d p))"
  by (auto simp: keeps_def change_disk_def split: sum.split dest!: make_dirs_files)

lemma keeps_write [keeps_intros]: "p \<in> P \<Longrightarrow> keeps P (change_disk (write_at p txt))"
  by (auto simp: keeps_def change_disk_def write_at_def split: sum.split if_splits)

lemma keeps_more: "keeps P m \<Longrightarrow> P \<subseteq> Q \<Longrightarrow> keeps Q m"
  unfolding keeps_def by blast

lemma keeps_versions [keeps_intros]: "keeps P (versions_dir rt)"
  unfolding versions_dir_def Let_def by (intro keeps_intros)

lemma keeps_workers [keeps_intros]: "keeps P (the_worker w rt name)" "keeps P (reload w rt p)" "keeps P (guard_name rt name force)"
  unfolding the_worker_def reload_def guard_name_def by (rule keeps_intros)+

text \<open>A snapshot is of a worker that is there; for a name without a file it writes nothing.\<close>

definition no_worker :: "string \<Rightarrow> string \<Rightarrow> disk \<Rightarrow> bool" where
  "no_worker rt name d \<longleftrightarrow> \<not> list_ex (disk_exists d) (worker_paths rt name)"

lemma read_missing:
  assumes "list_all (\<lambda>p. dget (dk_files d) p = None) (worker_paths rt name)"
  shows "\<exists>e. read_worker_file rt name d = Inl e"
  using assms by (auto simp: read_worker_file_def worker_paths_def disk_exists_def split: option.split)

lemma make_dirs_change: "change_disk (\<lambda>d. make_dirs d p) s = (r, s') \<Longrightarrow> dk_files (lf_disk s') = dk_files (lf_disk s)"
  by (auto simp: change_disk_def split: sum.splits dest!: make_dirs_files)

lemma snapshot_of_nothing:
  assumes "no_worker rt name (lf_disk s)"
  shows "dk_files (lf_disk (snd (snapshot w rt name note_txt s))) = dk_files (lf_disk s)"
proof -
  let ?base = "path_join (workers_dir rt) ''versions''"
  let ?mk = "\<lambda>p. change_disk (\<lambda>d. make_dirs d p)"
  obtain r1 s1 where one: "?mk ?base s = (r1, s1)" by fastforce
  obtain r2 s2 where two: "?mk (path_join ?base name) s1 = (r2, s2)" by fastforce
  have files: "dk_files (lf_disk s1) = dk_files (lf_disk s)" "dk_files (lf_disk s2) = dk_files (lf_disk s)"
    using make_dirs_change [OF one] make_dirs_change [OF two] by simp_all
  then have "list_all (\<lambda>p. dget (dk_files (lf_disk s2)) p = None) (worker_paths rt name)"
    using assms by (auto simp: no_worker_def list_ex_iff list_all_iff disk_exists_def)
  from read_missing [OF this] obtain e where "read_worker_file rt name (lf_disk s2) = Inl e" by blast
  with one two files show ?thesis
    by (cases r1; cases r2) (auto simp: snapshot_def versions_dir_def Let_def op_bind_apply op_then_apply)
qed

section \<open>Nothing is overwritten\<close>

text \<open>The operations that bring a new worker into the workspace.\<close>

datatype adoption = Clone string string | Import string | Create string string string | From_Market string

fun adopt :: "life_world \<Rightarrow> string \<Rightarrow> bool \<Rightarrow> adoption \<Rightarrow> worker_config lop" where
  "adopt w rt force (Clone src dst) = clone_worker w rt src dst force"
| "adopt w rt force (Import src) = import_worker w rt src force"
| "adopt w rt force (Create tpl name goal) = create_worker w rt tpl name goal force"
| "adopt w rt force (From_Market name) = import_from_marketplace w rt name force"

definition preserves :: "'a lop \<Rightarrow> bool" where
  "preserves m \<longleftrightarrow> (\<forall>s p c. dget (dk_files (lf_disk s)) p = Some c \<longrightarrow> dget (dk_files (lf_disk (snd (m s)))) p = Some c)"

lemma preserves_bind: "preserves m \<Longrightarrow> (\<And>x. preserves (f x)) \<Longrightarrow> preserves (op_bind m f)"
  unfolding preserves_def op_bind_apply by (auto split: prod.split sum.split) (metis snd_conv)+

lemma preserves_then: "preserves m \<Longrightarrow> preserves n \<Longrightarrow> preserves (op_then m n)"
  unfolding op_then_def by (rule preserves_bind)

lemma keeps_preserves: "keeps {} m \<Longrightarrow> preserves m"
  by (simp add: keeps_def preserves_def)

lemma write_new:
  assumes "no_worker rt name d0" and "dk_files (lf_disk s) = dk_files d0" and "dget (dk_files d0) p = Some c"
  shows "dget (dk_files (lf_disk (snd (change_disk (write_at (yaml_path rt name) txt) s)))) p = Some c"
  using assms by (auto simp: change_disk_def write_at_def no_worker_def worker_paths_def yaml_path_def disk_exists_def split: sum.split)

text \<open>The tail that clone and import share: guard, snapshot, write, load.\<close>

lemma adopt_tail_preserves:
  "preserves (op_then (guard_name rt name False) (op_then (snapshot w rt name note_txt) (op_then (change_disk (write_at (yaml_path rt name) txt)) (reload w rt p'))))"
proof -
  let ?m = "op_then (guard_name rt name False) (op_then (snapshot w rt name note_txt) (op_then (change_disk (write_at (yaml_path rt name) txt)) (reload w rt p')))"
  have "dget (dk_files (lf_disk (snd (?m s)))) p = Some c" if f: "dget (dk_files (lf_disk s)) p = Some c" for s p c
  proof (cases "no_worker rt name (lf_disk s)")
    case False
    then have "guard_name rt name False s = (Inl FileExistsError, s)" by (simp add: guard_name_def on_disk_def no_worker_def)
    with f show ?thesis by (simp add: op_then_apply)
  next
    case True
    then have g: "guard_name rt name False s = (Inr (), s)" by (simp add: guard_name_def on_disk_def no_worker_def)
    obtain r1 s1 where snap: "snapshot w rt name note_txt s = (r1, s1)" by fastforce
    with snapshot_of_nothing [OF True, of w note_txt] have same: "dk_files (lf_disk s1) = dk_files (lf_disk s)" by simp
    obtain r2 s2 where wr: "change_disk (write_at (yaml_path rt name) txt) s1 = (r2, s2)" by fastforce
    with write_new [OF True same f, of "txt"] have "dget (dk_files (lf_disk s2)) p = Some c" by simp
    moreover have "snd (reload w rt p' s2) = s2" by (simp add: reload_def on_disk_def)
    ultimately show ?thesis using g snap wr same f by (cases r1; cases r2) (auto simp: op_then_apply split: prod.split)
  qed
  then show ?thesis by (simp add: preserves_def)
qed

lemma create_tail_preserves:
  "preserves (op_then (guard_name rt name False) (op_then (change_disk (write_at (yaml_path rt name) txt)) (reload w rt p')))"
proof -
  let ?m = "op_then (guard_name rt name False) (op_then (change_disk (write_at (yaml_path rt name) txt)) (reload w rt p'))"
  have "dget (dk_files (lf_disk (snd (?m s)))) p = Some c" if f: "dget (dk_files (lf_disk s)) p = Some c" for s p c
  proof (cases "no_worker rt name (lf_disk s)")
    case False
    then have "guard_name rt name False s = (Inl FileExistsError, s)" by (simp add: guard_name_def on_disk_def no_worker_def)
    with f show ?thesis by (simp add: op_then_apply)
  next
    case True
    then have g: "guard_name rt name False s = (Inr (), s)" by (simp add: guard_name_def on_disk_def no_worker_def)
    obtain r2 s2 where wr: "change_disk (write_at (yaml_path rt name) txt) s = (r2, s2)" by fastforce
    with write_new [OF True refl f, of "txt"] have "dget (dk_files (lf_disk s2)) p = Some c" by simp
    moreover have "snd (reload w rt p' s2) = s2" by (simp add: reload_def on_disk_def)
    ultimately show ?thesis using g wr by (cases r2) (auto simp: op_then_apply split: prod.split)
  qed
  then show ?thesis by (simp add: preserves_def)
qed

lemma import_preserves: "preserves (import_worker w rt src False)"
  unfolding import_worker_def
  by (intro preserves_bind adopt_tail_preserves) (auto intro!: keeps_preserves keeps_pure)

lemma market_keeps: "keeps {} (marketplace_dir rt)"
  unfolding marketplace_dir_def Let_def by (intro keeps_intros)

text \<open>C38: a new worker overwrites nothing.  Without \<open>force\<close>, cloning, importing, creating from a template and importing from the marketplace leave the content
  of every file that was there unchanged, whether they succeed or fail, and at whatever step they fail.\<close>

theorem adoption_overwrites_nothing:
  assumes "dget (dk_files (lf_disk s)) p = Some c"
  shows "dget (dk_files (lf_disk (snd (adopt w rt False a s)))) p = Some c"
proof -
  have "preserves (adopt w rt False a)"
  proof (cases a)
    case (Clone src dst)
    have "preserves (clone_worker w rt src dst False)"
      unfolding clone_worker_def by (intro preserves_bind adopt_tail_preserves keeps_preserves keeps_workers)
    with Clone show ?thesis by simp
  next
    case (Import src)
    then show ?thesis by (simp add: import_preserves)
  next
    case (Create tpl name goal)
    have "preserves (if x then op_raise e else m)" if "preserves m" for x e and m :: "worker_config lop"
      using that by (simp add: keeps_preserves keeps_pure)
    then show ?thesis unfolding Create adopt.simps create_worker_def
      by (intro preserves_bind create_tail_preserves) (auto intro!: keeps_preserves keeps_pure create_tail_preserves)
  next
    case (From_Market name)
    have "preserves (import_from_marketplace w rt name False)"
      unfolding import_from_marketplace_def Let_def
      by (intro preserves_bind preserves_then import_preserves keeps_preserves [OF market_keeps] keeps_preserves [OF keeps_pure(4)])
    with From_Market show ?thesis by simp
  qed
  with assms show ?thesis by (simp add: preserves_def)
qed

definition demo_life :: life_world where
  "demo_life = \<lparr>lw_worker = \<lparr>ww_env = demo_env, ww_cwd = ''/'', ww_home = None,
       ww_pyyaml = Some (\<lambda>t. Inr (VDict [(''name'', VStr ''ann''), (''disabled'', VBool (t = ''off''))]))\<rparr>,
     lw_dump = (\<lambda>d. if dget d ''disabled'' = Some (VBool True) then ''off'' else ''on'')\<rparr>"

definition demo_life_state :: life where
  "demo_life_state = \<lparr>lf_disk = \<lparr>dk_files = [(''/ws/workers/ann.yaml'', ''on''), (''/ws/workers/bob.yaml'', ''old'')],
     dk_dirs = [''/ws'', ''/ws/workers''], dk_denied = []\<rparr>, lf_ticks = 0\<rparr>"

theorem adoption_overwrites_nothing_witness:
  "dget (dk_files (lf_disk (snd (adopt demo_life ''/ws'' False (Clone ''ann'' ''bob'') demo_life_state)))) ''/ws/workers/bob.yaml'' = Some ''old''"
proof -
  have "dget (dk_files (lf_disk demo_life_state)) ''/ws/workers/bob.yaml'' = Some ''old''" by (simp add: demo_life_state_def)
  then show ?thesis by (rule adoption_overwrites_nothing)
qed

section \<open>The switch reads back\<close>

lemma written_reads:
  assumes "change_disk (write_at p body) s = (Inr u, s')" and "CHR 0x0D \<notin> set body"
  shows "open_read (lf_disk s') p = Inr body"
  using assms by (auto simp: change_disk_def write_at_def open_read_def newlines_id split: if_splits sum.splits)

lemma disabled_dict: "dset (worker_dict wk) ''disabled'' (VBool b) = worker_dict (wk\<lparr>wc_disabled := b\<rparr>)"
  by (simp add: worker_dict_def)

text \<open>switching a worker off changes that switch and nothing else.  When \<open>set_enabled\<close> returns, the worker it loads from the file it wrote has the flag
  that was asked for and every other field as before, its policy and allow-lists among them.  The YAML library is assumed to read back the mapping it
  writes, without carriage returns.\<close>

theorem set_enabled_exact:
  assumes "d = dset (worker_dict wk) ''disabled'' (VBool b)"
    and "parse_yaml (ww_pyyaml (lw_worker w)) (lw_dump w d) = Inr (VDict d)" and "CHR 0x0D \<notin> set (lw_dump w d)"
    and "get_worker (lw_worker w) rt name (lf_disk s) = Inr wk" and "settled wk" and "wc_workspace wk = rt"
    and "set_enabled w rt name b s = (Inr wk', s')"
  shows "wk' = wk\<lparr>wc_disabled := b, wc_path := path_abs (ww_cwd (lw_worker w)) (wc_path wk)\<rparr>"
proof -
  let ?wk = "wk\<lparr>wc_disabled := b\<rparr>"
  let ?txt = "lw_dump w (worker_dict ?wk)"
  obtain s1 where snap: "snapshot w rt name (if b then ''disable'' else ''enable'') s = (Inr (), s1)"
    and rest: "op_then (change_disk (write_at (wc_path wk) ?txt)) (reload w rt (wc_path wk)) s1 = (Inr wk', s')"
    using assms(4,7) by (auto simp: set_enabled_def the_worker_def on_disk_def op_bind_apply op_then_apply render_worker_def disabled_dict split: prod.splits sum.splits)
  then obtain s2 where wr: "change_disk (write_at (wc_path wk) ?txt) s1 = (Inr (), s2)" and ld: "load_worker (lw_worker w) rt (wc_path wk) (lf_disk s2) = Inr wk'"
    by (auto simp: op_then_apply reload_def on_disk_def split: prod.splits sum.splits)
  have d: "d = worker_dict ?wk" using assms(1) by (simp add: disabled_dict)
  then have "open_read (lf_disk s2) (wc_path wk) = Inr ?txt" using written_reads [OF wr] assms(3) by simp
  moreover have "settled ?wk" "wc_workspace ?wk = rt" using assms(5,6) by (simp_all add: settled_def limits_default_def)
  ultimately show ?thesis using ld assms(2) d worker_reads_back_lemma [of ?wk rt] by (simp add: load_worker_def)
qed

definition demo_off_doc :: doc where
  "demo_off_doc = [(''name'', VStr ''ann''), (''disabled'', VBool True)]"

definition demo_wk :: worker_config where
  "demo_wk = projr (load_worker_doc demo_env ''/'' ''/ws'' ''/ws/workers/ann.yaml'' (VDict demo_off_doc))"

definition demo_switch :: life_world where
  "demo_switch = \<lparr>lw_worker = \<lparr>ww_env = demo_env, ww_cwd = ''/'', ww_home = None,
       ww_pyyaml = Some (\<lambda>t. Inr (VDict (if t = ''on'' then dset (worker_dict demo_wk) ''disabled'' (VBool False) else demo_off_doc)))\<rparr>,
     lw_dump = (\<lambda>_. ''on'')\<rparr>"

definition demo_off_state :: life where
  "demo_off_state = demo_life_state\<lparr>lf_disk := (lf_disk demo_life_state)\<lparr>dk_files := [(''/ws/workers/ann.yaml'', ''off'')]\<rparr>\<rparr>"

theorem set_enabled_exact_witness:
  "\<exists>wk' s'. set_enabled demo_switch ''/ws'' ''ann'' False demo_off_state = (Inr wk', s') \<and> \<not> wc_disabled wk' \<and> wc_disabled demo_wk"
proof -
  let ?run = "set_enabled demo_switch ''/ws'' ''ann'' False demo_off_state"
  let ?got = "get_worker (lw_worker demo_switch) ''/ws'' ''ann'' (lf_disk demo_off_state)"
  have "\<not> isl (fst ?run)" "\<not> isl ?got" by code_simp+
  then obtain wk' s' wk where run: "?run = (Inr wk', s')" and got: "?got = Inr wk" by (cases ?run; cases "fst ?run"; cases ?got) auto
  let ?load = "load_worker_doc demo_env ''/'' ''/ws'' ''/ws/workers/ann.yaml'' (VDict demo_off_doc)"
  have found: "find (disk_exists (lf_disk demo_off_state)) (worker_paths ''/ws'' ''ann'') = Some ''/ws/workers/ann.yaml''"
    "open_read (lf_disk demo_off_state) ''/ws/workers/ann.yaml'' = Inr ''off''" by code_simp+
  have "?got = ?load" by (simp add: get_worker_def load_worker_def found parse_yaml_def) (simp add: demo_switch_def)
  with got have "?load = Inr wk" by simp
  then have wk: "wk = demo_wk" by (simp only: demo_wk_def sum.sel)
  have "wc_max_steps demo_wk = 12" "wc_browser_timeout demo_wk = 30" "wc_name demo_wk = ''ann''" "wc_sandbox demo_wk = ''none''"
    "wc_fs_roots demo_wk = [''/ws'']" "wc_knowledge demo_wk = []" "wc_approval_policy demo_wk = []" "limits_default demo_wk"
    "policy_settled (wc_policy demo_wk)" "path_isabs ''/ws''" and fin: "wc_workspace demo_wk = ''/ws''" "wc_disabled demo_wk" by code_simp+
  then have st: "settled demo_wk" by (simp add: settled_def all_abs_def)
  have yaml: "parse_yaml (ww_pyyaml (lw_worker demo_switch)) (lw_dump demo_switch (dset (worker_dict demo_wk) ''disabled'' (VBool False)))
      = Inr (VDict (dset (worker_dict demo_wk) ''disabled'' (VBool False)))" "CHR 0x0D \<notin> set (lw_dump demo_switch d)" for d
    by (simp_all add: demo_switch_def parse_yaml_def)
  have "\<not> wc_disabled wk'"
    using set_enabled_exact [OF refl yaml got [unfolded wk] st fin(1) run] by simp
  with run fin(2) show ?thesis by blast
qed

end
