(* ===== verification/Knowledge.thy ===== *)
theory Knowledge
  imports Data Fs_Tools Worker_Files
begin

text \<open>
  \<open>sworker/knowledge.py\<close>: collection and extraction of company sources, compilation through the Atlas package, search over compiled claims, the
  plain-text fallback, the index status with its stale and missing sources, rebuilding, and the polling watcher.  Atlas, the PDF and DOCX readers,
  \<open>json.loads\<close>, the digest and the file times are parameters (\<open>know_world\<close>).  Lemmas: every source is accounted for, results quote
  the corpus, ranking and limits, and when a source counts as stale.
\<close>

record atlas =
  at_ingest :: "string \<Rightarrow> error + doc"                       \<comment> \<open>\<open>ingest_file\<close> of a path\<close>
  at_ingest_text :: "string \<Rightarrow> error + doc"                  \<comment> \<open>of a temporary file with this text\<close>
  at_compile :: "doc list \<Rightarrow> int \<Rightarrow> bool \<Rightarrow> doc"              \<comment> \<open>the report\<close>
  at_stats :: doc
  at_fingerprint :: string
  at_changelog :: "doc list"
  at_read :: "string \<Rightarrow> doc list"                         \<comment> \<open>\<open>read_all\<close>\<close>
  at_collections :: "string list"
  at_explain :: "string \<Rightarrow> doc option"
  at_format :: "doc \<Rightarrow> string option"                     \<comment> \<open>\<open>format_human\<close>, \<open>None\<close> when it raises\<close>

record know_world =
  kw_env :: env
  kw_cwd :: string
  kw_atlas :: "string + atlas"                          \<comment> \<open>the import error, or the package\<close>
  kw_pdf :: "string \<Rightarrow> string option"
  kw_docx :: "string \<Rightarrow> string option"
  kw_json :: "string \<Rightarrow> pyval option"
  kw_stat :: "string \<Rightarrow> (time \<times> int) option"

section \<open>Text of a JSON document\<close>

definition json_scalar :: "env \<Rightarrow> pyval \<Rightarrow> string" where
  "json_scalar e v = (case v of VNone \<Rightarrow> [] | VBool b \<Rightarrow> if b then ''true'' else ''false'' | _ \<Rightarrow> py_str e v)"

definition nested :: "pyval \<Rightarrow> bool" where
  "nested v \<longleftrightarrow> (case v of VDict _ \<Rightarrow> True | VList _ \<Rightarrow> True | _ \<Rightarrow> False)"

definition is_dict :: "pyval \<Rightarrow> bool" where
  "is_dict v \<longleftrightarrow> (case v of VDict _ \<Rightarrow> True | _ \<Rightarrow> False)"

definition one_line :: "string \<Rightarrow> string" where
  "one_line s = map (\<lambda>c. if c = CHR 0x0A then CHR '' '' else c) s"

definition table_row :: "string list \<Rightarrow> string" where
  "table_row cells = ''| '' @ join '' | '' cells @ '' |''"

text \<open>The columns in order of first appearance, and the rows.\<close>

definition table_cols :: "pyval list \<Rightarrow> string list" where
  "table_cols xs = rev (remdups (rev (concat (map (dkeys \<circ> val_doc) xs))))"

definition table_lines :: "env \<Rightarrow> pyval list \<Rightarrow> string list" where
  "table_lines e xs = (let cols = table_cols xs in
     [table_row cols, table_row (map (\<lambda>_. ''---'') cols)]
     @ map (\<lambda>x. table_row (map (\<lambda>c. one_line (json_scalar e (get_with (val_doc x) c (VStr [])))) cols)) xs @ [[]])"

fun render_json :: "env \<Rightarrow> pyval \<Rightarrow> string list"
and render_fields :: "env \<Rightarrow> doc \<Rightarrow> string list"
and render_items :: "env \<Rightarrow> pyval list \<Rightarrow> string list" where
  "render_json e (VDict d) = render_fields e d"
| "render_json e (VList xs) = (if xs \<noteq> [] \<and> list_all is_dict xs then table_lines e xs else render_items e xs @ [[]])"
| "render_json e v = [json_scalar e v]"
| "render_fields e [] = []"
| "render_fields e ((k, v) # d) = (''## '' @ k) # (if nested v then render_json e v else [json_scalar e v]) @ [] # render_fields e d"
| "render_items e [] = []"
| "render_items e (x # xs) = (if nested x then render_json e x else [''- '' @ json_scalar e x]) @ render_items e xs"

definition extract_json :: "know_world \<Rightarrow> disk \<Rightarrow> string \<Rightarrow> string option" where
  "extract_json w d p = (case open_read d p of
       Inl _ \<Rightarrow> None
     | Inr txt \<Rightarrow> map_option (\<lambda>v. str_strip (join [CHR 0x0A] (render_json (kw_env w) v))) (kw_json w txt))"

section \<open>Collecting sources\<close>

definition ADAPTERS :: "(string \<times> string) list" where
  "ADAPTERS = [(''.pdf'', ''pdf''), (''.docx'', ''docx''), (''.json'', ''json'')]"

definition extract_text :: "know_world \<Rightarrow> disk \<Rightarrow> string \<Rightarrow> string \<Rightarrow> string option" where
  "extract_text w d kind p = (if kind = ''pdf'' then kw_pdf w p else if kind = ''docx'' then kw_docx w p else extract_json w d p)"

definition private_name :: "string \<Rightarrow> bool" where
  "private_name n \<longleftrightarrow> starts_with n ''.'' \<or> starts_with n ''_''"

definition is_file :: "disk \<Rightarrow> string \<Rightarrow> bool" where
  "is_file d p \<longleftrightarrow> dget (dk_files d) p \<noteq> None"

definition walk_files :: "disk \<Rightarrow> (string \<Rightarrow> bool) \<Rightarrow> string \<Rightarrow> string list" where
  "walk_files d keep rt = concat (map (\<lambda>(p, ns). map (path_join p) (filter keep ns)) (walk (Suc (length (dk_dirs d))) d rt))"

definition root_files :: "know_world \<Rightarrow> disk \<Rightarrow> string \<Rightarrow> string list" where
  "root_files w d rt = (if is_file d rt then [path_abs (kw_cwd w) rt] else walk_files d (\<lambda>n. \<not> private_name n) rt)"

definition file_ext :: "string \<Rightarrow> string" where
  "file_ext p = str_lower (drop (length (path_stem p)) p)"

record collected =
  co_markdown :: "string list"
  co_other :: "(string \<times> string \<times> string) list"       \<comment> \<open>path, extension, text\<close>
  co_skipped :: "(string \<times> string \<times> string) list"     \<comment> \<open>path, extension, reason\<close>
  co_seen :: "string list"

definition take_text :: "string \<Rightarrow> string \<Rightarrow> string \<Rightarrow> string option \<Rightarrow> collected \<Rightarrow> collected" where
  "take_text f ext kind txt c = (case txt of
       None \<Rightarrow> c\<lparr>co_skipped := co_skipped c @ [(f, ext, kind @ ''-unavailable'')]\<rparr>
     | Some t \<Rightarrow> if length (str_strip t) < 40 then c\<lparr>co_skipped := co_skipped c @ [(f, ext, ''too-short'')]\<rparr>
         else c\<lparr>co_other := co_other c @ [(f, ext, t)]\<rparr>)"

definition collect_one :: "know_world \<Rightarrow> disk \<Rightarrow> string \<Rightarrow> collected \<Rightarrow> collected" where
  "collect_one w d f c = (let ext = file_ext f in
     if ext = ''.md'' then (if f \<notin> set (co_seen c) then c\<lparr>co_markdown := co_markdown c @ [f], co_seen := f # co_seen c\<rparr> else c)
     else case dget ADAPTERS ext of
         None \<Rightarrow> c
       | Some kind \<Rightarrow> if f \<in> set (co_seen c) then c else take_text f ext kind (extract_text w d kind f) (c\<lparr>co_seen := f # co_seen c\<rparr>))"

definition collect_sources :: "know_world \<Rightarrow> disk \<Rightarrow> string list \<Rightarrow> collected" where
  "collect_sources w d roots = (let c = fold (collect_one w d) (concat (map (root_files w d) roots)) \<lparr>co_markdown = [], co_other = [], co_skipped = [], co_seen = []\<rparr>
     in c\<lparr>co_markdown := sort (co_markdown c)\<rparr>)"

definition co_count :: "collected \<Rightarrow> nat" where
  "co_count c = length (co_markdown c) + length (co_other c)"

definition collect_markdown :: "know_world \<Rightarrow> disk \<Rightarrow> string list \<Rightarrow> string list" where
  "collect_markdown w d roots = sort (remdups (concat (map (\<lambda>rt.
     if is_file d rt \<and> ends_with rt ''.md'' then [path_abs (kw_cwd w) rt]
     else walk_files d (\<lambda>n. ends_with n ''.md'' \<and> \<not> private_name n) rt) roots)))"

section \<open>Compilation\<close>

definition long_enough :: "doc \<Rightarrow> bool" where
  "long_enough rec \<longleftrightarrow> 40 \<le> length (str_strip (val_str (get_with rec ''text'' (VStr []))))"

text \<open>A source that fails to ingest, or is short, is left out.\<close>

definition ingest_markdown :: "atlas \<Rightarrow> string \<Rightarrow> error + doc option" where
  "ingest_markdown a f = (case at_ingest a f of
       Inl e \<Rightarrow> (if e \<in> {OSError, FileNotFoundError, PermissionError} then Inr None else Inl e)
     | Inr rec \<Rightarrow> Inr (if long_enough rec then Some rec else None))"

text \<open>The temporary file is made inside the store's directory; when it cannot be made, the source is left out too.\<close>

definition ingest_other :: "know_world \<Rightarrow> atlas \<Rightarrow> bool \<Rightarrow> string \<times> string \<times> string \<Rightarrow> doc option" where
  "ingest_other w a dir_exists src = (case src of (p, _, t) \<Rightarrow>
     if \<not> dir_exists then None
     else case at_ingest_text a t of
         Inl _ \<Rightarrow> None
       | Inr rec \<Rightarrow> if long_enough rec
           then Some (dset (dset rec ''path'' (VStr (path_abs (kw_cwd w) p))) ''title'' (VStr (path_base p))) else None)"

definition skipped_docs :: "(string \<times> string \<times> string) list \<Rightarrow> pyval" where
  "skipped_docs xs = VList (map (\<lambda>(p, x, r). strs [p, x, r]) xs)"

definition no_sources :: "string list \<Rightarrow> collected \<Rightarrow> doc" where
  "no_sources roots c = [(''ok'', VBool False), (''reason'', VStr ''no-markdown''), (''roots'', strs roots), (''ingested'', VInt 0),
     (''skipped'', skipped_docs (co_skipped c)), (''adapters'', VDict [(''pdf'', VStr ''pdf''), (''docx'', VStr ''docx''), (''json'', VStr ''json'')])]"

definition next_cycle :: "atlas \<Rightarrow> int" where
  "next_cycle a = int (length (filter (\<lambda>c. dget c ''op'' = Some (VStr ''note'')) (at_changelog a))) + 1"

definition atlas_missing :: "string \<Rightarrow> doc" where
  "atlas_missing err = [(''ok'', VBool False), (''reason'', VStr ''atlas-unavailable''), (''error'', VStr err)]"

text \<open>\<open>a\<close> is the store before the compilation and \<open>a2\<close> the store after it.\<close>

definition compiled_report :: "atlas \<Rightarrow> atlas \<Rightarrow> string \<Rightarrow> collected \<Rightarrow> doc list \<Rightarrow> bool \<Rightarrow> doc" where
  "compiled_report a a2 dir c sources summarize = [(''ok'', VBool True), (''atlas_dir'', VStr dir), (''files'', VInt (int (co_count c))),
     (''markdown_files'', VInt (int (length (co_markdown c)))), (''adapter_files'', VInt (int (length (co_other c)))),
     (''skipped'', skipped_docs (co_skipped c)), (''sources'', VInt (int (length sources))), (''stats'', VDict (at_stats a2)),
     (''report'', VDict (at_compile a sources (next_cycle a) summarize)), (''fingerprint'', VStr (at_fingerprint a2))]"

definition compile_knowledge :: "know_world \<Rightarrow> atlas \<Rightarrow> disk \<Rightarrow> string list \<Rightarrow> string \<Rightarrow> bool \<Rightarrow> error + doc" where
  "compile_knowledge w a2 d roots dir summarize = (case kw_atlas w of
       Inl err \<Rightarrow> Inr (atlas_missing err)
     | Inr a \<Rightarrow> (let c = collect_sources w d roots in
         if co_markdown c = [] \<and> co_other c = [] then Inr (no_sources roots c)
         else bind_sum (map_sum_list (ingest_markdown a) (co_markdown c)) (\<lambda>mds.
           Inr (compiled_report a a2 dir c (List.map_filter id mds @ List.map_filter (ingest_other w a (is_dir d dir)) (co_other c)) summarize))))"

section \<open>Searching\<close>

definition STOP_WORDS :: "string list" where
  "STOP_WORDS = [''the'', ''a'', ''an'', ''of'', ''for'', ''and'', ''or'', ''to'', ''in'', ''on'', ''is'', ''are'', ''what'', ''why'', ''how'', ''do'', ''does'',
     ''we'', ''our'', ''i'', ''this'', ''that'', ''about'']"

definition token_char :: "char \<Rightarrow> bool" where
  "token_char c = (let n = (of_char c :: nat) in (48 \<le> n \<and> n \<le> 57) \<or> (97 \<le> n \<and> n \<le> 122))"

fun runs_acc :: "string \<Rightarrow> string \<Rightarrow> string list" where
  "runs_acc acc [] = (if acc = [] then [] else [rev acc])"
| "runs_acc acc (c # cs) = (if token_char c then runs_acc (c # acc) cs else (if acc = [] then [] else [rev acc]) @ runs_acc [] cs)"

definition tokens :: "string \<Rightarrow> string list" where
  "tokens q = filter (\<lambda>t. 2 < length t \<and> t \<notin> set STOP_WORDS) (runs_acc [] (str_lower q))"

definition token_hits :: "string list \<Rightarrow> string \<Rightarrow> nat" where
  "token_hits toks low = length (filter (contains low) toks)"

record scored =
  sc_score :: rat
  sc_id :: string
  sc_claim :: doc

definition claim_text :: "doc \<Rightarrow> error + string" where
  "claim_text c = (case get_or c ''text'' (VStr []) of VStr t \<Rightarrow> Inr (str_lower t) | _ \<Rightarrow> Inl AttributeError)"

definition doc_id :: "doc \<Rightarrow> error + string" where
  "doc_id c = (case dget c ''id'' of Some v \<Rightarrow> Inr (val_str v) | None \<Rightarrow> Inl KeyError)"

definition score_claim :: "string list \<Rightarrow> doc \<Rightarrow> error + scored option" where
  "score_claim toks c = bind_sum (claim_text c) (\<lambda>low. let n = token_hits toks low in
     if n = 0 then Inr None
     else bind_sum (py_float (get_or c ''confidence'' (VFloat 0))) (\<lambda>conf. bind_sum (doc_id c) (\<lambda>i.
       Inr (Some \<lparr>sc_score = of_nat n / of_nat (length toks) + 15 / 100 * conf, sc_id = i, sc_claim = c\<rparr>))))"

text \<open>\<open>key=lambda x: (-x[0], x[1])\<close>: two stable sorts.\<close>

definition rank_claims :: "scored list \<Rightarrow> scored list" where
  "rank_claims xs = sort_key (\<lambda>x. - sc_score x) (sort_key sc_id xs)"

definition source_doc :: "doc \<Rightarrow> pyval" where
  "source_doc s = VDict [(''id'', get_with s ''id'' (VStr [])), (''title'', get_with s ''title'' (VStr [])), (''path'', get_with s ''path'' (VStr []))]"

definition claim_doc :: "doc list \<Rightarrow> scored \<Rightarrow> doc" where
  "claim_doc sources x = (let c = sc_claim x;
       find_src = (\<lambda>i. case find (\<lambda>s. dget s ''id'' = Some i) (rev sources) of Some s \<Rightarrow> s | None \<Rightarrow> [])
     in [(''claim_id'', VStr (sc_id x)), (''text'', get_with c ''text'' (VStr [])), (''confidence'', get_with c ''confidence'' VNone),
         (''status'', get_with c ''status'' (VStr [])), (''stance'', get_with c ''stance'' (VStr [])), (''hedged'', get_with c ''hedged'' (VBool False)),
         (''contradiction_ids'', get_or c ''contradiction_ids'' (VList [])), (''score'', VFloat (py_round 4 (sc_score x))),
         (''sources'', VList (map source_doc (filter (\<lambda>s. s \<noteq> []) (map find_src (get_list c ''source_ids'')))))])"

definition search_claims :: "know_world \<Rightarrow> disk \<Rightarrow> string \<Rightarrow> string \<Rightarrow> int \<Rightarrow> error + doc list" where
  "search_claims w d dir query limit = (case kw_atlas w of
       Inl _ \<Rightarrow> Inr []
     | Inr a \<Rightarrow> (if \<not> is_dir d dir then Inr []
         else let toks = tokens query in
           if toks = [] then Inr []
           else bind_sum (map_sum_list doc_id (at_read a ''sources'')) (\<lambda>_.
             bind_sum (map_sum_list (score_claim toks) (at_read a ''claims'')) (\<lambda>xs.
               Inr (map (claim_doc (at_read a ''sources'')) (py_take limit (rank_claims (List.map_filter id xs))))))))"

definition explain_claim :: "know_world \<Rightarrow> string \<Rightarrow> doc option" where
  "explain_claim w cid = (case kw_atlas w of Inl _ \<Rightarrow> None | Inr a \<Rightarrow> at_explain a cid)"

record grep_hit =
  gh_path :: string
  gh_line :: nat
  gh_text :: string
  gh_score :: rat

definition grep_line :: "string list \<Rightarrow> string \<Rightarrow> nat \<Rightarrow> string \<Rightarrow> grep_hit option" where
  "grep_line toks p i line_txt = (let n = token_hits toks (str_lower line_txt) in
     if n = 0 then None
     else Some \<lparr>gh_path = p, gh_line = i, gh_text = take 300 (str_strip line_txt), gh_score = of_nat n / of_nat (max (length toks) 1)\<rparr>)"

definition grep_file :: "disk \<Rightarrow> string list \<Rightarrow> string \<Rightarrow> grep_hit list" where
  "grep_file d toks p = (case open_read d p of Inl _ \<Rightarrow> []
     | Inr txt \<Rightarrow> (let ls = file_lines [] txt in List.map_filter (\<lambda>(i, line_txt). grep_line toks p i line_txt) (zip [1..<Suc (length ls)] ls)))"

definition rank_hits :: "grep_hit list \<Rightarrow> grep_hit list" where
  "rank_hits hs = sort_key (\<lambda>h. - gh_score h) (sort_key gh_path (sort_key gh_line hs))"

definition grep_knowledge :: "know_world \<Rightarrow> disk \<Rightarrow> string list \<Rightarrow> string \<Rightarrow> int \<Rightarrow> grep_hit list" where
  "grep_knowledge w d roots query limit = py_take limit (rank_hits (concat (map (grep_file d (tokens query)) (collect_markdown w d roots))))"

section \<open>Index status\<close>

definition file_sha256 :: "know_world \<Rightarrow> disk \<Rightarrow> string \<Rightarrow> string option" where
  "file_sha256 w d p = (if p \<in> set (dk_denied d) then None else map_option (sha256 (kw_env w)) (dget (dk_files d) p))"

datatype source_state = Missing | Unreadable | Fresh | Stale string

definition source_path :: "doc \<Rightarrow> string" where
  "source_path s = val_str (get_or s ''path'' (VStr []))"

definition source_state_of :: "know_world \<Rightarrow> disk \<Rightarrow> doc \<Rightarrow> source_state" where
  "source_state_of w d s = (let p = source_path s; recorded = val_str (get_or s ''checksum'' (VStr [])) in
     if p = [] \<or> \<not> is_file d p then Missing
     else case file_sha256 w d p of
         None \<Rightarrow> Unreadable
       | Some live \<Rightarrow> if recorded \<noteq> [] \<and> live \<noteq> recorded then Stale live else Fresh)"

definition missing_doc :: "doc \<Rightarrow> pyval" where
  "missing_doc s = VDict [(''source_id'', get_with s ''id'' VNone), (''title'', get_with s ''title'' VNone), (''path'', VStr (source_path s))]"

definition stale_doc :: "doc \<Rightarrow> string \<Rightarrow> pyval" where
  "stale_doc s live = VDict [(''source_id'', get_with s ''id'' VNone), (''title'', get_with s ''title'' VNone), (''path'', VStr (source_path s)),
     (''recorded_checksum'', VStr (take 12 (val_str (get_or s ''checksum'' (VStr []))))), (''live_checksum'', VStr (take 12 live))]"

definition stale_sources :: "know_world \<Rightarrow> disk \<Rightarrow> doc list \<Rightarrow> pyval list" where
  "stale_sources w d ss = List.map_filter (\<lambda>s. case source_state_of w d s of Stale live \<Rightarrow> Some (stale_doc s live) | _ \<Rightarrow> None) ss"

definition missing_sources :: "know_world \<Rightarrow> disk \<Rightarrow> doc list \<Rightarrow> pyval list" where
  "missing_sources w d ss = List.map_filter (\<lambda>s. if source_state_of w d s = Missing then Some (missing_doc s) else None) ss"

definition no_index :: "string \<Rightarrow> doc" where
  "no_index dir = [(''compiled'', VBool False), (''atlas_dir'', VStr dir), (''available'', VBool False), (''sources'', VInt 0), (''claims'', VInt 0),
     (''entities'', VInt 0), (''contradictions'', VInt 0), (''fingerprint'', VStr []), (''changelog_entries'', VInt 0), (''stale'', VList []),
     (''missing_sources'', VList []), (''stale_count'', VInt 0), (''missing_count'', VInt 0)]"

definition set_all :: "(string \<times> pyval) list \<Rightarrow> doc \<Rightarrow> doc" where
  "set_all kvs d = fold (\<lambda>(k, v) acc. dset acc k v) kvs d"

definition live_index :: "know_world \<Rightarrow> disk \<Rightarrow> atlas \<Rightarrow> string \<Rightarrow> doc" where
  "live_index w d a dir = (let stale = stale_sources w d (at_read a ''sources''); gone = missing_sources w d (at_read a ''sources'');
       stat = (\<lambda>k. (k, get_with (at_stats a) k (VInt 0)))
     in set_all [(''available'', VBool True), (''compiled'', VBool True), stat ''sources'', stat ''claims'', stat ''entities'', stat ''contradictions'',
          (''fingerprint'', VStr (at_fingerprint a)), stat ''changelog_entries'', (''stale'', VList stale), (''missing_sources'', VList gone),
          (''stale_count'', VInt (int (length stale))), (''missing_count'', VInt (int (length gone)))] (no_index dir))"

definition atlas_index_status :: "know_world \<Rightarrow> disk \<Rightarrow> string \<Rightarrow> doc" where
  "atlas_index_status w d dir = (case kw_atlas w of
       Inl _ \<Rightarrow> dset (no_index dir) ''reason'' (VStr ''atlas-unavailable'')
     | Inr a \<Rightarrow> if \<not> is_dir d dir then dset (no_index dir) ''reason'' (VStr ''no-index'') else live_index w d a dir)"

definition incremental_compile :: "know_world \<Rightarrow> atlas \<Rightarrow> disk \<Rightarrow> string list \<Rightarrow> string \<Rightarrow> bool \<Rightarrow> error + doc" where
  "incremental_compile w a2 d roots dir summarize =
     bind_sum (compile_knowledge w a2 d roots dir summarize) (\<lambda>core. let pre = VDict (atlas_index_status w d dir) in
       Inr (if \<not> get_truthy core ''ok'' then set_all [(''pre'', pre), (''post'', VNone)] core
            else set_all [(''pre'', pre), (''post'', VDict (atlas_index_status (w\<lparr>kw_atlas := Inr a2\<rparr>) d dir))] core))"

definition under :: "string \<Rightarrow> string \<Rightarrow> bool" where
  "under dir p \<longleftrightarrow> p = dir \<or> starts_with p (dir @ ''/'')"

definition wipe :: "string \<Rightarrow> disk \<Rightarrow> disk" where
  "wipe dir d = d\<lparr>dk_files := filter (\<lambda>(p, _). \<not> under dir p) (dk_files d), dk_dirs := filter (\<lambda>p. \<not> under dir p) (dk_dirs d)\<rparr>"

definition looks_like_store :: "disk \<Rightarrow> atlas \<Rightarrow> string \<Rightarrow> bool" where
  "looks_like_store d a dir \<longleftrightarrow> list_ex (\<lambda>c. is_dir d (path_join dir c)) (at_collections a)"

definition rebuild_index :: "know_world \<Rightarrow> know_world \<Rightarrow> atlas \<Rightarrow> disk \<Rightarrow> string list \<Rightarrow> string \<Rightarrow> bool \<Rightarrow> (error + doc) \<times> disk" where
  "rebuild_index w emptied a2 d roots dir summarize = (case kw_atlas w of
       Inl err \<Rightarrow> (Inr (atlas_missing err), d)
     | Inr a \<Rightarrow> (if is_dir d dir \<and> looks_like_store d a dir
         then (incremental_compile emptied a2 (wipe dir d) roots dir summarize, wipe dir d)
         else (incremental_compile w a2 d roots dir summarize, d)))"

section \<open>The watcher\<close>

type_synonym root_snapshot = "(string \<times> time \<times> int) list"

definition stat_entry :: "know_world \<Rightarrow> string \<Rightarrow> (string \<times> time \<times> int) option" where
  "stat_entry w p = map_option (\<lambda>st. (path_abs (kw_cwd w) p, st)) (kw_stat w p)"

definition roots_snapshot :: "know_world \<Rightarrow> disk \<Rightarrow> string list \<Rightarrow> root_snapshot" where
  "roots_snapshot w d roots = foldl (\<lambda>acc (p, st). dset acc p st) []
     (List.map_filter (stat_entry w) (concat (map (\<lambda>rt. if is_file d rt then [rt] else walk_files d (\<lambda>n. \<not> private_name n) rt) roots)))"

definition snapshot_changed :: "root_snapshot \<Rightarrow> root_snapshot \<Rightarrow> bool" where
  "snapshot_changed prev cur \<longleftrightarrow> set (dkeys prev) \<noteq> set (dkeys cur) \<or> list_ex (\<lambda>(k, v). dget prev k \<noteq> Some v) cur"

definition watch_error :: "(error \<Rightarrow> string) \<Rightarrow> error \<Rightarrow> doc" where
  "watch_error exc e = [(''ok'', VBool False), (''reason'', VStr ''watch-compile-error''), (''error'', VStr (exc e))]"

text \<open>The world, the store after a compilation and the disk at one poll.\<close>

type_synonym poll = "know_world \<times> atlas \<times> disk"

fun watch_polls :: "(error \<Rightarrow> string) \<Rightarrow> string list \<Rightarrow> string \<Rightarrow> bool \<Rightarrow> root_snapshot \<Rightarrow> poll list \<Rightarrow> doc list" where
  "watch_polls exc roots dir summarize prev [] = []"
| "watch_polls exc roots dir summarize prev ((w, a2, d) # polls) =
     (let cur = roots_snapshot w d roots in
      if \<not> snapshot_changed prev cur then watch_polls exc roots dir summarize prev polls
      else (case incremental_compile w a2 d roots dir summarize of Inr r \<Rightarrow> r | Inl e \<Rightarrow> watch_error exc e)
        # watch_polls exc roots dir summarize cur polls)"

definition watch_knowledge :: "(error \<Rightarrow> string) \<Rightarrow> know_world \<Rightarrow> disk \<Rightarrow> string list \<Rightarrow> string \<Rightarrow> bool \<Rightarrow> poll list \<Rightarrow> doc list" where
  "watch_knowledge exc w d roots dir summarize polls = (let rts = map (path_abs (kw_cwd w)) roots in
     watch_polls exc rts dir summarize (roots_snapshot w d rts) polls)"

section \<open>Every source is accounted for\<close>

definition supported :: "string \<Rightarrow> bool" where
  "supported f \<longleftrightarrow> file_ext f \<in> {''.md'', ''.pdf'', ''.docx'', ''.json''}"

definition recorded_files :: "collected \<Rightarrow> string list" where
  "recorded_files c = co_markdown c @ map fst (co_other c) @ map fst (co_skipped c)"

definition text_of :: "know_world \<Rightarrow> disk \<Rightarrow> string \<Rightarrow> string option" where
  "text_of w d f = (case dget ADAPTERS (file_ext f) of Some kind \<Rightarrow> extract_text w d kind f | None \<Rightarrow> None)"

definition faithful :: "know_world \<Rightarrow> disk \<Rightarrow> collected \<Rightarrow> bool" where
  "faithful w d c \<longleftrightarrow> (\<forall>f x t. (f, x, t) \<in> set (co_other c) \<longrightarrow> text_of w d f = Some t \<and> 40 \<le> length (str_strip t)) \<and>
     (\<forall>f x r. (f, x, r) \<in> set (co_skipped c) \<longrightarrow> (case text_of w d f of None \<Rightarrow> ends_with r ''-unavailable'' | Some t \<Rightarrow> r = ''too-short'' \<and> length (str_strip t) < 40))"

definition accounted :: "know_world \<Rightarrow> disk \<Rightarrow> string set \<Rightarrow> collected \<Rightarrow> bool" where
  "accounted w d fs c \<longleftrightarrow> distinct (recorded_files c) \<and> set (recorded_files c) = set (co_seen c) \<and> set (co_seen c) = {f \<in> fs. supported f} \<and>
     (\<forall>f\<in>set (co_markdown c). file_ext f = ''.md'') \<and> faithful w d c"

lemma dget_ADAPTERS: "dget ADAPTERS x = Some kind \<longleftrightarrow> (x, kind) \<in> {(''.pdf'', ''pdf''), (''.docx'', ''docx''), (''.json'', ''json'')}"
  by (auto simp: ADAPTERS_def)

lemma unavailable: "ends_with (kind @ ''-unavailable'') ''-unavailable''"
  by (simp add: ends_with_def starts_with_append)

lemma take_text_step:
  assumes "accounted w d fs c" and "f \<notin> set (co_seen c)" and "dget ADAPTERS (file_ext f) = Some kind"
  shows "accounted w d (insert f fs) (take_text f (file_ext f) kind (extract_text w d kind f) (c\<lparr>co_seen := f # co_seen c\<rparr>))"
proof -
  have s1: "text_of w d f = extract_text w d kind f" by (simp add: text_of_def assms(3))
  have s2: "supported f" using assms(3) by (auto simp: supported_def dget_ADAPTERS)
  note s = s1 s2
  show ?thesis
    using assms(1,2) s unavailable [of kind]
    by (auto simp: take_text_def accounted_def recorded_files_def faithful_def split: option.splits)
qed

lemma collect_one_step: "accounted w d fs c \<Longrightarrow> accounted w d (insert f fs) (collect_one w d f c)"
proof -
  assume a: "accounted w d fs c"
  consider (md) "file_ext f = ''.md''" | (ad) kind where "dget ADAPTERS (file_ext f) = Some kind" "file_ext f \<noteq> ''.md''"
    | (no) "dget ADAPTERS (file_ext f) = None" "file_ext f \<noteq> ''.md''" by (cases "dget ADAPTERS (file_ext f)") auto
  then show ?thesis
  proof cases
    case md
    then have "supported f" by (simp add: supported_def)
    with a md show ?thesis by (auto simp: collect_one_def Let_def accounted_def recorded_files_def faithful_def)
  next
    case ad
    show ?thesis
    proof (cases "f \<in> set (co_seen c)")
      case True
      then have "insert f fs = fs" using a by (auto simp: accounted_def)
      with a ad True show ?thesis by (simp add: collect_one_def Let_def)
    next
      case False
      with take_text_step [OF a False ad(1)] ad show ?thesis by (simp add: collect_one_def Let_def)
    qed
  next
    case no
    then have "\<not> supported f" by (auto simp: supported_def ADAPTERS_def)
    then have "{g \<in> insert f fs. supported g} = {g \<in> fs. supported g}" by auto
    with a no show ?thesis by (simp add: collect_one_def Let_def accounted_def)
  qed
qed

lemma collect_fold: "accounted w d fs c \<Longrightarrow> accounted w d (set files \<union> fs) (fold (collect_one w d) files c)"
proof (induction files arbitrary: fs c)
  case (Cons f files)
  from Cons.IH [OF collect_one_step [OF Cons.prems, of f]] show ?case by (simp add: insert_commute)
qed simp

text \<open>no company source is dropped in silence or counted twice.  The files that collection records, as markdown, as extracted text or as skipped with a reason, are exactly the
  files of a supported kind under the roots, each once; an extracted text is what the adapter gave and at least 40 characters long, and a skipped
  file either has no text or a shorter one, as its reason says.\<close>

theorem sources_accounted:
  "let c = collect_sources w d roots; files = concat (map (root_files w d) roots) in
   distinct (recorded_files c) \<and> set (recorded_files c) = set (filter supported files) \<and>
   co_count c = length (recorded_files c) - length (co_skipped c) \<and> faithful w d c"
proof -
  let ?c = "fold (collect_one w d) (concat (map (root_files w d) roots)) \<lparr>co_markdown = [], co_other = [], co_skipped = [], co_seen = []\<rparr>"
  have "accounted w d {} \<lparr>co_markdown = [], co_other = [], co_skipped = [], co_seen = []\<rparr>"
    by (simp add: accounted_def recorded_files_def faithful_def)
  from collect_fold [OF this, of "concat (map (root_files w d) roots)"]
  have "accounted w d (set (concat (map (root_files w d) roots))) ?c" by simp
  then show ?thesis
    by (auto simp: Let_def collect_sources_def accounted_def recorded_files_def co_count_def faithful_def)
qed

section \<open>The plain-text fallback quotes the corpus\<close>

lemma py_take_subset: "set (py_take n xs) \<subseteq> set xs"
  by (auto simp: py_take_def dest: in_set_takeD)

lemma length_py_take: "0 \<le> n \<Longrightarrow> int (length (py_take n xs)) \<le> n"
  by (simp add: py_take_def)

lemma set_rank_hits [simp]: "set (rank_hits hs) = set hs"
  by (simp add: rank_hits_def)

lemma set_map_filter: "y \<in> set (List.map_filter f xs) \<longleftrightarrow> (\<exists>x\<in>set xs. f x = Some y)"
  by (auto simp: List.map_filter_def) force

definition quoted :: "disk \<Rightarrow> string list \<Rightarrow> grep_hit \<Rightarrow> bool" where
  "quoted d toks h \<longleftrightarrow> (case open_read d (gh_path h) of Inl _ \<Rightarrow> False
     | Inr txt \<Rightarrow> (let ls = file_lines [] txt; l = ls ! (gh_line h - 1) in
         1 \<le> gh_line h \<and> gh_line h \<le> length ls \<and> gh_text h = take 300 (str_strip l) \<and> list_ex (contains (str_lower l)) toks))"

lemma token_hits_pos: "token_hits toks low \<noteq> 0 \<longleftrightarrow> list_ex (contains low) toks"
  by (auto simp: token_hits_def list_ex_iff filter_empty_conv)

lemma grep_line_quoted:
  "grep_line toks p i l = Some h \<Longrightarrow> gh_path h = p \<and> gh_line h = i \<and> gh_text h = take 300 (str_strip l) \<and> list_ex (contains (str_lower l)) toks"
  by (auto simp: grep_line_def Let_def token_hits_pos simp flip: neq0_conv split: if_splits)

lemma grep_file_quoted:
  assumes "h \<in> set (grep_file d toks p)" shows "gh_path h = p \<and> quoted d toks h"
proof -
  obtain content where t: "open_read d p = Inr content" using assms by (cases "open_read d p") (simp_all add: grep_file_def)
  let ?ls = "file_lines [] content"
  from assms t obtain i l where il: "(i, l) \<in> set (zip [1..<Suc (length ?ls)] ?ls)" and h: "grep_line toks p i l = Some h"
    by (auto simp: grep_file_def Let_def set_map_filter)
  from il have "1 \<le> i \<and> i \<le> length ?ls \<and> ?ls ! (i - 1) = l" by (auto simp: in_set_zip simp del: upt_Suc)
  with grep_line_quoted [OF h] t show ?thesis by (auto simp: quoted_def Let_def)
qed

text \<open>the fallback search fabricates nothing.  Whatever the corpus and the query, every hit names a readable markdown file under the
  roots and a line of it that really contains a word of the query, its text is that line, and there are at most \<open>limit\<close> hits.\<close>

theorem grep_quotes_corpus:
  assumes "0 \<le> limit"
  shows "int (length (grep_knowledge w d roots query limit)) \<le> limit \<and>
    list_all (\<lambda>h. gh_path h \<in> set (collect_markdown w d roots) \<and> quoted d (tokens query) h) (grep_knowledge w d roots query limit)"
  using py_take_subset [of limit] length_py_take [OF assms] grep_file_quoted
  by (fastforce simp: grep_knowledge_def list_all_iff)

definition demo_know :: "know_world" where
  "demo_know = \<lparr>kw_env = demo_env, kw_cwd = ''/w'', kw_atlas = Inl ''missing'', kw_pdf = \<lambda>_. None, kw_docx = \<lambda>_. None, kw_json = \<lambda>_. None, kw_stat = \<lambda>_. None\<rparr>"

definition demo_corpus :: disk where
  "demo_corpus = \<lparr>dk_files = [(''/w/company/a.md'', ''# Pricing'' @ [CHR 0x0A] @ ''Our pricing is fixed.'')], dk_dirs = [''/w/company''], dk_denied = []\<rparr>"

lemma grep_quotes_corpus_witness:
  "(let hs = grep_knowledge demo_know demo_corpus [''/w/company''] ''what about pricing'' 1 in int (length hs) \<le> 1 \<and>
    list_all (\<lambda>h. gh_path h \<in> set (collect_markdown demo_know demo_corpus [''/w/company'']) \<and> quoted demo_corpus (tokens ''what about pricing'') h) hs)"
  using grep_quotes_corpus [of 1 demo_know demo_corpus "[''/w/company'']" "''what about pricing''"] by (simp add: Let_def)

section \<open>What the index status counts\<close>

lemma length_map_filter: "length (List.map_filter f xs) = length (filter (\<lambda>x. f x \<noteq> None) xs)"
  by (simp add: List.map_filter_def)

lemma length_map_filter_iff:
  assumes "\<And>x. f x \<noteq> None \<longleftrightarrow> P x" shows "length (List.map_filter f xs) = length (filter P xs)"
  unfolding length_map_filter using assms by presburger

definition gone :: "disk \<Rightarrow> doc \<Rightarrow> bool" where
  "gone d s \<longleftrightarrow> source_path s = [] \<or> dget (dk_files d) (source_path s) = None"

definition edited :: "know_world \<Rightarrow> disk \<Rightarrow> doc \<Rightarrow> bool" where
  "edited w d s \<longleftrightarrow> \<not> gone d s \<and> source_path s \<notin> set (dk_denied d) \<and> (let recorded = val_str (get_or s ''checksum'' (VStr [])) in
     recorded \<noteq> [] \<and> dget (dk_files d) (source_path s) \<noteq> None \<and> recorded \<noteq> sha256 (kw_env w) (the (dget (dk_files d) (source_path s))))"

lemma state_missing: "(if source_state_of w d s = Missing then Some (missing_doc s) else None) \<noteq> None \<longleftrightarrow> gone d s"
  by (auto simp: source_state_of_def gone_def is_file_def Let_def split: option.splits)

lemma state_stale: "(case source_state_of w d s of Stale live \<Rightarrow> Some (stale_doc s live) | _ \<Rightarrow> None) \<noteq> None \<longleftrightarrow> edited w d s"
  by (auto simp: source_state_of_def edited_def gone_def is_file_def file_sha256_def Let_def split: option.splits)

text \<open>the status of a compiled index counts as stale exactly the sources whose readable file no longer has the digest recorded at compile
  time, and as missing exactly those without a file.  A source whose file exists but cannot be read is in neither count.\<close>

theorem index_counts_exact:
  assumes "kw_atlas w = Inr a" and "is_dir d dir"
  shows "dget (atlas_index_status w d dir) ''compiled'' = Some (VBool True) \<and>
    dget (atlas_index_status w d dir) ''stale_count'' = Some (VInt (int (length (filter (edited w d) (at_read a ''sources''))))) \<and>
    dget (atlas_index_status w d dir) ''missing_count'' = Some (VInt (int (length (filter (gone d) (at_read a ''sources'')))))"
  using assms unfolding atlas_index_status_def live_index_def stale_sources_def missing_sources_def
    length_map_filter_iff [of _ "edited w d", OF state_stale] length_map_filter_iff [of _ "gone d", OF state_missing]
  by (simp add: set_all_def Let_def length_map_filter_iff [of _ "edited w d", OF state_stale] length_map_filter_iff [of _ "gone d", OF state_missing])

definition demo_atlas :: atlas where
  "demo_atlas = \<lparr>at_ingest = \<lambda>p. Inr [(''path'', VStr p), (''text'', VStr (replicate 50 CHR ''x''))],
     at_ingest_text = \<lambda>t. Inr [(''text'', VStr (replicate 50 CHR ''x''))], at_compile = \<lambda>_ _ _. [], at_stats = [], at_fingerprint = ''f'', at_changelog = [],
     at_read = \<lambda>c. if c = ''sources'' then [[(''path'', VStr ''/w/company/a.md''), (''checksum'', VStr ''old'')]] else [],
     at_collections = [''sources''], at_explain = \<lambda>_. None, at_format = \<lambda>_. None\<rparr>"

lemma index_counts_exact_witness:
  "dget (atlas_index_status (demo_know\<lparr>kw_atlas := Inr demo_atlas\<rparr>) (demo_corpus\<lparr>dk_denied := [''/w/company/a.md'']\<rparr>) ''/w/company'') ''stale_count'' = Some (VInt 0) \<and>
   dget (atlas_index_status (demo_know\<lparr>kw_atlas := Inr demo_atlas\<rparr>) (demo_corpus\<lparr>dk_denied := [''/w/company/a.md'']\<rparr>) ''/w/company'') ''missing_count'' = Some (VInt 0)"
  using index_counts_exact [of "demo_know\<lparr>kw_atlas := Inr demo_atlas\<rparr>" demo_atlas "demo_corpus\<lparr>dk_denied := [''/w/company/a.md'']\<rparr>" "''/w/company''"]
  by (simp add: demo_corpus_def demo_atlas_def is_dir_def edited_def gone_def source_path_def get_or_def)

section \<open>A rebuild loses the converted documents\<close>

lemma is_dir_wipe [simp]: "\<not> is_dir (wipe dir d) dir"
  by (simp add: is_dir_def wipe_def under_def)

lemma no_dir_no_other: "List.map_filter (ingest_other w a False) xs = []"
  by (induction xs) (auto simp: List.map_filter_simps ingest_other_def)

lemma ok_set_all: "dget (set_all [(''pre'', x), (''post'', y)] c) ''sources'' = dget c ''sources'' \<and>
    dget (set_all [(''pre'', x), (''post'', y)] c) ''markdown_files'' = dget c ''markdown_files'' \<and> get_truthy (set_all [(''pre'', x), (''post'', y)] c) ''ok'' = get_truthy c ''ok''"
  by (simp add: set_all_def get_truthy_def)

lemma length_map_sum_list: "map_sum_list f xs = Inr ys \<Longrightarrow> length ys = length xs"
  by (induction xs arbitrary: ys) (auto elim!: bind_sumE)

lemma compile_without_dir:
  assumes "compile_knowledge w a2 d roots dir b = Inr r" and "\<not> is_dir d dir" and "get_truthy r ''ok''"
  shows "\<exists>n m. dget r ''sources'' = Some (VInt n) \<and> dget r ''markdown_files'' = Some (VInt m) \<and> n \<le> m"
proof -
  obtain a where a: "kw_atlas w = Inr a" using assms(1,3) by (cases "kw_atlas w") (auto simp: compile_knowledge_def atlas_missing_def get_truthy_def)
  let ?c = "collect_sources w d roots"
  from assms(1,3) a obtain mds where m: "map_sum_list (ingest_markdown a) (co_markdown ?c) = Inr mds"
    and r: "r = compiled_report a a2 dir ?c (List.map_filter id mds) b"
    using assms(2) by (auto simp: compile_knowledge_def Let_def no_sources_def get_truthy_def no_dir_no_other elim!: bind_sumE split: if_splits)
  have len: "length mds = length (co_markdown ?c)" using m by (rule length_map_sum_list)
  have "length (List.map_filter id mds) \<le> length mds" by (simp add: length_map_filter)
  with len r show ?thesis by (simp add: compiled_report_def)
qed

text \<open>a rebuild of an existing index loses every converted document.  The wipe removes the store's directory, the temporary file of each
  PDF, DOCX or JSON source is then made in a directory that is gone, and the failure is swallowed: a rebuild that reports success
  compiled at most the markdown files, whatever else was collected.\<close>

theorem rebuild_drops_documents:
  assumes "kw_atlas w = Inr a" and "is_dir d dir" and "looks_like_store d a dir"
    and "fst (rebuild_index w emptied a2 d roots dir b) = Inr r" and "get_truthy r ''ok''"
  shows "\<exists>n m. dget r ''sources'' = Some (VInt n) \<and> dget r ''markdown_files'' = Some (VInt m) \<and> n \<le> m"
proof -
  have "incremental_compile emptied a2 (wipe dir d) roots dir b = Inr r" using assms(1-4) by (simp add: rebuild_index_def)
  then obtain c x y where c: "compile_knowledge emptied a2 (wipe dir d) roots dir b = Inr c" and r: "r = set_all [(''pre'', x), (''post'', y)] c"
    by (auto simp: incremental_compile_def Let_def elim!: bind_sumE split: if_splits)
  from assms(5) r have "get_truthy c ''ok''" by (simp add: ok_set_all)
  with compile_without_dir [OF c] r show ?thesis by (simp add: ok_set_all)
qed

definition demo_store :: disk where
  "demo_store = demo_corpus\<lparr>dk_dirs := [''/w/company'', ''/a'', ''/a/sources'']\<rparr>"

lemma rebuild_drops_documents_witness:
  "\<exists>n m. dget (projr (fst (rebuild_index (demo_know\<lparr>kw_atlas := Inr demo_atlas\<rparr>) (demo_know\<lparr>kw_atlas := Inr demo_atlas\<rparr>) demo_atlas demo_store [''/w/company''] ''/a'' True))) ''sources'' = Some (VInt n) \<and>
     dget (projr (fst (rebuild_index (demo_know\<lparr>kw_atlas := Inr demo_atlas\<rparr>) (demo_know\<lparr>kw_atlas := Inr demo_atlas\<rparr>) demo_atlas demo_store [''/w/company''] ''/a'' True))) ''markdown_files'' = Some (VInt m) \<and> n \<le> m"
proof (rule rebuild_drops_documents [where a = demo_atlas])
  let ?r = "fst (rebuild_index (demo_know\<lparr>kw_atlas := Inr demo_atlas\<rparr>) (demo_know\<lparr>kw_atlas := Inr demo_atlas\<rparr>) demo_atlas demo_store [''/w/company''] ''/a'' True)"
  have "\<not> isl ?r" by code_simp
  then show "?r = Inr (projr ?r)" by (cases ?r) simp_all
  show "get_truthy (projr ?r) ''ok''" by code_simp
  show "is_dir demo_store ''/a''" by code_simp
  show "looks_like_store demo_store demo_atlas ''/a''" by code_simp
qed simp

section \<open>The watcher does not retry\<close>

lemma distinct_foldl_dset: "distinct (dkeys acc) \<Longrightarrow> distinct (dkeys (foldl (\<lambda>acc (p, st). dset acc p st) acc xs))"
  by (induction xs arbitrary: acc) (auto simp: distinct_dkeys_dset)

lemma unchanged_snapshot: "\<not> snapshot_changed (roots_snapshot w d roots) (roots_snapshot w d roots)"
proof -
  have "distinct (dkeys (roots_snapshot w d roots))" unfolding roots_snapshot_def by (rule distinct_foldl_dset) simp
  then show ?thesis by (auto simp: snapshot_changed_def list_ex_iff dget_Some_iff)
qed

lemma watch_quiet:
  "list_all (\<lambda>(w, a2, d). roots_snapshot w d roots = prev) polls \<Longrightarrow> watch_polls exc roots dir b prev polls = []"
  using unchanged_snapshot by (induction polls) (auto simp: Let_def)

text \<open>the watcher compiles once for a change, whatever the outcome.  After a poll that saw a change, as many polls as may follow with the
  same files report nothing more, even when the compilation at that poll failed and would now succeed.\<close>

theorem watcher_never_retries:
  assumes "snapshot_changed prev (roots_snapshot w d roots)" and "incremental_compile w a2 d roots dir b = Inl e"
    and "list_all (\<lambda>(w', a2', d'). roots_snapshot w' d' roots = roots_snapshot w d roots) polls"
  shows "watch_polls exc roots dir b prev ((w, a2, d) # polls) = [watch_error exc e]"
  using assms watch_quiet by (simp add: Let_def)

definition demo_failing :: know_world where
  "demo_failing = demo_know\<lparr>kw_atlas := Inr (demo_atlas\<lparr>at_ingest := \<lambda>_. Inl ValueError\<rparr>), kw_stat := \<lambda>_. Some (1, 1)\<rparr>"

lemma watcher_never_retries_witness:
  "watch_polls (\<lambda>_. ''failed'') [''/w/company''] ''/a'' True [] ((demo_failing, demo_atlas, demo_corpus)
     # replicate 3 (demo_failing\<lparr>kw_atlas := Inr demo_atlas\<rparr>, demo_atlas, demo_corpus)) = [watch_error (\<lambda>_. ''failed'') ValueError]"
proof (rule watcher_never_retries)
  show "snapshot_changed [] (roots_snapshot demo_failing demo_corpus [''/w/company''])" by code_simp
  have "isl (incremental_compile demo_failing demo_atlas demo_corpus [''/w/company''] ''/a'' True) \<and>
     projl (incremental_compile demo_failing demo_atlas demo_corpus [''/w/company''] ''/a'' True) = ValueError" by code_simp
  then show "incremental_compile demo_failing demo_atlas demo_corpus [''/w/company''] ''/a'' True = Inl ValueError"
    by (cases "incremental_compile demo_failing demo_atlas demo_corpus [''/w/company''] ''/a'' True") simp_all
  show "list_all (\<lambda>(w', a2', d'). roots_snapshot w' d' [''/w/company''] = roots_snapshot demo_failing demo_corpus [''/w/company''])
     (replicate 3 (demo_failing\<lparr>kw_atlas := Inr demo_atlas\<rparr>, demo_atlas, demo_corpus))" by code_simp
qed

end
