(* ===== verification/Catalog.thy ===== *)
theory Catalog
  imports Git_Tools Browser Knowledge Lifecycle Exec_Tools Message_Tool Http Permissions Sales_Tools
begin

text \<open>
  \<open>sworker/tools/__init__.py\<close> and \<open>sworker/tools/knowledge.py\<close>: the two knowledge tools, the metadata of the tabular and HTTP tools, and
  the default registry that holds every tool of the platform.  Lemmas: what the registry contains, the risk of every tool that
  leaves the machine, what the family globs reach, and how a search without a compiled index is labelled.
\<close>

section \<open>Metadata of the tabular and HTTP tools\<close>

definition with_default :: "string \<Rightarrow> pyval \<Rightarrow> doc" where
  "with_default t v = Fs_Tools.typed t @ [(''default'', v)]"

definition csv_inspect_tool :: tool where
  "csv_inspect_tool = fs_tool ''data.inspect'' ''Report a CSV's columns, row count, checksum and first rows.'' Read
     (Fs_Tools.schema_of [(''path'', Fs_Tools.typed ''string''), (''rows'', with_default ''integer'' (VInt 5))] [''path''])"

definition AGGREGATES :: "string list" where
  "AGGREGATES = [''sum'', ''mean'', ''min'', ''max'', ''count'']"

definition csv_query_tool :: tool where
  "csv_query_tool = fs_tool ''data.query''
     ''Filter, group and aggregate a CSV deterministically. where: {col: value} or {col: {'>=': 10}} / {'contains': 'x'} / {'gte_str': '2026-01-01'}. agg: sum|mean|min|max|count over `value_column`, optionally grouped by `group_by`.'' Read
     (Fs_Tools.schema_of [(''path'', Fs_Tools.typed ''string''), (''where'', with_default ''object'' (VDict [])), (''group_by'', with_default ''string'' (VStr [])),
        (''value_column'', with_default ''string'' (VStr [])), (''agg'', with_default ''string'' (VStr ''sum'') @ [(''enum'', strs AGGREGATES)]),
        (''sort_desc'', with_default ''boolean'' (VBool True)), (''limit'', with_default ''integer'' (VInt 20))] [''path''])"

definition http_fields :: "(string \<times> doc) list" where
  "http_fields = [(''headers'', with_default ''object'' (VDict [])), (''auth_env'', Fs_Tools.typed ''string''), (''timeout'', with_default ''integer'' (VInt 30))]"

definition http_tool :: "string \<Rightarrow> string \<Rightarrow> bool \<Rightarrow> (string \<times> doc) list \<Rightarrow> tool" where
  "http_tool n d revb props = \<lparr>tool_name = n, tool_description = d, tool_schema = Fs_Tools.schema_of props [''url''], tool_risk = External,
     tool_reversible = revb, tool_requires_approval = False, tool_permissions = [], tool_categories = [''network'']\<rparr>"

definition http_get_tool :: tool where
  "http_get_tool = http_tool ''http.get''
     ''HTTP GET. Subject to the worker's egress_allow host allow-list (default-deny); SSRF targets (metadata/link-local) are always blocked.'' True
     ((''url'', Fs_Tools.typed ''string'') # http_fields)"

definition http_post_tool :: tool where
  "http_post_tool = http_tool ''http.post''
     ''HTTP POST with a JSON body. Subject to the worker's egress_allow host allow-list (default-deny); SSRF targets are always blocked.'' False
     ((''url'', Fs_Tools.typed ''string'') # (''body'', Fs_Tools.typed ''object'') # http_fields)"

definition http_get_summary :: "env \<Rightarrow> doc \<Rightarrow> string" where
  "http_get_summary e args = ''HTTP GET '' @ py_str e (get_with args ''url'' VNone)"

definition http_post_summary :: "env \<Rightarrow> doc \<Rightarrow> string" where
  "http_post_summary e args = ''HTTP POST '' @ py_str e (get_with args ''url'' VNone) @ '' (sends data off this machine)''"

definition csv_query_summary :: "env \<Rightarrow> doc \<Rightarrow> string" where
  "csv_query_summary e args = py_str e (get_with args ''agg'' (VStr ''sum'')) @ ''('' @ py_str e (get_or args ''value_column'' (VStr ''rows'')) @ '') over ''
     @ path_base (py_str e (get_with args ''path'' VNone)) @ '' where='' @ py_str e (get_or args ''where'' (VStr ''{}''))"

section \<open>Knowledge tools\<close>

definition knowledge_search_tool :: tool where
  "knowledge_search_tool = fs_tool ''knowledge.search''
     ''Search compiled company knowledge. Returns claims with confidence, source documents and contradiction ids. Degrades to labelled grep if the knowledge compiler is unavailable.'' Read
     (Fs_Tools.schema_of [(''query'', Fs_Tools.typed ''string''), (''limit'', with_default ''integer'' (VInt 8))] [''query''])"

definition knowledge_explain_tool :: tool where
  "knowledge_explain_tool = fs_tool ''knowledge.explain'' ''Explain why a compiled claim is believed: evidence, sources, lifecycle.'' Read
     (Fs_Tools.schema_of [(''claim_id'', Fs_Tools.typed ''string'')] [''claim_id''])"

definition KNOWLEDGE_TOOLS :: "tool list" where
  "KNOWLEDGE_TOOLS = [knowledge_search_tool, knowledge_explain_tool]"

definition source_label :: "pyval \<Rightarrow> error + string" where
  "source_label s = (case get_or (val_doc s) ''title'' (get_with (val_doc s) ''path'' (VStr [])) of VStr t \<Rightarrow> Inr t | _ \<Rightarrow> Inl TypeError)"

definition claim_sources :: "doc \<Rightarrow> error + string" where
  "claim_sources c = bind_sum (map_sum_list source_label (get_list c ''sources'')) (\<lambda>ls.
     let src = join '', '' ls in Inr (if src = [] then ''?'' else src))"

definition claim_line :: "env \<Rightarrow> doc \<Rightarrow> string \<Rightarrow> string" where
  "claim_line e c src = ''- '' @ py_str e (get_with c ''text'' VNone) @ '' (confidence='' @ py_str e (get_with c ''confidence'' VNone) @ '', source='' @ src @ '')''
     @ (if get_truthy c ''contradiction_ids'' then '' [CONTESTED]'' else [])"

definition claim_evidence :: "env \<Rightarrow> doc \<Rightarrow> string \<Rightarrow> doc" where
  "claim_evidence e c src = [(''source_ref'', get_with c ''claim_id'' VNone), (''excerpt'', VStr (py_str e (get_with c ''text'' VNone) @ '' <- '' @ src)),
     (''atlas_claim'', VBool True)]"

definition compiled_answer :: "env \<Rightarrow> tool_context \<Rightarrow> doc list \<Rightarrow> string list \<Rightarrow> tool_result" where
  "compiled_answer e c claims srcs = (let (body, cut) = truncate_text (join [CHR 0x0A] (map2 (claim_line e) claims srcs)) (tc_max_output c) in
     (tr_plain True)\<lparr>tr_output := body, tr_truncated := cut,
       tr_data := [(''claims'', docs claims), (''mode'', VStr ''compiled''), (''count'', VInt (int (length claims)))],
       tr_evidence := map2 (claim_evidence e) claims srcs\<rparr>)"

definition grep_ref :: "grep_hit \<Rightarrow> string" where
  "grep_ref h = gh_path h @ '':'' @ nat_str (gh_line h)"

definition grep_doc :: "grep_hit \<Rightarrow> doc" where
  "grep_doc h = [(''path'', VStr (gh_path h)), (''line'', VInt (int (gh_line h))), (''text'', VStr (gh_text h)), (''score'', VFloat (gh_score h))]"

definition DEGRADED_LABEL :: string where
  "DEGRADED_LABEL = ''[degraded: raw document grep, knowledge not compiled]''"

definition grep_answer :: "grep_hit list \<Rightarrow> tool_result" where
  "grep_answer hits = (tr_plain True)\<lparr>
     tr_output := DEGRADED_LABEL @ [CHR 0x0A] @ join [CHR 0x0A] (map (\<lambda>h. grep_ref h @ '': '' @ gh_text h) hits),
     tr_data := [(''hits'', docs (map grep_doc hits)), (''mode'', VStr ''grep''), (''count'', VInt (int (length hits)))],
     tr_evidence := map (\<lambda>h. evidence_of (grep_ref h) (gh_text h)) hits\<rparr>"

definition empty_answer :: tool_result where
  "empty_answer = (tr_plain True)\<lparr>tr_output := ''(no company knowledge matched this query)'',
     tr_data := [(''claims'', VList []), (''mode'', VStr ''empty''), (''count'', VInt 0)]\<rparr>"

definition index_dir :: "tool_context \<Rightarrow> string" where
  "index_dir c = path_join (path_join (tc_workspace c) ''.state'') ''atlas''"

definition knowledge_search :: "know_world \<Rightarrow> disk \<Rightarrow> tool_context \<Rightarrow> doc \<Rightarrow> error + tool_result" where
  "knowledge_search w d c args = bind_sum (py_int (get_with args ''limit'' (VInt 8))) (\<lambda>limit.
     let query = get_str args ''query'' in
     bind_sum (search_claims w d (index_dir c) query limit) (\<lambda>claims.
       if claims \<noteq> [] then bind_sum (map_sum_list claim_sources claims) (\<lambda>srcs. Inr (compiled_answer (kw_env w) c claims srcs))
       else let hits = grep_knowledge w d [path_join (tc_workspace c) ''company''] query limit in
         Inr (if hits = [] then empty_answer else grep_answer hits)))"

definition entry_text :: "know_world \<Rightarrow> doc \<Rightarrow> string" where
  "entry_text w entry = (case (case kw_atlas w of Inl _ \<Rightarrow> None | Inr a \<Rightarrow> at_format a entry) of
       Some t \<Rightarrow> t
     | None \<Rightarrow> json_indent (kw_env w) 0 (VDict entry))"

definition knowledge_explain :: "know_world \<Rightarrow> tool_context \<Rightarrow> doc \<Rightarrow> tool_result" where
  "knowledge_explain w c args = (let cid = get_str args ''claim_id''; entry = (case explain_claim w cid of Some x \<Rightarrow> x | None \<Rightarrow> []) in
     if entry = [] then tr_fail (''no compiled claim '' @ py_repr (kw_env w) (VStr cid)) []
     else let (body, cut) = truncate_text (entry_text w entry) (tc_max_output c) in
       (tr_plain True)\<lparr>tr_output := body, tr_truncated := cut, tr_data := [(''claim'', VDict entry)], tr_evidence := [evidence_of cid (take 400 body)]\<rparr>)"

section \<open>The default registry\<close>

definition BUILTIN_TOOLS :: "tool list" where
  "BUILTIN_TOOLS = FS_TOOLS @ [csv_inspect_tool, csv_query_tool] @ EXEC_TOOLS @ [http_get_tool, http_post_tool] @ GIT_TOOLS @ BROWSER_TOOLS
     @ [send_message_tool] @ KNOWLEDGE_TOOLS"

fun add_new :: "tool list \<Rightarrow> registry \<Rightarrow> error + registry" where
  "add_new [] r = Inr r"
| "add_new (t # ts) r = (if reg_has r (tool_name t) then add_new ts r else bind_sum (reg_register r t) (add_new ts))"

definition build_registry :: "error + registry" where
  "build_registry = bind_sum (reg_add_all BUILTIN_TOOLS []) (add_new (map fst SALES_TOOLS))"

definition DEFAULT_REGISTRY :: registry where
  "DEFAULT_REGISTRY = projr build_registry"

section \<open>What the registry holds\<close>

definition ALL_TOOLS :: "tool list" where
  "ALL_TOOLS = BUILTIN_TOOLS @ map fst SALES_TOOLS"

definition named :: "tool list \<Rightarrow> registry" where
  "named ts = map (\<lambda>t. (tool_name t, t)) ts"

lemma dkeys_named [simp]: "dkeys (named ts) = map tool_name ts"
  by (simp add: named_def dkeys_def o_def)

lemma add_all_fresh:
  "distinct (dkeys acc @ map tool_name ts) \<Longrightarrow> [] \<notin> set (map tool_name ts) \<Longrightarrow> reg_add_all ts acc = Inr (acc @ named ts)"
proof (induction ts arbitrary: acc)
  case (Cons t ts)
  have "reg_register acc t = Inr (acc @ [(tool_name t, t)])" using Cons.prems by (auto simp: reg_register_def dset_snoc)
  moreover have "reg_add_all ts (acc @ [(tool_name t, t)]) = Inr ((acc @ [(tool_name t, t)]) @ named ts)"
    using Cons.prems by (intro Cons.IH) (auto simp: dkeys_def)
  ultimately show ?case by (simp add: named_def)
qed (simp add: named_def)

lemma add_new_fresh:
  "distinct (dkeys acc @ map tool_name ts) \<Longrightarrow> [] \<notin> set (map tool_name ts) \<Longrightarrow> add_new ts acc = Inr (acc @ named ts)"
proof (induction ts arbitrary: acc)
  case (Cons t ts)
  have "\<not> reg_has acc (tool_name t)" using Cons.prems by (simp add: reg_has_def dget_None_iff)
  moreover have "reg_register acc t = Inr (acc @ [(tool_name t, t)])" using Cons.prems by (auto simp: reg_register_def dset_snoc)
  moreover have "add_new ts (acc @ [(tool_name t, t)]) = Inr ((acc @ [(tool_name t, t)]) @ named ts)"
    using Cons.prems by (intro Cons.IH) (auto simp: dkeys_def)
  ultimately show ?case by (simp add: named_def)
qed (simp add: named_def)

lemmas tool_catalog_defs = FS_TOOLS_def read_file_tool_def write_file_tool_def delete_file_tool_def list_dir_tool_def search_files_tool_def fs_tool_def
  csv_inspect_tool_def csv_query_tool_def EXEC_TOOLS_def shell_exec_tool_def python_run_tool_def http_get_tool_def http_post_tool_def http_tool_def
  GIT_TOOLS_def git_status_tool_def git_diff_tool_def git_branch_tool_def git_commit_tool_def git_push_tool_def git_tool_def
  BROWSER_TOOLS_def browser_open_tool_def browser_click_tool_def browser_type_tool_def browser_download_tool_def browser_upload_tool_def browser_tool_def
  send_message_tool_def KNOWLEDGE_TOOLS_def knowledge_search_tool_def knowledge_explain_tool_def

definition RISKS :: "(string \<times> risk_level) list" where
  "RISKS = [(''fs.read'', Read), (''fs.write'', Reversible), (''fs.delete'', Destructive), (''fs.list'', Read), (''fs.search'', Read), (''data.inspect'', Read),
     (''data.query'', Read), (''shell.exec'', Reversible), (''python.run'', Reversible), (''http.get'', External), (''http.post'', External), (''git.status'', Read),
     (''git.diff'', Read), (''git.branch'', Reversible), (''git.commit'', Reversible), (''git.push'', External), (''browser.open'', External),
     (''browser.click'', External), (''browser.type'', External), (''browser.download'', External), (''browser.upload'', External), (''message.send'', External),
     (''knowledge.search'', Read), (''knowledge.explain'', Read), (''sales_pipeline_list'', Read), (''sales_evidence_explain'', Read), (''sales_lead_detail'', Read),
     (''sales_stale_leads'', Read), (''sales_pipeline_summary'', Read), (''sales_followup_due'', Read), (''sales_metrics'', Read), (''sales_discover'', Reversible),
     (''sales_research'', Reversible), (''sales_qualify'', Reversible), (''sales_move_stage'', Reversible), (''sales_draft_outreach'', Reversible),
     (''sales_schedule_followup'', Reversible), (''sales_approve_draft'', External), (''sales_record_sent'', External), (''sales_bulk_send'', Financial)]"

lemma all_risks: "map (\<lambda>t. (tool_name t, tool_risk t)) ALL_TOOLS = RISKS"
  by (simp add: ALL_TOOLS_def BUILTIN_TOOLS_def tool_catalog_defs SALES_TOOLS_def sales_tool_defs sales_tool_def RISKS_def)

lemma all_names: "map tool_name ALL_TOOLS = map fst RISKS"
  unfolding all_risks [symmetric] by (simp add: o_def)

lemma names_distinct: "distinct (map fst RISKS)" "[] \<notin> set (map fst RISKS)"
  by code_simp+

lemma registry_eq: "build_registry = Inr (named ALL_TOOLS)"
proof -
  have d: "distinct (map tool_name BUILTIN_TOOLS @ map tool_name (map fst SALES_TOOLS))" "[] \<notin> set (map tool_name BUILTIN_TOOLS @ map tool_name (map fst SALES_TOOLS))"
    using names_distinct unfolding all_names [symmetric] by (simp_all add: ALL_TOOLS_def)
  then have "reg_add_all BUILTIN_TOOLS [] = Inr (named BUILTIN_TOOLS)" using add_all_fresh [of "[]" BUILTIN_TOOLS] by (simp add: dkeys_def)
  moreover have "add_new (map fst SALES_TOOLS) (named BUILTIN_TOOLS) = Inr (named BUILTIN_TOOLS @ named (map fst SALES_TOOLS))"
    using d by (intro add_new_fresh) auto
  ultimately show ?thesis by (simp add: build_registry_def ALL_TOOLS_def named_def)
qed

lemma DEFAULT_REGISTRY_eq: "DEFAULT_REGISTRY = named ALL_TOOLS"
  by (simp add: DEFAULT_REGISTRY_def registry_eq)

lemma registry_risk: "(n, t) \<in> set DEFAULT_REGISTRY \<Longrightarrow> n = tool_name t \<and> (tool_name t, tool_risk t) \<in> set RISKS"
  unfolding DEFAULT_REGISTRY_eq all_risks [symmetric] by (auto simp: named_def)

lemma glob_of_named: "filter (\<lambda>(k, t). starts_with k p) (named ts) = named (filter (\<lambda>t. starts_with (tool_name t) p) ts)"
  by (simp add: named_def filter_map o_def)

text \<open>The tools through which something can leave the machine.\<close>

definition LEAVING :: "string list" where
  "LEAVING = [''http.get'', ''http.post'', ''git.push'', ''browser.open'', ''browser.click'', ''browser.type'', ''browser.download'', ''browser.upload'',
     ''message.send'', ''sales_approve_draft'', ''sales_record_sent'', ''sales_bulk_send'']"

lemma leaving_risk: "list_all (\<lambda>(n, r). n \<in> set LEAVING \<longrightarrow> External \<le> r) RISKS"
  by code_simp

text \<open>no tool that reaches out is decided without a human.  Under a policy that is automatic for \<open>READ\<close> and \<open>REVERSIBLE\<close>
  actions only, as the default and every template are, the permission engine never decides automatically for a tool of the default registry
  that reaches out of the machine (those in \<open>LEAVING\<close>; \<open>http.get\<close> for a URL that is not local), whatever its other arguments and the history of rejections.\<close>

theorem leaving_needs_a_human:
  assumes "t \<in> set (map snd DEFAULT_REGISTRY)" and "tool_name t \<in> set LEAVING"
    and "tool_name t = ''http.get'' \<Longrightarrow> risk_for_url (get_str args ''url'') = Inr External"
    and "\<forall>r. External \<le> r \<longrightarrow> policy_for w r \<in> {''approve'', ''deny''}"
    and "evaluate e parse w g t args = Inr d"
  shows "\<not> dec_allowed d \<and> External \<le> dec_risk d"
proof -
  from assms(1) obtain n where "(n, t) \<in> set DEFAULT_REGISTRY" by auto
  with registry_risk have "(tool_name t, tool_risk t) \<in> set RISKS" by blast
  then have "External \<le> tool_risk t" using leaving_risk assms(2) by (auto simp: list_all_iff)
  also have "\<dots> \<le> dec_risk d" by (rule classify_floor [OF evaluate_risk [OF assms(5)]])
  finally have r: "External \<le> dec_risk d" .
  with assms(4) have "policy_for w (dec_risk d) \<in> {''approve'', ''deny''}" by blast
  with evaluate_cases [OF assms(5)] r show ?thesis by auto
qed

lemma leaving_needs_a_human_witness:
  "\<not> dec_allowed (projr (evaluate demo_env (\<lambda>_. None) (default_worker ''w'') new_guard git_push_tool [])) \<and>
   External \<le> dec_risk (projr (evaluate demo_env (\<lambda>_. None) (default_worker ''w'') new_guard git_push_tool []))"
proof -
  have m: "git_push_tool \<in> set (map snd DEFAULT_REGISTRY)"
    by (simp add: DEFAULT_REGISTRY_eq named_def o_def ALL_TOOLS_def BUILTIN_TOOLS_def GIT_TOOLS_def)
  have n: "tool_name git_push_tool \<in> set LEAVING" by code_simp
  have p: "\<forall>r. External \<le> r \<longrightarrow> policy_for (default_worker ''w'') r \<in> {''approve'', ''deny''}"
    by (intro allI, case_tac r) (simp_all add: policy_for_def default_worker_def DEFAULT_POLICY_def less_eq_risk_level_def)
  have "\<not> isl (evaluate demo_env (\<lambda>_. None) (default_worker ''w'') new_guard git_push_tool [])" by code_simp
  then have "evaluate demo_env (\<lambda>_. None) (default_worker ''w'') new_guard git_push_tool [] = Inr (projr (evaluate demo_env (\<lambda>_. None) (default_worker ''w'') new_guard git_push_tool []))"
    by (cases "evaluate demo_env (\<lambda>_. None) (default_worker ''w'') new_guard git_push_tool []") simp_all
  from leaving_needs_a_human [OF m n _ p this] show ?thesis by (simp add: GIT_TOOLS_def git_push_tool_def git_tool_def)
qed

text \<open>what the registry offers is fixed.  It can be built, its forty names are distinct, everything above \<open>REVERSIBLE\<close> is a tool that can
  leave the machine or deletes files, the family glob for sales tools matches none of the sixteen, because their names have
  no dot, and the plain star grants them all.\<close>

theorem registry_contents:
  "build_registry = Inr DEFAULT_REGISTRY \<and> map (\<lambda>(n, t). (n, tool_risk t)) DEFAULT_REGISTRY = RISKS \<and> distinct (dkeys DEFAULT_REGISTRY) \<and>
   filter (\<lambda>(n, r). \<not> r \<le> Reversible \<and> n \<notin> set LEAVING) RISKS = [(''fs.delete'', Destructive)] \<and>
   reg_subset DEFAULT_REGISTRY [''sales.*''] = Inr [] \<and> reg_subset DEFAULT_REGISTRY [''*''] = Inr DEFAULT_REGISTRY \<and>
   length (filter (\<lambda>n. starts_with n ''sales_'') (dkeys DEFAULT_REGISTRY)) = 16"
proof (intro conjI)
  show "build_registry = Inr DEFAULT_REGISTRY" by (simp add: registry_eq DEFAULT_REGISTRY_eq)
  show "map (\<lambda>(n, t). (n, tool_risk t)) DEFAULT_REGISTRY = RISKS" unfolding DEFAULT_REGISTRY_eq all_risks [symmetric] by (simp add: named_def o_def)
  show "distinct (dkeys DEFAULT_REGISTRY)" by (simp only: DEFAULT_REGISTRY_eq dkeys_named all_names names_distinct)
  show "filter (\<lambda>(n, r). \<not> r \<le> Reversible \<and> n \<notin> set LEAVING) RISKS = [(''fs.delete'', Destructive)]" by code_simp
  have "filter (\<lambda>n. starts_with n ''sales.'') (map tool_name ALL_TOOLS) = []" unfolding all_names by code_simp
  then have "filter (\<lambda>t. starts_with (tool_name t) ''sales.'') ALL_TOOLS = []" by (simp add: filter_map o_def)
  then show "reg_subset DEFAULT_REGISTRY [''sales.*''] = Inr []"
    by (simp add: DEFAULT_REGISTRY_eq reg_subset_def glob_of_named ends_with_def)  (simp add: named_def)
  have "reg_add_all ALL_TOOLS [] = Inr (named ALL_TOOLS)" using add_all_fresh [of "[]" ALL_TOOLS] names_distinct by (simp add: dkeys_def all_names)
  then show "reg_subset DEFAULT_REGISTRY [''*''] = Inr DEFAULT_REGISTRY"
    by (simp add: DEFAULT_REGISTRY_eq reg_subset_def ends_with_def) (simp add: named_def o_def)
  show "length (filter (\<lambda>n. starts_with n ''sales_'') (dkeys DEFAULT_REGISTRY)) = 16"
    unfolding DEFAULT_REGISTRY_eq dkeys_named all_names by code_simp
qed

text \<open>The tools that the text of a worker file lists.\<close>

definition listed_tools :: "string \<Rightarrow> string list" where
  "listed_tools body = (case mini_yaml body of Some (Inr v) \<Rightarrow> map val_str (get_list (val_doc v) ''tools'') | _ \<Rightarrow> [])"

definition template_tools :: "string \<Rightarrow> string list" where
  "template_tools n = (case render_template n ''w'' ''g'' of Inl _ \<Rightarrow> [] | Inr body \<Rightarrow> listed_tools body)"

lemma template_tools_values:
  "template_tools ''analyst'' = [''data.query'']" "template_tools ''operator'' = [''data.query'', ''shell.exec'']"
  "template_tools ''ingest'' = [''data.query'', ''knowledge.compile'']"
  by code_simp+

lemma no_compile_tool: "dget DEFAULT_REGISTRY ''knowledge.compile'' = None"
proof -
  have "''knowledge.compile'' \<notin> set (map fst RISKS)" by code_simp
  then show ?thesis by (simp only: dget_None_iff DEFAULT_REGISTRY_eq dkeys_named all_names) simp
qed

lemma registry_get: "t \<in> set ALL_TOOLS \<Longrightarrow> dget DEFAULT_REGISTRY (tool_name t) = Some t"
proof -
  assume t: "t \<in> set ALL_TOOLS"
  have "distinct (dkeys DEFAULT_REGISTRY)" by (simp only: DEFAULT_REGISTRY_eq dkeys_named all_names names_distinct)
  then show ?thesis using t by (auto simp: dget_Some_iff) (auto simp: DEFAULT_REGISTRY_eq named_def)
qed

lemma query_tool: "dget DEFAULT_REGISTRY ''data.query'' = Some csv_query_tool"
  using registry_get [of csv_query_tool] by (simp add: ALL_TOOLS_def BUILTIN_TOOLS_def) (simp add: csv_query_tool_def fs_tool_def)

lemma shell_tool: "dget DEFAULT_REGISTRY ''shell.exec'' = Some shell_exec_tool"
  using registry_get [of shell_exec_tool] by (simp add: ALL_TOOLS_def BUILTIN_TOOLS_def EXEC_TOOLS_def) (simp add: shell_exec_tool_def)

text \<open>a worker made from the template \<open>ingest\<close> can never start.  Of the built-in templates, exactly that one lists a tool
  that the registry does not have, so that selecting its tools raises; the other two are given the tools they list.\<close>

theorem ingest_template_never_starts:
  "list_templates = [''analyst'', ''ingest'', ''operator''] \<and>
   map_sum id dkeys (reg_subset DEFAULT_REGISTRY (template_tools ''analyst'')) = Inr [''data.query''] \<and>
   map_sum id dkeys (reg_subset DEFAULT_REGISTRY (template_tools ''operator'')) = Inr [''data.query'', ''shell.exec''] \<and>
   reg_subset DEFAULT_REGISTRY (template_tools ''ingest'') = Inl ToolError"
proof (intro conjI)
  show "list_templates = [''analyst'', ''ingest'', ''operator'']" by code_simp
qed (simp_all add: template_tools_values reg_subset_def ends_with_def reg_get_def query_tool shell_tool no_compile_tool reg_register_def
    csv_query_tool_def shell_exec_tool_def fs_tool_def)

section \<open>A search says what it is\<close>

lemma map_sum_list_in:
  "map_sum_list f xs = Inr ys \<Longrightarrow> y \<in> set ys \<Longrightarrow> \<exists>x\<in>set xs. f x = Inr y"
  by (induction xs arbitrary: ys) (auto elim!: bind_sumE)

lemma score_claim_id: "score_claim toks c = Inr (Some x) \<Longrightarrow> doc_id c = Inr (sc_id x)"
  by (auto simp: score_claim_def Let_def elim!: bind_sumE split: if_splits)

lemma set_rank_claims [simp]: "set (rank_claims xs) = set xs"
  by (simp add: rank_claims_def)

lemma search_claims_known:
  assumes "search_claims w d dir query limit = Inr cs" and "c \<in> set cs"
  shows "\<exists>a k i. kw_atlas w = Inr a \<and> k \<in> set (at_read a ''claims'') \<and> doc_id k = Inr i \<and> dget c ''claim_id'' = Some (VStr i)"
proof -
  from assms obtain a where a: "kw_atlas w = Inr a" by (cases "kw_atlas w") (auto simp: search_claims_def)
  from assms a obtain xs where xs: "map_sum_list (score_claim (tokens query)) (at_read a ''claims'') = Inr xs"
    and cs: "cs = map (claim_doc (at_read a ''sources'')) (py_take limit (rank_claims (List.map_filter id xs)))"
    by (auto simp: search_claims_def Let_def elim!: bind_sumE split: if_splits)
  from assms(2) cs obtain x where x: "Some x \<in> set xs" and c: "c = claim_doc (at_read a ''sources'') x"
    using py_take_subset [of limit "rank_claims (List.map_filter id xs)"] by (auto simp: set_map_filter)
  from map_sum_list_in [OF xs x] obtain k where "k \<in> set (at_read a ''claims'')" "score_claim (tokens query) k = Inr (Some x)" by blast
  with a c score_claim_id show ?thesis by (auto simp: claim_doc_def Let_def)
qed

definition cites_claims :: "know_world \<Rightarrow> tool_result \<Rightarrow> bool" where
  "cites_claims w r \<longleftrightarrow> (case kw_atlas w of Inl _ \<Rightarrow> False
     | Inr a \<Rightarrow> list_all (\<lambda>ev. list_ex (\<lambda>k. dget ev ''source_ref'' = Some (VStr (projr (doc_id k))) \<and> \<not> isl (doc_id k)) (at_read a ''claims'')) (tr_evidence r))"

definition quotes_corpus :: "disk \<Rightarrow> string list \<Rightarrow> tool_result \<Rightarrow> bool" where
  "quotes_corpus d toks r \<longleftrightarrow> starts_with (tr_output r) DEGRADED_LABEL \<and>
     (\<exists>hits. tr_evidence r = map (\<lambda>h. evidence_of (grep_ref h) (gh_text h)) hits \<and> list_all (Knowledge.quoted d toks) hits)"

lemma starts_with_self [simp]: "starts_with (p @ s) p"
  by (simp add: starts_with_append)

lemma compiled_answer_fields [simp]:
  "tr_ok (compiled_answer e c cs srcs)" "tr_evidence (compiled_answer e c cs srcs) = map2 (claim_evidence e) cs srcs"
  "dget (tr_data (compiled_answer e c cs srcs)) ''mode'' = Some (VStr ''compiled'')"
  by (simp_all add: compiled_answer_def tr_plain_def Let_def split: prod.split)

lemma compiled_cites:
  assumes "search_claims w d dir query limit = Inr cs" and "cs \<noteq> []"
  shows "cites_claims w (compiled_answer e c cs srcs)"
proof -
  from search_claims_known [OF assms(1)] assms(2) obtain a where a: "kw_atlas w = Inr a" by (cases cs) auto
  have k: "list_ex (\<lambda>k. get_with x ''claim_id'' VNone = VStr (projr (doc_id k)) \<and> \<not> isl (doc_id k)) (at_read a ''claims'')" if x: "x \<in> set cs" for x
  proof -
    from search_claims_known [OF assms(1) x] a obtain k i where "k \<in> set (at_read a ''claims'')" "doc_id k = Inr i" "dget x ''claim_id'' = Some (VStr i)" by auto
    then show ?thesis by (auto simp: list_ex_iff get_with_def intro!: bexI [of _ k])
  qed
  show ?thesis using a k
    by (auto simp: cites_claims_def claim_evidence_def list_all_iff dest!: set_zip_leftD)
qed

lemma grep_quotes: "list_all (Knowledge.quoted d (tokens query)) (grep_knowledge w d roots query limit)"
  using py_take_subset [of limit] grep_file_quoted by (fastforce simp: grep_knowledge_def list_all_iff)

text \<open>a search never passes off raw text as compiled knowledge.  An answer of \<open>knowledge.search\<close> is one of three: a compiled answer,
  each piece of whose evidence is the id of a claim that the store holds; a fallback answer, which opens with the degradation label and whose
  evidence quotes real lines of the corpus; or the empty answer, which has no evidence at all.\<close>

theorem search_is_labelled:
  assumes "knowledge_search w d c args = Inr r"
  shows "tr_ok r \<and> (cites_claims w r \<and> dget (tr_data r) ''mode'' = Some (VStr ''compiled'')
     \<or> quotes_corpus d (tokens (get_str args ''query'')) r \<and> dget (tr_data r) ''mode'' = Some (VStr ''grep'')
     \<or> tr_evidence r = [] \<and> dget (tr_data r) ''mode'' = Some (VStr ''empty''))"
proof -
  from assms obtain limit cs where s: "search_claims w d (index_dir c) (get_str args ''query'') limit = Inr cs"
    and r: "(if cs \<noteq> [] then bind_sum (map_sum_list claim_sources cs) (\<lambda>srcs. Inr (compiled_answer (kw_env w) c cs srcs))
       else let hits = grep_knowledge w d [path_join (tc_workspace c) ''company''] (get_str args ''query'') limit in
         Inr (if hits = [] then empty_answer else grep_answer hits)) = Inr r"
    by (auto simp: knowledge_search_def Let_def elim!: bind_sumE)
  show ?thesis
  proof (cases "cs = []")
    case False
    with r obtain srcs where "r = compiled_answer (kw_env w) c cs srcs" by (auto elim!: bind_sumE)
    with compiled_cites [OF s False] show ?thesis by simp
  next
    case True
    with r grep_quotes show ?thesis
      by (auto simp: Let_def empty_answer_def grep_answer_def tr_plain_def quotes_corpus_def split: if_splits)
  qed
qed

definition demo_worker_ctx :: tool_context where
  "demo_worker_ctx = demo_ctx\<lparr>tc_workspace := ''/w''\<rparr>"

lemma search_is_labelled_witness:
  "(let r = projr (knowledge_search demo_know demo_corpus demo_worker_ctx [(''query'', VStr ''pricing'')]) in
    tr_evidence r \<noteq> [] \<and> (cites_claims demo_know r \<and> dget (tr_data r) ''mode'' = Some (VStr ''compiled'')
     \<or> quotes_corpus demo_corpus (tokens ''pricing'') r \<and> dget (tr_data r) ''mode'' = Some (VStr ''grep'')
     \<or> tr_evidence r = [] \<and> dget (tr_data r) ''mode'' = Some (VStr ''empty'')))"
proof -
  let ?k = "knowledge_search demo_know demo_corpus demo_worker_ctx [(''query'', VStr ''pricing'')]"
  have "\<not> isl ?k" by code_simp
  then have "?k = Inr (projr ?k)" by (cases ?k) simp_all
  note answer = search_is_labelled [OF this]
  have "tr_evidence (projr ?k) \<noteq> []" by code_simp
  with answer show ?thesis by (simp add: Let_def get_str_def)
qed

section \<open>Types of validated arguments\<close>

fun has_type :: "string \<Rightarrow> pyval \<Rightarrow> bool" where
  "has_type ty (VStr _) = (ty \<notin> set [''integer'', ''number'', ''boolean'', ''array'', ''object''])"
| "has_type ty (VInt _) = (ty \<notin> set [''string'', ''boolean'', ''array'', ''object''])"
| "has_type ty (VFloat _) = (ty \<notin> set [''string'', ''integer'', ''boolean'', ''array'', ''object''])"
| "has_type ty (VBool _) = (ty \<notin> set [''string'', ''integer'', ''number'', ''array'', ''object''])"
| "has_type ty (VList _) = (ty \<notin> set [''string'', ''integer'', ''number'', ''boolean'', ''object''])"
| "has_type ty (VDict _) = (ty \<notin> set [''string'', ''integer'', ''number'', ''boolean'', ''array''])"
| "has_type ty VNone = (ty \<notin> set [''string'', ''integer'', ''number'', ''boolean'', ''array'', ''object''])"

definition fits :: "doc \<Rightarrow> pyval \<Rightarrow> bool" where
  "fits spec v \<longleftrightarrow> has_type (get_str spec ''type'') v \<and> enum_ok spec v"

definition properties_of :: "tool \<Rightarrow> doc" where
  "properties_of t = get_dict (tool_schema t) ''properties''"

definition sound_schema :: "tool \<Rightarrow> bool" where
  "sound_schema t \<longleftrightarrow> distinct (dkeys (properties_of t)) \<and>
     list_all (\<lambda>(k, sp). case dget (val_doc sp) ''default'' of None \<Rightarrow> True | Some v \<Rightarrow> fits (val_doc sp) v) (properties_of t) \<and>
     list_all (\<lambda>k. k \<in> set (dkeys (properties_of t))) (required_keys t)"

lemma coerce_typed: "coerce_arg e ty v = Inr v' \<Longrightarrow> has_type ty v'"
  by (cases v'; cases v) (auto simp: coerce_arg_def split: if_splits sum.splits option.splits)

lemma coerce_keeps: "coerce_arg e ty v = Inr x \<Longrightarrow> has_type ty v \<Longrightarrow> py_eq x v"
  by (cases v) (auto simp: coerce_arg_def py_eq_def split: if_splits)

lemma validate_props_get:
  "validate_props e args props out = Inr v \<Longrightarrow> distinct (dkeys props) \<Longrightarrow>
   (case dget props k of
      None \<Rightarrow> dget v k = dget out k
    | Some sp \<Rightarrow> (case dget args k of
          None \<Rightarrow> dget v k = (case dget (val_doc sp) ''default'' of None \<Rightarrow> dget out k | Some d \<Rightarrow> Some d)
        | Some a \<Rightarrow> (\<exists>x. coerce_arg e (get_str (val_doc sp) ''type'') a = Inr x \<and> enum_ok (val_doc sp) x \<and> dget v k = Some x)))"
proof (induction e args props out rule: validate_props.induct)
  case (2 e args k' sp props out)
  have d: "distinct (dkeys props)" "k' \<notin> set (dkeys props)" using 2(4) by (auto simp: dkeys_def)
  then have n: "dget props k' = None" by (simp add: dget_None_iff)
  show ?case
  proof (cases "dget args k'")
    case None
    with 2(3) have "validate_props e args props (case dget (val_doc sp) ''default'' of Some v \<Rightarrow> dset out k' v | None \<Rightarrow> out) = Inr v" by simp
    from 2(1) [OF refl None this d(1)] None n show ?thesis by (auto split: option.splits)
  next
    case (Some a)
    with 2(3) obtain x where x: "coerce_arg e (get_str (val_doc sp) ''type'') a = Inr x" "enum_ok (val_doc sp) x"
        "validate_props e args props (dset out k' x) = Inr v"
      by (auto simp: Let_def elim!: bind_sumE split: if_splits)
    from 2(2) [OF refl Some x(2,3) d(1)] x Some n show ?thesis by (auto split: option.splits)
  qed
qed simp

lemma validate_get:
  assumes "sound_schema t" and "validate e t args = Inr v"
  shows "dget v k = Some x \<Longrightarrow> \<exists>sp. dget (properties_of t) k = Some sp \<and> fits (val_doc sp) x"
    and "k \<in> set (dkeys args) \<Longrightarrow> k \<in> set (dkeys v)"
    and "k \<in> set (required_keys t) \<Longrightarrow> k \<in> set (dkeys v)"
    and "dget (properties_of t) k = Some sp \<Longrightarrow> dget args k = Some a \<Longrightarrow> has_type (get_str (val_doc sp) ''type'') a \<Longrightarrow> \<exists>x. dget v k = Some x \<and> py_eq x a"
proof -
  have p: "validate_props e args (properties_of t) [] = Inr v" "\<forall>k\<in>set (dkeys args). k \<in> set (dkeys (properties_of t))"
      "\<forall>k\<in>set (required_keys t). k \<in> set (dkeys args)"
    using assms(2) by (auto simp: validate_def properties_of_def Let_def list_all_iff list_ex_iff dget_None_iff split: if_splits)
  have s: "distinct (dkeys (properties_of t))" using assms(1) by (simp add: sound_schema_def)
  have g: "case dget (properties_of t) k of None \<Rightarrow> dget v k = None
    | Some sp \<Rightarrow> (case dget args k of None \<Rightarrow> dget v k = dget (val_doc sp) ''default''
        | Some a \<Rightarrow> (\<exists>x. coerce_arg e (get_str (val_doc sp) ''type'') a = Inr x \<and> enum_ok (val_doc sp) x \<and> dget v k = Some x))" for k
    using validate_props_get [OF p(1) s, of k] by (auto split: option.splits)
  have k: "k \<in> set (dkeys d) \<longleftrightarrow> dget d k \<noteq> None" for d :: doc and k by (simp add: dget_None_iff)
  have df: "dget (properties_of t) k = Some sp \<Longrightarrow> dget (val_doc sp) ''default'' = Some d \<Longrightarrow> fits (val_doc sp) d" for k sp d
  proof -
    assume "dget (properties_of t) k = Some sp" and d: "dget (val_doc sp) ''default'' = Some d"
    then have "(k, sp) \<in> set (properties_of t)" by (simp add: dget_SomeD)
    with assms(1) d show "fits (val_doc sp) d" unfolding sound_schema_def list_all_iff by fastforce
  qed
  show "dget v k = Some x \<Longrightarrow> \<exists>sp. dget (properties_of t) k = Some sp \<and> fits (val_doc sp) x"
    using g [of k] df by (fastforce simp: fits_def coerce_typed split: option.splits)
  have "dget args k \<noteq> None \<Longrightarrow> dget v k \<noteq> None"
    using g [of k] bspec [OF p(2), of k] by (auto simp: k split: option.splits)
  then show "k \<in> set (dkeys args) \<Longrightarrow> k \<in> set (dkeys v)" by (simp add: k)
  then show "k \<in> set (required_keys t) \<Longrightarrow> k \<in> set (dkeys v)" using p(3) by blast
  show "dget (properties_of t) k = Some sp \<Longrightarrow> dget args k = Some a \<Longrightarrow> has_type (get_str (val_doc sp) ''type'') a \<Longrightarrow> \<exists>x. dget v k = Some x \<and> py_eq x a"
    using g [of k] by (auto intro: coerce_keeps)
qed

lemma schemas_sound: "list_all sound_schema ALL_TOOLS"
  by code_simp

text \<open>C15: arguments are checked against the schema, for every tool.  Whatever the planner passes to a tool of the default registry, when \<open>validate\<close>
  accepts it, the validated arguments hold only properties of the schema, each with a value of its declared type and from its list of
  choices, defaults included; every argument passed and every required one is among them, and a value that had its declared type
  already is kept.\<close>

theorem validated_arguments_typed:
  assumes "t \<in> set (map snd DEFAULT_REGISTRY)" and "validate e t args = Inr v"
  shows "(\<forall>k x. dget v k = Some x \<longrightarrow> (\<exists>sp. dget (properties_of t) k = Some sp \<and> fits (val_doc sp) x)) \<and>
    set (dkeys args) \<union> set (required_keys t) \<subseteq> set (dkeys v) \<and>
    (\<forall>k sp a. dget (properties_of t) k = Some sp \<and> dget args k = Some a \<and> has_type (get_str (val_doc sp) ''type'') a \<longrightarrow>
       (\<exists>x. dget v k = Some x \<and> py_eq x a))"
proof -
  have s: "sound_schema t" using assms(1) schemas_sound unfolding DEFAULT_REGISTRY_eq list_all_iff by (auto simp: named_def)
  show ?thesis using validate_get [OF s assms(2)] by blast
qed

lemma validated_arguments_typed_witness:
  "\<exists>v sp. validate demo_env csv_inspect_tool [(''path'', VStr ''a.csv'')] = Inr v \<and> dget v ''rows'' = Some (VInt 5) \<and>
     dget (properties_of csv_inspect_tool) ''rows'' = Some sp \<and> fits (val_doc sp) (VInt 5)"
proof -
  have m: "csv_inspect_tool \<in> set (map snd DEFAULT_REGISTRY)"
    by (simp add: DEFAULT_REGISTRY_eq named_def o_def ALL_TOOLS_def BUILTIN_TOOLS_def)
  have v: "validate demo_env csv_inspect_tool [(''path'', VStr ''a.csv'')] = Inr [(''path'', VStr ''a.csv''), (''rows'', VInt 5)]"
    by code_simp
  have r: "dget [(''path'', VStr ''a.csv''), (''rows'', VInt 5)] ''rows'' = Some (VInt 5)" by simp
  from validated_arguments_typed [OF m v] r v show ?thesis by blast
qed

end
