(* ===== verification/Tenants.thy ===== *)
theory Tenants
  imports Fs_Tools Tools_Base Data
begin

text \<open>
  \<open>sworker/org.py\<close>: organizations and workspaces, the registry with its JSON file, and every operation on it.  The JSON parser,
  the clock and the unique ids are parameters.  Lemmas: every workspace belongs to a registered organization, what is
  saved is read back, and what happens to a file that cannot be read.
\<close>

record tenant_world =
  tw_env :: env
  tw_cwd :: string
  tw_json :: "string \<Rightarrow> pyval option"

record organization =
  og_id :: string
  og_name :: string
  og_created :: time

record workspace =
  wk_id :: string
  wk_org :: string
  wk_name :: string
  wk_root :: string
  wk_created :: time

definition org_dict :: "organization \<Rightarrow> doc" where
  "org_dict g = [(''id'', VStr (og_id g)), (''name'', VStr (og_name g)), (''created'', VFloat (py_round 3 (og_created g)))]"

definition workspace_dict :: "string \<Rightarrow> workspace \<Rightarrow> doc" where
  "workspace_dict cwd k = [(''id'', VStr (wk_id k)), (''org_id'', VStr (wk_org k)), (''name'', VStr (wk_name k)), (''root'', VStr (path_abs cwd (wk_root k))),
     (''created'', VFloat (py_round 3 (wk_created k)))]"

definition field :: "doc \<Rightarrow> string \<Rightarrow> error + string" where
  "field d k = (case dget d k of Some v \<Rightarrow> Inr (val_str v) | None \<Rightarrow> Inl KeyError)"

definition created_of :: "doc \<Rightarrow> time \<Rightarrow> time" where
  "created_of d t = (case get_with d ''created'' (VFloat t) of VFloat r \<Rightarrow> r | VInt i \<Rightarrow> of_int i | _ \<Rightarrow> 0)"

definition org_of :: "time \<Rightarrow> doc \<Rightarrow> error + organization" where
  "org_of t d = bind_sum (field d ''id'') (\<lambda>i. bind_sum (field d ''name'') (\<lambda>n. Inr \<lparr>og_id = i, og_name = n, og_created = created_of d t\<rparr>))"

definition workspace_of :: "time \<Rightarrow> doc \<Rightarrow> error + workspace" where
  "workspace_of t d = bind_sum (field d ''id'') (\<lambda>i. bind_sum (field d ''org_id'') (\<lambda>g. bind_sum (field d ''name'') (\<lambda>n. bind_sum (field d ''root'') (\<lambda>r.
     Inr \<lparr>wk_id = i, wk_org = g, wk_name = n, wk_root = r, wk_created = created_of d t\<rparr>))))"

section \<open>The registry\<close>

text \<open>The file is part of the state; \<open>tn_ticks\<close> and \<open>tn_drawn\<close> count the readings of the clock and the ids drawn.\<close>

record tenants =
  tn_path :: string
  tn_orgs :: "(string \<times> organization) list"
  tn_workspaces :: "(string \<times> workspace) list"
  tn_disk :: disk
  tn_ticks :: nat
  tn_drawn :: nat

type_synonym 'a top = "(tenants, 'a) op"

definition tenant_now :: "tenant_world \<Rightarrow> time top" where
  "tenant_now w s = (Inr (clock (tw_env w) (tn_ticks s)), s\<lparr>tn_ticks := Suc (tn_ticks s)\<rparr>)"

definition new_id :: "tenant_world \<Rightarrow> string \<Rightarrow> string top" where
  "new_id w p s = (Inr (p @ ''_'' @ uuid (tw_env w) (tn_drawn s)), s\<lparr>tn_drawn := Suc (tn_drawn s)\<rparr>)"

definition load_all :: "(time \<Rightarrow> doc \<Rightarrow> error + 'b) \<Rightarrow> ('b \<Rightarrow> string) \<Rightarrow> time \<Rightarrow> pyval list \<Rightarrow> error + (string \<times> 'b) list" where
  "load_all mk ident t rows = bind_sum (map_sum_list (\<lambda>v. mk t (val_doc v)) rows) (\<lambda>xs. Inr (foldl (\<lambda>acc x. dset acc (ident x) x) [] xs))"

text \<open>A file that is absent, unreadable or not JSON leaves the registry empty.\<close>

definition loaded :: "tenant_world \<Rightarrow> time \<Rightarrow> disk \<Rightarrow> string \<Rightarrow> error + ((string \<times> organization) list \<times> (string \<times> workspace) list)" where
  "loaded w t d path = (if \<not> disk_exists d path then Inr ([], [])
     else case open_read d path of
         Inl _ \<Rightarrow> Inr ([], [])
       | Inr content \<Rightarrow> (case tw_json w content of
             None \<Rightarrow> Inr ([], [])
           | Some v \<Rightarrow> bind_sum (load_all org_of og_id t (get_list (val_doc v) ''orgs'')) (\<lambda>gs.
               bind_sum (load_all workspace_of wk_id t (get_list (val_doc v) ''workspaces'')) (\<lambda>ws. Inr (gs, ws)))))"

definition open_tenants :: "tenant_world \<Rightarrow> time \<Rightarrow> disk \<Rightarrow> string \<Rightarrow> error + tenants" where
  "open_tenants w t d path = (let p = path_abs (tw_cwd w) path in
     bind_sum (loaded w t d p) (\<lambda>(gs, ws). Inr \<lparr>tn_path = p, tn_orgs = gs, tn_workspaces = ws, tn_disk = d, tn_ticks = 0, tn_drawn = 0\<rparr>))"

definition payload :: "tenant_world \<Rightarrow> tenants \<Rightarrow> doc" where
  "payload w s = [(''orgs'', VList (map (VDict \<circ> org_dict \<circ> snd) (tn_orgs s))),
     (''workspaces'', VList (map (VDict \<circ> workspace_dict (tw_cwd w) \<circ> snd) (tn_workspaces s)))]"

text \<open>The temporary file replaces the old one in one step.\<close>

definition save_tenants :: "tenant_world \<Rightarrow> unit top" where
  "save_tenants w s = (case make_dirs (tn_disk s) (dir_of (tn_path s)) of
       Inl e \<Rightarrow> (Inl e, s)
     | Inr d \<Rightarrow> (Inr (), s\<lparr>tn_disk := d\<lparr>dk_files := dset (dk_files d) (tn_path s) (json_indent (tw_env w) 0 (VDict (payload w s)))\<rparr>\<rparr>))"

definition add_org :: "tenant_world \<Rightarrow> string \<Rightarrow> string \<Rightarrow> organization top" where
  "add_org w name oid = op_bind (tenant_now w) (\<lambda>t. let g = \<lparr>og_id = oid, og_name = name, og_created = t\<rparr> in
     op_then (op_modify (\<lambda>s. s\<lparr>tn_orgs := dset (tn_orgs s) oid g\<rparr>)) (op_then (save_tenants w) (op_return g)))"

definition create_org :: "tenant_world \<Rightarrow> string \<Rightarrow> string \<Rightarrow> organization top" where
  "create_org w name given = op_bind (if given \<noteq> [] then op_return given else new_id w ''org'') (\<lambda>oid.
     op_bind (op_gets tn_orgs) (\<lambda>gs. if dget gs oid \<noteq> None then op_raise ValueError else add_org w name oid))"

definition get_org :: "string \<Rightarrow> organization option top" where
  "get_org i = op_gets (\<lambda>s. dget (tn_orgs s) i)"

definition list_orgs :: "organization list top" where
  "list_orgs = op_gets (map snd \<circ> tn_orgs)"

definition add_workspace :: "tenant_world \<Rightarrow> string \<Rightarrow> string \<Rightarrow> string \<Rightarrow> string \<Rightarrow> workspace top" where
  "add_workspace w org name rt wid = op_bind (tenant_now w) (\<lambda>t.
     let k = \<lparr>wk_id = wid, wk_org = org, wk_name = name, wk_root = path_abs (tw_cwd w) rt, wk_created = t\<rparr> in
     op_then (op_modify (\<lambda>s. s\<lparr>tn_workspaces := dset (tn_workspaces s) wid k\<rparr>)) (op_then (save_tenants w) (op_return k)))"

definition create_workspace :: "tenant_world \<Rightarrow> string \<Rightarrow> string \<Rightarrow> string \<Rightarrow> string \<Rightarrow> workspace top" where
  "create_workspace w org name rt given = op_bind (op_gets tn_orgs) (\<lambda>gs.
     if dget gs org = None then op_raise KeyError
     else op_bind (if given \<noteq> [] then op_return given else new_id w ''ws'') (\<lambda>wid.
       op_bind (op_gets tn_workspaces) (\<lambda>ks. if dget ks wid \<noteq> None then op_raise ValueError else add_workspace w org name rt wid)))"

definition get_workspace :: "string \<Rightarrow> workspace option top" where
  "get_workspace i = op_gets (\<lambda>s. dget (tn_workspaces s) i)"

definition list_workspaces :: "string \<Rightarrow> workspace list top" where
  "list_workspaces org = op_gets (\<lambda>s. (if org \<noteq> [] then filter (\<lambda>k. wk_org k = org) else id) (map snd (tn_workspaces s)))"

definition resolve_root :: "string \<Rightarrow> string top" where
  "resolve_root i = op_bind (get_workspace i) (\<lambda>k. case k of None \<Rightarrow> op_raise KeyError | Some x \<Rightarrow> op_return (wk_root x))"

section \<open>Every workspace has its organization\<close>

definition tenants_sound :: "tenants \<Rightarrow> bool" where
  "tenants_sound s \<longleftrightarrow> distinct (dkeys (tn_orgs s)) \<and> distinct (dkeys (tn_workspaces s)) \<and>
     list_all (\<lambda>(i, g). og_id g = i) (tn_orgs s) \<and> list_all (\<lambda>(i, k). wk_id k = i \<and> dget (tn_orgs s) (wk_org k) \<noteq> None) (tn_workspaces s)"

datatype tenant_op = Create_Org string string | Create_Workspace string string string string | Read_Only

definition tenant_step :: "tenant_world \<Rightarrow> tenant_op \<Rightarrow> tenants \<Rightarrow> tenants" where
  "tenant_step w x s = (case x of Create_Org n i \<Rightarrow> snd (create_org w n i s) | Create_Workspace g n rt i \<Rightarrow> snd (create_workspace w g n rt i s) | Read_Only \<Rightarrow> s)"

lemma tenant_apply [simp]:
  "tenant_now w s = (Inr (clock (tw_env w) (tn_ticks s)), s\<lparr>tn_ticks := Suc (tn_ticks s)\<rparr>)"
  "new_id w p s = (Inr (p @ ''_'' @ uuid (tw_env w) (tn_drawn s)), s\<lparr>tn_drawn := Suc (tn_drawn s)\<rparr>)"
  by (simp_all add: tenant_now_def new_id_def)

lemma save_frame [simp]: "tn_orgs (snd (save_tenants w s)) = tn_orgs s" "tn_workspaces (snd (save_tenants w s)) = tn_workspaces s"
  by (simp_all add: save_tenants_def split: sum.split)

lemma saved_sound: "tenants_sound (snd (save_tenants w s)) \<longleftrightarrow> tenants_sound s"
  by (simp add: tenants_sound_def save_frame)

lemma list_all_dset: "list_all P d \<Longrightarrow> P (k, v) \<Longrightarrow> list_all P (dset d k v)"
  by (induction d) auto

lemma orgs_grow: "list_all (\<lambda>(i, k). wk_id k = i \<and> dget gs (wk_org k) \<noteq> None) ws \<Longrightarrow>
    list_all (\<lambda>(i, k). wk_id k = i \<and> dget (dset gs i' g) (wk_org k) \<noteq> None) ws"
  by (auto simp: list_all_iff)

lemma after_save: "op_then (op_modify f) (op_then (save_tenants w) (op_return x)) s = (case save_tenants w (f s) of (Inl e, t) \<Rightarrow> (Inl e, t) | (Inr _, t) \<Rightarrow> (Inr x, t))"
  by (simp add: op_then_apply split: prod.split sum.split)

lemma after_save_state: "snd (op_then (op_modify f) (op_then (save_tenants w) (op_return x)) s) = snd (save_tenants w (f s))"
  by (simp add: after_save split: prod.split sum.split)

lemma sound_counters [simp]: "tenants_sound (s\<lparr>tn_ticks := a\<rparr>) = tenants_sound s" "tenants_sound (s\<lparr>tn_drawn := a\<rparr>) = tenants_sound s"
  by (simp_all add: tenants_sound_def)

lemma sound_add_org: "tenants_sound s \<Longrightarrow> og_id g = i \<Longrightarrow> tenants_sound (s\<lparr>tn_orgs := dset (tn_orgs s) i g\<rparr>)"
  unfolding tenants_sound_def using orgs_grow [of "tn_orgs s" "tn_workspaces s" i g]
  by (auto simp: distinct_dkeys_dset list_all_dset simp del: dget_dset)

lemma sound_add_workspace:
  "tenants_sound s \<Longrightarrow> wk_id k = i \<Longrightarrow> dget (tn_orgs s) (wk_org k) \<noteq> None \<Longrightarrow> tenants_sound (s\<lparr>tn_workspaces := dset (tn_workspaces s) i k\<rparr>)"
  unfolding tenants_sound_def by (auto simp: distinct_dkeys_dset list_all_dset)

lemma add_org_sound: "tenants_sound s \<Longrightarrow> tenants_sound (snd (add_org w n i s))"
  using sound_add_org [of "s\<lparr>tn_ticks := Suc (tn_ticks s)\<rparr>" "\<lparr>og_id = i, og_name = n, og_created = clock (tw_env w) (tn_ticks s)\<rparr>" i]
  by (simp add: add_org_def op_bind_apply Let_def after_save_state saved_sound)

lemma add_workspace_sound: "tenants_sound s \<Longrightarrow> dget (tn_orgs s) g \<noteq> None \<Longrightarrow> tenants_sound (snd (add_workspace w g n rt i s))"
  using sound_add_workspace [of "s\<lparr>tn_ticks := Suc (tn_ticks s)\<rparr>"
      "\<lparr>wk_id = i, wk_org = g, wk_name = n, wk_root = path_abs (tw_cwd w) rt, wk_created = clock (tw_env w) (tn_ticks s)\<rparr>" i]
  by (simp add: add_workspace_def op_bind_apply Let_def after_save_state saved_sound)

lemma create_org_sound: "tenants_sound s \<Longrightarrow> tenants_sound (snd (create_org w n i s))"
  by (simp add: create_org_def op_bind_apply add_org_sound)

lemma create_workspace_sound: "tenants_sound s \<Longrightarrow> tenants_sound (snd (create_workspace w g n rt i s))"
  by (simp add: create_workspace_def op_bind_apply add_workspace_sound)

text \<open>no workspace without its organization, and no id twice.  After any sequence of operations on an empty registry, failed ones and
  drawn or given ids included, every workspace belongs to a registered organization and each id names one organization or workspace.\<close>

theorem tenants_stay_sound: "tenants_sound (fold (tenant_step w) xs \<lparr>tn_path = p, tn_orgs = [], tn_workspaces = [], tn_disk = d, tn_ticks = 0, tn_drawn = 0\<rparr>)"
proof -
  have "tenants_sound s \<Longrightarrow> tenants_sound (fold (tenant_step w) xs s)" for s
  proof (induction xs arbitrary: s)
    case (Cons x xs)
    have "tenants_sound (tenant_step w x s)"
      using Cons.prems create_org_sound create_workspace_sound by (cases x) (simp_all add: tenant_step_def)
    with Cons.IH show ?case by simp
  qed simp
  then show ?thesis by (simp add: tenants_sound_def)
qed

section \<open>Reading back\<close>

text \<open>What the parser gives for text written with sorted keys.\<close>

fun sorted_keys :: "pyval \<Rightarrow> pyval" where
  "sorted_keys (VDict d) = VDict (sort_key fst (map (\<lambda>(k, v). (k, sorted_keys v)) d))"
| "sorted_keys (VList xs) = VList (map sorted_keys xs)"
| "sorted_keys v = v"

definition rounded_org :: "organization \<Rightarrow> organization" where
  "rounded_org g = g\<lparr>og_created := py_round 3 (og_created g)\<rparr>"

definition rounded_workspace :: "workspace \<Rightarrow> workspace" where
  "rounded_workspace k = k\<lparr>wk_created := py_round 3 (wk_created k)\<rparr>"

lemma org_reads_back: "org_of t (val_doc (sorted_keys (VDict (org_dict g)))) = Inr (rounded_org g)"
proof -
  have "sort_key fst (org_dict g) = [(''created'', VFloat (py_round 3 (og_created g))), (''id'', VStr (og_id g)), (''name'', VStr (og_name g))]"
    by (simp add: org_dict_def sort_key_def insort_key_def)
  then show ?thesis by (simp add: org_dict_def org_of_def field_def created_of_def get_with_def rounded_org_def)
qed

lemma workspace_reads_back:
  assumes "path_abs cwd (wk_root k) = wk_root k"
  shows "workspace_of t (val_doc (sorted_keys (VDict (workspace_dict cwd k)))) = Inr (rounded_workspace k)"
  using assms by (simp add: workspace_dict_def workspace_of_def field_def created_of_def get_with_def rounded_workspace_def)

lemma indexed: "distinct (dkeys acc @ map f xs) \<Longrightarrow> foldl (\<lambda>acc x. dset acc (f x) x) acc xs = acc @ map (\<lambda>x. (f x, x)) xs"
  by (induction xs arbitrary: acc) (auto simp: dset_snoc dkeys_def)

lemma load_all_rows:
  assumes "\<And>x. x \<in> set xs \<Longrightarrow> mk t (val_doc (row x)) = Inr (g x)" and "distinct (map (ident \<circ> g) xs)"
  shows "load_all mk ident t (map row xs) = Inr (map (\<lambda>x. (ident (g x), g x)) xs)"
proof -
  have "map_sum_list (\<lambda>v. mk t (val_doc v)) (map row xs) = Inr (map g xs)" using assms(1) by (induction xs) auto
  then show ?thesis using indexed [of "[]" ident "map g xs"] assms(2) by (simp add: load_all_def dkeys_def o_def)
qed

definition absolute_roots :: "tenant_world \<Rightarrow> tenants \<Rightarrow> bool" where
  "absolute_roots w s \<longleftrightarrow> list_all (\<lambda>(i, k). path_abs (tw_cwd w) (wk_root k) = wk_root k) (tn_workspaces s)"

lemma keys_are_ids:
  assumes "tenants_sound s"
  shows "map (og_id \<circ> snd) (tn_orgs s) = dkeys (tn_orgs s)" "map (wk_id \<circ> snd) (tn_workspaces s) = dkeys (tn_workspaces s)"
  using assms by (auto simp: tenants_sound_def dkeys_def list_all_iff)

lemma load_rows:
  assumes "\<And>x. x \<in> set d \<Longrightarrow> mk t (val_doc (sorted_keys (VDict (row (snd x))))) = Inr (g (snd x))" and "\<And>x. ident (g x) = ident x"
    and "map (ident \<circ> snd) d = dkeys d" and "distinct (dkeys d)"
  shows "load_all mk ident t (map (sorted_keys \<circ> (VDict \<circ> row \<circ> snd)) d) = Inr (map (\<lambda>(i, x). (i, g x)) d)"
proof -
  have "load_all mk ident t (map (sorted_keys \<circ> (VDict \<circ> row \<circ> snd)) d) = Inr (map (\<lambda>x. (ident (g (snd x)), g (snd x))) d)"
    using assms(1,3,4) by (intro load_all_rows) (simp_all add: o_def assms(2))
  moreover have "map (\<lambda>x. (ident (g (snd x)), g (snd x))) d = map (\<lambda>(i, x). (i, g x)) d"
    using assms(3) by (auto simp: assms(2) dkeys_def)
  ultimately show ?thesis by simp
qed

lemma sorted_payload: "sorted_keys (VDict (payload w s)) = VDict [(''orgs'', VList (map (sorted_keys \<circ> (VDict \<circ> org_dict \<circ> snd)) (tn_orgs s))),
    (''workspaces'', VList (map (sorted_keys \<circ> (VDict \<circ> workspace_dict (tw_cwd w) \<circ> snd)) (tn_workspaces s)))]"
proof -
  have "sort_key fst [(''orgs'', x), (''workspaces'', y)] = [(''orgs'', x), (''workspaces'', y)]" for x y :: pyval
    by (simp add: sort_key_def insort_key_def)
  then show ?thesis by (simp add: payload_def)
qed

text \<open>the registry survives a restart.  When the JSON text that was written parses back to the payload with its keys sorted, opening
  the saved file gives the same organizations and workspaces under the same ids; only their creation times are rounded, to three
  decimals.\<close>

theorem tenants_read_back:
  assumes "tenants_sound s" and "absolute_roots w s" and "save_tenants w s = (Inr (), s')" and "tn_path s = path_abs (tw_cwd w) p"
    and "tn_path s \<notin> set (dk_denied (tn_disk s))"
    and "tw_json w (universal_newlines (json_indent (tw_env w) 0 (VDict (payload w s)))) = Some (sorted_keys (VDict (payload w s)))"
  shows "open_tenants w t (tn_disk s') p = Inr \<lparr>tn_path = tn_path s, tn_orgs = map (\<lambda>(i, g). (i, rounded_org g)) (tn_orgs s),
    tn_workspaces = map (\<lambda>(i, k). (i, rounded_workspace k)) (tn_workspaces s), tn_disk = tn_disk s', tn_ticks = 0, tn_drawn = 0\<rparr>"
proof -
  let ?text = "json_indent (tw_env w) 0 (VDict (payload w s))"
  from assms(3) obtain d where d: "make_dirs (tn_disk s) (dir_of (tn_path s)) = Inr d" and s': "tn_disk s' = d\<lparr>dk_files := dset (dk_files d) (tn_path s) ?text\<rparr>"
    by (auto simp: save_tenants_def split: sum.splits)
  then have "dk_denied d = dk_denied (tn_disk s)" by (auto simp: make_dirs_def split: if_splits)
  then have o: "disk_exists (tn_disk s') (tn_path s)" "open_read (tn_disk s') (tn_path s) = Inr (universal_newlines ?text)"
    using assms(5) by (simp_all add: s' disk_exists_def open_read_def)
  have "load_all org_of og_id t (map (sorted_keys \<circ> (VDict \<circ> org_dict \<circ> snd)) (tn_orgs s)) = Inr (map (\<lambda>(i, g). (i, rounded_org g)) (tn_orgs s))"
    using keys_are_ids(1) [OF assms(1)] assms(1)
    by (intro load_rows org_reads_back) (simp_all add: rounded_org_def tenants_sound_def)
  moreover have "load_all workspace_of wk_id t (map (sorted_keys \<circ> (VDict \<circ> workspace_dict (tw_cwd w) \<circ> snd)) (tn_workspaces s))
      = Inr (map (\<lambda>(i, k). (i, rounded_workspace k)) (tn_workspaces s))"
    using keys_are_ids(2) [OF assms(1)] assms(1,2)
    by (intro load_rows workspace_reads_back) (auto simp: rounded_workspace_def tenants_sound_def absolute_roots_def list_all_iff)
  ultimately show ?thesis
    using o assms(4) assms(6) [unfolded sorted_payload] by (simp add: open_tenants_def loaded_def Let_def get_list_def)
qed

text \<open>a registry file that cannot be parsed is not reported; it is replaced.  Opening it gives an empty registry without an error, and the
  first organization created afterwards overwrites the file, which then holds that organization and nothing else.\<close>

theorem unreadable_registry_is_replaced:
  assumes "dget (dk_files d) (path_abs (tw_cwd w) p) = Some content" and "tw_json w (universal_newlines content) = None"
    and "open_tenants w t d p = Inr s" and "create_org w n i s = (Inr g, s')"
  shows "tn_orgs s = [] \<and> tn_workspaces s = [] \<and> tn_orgs s' = [(og_id g, g)] \<and>
    dget (dk_files (tn_disk s')) (path_abs (tw_cwd w) p) = Some (json_indent (tw_env w) 0 (VDict [(''orgs'', VList [VDict (org_dict g)]), (''workspaces'', VList [])]))"
proof -
  have "loaded w t d (path_abs (tw_cwd w) p) = Inr ([], [])"
    using assms(1,2) by (simp add: loaded_def open_read_def)
  with assms(3) have s: "s = \<lparr>tn_path = path_abs (tw_cwd w) p, tn_orgs = [], tn_workspaces = [], tn_disk = d, tn_ticks = 0, tn_drawn = 0\<rparr>"
    by (simp add: open_tenants_def)
  with assms(4) show ?thesis
    by (auto simp: create_org_def add_org_def op_bind_apply Let_def after_save save_tenants_def payload_def split: if_splits sum.splits)
qed

definition demo_tenants :: tenants where
  "demo_tenants = \<lparr>tn_path = ''/w/tenants.json'', tn_orgs = [(''o1'', \<lparr>og_id = ''o1'', og_name = ''Acme'', og_created = 5\<rparr>)],
     tn_workspaces = [(''k1'', \<lparr>wk_id = ''k1'', wk_org = ''o1'', wk_name = ''main'', wk_root = ''/w'', wk_created = 6\<rparr>)],
     tn_disk = \<lparr>dk_files = [], dk_dirs = [''/w''], dk_denied = []\<rparr>, tn_ticks = 0, tn_drawn = 0\<rparr>"

definition demo_tenant_world :: tenant_world where
  "demo_tenant_world = \<lparr>tw_env = demo_env, tw_cwd = ''/w'', tw_json = (\<lambda>content. if content = ''garbage'' then None else
     Some (sorted_keys (VDict (payload \<lparr>tw_env = demo_env, tw_cwd = ''/w'', tw_json = \<lambda>_. None\<rparr> demo_tenants))))\<rparr>"

lemma tenants_read_back_witness:
  "\<exists>r. open_tenants demo_tenant_world 0 (tn_disk (snd (save_tenants demo_tenant_world demo_tenants))) ''/w/tenants.json'' = Inr r \<and> map fst (tn_orgs r) = [''o1'']"
proof -
  let ?m = "save_tenants demo_tenant_world demo_tenants"
  have ok: "?m = (Inr (), snd ?m)"
  proof -
    have "\<not> isl (fst ?m)" by code_simp
    then show ?thesis by (cases "fst ?m") (simp_all add: prod_eq_iff)
  qed
  have a: "tenants_sound demo_tenants" by (simp add: tenants_sound_def demo_tenants_def)
  have b: "absolute_roots demo_tenant_world demo_tenants" by code_simp
  have c: "tn_path demo_tenants = path_abs (tw_cwd demo_tenant_world) ''/w/tenants.json''" by code_simp
  have p: "payload \<lparr>tw_env = demo_env, tw_cwd = ''/w'', tw_json = \<lambda>_. None\<rparr> demo_tenants = payload demo_tenant_world demo_tenants"
    by (simp add: payload_def demo_tenant_world_def)
  have f: "tn_path demo_tenants \<notin> set (dk_denied (tn_disk demo_tenants))" by (simp add: demo_tenants_def)
  have "universal_newlines (json_indent (tw_env demo_tenant_world) 0 (VDict (payload demo_tenant_world demo_tenants))) \<noteq> ''garbage''" by code_simp
  then have e: "tw_json demo_tenant_world (universal_newlines (json_indent (tw_env demo_tenant_world) 0 (VDict (payload demo_tenant_world demo_tenants))))
      = Some (sorted_keys (VDict (payload demo_tenant_world demo_tenants)))"
    by (simp add: demo_tenant_world_def p [symmetric, unfolded demo_tenant_world_def])
  from tenants_read_back [OF a b ok c f e, of 0] show ?thesis by (simp add: demo_tenants_def)
qed

lemma unreadable_registry_is_replaced_witness:
  "let d = \<lparr>dk_files = [(''/w/t.json'', ''garbage'')], dk_dirs = [''/w''], dk_denied = []\<rparr>; s = projr (open_tenants demo_tenant_world 0 d ''/w/t.json'') in
   \<exists>g. tn_orgs (snd (create_org demo_tenant_world ''New'' ''o9'' s)) = [(og_id g, g)]"
proof -
  let ?d = "\<lparr>dk_files = [(''/w/t.json'', ''garbage'')], dk_dirs = [''/w''], dk_denied = []\<rparr>"
  let ?s = "projr (open_tenants demo_tenant_world 0 ?d ''/w/t.json'')" let ?m = "create_org demo_tenant_world ''New'' ''o9'' ?s"
  have a: "dget (dk_files ?d) (path_abs (tw_cwd demo_tenant_world) ''/w/t.json'') = Some ''garbage''" by code_simp
  have b: "tw_json demo_tenant_world (universal_newlines ''garbage'') = None" by code_simp
  have "\<not> isl (open_tenants demo_tenant_world 0 ?d ''/w/t.json'')" by code_simp
  then have c: "open_tenants demo_tenant_world 0 ?d ''/w/t.json'' = Inr ?s" by (cases "open_tenants demo_tenant_world 0 ?d ''/w/t.json''") simp_all
  have "\<not> isl (fst ?m)" by code_simp
  then have "?m = (Inr (projr (fst ?m)), snd ?m)" by (cases "fst ?m") (simp_all add: prod_eq_iff)
  from unreadable_registry_is_replaced [OF a b c this] show ?thesis by (auto simp: Let_def)
qed

end
