(* ===== verification/Package.thy ===== *)
theory Package
  imports Lifecycle Store
begin

text \<open>
  \<open>sworker/package.py\<close> and \<open>sworker/doctor.py\<close>: export and import of workspace archives, backup and restore, and the health check.  An archive is
  the list of its members in the order of \<open>tarfile\<close>; compression is not modelled, the YAML writer and the text of an exception are parameters.
  Lemmas: what an archive can hold, what an import refuses, and what the health check counts.
\<close>

section \<open>Archives\<close>

text \<open>A member is a directory (\<open>None\<close>) or a file with its content.\<close>

type_synonym member = "string \<times> string option"

record package_state =
  pk_disk :: disk
  pk_archives :: "(string \<times> member list) list"

type_synonym 'a pop = "(package_state, 'a) op"

definition SECRET_NAMES :: "string list" where
  "SECRET_NAMES = [''secrets.key'']"

definition safe_members :: "member list \<Rightarrow> member list" where
  "safe_members ms = filter (\<lambda>(n, c). path_base n \<notin> set SECRET_NAMES) ms"

definition manifest :: "bool \<Rightarrow> doc" where
  "manifest include_state = [(''kind'', VStr ''sworker-package''), (''version'', VInt 1), (''excludes'', strs SECRET_NAMES),
     (''trees'', strs ([''workers''] @ (if include_state then [''state''] else [])))]"

definition trees :: "bool \<Rightarrow> string list" where
  "trees include_state = [''workers''] @ (if include_state then [''state''] else [])"

text \<open>\<open>tf.add\<close>: a path, then what is below it.  A path below another is longer, and no more deep than there are directories.\<close>

fun tar_add :: "nat \<Rightarrow> disk \<Rightarrow> string \<Rightarrow> string \<Rightarrow> member list" where
  "tar_add 0 d p arc = []"
| "tar_add (Suc n) d p arc = (if is_dir d p then (arc, None) # concat (map (\<lambda>c. tar_add n d (path_join p c) (arc @ ''/'' @ c)) (children d p))
     else case dget (dk_files d) p of Some content \<Rightarrow> [(arc, Some content)] | None \<Rightarrow> [])"

definition tar_depth :: "disk \<Rightarrow> nat" where
  "tar_depth d = length (dk_dirs d) + 2"

definition archive_of :: "(doc \<Rightarrow> string) \<Rightarrow> string \<Rightarrow> bool \<Rightarrow> disk \<Rightarrow> member list" where
  "archive_of dump rt include_state d = (''MANIFEST.yaml'', Some (''# sworker package manifest'' @ [CHR 0x0A] @ dump (manifest include_state)))
     # concat (map (\<lambda>t. if is_dir d (path_join rt t) then tar_add (tar_depth d) d (path_join rt t) t else []) (trees include_state))"

definition export_package :: "life_world \<Rightarrow> string \<Rightarrow> string \<Rightarrow> bool \<Rightarrow> string pop" where
  "export_package w rt dest include_state s = (let p = path_abs (ww_cwd (lw_worker w)) dest in
     case make_dirs (pk_disk s) (dir_of p) of
       Inl e \<Rightarrow> (Inl e, s)
     | Inr d \<Rightarrow> (Inr p, s\<lparr>pk_disk := d, pk_archives := dset (pk_archives s) p (archive_of (lw_dump w) rt include_state d)\<rparr>))"

text \<open>\<open>tf.extract\<close> of one member; the parents of a file are made on the way.\<close>

definition extract_member :: "string \<Rightarrow> member \<Rightarrow> disk \<Rightarrow> error + disk" where
  "extract_member rt m d = (let p = path_norm (path_join rt (fst m)) in case snd m of
       None \<Rightarrow> make_dirs d p
     | Some content \<Rightarrow> bind_sum (make_dirs d (dir_of p)) (write_at p content))"

fun extract_all :: "string \<Rightarrow> member list \<Rightarrow> disk \<Rightarrow> error + disk" where
  "extract_all rt [] d = Inr d"
| "extract_all rt (m # ms) d = bind_sum (extract_member rt m d) (extract_all rt ms)"

definition import_package :: "string \<Rightarrow> string \<Rightarrow> bool \<Rightarrow> doc pop" where
  "import_package path rt force s = (case dget (pk_archives s) path of
       None \<Rightarrow> (Inl FileNotFoundError, s)
     | Some ms \<Rightarrow>
         (if \<not> force \<and> disk_exists (pk_disk s) rt \<and> children (pk_disk s) rt \<noteq> [] then (Inl FileExistsError, s)
          else case bind_sum (extract_all rt (safe_members ms) (pk_disk s)) (\<lambda>d. make_dirs d (state_dir rt)) of
              Inl e \<Rightarrow> (Inl e, s)
            | Inr d \<Rightarrow> (Inr [(''extracted'', VInt (int (length (safe_members ms)))), (''root'', VStr rt)], s\<lparr>pk_disk := d\<rparr>)))"

definition backup :: "life_world \<Rightarrow> string \<Rightarrow> string \<Rightarrow> string pop" where
  "backup w rt dest = export_package w rt dest True"

definition restore :: "string \<Rightarrow> string \<Rightarrow> bool \<Rightarrow> doc pop" where
  "restore path rt force = import_package path rt force"

section \<open>What an archive holds\<close>

definition in_tree :: "string \<Rightarrow> string \<Rightarrow> bool" where
  "in_tree t n \<longleftrightarrow> n = t \<or> starts_with n (t @ ''/'')"

lemma starts_with_take: "starts_with s (t @ u) \<Longrightarrow> starts_with s t"
proof (induction t arbitrary: s)
  case (Cons c t)
  then show ?case by (cases s) auto
qed (cases s; simp)

lemma starts_self: "starts_with (t @ u) t"
  by (induction t) auto

lemma in_tree_below: "in_tree (t @ CHR ''/'' # c) n \<Longrightarrow> in_tree t n"
  using starts_with_take [of n "t @ ''/''" "c @ ''/''"] starts_self [of "t @ ''/''" c] by (auto simp: in_tree_def)

lemma tar_add_names: "m \<in> set (tar_add n d p arc) \<Longrightarrow> in_tree arc (fst m)"
proof (induction n arbitrary: p arc)
  case (Suc n)
  show ?case
  proof (cases "is_dir d p")
    case True
    with Suc.prems consider "m = (arc, None)" | c where "m \<in> set (tar_add n d (path_join p c) (arc @ CHR ''/'' # c))" by auto
    then show ?thesis
    proof cases
      case 2
      from in_tree_below [OF Suc.IH [OF this]] show ?thesis .
    qed (simp add: in_tree_def)
  qed (use Suc.prems in \<open>auto simp: in_tree_def split: option.splits\<close>)
qed simp

text \<open>a backup holds no run history.  Every member of the archive that \<open>backup\<close> writes is the manifest or lies in the trees \<open>workers\<close> and
  \<open>state\<close> of the workspace root; the database, the audit log and everything else that the platform keeps under \<open>.state\<close> is in neither, so
  that no member is below that directory.\<close>

theorem backup_omits_run_history:
  assumes "backup w rt dest s = (Inr p, s')"
  shows "\<exists>ms. dget (pk_archives s') p = Some ms \<and> list_all (\<lambda>(n, c). n = ''MANIFEST.yaml'' \<or> in_tree ''workers'' n \<or> in_tree ''state'' n) ms \<and>
    list_all (\<lambda>(n, c). \<not> in_tree ''.state'' n) ms"
proof -
  from assms obtain d where a: "dget (pk_archives s') p = Some (archive_of (lw_dump w) rt True d)"
    by (auto simp: backup_def export_package_def Let_def split: sum.splits)
  have m: "n = ''MANIFEST.yaml'' \<or> in_tree ''workers'' n \<or> in_tree ''state'' n" if "(n, c) \<in> set (archive_of (lw_dump w) rt True d)" for n c
    using that by (auto simp: archive_of_def trees_def dest: tar_add_names split: if_splits)
  have "\<not> in_tree ''.state'' n" if "n = ''MANIFEST.yaml'' \<or> in_tree ''workers'' n \<or> in_tree ''state'' n" for n
    using that by (cases n) (auto simp: in_tree_def)
  with a m show ?thesis by (auto simp: list_all_iff)
qed

definition demo_package :: package_state where
  "demo_package = \<lparr>pk_disk = \<lparr>dk_files = [(''/w/workers/a.yaml'', ''name: a''), (''/w/workers/secrets.key'', ''k''), (''/w/.state/worker.db'', ''rows'')],
     dk_dirs = [''/w'', ''/w/workers'', ''/w/.state'', ''/b'', ''/new''], dk_denied = []\<rparr>, pk_archives = []\<rparr>"

definition demo_package_world :: life_world where
  "demo_package_world = \<lparr>lw_worker = \<lparr>ww_env = demo_env, ww_cwd = ''/w'', ww_home = None, ww_pyyaml = None\<rparr>, lw_dump = \<lambda>_. ''kind: sworker-package''\<rparr>"

lemma backup_omits_run_history_witness:
  "\<exists>ms. dget (pk_archives (snd (backup demo_package_world ''/w'' ''/b/x.tgz'' demo_package))) ''/b/x.tgz'' = Some ms \<and>
    list_all (\<lambda>(n, c). \<not> in_tree ''.state'' n) ms"
proof -
  let ?m = "backup demo_package_world ''/w'' ''/b/x.tgz'' demo_package"
  have "\<not> isl (fst ?m) \<and> projr (fst ?m) = ''/b/x.tgz''" by code_simp
  then have "?m = (Inr ''/b/x.tgz'', snd ?m)" by (cases "fst ?m") (simp_all add: prod_eq_iff)
  from backup_omits_run_history [OF this] show ?thesis by blast
qed

text \<open>the exclusion of the key works on import only.  A key file inside an exported tree is part of the archive, although the manifest
  lists it as excluded; the import of that archive into an empty directory leaves it out and writes the worker files.\<close>

theorem archive_carries_the_key:
  "let s = snd (export_package demo_package_world ''/w'' ''/b/x.tgz'' True demo_package); ms = the (dget (pk_archives s) ''/b/x.tgz'');
     t = snd (import_package ''/b/x.tgz'' ''/new'' False s) in
   (''workers/secrets.key'', Some ''k'') \<in> set ms \<and> dget (manifest True) ''excludes'' = Some (strs [''secrets.key'']) \<and>
   dget (dk_files (pk_disk t)) ''/new/workers/secrets.key'' = None \<and> dget (dk_files (pk_disk t)) ''/new/workers/a.yaml'' = Some ''name: a''"
  by code_simp

text \<open>nothing is extracted over a workspace in use.  Without \<open>force\<close>, the import of any archive into a directory that holds
  anything raises and changes nothing, and so does the import of an archive that is not there.\<close>

theorem import_refuses_nonempty:
  assumes "disk_exists (pk_disk s) rt" and "children (pk_disk s) rt \<noteq> []"
  shows "\<exists>e. import_package path rt False s = (Inl e, s) \<and> e \<in> {FileExistsError, FileNotFoundError}"
  using assms by (cases "dget (pk_archives s) path") (simp_all add: import_package_def)

lemma import_refuses_nonempty_witness: "\<exists>e. import_package ''/b/x.tgz'' ''/w'' False demo_package = (Inl e, demo_package)"
proof -
  have a: "disk_exists (pk_disk demo_package) ''/w''" and b: "children (pk_disk demo_package) ''/w'' \<noteq> []" by code_simp+
  from import_refuses_nonempty [OF a b] show ?thesis by blast
qed

section \<open>The health check\<close>

record check =
  ck_label :: string
  ck_status :: string
  ck_detail :: string

record doctor_world =
  dw_worker :: worker_world
  dw_text :: "error \<Rightarrow> string"
  dw_chain :: "chain_error list \<Rightarrow> string"          \<comment> \<open>text of the list of errors\<close>

definition workspace_check :: "string \<Rightarrow> disk \<Rightarrow> check" where
  "workspace_check rt d = (if is_dir d rt then \<lparr>ck_label = ''workspace directory'', ck_status = ''ok'', ck_detail = rt\<rparr>
     else \<lparr>ck_label = ''workspace directory'', ck_status = ''error'', ck_detail = ''missing: '' @ rt\<rparr>)"

definition workers_check :: "string \<Rightarrow> disk \<Rightarrow> check" where
  "workers_check rt d = \<lparr>ck_label = ''workers directory'', ck_status = (if is_dir d (workers_dir rt) then ''ok'' else ''error''), ck_detail = workers_dir rt\<rparr>"

definition chain_check :: "doctor_world \<Rightarrow> chain_report \<Rightarrow> check" where
  "chain_check w r = (if rep_ok r then \<lparr>ck_label = ''audit chain integrity'', ck_status = ''ok'', ck_detail = nat_str (rep_lines r) @ '' lines verified''\<rparr>
     else \<lparr>ck_label = ''audit chain integrity'', ck_status = ''error'', ck_detail = ''broken chain: '' @ dw_chain w (rep_errors r)\<rparr>)"

definition configs_check :: "doctor_world \<Rightarrow> error + worker_config list \<Rightarrow> check" where
  "configs_check w r = (case r of
       Inl e \<Rightarrow> \<lparr>ck_label = ''worker configs parse'', ck_status = ''error'', ck_detail = ''list error: '' @ dw_text w e\<rparr>
     | Inr ws \<Rightarrow> \<lparr>ck_label = ''worker configs parse'', ck_status = ''ok'', ck_detail = nat_str (length ws) @ '' worker(s) parse''\<rparr>)"

record doctor_report =
  dr_ok :: bool
  dr_checks :: "check list"
  dr_errors :: nat
  dr_warnings :: nat

definition with_status :: "string \<Rightarrow> check list \<Rightarrow> check list" where
  "with_status s cs = filter (\<lambda>c. ck_status c = s) cs"

definition doctor_report_of :: "check list \<Rightarrow> doctor_report" where
  "doctor_report_of cs = \<lparr>dr_ok = with_status ''error'' cs = [], dr_checks = cs, dr_errors = length (with_status ''error'' cs), dr_warnings = length (with_status ''warn'' cs)\<rparr>"

text \<open>Opening the store makes its directory.  The last three checks, of the interpreter, of Atlas and of the key, are filled in but never added to
  the list.\<close>

definition run_doctor :: "doctor_world \<Rightarrow> store \<Rightarrow> string \<Rightarrow> disk \<Rightarrow> (error + doctor_report) \<times> disk" where
  "run_doctor w st rt d = (case make_dirs d (state_dir rt) of
       Inl e \<Rightarrow> (Inl e, d)
     | Inr d1 \<Rightarrow> (Inr (doctor_report_of [workspace_check rt d, workers_check rt d, chain_check w (verify_audit_chain [] st), configs_check w (list_workers (dw_worker w) rt d1)]), d1))"

lemma check_statuses:
  "ck_status (workspace_check rt d) = (if is_dir d rt then ''ok'' else ''error'')" "ck_status (workers_check rt d) = (if is_dir d (workers_dir rt) then ''ok'' else ''error'')"
  "ck_status (chain_check w r) = (if rep_ok r then ''ok'' else ''error'')" "ck_status (configs_check w x) = (if isl x then ''error'' else ''ok'')"
  by (cases x; simp add: workspace_check_def workers_check_def chain_check_def configs_check_def)+

lemma isl_iff: "(\<exists>ws. x = Inr ws) \<longleftrightarrow> \<not> isl x"
  by (cases x) simp_all

text \<open>the health check never warns.  Whatever the workspace, a report has four checks and no warning, so that an old interpreter, a missing
  Atlas and a missing key are never reported; it is ok exactly when the two directories exist, the audit chain verifies and every
  worker file loads.\<close>

theorem doctor_never_warns:
  assumes "run_doctor w st rt d = (Inr r, d1)"
  shows "dr_warnings r = 0 \<and> length (dr_checks r) = 4 \<and>
    (dr_ok r \<longleftrightarrow> is_dir d rt \<and> is_dir d (workers_dir rt) \<and> rep_ok (verify_audit_chain [] st) \<and> (\<exists>ws. list_workers (dw_worker w) rt d1 = Inr ws))"
proof -
  from assms have r: "r = doctor_report_of [workspace_check rt d, workers_check rt d, chain_check w (verify_audit_chain [] st), configs_check w (list_workers (dw_worker w) rt d1)]"
    by (auto simp: run_doctor_def split: sum.splits)
  show ?thesis unfolding r by (simp add: doctor_report_of_def with_status_def check_statuses isl_iff)
qed

definition demo_doctor :: doctor_world where
  "demo_doctor = \<lparr>dw_worker = lw_worker demo_package_world, dw_text = \<lambda>_. ''error'', dw_chain = \<lambda>_. ''errors''\<rparr>"

lemma doctor_never_warns_witness:
  "dr_warnings (projr (fst (run_doctor demo_doctor (open_store demo_env [] []) ''/w'' (pk_disk demo_package)))) = 0"
proof -
  let ?m = "run_doctor demo_doctor (open_store demo_env [] []) ''/w'' (pk_disk demo_package)"
  have "\<not> isl (make_dirs (pk_disk demo_package) (state_dir ''/w''))" by code_simp
  then obtain d1 where "make_dirs (pk_disk demo_package) (state_dir ''/w'') = Inr d1" by (cases "make_dirs (pk_disk demo_package) (state_dir ''/w'')") auto
  then have "?m = (Inr (projr (fst ?m)), snd ?m)" by (simp add: run_doctor_def)
  from doctor_never_warns [OF this] show ?thesis by blast
qed

end
