(* ===== verification/Explain.thy ===== *)
theory Explain
  imports Engine_Total
begin

text \<open>
  The dry run and the replay of a run (\<open>explain.py\<close>) and, at the end, the benchmarks (\<open>benchmark.py\<close>).  \<open>explain\<close> plans a request and asks the permission
  engine about every step, with a fresh guard and without a safe-mode gate; it executes nothing.  \<open>replay\<close> reads the audit log of a
  run, or runs its request again.  The lemmas relate the dry run to the step loop of the engine.
\<close>

section \<open>Dry run\<close>

record step_explanation =
  se_index :: nat
  se_description :: string
  se_tool :: string
  se_args_keys :: "string list"
  se_risk :: string
  se_decision :: string
  se_reason :: string

record explain_result =
  ex_intent :: string
  ex_planner :: string
  ex_steps :: "step_explanation list"
  ex_approval :: bool
  ex_blocked :: bool

definition step_explanation_dict :: "step_explanation \<Rightarrow> doc" where
  "step_explanation_dict se = [(''index'', VInt (int (se_index se))), (''description'', VStr (se_description se)), (''tool'', VStr (se_tool se)),
     (''args_keys'', VList (map VStr (se_args_keys se))), (''risk'', VStr (se_risk se)), (''decision'', VStr (se_decision se)),
     (''reason'', VStr (se_reason se))]"

definition explain_dict :: "explain_result \<Rightarrow> doc" where
  "explain_dict r = [(''intent'', VStr (ex_intent r)), (''planner'', VStr (ex_planner r)), (''would_require_approval'', VBool (ex_approval r)),
     (''would_be_blocked'', VBool (ex_blocked r)), (''steps'', VList (map (VDict \<circ> step_explanation_dict) (ex_steps r)))]"

definition tool_of :: "env \<Rightarrow> doc \<Rightarrow> string" where
  "tool_of e s = py_str e (first_of s [''tool''])"

definition label_of :: "env \<Rightarrow> nat \<Rightarrow> doc \<Rightarrow> string" where
  "label_of e i s = (if get_truthy s ''description'' then py_str e (first_of s [''description''])
     else if tool_of e s \<noteq> [] then tool_of e s else ''step '' @ int_str (int i))"

definition unjudged :: "nat \<Rightarrow> string \<Rightarrow> string \<Rightarrow> string list \<Rightarrow> string \<Rightarrow> string \<Rightarrow> step_explanation" where
  "unjudged i label nm keys verdict why = \<lparr>se_index = i, se_description = label, se_tool = nm, se_args_keys = keys, se_risk = ''none'',
     se_decision = verdict, se_reason = why\<rparr>"

definition judged :: "nat \<Rightarrow> string \<Rightarrow> string \<Rightarrow> doc \<Rightarrow> decision \<Rightarrow> step_explanation" where
  "judged i label nm args d = \<lparr>se_index = i, se_description = label, se_tool = nm, se_args_keys = dkeys args,
     se_risk = risk_level_value (dec_risk d),
     se_decision = (if dec_needs_approval d then ''awaited'' else if dec_denied d then ''denied'' else ''executed''), se_reason = dec_reason d\<rparr>"

text \<open>One step, with the two flags it raises.\<close>

definition explain_step :: "'w host \<Rightarrow> worker_config \<Rightarrow> registry \<Rightarrow> env \<Rightarrow> nat \<times> doc \<Rightarrow> error + step_explanation \<times> bool \<times> bool" where
  "explain_step h cfg reg e is = (case is of (i, s) \<Rightarrow> let nm = tool_of e s in
     bind_sum (as_dict (get_or s ''args'' (VDict []))) (\<lambda>args. let label = label_of e i s in
       if nm = [] then Inr (unjudged i label [] [] ''skipped'' ''reasoning step; no tool'', False, False)
       else if \<not> reg_has reg nm then Inr (unjudged i label nm [] ''skipped'' ''tool unavailable'', False, False)
       else case bind_sum (reg_get reg nm) (\<lambda>t. bind_sum (validate e t args) (\<lambda>v. Inr (t, v))) of
           Inl _ \<Rightarrow> Inr (unjudged i label nm (dkeys args) ''denied'' (''invalid arguments: '' @ h_invalid h (projr (reg_get reg nm)) args), False, True)
         | Inr (t, v) \<Rightarrow> bind_sum (evaluate e (h_parse h) cfg new_guard t v) (\<lambda>d.
             Inr (judged i label nm v d, dec_needs_approval d, dec_denied d))))"

fun explain_steps :: "'w host \<Rightarrow> worker_config \<Rightarrow> registry \<Rightarrow> env \<Rightarrow> (nat \<times> doc) list \<Rightarrow> explain_result \<Rightarrow> error + explain_result" where
  "explain_steps h cfg reg e [] out = Inr out"
| "explain_steps h cfg reg e (x # xs) out = bind_sum (explain_step h cfg reg e x) (\<lambda>(se, asks, stops).
     explain_steps h cfg reg e xs (out\<lparr>ex_steps := ex_steps out @ [se], ex_approval := ex_approval out \<or> asks, ex_blocked := ex_blocked out \<or> stops\<rparr>))"

definition plan_for :: "'w host \<Rightarrow> worker_config \<Rightarrow> registry \<Rightarrow> string \<Rightarrow> string \<Rightarrow> doc \<Rightarrow> 'w eng \<Rightarrow> error + string \<times> doc list" where
  "plan_for h cfg reg req procedure inputs g =
     make_plan ((h_planner h (e_world g))\<lparr>pl_env := env (e_store g)\<rparr>) cfg reg req procedure inputs"

definition explain :: "'w host \<Rightarrow> worker_config \<Rightarrow> registry \<Rightarrow> string \<Rightarrow> string \<Rightarrow> doc \<Rightarrow> ('w, explain_result) eop" where
  "explain h cfg reg req procedure inputs =
     (if wc_disabled cfg then op_raise RuntimeError
      else op_bind (op_gets (plan_for h cfg reg req procedure inputs)) (\<lambda>pl. op_bind (op_lift pl) (\<lambda>(intent, steps).
       op_bind (op_gets (\<lambda>g. h_llm_up h (e_world g))) (\<lambda>up.
       op_bind (op_gets (\<lambda>g. explain_steps h cfg reg (env (e_store g)) (enum_list steps)
         \<lparr>ex_intent = intent, ex_planner = (if up then ''planner'' else ''deterministic fallback''), ex_steps = [], ex_approval = False,
          ex_blocked = False\<rparr>)) op_lift))))"

section \<open>Replay\<close>

definition ACTION_EVENTS :: "string list" where
  "ACTION_EVENTS = [''action.proposed'', ''action.denied'', ''action.executed'']"

definition action_view :: "doc \<Rightarrow> doc" where
  "action_view a = map (\<lambda>k. (k, case dget a k of Some v \<Rightarrow> v | None \<Rightarrow> VNone)) [''tool'', ''summary'', ''status'', ''risk'']"

definition replay_explain :: "string \<Rightarrow> ('w, doc) eop" where
  "replay_explain rid = op_bind (in_store (iter_audit rid [])) (\<lambda>events.
     op_return [(''mode'', VStr ''explain''), (''run_id'', VStr rid), (''event_count'', VInt (int (length events))),
       (''actions'', VList (map (VDict \<circ> action_view) (filter (\<lambda>ev. get_str ev ''event'' \<in> set ACTION_EVENTS) events)))])"

definition replay_request :: "doc \<Rightarrow> string" where
  "replay_request rn = (if get_str rn ''intent'' \<noteq> [] then get_str rn ''intent'' else get_str rn ''request'')"

definition replay_rerun :: "'w host \<Rightarrow> worker_config \<Rightarrow> registry \<Rightarrow> string \<Rightarrow> ('w, doc) eop" where
  "replay_rerun h cfg reg rid = op_bind (in_store (get ''runs'' rid [])) (\<lambda>row. case row of
       None \<Rightarrow> op_raise KeyError
     | Some rn \<Rightarrow> op_bind (run_worker h cfg reg (replay_request rn) (get_str rn ''procedure'') ''replay'' []) (\<lambda>res.
         op_return [(''mode'', VStr ''rerun''), (''run_id'', VStr (run_id (rr_run res))), (''status'', VStr (run_status_value (rr_status res)))]))"

definition replay :: "'w host \<Rightarrow> worker_config \<Rightarrow> registry \<Rightarrow> string \<Rightarrow> string \<Rightarrow> ('w, doc) eop" where
  "replay h cfg reg rid mode = (if mode \<notin> {''explain'', ''rerun''} then op_raise ValueError
     else if mode = ''rerun'' then replay_rerun h cfg reg rid else replay_explain rid)"

section \<open>Lemmas\<close>

text \<open>A refusal earlier in the run only takes permissions away.\<close>

lemma allowed_afresh:
  assumes "evaluate e p cfg g t args = Inr d" and "dec_allowed d"
  shows "evaluate e p cfg new_guard t args = Inr d"
proof -
  have n: "blocked_reason new_guard r = None" for r by (simp add: blocked_reason_def new_guard_def)
  from assms show ?thesis
    unfolding evaluate_def by (elim bind_sumE) (auto simp: Let_def n split: option.splits if_splits)
qed

lemma explain_step_parts:
  assumes "explain_step h cfg reg e (i, s) = Inr (se, asks, stops)"
  obtains args where "as_dict (get_or s ''args'' (VDict [])) = Inr args"
    and "\<And>t v d. tool_of e s \<noteq> [] \<Longrightarrow> reg_get reg (tool_of e s) = Inr t \<Longrightarrow> validate e t args = Inr v \<Longrightarrow>
      evaluate e (h_parse h) cfg new_guard t v = Inr d \<Longrightarrow> se = judged i (label_of e i s) (tool_of e s) v d"
proof -
  from assms obtain args where a: "as_dict (get_or s ''args'' (VDict [])) = Inr args"
    by (auto simp: explain_step_def Let_def elim!: bind_sumE)
  moreover have "se = judged i (label_of e i s) (tool_of e s) v d"
    if "tool_of e s \<noteq> []" "reg_get reg (tool_of e s) = Inr t" "validate e t args = Inr v" "evaluate e (h_parse h) cfg new_guard t v = Inr d" for t v d
  proof -
    have "reg_has reg (tool_of e s)" using that(2) by (auto simp: reg_get_def reg_has_def split: option.splits)
    with that a assms show ?thesis by (simp add: explain_step_def)
  qed
  ultimately show thesis by (rule that)
qed

lemma explain_step_flags:
  "explain_step h cfg reg e x = Inr (se, asks, stops) \<Longrightarrow> (asks \<longleftrightarrow> se_decision se = ''awaited'') \<and> (stops \<longleftrightarrow> se_decision se = ''denied'')"
  by (cases x) (auto simp: explain_step_def Let_def unjudged_def judged_def dest: evaluate_cases elim!: bind_sumE split: if_splits sum.splits)

lemma explain_steps_exact:
  "explain_steps h cfg reg e xs out = Inr r \<Longrightarrow> \<exists>ys. ex_steps r = ex_steps out @ ys \<and> length ys = length xs \<and>
     (\<forall>i<length xs. \<exists>asks stops. explain_step h cfg reg e (xs ! i) = Inr (ys ! i, asks, stops)) \<and>
     (ex_approval r \<longleftrightarrow> ex_approval out \<or> (\<exists>se\<in>set ys. se_decision se = ''awaited'')) \<and>
     (ex_blocked r \<longleftrightarrow> ex_blocked out \<or> (\<exists>se\<in>set ys. se_decision se = ''denied''))"
proof (induction xs arbitrary: out)
  case (Cons x xs)
  obtain se asks stops where x: "explain_step h cfg reg e x = Inr (se, asks, stops)"
    using Cons.prems by (auto elim!: bind_sumE)
  let ?out = "out\<lparr>ex_steps := ex_steps out @ [se], ex_approval := ex_approval out \<or> asks, ex_blocked := ex_blocked out \<or> stops\<rparr>"
  have "explain_steps h cfg reg e xs ?out = Inr r" using Cons.prems x by simp
  from Cons.IH [OF this] obtain ys where ys: "ex_steps r = ex_steps out @ se # ys" "length ys = length xs"
    "\<forall>i<length xs. \<exists>asks stops. explain_step h cfg reg e (xs ! i) = Inr (ys ! i, asks, stops)"
    "ex_approval r \<longleftrightarrow> (ex_approval out \<or> asks) \<or> (\<exists>se\<in>set ys. se_decision se = ''awaited'')"
    "ex_blocked r \<longleftrightarrow> (ex_blocked out \<or> stops) \<or> (\<exists>se\<in>set ys. se_decision se = ''denied'')" by auto
  show ?case
    using ys x explain_step_flags [OF x] by (intro exI [of _ "se # ys"]) (auto simp: nth_Cons split: nat.split)
qed simp

lemma explain_parts:
  assumes "explain h cfg reg req procedure inputs g = (Inr r, g')"
  obtains intent steps where "g' = g" and "plan_for h cfg reg req procedure inputs g = Inr (intent, steps)"
    and "length (ex_steps r) = length steps"
    and "\<forall>i<length steps. \<exists>asks stops. explain_step h cfg reg (env (e_store g)) (i, steps ! i) = Inr (ex_steps r ! i, asks, stops)"
    and "ex_approval r \<longleftrightarrow> (\<exists>se\<in>set (ex_steps r). se_decision se = ''awaited'')"
    and "ex_blocked r \<longleftrightarrow> (\<exists>se\<in>set (ex_steps r). se_decision se = ''denied'')"
proof -
  have nd: "\<not> wc_disabled cfg" using assms by (cases "wc_disabled cfg") (simp_all add: explain_def)
  obtain intent steps where p: "plan_for h cfg reg req procedure inputs g = Inr (intent, steps)"
    using assms nd by (cases "plan_for h cfg reg req procedure inputs g") (auto simp: explain_def op_bind_apply)
  let ?out = "\<lparr>ex_intent = intent, ex_planner = (if h_llm_up h (e_world g) then ''planner'' else ''deterministic fallback''), ex_steps = [],
     ex_approval = False, ex_blocked = False\<rparr>"
  have run: "explain h cfg reg req procedure inputs g = (explain_steps h cfg reg (env (e_store g)) (enum_list steps) ?out, g)"
    using nd by (simp add: explain_def op_bind_apply p)
  have x: "explain_steps h cfg reg (env (e_store g)) (enum_list steps) ?out = Inr r"
    using assms [unfolded run prod.inject] by (rule conjunct1)
  have g: "g' = g" using assms [unfolded run] by simp
  have o: "ex_steps ?out = []" "\<not> ex_approval ?out" "\<not> ex_blocked ?out" by simp_all
  have e: "length (enum_list steps) = length steps" "\<And>i. i < length steps \<Longrightarrow> enum_list steps ! i = (i, steps ! i)"
    by (simp_all add: enum_list_def nth_enumerate_eq)
  from explain_steps_exact [OF x] o e show thesis by (intro that [OF g p]) auto
qed

lemma planned_steps:
  assumes "op_mapM (plan_step rid pid) xs s = (Inr sts, s')" and "\<not> enforce s"
  shows "list_all2 (\<lambda>(i, d) st. step_tool st = tool_of (env s) d \<and> as_dict (get_or d ''args'' (VDict [])) = Inr (step_args st)) xs sts"
  using assms
proof (induction xs arbitrary: s sts)
  case (Cons x xs)
  obtain i d where x: "x = (i, d)" by (cases x)
  obtain st s1 sts' where 1: "plan_step rid pid (i, d) s = (Inr st, s1)" "op_mapM (plan_step rid pid) xs s1 = (Inr sts', s')" "sts = st # sts'"
    using Cons.prems(1) x by (auto simp: op_bind_apply split: prod.splits sum.splits)
  have st: "step_tool st = tool_of (env s) d \<and> as_dict (get_or d ''args'' (VDict [])) = Inr (step_args st)"
    using 1(1) by (auto simp: plan_step_def Let_def tool_of_def op_bind_apply op_then_apply op_lift_def split: prod.splits sum.splits if_splits)
  have "op_inv (calm lv e) (plan_step rid pid (i, d))" for lv e
    unfolding plan_step_def Let_def by (auto intro!: op_inv_intros)
  then have "calm (level_in s) (env s) s1" using 1(1) Cons.prems(2) by (force simp: op_inv_def calm_def)
  then have "\<not> enforce s1" "env s1 = env s" by (simp_all add: calm_def)
  with Cons.IH [OF 1(2)] st 1(3) x show ?case by simp
qed simp

lemma quiet_step:
  assumes "eng_pred (calm lv e) (frozen_world w0 c0) g" and "step_tool st \<noteq> [] \<Longrightarrow> \<not> permitted h cfg reg st g"
  shows "eng_pred (calm lv e) (frozen_world w0 c0) (snd (exec_step h cfg reg st x g))"
proof (cases "step_tool st = []")
  case True
  have "op_inv (eng_pred (calm lv e) (frozen_world w0 c0))
      (op_then (close_step_as st Step_Skipped ''reasoning step; no tool invocation'' ''step.skipped'') (op_return x))"
    by (intro op_inv_intros)
  then show ?thesis using True assms(1) by (simp add: exec_step_def op_inv_def)
next
  case False
  then show ?thesis by (intro exec_step_gate assms)
qed

lemma quiet_loop:
  assumes "\<And>st g. st \<in> set sts \<Longrightarrow> eng_pred (calm lv e) (frozen_world w0 c0) g \<Longrightarrow> step_tool st \<noteq> [] \<Longrightarrow> \<not> permitted h cfg reg st g"
    and "eng_pred (calm lv e) (frozen_world w0 c0) g"
  shows "eng_pred (calm lv e) (frozen_world w0 c0) (snd (exec_steps h cfg reg started sts x g))"
  using assms
proof (induction sts arbitrary: x g)
  case (Cons st sts)
  let ?P = "eng_pred (calm lv e) (frozen_world w0 c0)"
  obtain r g1 where 1: "exhausted cfg started x g = (r, g1)" by fastforce
  have p1: "?P g1" using op_invD [OF exhausted_inv Cons.prems(2) 1] .
  have "?P (snd (exec_step h cfg reg st x g1))" by (rule quiet_step [OF p1]) (simp add: Cons.prems(1) p1)
  then show ?case
    using 1 p1 Cons.IH Cons.prems(1) by (auto simp: op_bind_apply split: prod.splits sum.splits)
qed simp

lemma unexecuted_not_permitted:
  assumes "explain_step h cfg reg (env (e_store g)) (i, d) = Inr (se, asks, stops)" and "se_decision se \<noteq> ''executed''"
    and "step_tool st = tool_of (env (e_store g)) d" and "as_dict (get_or d ''args'' (VDict [])) = Inr (step_args st)"
    and "step_tool st \<noteq> []"
  shows "\<not> permitted h cfg reg st g"
proof
  assume "permitted h cfg reg st g"
  then obtain t v dec where p: "reg_get reg (step_tool st) = Inr t" "validate (env (e_store g)) t (step_args st) = Inr v"
    "evaluate (env (e_store g)) (h_parse h) cfg (e_guard g) t v = Inr dec" "dec_allowed dec" by (auto simp: permitted_def)
  from explain_step_parts [OF assms(1)] obtain args where a: "as_dict (get_or d ''args'' (VDict [])) = Inr args"
    and j: "\<And>t v x. tool_of (env (e_store g)) d \<noteq> [] \<Longrightarrow> reg_get reg (tool_of (env (e_store g)) d) = Inr t \<Longrightarrow>
      validate (env (e_store g)) t args = Inr v \<Longrightarrow> evaluate (env (e_store g)) (h_parse h) cfg new_guard t v = Inr x \<Longrightarrow>
      se = judged i (label_of (env (e_store g)) i d) (tool_of (env (e_store g)) d) v x" by blast
  have "args = step_args st" using a assms(4) by simp
  with j [of t v dec] p assms(3,5) allowed_afresh [OF p(3,4)]
  have "se = judged i (label_of (env (e_store g)) i d) (tool_of (env (e_store g)) d) v dec" by simp
  moreover have "\<not> dec_denied dec" "\<not> dec_needs_approval dec" using evaluate_cases [OF p(3)] p(4) by blast+
  ultimately show False using assms(2) by (simp add: judged_def)
qed

section \<open>Properties\<close>

text \<open>a dry run never promises too little.  If the dry run of a request shows no step as executed, then the step loop over the plan of
  that request runs no tool: the world stays as it is, from whatever later state the loop starts, with whatever
  refusals, budgets and safe-mode level.\<close>

theorem dry_run_is_conservative:
  assumes "explain h cfg reg req procedure inputs g = (Inr r, g1)" and "list_all (\<lambda>se. se_decision se \<noteq> ''executed'') (ex_steps r)"
    and "plan_for h cfg reg req procedure inputs g = Inr (intent, steps)"
    and "op_mapM (plan_step rid pid) (enum_list (take MAX_STEPS steps)) s = (Inr sts, s')" and "env s = env (e_store g)" and "\<not> enforce s"
    and "\<not> enforce (e_store g2)" and "env (e_store g2) = env (e_store g)"
  shows "e_world (snd (exec_steps h cfg reg started sts x g2)) = e_world g2"
proof -
  let ?P = "eng_pred (calm (level_in (e_store g2)) (env (e_store g))) (frozen_world (e_world g2) (e_ctx g2))"
  from explain_parts [OF assms(1)] assms(3)
  have ex: "length (ex_steps r) = length steps"
    "\<And>i. i < length steps \<Longrightarrow> \<exists>asks stops. explain_step h cfg reg (env (e_store g)) (i, steps ! i) = Inr (ex_steps r ! i, asks, stops)"
    by auto
  have pl: "list_all2 (\<lambda>(i, d) st. step_tool st = tool_of (env (e_store g)) d \<and> as_dict (get_or d ''args'' (VDict [])) = Inr (step_args st))
      (enum_list (take MAX_STEPS steps)) sts"
    using planned_steps [OF assms(4,6)] assms(5) by simp
  have quiet: "\<not> permitted h cfg reg st g'" if st: "st \<in> set sts" and g': "?P g'" and nt: "step_tool st \<noteq> []" for st g'
  proof -
    obtain k where k: "k < length sts" "st = sts ! k" using st by (auto simp: in_set_conv_nth)
    have n: "length sts = length (take MAX_STEPS steps)" using list_all2_lengthD [OF pl] by (simp add: enum_list_def)
    then have ks: "k < length steps" "enum_list (take MAX_STEPS steps) ! k = (k, steps ! k)"
      using k(1) by (simp_all add: enum_list_def nth_enumerate_eq)
    have e: "env (e_store g') = env (e_store g)" using g' by (simp add: eng_pred_def calm_def)
    have t: "step_tool st = tool_of (env (e_store g)) (steps ! k)" "as_dict (get_or (steps ! k) ''args'' (VDict [])) = Inr (step_args st)"
      using list_all2_nthD2 [OF pl k(1)] ks(2) k(2) by simp_all
    obtain asks stops where x: "explain_step h cfg reg (env (e_store g)) (k, steps ! k) = Inr (ex_steps r ! k, asks, stops)"
      using ex(2) [OF ks(1)] by blast
    have "se_decision (ex_steps r ! k) \<noteq> ''executed''" using assms(2) ks(1) ex(1) by (simp add: list_all_length)
    from unexecuted_not_permitted [where g = g', unfolded e, OF x this t nt] show ?thesis .
  qed
  have "?P g2" by (simp add: eng_pred_def calm_def world_is_def assms(7,8))
  from quiet_loop [OF quiet this] have "?P (snd (exec_steps h cfg reg started sts x g2))" by blast
  then show ?thesis by (simp add: eng_pred_def world_is_def)
qed

definition demo_dry :: explain_result where
  "demo_dry = projr (fst (explain demo_host demo_worker demo_reg ''list the files'' [] [] (demo_eng demo_fresh)))"

lemma dry_run_is_conservative_witness:
  "\<exists>steps sts s'. plan_for demo_host demo_worker demo_reg ''list the files'' [] [] (demo_eng demo_fresh) = Inr (fst steps, snd steps) \<and>
     op_mapM (plan_step ''r'' ''p'') (enum_list (take MAX_STEPS (snd steps))) demo_fresh = (Inr sts, s') \<and>
     e_world (snd (exec_steps demo_host demo_worker demo_reg 0 sts demo_x (demo_eng demo_locked))) = 0"
proof -
  let ?x = "explain demo_host demo_worker demo_reg ''list the files'' [] [] (demo_eng demo_fresh)"
  let ?p = "plan_for demo_host demo_worker demo_reg ''list the files'' [] [] (demo_eng demo_fresh)"
  have ok: "\<not> isl (fst ?x) \<and> list_all (\<lambda>se. se_decision se \<noteq> ''executed'') (ex_steps (projr (fst ?x)))" by code_simp
  then have x: "?x = (Inr (projr (fst ?x)), snd ?x)" by (cases "fst ?x") (simp_all add: prod_eq_iff)
  have "\<not> isl ?p \<and> \<not> isl (fst (op_mapM (plan_step ''r'' ''p'') (enum_list (take MAX_STEPS (snd (projr ?p)))) demo_fresh))" by code_simp
  then obtain intent steps sts s' where p: "?p = Inr (intent, steps)"
    and m: "op_mapM (plan_step ''r'' ''p'') (enum_list (take MAX_STEPS steps)) demo_fresh = (Inr sts, s')"
    by (cases ?p; cases "op_mapM (plan_step ''r'' ''p'') (enum_list (take MAX_STEPS (snd (projr ?p)))) demo_fresh";
        cases "fst (op_mapM (plan_step ''r'' ''p'') (enum_list (take MAX_STEPS (snd (projr ?p)))) demo_fresh)"; auto)
  have e: "env demo_fresh = env (e_store (demo_eng demo_fresh))" "\<not> enforce demo_fresh" "\<not> enforce (e_store (demo_eng demo_locked))"
    "env (e_store (demo_eng demo_locked)) = env (e_store (demo_eng demo_fresh))" by (simp_all add: demo_eng_def demo_locked_def)
  have "e_world (snd (exec_steps demo_host demo_worker demo_reg 0 sts demo_x (demo_eng demo_locked))) = e_world (demo_eng demo_locked)"
    by (rule dry_run_is_conservative [OF x _ p m e]) (use ok in blast)
  then show ?thesis using p m by (intro exI [of _ "(intent, steps)"] exI [of _ sts] exI [of _ s']) (simp add: demo_eng_def)
qed

text \<open>a dry run judges a step exactly as a run would with nothing refused.  It leaves the state as it was; it explains every step of the
  plan; a step whose tool is registered and whose arguments are valid gets the verdict of the permission engine under a fresh guard; and the
  two flags say whether any step would wait for an approval or be denied.\<close>

theorem dry_run_exact:
  assumes "explain h cfg reg req procedure inputs g = (Inr r, g')" and "plan_for h cfg reg req procedure inputs g = Inr (intent, steps)"
    and "i < length steps" and "tool_of (env (e_store g)) (steps ! i) \<noteq> []" and "reg_get reg (tool_of (env (e_store g)) (steps ! i)) = Inr t"
    and "as_dict (get_or (steps ! i) ''args'' (VDict [])) = Inr args" and "validate (env (e_store g)) t args = Inr v"
    and "evaluate (env (e_store g)) (h_parse h) cfg new_guard t v = Inr d"
  shows "g' = g \<and> length (ex_steps r) = length steps \<and> se_risk (ex_steps r ! i) = risk_level_value (dec_risk d) \<and>
    se_decision (ex_steps r ! i) = (if dec_denied d then ''denied'' else if dec_needs_approval d then ''awaited'' else ''executed'') \<and>
    (ex_approval r \<longleftrightarrow> (\<exists>se\<in>set (ex_steps r). se_decision se = ''awaited'')) \<and>
    (ex_blocked r \<longleftrightarrow> (\<exists>se\<in>set (ex_steps r). se_decision se = ''denied''))"
proof -
  obtain intent' steps' where x: "g' = g" "plan_for h cfg reg req procedure inputs g = Inr (intent', steps')"
      "length (ex_steps r) = length steps'"
      "\<forall>i<length steps'. \<exists>asks stops. explain_step h cfg reg (env (e_store g)) (i, steps' ! i) = Inr (ex_steps r ! i, asks, stops)"
      "ex_approval r \<longleftrightarrow> (\<exists>se\<in>set (ex_steps r). se_decision se = ''awaited'')"
      "ex_blocked r \<longleftrightarrow> (\<exists>se\<in>set (ex_steps r). se_decision se = ''denied'')"
    by (rule explain_parts [OF assms(1)])
  have s: "steps' = steps" using x(2) assms(2) by simp
  obtain asks stops where p: "explain_step h cfg reg (env (e_store g)) (i, steps ! i) = Inr (ex_steps r ! i, asks, stops)"
    using x(4) assms(3) s by blast
  have "ex_steps r ! i = judged i (label_of (env (e_store g)) i (steps ! i)) (tool_of (env (e_store g)) (steps ! i)) v d"
  proof (rule explain_step_parts [OF p])
    fix args' assume "as_dict (get_or (steps ! i) ''args'' (VDict [])) = Inr args'"
      and j: "\<And>t v d. tool_of (env (e_store g)) (steps ! i) \<noteq> [] \<Longrightarrow> reg_get reg (tool_of (env (e_store g)) (steps ! i)) = Inr t \<Longrightarrow>
        validate (env (e_store g)) t args' = Inr v \<Longrightarrow> evaluate (env (e_store g)) (h_parse h) cfg new_guard t v = Inr d \<Longrightarrow>
        ex_steps r ! i = judged i (label_of (env (e_store g)) i (steps ! i)) (tool_of (env (e_store g)) (steps ! i)) v d"
    then have "args' = args" using assms(6) by simp
    then show ?thesis using j [OF assms(4,5) _ assms(8)] assms(7) by simp
  qed
  with x s evaluate_cases [OF assms(8)] show ?thesis by (simp add: judged_def)
qed

definition demo_suggested :: "nat host" where
  "demo_suggested = demo_host\<lparr>h_planner := \<lambda>_. demo_planner (VDict [(''intent'', VStr ''look''),
     (''steps'', VList [VDict [(''tool'', VStr ''fs.list''), (''args'', VDict [])]])])\<rparr>"

lemma dry_run_exact_witness:
  "\<exists>r. fst (explain demo_suggested demo_worker demo_reg ''look'' [] [] (demo_eng demo_fresh)) = Inr r \<and> length (ex_steps r) = 1 \<and>
     se_decision (ex_steps r ! 0) = ''executed''"
proof -
  let ?x = "explain demo_suggested demo_worker demo_reg ''look'' [] [] (demo_eng demo_fresh)"
  let ?p = "plan_for demo_suggested demo_worker demo_reg ''look'' [] [] (demo_eng demo_fresh)"
  let ?t = "demo_tool ''fs.list'' Read"
  let ?e = "env (e_store (demo_eng demo_fresh))"
  have "\<not> isl (fst ?x)" by code_simp
  then obtain r g' where x: "?x = (Inr r, g')" by (cases ?x; cases "fst ?x") simp_all
  have "\<not> isl ?p \<and> length (snd (projr ?p)) = 1 \<and> tool_of ?e (snd (projr ?p) ! 0) = ''fs.list'' \<and>
      as_dict (get_or (snd (projr ?p) ! 0) ''args'' (VDict [])) = Inr []" by code_simp
  then obtain intent steps where p: "?p = Inr (intent, steps)" "0 < length steps" "tool_of ?e (steps ! 0) = ''fs.list''"
      "as_dict (get_or (steps ! 0) ''args'' (VDict [])) = Inr []" "length steps = 1" by (cases ?p) auto
  obtain d where d: "evaluate ?e (h_parse demo_suggested) demo_worker new_guard ?t [] = Inr d" "dec_risk d = Read"
    using evaluate_total [OF classify_other [of ?t ?e "h_parse demo_suggested" "[]"], of demo_worker new_guard] by (auto simp: demo_tool_def)
  have v: "validate ?e ?t [] = Inr []" by (simp add: demo_eng_def demo_fresh_env) code_simp
  have "policy_for demo_worker Read = ''auto''" by code_simp
  then have "\<not> dec_denied d \<and> \<not> dec_needs_approval d"
    using evaluate_cases [OF d(1)] d(2) by (auto simp: blocked_reason_def new_guard_def demo_tool_def)
  moreover have "tool_of ?e (steps ! 0) \<noteq> []" "reg_get demo_reg (tool_of ?e (steps ! 0)) = Inr ?t"
    by (simp_all add: p(3) demo_reg_def reg_get_def)
  ultimately have "length (ex_steps r) = 1 \<and> se_decision (ex_steps r ! 0) = ''executed''"
    using dry_run_exact [OF x p(1,2) _ _ p(4) v d(1)] p(5) by simp
  then show ?thesis using x by simp
qed

text \<open>a dry run does not see a lockdown.  Its answer depends on the world, for the plan, and on nothing else of the platform: whatever the
  safe-mode level, the incidents and the refusals on record, it is the answer that the unlocked platform gives.\<close>

theorem dry_run_ignores_lockdown:
  assumes "e_world g' = e_world g" and "env (e_store g') = env (e_store g)"
  shows "fst (explain h cfg reg req procedure inputs g') = fst (explain h cfg reg req procedure inputs g)"
proof -
  have "plan_for h cfg reg req procedure inputs g' = plan_for h cfg reg req procedure inputs g" by (simp add: plan_for_def assms)
  then show ?thesis
    by (cases "plan_for h cfg reg req procedure inputs g") (auto simp: explain_def op_bind_apply assms split: sum.split)
qed

lemma dry_run_ignores_lockdown_witness:
  "fst (explain demo_host demo_worker demo_reg ''list the files'' [] [] (demo_eng demo_locked)) =
     fst (explain demo_host demo_worker demo_reg ''list the files'' [] [] (demo_eng demo_fresh)) \<and> level_in demo_locked \<noteq> level_in demo_fresh"
  using dry_run_ignores_lockdown [of "demo_eng demo_locked" "demo_eng demo_fresh"] demo_levels
  by (simp add: demo_eng_def demo_locked_def sm_consts)

lemma view_of_entry: "action_view (audit_entry s ev tb rid pl) = [(''tool'', VNone), (''summary'', VNone), (''status'', VNone), (''risk'', VNone)]"
  by (simp add: action_view_def audit_entry_def audit_body_def Let_def)

definition written :: "doc \<Rightarrow> bool" where
  "written d \<longleftrightarrow> (\<exists>s ev tb rid pl. d = audit_entry s ev tb rid pl)"

lemma written_entry [simp]: "written (audit_entry s ev tb rid pl)"
  unfolding written_def by (intro exI, rule refl)

lemma lines_of_store:
  "iter_lines rn ws ls = Inr es \<Longrightarrow> \<forall>l\<in>set ls. \<exists>d. l = Entry d \<and> written d \<Longrightarrow> \<forall>e\<in>set es. written e"
  by (induction ls arbitrary: es) (auto split: sum.splits if_splits)

text \<open>the replay of a run shows nothing of it.  From a log that the store itself has written, the replay of any run lists for each of its
  actions a tool, a summary, a status and a risk that are all absent: the log keeps them one level deeper, in the payload.\<close>

theorem replay_shows_nothing:
  assumes "replay h cfg reg rid ''explain'' g = (Inr d, g')"
    and "\<forall>l\<in>set (audit_log (e_store g)). \<exists>d. l = Entry d \<and> written d"
  shows "g' = g \<and> (\<forall>a\<in>set (get_list d ''actions''). a = VDict [(''tool'', VNone), (''summary'', VNone), (''status'', VNone), (''risk'', VNone)])"
proof -
  from assms(1) obtain es where es: "iter_lines rid (effective_ws (e_store g) []) (audit_log (e_store g)) = Inr es" and g: "g' = g"
    and d: "d = [(''mode'', VStr ''explain''), (''run_id'', VStr rid), (''event_count'', VInt (int (length es))),
       (''actions'', VList (map (VDict \<circ> action_view) (filter (\<lambda>ev. get_str ev ''event'' \<in> set ACTION_EVENTS) es)))]"
    by (auto simp: replay_def replay_explain_def op_bind_apply in_store_def iter_audit_def split: sum.splits)
  have "action_view e = [(''tool'', VNone), (''summary'', VNone), (''status'', VNone), (''risk'', VNone)]" if "e \<in> set es" for e
    using lines_of_store [OF es assms(2)] that view_of_entry by (auto simp: written_def)
  then show ?thesis using g by (auto simp: d get_list_def)
qed

definition demo_proposed :: store where
  "demo_proposed = put_state ''actions'' ''a1'' [(''id'', VStr ''a1''), (''run_id'', VStr ''r1''), (''tool'', VStr ''fs.list'')] ''action.proposed'' demo_fresh"

lemma replay_shows_nothing_witness:
  "\<exists>d g'. replay demo_host demo_worker demo_reg ''r1'' ''explain'' (demo_eng demo_proposed) = (Inr d, g') \<and>
     get_list d ''actions'' = [VDict [(''tool'', VNone), (''summary'', VNone), (''status'', VNone), (''risk'', VNone)]]"
proof -
  let ?m = "replay demo_host demo_worker demo_reg ''r1'' ''explain'' (demo_eng demo_proposed)"
  have "\<not> isl (fst ?m) \<and> length (get_list (projr (fst ?m)) ''actions'') = 1" by code_simp
  then obtain d g' where m: "?m = (Inr d, g')" and n: "length (get_list d ''actions'') = 1" by (cases ?m; cases "fst ?m") simp_all
  have l: "\<forall>l\<in>set (audit_log (e_store (demo_eng demo_proposed))). \<exists>d. l = Entry d \<and> written d"
    by (auto simp: demo_eng_def demo_proposed_def demo_fresh_def open_store_def put_state_def audit_st_def put_row_def)
  from replay_shows_nothing [OF m l] n m show ?thesis by (cases "get_list d ''actions''") auto
qed

chapter \<open>Benchmarks\<close>

text \<open>
  The benchmarks of the deterministic path (\<open>benchmark.py\<close>).  Each iteration runs a request on an engine of its own; the engines that
  \<open>make_engine\<close> yields, one after the other, and the readings of \<open>perf_counter\<close> are parameters.  Times are exact rationals.
\<close>

section \<open>Percentiles\<close>

definition percentile :: "rat list \<Rightarrow> rat \<Rightarrow> rat" where
  "percentile values q = (if values = [] then 0 else let s = sort values in
     if length s = 1 then s ! 0
     else let idx = of_nat (length s - 1) * q; lo = nat \<lfloor>idx\<rfloor>; hi = min (lo + 1) (length s - 1)
       in s ! lo + (s ! hi - s ! lo) * (idx - of_nat lo))"

section \<open>One case\<close>

record 'w bench =
  be_host :: "'w host"
  be_worker :: worker_config
  be_registry :: registry
  be_make :: "nat \<Rightarrow> 'w eng"     \<comment> \<open>the n-th engine\<close>
  be_clock :: "nat \<Rightarrow> rat"       \<comment> \<open>the n-th reading of \<open>perf_counter\<close>\<close>

record case_result =
  ca_name :: string
  ca_iterations :: nat
  ca_times :: "rat list"
  ca_p50 :: rat
  ca_p95 :: rat
  ca_status :: string
  ca_derived :: "string option"
  ca_expected :: "string option"

definition derived_of :: "env \<Rightarrow> doc list \<Rightarrow> string option" where
  "derived_of e rows = (case find (\<lambda>v. get_str v ''check'' = ''recompute_sum'') rows of
       None \<Rightarrow> None
     | Some v \<Rightarrow> Some (py_str e (case dget v ''expected'' of Some x \<Rightarrow> x | None \<Rightarrow> VNone)))"

definition elapsed_ms :: "'w bench \<Rightarrow> nat \<Rightarrow> rat" where
  "elapsed_ms b n = (be_clock b (2 * n + 1) - be_clock b (2 * n)) * 1000"

definition iteration :: "'w bench \<Rightarrow> string \<Rightarrow> nat \<Rightarrow> error + run_result \<times> string option" where
  "iteration b req n = fst (op_bind (run_worker (be_host b) (be_worker b) (be_registry b) req [] [] []) (\<lambda>res.
     op_bind (in_store (find_rows ''verifications'' (by_cols [(''run_id'', VStr (run_id (rr_run res)))]))) (\<lambda>rows.
     op_bind (in_store (op_gets env)) (\<lambda>e. op_return (res, derived_of e rows)))) (be_make b n))"

record case_state =
  cs_times :: "rat list"
  cs_last :: "run_result option"
  cs_derived :: "string option"

fun iterations :: "'w bench \<Rightarrow> string \<Rightarrow> nat list \<Rightarrow> case_state \<Rightarrow> error + case_state" where
  "iterations b req [] c = Inr c"
| "iterations b req (n # ns) c = bind_sum (iteration b req n) (\<lambda>(res, d).
     iterations b req ns \<lparr>cs_times = cs_times c @ [elapsed_ms b n], cs_last = Some res, cs_derived = (case d of None \<Rightarrow> cs_derived c | Some x \<Rightarrow> Some x)\<rparr>)"

text \<open>\<open>start\<close> is the number of engines made so far.\<close>

definition run_case :: "'w bench \<Rightarrow> nat \<Rightarrow> string \<Rightarrow> nat \<Rightarrow> string option \<Rightarrow> error + case_result" where
  "run_case b start req k expected = bind_sum (iterations b req [start..<start + k] \<lparr>cs_times = [], cs_last = None, cs_derived = None\<rparr>) (\<lambda>c.
     case cs_last c of
       None \<Rightarrow> Inl AssertionError
     | Some res \<Rightarrow>
        (if rr_status res \<noteq> Success then Inl AssertionError
         else if expected \<noteq> None \<and> cs_derived c \<noteq> expected then Inl AssertionError
         else Inr \<lparr>ca_name = req, ca_iterations = k, ca_times = cs_times c, ca_p50 = percentile (cs_times c) (1 / 2),
           ca_p95 = percentile (cs_times c) (95 / 100), ca_status = run_status_value (rr_status res), ca_derived = cs_derived c,
           ca_expected = expected\<rparr>))"

section \<open>The suite\<close>

record bench_case =
  bc_name :: string
  bc_request :: string
  bc_expected :: "string option"
  bc_cap :: rat

definition DEFAULT_CASES :: "bench_case list" where
  "DEFAULT_CASES = [\<lparr>bc_name = ''q2_revenue_total'', bc_request = ''What was total Q2 revenue?'', bc_expected = Some ''188500.0'', bc_cap = 4000\<rparr>,
     \<lparr>bc_name = ''q2_by_channel'', bc_request = ''Q2 revenue by channel?'', bc_expected = None, bc_cap = 4000\<rparr>]"

fun run_cases :: "'w bench \<Rightarrow> nat \<Rightarrow> nat \<Rightarrow> bool \<Rightarrow> bench_case list \<Rightarrow> error + case_result list" where
  "run_cases b start k strict [] = Inr []"
| "run_cases b start k strict (c # cs) = bind_sum (run_case b start (bc_request c) k (bc_expected c)) (\<lambda>res.
     if strict \<and> bc_cap c < ca_p95 res then Inl AssertionError
     else bind_sum (run_cases b (start + k) k strict cs) (\<lambda>rs. Inr (res\<lparr>ca_name := bc_name c\<rparr> # rs)))"

definition run_benchmarks :: "'w bench \<Rightarrow> bench_case list \<Rightarrow> nat \<Rightarrow> bool \<Rightarrow> error + case_result list" where
  "run_benchmarks b cases k strict = run_cases b 0 k strict (if cases = [] then DEFAULT_CASES else cases)"

definition case_dict :: "env \<Rightarrow> case_result \<Rightarrow> doc" where
  "case_dict e c = (let opt = (\<lambda>x. case x of None \<Rightarrow> VNone | Some v \<Rightarrow> VStr v) in
     [(''name'', VStr (ca_name c)), (''iterations'', VInt (int (ca_iterations c))), (''p50_ms'', VFloat (py_round 2 (ca_p50 c))),
      (''p95_ms'', VFloat (py_round 2 (ca_p95 c))), (''status'', VStr (ca_status c)), (''derived_total'', opt (ca_derived c)),
      (''expected_total'', opt (ca_expected c))])"

section \<open>Lemmas\<close>

lemma between: "0 \<le> f \<Longrightarrow> f \<le> 1 \<Longrightarrow> a \<le> b \<Longrightarrow> a \<le> a + (b - a) * f \<and> a + (b - a) * f \<le> (b :: rat)"
  by (metis add.commute diff_add_cancel diff_ge_0_iff_ge mult.commute mult_left_le_one_le mult_nonneg_nonneg add_le_cancel_left
      le_add_same_cancel1)

lemma percentile_between:
  assumes "values \<noteq> []" and "0 \<le> q" and "q \<le> 1"
  shows "sort values ! 0 \<le> percentile values q \<and> percentile values q \<le> sort values ! (length values - 1)"
proof (cases "length values = 1")
  case True
  then show ?thesis using assms(1) by (simp add: percentile_def)
next
  case False
  let ?s = "sort values"
  let ?n = "length values - 1"
  let ?idx = "of_nat ?n * q"
  let ?lo = "nat \<lfloor>?idx\<rfloor>"
  let ?hi = "min (?lo + 1) ?n"
  have i: "0 \<le> ?idx" "?idx \<le> of_nat ?n" using assms(2,3) by (simp_all add: mult_left_le)
  have f: "of_nat ?lo \<le> ?idx" "?idx < of_nat ?lo + 1" using i(1) by (simp_all add: of_nat_nat) linarith+
  have lo: "?lo \<le> ?n" using i(2) f(1) by (metis (no_types) of_nat_le_iff order_trans)
  have srt: "\<And>i j. i \<le> j \<Longrightarrow> j < length values \<Longrightarrow> ?s ! i \<le> ?s ! j"
    by (rule sorted_nth_mono) simp_all
  have len: "?n < length values" using assms(1) by simp
  have p: "percentile values q = ?s ! ?lo + (?s ! ?hi - ?s ! ?lo) * (?idx - of_nat ?lo)"
    using assms(1) False by (simp add: percentile_def Let_def)
  have "?s ! ?lo \<le> percentile values q \<and> percentile values q \<le> ?s ! ?hi"
    unfolding p by (rule between) (use f srt lo len in auto)
  moreover have "?s ! 0 \<le> ?s ! ?lo" "?s ! ?hi \<le> ?s ! ?n" using srt lo len by auto
  ultimately show ?thesis by linarith
qed

lemma iterations_exact:
  "iterations b req ns c = Inr c' \<Longrightarrow> cs_times c' = cs_times c @ map (elapsed_ms b) ns \<and>
     (ns \<noteq> [] \<longrightarrow> (\<exists>res d. iteration b req (last ns) = Inr (res, d) \<and> cs_last c' = Some res)) \<and> (ns = [] \<longrightarrow> c' = c)"
proof (induction ns arbitrary: c)
  case (Cons n ns)
  obtain res d where i: "iteration b req n = Inr (res, d)" using Cons.prems by (auto elim!: bind_sumE)
  let ?c = "\<lparr>cs_times = cs_times c @ [elapsed_ms b n], cs_last = Some res, cs_derived = (case d of None \<Rightarrow> cs_derived c | Some x \<Rightarrow> Some x)\<rparr>"
  have "iterations b req ns ?c = Inr c'" using Cons.prems i by simp
  from Cons.IH [OF this] i show ?case by (cases "ns = []") auto
qed simp

section \<open>Properties\<close>

text \<open>a percentile lies within what was measured.  For a fraction between zero and one, the interpolated percentile of a non-empty list of
  times is at least the smallest and at most the largest of them.\<close>

theorem percentile_bounds:
  assumes "values \<noteq> []" and "0 \<le> q" and "q \<le> 1"
  shows "Min (set values) \<le> percentile values q \<and> percentile values q \<le> Max (set values)"
proof -
  let ?s = "sort values"
  have "?s ! 0 \<in> set values" "?s ! (length values - 1) \<in> set values"
    using assms(1) nth_mem [of 0 ?s] nth_mem [of "length values - 1" ?s] by auto
  then have "Min (set values) \<le> ?s ! 0" "?s ! (length values - 1) \<le> Max (set values)" by simp_all
  with percentile_between [OF assms] show ?thesis by linarith
qed

lemma percentile_bounds_witness: "Min (set [3, 1, 2]) \<le> percentile [3, 1, 2] (95 / 100) \<and> percentile [3, 1, 2] (95 / 100) \<le> (3 :: rat)"
  using percentile_bounds [of "[3, 1, 2]" "95 / 100"] by simp

text \<open>no number without a result.  A case that is reported was run as often as it says, one time per run; its last run ended in
  \<open>SUCCESS\<close>, and where a total was expected, that total was derived.  Without an iteration there is no report.\<close>

theorem benchmark_needs_success:
  assumes "run_case b start req k expected = Inr r"
  shows "0 < k \<and> length (ca_times r) = k \<and> ca_status r = ''SUCCESS'' \<and>
    (\<exists>res d. iteration b req (start + k - 1) = Inr (res, d) \<and> rr_status res = Success) \<and> (expected = None \<or> ca_derived r = expected)"
proof -
  let ?c0 = "\<lparr>cs_times = [], cs_last = None, cs_derived = None\<rparr>"
  obtain c where c: "iterations b req [start..<start + k] ?c0 = Inr c"
    using assms by (auto simp: run_case_def elim!: bind_sumE)
  then obtain res where l: "cs_last c = Some res" "rr_status res = Success" "ca_times r = cs_times c"
      "ca_status r = run_status_value (rr_status res)" "ca_derived r = cs_derived c" "expected = None \<or> cs_derived c = expected"
    using assms by (auto simp: run_case_def split: option.splits if_splits)
  have k: "0 < k" using iterations_exact [OF c] l(1) by (cases k) auto
  then have "last [start..<start + k] = start + k - 1" by simp
  with iterations_exact [OF c] l k show ?thesis by auto
qed

end
