(* ===== verification/Web.thy ===== *)
theory Web
  imports Explain Auth Rbac
begin

text \<open>
  The local web interface (\<open>web.py\<close>): who may do what.  A request is given as the handler sees it, with the path and
  the query of its URL and its body already split by \<open>urlparse\<close> and \<open>parse_qs\<close>.  Modelled are the session cookie, the
  check of the origin, authentication and permissions, login and logout, every state-changing route, the routing of reading requests, the
  execution timeline, and the markup of the approval table.  Of the other pages only the name and the arguments are
  kept (\<open>View\<close>); their text is not modelled, nor an error while it is made.  The workers of the workspace are a parameter.
\<close>

section \<open>Requests and responses\<close>

record request =
  rq_path :: string
  rq_query :: "(string \<times> string list) list"
  rq_body :: "(string \<times> string list) list"
  rq_cookie :: string
  rq_origin :: "string option"
  rq_referer :: "string option"

datatype page = Login_Page string | Text_Page string string | View string "string list"

datatype body = Html page | Json pyval

record response =
  rs_code :: nat
  rs_headers :: "(string \<times> string) list"
  rs_body :: body

record 'w web =
  wb_host :: "'w host"
  wb_registry :: registry
  wb_worker :: "'w \<Rightarrow> string \<Rightarrow> error + worker_config"    \<comment> \<open>\<open>get_worker\<close>\<close>
  wb_auth :: auth_world
  wb_rbac :: rbac
  wb_port :: int
  wb_text :: "error \<Rightarrow> string"                          \<comment> \<open>the text of an exception\<close>

definition html :: "nat \<Rightarrow> page \<Rightarrow> response" where
  "html code p = \<lparr>rs_code = code, rs_headers = [], rs_body = Html p\<rparr>"

definition json :: "nat \<Rightarrow> doc \<Rightarrow> response" where
  "json code d = \<lparr>rs_code = code, rs_headers = [], rs_body = Json (VDict d)\<rparr>"

definition redirect :: "string \<Rightarrow> response" where
  "redirect loc = \<lparr>rs_code = 303, rs_headers = [(''Location'', loc)], rs_body = Html (Text_Page ''Redirecting'' loc)\<rparr>"

definition json_error :: "nat \<Rightarrow> string \<Rightarrow> response" where
  "json_error code why = json code [(''error'', VStr why)]"

text \<open>\<open>_form\<close> and the first value of a query parameter.\<close>

definition form_of :: "request \<Rightarrow> (string \<times> string) list" where
  "form_of rq = map (\<lambda>(k, v). (k, case v of [] \<Rightarrow> [] | x # _ \<Rightarrow> x)) (rq_body rq)"

definition form_get :: "(string \<times> string) list \<Rightarrow> string \<Rightarrow> string" where
  "form_get form k = (case dget form k of Some v \<Rightarrow> v | None \<Rightarrow> [])"

definition query_get :: "request \<Rightarrow> string \<Rightarrow> string option" where
  "query_get rq k = (case dget (rq_query rq) k of Some (v # _) \<Rightarrow> Some v | _ \<Rightarrow> None)"

section \<open>Sessions, origin, permissions\<close>

definition SESSION_COOKIE :: string where "SESSION_COOKIE = ''sworker_session=''"

definition cookie_tokens :: "string \<Rightarrow> string list" where
  "cookie_tokens cookie = map (drop (length SESSION_COOKIE))
     (filter (\<lambda>p. starts_with p SESSION_COOKIE) (map str_strip (split_on (CHR '';'') cookie)))"

definition cookie_token :: "string \<Rightarrow> string" where
  "cookie_token cookie = (if cookie_tokens cookie = [] then [] else last (cookie_tokens cookie))"

definition cookie_user :: "request \<Rightarrow> ('w, string \<times> string) eop" where
  "cookie_user rq = (if cookie_token (rq_cookie rq) = [] then op_return ([], [])
     else op_bind (in_store (validate_session (cookie_token (rq_cookie rq)) None)) (\<lambda>u. case u of
         None \<Rightarrow> op_return ([], [])
       | Some nm \<Rightarrow> if nm = [] then op_return ([], [])
           else op_bind (in_store (get_user nm)) (\<lambda>x. op_return (nm, case x of Some us \<Rightarrow> us_role us | None \<Rightarrow> ''viewer''))))"

definition own_origins :: "'w web \<Rightarrow> string list" where
  "own_origins W = (let base = ''http://127.0.0.1:'' @ int_str (wb_port W) in [[], base @ ''/'', base])"

definition origin_ok :: "'w web \<Rightarrow> request \<Rightarrow> bool" where
  "origin_ok W rq = list_all (\<lambda>hdr. case hdr of None \<Rightarrow> True | Some v \<Rightarrow> v = [] \<or> v \<in> set (own_origins W)) [rq_origin rq, rq_referer rq]"

text \<open>A check answers with a response of its own or lets the request pass.\<close>

definition pass :: "('w, response + 'a) eop \<Rightarrow> ('a \<Rightarrow> ('w, response) eop) \<Rightarrow> ('w, response) eop" where
  "pass m f = op_bind m (\<lambda>r. case r of Inl res \<Rightarrow> op_return res | Inr x \<Rightarrow> f x)"

definition session_required :: response where
  "session_required = (html 401 (Login_Page ''Session required - please sign in.''))\<lparr>rs_headers := [(''Location'', ''/login'')]\<rparr>"

definition require_auth :: "request \<Rightarrow> ('w, response + string \<times> string) eop" where
  "require_auth rq = op_bind (cookie_user rq) (\<lambda>(user, role).
     op_return (if user = [] then Inl session_required else Inr (user, role)))"

definition forbidden :: "string \<Rightarrow> string \<Rightarrow> string \<Rightarrow> response" where
  "forbidden user role perm = html 403 (Text_Page ''Forbidden'' (''User '' @ user @ '' (role '' @ role @ '') lacks permission '' @ perm @ ''.''))"

definition require_perm :: "'w web \<Rightarrow> string \<times> string \<Rightarrow> string \<Rightarrow> ('w, response + unit) eop" where
  "require_perm W who perm = op_return (if authorize (wb_rbac W) (snd who) perm then Inr () else Inl (forbidden (fst who) (snd who) perm))"

definition ROUTE_PERMS :: "(string \<times> string) list" where
  "ROUTE_PERMS = [(''/run'', ''run:create''), (''/approve'', ''approval:decide''), (''/deny'', ''approval:decide''),
     (''/resume'', ''run:create''), (''/verify'', ''run:read'')]"

definition cross_origin :: response where
  "cross_origin = html 403 (Text_Page ''Forbidden'' ''Cross-origin request rejected (CSRF defense).'')"

definition gate_mutate :: "'w web \<Rightarrow> request \<Rightarrow> ('w, response + string \<times> string) eop" where
  "gate_mutate W rq = (if \<not> origin_ok W rq then op_return (Inl cross_origin)
     else op_bind (require_auth rq) (\<lambda>r. case r of
         Inl res \<Rightarrow> op_return (Inl res)
       | Inr who \<Rightarrow> (case dget ROUTE_PERMS (rq_path rq) of
             None \<Rightarrow> op_return (Inr who)
           | Some perm \<Rightarrow> op_bind (require_perm W who perm) (\<lambda>p. op_return (case p of Inl res \<Rightarrow> Inl res | Inr _ \<Rightarrow> Inr who)))))"

section \<open>Login, logout, approvals\<close>

definition cookie_of :: "string \<Rightarrow> string" where
  "cookie_of tok = SESSION_COOKIE @ tok @ ''; HttpOnly; SameSite=Strict; Path=/''"

definition do_login :: "'w web \<Rightarrow> request \<Rightarrow> ('w, response) eop" where
  "do_login W rq = op_bind (in_store (authenticate (wb_auth W) DEFAULT_SESSION_TTL (form_get (form_of rq) ''username'') (form_get (form_of rq) ''password'')))
     (\<lambda>x. op_return (case x of None \<Rightarrow> html 401 (Login_Page ''Invalid username or password.'')
        | Some se \<Rightarrow> (redirect ''/'')\<lparr>rs_headers := [(''Location'', ''/''), (''Set-Cookie'', cookie_of (ss_token se))]\<rparr>))"

definition do_logout :: "request \<Rightarrow> ('w, response) eop" where
  "do_logout rq = op_then (op_mapM (\<lambda>tok. in_store (revoke_session tok)) (cookie_tokens (rq_cookie rq)))
     (op_return ((html 303 (Text_Page ''Signed out'' ''You have been signed out.''))\<lparr>rs_headers :=
        [(''Location'', ''/login''), (''Set-Cookie'', SESSION_COOKIE @ ''; Max-Age=0; Path=/'')]\<rparr>))"

definition decide_route :: "'w web \<Rightarrow> request \<Rightarrow> bool \<Rightarrow> ('w, response) eop" where
  "decide_route W rq ok = op_bind (cookie_user rq) (\<lambda>(user, role). let aid = form_get (form_of rq) ''appr_id'' in
     if aid = [] then op_return (html 400 (Text_Page ''Error'' ''missing approval id''))
     else (\<lambda>g. case in_store (decide aid ok (if user = [] then ''web'' else user) role ''via web UI'') g of
         (Inr rec, g') \<Rightarrow> (Inr (redirect (''/run?run_id='' @ get_str rec ''run_id'')), g')
       | (Inl e, g') \<Rightarrow> (if e = KeyError then (Inr (html 404 (Text_Page ''Error'' (''no pending approval '' @ repr_str aid))), g')
           else if e = ApprovalError then (Inr (html 403 (Text_Page ''Forbidden'' (wb_text W e))), g')
           else (Inl e, g'))))"

section \<open>Routes that change state\<close>

definition engine_for :: "'w web \<Rightarrow> string \<Rightarrow> ('w, worker_config \<times> registry) eop" where
  "engine_for W name = op_bind (op_gets (\<lambda>g. bind_sum (wb_worker W (e_world g) name) (\<lambda>w.
       bind_sum (if wc_tools w = [] then Inr (wb_registry W) else reg_subset (wb_registry W) (wc_tools w)) (\<lambda>r. Inr (w, r)))))
     (\<lambda>x. op_bind (op_lift x) (\<lambda>wr. op_then (op_modify (\<lambda>g. g\<lparr>e_guard := new_guard, e_active := No_Ctx\<rparr>)) (op_return wr)))"

definition run_route :: "'w web \<Rightarrow> request \<Rightarrow> ('w, response) eop" where
  "run_route W rq = (let name = form_get (form_of rq) ''worker''; req = str_strip (form_get (form_of rq) ''request'') in
     if name = [] \<or> req = [] then op_return (html 400 (Text_Page ''Error'' ''worker + request required''))
     else op_bind (engine_for W name) (\<lambda>(w, reg). op_bind (run_worker (wb_host W) w reg req [] [] []) (\<lambda>res.
       op_return (redirect (''/run?run_id='' @ run_id (rr_run res))))))"

definition resume_route :: "'w web \<Rightarrow> request \<Rightarrow> ('w, response) eop" where
  "resume_route W rq = (let rid = form_get (form_of rq) ''run_id'' in
     op_bind (in_store (get ''runs'' rid [])) (\<lambda>row. case row of
         None \<Rightarrow> op_return (html 404 (Text_Page ''Error'' ''no such run''))
       | Some rn \<Rightarrow> op_bind (engine_for W (get_str rn ''worker'')) (\<lambda>(w, reg). op_bind (resume_run (wb_host W) w reg rid) (\<lambda>res.
           op_return (redirect (''/run?run_id='' @ run_id (rr_run res)))))))"

text \<open>The model is not used here: a dry run plans with the fallback planner.\<close>

definition offline :: "'w host \<Rightarrow> 'w host" where
  "offline h = h\<lparr>h_planner := \<lambda>w. (h_planner h w)\<lparr>pl_reply := \<lambda>_. VNone\<rparr>, h_llm_up := \<lambda>_. False\<rparr>"

definition explain_route :: "'w web \<Rightarrow> request \<Rightarrow> ('w, response) eop" where
  "explain_route W rq = (let name = form_get (form_of rq) ''worker''; req = str_strip (form_get (form_of rq) ''request'') in
     if name = [] \<or> req = [] then op_return (json_error 400 ''worker + request required'')
     else op_bind (op_gets (\<lambda>g. wb_worker W (e_world g) name)) (\<lambda>found. if found = Inl FileNotFoundError
       then op_return (json_error 404 (wb_text W FileNotFoundError))
       else op_bind (engine_for W name) (\<lambda>(w, reg). (\<lambda>g. case explain (offline (wb_host W)) w reg req (form_get (form_of rq) ''procedure'') [] g of
           (Inr r, g') \<Rightarrow> (Inr (json 200 (explain_dict r)), g')
         | (Inl e, g') \<Rightarrow> (if e = RuntimeError then (Inr (json_error 400 (wb_text W e)), g') else (Inl e, g'))))))"

definition form_word :: "request \<Rightarrow> string \<Rightarrow> string \<Rightarrow> string" where
  "form_word rq k dflt = str_strip (let v = form_get (form_of rq) k in if v = [] then dflt else v)"

definition safemode_route :: "request \<Rightarrow> ('w, response) eop" where
  "safemode_route rq = (let level = str_lower (form_word rq ''level'' []);
       switch = (\<lambda>m. op_bind (in_store m) (\<lambda>lv. op_return (json 200 [(''ok'', VBool True), (''level'', VStr lv)]))) in
     if level \<in> {''on'', SM_READONLY} then switch (safe_enable SM_SCOPE)
     else if level = ''off'' then switch (safe_disable SM_SCOPE)
     else if level = ''locked'' then switch (safe_lock SM_SCOPE)
     else op_return (json_error 400 (''unknown level '' @ repr_str level)))"

definition incident_answer :: "string \<Rightarrow> string \<Rightarrow> doc" where
  "incident_answer state lv = [(''ok'', VBool True), (''state'', VStr state), (''safe_mode'', VStr lv)]"

text \<open>The name of the user is a string here, which has no attribute \<open>username\<close>: the fallback is always \<open>admin\<close>.\<close>

definition incident_by :: "request \<Rightarrow> string" where
  "incident_by rq = (let by = form_get (form_of rq) ''by'' in if by = [] then ''admin'' else by)"

definition incident_open_route :: "'w web \<Rightarrow> request \<Rightarrow> ('w, response) eop" where
  "incident_open_route W rq g = (case in_store (inc_open INC_SCOPE (form_word rq ''summary'' ''incident via web'') (incident_by rq) True []) g of
       (Inr (iid, lv), g') \<Rightarrow> (Inr (json 200 (incident_answer INC_OPEN lv)), g')
     | (Inl e, g') \<Rightarrow> (if e = ValueError then (Inr (json_error 409 (wb_text W e)), g') else (Inl e, g')))"

definition incident_route :: "'w web \<Rightarrow> request \<Rightarrow> ('w, response) eop" where
  "incident_route W rq = (let action = str_lower (form_word rq ''action'' ''status'') in
     if action = ''open'' then incident_open_route W rq
     else if action = ''lockdown'' then op_bind (in_store (inc_lockdown INC_SCOPE (form_word rq ''summary'' ''incident via web'') (incident_by rq)))
       (\<lambda>(iid, lv). op_return (json 200 (incident_answer INC_OPEN lv)))
     else if action = ''close'' then op_bind (in_store (inc_close INC_SCOPE (incident_by rq) (form_get (form_of rq) ''note'')))
       (\<lambda>(changed, lv). op_return (json 200 (incident_answer INC_CLOSED lv @ [(''changed'', VBool changed)])))
     else op_bind (in_store (inc_status INC_SCOPE)) (\<lambda>d. op_return (json 200 d)))"

definition caught :: "'w web \<Rightarrow> ('w, response) eop \<Rightarrow> ('w, response) eop" where
  "caught W m g = (case m g of (Inl e, g') \<Rightarrow> (Inr (html 500 (Text_Page ''Error'' (wb_text W e))), g') | r \<Rightarrow> r)"

definition post_route :: "'w web \<Rightarrow> request \<Rightarrow> string \<times> string \<Rightarrow> ('w, response) eop" where
  "post_route W rq who = (let path = rq_path rq in
     if path = ''/api/v1/explain'' then pass (require_perm W who ''run:read'') (\<lambda>_. explain_route W rq)
     else if path = ''/api/v1/safemode'' then pass (require_perm W who ''admin'') (\<lambda>_. safemode_route rq)
     else if path = ''/api/v1/incident'' then pass (require_perm W who ''admin'') (\<lambda>_. incident_route W rq)
     else if path = ''/run'' then run_route W rq
     else if path = ''/approve'' then decide_route W rq True
     else if path = ''/deny'' then decide_route W rq False
     else if path = ''/resume'' then resume_route W rq
     else if path = ''/verify'' then op_return (redirect (''/verify?run_id='' @ form_get (form_of rq) ''run_id''))
     else op_return (html 404 (Text_Page ''Error'' ''unknown action'')))"

definition do_post :: "'w web \<Rightarrow> request \<Rightarrow> ('w, response) eop" where
  "do_post W rq = (if rq_path rq = ''/login'' then do_login W rq
     else if rq_path rq = ''/logout'' then do_logout rq
     else pass (gate_mutate W rq) (\<lambda>who. caught W (post_route W rq who)))"


section \<open>Reading\<close>

text \<open>\<open>render_verify\<close>: the checks of the procedure, or those of the run, are executed and recorded.\<close>

definition declared_checks :: "'w web \<Rightarrow> worker_config \<Rightarrow> doc \<Rightarrow> 'w eng \<Rightarrow> error + doc list" where
  "declared_checks W w rn g = (let pl = h_planner (wb_host W) (e_world g); e = env (e_store g);
       own = bind_sum (py_iter (get_or rn ''verifications'' (VList []))) (\<lambda>vs. Inr (map (\<lambda>v. case v of VDict d \<Rightarrow> d | _ \<Rightarrow> []) vs)) in
     bind_sum (if get_truthy rn ''procedure'' then load_procedure (pl_yaml pl) (pl_text pl) (path_join (wc_workspace w) ''procedures'') (get_str rn ''procedure'')
        else Inr None) (\<lambda>prc. case prc of
          None \<Rightarrow> own
        | Some p \<Rightarrow> bind_sum (if p = [] then Inr [] else procedure_verifications e p []) (\<lambda>cs. if cs = [] then own else Inr cs)))"

definition render_verify :: "'w web \<Rightarrow> string \<Rightarrow> ('w, page) eop" where
  "render_verify W rid = op_bind (in_store (get ''runs'' rid [])) (\<lambda>row. case row of
       None \<Rightarrow> op_return (Text_Page ''Verify'' ''Run not found'')
     | Some rn \<Rightarrow> op_bind (engine_for W (get_str rn ''worker'')) (\<lambda>(w, reg).
         op_bind (op_gets (declared_checks W w rn)) (\<lambda>cs. op_bind (op_lift cs) (\<lambda>specs.
           if specs = [] then op_return (Text_Page ''Verify'' ''no verification checks declared'')
           else op_then (op_modify (\<lambda>g. g\<lparr>e_ctx := tool_ctx (h_fs (wb_host W) (e_world g)) w (get_str rn ''id'')\<rparr>))
             (op_bind (op_mapM (record_verification (wb_host W) (get_str rn ''id'') []) specs) (\<lambda>vs.
               op_return (View ''verify'' (map (verification_outcome_value \<circ> ver_outcome) vs))))))))"

text \<open>The execution timeline: creation time, kind and text of every record of the run, sorted by time.\<close>

definition doc_text :: "env \<Rightarrow> doc \<Rightarrow> string \<Rightarrow> string" where
  "doc_text e d k = (case dget d k of None \<Rightarrow> [] | Some v \<Rightarrow> py_str e v)"

definition timeline_kinds :: "env \<Rightarrow> (string \<times> string \<times> (doc \<Rightarrow> string)) list" where
  "timeline_kinds e = (let f = doc_text e; cut = (\<lambda>n d k. take n (f d k)) in [
     (''steps'', ''STEP'', \<lambda>d. ''['' @ f d ''status'' @ ''] '' @ cut 70 d ''description''),
     (''actions'', ''ACTION'', \<lambda>d. f d ''tool'' @ '' ['' @ f d ''risk'' @ ''] '' @ f d ''status''),
     (''observations'', ''OBSERVATION'', \<lambda>d. (if get_truthy d ''ok'' then ''ok'' else ''FAIL'') @ '' '' @ cut 70 d ''output''),
     (''evidence'', ''EVIDENCE'', \<lambda>d. ''('' @ f d ''provenance'' @ '') '' @ cut 70 d ''summary'' @ '' src='' @ f d ''source_ref''),
     (''verifications'', ''VERIFY'', \<lambda>d. f d ''check'' @ '' '' @ f d ''outcome''),
     (''artifacts'', ''ARTIFACT'', \<lambda>d. (if get_truthy d ''title'' then f d ''title'' else f d ''kind'') @ '' '' @ f d ''path''),
     (''approvals'', ''APPROVAL'', \<lambda>d. ''['' @ f d ''risk'' @ ''] '' @ f d ''state'' @ '' '' @ cut 60 d ''summary'')])"

definition timeline_rows :: "string \<Rightarrow> string \<times> string \<times> (doc \<Rightarrow> string) \<Rightarrow> (rat \<times> string \<times> string) list sop" where
  "timeline_rows rid kind = (case kind of (tb, k, f) \<Rightarrow>
     op_bind (find_rows tb (by_cols [(''run_id'', VStr rid)])) (\<lambda>rs. op_lift (map_sum_list (\<lambda>d.
       bind_sum (py_float (case dget d ''created'' of Some v \<Rightarrow> v | None \<Rightarrow> VInt 0)) (\<lambda>t. Inr (t, k, f d))) rs)))"

definition timeline :: "string \<Rightarrow> (rat \<times> string \<times> string) list sop" where
  "timeline rid = op_bind (op_gets env) (\<lambda>e. op_bind (op_mapM (timeline_rows rid) (timeline_kinds e)) (\<lambda>rows. op_return (sort_key fst (concat rows))))"

definition inspect_doc :: "doc \<Rightarrow> string \<Rightarrow> (rat \<times> string \<times> string) list \<Rightarrow> doc" where
  "inspect_doc rn rid tline = [(''id'', VStr rid), (''seq'', case dget rn ''seq'' of Some v \<Rightarrow> v | None \<Rightarrow> VNone), (''worker'', VStr (get_str rn ''worker'')),
     (''status'', VStr (get_str rn ''status'')), (''intent'', VStr (get_str rn ''intent'')), (''summary'', VStr (get_str rn ''summary'')),
     (''timeline'', VList (map (\<lambda>(_, k, t). VDict [(''kind'', VStr k), (''text'', VStr t)]) tline))]"

definition recent_runs :: "doc list sop" where
  "recent_runs = op_bind (find_rows ''runs'' \<lparr>q_order = ''seq'', q_desc = True, q_limit = 0, q_workspace = None, q_where = []\<rparr>) (\<lambda>rs. op_return (take 50 rs))"

definition of_run :: "string \<Rightarrow> (doc \<Rightarrow> response sop) \<Rightarrow> response sop" where
  "of_run rid f = op_bind (get ''runs'' rid []) (\<lambda>row. case row of
       None \<Rightarrow> op_return (json_error 404 ''run not found'')
     | Some rn \<Rightarrow> if rn = [] then op_return (json_error 404 ''run not found'') else f rn)"

definition API_VIEWS :: "string list" where
  "API_VIEWS = [[], ''/health'', ''/workers'', ''/metrics'', ''/dashboard'', ''/security'', ''/status'', ''/maturity'', ''/procedures'', ''/why'']"

definition api_view :: "string \<Rightarrow> response" where
  "api_view path = html 200 (View (''/api/v1'' @ path) [])"

definition api_dispatch :: "request \<Rightarrow> response sop" where
  "api_dispatch rq = (let path = drop (length ''/api/v1'') (rq_path rq); after = (\<lambda>p. drop (length p) path) in
     if starts_with path ''/sales'' then op_return (api_view path)
     else if path = ''/runs'' then op_bind recent_runs (\<lambda>rs. op_return \<lparr>rs_code = 200, rs_headers = [], rs_body = Json (VList (map VDict rs))\<rparr>)
     else if starts_with path ''/runs/'' then of_run (after ''/runs/'') (\<lambda>rn. op_return (json 200 rn))
     else if starts_with path ''/inspect/'' then of_run (after ''/inspect/'') (\<lambda>rn. op_bind (timeline (after ''/inspect/'')) (\<lambda>tline.
       op_return (json 200 (inspect_doc rn (after ''/inspect/'') tline))))
     else if path = ''/safemode'' then op_bind (safe_status SM_SCOPE) (\<lambda>d. op_return (json 200 d))
     else if path = ''/incident'' then op_bind (inc_status INC_SCOPE) (\<lambda>d. op_return (json 200 d))
     else if path \<in> set API_VIEWS then op_return (api_view path)
     else op_return (json 404 [(''error'', VStr ''not found''), (''path'', VStr path)]))"

definition PLAIN_VIEWS :: "string list" where
  "PLAIN_VIEWS = [''/dashboard'', ''/security'', ''/status'', ''/maturity'', ''/procedures'', ''/sales'']"

definition shown :: "string \<Rightarrow> string list \<Rightarrow> ('w, response) eop" where
  "shown name args = op_return (html 200 (View name args))"

definition get_route :: "'w web \<Rightarrow> request \<Rightarrow> string \<times> string \<Rightarrow> ('w, response) eop" where
  "get_route W rq who = (let path = rq_path rq in
     case (if path \<in> {''/run'', ''/why'', ''/inspect'', ''/verify''} then query_get rq ''run_id'' else None) of
       Some rid \<Rightarrow> (if path = ''/verify'' then op_bind (render_verify W rid) (\<lambda>p. op_return (html 200 p)) else shown path [rid, snd who])
     | None \<Rightarrow>
        if path = ''/api/runs'' then op_bind (in_store recent_runs) (\<lambda>rs. op_return \<lparr>rs_code = 200, rs_headers = [], rs_body = Json (VList (map VDict rs))\<rparr>)
        else if path = ''/api/egress'' then op_bind (in_store render_egress_log) (\<lambda>d. op_return (json 200 d))
        else if path = ''/api/dlp'' then op_bind (in_store render_dlp_log) (\<lambda>d. op_return (json 200 d))
        else if path \<in> set PLAIN_VIEWS then shown path [snd who]
        else if starts_with path ''/sales/lead/'' then shown ''/sales'' [drop (length ''/sales/lead/'') path, snd who]
        else if path = ''/api/v1/openapi.json'' then shown path []
        else if starts_with path ''/api/v1/'' then in_store (api_dispatch rq)
        else shown ''/'' [fst who, snd who])"

definition do_get :: "'w web \<Rightarrow> request \<Rightarrow> ('w, response) eop" where
  "do_get W rq = (if rq_path rq = ''/login'' then op_return (html 200 (Login_Page []))
     else if rq_path rq = ''/logout'' then do_logout rq
     else pass (require_auth rq) (\<lambda>who. caught W (get_route W rq who)))"

section \<open>Markup\<close>

definition esc_char :: "char \<Rightarrow> string" where
  "esc_char c = (if c = CHR ''&'' then ''&amp;'' else if c = CHR ''<'' then ''&lt;'' else if c = CHR ''>'' then ''&gt;''
     else if c = CHR 0x22 then ''&quot;'' else if c = CHR 0x27 then ''&#x27;'' else [c])"

definition esc :: "string \<Rightarrow> string" where
  "esc s = concat (map esc_char s)"

definition QUOTE :: string where "QUOTE = [CHR 0x27]"

definition status_class :: "string \<Rightarrow> string" where
  "status_class st = (if st = ''SUCCESS'' then ''ok'' else if st \<in> {''FAILED'', ''BLOCKED''} then ''bad''
     else if st \<in> {''AWAITING_APPROVAL'', ''INSUFFICIENT_EVIDENCE''} then ''pend'' else ''warn'')"

definition status_pill :: "string \<Rightarrow> string" where
  "status_pill st = ''<span class='' @ QUOTE @ ''pill '' @ status_class st @ QUOTE @ ''>'' @ esc st @ ''</span>''"

definition hidden_field :: "string \<Rightarrow> string \<Rightarrow> string" where
  "hidden_field name val = ''<input type=hidden name='' @ name @ '' value='' @ esc val @ ''>''"

definition approval_row :: "doc \<Rightarrow> string" where
  "approval_row a = ''<tr><td><code>'' @ esc (get_str a ''id'') @ ''</code></td><td>'' @ esc (get_str a ''summary'') @ ''</td><td><span class='' @ QUOTE @ ''pill''
     @ QUOTE @ ''>'' @ esc (get_str a ''risk'') @ ''</span></td><td><form action='' @ QUOTE @ ''/approve'' @ QUOTE @ '' method=post style='' @ QUOTE @ ''margin:0''
     @ QUOTE @ ''>'' @ hidden_field ''appr_id'' (get_str a ''id'') @ ''<button type=submit>Approve</button></form></td><td><form action='' @ QUOTE @ ''/deny''
     @ QUOTE @ '' method=post style='' @ QUOTE @ ''margin:0'' @ QUOTE @ ''>'' @ hidden_field ''appr_id'' (get_str a ''id'')
     @ ''<button type=submit class=danger>Reject</button></form></td></tr>''"

definition approval_table :: "doc list \<Rightarrow> string" where
  "approval_table rows = (if rows = [] then [] else ''<h2>Pending approvals</h2><table><tr><th>id</th><th>summary</th><th>risk</th><th></th><th></th></tr>''
     @ concat (map approval_row rows) @ ''</table>'')"

definition render_approvals :: "string \<Rightarrow> string sop" where
  "render_approvals rid = op_bind (pending rid) (\<lambda>rows. op_return (approval_table rows))"

chapter \<open>The guarantees of the web interface\<close>

text \<open>
  What the web interface guarantees and what it does not: a change needs a session, the origin and the permission of its route; reading
  needs a session and nothing else; the emergency switches have no permission that anybody could hold; forms posted from a page
  other than the first are refused; stored text cannot open a tag.
\<close>

section \<open>Checks leave no record\<close>

definition as_recorded :: "(string \<Rightarrow> (string \<times> doc) list) \<Rightarrow> audit_line list \<Rightarrow> store \<Rightarrow> bool" where
  "as_recorded T A s \<longleftrightarrow> tables s = T \<and> audit_log s = A"

lemma recorded_now [op_inv_intros]: "op_inv (as_recorded T A) op_now"
  by (simp add: op_inv_def as_recorded_def op_now_def)

lemma recorded_get [op_inv_intros]: "op_inv (as_recorded T A) (get t rid ws)"
  by (simp add: op_inv_def)

lemma recorded_find [op_inv_intros]: "op_inv (as_recorded T A) (find_rows t q)"
  by (simp add: op_inv_def)

lemma recorded_user [op_inv_intros]: "op_inv (as_recorded T A) (get_user nm)"
  unfolding get_user_def user_of_def by (intro op_inv_intros)

lemma recorded_session [op_inv_intros]: "op_inv (as_recorded T A) (validate_session tok t)"
  unfolding validate_session_def get_session_def session_of_def session_valid_def by (intro op_inv_intros)

abbreviation untouched :: "'w eng \<Rightarrow> 'w eng \<Rightarrow> bool" where
  "untouched g \<equiv> eng_pred (as_recorded (tables (e_store g)) (audit_log (e_store g))) (frozen_world (e_world g) (e_ctx g))"

lemma untouched_self: "untouched g g"
  by (simp add: eng_pred_def as_recorded_def world_is_def)

lemma recorded_cookie [op_inv_intros]: "op_inv (eng_pred (as_recorded T A) R) (cookie_user rq)"
  unfolding cookie_user_def by (intro op_inv_intros)

lemma inv_pass [op_inv_intros]: "op_inv P m \<Longrightarrow> (\<And>x. op_inv P (f x)) \<Longrightarrow> op_inv P (pass m f)"
  unfolding pass_def by (intro op_inv_intros)

lemma inv_caught [op_inv_intros]: "op_inv P m \<Longrightarrow> op_inv P (caught W m)"
proof -
  assume m: "op_inv P m"
  have "P (snd (caught W m g))" if "P g" for g
  proof -
    obtain x g' where g: "m g = (x, g')" by fastforce
    have "P g'" using op_invD [OF m that g] .
    then show ?thesis by (cases x) (simp_all add: caught_def g)
  qed
  then show ?thesis by (simp add: op_inv_def)
qed

lemma recorded_auth [op_inv_intros]: "op_inv (eng_pred (as_recorded T A) R) (require_auth rq)"
  unfolding require_auth_def by (intro op_inv_intros)

section \<open>Authority\<close>

definition ROUTE_RIGHTS :: "(string \<times> string) list" where
  "ROUTE_RIGHTS = ROUTE_PERMS @ [(''/api/v1/explain'', ''run:read''), (''/api/v1/safemode'', ''admin''), (''/api/v1/incident'', ''admin'')]"

definition authority :: "'w web \<Rightarrow> request \<Rightarrow> 'w eng \<Rightarrow> bool" where
  "authority W rq g \<longleftrightarrow> origin_ok W rq \<and> (case fst (cookie_user rq g) of
       Inl _ \<Rightarrow> False
     | Inr (u, role) \<Rightarrow> u \<noteq> [] \<and> (case dget ROUTE_RIGHTS (rq_path rq) of None \<Rightarrow> False | Some p \<Rightarrow> authorize (wb_rbac W) role p))"

definition refused :: "error + response \<Rightarrow> bool" where
  "refused r = (case r of Inl _ \<Rightarrow> True | Inr res \<Rightarrow> rs_code res \<in> {401, 403, 404})"

lemma codes [simp]: "rs_code cross_origin = 403" "rs_code session_required = 401" "rs_code (forbidden u r p) = 403" "rs_code (html c x) = c"
  by (simp_all add: cross_origin_def session_required_def forbidden_def html_def)

lemma post_refused:
  assumes "rq_path rq \<notin> {''/login'', ''/logout''}" and "\<not> authority W rq g"
  shows "refused (fst (do_post W rq g)) \<and> untouched g (snd (do_post W rq g))"
proof (cases "origin_ok W rq")
  case False
  then show ?thesis
    using assms(1) untouched_self by (simp add: do_post_def pass_def gate_mutate_def op_bind_apply refused_def)
next
  case True
  obtain x g1 where c: "cookie_user rq g = (x, g1)" by fastforce
  have u: "untouched g g1" using op_invD [OF recorded_cookie untouched_self c] .
  show ?thesis
  proof (cases x)
    case (Inl e)
    then show ?thesis
      using True assms(1) u c by (simp add: do_post_def pass_def gate_mutate_def require_auth_def op_bind_apply refused_def)
  next
    case (Inr who)
    obtain nm role where who: "who = (nm, role)" by (cases who)
    show ?thesis
    proof (cases "nm = []")
      case True
      then show ?thesis
        using \<open>origin_ok W rq\<close> assms(1) u c Inr who by (simp add: do_post_def pass_def gate_mutate_def require_auth_def op_bind_apply refused_def)
    next
      case False
      then have no: "\<not> authorize (wb_rbac W) role p" if "dget ROUTE_RIGHTS (rq_path rq) = Some p" for p
        using assms(2) True c Inr who that by (simp add: authority_def)
      show ?thesis
      proof (cases "dget ROUTE_PERMS (rq_path rq)")
        case (Some p)
        then have "\<not> authorize (wb_rbac W) role p" by (intro no) (simp add: ROUTE_RIGHTS_def dget_append)
        then show ?thesis
          using True False assms(1) u c Inr who Some
          by (simp add: do_post_def pass_def gate_mutate_def require_auth_def require_perm_def op_bind_apply refused_def)
      next
        case None
        have p: "rq_path rq \<notin> {''/run'', ''/approve'', ''/deny'', ''/resume'', ''/verify''}" using None by (auto simp: ROUTE_PERMS_def)
        have r: "refused (fst (caught W (post_route W rq who) g1)) \<and> snd (caught W (post_route W rq who) g1) = g1"
          using p no None by (auto simp: caught_def post_route_def pass_def require_perm_def op_bind_apply refused_def who ROUTE_RIGHTS_def dget_append Let_def)
        then show ?thesis
          using True False assms(1) u c Inr who None
          by (simp add: do_post_def pass_def gate_mutate_def require_auth_def op_bind_apply)
      qed
    qed
  qed
qed

section \<open>Properties\<close>

text \<open>nothing changes without authority.  A posted request that lacks the origin of the page, a valid session or the permission of its
  route is refused, and neither the store nor its log nor the world changes; only login and logout are outside this rule.\<close>

theorem changes_need_authority:
  assumes "rq_path rq \<notin> {''/login'', ''/logout''}" and "\<not> authority W rq g"
  shows "refused (fst (do_post W rq g)) \<and> tables (e_store (snd (do_post W rq g))) = tables (e_store g) \<and>
    audit_log (e_store (snd (do_post W rq g))) = audit_log (e_store g) \<and> e_world (snd (do_post W rq g)) = e_world g"
  using post_refused [OF assms] by (simp add: eng_pred_def as_recorded_def world_is_def)

definition demo_web :: "nat web" where
  "demo_web = \<lparr>wb_host = demo_host, wb_registry = demo_reg, wb_worker = \<lambda>_ n. if n = ''w'' then Inr demo_worker else Inl FileNotFoundError,
     wb_auth = demo_auth, wb_rbac = rbac_init [], wb_port = 80, wb_text = \<lambda>_. ''error''\<rparr>"

definition demo_user :: "string \<Rightarrow> store" where
  "demo_user role = demo_fresh\<lparr>tables := (tables demo_fresh)(
     ''users'' := [(''ann'', user_dict \<lparr>us_name = ''ann'', us_hash = ''h'', us_salt = [], us_disabled = False, us_created = 0, us_role = role\<rparr>)],
     ''sessions'' := [(''t0'', session_dict \<lparr>ss_token = ''t0'', ss_user = ''ann'', ss_created = 0, ss_expires = 1000, ss_revoked = False\<rparr>)],
     ''runs'' := [(''r1'', [(''id'', VStr ''r1''), (''worker'', VStr ''w''), (''verifications'', VList [VDict [(''check'', VStr ''nonempty'')]])])])\<rparr>"

definition demo_request :: "string \<Rightarrow> (string \<times> string list) list \<Rightarrow> request" where
  "demo_request path body = \<lparr>rq_path = path, rq_query = [], rq_body = body, rq_cookie = ''a=b; sworker_session=t0'',
     rq_origin = Some ''http://127.0.0.1:80'', rq_referer = None\<rparr>"

lemma changes_need_authority_witness:
  "refused (fst (do_post demo_web (demo_request ''/run'' [(''worker'', [''w'']), (''request'', [''go''])]) (demo_eng (demo_user ''viewer'')))) \<and>
   fst (cookie_user (demo_request ''/run'' []) (demo_eng (demo_user ''viewer''))) = Inr (''ann'', ''viewer'')"
proof -
  have c: "\<not> authority demo_web (demo_request ''/run'' [(''worker'', [''w'']), (''request'', [''go''])]) (demo_eng (demo_user ''viewer''))"
    by code_simp
  have "fst (cookie_user (demo_request ''/run'' []) (demo_eng (demo_user ''viewer''))) = Inr (''ann'', ''viewer'')" by code_simp
  with changes_need_authority [OF _ c] show ?thesis by (simp add: demo_request_def)
qed

text \<open>nobody can use the emergency switches.  Safe mode and incidents are posted with the permission \<open>admin\<close>, which is not one of the
  permissions that a registry grants; so for whatever roles the registry is set up with, the request of any user, an
  administrator included, is refused and changes nothing.\<close>

theorem emergency_switch_unreachable:
  assumes "wb_rbac W = rbac_init roles" and "rq_path rq \<in> {''/api/v1/safemode'', ''/api/v1/incident''}"
  shows "refused (fst (do_post W rq g)) \<and> tables (e_store (snd (do_post W rq g))) = tables (e_store g) \<and>
    audit_log (e_store (snd (do_post W rq g))) = audit_log (e_store g)"
proof -
  have "\<not> authorize (wb_rbac W) role ''admin''" for role
    using authorize_known [OF grants_known_init, of roles role "''admin''"] assms(1) by (auto simp: PERMISSIONS_def)
  then have "\<not> authority W rq g" using assms(2) by (auto simp: authority_def ROUTE_RIGHTS_def ROUTE_PERMS_def split: sum.split)
  moreover have "rq_path rq \<notin> {''/login'', ''/logout''}" using assms(2) by auto
  ultimately show ?thesis using post_refused [of rq W g] by (simp add: eng_pred_def as_recorded_def)
qed

lemma emergency_switch_unreachable_witness:
  "fst (cookie_user (demo_request ''/api/v1/safemode'' [(''level'', [''locked''])]) (demo_eng (demo_user ''admin''))) = Inr (''ann'', ''admin'') \<and>
   refused (fst (do_post demo_web (demo_request ''/api/v1/safemode'' [(''level'', [''locked''])]) (demo_eng (demo_user ''admin''))))"
proof -
  have "fst (cookie_user (demo_request ''/api/v1/safemode'' [(''level'', [''locked''])]) (demo_eng (demo_user ''admin''))) = Inr (''ann'', ''admin'')"
    by code_simp
  then show ?thesis
    using emergency_switch_unreachable [of demo_web "[]" "demo_request ''/api/v1/safemode'' [(''level'', [''locked''])]" "demo_eng (demo_user ''admin'')"]
    by (simp add: demo_web_def demo_request_def)
qed

text \<open>a form works on the first page only.  A request posted with a \<open>Referer\<close> other than the bare address of the server is refused as
  cross-origin, before the session is looked at and whatever its \<open>Origin\<close>; and the pages that hold the approval, resume and verification
  forms have longer addresses.\<close>

theorem inner_page_forms_refused:
  assumes "rq_path rq \<notin> {''/login'', ''/logout''}" and "rq_referer rq = Some page" and "page \<notin> set (own_origins W)"
  shows "do_post W rq g = (Inr cross_origin, g)"
proof -
  have "page \<noteq> []" using assms(3) by (auto simp: own_origins_def Let_def)
  with assms have "\<not> origin_ok W rq" by (simp add: origin_ok_def)
  with assms(1) show ?thesis by (simp add: do_post_def pass_def gate_mutate_def op_bind_apply)
qed

lemma inner_page_forms_refused_witness:
  "do_post demo_web ((demo_request ''/approve'' [(''appr_id'', [''a1''])])\<lparr>rq_referer := Some ''http://127.0.0.1:80/run?run_id=r1''\<rparr>)
     (demo_eng (demo_user ''operator'')) = (Inr cross_origin, demo_eng (demo_user ''operator''))"
proof -
  have "''http://127.0.0.1:80/run?run_id=r1'' \<notin> set (own_origins demo_web)" by code_simp
  then show ?thesis by (intro inner_page_forms_refused) (simp_all add: demo_request_def)
qed

lemma headers_ignored:
  "require_auth (rq\<lparr>rq_origin := origin, rq_referer := referer\<rparr>) = require_auth rq"
  "do_logout (rq\<lparr>rq_origin := origin, rq_referer := referer\<rparr>) = do_logout rq"
  by (simp_all add: require_auth_def cookie_user_def do_logout_def)

text \<open>reading asks for a session and for nothing else.  The answer to a \<open>GET\<close> request and the state it leaves, the checks that
  \<open>/verify\<close> executes and records included, are the same whatever permissions the roles have and whatever the origin of the request.\<close>

theorem reading_ignores_roles:
  "do_get (W\<lparr>wb_rbac := roles\<rparr>) (rq\<lparr>rq_origin := origin, rq_referer := referer\<rparr>) g = do_get W rq g"
proof -
  have h: "wb_host (W\<lparr>wb_rbac := roles\<rparr>) = wb_host W" "wb_text (W\<lparr>wb_rbac := roles\<rparr>) = wb_text W" by simp_all
  have q: "rq_path (rq\<lparr>rq_origin := origin, rq_referer := referer\<rparr>) = rq_path rq"
      "rq_query (rq\<lparr>rq_origin := origin, rq_referer := referer\<rparr>) = rq_query rq" by simp_all
  have e: "engine_for (W\<lparr>wb_rbac := roles\<rparr>) = engine_for W" by (rule ext) (simp add: engine_for_def cong: if_cong)
  have d: "declared_checks (W\<lparr>wb_rbac := roles\<rparr>) = declared_checks W" by (intro ext) (simp add: declared_checks_def)
  have v: "render_verify (W\<lparr>wb_rbac := roles\<rparr>) = render_verify W" by (rule ext) (simp only: render_verify_def e d h)
  have r: "get_route (W\<lparr>wb_rbac := roles\<rparr>) (rq\<lparr>rq_origin := origin, rq_referer := referer\<rparr>) = get_route W rq"
    by (rule ext) (simp only: get_route_def v query_get_def api_dispatch_def q)
  have "caught (W\<lparr>wb_rbac := roles\<rparr>) = caught W" by (intro ext) (simp only: caught_def h)
  then show ?thesis by (simp add: do_get_def r headers_ignored)
qed

lemma route_reads:
  assumes "rq_path rq \<noteq> ''/verify'' \<or> query_get rq ''run_id'' = None"
  shows "op_inv (eng_pred (as_recorded T A) R) (get_route W rq who)"
proof -
  have t: "op_inv (as_recorded T A) (timeline rid)" for rid
    unfolding timeline_def timeline_rows_def by (intro op_inv_intros)
  have s: "op_inv (as_recorded T A) (safe_status sc)" "op_inv (as_recorded T A) (inc_status sc)" "op_inv (as_recorded T A) recent_runs"
      "op_inv (as_recorded T A) render_egress_log" "op_inv (as_recorded T A) render_dlp_log" for sc
    unfolding safe_status_def safe_level_def inc_status_def inc_active_def recent_runs_def render_egress_log_def render_dlp_log_def Let_def
    by (intro op_inv_intros)+
  have o: "op_inv (as_recorded T A) (f rn) \<Longrightarrow> op_inv (as_recorded T A) (of_run rid (\<lambda>rn. f rn))" if "\<And>rn. op_inv (as_recorded T A) (f rn)" for f rid rn
    unfolding of_run_def by (intro op_inv_intros that)
  have a: "op_inv (as_recorded T A) (api_dispatch rq)"
    unfolding api_dispatch_def of_run_def Let_def by (intro op_inv_intros t s)
  have v: "\<not> (rq_path rq = ''/verify'' \<and> query_get rq ''run_id'' \<noteq> None)" using assms by simp
  show ?thesis
    using v unfolding get_route_def shown_def Let_def
    by (cases "if rq_path rq \<in> {''/run'', ''/why'', ''/inspect'', ''/verify''} then query_get rq ''run_id'' else None")
      (auto intro!: op_inv_intros a s split: if_splits)
qed

text \<open>reading changes nothing, with one exception.  A \<open>GET\<close> request for any page but \<open>/logout\<close>, and \<open>/verify\<close> with a run, leaves the
  store, its log and the world as they were.\<close>

theorem reading_changes_nothing:
  assumes "rq_path rq \<noteq> ''/logout''" and "rq_path rq \<noteq> ''/verify'' \<or> query_get rq ''run_id'' = None"
  shows "tables (e_store (snd (do_get W rq g))) = tables (e_store g) \<and> audit_log (e_store (snd (do_get W rq g))) = audit_log (e_store g) \<and>
    e_world (snd (do_get W rq g)) = e_world g"
proof -
  let ?P = "eng_pred (as_recorded (tables (e_store g)) (audit_log (e_store g))) (frozen_world (e_world g) (e_ctx g))"
  have "op_inv ?P (do_get W rq)"
    using assms(1) unfolding do_get_def by (auto intro!: op_inv_intros route_reads [OF assms(2)])
  then have "?P (snd (do_get W rq g))" using untouched_self [of g] by (simp add: op_inv_def)
  then show ?thesis by (simp add: eng_pred_def as_recorded_def world_is_def)
qed

lemma reading_changes_nothing_witness:
  "tables (e_store (snd (do_get demo_web (demo_request ''/api/v1/safemode'' []) (demo_eng (demo_user ''viewer''))))) = tables (demo_user ''viewer'')"
  using reading_changes_nothing [of "demo_request ''/api/v1/safemode'' []" demo_web "demo_eng (demo_user ''viewer'')"]
  by (simp add: demo_request_def demo_eng_def)

text \<open>a reader's visit writes the ledger.  A viewer who opens \<open>/verify\<close> for a run has its checks executed and a verification recorded for
  the run, without the permission to run anything.\<close>

theorem viewer_visit_records:
  "let g = demo_eng (demo_user ''viewer''); r = do_get demo_web ((demo_request ''/verify'' [])\<lparr>rq_query := [(''run_id'', [''r1''])]\<rparr>) g in
   map (\<lambda>(k, d). get_str d ''run_id'') (tables (e_store (snd r)) ''verifications'') = [''r1''] \<and> tables (e_store g) ''verifications'' = []"
  by code_simp

lemma esc_char_inert: "set (esc_char c) \<inter> {CHR ''<'', CHR ''>'', CHR 0x22, CHR 0x27} = {}"
  by (auto simp: esc_char_def)

lemma esc_inert: "set (esc s) \<inter> {CHR ''<'', CHR ''>'', CHR 0x22, CHR 0x27} = {}"
  using esc_char_inert by (fastforce simp: esc_def)

abbreviation tags :: "string \<Rightarrow> nat" where
  "tags s \<equiv> count_list s (CHR ''<'')"

lemma esc_no_tags: "tags (esc s) = 0"
  using esc_inert [of s] by (auto simp: count_list_0_iff)

lemma row_tags: "tags (approval_row a) = 26"
  by (simp add: approval_row_def hidden_field_def QUOTE_def esc_no_tags)

text \<open>stored text opens no tag.  The table of pending approvals has as many tags as its number of rows dictates, whatever the
  identifiers, summaries and risks say.\<close>

theorem stored_text_opens_no_tag:
  "tags (approval_table rows) = (if rows = [] then 0 else 16 + 26 * length rows)"
proof -
  have "tags (concat (map approval_row xs)) = 26 * length xs" for xs by (induction xs) (simp_all add: row_tags)
  then show ?thesis by (simp add: approval_table_def)
qed

end
