(* ===== verification/Spec2Isabelle.thy ===== *)
theory Spec2Isabelle
  imports Engine_Total Rbac Sales_Moves Sales_Scores Sales_Validation Auth Scheduler Policy Connectors Trigger Message_Tool Fs_Tools Exec_Tools Maturity
    Git_Tools Browser Inference Lifecycle Knowledge Catalog Secrets Tenants Package Explain Web
begin

text \<open>
  A model of \<open>src/sworker\<close>: a local runtime for AI workers and, built on it, a sales worker.

  The program.  A worker (a YAML file, \<open>config.py\<close>) is given a request.  The engine (\<open>engine.py\<close>) plans steps, either from a published
  procedure (\<open>procedures.py\<close>) or with a local model (\<open>inference.py\<close>) or a fallback planner; for each step it looks up the tool in a
  registry (\<open>tools/\<close>), validates its arguments, asks safe mode (\<open>safemode.py\<close>) and the permission engine (\<open>permissions.py\<close>), waits for an
  approval (\<open>approvals.py\<close>) where one is needed, runs the tool, mints evidence (\<open>evidence.py\<close>), runs the verification checks
  (\<open>verify.py\<close>) and derives the final status.  Every record goes through the store (\<open>store.py\<close>), which appends each change to a
  hash-chained audit log.  Around the engine stand the controls (\<open>rbac.py\<close>, \<open>auth.py\<close>, \<open>policy.py\<close>, \<open>incident.py\<close>, \<open>degradation.py\<close>,
  \<open>security_events.py\<close>, \<open>system_status.py\<close>, \<open>maturity.py\<close>, \<open>block_explainer.py\<close>), the carriers of requests (\<open>scheduler.py\<close>, \<open>trigger.py\<close>,
  \<open>web.py\<close>), company knowledge (\<open>knowledge.py\<close>) and the keeping of files and secrets (\<open>lifecycle.py\<close>, \<open>templates.py\<close>, \<open>package.py\<close>,
  \<open>org.py\<close>, \<open>secrets.py\<close>, \<open>logging.py\<close>).  The sales worker (\<open>sales/\<close>) keeps leads, evidence, scores, drafts and follow-ups in a ledger
  of its own, which sixteen tools read and write.

  How state and operations are represented.  An operation is a function from a state to a sum of error and result, and a new state
  (\<open>sop\<close> over \<open>store\<close>, \<open>eop\<close> over the engine state, \<open>lop\<close> over the sales ledger); \<open>op_bind\<close> sequences them and an exception keeps
  the state reached so far, as in Python.  Exceptions are the members of \<open>error\<close>.  A Python value is a \<open>pyval\<close>, a dictionary an
  association list in insertion order (\<open>dget\<close>, \<open>dset\<close>), a dataclass a record with a function to its dictionary, an enumeration a datatype
  with its value strings.  Definitions have the names of the code.

  Theories and the code they model.
    Foundations: \<open>Prelude\<close> (values, dictionaries, operations, the rule collections), \<open>Op_Rules\<close> (invariant and total-correctness rules),
      \<open>Tables\<close> (rows by key; locales \<open>keyed\<close> and \<open>keyed_del\<close>), \<open>Json\<close> (\<open>json.dumps\<close>, \<open>str\<close>), \<open>Regex\<close> and \<open>Regex_Find\<close> (matching of \<open>re\<close>,
      which match is found), \<open>Urls\<close>, \<open>Dates\<close>.
    Records, store, engine: \<open>Models\<close> (\<open>models.py\<close>), \<open>Store\<close> and \<open>Audit_Chain\<close> (\<open>store.py\<close>; locale \<open>hash_chain\<close>), \<open>Statemachine\<close>, \<open>Config\<close>,
      \<open>Mini_Yaml\<close> and \<open>Worker_Files\<close> (\<open>config.py\<close>), \<open>Procedures\<close>, \<open>Planner\<close>, \<open>Engine_Action\<close> and \<open>Engine\<close> (\<open>engine.py\<close>), \<open>Engine_Safety\<close>
      (locale \<open>metered\<close>) and \<open>Engine_Total\<close> (its guarantees), \<open>Explain\<close> (\<open>explain.py\<close>, \<open>benchmark.py\<close>).
    Decisions: \<open>Pyrisk\<close>, \<open>Shellrisk\<close>, \<open>Permissions\<close> (\<open>permissions.py\<close>), \<open>Approvals\<close>, \<open>Rbac\<close>, \<open>Auth\<close>, \<open>Policy\<close>, \<open>Safemode\<close> (\<open>safemode.py\<close>,
      \<open>incident.py\<close>), \<open>Degradation\<close>, \<open>Evidence_Ledger\<close>, \<open>Verify\<close>, \<open>Injection\<close>, \<open>Dlp\<close>.
    Tools: \<open>Tools_Base\<close> (\<open>tools/base.py\<close>), \<open>Fs_Tools\<close>, \<open>Data\<close>, \<open>Exec_Tools\<close> (\<open>exec.py\<close>, \<open>sandbox.py\<close>), \<open>Http\<close>, \<open>Git_Tools\<close>, \<open>Browser\<close>,
      \<open>Message_Tool\<close>, \<open>Connectors\<close>, \<open>Catalog\<close> (knowledge tools and the default registry).
    Operations: \<open>Scheduler\<close>, \<open>Trigger\<close>, \<open>Web\<close>, \<open>Inference\<close>, \<open>Knowledge\<close>, \<open>Lifecycle\<close> (\<open>lifecycle.py\<close>, \<open>templates.py\<close>), \<open>Package\<close>
      (\<open>package.py\<close>, \<open>doctor.py\<close>), \<open>Tenants\<close> (\<open>org.py\<close>), \<open>Secrets\<close> (\<open>secrets.py\<close>, \<open>logging.py\<close>), \<open>Migrations\<close>, \<open>Security_Events\<close>,
      \<open>Block_Explainer\<close>, \<open>System_Status\<close>, \<open>Maturity\<close> (\<open>maturity.py\<close>, \<open>metrics.py\<close>).
    Sales: \<open>Sales_Models\<close>, \<open>Sales_Pipeline\<close>, \<open>Sales_Ledger\<close> (\<open>schema.py\<close> and the SQL statements), \<open>Sales_Repository\<close>, \<open>Sales_Evidence\<close>,
      \<open>Sales_Qualification\<close>, \<open>Sales_Research\<close>, \<open>Sales_Discovery\<close>, \<open>Sales_Outreach\<close>, \<open>Sales_Followup\<close>, \<open>Sales_Metrics\<close>, \<open>Sales_Checks\<close>,
      \<open>Sales_Knowledge\<close>, \<open>Sales_Tools\<close>, \<open>Sales_Validation\<close> (\<open>rwv.py\<close>, \<open>sales/web.py\<close>, parts of \<open>sales/cli.py\<close>); \<open>Sales_Frames\<close>, \<open>Sales_Safety\<close>, \<open>Sales_Moves\<close>, \<open>Sales_Scores\<close> and \<open>Sales_Sends\<close> hold what is proved
      of every ledger that the program has written.

  What the lemmas show.  Each component has its functional lemmas, one for each branch of an operation, and its invariant or frame rules;
  the collections \<open>op_inv_intros\<close>, \<open>op_ok_intros\<close>, \<open>op_post_intros\<close>, \<open>appr_ok_intros\<close>, \<open>store_inv_intros\<close>, \<open>keeps_intros\<close> and \<open>behaves_intros\<close>
  carry them through sequences of operations.  The properties, numbered C1 to C40 where they stand, say in this order: what the engine
  guarantees of a run (C1 to C5); that the audit log verifies and shows tampering (C6, C7) and that success is reached through
  verification only (C8); quorum, the effect of a vote and its finality (C9 to C11); what is decided without a human (C12); what leaves the
  machine, how arguments are checked, and which files, programs and git commands a tool may touch (C13 to C18); that secrets can be read back
  and do not show (C19 to C21); that the sales ledger stays sound, moves refine the stage map, sends are approved and happen once, a company has
  one lead, scores are bounded, reproducible and checked, drafts invent no number, follow-ups are booked once, the tools stay inside the roots
  and discovery accounts for its rows (C22 to C33); and the lockdown, the switches, login, the schedule search, worker files, upgrades
  and the message limit (C34 to C40).  The sales properties are about \<open>sales_kept\<close>, the ledgers that repository writes, the sixteen tools and
  rows seeded by other programs reach; \<open>reads_past_intros\<close> carries what a read does not depend on.

  Bounds and fuel.  The YAML reader recurses with a fuel of twice the number of lines plus one, which is proved to be enough
  (\<open>mini_yaml_ends\<close>).  Directory walks have the number of directories as fuel: a path has no more proper ancestors than that.  The
  search for the next scheduled minute keeps the code's own bound of five years.  Regular expressions are matched by structural
  recursion, a repetition going on while it consumes text.  Every other recursion is structural or has a measure.

  Conventions.  Floating-point numbers are exact rationals, rounded where the code rounds, to even; infinities and NaN are not modelled,
  so that cells such as \<open>nan\<close> or \<open>inf\<close>, which \<open>float\<close> accepts, are outside the model of \<open>Data\<close>, and a day is spelled \<open>YYYY-MM-DD\<close>.
  Strings are Latin-1, and letters are lowered as in Latin-1; dashes, arrows and section signs in messages are ASCII here, except that 0x97
  stands for the em dash in the one stored text that has one (\<open>Sales_Followup\<close>).  A JSON column of a table is the value it encodes.
  \<open>sqlite3\<close> is a list of rows under the constraints of the schema.  \<open>re.sub\<close> is modelled for patterns without empty matches.  An HTTP request
  is followed through the redirects that \<open>urlopen\<close> follows by itself.  Messages of exceptions are left out, or parameters where they are stored.  Concurrency is the
  order in which operations are given.

  Parameters.  What is not under \<open>src/\<close> is an argument of the definitions: the clock, random bytes and identifiers, \<open>hashlib\<close> and the AES
  cipher, \<open>ast.parse\<close>, PyYAML, the JSON parser, the language model, Atlas, the spawned processes (git, docker, shell), the network, a browser,
  a file system with links (\<open>realpath\<close>), \<open>localtime\<close>.  Named hypotheses state what is used of them, for instance that a digest has 64 hexadecimal
  digits or that a cipher decrypts what it encrypted.

  Not modelled: the command lines, that is \<open>cli.py\<close> and what \<open>sales/cli.py\<close> parses and prints, while its daily brief and checks are in
  \<open>Sales_Validation\<close>; demonstration data; the HTML of most pages; directory listings of procedures; the retrieval of sales documents through
  Atlas; threads, signals and the HTTP server.
\<close>

end
